(* ===== verification/Prelude.thy ===== *)
theory Prelude
  imports Main "HOL-Library.AList"
begin

text \<open>
  Shared vocabulary of the development: Python exceptions as values, programs that
  read and write a world and may raise, the insertion-ordered dictionaries of Python as
  association lists (HOL-Library.AList), and the generic facts on them that the
  component theories use through the collections \<open>prog_simps\<close> and \<open>odict_simps\<close>.
\<close>

named_theorems prog_simps "evaluation of effectful programs"
named_theorems odict_simps "insertion-ordered dictionaries"

section \<open>Exceptions\<close>

text \<open>One constructor per exception class the modelled code raises or catches, with its message.\<close>

datatype exn =
    KeyError string
  | ValueError string
  | TypeError string
  | SyntaxError string
  | AttributeError string
  | LookupError string
  | IndexError string
  | RuntimeError string
  | NotImplementedError
  | AssertionError
  | DoesNotExist string
  | FileNotFoundError string
  | FileExistsError string
  | PermissionError string
  | ConnectionError string
  | TimeoutError string
  | ValidationError string
  | MissingPackageError string
  | PackageNotInstalledError string
  | PackageException string
  | TemporaryFailure string
  | PermanentFailure string
  | ModuleNotFoundError string
  | CalledProcessError string
  | GlibError string
  | PermissionDenied
  | Http404 string
  | OperationalError string
  | PlinthError string string
  | OtherError string

text \<open>The classes named by an \<open>except\<close> clause or by the code's tests.\<close>

fun is_key_error :: "exn \<Rightarrow> bool" where
  "is_key_error (KeyError m) = True"
| "is_key_error e = False"

fun is_does_not_exist :: "exn \<Rightarrow> bool" where
  "is_does_not_exist (DoesNotExist m) = True"
| "is_does_not_exist e = False"

fun is_type_error :: "exn \<Rightarrow> bool" where
  "is_type_error (TypeError m) = True"
| "is_type_error e = False"

fun is_missing_package :: "exn \<Rightarrow> bool" where
  "is_missing_package (MissingPackageError m) = True"
| "is_missing_package e = False"

fun is_called_process_error :: "exn \<Rightarrow> bool" where
  "is_called_process_error (CalledProcessError m) = True"
| "is_called_process_error e = False"

fun is_permanent_failure :: "exn \<Rightarrow> bool" where
  "is_permanent_failure (PermanentFailure m) = True"
| "is_permanent_failure e = False"

fun is_file_not_found :: "exn \<Rightarrow> bool" where
  "is_file_not_found (FileNotFoundError m) = True"
| "is_file_not_found e = False"

lemma is_key_error_iff: "is_key_error e \<longleftrightarrow> (\<exists>m. e = KeyError m)"
  by (cases e) auto

type_synonym 'a result = "exn + 'a"

primrec r_bind :: "'a result \<Rightarrow> ('a \<Rightarrow> 'b result) \<Rightarrow> 'b result" where
  "r_bind (Inl e) f = Inl e"
| "r_bind (Inr x) f = f x"

lemma r_bind_Inr_iff:
  "r_bind r f = Inr y \<longleftrightarrow> (\<exists>x. r = Inr x \<and> f x = Inr y)"
  by (cases r) auto

lemma r_bind_assoc: "r_bind (r_bind r f) g = r_bind r (\<lambda>x. r_bind (f x) g)"
  by (cases r) auto

text \<open>A Python loop whose body may raise: it stops at the first exception.\<close>

primrec r_for :: "('a \<Rightarrow> unit result) \<Rightarrow> 'a list \<Rightarrow> unit result" where
  "r_for f [] = Inr ()"
| "r_for f (x # xs) = r_bind (f x) (\<lambda>_. r_for f xs)"

lemma r_for_ok: "r_for f xs = Inr () \<longleftrightarrow> (\<forall>x \<in> set xs. f x = Inr ())"
  by (induction xs) (auto simp: r_bind_Inr_iff)

lemma r_for_Inl: "r_for f xs = Inl e \<Longrightarrow> \<exists>x \<in> set xs. f x = Inl e"
proof (induction xs)
  case (Cons x xs)
  then show ?case by (cases "f x") auto
qed simp

lemma r_bind_Inl_iff: "r_bind r f = Inl e \<longleftrightarrow> r = Inl e \<or> (\<exists>x. r = Inr x \<and> f x = Inl e)"
  by (cases r) auto

text \<open>A list comprehension whose element expression may raise.\<close>

primrec r_map :: "('a \<Rightarrow> 'b result) \<Rightarrow> 'a list \<Rightarrow> 'b list result" where
  "r_map f [] = Inr []"
| "r_map f (x # xs) = r_bind (f x) (\<lambda>y. r_bind (r_map f xs) (\<lambda>ys. Inr (y # ys)))"

lemma r_map_Inr_iff:
  "r_map f xs = Inr ys \<longleftrightarrow> list_all2 (\<lambda>x y. f x = Inr y) xs ys"
proof (induction xs arbitrary: ys)
  case Nil
  then show ?case by auto
next
  case (Cons x xs)
  then show ?case
    by (cases ys) (auto simp: r_bind_Inr_iff)
qed

lemma r_map_succeeds_iff:
  "(\<exists>ys. r_map f xs = Inr ys) \<longleftrightarrow> (\<forall>x \<in> set xs. \<exists>y. f x = Inr y)"
  by (induction xs) (auto simp: r_bind_Inr_iff)

section \<open>Programs\<close>

text \<open>
  A method of the code reads and writes the world (its object attributes, the database,
  the services of the system) and returns a value or raises. A raise keeps the changes
  made before it, as in Python.
\<close>

type_synonym ('w, 'a) prog = "'w \<Rightarrow> 'a result \<times> 'w"

definition p_ret :: "'a \<Rightarrow> ('w, 'a) prog" where
  "p_ret x w = (Inr x, w)"

definition p_raise :: "exn \<Rightarrow> ('w, 'a) prog" where
  "p_raise e w = (Inl e, w)"

definition p_lift :: "'a result \<Rightarrow> ('w, 'a) prog" where
  "p_lift r w = (r, w)"

definition p_bind :: "('w, 'a) prog \<Rightarrow> ('a \<Rightarrow> ('w, 'b) prog) \<Rightarrow> ('w, 'b) prog" where
  "p_bind m f w = (case m w of (Inl e, w') \<Rightarrow> (Inl e, w') | (Inr x, w') \<Rightarrow> f x w')"

definition p_then :: "('w, 'a) prog \<Rightarrow> ('w, 'b) prog \<Rightarrow> ('w, 'b) prog" where
  "p_then m n = p_bind m (\<lambda>_. n)"

definition p_get :: "('w \<Rightarrow> 'a) \<Rightarrow> ('w, 'a) prog" where
  "p_get f w = (Inr (f w), w)"

definition p_mod :: "('w \<Rightarrow> 'w) \<Rightarrow> ('w, unit) prog" where
  "p_mod f w = (Inr (), f w)"

text \<open>\<open>try: m except Exception as e: h e\<close>, and \<open>try: m finally: f\<close>.\<close>

definition p_catch :: "('w, 'a) prog \<Rightarrow> (exn \<Rightarrow> ('w, 'a) prog) \<Rightarrow> ('w, 'a) prog" where
  "p_catch m h w = (case m w of (Inl e, w') \<Rightarrow> h e w' | (Inr x, w') \<Rightarrow> (Inr x, w'))"

definition p_finally :: "('w, 'a) prog \<Rightarrow> ('w, unit) prog \<Rightarrow> ('w, 'a) prog" where
  "p_finally m f w =
     (case m w of (r, w') \<Rightarrow> (case f w' of (Inl e, w'') \<Rightarrow> (Inl e, w'') | (Inr _, w'') \<Rightarrow> (r, w'')))"

primrec p_for :: "('a \<Rightarrow> ('w, unit) prog) \<Rightarrow> 'a list \<Rightarrow> ('w, unit) prog" where
  "p_for f [] = p_ret ()"
| "p_for f (x # xs) = p_then (f x) (p_for f xs)"

primrec p_map :: "('a \<Rightarrow> ('w, 'b) prog) \<Rightarrow> 'a list \<Rightarrow> ('w, 'b list) prog" where
  "p_map f [] = p_ret []"
| "p_map f (x # xs) = p_bind (f x) (\<lambda>y. p_bind (p_map f xs) (\<lambda>ys. p_ret (y # ys)))"

text \<open>\<open>all(...)\<close> over a generator: it stops at the first false element or exception.\<close>

primrec p_all :: "('a \<Rightarrow> ('w, bool) prog) \<Rightarrow> 'a list \<Rightarrow> ('w, bool) prog" where
  "p_all f [] = p_ret True"
| "p_all f (x # xs) = p_bind (f x) (\<lambda>b. if b then p_all f xs else p_ret False)"

definition p_any :: "('a \<Rightarrow> ('w, bool) prog) \<Rightarrow> 'a list \<Rightarrow> ('w, bool) prog" where
  "p_any f xs = p_bind (p_all (\<lambda>x. p_bind (f x) (\<lambda>b. p_ret (\<not> b))) xs) (\<lambda>b. p_ret (\<not> b))"

lemma p_eval [prog_simps]:
  "p_ret x w = (Inr x, w)"
  "p_raise e w = (Inl e, w)"
  "p_lift r w = (r, w)"
  "p_get f w = (Inr (f w), w)"
  "p_mod g w = (Inr (), g w)"
  by (simp_all add: p_ret_def p_raise_def p_lift_def p_get_def p_mod_def)

lemma p_bind_eval [prog_simps]:
  "m w = (Inr x, w') \<Longrightarrow> p_bind m f w = f x w'"
  "m w = (Inl e, w') \<Longrightarrow> p_bind m f w = (Inl e, w')"
  by (simp_all add: p_bind_def)

lemma p_then_eval [prog_simps]:
  "m w = (Inr x, w') \<Longrightarrow> p_then m n w = n w'"
  "m w = (Inl e, w') \<Longrightarrow> p_then m n w = (Inl e, w')"
  by (simp_all add: p_then_def p_bind_def)

lemma p_catch_eval [prog_simps]:
  "m w = (Inr x, w') \<Longrightarrow> p_catch m h w = (Inr x, w')"
  "m w = (Inl e, w') \<Longrightarrow> p_catch m h w = h e w'"
  by (simp_all add: p_catch_def)

lemmas p_defs = p_bind_def p_then_def p_catch_def p_finally_def

lemma p_bind_Inr_iff:
  "p_bind m f w = (Inr y, w'') \<longleftrightarrow> (\<exists>x w'. m w = (Inr x, w') \<and> f x w' = (Inr y, w''))"
  by (auto simp: p_bind_def split: prod.splits sum.splits)

lemma p_then_Inr_iff:
  "p_then m n w = (Inr y, w'') \<longleftrightarrow> (\<exists>x w'. m w = (Inr x, w') \<and> n w' = (Inr y, w''))"
  by (simp add: p_then_def p_bind_Inr_iff)

lemma p_bind_assoc: "p_bind (p_bind m f) g = p_bind m (\<lambda>x. p_bind (f x) g)"
  by (rule ext) (auto simp: p_bind_def split: prod.splits sum.splits)

lemma p_bind_ret: "p_bind m p_ret = m"
  by (rule ext) (auto simp: p_bind_def p_ret_def split: prod.splits sum.splits)

lemma p_ret_bind: "p_bind (p_ret x) f = f x"
  by (rule ext) (simp add: p_bind_def p_ret_def)

lemma p_for_append: "p_for f (xs @ ys) = p_then (p_for f xs) (p_for f ys)"
  by (induction xs) (simp_all add: p_then_def p_bind_assoc p_ret_bind)

text \<open>
  The rule for loops: an invariant that every round keeps, whatever way the round ends,
  holds at the end of the loop.
\<close>

lemma p_for_invariant:
  assumes "\<And>x v. x \<in> set xs \<Longrightarrow> P v \<Longrightarrow> P (snd (f x v))" and "P w"
  shows "P (snd (p_for f xs w))"
  using assms
proof (induction xs arbitrary: w)
  case Nil
  then show ?case by (simp add: p_ret_def)
next
  case (Cons x xs)
  have 1: "P (snd (f x w))" using Cons.prems by simp
  show ?case
  proof (cases "f x w")
    case (Pair r w')
    show ?thesis
    proof (cases r)
      case (Inl e)
      with Pair 1 show ?thesis by (simp add: p_then_def p_bind_def)
    next
      case (Inr u)
      have "P (snd (p_for f xs w'))"
      proof (rule Cons.IH)
        show "\<And>y v. y \<in> set xs \<Longrightarrow> P v \<Longrightarrow> P (snd (f y v))" using Cons.prems(1) by simp
        show "P w'" using 1 Pair by simp
      qed
      with Pair Inr show ?thesis by (simp add: p_then_def p_bind_def)
    qed
  qed
qed

text \<open>A loop whose body never raises does not raise, and is a fold over the world.\<close>

lemma p_for_total:
  assumes "\<And>x v. x \<in> set xs \<Longrightarrow> f x v = (Inr (), g x v)"
  shows "p_for f xs w = (Inr (), fold g xs w)"
  using assms by (induction xs arbitrary: w) (auto simp: prog_simps)

text \<open>A program that keeps a property of the world, however it ends.\<close>

named_theorems keeps_intros "programs that keep a property"

definition p_keeps :: "('w \<Rightarrow> bool) \<Rightarrow> ('w, 'a) prog \<Rightarrow> bool" where
  "p_keeps P m \<longleftrightarrow> (\<forall>w. P w \<longrightarrow> P (snd (m w)))"

lemma p_keepsD: "p_keeps P m \<Longrightarrow> P w \<Longrightarrow> P (snd (m w))"
  by (simp add: p_keeps_def)

lemma p_keeps_basic [keeps_intros]:
  "p_keeps P (p_ret x)" "p_keeps P (p_raise e)" "p_keeps P (p_lift r)" "p_keeps P (p_get f)"
  by (simp_all add: p_keeps_def prog_simps)

lemma p_keeps_bind [keeps_intros]: "p_keeps P m \<Longrightarrow> (\<And>x. p_keeps P (f x)) \<Longrightarrow> p_keeps P (p_bind m f)"
  unfolding p_keeps_def p_bind_def by (auto split: prod.splits sum.splits)

lemma p_keeps_then [keeps_intros]: "p_keeps P m \<Longrightarrow> p_keeps P n \<Longrightarrow> p_keeps P (p_then m n)"
  by (simp add: p_then_def p_keeps_bind)

lemma p_keeps_catch [keeps_intros]: "p_keeps P m \<Longrightarrow> (\<And>e. p_keeps P (h e)) \<Longrightarrow> p_keeps P (p_catch m h)"
  unfolding p_keeps_def p_catch_def by (auto split: prod.splits sum.splits)

lemma p_keeps_finally [keeps_intros]: "p_keeps P m \<Longrightarrow> p_keeps P f \<Longrightarrow> p_keeps P (p_finally m f)"
  unfolding p_keeps_def p_finally_def by (auto split: prod.splits sum.splits)

lemma p_keeps_if [keeps_intros]: "(c \<Longrightarrow> p_keeps P m) \<Longrightarrow> (\<not> c \<Longrightarrow> p_keeps P n) \<Longrightarrow> p_keeps P (if c then m else n)"
  by simp

lemma p_keeps_prod [keeps_intros]: "(\<And>x y. p_keeps P (f x y)) \<Longrightarrow> p_keeps P (case z of (x, y) \<Rightarrow> f x y)"
  by (cases z) simp

lemma p_keeps_option [keeps_intros]: "p_keeps P m \<Longrightarrow> (\<And>x. p_keeps P (f x)) \<Longrightarrow> p_keeps P (case z of None \<Rightarrow> m | Some x \<Rightarrow> f x)"
  by (cases z) simp_all

lemma p_keeps_list [keeps_intros]: "p_keeps P m \<Longrightarrow> (\<And>x xs. p_keeps P (f x xs)) \<Longrightarrow> p_keeps P (case z of [] \<Rightarrow> m | x # xs \<Rightarrow> f x xs)"
  by (cases z) simp_all

lemma p_keeps_for [keeps_intros]: "(\<And>x. x \<in> set xs \<Longrightarrow> p_keeps P (f x)) \<Longrightarrow> p_keeps P (p_for f xs)"
  by (induction xs) (auto intro: keeps_intros)

section \<open>Ordered dictionaries\<close>

text \<open>
  A Python dict keeps its keys in the order of their first insertion; assigning to a key
  that is present keeps its place. \<open>AList.update\<close> does the same on an association list
  with distinct keys. \<open>od_pop\<close> is \<open>del d[k]\<close> and \<open>d.pop(k)\<close>: KeyError when the key is
  missing.
\<close>

type_synonym ('k, 'v) odict = "('k \<times> 'v) list"

abbreviation od_keys :: "('k, 'v) odict \<Rightarrow> 'k list" where
  "od_keys d \<equiv> map fst d"

abbreviation od_values :: "('k, 'v) odict \<Rightarrow> 'v list" where
  "od_values d \<equiv> map snd d"

abbreviation od_wf :: "('k, 'v) odict \<Rightarrow> bool" where
  "od_wf d \<equiv> distinct (map fst d)"

definition od_get :: "(string, 'v) odict \<Rightarrow> string \<Rightarrow> 'v result" where
  "od_get d k = (case map_of d k of None \<Rightarrow> Inl (KeyError k) | Some v \<Rightarrow> Inr v)"

definition od_set :: "('k, 'v) odict \<Rightarrow> 'k \<Rightarrow> 'v \<Rightarrow> ('k, 'v) odict" where
  "od_set d k v = AList.update k v d"

definition od_del :: "('k, 'v) odict \<Rightarrow> 'k \<Rightarrow> ('k, 'v) odict" where
  "od_del d k = AList.delete k d"

definition od_pop :: "(string, 'v) odict \<Rightarrow> string \<Rightarrow> ('v \<times> (string, 'v) odict) result" where
  "od_pop d k = (case map_of d k of None \<Rightarrow> Inl (KeyError k) | Some v \<Rightarrow> Inr (v, od_del d k))"

lemma od_map_of [odict_simps]:
  "map_of (od_set d k v) = (map_of d)(k \<mapsto> v)"
  "map_of (od_del d k) = (map_of d)(k := None)"
  by (simp_all add: od_set_def od_del_def update_conv' delete_conv')

lemma od_wf_set [simp]: "od_wf d \<Longrightarrow> od_wf (od_set d k v)"
  by (simp add: od_set_def distinct_update)

lemma od_wf_del [simp]: "od_wf d \<Longrightarrow> od_wf (od_del d k)"
  by (simp add: od_del_def distinct_delete)

lemma od_keys_set [odict_simps]: "fst ` set (od_set d k v) = insert k (fst ` set d)"
  by (simp add: od_set_def dom_update)

lemma od_keys_del [odict_simps]: "fst ` set (od_del d k) = fst ` set d - {k}"
  unfolding od_del_def by (induction d) auto

lemma od_key_present: "map_of d k = Some v \<Longrightarrow> k \<in> fst ` set d"
  by (force dest: map_of_SomeD)

lemma od_set_new: "k \<notin> set (od_keys d) \<Longrightarrow> od_set d k v = d @ [(k, v)]"
  unfolding od_set_def by (induction d) auto

lemma od_set_present:
  "od_wf d \<Longrightarrow> k \<in> set (od_keys d) \<Longrightarrow>
     od_set d k v = map (\<lambda>(k', v'). (k', if k' = k then v else v')) d"
proof (induction d)
  case Nil
  then show ?case by simp
next
  case (Cons p d)
  obtain a b where p: "p = (a, b)" by (cases p)
  show ?case
  proof (cases "a = k")
    case True
    have "map (\<lambda>(k', v'). (k', if k' = k then v else v')) d = d"
      by (rule map_idI) (use Cons.prems True p in \<open>force simp: image_iff split: prod.splits\<close>)
    with True p show ?thesis by (simp add: od_set_def)
  next
    case False
    with Cons p show ?thesis by (simp add: od_set_def)
  qed
qed

lemma od_del_filter: "od_del d k = filter (\<lambda>p. fst p \<noteq> k) d"
  unfolding od_del_def by (induction d) (auto simp: AList.delete_eq)

lemma od_keys_set_present: "k \<in> set (od_keys d) \<Longrightarrow> od_keys (od_set d k v) = od_keys d"
  by (simp add: od_set_def update_keys)

lemma od_del_length: "map_of d k = Some v \<Longrightarrow> length (od_del d k) < length d"
proof -
  assume "map_of d k = Some v"
  then have "(k, v) \<in> set d" by (rule map_of_SomeD)
  then have "\<exists>p \<in> set d. \<not> (fst p \<noteq> k)" by force
  then show ?thesis by (auto simp: od_del_filter intro: length_filter_less)
qed

lemma od_values_del_subset: "set (od_values (od_del d k)) \<subseteq> set (od_values d)"
  by (auto simp: od_del_filter)

lemma od_get_Inr: "od_get d k = Inr v \<longleftrightarrow> map_of d k = Some v"
  by (simp add: od_get_def split: option.splits)

section \<open>Lists and strings\<close>

text \<open>\<open>s.startswith(p)\<close>, \<open>sub in s\<close>, \<open>', '.join(xs)\<close>, \<open>list(dict.fromkeys(xs))\<close>.\<close>

fun starts_with :: "string \<Rightarrow> string \<Rightarrow> bool" where
  "starts_with s [] = True"
| "starts_with [] (p # ps) = False"
| "starts_with (c # cs) (p # ps) = (c = p \<and> starts_with cs ps)"

fun contains_str :: "string \<Rightarrow> string \<Rightarrow> bool" where
  "contains_str sub [] = (sub = [])"
| "contains_str sub (c # cs) = (starts_with (c # cs) sub \<or> contains_str sub cs)"

fun join_str :: "string \<Rightarrow> string list \<Rightarrow> string" where
  "join_str sep [] = []"
| "join_str sep [x] = x"
| "join_str sep (x # y # xs) = x @ sep @ join_str sep (y # xs)"

definition ends_with :: "string \<Rightarrow> string \<Rightarrow> bool" where
  "ends_with s p = starts_with (rev s) (rev p)"

text \<open>\<open>s.strip()\<close>: the ASCII white space of \<open>str.strip\<close>.\<close>

definition strip_str :: "string \<Rightarrow> string" where
  "strip_str s =
     (let ws = (\<lambda>c. c \<in> {CHR '' '', CHR 0x09, CHR 0x0A, CHR 0x0B, CHR 0x0C, CHR 0x0D})
      in rev (dropWhile ws (rev (dropWhile ws s))))"

text \<open>\<open>s.split(c)\<close> for a single character.\<close>

fun split_on :: "char \<Rightarrow> string \<Rightarrow> string list" where
  "split_on c [] = [[]]"
| "split_on c (x # xs) =
     (if x = c then [] # split_on c xs
      else case split_on c xs of [] \<Rightarrow> [[x]] | p # ps \<Rightarrow> (x # p) # ps)"

text \<open>\<open>s.rpartition('.')\<close> without the separator; without a dot the first part is empty.\<close>

definition rpartition_dot :: "string \<Rightarrow> string \<times> string" where
  "rpartition_dot s =
     (if CHR ''.'' \<in> set s
      then (rev (tl (dropWhile (\<lambda>c. c \<noteq> CHR ''.'') (rev s))), rev (takeWhile (\<lambda>c. c \<noteq> CHR ''.'') (rev s)))
      else ([], s))"

lemma rpartition_dot_shorter: "s \<noteq> [] \<Longrightarrow> length (fst (rpartition_dot s)) < length s"
proof -
  assume "s \<noteq> []"
  have "length (dropWhile (\<lambda>c. c \<noteq> CHR ''.'') (rev s)) \<le> length s"
    using length_dropWhile_le[of _ "rev s"] by simp
  moreover have "0 < length s" using \<open>s \<noteq> []\<close> by simp
  ultimately have "length (dropWhile (\<lambda>c. c \<noteq> CHR ''.'') (rev s)) - 1 < length s" by linarith
  then show ?thesis using \<open>s \<noteq> []\<close> by (simp add: rpartition_dot_def)
qed

lemma ends_with_iff: "ends_with s p \<longleftrightarrow> (\<exists>t. s = t @ p)"
proof -
  have "starts_with s p \<longleftrightarrow> (\<exists>t. s = p @ t)" for s p :: string
    by (induction s p rule: starts_with.induct) auto
  then show ?thesis unfolding ends_with_def by (metis rev_append rev_rev_ident)
qed

lemma starts_with_iff: "starts_with s p \<longleftrightarrow> (\<exists>t. s = p @ t)"
  by (induction s p rule: starts_with.induct) auto

lemma contains_str_iff: "contains_str sub s \<longleftrightarrow> (\<exists>a b. s = a @ sub @ b)"
proof (induction s)
  case Nil
  then show ?case by auto
next
  case (Cons c cs)
  show ?case
  proof
    assume "contains_str sub (c # cs)"
    then consider "starts_with (c # cs) sub" | "contains_str sub cs" by auto
    then show "\<exists>a b. c # cs = a @ sub @ b"
    proof cases
      case 1
      then obtain t where "c # cs = sub @ t" by (auto simp: starts_with_iff)
      then have "c # cs = [] @ sub @ t" by simp
      then show ?thesis by blast
    next
      case 2
      then obtain a b where "cs = a @ sub @ b" using Cons.IH by blast
      then have "c # cs = (c # a) @ sub @ b" by simp
      then show ?thesis by blast
    qed
  next
    assume "\<exists>a b. c # cs = a @ sub @ b"
    then obtain a b where ab: "c # cs = a @ sub @ b" by blast
    show "contains_str sub (c # cs)"
    proof (cases a)
      case Nil
      then have "starts_with (c # cs) sub" using ab starts_with_iff by fastforce
      then show ?thesis by simp
    next
      case (Cons d a')
      then have "cs = a' @ sub @ b" using ab by simp
      then show ?thesis using Cons.IH by auto
    qed
  qed
qed

primrec uniq_from :: "'a list \<Rightarrow> 'a list \<Rightarrow> 'a list" where
  "uniq_from seen [] = []"
| "uniq_from seen (x # xs) = (if x \<in> set seen then uniq_from seen xs else x # uniq_from (x # seen) xs)"

lemma uniq_from_set: "set (uniq_from seen xs) = set xs - set seen"
  by (induction xs arbitrary: seen) auto

lemma uniq_from_distinct: "distinct (uniq_from seen xs)"
  by (induction xs arbitrary: seen) (auto simp: uniq_from_set)

text \<open>\<open>a\<close> stands before \<open>b\<close> in a list.\<close>

definition precedes :: "'a list \<Rightarrow> 'a \<Rightarrow> 'a \<Rightarrow> bool" where
  "precedes xs a b \<longleftrightarrow> (\<exists>us vs. xs = us @ b # vs \<and> a \<in> set us)"

lemma precedes_append: "precedes xs a b \<Longrightarrow> precedes (xs @ ys) a b"
  unfolding precedes_def by fastforce

lemma precedes_snoc: "a \<in> set xs \<Longrightarrow> precedes (xs @ [b]) a b"
  unfolding precedes_def by fastforce

lemma precedes_in: "precedes xs a b \<Longrightarrow> a \<in> set xs \<and> b \<in> set xs"
  unfolding precedes_def by auto

end
