(* ===== verification/Json.thy ===== *)
theory Json
  imports Prelude "HOL-Library.Countable"
begin

text \<open>
  The values that pass through JSON in the code (arguments of privileged calls, the
  key/value store, manifests), with Python's access to them: \<open>isinstance\<close>, subscripts,
  \<open>in\<close> and \<open>dict.get\<close>. A float is kept as its JSON text, since the code only asks for its
  type.
\<close>

datatype json =
    JNull
  | JBool bool
  | JInt int
  | JFloat string
  | JStr string
  | JList "json list"
  | JDict "(string \<times> json) list"

text \<open>\<open>isinstance(v, int)\<close> holds of a bool: bool is a subclass of int.\<close>

fun is_bool :: "json \<Rightarrow> bool" where
  "is_bool (JBool b) = True"
| "is_bool v = False"

fun is_int :: "json \<Rightarrow> bool" where
  "is_int (JInt n) = True"
| "is_int (JBool b) = True"
| "is_int v = False"

fun is_float :: "json \<Rightarrow> bool" where
  "is_float (JFloat f) = True"
| "is_float v = False"

fun is_str :: "json \<Rightarrow> bool" where
  "is_str (JStr s) = True"
| "is_str v = False"

fun is_list :: "json \<Rightarrow> bool" where
  "is_list (JList xs) = True"
| "is_list v = False"

fun is_dict :: "json \<Rightarrow> bool" where
  "is_dict (JDict d) = True"
| "is_dict v = False"

text \<open>\<open>bool(v)\<close>; a float is falsy when it is zero.\<close>

fun truthy :: "json \<Rightarrow> bool" where
  "truthy JNull = False"
| "truthy (JBool b) = b"
| "truthy (JInt n) = (n \<noteq> 0)"
| "truthy (JFloat f) = (f \<noteq> ''0.0'' \<and> f \<noteq> ''-0.0'')"
| "truthy (JStr s) = (s \<noteq> [])"
| "truthy (JList xs) = (xs \<noteq> [])"
| "truthy (JDict d) = (d \<noteq> [])"

text \<open>\<open>v[key]\<close>, \<open>key in v\<close> and \<open>v.get(key, default)\<close> with a string key.\<close>

fun subscript :: "json \<Rightarrow> string \<Rightarrow> json result" where
  "subscript (JDict d) k = (case map_of d k of None \<Rightarrow> Inl (KeyError k) | Some v \<Rightarrow> Inr v)"
| "subscript v k = Inl (TypeError ''subscript'')"

text \<open>
  \<open>key in v\<close>: a dict looks among its keys, a string for a substring, a list for an
  equal element; the other types raise TypeError.
\<close>

fun contains_key :: "json \<Rightarrow> string \<Rightarrow> bool result" where
  "contains_key (JDict d) k = Inr (map_of d k \<noteq> None)"
| "contains_key (JStr s) k = Inr (contains_str k s)"
| "contains_key (JList xs) k = Inr (JStr k \<in> set xs)"
| "contains_key v k = Inl (TypeError ''argument is not iterable'')"

fun dict_get :: "json \<Rightarrow> string \<Rightarrow> json \<Rightarrow> json result" where
  "dict_get (JDict d) k dflt = Inr (case map_of d k of None \<Rightarrow> dflt | Some v \<Rightarrow> v)"
| "dict_get v k dflt = Inl (AttributeError ''get'')"

text \<open>\<open>for x in v\<close>: a list gives its elements, a dict its keys, a string its characters.\<close>

fun iter_json :: "json \<Rightarrow> json list result" where
  "iter_json (JList xs) = Inr xs"
| "iter_json (JDict d) = Inr (map (\<lambda>p. JStr (fst p)) d)"
| "iter_json (JStr s) = Inr (map (\<lambda>c. JStr [c]) s)"
| "iter_json v = Inl (TypeError ''object is not iterable'')"

definition assert_that :: "bool \<Rightarrow> unit result" where
  "assert_that b = (if b then Inr () else Inl AssertionError)"

lemma assert_that_simps [simp]:
  "assert_that b = Inr u \<longleftrightarrow> b"
  "assert_that b = Inl e \<longleftrightarrow> \<not> b \<and> e = AssertionError"
  by (auto simp: assert_that_def)

lemma subscript_Inr: "subscript v k = Inr x \<longleftrightarrow> (\<exists>d. v = JDict d \<and> map_of d k = Some x)"
  by (cases v) (auto split: option.splits)

lemma is_list_iff: "is_list v \<longleftrightarrow> (\<exists>xs. v = JList xs)"
  by (cases v) auto

lemma is_dict_iff: "is_dict v \<longleftrightarrow> (\<exists>d. v = JDict d)"
  by (cases v) auto

lemma is_str_iff: "is_str v \<longleftrightarrow> (\<exists>s. v = JStr s)"
  by (cases v) auto

lemma json_size_list [termination_simp]: "x \<in> set xs \<Longrightarrow> size x < Suc (size_list size xs)"
  by (induction xs) auto

lemma json_size_dict [termination_simp]:
  "(k, x) \<in> set d \<Longrightarrow> size x < Suc (size_list (size_prod (\<lambda>_. 0) size) d)"
  by (induction d) auto

text \<open>A text for every value, for examples: the number of the value in unary.\<close>

instance json :: countable
  by countable_datatype

definition unary_text :: "json \<Rightarrow> string" where
  "unary_text v = replicate (to_nat v) (CHR ''1'')"

lemma unary_text_inverse [simp]: "from_nat (length (unary_text v)) = v"
  by (simp add: unary_text_def)

text \<open>
  Fields of the dicts that modules keep in the key/value store or hand to each other: reading a text,
  assigning and deleting keys, appending to a list, and the equality of dicts.
\<close>

text \<open>A value that must be a string for the call it is passed to; and assignment and deletion of keys.\<close>

fun text_of :: "json \<Rightarrow> string result" where
  "text_of (JStr s) = Inr s"
| "text_of v = Inl (TypeError ''expected str'')"

definition text_field :: "json \<Rightarrow> string \<Rightarrow> string result" where
  "text_field d k = r_bind (subscript d k) text_of"

fun json_put :: "json \<Rightarrow> string \<Rightarrow> json \<Rightarrow> json result" where
  "json_put (JDict d) k v = Inr (JDict (od_set d k v))"
| "json_put x k v = Inl (TypeError ''item assignment'')"

fun json_del :: "json \<Rightarrow> string \<Rightarrow> json result" where
  "json_del (JDict d) k = (case map_of d k of None \<Rightarrow> Inl (KeyError k) | Some x \<Rightarrow> Inr (JDict (od_del d k)))"
| "json_del x k = Inl (TypeError ''item deletion'')"

fun json_append :: "json \<Rightarrow> json \<Rightarrow> json result" where
  "json_append (JList xs) v = Inr (JList (xs @ [v]))"
| "json_append x v = Inl (AttributeError ''append'')"

text \<open>Two dicts are equal when they have the same items, in whatever order.\<close>

fun same_dict :: "json \<Rightarrow> json \<Rightarrow> bool" where
  "same_dict (JDict d) (JDict d') = (set (od_keys d) = set (od_keys d') \<and> (\<forall>k \<in> set (od_keys d). map_of d k = map_of d' k))"
| "same_dict v v' = (v = v')"

fun json_items :: "json \<Rightarrow> (string \<times> json) list result" where
  "json_items (JDict d) = Inr d"
| "json_items x = Inl (AttributeError ''items'')"

end
