(* ===== verification/Store.thy ===== *)
theory Store
  imports Json
begin

text \<open>
  The persistent state of the service: the key/value store (plinth/kvstore.py over the
  KVStore model), the table of setup versions (the Module model), and the \<open>_is_enabled\<close>
  attribute of the follower component objects, keyed by component id. A value is stored in
  KVStore as its JSON text and read back; the model keeps the value itself. The database
  lock makes every operation here atomic.
\<close>

record world =
  kv :: "(string, json) odict"
  module_versions :: "(string, int) odict"
  enabled_attr :: "(string, bool) odict"

definition kv_get :: "string \<Rightarrow> ('x world_scheme, json) prog" where
  "kv_get key w =
     (case map_of (kv w) key of None \<Rightarrow> (Inl (DoesNotExist key), w) | Some v \<Rightarrow> (Inr v, w))"

text \<open>\<open>except Exception\<close>: whatever goes wrong, the default is returned.\<close>

definition kv_get_default :: "string \<Rightarrow> json \<Rightarrow> ('x world_scheme, json) prog" where
  "kv_get_default key dflt = p_catch (kv_get key) (\<lambda>_. p_ret dflt)"

definition kv_set :: "string \<Rightarrow> json \<Rightarrow> ('x world_scheme, unit) prog" where
  "kv_set key v = p_mod (\<lambda>w. w\<lparr>kv := od_set (kv w) key v\<rparr>)"

definition kv_delete :: "string \<Rightarrow> bool \<Rightarrow> ('x world_scheme, unit) prog" where
  "kv_delete key ignore_missing w =
     (case map_of (kv w) key of
        None \<Rightarrow> if ignore_missing then (Inr (), w) else (Inl (DoesNotExist key), w)
      | Some v \<Rightarrow> (Inr (), w\<lparr>kv := od_del (kv w) key\<rparr>))"

definition module_version_get :: "string \<Rightarrow> ('x world_scheme, int) prog" where
  "module_version_get app_id w =
     (case map_of (module_versions w) app_id of
        None \<Rightarrow> (Inl (DoesNotExist app_id), w) | Some n \<Rightarrow> (Inr n, w))"

definition module_version_set :: "string \<Rightarrow> int \<Rightarrow> ('x world_scheme, unit) prog" where
  "module_version_set app_id n = p_mod (\<lambda>w. w\<lparr>module_versions := od_set (module_versions w) app_id n\<rparr>)"

section \<open>The contract of the key/value store\<close>

text \<open>
  What the clients of the store rely on: a value that was set is read back, other keys are
  untouched, a deleted key gives the default again, and reading changes nothing.
\<close>

locale kv_store =
  fixes get_default :: "string \<Rightarrow> json \<Rightarrow> ('w, json) prog"
    and set_key :: "string \<Rightarrow> json \<Rightarrow> ('w, unit) prog"
    and delete_key :: "string \<Rightarrow> bool \<Rightarrow> ('w, unit) prog"
  assumes set_ok: "fst (set_key k v w) = Inr ()"
    and get_reads: "\<exists>x. get_default k d w = (Inr x, w)"
    and get_set_same: "fst (get_default k d (snd (set_key k v w))) = Inr v"
    and get_set_other: "k' \<noteq> k \<Longrightarrow> fst (get_default k' d (snd (set_key k v w))) = fst (get_default k' d w)"
    and delete_ok: "fst (delete_key k True w) = Inr ()"
    and get_delete_same: "fst (delete_key k b w) = Inr () \<Longrightarrow> fst (get_default k d (snd (delete_key k b w))) = Inr d"
    and get_delete_other:
      "k' \<noteq> k \<Longrightarrow> fst (get_default k' d (snd (delete_key k b w))) = fst (get_default k' d w)"
begin

text \<open>A flag or a setting kept under a key: what is read after writes and deletions.\<close>

lemma read_back: "fst (p_then (set_key k v) (get_default k d) w) = Inr v"
  using set_ok[of k v w] get_set_same[of k d v w]
  by (cases "set_key k v w") (auto simp: p_then_def p_bind_def)

lemma last_write_wins: "fst (p_then (set_key k v) (p_then (set_key k v') (get_default k d)) w) = Inr v'"
  using set_ok[of k v w] read_back[of k v' d "snd (set_key k v w)"]
  by (cases "set_key k v w") (auto simp: p_then_def p_bind_def)

lemma write_frame:
  "k' \<noteq> k \<Longrightarrow> fst (p_then (set_key k v) (get_default k' d) w) = fst (get_default k' d w)"
  using set_ok[of k v w] get_set_other[of k' k d v w]
  by (cases "set_key k v w") (auto simp: p_then_def p_bind_def)

lemma forgotten: "fst (p_then (delete_key k True) (get_default k d) w) = Inr d"
  using delete_ok[of k w] get_delete_same[of k True w d]
  by (cases "delete_key k True w") (auto simp: p_then_def p_bind_def)

lemma forgets_writes: "fst (p_then (set_key k v) (p_then (delete_key k True) (get_default k d)) w) = Inr d"
  using set_ok[of k v w] forgotten[of k d "snd (set_key k v w)"]
  by (cases "set_key k v w") (auto simp: p_then_def p_bind_def)

end

lemma kv_get_default_eval [prog_simps]:
  "kv_get_default key d w = (Inr (case map_of (kv w) key of None \<Rightarrow> d | Some v \<Rightarrow> v), w)"
  by (simp add: kv_get_default_def kv_get_def p_catch_def p_ret_def split: option.splits)

lemma kv_set_eval [prog_simps]: "kv_set key v w = (Inr (), w\<lparr>kv := od_set (kv w) key v\<rparr>)"
  by (simp add: kv_set_def prog_simps)

interpretation kvs: kv_store
  "kv_get_default :: string \<Rightarrow> json \<Rightarrow> ('x world_scheme, json) prog" kv_set kv_delete
proof unfold_locales
  fix k k' :: string and v d :: json and b and w :: "'x world_scheme"
  show "fst (kv_set k v w) = Inr ()" by (simp add: prog_simps)
  show "\<exists>x. kv_get_default k d w = (Inr x, w)" by (simp add: prog_simps)
  show "fst (kv_get_default k d (snd (kv_set k v w))) = Inr v"
    by (simp add: prog_simps odict_simps)
  show "k' \<noteq> k \<Longrightarrow> fst (kv_get_default k' d (snd (kv_set k v w))) = fst (kv_get_default k' d w)"
    by (simp add: prog_simps odict_simps)
  show "fst (kv_delete k True w) = Inr ()"
    by (simp add: kv_delete_def split: option.splits)
  show "fst (kv_delete k b w) = Inr () \<Longrightarrow> fst (kv_get_default k d (snd (kv_delete k b w))) = Inr d"
    by (auto simp: kv_delete_def prog_simps odict_simps split: option.splits if_splits)
  show "k' \<noteq> k \<Longrightarrow> fst (kv_get_default k' d (snd (kv_delete k b w))) = fst (kv_get_default k' d w)"
    by (auto simp: kv_delete_def prog_simps odict_simps split: option.splits)
qed

lemma module_version_get_set:
  "module_version_get a (snd (module_version_set a n w)) = (Inr n, snd (module_version_set a n w))"
  by (simp add: module_version_get_def module_version_set_def prog_simps odict_simps)

lemma module_version_get_other:
  "a' \<noteq> a \<Longrightarrow> fst (module_version_get a' (snd (module_version_set a n w))) = fst (module_version_get a' w)"
  by (simp add: module_version_get_def module_version_set_def prog_simps odict_simps split: option.splits)

end
