(* ===== verification/Clients.thy ===== *)
theory Clients
  imports Json
begin

text \<open>
  Client information of apps (plinth/clients.py): the schema check that \<open>Info\<close> runs on the
  clients it is given, and the selection of clients by kind. The asserts of the code are
  \<open>AssertionError\<close> results; a missing key of a platform is a KeyError.
\<close>

definition desktop_os :: "string list" where
  "desktop_os = [''gnu-linux'', ''macos'', ''windows'']"

definition mobile_os :: "string list" where
  "mobile_os = [''android'', ''ios'']"

definition stores :: "string list" where
  "stores = [''app-store'', ''f-droid'', ''google-play'']"

definition package_formats :: "string list" where
  "package_formats = [''deb'', ''brew'', ''rpm'']"

definition one_of :: "json \<Rightarrow> string list \<Rightarrow> bool" where
  "one_of v ss \<longleftrightarrow> v \<in> set (map JStr ss)"

definition validate_platform_package :: "json \<Rightarrow> unit result" where
  "validate_platform_package p =
     r_bind (subscript p ''format'') (\<lambda>f. r_bind (assert_that (one_of f package_formats)) (\<lambda>_.
     r_bind (subscript p ''name'') (\<lambda>n. assert_that (is_str n))))"

definition validate_platform_download :: "json \<Rightarrow> unit result" where
  "validate_platform_download p =
     r_bind (subscript p ''os'') (\<lambda>os. r_bind (assert_that (one_of os (desktop_os @ mobile_os))) (\<lambda>_.
     r_bind (subscript p ''url'') (\<lambda>u. assert_that (is_str u))))"

definition validate_platform_store :: "json \<Rightarrow> unit result" where
  "validate_platform_store p =
     r_bind (subscript p ''os'') (\<lambda>os. r_bind (assert_that (one_of os mobile_os)) (\<lambda>_.
     r_bind (subscript p ''store_name'') (\<lambda>st. r_bind (assert_that (one_of st stores)) (\<lambda>_.
     r_bind (subscript p ''url'') (\<lambda>u. assert_that (is_str u))))))"

definition validate_platform_web :: "json \<Rightarrow> unit result" where
  "validate_platform_web p = r_bind (subscript p ''url'') (\<lambda>u. assert_that (is_str u))"

text \<open>The method looked up in \<open>globals()\<close> by the platform's type.\<close>

definition validate_platform :: "json \<Rightarrow> unit result" where
  "validate_platform p =
     r_bind (subscript p ''type'') (\<lambda>t.
     r_bind (assert_that (one_of t [''package'', ''download'', ''store'', ''web''])) (\<lambda>_.
       if t = JStr ''package'' then validate_platform_package p
       else if t = JStr ''download'' then validate_platform_download p
       else if t = JStr ''store'' then validate_platform_store p
       else validate_platform_web p))"

definition validate_client :: "json \<Rightarrow> unit result" where
  "validate_client c =
     r_bind (assert_that (is_dict c)) (\<lambda>_.
     r_bind (contains_key c ''name'') (\<lambda>b. r_bind (assert_that b) (\<lambda>_.
     r_bind (subscript c ''platforms'') (\<lambda>ps. r_bind (assert_that (is_list ps)) (\<lambda>_.
     r_bind (iter_json ps) (r_for validate_platform))))))"

definition clients_validate :: "json \<Rightarrow> json result" where
  "clients_validate cs =
     r_bind (assert_that (is_list cs)) (\<lambda>_.
     r_bind (iter_json cs) (\<lambda>xs. r_bind (r_for validate_client xs) (\<lambda>_. Inr cs)))"

text \<open>\<open>any(...)\<close> over the platforms, and the filters of \<open>of_type\<close>.\<close>

primrec r_any :: "('a \<Rightarrow> bool result) \<Rightarrow> 'a list \<Rightarrow> bool result" where
  "r_any f [] = Inr False"
| "r_any f (x # xs) = r_bind (f x) (\<lambda>b. if b then Inr True else r_any f xs)"

definition check_client :: "(json \<Rightarrow> bool result) \<Rightarrow> json \<Rightarrow> bool result" where
  "check_client condition c =
     r_bind (subscript c ''platforms'') (\<lambda>ps. r_bind (iter_json ps) (\<lambda>xs.
       r_any (\<lambda>p. r_bind (condition p) (\<lambda>b. Inr (b \<and> truthy p))) xs))"

definition client_has_desktop :: "json \<Rightarrow> bool result" where
  "client_has_desktop = check_client (\<lambda>p.
     r_bind (dict_get p ''os'' JNull) (\<lambda>os.
       if one_of os desktop_os
       then r_bind (dict_get p ''type'' JNull) (\<lambda>t. Inr (t \<noteq> JStr ''package''))
       else Inr False))"

definition client_has_mobile :: "json \<Rightarrow> bool result" where
  "client_has_mobile = check_client (\<lambda>p.
     r_bind (dict_get p ''os'' JNull) (\<lambda>os. Inr (one_of os mobile_os)))"

definition client_has_web :: "json \<Rightarrow> bool result" where
  "client_has_web = check_client (\<lambda>p. r_bind (subscript p ''type'') (\<lambda>t. Inr (t = JStr ''web'')))"

definition client_has_package :: "json \<Rightarrow> bool result" where
  "client_has_package =
     check_client (\<lambda>p. r_bind (subscript p ''type'') (\<lambda>t. Inr (t = JStr ''package'')))"

primrec r_filter :: "('a \<Rightarrow> bool result) \<Rightarrow> 'a list \<Rightarrow> 'a list result" where
  "r_filter f [] = Inr []"
| "r_filter f (x # xs) =
     r_bind (f x) (\<lambda>b. r_bind (r_filter f xs) (\<lambda>ys. Inr (if b then x # ys else ys)))"

definition of_type :: "json list \<Rightarrow> string \<Rightarrow> json list result" where
  "of_type cs t =
     r_bind (od_get [(''mobile'', client_has_mobile), (''desktop'', client_has_desktop),
                     (''web'', client_has_web), (''package'', client_has_package)] t)
       (\<lambda>f. r_filter f cs)"

section \<open>The schema\<close>

text \<open>What a valid platform and a valid client are, as predicates on the values.\<close>

fun str_field :: "json \<Rightarrow> string \<Rightarrow> bool" where
  "str_field (JDict d) k = (case map_of d k of Some (JStr s) \<Rightarrow> True | _ \<Rightarrow> False)"
| "str_field v k = False"

fun enum_field :: "json \<Rightarrow> string \<Rightarrow> string list \<Rightarrow> bool" where
  "enum_field (JDict d) k ss = (case map_of d k of Some v \<Rightarrow> one_of v ss | None \<Rightarrow> False)"
| "enum_field v k ss = False"

definition valid_platform :: "json \<Rightarrow> bool" where
  "valid_platform p \<longleftrightarrow>
     (enum_field p ''type'' [''package''] \<and> enum_field p ''format'' package_formats \<and> str_field p ''name'') \<or>
     (enum_field p ''type'' [''download''] \<and> enum_field p ''os'' (desktop_os @ mobile_os) \<and> str_field p ''url'') \<or>
     (enum_field p ''type'' [''store''] \<and> enum_field p ''os'' mobile_os \<and>
        enum_field p ''store_name'' stores \<and> str_field p ''url'') \<or>
     (enum_field p ''type'' [''web''] \<and> str_field p ''url'')"

lemma str_field_iff: "str_field p k \<longleftrightarrow> (\<exists>v. subscript p k = Inr v \<and> is_str v)"
  by (cases p) (auto split: option.splits json.splits)

lemma enum_field_iff: "enum_field p k ss \<longleftrightarrow> (\<exists>v. subscript p k = Inr v \<and> one_of v ss)"
  by (cases p) (auto split: option.splits)

lemmas validate_platform_defs = validate_platform_def validate_platform_package_def
  validate_platform_download_def validate_platform_store_def validate_platform_web_def

lemma validate_platform_ok: "validate_platform p = Inr () \<longleftrightarrow> valid_platform p"
proof (cases "subscript p ''type''")
  case (Inl e)
  then show ?thesis by (simp add: validate_platform_def valid_platform_def enum_field_iff)
next
  case (Inr t)
  show ?thesis
  proof (cases "one_of t [''package'', ''download'', ''store'', ''web'']")
    case False
    with Inr show ?thesis
      by (auto simp: validate_platform_def valid_platform_def enum_field_iff one_of_def r_bind_Inr_iff)
  next
    case True
    then consider "t = JStr ''package''" | "t = JStr ''download''" | "t = JStr ''store''" | "t = JStr ''web''"
      by (auto simp: one_of_def)
    then show ?thesis
      by cases (use Inr in \<open>auto simp: validate_platform_defs valid_platform_def
          enum_field_iff str_field_iff one_of_def r_bind_Inr_iff\<close>)
  qed
qed

lemma validate_client_ok:
  "validate_client c = Inr () \<longleftrightarrow>
     (\<exists>d ps. c = JDict d \<and> map_of d ''name'' \<noteq> None \<and> map_of d ''platforms'' = Some (JList ps) \<and>
        (\<forall>p \<in> set ps. valid_platform p))"
  by (cases c)
    (auto simp: validate_client_def r_bind_Inr_iff r_for_ok validate_platform_ok is_list_iff
      split: option.splits)

lemma of_type_unknown: "t \<notin> {''mobile'', ''desktop'', ''web'', ''package''} \<Longrightarrow> of_type cs t = Inl (KeyError t)"
  by (simp add: of_type_def od_get_def)

end
