(* ===== verification/AppModel.thy ===== *)
theory AppModel
  imports Store Clients
begin

text \<open>
  Apps and components (plinth/app.py). A component object is its data (\<open>comp_obj\<close>) and its
  methods (\<open>vtable\<close>): a subclass replaces entries of the table, as the code overrides
  methods, and every method gets \<open>self\<close> as an argument and the world to run in. An app
  holds its components in an ordered dict; an app subclass may override the app's own
  methods, which are options here, \<open>None\<close> standing for the inherited method.
\<close>

section \<open>Diagnostic checks\<close>

text \<open>plinth/diagnostic_check.py.\<close>

datatype check_result = NOT_DONE | SKIPPED | PASSED | WARNING | FAILED | ERROR

record diagnostic_check =
  check_id :: string
  description :: string
  check_result :: check_result
  parameters :: "(string \<times> json) list"
  check_component_id :: "string option"

section \<open>Components\<close>

record info_fields =
  version :: int
  is_essential :: bool
  depends :: "string list"
  info_name :: "string option"
  icon :: "string option"
  icon_filename :: "string option"
  info_description :: "string list option"
  manual_page :: "string option"
  clients :: "json option"
  donation_url :: "string option"
  tags :: "string list"

text \<open>The expressions and settings of a Packages component (plinth/package.py).\<close>

record package_attrs =
  package_name :: string
  optional :: bool
  package_version :: "string option"
  distribution :: "string option"
  suite :: "string option"
  codename :: "string option"
  architecture :: "string option"

datatype package_expr = Package package_attrs | PackageOr package_expr package_expr

datatype conflicts_action = CONFLICTS_IGNORE | CONFLICTS_REMOVE

record packages_fields =
  package_expressions :: "package_expr list"
  skip_recommends :: bool
  conflicts :: "string list"
  conflicts_action :: "conflicts_action option"
  rerun_setup_on_upgrade :: bool

text \<open>\<open>classes\<close> are the names of the class of the object and its bases, for \<open>isinstance\<close>.\<close>

record comp_obj =
  component_id :: string
  comp_app_id :: "string option"
  is_leader :: bool
  classes :: "string list"
  info :: "info_fields option"
  packages :: "packages_fields option"

record 'w vtable =
  vt_is_available :: "comp_obj \<Rightarrow> ('w, bool) prog"
  vt_setup :: "comp_obj \<Rightarrow> int \<Rightarrow> ('w, unit) prog"
  vt_uninstall :: "comp_obj \<Rightarrow> ('w, unit) prog"
  vt_enable :: "comp_obj \<Rightarrow> ('w, unit) prog"
  vt_disable :: "comp_obj \<Rightarrow> ('w, unit) prog"
  vt_is_enabled :: "comp_obj \<Rightarrow> ('w, bool) prog"
  vt_set_enabled :: "comp_obj \<Rightarrow> bool \<Rightarrow> ('w, unit) prog"
  vt_diagnose :: "comp_obj \<Rightarrow> ('w, diagnostic_check list) prog"
  vt_has_diagnostics :: "comp_obj \<Rightarrow> bool"
  vt_repair :: "comp_obj \<Rightarrow> diagnostic_check list \<Rightarrow> ('w, bool) prog"
  vt_get_logs :: "comp_obj \<Rightarrow> ('w, (string \<times> string) list) prog"

record 'w component =
  obj :: comp_obj
  vt :: "'w vtable"

text \<open>\<open>Component\<close>: no operations; \<open>is_enabled\<close> and \<open>set_enabled\<close> are not attributes of it.\<close>

definition component_vtable :: "'w vtable" where
  "component_vtable =
     \<lparr>vt_is_available = \<lambda>_. p_ret True,
      vt_setup = \<lambda>_ _. p_ret (),
      vt_uninstall = \<lambda>_. p_ret (),
      vt_enable = \<lambda>_. p_ret (),
      vt_disable = \<lambda>_. p_ret (),
      vt_is_enabled = \<lambda>_. p_raise (AttributeError ''is_enabled''),
      vt_set_enabled = \<lambda>_ _. p_raise (AttributeError ''set_enabled''),
      vt_diagnose = \<lambda>_. p_ret [],
      vt_has_diagnostics = \<lambda>_. False,
      vt_repair = \<lambda>_ _. p_ret True,
      vt_get_logs = \<lambda>_. p_raise (AttributeError ''get_logs'')\<rparr>"

definition component_init :: "string \<Rightarrow> comp_obj result" where
  "component_init cid =
     (if cid = [] then Inl (ValueError ''Invalid component ID'')
      else Inr \<lparr>component_id = cid, comp_app_id = None, is_leader = False,
                classes = [''Component''], info = None, packages = None\<rparr>)"

text \<open>\<open>FollowerComponent\<close>: the flag \<open>_is_enabled\<close> of the object.\<close>

definition follower_set_enabled :: "comp_obj \<Rightarrow> bool \<Rightarrow> ('x world_scheme, unit) prog" where
  "follower_set_enabled self b =
     p_mod (\<lambda>w. w\<lparr>enabled_attr := od_set (enabled_attr w) (component_id self) b\<rparr>)"

definition follower_is_enabled :: "comp_obj \<Rightarrow> ('x world_scheme, bool) prog" where
  "follower_is_enabled self w =
     (case map_of (enabled_attr w) (component_id self) of
        None \<Rightarrow> (Inl (AttributeError ''_is_enabled''), w) | Some b \<Rightarrow> (Inr b, w))"

definition follower_enable :: "comp_obj \<Rightarrow> ('x world_scheme, unit) prog" where
  "follower_enable self = follower_set_enabled self True"

definition follower_disable :: "comp_obj \<Rightarrow> ('x world_scheme, unit) prog" where
  "follower_disable self = follower_set_enabled self False"

definition follower_vtable :: "('x world_scheme) vtable" where
  "follower_vtable = component_vtable\<lparr>vt_enable := follower_enable, vt_disable := follower_disable,
     vt_is_enabled := follower_is_enabled, vt_set_enabled := follower_set_enabled\<rparr>"

definition follower_init :: "string \<Rightarrow> bool \<Rightarrow> ('x world_scheme, comp_obj) prog" where
  "follower_init cid enabled =
     p_bind (p_lift (component_init cid)) (\<lambda>self.
       p_then (follower_set_enabled self enabled)
              (p_ret (self\<lparr>classes := ''FollowerComponent'' # classes self\<rparr>)))"

text \<open>\<open>LeaderComponent\<close>: \<open>is_enabled\<close> must be overridden.\<close>

definition leader_vtable :: "'w vtable" where
  "leader_vtable = component_vtable\<lparr>vt_is_enabled := \<lambda>_. p_raise NotImplementedError\<rparr>"

definition leader_init :: "string \<Rightarrow> comp_obj result" where
  "leader_init cid =
     r_bind (component_init cid) (\<lambda>self.
       Inr (self\<lparr>is_leader := True, classes := ''LeaderComponent'' # classes self\<rparr>))"

text \<open>
  \<open>Info.__init__\<close> does not call the initialiser of its base class: the object gets its
  fields, no \<open>_is_enabled\<close> attribute, and an id made from the app's.
\<close>

definition info_init ::
  "string \<Rightarrow> int \<Rightarrow> bool \<Rightarrow> string list option \<Rightarrow> string option \<Rightarrow> string option \<Rightarrow> string option \<Rightarrow>
   string list option \<Rightarrow> string option \<Rightarrow> json option \<Rightarrow> string option \<Rightarrow> string list option \<Rightarrow> comp_obj result"
where
  "info_init app_id ver essential deps name icn icn_file desc manual cs donation tgs =
     r_bind (case cs of None \<Rightarrow> Inr () | Some c \<Rightarrow>
               if truthy c then r_bind (clients_validate c) (\<lambda>_. Inr ()) else Inr ())
       (\<lambda>_. Inr \<lparr>component_id = app_id @ ''-info'', comp_app_id = Some app_id, is_leader = False,
              classes = [''Info'', ''FollowerComponent'', ''Component''],
              info = Some \<lparr>version = ver, is_essential = essential,
                           depends = (case deps of None \<Rightarrow> [] | Some ds \<Rightarrow> ds),
                           info_name = name, icon = icn, icon_filename = icn_file,
                           info_description = desc, manual_page = manual, clients = cs,
                           donation_url = donation,
                           tags = (case tgs of None \<Rightarrow> [] | Some ts \<Rightarrow> ts)\<rparr>,
              packages = None\<rparr>)"

text \<open>\<open>EnableState\<close>: a leader whose flag lives in the key/value store under the app's key.\<close>

definition enable_state_key :: "comp_obj \<Rightarrow> string result" where
  "enable_state_key self =
     (case comp_app_id self of
        None \<Rightarrow> Inl (KeyError ''Component must be added to an app before use.'')
      | Some a \<Rightarrow> if a = [] then Inl (KeyError ''Component must be added to an app before use.'')
                  else Inr (a @ ''_enable''))"

definition enable_state_is_enabled :: "comp_obj \<Rightarrow> ('x world_scheme, bool) prog" where
  "enable_state_is_enabled self =
     p_bind (p_lift (enable_state_key self)) (\<lambda>key.
       p_bind (kv_get_default key (JBool False)) (\<lambda>v. p_ret (truthy v)))"

definition enable_state_enable :: "comp_obj \<Rightarrow> ('x world_scheme, unit) prog" where
  "enable_state_enable self =
     p_bind (p_lift (enable_state_key self)) (\<lambda>key. kv_set key (JBool True))"

definition enable_state_disable :: "comp_obj \<Rightarrow> ('x world_scheme, unit) prog" where
  "enable_state_disable self =
     p_bind (p_lift (enable_state_key self)) (\<lambda>key. kv_set key (JBool False))"

definition enable_state_vtable :: "('x world_scheme) vtable" where
  "enable_state_vtable = leader_vtable\<lparr>vt_is_enabled := enable_state_is_enabled,
     vt_enable := enable_state_enable, vt_disable := enable_state_disable\<rparr>"

section \<open>Apps\<close>

record 'w app =
  app_id :: string
  can_be_disabled :: bool
  configure_when_disabled :: bool
  components :: "(string, 'w component) odict"
  ov_post_init :: "('w, unit) prog"
  ov_setup :: "(int \<Rightarrow> ('w, unit) prog) option"
  ov_uninstall :: "('w, unit) prog option"
  ov_enable :: "('w, unit) prog option"
  ov_disable :: "('w, unit) prog option"
  ov_diagnose :: "('w, diagnostic_check list) prog option"
  ov_repair :: "(diagnostic_check list \<Rightarrow> ('w, bool) prog) option"

datatype setup_state = NEEDS_SETUP | NEEDS_UPDATE | UP_TO_DATE

type_synonym 'w apps = "(string, 'w app) odict"

text \<open>\<open>App.__init__\<close>: an app without components, added to the global list.\<close>

definition app_init :: "'w apps \<Rightarrow> string \<Rightarrow> ('w app \<times> 'w apps) result" where
  "app_init all_apps aid =
     (if aid = [] then Inl (ValueError ''Invalid app ID configured'')
      else let a = \<lparr>app_id = aid, can_be_disabled = True, configure_when_disabled = True,
                    components = [], ov_post_init = p_ret (), ov_setup = None, ov_uninstall = None,
                    ov_enable = None, ov_disable = None, ov_diagnose = None, ov_repair = None\<rparr>
           in Inr (a, od_set all_apps aid a))"

definition app_add :: "'w app \<Rightarrow> 'w component \<Rightarrow> 'w app" where
  "app_add a c =
     (let c' = c\<lparr>obj := (obj c)\<lparr>comp_app_id := Some (app_id a)\<rparr>\<rparr>
      in a\<lparr>components := od_set (components a) (component_id (obj c')) c'\<rparr>)"

definition app_remove :: "'w app \<Rightarrow> string \<Rightarrow> ('w component \<times> 'w app) result" where
  "app_remove a cid =
     r_bind (od_pop (components a) cid) (\<lambda>(c, rest).
       Inr (c\<lparr>obj := (obj c)\<lparr>comp_app_id := None\<rparr>\<rparr>, a\<lparr>components := rest\<rparr>))"

definition app_get_component :: "'w app \<Rightarrow> string \<Rightarrow> 'w component result" where
  "app_get_component a cid = od_get (components a) cid"

definition get_components_of_type :: "'w app \<Rightarrow> string \<Rightarrow> 'w component list" where
  "get_components_of_type a cls = filter (\<lambda>c. cls \<in> set (classes (obj c))) (od_values (components a))"

text \<open>The property \<open>app\<close> of a component: KeyError when it is not part of one.\<close>

definition component_app :: "'w apps \<Rightarrow> comp_obj \<Rightarrow> 'w app result" where
  "component_app all_apps self =
     (case comp_app_id self of None \<Rightarrow> Inl (KeyError ''None'') | Some a \<Rightarrow> od_get all_apps a)"

text \<open>\<open>app.info.version\<close> and its kin: KeyError without an Info component.\<close>

definition app_info :: "'w app \<Rightarrow> info_fields result" where
  "app_info a =
     r_bind (app_get_component a (app_id a @ ''-info'')) (\<lambda>c.
       case info (obj c) of None \<Rightarrow> Inl (AttributeError ''info'') | Some i \<Rightarrow> Inr i)"

definition app_is_available :: "'w app \<Rightarrow> ('w, bool) prog" where
  "app_is_available a = p_all (\<lambda>c. vt_is_available (vt c) (obj c)) (od_values (components a))"

definition app_setup :: "'w app \<Rightarrow> int \<Rightarrow> ('w, unit) prog" where
  "app_setup a old_version = p_for (\<lambda>c. vt_setup (vt c) (obj c) old_version) (od_values (components a))"

definition app_uninstall :: "'w app \<Rightarrow> ('w, unit) prog" where
  "app_uninstall a = p_for (\<lambda>c. vt_uninstall (vt c) (obj c)) (rev (od_values (components a)))"

definition app_enable :: "'w app \<Rightarrow> ('w, unit) prog" where
  "app_enable a = p_for (\<lambda>c. vt_enable (vt c) (obj c)) (od_values (components a))"

definition app_disable :: "'w app \<Rightarrow> ('w, unit) prog" where
  "app_disable a = p_for (\<lambda>c. vt_disable (vt c) (obj c)) (rev (od_values (components a)))"

definition app_is_enabled :: "'w app \<Rightarrow> ('w, bool) prog" where
  "app_is_enabled a =
     p_all (\<lambda>c. vt_is_enabled (vt c) (obj c)) (filter (\<lambda>c. is_leader (obj c)) (od_values (components a)))"

definition app_set_enabled :: "'w app \<Rightarrow> bool \<Rightarrow> ('w, unit) prog" where
  "app_set_enabled a b =
     p_for (\<lambda>c. if \<not> is_leader (obj c) then vt_set_enabled (vt c) (obj c) b else p_ret ())
       (od_values (components a))"

definition app_diagnose :: "'w app \<Rightarrow> ('w, diagnostic_check list) prog" where
  "app_diagnose a =
     p_bind (p_map (\<lambda>c. vt_diagnose (vt c) (obj c)) (od_values (components a))) (\<lambda>rs. p_ret (concat rs))"

definition app_has_diagnostics :: "'w app \<Rightarrow> bool" where
  "app_has_diagnostics a \<longleftrightarrow>
     ov_diagnose a \<noteq> None \<or> (\<exists>c \<in> set (od_values (components a)). vt_has_diagnostics (vt c) (obj c))"

text \<open>
  \<open>App.repair\<close>: the checks of each component go to it, checks without a component ask for
  a rerun of the setup.
\<close>

definition has_component :: "diagnostic_check \<Rightarrow> bool" where
  "has_component ch \<longleftrightarrow> (case check_component_id ch of None \<Rightarrow> False | Some cid \<Rightarrow> cid \<noteq> [])"

definition checks_of :: "diagnostic_check list \<Rightarrow> string \<Rightarrow> diagnostic_check list" where
  "checks_of chs cid = filter (\<lambda>ch. has_component ch \<and> check_component_id ch = Some cid) chs"

primrec repair_components ::
  "diagnostic_check list \<Rightarrow> (string \<times> 'w component) list \<Rightarrow> bool \<Rightarrow> ('w, bool) prog"
where
  "repair_components chs [] rerun = p_ret rerun"
| "repair_components chs (p # ps) rerun =
     (if checks_of chs (fst p) = [] then repair_components chs ps rerun
      else p_bind (vt_repair (vt (snd p)) (obj (snd p)) (checks_of chs (fst p)))
             (\<lambda>r. repair_components chs ps (rerun \<or> r)))"

definition app_repair :: "'w app \<Rightarrow> diagnostic_check list \<Rightarrow> ('w, bool) prog" where
  "app_repair a chs =
     repair_components chs (components a) (\<exists>ch \<in> set chs. \<not> has_component ch)"

definition app_has_logs :: "'w app \<Rightarrow> bool" where
  "app_has_logs a \<longleftrightarrow> (\<exists>c \<in> set (od_values (components a)). ''LogEmitter'' \<in> set (classes (obj c)))"

definition app_get_logs :: "'w app \<Rightarrow> ('w, (string \<times> string) list list) prog" where
  "app_get_logs a = p_map (\<lambda>c. vt_get_logs (vt c) (obj c)) (get_components_of_type a ''LogEmitter'')"

text \<open>The calls of the code go through the class of the app.\<close>

definition call_setup :: "'w app \<Rightarrow> int \<Rightarrow> ('w, unit) prog" where
  "call_setup a v = (case ov_setup a of None \<Rightarrow> app_setup a v | Some f \<Rightarrow> f v)"

definition call_uninstall :: "'w app \<Rightarrow> ('w, unit) prog" where
  "call_uninstall a = (case ov_uninstall a of None \<Rightarrow> app_uninstall a | Some f \<Rightarrow> f)"

definition call_enable :: "'w app \<Rightarrow> ('w, unit) prog" where
  "call_enable a = (case ov_enable a of None \<Rightarrow> app_enable a | Some f \<Rightarrow> f)"

definition call_disable :: "'w app \<Rightarrow> ('w, unit) prog" where
  "call_disable a = (case ov_disable a of None \<Rightarrow> app_disable a | Some f \<Rightarrow> f)"

definition call_diagnose :: "'w app \<Rightarrow> ('w, diagnostic_check list) prog" where
  "call_diagnose a = (case ov_diagnose a of None \<Rightarrow> app_diagnose a | Some f \<Rightarrow> f)"

definition call_repair :: "'w app \<Rightarrow> diagnostic_check list \<Rightarrow> ('w, bool) prog" where
  "call_repair a chs = (case ov_repair a of None \<Rightarrow> app_repair a chs | Some f \<Rightarrow> f chs)"

section \<open>Setup versions\<close>

definition get_setup_version :: "'w app \<Rightarrow> ('x world_scheme, int) prog" where
  "get_setup_version a =
     p_catch (module_version_get (app_id a))
       (\<lambda>e. if is_does_not_exist e then p_ret 0 else p_raise e)"

definition set_setup_version :: "'w app \<Rightarrow> int \<Rightarrow> ('x world_scheme, unit) prog" where
  "set_setup_version a n = module_version_set (app_id a) n"

text \<open>\<open>info\<close> is only looked at when the app has a version.\<close>

definition get_setup_state :: "'w app \<Rightarrow> ('x world_scheme, setup_state) prog" where
  "get_setup_state a =
     p_bind (get_setup_version a) (\<lambda>current.
       if current = 0 then p_ret NEEDS_SETUP
       else p_bind (p_lift (app_info a)) (\<lambda>i.
         p_ret (if version i \<le> current then UP_TO_DATE else NEEDS_UPDATE)))"

definition needs_setup :: "'w app \<Rightarrow> ('x world_scheme, bool) prog" where
  "needs_setup a = p_bind (get_setup_state a) (\<lambda>s. p_ret (s = NEEDS_SETUP))"

text \<open>
  \<open>apps_post_init\<close>: every app in turn; an exception is logged and, unless the service runs in
  development mode, does not stop the loop.
\<close>

definition post_init_one :: "('x world_scheme) app \<Rightarrow> ('x world_scheme, unit) prog" where
  "post_init_one a =
     p_then (ov_post_init a)
       (p_bind (needs_setup a) (\<lambda>ns.
          if ns then p_ret ()
          else p_bind (app_is_enabled a) (\<lambda>en. if en then app_set_enabled a True else p_ret ())))"

definition apps_post_init :: "bool \<Rightarrow> ('x world_scheme) apps \<Rightarrow> ('x world_scheme, unit) prog" where
  "apps_post_init develop all_apps =
     p_for (\<lambda>a. p_catch (post_init_one a) (\<lambda>e. if develop then p_raise e else p_ret ()))
       (od_values all_apps)"

end
