(* ===== verification/AppOrder.thy ===== *)
theory AppOrder
  imports AppModel
begin

text \<open>
  The dependency order of apps (\<open>_sort_apps\<close> and \<open>_insert_apps\<close> of plinth/app.py). The
  state of a run is the dict of the remaining apps and the list of the ordered ids, both
  mutated in place by the code and kept when an exception leaves the function.
\<close>

type_synonym 'w order_state = "'w apps \<times> string list"

section \<open>The code\<close>

function insert_apps :: "string \<Rightarrow> 'w app \<Rightarrow> 'w order_state \<Rightarrow> unit result \<times> 'w order_state"
  and insert_deps :: "string \<Rightarrow> string list \<Rightarrow> 'w order_state \<Rightarrow> unit result \<times> 'w order_state"
where
  "insert_apps aid a (remaining, ordered) =
     (if aid \<in> set ordered then (Inr (), (remaining, ordered))
      else case app_info a of
        Inl e \<Rightarrow> (Inl e, (remaining, ordered))
      | Inr i \<Rightarrow> insert_deps aid (depends i) (remaining, ordered))"
| "insert_deps aid [] (remaining, ordered) = (Inr (), (remaining, ordered @ [aid]))"
| "insert_deps aid (d # ds) (remaining, ordered) =
     (if d \<in> set ordered then insert_deps aid ds (remaining, ordered)
      else case od_pop remaining d of
        Inl e \<Rightarrow> (Inl e, (remaining, ordered))
      | Inr (a, remaining') \<Rightarrow>
          (case insert_apps d a (remaining', ordered) of
             (Inl e, s) \<Rightarrow> (Inl e, s)
           | (Inr _, s) \<Rightarrow> insert_deps aid ds s))"
  by pat_completeness auto

text \<open>
  The recursion ends because every nested call runs on a dict that lost an entry, and no
  call gives entries back.
\<close>

lemma od_pop_Inr:
  "od_pop d k = Inr (v, d') \<longleftrightarrow> map_of d k = Some v \<and> d' = od_del d k"
  by (auto simp: od_pop_def split: option.splits)

lemma od_pop_Inl: "od_pop d k = Inl e \<longleftrightarrow> map_of d k = None \<and> e = KeyError k"
  by (auto simp: od_pop_def split: option.splits)

lemma insert_shrinks:
  "insert_apps_insert_deps_dom (Inl (aid, a, s)) \<Longrightarrow> insert_apps aid a s = (r, t) \<Longrightarrow> length (fst t) \<le> length (fst s)"
  "insert_apps_insert_deps_dom (Inr (aid, ds, s)) \<Longrightarrow> insert_deps aid ds s = (r, t) \<Longrightarrow> length (fst t) \<le> length (fst s)"
proof (induction aid a s and aid ds s arbitrary: r t and r t rule: insert_apps_insert_deps.pinduct)
  case (1 aid a remaining ordered)
  then show ?case
    by (auto simp: insert_apps.psimps split: if_splits sum.splits)
next
  case (2 aid remaining ordered)
  then show ?case by (auto simp: insert_deps.psimps)
next
  case (3 aid d ds remaining ordered)
  show ?case
  proof (cases "d \<in> set ordered")
    case True
    with 3 show ?thesis by (auto simp: insert_deps.psimps)
  next
    case False
    show ?thesis
    proof (cases "od_pop remaining d")
      case (Inl e)
      with 3 False show ?thesis by (auto simp: insert_deps.psimps)
    next
      case (Inr p)
      obtain a rem' where p: "p = (a, rem')" by (cases p)
      obtain q s where q: "insert_apps d a (rem', ordered) = (q, s)"
        by (cases "insert_apps d a (rem', ordered)")
      have "length (fst s) \<le> length rem'"
        using "3.IH"(2)[OF False Inr p[symmetric] q] p by simp
      moreover have "length rem' < length remaining"
        using Inr p by (auto simp: od_pop_Inr od_del_length)
      ultimately have s: "length (fst s) \<le> length remaining" by simp
      show ?thesis
      proof (cases q)
        case (Inl e)
        with 3 False Inr p q s \<open>od_pop remaining d = Inr p\<close> show ?thesis
          by (auto simp: insert_deps.psimps)
      next
        case (Inr u)
        from "3.prems" "3.hyps" False \<open>od_pop remaining d = Inr p\<close> p q Inr
        have "insert_deps aid ds s = (r, t)" by (auto simp: insert_deps.psimps)
        then have "length (fst t) \<le> length (fst s)"
          by (rule "3.IH"(3)[OF False \<open>od_pop remaining d = Inr p\<close> p[symmetric] q[symmetric] Inr])
        with s show ?thesis by simp
      qed
    qed
  qed
qed

lemma od_pop_length: "od_pop d k = Inr (v, d') \<Longrightarrow> length d' < length d"
  by (auto simp: od_pop_Inr od_del_length)

termination insert_apps
proof (relation "measures
    [\<lambda>c. case c of Inl (aid, a, s) \<Rightarrow> length (fst s) | Inr (aid, ds, s) \<Rightarrow> length (fst s),
     \<lambda>c. case c of Inl (aid, a, s) \<Rightarrow> Suc (case app_info a of Inl e \<Rightarrow> 0 | Inr i \<Rightarrow> length (depends i))
                 | Inr (aid, ds, s) \<Rightarrow> length ds]", goal_cases)
  case (5 aid d ds remaining ordered p a remaining' q s)
  then have "length (fst s) \<le> length remaining'"
    using insert_shrinks(1)[of d a "(remaining', ordered)" q s] by (cases s) auto
  moreover have "length remaining' < length remaining"
    using 5 od_pop_length[of remaining d a remaining'] by simp
  ultimately show ?case by auto
qed (auto dest: od_pop_length)

text \<open>
  \<open>_sort_apps\<close>: essential apps first (\<open>sorted\<close> is stable, as \<open>sort_key\<close> is), each app
  popped and inserted with its dependencies; an app whose dependencies fail is dropped.
\<close>

fun sort_loop :: "string list \<Rightarrow> 'w order_state \<Rightarrow> 'w order_state result" where
  "sort_loop [] s = Inr s"
| "sort_loop (k # ks) (remaining, ordered) =
     (case od_pop remaining k of
        Inl _ \<Rightarrow> sort_loop ks (remaining, ordered)
      | Inr (a, remaining') \<Rightarrow>
          (case insert_apps k a (remaining', ordered) of
             (Inr _, s) \<Rightarrow> sort_loop ks s
           | (Inl e, s) \<Rightarrow> if is_key_error e then sort_loop ks s else Inl e))"

definition sorted_ids :: "'w apps \<Rightarrow> string list result" where
  "sorted_ids all_apps =
     r_bind (r_map (\<lambda>(k, a). r_bind (app_info a) (\<lambda>i. Inr (k, is_essential i))) all_apps)
       (\<lambda>ks. Inr (map fst (sort_key (\<lambda>(k, essential). \<not> essential) ks)))"

definition sort_apps :: "'w apps \<Rightarrow> 'w apps result" where
  "sort_apps all_apps =
     r_bind (sorted_ids all_apps) (\<lambda>ks.
     r_bind (sort_loop ks (all_apps, [])) (\<lambda>(remaining, ordered).
     r_bind (r_map (od_get all_apps) ordered) (\<lambda>as.
       Inr (fold (\<lambda>(k, a) d. od_set d k a) (zip ordered as) []))))"

section \<open>What the order promises\<close>

text \<open>
  The dependencies of an app of the dict, the dependency relation, and the apps that can be
  ordered at all: those whose dependencies are present and, in turn, can be ordered. A
  missing app or a cycle among the dependencies excludes an app.
\<close>

definition deps_of :: "'w apps \<Rightarrow> string \<Rightarrow> string list option" where
  "deps_of all_apps k =
     (case map_of all_apps k of
        None \<Rightarrow> None
      | Some a \<Rightarrow> (case app_info a of Inl e \<Rightarrow> None | Inr i \<Rightarrow> Some (depends i)))"

definition essential_app :: "'w apps \<Rightarrow> string \<Rightarrow> bool" where
  "essential_app all_apps k \<longleftrightarrow>
     (case map_of all_apps k of
        None \<Rightarrow> False
      | Some a \<Rightarrow> (case app_info a of Inl e \<Rightarrow> False | Inr i \<Rightarrow> is_essential i))"

definition requires :: "'w apps \<Rightarrow> string \<Rightarrow> string \<Rightarrow> bool" where
  "requires all_apps k d \<longleftrightarrow> (\<exists>ds. deps_of all_apps k = Some ds \<and> d \<in> set ds)"

inductive satisfiable :: "'w apps \<Rightarrow> string \<Rightarrow> bool" for all_apps where
  satisfiableI: "deps_of all_apps k = Some ds \<Longrightarrow> (\<And>d. d \<in> set ds \<Longrightarrow> satisfiable all_apps d) \<Longrightarrow>
     satisfiable all_apps k"

inductive_cases satisfiableE: "satisfiable all_apps k"

lemma satisfiable_requires: "satisfiable all_apps k \<Longrightarrow> requires all_apps k d \<Longrightarrow> satisfiable all_apps d"
  by (auto simp: requires_def elim: satisfiableE)

lemma satisfiable_no_cycle: "satisfiable all_apps k \<Longrightarrow> \<not> (requires all_apps)\<^sup>+\<^sup>+ k k"
proof (induction rule: satisfiable.induct)
  case (satisfiableI k ds)
  show ?case
  proof
    assume "(requires all_apps)\<^sup>+\<^sup>+ k k"
    then obtain d where kd: "requires all_apps k d" and dk: "(requires all_apps)\<^sup>*\<^sup>* d k"
      by (auto dest: tranclpD)
    from kd satisfiableI.hyps(1) have "d \<in> set ds" by (simp add: requires_def)
    moreover from dk kd have "(requires all_apps)\<^sup>+\<^sup>+ d d" by (rule rtranclp_into_tranclp1)
    ultimately show False using satisfiableI.IH by blast
  qed
qed

lemma satisfiable_present: "satisfiable all_apps k \<Longrightarrow> k \<in> set (od_keys all_apps)"
  by (auto simp: deps_of_def od_key_present elim!: satisfiableE split: option.splits)

text \<open>Every app has an Info component, and the dict's keys are distinct.\<close>

definition apps_ok :: "'w apps \<Rightarrow> bool" where
  "apps_ok all_apps \<longleftrightarrow> od_wf all_apps \<and> (\<forall>a \<in> set (od_values all_apps). \<exists>i. app_info a = Inr i)"

section \<open>The invariant of a run\<close>

text \<open>Runs only take entries from the dict and only add ids at the end of the list.\<close>

lemma insert_extends:
  "insert_apps aid a s = (r, t) \<Longrightarrow> (\<exists>ext. snd t = snd s @ ext) \<and>
     set (od_keys (fst t)) \<subseteq> set (od_keys (fst s)) \<and> (r = Inr () \<longrightarrow> aid \<in> set (snd t))"
  "insert_deps aid ds s = (r, t) \<Longrightarrow> (\<exists>ext. snd t = snd s @ ext) \<and>
     set (od_keys (fst t)) \<subseteq> set (od_keys (fst s)) \<and> (r = Inr () \<longrightarrow> aid \<in> set (snd t))"
proof (induction aid a s and aid ds s arbitrary: r t and r t rule: insert_apps_insert_deps.induct)
  case (3 aid d ds remaining ordered)
  show ?case
  proof (cases "d \<in> set ordered")
    case True
    with 3 show ?thesis by auto
  next
    case False
    show ?thesis
    proof (cases "od_pop remaining d")
      case (Inl e)
      with 3 False show ?thesis by auto
    next
      case (Inr p)
      obtain a rem' where p: "p = (a, rem')" by (cases p)
      obtain q s where q: "insert_apps d a (rem', ordered) = (q, s)"
        by (cases "insert_apps d a (rem', ordered)")
      have sub: "set (od_keys rem') \<subseteq> set (od_keys remaining)"
        using Inr p by (auto simp: od_pop_Inr odict_simps)
      have ih: "(\<exists>ext. snd s = ordered @ ext) \<and> set (od_keys (fst s)) \<subseteq> set (od_keys rem')"
        using "3.IH"(2)[OF False Inr p[symmetric] q] by simp
      then have "set (od_keys (fst s)) \<subseteq> set (od_keys remaining)" using sub by (rule subset_trans[OF conjunct2])
      with ih have s: "(\<exists>ext. snd s = ordered @ ext) \<and> set (od_keys (fst s)) \<subseteq> set (od_keys remaining)"
        by (rule conjI[OF conjunct1])
      show ?thesis
      proof (cases q)
        case (Inl e)
        with "3.prems" False \<open>od_pop remaining d = Inr p\<close> p q s show ?thesis by auto
      next
        case (Inr u)
        with "3.prems" False \<open>od_pop remaining d = Inr p\<close> p q
        have "insert_deps aid ds s = (r, t)" by simp
        then have ih3: "(\<exists>ext. snd t = snd s @ ext) \<and>
            set (od_keys (fst t)) \<subseteq> set (od_keys (fst s)) \<and> (r = Inr () \<longrightarrow> aid \<in> set (snd t))"
          by (rule "3.IH"(3)[OF False \<open>od_pop remaining d = Inr p\<close> p[symmetric] q[symmetric] Inr])
        then obtain ext1 ext2 where "snd t = (ordered @ ext1) @ ext2" using s by auto
        then have "\<exists>ext. snd t = ordered @ ext" by simp
        moreover have "set (od_keys (fst t)) \<subseteq> set (od_keys remaining)"
          using ih3 s by (meson subset_trans)
        ultimately show ?thesis using ih3 by simp
      qed
    qed
  qed
qed (auto split: if_splits sum.splits)

text \<open>
  \<open>S\<close> is the set of apps on the call stack: popped from the dict, not yet ordered. Every
  app that can be ordered is still in one of the three places.
\<close>

definition order_inv :: "'w apps \<Rightarrow> string set \<Rightarrow> 'w order_state \<Rightarrow> bool" where
  "order_inv all_apps S s \<longleftrightarrow>
     od_wf (fst s) \<and> (\<forall>k a. map_of (fst s) k = Some a \<longrightarrow> map_of all_apps k = Some a) \<and>
     distinct (snd s) \<and> set (snd s) \<inter> set (od_keys (fst s)) = {} \<and>
     (\<forall>k \<in> set (snd s). satisfiable all_apps k) \<and>
     (\<forall>k \<in> set (snd s). \<forall>d. requires all_apps k d \<longrightarrow> precedes (snd s) d k) \<and>
     S \<inter> set (snd s) = {} \<and> S \<inter> set (od_keys (fst s)) = {} \<and>
     (\<forall>k. satisfiable all_apps k \<longrightarrow> k \<in> set (od_keys (fst s)) \<union> set (snd s) \<union> S)"

lemma order_inv_drop: "order_inv all_apps S s \<Longrightarrow> \<not> satisfiable all_apps k \<Longrightarrow> order_inv all_apps (S - {k}) s"
  unfolding order_inv_def by blast

lemma order_inv_pop:
  assumes "order_inv all_apps S (remaining, ordered)" and "map_of remaining k = Some a"
  shows "order_inv all_apps (insert k S) (od_del remaining k, ordered)"
proof -
  have "k \<in> set (od_keys remaining)" using assms(2) by (force dest: map_of_SomeD)
  then show ?thesis
    using assms by (simp add: order_inv_def odict_simps) blast
qed

lemma order_inv_append:
  assumes inv: "order_inv all_apps S (remaining, ordered)" and k: "k \<in> S"
    and ds: "deps_of all_apps k = Some ds" and before: "set ds \<subseteq> set ordered"
  shows "order_inv all_apps (S - {k}) (remaining, ordered @ [k])"
proof -
  have "satisfiable all_apps k"
    using inv before by (auto intro!: satisfiableI[OF ds] simp: order_inv_def)
  moreover have "precedes (ordered @ [k]) d x"
    if "x \<in> set (ordered @ [k])" and "requires all_apps x d" for x d
  proof (cases "x \<in> set ordered")
    case True
    then show ?thesis using inv that by (auto simp: order_inv_def intro: precedes_append)
  next
    case False
    then have "x = k" using that by simp
    then have "d \<in> set ordered" using that(2) ds before by (auto simp: requires_def)
    then show ?thesis using \<open>x = k\<close> by (simp add: precedes_snoc)
  qed
  ultimately show ?thesis using inv k by (auto simp: order_inv_def)
qed

lemma insert_correct:
  "\<lbrakk>order_inv all_apps S s; aid \<in> S; map_of all_apps aid = Some a; app_info a = Inr i;
    \<forall>x \<in> S. x = aid \<or> (requires all_apps)\<^sup>+\<^sup>+ x aid; insert_apps aid a s = (r, t); apps_ok all_apps\<rbrakk> \<Longrightarrow>
   order_inv all_apps (S - {aid}) t \<and>
   (case r of Inr _ \<Rightarrow> True | Inl e \<Rightarrow> \<not> satisfiable all_apps aid \<and> is_key_error e)"
  "\<lbrakk>order_inv all_apps S s; aid \<in> S; deps_of all_apps aid = Some full; set ds \<subseteq> set full;
    set full - set ds \<subseteq> set (snd s);
    \<forall>x \<in> S. x = aid \<or> (requires all_apps)\<^sup>+\<^sup>+ x aid; insert_deps aid ds s = (r, t); apps_ok all_apps\<rbrakk> \<Longrightarrow>
   order_inv all_apps (S - {aid}) t \<and>
   (case r of Inr _ \<Rightarrow> True | Inl e \<Rightarrow> \<not> satisfiable all_apps aid \<and> is_key_error e)"
proof (induction aid a s and aid ds s arbitrary: S i r t and S full r t rule: insert_apps_insert_deps.induct)
  case (1 aid a remaining ordered)
  have "aid \<notin> set ordered" using "1.prems"(1,2) by (auto simp: order_inv_def)
  moreover have "deps_of all_apps aid = Some (depends i)"
    using "1.prems" by (simp add: deps_of_def)
  ultimately show ?case using "1.prems" "1.IH" by auto
next
  case (2 aid remaining ordered)
  then show ?case using order_inv_append by fastforce
next
  case (3 aid d ds remaining ordered)
  have aid_d: "requires all_apps aid d" using "3.prems" by (auto simp: requires_def)
  show ?case
  proof (cases "d \<in> set ordered")
    case True
    then show ?thesis using "3.IH"(1)[OF True, of S full r t] "3.prems" by auto
  next
    case False
    show ?thesis
    proof (cases "od_pop remaining d")
      case (Inl e)
      have "\<not> satisfiable all_apps aid"
      proof
        assume sat: "satisfiable all_apps aid"
        then have "satisfiable all_apps d" using aid_d by (rule satisfiable_requires)
        then have "d \<in> S" using "3.prems"(1) False Inl
          by (auto simp: order_inv_def od_pop_Inl map_of_eq_None_iff)
        then have "(requires all_apps)\<^sup>+\<^sup>+ aid aid"
          using "3.prems"(6) aid_d by (auto intro: tranclp.trancl_into_trancl tranclp_into_tranclp2)
        then show False using sat satisfiable_no_cycle by blast
      qed
      moreover have "t = (remaining, ordered)" "r = Inl e"
        using False Inl "3.prems"(7) by auto
      ultimately show ?thesis using Inl "3.prems"(1) by (auto simp: od_pop_Inl intro: order_inv_drop)
    next
      case (Inr p)
      obtain a rem' where p: "p = (a, rem')" by (cases p)
      then have pop: "map_of remaining d = Some a" "rem' = od_del remaining d"
        using Inr by (auto simp: od_pop_Inr)
      obtain q s where q: "insert_apps d a (rem', ordered) = (q, s)"
        by (cases "insert_apps d a (rem', ordered)")
      have "d \<in> set (od_keys remaining)" using pop(1) by (force dest: map_of_SomeD)
      then have dS: "d \<notin> S" using "3.prems"(1) by (auto simp: order_inv_def)
      have a: "map_of all_apps d = Some a" using "3.prems"(1) pop(1) by (auto simp: order_inv_def)
      then obtain i where i: "app_info a = Inr i"
        using "3.prems"(8) by (force simp: apps_ok_def dest: map_of_SomeD)
      have inner: "order_inv all_apps (insert d S - {d}) s \<and>
          (case q of Inr _ \<Rightarrow> True | Inl e \<Rightarrow> \<not> satisfiable all_apps d \<and> is_key_error e)"
      proof (rule "3.IH"(2)[OF False Inr p[symmetric] _ _ a i _ q "3.prems"(8)])
        show "order_inv all_apps (insert d S) (rem', ordered)"
          using order_inv_pop "3.prems"(1) pop by blast
        show "\<forall>x \<in> insert d S. x = d \<or> (requires all_apps)\<^sup>+\<^sup>+ x d"
          using "3.prems"(6) aid_d by (auto intro: tranclp.trancl_into_trancl)
      qed simp
      then have inv: "order_inv all_apps S s" using dS by simp
      show ?thesis
      proof (cases q)
        case (Inl e)
        then have "\<not> satisfiable all_apps aid" using inner aid_d satisfiable_requires by fastforce
        moreover have "t = s" "r = Inl e"
          using "3.prems"(7) False \<open>od_pop remaining d = Inr p\<close> p q Inl by auto
        ultimately show ?thesis using Inl inner inv by (auto intro: order_inv_drop)
      next
        case (Inr u)
        note q_ok = this
        have step: "insert_deps aid ds s = (r, t)"
          using "3.prems"(7) False \<open>od_pop remaining d = Inr p\<close> p q Inr by simp
        have "set full - set ds \<subseteq> set (snd s)"
          using insert_extends(1)[OF q] q_ok "3.prems"(4,5) by auto
        then show ?thesis
          using "3.IH"(3)[OF False \<open>od_pop remaining d = Inr p\<close> p[symmetric] q[symmetric] q_ok inv
              "3.prems"(2,3) _ _ "3.prems"(6) step "3.prems"(8)] "3.prems"(4)
          by simp
      qed
    qed
  qed
qed

section \<open>The loop over all apps\<close>

lemma sort_loop_correct:
  assumes "apps_ok all_apps" and "order_inv all_apps {} s"
  shows "\<exists>t. sort_loop ks s = Inr t \<and> order_inv all_apps {} t \<and>
    (\<exists>ext. snd t = snd s @ ext) \<and> set (od_keys (fst t)) \<subseteq> set (od_keys (fst s)) - set ks"
  using assms(2)
proof (induction ks s rule: sort_loop.induct)
  case (1 s)
  then show ?case by simp
next
  case (2 k ks remaining ordered)
  show ?case
  proof (cases "od_pop remaining k")
    case (Inl e)
    then have "k \<notin> set (od_keys remaining)" by (simp add: od_pop_Inl map_of_eq_None_iff)
    then show ?thesis using 2 Inl by auto
  next
    case (Inr p)
    obtain a rem' where p: "p = (a, rem')" by (cases p)
    have pop: "map_of remaining k = Some a" "rem' = od_del remaining k"
      using Inr p by (auto simp: od_pop_Inr)
    obtain q s where q: "insert_apps k a (rem', ordered) = (q, s)"
      by (cases "insert_apps k a (rem', ordered)")
    have a: "map_of all_apps k = Some a" using "2.prems" pop by (simp add: order_inv_def)
    then obtain i where i: "app_info a = Inr i"
      using assms(1) by (force simp: apps_ok_def dest: map_of_SomeD)
    have "order_inv all_apps {k} (rem', ordered)" using order_inv_pop "2.prems" pop by blast
    then have "order_inv all_apps ({k} - {k}) s \<and>
        (case q of Inr _ \<Rightarrow> True | Inl e \<Rightarrow> \<not> satisfiable all_apps k \<and> is_key_error e)"
      by (rule insert_correct(1)[OF _ _ a i _ q assms(1)]) auto
    then have inv: "order_inv all_apps {} s" and q_cases: "(\<exists>u. q = Inr u) \<or> (\<exists>e. q = Inl e \<and> is_key_error e)"
      by (auto split: sum.splits)
    have ext: "(\<exists>ext. snd s = ordered @ ext) \<and> set (od_keys (fst s)) \<subseteq> set (od_keys rem')"
      using insert_extends(1)[OF q] by simp
    have step: "sort_loop (k # ks) (remaining, ordered) = sort_loop ks s"
      using q_cases Inr p q by auto
    have "\<exists>t. sort_loop ks s = Inr t \<and> order_inv all_apps {} t \<and>
        (\<exists>ext. snd t = snd s @ ext) \<and> set (od_keys (fst t)) \<subseteq> set (od_keys (fst s)) - set ks"
    proof (cases q)
      case (Inl e)
      then have m: "is_key_error e" using q_cases by auto
      show ?thesis
        by (rule "2.IH"(2)[OF \<open>od_pop remaining k = Inr p\<close> p[symmetric] q[symmetric] Inl m inv])
    next
      case (Inr u)
      show ?thesis
        by (rule "2.IH"(3)[OF \<open>od_pop remaining k = Inr p\<close> p[symmetric] q[symmetric] Inr inv])
    qed
    then obtain t where t: "sort_loop ks s = Inr t" "order_inv all_apps {} t"
        "\<exists>ext. snd t = snd s @ ext" "set (od_keys (fst t)) \<subseteq> set (od_keys (fst s)) - set ks"
      by blast
    have "set (od_keys (fst t)) \<subseteq> set (od_keys remaining) - set (k # ks)"
      using t(4) ext pop(2) by (simp add: odict_simps) blast
    moreover have "\<exists>ext. snd t = ordered @ ext" using t(3) ext by auto
    ultimately show ?thesis using step t by auto
  qed
qed

text \<open>What an insertion adds is reached from the inserted app.\<close>

lemma od_del_map_le: "map_of d \<subseteq>\<^sub>m m \<Longrightarrow> map_of (od_del d k) \<subseteq>\<^sub>m m"
  by (auto simp: map_le_def odict_simps)

lemma map_le_get: "m \<subseteq>\<^sub>m m' \<Longrightarrow> m k = Some v \<Longrightarrow> m' k = Some v"
  by (auto simp: map_le_def dom_def)

lemma insert_reaches:
  "\<lbrakk>insert_apps aid a s = (r, t); map_of all_apps aid = Some a;
    map_of (fst s) \<subseteq>\<^sub>m map_of all_apps\<rbrakk> \<Longrightarrow>
   (map_of (fst t) \<subseteq>\<^sub>m map_of all_apps) \<and>
   (\<forall>x \<in> set (snd t) - set (snd s). (requires all_apps)\<^sup>*\<^sup>* aid x)"
  "\<lbrakk>insert_deps aid ds s = (r, t); \<forall>d \<in> set ds. requires all_apps aid d;
    map_of (fst s) \<subseteq>\<^sub>m map_of all_apps\<rbrakk> \<Longrightarrow>
   (map_of (fst t) \<subseteq>\<^sub>m map_of all_apps) \<and>
   (\<forall>x \<in> set (snd t) - set (snd s). (requires all_apps)\<^sup>*\<^sup>* aid x)"
proof (induction aid a s and aid ds s arbitrary: r t and r t rule: insert_apps_insert_deps.induct)
  case (1 aid a remaining ordered)
  show ?case
  proof (cases "aid \<in> set ordered")
    case True
    with 1 show ?thesis by auto
  next
    case False
    show ?thesis
    proof (cases "app_info a")
      case (Inl e)
      with 1 False show ?thesis by auto
    next
      case (Inr i)
      then have "\<forall>d \<in> set (depends i). requires all_apps aid d"
        using "1.prems"(2) by (simp add: requires_def deps_of_def)
      then show ?thesis using "1.IH"[OF False Inr] "1.prems" False Inr by auto
    qed
  qed
next
  case (2 aid remaining ordered)
  then show ?case by auto
next
  case (3 aid d ds remaining ordered)
  show ?case
  proof (cases "d \<in> set ordered")
    case True
    with 3 show ?thesis by auto
  next
    case False
    show ?thesis
    proof (cases "od_pop remaining d")
      case (Inl e)
      with 3 False show ?thesis by auto
    next
      case (Inr p)
      obtain a rem' where p: "p = (a, rem')" by (cases p)
      obtain q s where q: "insert_apps d a (rem', ordered) = (q, s)"
        by (cases "insert_apps d a (rem', ordered)")
      have pop: "map_of remaining d = Some a" "rem' = od_del remaining d"
        using Inr p by (auto simp: od_pop_Inr)
      have aid_d: "requires all_apps aid d" using "3.prems"(2) by simp
      have ih: "(map_of (fst s) \<subseteq>\<^sub>m map_of all_apps) \<and>
          (\<forall>x \<in> set (snd s) - set ordered. (requires all_apps)\<^sup>*\<^sup>* d x)"
        using "3.IH"(2)[OF False Inr p[symmetric] q] "3.prems"(3) pop map_le_get od_del_map_le by fastforce
      then have ih': "\<forall>x \<in> set (snd s) - set ordered. (requires all_apps)\<^sup>*\<^sup>* aid x"
        using aid_d by (auto intro: converse_rtranclp_into_rtranclp)
      show ?thesis
      proof (cases q)
        case (Inl e)
        then have "t = s" using "3.prems"(1) False \<open>od_pop remaining d = Inr p\<close> p q by simp
        then show ?thesis using ih ih' by simp
      next
        case (Inr u)
        have "insert_deps aid ds s = (r, t)"
          using "3.prems"(1) False \<open>od_pop remaining d = Inr p\<close> p q Inr by simp
        moreover have "\<forall>d \<in> set ds. requires all_apps aid d" using "3.prems"(2) by simp
        ultimately have t: "(map_of (fst t) \<subseteq>\<^sub>m map_of all_apps) \<and>
            (\<forall>x \<in> set (snd t) - set (snd s). (requires all_apps)\<^sup>*\<^sup>* aid x)"
          by (rule "3.IH"(3)[OF False \<open>od_pop remaining d = Inr p\<close> p[symmetric] q[symmetric] Inr _ _
                conjunct1[OF ih]])
        show ?thesis
          unfolding snd_conv by (rule conjI[OF conjunct1[OF t]]) (use conjunct2[OF t] ih' in blast)
      qed
    qed
  qed
qed

lemma sort_loop_reaches:
  "\<lbrakk>sort_loop ks s = Inr t; map_of (fst s) \<subseteq>\<^sub>m map_of all_apps\<rbrakk> \<Longrightarrow>
   \<forall>x \<in> set (snd t) - set (snd s). \<exists>k \<in> set ks. (requires all_apps)\<^sup>*\<^sup>* k x"
proof (induction ks s rule: sort_loop.induct)
  case (1 s)
  then show ?case by simp
next
  case (2 k ks remaining ordered)
  show ?case
  proof (cases "od_pop remaining k")
    case (Inl e)
    with 2 show ?thesis by auto
  next
    case (Inr p)
    obtain a rem' where p: "p = (a, rem')" by (cases p)
    obtain q s where q: "insert_apps k a (rem', ordered) = (q, s)"
      by (cases "insert_apps k a (rem', ordered)")
    have pop: "map_of remaining k = Some a" "rem' = od_del remaining k"
      using Inr p by (auto simp: od_pop_Inr)
    have ih: "(map_of (fst s) \<subseteq>\<^sub>m map_of all_apps) \<and>
        (\<forall>x \<in> set (snd s) - set ordered. (requires all_apps)\<^sup>*\<^sup>* k x)"
      using insert_reaches(1)[OF q, of all_apps] "2.prems"(2) pop map_le_get od_del_map_le by fastforce
    have rest: "\<forall>x \<in> set (snd t) - set (snd s). \<exists>k \<in> set ks. (requires all_apps)\<^sup>*\<^sup>* k x"
    proof (cases q)
      case (Inl e)
      then have m: "is_key_error e" "sort_loop ks s = Inr t"
        using "2.prems"(1) \<open>od_pop remaining k = Inr p\<close> p q by (auto split: if_splits)
      show ?thesis
        by (rule "2.IH"(2)[OF \<open>od_pop remaining k = Inr p\<close> p[symmetric] q[symmetric] Inl m(1) m(2) conjunct1[OF ih]])
    next
      case (Inr u)
      then have "sort_loop ks s = Inr t" using "2.prems"(1) \<open>od_pop remaining k = Inr p\<close> p q by simp
      then show ?thesis
        by (rule "2.IH"(3)[OF \<open>od_pop remaining k = Inr p\<close> p[symmetric] q[symmetric] Inr _ conjunct1[OF ih]])
    qed
    show ?thesis
    proof
      fix x
      assume x: "x \<in> set (snd t) - set (snd (remaining, ordered))"
      show "\<exists>k' \<in> set (k # ks). (requires all_apps)\<^sup>*\<^sup>* k' x"
      proof (cases "x \<in> set (snd s)")
        case True
        then have "(requires all_apps)\<^sup>*\<^sup>* k x" using conjunct2[OF ih] x by simp
        then show ?thesis by simp
      next
        case False
        then obtain k' where "k' \<in> set ks" "(requires all_apps)\<^sup>*\<^sup>* k' x" using rest x by blast
        then show ?thesis by auto
      qed
    qed
  qed
qed

lemma sort_key_bool:
  "sort_key (\<lambda>x. \<not> P x) xs = filter P xs @ filter (\<lambda>x. \<not> P x) xs"
proof (induction xs)
  case Nil
  then show ?case by simp
next
  case (Cons x xs)
  have ins: "insort_key (\<lambda>x. \<not> P x) x (as @ bs) = as @ x # bs"
    if "\<forall>a \<in> set as. P a" "\<forall>b \<in> set bs. \<not> P b" "\<not> P x" for as bs
    using that by (induction as) (auto simp: insort_is_Cons)
  show ?case
  proof (cases "P x")
    case True
    then show ?thesis using Cons by (simp add: insort_is_Cons)
  next
    case False
    then show ?thesis using Cons ins by simp
  qed
qed

section \<open>An example\<close>

text \<open>
  A dict of apps with only their Info components: \<open>web\<close> needs \<open>base\<close>, which is essential,
  \<open>mail\<close> needs an app that is missing, and \<open>a\<close> and \<open>b\<close> need each other.
\<close>

definition info_app :: "string \<Rightarrow> bool \<Rightarrow> string list \<Rightarrow> world app" where
  "info_app aid essential deps =
     \<lparr>app_id = aid, can_be_disabled = True, configure_when_disabled = True,
      components = [(aid @ ''-info'',
        \<lparr>obj = \<lparr>component_id = aid @ ''-info'', comp_app_id = Some aid, is_leader = False,
                classes = [''Info'', ''FollowerComponent'', ''Component''],
                info = Some \<lparr>version = 1, is_essential = essential, depends = deps,
                  info_name = None, icon = None, icon_filename = None, info_description = None,
                  manual_page = None, clients = None, donation_url = None, tags = []\<rparr>, packages = None\<rparr>,
         vt = follower_vtable\<rparr>)],
      ov_post_init = p_ret (), ov_setup = None, ov_uninstall = None, ov_enable = None,
      ov_disable = None, ov_diagnose = None, ov_repair = None\<rparr>"

definition example_apps :: "world apps" where
  "example_apps =
     [(''web'', info_app ''web'' False [''base'']), (''mail'', info_app ''mail'' False [''none'']),
      (''a'', info_app ''a'' False [''b'']), (''b'', info_app ''b'' False [''a'']),
      (''base'', info_app ''base'' True [])]"

lemma info_app_info [simp]:
  "app_info (info_app aid essential deps) =
     Inr \<lparr>version = 1, is_essential = essential, depends = deps, info_name = None, icon = None,
          icon_filename = None, info_description = None, manual_page = None, clients = None,
          donation_url = None, tags = []\<rparr>"
  by (simp add: app_info_def info_app_def app_get_component_def od_get_def)

lemma example_apps_ok: "apps_ok example_apps"
  by (simp add: apps_ok_def example_apps_def)

lemma example_sorted: "sort_apps example_apps =
    Inr [(''base'', info_app ''base'' True []), (''web'', info_app ''web'' False [''base''])]"
  by (simp add: sort_apps_def sorted_ids_def example_apps_def sort_key_bool[of snd, simplified case_prod_beta']
      od_pop_def od_del_def od_get_def od_set_def case_prod_beta' insort_key.simps)

section \<open>The whole sort\<close>

lemma fold_od_set:
  "\<lbrakk>distinct ks; set ks \<inter> fst ` set d = {}; length as = length ks\<rbrakk> \<Longrightarrow>
   fold (\<lambda>(k, a) d. od_set d k a) (zip ks as) d = d @ zip ks as"
proof (induction ks arbitrary: d as)
  case Nil
  then show ?case by simp
next
  case (Cons k ks)
  then obtain a as' where as: "as = a # as'" by (cases as) auto
  have "od_set d k a = d @ [(k, a)]" using Cons.prems by (simp add: od_set_new)
  then show ?case using Cons as by auto
qed

lemma order_inv_init: "apps_ok all_apps \<Longrightarrow> order_inv all_apps {} (all_apps, [])"
  using satisfiable_present by (auto simp: order_inv_def apps_ok_def)

lemma sorted_ids_split:
  assumes ok: "apps_ok all_apps"
  obtains es ns where "sorted_ids all_apps = Inr (es @ ns)" "set (es @ ns) = set (od_keys all_apps)"
    "set es = {k. essential_app all_apps k}"
proof -
  let ?f = "\<lambda>(k, a). r_bind (app_info a) (\<lambda>i. Inr (k, is_essential i)) :: (string \<times> bool) result"
  obtain ks where ks: "r_map ?f all_apps = Inr ks"
    using ok r_map_succeeds_iff[of ?f all_apps] by (force simp: apps_ok_def)
  then have l: "list_all2 (\<lambda>x y. ?f x = Inr y) all_apps ks" by (simp add: r_map_Inr_iff)
  have fst: "map fst ks = od_keys all_apps"
    using l by (induction rule: list_all2_induct) (auto simp: r_bind_Inr_iff split: prod.splits)
  have ess: "(k, e) \<in> set ks \<longleftrightarrow> (\<exists>a i. (k, a) \<in> set all_apps \<and> app_info a = Inr i \<and> e = is_essential i)" for k e
    using l by (induction rule: list_all2_induct) (auto simp: r_bind_Inr_iff, blast+)
  let ?es = "map fst (filter snd ks)" and ?ns = "map fst (filter (\<lambda>x. \<not> snd x) ks)"
  have "sort_key (\<lambda>(k, essential). \<not> essential) ks = filter snd ks @ filter (\<lambda>x. \<not> snd x) ks"
    using sort_key_bool[of snd ks] by (simp add: case_prod_beta')
  then have 1: "sorted_ids all_apps = Inr (?es @ ?ns)" using ks by (simp add: sorted_ids_def)
  have "set (?es @ ?ns) = fst ` set ks" by auto
  then have 2: "set (?es @ ?ns) = set (od_keys all_apps)" using fst by (metis set_map)
  have "k \<in> set ?es \<longleftrightarrow> essential_app all_apps k" for k
  proof -
    have "k \<in> set ?es \<longleftrightarrow> (k, True) \<in> set ks" by force
    also have "\<dots> \<longleftrightarrow> essential_app all_apps k"
      using ok unfolding ess
      by (auto simp: essential_app_def apps_ok_def map_of_eq_None_iff dest: map_of_SomeD
          split: option.split sum.split intro: rev_image_eqI) (metis map_of_is_SomeI option.inject sum.inject(2))+
    finally show ?thesis .
  qed
  then show ?thesis using that 1 2 by blast
qed

text \<open>The sort in one statement: the ids it orders, in two phases.\<close>

lemma sort_loop_append:
  "sort_loop (ks @ ls) s = r_bind (sort_loop ks s) (sort_loop ls)"
  by (induction ks s rule: sort_loop.induct) (auto split: sum.split prod.split)

lemma sort_apps_phases:
  assumes ok: "apps_ok all_apps"
  obtains res pre post where "sort_apps all_apps = Inr res" "od_keys res = pre @ post"
    "\<forall>k \<in> set (pre @ post). map_of res k = map_of all_apps k" "order_inv all_apps {} ([], pre @ post)"
    "\<forall>x \<in> set pre. \<exists>k. essential_app all_apps k \<and> (requires all_apps)\<^sup>*\<^sup>* k x"
    "\<forall>x \<in> set post. \<not> essential_app all_apps x"
proof -
  obtain es ns where ids: "sorted_ids all_apps = Inr (es @ ns)" "set (es @ ns) = set (od_keys all_apps)"
    and es: "set es = {k. essential_app all_apps k}" using sorted_ids_split[OF ok] by blast
  obtain t where t: "sort_loop es (all_apps, []) = Inr t" "order_inv all_apps {} t"
    "set (od_keys (fst t)) \<subseteq> set (od_keys all_apps) - set es"
    using sort_loop_correct[OF ok order_inv_init[OF ok], of es] by auto
  obtain u where u: "sort_loop ns t = Inr u" "order_inv all_apps {} u" "\<exists>ext. snd u = snd t @ ext"
    "set (od_keys (fst u)) \<subseteq> set (od_keys (fst t)) - set ns"
    using sort_loop_correct[OF ok t(2), of ns] by auto
  obtain post where post: "snd u = snd t @ post" using u(3) by blast
  have "set (od_keys (fst u)) \<subseteq> set (od_keys all_apps) - set es - set ns" using t(3) u(4) by blast
  also have "\<dots> = {}" using ids(2) unfolding set_append by blast
  finally have empty: "fst u = []" by simp
  have inv: "order_inv all_apps {} ([], snd t @ post)" using u(2) empty post by (cases u) simp
  have len: "\<forall>x \<in> set (snd u). \<exists>a. od_get all_apps x = Inr a"
  proof
    fix x assume "x \<in> set (snd u)"
    then have "satisfiable all_apps x" using u(2) by (simp add: order_inv_def)
    then have "x \<in> fst ` set all_apps" using satisfiable_present by fastforce
    then show "\<exists>a. od_get all_apps x = Inr a" by (simp add: od_get_Inr flip: domIff dom_map_of_conv_image_fst) blast
  qed
  then obtain as where as: "r_map (od_get all_apps) (snd u) = Inr as"
    using r_map_succeeds_iff by blast
  then have l: "list_all2 (\<lambda>k a. od_get all_apps k = Inr a) (snd u) as" by (simp add: r_map_Inr_iff)
  have dist: "distinct (snd u)" using inv post by (simp add: order_inv_def)
  have len_as: "length as = length (snd u)" using list_all2_lengthD[OF l] by simp
  have keys: "od_keys (zip (snd u) as) = snd t @ post" using len_as post by simp
  have val: "map_of (zip (snd u) as) k = map_of all_apps k" if "k \<in> set (snd u)" for k
    using l that dist
    by (induction rule: list_all2_induct) (auto simp: od_get_Inr)
  have "fold (\<lambda>(k, a) d. od_set d k a) (zip (snd u) as) [] = zip (snd u) as"
    using fold_od_set[of "snd u" "[]" as] dist len_as by simp
  moreover have "sort_loop (es @ ns) (all_apps, []) = Inr u" using t(1) u(1) by (simp add: sort_loop_append)
  ultimately have res: "sort_apps all_apps = Inr (zip (snd u) as)"
    using ids(1) as by (cases u) (simp add: sort_apps_def)
  have pre: "\<forall>x \<in> set (snd t). \<exists>k. essential_app all_apps k \<and> (requires all_apps)\<^sup>*\<^sup>* k x"
    using sort_loop_reaches[OF t(1), of all_apps] es by (simp add: map_le_def)
  have "\<not> essential_app all_apps x" if x: "x \<in> set post" for x
  proof
    assume e: "essential_app all_apps x"
    have "satisfiable all_apps x" using inv x by (simp add: order_inv_def)
    then have "x \<in> set (od_keys (fst t)) \<union> set (snd t)" using t(2) by (simp add: order_inv_def)
    moreover have "x \<notin> set (snd t)" using inv x by (auto simp: order_inv_def)
    moreover have "x \<notin> set (od_keys (fst t))" using t(3) e es by blast
    ultimately show False by blast
  qed
  then show ?thesis using that[OF res keys _ inv pre] val post by simp
qed

text \<open>C1: \<open>_sort_apps\<close> keeps exactly the apps that can be ordered. It never raises on apps that
  have their Info component; its result holds, each once, the apps all of whose
  dependencies are present and free of cycles, and drops every other app, whatever the order
  of the dict.\<close>

theorem sort_apps_complete:
  assumes "apps_ok all_apps"
  shows "\<exists>res. sort_apps all_apps = Inr res \<and> od_wf res \<and>
    set (od_keys res) = {k. satisfiable all_apps k} \<and>
    (\<forall>k \<in> set (od_keys res). map_of res k = map_of all_apps k)"
proof -
  obtain res pre post where res: "sort_apps all_apps = Inr res" "od_keys res = pre @ post"
    "\<forall>k \<in> set (pre @ post). map_of res k = map_of all_apps k"
    and inv: "order_inv all_apps {} ([], pre @ post)"
    using sort_apps_phases[OF assms] by metis
  have "set (pre @ post) = {k. satisfiable all_apps k}" "distinct (pre @ post)"
    using inv by (auto simp: order_inv_def)
  then show ?thesis using res by (intro exI[of _ res]) (simp del: set_map)
qed

theorem sort_apps_complete_witness:
  "\<exists>res. sort_apps example_apps = Inr res \<and> od_wf res \<and>
    set (od_keys res) = {k. satisfiable example_apps k} \<and>
    (\<forall>k \<in> set (od_keys res). map_of res k = map_of example_apps k)"
  by (rule sort_apps_complete[OF example_apps_ok])

text \<open>In the order that \<open>_sort_apps\<close> computes, every app stands after each app it depends on.\<close>

theorem sort_apps_dependencies_first:
  assumes "apps_ok all_apps" and "sort_apps all_apps = Inr res"
    and "k \<in> set (od_keys res)" and "requires all_apps k d"
  shows "precedes (od_keys res) d k"
proof -
  obtain pre post where res: "od_keys res = pre @ post" and inv: "order_inv all_apps {} ([], pre @ post)"
    using sort_apps_phases[OF assms(1)] assms(2) by (metis sum.inject(2))
  have "k \<in> set (pre @ post)" using assms(3) res by metis
  moreover have "\<forall>k \<in> set (pre @ post). \<forall>d. requires all_apps k d \<longrightarrow> precedes (pre @ post) d k"
    using inv unfolding order_inv_def by simp
  ultimately show ?thesis using assms(4) unfolding res by blast
qed

theorem sort_apps_dependencies_first_witness: "precedes [''base'', ''web''] ''base'' ''web''"
  using sort_apps_dependencies_first[OF example_apps_ok example_sorted, of "''web''" "''base''"]
  by (simp add: requires_def deps_of_def example_apps_def)

text \<open>Essential apps come first: the order splits into a front part, whose apps are essential
  or needed by an essential app, and a rest without any essential app.\<close>

theorem sort_apps_essential_first:
  assumes "apps_ok all_apps" and "sort_apps all_apps = Inr res"
  shows "\<exists>pre post. od_keys res = pre @ post \<and>
    (\<forall>x \<in> set pre. \<exists>k. essential_app all_apps k \<and> (requires all_apps)\<^sup>*\<^sup>* k x) \<and>
    (\<forall>x \<in> set post. \<not> essential_app all_apps x)"
proof -
  obtain pre post where "od_keys res = pre @ post"
    "\<forall>x \<in> set pre. \<exists>k. essential_app all_apps k \<and> (requires all_apps)\<^sup>*\<^sup>* k x"
    "\<forall>x \<in> set post. \<not> essential_app all_apps x"
    using sort_apps_phases[OF assms(1)] assms(2) by (metis sum.inject(2))
  then show ?thesis by blast
qed

theorem sort_apps_essential_first_witness:
  "\<exists>pre post. [''base'', ''web''] = pre @ post \<and>
    (\<forall>x \<in> set pre. \<exists>k. essential_app example_apps k \<and> (requires example_apps)\<^sup>*\<^sup>* k x) \<and>
    (\<forall>x \<in> set post. \<not> essential_app example_apps x)"
  using sort_apps_essential_first[OF example_apps_ok example_sorted] by simp

end
