(* ===== verification/AppLaws.thy ===== *)
theory AppLaws
  imports AppModel
begin

text \<open>
  Laws of apps and components: the contract of a switch (a thing that is enabled, disabled
  and asked), the contract of the components of an app and what enabling and disabling the
  app does under it, the repair of failed checks, the post-initialisation of all apps, and
  the setup state.
\<close>

section \<open>Switches\<close>

locale component_switch =
  fixes enable disable :: "('w, unit) prog"
    and is_on :: "('w, bool) prog"
  assumes enable_ok: "fst (enable w) = Inr ()"
    and disable_ok: "fst (disable w) = Inr ()"
    and on_after_enable: "is_on (snd (enable w)) = (Inr True, snd (enable w))"
    and off_after_disable: "is_on (snd (disable w)) = (Inr False, snd (disable w))"
begin

text \<open>A run of calls: the last one decides.\<close>

definition flip :: "bool \<Rightarrow> ('w, unit) prog" where
  "flip b = (if b then enable else disable)"

lemma flip_ok: "fst (flip b w) = Inr ()"
  by (simp add: flip_def enable_ok disable_ok)

lemma flips_ok: "fst (p_for flip bs w) = Inr ()"
proof (induction bs arbitrary: w)
  case Nil
  then show ?case by (simp add: p_ret_def)
next
  case (Cons b bs)
  then show ?case using flip_ok[of b w]
    by (cases "flip b w") (simp add: p_then_def p_bind_def)
qed

lemma last_flip_decides:
  "is_on (snd (p_for flip (bs @ [b]) w)) = (Inr b, snd (p_for flip (bs @ [b]) w))"
proof (induction bs arbitrary: w)
  case Nil
  then show ?case using flip_ok[of b w] on_after_enable[of w] off_after_disable[of w]
    by (cases "flip b w") (auto simp: p_then_def p_bind_def p_ret_def flip_def split: if_splits)
next
  case (Cons c bs)
  then show ?case using flip_ok[of c w]
    by (cases "flip c w") (simp add: p_then_def p_bind_def)
qed

end

lemma follower_set_enabled_eval [prog_simps]:
  "follower_set_enabled self b w = (Inr (), w\<lparr>enabled_attr := od_set (enabled_attr w) (component_id self) b\<rparr>)"
  by (simp add: follower_set_enabled_def prog_simps)

lemma follower_is_enabled_eval:
  "map_of (enabled_attr w) (component_id self) = Some b \<Longrightarrow> follower_is_enabled self w = (Inr b, w)"
  by (simp add: follower_is_enabled_def)

lemma enable_state_key_eval [simp]:
  "comp_app_id self = Some (c # cs) \<Longrightarrow> enable_state_key self = Inr ((c # cs) @ ''_enable'')"
  by (simp add: enable_state_key_def)

interpretation follower_switch: component_switch
  "follower_enable self :: ('x world_scheme, unit) prog" "follower_disable self" "follower_is_enabled self"
  for self
  by unfold_locales
    (simp_all add: follower_enable_def follower_disable_def prog_simps odict_simps follower_is_enabled_def)

interpretation enable_state_switch: component_switch
  "enable_state_enable (self\<lparr>comp_app_id := Some (c # cs)\<rparr>) :: ('x world_scheme, unit) prog"
  "enable_state_disable (self\<lparr>comp_app_id := Some (c # cs)\<rparr>)"
  "enable_state_is_enabled (self\<lparr>comp_app_id := Some (c # cs)\<rparr>)"
  for self c cs
  by unfold_locales
    (simp_all add: enable_state_enable_def enable_state_disable_def enable_state_is_enabled_def
      p_bind_def p_lift_def p_ret_def prog_simps odict_simps)

section \<open>The components of an app\<close>

text \<open>
  What the operations of an app rely on: enabling and disabling a component succeeds and
  switches it, and does not switch another leader of the app the other way.
\<close>

locale app_contract =
  fixes cs :: "'w component list"
  assumes enable_total: "c \<in> set cs \<Longrightarrow> fst (vt_enable (vt c) (obj c) w) = Inr ()"
    and disable_total: "c \<in> set cs \<Longrightarrow> fst (vt_disable (vt c) (obj c) w) = Inr ()"
    and leader_on: "c \<in> set cs \<Longrightarrow> is_leader (obj c) \<Longrightarrow>
      vt_is_enabled (vt c) (obj c) (snd (vt_enable (vt c) (obj c) w)) = (Inr True, snd (vt_enable (vt c) (obj c) w))"
    and leader_off: "c \<in> set cs \<Longrightarrow> is_leader (obj c) \<Longrightarrow>
      vt_is_enabled (vt c) (obj c) (snd (vt_disable (vt c) (obj c) w)) = (Inr False, snd (vt_disable (vt c) (obj c) w))"
    and on_stable: "c \<in> set cs \<Longrightarrow> d \<in> set cs \<Longrightarrow> is_leader (obj d) \<Longrightarrow> vt_is_enabled (vt d) (obj d) w = (Inr True, w) \<Longrightarrow>
      vt_is_enabled (vt d) (obj d) (snd (vt_enable (vt c) (obj c) w)) = (Inr True, snd (vt_enable (vt c) (obj c) w))"
    and off_stable: "c \<in> set cs \<Longrightarrow> d \<in> set cs \<Longrightarrow> is_leader (obj d) \<Longrightarrow> vt_is_enabled (vt d) (obj d) w = (Inr False, w) \<Longrightarrow>
      vt_is_enabled (vt d) (obj d) (snd (vt_disable (vt c) (obj c) w)) = (Inr False, snd (vt_disable (vt c) (obj c) w))"
begin

lemma enable_run:
  "set ds \<subseteq> set cs \<Longrightarrow> (\<forall>d \<in> set es. d \<in> set cs \<and> is_leader (obj d) \<and> vt_is_enabled (vt d) (obj d) w = (Inr True, w)) \<Longrightarrow>
   \<exists>w'. p_for (\<lambda>c. vt_enable (vt c) (obj c)) ds w = (Inr (), w') \<and>
     (\<forall>d \<in> set es \<union> {d \<in> set ds. is_leader (obj d)}. vt_is_enabled (vt d) (obj d) w' = (Inr True, w'))"
proof (induction ds arbitrary: es w)
  case Nil
  then show ?case by (simp add: p_ret_def)
next
  case (Cons c ds)
  obtain w1 where w1: "vt_enable (vt c) (obj c) w = (Inr (), w1)"
    using enable_total[of c w] Cons.prems(1) by (cases "vt_enable (vt c) (obj c) w") auto
  let ?es = "if is_leader (obj c) then c # es else es"
  have "\<forall>d \<in> set ?es. d \<in> set cs \<and> is_leader (obj d) \<and> vt_is_enabled (vt d) (obj d) w1 = (Inr True, w1)"
    using Cons.prems w1 leader_on[of c w] on_stable[of c _ w] by (auto split: if_splits)
  moreover have "set ds \<subseteq> set cs" using Cons.prems(1) by simp
  ultimately obtain w' where w': "p_for (\<lambda>c. vt_enable (vt c) (obj c)) ds w1 = (Inr (), w')"
      "\<forall>d \<in> set ?es \<union> {d \<in> set ds. is_leader (obj d)}. vt_is_enabled (vt d) (obj d) w' = (Inr True, w')"
    using Cons.IH[of ?es w1] by blast
  have "set es \<union> {d \<in> set (c # ds). is_leader (obj d)} \<subseteq> set ?es \<union> {d \<in> set ds. is_leader (obj d)}"
    by auto
  then have "\<forall>d \<in> set es \<union> {d \<in> set (c # ds). is_leader (obj d)}. vt_is_enabled (vt d) (obj d) w' = (Inr True, w')"
    using w'(2) by blast
  moreover have "p_for (\<lambda>c. vt_enable (vt c) (obj c)) (c # ds) w = (Inr (), w')"
    using w1 w'(1) by (simp add: prog_simps)
  ultimately show ?case by blast
qed

lemma disable_run:
  "set ds \<subseteq> set cs \<Longrightarrow> (\<forall>d \<in> set es. d \<in> set cs \<and> is_leader (obj d) \<and> vt_is_enabled (vt d) (obj d) w = (Inr False, w)) \<Longrightarrow>
   \<exists>w'. p_for (\<lambda>c. vt_disable (vt c) (obj c)) ds w = (Inr (), w') \<and>
     (\<forall>d \<in> set es \<union> {d \<in> set ds. is_leader (obj d)}. vt_is_enabled (vt d) (obj d) w' = (Inr False, w'))"
proof (induction ds arbitrary: es w)
  case Nil
  then show ?case by (simp add: p_ret_def)
next
  case (Cons c ds)
  obtain w1 where w1: "vt_disable (vt c) (obj c) w = (Inr (), w1)"
    using disable_total[of c w] Cons.prems(1) by (cases "vt_disable (vt c) (obj c) w") auto
  let ?es = "if is_leader (obj c) then c # es else es"
  have "\<forall>d \<in> set ?es. d \<in> set cs \<and> is_leader (obj d) \<and> vt_is_enabled (vt d) (obj d) w1 = (Inr False, w1)"
    using Cons.prems w1 leader_off[of c w] off_stable[of c _ w] by (auto split: if_splits)
  moreover have "set ds \<subseteq> set cs" using Cons.prems(1) by simp
  ultimately obtain w' where w': "p_for (\<lambda>c. vt_disable (vt c) (obj c)) ds w1 = (Inr (), w')"
      "\<forall>d \<in> set ?es \<union> {d \<in> set ds. is_leader (obj d)}. vt_is_enabled (vt d) (obj d) w' = (Inr False, w')"
    using Cons.IH[of ?es w1] by blast
  have "set es \<union> {d \<in> set (c # ds). is_leader (obj d)} \<subseteq> set ?es \<union> {d \<in> set ds. is_leader (obj d)}"
    by auto
  then have "\<forall>d \<in> set es \<union> {d \<in> set (c # ds). is_leader (obj d)}. vt_is_enabled (vt d) (obj d) w' = (Inr False, w')"
    using w'(2) by blast
  moreover have "p_for (\<lambda>c. vt_disable (vt c) (obj c)) (c # ds) w = (Inr (), w')"
    using w1 w'(1) by (simp add: prog_simps)
  ultimately show ?case by blast
qed

lemma p_all_const: "\<forall>d \<in> set ds. f d w = (Inr b, w) \<Longrightarrow> p_all f ds w = (Inr (ds = [] \<or> b), w)"
proof (induction ds)
  case (Cons d ds)
  then show ?case by (cases b) (auto simp: p_bind_def p_ret_def)
qed (simp add: p_ret_def)

lemma enable_all:
  "\<exists>w'. p_for (\<lambda>c. vt_enable (vt c) (obj c)) cs w = (Inr (), w') \<and>
     p_all (\<lambda>c. vt_is_enabled (vt c) (obj c)) (filter (\<lambda>c. is_leader (obj c)) cs) w' = (Inr True, w')"
proof -
  obtain w' where w': "p_for (\<lambda>c. vt_enable (vt c) (obj c)) cs w = (Inr (), w')"
      "\<forall>d \<in> {d \<in> set cs. is_leader (obj d)}. vt_is_enabled (vt d) (obj d) w' = (Inr True, w')"
    using enable_run[of cs "[]" w] by auto
  then have "p_all (\<lambda>c. vt_is_enabled (vt c) (obj c)) (filter (\<lambda>c. is_leader (obj c)) cs) w' = (Inr True, w')"
    using p_all_const[of "filter (\<lambda>c. is_leader (obj c)) cs" "\<lambda>c. vt_is_enabled (vt c) (obj c)" w' True] by simp
  with w' show ?thesis by blast
qed

lemma disable_all:
  "\<exists>w'. p_for (\<lambda>c. vt_disable (vt c) (obj c)) (rev cs) w = (Inr (), w') \<and>
     p_all (\<lambda>c. vt_is_enabled (vt c) (obj c)) (filter (\<lambda>c. is_leader (obj c)) cs) w' =
       (Inr (\<not> (\<exists>c \<in> set cs. is_leader (obj c))), w')"
proof -
  obtain w' where w': "p_for (\<lambda>c. vt_disable (vt c) (obj c)) (rev cs) w = (Inr (), w')"
      "\<forall>d \<in> {d \<in> set cs. is_leader (obj d)}. vt_is_enabled (vt d) (obj d) w' = (Inr False, w')"
    using disable_run[of "rev cs" "[]" w] by auto
  then have "p_all (\<lambda>c. vt_is_enabled (vt c) (obj c)) (filter (\<lambda>c. is_leader (obj c)) cs) w' =
      (Inr (\<not> (\<exists>c \<in> set cs. is_leader (obj c))), w')"
    using p_all_const[of "filter (\<lambda>c. is_leader (obj c)) cs" "\<lambda>c. vt_is_enabled (vt c) (obj c)" w' False]
    by (auto simp: filter_empty_conv)
  with w' show ?thesis by blast
qed

end

text \<open>
  A component of an app whose state is kept by FreedomBox itself: a follower with its flag
  or an \<open>EnableState\<close> of the app.
\<close>

definition flag_component :: "string \<Rightarrow> ('x world_scheme) component \<Rightarrow> bool" where
  "flag_component aid c \<longleftrightarrow>
     (\<not> is_leader (obj c) \<and> vt c = follower_vtable) \<or>
     (is_leader (obj c) \<and> vt c = enable_state_vtable \<and> comp_app_id (obj c) = Some aid)"

lemmas vtable_defs = follower_vtable_def enable_state_vtable_def leader_vtable_def component_vtable_def

lemma enable_state_eval:
  "comp_app_id self = Some aid \<Longrightarrow> aid \<noteq> [] \<Longrightarrow>
     enable_state_enable self w = (Inr (), w\<lparr>kv := od_set (kv w) (aid @ ''_enable'') (JBool True)\<rparr>)"
  "comp_app_id self = Some aid \<Longrightarrow> aid \<noteq> [] \<Longrightarrow>
     enable_state_disable self w = (Inr (), w\<lparr>kv := od_set (kv w) (aid @ ''_enable'') (JBool False)\<rparr>)"
  "comp_app_id self = Some aid \<Longrightarrow> aid \<noteq> [] \<Longrightarrow>
     enable_state_is_enabled self w =
       (Inr (case map_of (kv w) (aid @ ''_enable'') of None \<Rightarrow> False | Some v \<Rightarrow> truthy v), w)"
  by (simp_all add: enable_state_enable_def enable_state_disable_def enable_state_is_enabled_def
      enable_state_key_def p_bind_def p_lift_def p_ret_def prog_simps split: option.split)

lemma flag_components_contract:
  fixes cs :: "('x world_scheme) component list"
  assumes "aid \<noteq> []" and "\<forall>c \<in> set cs. flag_component aid c"
  shows "app_contract cs"
proof unfold_locales
  fix c d :: "('x world_scheme) component" and w :: "'x world_scheme"
  assume c: "c \<in> set cs"
  then have fc: "flag_component aid c" using assms(2) by simp
  note sim = flag_component_def vtable_defs enable_state_eval[OF _ assms(1)] prog_simps odict_simps
    follower_enable_def follower_disable_def
  show "fst (vt_enable (vt c) (obj c) w) = Inr ()" using fc by (auto simp: sim)
  show "fst (vt_disable (vt c) (obj c) w) = Inr ()" using fc by (auto simp: sim)
  show "is_leader (obj c) \<Longrightarrow>
    vt_is_enabled (vt c) (obj c) (snd (vt_enable (vt c) (obj c) w)) = (Inr True, snd (vt_enable (vt c) (obj c) w))"
    using fc by (auto simp: sim)
  show "is_leader (obj c) \<Longrightarrow>
    vt_is_enabled (vt c) (obj c) (snd (vt_disable (vt c) (obj c) w)) = (Inr False, snd (vt_disable (vt c) (obj c) w))"
    using fc by (auto simp: sim)
  assume "d \<in> set cs" and l: "is_leader (obj d)"
  then have fd: "flag_component aid d" using assms(2) by simp
  show "vt_is_enabled (vt d) (obj d) w = (Inr True, w) \<Longrightarrow>
    vt_is_enabled (vt d) (obj d) (snd (vt_enable (vt c) (obj c) w)) = (Inr True, snd (vt_enable (vt c) (obj c) w))"
    using fc fd l by (auto simp: sim)
  show "vt_is_enabled (vt d) (obj d) w = (Inr False, w) \<Longrightarrow>
    vt_is_enabled (vt d) (obj d) (snd (vt_disable (vt c) (obj c) w)) = (Inr False, snd (vt_disable (vt c) (obj c) w))"
    using fc fd l by (auto simp: sim)
qed

text \<open>The contract at the components of an app made of an Info-like follower and an EnableState.\<close>

definition flag_app_components :: "string \<Rightarrow> ('x world_scheme) component list" where
  "flag_app_components aid =
     [\<lparr>obj = \<lparr>component_id = aid @ ''-info'', comp_app_id = Some aid, is_leader = False,
             classes = [''Info'', ''FollowerComponent'', ''Component''], info = None, packages = None\<rparr>, vt = follower_vtable\<rparr>,
      \<lparr>obj = \<lparr>component_id = ''enable-state'', comp_app_id = Some aid, is_leader = True,
             classes = [''EnableState'', ''LeaderComponent'', ''Component''], info = None, packages = None\<rparr>,
       vt = enable_state_vtable\<rparr>]"

interpretation flag_app: app_contract "flag_app_components (c # aid)" for c aid
  by (rule flag_components_contract[of "c # aid"]) (simp_all add: flag_app_components_def flag_component_def)

lemma app_enable_disable_flags:
  assumes "aid \<noteq> []" and "\<forall>c \<in> set (od_values (components a)). flag_component aid c"
  shows "\<exists>w1 w2. app_enable a w = (Inr (), w1) \<and> app_is_enabled a w1 = (Inr True, w1) \<and>
    app_disable a w = (Inr (), w2) \<and>
    app_is_enabled a w2 = (Inr (\<not> (\<exists>c \<in> set (od_values (components a)). is_leader (obj c))), w2)"
proof -
  have con: "app_contract (od_values (components a))" by (rule flag_components_contract[OF assms])
  obtain w1 where "app_enable a w = (Inr (), w1)" "app_is_enabled a w1 = (Inr True, w1)"
    using app_contract.enable_all[OF con, of w] unfolding app_enable_def app_is_enabled_def by blast
  moreover obtain w2 where "app_disable a w = (Inr (), w2)"
      "app_is_enabled a w2 = (Inr (\<not> (\<exists>c \<in> set (od_values (components a)). is_leader (obj c))), w2)"
    using app_contract.disable_all[OF con, of w] unfolding app_disable_def app_is_enabled_def by blast
  ultimately show ?thesis by blast
qed

text \<open>Enabling an app turns it on and disabling it turns it off: after \<open>App.enable\<close> the app
  reports enabled, and after \<open>App.disable\<close> it reports disabled exactly when it has a leader
  component, in every world, for apps built from followers and EnableState.\<close>

theorem app_enable_disable:
  assumes "aid \<noteq> []" and "\<forall>c \<in> set (od_values (components a)). flag_component aid c"
  shows "\<exists>w1 w2. app_enable a w = (Inr (), w1) \<and> app_is_enabled a w1 = (Inr True, w1) \<and>
    app_disable a w = (Inr (), w2) \<and>
    app_is_enabled a w2 = (Inr (\<not> (\<exists>c \<in> set (od_values (components a)). is_leader (obj c))), w2)"
  by (rule app_enable_disable_flags[OF assms])

definition flag_app :: "string \<Rightarrow> world app" where
  "flag_app aid =
     \<lparr>app_id = aid, can_be_disabled = True, configure_when_disabled = True,
      components = map (\<lambda>c. (component_id (obj c), c)) (flag_app_components aid),
      ov_post_init = p_ret (), ov_setup = None, ov_uninstall = None, ov_enable = None,
      ov_disable = None, ov_diagnose = None, ov_repair = None\<rparr>"

theorem app_enable_disable_witness:
  "\<exists>w1 w2. app_enable (flag_app ''tor'') \<lparr>kv = [], module_versions = [], enabled_attr = []\<rparr> = (Inr (), w1) \<and>
    app_is_enabled (flag_app ''tor'') w1 = (Inr True, w1) \<and>
    app_disable (flag_app ''tor'') \<lparr>kv = [], module_versions = [], enabled_attr = []\<rparr> = (Inr (), w2) \<and>
    app_is_enabled (flag_app ''tor'') w2 = (Inr False, w2)"
proof -
  have "\<forall>c \<in> set (od_values (components (flag_app ''tor''))). flag_component ''tor'' c"
    by (simp add: flag_app_def flag_app_components_def flag_component_def)
  then show ?thesis
    using app_enable_disable[of "''tor''" "flag_app ''tor''" "\<lparr>kv = [], module_versions = [], enabled_attr = []\<rparr>"]
    by (simp add: flag_app_def flag_app_components_def)
qed

section \<open>Repair\<close>

definition concerns :: "'w app \<Rightarrow> diagnostic_check \<Rightarrow> bool" where
  "concerns a ch = (if has_component ch then the (check_component_id ch) \<in> set (od_keys (components a)) else True)"

lemma checks_of_filter:
  "cid \<in> set (od_keys (components a)) \<Longrightarrow> checks_of (filter (concerns a) chs) cid = checks_of chs cid"
  by (induction chs) (auto simp: checks_of_def concerns_def)

lemma repair_components_cong:
  "(\<forall>p \<in> set ps. checks_of chs (fst p) = checks_of chs' (fst p)) \<Longrightarrow>
     repair_components chs ps rerun = repair_components chs' ps rerun"
  by (induction ps arbitrary: rerun) auto

text \<open>\<open>App.repair\<close> looks only at the checks of its own components and at the checks that
  name no component: a failed check that names a component the app does not have is dropped
  without a repair and without asking for a rerun of the setup.\<close>

lemma app_repair_ignores_foreign_checks:
  "app_repair a chs = app_repair a (filter (concerns a) chs)"
proof -
  have "repair_components chs (components a) = repair_components (filter (concerns a) chs) (components a)"
    using checks_of_filter[of _ a chs] by (intro ext repair_components_cong[THEN fun_cong]) force
  moreover have "(\<exists>ch \<in> set chs. \<not> has_component ch) = (\<exists>ch \<in> set (filter (concerns a) chs). \<not> has_component ch)"
    by (auto simp: concerns_def)
  ultimately show ?thesis by (simp only: app_repair_def)
qed

lemma repair_components_result:
  assumes "\<forall>p \<in> set ps. \<forall>ks v. vt_repair (vt (snd p)) (obj (snd p)) ks v = (Inr (f (fst p) ks), v)"
  shows "repair_components chs ps rerun w =
    (Inr (rerun \<or> (\<exists>cid \<in> fst ` set ps. checks_of chs cid \<noteq> [] \<and> f cid (checks_of chs cid))), w)"
  using assms by (induction ps arbitrary: rerun) (auto simp: p_bind_def p_ret_def)

section \<open>Post-initialisation and setup state\<close>

text \<open>Outside development mode the post-initialisation of the apps never raises and reaches
  every app: it runs \<open>post_init\<close>, and the re-enabling of the followers of an enabled app, for
  one app after the other, whatever the earlier ones raised.\<close>

lemma apps_post_init_reaches_all:
  "apps_post_init False all_apps w = (Inr (), fold (\<lambda>a v. snd (post_init_one a v)) (od_values all_apps) w)"
  unfolding apps_post_init_def
  by (rule p_for_total) (auto simp: p_catch_def p_ret_def split: prod.split sum.split)

lemma get_setup_version_eval [prog_simps]:
  "get_setup_version a w = (Inr (case map_of (module_versions w) (app_id a) of None \<Rightarrow> 0 | Some n \<Rightarrow> n), w)"
  by (simp add: get_setup_version_def module_version_get_def p_catch_def p_ret_def split: option.split)

lemma set_setup_version_eval [prog_simps]:
  "set_setup_version a n w = (Inr (), w\<lparr>module_versions := od_set (module_versions w) (app_id a) n\<rparr>)"
  by (simp add: set_setup_version_def module_version_set_def prog_simps)

lemma get_setup_state_eval:
  "app_info a = Inr i \<Longrightarrow>
   get_setup_state a w =
     (Inr (let n = (case map_of (module_versions w) (app_id a) of None \<Rightarrow> 0 | Some n \<Rightarrow> n)
           in if n = 0 then NEEDS_SETUP else if version i \<le> n then UP_TO_DATE else NEEDS_UPDATE), w)"
  by (simp add: get_setup_state_def p_bind_def p_lift_def p_ret_def prog_simps Let_def split: option.split)

lemma needs_setup_eval:
  "app_info a = Inr i \<Longrightarrow>
   needs_setup a w = (Inr ((case map_of (module_versions w) (app_id a) of None \<Rightarrow> 0 | Some n \<Rightarrow> n) = 0), w)"
  by (simp add: needs_setup_def get_setup_state_eval p_bind_def p_ret_def Let_def)

text \<open>The state machine of an app: installed at its version, up to date; version 0, needs setup.\<close>

lemma setup_state_after_set:
  "app_info a = Inr i \<Longrightarrow>
   fst (get_setup_state a (snd (set_setup_version a n w))) =
     Inr (if n = 0 then NEEDS_SETUP else if version i \<le> n then UP_TO_DATE else NEEDS_UPDATE)"
  by (simp add: get_setup_state_eval prog_simps odict_simps)

end
