(* ===== verification/Operations.thy ===== *)
theory Operations
  imports AppModel
begin

text \<open>
  Operations and their manager (plinth/operation.py). Operation objects live in a heap and
  are named by their index; the manager's dict maps operation ids to them. The thread of an
  operation has a program counter, because the code sets the state COMPLETED outside the
  manager's lock and takes the lock only later, in \<open>_on_operation_complete\<close>: other threads may
  call the manager in between. Methods that hold the lock are single steps.
\<close>

section \<open>Operations\<close>

datatype op_state = WAITING | RUNNING | COMPLETED

datatype thread_pc = Not_started | In_target | At_on_complete | Thread_done

record operation =
  op_id :: string
  op_app_id :: string
  op_name :: string
  show_message :: bool
  show_notification :: bool
  op_state :: op_state
  return_value :: "json option"
  op_message :: "string option"
  op_exception :: "exn option"
  thread_pc :: thread_pc

definition operation_init :: "string \<Rightarrow> string \<Rightarrow> string \<Rightarrow> bool \<Rightarrow> bool \<Rightarrow> operation" where
  "operation_init oid app name show_msg show_notif =
     \<lparr>op_id = oid, op_app_id = app, op_name = name, show_message = show_msg,
      show_notification = show_notif, op_state = WAITING, return_value = None,
      op_message = None, op_exception = None, thread_pc = Not_started\<rparr>"

definition operation_str :: "operation \<Rightarrow> string" where
  "operation_str o' = ''Operation: '' @ op_app_id o' @ '': '' @ op_name o'"

text \<open>\<open>_catch_thread_errors\<close> up to the end of the \<open>finally\<close> clause's assignment.\<close>

definition operation_finish :: "json option result \<Rightarrow> operation \<Rightarrow> operation" where
  "operation_finish res o' =
     (case res of
        Inr v \<Rightarrow> o'\<lparr>return_value := v, op_state := COMPLETED, thread_pc := At_on_complete\<rparr>
      | Inl e \<Rightarrow> o'\<lparr>op_exception := Some e, op_state := COMPLETED, thread_pc := At_on_complete\<rparr>)"

definition operation_run :: "operation \<Rightarrow> operation" where
  "operation_run o' = o'\<lparr>op_state := RUNNING, thread_pc := In_target\<rparr>"

text \<open>What \<open>join\<close> raises or returns once the thread is done.\<close>

definition operation_join :: "operation \<Rightarrow> json option result" where
  "operation_join o' = (case op_exception o' of Some e \<Rightarrow> Inl e | None \<Rightarrow> Inr (return_value o'))"

definition operation_on_update :: "string option \<Rightarrow> exn option \<Rightarrow> operation \<Rightarrow> operation" where
  "operation_on_update msg ex o' =
     (let o1 = (case msg of None \<Rightarrow> o' | Some m \<Rightarrow> if m = [] then o' else o'\<lparr>op_message := Some m\<rparr>)
      in case ex of None \<Rightarrow> o1 | Some e \<Rightarrow> o1\<lparr>op_exception := Some e\<rparr>)"

definition operation_message :: "operation \<Rightarrow> string" where
  "operation_message o' =
     (case op_message o' of
        Some m \<Rightarrow> m
      | None \<Rightarrow>
          if op_exception o' \<noteq> None then ''Error: {name}: {exception}''
          else (case op_state o' of
                  WAITING \<Rightarrow> ''Waiting to start: {name}''
                | RUNNING \<Rightarrow> ''{name}''
                | COMPLETED \<Rightarrow> ''Finished: {name}''))"

text \<open>What \<open>_update_notification\<close> hands to the notifications, when it does.\<close>

record op_notification =
  on_id :: string
  on_app_id :: string
  on_severity :: string
  on_title :: "string option"
  on_message :: string
  on_state :: op_state
  on_exception :: "exn option"

definition operation_notification :: "'w apps \<Rightarrow> operation \<Rightarrow> op_notification option result" where
  "operation_notification all_apps o' =
     (if \<not> show_notification o' then Inr None
      else r_bind (od_get all_apps (op_app_id o')) (\<lambda>a. r_bind (app_info a) (\<lambda>i.
        Inr (Some \<lparr>on_id = op_app_id o' @ ''-operation'', on_app_id = op_app_id o',
                   on_severity = (if op_exception o' = None then ''info'' else ''error''),
                   on_title = info_name i, on_message = operation_message o',
                   on_state = op_state o', on_exception = op_exception o'\<rparr>))))"

section \<open>The manager\<close>

record ops_manager =
  heap :: "operation list"
  operations :: "(string, nat) odict"
  current_operation :: "nat option"

definition manager_init :: ops_manager where
  "manager_init = \<lparr>heap = [], operations = [], current_operation = None\<rparr>"

definition heap_mod :: "nat \<Rightarrow> (operation \<Rightarrow> operation) \<Rightarrow> ops_manager \<Rightarrow> ops_manager" where
  "heap_mod r f m = m\<lparr>heap := (heap m)[r := f (heap m ! r)]\<rparr>"

definition schedule_next :: "ops_manager \<Rightarrow> ops_manager" where
  "schedule_next m =
     (if current_operation m \<noteq> None then m
      else case find (\<lambda>r. op_state (heap m ! r) = WAITING) (od_values (operations m)) of
             None \<Rightarrow> m
           | Some r \<Rightarrow> heap_mod r operation_run (m\<lparr>current_operation := Some r\<rparr>))"

definition manager_new ::
  "string \<Rightarrow> string \<Rightarrow> string \<Rightarrow> bool \<Rightarrow> bool \<Rightarrow> (ops_manager, nat) prog"
where
  "manager_new oid app name show_msg show_notif m =
     (if (\<exists>r. map_of (operations m) oid = Some r \<and> op_state (heap m ! r) \<noteq> COMPLETED)
      then (Inl (KeyError ''Operation in progress/scheduled''), m)
      else let r = length (heap m)
           in (Inr r, schedule_next
                (m\<lparr>heap := heap m @ [operation_init oid app name show_msg show_notif],
                   operations := od_set (operations m) oid r\<rparr>)))"

definition manager_get :: "string \<Rightarrow> ops_manager \<Rightarrow> nat result" where
  "manager_get oid m = od_get (operations m) oid"

text \<open>
  \<open>_on_operation_complete\<close>: a KeyError of the \<open>del\<close> leaves the method before the next
  operation is scheduled. The thread ends with it.
\<close>

definition on_operation_complete :: "nat \<Rightarrow> (ops_manager, unit) prog" where
  "on_operation_complete r m =
     (let m1 = heap_mod r (\<lambda>o'. o'\<lparr>thread_pc := Thread_done\<rparr>) (m\<lparr>current_operation := None\<rparr>)
      in if show_message (heap m ! r) then (Inr (), schedule_next m1)
         else case od_pop (operations m) (op_id (heap m ! r)) of
                Inl e \<Rightarrow> (Inl e, m1)
              | Inr (_, ops) \<Rightarrow> (Inr (), schedule_next (m1\<lparr>operations := ops\<rparr>)))"

definition manager_filter :: "string \<Rightarrow> ops_manager \<Rightarrow> nat list" where
  "manager_filter app m = filter (\<lambda>r. op_app_id (heap m ! r) = app) (od_values (operations m))"

definition finished_for :: "string \<Rightarrow> ops_manager \<Rightarrow> nat \<Rightarrow> bool" where
  "finished_for app m r \<longleftrightarrow> op_app_id (heap m ! r) = app \<and> op_state (heap m ! r) = COMPLETED"

text \<open>\<open>remaining\<close> is rebuilt with the ids of the operation objects as keys.\<close>

definition collect_results :: "string \<Rightarrow> ops_manager \<Rightarrow> nat list \<times> ops_manager" where
  "collect_results app m =
     (let results = filter (finished_for app m) (od_values (operations m));
          remaining = fold (\<lambda>r d. od_set d (op_id (heap m ! r)) r)
                        (filter (\<lambda>r. \<not> finished_for app m r) (od_values (operations m))) []
      in (results, if results \<noteq> [] then m\<lparr>operations := remaining\<rparr> else m))"

section \<open>Steps of the threads\<close>

datatype op_event =
    New string string string bool bool
  | Update nat "string option" "exn option"
  | Finish nat "json option result"
  | On_complete nat
  | Collect string

text \<open>\<open>None\<close>: the event cannot happen in this state, its thread being somewhere else.\<close>

fun op_exec :: "op_event \<Rightarrow> ops_manager \<Rightarrow> ops_manager option" where
  "op_exec (New oid app name sm sn) m = Some (snd (manager_new oid app name sm sn m))"
| "op_exec (Update r msg ex) m =
     (if r < length (heap m) \<and> thread_pc (heap m ! r) = In_target
      then Some (heap_mod r (operation_on_update msg ex) m) else None)"
| "op_exec (Finish r res) m =
     (if r < length (heap m) \<and> thread_pc (heap m ! r) = In_target
      then Some (heap_mod r (operation_finish res) m) else None)"
| "op_exec (On_complete r) m =
     (if r < length (heap m) \<and> thread_pc (heap m ! r) = At_on_complete
      then Some (snd (on_operation_complete r m)) else None)"
| "op_exec (Collect app) m = Some (snd (collect_results app m))"

inductive reachable :: "ops_manager \<Rightarrow> bool" where
  reachable_init: "reachable manager_init"
| reachable_step: "reachable m \<Longrightarrow> op_exec e m = Some m' \<Longrightarrow> reachable m'"

text \<open>
  The runs in which no call of another thread falls between the end of an operation and its
  \<open>_on_operation_complete\<close>.
\<close>

inductive reachable_quiet :: "ops_manager \<Rightarrow> bool" where
  quiet_init: "reachable_quiet manager_init"
| quiet_new: "reachable_quiet m \<Longrightarrow> reachable_quiet (snd (manager_new oid app name sm sn m))"
| quiet_update: "reachable_quiet m \<Longrightarrow> op_exec (Update r msg ex) m = Some m' \<Longrightarrow> reachable_quiet m'"
| quiet_end: "reachable_quiet m \<Longrightarrow> op_exec (Finish r res) m = Some m1 \<Longrightarrow>
    op_exec (On_complete r) m1 = Some m2 \<Longrightarrow> reachable_quiet m2"
| quiet_collect: "reachable_quiet m \<Longrightarrow> reachable_quiet (snd (collect_results app m))"

primrec run_events :: "op_event list \<Rightarrow> ops_manager \<Rightarrow> ops_manager option" where
  "run_events [] m = Some m"
| "run_events (e # es) m = (case op_exec e m of None \<Rightarrow> None | Some m' \<Rightarrow> run_events es m')"

lemma run_events_reachable: "reachable m \<Longrightarrow> run_events es m = Some m' \<Longrightarrow> reachable m'"
  by (induction es arbitrary: m) (auto split: option.splits intro: reachable_step)

section \<open>The invariant\<close>

definition active :: "ops_manager \<Rightarrow> nat \<Rightarrow> bool" where
  "active m r \<longleftrightarrow> r < length (heap m) \<and> thread_pc (heap m ! r) \<in> {In_target, At_on_complete}"

fun pc_matches :: "operation \<Rightarrow> bool" where
  "pc_matches o' \<longleftrightarrow>
     (op_state o' = WAITING \<longleftrightarrow> thread_pc o' = Not_started) \<and>
     (op_state o' = RUNNING \<longleftrightarrow> thread_pc o' = In_target)"

definition ops_inv :: "ops_manager \<Rightarrow> bool" where
  "ops_inv m \<longleftrightarrow>
     od_wf (operations m) \<and>
     (\<forall>(k, r) \<in> set (operations m). r < length (heap m) \<and> op_id (heap m ! r) = k) \<and>
     (\<forall>r < length (heap m). pc_matches (heap m ! r)) \<and>
     (\<forall>r. active m r \<longleftrightarrow> current_operation m = Some r)"

lemma heap_mod_fields [simp]:
  "operations (heap_mod r f m) = operations m"
  "current_operation (heap_mod r f m) = current_operation m"
  "length (heap (heap_mod r f m)) = length (heap m)"
  by (simp_all add: heap_mod_def)

lemma heap_mod_nth [simp]:
  "r < length (heap m) \<Longrightarrow> heap (heap_mod r f m) ! r = f (heap m ! r)"
  "r' \<noteq> r \<Longrightarrow> heap (heap_mod r f m) ! r' = heap m ! r'"
  by (simp_all add: heap_mod_def)

lemma find_SomeD: "find P xs = Some x \<Longrightarrow> x \<in> set xs \<and> P x"
  by (auto simp: find_Some_iff)

lemma ops_inv_value: "ops_inv m \<Longrightarrow> r \<in> set (od_values (operations m)) \<Longrightarrow> r < length (heap m)"
  by (auto simp: ops_inv_def)

text \<open>A step of one operation that does not move its thread keeps the invariant.\<close>

lemma ops_inv_heap_mod:
  assumes inv: "ops_inv m" and r: "r < length (heap m)"
    and keep: "op_id (f (heap m ! r)) = op_id (heap m ! r)" "pc_matches (f (heap m ! r))"
      "thread_pc (f (heap m ! r)) \<in> {In_target, At_on_complete} \<longleftrightarrow> thread_pc (heap m ! r) \<in> {In_target, At_on_complete}"
  shows "ops_inv (heap_mod r f m)"
proof -
  have nth: "heap (heap_mod r f m) ! r' = (if r' = r then f (heap m ! r) else heap m ! r')" for r'
    using r by simp
  have "active (heap_mod r f m) r' \<longleftrightarrow> active m r'" for r'
    using keep(3) by (simp add: active_def nth)
  then show ?thesis
    using inv keep(1,2) unfolding ops_inv_def nth by (auto split: prod.splits)
qed

lemma schedule_next_inv:
  assumes inv: "ops_inv m"
  shows "ops_inv (schedule_next m)"
proof (cases "current_operation m = None \<and> find (\<lambda>r. op_state (heap m ! r) = WAITING) (od_values (operations m)) \<noteq> None")
  case False
  then show ?thesis using inv by (auto simp: schedule_next_def)
next
  case True
  then obtain r where r: "find (\<lambda>r. op_state (heap m ! r) = WAITING) (od_values (operations m)) = Some r"
    by auto
  then have rin: "r \<in> set (od_values (operations m))" and w: "op_state (heap m ! r) = WAITING"
    by (auto dest: find_SomeD)
  have len: "r < length (heap m)" using inv rin by (rule ops_inv_value)
  have none: "\<not> active m r'" for r' using inv True by (simp add: ops_inv_def)
  let ?m' = "heap_mod r operation_run (m\<lparr>current_operation := Some r\<rparr>)"
  have nth: "heap ?m' ! r' = (if r' = r then operation_run (heap m ! r) else heap m ! r')" for r'
    using len by simp
  have act: "active ?m' r' \<longleftrightarrow> r' = r" for r'
    using none[of r'] len by (auto simp: active_def nth operation_run_def)
  have eq: "schedule_next m = ?m'" using True r by (simp add: schedule_next_def)
  have 1: "od_wf (operations ?m')" and 2: "\<forall>(k, r') \<in> set (operations ?m'). r' < length (heap ?m') \<and> op_id (heap ?m' ! r') = k"
    and 3: "\<forall>r' < length (heap ?m'). pc_matches (heap ?m' ! r')"
    using inv unfolding ops_inv_def nth by (auto simp: operation_run_def split: prod.splits)
  have 4: "\<forall>r'. active ?m' r' \<longleftrightarrow> current_operation ?m' = Some r'"
    unfolding act by auto
  show ?thesis unfolding eq ops_inv_def using 1 2 3 4 by blast
qed

lemma new_entry_inv:
  assumes inv: "ops_inv m"
  shows "ops_inv (m\<lparr>heap := heap m @ [operation_init oid app name sm sn],
    operations := od_set (operations m) oid (length (heap m))\<rparr>)" (is "ops_inv ?m")
proof -
  have wf: "od_wf (operations m)" using inv by (simp add: ops_inv_def)
  have "r < length (heap ?m) \<and> op_id (heap ?m ! r) = k" if kr: "(k, r) \<in> set (operations ?m)" for k r
  proof -
    have "map_of (od_set (operations m) oid (length (heap m))) k = Some r"
      using kr wf by simp
    then consider "k = oid" "r = length (heap m)" | "(k, r) \<in> set (operations m)"
      by (auto simp: odict_simps split: if_splits dest: map_of_SomeD)
    then show ?thesis
      by cases (use inv in \<open>auto simp: ops_inv_def nth_append operation_init_def\<close>)
  qed
  moreover have "pc_matches (heap ?m ! r)" if "r < length (heap ?m)" for r
    using that inv by (auto simp: ops_inv_def nth_append operation_init_def less_Suc_eq)
  moreover have "active ?m r \<longleftrightarrow> active m r" for r
    by (auto simp: active_def nth_append operation_init_def less_Suc_eq)
  ultimately show ?thesis using inv wf unfolding ops_inv_def by fastforce
qed

lemma manager_new_inv: "ops_inv m \<Longrightarrow> ops_inv (snd (manager_new oid app name sm sn m))"
  by (auto simp: manager_new_def Let_def intro!: schedule_next_inv new_entry_inv)

lemma od_del_subset: "p \<in> set (od_del d k) \<Longrightarrow> p \<in> set d"
  by (simp add: od_del_filter)

lemma od_del_inv:
  "ops_inv m \<Longrightarrow> ops_inv (m\<lparr>operations := od_del (operations m) k\<rparr>)"
  by (auto simp: ops_inv_def active_def dest!: od_del_subset)

lemma on_complete_inv:
  assumes inv: "ops_inv m" and r: "r < length (heap m)" "thread_pc (heap m ! r) = At_on_complete"
  shows "ops_inv (snd (on_operation_complete r m))"
proof -
  let ?m1 = "heap_mod r (\<lambda>o'. o'\<lparr>thread_pc := Thread_done\<rparr>) (m\<lparr>current_operation := None\<rparr>)"
  have cur: "current_operation m = Some r" using inv r by (auto simp: ops_inv_def active_def)
  have nth: "heap ?m1 ! r' = (if r' = r then (heap m ! r)\<lparr>thread_pc := Thread_done\<rparr> else heap m ! r')" for r'
    using r by simp
  have "\<not> active ?m1 r'" for r'
  proof (cases "r' = r")
    case True
    then show ?thesis by (simp add: active_def nth)
  next
    case False
    then have "\<not> active m r'" using inv cur by (auto simp: ops_inv_def)
    then show ?thesis using False by (simp add: active_def nth)
  qed
  moreover have "pc_matches (heap ?m1 ! r')" if "r' < length (heap ?m1)" for r'
  proof -
    have "pc_matches (heap m ! r')" using that inv by (simp add: ops_inv_def)
    moreover have "pc_matches (heap m ! r)" using r inv by (simp add: ops_inv_def)
    ultimately show ?thesis using r by (simp add: nth)
  qed
  moreover have "od_wf (operations ?m1)"
    "\<forall>(k, r') \<in> set (operations ?m1). r' < length (heap ?m1) \<and> op_id (heap ?m1 ! r') = k"
    using inv unfolding ops_inv_def nth by (auto split: prod.splits)
  ultimately have m1: "ops_inv ?m1" unfolding ops_inv_def by simp
  then have "ops_inv (schedule_next ?m1)" "ops_inv (schedule_next (?m1\<lparr>operations := od_del (operations m) k\<rparr>))" for k
    using schedule_next_inv[OF od_del_inv[OF m1, of k]] by (simp_all add: schedule_next_inv)
  with m1 show ?thesis
    by (auto simp: on_operation_complete_def Let_def od_pop_def split: option.splits)
qed

text \<open>\<open>collect_results\<close> takes its results out of the dict and leaves the rest as it was.\<close>

lemma rebuild_dict:
  assumes "od_wf d" and "\<forall>(k, r) \<in> set d. f r = k"
  shows "fold (\<lambda>r e. od_set e (f r) r) (filter P (od_values d)) [] = filter (\<lambda>p. P (snd p)) d"
proof -
  have "fold (\<lambda>r e. od_set e (f r) r) (filter P (od_values d)) acc = acc @ filter (\<lambda>p. P (snd p)) d"
    if "od_wf d" "\<forall>(k, r) \<in> set d. f r = k" "fst ` set acc \<inter> fst ` set d = {}" for acc
    using that
  proof (induction d arbitrary: acc)
    case Nil
    then show ?case by simp
  next
    case (Cons p d)
    obtain k r where p: "p = (k, r)" by (cases p)
    have fr: "f r = k" using Cons.prems(2) p by simp
    have "od_set acc k r = acc @ [(k, r)]" using Cons.prems(3) p by (simp add: od_set_new)
    moreover have "fst ` set (acc @ [(k, r)]) \<inter> fst ` set d = {}"
      using Cons.prems(1,3) p by auto
    ultimately show ?case using Cons p fr by (cases "P r") auto
  qed
  from this[of "[]"] assms show ?thesis by simp
qed

lemma collect_results_eq:
  assumes "ops_inv m"
  shows "collect_results app m =
    (filter (finished_for app m) (od_values (operations m)),
     m\<lparr>operations := filter (\<lambda>p. \<not> finished_for app m (snd p)) (operations m)\<rparr>)"
proof -
  have "\<forall>(k, r) \<in> set (operations m). op_id (heap m ! r) = k" "od_wf (operations m)"
    using assms by (auto simp: ops_inv_def)
  note rb = rebuild_dict[OF this(2,1), of "\<lambda>r. \<not> finished_for app m r"]
  show ?thesis
  proof (cases "filter (finished_for app m) (od_values (operations m)) = []")
    case True
    then have "filter (\<lambda>p. \<not> finished_for app m (snd p)) (operations m) = operations m"
      by (auto simp: filter_empty_conv intro!: filter_True)
    then show ?thesis using True by (simp add: collect_results_def Let_def)
  next
    case False
    then show ?thesis by (simp add: collect_results_def Let_def rb)
  qed
qed

lemma collect_inv: "ops_inv m \<Longrightarrow> ops_inv (snd (collect_results app m))"
  by (auto simp: collect_results_eq ops_inv_def active_def distinct_map inj_on_def)

lemma on_update_keeps [simp]:
  "op_id (operation_on_update msg ex o') = op_id o'"
  "op_state (operation_on_update msg ex o') = op_state o'"
  "thread_pc (operation_on_update msg ex o') = thread_pc o'"
  "show_message (operation_on_update msg ex o') = show_message o'"
  "op_app_id (operation_on_update msg ex o') = op_app_id o'"
  by (simp_all add: operation_on_update_def Let_def split: option.splits)

lemma finish_keeps [simp]:
  "op_id (operation_finish res o') = op_id o'"
  "op_state (operation_finish res o') = COMPLETED"
  "thread_pc (operation_finish res o') = At_on_complete"
  "show_message (operation_finish res o') = show_message o'"
  by (simp_all add: operation_finish_def split: sum.splits)

lemma op_exec_inv: "op_exec e m = Some m' \<Longrightarrow> ops_inv m \<Longrightarrow> ops_inv m'"
proof (cases e)
  case (Update r msg ex)
  assume "op_exec e m = Some m'" "ops_inv m"
  moreover from this have "r < length (heap m)" "pc_matches (heap m ! r)"
    using Update by (auto simp: ops_inv_def split: if_splits)
  ultimately show ?thesis using Update ops_inv_heap_mod[of m r "operation_on_update msg ex"]
    by (simp split: if_splits)
next
  case (Finish r res)
  assume "op_exec e m = Some m'" "ops_inv m"
  then show ?thesis using Finish ops_inv_heap_mod[of m r "operation_finish res"]
    by (simp split: if_splits)
qed (auto simp: manager_new_inv on_complete_inv collect_inv split: if_splits)

lemma reachable_inv: "reachable m \<Longrightarrow> ops_inv m"
proof (induction rule: reachable.induct)
  case reachable_init
  show ?case by (simp add: ops_inv_def manager_init_def active_def)
next
  case (reachable_step m e m')
  then show ?case by (blast intro: op_exec_inv)
qed

text \<open>C2: Operations run one at a time: in every state the manager can reach, with calls from any
  number of threads in any order, at most one operation has an active thread, and it is the
  manager's current operation.\<close>

theorem operations_mutual_exclusion:
  assumes "reachable m" and "active m r" and "active m r'"
  shows "r = r' \<and> current_operation m = Some r"
  using reachable_inv[OF assms(1)] assms(2,3) by (auto simp: ops_inv_def)

definition two_operations :: "op_event list" where
  "two_operations = [New ''tor-setup'' ''tor'' ''Installing app'' True True,
     New ''i2p-setup'' ''i2p'' ''Installing app'' True True]"

theorem operations_mutual_exclusion_witness:
  "\<exists>m. reachable m \<and> active m 0 \<and> (\<forall>r. active m r \<longrightarrow> r = 0 \<and> current_operation m = Some r)"
proof -
  obtain m where m: "run_events two_operations manager_init = Some m" and act: "active m 0"
    by (simp add: two_operations_def manager_new_def manager_init_def schedule_next_def heap_mod_def
        operation_init_def operation_run_def od_set_def active_def Let_def)
  have "reachable m" using run_events_reachable[OF reachable_init m] .
  then show ?thesis using operations_mutual_exclusion[of m _ 0] act by blast
qed

section \<open>No operation is lost when completions are not interrupted\<close>

definition quiet_inv :: "ops_manager \<Rightarrow> bool" where
  "quiet_inv m \<longleftrightarrow>
     ops_inv m \<and>
     (\<forall>r < length (heap m). thread_pc (heap m ! r) \<noteq> At_on_complete) \<and>
     (\<forall>r < length (heap m). op_state (heap m ! r) \<noteq> COMPLETED \<longrightarrow> map_of (operations m) (op_id (heap m ! r)) = Some r) \<and>
     (current_operation m = None \<longrightarrow> (\<forall>r < length (heap m). op_state (heap m ! r) = COMPLETED))"

lemma schedule_quiet:
  assumes inv: "ops_inv m" and pc: "\<forall>r < length (heap m). thread_pc (heap m ! r) \<noteq> At_on_complete"
    and kept: "\<forall>r < length (heap m). op_state (heap m ! r) \<noteq> COMPLETED \<longrightarrow> map_of (operations m) (op_id (heap m ! r)) = Some r"
  shows "quiet_inv (schedule_next m)"
proof (cases "current_operation m")
  case (Some c)
  then show ?thesis using assms by (simp add: schedule_next_def quiet_inv_def)
next
  case None
  let ?f = "find (\<lambda>r. op_state (heap m ! r) = WAITING) (od_values (operations m))"
  have not_running: "op_state (heap m ! r) \<noteq> RUNNING" if "r < length (heap m)" for r
    using inv None that by (auto simp: ops_inv_def active_def)
  show ?thesis
  proof (cases ?f)
    case f: None
    have "op_state (heap m ! r) = COMPLETED" if r: "r < length (heap m)" for r
    proof (rule ccontr)
      assume "op_state (heap m ! r) \<noteq> COMPLETED"
      then have "r \<in> set (od_values (operations m))" "op_state (heap m ! r) = WAITING"
        using kept r not_running[OF r] by (auto dest!: map_of_SomeD simp: rev_image_eqI) (cases "op_state (heap m ! r)", auto)
      then show False using f by (force simp: find_None_iff)
    qed
    then show ?thesis using assms None f by (simp add: schedule_next_def quiet_inv_def)
  next
    case f: (Some r)
    then have "r \<in> set (od_values (operations m))" by (blast dest: find_SomeD)
    then have len: "r < length (heap m)" using inv ops_inv_value by blast
    have eq: "schedule_next m = heap_mod r operation_run (m\<lparr>current_operation := Some r\<rparr>)"
      using None f by (simp add: schedule_next_def)
    have nth: "heap (schedule_next m) ! r' = (if r' = r then operation_run (heap m ! r) else heap m ! r')" for r'
      using len by (simp add: eq)
    have w: "op_state (heap m ! r) = WAITING" using f by (blast dest: find_SomeD)
    show ?thesis
      unfolding quiet_inv_def nth using schedule_next_inv[OF inv] pc kept w len
      by (auto simp: eq operation_run_def)
  qed
qed

lemma quiet_new_inv:
  assumes inv: "quiet_inv m"
  shows "quiet_inv (snd (manager_new oid app name sm sn m))"
proof (cases "\<exists>r. map_of (operations m) oid = Some r \<and> op_state (heap m ! r) \<noteq> COMPLETED")
  case True
  then show ?thesis using inv by (simp add: manager_new_def)
next
  case False
  let ?o = "operation_init oid app name sm sn"
  let ?m = "m\<lparr>heap := heap m @ [?o], operations := od_set (operations m) oid (length (heap m))\<rparr>"
  have eq: "snd (manager_new oid app name sm sn m) = schedule_next ?m"
    using False by (auto simp: manager_new_def Let_def)
  have inv': "ops_inv m" using inv by (simp add: quiet_inv_def)
  have pre: "ops_inv ?m" using new_entry_inv[OF inv'] by simp
  show ?thesis unfolding eq
  proof (rule schedule_quiet[OF pre])
    show "\<forall>r < length (heap ?m). thread_pc (heap ?m ! r) \<noteq> At_on_complete"
      using inv by (auto simp: quiet_inv_def nth_append operation_init_def less_Suc_eq)
    show "\<forall>r < length (heap ?m). op_state (heap ?m ! r) \<noteq> COMPLETED \<longrightarrow>
        map_of (operations ?m) (op_id (heap ?m ! r)) = Some r"
      using inv False by (auto simp: quiet_inv_def nth_append operation_init_def less_Suc_eq odict_simps)
  qed
qed

lemma quiet_end_inv:
  assumes inv: "quiet_inv m" and fin: "op_exec (Finish r res) m = Some m1"
    and comp: "op_exec (On_complete r) m1 = Some m2"
  shows "fst (on_operation_complete r m1) = Inr () \<and> quiet_inv m2"
proof -
  have r: "r < length (heap m)" "thread_pc (heap m ! r) = In_target" and m1: "m1 = heap_mod r (operation_finish res) m"
    using fin by (auto split: if_splits)
  have inv': "ops_inv m" using inv by (simp add: quiet_inv_def)
  have "op_state (heap m ! r) = RUNNING" using inv' r by (simp add: ops_inv_def)
  then have reg: "map_of (operations m) (op_id (heap m ! r)) = Some r" using inv r by (simp add: quiet_inv_def)
  have ok: "ops_inv m1" using op_exec_inv[OF fin inv'] .
  have m2: "m2 = snd (on_operation_complete r m1)" using comp by (simp split: if_splits)
  let ?o = "(operation_finish res (heap m ! r))\<lparr>thread_pc := Thread_done\<rparr>"
  have others: "r' \<noteq> r \<Longrightarrow> r' < length (heap m) \<Longrightarrow> op_state (heap m ! r') \<noteq> COMPLETED \<Longrightarrow>
      op_id (heap m ! r') \<noteq> op_id (heap m ! r)" for r'
    using inv reg by (auto simp: quiet_inv_def)
  define m3 where "m3 = (if show_message (heap m1 ! r)
      then heap_mod r (\<lambda>o'. o'\<lparr>thread_pc := Thread_done\<rparr>) (m1\<lparr>current_operation := None\<rparr>)
      else (heap_mod r (\<lambda>o'. o'\<lparr>thread_pc := Thread_done\<rparr>) (m1\<lparr>current_operation := None\<rparr>))
             \<lparr>operations := od_del (operations m1) (op_id (heap m1 ! r))\<rparr>)"
  have run: "on_operation_complete r m1 = (Inr (), schedule_next m3)"
    using reg r by (auto simp: on_operation_complete_def m3_def m1 od_pop_def Let_def)
  have nth: "heap m3 ! r' = (if r' = r then ?o else heap m ! r')" for r'
    using r by (simp add: m3_def m1 heap_mod_def nth_list_update)
  have len: "length (heap m3) = length (heap m)" by (simp add: m3_def m1)
  have ops3: "operations m3 = (if show_message (heap m ! r) then operations m
      else od_del (operations m) (op_id (heap m ! r)))"
    using r by (simp add: m3_def m1)
  have cur: "current_operation m = Some r" using inv' r by (auto simp: ops_inv_def active_def)
  have inv3: "ops_inv m3"
  proof -
    have "od_wf (operations m3)" "\<forall>p \<in> set (operations m3). p \<in> set (operations m)"
      using inv' by (auto simp: m3_def m1 ops_inv_def dest: od_del_subset)
    moreover have "\<forall>r' < length (heap m). pc_matches (heap m3 ! r')"
      using inv' by (auto simp: nth ops_inv_def)
    moreover have "\<not> active m3 r'" for r'
      using inv' cur by (auto simp: active_def nth len ops_inv_def)
    moreover have "current_operation m3 = None" by (simp add: m3_def)
    moreover have "\<forall>(k, r') \<in> set (operations m3). r' < length (heap m) \<and> op_id (heap m3 ! r') = k"
    proof safe
      fix k r' assume "(k, r') \<in> set (operations m3)"
      then have "(k, r') \<in> set (operations m)" using calculation(2) by blast
      then show "r' < length (heap m)" "op_id (heap m3 ! r') = k"
        using inv' by (auto simp: ops_inv_def nth)
    qed
    ultimately show ?thesis unfolding ops_inv_def len by simp
  qed
  have "quiet_inv (schedule_next m3)"
  proof (rule schedule_quiet[OF inv3])
    show "\<forall>r' < length (heap m3). thread_pc (heap m3 ! r') \<noteq> At_on_complete"
      using inv by (simp add: nth len quiet_inv_def)
    show "\<forall>r' < length (heap m3). op_state (heap m3 ! r') \<noteq> COMPLETED \<longrightarrow>
        map_of (operations m3) (op_id (heap m3 ! r')) = Some r'"
      using inv others by (auto simp: nth len quiet_inv_def ops3 odict_simps)
  qed
  then show ?thesis using run m2 by simp
qed

lemma map_of_filter_keep:
  "map_of d k = Some v \<Longrightarrow> P (k, v) \<Longrightarrow> map_of (filter P d) k = Some v"
  by (induction d) (auto split: if_splits)

lemma quiet_inv_holds: "reachable_quiet m \<Longrightarrow> quiet_inv m"
proof (induction rule: reachable_quiet.induct)
  case quiet_init
  show ?case by (simp add: quiet_inv_def ops_inv_def manager_init_def active_def)
next
  case (quiet_new m oid app name sm sn)
  then show ?case by (simp add: quiet_new_inv)
next
  case (quiet_update m r msg ex m')
  have r: "r < length (heap m)" and m': "m' = heap_mod r (operation_on_update msg ex) m"
    using quiet_update.hyps(2) by (auto split: if_splits)
  have nth: "heap m' ! r' = (if r' = r then operation_on_update msg ex (heap m ! r) else heap m ! r')" for r'
    using r by (simp add: m')
  have "ops_inv m'" using op_exec_inv[OF quiet_update.hyps(2)] quiet_update.IH by (simp add: quiet_inv_def)
  moreover have "length (heap m') = length (heap m)" "operations m' = operations m"
    "current_operation m' = current_operation m" by (simp_all add: m')
  ultimately show ?case using quiet_update.IH r unfolding quiet_inv_def nth by auto
next
  case (quiet_end m r res m1 m2)
  then show ?case using quiet_end_inv by blast
next
  case (quiet_collect m app)
  then have "ops_inv m" by (simp add: quiet_inv_def)
  moreover from this have "od_wf (operations m)" by (simp add: ops_inv_def)
  ultimately show ?case
    using quiet_collect.IH collect_inv[of m app]
    by (auto simp: quiet_inv_def collect_results_eq finished_for_def intro!: map_of_filter_keep)
qed

text \<open>C3: No operation is lost and the manager never idles with work left, as long as no call of
  another thread falls between the end of an operation and its completion callback: every
  operation that is not completed is in the dict under its id, and while there is one, the
  manager has a current operation that is running.\<close>

theorem quiet_operations_progress:
  assumes "reachable_quiet m" and "r < length (heap m)" and "op_state (heap m ! r) \<noteq> COMPLETED"
  shows "map_of (operations m) (op_id (heap m ! r)) = Some r \<and>
    (\<exists>c. current_operation m = Some c \<and> c < length (heap m) \<and> op_state (heap m ! c) = RUNNING)"
proof -
  have q: "quiet_inv m" using assms(1) by (rule quiet_inv_holds)
  then obtain c where c: "current_operation m = Some c"
    using assms(2,3) by (auto simp: quiet_inv_def)
  then have "active m c" using q by (simp add: quiet_inv_def ops_inv_def)
  then have "c < length (heap m) \<and> thread_pc (heap m ! c) = In_target"
    using q by (auto simp: active_def quiet_inv_def)
  then have "c < length (heap m) \<and> op_state (heap m ! c) = RUNNING"
    using q by (auto simp: quiet_inv_def ops_inv_def)
  then show ?thesis using q assms(2,3) c by (auto simp: quiet_inv_def)
qed

lemmas manager_eval = manager_new_def manager_init_def schedule_next_def heap_mod_def operation_init_def
  operation_run_def operation_finish_def on_operation_complete_def collect_results_def finished_for_def
  od_set_def od_del_def od_pop_def active_def Let_def

theorem quiet_operations_progress_witness:
  "\<exists>m. reachable_quiet m \<and> length (heap m) = 2 \<and> op_state (heap m ! 1) = WAITING \<and>
    map_of (operations m) (op_id (heap m ! 1)) = Some 1"
proof -
  let ?m1 = "snd (manager_new ''tor-setup'' ''tor'' ''Installing app'' True True manager_init)"
  let ?m = "snd (manager_new ''i2p-setup'' ''i2p'' ''Installing app'' True True ?m1)"
  have q: "reachable_quiet ?m" by (intro quiet_new quiet_init)
  have "length (heap ?m) = 2" "op_state (heap ?m ! 1) = WAITING" by (simp_all add: manager_eval)
  then show ?thesis using q quiet_operations_progress[OF q, of 1] by auto
qed

section \<open>What an interrupted completion does\<close>

text \<open>An operation that waits outside the dict is never run.\<close>

definition lost :: "ops_manager \<Rightarrow> nat \<Rightarrow> bool" where
  "lost m r \<longleftrightarrow> r < length (heap m) \<and> op_state (heap m ! r) = WAITING \<and> r \<notin> set (od_values (operations m))"

lemma schedule_next_lost: "lost m r \<Longrightarrow> lost (schedule_next m) r"
proof (cases "current_operation m = None \<and> find (\<lambda>r. op_state (heap m ! r) = WAITING) (od_values (operations m)) \<noteq> None")
  case True
  assume l: "lost m r"
  obtain r' where f: "find (\<lambda>r. op_state (heap m ! r) = WAITING) (od_values (operations m)) = Some r'"
    using True by auto
  then have "r' \<noteq> r" using l by (auto simp: lost_def dest: find_SomeD)
  then show ?thesis using l f True by (simp add: schedule_next_def lost_def heap_mod_def)
qed (auto simp: schedule_next_def)

lemma od_values_set: "r \<in> snd ` set (od_set d k v) \<Longrightarrow> r = v \<or> r \<in> snd ` set d"
  by (induction d) (auto simp: od_set_def split: if_splits)

lemma lost_del:
  assumes "lost m r"
  shows "lost (m\<lparr>operations := od_del (operations m) k\<rparr>) r"
proof -
  have "r \<notin> set (od_values (od_del (operations m) k))"
    using assms od_values_del_subset[of "operations m" k] unfolding lost_def by blast
  then show ?thesis using assms by (simp add: lost_def)
qed

lemma lost_heap_mod:
  assumes "lost m r" and "thread_pc (heap m ! r') \<noteq> Not_started" and "thread_pc (heap m ! r) = Not_started"
  shows "lost (heap_mod r' f m) r"
  using assms by (cases "r' = r") (auto simp: lost_def)

text \<open>A lost operation stays lost: once an operation waits without being in the manager's
  dict, no later event of any thread starts it, so a caller blocked in its \<open>join\<close> waits
  forever.\<close>

lemma lost_operation_never_runs:
  assumes "reachable m" and "lost m r" and "run_events es m = Some m'"
  shows "lost m' r"
  using assms
proof (induction es arbitrary: m)
  case Nil
  then show ?case by simp
next
  case (Cons e es)
  then obtain m1 where e: "op_exec e m = Some m1" and es: "run_events es m1 = Some m'"
    by (auto split: option.splits)
  have r: "r < length (heap m)" "op_state (heap m ! r) = WAITING" "r \<notin> set (od_values (operations m))"
    using Cons.prems(2) by (auto simp: lost_def)
  have pc: "thread_pc (heap m ! r) = Not_started"
    using reachable_inv[OF Cons.prems(1)] r by (simp add: ops_inv_def)
  have "lost m1 r"
  proof (cases e)
    case (New oid app name sm sn)
    let ?m = "m\<lparr>heap := heap m @ [operation_init oid app name sm sn],
      operations := od_set (operations m) oid (length (heap m))\<rparr>"
    have "lost ?m r" using r od_values_set[of r "operations m" oid "length (heap m)"]
      by (auto simp: lost_def nth_append)
    then have "lost (schedule_next ?m) r" by (rule schedule_next_lost)
    then show ?thesis using New e Cons.prems(2) by (auto simp: manager_new_def Let_def split: if_splits)
  next
    case (Update r' msg ex)
    then show ?thesis using e pc lost_heap_mod[OF Cons.prems(2)] by (auto split: if_splits)
  next
    case (Finish r' res)
    then show ?thesis using e pc lost_heap_mod[OF Cons.prems(2)] by (auto split: if_splits)
  next
    case (On_complete r')
    have l1: "lost (heap_mod r' (\<lambda>o'. o'\<lparr>thread_pc := Thread_done\<rparr>) (m\<lparr>current_operation := None\<rparr>)) r"
      using On_complete e pc r by (cases "r' = r") (auto simp: lost_def split: if_splits)
    have "lost ((heap_mod r' (\<lambda>o'. o'\<lparr>thread_pc := Thread_done\<rparr>) (m\<lparr>current_operation := None\<rparr>))
        \<lparr>operations := od_del (operations m) k\<rparr>) r" for k
      using lost_del[OF l1, of k] by simp
    with l1 show ?thesis using On_complete e
      by (auto simp: on_operation_complete_def Let_def od_pop_def schedule_next_lost split: if_splits option.splits)
  next
    case (Collect app)
    then show ?thesis using e Cons.prems(2) collect_results_eq[OF reachable_inv[OF Cons.prems(1)], of app]
      by (auto simp: lost_def)
  qed
  then show ?case using Cons.IH[OF _ _ es] Cons.prems(1) e by (blast intro: reachable_step)
qed

text \<open>
  The events of two runs: a second operation with the id of one that has ended but has not
  called back yet, and a collection of results in that moment.
\<close>

definition resubmit_race :: "op_event list" where
  "resubmit_race =
     [New ''tor-force-upgrade'' ''tor'' ''Updating app packages'' False False, Finish 0 (Inr None),
      New ''tor-force-upgrade'' ''tor'' ''Updating app packages'' False False, On_complete 0]"

definition collect_race :: "op_event list" where
  "collect_race =
     [New ''tor-force-upgrade'' ''tor'' ''Updating app packages'' False False,
      New ''i2p-setup'' ''i2p'' ''Installing app'' True True,
      Finish 0 (Inr None), Collect ''tor'', On_complete 0]"

lemma resubmit_race_result:
  "\<exists>m. run_events resubmit_race manager_init = Some m \<and> lost m 1"
  by (simp add: resubmit_race_def lost_def manager_eval)

lemma collect_race_result:
  "\<exists>m. run_events collect_race manager_init = Some m \<and> current_operation m = None \<and>
     op_state (heap m ! 1) = WAITING \<and> 1 \<in> set (od_values (operations m))"
  by (simp add: collect_race_def manager_eval)


lemma lost_operation_never_runs_witness:
  "\<exists>m. reachable m \<and> lost m 1 \<and> (\<forall>es m'. run_events es m = Some m' \<longrightarrow> lost m' 1)"
proof -
  obtain m where m: "run_events resubmit_race manager_init = Some m" "lost m 1"
    using resubmit_race_result by blast
  have "reachable m" using run_events_reachable[OF reachable_init m(1)] .
  then show ?thesis using m(2) lost_operation_never_runs by blast
qed

text \<open>\<open>collect_results\<close> returns exactly the completed operations of the app, in the order of the
  dict, and keeps every other entry in its place; in a reachable state rebuilding the dict
  loses nothing.\<close>

lemma collect_results_partition:
  assumes "reachable m"
  shows "fst (collect_results app m) = filter (finished_for app m) (od_values (operations m)) \<and>
    operations (snd (collect_results app m)) = filter (\<lambda>p. \<not> finished_for app m (snd p)) (operations m)"
  using collect_results_eq[OF reachable_inv[OF assms]] by simp

lemma collect_results_partition_witness:
  "\<exists>m. reachable m \<and> operations m \<noteq> [] \<and>
    fst (collect_results ''tor'' m) = filter (finished_for ''tor'' m) (od_values (operations m))"
proof -
  obtain m where m: "run_events two_operations manager_init = Some m" and ne: "operations m \<noteq> []"
    by (simp add: two_operations_def manager_eval)
  have "reachable m" using run_events_reachable[OF reachable_init m] .
  then show ?thesis using collect_results_partition[of m "''tor''"] ne by blast
qed

end
