(* ===== verification/System.thy ===== *)
theory System
  imports Prelude
begin

text \<open>
  The helpers that run system commands (plinth/action_utils.py). The commands themselves are
  not part of the repository: they are the parameter \<open>sh\<close>, which runs a command line and
  gives its exit code and output, together with the file system operations the helpers use.
  The helpers decide which commands run, in which order, and what happens when one fails.
\<close>

section \<open>Running commands\<close>

record 'w system =
  sh :: "string list \<Rightarrow> ('w, nat \<times> string) prog"
  path_exists :: "string \<Rightarrow> 'w \<Rightarrow> bool"
  touch_file :: "string \<Rightarrow> 'w \<Rightarrow> 'w"
  unlink_file :: "string \<Rightarrow> 'w \<Rightarrow> 'w"
  which :: "string \<Rightarrow> 'w \<Rightarrow> bool"

text \<open>\<open>run(command, check=...)\<close>: the output, or CalledProcessError.\<close>

definition run_command :: "'w system \<Rightarrow> string list \<Rightarrow> bool \<Rightarrow> ('w, string) prog" where
  "run_command sys cmd check =
     p_bind (sh sys cmd) (\<lambda>(rc, out).
       if check \<and> rc \<noteq> 0 then p_raise (CalledProcessError (join_str '' '' cmd)) else p_ret out)"

definition run_ok :: "'w system \<Rightarrow> string list \<Rightarrow> bool \<Rightarrow> ('w, unit) prog" where
  "run_ok sys cmd check = p_bind (run_command sys cmd check) (\<lambda>_. p_ret ())"

text \<open>\<open>try: run(..., check=True); return True except CalledProcessError: return False\<close>.\<close>

definition run_succeeds :: "'w system \<Rightarrow> string list \<Rightarrow> ('w, bool) prog" where
  "run_succeeds sys cmd =
     p_catch (p_then (run_ok sys cmd True) (p_ret True))
       (\<lambda>e. if is_called_process_error e then p_ret False else p_raise e)"

section \<open>Services\<close>

definition service_is_running :: "'w system \<Rightarrow> string \<Rightarrow> ('w, bool) prog" where
  "service_is_running sys name = run_succeeds sys [''systemctl'', ''status'', name]"

definition service_action :: "'w system \<Rightarrow> string \<Rightarrow> string \<Rightarrow> bool \<Rightarrow> ('w, unit) prog" where
  "service_action sys name action check = run_ok sys [''systemctl'', action, name] check"

definition systemd_get_default :: "'w system \<Rightarrow> ('w, string) prog" where
  "systemd_get_default sys =
     p_bind (run_command sys [''systemctl'', ''get-default''] True) (\<lambda>out. p_ret (strip_str out))"

definition systemd_set_default :: "'w system \<Rightarrow> string \<Rightarrow> ('w, unit) prog" where
  "systemd_set_default sys target = run_ok sys [''systemctl'', ''set-default'', target] True"

definition service_daemon_reload :: "'w system \<Rightarrow> ('w, unit) prog" where
  "service_daemon_reload sys = run_ok sys [''systemctl'', ''daemon-reload''] True"

definition service_is_enabled :: "'w system \<Rightarrow> string \<Rightarrow> bool \<Rightarrow> ('w, bool) prog" where
  "service_is_enabled sys name strict =
     p_catch
       (p_bind (run_command sys [''systemctl'', ''is-enabled'', name] True) (\<lambda>out.
          p_ret (if strict then strip_str out = ''enabled'' else True)))
       (\<lambda>e. if is_called_process_error e then p_ret False else p_raise e)"

text \<open>\<open>socket_name.rpartition('.')[0] + '.service'\<close>; without a dot the first part is empty.\<close>

definition get_service_unit :: "string \<Rightarrow> string" where
  "get_service_unit s = fst (rpartition_dot s) @ ''.service''"

definition service_start :: "'w system \<Rightarrow> string \<Rightarrow> bool \<Rightarrow> ('w, unit) prog" where
  "service_start sys name check = service_action sys name ''start'' check"

definition service_stop :: "'w system \<Rightarrow> string \<Rightarrow> bool \<Rightarrow> ('w, unit) prog" where
  "service_stop sys name check =
     p_then (service_action sys name ''stop'' check)
       (if ends_with name ''.socket'' then service_action sys (get_service_unit name) ''stop'' check
        else p_ret ())"

definition service_enable :: "'w system \<Rightarrow> string \<Rightarrow> bool \<Rightarrow> ('w, unit) prog" where
  "service_enable sys name check =
     p_then (run_ok sys [''systemctl'', ''enable'', name] check) (service_start sys name check)"

definition service_disable :: "'w system \<Rightarrow> string \<Rightarrow> bool \<Rightarrow> ('w, unit) prog" where
  "service_disable sys name check =
     p_then (run_ok sys [''systemctl'', ''disable'', name] check)
       (p_catch (service_stop sys name check)
          (\<lambda>e. if is_called_process_error e then p_ret () else p_raise e))"

definition service_mask :: "'w system \<Rightarrow> string \<Rightarrow> bool \<Rightarrow> ('w, unit) prog" where
  "service_mask sys name check = run_ok sys [''systemctl'', ''mask'', name] check"

definition service_unmask :: "'w system \<Rightarrow> string \<Rightarrow> bool \<Rightarrow> ('w, unit) prog" where
  "service_unmask sys name check = run_ok sys [''systemctl'', ''unmask'', name] check"

text \<open>Restart and its kin act on the service unit of a socket; a restart only stops it.\<close>

definition service_restart :: "'w system \<Rightarrow> string \<Rightarrow> bool \<Rightarrow> ('w, unit) prog" where
  "service_restart sys name check =
     (if \<not> ends_with name ''.socket'' then service_action sys name ''restart'' check
      else service_action sys (get_service_unit name) ''stop'' check)"

definition service_try_restart :: "'w system \<Rightarrow> string \<Rightarrow> bool \<Rightarrow> ('w, unit) prog" where
  "service_try_restart sys name check =
     (if \<not> ends_with name ''.socket'' then service_action sys name ''try-restart'' check
      else service_action sys (get_service_unit name) ''stop'' check)"

definition service_reload :: "'w system \<Rightarrow> string \<Rightarrow> bool \<Rightarrow> ('w, unit) prog" where
  "service_reload sys name check =
     (if \<not> ends_with name ''.socket'' then service_action sys name ''reload'' check
      else service_action sys (get_service_unit name) ''reload'' check)"

definition service_try_reload_or_restart :: "'w system \<Rightarrow> string \<Rightarrow> bool \<Rightarrow> ('w, unit) prog" where
  "service_try_reload_or_restart sys name check =
     (if \<not> ends_with name ''.socket'' then service_action sys name ''try-reload-or-restart'' check
      else service_action sys (get_service_unit name) ''try-reload-or-restart'' check)"

definition service_reset_failed :: "'w system \<Rightarrow> string \<Rightarrow> bool \<Rightarrow> ('w, unit) prog" where
  "service_reset_failed sys name check = service_action sys name ''reset-failed'' check"

definition service_get_logs :: "'w system \<Rightarrow> string \<Rightarrow> ('w, string) prog" where
  "service_get_logs sys name =
     run_command sys [''journalctl'', ''--no-pager'', ''--lines=200'', ''--unit'', name] False"

text \<open>The context managers, as functions of the body of the \<open>with\<close> statement.\<close>

definition service_ensure_running :: "'w system \<Rightarrow> string \<Rightarrow> (bool \<Rightarrow> ('w, 'a) prog) \<Rightarrow> ('w, 'a) prog" where
  "service_ensure_running sys name body =
     p_bind (service_is_running sys name) (\<lambda>starting.
       p_then (if starting then p_ret () else service_enable sys name False)
         (p_finally (body starting) (if starting then p_ret () else service_disable sys name False)))"

definition service_ensure_stopped :: "'w system \<Rightarrow> string \<Rightarrow> (bool \<Rightarrow> ('w, 'a) prog) \<Rightarrow> ('w, 'a) prog" where
  "service_ensure_stopped sys name body =
     p_bind (service_is_running sys name) (\<lambda>starting.
       p_then (if starting then service_disable sys name False else p_ret ())
         (p_finally (body starting) (if starting then service_enable sys name False else p_ret ())))"

section \<open>Apache\<close>

definition webserver_is_enabled :: "'w system \<Rightarrow> string \<Rightarrow> string \<Rightarrow> ('w, bool) prog" where
  "webserver_is_enabled sys name kind w =
     (if \<not> which sys ''a2query'' w then (Inr False, w)
      else p_bind (p_lift (od_get [(''config'', ''-c''), (''site'', ''-s''), (''module'', ''-m'')] kind))
             (\<lambda>opt. run_succeeds sys [''a2query'', opt, name]) w)"

text \<open>The part that enable and disable share: run the command, then restart or reload, or tell.\<close>

definition webserver_apply :: "'w system \<Rightarrow> string \<Rightarrow> bool \<Rightarrow> ('w, string option) prog" where
  "webserver_apply sys kind apply_changes =
     (let action = if kind = ''module'' then ''restart'' else ''reload''
      in p_then (if apply_changes
                 then if action = ''restart'' then service_restart sys ''apache2'' False
                      else service_reload sys ''apache2'' False
                 else p_ret ())
           (p_ret (Some action)))"

definition webserver_enable :: "'w system \<Rightarrow> string \<Rightarrow> string \<Rightarrow> bool \<Rightarrow> ('w, string option) prog" where
  "webserver_enable sys name kind apply_changes =
     p_bind (webserver_is_enabled sys name kind) (\<lambda>enabled.
       if enabled \<and> kind = ''module'' then p_ret None
       else p_bind (p_lift (od_get [(''config'', ''a2enconf''), (''site'', ''a2ensite''), (''module'', ''a2enmod'')] kind))
         (\<lambda>cmd. p_then (run_ok sys [cmd, name] True) (webserver_apply sys kind apply_changes)))"

definition webserver_disable :: "'w system \<Rightarrow> string \<Rightarrow> string \<Rightarrow> bool \<Rightarrow> ('w, string option) prog" where
  "webserver_disable sys name kind apply_changes =
     p_bind (webserver_is_enabled sys name kind) (\<lambda>enabled.
       if \<not> enabled then p_ret None
       else p_bind (p_lift (od_get [(''config'', ''a2disconf''), (''site'', ''a2dissite''), (''module'', ''a2dismod'')] kind))
         (\<lambda>cmd. p_then (run_ok sys [cmd, name] True) (webserver_apply sys kind apply_changes)))"

text \<open>
  \<open>WebserverChange\<close>: the calls in the body of the context, each adding the action it needs
  to \<open>actions_required\<close>, and the exit, which runs also when a call has raised.
\<close>

datatype web_change = Web_enable string string | Web_disable string string

primrec web_change_run :: "'w system \<Rightarrow> web_change \<Rightarrow> ('w, string option) prog" where
  "web_change_run sys (Web_enable name kind) = webserver_enable sys name kind False"
| "web_change_run sys (Web_disable name kind) = webserver_disable sys name kind False"

primrec web_changes ::
  "'w system \<Rightarrow> web_change list \<Rightarrow> string option set \<Rightarrow> 'w \<Rightarrow> unit result \<times> string option set \<times> 'w"
where
  "web_changes sys [] required w = (Inr (), required, w)"
| "web_changes sys (c # cs) required w =
     (case web_change_run sys c w of
        (Inl e, w') \<Rightarrow> (Inl e, required, w')
      | (Inr a, w') \<Rightarrow> web_changes sys cs (insert a required) w')"

definition webserver_change_exit :: "'w system \<Rightarrow> string option set \<Rightarrow> ('w, unit) prog" where
  "webserver_change_exit sys required =
     (if Some ''restart'' \<in> required then service_restart sys ''apache2'' False
      else if Some ''reload'' \<in> required then service_reload sys ''apache2'' False
      else p_ret ())"

definition webserver_change :: "'w system \<Rightarrow> web_change list \<Rightarrow> ('w, unit) prog" where
  "webserver_change sys cs w =
     (case web_changes sys cs {} w of
        (r, required, w') \<Rightarrow> p_finally (p_lift r) (webserver_change_exit sys required) w')"

section \<open>Apt\<close>

definition run_apt_command :: "'w system \<Rightarrow> string list \<Rightarrow> bool \<Rightarrow> ('w, nat) prog" where
  "run_apt_command sys arguments allow_freedombox_restart =
     p_bind (sh sys ((if allow_freedombox_restart then [] else
         [''systemd-run'', ''--pipe'',
          ''--property=BindReadOnlyPaths=/usr/share/freedombox/etc/needrestart/conf.d/freedombox-self.conf'' @
          '':/etc/needrestart/conf.d/freedombox-self.conf'']) @
         [''apt-get'', ''--assume-yes'', ''--quiet=2''] @ arguments))
       (\<lambda>(rc, out). p_ret rc)"

definition apt_hold_flag :: string where
  "apt_hold_flag = ''/var/lib/freedombox/package-held''"

definition apt_unhold_freedombox :: "'w system \<Rightarrow> ('w, unit) prog" where
  "apt_unhold_freedombox sys =
     p_then (run_ok sys [''apt-mark'', ''unhold'', ''freedombox''] False)
       (p_mod (\<lambda>w. if path_exists sys apt_hold_flag w then unlink_file sys apt_hold_flag w else w))"

definition apt_hold_freedombox :: "'w system \<Rightarrow> ('w, 'a) prog \<Rightarrow> ('w, 'a) prog" where
  "apt_hold_freedombox sys body =
     p_bind (run_command sys [''apt-mark'', ''showhold'', ''freedombox''] True) (\<lambda>current_hold.
       p_finally
         (if current_hold \<noteq> [] then body
          else p_then (p_mod (touch_file sys apt_hold_flag))
                 (p_then (run_ok sys [''apt-mark'', ''hold'', ''freedombox''] True) body))
         (\<lambda>w. if current_hold = [] \<or> path_exists sys apt_hold_flag w
              then apt_unhold_freedombox sys w else (Inr (), w)))"

text \<open>\<open>apt_hold(packages)\<close>: each package by itself; those held before are left alone.\<close>

primrec apt_hold_each :: "'w system \<Rightarrow> string list \<Rightarrow> string list \<Rightarrow> 'w \<Rightarrow> unit result \<times> string list \<times> 'w" where
  "apt_hold_each sys [] held w = (Inr (), held, w)"
| "apt_hold_each sys (p # ps) held w =
     (case run_command sys [''apt-mark'', ''showhold'', p] True w of
        (Inl e, w1) \<Rightarrow> (Inl e, held, w1)
      | (Inr current, w1) \<Rightarrow>
          if current \<noteq> [] then apt_hold_each sys ps held w1
          else (case sh sys [''apt-mark'', ''hold'', p] w1 of
                  (Inl e, w2) \<Rightarrow> (Inl e, held, w2)
                | (Inr (rc, out), w2) \<Rightarrow> apt_hold_each sys ps (if rc = 0 then held @ [p] else held) w2))"

definition apt_hold :: "'w system \<Rightarrow> string list \<Rightarrow> (string list \<Rightarrow> ('w, 'a) prog) \<Rightarrow> ('w, 'a) prog" where
  "apt_hold sys ps body w =
     (case apt_hold_each sys ps [] w of
        (r, held, w1) \<Rightarrow>
          p_finally (p_bind (p_lift r) (\<lambda>_. body held))
            (p_for (\<lambda>p. run_ok sys [''apt-mark'', ''unhold'', p] True) held) w1)"

definition is_package_manager_busy :: "'w system \<Rightarrow> ('w, bool) prog" where
  "is_package_manager_busy sys = run_succeeds sys [''lsof'', ''/var/lib/dpkg/lock'']"

section \<open>Holding the freedombox package\<close>

text \<open>
  What \<open>apt-mark\<close> and the file system promise about the hold of the freedombox package:
  \<open>held\<close> reads it from the state of the machine.
\<close>

definition apt_mark_laws :: "'w system \<Rightarrow> ('w \<Rightarrow> bool) \<Rightarrow> bool" where
  "apt_mark_laws sys held \<longleftrightarrow>
     (\<forall>w. sh sys [''apt-mark'', ''showhold'', ''freedombox''] w =
        (Inr (0, if held w then ''freedombox'' else []), w)) \<and>
     (\<forall>w. \<exists>out w'. sh sys [''apt-mark'', ''hold'', ''freedombox''] w = (Inr (0, out), w') \<and> held w' \<and>
        path_exists sys apt_hold_flag w' = path_exists sys apt_hold_flag w) \<and>
     (\<forall>w. \<exists>rc out w'. sh sys [''apt-mark'', ''unhold'', ''freedombox''] w = (Inr (rc, out), w') \<and> \<not> held w' \<and>
        path_exists sys apt_hold_flag w' = path_exists sys apt_hold_flag w) \<and>
     (\<forall>f w. held (touch_file sys f w) = held w \<and> path_exists sys f (touch_file sys f w)) \<and>
     (\<forall>f w. held (unlink_file sys f w) = held w \<and> \<not> path_exists sys f (unlink_file sys f w))"

lemma apt_unhold_eval:
  assumes "apt_mark_laws sys held"
  shows "\<exists>w'. apt_unhold_freedombox sys w = (Inr (), w') \<and> \<not> held w' \<and> \<not> path_exists sys apt_hold_flag w'"
proof -
  obtain rc out w1 where "sh sys [''apt-mark'', ''unhold'', ''freedombox''] w = (Inr (rc, out), w1)" "\<not> held w1"
    using assms unfolding apt_mark_laws_def by blast
  then show ?thesis using assms unfolding apt_mark_laws_def
    by (simp add: apt_unhold_freedombox_def run_ok_def run_command_def p_then_def p_bind_def p_ret_def p_mod_def)
qed

text \<open>C8: While apt runs, the freedombox package is held, and the hold is given back whatever the
  body does: held by nobody, the body runs with the package held and afterwards it is
  neither held nor flagged, also when the body raises, whose outcome is the outcome of the
  whole; held by the administrator, nothing is touched; a hold left by an interrupted run,
  known by its flag, is released.\<close>

theorem apt_hold_freedombox_brackets:
  assumes "apt_mark_laws sys held"
  shows "(\<not> held w \<longrightarrow> (\<exists>w1 w3. held w1 \<and> path_exists sys apt_hold_flag w1 \<and>
      apt_hold_freedombox sys body w = (fst (body w1), w3) \<and>
      \<not> held w3 \<and> \<not> path_exists sys apt_hold_flag w3)) \<and>
    (held w \<longrightarrow> \<not> path_exists sys apt_hold_flag (snd (body w)) \<longrightarrow> apt_hold_freedombox sys body w = body w) \<and>
    (held w \<longrightarrow> path_exists sys apt_hold_flag (snd (body w)) \<longrightarrow>
      (\<exists>w3. apt_hold_freedombox sys body w = (fst (body w), w3) \<and> \<not> held w3))"
proof -
  have show_hold: "run_command sys [''apt-mark'', ''showhold'', ''freedombox''] True w =
      (Inr (if held w then ''freedombox'' else []), w)"
    using assms by (simp add: run_command_def apt_mark_laws_def p_bind_def p_ret_def)
  have "\<exists>w1 w3. held w1 \<and> path_exists sys apt_hold_flag w1 \<and>
      apt_hold_freedombox sys body w = (fst (body w1), w3) \<and> \<not> held w3 \<and> \<not> path_exists sys apt_hold_flag w3"
    if nh: "\<not> held w"
  proof -
    let ?w0 = "touch_file sys apt_hold_flag w"
    obtain out w1 where w1: "sh sys [''apt-mark'', ''hold'', ''freedombox''] ?w0 = (Inr (0, out), w1)"
        "held w1" "path_exists sys apt_hold_flag w1"
      using assms unfolding apt_mark_laws_def by metis
    obtain w3 where "apt_unhold_freedombox sys (snd (body w1)) = (Inr (), w3)" "\<not> held w3"
        "\<not> path_exists sys apt_hold_flag w3"
      using apt_unhold_eval[OF assms, of "snd (body w1)"] by blast
    moreover have "run_ok sys [''apt-mark'', ''hold'', ''freedombox''] True ?w0 = (Inr (), w1)"
      using w1(1) by (simp add: run_ok_def run_command_def p_bind_def p_ret_def)
    moreover obtain r2 w2 where "body w1 = (r2, w2)" by fastforce
    ultimately have "apt_hold_freedombox sys body w = (fst (body w1), w3)"
      using nh by (simp add: apt_hold_freedombox_def show_hold p_defs p_mod_def)
    then show ?thesis using w1 \<open>\<not> held w3\<close> \<open>\<not> path_exists sys apt_hold_flag w3\<close> by blast
  qed
  moreover have "\<exists>w3. apt_hold_freedombox sys body w = (fst (body w), w3) \<and> \<not> held w3"
    if "held w" "path_exists sys apt_hold_flag (snd (body w))"
    using apt_unhold_eval[OF assms, of "snd (body w)"] that
    by (auto simp: apt_hold_freedombox_def show_hold p_defs split: prod.splits)
  moreover have "apt_hold_freedombox sys body w = body w"
    if "held w" "\<not> path_exists sys apt_hold_flag (snd (body w))"
    using that by (cases "body w") (simp add: apt_hold_freedombox_def show_hold p_defs)
  ultimately show ?thesis by blast
qed

text \<open>A machine whose state is whether the package is held and whether the flag exists.\<close>

definition hold_machine :: "(bool \<times> bool) system" where
  "hold_machine =
     \<lparr>sh = \<lambda>c w. if c = [''apt-mark'', ''showhold'', ''freedombox'']
               then (Inr (0, if fst w then ''freedombox'' else []), w)
               else if c = [''apt-mark'', ''hold'', ''freedombox''] then (Inr (0, []), (True, snd w))
               else if c = [''apt-mark'', ''unhold'', ''freedombox''] then (Inr (0, []), (False, snd w))
               else (Inr (0, []), w),
      path_exists = \<lambda>f w. snd w, touch_file = \<lambda>f w. (fst w, True), unlink_file = \<lambda>f w. (fst w, False),
      which = \<lambda>f w. True\<rparr>"

theorem apt_hold_freedombox_brackets_witness:
  "\<exists>w3. apt_hold_freedombox hold_machine (p_raise (RuntimeError ''apt'') :: (bool \<times> bool, unit) prog) (False, False) =
     (Inl (RuntimeError ''apt''), w3) \<and> \<not> fst w3 \<and> \<not> snd w3"
proof -
  have "apt_mark_laws hold_machine fst" by (auto simp: apt_mark_laws_def hold_machine_def)
  then show ?thesis
    using apt_hold_freedombox_brackets[of hold_machine fst "(False, False)" "p_raise (RuntimeError ''apt'')"]
    by (auto simp: p_raise_def hold_machine_def)
qed

section \<open>Keeping a service in a state\<close>

text \<open>What systemd promises about a service: \<open>running\<close> reads its state from the machine.\<close>

definition service_laws :: "'w system \<Rightarrow> string \<Rightarrow> ('w \<Rightarrow> bool) \<Rightarrow> bool" where
  "service_laws sys name running \<longleftrightarrow>
     (\<forall>w. \<exists>out. sh sys [''systemctl'', ''status'', name] w = (Inr (if running w then 0 else 3, out), w)) \<and>
     (\<forall>w. \<exists>rc out w'. sh sys [''systemctl'', ''start'', name] w = (Inr (rc, out), w') \<and> running w') \<and>
     (\<forall>w. \<exists>rc out w'. sh sys [''systemctl'', ''stop'', name] w = (Inr (rc, out), w') \<and> \<not> running w') \<and>
     (\<forall>a \<in> {''enable'', ''disable''}. \<forall>w. \<exists>rc out w'. sh sys [''systemctl'', a, name] w = (Inr (rc, out), w') \<and>
        running w' = running w)"

lemma service_running_eval:
  "service_laws sys name running \<Longrightarrow> service_is_running sys name w = (Inr (running w), w)"
proof -
  assume laws: "service_laws sys name running"
  then obtain out where "sh sys [''systemctl'', ''status'', name] w = (Inr (if running w then 0 else 3, out), w)"
    unfolding service_laws_def by blast
  then show ?thesis
    by (simp add: service_is_running_def run_succeeds_def run_ok_def run_command_def p_defs p_ret_def p_raise_def)
qed

lemma service_enable_eval:
  assumes "service_laws sys name running"
  shows "\<exists>w'. service_enable sys name False w = (Inr (), w') \<and> running w'"
proof -
  obtain rc out w1 where "sh sys [''systemctl'', ''enable'', name] w = (Inr (rc, out), w1)"
    using assms unfolding service_laws_def by blast
  moreover obtain rc' out' w2 where "sh sys [''systemctl'', ''start'', name] w1 = (Inr (rc', out'), w2)" "running w2"
    using assms unfolding service_laws_def by blast
  ultimately show ?thesis
    by (simp add: service_enable_def service_start_def service_action_def run_ok_def run_command_def p_defs p_ret_def)
qed

lemma service_disable_eval:
  assumes "service_laws sys name running" and "\<not> ends_with name ''.socket''"
  shows "\<exists>w'. service_disable sys name False w = (Inr (), w') \<and> \<not> running w'"
proof -
  obtain rc out w1 where "sh sys [''systemctl'', ''disable'', name] w = (Inr (rc, out), w1)"
    using assms(1) unfolding service_laws_def by blast
  moreover obtain rc' out' w2 where "sh sys [''systemctl'', ''stop'', name] w1 = (Inr (rc', out'), w2)" "\<not> running w2"
    using assms(1) unfolding service_laws_def by blast
  ultimately show ?thesis using assms(2)
    by (simp add: service_disable_def service_stop_def service_action_def run_ok_def run_command_def p_defs p_ret_def)
qed

text \<open>C9: \<open>service_ensure_running\<close> runs its body with the service running and returns the service to
  the state it was in: a service that ran is not touched, one that did not run is stopped
  again, also when the body raises; the outcome is the body's. \<open>service_ensure_stopped\<close> does
  the same with the roles exchanged.\<close>

theorem service_ensure_restores:
  assumes "service_laws sys name running" and "\<not> ends_with name ''.socket''"
  shows "(running w \<longrightarrow> service_ensure_running sys name body w = body True w) \<and>
    (\<not> running w \<longrightarrow> (\<exists>w1 w3. running w1 \<and> service_ensure_running sys name body w = (fst (body False w1), w3) \<and>
      \<not> running w3)) \<and>
    (\<not> running w \<longrightarrow> service_ensure_stopped sys name body w = body False w) \<and>
    (running w \<longrightarrow> (\<exists>w1 w3. \<not> running w1 \<and> service_ensure_stopped sys name body w = (fst (body True w1), w3) \<and>
      running w3))"
proof -
  note ev = service_running_eval[OF assms(1)] p_defs p_ret_def
  have "service_ensure_running sys name body w = body True w" if "running w"
    using that by (simp add: service_ensure_running_def ev split: prod.split)
  moreover have "service_ensure_stopped sys name body w = body False w" if "\<not> running w"
    using that by (simp add: service_ensure_stopped_def ev split: prod.split)
  moreover have "\<exists>w1 w3. running w1 \<and> service_ensure_running sys name body w = (fst (body False w1), w3) \<and> \<not> running w3"
    if nr: "\<not> running w"
  proof -
    obtain w1 where w1: "service_enable sys name False w = (Inr (), w1)" "running w1"
      using service_enable_eval[OF assms(1), of w] by blast
    obtain w3 where "service_disable sys name False (snd (body False w1)) = (Inr (), w3)" "\<not> running w3"
      using service_disable_eval[OF assms, of "snd (body False w1)"] by blast
    moreover obtain r2 w2 where "body False w1 = (r2, w2)" by fastforce
    ultimately have "service_ensure_running sys name body w = (fst (body False w1), w3)"
      using w1 nr by (simp add: service_ensure_running_def ev)
    then show ?thesis using w1 \<open>\<not> running w3\<close> by blast
  qed
  moreover have "\<exists>w1 w3. \<not> running w1 \<and> service_ensure_stopped sys name body w = (fst (body True w1), w3) \<and> running w3"
    if r: "running w"
  proof -
    obtain w1 where w1: "service_disable sys name False w = (Inr (), w1)" "\<not> running w1"
      using service_disable_eval[OF assms, of w] by blast
    obtain w3 where "service_enable sys name False (snd (body True w1)) = (Inr (), w3)" "running w3"
      using service_enable_eval[OF assms(1), of "snd (body True w1)"] by blast
    moreover obtain r2 w2 where "body True w1 = (r2, w2)" by fastforce
    ultimately have "service_ensure_stopped sys name body w = (fst (body True w1), w3)"
      using w1 r by (simp add: service_ensure_stopped_def ev)
    then show ?thesis using w1 \<open>running w3\<close> by blast
  qed
  ultimately show ?thesis by blast
qed

definition one_service :: "bool system" where
  "one_service =
     \<lparr>sh = \<lambda>c w. if c = [''systemctl'', ''status'', ''tor''] then (Inr (if w then 0 else 3, []), w)
               else if c = [''systemctl'', ''start'', ''tor''] then (Inr (0, []), True)
               else if c = [''systemctl'', ''stop'', ''tor''] then (Inr (0, []), False)
               else (Inr (0, []), w),
      path_exists = \<lambda>f w. False, touch_file = \<lambda>f w. w, unlink_file = \<lambda>f w. w, which = \<lambda>f w. True\<rparr>"

theorem service_ensure_restores_witness:
  "\<exists>w3. service_ensure_running one_service ''tor'' (\<lambda>_. p_raise (OtherError ''x'') :: (bool, unit) prog) False =
     (Inl (OtherError ''x''), w3) \<and> \<not> w3"
proof -
  have laws: "service_laws one_service ''tor'' (\<lambda>w. w)" by (auto simp: service_laws_def one_service_def)
  have name: "\<not> ends_with ''tor'' ''.socket''" by (simp add: ends_with_def)
  show ?thesis
    using service_ensure_restores[OF laws name, of False "\<lambda>_. p_raise (OtherError ''x'')"] by (auto simp: p_raise_def)
qed

section \<open>Restarting Apache once\<close>

text \<open>A machine that logs the commands with their exit codes and always runs them.\<close>

definition logs_commands :: "'w system \<Rightarrow> ('w \<Rightarrow> (string list \<times> nat) list) \<Rightarrow> bool" where
  "logs_commands sys log \<longleftrightarrow>
     (\<forall>c w. \<exists>rc out w'. sh sys c w = (Inr (rc, out), w') \<and> log w' = log w @ [(c, rc)])"

definition modules_changed :: "(string list \<times> nat) list \<Rightarrow> bool" where
  "modules_changed ls \<longleftrightarrow> (\<exists>(c, rc) \<in> set ls. rc = 0 \<and> (hd c = ''a2enmod'' \<or> hd c = ''a2dismod''))"

definition sites_changed :: "(string list \<times> nat) list \<Rightarrow> bool" where
  "sites_changed ls \<longleftrightarrow>
     (\<exists>(c, rc) \<in> set ls. rc = 0 \<and> hd c \<in> {''a2enconf'', ''a2ensite'', ''a2disconf'', ''a2dissite''})"

lemma changed_append [simp]:
  "modules_changed (xs @ ys) \<longleftrightarrow> modules_changed xs \<or> modules_changed ys"
  "sites_changed (xs @ ys) \<longleftrightarrow> sites_changed xs \<or> sites_changed ys"
  by (auto simp: modules_changed_def sites_changed_def)

lemma changed_one [simp]:
  "modules_changed [(c, rc)] \<longleftrightarrow> rc = 0 \<and> (hd c = ''a2enmod'' \<or> hd c = ''a2dismod'')"
  "sites_changed [(c, rc)] \<longleftrightarrow> rc = 0 \<and> hd c \<in> {''a2enconf'', ''a2ensite'', ''a2disconf'', ''a2dissite''}"
  "\<not> modules_changed []" "\<not> sites_changed []"
  by (auto simp: modules_changed_def sites_changed_def)

lemma logs_run_command:
  assumes "logs_commands sys log"
  shows "\<exists>rc r w'. run_command sys c check w = (r, w') \<and> log w' = log w @ [(c, rc)] \<and>
    (check \<longrightarrow> ((\<exists>x. r = Inr x) \<longleftrightarrow> rc = 0)) \<and> (\<not> check \<longrightarrow> (\<exists>x. r = Inr x))"
proof -
  obtain rc out w' where "sh sys c w = (Inr (rc, out), w')" "log w' = log w @ [(c, rc)]"
    using assms unfolding logs_commands_def by blast
  then show ?thesis
    by (cases "check \<and> rc \<noteq> 0") (auto simp: run_command_def p_bind_def p_ret_def p_raise_def)
qed

lemma logs_run_ok:
  assumes "logs_commands sys log"
  shows "\<exists>rc r w'. run_ok sys c check w = (r, w') \<and> log w' = log w @ [(c, rc)] \<and>
    (check \<longrightarrow> (r = Inr () \<longleftrightarrow> rc = 0)) \<and> (\<not> check \<longrightarrow> r = Inr ())"
proof -
  obtain rc r w' where "run_command sys c check w = (r, w')" "log w' = log w @ [(c, rc)]"
    "check \<longrightarrow> ((\<exists>x. r = Inr x) \<longleftrightarrow> rc = 0)" "\<not> check \<longrightarrow> (\<exists>x. r = Inr x)"
    using logs_run_command[OF assms] by blast
  then show ?thesis by (cases r) (auto simp: run_ok_def p_bind_def p_ret_def)
qed

lemma webserver_is_enabled_logs:
  assumes "logs_commands sys log"
  shows "\<exists>ls r w'. webserver_is_enabled sys name kind w = (r, w') \<and> log w' = log w @ ls \<and>
    \<not> modules_changed ls \<and> \<not> sites_changed ls"
proof (cases "which sys ''a2query'' w \<and> kind \<in> {''config'', ''site'', ''module''}")
  case True
  then obtain opt where opt: "od_get [(''config'', ''-c''), (''site'', ''-s''), (''module'', ''-m'')] kind = Inr opt"
    by (auto simp: od_get_def)
  obtain rc r w' where "run_ok sys [''a2query'', opt, name] True w = (r, w')"
    "log w' = log w @ [([''a2query'', opt, name], rc)]"
    using logs_run_ok[OF assms, of "[''a2query'', opt, name]" True w] by blast
  then show ?thesis using True opt
    by (cases r) (auto simp: webserver_is_enabled_def run_succeeds_def p_defs p_lift_def p_ret_def p_raise_def)
next
  case False
  then show ?thesis
    by (intro exI[of _ "[]"]) (auto simp: webserver_is_enabled_def od_get_def p_bind_def p_lift_def)
qed

definition change_tells :: "(string list \<times> nat) list \<Rightarrow> string option result \<Rightarrow> bool" where
  "change_tells ls r \<longleftrightarrow>
     (modules_changed ls \<longleftrightarrow> r = Inr (Some ''restart'')) \<and> (sites_changed ls \<longleftrightarrow> r = Inr (Some ''reload''))"

lemma change_command_logs:
  assumes "logs_commands sys log"
    and cmd: "od_get [(''config'', c1), (''site'', c2), (''module'', c3)] kind = Inr cmd"
    and cs: "{c1, c2} \<subseteq> {''a2enconf'', ''a2ensite'', ''a2disconf'', ''a2dissite''}" "c3 \<in> {''a2enmod'', ''a2dismod''}"
  shows "\<exists>ls r w'. p_then (run_ok sys [cmd, name] True) (webserver_apply sys kind False) w = (r, w') \<and>
    log w' = log w @ ls \<and> change_tells ls r"
proof -
  obtain rc r w1 where w1: "run_ok sys [cmd, name] True w = (r, w1)" "log w1 = log w @ [([cmd, name], rc)]"
      "r = Inr () \<longleftrightarrow> rc = 0"
    using logs_run_ok[OF assms(1), of "[cmd, name]" True w] by blast
  have "kind = ''module'' \<and> cmd = c3 \<or> kind \<noteq> ''module'' \<and> cmd \<in> {c1, c2}"
    using cmd by (auto simp: od_get_def split: if_splits)
  then have "modules_changed [([cmd, name], rc)] \<longleftrightarrow> rc = 0 \<and> kind = ''module''"
    "sites_changed [([cmd, name], rc)] \<longleftrightarrow> rc = 0 \<and> kind \<noteq> ''module''"
    using cs by auto
  then have "change_tells [([cmd, name], rc)]
      (if rc = 0 then Inr (Some (if kind = ''module'' then ''restart'' else ''reload'')) else Inl e)" for e
    by (auto simp: change_tells_def)
  then show ?thesis using w1
    by (cases r) (force simp: webserver_apply_def Let_def p_defs p_ret_def)+
qed

lemma web_change_run_logs:
  assumes "logs_commands sys log"
  shows "\<exists>ls r w'. web_change_run sys c w = (r, w') \<and> log w' = log w @ ls \<and> change_tells ls r"
proof -
  have none: "change_tells ls (Inl e) \<and> change_tells ls (Inr None)"
    if "\<not> modules_changed ls" "\<not> sites_changed ls" for ls e
    using that by (simp add: change_tells_def)
  have go: "\<exists>ls r w'. p_bind (webserver_is_enabled sys name kind) (\<lambda>en. if skip en then p_ret None
      else p_bind (p_lift (od_get [(''config'', c1), (''site'', c2), (''module'', c3)] kind))
        (\<lambda>cmd. p_then (run_ok sys [cmd, name] True) (webserver_apply sys kind False))) w = (r, w') \<and>
      log w' = log w @ ls \<and> change_tells ls r"
    if cs: "{c1, c2} \<subseteq> {''a2enconf'', ''a2ensite'', ''a2disconf'', ''a2dissite''}" "c3 \<in> {''a2enmod'', ''a2dismod''}"
    for name kind skip c1 c2 c3
  proof -
    obtain ls r w1 where w1: "webserver_is_enabled sys name kind w = (r, w1)" "log w1 = log w @ ls"
        "\<not> modules_changed ls" "\<not> sites_changed ls"
      using webserver_is_enabled_logs[OF assms] by blast
    show ?thesis
    proof (cases "(\<exists>e. r = Inl e) \<or> (\<exists>en. r = Inr en \<and> skip en) \<or>
        (\<exists>e. od_get [(''config'', c1), (''site'', c2), (''module'', c3)] kind = Inl e)")
      case True
      then show ?thesis using w1 none[OF w1(3,4)]
        by (intro exI[of _ ls]) (auto simp: p_bind_def p_lift_def p_ret_def split: sum.splits)
    next
      case False
      then obtain en cmd where en: "r = Inr en" "\<not> skip en"
          and cmd: "od_get [(''config'', c1), (''site'', c2), (''module'', c3)] kind = Inr cmd"
        by (cases r; cases "od_get [(''config'', c1), (''site'', c2), (''module'', c3)] kind") auto
      obtain ls' r' w' where w': "p_then (run_ok sys [cmd, name] True) (webserver_apply sys kind False) w1 = (r', w')"
          "log w' = log w1 @ ls'" "change_tells ls' r'"
        using change_command_logs[OF assms cmd cs] by blast
      have "change_tells (ls @ ls') r'" using w'(3) w1(3,4) by (simp add: change_tells_def)
      then show ?thesis using w1 en cmd w'
        by (intro exI[of _ "ls @ ls'"]) (simp add: p_bind_def p_lift_def)
    qed
  qed
  show ?thesis
  proof (cases c)
    case (Web_enable name kind)
    then show ?thesis using go[of "''a2enconf''" "''a2ensite''" "''a2enmod''" name kind "\<lambda>en. en \<and> kind = ''module''"]
      by (simp add: webserver_enable_def)
  next
    case (Web_disable name kind)
    then show ?thesis using go[of "''a2disconf''" "''a2dissite''" "''a2dismod''" name kind Not]
      by (simp add: webserver_disable_def)
  qed
qed

lemma web_changes_logs:
  assumes "logs_commands sys log"
  shows "\<exists>ls r required' w'. web_changes sys cs required w = (r, required', w') \<and> log w' = log w @ ls \<and>
    (Some ''restart'' \<in> required' \<longleftrightarrow> Some ''restart'' \<in> required \<or> modules_changed ls) \<and>
    (Some ''reload'' \<in> required' \<longleftrightarrow> Some ''reload'' \<in> required \<or> sites_changed ls)"
proof (induction cs arbitrary: required w)
  case Nil
  then show ?case by (intro exI[of _ "[]"]) simp
next
  case (Cons c cs)
  obtain ls r w1 where w1: "web_change_run sys c w = (r, w1)" "log w1 = log w @ ls" "change_tells ls r"
    using web_change_run_logs[OF assms] by blast
  show ?case
  proof (cases r)
    case (Inl e)
    then show ?thesis using w1 by (intro exI[of _ ls]) (simp add: change_tells_def)
  next
    case (Inr a)
    obtain ls' r' required' w' where "web_changes sys cs (insert a required) w1 = (r', required', w')"
      "log w' = log w1 @ ls'"
      "Some ''restart'' \<in> required' \<longleftrightarrow> Some ''restart'' \<in> insert a required \<or> modules_changed ls'"
      "Some ''reload'' \<in> required' \<longleftrightarrow> Some ''reload'' \<in> insert a required \<or> sites_changed ls'"
      using Cons.IH[of "insert a required" w1] by blast
    then show ?thesis using w1 Inr by (intro exI[of _ "ls @ ls'"]) (auto simp: change_tells_def)
  qed
qed

text \<open>Leaving a \<open>WebserverChange\<close> block applies the changes once: after the commands of its
  calls there is exactly one restart of Apache if one of them changed a module, otherwise
  exactly one reload if one changed a configuration or a site, and no command otherwise;
  also when a call in the block raised.\<close>

theorem webserver_change_applies_once:
  assumes "logs_commands sys log"
  shows "\<exists>ls rc. log (snd (snd (web_changes sys cs {} w))) = log w @ ls \<and>
    fst (webserver_change sys cs w) = fst (web_changes sys cs {} w) \<and>
    log (snd (webserver_change sys cs w)) = log w @ ls @
      (if modules_changed ls then [([''systemctl'', ''restart'', ''apache2''], rc)]
       else if sites_changed ls then [([''systemctl'', ''reload'', ''apache2''], rc)] else [])"
proof -
  obtain ls r required w1 where w1: "web_changes sys cs {} w = (r, required, w1)" "log w1 = log w @ ls"
      "Some ''restart'' \<in> required \<longleftrightarrow> modules_changed ls" "Some ''reload'' \<in> required \<longleftrightarrow> sites_changed ls"
    using web_changes_logs[OF assms, of cs "{}" w] by auto
  have one: "\<exists>rc w2. run_ok sys c False w1 = (Inr (), w2) \<and> log w2 = log w1 @ [(c, rc)]" for c
    using logs_run_ok[OF assms, of c False w1] by auto
  obtain rc1 w2 where w2: "run_ok sys [''systemctl'', ''restart'', ''apache2''] False w1 = (Inr (), w2)"
      "log w2 = log w1 @ [([''systemctl'', ''restart'', ''apache2''], rc1)]" using one by blast
  obtain rc2 w3 where w3: "run_ok sys [''systemctl'', ''reload'', ''apache2''] False w1 = (Inr (), w3)"
      "log w3 = log w1 @ [([''systemctl'', ''reload'', ''apache2''], rc2)]" using one by blast
  have "\<not> ends_with ''apache2'' ''.socket''" by (simp add: ends_with_def)
  then show ?thesis using w1 w2 w3
    by (intro exI[of _ ls] exI[of _ "if modules_changed ls then rc1 else rc2"])
      (simp add: webserver_change_def webserver_change_exit_def service_restart_def service_reload_def
        service_action_def p_defs p_lift_def p_ret_def)
qed

definition logging_machine :: "(string list \<times> nat) list system" where
  "logging_machine =
     \<lparr>sh = \<lambda>c w. (Inr (0, []), w @ [(c, 0)]), path_exists = \<lambda>f w. False, touch_file = \<lambda>f w. w,
      unlink_file = \<lambda>f w. w, which = \<lambda>f w. True\<rparr>"

theorem webserver_change_applies_once_witness:
  "\<exists>ls rc. snd (webserver_change logging_machine [Web_enable ''freedombox'' ''site'', Web_disable ''ssl'' ''module''] []) =
     ls @ [([''systemctl'', ''restart'', ''apache2''], rc)]"
proof -
  have "logs_commands logging_machine (\<lambda>w. w)" by (simp add: logs_commands_def logging_machine_def)
  moreover have "modules_changed (snd (snd (web_changes logging_machine
      [Web_enable ''freedombox'' ''site'', Web_disable ''ssl'' ''module''] {} [])))"
    by (simp add: logging_machine_def webserver_enable_def webserver_disable_def webserver_is_enabled_def
        webserver_apply_def run_succeeds_def run_ok_def run_command_def p_defs p_ret_def p_lift_def od_get_def
        modules_changed_def)
  ultimately show ?thesis
    using webserver_change_applies_once[of logging_machine "\<lambda>w. w"
        "[Web_enable ''freedombox'' ''site'', Web_disable ''ssl'' ''module'']" "[]"]
    by auto
qed

end
