(* ===== verification/Packages.thy ===== *)
theory Packages
  imports Operations System AppLaws
begin

text \<open>
  Packages of apps (plinth/package.py and the apt calls of plinth/privileged/packages.py):
  package expressions, the Packages component, installing and removing packages inside an
  operation, the packages kept when an app is uninstalled, and the table of known package
  versions in the key/value store. What python-apt reads is the state \<open>apt_cache\<close>; apt and
  dpkg themselves are the commands of the parameter \<open>sh\<close>, which may change it.
\<close>

section \<open>The machine\<close>

record installed_version =
  iv_version :: string
  iv_dependencies :: "string list list"

record apt_package =
  candidate :: "string option"
  installed :: "installed_version option"

type_synonym apt_cache = "(string, apt_package) odict"

text \<open>
  The world of a setup: the database, the apt cache, the time in seconds, the operation of the
  running thread with its data, and the thread's stored error messages.
\<close>

record sys_world = world +
  apt_cache :: apt_cache
  clock :: int
  thread_op :: "operation option"
  thread_data :: "(string, json) odict"
  error_messages :: "string list option"
  shutting_down :: bool
  pkgcache_mtime :: "int option"
  apt_source_mtimes :: "int list"

definition is_installed :: "apt_package \<Rightarrow> bool" where
  "is_installed p \<longleftrightarrow> installed p \<noteq> None"

section \<open>Package expressions\<close>

definition expr_package :: "string \<Rightarrow> package_expr" where
  "expr_package n = Package \<lparr>package_name = n, optional = False, package_version = None, distribution = None,
     suite = None, codename = None, architecture = None\<rparr>"

primrec expr_possible :: "package_expr \<Rightarrow> string list" where
  "expr_possible (Package p) = [package_name p]"
| "expr_possible (PackageOr e1 e2) = expr_possible e1 @ expr_possible e2"

primrec expr_actual :: "apt_cache \<Rightarrow> package_expr \<Rightarrow> string result" where
  "expr_actual cache (Package p) =
     (case map_of cache (package_name p) of
        None \<Rightarrow> Inl (MissingPackageError (package_name p))
      | Some ap \<Rightarrow> if candidate ap \<noteq> None then Inr (package_name p)
                    else Inl (MissingPackageError (package_name p)))"
| "expr_actual cache (PackageOr e1 e2) =
     (case expr_actual cache e1 of
        Inr n \<Rightarrow> Inr n
      | Inl e \<Rightarrow> if is_missing_package e then expr_actual cache e2 else Inl e)"

text \<open>\<open>PackageOr\<close> has no attribute \<open>name\<close>: the repr of a nested one raises.\<close>

fun expr_name :: "package_expr \<Rightarrow> string result" where
  "expr_name (Package p) = Inr (package_name p)"
| "expr_name (PackageOr e1 e2) = Inl (AttributeError ''name'')"

fun expr_repr :: "package_expr \<Rightarrow> string result" where
  "expr_repr (Package p) = Inr (package_name p)"
| "expr_repr (PackageOr e1 e2) =
     r_bind (expr_name e1) (\<lambda>a. r_bind (expr_name e2) (\<lambda>b. Inr (a @ '' | '' @ b)))"

section \<open>The Packages component\<close>

definition possible_packages :: "packages_fields \<Rightarrow> string list" where
  "possible_packages pf = concat (map expr_possible (package_expressions pf))"

definition get_actual_packages :: "packages_fields \<Rightarrow> (sys_world, string list) prog" where
  "get_actual_packages pf w = (r_map (expr_actual (apt_cache w)) (package_expressions pf), w)"

definition packages_init ::
  "string \<Rightarrow> (string + package_expr) list \<Rightarrow> bool \<Rightarrow> string list option \<Rightarrow> conflicts_action option \<Rightarrow> bool \<Rightarrow>
   ('x world_scheme, comp_obj) prog"
where
  "packages_init cid ps skip confl action rerun =
     p_bind (follower_init cid False) (\<lambda>self. p_ret (self\<lparr>classes := ''Packages'' # classes self,
       packages := Some \<lparr>package_expressions = map (case_sum expr_package id) ps, skip_recommends = skip,
         conflicts = (case confl of None \<Rightarrow> [] | Some cs \<Rightarrow> cs), conflicts_action = action,
         rerun_setup_on_upgrade = rerun\<rparr>\<rparr>))"

definition packages_components :: "'w app \<Rightarrow> packages_fields list" where
  "packages_components a =
     concat (map (\<lambda>c. case packages (obj c) of None \<Rightarrow> [] | Some pf \<Rightarrow> [pf]) (get_components_of_type a ''Packages''))"

definition packages_installed :: "string list \<Rightarrow> (sys_world, string list) prog" where
  "packages_installed candidates = p_get (\<lambda>w.
     filter (\<lambda>n. case map_of (apt_cache w) n of None \<Rightarrow> False | Some p \<Rightarrow> is_installed p) candidates)"

definition find_conflicts :: "packages_fields \<Rightarrow> (sys_world, string list option) prog" where
  "find_conflicts pf =
     (if conflicts pf = [] then p_ret None
      else p_bind (packages_installed (conflicts pf)) (\<lambda>ps. p_ret (Some ps)))"

section \<open>Known packages\<close>

definition get_known :: "('x world_scheme, json) prog" where
  "get_known = kv_get_default ''packages_known'' (JDict [])"

text \<open>\<open>packages_known.setdefault(p, \{\})['version'] = v\<close> on the dict that was read.\<close>

definition set_known_version :: "json \<Rightarrow> string \<Rightarrow> string \<Rightarrow> json result" where
  "set_known_version known p v =
     (case known of
        JDict d \<Rightarrow>
          (case map_of d p of
             None \<Rightarrow> Inr (JDict (od_set d p (JDict [(''version'', JStr v)])))
           | Some (JDict entry) \<Rightarrow> Inr (JDict (od_set d p (JDict (od_set entry ''version'' (JStr v)))))
           | Some _ \<Rightarrow> Inl (TypeError ''object does not support item assignment''))
      | _ \<Rightarrow> Inl (AttributeError ''setdefault''))"

primrec mark_known_in :: "apt_cache \<Rightarrow> string list \<Rightarrow> json \<Rightarrow> json result" where
  "mark_known_in cache [] known = Inr known"
| "mark_known_in cache (p # ps) known =
     (case map_of cache p of
        None \<Rightarrow> mark_known_in cache ps known
      | Some ap \<Rightarrow>
          (case installed ap of
             None \<Rightarrow> mark_known_in cache ps known
           | Some iv \<Rightarrow> r_bind (set_known_version known p (iv_version iv)) (mark_known_in cache ps)))"

definition mark_known :: "string list \<Rightarrow> (sys_world, unit) prog" where
  "mark_known ps =
     p_bind get_known (\<lambda>known.
       p_bind (\<lambda>w. (mark_known_in (apt_cache w) ps known, w)) (\<lambda>known'.
         kv_set ''packages_known'' known'))"

text \<open>\<open>pop\<close> of a missing key raises KeyError, which is dropped.\<close>

primrec unmark_known_in :: "string list \<Rightarrow> json \<Rightarrow> json result" where
  "unmark_known_in [] known = Inr known"
| "unmark_known_in (p # ps) known =
     (case known of JDict d \<Rightarrow> unmark_known_in ps (JDict (od_del d p)) | _ \<Rightarrow> Inl (AttributeError ''pop''))"

definition unmark_known :: "string list \<Rightarrow> ('x world_scheme, unit) prog" where
  "unmark_known ps =
     p_bind get_known (\<lambda>known.
       p_bind (p_lift (unmark_known_in ps known)) (\<lambda>known'. kv_set ''packages_known'' known'))"

section \<open>Privileged apt calls\<close>

text \<open>\<open>_assert_managed_packages\<close>: against the apps the privileged process has loaded.\<close>

definition assert_managed_packages :: "sys_world apps \<Rightarrow> string \<Rightarrow> string list \<Rightarrow> unit result" where
  "assert_managed_packages all_apps aid ps =
     r_bind (od_get all_apps aid) (\<lambda>a.
       let managed = concat (map (\<lambda>pf. possible_packages pf @ conflicts pf) (packages_components a))
       in r_for (\<lambda>p. assert_that (p \<in> set managed)) ps)"

definition privileged_update :: "sys_world system \<Rightarrow> (sys_world, unit) prog" where
  "privileged_update sys =
     p_bind (run_apt_command sys [''update''] False) (\<lambda>rc.
       if rc \<noteq> 0 then p_raise (RuntimeError ''Apt command failed with return code'') else p_ret ())"

definition install_arguments :: "bool \<Rightarrow> string option \<Rightarrow> bool \<Rightarrow> bool \<Rightarrow> string list" where
  "install_arguments skip force reinstall force_missing =
     (if skip then [''--no-install-recommends''] else []) @
     (if force = Some ''old'' then [''-o'', ''Dpkg::Options::=--force-confdef'', ''-o'', ''Dpkg::Options::=--force-confold'']
      else if force = Some ''new'' then [''-o'', ''Dpkg::Options::=--force-confnew''] else []) @
     (if reinstall then [''--reinstall''] else []) @
     (if force_missing then [''-o'', ''Dpkg::Options::=--force-confmiss''] else [])"

text \<open>The common tail of install and remove: repair dpkg's state, then apt with freedombox held.\<close>

definition apt_with_hold :: "sys_world system \<Rightarrow> string list \<Rightarrow> (sys_world, unit) prog" where
  "apt_with_hold sys args =
     p_then (run_ok sys [''dpkg'', ''--configure'', ''-a''] False)
       (p_bind (apt_hold_freedombox sys
                  (p_bind (run_apt_command sys [''--fix-broken'', ''install''] False) (\<lambda>_.
                     run_apt_command sys args False)))
         (\<lambda>rc. if rc \<noteq> 0 then p_raise (RuntimeError ''Apt command failed with return code'') else p_ret ()))"

definition privileged_install ::
  "sys_world system \<Rightarrow> sys_world apps \<Rightarrow> string \<Rightarrow> string list \<Rightarrow> bool \<Rightarrow> string option \<Rightarrow> bool \<Rightarrow> bool \<Rightarrow> (sys_world, unit) prog"
where
  "privileged_install sys all_apps aid ps skip force reinstall force_missing =
     (if force \<notin> {Some ''old'', Some ''new'', None} then p_raise (ValueError ''Invalid value for force_configuration'')
      else case assert_managed_packages all_apps aid ps of
             Inl e \<Rightarrow> p_raise (PermissionError ''Packages are not managed'')
           | Inr _ \<Rightarrow> apt_with_hold sys ([''install''] @ install_arguments skip force reinstall force_missing @ ps))"

definition privileged_remove ::
  "sys_world system \<Rightarrow> sys_world apps \<Rightarrow> string \<Rightarrow> string list \<Rightarrow> bool \<Rightarrow> (sys_world, unit) prog"
where
  "privileged_remove sys all_apps aid ps purge =
     (case assert_managed_packages all_apps aid ps of
        Inl e \<Rightarrow> p_raise (PermissionError ''Packages are not managed'')
      | Inr _ \<Rightarrow> apt_with_hold sys ([''remove''] @ (if \<not> purge then [] else [''--purge'']) @ ps))"

section \<open>Installing and removing inside an operation\<close>

text \<open>\<open>package.is_package_manager_busy\<close>: any failure of the call counts as not busy.\<close>

definition pm_busy :: "sys_world system \<Rightarrow> (sys_world, bool) prog" where
  "pm_busy sys = p_catch (is_package_manager_busy sys) (\<lambda>_. p_ret False)"

text \<open>
  The loop that waits for the package manager: three seconds of sleep a round, PackageException
  after a day. The clock does not go back during the call.
\<close>

definition forward_clock :: "sys_world \<Rightarrow> sys_world \<Rightarrow> sys_world" where
  "forward_clock w w' = w'\<lparr>clock := max (clock w) (clock w')\<rparr>"

function wait_for_package_manager :: "sys_world system \<Rightarrow> int \<Rightarrow> (sys_world, unit) prog" where
  "wait_for_package_manager sys start w =
     (let (r, w1) = pm_busy sys w; w2 = forward_clock w w1
      in if r = Inr True
         then if clock w2 - start \<ge> 24 * 3600 then (Inl (PackageException ''Timeout waiting for package manager''), w2)
              else wait_for_package_manager sys start (w2\<lparr>clock := clock w2 + 3\<rparr>)
         else (Inr (), w2))"
  by pat_completeness auto

termination
proof (relation "measure (\<lambda>(sys, start, w). nat (start + 24 * 3600 + 3 - clock w))", goal_cases)
  case 1
  then show ?case by simp
next
  case (2 sys start w p r w1 w2)
  then have "clock w2 - start < 24 * 3600" by simp
  moreover have "clock w \<le> clock w2" using 2(3) by (simp add: forward_clock_def)
  ultimately show ?case by simp
qed

declare wait_for_package_manager.simps [simp del]

text \<open>The part of a transaction that installs: update the lists, then the privileged call.\<close>

definition transaction_install ::
  "sys_world system \<Rightarrow> sys_world apps \<Rightarrow> string \<Rightarrow> string list \<Rightarrow> bool \<Rightarrow> string option \<Rightarrow> bool \<Rightarrow> bool \<Rightarrow> (sys_world, unit) prog"
where
  "transaction_install sys all_apps aid ps skip force reinstall force_missing =
     p_then (privileged_update sys) (privileged_install sys all_apps aid ps skip force reinstall force_missing)"

definition transaction_uninstall ::
  "sys_world system \<Rightarrow> sys_world apps \<Rightarrow> string \<Rightarrow> string list \<Rightarrow> bool \<Rightarrow> (sys_world, unit) prog"
where
  "transaction_uninstall sys all_apps aid ps purge = privileged_remove sys all_apps aid ps purge"

definition refresh_package_lists :: "sys_world system \<Rightarrow> (sys_world, unit) prog" where
  "refresh_package_lists sys = privileged_update sys"

text \<open>\<open>cache[name]\<close> raises KeyError for an unknown name.\<close>

definition assert_installed :: "string list \<Rightarrow> (sys_world, unit) prog" where
  "assert_installed ps w =
     (r_for (\<lambda>p. r_bind (od_get (apt_cache w) p) (\<lambda>ap.
        if is_installed ap then Inr () else Inl (PackageNotInstalledError p))) ps, w)"

definition package_install ::
  "sys_world system \<Rightarrow> sys_world apps \<Rightarrow> string list \<Rightarrow> bool \<Rightarrow> string option \<Rightarrow> bool \<Rightarrow> bool \<Rightarrow> (sys_world, unit) prog"
where
  "package_install sys all_apps ps skip force reinstall force_missing w =
     (case thread_op w of
        None \<Rightarrow> (Inl (RuntimeError ''install() must be called from within an operation.''), w)
      | Some oper \<Rightarrow>
          if \<not> truthy (case map_of (thread_data w) ''allow_install'' of None \<Rightarrow> JBool True | Some v \<Rightarrow> v)
          then assert_installed ps w
          else p_then (wait_for_package_manager sys (clock w))
                 (p_then (transaction_install sys all_apps (op_app_id oper) ps skip force reinstall force_missing)
                    (mark_known ps)) w)"

definition package_uninstall :: "sys_world system \<Rightarrow> sys_world apps \<Rightarrow> string list \<Rightarrow> bool \<Rightarrow> (sys_world, unit) prog" where
  "package_uninstall sys all_apps ps purge w =
     (case thread_op w of
        None \<Rightarrow> (Inl (RuntimeError ''uninstall() must be called from within an operation.''), w)
      | Some oper \<Rightarrow>
          p_then (wait_for_package_manager sys (clock w))
            (p_then (transaction_uninstall sys all_apps (op_app_id oper) ps purge) (unmark_known ps)) w)"

section \<open>Packages to keep\<close>

definition dependencies_of :: "apt_cache \<Rightarrow> string \<Rightarrow> string list" where
  "dependencies_of cache n =
     (case map_of cache n of
        None \<Rightarrow> []
      | Some ap \<Rightarrow> (case installed ap of None \<Rightarrow> [] | Some iv \<Rightarrow> concat (iv_dependencies iv)))"

text \<open>
  The work list of \<open>_filter_packages_to_keep\<close>. The code takes the next package out of a Python
  set, in no particular order; here it is the head of a list.
\<close>

function keep_with_deps :: "apt_cache \<Rightarrow> string list \<Rightarrow> string set \<Rightarrow> string set" where
  "keep_with_deps cache [] done_set = done_set"
| "keep_with_deps cache (n # keep) done_set =
     (if n \<in> done_set then keep_with_deps cache keep done_set
      else keep_with_deps cache (dependencies_of cache n @ keep) (insert n done_set))"
  by pat_completeness auto

termination
proof (relation "measures [\<lambda>(cache, keep, done_set). card (fst ` set cache - done_set), \<lambda>(cache, keep, done_set). length keep]",
    goal_cases)
  case 1
  then show ?case by simp
next
  case (2 cache n keep done_set)
  then show ?case by simp
next
  case (3 cache n keep done_set)
  show ?case
  proof (cases "n \<in> fst ` set cache")
    case True
    then have "fst ` set cache - insert n done_set \<subset> fst ` set cache - done_set" using 3 by blast
    then show ?thesis by (simp add: psubset_card_mono)
  next
    case False
    then have "map_of cache n = None" by (simp add: map_of_eq_None_iff)
    moreover have "fst ` set cache - insert n done_set = fst ` set cache - done_set" using False by blast
    ultimately show ?thesis by (simp add: dependencies_of_def)
  qed
qed

definition keep_roots :: "'w app list \<Rightarrow> string list" where
  "keep_roots others = ''freedombox'' # concat (map (\<lambda>a. concat (map possible_packages (packages_components a))) others)"

text \<open>The other apps that are installed: \<open>get_setup_state() != NEEDS_SETUP\<close>, in the order of the list.\<close>

primrec installed_others :: "string \<Rightarrow> sys_world app list \<Rightarrow> (sys_world, sys_world app list) prog" where
  "installed_others self_app [] = p_ret []"
| "installed_others self_app (a # as) =
     (if app_id a = self_app then installed_others self_app as
      else p_bind (get_setup_state a) (\<lambda>st. p_bind (installed_others self_app as) (\<lambda>rest.
             p_ret (if st = NEEDS_SETUP then rest else a # rest))))"

definition filter_packages_to_keep ::
  "sys_world apps \<Rightarrow> string \<Rightarrow> string list \<Rightarrow> (sys_world, string list) prog"
where
  "filter_packages_to_keep all_apps self_app ps =
     p_bind (installed_others self_app (od_values all_apps)) (\<lambda>others.
       p_get (\<lambda>w. let kept = keep_with_deps (apt_cache w) (keep_roots others) {}
                  in filter (\<lambda>p. p \<notin> kept) ps))"

section \<open>The methods of the component\<close>

definition packages_setup :: "sys_world system \<Rightarrow> sys_world apps \<Rightarrow> packages_fields \<Rightarrow> int \<Rightarrow> (sys_world, unit) prog" where
  "packages_setup sys all_apps pf old_version =
     p_bind (find_conflicts pf) (\<lambda>to_remove.
       p_then (case to_remove of
                 None \<Rightarrow> p_ret ()
               | Some ps \<Rightarrow>
                   if ps \<noteq> [] \<and> conflicts_action pf \<notin> {None, Some CONFLICTS_IGNORE}
                   then package_uninstall sys all_apps ps False else p_ret ())
         (p_bind (get_actual_packages pf) (\<lambda>ps.
            package_install sys all_apps ps (skip_recommends pf) None False False)))"

definition packages_uninstall :: "sys_world system \<Rightarrow> sys_world apps \<Rightarrow> string \<Rightarrow> packages_fields \<Rightarrow> (sys_world, unit) prog" where
  "packages_uninstall sys all_apps self_app pf =
     p_then (refresh_package_lists sys)
       (p_bind (filter_packages_to_keep all_apps self_app (possible_packages pf)) (\<lambda>ps.
          package_uninstall sys all_apps ps True))"

definition package_check :: "apt_cache \<Rightarrow> string \<Rightarrow> package_expr \<Rightarrow> diagnostic_check result" where
  "package_check cache cid e =
     (case expr_actual cache e of
        Inl ex \<Rightarrow>
          if is_missing_package ex
          then r_bind (expr_repr e) (\<lambda>repr. Inr
            \<lparr>check_id = ''package-available-'' @ repr,
             description = ''Package {package_expression} is not available for install'',
             check_result = FAILED, parameters = [(''package_expression'', JStr repr)],
             check_component_id = Some cid\<rparr>)
          else Inl ex
      | Inr n \<Rightarrow>
          let (latest, res) =
            (case map_of cache n of
               None \<Rightarrow> (''?'', WARNING)
             | Some ap \<Rightarrow>
                 (case candidate ap of
                    None \<Rightarrow> (''?'', WARNING)
                  | Some v \<Rightarrow> (v, if map_option iv_version (installed ap) = Some v then PASSED else WARNING)))
          in Inr \<lparr>check_id = ''package-latest-'' @ n,
                  description = ''Package {package_name} is the latest version ({latest_version})'',
                  check_result = res, parameters = [(''package_name'', JStr n), (''latest_version'', JStr latest)],
                  check_component_id = Some cid\<rparr>)"

definition packages_diagnose :: "string \<Rightarrow> packages_fields \<Rightarrow> (sys_world, diagnostic_check list) prog" where
  "packages_diagnose cid pf w = (r_map (package_check (apt_cache w) cid) (package_expressions pf), w)"

text \<open>\<open>is_available\<close>: a fresh package cache decides; an old one, or newer sources, are refreshed.\<close>

definition cache_is_fresh :: "sys_world \<Rightarrow> bool" where
  "cache_is_fresh w =
     (case pkgcache_mtime w of
        None \<Rightarrow> False
      | Some t \<Rightarrow> clock w - t < 3600 \<and> \<not> (\<exists>s \<in> set (apt_source_mtimes w). s > t))"

definition packages_is_available :: "sys_world system \<Rightarrow> packages_fields \<Rightarrow> (sys_world, bool) prog" where
  "packages_is_available sys pf =
     p_catch (p_then (get_actual_packages pf) (p_ret True))
       (\<lambda>e. if \<not> is_missing_package e then p_raise e
            else p_bind (p_get cache_is_fresh) (\<lambda>fresh.
              if fresh then p_ret False
              else p_then (refresh_package_lists sys)
                (p_catch (p_then (get_actual_packages pf) (p_ret True))
                   (\<lambda>e. if is_missing_package e then p_ret False else p_raise e))))"

text \<open>
  The method table of a Packages object. The registry of apps is an argument: the methods read
  only the ids, the setup state and the package lists of its apps.
\<close>

definition packages_vtable :: "sys_world system \<Rightarrow> sys_world apps \<Rightarrow> sys_world vtable" where
  "packages_vtable sys all_apps =
     (let fields = (\<lambda>self. case packages self of None \<Rightarrow> Inl (AttributeError ''_packages'') | Some pf \<Rightarrow> Inr pf)
      in follower_vtable\<lparr>
           vt_setup := (\<lambda>self v. p_bind (p_lift (fields self)) (\<lambda>pf. packages_setup sys all_apps pf v)),
           vt_uninstall := (\<lambda>self. p_bind (p_lift (fields self)) (\<lambda>pf.
             packages_uninstall sys all_apps (case comp_app_id self of None \<Rightarrow> [] | Some a \<Rightarrow> a) pf)),
           vt_diagnose := (\<lambda>self. p_bind (p_lift (fields self)) (packages_diagnose (component_id self))),
           vt_has_diagnostics := (\<lambda>self. True),
           vt_is_available := (\<lambda>self. p_bind (p_lift (fields self)) (packages_is_available sys))\<rparr>)"

section \<open>Which packages are kept\<close>

text \<open>The specification: what the roots reach along the dependencies of installed packages.\<close>

definition depends_on :: "apt_cache \<Rightarrow> (string \<times> string) set" where
  "depends_on cache = {(a, b). b \<in> set (dependencies_of cache a)}"

lemma keep_with_deps_spec:
  assumes "\<And>a b. a \<in> done_set \<Longrightarrow> b \<in> set (dependencies_of cache a) \<Longrightarrow> b \<in> done_set \<union> set keep"
  shows "keep_with_deps cache keep done_set = done_set \<union> (depends_on cache)\<^sup>* `` set keep"
  using assms
proof (induction cache keep done_set rule: keep_with_deps.induct)
  case (1 cache done_set)
  then show ?case by simp
next
  case (2 cache n keep done_set)
  show ?case
  proof (cases "n \<in> done_set")
    case True
    have closed: "b \<in> done_set \<union> set keep" if "a \<in> done_set" "b \<in> set (dependencies_of cache a)" for a b
      using "2.prems"[OF that] True by auto
    have "(depends_on cache)\<^sup>* `` {n} \<subseteq> done_set \<union> (depends_on cache)\<^sup>* `` set keep"
    proof
      fix x assume "x \<in> (depends_on cache)\<^sup>* `` {n}"
      then have "(n, x) \<in> (depends_on cache)\<^sup>*" by simp
      then show "x \<in> done_set \<union> (depends_on cache)\<^sup>* `` set keep"
      proof (induction rule: rtrancl_induct)
        case base
        then show ?case using True by simp
      next
        case (step y z)
        then show ?case using closed[of y z] by (auto simp: depends_on_def intro: rtrancl_into_rtrancl)
      qed
    qed
    moreover have "(depends_on cache)\<^sup>* `` set (n # keep) = (depends_on cache)\<^sup>* `` {n} \<union> (depends_on cache)\<^sup>* `` set keep"
      by auto
    moreover have "keep_with_deps cache keep done_set = done_set \<union> (depends_on cache)\<^sup>* `` set keep"
      by (rule "2.IH"(1)[OF True]) (rule closed)
    ultimately show ?thesis using True by (simp only: keep_with_deps.simps if_True) blast
  next
    case False
    let ?keep = "dependencies_of cache n @ keep"
    have closed: "b \<in> insert n done_set \<union> set ?keep" if "a \<in> insert n done_set" "b \<in> set (dependencies_of cache a)" for a b
      using "2.prems"[of a b] that by auto
    have "(depends_on cache)\<^sup>* `` {n} = insert n ((depends_on cache)\<^sup>* `` set (dependencies_of cache n))"
      by (auto simp: depends_on_def elim: converse_rtranclE intro: converse_rtrancl_into_rtrancl)
    moreover have "keep_with_deps cache ?keep (insert n done_set) =
        insert n done_set \<union> (depends_on cache)\<^sup>* `` set ?keep"
      by (rule "2.IH"(2)[OF False]) (rule closed)
    moreover have "(depends_on cache)\<^sup>* `` set (n # keep) = (depends_on cache)\<^sup>* `` {n} \<union> (depends_on cache)\<^sup>* `` set keep"
      by auto
    ultimately show ?thesis using False by (simp only: keep_with_deps.simps if_False) auto
  qed
qed

lemma installed_others_eval:
  assumes "\<forall>a \<in> set as. \<exists>i. app_info a = Inr i"
  shows "installed_others self_app as w =
    (Inr (filter (\<lambda>a. app_id a \<noteq> self_app \<and>
        (case map_of (module_versions w) (app_id a) of None \<Rightarrow> 0 | Some n \<Rightarrow> n) \<noteq> 0) as), w)"
  using assms
proof (induction as)
  case (Cons a as)
  then obtain i where "app_info a = Inr i" by auto
  with Cons show ?case by (auto simp: p_bind_def p_ret_def get_setup_state_eval Let_def)
qed (simp add: p_ret_def)

text \<open>C5: Uninstalling an app never removes a package that is still needed: the packages that are
  purged are, in their order, those of the app that neither freedombox nor any other
  installed app lists as possible package or reaches along the dependencies and
  recommendations of installed packages.\<close>

theorem filter_packages_to_keep_exact:
  assumes "\<forall>a \<in> set (od_values all_apps). \<exists>i. app_info a = Inr i"
  shows "filter_packages_to_keep all_apps self_app ps w =
    (let others = filter (\<lambda>a. app_id a \<noteq> self_app \<and>
           (case map_of (module_versions w) (app_id a) of None \<Rightarrow> 0 | Some n \<Rightarrow> n) \<noteq> 0) (od_values all_apps);
         roots = insert ''freedombox'' (\<Union>a \<in> set others. \<Union>pf \<in> set (packages_components a). set (possible_packages pf))
     in (Inr (filter (\<lambda>p. \<not> (\<exists>k \<in> roots. (k, p) \<in> (depends_on (apt_cache w))\<^sup>*)) ps), w))"
proof -
  let ?others = "filter (\<lambda>a. app_id a \<noteq> self_app \<and>
       (case map_of (module_versions w) (app_id a) of None \<Rightarrow> 0 | Some n \<Rightarrow> n) \<noteq> 0) (od_values all_apps)"
  let ?roots = "insert ''freedombox'' (\<Union>a \<in> set ?others. \<Union>pf \<in> set (packages_components a). set (possible_packages pf))"
  have roots: "set (keep_roots ?others) = ?roots" by (simp add: keep_roots_def)
  have "keep_with_deps (apt_cache w) (keep_roots ?others) {} = (depends_on (apt_cache w))\<^sup>* `` ?roots"
    using keep_with_deps_spec[of "{}" "apt_cache w" "keep_roots ?others"] roots by simp
  then have mem: "p \<notin> keep_with_deps (apt_cache w) (keep_roots ?others) {} \<longleftrightarrow>
      \<not> (\<exists>k \<in> ?roots. (k, p) \<in> (depends_on (apt_cache w))\<^sup>*)" for p
    by (simp only: Image_iff)
  show ?thesis
    unfolding filter_packages_to_keep_def p_bind_def installed_others_eval[OF assms] Let_def
    by (simp only: prod.case sum.case p_get_def mem)
qed

text \<open>Two apps whose packages share a dependency.\<close>

definition package_app :: "string \<Rightarrow> string list \<Rightarrow> sys_world app" where
  "package_app aid ps =
     (let base = \<lparr>component_id = aid @ ''-info'', comp_app_id = Some aid, is_leader = False, classes = [''Info''],
            info = Some \<lparr>version = 1, is_essential = False, depends = [], info_name = None, icon = None,
              icon_filename = None, info_description = None, manual_page = None, clients = None,
              donation_url = None, tags = []\<rparr>, packages = None\<rparr>
      in \<lparr>app_id = aid, can_be_disabled = True, configure_when_disabled = True,
        components = [(aid @ ''-info'', \<lparr>obj = base, vt = follower_vtable\<rparr>),
          (''packages'', \<lparr>obj = base\<lparr>component_id := ''packages'', classes := [''Packages''], info := None,
             packages := Some \<lparr>package_expressions = map expr_package ps, skip_recommends = False,
               conflicts = [], conflicts_action = None, rerun_setup_on_upgrade = True\<rparr>\<rparr>,
           vt = follower_vtable\<rparr>)],
        ov_post_init = p_ret (), ov_setup = None, ov_uninstall = None, ov_enable = None,
        ov_disable = None, ov_diagnose = None, ov_repair = None\<rparr>)"

definition shared_cache :: apt_cache where
  "shared_cache =
     [(''freedombox'', \<lparr>candidate = Some ''25.1'', installed = Some \<lparr>iv_version = ''25.1'', iv_dependencies = []\<rparr>\<rparr>),
      (''php'', \<lparr>candidate = Some ''8.4'', installed = Some \<lparr>iv_version = ''8.4'', iv_dependencies = []\<rparr>\<rparr>),
      (''wordpress'', \<lparr>candidate = Some ''6.1'', installed = Some \<lparr>iv_version = ''6.1'', iv_dependencies = [[''php'']]\<rparr>\<rparr>)]"

definition shared_world :: sys_world where
  "shared_world = \<lparr>kv = [], module_versions = [(''wordpress'', 1), (''tiddlywiki'', 1)], enabled_attr = [],
     apt_cache = shared_cache, clock = 0, thread_op = None, thread_data = [], error_messages = None,
     shutting_down = False, pkgcache_mtime = None, apt_source_mtimes = []\<rparr>"

text \<open>A machine on which every command succeeds without output and changes nothing.\<close>

definition idle_system :: "sys_world system" where
  "idle_system = \<lparr>sh = \<lambda>c w. (Inr (0, []), w), path_exists = \<lambda>f w. False, touch_file = \<lambda>f w. w,
     unlink_file = \<lambda>f w. w, which = \<lambda>f w. False\<rparr>"

definition shared_apps :: "sys_world apps" where
  "shared_apps = [(''wordpress'', package_app ''wordpress'' [''wordpress'']),
     (''tiddlywiki'', package_app ''tiddlywiki'' [''tiddlywiki'', ''php''])]"

lemma expr_package_possible [simp]: "expr_possible (expr_package n) = [n]"
  by (simp add: expr_package_def)

lemma package_app_simps [simp]:
  "app_id (package_app aid ps) = aid"
  "possible_packages \<lparr>package_expressions = map expr_package ps, skip_recommends = False,
     conflicts = [], conflicts_action = None, rerun_setup_on_upgrade = True\<rparr> = ps"
  "\<exists>i. app_info (package_app aid ps) = Inr i"
  by (simp_all add: package_app_def possible_packages_def expr_package_def comp_def Let_def app_info_def
      app_get_component_def od_get_def)

lemma package_app_components [simp]:
  "packages_components (package_app aid ps) =
     [\<lparr>package_expressions = map expr_package ps, skip_recommends = False,
       conflicts = [], conflicts_action = None, rerun_setup_on_upgrade = True\<rparr>]"
  by (simp add: packages_components_def get_components_of_type_def package_app_def Let_def)

theorem filter_packages_to_keep_exact_witness:
  "filter_packages_to_keep shared_apps ''tiddlywiki'' [''tiddlywiki'', ''php''] shared_world =
     (Inr [''tiddlywiki''], shared_world)"
proof -
  have info: "\<forall>a \<in> set (od_values shared_apps). \<exists>i. app_info a = Inr i" by (simp add: shared_apps_def)
  have dep: "depends_on shared_cache = {(''wordpress'', ''php'')}"
    by (auto simp: depends_on_def dependencies_of_def shared_cache_def split: if_splits)
  have reach: "(''wordpress'', p) \<in> {(''wordpress'', ''php'')}\<^sup>* \<longleftrightarrow> p = ''wordpress'' \<or> p = ''php''"
    "(''freedombox'', p) \<in> {(''wordpress'', ''php'')}\<^sup>* \<longleftrightarrow> p = ''freedombox''" for p
    by (auto elim: converse_rtranclE)
  show ?thesis
    unfolding filter_packages_to_keep_exact[OF info] Let_def
    by (simp add: shared_apps_def shared_world_def possible_packages_def dep reach)
qed

section \<open>Which package is installed\<close>

lemma expr_possible_nonempty [simp]: "expr_possible e \<noteq> []"
  by (induction e) auto

text \<open>A package expression stands for the first of its possible packages that has an
  installation candidate; without one, the error names the last.\<close>

lemma expr_actual_first_available:
  "expr_actual cache e =
     (case find (\<lambda>n. \<exists>ap. map_of cache n = Some ap \<and> candidate ap \<noteq> None) (expr_possible e) of
        Some n \<Rightarrow> Inr n
      | None \<Rightarrow> Inl (MissingPackageError (last (expr_possible e))))"
proof (induction e)
  case (Package p)
  then show ?case by (auto split: option.splits)
next
  case (PackageOr e1 e2)
  have "find P (xs @ ys) = (case find P xs of None \<Rightarrow> find P ys | Some x \<Rightarrow> Some x)" for P and xs ys :: "string list"
    by (induction xs) auto
  then show ?case using PackageOr by (auto split: option.splits)
qed

text \<open>A nested alternative has no repr, so its diagnosis raises when no package is available.\<close>

lemma nested_alternative_diagnosis:
  "expr_actual (apt_cache w) (PackageOr e1 (PackageOr e2 e3)) = Inl (MissingPackageError n) \<Longrightarrow>
   package_expressions pf = [PackageOr e1 (PackageOr e2 e3)] \<Longrightarrow>
   \<exists>e. packages_diagnose cid pf w = (Inl (AttributeError e), w)"
  by (cases e1) (auto simp: packages_diagnose_def package_check_def)

section \<open>Guards of the installation\<close>

lemma assert_installed_iff:
  "fst (assert_installed ps w) = Inr () \<longleftrightarrow>
     (\<forall>p \<in> set ps. \<exists>ap. map_of (apt_cache w) p = Some ap \<and> is_installed ap)"
  by (force simp: assert_installed_def r_for_ok r_bind_Inr_iff od_get_Inr)

text \<open>In the first setup, where installing is not allowed, \<open>install\<close> changes nothing and runs no
  command: it succeeds exactly when every package is already installed.\<close>

lemma package_install_not_allowed:
  assumes "thread_op w = Some oper" and "map_of (thread_data w) ''allow_install'' = Some (JBool False)"
  shows "\<exists>r. package_install sys all_apps ps skip force reinstall force_missing w = (r, w) \<and>
    (r = Inr () \<longleftrightarrow> (\<forall>p \<in> set ps. \<exists>ap. map_of (apt_cache w) p = Some ap \<and> is_installed ap))"
proof -
  have "package_install sys all_apps ps skip force reinstall force_missing w = assert_installed ps w"
    using assms by (simp add: package_install_def)
  moreover have "assert_installed ps w = (fst (assert_installed ps w), w)" by (simp add: assert_installed_def)
  ultimately show ?thesis using assert_installed_iff[of ps w] by metis
qed

lemma package_install_not_allowed_witness:
  "\<exists>r. package_install idle_system [] [''php'', ''mariadb''] False None False False
     (shared_world\<lparr>thread_op := Some (operation_init ''a'' ''a'' ''a'' False False),
        thread_data := [(''allow_install'', JBool False)]\<rparr>) =
   (r, shared_world\<lparr>thread_op := Some (operation_init ''a'' ''a'' ''a'' False False),
        thread_data := [(''allow_install'', JBool False)]\<rparr>) \<and> r \<noteq> Inr ()"
  using package_install_not_allowed[of "shared_world\<lparr>thread_op := Some (operation_init ''a'' ''a'' ''a'' False False),
        thread_data := [(''allow_install'', JBool False)]\<rparr>" "operation_init ''a'' ''a'' ''a'' False False"
      idle_system "[]" "[''php'', ''mariadb'']" False None False False]
  by (simp add: shared_world_def shared_cache_def is_installed_def)

definition managed_packages :: "'w app \<Rightarrow> string set" where
  "managed_packages a = (\<Union>pf \<in> set (packages_components a). set (possible_packages pf) \<union> set (conflicts pf))"

lemma assert_managed_iff:
  "assert_managed_packages all_apps aid ps = Inr () \<longleftrightarrow>
     (\<exists>a. map_of all_apps aid = Some a \<and> set ps \<subseteq> managed_packages a)"
proof -
  have "(\<forall>p \<in> set ps. \<exists>pf \<in> set (packages_components a). p \<in> set (possible_packages pf) \<or> p \<in> set (conflicts pf)) \<longleftrightarrow>
      set ps \<subseteq> managed_packages a" for a :: "sys_world app"
    by (auto simp: managed_packages_def)
  then show ?thesis
    by (simp add: assert_managed_packages_def r_bind_Inr_iff od_get_Inr r_for_ok)
qed

text \<open>The privileged process only installs and removes packages of the app it is told: if the
  app is unknown or one of the packages is neither a possible package nor a conflict of the
  app's components, the call fails before any command is run.\<close>

theorem privileged_apt_only_managed:
  assumes "\<not> (\<exists>a. map_of all_apps aid = Some a \<and> set ps \<subseteq> managed_packages a)"
  shows "\<exists>e e'. privileged_install sys all_apps aid ps skip force reinstall force_missing w = (Inl e, w) \<and>
    privileged_remove sys all_apps aid ps purge w = (Inl e', w)"
proof -
  obtain e where "assert_managed_packages all_apps aid ps = Inl e"
    using assms assert_managed_iff[of all_apps aid ps] by (cases "assert_managed_packages all_apps aid ps") auto
  then show ?thesis by (simp add: privileged_install_def privileged_remove_def p_raise_def)
qed

theorem privileged_apt_only_managed_witness:
  "\<exists>e e'. privileged_install idle_system shared_apps ''wordpress'' [''sudo''] False None False False shared_world =
      (Inl e, shared_world) \<and>
    privileged_remove idle_system shared_apps ''wordpress'' [''sudo''] True shared_world = (Inl e', shared_world)"
  by (rule privileged_apt_only_managed) (simp add: shared_apps_def managed_packages_def possible_packages_def)

section \<open>Waiting for the package manager\<close>

text \<open>The wait for the package manager ends: with the manager found idle by the last check, or,
  no earlier than a day after the start, with PackageException.\<close>

theorem wait_for_package_manager_ends:
  "(\<exists>v. fst (pm_busy sys v) = Inr False \<and>
      wait_for_package_manager sys start w = (Inr (), forward_clock v (snd (pm_busy sys v)))) \<or>
   (\<exists>w'. wait_for_package_manager sys start w =
      (Inl (PackageException ''Timeout waiting for package manager''), w') \<and> start + 24 * 3600 \<le> clock w')"
proof (induction sys start w rule: wait_for_package_manager.induct)
  case (1 sys start w)
  obtain r w1 where p: "pm_busy sys w = (r, w1)" by fastforce
  obtain b where r: "r = Inr b"
    using p by (cases "is_package_manager_busy sys w") (auto simp: pm_busy_def p_catch_def p_ret_def split: sum.splits)
  show ?case
  proof (cases "b \<and> clock (forward_clock w w1) - start < 24 * 3600")
    case True
    then show ?thesis
      using "1.IH"[OF p[symmetric] refl refl] p r
      by (simp add: wait_for_package_manager.simps[of sys start w] Let_def)
  next
    case False
    show ?thesis
    proof (cases b)
      case True
      then show ?thesis using False p r by (simp add: wait_for_package_manager.simps[of sys start w])
    next
      case nb: False
      then have "fst (pm_busy sys w) = Inr False" "w1 = snd (pm_busy sys w)" using p r by auto
      moreover have "wait_for_package_manager sys start w = (Inr (), forward_clock w w1)"
        using nb p r by (simp add: wait_for_package_manager.simps[of sys start w])
      ultimately show ?thesis by metis
    qed
  qed
qed

section \<open>The table of known packages\<close>

text \<open>The shape the code keeps the table in, and the version it holds for a package.\<close>

fun known_wf :: "json \<Rightarrow> bool" where
  "known_wf (JDict d) = (\<forall>v \<in> snd ` set d. is_dict v)"
| "known_wf v = False"

fun known_version :: "json \<Rightarrow> string \<Rightarrow> json option" where
  "known_version (JDict d) p = (case map_of d p of Some (JDict e) \<Rightarrow> map_of e ''version'' | _ \<Rightarrow> None)"
| "known_version v p = None"

definition installed_version_of :: "apt_cache \<Rightarrow> string \<Rightarrow> string option" where
  "installed_version_of cache p = Option.bind (map_of cache p) (\<lambda>ap. map_option iv_version (installed ap))"

lemma od_set_values: "v' \<in> snd ` set (od_set d k v) \<Longrightarrow> v' = v \<or> v' \<in> snd ` set d"
  by (rule od_values_set)

lemma set_known_version_spec:
  assumes "known_wf known"
  shows "\<exists>known'. set_known_version known p v = Inr known' \<and> known_wf known' \<and>
    (\<forall>q. known_version known' q = (if q = p then Some (JStr v) else known_version known q))"
proof -
  obtain d where d: "known = JDict d" "\<forall>x \<in> snd ` set d. is_dict x" using assms by (cases known) auto
  have wf: "known_wf (JDict (od_set d p (JDict e)))" for e
  proof -
    have "is_dict x" if "x \<in> snd ` set (od_set d p (JDict e))" for x
      using od_set_values[OF that] d(2) by auto
    then show ?thesis by (simp only: known_wf.simps) blast
  qed
  show ?thesis
  proof (cases "map_of d p")
    case None
    then show ?thesis using d wf by (simp add: set_known_version_def odict_simps)
  next
    case (Some x)
    then have "is_dict x" using d(2) by (force dest: map_of_SomeD)
    then obtain e where "x = JDict e" by (auto simp: is_dict_iff)
    then show ?thesis using Some d wf by (simp add: set_known_version_def odict_simps)
  qed
qed

lemma mark_known_in_spec:
  "known_wf known \<Longrightarrow> \<exists>known'. mark_known_in cache ps known = Inr known' \<and> known_wf known' \<and>
     (\<forall>p. known_version known' p =
        (case installed_version_of cache p of
           Some v \<Rightarrow> if p \<in> set ps then Some (JStr v) else known_version known p
         | None \<Rightarrow> known_version known p))"
proof (induction ps arbitrary: known)
  case Nil
  then show ?case by (auto split: option.split)
next
  case (Cons p ps)
  show ?case
  proof (cases "installed_version_of cache p")
    case None
    then have "mark_known_in cache (p # ps) known = mark_known_in cache ps known"
      by (auto simp: installed_version_of_def split: option.splits)
    then show ?thesis using Cons None by (fastforce split: option.splits)
  next
    case (Some v)
    then have step: "mark_known_in cache (p # ps) known = r_bind (set_known_version known p v) (mark_known_in cache ps)"
      by (auto simp: installed_version_of_def split: option.splits)
    obtain k1 where k1: "set_known_version known p v = Inr k1" "known_wf k1"
        "\<forall>q. known_version k1 q = (if q = p then Some (JStr v) else known_version known q)"
      using set_known_version_spec[OF Cons.prems] by blast
    then show ?thesis using Cons.IH[OF k1(2)] Some step by (fastforce split: option.splits)
  qed
qed

lemma unmark_known_in_spec:
  "known_wf known \<Longrightarrow> \<exists>known'. unmark_known_in ps known = Inr known' \<and> known_wf known' \<and>
     (\<forall>p. known_version known' p = (if p \<in> set ps then None else known_version known p))"
proof (induction ps arbitrary: known)
  case Nil
  then show ?case by simp
next
  case (Cons p ps)
  obtain d where d: "known = JDict d" "\<forall>x \<in> snd ` set d. is_dict x" using Cons.prems by (cases known) auto
  have "\<forall>x \<in> snd ` set (od_del d p). is_dict x" using d(2) by (simp add: od_del_filter)
  then have wf: "known_wf (JDict (od_del d p))" by (simp only: known_wf.simps)
  have "known_version (JDict (od_del d p)) q = (if q = p then None else known_version known q)" for q
    using d(1) by (simp add: odict_simps)
  then show ?case using Cons.IH[OF wf] d(1) by fastforce
qed

definition known_table :: "'x world_scheme \<Rightarrow> json" where
  "known_table w = (case map_of (kv w) ''packages_known'' of None \<Rightarrow> JDict [] | Some v \<Rightarrow> v)"

lemma known_table_kv: "known_table (w\<lparr>kv := od_set (kv w) ''packages_known'' v\<rparr>) = v"
  by (simp add: known_table_def odict_simps)

lemma mark_known_spec:
  assumes "known_wf (known_table w)"
  shows "\<exists>w'. mark_known ps w = (Inr (), w') \<and> known_wf (known_table w') \<and> apt_cache w' = apt_cache w \<and>
    (\<forall>p. known_version (known_table w') p =
        (case installed_version_of (apt_cache w) p of
           Some v \<Rightarrow> if p \<in> set ps then Some (JStr v) else known_version (known_table w) p
         | None \<Rightarrow> known_version (known_table w) p))"
proof -
  obtain k where k: "mark_known_in (apt_cache w) ps (known_table w) = Inr k" "known_wf k"
      "\<forall>p. known_version k p =
        (case installed_version_of (apt_cache w) p of
           Some v \<Rightarrow> if p \<in> set ps then Some (JStr v) else known_version (known_table w) p
         | None \<Rightarrow> known_version (known_table w) p)"
    using mark_known_in_spec[OF assms] by blast
  have "mark_known ps w = (Inr (), w\<lparr>kv := od_set (kv w) ''packages_known'' k\<rparr>)"
    using k(1) by (simp add: mark_known_def get_known_def p_bind_def prog_simps known_table_def)
  then show ?thesis using k(2,3) known_table_kv[of w k] by simp
qed

text \<open>The table of known packages follows what was done: after \<open>mark_known\<close> every given
  package that is installed is known with its installed version and the others are as before;
  \<open>unmark_known\<close> then forgets exactly the given packages.\<close>

lemma known_packages_follow:
  assumes "known_wf (known_table w)"
  shows "\<exists>w1 w2. mark_known ps w = (Inr (), w1) \<and> unmark_known qs w1 = (Inr (), w2) \<and>
    (\<forall>p. known_version (known_table w1) p =
        (case installed_version_of (apt_cache w) p of
           Some v \<Rightarrow> if p \<in> set ps then Some (JStr v) else known_version (known_table w) p
         | None \<Rightarrow> known_version (known_table w) p)) \<and>
    (\<forall>p. known_version (known_table w2) p = (if p \<in> set qs then None else known_version (known_table w1) p))"
proof -
  obtain w1 where w1: "mark_known ps w = (Inr (), w1)" "known_wf (known_table w1)"
      "\<forall>p. known_version (known_table w1) p =
        (case installed_version_of (apt_cache w) p of
           Some v \<Rightarrow> if p \<in> set ps then Some (JStr v) else known_version (known_table w) p
         | None \<Rightarrow> known_version (known_table w) p)"
    using mark_known_spec[OF assms] by blast
  obtain k where k: "unmark_known_in qs (known_table w1) = Inr k"
      "\<forall>p. known_version k p = (if p \<in> set qs then None else known_version (known_table w1) p)"
    using unmark_known_in_spec[OF w1(2)] by blast
  have "unmark_known qs w1 = (Inr (), w1\<lparr>kv := od_set (kv w1) ''packages_known'' k\<rparr>)"
    using k(1) by (simp add: unmark_known_def get_known_def p_bind_def p_lift_def prog_simps known_table_def)
  then show ?thesis using w1(1,3) k(2) known_table_kv[of w1 k] by auto
qed

lemma known_packages_follow_witness:
  "\<exists>w1 w2. mark_known [''php'', ''nothere''] shared_world = (Inr (), w1) \<and> unmark_known [''php''] w1 = (Inr (), w2) \<and>
    known_version (known_table w1) ''php'' = Some (JStr ''8.4'') \<and> known_version (known_table w2) ''php'' = None"
proof -
  have "known_wf (known_table shared_world)" by (simp add: known_table_def shared_world_def)
  moreover have "installed_version_of (apt_cache shared_world) ''php'' = Some ''8.4''"
    by (simp add: installed_version_of_def shared_world_def shared_cache_def)
  ultimately show ?thesis
    using known_packages_follow[of shared_world "[''php'', ''nothere'']" "[''php'']"] by auto
qed

end
