(* ===== verification/Setup.thy ===== *)
theory Setup
  imports Packages
begin

text \<open>
  Setup, repair, update and removal of apps (plinth/setup.py): the operations that run them,
  the outcome they report, the setup of all apps at startup, the forced upgrade of packages
  and the reaction to a run of dpkg. Outside the model are the \<open>force_upgrade\<close> methods of the
  apps, the version comparison of apt and the search for changed configuration files, the
  receivers of the \<open>post_setup\<close> signal (whose exceptions \<open>send_robust\<close> drops) and the wait
  between two attempts: they are the fields of the environment.
\<close>

section \<open>Environment\<close>

type_synonym upgrade_packages = "(string, json) odict"

record setup_env =
  ev_sys :: "sys_world system"
  ev_force_upgrade :: "string \<Rightarrow> (upgrade_packages \<Rightarrow> (sys_world, bool) prog) option"
  ev_upgradable :: "sys_world \<Rightarrow> string list"
  ev_conffile_packages :: "string list \<Rightarrow> (sys_world, upgrade_packages) prog"
  ev_post_setup :: "string \<Rightarrow> sys_world \<Rightarrow> sys_world"
  ev_in_progress :: "string \<Rightarrow> sys_world \<Rightarrow> bool"
  ev_wait :: "sys_world \<Rightarrow> bool \<times> sys_world"

text \<open>\<open>str(exception)\<close>: a KeyError shows the repr of its key.\<close>

fun exn_str :: "exn \<Rightarrow> string" where
  "exn_str (KeyError m) = [CHR 0x27] @ m @ [CHR 0x27]"
| "exn_str (ValueError m) = m"
| "exn_str (TypeError m) = m"
| "exn_str (SyntaxError m) = m"
| "exn_str (AttributeError m) = m"
| "exn_str (LookupError m) = m"
| "exn_str (IndexError m) = m"
| "exn_str (RuntimeError m) = m"
| "exn_str NotImplementedError = []"
| "exn_str AssertionError = []"
| "exn_str (DoesNotExist m) = m"
| "exn_str (FileNotFoundError m) = m"
| "exn_str (FileExistsError m) = m"
| "exn_str (PermissionError m) = m"
| "exn_str (ConnectionError m) = m"
| "exn_str (TimeoutError m) = m"
| "exn_str (ValidationError m) = m"
| "exn_str (MissingPackageError m) = m"
| "exn_str (PackageNotInstalledError m) = m"
| "exn_str (PackageException m) = m"
| "exn_str (TemporaryFailure m) = m"
| "exn_str (PermanentFailure m) = m"
| "exn_str (ModuleNotFoundError m) = m"
| "exn_str (CalledProcessError m) = m"
| "exn_str (GlibError m) = m"
| "exn_str PermissionDenied = []"
| "exn_str (Http404 m) = m"
| "exn_str (OperationalError m) = m"
| "exn_str (PlinthError c m) = m"
| "exn_str (OtherError m) = m"

section \<open>Operations of a thread\<close>

text \<open>\<open>Operation.get_operation().on_update(message, exception)\<close>.\<close>

definition op_update :: "string option \<Rightarrow> exn option \<Rightarrow> (sys_world, unit) prog" where
  "op_update msg ex w =
     (case thread_op w of
        None \<Rightarrow> (Inl (AttributeError ''operation''), w)
      | Some oper \<Rightarrow> (Inr (), w\<lparr>thread_op := Some (operation_on_update msg ex oper)\<rparr>))"

record op_request =
  rq_id :: string
  rq_app_id :: string
  rq_name :: string
  rq_show_message :: bool
  rq_show_notification :: bool
  rq_data :: "(string, json) odict"

text \<open>
  \<open>operation_module.manager.new(...)\<close> followed by \<open>join()\<close>: the target runs in a thread of its
  own, with its own operation, thread data and error messages; the caller waits for it and
  gets its value or its exception.
\<close>

definition run_and_join :: "setup_env \<Rightarrow> op_request \<Rightarrow> (sys_world, json option) prog \<Rightarrow> (sys_world, json option) prog" where
  "run_and_join env rq target w =
     (if ev_in_progress env (rq_id rq) w then (Inl (KeyError ''Operation in progress/scheduled''), w)
      else let oper = operation_run (operation_init (rq_id rq) (rq_app_id rq) (rq_name rq)
                        (rq_show_message rq) (rq_show_notification rq));
               (r, w1) = target (w\<lparr>thread_op := Some oper, thread_data := rq_data rq, error_messages := None\<rparr>);
               fin = (case thread_op w1 of None \<Rightarrow> oper | Some o1 \<Rightarrow> o1)
           in (operation_join (operation_finish r fin),
               w1\<lparr>thread_op := thread_op w, thread_data := thread_data w, error_messages := error_messages w\<rparr>))"

text \<open>Error messages of the thread.\<close>

definition store_error_message :: "string \<Rightarrow> (sys_world, unit) prog" where
  "store_error_message msg = p_mod (\<lambda>w. w\<lparr>error_messages :=
     Some (case error_messages w of None \<Rightarrow> [msg] | Some ms \<Rightarrow> ms @ [msg])\<rparr>)"

definition retrieve_error_messages :: "(sys_world, string list) prog" where
  "retrieve_error_messages w =
     (case error_messages w of None \<Rightarrow> (Inr [], w) | Some ms \<Rightarrow> (Inr ms, w\<lparr>error_messages := Some []\<rparr>))"

section \<open>Forced upgrades\<close>

definition can_force_upgrade :: "setup_env \<Rightarrow> sys_world app \<Rightarrow> (sys_world, bool) prog" where
  "can_force_upgrade env a =
     (if ev_force_upgrade env (app_id a) = None then p_ret False
      else p_bind (get_setup_state a) (\<lambda>st. p_ret (st \<noteq> NEEDS_SETUP)))"

primrec upgrade_apps :: "setup_env \<Rightarrow> sys_world app list \<Rightarrow> (sys_world, sys_world app list) prog" where
  "upgrade_apps env [] = p_ret []"
| "upgrade_apps env (a # as) =
     p_bind (can_force_upgrade env a) (\<lambda>b. p_bind (upgrade_apps env as) (\<lambda>rest.
       p_ret (if b then a # rest else rest)))"

definition app_packages :: "'w app \<Rightarrow> string list" where
  "app_packages a = concat (map possible_packages (packages_components a))"

text \<open>\<open>_filter_managed_packages\<close>; the sets of the code are lists here, in the order of the names.\<close>

definition filter_managed_packages ::
  "setup_env \<Rightarrow> sys_world apps \<Rightarrow> string list \<Rightarrow> (sys_world, string list \<times> (string \<Rightarrow> string list)) prog"
where
  "filter_managed_packages env all_apps names =
     p_bind (upgrade_apps env (od_values all_apps)) (\<lambda>as.
       p_ret (filter (\<lambda>n. n \<in> set (concat (map app_packages as))) names,
              \<lambda>n. map app_id (filter (\<lambda>a. n \<in> set (app_packages a)) as)))"

definition add_upgrade :: "string \<Rightarrow> json \<Rightarrow> string \<Rightarrow> (string, upgrade_packages) odict \<Rightarrow> (string, upgrade_packages) odict" where
  "add_upgrade pkg data aid apps =
     od_set apps aid (od_set (case map_of apps aid of None \<Rightarrow> [] | Some ps \<Rightarrow> ps) pkg data)"

definition apps_to_force_upgrade :: "setup_env \<Rightarrow> sys_world apps \<Rightarrow> (sys_world, (string, upgrade_packages) odict) prog" where
  "apps_to_force_upgrade env all_apps =
     p_bind (p_get (ev_upgradable env)) (\<lambda>names.
       if names = [] then p_ret []
       else p_bind (filter_managed_packages env all_apps names) (\<lambda>(managed, apps_of).
         if managed = [] then p_ret []
         else p_bind (ev_conffile_packages env managed) (\<lambda>conf.
           p_ret (fold (\<lambda>(pkg, data) acc. fold (add_upgrade pkg data) (apps_of pkg) acc) conf []))))"

text \<open>The two checks both upgrade methods start with.\<close>

definition upgrade_guard :: "setup_env \<Rightarrow> (sys_world, unit) prog" where
  "upgrade_guard env =
     p_bind (p_get shutting_down) (\<lambda>stop.
       if stop then p_raise (PermanentFailure ''Service is shutting down'')
       else p_bind (is_package_manager_busy (ev_sys env)) (\<lambda>busy.
         if busy then p_raise (TemporaryFailure ''Package manager is busy'') else p_ret ()))"

definition force_upgrade_call :: "setup_env \<Rightarrow> string \<Rightarrow> upgrade_packages \<Rightarrow> (sys_world, bool) prog" where
  "force_upgrade_call env aid ps =
     (case ev_force_upgrade env aid of None \<Rightarrow> p_raise (AttributeError ''force_upgrade'') | Some f \<Rightarrow> f ps)"

definition attempt_upgrade_for_app :: "setup_env \<Rightarrow> sys_world apps \<Rightarrow> string \<Rightarrow> (sys_world, bool) prog" where
  "attempt_upgrade_for_app env all_apps aid =
     p_then (upgrade_guard env)
       (p_bind (apps_to_force_upgrade env all_apps) (\<lambda>apps.
          case map_of apps aid of
            None \<Rightarrow> p_ret False
          | Some ps \<Rightarrow>
              p_bind (p_lift (od_get all_apps aid)) (\<lambda>a.
                p_catch
                  (p_then (p_lift (r_bind (app_info a) (\<lambda>i. Inr ())))
                    (p_bind (force_upgrade_call env aid ps) (\<lambda>ok.
                       if ok then p_ret True
                       else p_raise (TemporaryFailure
                         (''Force upgrade is needed, but not yet implemented for new version of app: '' @ aid)))))
                  (\<lambda>_. p_raise (TemporaryFailure (''App '' @ aid @ '' failed to force upgrade.''))))))"

definition run_force_upgrade_as_operation :: "setup_env \<Rightarrow> sys_world app \<Rightarrow> upgrade_packages \<Rightarrow> (sys_world, json option) prog" where
  "run_force_upgrade_as_operation env a ps =
     run_and_join env \<lparr>rq_id = app_id a @ ''-force-upgrade'', rq_app_id = app_id a, rq_name = ''Updating app packages'',
        rq_show_message = False, rq_show_notification = False, rq_data = []\<rparr>
       (p_bind (force_upgrade_call env (app_id a) ps) (\<lambda>b. p_ret (Some (JBool b))))"

text \<open>The loop over the apps: an exception is noted and the next app is tried.\<close>

primrec upgrade_each :: "setup_env \<Rightarrow> sys_world apps \<Rightarrow> (string \<times> upgrade_packages) list \<Rightarrow> bool \<Rightarrow> (sys_world, bool) prog" where
  "upgrade_each env all_apps [] retry = p_ret retry"
| "upgrade_each env all_apps (p # ps) retry =
     p_bind (p_lift (od_get all_apps (fst p))) (\<lambda>a.
       p_bind (p_catch (p_then (p_lift (r_bind (app_info a) (\<lambda>i. Inr ())))
                          (p_then (run_force_upgrade_as_operation env a (snd p)) (p_ret False)))
                 (\<lambda>_. p_ret True))
         (\<lambda>failed. upgrade_each env all_apps ps (retry \<or> failed)))"

definition attempt_upgrade :: "setup_env \<Rightarrow> sys_world apps \<Rightarrow> (sys_world, unit) prog" where
  "attempt_upgrade env all_apps =
     p_then (upgrade_guard env)
       (p_bind (apps_to_force_upgrade env all_apps) (\<lambda>apps.
          p_then (p_lift (r_for (\<lambda>aid. r_bind (od_get all_apps aid) (\<lambda>a. r_bind (app_info a) (\<lambda>i. Inr ()))) (od_keys apps)))
            (p_bind (upgrade_each env all_apps apps False) (\<lambda>retry.
               if retry then p_raise (TemporaryFailure ''Some apps failed to force upgrade.'') else p_ret ()))))"

text \<open>
  The loop that \<open>_run_upgrade\<close> and \<open>_on_dpkg_invoked\<close> share: a permanent failure ends it, every
  other exception waits for the next attempt, and a wait that sees the shutdown ends it.
\<close>

datatype loop_outcome = Loop_done | Loop_failed | Loop_stopped | Loop_gave_up

primrec retry_loop :: "nat \<Rightarrow> ('w, unit) prog \<Rightarrow> ('w \<Rightarrow> bool \<times> 'w) \<Rightarrow> 'w \<Rightarrow> loop_outcome \<times> 'w" where
  "retry_loop 0 attempt wait w = (Loop_gave_up, w)"
| "retry_loop (Suc n) attempt wait w =
     (case attempt w of
        (Inr _, w1) \<Rightarrow> (Loop_done, w1)
      | (Inl e, w1) \<Rightarrow>
          if is_permanent_failure e then (Loop_failed, w1)
          else (case wait w1 of (stop, w2) \<Rightarrow>
                  if stop then (Loop_stopped, w2) else retry_loop n attempt wait w2))"

definition UPGRADE_ATTEMPTS :: nat where "UPGRADE_ATTEMPTS = 12"

definition run_upgrade :: "setup_env \<Rightarrow> sys_world apps \<Rightarrow> sys_world \<Rightarrow> loop_outcome \<times> sys_world" where
  "run_upgrade env all_apps = retry_loop UPGRADE_ATTEMPTS (attempt_upgrade env all_apps) (ev_wait env)"

section \<open>Setup of one app\<close>

text \<open>The \<open>try\<close> block of \<open>_run_setup_on_app\<close> after the version was read.\<close>

definition setup_attempt :: "setup_env \<Rightarrow> sys_world apps \<Rightarrow> sys_world app \<Rightarrow> int \<Rightarrow> (sys_world, unit) prog" where
  "setup_attempt env all_apps a current =
     p_then (if current \<noteq> 0
             then p_then (refresh_package_lists (ev_sys env))
                    (p_then (attempt_upgrade_for_app env all_apps (app_id a)) (p_ret ()))
             else p_ret ())
       (p_then (call_setup a current)
          (p_bind (p_lift (app_info a)) (\<lambda>i.
             p_then (set_setup_version a (version i)) (p_mod (ev_post_setup env (app_id a))))))"

definition setup_report :: "bool \<Rightarrow> int \<Rightarrow> unit result \<Rightarrow> (sys_world, unit) prog" where
  "setup_report repair current r =
     (case r of
        Inl e \<Rightarrow>
          op_update (Some (if current = 0 then ''Error installing app: {exception}''
                           else if repair then ''Error repairing app: {exception}''
                           else ''Error updating app: {exception}'')) (Some e)
      | Inr _ \<Rightarrow>
          if current = 0 then op_update (Some ''App installed.'') None
          else if repair then p_ret ()
          else op_update (Some ''App updated'') None)"

definition run_setup_target :: "setup_env \<Rightarrow> sys_world apps \<Rightarrow> sys_world app \<Rightarrow> int \<Rightarrow> bool \<Rightarrow> (sys_world, unit) prog" where
  "run_setup_target env all_apps a given_version repair w =
     (case get_setup_version a w of
        (Inl e, w1) \<Rightarrow> setup_report repair given_version (Inl e) w1
      | (Inr current, w1) \<Rightarrow>
          (case setup_attempt env all_apps a current w1 of (r, w2) \<Rightarrow> setup_report repair current r w2))"

text \<open>\<open>run_setup_on_app\<close>: \<open>None\<close> when the app is up to date, otherwise the operation it creates.\<close>

definition run_setup_on_app ::
  "sys_world apps \<Rightarrow> string \<Rightarrow> bool \<Rightarrow> bool \<Rightarrow> (sys_world, (op_request \<times> sys_world app \<times> int) option) prog"
where
  "run_setup_on_app all_apps aid allow_install rerun =
     p_bind (p_lift (od_get all_apps aid)) (\<lambda>a.
       p_bind (get_setup_version a) (\<lambda>current.
         p_bind (if rerun then p_ret False
                 else p_bind (p_lift (app_info a)) (\<lambda>i. p_ret (version i \<le> current)))
           (\<lambda>done.
             if done then p_ret None
             else p_bind (if current \<noteq> 0 then p_ret True
                          else p_bind (p_lift (app_info a)) (\<lambda>i. p_ret (\<not> is_essential i)))
               (\<lambda>visible. p_ret (Some
                 (\<lparr>rq_id = aid @ ''-setup'', rq_app_id = aid,
                   rq_name = (if current = 0 then ''Installing app'' else ''Updating app''),
                   rq_show_message = visible, rq_show_notification = visible,
                   rq_data = [(''allow_install'', JBool allow_install)]\<rparr>, a, current))))))"

text \<open>\<open>operation = run_setup_on_app(...); if operation: operation.join()\<close>.\<close>

definition setup_and_join :: "setup_env \<Rightarrow> sys_world apps \<Rightarrow> string \<Rightarrow> bool \<Rightarrow> bool \<Rightarrow> (sys_world, unit) prog" where
  "setup_and_join env all_apps aid allow_install rerun =
     p_bind (run_setup_on_app all_apps aid allow_install rerun) (\<lambda>req.
       case req of
         None \<Rightarrow> p_ret ()
       | Some (rq, a, current) \<Rightarrow>
           p_then (run_and_join env rq (p_then (run_setup_target env all_apps a current False) (p_ret None)))
             (p_ret ()))"

section \<open>Repair and removal\<close>

definition failed_checks :: "diagnostic_check list \<Rightarrow> diagnostic_check list" where
  "failed_checks chs = filter (\<lambda>ch. check_result ch \<in> {FAILED, WARNING}) chs"

text \<open>The end of \<open>_run_repair_on_app\<close>: the errors stored in the thread decide the message.\<close>

definition repair_finish :: "(sys_world, unit) prog" where
  "repair_finish =
     p_bind retrieve_error_messages (\<lambda>errors.
       if errors = [] then op_update (Some ''App repaired.'') None
       else let lines = concat (map (\<lambda>e. e @ [CHR 0x0A]) errors)
            in op_update (Some (''App repair completed with errors:'' @ [CHR 0x0A] @ lines)) (Some (OtherError lines)))"

definition repair_rerun :: "setup_env \<Rightarrow> sys_world apps \<Rightarrow> sys_world app \<Rightarrow> (sys_world, unit) prog" where
  "repair_rerun env all_apps a =
     p_then (op_update (Some ''Re-running setup to complete repairs'') None)
       (p_bind (get_setup_version a) (\<lambda>current. run_setup_target env all_apps a current True))"

definition run_repair_target :: "setup_env \<Rightarrow> sys_world apps \<Rightarrow> sys_world app \<Rightarrow> (sys_world, unit) prog" where
  "run_repair_target env all_apps a w =
     (case thread_op w of
        None \<Rightarrow> (Inl (AttributeError ''operation''), w)
      | Some _ \<Rightarrow>
         (case call_diagnose a w of
            (Inl e, w1) \<Rightarrow> op_update (Some (''Error running diagnostics: '' @ exn_str e)) (Some e) w1
          | (Inr chs, w1) \<Rightarrow>
              if failed_checks chs = [] then op_update (Some ''Skipping repair, no failed checks'') None w1
              else (case call_repair a (failed_checks chs) w1 of
                      (Inl e, w2) \<Rightarrow> op_update (Some (''Error repairing app: '' @ exn_str e)) (Some e) w2
                    | (Inr rerun, w2) \<Rightarrow>
                        p_then (if rerun then repair_rerun env all_apps a else p_ret ()) repair_finish w2)))"

text \<open>
  \<open>run_repair_on_app\<close>: nothing for an app that is not installed; a new operation, or the
  operation of the thread, which then belongs to the repaired app.
\<close>

definition run_repair_on_app ::
  "setup_env \<Rightarrow> sys_world apps \<Rightarrow> string \<Rightarrow> bool \<Rightarrow> (sys_world, (op_request \<times> sys_world app) option) prog"
where
  "run_repair_on_app env all_apps aid create_operation =
     p_bind (p_lift (od_get all_apps aid)) (\<lambda>a. p_bind (get_setup_version a) (\<lambda>current.
       if current = 0 then p_ret None
       else if create_operation
       then p_ret (Some (\<lparr>rq_id = aid @ ''-repair'', rq_app_id = aid, rq_name = ''Repairing app'',
              rq_show_message = True, rq_show_notification = True, rq_data = []\<rparr>, a))
       else (\<lambda>w. case thread_op w of
               None \<Rightarrow> (Inl (RuntimeError ''run_repair_on_app: Expected an existing operation.''), w)
             | Some oper \<Rightarrow>
                 p_then (run_repair_target env all_apps a) (p_ret None)
                   (w\<lparr>thread_op := Some (oper\<lparr>op_app_id := aid\<rparr>)\<rparr>))))"

definition run_uninstall_on_app :: "sys_world apps \<Rightarrow> string \<Rightarrow> (sys_world, (op_request \<times> sys_world app) option) prog" where
  "run_uninstall_on_app all_apps aid =
     p_bind (p_lift (od_get all_apps aid)) (\<lambda>a. p_bind (get_setup_version a) (\<lambda>current.
       p_ret (if current = 0 then None
              else Some (\<lparr>rq_id = aid @ ''-uninstall'', rq_app_id = aid, rq_name = ''Uninstalling app'',
                rq_show_message = True, rq_show_notification = True, rq_data = []\<rparr>, a))))"

definition run_uninstall_target :: "sys_world app \<Rightarrow> (sys_world, unit) prog" where
  "run_uninstall_target a w =
     (case p_then (call_disable a) (p_then (call_uninstall a) (set_setup_version a 0)) w of
        (Inl e, w1) \<Rightarrow> op_update (Some (''Error uninstalling app: '' @ exn_str e)) (Some e) w1
      | (Inr _, w1) \<Rightarrow> op_update (Some ''App uninstalled.'') None w1)"

section \<open>Setup of many apps\<close>

text \<open>\<open>setup_apps\<close>: an empty or missing list of ids selects every app.\<close>

definition selected_app :: "string list \<Rightarrow> bool \<Rightarrow> sys_world app \<Rightarrow> bool result" where
  "selected_app app_ids essential a =
     r_bind (if essential then r_bind (app_info a) (\<lambda>i. Inr (is_essential i)) else Inr True) (\<lambda>ok.
       Inr (ok \<and> \<not> (app_ids \<noteq> [] \<and> app_id a \<notin> set app_ids)))"

definition setup_apps :: "setup_env \<Rightarrow> sys_world apps \<Rightarrow> string list \<Rightarrow> bool \<Rightarrow> bool \<Rightarrow> (sys_world, unit) prog" where
  "setup_apps env all_apps app_ids essential allow_install =
     p_for (\<lambda>a. p_bind (p_lift (selected_app app_ids essential a)) (\<lambda>sel.
         if sel then setup_and_join env all_apps (app_id a) allow_install False else p_ret ()))
       (od_values all_apps)"

definition run_setup_on_apps :: "setup_env \<Rightarrow> sys_world apps \<Rightarrow> string list \<Rightarrow> bool \<Rightarrow> (sys_world, unit) prog" where
  "run_setup_on_apps env all_apps app_ids allow_install =
     (if app_ids = [] then setup_apps env all_apps [] True allow_install
      else setup_apps env all_apps app_ids False allow_install)"

definition is_setup_required :: "sys_world app \<Rightarrow> (sys_world, bool) prog" where
  "is_setup_required a =
     p_bind (p_lift (app_info a)) (\<lambda>i.
       p_bind (get_setup_state a) (\<lambda>st.
         p_ret ((is_essential i \<and> st \<noteq> UP_TO_DATE) \<or> st = NEEDS_UPDATE)))"

primrec apps_for_regular_setup :: "sys_world app list \<Rightarrow> (sys_world, string list) prog" where
  "apps_for_regular_setup [] = p_ret []"
| "apps_for_regular_setup (a # as) =
     p_bind (is_setup_required a) (\<lambda>b. p_bind (apps_for_regular_setup as) (\<lambda>rest.
       p_ret (if b then app_id a # rest else rest)))"

definition run_regular_setup :: "setup_env \<Rightarrow> sys_world apps \<Rightarrow> (sys_world, unit) prog" where
  "run_regular_setup env all_apps =
     p_bind (apps_for_regular_setup (od_values all_apps)) (\<lambda>ids. run_setup_on_apps env all_apps ids True)"

definition run_first_setup :: "setup_env \<Rightarrow> sys_world apps \<Rightarrow> (sys_world, unit) prog" where
  "run_first_setup env all_apps = run_setup_on_apps env all_apps [] False"

text \<open>\<open>any\<close> over the apps of \<open>run_setup_on_startup\<close>.\<close>

definition is_first_setup :: "sys_world apps \<Rightarrow> (sys_world, bool) prog" where
  "is_first_setup all_apps =
     p_any (\<lambda>a. p_bind (p_lift (app_info a)) (\<lambda>i. if is_essential i then needs_setup a else p_ret False))
       (od_values all_apps)"

text \<open>
  The loop of \<open>run_setup_on_startup\<close>, which tries for ever unless the service shuts down:
  \<open>None\<close> when the given number of rounds did not end it.
\<close>

primrec startup_loop :: "nat \<Rightarrow> setup_env \<Rightarrow> (sys_world, unit) prog \<Rightarrow> sys_world \<Rightarrow> sys_world option" where
  "startup_loop 0 env one w = None"
| "startup_loop (Suc n) env one w =
     (case one w of
        (Inr _, w1) \<Rightarrow> Some w1
      | (Inl e, w1) \<Rightarrow>
          let w2 = w1\<lparr>clock := clock w1 + 10\<rparr>
          in if shutting_down w2 then Some w2 else startup_loop n env one w2)"

definition run_setup_on_startup :: "nat \<Rightarrow> setup_env \<Rightarrow> sys_world apps \<Rightarrow> sys_world \<Rightarrow> exn + sys_world option" where
  "run_setup_on_startup rounds env all_apps w =
     (case is_first_setup all_apps w of
        (Inl e, w1) \<Rightarrow> Inl e
      | (Inr first, w1) \<Rightarrow>
          Inr (startup_loop rounds env (if first then run_first_setup env all_apps else run_regular_setup env all_apps) w1))"

text \<open>\<open>list_dependencies\<close>: the reprs that are printed, for the selected apps.\<close>

definition list_dependencies :: "sys_world apps \<Rightarrow> string list \<Rightarrow> bool \<Rightarrow> string list result" where
  "list_dependencies all_apps app_ids essential =
     r_bind (r_map (\<lambda>a.
         r_bind (if essential then r_bind (app_info a) (\<lambda>i. Inr (is_essential i)) else Inr True) (\<lambda>ok.
           if \<not> ok \<or> (app_ids \<noteq> [] \<and> app_id a \<notin> set app_ids \<and> ''*'' \<notin> set app_ids) then Inr []
           else r_map expr_repr (concat (map package_expressions (packages_components a)))))
       (od_values all_apps))
     (\<lambda>rs. Inr (concat rs))"

section \<open>After dpkg was run\<close>

text \<open>\<open>_app_needs_setup_rerun\<close>, over the versions known before the loop.\<close>

primrec needs_rerun_in :: "apt_cache \<Rightarrow> json \<Rightarrow> string list \<Rightarrow> bool result" where
  "needs_rerun_in cache known [] = Inr False"
| "needs_rerun_in cache known (p # ps) =
     (case map_of cache p of
        None \<Rightarrow> Inr False
      | Some ap \<Rightarrow>
          (case installed ap of
             None \<Rightarrow> Inr False
           | Some iv \<Rightarrow>
               r_bind (dict_get known p (JDict [])) (\<lambda>entry.
                 r_bind (dict_get entry ''version'' JNull) (\<lambda>v.
                   if JStr (iv_version iv) \<noteq> v then Inr True else needs_rerun_in cache known ps))))"

definition app_needs_setup_rerun :: "string list \<Rightarrow> (sys_world, bool) prog" where
  "app_needs_setup_rerun ps =
     p_bind get_known (\<lambda>known w. (needs_rerun_in (apt_cache w) known ps, w))"

definition actual_packages_of :: "sys_world app \<Rightarrow> (sys_world, string list) prog" where
  "actual_packages_of a =
     p_bind (p_map get_actual_packages (packages_components a)) (\<lambda>pss. p_ret (concat pss))"

definition post_invoke_on_app :: "setup_env \<Rightarrow> sys_world apps \<Rightarrow> sys_world app \<Rightarrow> (sys_world, unit) prog" where
  "post_invoke_on_app env all_apps a =
     (if \<not> (\<exists>pf \<in> set (packages_components a). rerun_setup_on_upgrade pf) then p_ret ()
      else p_bind (get_setup_state a) (\<lambda>st.
        if st = NEEDS_SETUP then p_ret ()
        else p_bind (p_catch (p_bind (actual_packages_of a) (\<lambda>ps. p_ret (Some ps)))
                      (\<lambda>e. if is_missing_package e then p_ret None else p_raise e))
          (\<lambda>found. case found of
              None \<Rightarrow> p_ret ()
            | Some ps \<Rightarrow> p_bind (app_needs_setup_rerun ps) (\<lambda>rerun.
                if rerun then setup_and_join env all_apps (app_id a) True True else p_ret ()))))"

definition attempt_post_invoke :: "setup_env \<Rightarrow> sys_world apps \<Rightarrow> (sys_world, unit) prog" where
  "attempt_post_invoke env all_apps =
     p_then (upgrade_guard env) (p_for (post_invoke_on_app env all_apps) (od_values all_apps))"

definition HANDLE_ATTEMPTS :: nat where "HANDLE_ATTEMPTS = 12"

definition on_dpkg_invoked :: "setup_env \<Rightarrow> sys_world apps \<Rightarrow> sys_world \<Rightarrow> loop_outcome \<times> sys_world" where
  "on_dpkg_invoked env all_apps = retry_loop HANDLE_ATTEMPTS (attempt_post_invoke env all_apps) (ev_wait env)"

section \<open>What the environment leaves alone\<close>

text \<open>
  The programs outside the model do not write the table of setup versions and do not replace
  the operation of the calling thread.
\<close>

definition keeps :: "(sys_world, 'a) prog \<Rightarrow> bool" where
  "keeps f \<longleftrightarrow> (\<forall>w. module_versions (snd (f w)) = module_versions w \<and> thread_op (snd (f w)) = thread_op w)"

definition env_keeps :: "setup_env \<Rightarrow> bool" where
  "env_keeps env \<longleftrightarrow>
     (\<forall>c. keeps (sh (ev_sys env) c)) \<and>
     (\<forall>aid f ps. ev_force_upgrade env aid = Some f \<longrightarrow> keeps (f ps)) \<and>
     (\<forall>ps. keeps (ev_conffile_packages env ps)) \<and>
     (\<forall>aid. keeps (p_mod (ev_post_setup env aid)))"

named_theorems keeps_intros "programs that leave setup versions and the operation alone"

lemma keeps_basic [keeps_intros]:
  "keeps (p_ret x)" "keeps (p_raise e)" "keeps (p_lift r)" "keeps (p_get f)"
  by (simp_all add: keeps_def prog_simps)

lemma keeps_bind [keeps_intros]: "keeps m \<Longrightarrow> (\<And>x. keeps (f x)) \<Longrightarrow> keeps (p_bind m f)"
  unfolding keeps_def p_bind_def by (auto split: prod.split sum.split) (metis snd_conv)+

lemma keeps_then [keeps_intros]: "keeps m \<Longrightarrow> keeps n \<Longrightarrow> keeps (p_then m n)"
  unfolding p_then_def by (rule keeps_bind)

lemma keeps_catch [keeps_intros]: "keeps m \<Longrightarrow> (\<And>e. keeps (h e)) \<Longrightarrow> keeps (p_catch m h)"
  unfolding keeps_def p_catch_def by (auto split: prod.split sum.split) (metis snd_conv)+

lemma keeps_if [keeps_intros]: "(b \<Longrightarrow> keeps m) \<Longrightarrow> (\<not> b \<Longrightarrow> keeps n) \<Longrightarrow> keeps (if b then m else n)"
  by simp

lemma keeps_option [keeps_intros]:
  "(x = None \<Longrightarrow> keeps m) \<Longrightarrow> (\<And>y. x = Some y \<Longrightarrow> keeps (f y)) \<Longrightarrow> keeps (case x of None \<Rightarrow> m | Some y \<Rightarrow> f y)"
  by (cases x) auto

lemma keeps_prod [keeps_intros]: "(\<And>a b. p = (a, b) \<Longrightarrow> keeps (f a b)) \<Longrightarrow> keeps (case p of (a, b) \<Rightarrow> f a b)"
  by (cases p) auto

lemma keeps_get_setup_state [keeps_intros]: "keeps (get_setup_state a)"
  unfolding get_setup_state_def
  by (intro keeps_intros) (simp add: keeps_def prog_simps)

lemma keeps_run [keeps_intros]:
  assumes "\<And>c. keeps (sh sys c)"
  shows "keeps (run_command sys c check)" "keeps (run_ok sys c check)" "keeps (run_succeeds sys c)"
    "keeps (run_apt_command sys args restart)"
  unfolding run_succeeds_def run_ok_def run_command_def run_apt_command_def
  by (intro keeps_intros assms)+

lemma env_keepsD:
  assumes "env_keeps env"
  shows "keeps (sh (ev_sys env) c)" "ev_force_upgrade env aid = Some f \<Longrightarrow> keeps (f ps)"
    "keeps (ev_conffile_packages env qs)" "keeps (p_mod (ev_post_setup env aid))"
  using assms by (auto simp: env_keeps_def)

lemma keeps_upgrade_apps [keeps_intros]: "keeps (upgrade_apps env as)"
  by (induction as) (auto simp: can_force_upgrade_def intro!: keeps_intros)

lemma keeps_attempt_upgrade_for_app [keeps_intros]:
  assumes "env_keeps env"
  shows "keeps (attempt_upgrade_for_app env all_apps aid)"
  unfolding attempt_upgrade_for_app_def upgrade_guard_def is_package_manager_busy_def
    apps_to_force_upgrade_def filter_managed_packages_def force_upgrade_call_def
  by (intro keeps_intros env_keepsD[OF assms])

lemma keeps_refresh [keeps_intros]:
  "env_keeps env \<Longrightarrow> keeps (refresh_package_lists (ev_sys env))"
  unfolding refresh_package_lists_def privileged_update_def
  by (intro keeps_intros env_keepsD)

section \<open>The outcome of a setup\<close>

definition version_of :: "'x world_scheme \<Rightarrow> string \<Rightarrow> int" where
  "version_of w aid = (case map_of (module_versions w) aid of None \<Rightarrow> 0 | Some n \<Rightarrow> n)"

lemma version_of_thread_op [simp]: "version_of (w\<lparr>thread_op := x\<rparr>) aid = version_of w aid"
  by (simp add: version_of_def)

lemma get_setup_version_is: "get_setup_version a w = (Inr (version_of w (app_id a)), w)"
  by (simp add: prog_simps version_of_def)

lemma keepsD: "keeps f \<Longrightarrow> f w = (r, w') \<Longrightarrow> module_versions w' = module_versions w \<and> thread_op w' = thread_op w"
  unfolding keeps_def by (metis snd_conv)

lemma p_lift_bind: "p_bind (p_lift (Inr x)) f = f x"
  by (rule ext) (simp add: p_bind_def p_lift_def)

lemma setup_attempt_effect:
  assumes env: "env_keeps env" and app: "\<And>n. keeps (call_setup a n)" and info: "app_info a = Inr i"
    and run: "setup_attempt env all_apps a current w = (r, w')"
  shows "thread_op w' = thread_op w \<and>
    module_versions w' = (if r = Inr () then od_set (module_versions w) (app_id a) (version i) else module_versions w)"
proof -
  let ?pre = "p_then (if current \<noteq> 0
             then p_then (refresh_package_lists (ev_sys env))
                    (p_then (attempt_upgrade_for_app env all_apps (app_id a)) (p_ret ()))
             else p_ret ()) (call_setup a current)"
  have k: "keeps ?pre" by (intro keeps_intros env app)
  have eq: "setup_attempt env all_apps a current =
      p_then ?pre (p_then (set_setup_version a (version i)) (p_mod (ev_post_setup env (app_id a))))"
    by (simp add: setup_attempt_def info p_then_def p_bind_assoc p_lift_bind)
  obtain r1 w1 where p: "?pre w = (r1, w1)" by fastforce
  show ?thesis
  proof (cases r1)
    case (Inl e)
    then have "r = Inl e" "w' = w1" using run p unfolding eq by (auto simp: p_then_def p_bind_def)
    then show ?thesis using keepsD[OF k p] by simp
  next
    case (Inr u)
    let ?w2 = "w1\<lparr>module_versions := od_set (module_versions w1) (app_id a) (version i)\<rparr>"
    have "r = Inr ()" "w' = ev_post_setup env (app_id a) ?w2"
      using run p Inr unfolding eq by (auto simp: p_defs prog_simps)
    then show ?thesis
      using keepsD[OF k p] env_keepsD(4)[OF env, of "app_id a"] by (simp add: keeps_def p_mod_def)
  qed
qed

lemma run_setup_outcome_lemma:
  assumes "env_keeps env" and "\<And>n. keeps (call_setup a n)" and "app_info a = Inr i" and "thread_op w = Some oper"
  shows "\<exists>w1. run_setup_target env all_apps a given repair w = (Inr (), w1) \<and>
    (case fst (setup_attempt env all_apps a (version_of w (app_id a)) w) of
       Inr _ \<Rightarrow>
         module_versions w1 = od_set (module_versions w) (app_id a) (version i) \<and>
         op_exception (the (thread_op w1)) = op_exception oper
     | Inl e \<Rightarrow>
         module_versions w1 = module_versions w \<and>
         thread_op w1 = Some (operation_on_update
           (Some (if version_of w (app_id a) = 0 then ''Error installing app: {exception}''
                  else if repair then ''Error repairing app: {exception}''
                  else ''Error updating app: {exception}'')) (Some e) oper))"
proof -
  obtain r w1 where run: "setup_attempt env all_apps a (version_of w (app_id a)) w = (r, w1)" by fastforce
  have eff: "thread_op w1 = Some oper"
    "module_versions w1 = (if r = Inr () then od_set (module_versions w) (app_id a) (version i) else module_versions w)"
    using setup_attempt_effect[OF assms(1-3) run] assms(4) by auto
  show ?thesis
    using eff by (cases r)
      (auto simp: run_setup_target_def get_setup_version_is run setup_report_def op_update_def p_ret_def
        operation_on_update_def Let_def)
qed

text \<open>C6: The setup of an app never raises into its thread and its report is right: when the
  attempt succeeds the app is recorded at the version of its code and the operation gets no
  exception; when anything in it raises, no version is recorded, so the app keeps the state
  it had, and the operation carries the exception with the message of its kind (install,
  repair or update).\<close>

theorem run_setup_outcome:
  assumes "env_keeps env" and "\<And>n. keeps (call_setup a n)" and "app_info a = Inr i" and "thread_op w = Some oper"
  shows "\<exists>w1. run_setup_target env all_apps a given repair w = (Inr (), w1) \<and>
    (case fst (setup_attempt env all_apps a (version_of w (app_id a)) w) of
       Inr _ \<Rightarrow>
         module_versions w1 = od_set (module_versions w) (app_id a) (version i) \<and>
         op_exception (the (thread_op w1)) = op_exception oper
     | Inl e \<Rightarrow>
         module_versions w1 = module_versions w \<and>
         thread_op w1 = Some (operation_on_update
           (Some (if version_of w (app_id a) = 0 then ''Error installing app: {exception}''
                  else if repair then ''Error repairing app: {exception}''
                  else ''Error updating app: {exception}'')) (Some e) oper))"
  by (rule run_setup_outcome_lemma[OF assms])

section \<open>Regular setup\<close>

lemma run_and_join_ok:
  assumes "run_and_join env rq target w = (Inr v, w')"
  shows "let oper = operation_run (operation_init (rq_id rq) (rq_app_id rq) (rq_name rq)
      (rq_show_message rq) (rq_show_notification rq)) in \<exists>w1 x.
    target (w\<lparr>thread_op := Some oper, thread_data := rq_data rq, error_messages := None\<rparr>) = (Inr x, w1) \<and>
    op_exception (case thread_op w1 of None \<Rightarrow> oper | Some o1 \<Rightarrow> o1) = None \<and>
    module_versions w' = module_versions w1"
  using assms
  by (auto simp: run_and_join_def Let_def operation_join_def operation_finish_def
      split: if_splits prod.splits option.splits sum.splits)

lemma setup_and_join_ok:
  assumes env: "env_keeps env" and app: "\<And>n. keeps (call_setup a n)" and info: "app_info a = Inr i"
    and a: "map_of all_apps aid = Some a" "app_id a = aid"
    and run: "setup_and_join env all_apps aid allow False w = (Inr (), w')"
  shows "if version i \<le> version_of w aid then w' = w
    else module_versions w' = od_set (module_versions w) aid (version i)"
proof (cases "version i \<le> version_of w aid")
  case True
  then have "run_setup_on_app all_apps aid allow False w = (Inr None, w)"
    using a info
    by (simp add: run_setup_on_app_def od_get_def p_bind_def p_lift_def p_ret_def get_setup_version_is)
  then show ?thesis using run True by (simp add: setup_and_join_def p_bind_def p_ret_def)
next
  case False
  have "\<exists>rq. run_setup_on_app all_apps aid allow False w = (Inr (Some (rq, a, version_of w aid)), w)"
    using a info False
    by (cases "version_of w aid = 0")
      (simp_all add: run_setup_on_app_def od_get_def p_bind_def p_lift_def p_ret_def get_setup_version_is)
  then obtain rq where rq: "run_setup_on_app all_apps aid allow False w = (Inr (Some (rq, a, version_of w aid)), w)"
    by blast
  let ?target = "p_then (run_setup_target env all_apps a (version_of w aid) False) (p_ret (None :: json option))"
  obtain v where "run_and_join env rq ?target w = (Inr v, w')"
    using run rq by (auto simp: setup_and_join_def p_bind_def p_then_def p_ret_def split: prod.splits sum.splits)
  note joined = run_and_join_ok[OF this]
  define oper where "oper = operation_run (operation_init (rq_id rq) (rq_app_id rq) (rq_name rq)
      (rq_show_message rq) (rq_show_notification rq))"
  define w0 where w0: "w0 = w\<lparr>thread_op := Some oper, thread_data := rq_data rq, error_messages := None\<rparr>"
  obtain w1 x where t: "?target w0 = (Inr x, w1)"
    and ex: "op_exception (case thread_op w1 of None \<Rightarrow> oper | Some o1 \<Rightarrow> o1) = None"
    and m: "module_versions w' = module_versions w1"
    using joined unfolding oper_def[symmetric] w0 Let_def by blast
  have v0: "version_of w0 (app_id a) = version_of w aid" "module_versions w0 = module_versions w"
    using a(2) by (simp_all add: w0 version_of_def)
  obtain w2 where t2: "run_setup_target env all_apps a (version_of w aid) False w0 = (Inr (), w2)"
    and eff: "case fst (setup_attempt env all_apps a (version_of w0 (app_id a)) w0) of
       Inr _ \<Rightarrow>
         module_versions w2 = od_set (module_versions w0) (app_id a) (version i) \<and>
         op_exception (the (thread_op w2)) = op_exception oper
     | Inl e \<Rightarrow>
         module_versions w2 = module_versions w0 \<and>
         thread_op w2 = Some (operation_on_update
           (Some (if version_of w0 (app_id a) = 0 then ''Error installing app: {exception}''
                  else if False then ''Error repairing app: {exception}''
                  else ''Error updating app: {exception}'')) (Some e) oper)"
    using run_setup_outcome_lemma[OF env app info, of w0 oper all_apps "version_of w aid" False] w0 by auto
  have "w1 = w2" using t t2 by (simp add: p_then_def p_bind_def p_ret_def)
  then have "module_versions w2 = od_set (module_versions w0) (app_id a) (version i)"
    using eff ex by (auto simp: operation_on_update_def Let_def split: sum.splits)
  then show ?thesis using False m v0 a(2) \<open>w1 = w2\<close> by simp
qed

definition registry_wf :: "sys_world apps \<Rightarrow> bool" where
  "registry_wf all_apps \<longleftrightarrow> od_wf all_apps \<and> (\<forall>(k, a) \<in> set all_apps. app_id a = k \<and> (\<exists>i. app_info a = Inr i))"

lemma registry_app:
  assumes "registry_wf all_apps" and "a \<in> set (od_values all_apps)"
  shows "map_of all_apps (app_id a) = Some a \<and> (\<exists>i. app_info a = Inr i)"
  using assms by (auto simp: registry_wf_def)

lemma version_of_set:
  "module_versions w' = od_set (module_versions w) k n \<Longrightarrow> version_of w' k' = (if k' = k then n else version_of w k')"
  by (simp add: version_of_def odict_simps)

definition up_to_date_at :: "sys_world app \<Rightarrow> sys_world \<Rightarrow> bool" where
  "up_to_date_at a w \<longleftrightarrow> (\<forall>i. app_info a = Inr i \<longrightarrow> version i \<le> version_of w (app_id a))"

text \<open>A run of \<open>setup_apps\<close> that ends without exception has brought every selected app to its version.\<close>

lemma setup_apps_ok:
  assumes env: "env_keeps env" and reg: "registry_wf all_apps"
    and keep: "\<And>a n. a \<in> set (od_values all_apps) \<Longrightarrow> keeps (call_setup a n)"
    and sub: "set as \<subseteq> set (od_values all_apps)"
    and run: "p_for (\<lambda>a. p_bind (p_lift (selected_app ids ess a)) (\<lambda>sel.
         if sel then setup_and_join env all_apps (app_id a) allow False else p_ret ())) as w = (Inr (), w')"
  shows "(\<forall>a \<in> set as. selected_app ids ess a = Inr True \<longrightarrow> up_to_date_at a w') \<and>
    (\<forall>k. version_of w k \<le> version_of w' k) \<and>
    ((\<forall>a \<in> set as. selected_app ids ess a = Inr True \<longrightarrow> up_to_date_at a w) \<longrightarrow> w' = w)"
  using sub run
proof (induction as arbitrary: w)
  case Nil
  then show ?case by (simp add: p_ret_def)
next
  case (Cons a as)
  obtain i where i: "map_of all_apps (app_id a) = Some a" "app_info a = Inr i"
    using registry_app[OF reg] Cons.prems(1) by force
  have a: "a \<in> set (od_values all_apps)" "set as \<subseteq> set (od_values all_apps)" using Cons.prems(1) by auto
  let ?f = "\<lambda>a. p_bind (p_lift (selected_app ids ess a)) (\<lambda>sel.
         if sel then setup_and_join env all_apps (app_id a) allow False else p_ret ())"
  obtain w1 where w1: "?f a w = (Inr (), w1)" and rest: "p_for ?f as w1 = (Inr (), w')"
    using Cons.prems(2) by (auto simp: p_then_Inr_iff)
  note IH = Cons.IH[OF a(2) rest]
  obtain sel where sel: "selected_app ids ess a = Inr sel"
    using w1 by (cases "selected_app ids ess a") (auto simp: p_bind_def p_lift_def)
  have step: "(if version i \<le> version_of w (app_id a) then w1 = w
      else module_versions w1 = od_set (module_versions w) (app_id a) (version i))" if "sel"
  proof -
    have "setup_and_join env all_apps (app_id a) allow False w = (Inr (), w1)"
      using w1 sel that by (simp add: p_bind_def p_lift_def)
    then show ?thesis using setup_and_join_ok[OF env keep[OF a(1)] i(2,1)] by blast
  qed
  have skip: "w1 = w" if "\<not> sel" using w1 sel that by (simp add: p_bind_def p_lift_def p_ret_def)
  have mono: "version_of w k \<le> version_of w1 k" for k
    using step skip by (cases sel) (auto simp: version_of_set split: if_splits)
  have done_here: "version i \<le> version_of w1 (app_id a)" if sel
    using step that by (auto simp: version_of_set split: if_splits)
  have "up_to_date_at a w'" if sel
  proof -
    have "version_of w1 (app_id a) \<le> version_of w' (app_id a)" using IH by blast
    then show ?thesis using done_here[OF that] i(2) by (auto simp: up_to_date_at_def)
  qed
  moreover have "version_of w k \<le> version_of w' k" for k using mono[of k] IH order_trans by blast
  moreover have "w' = w" if all: "\<forall>b \<in> set (a # as). selected_app ids ess b = Inr True \<longrightarrow> up_to_date_at b w"
  proof -
    have "w1 = w" using step skip all sel i(2) by (cases sel) (auto simp: up_to_date_at_def)
    then show ?thesis using IH all by auto
  qed
  ultimately show ?case using sel IH by auto
qed

lemma get_setup_state_is:
  "app_info a = Inr i \<Longrightarrow> get_setup_state a w =
     (Inr (if version_of w (app_id a) = 0 then NEEDS_SETUP
           else if version i \<le> version_of w (app_id a) then UP_TO_DATE else NEEDS_UPDATE), w)"
  by (simp add: get_setup_state_eval version_of_def Let_def)

lemma is_setup_required_eval:
  "app_info a = Inr i \<Longrightarrow> is_setup_required a w =
     (Inr (is_essential i \<and> version_of w (app_id a) = 0 \<or>
        (version_of w (app_id a) \<noteq> 0 \<and> version_of w (app_id a) < version i)), w)"
  by (auto simp: is_setup_required_def p_bind_def p_lift_def p_ret_def get_setup_state_is)

lemma apps_for_regular_setup_eval:
  assumes "\<forall>a \<in> set as. \<exists>i. app_info a = Inr i"
  shows "\<exists>ids. apps_for_regular_setup as w = (Inr ids, w) \<and>
    (\<forall>k. k \<in> set ids \<longleftrightarrow> (\<exists>a i. a \<in> set as \<and> app_id a = k \<and> app_info a = Inr i \<and>
       (is_essential i \<and> version_of w k = 0 \<or> version_of w k \<noteq> 0 \<and> version_of w k < version i)))"
  using assms
proof (induction as)
  case Nil
  then show ?case by (simp add: p_ret_def)
next
  case (Cons a as)
  obtain i where i: "app_info a = Inr i" using Cons.prems by auto
  obtain ids where ids: "apps_for_regular_setup as w = (Inr ids, w)"
    "\<And>k. k \<in> set ids \<longleftrightarrow> (\<exists>a i. a \<in> set as \<and> app_id a = k \<and> app_info a = Inr i \<and>
       (is_essential i \<and> version_of w k = 0 \<or> version_of w k \<noteq> 0 \<and> version_of w k < version i))"
    using Cons by auto
  let ?req = "is_essential i \<and> version_of w (app_id a) = 0 \<or>
        (version_of w (app_id a) \<noteq> 0 \<and> version_of w (app_id a) < version i)"
  have "apps_for_regular_setup (a # as) w = (Inr (if ?req then app_id a # ids else ids), w)"
    using ids(1) is_setup_required_eval[OF i, of w] by (simp add: p_bind_def p_ret_def)
  moreover have "k \<in> set (if ?req then app_id a # ids else ids) \<longleftrightarrow>
      (\<exists>b j. b \<in> set (a # as) \<and> app_id b = k \<and> app_info b = Inr j \<and>
       (is_essential j \<and> version_of w k = 0 \<or> version_of w k \<noteq> 0 \<and> version_of w k < version j))" for k
    using ids(2)[of k] i by auto
  ultimately show ?case by blast
qed

text \<open>C7: The regular setup of a start brings the installation up to date: when it ends without
  exception, every app that was installed and every essential app is recorded at least at the version of its code, and no app went back. When nothing needs
  setup it creates no operation and changes nothing.\<close>

theorem run_regular_setup_completes:
  assumes "env_keeps env" and "registry_wf all_apps"
    and "\<And>a n. a \<in> set (od_values all_apps) \<Longrightarrow> keeps (call_setup a n)"
    and "run_regular_setup env all_apps w = (Inr (), w')"
    and "a \<in> set (od_values all_apps)" and "app_info a = Inr i"
    and "version_of w (app_id a) \<noteq> 0 \<or> is_essential i"
  shows "version i \<le> version_of w' (app_id a) \<and> version_of w (app_id a) \<le> version_of w' (app_id a) \<and>
    (apps_for_regular_setup (od_values all_apps) w = (Inr [], w) \<longrightarrow> w' = w)"
proof -
  have infos: "\<forall>b \<in> set (od_values all_apps). \<exists>j. app_info b = Inr j" using registry_app[OF assms(2)] by blast
  obtain ids where ids: "apps_for_regular_setup (od_values all_apps) w = (Inr ids, w)"
    and mem: "\<And>k. k \<in> set ids \<longleftrightarrow> (\<exists>b j. b \<in> set (od_values all_apps) \<and> app_id b = k \<and> app_info b = Inr j \<and>
       (is_essential j \<and> version_of w k = 0 \<or> version_of w k \<noteq> 0 \<and> version_of w k < version j))"
    using apps_for_regular_setup_eval[OF infos, of w] by metis
  have run: "setup_apps env all_apps ids (ids = []) True w = (Inr (), w')"
    using assms(4) ids by (simp add: run_regular_setup_def run_setup_on_apps_def p_bind_def split: if_splits)
  note ok = setup_apps_ok[OF assms(1,2) assms(3) subset_refl run[unfolded setup_apps_def]]
  have mono: "version_of w (app_id a) \<le> version_of w' (app_id a)" using ok by blast
  have not_listed: "version j \<le> version_of w (app_id b)"
    if "b \<in> set (od_values all_apps)" "app_info b = Inr j" "app_id b \<notin> set ids"
      "version_of w (app_id b) \<noteq> 0 \<or> is_essential j" for b j
    using that mem[of "app_id b"] by force
  have "version i \<le> version_of w' (app_id a)"
  proof (cases "app_id a \<in> set ids")
    case True
    then have "ids \<noteq> []" by auto
    then have "selected_app ids (ids = []) a = Inr True" using True by (simp add: selected_app_def)
    then show ?thesis using ok assms(5,6) by (auto simp: up_to_date_at_def)
  next
    case False
    then show ?thesis using not_listed[OF assms(5,6) False assms(7)] mono by simp
  qed
  moreover have "w' = w" if none: "ids = []"
  proof -
    have "up_to_date_at b w"
      if b: "b \<in> set (od_values all_apps)" and sel: "selected_app ids (ids = []) b = Inr True" for b
    proof -
      obtain j where j: "app_info b = Inr j" "is_essential j"
        using sel none by (auto simp: selected_app_def r_bind_Inr_iff)
      then have "version j \<le> version_of w (app_id b)" using not_listed[OF b j(1)] none by simp
      then show ?thesis using j(1) by (simp add: up_to_date_at_def)
    qed
    then show ?thesis using ok by blast
  qed
  ultimately show ?thesis using mono ids by auto
qed

text \<open>An app with nothing but its Info, a machine on which nothing happens, and an empty database.\<close>

definition setup_app :: "string \<Rightarrow> int \<Rightarrow> bool \<Rightarrow> sys_world app" where
  "setup_app aid ver essential =
     (package_app aid [])\<lparr>components := [(aid @ ''-info'',
        \<lparr>obj = \<lparr>component_id = aid @ ''-info'', comp_app_id = Some aid, is_leader = False, classes = [''Info''],
            info = Some \<lparr>version = ver, is_essential = essential, depends = [], info_name = None, icon = None,
              icon_filename = None, info_description = None, manual_page = None, clients = None,
              donation_url = None, tags = []\<rparr>, packages = None\<rparr>, vt = follower_vtable\<rparr>)]\<rparr>"

definition idle_env :: setup_env where
  "idle_env = \<lparr>ev_sys = idle_system, ev_force_upgrade = (\<lambda>aid. None), ev_upgradable = (\<lambda>w. []),
     ev_conffile_packages = (\<lambda>ps. p_ret []), ev_post_setup = (\<lambda>aid w. w), ev_in_progress = (\<lambda>oid w. False),
     ev_wait = (\<lambda>w. (False, w))\<rparr>"

definition empty_world :: sys_world where
  "empty_world = shared_world\<lparr>module_versions := []\<rparr>"

lemma idle_env_keeps: "env_keeps idle_env"
  by (simp add: env_keeps_def idle_env_def idle_system_def keeps_def p_ret_def p_mod_def)

lemma setup_app_simps [simp]:
  "app_id (setup_app aid v ess) = aid"
  "keeps (call_setup (setup_app aid v ess) n)"
  by (simp_all add: setup_app_def package_app_def Let_def call_setup_def app_setup_def follower_vtable_def
      component_vtable_def p_then_def p_bind_def keeps_def p_ret_def)

lemma setup_app_info:
  "app_info (setup_app aid v ess) = Inr \<lparr>version = v, is_essential = ess, depends = [], info_name = None, icon = None,
     icon_filename = None, info_description = None, manual_page = None, clients = None,
     donation_url = None, tags = []\<rparr>"
  by (simp add: setup_app_def package_app_def Let_def app_info_def app_get_component_def od_get_def)

lemma setup_app_setup [simp]: "call_setup (setup_app aid v ess) n w = (Inr (), w)"
  by (simp add: setup_app_def package_app_def Let_def call_setup_def app_setup_def follower_vtable_def
      component_vtable_def p_then_def p_bind_def p_ret_def)

theorem run_setup_outcome_witness:
  "\<exists>w1. run_setup_target idle_env [] (setup_app ''tor'' 3 False) 0 False
     (empty_world\<lparr>thread_op := Some (operation_init ''tor-setup'' ''tor'' ''Installing app'' True True)\<rparr>) = (Inr (), w1) \<and>
   module_versions w1 = [(''tor'', 3)]"
proof -
  let ?w = "empty_world\<lparr>thread_op := Some (operation_init ''tor-setup'' ''tor'' ''Installing app'' True True)\<rparr>"
  let ?a = "setup_app ''tor'' 3 False"
  have "fst (setup_attempt idle_env [] ?a (version_of ?w (app_id ?a)) ?w) = Inr ()"
    by (simp add: setup_attempt_def version_of_def empty_world_def shared_world_def setup_app_info idle_env_def
        p_defs p_lift_def p_ret_def p_mod_def set_setup_version_eval)
  then show ?thesis
    using run_setup_outcome[of idle_env ?a _ ?w "operation_init ''tor-setup'' ''tor'' ''Installing app'' True True" "[]" 0 False,
        OF idle_env_keeps _ setup_app_info]
    by (auto simp: empty_world_def shared_world_def od_set_def setup_app_info)
qed

definition first_boot_apps :: "sys_world apps" where
  "first_boot_apps = [(''firewall'', setup_app ''firewall'' 3 True), (''tor'', setup_app ''tor'' 7 False)]"

lemma first_boot_run:
  "\<exists>w'. run_regular_setup idle_env first_boot_apps empty_world = (Inr (), w') \<and> version_of w' ''firewall'' = 3"
  by (simp add: run_regular_setup_def first_boot_apps_def is_setup_required_def p_defs p_lift_def p_ret_def
      setup_app_info get_setup_state_is version_of_def empty_world_def shared_world_def run_setup_on_apps_def
      setup_apps_def selected_app_def setup_and_join_def run_setup_on_app_def od_get_def get_setup_version_eval
      run_and_join_def run_setup_target_def setup_attempt_def set_setup_version_eval p_mod_def setup_report_def
      op_update_def idle_env_def Let_def operation_join_def operation_finish_def operation_on_update_def
      operation_run_def operation_init_def odict_simps)

theorem run_regular_setup_completes_witness:
  "\<exists>w'. run_regular_setup idle_env first_boot_apps empty_world = (Inr (), w') \<and> 3 \<le> version_of w' ''firewall''"
proof -
  obtain w' where w': "run_regular_setup idle_env first_boot_apps empty_world = (Inr (), w')"
    using first_boot_run by blast
  have "registry_wf first_boot_apps" by (simp add: registry_wf_def first_boot_apps_def setup_app_info)
  moreover have "\<And>a n. a \<in> set (od_values first_boot_apps) \<Longrightarrow> keeps (call_setup a n)"
    by (auto simp: first_boot_apps_def)
  moreover have "setup_app ''firewall'' 3 True \<in> set (od_values first_boot_apps)" by (simp add: first_boot_apps_def)
  ultimately show ?thesis
    using run_regular_setup_completes[OF idle_env_keeps _ _ w' _ setup_app_info, of "''firewall''" 3 True] w'
    by simp
qed

section \<open>Repair\<close>

text \<open>A repair reports success over a failed setup: when the repaired components ask for a
  rerun of the setup and that setup raises, while no error message was stored in the thread,
  the operation ends with the message that the app is repaired, although it carries the
  exception of the setup.\<close>

theorem repair_hides_failed_setup:
  assumes "env_keeps env" and "\<And>n. keeps (call_setup a n)" and "app_info a = Inr i"
    and "thread_op w = Some oper" and "call_diagnose a w = (Inr chs, w)" and "failed_checks chs \<noteq> []"
    and "call_repair a (failed_checks chs) w = (Inr True, w)"
    and "setup_attempt env all_apps a (version_of w (app_id a))
      (w\<lparr>thread_op := Some (operation_on_update (Some ''Re-running setup to complete repairs'') None oper)\<rparr>) = (Inl e, w1)"
    and "error_messages w1 = None"
  shows "\<exists>w' o'. run_repair_target env all_apps a w = (Inr (), w') \<and> thread_op w' = Some o' \<and>
    operation_message o' = ''App repaired.'' \<and> op_exception o' = Some e"
proof -
  let ?o1 = "operation_on_update (Some ''Re-running setup to complete repairs'') None oper"
  let ?w = "w\<lparr>thread_op := Some ?o1\<rparr>"
  have t1: "thread_op w1 = Some ?o1"
    using setup_attempt_effect[OF assms(1-3,8)] by simp
  obtain w2 where w2: "run_setup_target env all_apps a (version_of w (app_id a)) True ?w = (Inr (), w2)"
      "op_exception (the (thread_op w2)) = Some e" "thread_op w2 \<noteq> None" "error_messages w2 = None"
    using assms(8,9) t1
    by (auto simp: run_setup_target_def get_setup_version_is setup_report_def op_update_def
        operation_on_update_def Let_def)
  obtain o2 where o2: "thread_op w2 = Some o2" "op_exception o2 = Some e" using w2 by auto
  have "run_repair_target env all_apps a w = p_then (repair_rerun env all_apps a) repair_finish w"
    using assms(4-7) by (simp add: run_repair_target_def)
  also have "\<dots> = repair_finish w2"
    using w2(1) assms(4) by (simp add: repair_rerun_def op_update_def p_then_def p_bind_def get_setup_version_is)
  also have "\<dots> = (Inr (), w2\<lparr>thread_op := Some (operation_on_update (Some ''App repaired.'') None o2)\<rparr>)"
    using w2(4) o2 by (simp add: repair_finish_def retrieve_error_messages_def p_bind_def op_update_def)
  finally show ?thesis using o2
    by (simp add: operation_on_update_def operation_message_def Let_def)
qed

text \<open>An app whose setup raises and whose component reports a failure and asks for a rerun.\<close>

definition broken_app :: "sys_world app" where
  "broken_app = (setup_app ''tor'' 3 False)
     \<lparr>ov_setup := Some (\<lambda>n. p_raise (RuntimeError ''no disk space'')),
      ov_diagnose := Some (p_ret [\<lparr>check_id = ''c'', description = ''d'', check_result = FAILED, parameters = [],
        check_component_id = None\<rparr>]),
      ov_repair := Some (\<lambda>chs. p_ret True)\<rparr>"

theorem repair_hides_failed_setup_witness:
  "\<exists>w' o'. run_repair_target idle_env [] broken_app
      (empty_world\<lparr>thread_op := Some (operation_init ''tor-repair'' ''tor'' ''Repairing app'' True True)\<rparr>) = (Inr (), w') \<and>
    thread_op w' = Some o' \<and> operation_message o' = ''App repaired.'' \<and>
    op_exception o' = Some (RuntimeError ''no disk space'')"
proof -
  let ?w = "empty_world\<lparr>thread_op := Some (operation_init ''tor-repair'' ''tor'' ''Repairing app'' True True)\<rparr>"
  let ?chs = "[\<lparr>check_id = ''c'', description = ''d'', check_result = FAILED, parameters = [],
        check_component_id = None\<rparr>]"
  have id: "app_id broken_app = ''tor''" by (simp add: broken_app_def setup_app_def package_app_def Let_def)
  have info: "\<exists>i. app_info broken_app = Inr i"
    by (simp add: broken_app_def setup_app_def package_app_def Let_def app_info_def app_get_component_def od_get_def)
  then obtain i where i: "app_info broken_app = Inr i" by blast
  have calls: "call_diagnose broken_app w = (Inr ?chs, w)" "call_repair broken_app chs w = (Inr True, w)"
    "call_setup broken_app n = p_raise (RuntimeError ''no disk space'')" for w chs n
    by (simp_all add: broken_app_def call_diagnose_def call_repair_def call_setup_def p_ret_def)
  have v0: "version_of empty_world ''tor'' = 0" by (simp add: version_of_def empty_world_def)
  have att: "setup_attempt idle_env [] broken_app 0 w = (Inl (RuntimeError ''no disk space''), w)" for w
    by (simp add: setup_attempt_def calls p_defs p_ret_def p_raise_def)
  have fc: "failed_checks ?chs = ?chs" by (simp add: failed_checks_def)
  have err: "error_messages (?w\<lparr>thread_op := x\<rparr>) = None" for x by (simp add: empty_world_def shared_world_def)
  show ?thesis
    by (rule repair_hides_failed_setup[OF idle_env_keeps _ i _ calls(1), of _ _ "[]" "RuntimeError ''no disk space''",
        OF _ _ _ _ _ err[of "Some (operation_on_update (Some ''Re-running setup to complete repairs'') None
          (operation_init ''tor-repair'' ''tor'' ''Repairing app'' True True))"]])
      (simp_all add: calls fc att id v0 keeps_basic)
qed

section \<open>The retry loop\<close>

lemma first_success_split:
  "(\<exists>k < Suc n. (\<forall>j < k. G j) \<and> K k) \<longleftrightarrow> K 0 \<or> (G 0 \<and> (\<exists>k < n. (\<forall>j < k. G (Suc j)) \<and> K (Suc k)))"
  by (simp add: Ex_less_Suc2 All_less_Suc2) blast

lemma retry_loop_done:
  fixes attempt :: "('w, unit) prog" and wait :: "'w \<Rightarrow> bool \<times> 'w"
  defines "step \<equiv> \<lambda>v. snd (wait (snd (attempt v)))"
    and "goes_on \<equiv> \<lambda>v. (\<exists>e. fst (attempt v) = Inl e \<and> \<not> is_permanent_failure e) \<and> \<not> fst (wait (snd (attempt v)))"
  shows "fst (retry_loop n attempt wait w) = Loop_done \<longleftrightarrow>
    (\<exists>k < n. (\<forall>j < k. goes_on ((step ^^ j) w)) \<and> fst (attempt ((step ^^ k) w)) = Inr ())"
proof (induction n arbitrary: w)
  case 0
  then show ?case by simp
next
  case (Suc n)
  have "(\<exists>k < Suc n. (\<forall>j < k. goes_on ((step ^^ j) w)) \<and> fst (attempt ((step ^^ k) w)) = Inr ()) \<longleftrightarrow>
      fst (attempt w) = Inr () \<or> (goes_on w \<and> fst (retry_loop n attempt wait (step w)) = Loop_done)"
    unfolding Suc.IH first_success_split by (simp add: funpow_swap1)
  moreover obtain r w1 where a: "attempt w = (r, w1)" by fastforce
  moreover obtain stop w2 where "wait w1 = (stop, w2)" by fastforce
  ultimately show ?case by (cases r) (auto simp: step_def goes_on_def)
qed

text \<open>The retried jobs (forced upgrade, and the work after a dpkg run) make at most twelve
  attempts and end in the way the failures say: they complete exactly when some attempt
  among the first twelve succeeds and all before it failed with a failure that is not
  permanent and a wait that saw no shutdown.\<close>

theorem retry_loop_completes:
  "fst (run_upgrade env all_apps w) = Loop_done \<longleftrightarrow>
     (let step = (\<lambda>v. snd (ev_wait env (snd (attempt_upgrade env all_apps v))));
          goes_on = (\<lambda>v. (\<exists>e. fst (attempt_upgrade env all_apps v) = Inl e \<and> \<not> is_permanent_failure e) \<and>
                      \<not> fst (ev_wait env (snd (attempt_upgrade env all_apps v))))
      in \<exists>k < 12. (\<forall>j < k. goes_on ((step ^^ j) w)) \<and> fst (attempt_upgrade env all_apps ((step ^^ k) w)) = Inr ())"
  unfolding run_upgrade_def UPGRADE_ATTEMPTS_def Let_def by (rule retry_loop_done)

theorem retry_loop_completes_witness:
  "fst (run_upgrade (idle_env\<lparr>ev_sys := idle_system\<lparr>sh := \<lambda>c w. (Inr (1, []), w)\<rparr>\<rparr>) [] empty_world) = Loop_done"
proof -
  let ?env = "idle_env\<lparr>ev_sys := idle_system\<lparr>sh := \<lambda>c w. (Inr (1, []), w)\<rparr>\<rparr>"
  have "attempt_upgrade ?env [] empty_world = (Inr (), empty_world)"
    by (simp add: attempt_upgrade_def upgrade_guard_def is_package_manager_busy_def run_succeeds_def run_ok_def
        run_command_def apps_to_force_upgrade_def p_defs prog_simps idle_env_def idle_system_def empty_world_def
        shared_world_def)
  then have "\<exists>k < 12. (\<forall>j < k. ((\<lambda>v. (\<exists>e. fst (attempt_upgrade ?env [] v) = Inl e \<and> \<not> is_permanent_failure e) \<and>
        \<not> fst (ev_wait ?env (snd (attempt_upgrade ?env [] v)))))
        (((\<lambda>v. snd (ev_wait ?env (snd (attempt_upgrade ?env [] v)))) ^^ j) empty_world)) \<and>
      fst (attempt_upgrade ?env [] (((\<lambda>v. snd (ev_wait ?env (snd (attempt_upgrade ?env [] v)))) ^^ k) empty_world)) = Inr ()"
    by (intro exI[of _ 0]) simp
  then show ?thesis using retry_loop_completes[of ?env "[]" empty_world] by (simp only: Let_def)
qed

section \<open>Rerun after dpkg\<close>

lemma known_entry:
  assumes "known_wf known"
  shows "\<exists>entry v. dict_get known p (JDict []) = Inr entry \<and> dict_get entry ''version'' JNull = Inr v \<and>
    (JStr s \<noteq> v \<longleftrightarrow> known_version known p \<noteq> Some (JStr s))"
proof -
  obtain d where d: "known = JDict d" "\<forall>x \<in> snd ` set d. is_dict x" using assms by (cases known) auto
  show ?thesis
  proof (cases "map_of d p")
    case None
    then show ?thesis using d by simp
  next
    case (Some x)
    then have "is_dict x" using d(2) by (force dest: map_of_SomeD)
    then obtain e where "x = JDict e" by (auto simp: is_dict_iff)
    then show ?thesis using d Some by (auto split: option.splits)
  qed
qed

lemma needs_rerun_in_eval:
  assumes "known_wf known" and "\<forall>p \<in> set ps. installed_version_of cache p \<noteq> None"
  shows "needs_rerun_in cache known ps =
    Inr (\<exists>p \<in> set ps. known_version known p \<noteq> map_option JStr (installed_version_of cache p))"
  using assms(2)
proof (induction ps)
  case (Cons p ps)
  obtain ap iv where p: "map_of cache p = Some ap" "installed ap = Some iv"
    using Cons.prems by (auto simp: installed_version_of_def split: bind_splits)
  obtain entry v where "dict_get known p (JDict []) = Inr entry" "dict_get entry ''version'' JNull = Inr v"
      "JStr (iv_version iv) \<noteq> v \<longleftrightarrow> known_version known p \<noteq> Some (JStr (iv_version iv))"
    using known_entry[OF assms(1)] by blast
  then show ?case using Cons p by (auto simp: installed_version_of_def)
qed simp

text \<open>After a run of dpkg the setup of an app is rerun exactly when one of its packages, all of
  them installed, has a version FreedomBox does not know yet; and once the setup has marked
  its packages as known, the next notification does not rerun it: the handler does not
  trigger itself.\<close>

theorem setup_rerun_once:
  assumes "known_wf (known_table w)" and "\<forall>p \<in> set ps. installed_version_of (apt_cache w) p \<noteq> None"
  shows "app_needs_setup_rerun ps w =
      (Inr (\<exists>p \<in> set ps. known_version (known_table w) p \<noteq> map_option JStr (installed_version_of (apt_cache w) p)), w) \<and>
    (\<exists>w'. mark_known ps w = (Inr (), w') \<and> app_needs_setup_rerun ps w' = (Inr False, w'))"
proof -
  have eval: "app_needs_setup_rerun ps v = (needs_rerun_in (apt_cache v) (known_table v) ps, v)" for v :: sys_world
    by (simp add: app_needs_setup_rerun_def get_known_def p_bind_def prog_simps known_table_def)
  obtain w' where w': "mark_known ps w = (Inr (), w')" "known_wf (known_table w')" "apt_cache w' = apt_cache w"
    "\<forall>p. known_version (known_table w') p =
        (case installed_version_of (apt_cache w) p of
           Some v \<Rightarrow> if p \<in> set ps then Some (JStr v) else known_version (known_table w) p
         | None \<Rightarrow> known_version (known_table w) p)"
    using mark_known_spec[OF assms(1)] by blast
  have "app_needs_setup_rerun ps w' = (Inr False, w')"
    using needs_rerun_in_eval[OF w'(2), of ps "apt_cache w'"] assms(2) w'(3,4) eval by auto
  then show ?thesis using w'(1) needs_rerun_in_eval[OF assms] eval by auto
qed

theorem setup_rerun_once_witness:
  "app_needs_setup_rerun [''php''] shared_world = (Inr True, shared_world) \<and>
   (\<exists>w'. mark_known [''php''] shared_world = (Inr (), w') \<and> app_needs_setup_rerun [''php''] w' = (Inr False, w'))"
proof -
  have "known_wf (known_table shared_world)" "known_version (known_table shared_world) ''php'' = None"
    by (simp_all add: known_table_def shared_world_def)
  moreover have "installed_version_of (apt_cache shared_world) ''php'' = Some ''8.4''"
    by (simp add: installed_version_of_def shared_world_def shared_cache_def)
  ultimately show ?thesis using setup_rerun_once[of shared_world "[''php'']"] by auto
qed

end
