(* ===== verification/Privileged.thy ===== *)
theory Privileged
  imports Json
begin

text \<open>
  Privileged actions (plinth/actions.py, plinth/privileged_daemon.py): the check of an action
  when it is decorated, the log line of a call, the request a daemon receives, and the checks
  it makes before it runs the action as superuser. Python's introspection is data here: an
  argument specification with annotations. Loading modules, JSON text and the body of an
  action are parameters.
\<close>

section \<open>Annotations\<close>

datatype annotation =
    TAny
  | TNone
  | TBool
  | TInt
  | TStr
  | TFloat
  | TSecret
  | TUnion "annotation list"
  | TList annotation
  | TDict annotation annotation
  | TOther string

text \<open>\<open>_privileged_assert_valid_type\<close>: the loop over the members of a union tries one after the other.\<close>

fun assert_valid_type :: "json \<Rightarrow> annotation \<Rightarrow> unit result"
  and assert_valid_union :: "json \<Rightarrow> annotation list \<Rightarrow> unit result"
where
  "assert_valid_type v TAny = Inr ()"
| "assert_valid_type v TNone = (if v \<noteq> JNull then Inl (TypeError ''Expected None'') else Inr ())"
| "assert_valid_type v TBool = (if \<not> is_bool v then Inl (TypeError ''Expected type bool'') else Inr ())"
| "assert_valid_type v TInt = (if \<not> is_int v then Inl (TypeError ''Expected type int'') else Inr ())"
| "assert_valid_type v TStr = (if \<not> is_str v then Inl (TypeError ''Expected type str'') else Inr ())"
| "assert_valid_type v TFloat = (if \<not> is_float v then Inl (TypeError ''Expected type float'') else Inr ())"
| "assert_valid_type v TSecret = (if \<not> is_str v then Inl (TypeError ''Expected type str'') else Inr ())"
| "assert_valid_type v (TUnion ts) = assert_valid_union v ts"
| "assert_valid_type v (TList t) =
     (case v of
        JList xs \<Rightarrow> r_for (\<lambda>x. assert_valid_type x t) xs
      | _ \<Rightarrow> Inl (TypeError ''Expected type list''))"
| "assert_valid_type v (TDict k t) =
     (case v of
        JDict d \<Rightarrow> r_for (\<lambda>p. r_bind (assert_valid_type (JStr (fst p)) k) (\<lambda>_. assert_valid_type (snd p) t)) d
      | _ \<Rightarrow> Inl (TypeError ''Expected type dict''))"
| "assert_valid_type v (TOther n) = Inl (TypeError ''Unsupported annotation type'')"
| "assert_valid_union v [] = Inl (TypeError ''Expected one of unioned types'')"
| "assert_valid_union v (t # ts) =
     (case assert_valid_type v t of
        Inr _ \<Rightarrow> Inr ()
      | Inl e \<Rightarrow> if is_type_error e then assert_valid_union v ts else Inl e)"

text \<open>The typing rules the check is meant to implement.\<close>

inductive has_type :: "json \<Rightarrow> annotation \<Rightarrow> bool" where
  has_any: "has_type v TAny"
| has_none: "has_type JNull TNone"
| has_bool: "has_type (JBool b) TBool"
| has_int: "has_type (JInt n) TInt"
| has_int_bool: "has_type (JBool b) TInt"
| has_str: "has_type (JStr s) TStr"
| has_float: "has_type (JFloat f) TFloat"
| has_secret: "has_type (JStr s) TSecret"
| has_union: "t \<in> set ts \<Longrightarrow> has_type v t \<Longrightarrow> has_type v (TUnion ts)"
| has_list: "(\<And>x. x \<in> set xs \<Longrightarrow> has_type x t) \<Longrightarrow> has_type (JList xs) (TList t)"
| has_dict: "(\<And>k x. (k, x) \<in> set d \<Longrightarrow> has_type (JStr k) kt \<and> has_type x t) \<Longrightarrow> has_type (JDict d) (TDict kt t)"

inductive_simps has_type_simps:
  "has_type v TAny" "has_type v TNone" "has_type v TBool" "has_type v TInt" "has_type v TStr"
  "has_type v TFloat" "has_type v TSecret" "has_type v (TUnion ts)" "has_type v (TList t)"
  "has_type v (TDict kt t)" "has_type v (TOther n)"

lemma valid_type_error:
  "assert_valid_type v t = Inl e \<Longrightarrow> is_type_error e"
  "assert_valid_union v ts = Inl e \<Longrightarrow> is_type_error e"
proof (induction v t and v ts arbitrary: e and e rule: assert_valid_type_assert_valid_union.induct)
  case (9 v t)
  then show ?case by (fastforce split: json.splits dest!: r_for_Inl)
next
  case (10 v k t)
  then show ?case by (fastforce split: json.splits dest!: r_for_Inl simp: r_bind_Inl_iff)
qed (auto split: if_splits sum.splits)

lemma valid_type_iff:
  "assert_valid_type v t = Inr () \<longleftrightarrow> has_type v t"
  "assert_valid_union v ts = Inr () \<longleftrightarrow> (\<exists>t \<in> set ts. has_type v t)"
proof (induction v t and v ts rule: assert_valid_type_assert_valid_union.induct)
  case (9 v t)
  then show ?case by (cases v) (auto simp: has_type_simps r_for_ok)
next
  case (10 v k t)
  then show ?case by (cases v) (fastforce simp: has_type_simps r_for_ok r_bind_Inr_iff)+
next
  case (13 v t ts)
  then show ?case using valid_type_error(1)[of v t] by (auto split: sum.splits)
qed (auto simp: has_type_simps is_str_iff elim: is_bool.elims is_int.elims is_float.elims)

text \<open>C8: The run-time type check of privileged calls accepts exactly the values the annotation
  types: nested lists, dicts and unions included, with the Python rule that a bool is an int
  and a secret is a string; everything else, an unsupported annotation too, is refused.\<close>

theorem assert_valid_type_iff: "assert_valid_type v t = Inr () \<longleftrightarrow> has_type v t"
  by (rule valid_type_iff(1))

section \<open>Argument specifications\<close>

text \<open>What \<open>inspect.getfullargspec\<close> gives: the parameters, how many have defaults, the annotations.\<close>

record argspec =
  sp_args :: "string list"
  sp_varargs :: bool
  sp_varkw :: bool
  sp_kwonlyargs :: "string list"
  sp_defaults :: nat
  sp_annotations :: "(string \<times> annotation) list"

definition is_secret :: "annotation \<Rightarrow> bool" where
  "is_secret t \<longleftrightarrow> t = TSecret \<or> (case t of TUnion ts \<Rightarrow> set ts = {TSecret, TNone} | _ \<Rightarrow> False)"

definition secret_name :: "string \<Rightarrow> bool" where
  "secret_name n \<longleftrightarrow> contains_str ''password'' n \<or> contains_str ''passphrase'' n \<or> contains_str ''secret'' n"

definition check_privileged_action_arguments :: "argspec \<Rightarrow> unit result" where
  "check_privileged_action_arguments sp =
     (if sp_varargs sp \<or> sp_varkw sp \<or> sp_kwonlyargs sp \<noteq> []
      then Inl (SyntaxError ''Actions must not have variable args'')
      else r_bind (r_for (\<lambda>a. if map_of (sp_annotations sp) a = None
                             then Inl (SyntaxError ''All arguments must be annotated'') else Inr ()) (sp_args sp))
        (\<lambda>_. r_for (\<lambda>(n, t). if secret_name n \<and> \<not> is_secret t
                   then Inl (SyntaxError (''Argument '' @ n @ '' should likely be a secret_str'')) else Inr ())
               (sp_annotations sp)))"

definition annotation_of :: "argspec \<Rightarrow> string \<Rightarrow> annotation result" where
  "annotation_of sp n = od_get (sp_annotations sp) n"

text \<open>\<open>_privileged_assert_valid_arguments\<close>; the value is the request's dict of args and kwargs.\<close>

definition nth_arg :: "argspec \<Rightarrow> nat \<Rightarrow> string result" where
  "nth_arg sp i = (if i < length (sp_args sp) then Inr (sp_args sp ! i) else Inl (IndexError ''list index out of range''))"

fun position_of :: "string list \<Rightarrow> string \<Rightarrow> nat" where
  "position_of [] n = 0"
| "position_of (x # xs) n = (if x = n then 0 else Suc (position_of xs n))"

definition check_kwarg :: "argspec \<Rightarrow> nat \<Rightarrow> string \<times> json \<Rightarrow> unit result" where
  "check_kwarg sp n p =
     (if fst p \<notin> set (sp_args sp) then Inl (SyntaxError (''Unknown argument: '' @ fst p))
      else if position_of (sp_args sp) (fst p) < n then Inl (SyntaxError (''Duplicate argument: '' @ fst p))
      else r_bind (annotation_of sp (fst p)) (assert_valid_type (snd p)))"

definition check_arg :: "argspec \<Rightarrow> nat \<times> json \<Rightarrow> unit result" where
  "check_arg sp p =
     r_bind (nth_arg sp (fst p)) (\<lambda>n. r_bind (annotation_of sp n) (assert_valid_type (snd p)))"

definition assert_valid_arguments :: "argspec \<Rightarrow> json \<Rightarrow> unit result" where
  "assert_valid_arguments sp arguments =
     (case arguments of
        JDict d \<Rightarrow>
          (case (map_of d ''args'', map_of d ''kwargs'') of
             (Some (JList as), Some (JDict kws)) \<Rightarrow>
               if length as + length kws > length (sp_args sp) then Inl (SyntaxError ''Too many arguments'')
               else r_bind (r_for (\<lambda>k. if k \<notin> set (od_keys kws) then Inl (SyntaxError (''Argument not provided: '' @ k)) else Inr ())
                             (drop (length as) (take (length (sp_args sp) - sp_defaults sp) (sp_args sp))))
                 (\<lambda>_. r_bind (r_for (check_kwarg sp (length as)) kws)
                 (\<lambda>_. r_for (check_arg sp) (zip [0..<length as] as)))
           | _ \<Rightarrow> Inl (SyntaxError ''Invalid arguments format''))
      | _ \<Rightarrow> Inl (SyntaxError ''Invalid arguments format''))"

text \<open>
  How Python binds a call: positional values to the first parameters, keywords to the rest,
  every parameter at most once, and every parameter without default.
\<close>

definition binding :: "argspec \<Rightarrow> json list \<Rightarrow> (string \<times> json) list \<Rightarrow> (string \<times> json) list" where
  "binding sp as kws = zip (sp_args sp) as @ kws"

definition binds :: "argspec \<Rightarrow> json list \<Rightarrow> (string \<times> json) list \<Rightarrow> bool" where
  "binds sp as kws \<longleftrightarrow>
     length as \<le> length (sp_args sp) \<and>
     distinct (od_keys (binding sp as kws)) \<and>
     set (od_keys (binding sp as kws)) \<subseteq> set (sp_args sp) \<and>
     set (take (length (sp_args sp) - sp_defaults sp) (sp_args sp)) \<subseteq> set (od_keys (binding sp as kws)) \<and>
     (\<forall>(n, v) \<in> set (binding sp as kws). \<exists>t. map_of (sp_annotations sp) n = Some t \<and> has_type v t)"

definition well_typed :: "argspec \<Rightarrow> (string \<times> json) list \<Rightarrow> bool" where
  "well_typed sp xs \<longleftrightarrow> (\<forall>(n, v) \<in> set xs. \<exists>t. map_of (sp_annotations sp) n = Some t \<and> has_type v t)"

lemma position_of_nth:
  "distinct xs \<Longrightarrow> i < length xs \<Longrightarrow> position_of xs (xs ! i) = i"
proof (induction xs arbitrary: i)
  case (Cons x xs)
  then show ?case by (cases i) auto
qed simp

lemma position_of_less:
  "n \<in> set xs \<Longrightarrow> position_of xs n < k \<longleftrightarrow> n \<in> set (take k xs)"
proof (induction xs arbitrary: k)
  case (Cons x xs)
  then show ?case by (cases k) auto
qed simp

lemma check_kwarg_iff:
  "check_kwarg sp n p = Inr () \<longleftrightarrow>
     fst p \<in> set (sp_args sp) \<and> fst p \<notin> set (take n (sp_args sp)) \<and>
     (\<exists>t. map_of (sp_annotations sp) (fst p) = Some t \<and> has_type (snd p) t)"
  by (auto simp: check_kwarg_def position_of_less annotation_of_def r_bind_Inr_iff od_get_Inr valid_type_iff)

lemma check_args_iff:
  assumes "length as \<le> length (sp_args sp)"
  shows "r_for (check_arg sp) (zip [0..<length as] as) = Inr () \<longleftrightarrow>
    (\<forall>(n, v) \<in> set (zip (sp_args sp) as). \<exists>t. map_of (sp_annotations sp) n = Some t \<and> has_type v t)"
proof -
  have "r_for (check_arg sp) (zip [0..<length as] as) = Inr () \<longleftrightarrow> (\<forall>i < length as. check_arg sp (i, as ! i) = Inr ())"
    by (simp add: r_for_ok all_set_conv_all_nth)
  also have "\<dots> \<longleftrightarrow> (\<forall>i < length as. \<exists>t. map_of (sp_annotations sp) (sp_args sp ! i) = Some t \<and> has_type (as ! i) t)"
    using assms by (auto simp: check_arg_def nth_arg_def annotation_of_def r_bind_Inr_iff od_get_Inr valid_type_iff)
  also have "\<dots> \<longleftrightarrow> (\<forall>(n, v) \<in> set (zip (sp_args sp) as). \<exists>t. map_of (sp_annotations sp) n = Some t \<and> has_type v t)"
    using assms by (auto simp: set_zip)
  finally show ?thesis .
qed

text \<open>The conditions the code checks, one by one.\<close>

lemma assert_valid_arguments_checks:
  "assert_valid_arguments sp (JDict [(''args'', JList as), (''kwargs'', JDict kws)]) = Inr () \<longleftrightarrow>
     length as + length kws \<le> length (sp_args sp) \<and>
     set (drop (length as) (take (length (sp_args sp) - sp_defaults sp) (sp_args sp))) \<subseteq> fst ` set kws \<and>
     (\<forall>p \<in> set kws. fst p \<in> set (sp_args sp) \<and> fst p \<notin> set (take (length as) (sp_args sp))) \<and>
     well_typed sp kws \<and> well_typed sp (zip (sp_args sp) as)"
proof (cases "length as + length kws \<le> length (sp_args sp)")
  case True
  then have "length as \<le> length (sp_args sp)" by simp
  then have "(\<forall>x \<in> set (zip [0..<length as] as). check_arg sp x = Inr ()) \<longleftrightarrow> well_typed sp (zip (sp_args sp) as)"
    using check_args_iff[of as sp] by (simp add: r_for_ok well_typed_def)
  then show ?thesis using True
    by (auto simp: assert_valid_arguments_def r_bind_Inr_iff r_for_ok check_kwarg_iff well_typed_def)
qed (simp add: assert_valid_arguments_def)

text \<open>Parameters without default: those given by position need no keyword.\<close>

lemma required_split:
  assumes "distinct ps" and "set ks \<inter> set (take n ps) = {}"
  shows "set (drop n (take m ps)) \<subseteq> set ks \<longleftrightarrow> set (take m ps) \<subseteq> set (take n ps) \<union> set ks"
proof -
  have "set (take m ps) = set (take n (take m ps)) \<union> set (drop n (take m ps))"
    by (metis append_take_drop_id set_append)
  moreover have "set (take n (take m ps)) \<subseteq> set (take n ps)"
    by (simp add: take_take min.commute set_take_subset_set_take)
  moreover have "set (drop n (take m ps)) \<inter> set (take n ps) = {}"
  proof -
    have "set (drop n (take m ps)) \<subseteq> set (drop n ps)" by (simp add: drop_take set_take_subset)
    then show ?thesis using assms(1) set_take_disj_set_drop_if_distinct[of ps n n] by blast
  qed
  ultimately show ?thesis by blast
qed

lemma binding_keys:
  "length as \<le> length (sp_args sp) \<Longrightarrow> od_keys (binding sp as kws) = take (length as) (sp_args sp) @ od_keys kws"
  by (simp add: binding_def map_fst_zip_take min_def)

lemma binds_length:
  assumes "binds sp as kws" and "distinct (sp_args sp)"
  shows "length as + length kws \<le> length (sp_args sp)"
proof -
  have "card (set (od_keys (binding sp as kws))) \<le> card (set (sp_args sp))"
    using assms by (intro card_mono) (auto simp: binds_def)
  then have "length (binding sp as kws) \<le> length (sp_args sp)"
    using assms distinct_card[of "od_keys (binding sp as kws)"] distinct_card[of "sp_args sp"]
    by (simp add: binds_def)
  then show ?thesis using assms by (simp add: binds_def binding_def)
qed

text \<open>C9: The check of a privileged call accepts the arguments of a request exactly when Python
  would bind them to the action's parameters and every bound value has the type of its
  parameter: no parameter missing, none bound twice, none unknown, none of a wrong type.\<close>

theorem assert_valid_arguments_iff:
  assumes "distinct (sp_args sp)" and "od_wf kws"
  shows "assert_valid_arguments sp (JDict [(''args'', JList as), (''kwargs'', JDict kws)]) = Inr () \<longleftrightarrow> binds sp as kws"
proof -
  let ?given = "take (length as) (sp_args sp)" and ?req = "take (length (sp_args sp) - sp_defaults sp) (sp_args sp)"
  have typed: "well_typed sp (binding sp as kws) \<longleftrightarrow> well_typed sp kws \<and> well_typed sp (zip (sp_args sp) as)"
    unfolding well_typed_def binding_def set_append ball_Un by (rule conj_commute)
  have fresh: "(\<forall>p \<in> set kws. fst p \<in> set (sp_args sp) \<and> fst p \<notin> set ?given) \<longleftrightarrow>
      distinct (?given @ od_keys kws) \<and> set (?given @ od_keys kws) \<subseteq> set (sp_args sp)"
    using assms by (auto dest: in_set_takeD)
  have unfolded: "binds sp as kws \<longleftrightarrow> length as \<le> length (sp_args sp) \<and> distinct (?given @ od_keys kws) \<and>
      set (?given @ od_keys kws) \<subseteq> set (sp_args sp) \<and> set ?req \<subseteq> set ?given \<union> set (od_keys kws) \<and>
      well_typed sp (binding sp as kws)"
    using binding_keys[of as sp kws] by (auto simp: binds_def well_typed_def simp del: set_map)
  also have "\<dots> \<longleftrightarrow> length as + length kws \<le> length (sp_args sp) \<and> distinct (?given @ od_keys kws) \<and>
      set (?given @ od_keys kws) \<subseteq> set (sp_args sp) \<and> set (drop (length as) ?req) \<subseteq> set (od_keys kws) \<and>
      well_typed sp (binding sp as kws)"
    (is "?L \<longleftrightarrow> ?R")
  proof -
    have "set ?req \<subseteq> set ?given \<union> set (od_keys kws) \<longleftrightarrow> set (drop (length as) ?req) \<subseteq> set (od_keys kws)"
      if "distinct (?given @ od_keys kws)"
      using required_split[OF assms(1), of "od_keys kws" "length as"] that
      unfolding distinct_append by (simp only: Int_commute)
    moreover have "length as + length kws \<le> length (sp_args sp)" if ?L
      using binds_length[OF _ assms(1)] unfolded that by blast
    ultimately show ?thesis using add_leD1 by blast
  qed
  finally show ?thesis unfolding assert_valid_arguments_checks using fresh typed by auto
qed

definition mount_spec :: argspec where
  "mount_spec = \<lparr>sp_args = [''path'', ''passphrase'', ''options''], sp_varargs = False, sp_varkw = False,
     sp_kwonlyargs = [], sp_defaults = 1,
     sp_annotations = [(''path'', TStr), (''passphrase'', TUnion [TSecret, TNone]), (''options'', TList TStr)]\<rparr>"

theorem assert_valid_arguments_iff_witness:
  "assert_valid_arguments mount_spec
     (JDict [(''args'', JList [JStr ''/mnt'']), (''kwargs'', JDict [(''passphrase'', JStr ''x'')])]) = Inr () \<and>
   binds mount_spec [JStr ''/mnt''] [(''passphrase'', JStr ''x'')] \<and>
   \<not> binds mount_spec [JStr ''/mnt''] [(''path'', JStr ''/srv''), (''passphrase'', JStr ''x'')]"
proof -
  have d: "distinct (sp_args mount_spec)" by (simp add: mount_spec_def)
  have "assert_valid_arguments mount_spec
     (JDict [(''args'', JList [JStr ''/mnt'']), (''kwargs'', JDict [(''passphrase'', JStr ''x'')])]) = Inr ()"
    by (simp add: assert_valid_arguments_def mount_spec_def check_kwarg_def check_arg_def nth_arg_def
        annotation_of_def od_get_def)
  moreover have "assert_valid_arguments mount_spec
     (JDict [(''args'', JList [JStr ''/mnt'']), (''kwargs'', JDict [(''path'', JStr ''/srv''), (''passphrase'', JStr ''x'')])]) \<noteq> Inr ()"
    by (simp add: assert_valid_arguments_def mount_spec_def check_kwarg_def)
  ultimately show ?thesis
    using assert_valid_arguments_iff[OF d, of "[(''passphrase'', JStr ''x'')]" "[JStr ''/mnt'']"]
      assert_valid_arguments_iff[OF d, of "[(''path'', JStr ''/srv''), (''passphrase'', JStr ''x'')]" "[JStr ''/mnt'']"]
    by simp
qed

section \<open>Logging a call\<close>

text \<open>\<open>_format_args\<close>; \<open>dumps\<close> is \<open>json.dumps\<close>.\<close>

definition format_value :: "(json \<Rightarrow> string) \<Rightarrow> argspec \<Rightarrow> string \<Rightarrow> json \<Rightarrow> string result" where
  "format_value dumps sp n v =
     r_bind (annotation_of sp n) (\<lambda>t. Inr (if is_secret t then ''****'' else dumps v))"

definition format_args :: "(json \<Rightarrow> string) \<Rightarrow> argspec \<Rightarrow> json list \<Rightarrow> (string \<times> json) list \<Rightarrow> string result" where
  "format_args dumps sp as kws =
     (if length as > length (sp_args sp) then Inl (SyntaxError ''Too many arguments'')
      else r_bind (r_map (\<lambda>(n, v). format_value dumps sp n v) (zip (sp_args sp) as)) (\<lambda>xs.
           r_bind (r_map (\<lambda>(n, v). r_bind (format_value dumps sp n v) (\<lambda>s. Inr (n @ ''='' @ s))) kws) (\<lambda>ys.
             Inr (join_str '', '' (xs @ ys)))))"

text \<open>\<open>_get_privileged_action_module_name\<close>: up the dotted name to a part called privileged.\<close>

function strip_to_privileged :: "string \<Rightarrow> string" where
  "strip_to_privileged name =
     (if name = [] then []
      else let (rest, last) = rpartition_dot name
           in if last = ''privileged'' then rest else strip_to_privileged rest)"
  by pat_completeness auto

termination
proof (relation "measure length", goal_cases)
  case 1
  then show ?case by simp
next
  case (2 name p rest last)
  then have "fst (rpartition_dot name) = rest" by (metis fst_conv)
  then show ?case using rpartition_dot_shorter[OF 2(1)] by simp
qed

declare strip_to_privileged.simps [simp del]

definition privileged_action_module_name :: "string \<Rightarrow> string result" where
  "privileged_action_module_name func_module =
     (let name = strip_to_privileged func_module
      in if name = [] then Inl (ValueError ''Privileged actions must be placed under a package/module named privileged'')
         else Inr (snd (rpartition_dot name)))"

text \<open>Two calls that differ at most in the values of parameters named as secrets.\<close>

definition same_but_secrets :: "(string \<times> json) list \<Rightarrow> (string \<times> json) list \<Rightarrow> bool" where
  "same_but_secrets = list_all2 (\<lambda>(n, v) (n', v'). n' = n \<and> (secret_name n \<or> v' = v))"

lemma format_value_hides:
  assumes "check_privileged_action_arguments sp = Inr ()" and "secret_name n \<or> v' = v"
  shows "format_value dumps sp n v' = format_value dumps sp n v"
proof (cases "map_of (sp_annotations sp) n")
  case (Some t)
  have "\<forall>(n, t) \<in> set (sp_annotations sp). \<not> (secret_name n \<and> \<not> is_secret t)"
    using assms(1) by (fastforce simp: check_privileged_action_arguments_def r_bind_Inr_iff r_for_ok split: if_splits prod.splits)
  then have "secret_name n \<longrightarrow> is_secret t" using map_of_SomeD[OF Some] by blast
  then show ?thesis using assms(2) Some by (auto simp: format_value_def annotation_of_def od_get_def)
qed (simp add: format_value_def annotation_of_def od_get_def)

lemma r_map_same:
  "list_all2 R xs ys \<Longrightarrow> (\<And>x y. R x y \<Longrightarrow> f x = f y) \<Longrightarrow> r_map f xs = r_map f ys"
  by (induction rule: list_all2_induct) simp_all


lemma secret_name_passphrase: "secret_name ''passphrase''"
  by (simp add: secret_name_def)

lemma mount_spec_checked: "check_privileged_action_arguments mount_spec = Inr ()"
proof -
  have "\<not> secret_name ''path''" "\<not> secret_name ''options''" by (simp_all add: secret_name_def)
  moreover have "is_secret (TUnion [TSecret, TNone])" by (simp add: is_secret_def)
  ultimately show ?thesis by (simp add: check_privileged_action_arguments_def mount_spec_def)
qed

definition plain_dumps :: "json \<Rightarrow> string" where
  "plain_dumps v = (case v of JStr s \<Rightarrow> s | _ \<Rightarrow> ''null'')"


section \<open>The server\<close>

datatype action_return = Returns json | Reader "string list"

record 'w action =
  ac_privileged :: bool
  ac_spec :: argspec
  ac_run :: "json list \<Rightarrow> (string \<times> json) list \<Rightarrow> ('w, action_return) prog"

record 'w priv_env =
  pe_loads :: "string \<Rightarrow> json result"
  pe_dumps :: "json \<Rightarrow> string"
  pe_import_path :: "string \<Rightarrow> string result"
  pe_import_module :: "string \<Rightarrow> (string, 'w action) odict result"

fun is_module_not_found :: "exn \<Rightarrow> bool" where
  "is_module_not_found (ModuleNotFoundError m) = True"
| "is_module_not_found e = False"

text \<open>The name of the exception's class, and its argument.\<close>

fun exn_parts :: "exn \<Rightarrow> string \<times> string list" where
  "exn_parts (KeyError m) = (''KeyError'', [m])"
| "exn_parts (ValueError m) = (''ValueError'', [m])"
| "exn_parts (TypeError m) = (''TypeError'', [m])"
| "exn_parts (SyntaxError m) = (''SyntaxError'', [m])"
| "exn_parts (AttributeError m) = (''AttributeError'', [m])"
| "exn_parts (LookupError m) = (''LookupError'', [m])"
| "exn_parts (IndexError m) = (''IndexError'', [m])"
| "exn_parts (RuntimeError m) = (''RuntimeError'', [m])"
| "exn_parts NotImplementedError = (''NotImplementedError'', [])"
| "exn_parts AssertionError = (''AssertionError'', [])"
| "exn_parts (DoesNotExist m) = (''DoesNotExist'', [m])"
| "exn_parts (FileNotFoundError m) = (''FileNotFoundError'', [m])"
| "exn_parts (FileExistsError m) = (''FileExistsError'', [m])"
| "exn_parts (PermissionError m) = (''PermissionError'', [m])"
| "exn_parts (ConnectionError m) = (''ConnectionError'', [m])"
| "exn_parts (TimeoutError m) = (''TimeoutError'', [m])"
| "exn_parts (ValidationError m) = (''ValidationError'', [m])"
| "exn_parts (MissingPackageError m) = (''MissingPackageError'', [m])"
| "exn_parts (PackageNotInstalledError m) = (''PackageNotInstalledError'', [m])"
| "exn_parts (PackageException m) = (''PackageException'', [m])"
| "exn_parts (TemporaryFailure m) = (''TemporaryFailure'', [m])"
| "exn_parts (PermanentFailure m) = (''PermanentFailure'', [m])"
| "exn_parts (ModuleNotFoundError m) = (''ModuleNotFoundError'', [m])"
| "exn_parts (CalledProcessError m) = (''CalledProcessError'', [m])"
| "exn_parts (GlibError m) = (''Error'', [m])"
| "exn_parts PermissionDenied = (''PermissionDenied'', [])"
| "exn_parts (Http404 m) = (''Http404'', [m])"
| "exn_parts (OperationalError m) = (''OperationalError'', [m])"
| "exn_parts (PlinthError c m) = (c, [m])"
| "exn_parts (OtherError m) = (''Exception'', [m])"

text \<open>The parts of the value the model has: not the module, the traceback and the captured output.\<close>

definition exception_value :: "exn \<Rightarrow> json" where
  "exception_value e =
     JDict [(''result'', JStr ''exception''),
       (''exception'', JDict [(''name'', JStr (fst (exn_parts e))), (''args'', JList (map JStr (snd (exn_parts e))))])]"

definition success_value :: "json \<Rightarrow> json" where
  "success_value v = JDict [(''result'', JStr ''success''), (''return'', v)]"

definition check_parameter :: "json \<Rightarrow> string \<times> (json \<Rightarrow> bool) \<Rightarrow> unit result" where
  "check_parameter req p =
     r_bind (contains_key req (fst p)) (\<lambda>b.
       if \<not> b then Inl (TypeError (''Missing required parameter '' @ fst p))
       else r_bind (subscript req (fst p)) (\<lambda>v.
         if \<not> snd p v then Inl (TypeError (''Parameter '' @ fst p)) else Inr ()))"

definition check_flag :: "json \<Rightarrow> string \<Rightarrow> unit result" where
  "check_flag req n =
     r_bind (contains_key req n) (\<lambda>b.
       if b then r_bind (subscript req n) (\<lambda>v. if \<not> is_bool v then Inl (TypeError (''Incorrect parameter '' @ n)) else Inr ())
       else Inr ())"

definition parse_request :: "'w priv_env \<Rightarrow> string \<Rightarrow> json result" where
  "parse_request env text =
     (case pe_loads env text of
        Inl e \<Rightarrow> Inl (SyntaxError ''Invalid JSON in request'')
      | Inr req \<Rightarrow>
          r_bind (r_for (check_parameter req)
              [(''module'', is_str), (''action'', is_str), (''args'', is_list), (''kwargs'', is_dict)]) (\<lambda>_.
            r_bind (check_flag req ''raw_output'') (\<lambda>_. r_bind (check_flag req ''log_error'') (\<lambda>_. Inr req))))"

text \<open>Finding the action: the part of \<open>_privileged_call\<close> before the arguments are looked at.\<close>

definition find_action :: "'w priv_env \<Rightarrow> string \<Rightarrow> string \<Rightarrow> 'w action result" where
  "find_action env module_name action_name =
     (if CHR ''.'' \<in> set module_name then Inl (SyntaxError ''Invalid module name'')
      else r_bind (if module_name = ''plinth'' then Inr ''plinth''
                   else case pe_import_path env module_name of
                          Inr p \<Rightarrow> Inr p
                        | Inl e \<Rightarrow> Inl (if is_file_not_found e then SyntaxError ''Specified module not found'' else e))
        (\<lambda>path. case pe_import_module env (path @ ''.privileged'') of
            Inl e \<Rightarrow> Inl (if is_module_not_found e then SyntaxError ''Specified module not found'' else e)
          | Inr attrs \<Rightarrow>
              (case map_of attrs action_name of
                 None \<Rightarrow> Inl (SyntaxError ''Specified action not found'')
               | Some ac \<Rightarrow>
                   if \<not> ac_privileged ac then Inl (SyntaxError ''Specified action is not privileged action'')
                   else Inr ac)))"

definition privileged_call ::
  "'w priv_env \<Rightarrow> string \<Rightarrow> string \<Rightarrow> json list \<Rightarrow> (string \<times> json) list \<Rightarrow> ('w, action_return) prog"
where
  "privileged_call env module_name action_name as kws w =
     (case r_bind (find_action env module_name action_name) (\<lambda>ac.
             r_bind (assert_valid_arguments (ac_spec ac) (JDict [(''args'', JList as), (''kwargs'', JDict kws)])) (\<lambda>_.
               r_bind (format_args (pe_dumps env) (ac_spec ac) as kws) (\<lambda>_. Inr ac))) of
        Inl e \<Rightarrow> (Inl e, w)
      | Inr ac \<Rightarrow>
          (case ac_run ac as kws w of
             (Inl e, w1) \<Rightarrow> (Inr (Returns (exception_value e)), w1)
           | (Inr (Returns v), w1) \<Rightarrow> (Inr (Returns (success_value v)), w1)
           | (Inr (Reader cs), w1) \<Rightarrow> (Inr (Reader cs), w1)))"

definition handle_json_request :: "'w priv_env \<Rightarrow> string \<Rightarrow> 'w \<Rightarrow> action_return \<times> 'w" where
  "handle_json_request env text w =
     (case parse_request env text of
        Inl e \<Rightarrow> (Returns (exception_value e), w)
      | Inr req \<Rightarrow>
          (case (subscript req ''module'', subscript req ''action'', subscript req ''args'', subscript req ''kwargs'') of
             (Inr (JStr m), Inr (JStr a), Inr (JList as), Inr (JDict kws)) \<Rightarrow>
               (case privileged_call env m a as kws w of
                  (Inl e, w1) \<Rightarrow> (Returns (exception_value e), w1)
                | (Inr (Returns v), w1) \<Rightarrow> (Returns v, w1)
                | (Inr (Reader cs), w1) \<Rightarrow>
                    (case dict_get req ''raw_output'' (JBool False) of
                       Inr v \<Rightarrow> if \<not> truthy v then (Returns (exception_value (TypeError ''Invalid call to raw output API.'')), w1)
                                else (Reader cs, w1)
                     | Inl e \<Rightarrow> (Returns (exception_value e), w1)))
           | _ \<Rightarrow> (Returns (exception_value (TypeError ''Parameter'')), w)))"

section \<open>The daemon\<close>

text \<open>plinth/privileged_daemon.py; \<open>decode\<close> is UTF-8 decoding.\<close>

definition MAX_REQUEST_LENGTH :: nat where "MAX_REQUEST_LENGTH = 1000000"

definition read_request :: "(nat list \<Rightarrow> string option) \<Rightarrow> nat list \<Rightarrow> string result" where
  "read_request decode sent =
     (let data = take (MAX_REQUEST_LENGTH + 1) sent
      in if length data > MAX_REQUEST_LENGTH then Inl (ValueError ''Request too large'')
         else case decode data of
                None \<Rightarrow> Inl (ValueError ''Invalid Unicode in request'')
              | Some s \<Rightarrow> Inr s)"

definition daemon_handle :: "'w priv_env \<Rightarrow> (nat list \<Rightarrow> string option) \<Rightarrow> nat list \<Rightarrow> 'w \<Rightarrow> action_return \<times> 'w" where
  "daemon_handle env decode sent w =
     (case read_request decode sent of
        Inl e \<Rightarrow> (Returns (exception_value e), w)
      | Inr text \<Rightarrow> handle_json_request env text w)"

text \<open>
  The server: \<open>threads\<close> is \<open>None\<close> before the first request, otherwise whether each request
  thread is alive.
\<close>

record server =
  allowed_peer_uids :: "int list"
  last_request_time :: int
  threads :: "bool list option"

definition server_init :: "int \<Rightarrow> int \<Rightarrow> server" where
  "server_init plinth_uid now = \<lparr>allowed_peer_uids = [0, plinth_uid], last_request_time = now, threads = None\<rparr>"

definition verify_request :: "int \<Rightarrow> int \<Rightarrow> server \<Rightarrow> bool \<times> server" where
  "verify_request uid now s =
     (if uid \<notin> set (allowed_peer_uids s) then (False, s) else (True, s\<lparr>last_request_time := now\<rparr>))"

definition service_actions :: "int option \<Rightarrow> int \<Rightarrow> server \<Rightarrow> unit result" where
  "service_actions idle_shutdown_time now s =
     (case idle_shutdown_time of
        None \<Rightarrow> Inr ()
      | Some idle \<Rightarrow>
          if now - last_request_time s < idle then Inr ()
          else (case threads s of
                  None \<Rightarrow> Inr ()
                | Some ts \<Rightarrow> if True \<in> set ts then Inr () else Inl (TimeoutError [])))"

definition get_listen_fd :: "(int \<Rightarrow> bool) \<Rightarrow> int list \<Rightarrow> int option" where
  "get_listen_fd is_socket_unix fds =
     (case fds of [fd] \<Rightarrow> if is_socket_unix fd then Some fd else None | _ \<Rightarrow> None)"

lemma parse_request_parts:
  assumes "parse_request env text = Inr req"
  shows "pe_loads env text = Inr req \<and>
    (\<exists>m a as kws. subscript req ''module'' = Inr (JStr m) \<and> subscript req ''action'' = Inr (JStr a) \<and>
      subscript req ''args'' = Inr (JList as) \<and> subscript req ''kwargs'' = Inr (JDict kws))"
  using assms
  by (auto simp: parse_request_def check_parameter_def r_bind_Inr_iff is_str_iff is_list_iff is_dict_iff
      split: sum.splits if_splits)

lemma privileged_call_gate:
  "(\<exists>e. privileged_call env m a as kws w = (Inl e, w)) \<or>
   (\<exists>ac. find_action env m a = Inr ac \<and> ac_privileged ac \<and>
      assert_valid_arguments (ac_spec ac) (JDict [(''args'', JList as), (''kwargs'', JDict kws)]) = Inr () \<and>
      snd (privileged_call env m a as kws w) = snd (ac_run ac as kws w))"
proof -
  let ?gate = "r_bind (find_action env m a) (\<lambda>ac.
             r_bind (assert_valid_arguments (ac_spec ac) (JDict [(''args'', JList as), (''kwargs'', JDict kws)])) (\<lambda>_.
               r_bind (format_args (pe_dumps env) (ac_spec ac) as kws) (\<lambda>_. Inr ac)))"
  show ?thesis
  proof (cases ?gate)
    case (Inl e)
    then show ?thesis by (simp add: privileged_call_def)
  next
    case (Inr ac)
    then have ac: "find_action env m a = Inr ac"
      "assert_valid_arguments (ac_spec ac) (JDict [(''args'', JList as), (''kwargs'', JDict kws)]) = Inr ()"
      by (auto simp: r_bind_Inr_iff)
    have "ac_privileged ac"
      using ac(1) by (auto simp: find_action_def r_bind_Inr_iff split: if_splits sum.splits option.splits)
    moreover have "snd (privileged_call env m a as kws w) = snd (ac_run ac as kws w)"
      using Inr by (simp add: privileged_call_def split: prod.split sum.split action_return.split)
    ultimately show ?thesis using ac by blast
  qed
qed

text \<open>C11: The daemon runs code as superuser only for a well-formed request: whatever bytes arrive,
  either the answer is an exception and nothing was run, or the bytes decode to a request
  whose module and action name an action that is marked privileged and whose arguments pass
  the check of its parameters, and what happened is that action on those arguments.\<close>

theorem daemon_runs_only_checked_actions:
  "(\<exists>e. daemon_handle env decode sent w = (Returns (exception_value e), w)) \<or>
   (\<exists>text req m a as kws ac.
      length sent \<le> MAX_REQUEST_LENGTH \<and> decode sent = Some text \<and> pe_loads env text = Inr req \<and>
      subscript req ''module'' = Inr (JStr m) \<and> subscript req ''action'' = Inr (JStr a) \<and>
      subscript req ''args'' = Inr (JList as) \<and> subscript req ''kwargs'' = Inr (JDict kws) \<and>
      find_action env m a = Inr ac \<and> ac_privileged ac \<and>
      assert_valid_arguments (ac_spec ac) (JDict [(''args'', JList as), (''kwargs'', JDict kws)]) = Inr () \<and>
      snd (daemon_handle env decode sent w) = snd (ac_run ac as kws w))"
proof (cases "read_request decode sent")
  case (Inl e)
  then have "daemon_handle env decode sent w = (Returns (exception_value e), w)" by (simp add: daemon_handle_def)
  then show ?thesis by blast
next
  case (Inr str)
  then have bytes: "length sent \<le> MAX_REQUEST_LENGTH" "decode sent = Some str"
    by (auto simp: read_request_def Let_def split: if_splits option.splits)
  have dh: "daemon_handle env decode sent w = handle_json_request env str w"
    using Inr by (simp add: daemon_handle_def)
  show ?thesis
  proof (cases "parse_request env str")
    case (Inl e)
    then have "daemon_handle env decode sent w = (Returns (exception_value e), w)"
      using dh by (simp add: handle_json_request_def)
    then show ?thesis by blast
  next
    case (Inr req)
    then obtain m a as kws where req: "pe_loads env str = Inr req"
      "subscript req ''module'' = Inr (JStr m)" "subscript req ''action'' = Inr (JStr a)"
      "subscript req ''args'' = Inr (JList as)" "subscript req ''kwargs'' = Inr (JDict kws)"
      using parse_request_parts[OF Inr] by blast
    have hj: "snd (handle_json_request env str w) = snd (privileged_call env m a as kws w)"
      using Inr req by (simp add: handle_json_request_def split: prod.split sum.split action_return.split)
    show ?thesis
    proof (cases "\<exists>e. privileged_call env m a as kws w = (Inl e, w)")
      case True
      then obtain e where "privileged_call env m a as kws w = (Inl e, w)" by blast
      then have "daemon_handle env decode sent w = (Returns (exception_value e), w)"
        using Inr req dh by (simp add: handle_json_request_def)
      then show ?thesis by blast
    next
      case False
      then show ?thesis using privileged_call_gate[of env m a as kws w] bytes req hj dh by metis
    qed
  qed
qed

end
