(* ===== verification/Notifications.thy ===== *)
theory Notifications
  imports Json "HOL-Library.Char_ord"
begin

text \<open>
  Notifications (plinth/notification.py over the StoredNotification model of
  plinth/models.py): their validation, the table of stored notifications with its queries,
  the order of severities, and the translation of their data for display. \<open>gettext\<close> and the
  string formatter are parameters.
\<close>

section \<open>Severities\<close>

datatype severity = Debug | Info | Warning | Error | Exception

primrec severity_rank :: "severity \<Rightarrow> nat" where
  "severity_rank Debug = 1"
| "severity_rank Info = 2"
| "severity_rank Warning = 3"
| "severity_rank Error = 4"
| "severity_rank Exception = 5"

instantiation severity :: linorder
begin

definition less_eq_severity :: "severity \<Rightarrow> severity \<Rightarrow> bool" where
  "less_eq_severity a b \<longleftrightarrow> severity_rank a \<le> severity_rank b"

definition less_severity :: "severity \<Rightarrow> severity \<Rightarrow> bool" where
  "less_severity a b \<longleftrightarrow> severity_rank a < severity_rank b"

instance
proof
  fix a b c :: severity
  show "a < b \<longleftrightarrow> a \<le> b \<and> \<not> b \<le> a" by (auto simp: less_eq_severity_def less_severity_def)
  show "a \<le> a" by (simp add: less_eq_severity_def)
  show "a \<le> b \<Longrightarrow> b \<le> c \<Longrightarrow> a \<le> c" by (simp add: less_eq_severity_def)
  show "a \<le> b \<Longrightarrow> b \<le> a \<Longrightarrow> a = b"
    by (cases a; cases b) (simp_all add: less_eq_severity_def)
  show "a \<le> b \<or> b \<le> a" by (auto simp: less_eq_severity_def)
qed

end

text \<open>The keys of the dict \<open>severities\<close>.\<close>

definition severities :: "(string \<times> severity) list" where
  "severities = [(''exception'', Exception), (''error'', Error), (''warning'', Warning), (''info'', Info), (''debug'', Debug)]"

section \<open>Stored notifications\<close>

record notification =
  n_id :: string
  n_app_id :: "string option"
  n_severity :: string
  n_title :: string
  n_message :: "string option"
  n_actions :: json
  n_body_template :: "string option"
  n_data :: json
  n_created :: int
  n_updated :: int
  n_user :: "string option"
  n_group :: "string option"
  n_dismissed :: bool

type_synonym notifications = "(string, notification) odict"

definition severity_value :: "notification \<Rightarrow> severity" where
  "severity_value n = (case map_of severities (n_severity n) of None \<Rightarrow> Info | Some s \<Rightarrow> s)"

text \<open>A string field or list is falsy when it is missing or empty.\<close>

definition has_text :: "string option \<Rightarrow> bool" where
  "has_text s \<longleftrightarrow> (case s of None \<Rightarrow> False | Some t \<Rightarrow> t \<noteq> [])"

definition action_classes :: "json list" where
  "action_classes = map JStr [''primary'', ''default'', ''warning'', ''danger'', ''success'', ''info'']"

definition validate_action :: "json \<Rightarrow> unit result" where
  "validate_action action =
     (case action of
        JDict d \<Rightarrow>
          (case map_of d ''type'' of
             None \<Rightarrow> Inl (ValidationError ''Action must have a type'')
           | Some t \<Rightarrow>
               if t \<notin> {JStr ''dismiss'', JStr ''link''} then Inl (ValidationError ''Action type must be dismiss or link'')
               else if t = JStr ''dismiss'' then Inr ()
               else if map_of d ''text'' = None \<or> map_of d ''url'' = None
               then Inl (ValidationError ''Action must have text and url'')
               else (case map_of d ''class'' of
                       None \<Rightarrow> Inr ()
                     | Some c \<Rightarrow> if c \<notin> set action_classes then Inl (ValidationError ''Invalid action class'') else Inr ()))
      | _ \<Rightarrow> Inl (ValidationError ''Action must a dictionary''))"

definition validate_actions :: "json \<Rightarrow> unit result" where
  "validate_actions actions =
     (case actions of
        JList xs \<Rightarrow> r_for validate_action xs
      | _ \<Rightarrow> Inl (ValidationError ''Actions must be a list''))"

definition notification_clean :: "notification \<Rightarrow> unit result" where
  "notification_clean n =
     (if n_severity n \<notin> {''exception'', ''error'', ''warning'', ''info'', ''debug''}
      then Inl (ValidationError ''Invalid severity'')
      else r_bind (if truthy (n_actions n) then validate_actions (n_actions n) else Inr ()) (\<lambda>_.
        if (has_text (n_message n) \<or> truthy (n_actions n)) \<and> has_text (n_body_template n)
        then Inl (ValidationError ''Either body_template or message and actions must exist'') else Inr ()))"

text \<open>The keyword arguments of \<open>update_or_create\<close> besides the id.\<close>

datatype notification_field =
    F_app_id "string option"
  | F_severity string
  | F_title string
  | F_message "string option"
  | F_actions json
  | F_body_template "string option"
  | F_data json
  | F_user "string option"
  | F_group "string option"
  | F_dismissed bool

primrec set_field :: "notification_field \<Rightarrow> notification \<Rightarrow> notification" where
  "set_field (F_app_id x) n = n\<lparr>n_app_id := x\<rparr>"
| "set_field (F_severity x) n = n\<lparr>n_severity := x\<rparr>"
| "set_field (F_title x) n = n\<lparr>n_title := x\<rparr>"
| "set_field (F_message x) n = n\<lparr>n_message := x\<rparr>"
| "set_field (F_actions x) n = n\<lparr>n_actions := if truthy x then x else JList []\<rparr>"
| "set_field (F_body_template x) n = n\<lparr>n_body_template := x\<rparr>"
| "set_field (F_data x) n = n\<lparr>n_data := if truthy x then x else JDict []\<rparr>"
| "set_field (F_user x) n = n\<lparr>n_user := x\<rparr>"
| "set_field (F_group x) n = n\<lparr>n_group := x\<rparr>"
| "set_field (F_dismissed x) n = n\<lparr>n_dismissed := x\<rparr>"

text \<open>The defaults of the model's columns.\<close>

definition new_notification :: "string \<Rightarrow> int \<Rightarrow> notification" where
  "new_notification k now =
     \<lparr>n_id = k, n_app_id = None, n_severity = [], n_title = [], n_message = None, n_actions = JList [],
      n_body_template = None, n_data = JDict [], n_created = now, n_updated = now, n_user = None,
      n_group = None, n_dismissed = False\<rparr>"

definition update_or_create :: "string \<Rightarrow> notification_field list \<Rightarrow> int \<Rightarrow> notifications \<Rightarrow> notifications" where
  "update_or_create k changes now db =
     (let base = (case map_of db k of Some n \<Rightarrow> n | None \<Rightarrow> new_notification k now)
      in od_set db k ((fold set_field changes base)\<lparr>n_updated := now\<rparr>))"

definition notification_get :: "string \<Rightarrow> notifications \<Rightarrow> notification result" where
  "notification_get k db =
     (case map_of db k of None \<Rightarrow> Inl (KeyError ''No such notification'') | Some n \<Rightarrow> Inr n)"

definition dismiss :: "string \<Rightarrow> bool \<Rightarrow> int \<Rightarrow> notifications \<Rightarrow> notifications" where
  "dismiss k should_dismiss now db =
     (case map_of db k of
        None \<Rightarrow> db
      | Some n \<Rightarrow> od_set db k (n\<lparr>n_dismissed := should_dismiss, n_updated := now\<rparr>))"

record request_user =
  username :: string
  groups :: "string list"

text \<open>\<open>Notification.list\<close>: a filter per given argument, and the first ten rows.\<close>

definition matches ::
  "string option \<Rightarrow> string option \<Rightarrow> request_user option \<Rightarrow> bool option \<Rightarrow> notification \<Rightarrow> bool"
where
  "matches key app user dismissed n \<longleftrightarrow>
     (has_text key \<longrightarrow> Some (n_id n) = key) \<and>
     (has_text app \<longrightarrow> n_app_id n = app) \<and>
     (case user of
        None \<Rightarrow> True
      | Some u \<Rightarrow>
          (n_user n = None \<or> n_user n = Some (username u)) \<and>
          (n_group n = None \<or> (\<exists>g \<in> set (groups u). n_group n = Some g))) \<and>
     (case dismissed of None \<Rightarrow> True | Some d \<Rightarrow> n_dismissed n = d)"

definition notification_list ::
  "string option \<Rightarrow> string option \<Rightarrow> request_user option \<Rightarrow> bool option \<Rightarrow> notifications \<Rightarrow> notification list"
where
  "notification_list key app user dismissed db = take 10 (filter (matches key app user dismissed) (od_values db))"

section \<open>Display\<close>

text \<open>\<open>_translate\<close>: \<open>tr\<close> is \<open>gettext\<close>, \<open>fmt\<close> the formatter; KeyError and AttributeError are logged.\<close>

definition translate :: "(string \<Rightarrow> string) \<Rightarrow> (string \<Rightarrow> json \<Rightarrow> string result) \<Rightarrow> string option \<Rightarrow> json \<Rightarrow> string option result" where
  "translate tr fmt s data =
     (if \<not> has_text s then Inr None
      else let t = tr (the s)
           in if truthy data
              then (case fmt t data of
                      Inr u \<Rightarrow> Inr (Some u)
                    | Inl (KeyError m) \<Rightarrow> Inr (Some t)
                    | Inl (AttributeError m) \<Rightarrow> Inr (Some t)
                    | Inl e \<Rightarrow> Inl e)
              else Inr (Some t))"

definition json_of_option :: "string option \<Rightarrow> json" where
  "json_of_option s = (case s of None \<Rightarrow> JNull | Some t \<Rightarrow> JStr t)"

fun translate_value :: "(string \<Rightarrow> string) \<Rightarrow> (string \<Rightarrow> json \<Rightarrow> string result) \<Rightarrow> json \<Rightarrow> json \<Rightarrow> json result"
  and translate_items :: "(string \<Rightarrow> string) \<Rightarrow> (string \<Rightarrow> json \<Rightarrow> string result) \<Rightarrow> json \<Rightarrow> (string \<times> json) list \<Rightarrow> (string \<times> json) list result"
where
  "translate_value tr fmt data (JStr s) =
     (if starts_with s ''translate:''
      then r_bind (translate tr fmt (Some (drop 10 s)) data) (\<lambda>t. Inr (json_of_option t))
      else Inr (JStr s))"
| "translate_value tr fmt data (JDict d) = r_bind (translate_items tr fmt data d) (\<lambda>d'. Inr (JDict d'))"
| "translate_value tr fmt data v = Inr v"
| "translate_items tr fmt data [] = Inr []"
| "translate_items tr fmt data ((k, v) # d) =
     r_bind (translate_value tr fmt data v) (\<lambda>v'. r_bind (translate_items tr fmt data d) (\<lambda>d'. Inr ((k, v') # d')))"

text \<open>The severity shown for the whole list: that of the first notification of maximal severity.\<close>

fun max_by :: "('a \<Rightarrow> 'b::linorder) \<Rightarrow> 'a list \<Rightarrow> 'a option" where
  "max_by key [] = None"
| "max_by key (x # xs) = (case max_by key xs of None \<Rightarrow> Some x | Some y \<Rightarrow> if key x < key y then Some y else Some x)"

definition max_severity :: "notification list \<Rightarrow> string option" where
  "max_severity ns = map_option n_severity (max_by severity_value ns)"

definition display_severity :: "request_user option \<Rightarrow> notifications \<Rightarrow> string option" where
  "display_severity user db = max_severity (notification_list None None user (Some False) db)"

section \<open>Validation\<close>

text \<open>What a valid list of actions is.\<close>

definition valid_action :: "json \<Rightarrow> bool" where
  "valid_action a \<longleftrightarrow>
     (\<exists>d. a = JDict d \<and>
        (map_of d ''type'' = Some (JStr ''dismiss'') \<or>
         map_of d ''type'' = Some (JStr ''link'') \<and> {''text'', ''url''} \<subseteq> dom (map_of d) \<and>
         (''class'' \<in> dom (map_of d) \<longrightarrow> the (map_of d ''class'') \<in> set action_classes)))"

definition valid_actions :: "json \<Rightarrow> bool" where
  "valid_actions v = (case v of JList xs \<Rightarrow> list_all valid_action xs | _ \<Rightarrow> \<not> truthy v)"

lemma validate_action_iff: "validate_action a = Inr () \<longleftrightarrow> valid_action a"
  by (cases a) (auto simp: validate_action_def valid_action_def dom_def split: option.splits)

text \<open>A notification passes its validation exactly when its severity is one of the five known
  ones, its actions, if any, are a list of dicts that are a dismissal or a link with text,
  address and, when given, a known class, and it does not mix a body template with a message
  or actions.\<close>

lemma notification_clean_iff:
  "notification_clean n = Inr () \<longleftrightarrow>
     n_severity n \<in> fst ` set severities \<and>
     valid_actions (n_actions n) \<and>
     \<not> ((has_text (n_message n) \<or> truthy (n_actions n)) \<and> has_text (n_body_template n))"
proof -
  have "(if truthy v then validate_actions v else Inr ()) = Inr () \<longleftrightarrow> valid_actions v" for v
    by (cases v) (auto simp: validate_actions_def valid_actions_def r_for_ok list_all_iff validate_action_iff)
  then show ?thesis
    by (auto simp: notification_clean_def r_bind_Inr_iff severities_def)
qed

section \<open>The life of a notification\<close>

lemma fold_set_field_id: "n_id (fold set_field changes n) = n_id n \<and> n_created (fold set_field changes n) = n_created n"
proof (induction changes arbitrary: n)
  case (Cons f changes)
  have "n_id (set_field f n) = n_id n \<and> n_created (set_field f n) = n_created n" by (cases f) simp_all
  then show ?case using Cons[of "set_field f n"] by simp
qed simp

definition ids_match :: "notifications \<Rightarrow> bool" where
  "ids_match db \<longleftrightarrow> od_wf db \<and> (\<forall>(k, n) \<in> set db. n_id n = k)"

lemma ids_match_set: "ids_match db \<Longrightarrow> n_id n = k \<Longrightarrow> ids_match (od_set db k n)"
proof -
  assume a: "ids_match db" "n_id n = k"
  have "n_id m = j" if "(j, m) \<in> set (od_set db k n)" for j m
  proof -
    have "map_of (od_set db k n) j = Some m" using that a(1) by (simp add: ids_match_def)
    then show ?thesis using a by (auto simp: odict_simps ids_match_def split: if_splits dest: map_of_SomeD)
  qed
  then show ?thesis using a(1) by (auto simp: ids_match_def)
qed

lemma listed_row:
  "n \<in> set (notification_list key app user dismissed db) \<Longrightarrow> n \<in> snd ` set db \<and> matches key app user dismissed n"
  by (auto simp: notification_list_def dest: in_set_takeD)

definition hidden :: "string \<Rightarrow> notifications \<Rightarrow> bool" where
  "hidden k db \<longleftrightarrow> (\<forall>n. map_of db k = Some n \<longrightarrow> n_dismissed n)"

lemma hidden_not_listed:
  assumes "ids_match db" and "hidden k db"
  shows "\<forall>n \<in> set (notification_list key app user (Some False) db). n_id n \<noteq> k"
proof
  fix n assume n: "n \<in> set (notification_list key app user (Some False) db)"
  then obtain j where j: "(j, n) \<in> set db" "\<not> n_dismissed n"
    using listed_row[OF n] by (auto simp: matches_def)
  then have "n_id n = j" "map_of db j = Some n" using assms(1) by (auto simp: ids_match_def)
  then show "n_id n \<noteq> k" using assms(2) j(2) by (auto simp: hidden_def)
qed

lemma dismiss_hides:
  assumes "ids_match db"
  shows "ids_match (dismiss k True now db) \<and> hidden k (dismiss k True now db)"
proof (cases "map_of db k")
  case (Some n)
  then have "n_id n = k" using assms by (auto simp: ids_match_def dest: map_of_SomeD)
  then show ?thesis using ids_match_set[OF assms, of "n\<lparr>n_dismissed := True, n_updated := now\<rparr>" k] Some
    by (simp add: dismiss_def hidden_def odict_simps)
qed (simp add: dismiss_def assms hidden_def)

lemma fold_set_field_dismissed:
  "\<forall>b. F_dismissed b \<notin> set changes \<Longrightarrow> n_dismissed (fold set_field changes n) = n_dismissed n"
proof (induction changes arbitrary: n)
  case (Cons f changes)
  have "n_dismissed (set_field f n) = n_dismissed n" using Cons.prems by (cases f) auto
  then show ?case using Cons by simp
qed simp

lemma update_keeps_hidden:
  assumes "ids_match db" and "hidden k db" and "map_of db k \<noteq> None" and "\<forall>b. F_dismissed b \<notin> set changes"
  shows "ids_match (update_or_create k changes later db) \<and> hidden k (update_or_create k changes later db)"
proof -
  obtain n where n: "map_of db k = Some n" using assms(3) by auto
  then have "n_id n = k" using assms(1) by (auto simp: ids_match_def dest: map_of_SomeD)
  then have "ids_match (update_or_create k changes later db)"
    using n by (auto simp: update_or_create_def Let_def fold_set_field_id intro!: ids_match_set[OF assms(1)])
  moreover have "n_dismissed n" using assms(2) n by (simp add: hidden_def)
  ultimately show ?thesis using n assms(4)
    by (simp add: hidden_def update_or_create_def odict_simps fold_set_field_dismissed)
qed

text \<open>C20: A dismissed notification is not shown again: after \<open>dismiss\<close> no list of undismissed
  notifications, for any user, contains one with its id, the other notifications are
  unchanged, and updating its other fields later does not bring it back.\<close>

theorem dismissed_stays_hidden:
  assumes "ids_match db" and "\<forall>b. F_dismissed b \<notin> set changes"
  shows "(\<forall>n \<in> set (notification_list key app user (Some False) (dismiss k True now db)). n_id n \<noteq> k) \<and>
    (k \<in> fst ` set db \<longrightarrow>
      (\<forall>n \<in> set (notification_list key app user (Some False) (update_or_create k changes later (dismiss k True now db))).
         n_id n \<noteq> k)) \<and>
    (\<forall>j. j \<noteq> k \<longrightarrow> notification_get j (update_or_create k changes later (dismiss k True now db)) = notification_get j db)"
proof -
  let ?d = "dismiss k True now db"
  have d: "ids_match ?d" "hidden k ?d" using dismiss_hides[OF assms(1)] by blast+
  have "\<forall>n \<in> set (notification_list key app user (Some False) (update_or_create k changes later ?d)). n_id n \<noteq> k"
    if present: "k \<in> fst ` set db"
  proof -
    have "map_of db k \<noteq> None" using present by (simp add: map_of_eq_None_iff)
    then have "map_of ?d k \<noteq> None" by (auto simp: dismiss_def odict_simps)
    then show ?thesis using update_keeps_hidden[OF d _ assms(2)] hidden_not_listed by blast
  qed
  moreover have "map_of (update_or_create k changes later ?d) j = map_of db j" if "j \<noteq> k" for j
    using that by (simp add: update_or_create_def Let_def dismiss_def odict_simps split: option.split)
  ultimately show ?thesis using hidden_not_listed[OF d] by (simp add: notification_get_def)
qed

theorem dismissed_stays_hidden_witness:
  "\<exists>db. ids_match db \<and> length (notification_list None None None (Some False) db) = 1 \<and>
    (\<forall>n \<in> set (notification_list None None None (Some False) (dismiss ''tor-operation'' True 5 db)). n_id n \<noteq> ''tor-operation'')"
proof -
  let ?db = "update_or_create ''tor-operation'' [F_severity ''info''] 1 []"
  have m: "ids_match ?db"
    by (simp add: ids_match_def update_or_create_def Let_def new_notification_def od_set_def)
  have "length (notification_list None None None (Some False) ?db) = 1"
    by (simp add: notification_list_def matches_def has_text_def update_or_create_def Let_def new_notification_def od_set_def)
  moreover have "\<forall>n \<in> set (notification_list None None None (Some False) (dismiss ''tor-operation'' True 5 ?db)). n_id n \<noteq> ''tor-operation''"
    using dismissed_stays_hidden[OF m, of "[]" None None None "''tor-operation''" 5 9] by simp
  ultimately show ?thesis using m by blast
qed

text \<open>The shown severity is one of the listed notifications, and none of them has a higher one.\<close>

lemma max_by_max: "max_by key xs = Some y \<Longrightarrow> y \<in> set xs \<and> (\<forall>x \<in> set xs. key x \<le> key y)"
proof (induction xs arbitrary: y)
  case (Cons x xs)
  then show ?case
  proof (cases "max_by key xs")
    case None
    then have "xs = []" by (cases xs) (auto split: option.splits if_splits)
    then show ?thesis using Cons.prems None by simp
  next
    case (Some z)
    then show ?thesis using Cons.IH[OF Some] Cons.prems
      by (auto split: if_splits)
  qed
qed simp

lemma display_severity_maximal:
  assumes "display_severity user db = Some s"
  shows "\<exists>n \<in> set (notification_list None None user (Some False) db). n_severity n = s \<and>
    (\<forall>m \<in> set (notification_list None None user (Some False) db). severity_value m \<le> severity_value n)"
proof -
  obtain n where "max_by severity_value (notification_list None None user (Some False) db) = Some n" "n_severity n = s"
    using assms by (auto simp: display_severity_def max_severity_def)
  then show ?thesis using max_by_max[of severity_value] by fast
qed

text \<open>Strings inside lists of the data are not translated.\<close>

lemma translate_value_list: "translate_value tr fmt data (JList xs) = Inr (JList xs)"
  by simp

lemma translate_items_keys: "translate_items tr fmt data d = Inr d' \<Longrightarrow> map fst d' = map fst d"
proof (induction d arbitrary: d')
  case (Cons p d)
  then show ?case by (cases p) (auto simp: r_bind_Inr_iff)
qed simp

section \<open>The table as part of a world\<close>

text \<open>How programs reach the table, the clock and the text of an exception; a written table is read back.\<close>

record 'w notify_env =
  ne_get :: "'w \<Rightarrow> notifications"
  ne_put :: "notifications \<Rightarrow> 'w \<Rightarrow> 'w"
  ne_now :: "'w \<Rightarrow> int"
  ne_str :: "exn option \<Rightarrow> string"

definition notify_laws :: "'w notify_env \<Rightarrow> bool" where
  "notify_laws ne \<longleftrightarrow> (\<forall>db w. ne_get ne (ne_put ne db w) = db)"

end
