(* ===== verification/Names.thy ===== *)
theory Names
  imports AppModel "HOL-Library.Char_ord" "HOL-Library.List_Lexorder" "HOL-Library.Product_Lexorder"
begin

text \<open>
  Domain types and domain names (plinth/modules/names/components.py): components that add
  themselves to a global dict of their class, the services of a domain, and the lists of
  domains by importance. Strings compare by code point, as Python's do.
\<close>

section \<open>Domain types\<close>

record domain_type =
  dt_id :: string
  dt_display_name :: string
  configuration_url :: "string option"
  edit_url :: "string option"
  delete_url :: "string option"
  add_url :: "string option"
  can_have_certificate :: bool
  dt_priority :: int

type_synonym domain_types = "(string, domain_type) odict"

definition domain_type_init :: "domain_type \<Rightarrow> domain_types \<Rightarrow> domain_types result" where
  "domain_type_init t all_types =
     r_bind (component_init (dt_id t)) (\<lambda>_. Inr (od_set all_types (dt_id t) t))"

definition domain_type_get :: "domain_types \<Rightarrow> string \<Rightarrow> domain_type result" where
  "domain_type_get all_types cid = od_get all_types cid"

text \<open>\<open>sorted(..., reverse=True)\<close> keeps the order of equal elements.\<close>

definition domain_type_list :: "domain_types \<Rightarrow> domain_types" where
  "domain_type_list all_types = sort_key (\<lambda>item. - dt_priority (snd item)) all_types"

section \<open>Domain names\<close>

datatype services = All_services | Services "string list"

datatype service_arg = Service_id string | Service_port int | Service_other

record domain_name =
  dn_id :: string
  dn_name :: string
  dn_type :: domain_type
  dn_services :: services

type_synonym domain_names = "(string, domain_name) odict"

definition known_services :: "(string \<times> string \<times> int option) list" where
  "known_services = [(''__all__'', ''All'', None), (''http'', ''All web apps'', Some 80),
     (''https'', ''All web apps'', Some 443), (''ssh'', ''Secure Shell'', Some 22)]"

text \<open>\<open>str(n)\<close> of an integer.\<close>

fun nat_str :: "nat \<Rightarrow> string" where
  "nat_str n = (if n < 10 then [char_of (48 + n)] else nat_str (n div 10) @ [char_of (48 + n mod 10)])"

declare nat_str.simps [simp del]

definition int_str :: "int \<Rightarrow> string" where
  "int_str i = (if i < 0 then ''-'' @ nat_str (nat (- i)) else nat_str (nat i))"

definition normalize_service :: "service_arg \<Rightarrow> string result" where
  "normalize_service s =
     (case s of
        Service_id i \<Rightarrow> Inr i
      | Service_other \<Rightarrow> Inl (ValueError ''Invalid service'')
      | Service_port p \<Rightarrow>
          (case find (\<lambda>d. snd (snd d) = Some p) known_services of
             Some d \<Rightarrow> Inr (fst d)
           | None \<Rightarrow> Inr (int_str p)))"

text \<open>The argument \<open>'__all__'\<close> itself, or a list.\<close>

definition normalize_services :: "service_arg list option \<Rightarrow> services result" where
  "normalize_services s =
     (case s of None \<Rightarrow> Inr All_services | Some ss \<Rightarrow> r_bind (r_map normalize_service ss) (\<lambda>xs. Inr (Services xs)))"

definition domain_name_init ::
  "domain_types \<Rightarrow> string \<Rightarrow> string \<Rightarrow> string \<Rightarrow> service_arg list option \<Rightarrow> domain_names \<Rightarrow> domain_names result"
where
  "domain_name_init all_types cid name type_id ss all_names =
     r_bind (component_init cid) (\<lambda>_. r_bind (domain_type_get all_types type_id) (\<lambda>t.
       r_bind (normalize_services ss) (\<lambda>services.
         Inr (od_set all_names cid \<lparr>dn_id = cid, dn_name = name, dn_type = t, dn_services = services\<rparr>))))"

definition readable_services :: "domain_name \<Rightarrow> string set" where
  "readable_services d =
     set (map (\<lambda>s. case map_of known_services s of None \<Rightarrow> s | Some (n, _) \<Rightarrow> n)
       (case dn_services d of All_services \<Rightarrow> [''__all__''] | Services ss \<Rightarrow> ss))"

definition has_service :: "string option \<Rightarrow> domain_name \<Rightarrow> bool" where
  "has_service service d \<longleftrightarrow>
     (case service of
        None \<Rightarrow> True
      | Some s \<Rightarrow> (case dn_services d of All_services \<Rightarrow> True | Services ss \<Rightarrow> s \<in> set ss))"

definition domain_name_remove :: "string \<Rightarrow> domain_names \<Rightarrow> domain_names" where
  "domain_name_remove cid all_names = (case od_pop all_names cid of Inl e \<Rightarrow> all_names | Inr (_, rest) \<Rightarrow> rest)"

definition domain_name_get :: "domain_names \<Rightarrow> string \<Rightarrow> domain_name result" where
  "domain_name_get all_names cid = od_get all_names cid"

definition importance :: "domain_name \<Rightarrow> int \<times> string" where
  "importance d = (- dt_priority (dn_type d), dn_name d)"

definition domain_name_list :: "string option \<Rightarrow> domain_names \<Rightarrow> domain_name list" where
  "domain_name_list service all_names =
     sort_key importance (filter (has_service service) (od_values all_names))"

definition list_names :: "string option \<Rightarrow> domain_names \<Rightarrow> string list" where
  "list_names service all_names =
     od_keys (fold (\<lambda>d names. od_set names (dn_name d) True) (domain_name_list service all_names) [])"

section \<open>The order of names\<close>

lemma uniq_from_cong: "set s = set t \<Longrightarrow> uniq_from s ys = uniq_from t ys"
proof (induction ys arbitrary: s t)
  case (Cons y ys)
  have "uniq_from (y # s) ys = uniq_from (y # t) ys" using Cons.prems by (intro Cons.IH) simp
  then show ?case using Cons.IH[OF Cons.prems] Cons.prems by simp
qed simp

lemma fold_set_keys:
  "od_keys (fold (\<lambda>d names. od_set names (f d) True) ds names) = od_keys names @ uniq_from (od_keys names) (map f ds)"
proof (induction ds arbitrary: names)
  case Nil
  then show ?case by simp
next
  case (Cons d ds)
  have seen: "uniq_from (od_keys names @ [f d]) ys = uniq_from (f d # od_keys names) ys" for ys
    by (rule uniq_from_cong) simp
  show ?case
  proof (cases "f d \<in> set (od_keys names)")
    case True
    then show ?thesis using Cons.IH[of "od_set names (f d) True"] by (simp add: od_keys_set_present)
  next
    case False
    then show ?thesis using Cons.IH[of "od_set names (f d) True"] by (simp add: od_set_new seen)
  qed
qed

lemma list_names_uniq: "list_names service all_names = uniq_from [] (map dn_name (domain_name_list service all_names))"
  unfolding list_names_def using fold_set_keys[of dn_name _ "[]"] by simp

text \<open>The elements that bring the names of the list.\<close>

primrec firsts :: "string list \<Rightarrow> domain_name list \<Rightarrow> domain_name list" where
  "firsts seen [] = []"
| "firsts seen (d # ds) = (if dn_name d \<in> set seen then firsts seen ds else d # firsts (dn_name d # seen) ds)"

lemma firsts_names: "map dn_name (firsts seen ds) = uniq_from seen (map dn_name ds)"
  by (induction ds arbitrary: seen) auto

lemma firsts_subset: "set (firsts seen ds) \<subseteq> set ds"
  by (induction ds arbitrary: seen) auto

lemma firsts_sorted: "sorted (map importance ds) \<Longrightarrow> sorted (map importance (firsts seen ds))"
proof (induction ds arbitrary: seen)
  case (Cons d ds)
  then show ?case using firsts_subset[of "dn_name d # seen" ds] by auto
qed simp

lemma firsts_best:
  "sorted (map importance ds) \<Longrightarrow> d \<in> set (firsts seen ds) \<Longrightarrow> e \<in> set ds \<Longrightarrow> dn_name e = dn_name d \<Longrightarrow>
     importance d \<le> importance e"
proof (induction ds arbitrary: seen)
  case (Cons x ds)
  have new: "dn_name f \<notin> set s" if "f \<in> set (firsts s es)" for f s es
    using that by (induction es arbitrary: s) (fastforce split: if_splits)+
  show ?case
  proof (cases "dn_name x \<in> set seen")
    case True
    then have d: "d \<in> set (firsts seen ds)" using Cons.prems(2) by simp
    have "dn_name d \<notin> set seen" using new[OF d] .
    then have "e \<noteq> x" using Cons.prems(4) True by auto
    then show ?thesis using Cons.IH[OF _ d] Cons.prems by simp
  next
    case False
    show ?thesis
    proof (cases "d = x")
      case True
      then show ?thesis using Cons.prems(1,3) by auto
    next
      case nd: False
      then have d: "d \<in> set (firsts (dn_name x # seen) ds)" using Cons.prems(2) False by simp
      then have "e \<noteq> x" using new[OF d] Cons.prems(4) by auto
      then show ?thesis using Cons.IH[OF _ d] Cons.prems by simp
    qed
  qed
qed simp

text \<open>The best priority among the listed domains of a name.\<close>

definition best_priority :: "string option \<Rightarrow> domain_names \<Rightarrow> string \<Rightarrow> int" where
  "best_priority service all_names n =
     Max (set (map (\<lambda>d. dt_priority (dn_type d)) (filter (\<lambda>d. dn_name d = n) (domain_name_list service all_names))))"

text \<open>\<open>list_names\<close> gives every name of a domain with the service exactly once, ordered by the
  highest priority of the domains of that name and then by the name: a name that several
  components provide stands where its most important provider puts it.\<close>

theorem list_names_order:
  "set (list_names service all_names) = dn_name ` {d \<in> snd ` set all_names. has_service service d} \<and>
   distinct (list_names service all_names) \<and>
   sorted (map (\<lambda>n. (- best_priority service all_names n, n)) (list_names service all_names))"
proof -
  let ?ds = "domain_name_list service all_names"
  have sorted: "sorted (map importance ?ds)" by (simp add: domain_name_list_def)
  have "set ?ds = {d \<in> snd ` set all_names. has_service service d}" by (auto simp: domain_name_list_def)
  then have set: "set (list_names service all_names) = dn_name ` {d \<in> snd ` set all_names. has_service service d}"
    by (simp add: list_names_uniq uniq_from_set)
  have best: "best_priority service all_names (dn_name d) = dt_priority (dn_type d)" if d: "d \<in> set (firsts [] ?ds)" for d
    unfolding best_priority_def
  proof (rule Max_eqI)
    fix y assume "y \<in> set (map (\<lambda>d. dt_priority (dn_type d)) (filter (\<lambda>e. dn_name e = dn_name d) ?ds))"
    then obtain e where e: "e \<in> set ?ds" "dn_name e = dn_name d" "y = dt_priority (dn_type e)" by auto
    then show "y \<le> dt_priority (dn_type d)"
      using firsts_best[OF sorted d e(1,2)] by (auto simp: importance_def less_eq_prod_def)
  next
    show "dt_priority (dn_type d) \<in> set (map (\<lambda>d. dt_priority (dn_type d)) (filter (\<lambda>e. dn_name e = dn_name d) ?ds))"
      using firsts_subset[of "[]" ?ds] d by auto
  qed simp
  have "map (\<lambda>n. (- best_priority service all_names n, n)) (list_names service all_names) = map importance (firsts [] ?ds)"
    using best by (simp add: list_names_uniq firsts_names[symmetric] importance_def)
  then show ?thesis using set firsts_sorted[OF sorted] by (simp add: list_names_uniq uniq_from_distinct)
qed

lemma domain_name_remove_twice:
  "domain_name_remove cid (domain_name_remove cid all_names) = domain_name_remove cid all_names"
  by (auto simp: domain_name_remove_def od_pop_def odict_simps split: option.splits)

end
