(* ===== verification/Firewall.thy ===== *)
theory Firewall
  imports AppModel System
begin

text \<open>
  The firewall app (plinth/modules/firewall): the D-Bus helpers of \<open>__init__.py\<close>, the
  components of \<open>components.py\<close> that open and close the ports of an app and protect its
  local services, and the set-up of \<open>privileged.py\<close>. firewalld itself is not part of the
  repository: its D-Bus calls are the parameter \<open>api\<close>, which acts on a state of its own.
\<close>

section \<open>firewalld over D-Bus\<close>

record 'f firewalld_api =
  proxy :: "string \<Rightarrow> string \<Rightarrow> ('f, unit) prog"
  reload_runtime :: "('f, unit) prog"
  get_services :: "string \<Rightarrow> ('f, string list) prog"
  zone_interfaces :: "string \<Rightarrow> ('f, string list) prog"
  zone_add :: "string \<Rightarrow> string \<Rightarrow> ('f, unit) prog"
  zone_remove :: "string \<Rightarrow> string \<Rightarrow> ('f, unit) prog"
  zone_by_name :: "string \<Rightarrow> ('f, string) prog"
  config_zone_add :: "string \<Rightarrow> string \<Rightarrow> ('f, unit) prog"
  config_zone_remove :: "string \<Rightarrow> string \<Rightarrow> ('f, unit) prog"
  service_by_name :: "string \<Rightarrow> ('f, string) prog"
  service_ports :: "string \<Rightarrow> ('f, (string \<times> string) list) prog"
  query_direct :: "string \<Rightarrow> string list \<Rightarrow> ('f, bool) prog"
  add_direct :: "string \<Rightarrow> string list \<Rightarrow> ('f, unit) prog"
  remove_direct :: "string \<Rightarrow> string list \<Rightarrow> ('f, unit) prog"
  config_query_direct :: "string \<Rightarrow> string list \<Rightarrow> ('f, bool) prog"
  config_add_direct :: "string \<Rightarrow> string list \<Rightarrow> ('f, unit) prog"
  config_remove_direct :: "string \<Rightarrow> string list \<Rightarrow> ('f, unit) prog"

record fw_component =
  fw_obj :: comp_obj
  fw_name :: "string option"
  fw_ports :: "string list"
  fw_is_external :: bool

text \<open>The registry of all Firewall components and the cache of port details are process-wide.\<close>

record 'f firewall_world = world +
  firewalld :: 'f
  all_firewall_components :: "(string, fw_component) odict"
  port_details_cache :: "(string, (string \<times> string) list) odict"

definition on_fw :: "('f, 'a) prog \<Rightarrow> ('f firewall_world, 'a) prog" where
  "on_fw m w = (case m (firewalld w) of (r, f) \<Rightarrow> (r, w\<lparr>firewalld := f\<rparr>))"

definition FIREWALLD_OBJECT :: string where "FIREWALLD_OBJECT = ''/org/fedoraproject/FirewallD1''"
definition FIREWALLD_INTERFACE :: string where "FIREWALLD_INTERFACE = ''org.fedoraproject.FirewallD1''"
definition ZONE_INTERFACE :: string where "ZONE_INTERFACE = ''org.fedoraproject.FirewallD1.zone''"
definition DIRECT_INTERFACE :: string where "DIRECT_INTERFACE = ''org.fedoraproject.FirewallD1.direct''"
definition CONFIG_OBJECT :: string where "CONFIG_OBJECT = ''/org/fedoraproject/FirewallD1/config''"
definition CONFIG_INTERFACE :: string where "CONFIG_INTERFACE = ''org.fedoraproject.FirewallD1.config''"
definition CONFIG_SERVICE_INTERFACE :: string where
  "CONFIG_SERVICE_INTERFACE = ''org.fedoraproject.FirewallD1.config.service''"
definition CONFIG_ZONE_INTERFACE :: string where
  "CONFIG_ZONE_INTERFACE = ''org.fedoraproject.FirewallD1.config.zone''"
definition CONFIG_DIRECT_INTERFACE :: string where
  "CONFIG_DIRECT_INTERFACE = ''org.fedoraproject.FirewallD1.config.direct''"

text \<open>A call on a proxy: the proxy is made first.\<close>

definition via :: "'f firewalld_api \<Rightarrow> string \<Rightarrow> string \<Rightarrow> ('f firewall_world, 'a) prog \<Rightarrow> ('f firewall_world, 'a) prog" where
  "via api path iface m = p_then (on_fw (proxy api path iface)) m"

section \<open>D-Bus errors\<close>

definition part_at :: "string list \<Rightarrow> nat \<Rightarrow> string result" where
  "part_at parts i = (if i < length parts then Inr (parts ! i) else Inl (IndexError ''list index out of range''))"

text \<open>The tests of the \<open>except\<close> clause of \<open>ignore_dbus_error\<close>: True to swallow the error.\<close>

definition ignored_error :: "string option \<Rightarrow> string option \<Rightarrow> string \<Rightarrow> bool result" where
  "ignored_error dbus_error service_error msg =
     (let parts = split_on (CHR '':'') msg in
      r_bind (part_at parts 0) (\<lambda>p0.
        if p0 \<noteq> ''GDBus.Error'' then Inr False
        else r_bind (case dbus_error of
                       None \<Rightarrow> Inr False
                     | Some d \<Rightarrow> r_bind (part_at parts 1) (\<lambda>p1. Inr (strip_str p1 = ''org.freedesktop.DBus.Error.'' @ d)))
             (\<lambda>b. if b then Inr True
                  else case service_error of
                         None \<Rightarrow> Inr False
                       | Some s \<Rightarrow> r_bind (part_at parts 2) (\<lambda>p2. Inr (strip_str p2 = s)))))"

text \<open>The block under the context manager: its value, or None when its error was swallowed.\<close>

definition ignore_dbus_error :: "string option \<Rightarrow> string option \<Rightarrow> ('w, 'a) prog \<Rightarrow> ('w, 'a option) prog" where
  "ignore_dbus_error dbus_error service_error m =
     p_catch (p_bind m (\<lambda>x. p_ret (Some x)))
       (\<lambda>e. case e of
              GlibError msg \<Rightarrow> p_bind (p_lift (ignored_error dbus_error service_error msg))
                                (\<lambda>b. if b then p_ret None else p_raise e)
            | _ \<Rightarrow> p_raise e)"

definition parse_dbus_error :: "string \<Rightarrow> string option result" where
  "parse_dbus_error msg =
     (let parts = split_on (CHR '':'') msg in
      r_bind (part_at parts 0) (\<lambda>p0.
        if p0 \<noteq> ''GDBus.Error'' then Inr None
        else r_bind (part_at parts 1) (\<lambda>p1.
          if p1 \<noteq> ''org.fedoraproject.FirewallD1.Exception'' then Inr None
          else r_bind (part_at parts 2) (\<lambda>p2. Inr (Some (strip_str p2))))))"

definition p_skip :: "('w, 'a) prog \<Rightarrow> ('w, unit) prog" where
  "p_skip m = p_bind m (\<lambda>_. p_ret ())"

definition fw_reload :: "'f firewalld_api \<Rightarrow> ('f firewall_world, unit) prog" where
  "fw_reload api =
     p_skip (ignore_dbus_error (Some ''ServiceUnknown'') None
       (via api FIREWALLD_OBJECT FIREWALLD_INTERFACE (on_fw (reload_runtime api))))"

definition try_with_reload :: "'f firewalld_api \<Rightarrow> ('f firewall_world, unit) prog \<Rightarrow> ('f firewall_world, unit) prog" where
  "try_with_reload api operation =
     p_catch operation
       (\<lambda>e. case e of
              GlibError msg \<Rightarrow> p_bind (p_lift (parse_dbus_error msg))
                (\<lambda>err. if err \<noteq> Some ''INVALID_SERVICE'' then p_raise e
                       else p_then (fw_reload api) operation)
            | _ \<Rightarrow> p_raise e)"

section \<open>Services and ports\<close>

definition get_enabled_services :: "'f firewalld_api \<Rightarrow> string \<Rightarrow> ('f firewall_world, string list) prog" where
  "get_enabled_services api zone =
     p_bind (ignore_dbus_error (Some ''ServiceUnknown'') None
               (via api FIREWALLD_OBJECT ZONE_INTERFACE (on_fw (get_services api zone))))
       (\<lambda>r. p_ret (case r of None \<Rightarrow> [] | Some xs \<Rightarrow> xs))"

definition get_port_details :: "'f firewalld_api \<Rightarrow> string \<Rightarrow> ('f firewall_world, (string \<times> string) list) prog" where
  "get_port_details api port =
     p_bind (p_get (\<lambda>w. map_of (port_details_cache w) port)) (\<lambda>cached.
       case cached of
         Some ds \<Rightarrow> p_ret ds
       | None \<Rightarrow> via api CONFIG_OBJECT CONFIG_INTERFACE
           (p_bind (p_catch (p_bind (on_fw (service_by_name api port)) (\<lambda>path. p_ret (Some path)))
                      (\<lambda>e. case e of GlibError msg \<Rightarrow> p_ret None | _ \<Rightarrow> p_raise e))
             (\<lambda>found. case found of
                        None \<Rightarrow> p_ret []
                      | Some path \<Rightarrow> via api path CONFIG_SERVICE_INTERFACE
                          (p_bind (on_fw (service_ports api path)) (\<lambda>ds.
                             p_then (p_mod (\<lambda>w. w\<lparr>port_details_cache := od_set (port_details_cache w) port ds\<rparr>))
                               (p_ret ds))))))"

definition get_interfaces :: "'f firewalld_api \<Rightarrow> string \<Rightarrow> ('f firewall_world, string list) prog" where
  "get_interfaces api zone =
     p_bind (ignore_dbus_error (Some ''ServiceUnknown'') None
               (via api FIREWALLD_OBJECT ZONE_INTERFACE (on_fw (zone_interfaces api zone))))
       (\<lambda>r. p_ret (case r of None \<Rightarrow> [] | Some xs \<Rightarrow> xs))"

definition add_service :: "'f firewalld_api \<Rightarrow> string \<Rightarrow> string \<Rightarrow> ('f firewall_world, unit) prog" where
  "add_service api port zone =
     p_skip (ignore_dbus_error (Some ''ServiceUnknown'') None
       (via api FIREWALLD_OBJECT ZONE_INTERFACE
         (p_then (ignore_dbus_error None (Some ''ALREADY_ENABLED'') (on_fw (zone_add api zone port)))
           (via api CONFIG_OBJECT CONFIG_INTERFACE
             (p_bind (on_fw (zone_by_name api zone)) (\<lambda>path.
               via api path CONFIG_ZONE_INTERFACE
                 (ignore_dbus_error None (Some ''ALREADY_ENABLED'') (on_fw (config_zone_add api path port)))))))))"

definition remove_service :: "'f firewalld_api \<Rightarrow> string \<Rightarrow> string \<Rightarrow> ('f firewall_world, unit) prog" where
  "remove_service api port zone =
     p_skip (ignore_dbus_error (Some ''ServiceUnknown'') None
       (via api FIREWALLD_OBJECT ZONE_INTERFACE
         (p_then (ignore_dbus_error None (Some ''NOT_ENABLED'') (on_fw (zone_remove api zone port)))
           (via api CONFIG_OBJECT CONFIG_INTERFACE
             (p_bind (on_fw (zone_by_name api zone)) (\<lambda>path.
               via api path CONFIG_ZONE_INTERFACE
                 (ignore_dbus_error None (Some ''NOT_ENABLED'') (on_fw (config_zone_remove api path port)))))))))"

definition add_passthrough :: "'f firewalld_api \<Rightarrow> string \<Rightarrow> string list \<Rightarrow> ('f firewall_world, unit) prog" where
  "add_passthrough api ipv rule =
     p_then
       (via api FIREWALLD_OBJECT DIRECT_INTERFACE
         (p_bind (on_fw (query_direct api ipv rule)) (\<lambda>b. if \<not> b then on_fw (add_direct api ipv rule) else p_ret ())))
       (via api CONFIG_OBJECT CONFIG_DIRECT_INTERFACE
         (p_bind (on_fw (config_query_direct api ipv rule))
            (\<lambda>b. if \<not> b then on_fw (config_add_direct api ipv rule) else p_ret ())))"

definition remove_passthrough :: "'f firewalld_api \<Rightarrow> string \<Rightarrow> string list \<Rightarrow> ('f firewall_world, unit) prog" where
  "remove_passthrough api ipv rule =
     p_then
       (via api FIREWALLD_OBJECT DIRECT_INTERFACE
         (p_bind (on_fw (query_direct api ipv rule)) (\<lambda>b. if b then on_fw (remove_direct api ipv rule) else p_ret ())))
       (via api CONFIG_OBJECT CONFIG_DIRECT_INTERFACE
         (p_bind (on_fw (config_query_direct api ipv rule))
            (\<lambda>b. if b then on_fw (config_remove_direct api ipv rule) else p_ret ())))"

section \<open>The Firewall component\<close>

definition firewall_init ::
  "string \<Rightarrow> string option \<Rightarrow> string list option \<Rightarrow> bool \<Rightarrow> ('f firewall_world, fw_component) prog"
where
  "firewall_init cid name ports external =
     p_bind (follower_init cid False) (\<lambda>self.
       let c = \<lparr>fw_obj = self\<lparr>classes := ''Firewall'' # classes self\<rparr>, fw_name = name,
                fw_ports = (case ports of None \<Rightarrow> [] | Some ps \<Rightarrow> ps), fw_is_external = external\<rparr>
       in p_then (p_mod (\<lambda>w. w\<lparr>all_firewall_components := od_set (all_firewall_components w) cid c\<rparr>)) (p_ret c))"

definition ports_details :: "'f firewalld_api \<Rightarrow> fw_component \<Rightarrow> ('f firewall_world, (string \<times> (string \<times> string) list) list) prog" where
  "ports_details api c =
     p_map (\<lambda>port. p_bind (get_port_details api port) (\<lambda>ds. p_ret (port, ds))) (fw_ports c)"

definition open_port :: "'f firewalld_api \<Rightarrow> fw_component \<Rightarrow> string list \<Rightarrow> string list \<Rightarrow> string \<Rightarrow> ('f firewall_world, unit) prog" where
  "open_port api c internal external port =
     p_then (if port \<notin> set internal then add_service api port ''internal'' else p_ret ())
            (if fw_is_external c \<and> port \<notin> set external then add_service api port ''external'' else p_ret ())"

definition open_ports :: "'f firewalld_api \<Rightarrow> fw_component \<Rightarrow> ('f firewall_world, unit) prog" where
  "open_ports api c =
     p_bind (get_enabled_services api ''internal'') (\<lambda>internal.
     p_bind (get_enabled_services api ''external'') (\<lambda>external.
       p_for (open_port api c internal external) (fw_ports c)))"

definition firewall_enable :: "'f firewalld_api \<Rightarrow> fw_component \<Rightarrow> ('f firewall_world, unit) prog" where
  "firewall_enable api c = p_then (follower_enable (fw_obj c)) (try_with_reload api (open_ports api c))"

text \<open>The other components on a port, and whether one of them is enabled.\<close>

definition others_on_port :: "fw_component \<Rightarrow> string \<Rightarrow> bool \<Rightarrow> ('f firewall_world, bool) prog" where
  "others_on_port c port external =
     p_bind (p_get all_firewall_components) (\<lambda>reg.
     p_bind (p_map (\<lambda>d. follower_is_enabled (fw_obj d))
               (filter (\<lambda>d. port \<in> set (fw_ports d) \<and> component_id (fw_obj c) \<noteq> component_id (fw_obj d) \<and>
                            (if external then fw_is_external d else True)) (od_values reg)))
       (\<lambda>bs. p_ret (True \<in> set bs)))"

definition close_port :: "'f firewalld_api \<Rightarrow> fw_component \<Rightarrow> string list \<Rightarrow> string list \<Rightarrow> string \<Rightarrow> ('f firewall_world, unit) prog" where
  "close_port api c internal external port =
     p_then (if port \<in> set internal
             then p_bind (others_on_port c port False)
                    (\<lambda>b. if \<not> b then remove_service api port ''internal'' else p_ret ())
             else p_ret ())
            (if port \<in> set external
             then p_bind (others_on_port c port True)
                    (\<lambda>b. if \<not> b then remove_service api port ''external'' else p_ret ())
             else p_ret ())"

definition close_ports :: "'f firewalld_api \<Rightarrow> fw_component \<Rightarrow> ('f firewall_world, unit) prog" where
  "close_ports api c =
     p_bind (get_enabled_services api ''internal'') (\<lambda>internal.
     p_bind (get_enabled_services api ''external'') (\<lambda>external.
       p_for (close_port api c internal external) (fw_ports c)))"

definition firewall_disable :: "'f firewalld_api \<Rightarrow> fw_component \<Rightarrow> ('f firewall_world, unit) prog" where
  "firewall_disable api c = p_then (follower_disable (fw_obj c)) (try_with_reload api (close_ports api c))"

text \<open>\<open>re.fullmatch(r'tun\d+', interface)\<close>.\<close>

definition is_tun :: "string \<Rightarrow> bool" where
  "is_tun s \<longleftrightarrow> (case s of
     a # b # c # d # ds \<Rightarrow> [a, b, c] = ''tun'' \<and> list_all (\<lambda>x. x \<in> set ''0123456789'') (d # ds)
   | _ \<Rightarrow> False)"

definition get_internal_interfaces :: "'f firewalld_api \<Rightarrow> ('f firewall_world, string list) prog" where
  "get_internal_interfaces api =
     p_bind (get_interfaces api ''internal'') (\<lambda>is. p_ret (filter (\<lambda>i. \<not> is_tun i) is))"

section \<open>Diagnostics\<close>

definition result_of :: "bool \<Rightarrow> check_result" where
  "result_of b = (if b then PASSED else FAILED)"

definition port_checks ::
  "fw_component \<Rightarrow> string list \<Rightarrow> string list \<Rightarrow> string \<times> (string \<times> string) list \<Rightarrow> diagnostic_check list"
where
  "port_checks c internal external pd =
     (let port = fst pd;
          details = join_str '', '' (map (\<lambda>(number, protocol). number @ ''/'' @ protocol) (snd pd));
          params = [(''name'', JStr port), (''details'', JStr details)]
      in [\<lparr>check_id = ''firewall-port-internal-'' @ port,
           description = ''Port {name} ({details}) available for internal networks'',
           check_result = result_of (port \<in> set internal), parameters = params,
           check_component_id = Some (component_id (fw_obj c))\<rparr>,
          (if fw_is_external c
           then \<lparr>check_id = ''firewall-port-external-available-'' @ port,
                  description = ''Port {name} ({details}) available for external networks'',
                  check_result = result_of (port \<in> set external), parameters = params,
                  check_component_id = Some (component_id (fw_obj c))\<rparr>
           else \<lparr>check_id = ''firewall-port-external-unavailable-'' @ port,
                  description = ''Port {name} ({details}) unavailable for external networks'',
                  check_result = result_of (port \<notin> set external), parameters = params,
                  check_component_id = Some (component_id (fw_obj c))\<rparr>)])"

definition firewall_diagnose :: "'f firewalld_api \<Rightarrow> fw_component \<Rightarrow> ('f firewall_world, diagnostic_check list) prog" where
  "firewall_diagnose api c =
     p_bind (get_enabled_services api ''internal'') (\<lambda>internal.
     p_bind (get_enabled_services api ''external'') (\<lambda>external.
     p_bind (ports_details api c) (\<lambda>pds. p_ret (concat (map (port_checks c internal external) pds)))))"

record firewall_config =
  default_zone :: string
  fw_backend :: "string option"
  passthroughs :: "string list"

definition plain_check :: "string \<Rightarrow> string \<Rightarrow> bool \<Rightarrow> diagnostic_check" where
  "plain_check cid text ok =
     \<lparr>check_id = cid, description = text, check_result = result_of ok, parameters = [], check_component_id = None\<rparr>"

definition diagnose_default_zone :: "firewall_config \<Rightarrow> diagnostic_check" where
  "diagnose_default_zone cfg =
     plain_check ''firewall-default-zone'' ''Default zone is external'' (default_zone cfg = ''external'')"

definition diagnose_firewall_backend :: "firewall_config \<Rightarrow> diagnostic_check" where
  "diagnose_firewall_backend cfg =
     plain_check ''firewall-backend'' ''Firewall backend is nftables'' (fw_backend cfg = Some ''nftables'')"

definition diagnose_direct_passthroughs :: "firewall_config \<Rightarrow> diagnostic_check" where
  "diagnose_direct_passthroughs cfg =
     plain_check ''firewall-direct-passthroughs'' ''Direct passthrough rules exist'' (12 \<le> length (passthroughs cfg))"

text \<open>\<open>FirewallApp.diagnose\<close>; \<open>get_config\<close> is the privileged call below.\<close>

definition firewall_app_diagnose :: "'w app \<Rightarrow> ('w, firewall_config) prog \<Rightarrow> ('w, diagnostic_check list) prog" where
  "firewall_app_diagnose a get_config =
     p_bind (app_diagnose a) (\<lambda>rs. p_bind get_config (\<lambda>cfg.
       p_ret (rs @ [diagnose_default_zone cfg, diagnose_firewall_backend cfg, diagnose_direct_passthroughs cfg])))"

text \<open>
  The overrides of \<open>FirewallApp\<close>: \<open>set_up\<close> is the privileged call below, \<open>upgrades\<close> maps the
  packages to upgrade to their new versions, and \<open>newer\<close> compares Debian versions.
\<close>

definition firewall_app_setup :: "'w app \<Rightarrow> ('w, unit) prog \<Rightarrow> int \<Rightarrow> ('w, unit) prog" where
  "firewall_app_setup a set_up old_version = p_then (app_setup a old_version) set_up"

definition firewall_force_upgrade ::
  "(string \<Rightarrow> string \<Rightarrow> bool) \<Rightarrow> (string list \<Rightarrow> ('w, unit) prog) \<Rightarrow> ('w, unit) prog \<Rightarrow>
   (string, string) odict \<Rightarrow> ('w, bool) prog"
where
  "firewall_force_upgrade newer install_new set_up upgrades =
     (case map_of upgrades ''firewalld'' of
        None \<Rightarrow> p_ret False
      | Some new_version \<Rightarrow>
          if newer new_version ''3~'' then p_ret False
          else p_then (install_new [''firewalld'']) (p_then set_up (p_ret True)))"

section \<open>Protection of local services\<close>

record protection =
  lp_obj :: comp_obj
  tcp_ports :: "string list"

definition protection_init :: "string \<Rightarrow> string list \<Rightarrow> ('f firewall_world, protection) prog" where
  "protection_init cid ports =
     p_bind (follower_init cid False) (\<lambda>self.
       p_ret \<lparr>lp_obj = self\<lparr>classes := ''FirewallLocalProtection'' # classes self\<rparr>, tcp_ports = ports\<rparr>)"

definition reject_rule :: "string \<Rightarrow> string list" where
  "reject_rule port = [''-A'', ''INPUT'', ''-p'', ''tcp'', ''--dport'', port, ''-j'', ''REJECT'']"

definition protection_enable :: "'f firewalld_api \<Rightarrow> protection \<Rightarrow> ('f firewall_world, unit) prog" where
  "protection_enable api c =
     p_then (follower_enable (lp_obj c))
       (p_for (\<lambda>port. p_then (add_passthrough api ''ipv6'' (reject_rule port))
                             (add_passthrough api ''ipv4'' (reject_rule port))) (tcp_ports c))"

definition protection_disable :: "'f firewalld_api \<Rightarrow> protection \<Rightarrow> ('f firewall_world, unit) prog" where
  "protection_disable api c =
     p_then (follower_disable (lp_obj c))
       (p_for (\<lambda>port. p_then (remove_passthrough api ''ipv6'' (reject_rule port))
                             (remove_passthrough api ''ipv4'' (reject_rule port))) (tcp_ports c))"

definition protection_setup ::
  "'f firewalld_api \<Rightarrow> ('f firewall_world, bool) prog \<Rightarrow> protection \<Rightarrow> int \<Rightarrow> ('f firewall_world, unit) prog"
where
  "protection_setup api app_enabled c old_version =
     (if old_version = 0 then p_ret ()
      else p_bind app_enabled (\<lambda>b. if b then protection_enable api c else p_ret ()))"

section \<open>Port forwarding\<close>

record forwarding_info =
  topology_type :: json
  router_configuration :: json
  forwarded :: "(string \<times> string \<times> string) list"

definition upper_char :: "char \<Rightarrow> char" where
  "upper_char c = (if c \<in> set ''abcdefghijklmnopqrstuvwxyz'' then char_of (of_char c - 32 :: nat) else c)"

text \<open>
  \<open>get_port_forwarding_info\<close>: \<open>cs\<close> are the components of the app, \<open>Inl\<close> a Firewall one. The
  two settings of the networks module are read with their defaults from the key/value store.
\<close>

definition get_port_forwarding_info ::
  "'f firewalld_api \<Rightarrow> (fw_component + comp_obj) list \<Rightarrow> ('f firewall_world, forwarding_info) prog"
where
  "get_port_forwarding_info api cs =
     p_bind (kv_get_default ''networks_topology_type'' (JStr ''to_router'')) (\<lambda>topology.
     p_bind (kv_get_default ''networks_router_configuration_type'' (JStr ''not_configured'')) (\<lambda>router.
     p_bind (p_map (\<lambda>c. case c of
                 Inr other \<Rightarrow> p_ret []
               | Inl fw \<Rightarrow> if \<not> fw_is_external fw then p_ret []
                   else p_bind (ports_details api fw) (\<lambda>pds.
                     p_ret (concat (map (\<lambda>(port, ds). if port \<in> {''http'', ''https''} then []
                        else map (\<lambda>(number, protocol). (port, map upper_char protocol, number)) ds) pds)))) cs)
       (\<lambda>rows. p_ret \<lparr>topology_type = topology, router_configuration = router, forwarded = concat rows\<rparr>)))"

section \<open>Privileged set-up\<close>

text \<open>The commands come from the \<open>system\<close> parameter; augeas and standard input are parameters.\<close>

record 'w firewall_host =
  fh_sys :: "'w system"
  fh_run_input :: "string list \<Rightarrow> string \<Rightarrow> ('w, unit) prog"
  fh_get_backend :: "('w, string option) prog"
  fh_set_backend :: "string \<Rightarrow> ('w, unit) prog"

definition flush_rules :: string where
  "flush_rules = concat (map (\<lambda>t. join_str [CHR 0x0A] [''*'' @ t, ''-F'', ''-X'', ''-Z'', ''COMMIT'', []])
     [''security'', ''raw'', ''mangle'', ''nat'', ''filter''])"

definition flush_iptables_rules :: "'w firewall_host \<Rightarrow> ('w, unit) prog" where
  "flush_iptables_rules h =
     p_then (fh_run_input h [''iptables-restore''] flush_rules) (fh_run_input h [''ip6tables-restore''] flush_rules)"

definition set_firewall_backend :: "'w firewall_host \<Rightarrow> string \<Rightarrow> ('w, unit) prog" where
  "set_firewall_backend h backend =
     p_bind (fh_get_backend h) (\<lambda>old.
     p_then (fh_set_backend h backend)
    (p_then (if old = Some ''iptables'' then flush_iptables_rules h else p_ret ())
            (if Some backend \<noteq> old then service_restart (fh_sys h) ''firewalld'' False else p_ret ())))"

definition run_firewall_cmd :: "'w firewall_host \<Rightarrow> string list \<Rightarrow> ('w, unit) prog" where
  "run_firewall_cmd h args = run_ok (fh_sys h) (''firewall-cmd'' # args) True"

definition add_rule :: "'w firewall_host \<Rightarrow> string list \<Rightarrow> string list \<Rightarrow> ('w, unit) prog" where
  "add_rule h permanent rule =
     p_catch (run_firewall_cmd h (permanent @ [''--direct'', ''--query-passthrough''] @ rule))
       (\<lambda>e. if is_called_process_error e
            then run_firewall_cmd h (permanent @ [''--direct'', ''--add-passthrough''] @ rule) else p_raise e)"

definition owner_rules :: "string list list" where
  "owner_rules = concat (map (\<lambda>ip. concat (map (\<lambda>owner. map (\<lambda>user.
       [ip, ''-A'', ''OUTPUT'', ''-m'', ''owner'', owner, user, ''-j'', ''MARK'', ''--or-mark'', ''0x800000''])
     [''root'', ''www-data'', ''mail'']) [''--uid-owner'', ''--gid-owner''])) [''ipv4'', ''ipv6''])"

definition accept_rules :: "string list list" where
  "accept_rules = concat (map (\<lambda>ip.
     [[ip, ''-A'', ''INPUT'', ''-m'', ''conntrack'', ''--ctstate'', ''ESTABLISHED,RELATED'', ''-j'', ''ACCEPT''],
      [ip, ''-A'', ''INPUT'', ''-m'', ''mark'', ''--mark'', ''0x800000/0x800000'', ''-j'', ''ACCEPT'']])
     [''ipv4'', ''ipv6''])"

definition setup_local_service_protection :: "'w firewall_host \<Rightarrow> ('w, unit) prog" where
  "setup_local_service_protection h =
     p_then (p_for (\<lambda>permanent. p_for (add_rule h permanent) owner_rules) [[], [''--permanent'']])
            (p_for (\<lambda>permanent. p_for (add_rule h permanent) accept_rules) [[], [''--permanent'']])"

text \<open>The return code 26 (NAME_CONFLICT) of \<open>--new-policy\<close> is accepted.\<close>

definition setup_inter_zone_forwarding :: "'w firewall_host \<Rightarrow> ('w, unit) prog" where
  "setup_inter_zone_forwarding h =
     (let new = [''firewall-cmd'', ''--permanent'', ''--new-policy'', ''fbx_int_to_ext_fwd''];
          cmd = (\<lambda>args. run_firewall_cmd h (''--permanent'' # args)) in
      p_then (p_bind (sh (fh_sys h) new) (\<lambda>(rc, out).
                if rc = 0 \<or> rc = 26 then p_ret () else p_raise (CalledProcessError (join_str '' '' new))))
     (p_then (p_for cmd
        [[''--policy'', ''fbx_int_to_ext_fwd'', ''--add-ingress-zone'', ''internal''],
         [''--policy'', ''fbx_int_to_ext_fwd'', ''--add-egress-zone'', ''external''],
         [''--policy'', ''fbx_int_to_ext_fwd'', ''--set-priority'', ''100''],
         [''--policy'', ''fbx_int_to_ext_fwd'', ''--set-target'', ''ACCEPT''],
         [''--zone=external'', ''--add-masquerade''],
         [''--zone=internal'', ''--add-forward'']])
        (service_reload (fh_sys h) ''firewalld'' False)))"

definition firewall_setup :: "'w firewall_host \<Rightarrow> ('w, unit) prog" where
  "firewall_setup h =
     p_then (service_enable (fh_sys h) ''firewalld'' False)
    (p_then (run_ok (fh_sys h) [''firewall-cmd'', ''--set-default-zone=external''] True)
    (p_then (set_firewall_backend h ''nftables'')
    (p_then (setup_local_service_protection h) (setup_inter_zone_forwarding h))))"

definition firewall_get_config :: "'w firewall_host \<Rightarrow> ('w, firewall_config) prog" where
  "firewall_get_config h =
     p_bind (run_command (fh_sys h) [''firewall-cmd'', ''--get-default-zone''] True) (\<lambda>zone.
     p_bind (fh_get_backend h) (\<lambda>backend.
     p_bind (run_command (fh_sys h) [''firewall-cmd'', ''--direct'', ''--get-all-passthroughs''] True) (\<lambda>out.
       p_ret \<lparr>default_zone = strip_str zone, fw_backend = backend,
              passthroughs = split_on (CHR 0x0A) (strip_str out)\<rparr>)))"

end
