(* ===== verification/FirewallLaws.thy ===== *)
theory FirewallLaws
  imports Firewall
begin

text \<open>
  What the firewall components promise: the ports that are open are those some enabled
  component asks for, whatever the order in which components are enabled and disabled, also
  when firewalld has to be reloaded first. The contract of firewalld's zones is the locale
  \<open>zone_table\<close>; \<open>firewalld_laws\<close> states the documented behaviour of its D-Bus calls, from
  which the helpers of the code are shown to meet the contract.
\<close>

section \<open>Zones as the components use them\<close>

definition zones :: "string set" where
  "zones = {''internal'', ''external''}"

definition put :: "bool \<Rightarrow> string \<Rightarrow> string set \<Rightarrow> string set" where
  "put b p S = (if b then insert p S else S - {p})"

lemma put_iff: "q \<in> put b p S \<longleftrightarrow> (if q = p then b else q \<in> S)"
  by (simp add: put_def)

text \<open>
  \<open>opened\<close> and \<open>kept\<close> are the running and the permanent services of a zone, \<open>usable\<close> the
  services firewalld has loaded, \<open>installed\<close> those a reload makes usable.
\<close>

locale zone_table =
  fixes opened kept :: "'w \<Rightarrow> string \<Rightarrow> string set"
    and usable :: "'w \<Rightarrow> string set"
    and installed :: "string set"
    and same :: "'w \<Rightarrow> 'w \<Rightarrow> bool"
    and change :: "bool \<Rightarrow> string \<Rightarrow> string \<Rightarrow> ('w, unit) prog"
    and reload :: "('w, unit) prog"
  assumes same_refl: "same w w"
    and same_trans: "same w1 w2 \<Longrightarrow> same w2 w3 \<Longrightarrow> same w1 w3"
    and change_ok: "z \<in> zones \<Longrightarrow> p \<in> usable w \<Longrightarrow>
      \<exists>w'. change b p z w = (Inr (), w') \<and> same w w' \<and> usable w' = usable w \<and>
        opened w' = (opened w)(z := put b p (opened w z)) \<and> kept w' = (kept w)(z := put b p (kept w z))"
    and change_unknown: "z \<in> zones \<Longrightarrow> p \<notin> usable w \<Longrightarrow>
      \<exists>m. change b p z w = (Inl (GlibError m), w) \<and> parse_dbus_error m = Inr (Some ''INVALID_SERVICE'')"
    and reload_ok: "\<exists>w'. reload w = (Inr (), w') \<and> same w w' \<and> usable w' = installed \<and>
        opened w' = kept w \<and> kept w' = kept w"
begin

definition agree :: "'w \<Rightarrow> bool" where
  "agree w \<longleftrightarrow> (\<forall>z \<in> zones. kept w z = opened w z)"

text \<open>From \<open>w\<close> to \<open>w'\<close> ports changed only within \<open>W\<close>, and only to the state \<open>b\<close>.\<close>

definition towards :: "bool \<Rightarrow> (string \<Rightarrow> string set) \<Rightarrow> 'w \<Rightarrow> 'w \<Rightarrow> bool" where
  "towards b W w w' \<longleftrightarrow> same w w' \<and> agree w' \<and>
     (\<forall>z \<in> zones. \<forall>p. (p \<in> opened w' z) = (p \<in> opened w z) \<or> p \<in> W z \<and> (p \<in> opened w' z) = b)"

definition settled :: "bool \<Rightarrow> (string \<Rightarrow> string set) \<Rightarrow> (string \<times> string) set \<Rightarrow> 'w \<Rightarrow> bool" where
  "settled b W D w \<longleftrightarrow> (\<forall>(z, p) \<in> D. p \<in> W z \<longrightarrow> (p \<in> opened w z) = b)"

text \<open>How a change may end: done, or stopped at a service firewalld does not know yet.\<close>

definition ends :: "bool \<Rightarrow> (string \<Rightarrow> string set) \<Rightarrow> (string \<times> string) set \<Rightarrow> 'w \<Rightarrow> unit result \<times> 'w \<Rightarrow> bool" where
  "ends b W D w rw \<longleftrightarrow> towards b W w (snd rw) \<and> usable (snd rw) = usable w \<and>
     (fst rw = Inr () \<and> settled b W D (snd rw) \<or>
      (\<exists>m. fst rw = Inl (GlibError m) \<and> parse_dbus_error m = Inr (Some ''INVALID_SERVICE'') \<and> \<not> snd ` D \<subseteq> usable w))"

lemma towards_refl: "agree w \<Longrightarrow> towards b W w w"
  by (simp add: towards_def same_refl)

lemma towards_trans: "towards b W w1 w2 \<Longrightarrow> towards b W w2 w3 \<Longrightarrow> towards b W w1 w3"
  unfolding towards_def using same_trans by blast

lemma settled_keeps: "settled b W D w \<Longrightarrow> fst ` D \<subseteq> zones \<Longrightarrow> towards b W w w' \<Longrightarrow> settled b W D w'"
  unfolding settled_def towards_def by fastforce

lemma change_one:
  assumes "agree w" and "z \<in> zones" and "p \<in> W z"
  shows "ends b W {(z, p)} w (change b p z w)"
proof (cases "p \<in> usable w")
  case True
  then obtain w' where w': "change b p z w = (Inr (), w')" "same w w'" "usable w' = usable w"
      "opened w' = (opened w)(z := put b p (opened w z))" "kept w' = (kept w)(z := put b p (kept w z))"
    using change_ok[OF assms(2)] by blast
  then show ?thesis using assms by (auto simp: ends_def settled_def towards_def agree_def put_iff)
next
  case False
  then obtain m where "change b p z w = (Inl (GlibError m), w)" "parse_dbus_error m = Inr (Some ''INVALID_SERVICE'')"
    using change_unknown[OF assms(2)] by blast
  then show ?thesis using assms False by (auto simp: ends_def towards_refl)
qed

text \<open>\<open>T\<close> are the ports that were seen to need the change.\<close>

definition ready :: "bool \<Rightarrow> (string \<Rightarrow> string set) \<Rightarrow> (string \<Rightarrow> string set) \<Rightarrow> 'w \<Rightarrow> bool" where
  "ready b W T w \<longleftrightarrow> agree w \<and> (\<forall>z \<in> zones. T z \<subseteq> W z \<and> (\<forall>p \<in> W z - T z. (p \<in> opened w z) = b))"

lemma ready_keeps: "ready b W T w \<Longrightarrow> towards b W w w' \<Longrightarrow> ready b W T w'"
  unfolding ready_def towards_def by blast

definition only_if :: "bool \<Rightarrow> ('w, unit) prog \<Rightarrow> ('w, unit) prog" where
  "only_if c m = (if c then m else p_ret ())"

lemma guarded:
  assumes "ready b W T w" and "z \<in> zones"
  shows "ends b W {(z, p)} w (only_if (p \<in> T z) (change b p z) w)"
proof (cases "p \<in> T z")
  case True
  then have "p \<in> W z" "agree w" using assms by (auto simp: ready_def)
  then show ?thesis using True change_one[OF _ assms(2)] by (simp add: only_if_def)
next
  case False
  then show ?thesis using assms by (auto simp: only_if_def ends_def settled_def ready_def towards_refl prog_simps)
qed

lemma ends_then:
  assumes m: "ends b W D w (m w)" and D: "fst ` D \<subseteq> zones"
    and n: "\<And>w'. towards b W w w' \<Longrightarrow> ends b W E w' (n w')"
  shows "ends b W (D \<union> E) w (p_then m n w)"
proof (cases "m w")
  case (Pair r w')
  have t: "towards b W w w'" "usable w' = usable w" using m Pair by (auto simp: ends_def)
  show ?thesis
  proof (cases r)
    case (Inl e)
    with m Pair show ?thesis by (auto simp: ends_def prog_simps)
  next
    case (Inr u)
    have e: "ends b W E w' (n w')" by (rule n[OF t(1)])
    then have t': "towards b W w' (snd (n w'))" "usable (snd (n w')) = usable w" using t by (simp_all add: ends_def)
    have "settled b W D w'" using m Pair Inr by (auto simp: ends_def)
    then have "settled b W D (snd (n w'))" by (rule settled_keeps[OF _ D t'(1)])
    then have "settled b W E (snd (n w')) \<Longrightarrow> settled b W (D \<union> E) (snd (n w'))"
      unfolding settled_def by blast
    moreover have "p_then m n w = n w'" using Pair Inr by (simp add: prog_simps)
    ultimately show ?thesis using e t t' towards_trans[OF t(1) t'(1)]
      unfolding ends_def image_Un by (metis le_sup_iff)
  qed
qed

definition step :: "bool \<Rightarrow> (string \<Rightarrow> string set) \<Rightarrow> string \<Rightarrow> ('w, unit) prog" where
  "step b T p = p_then (only_if (p \<in> T ''internal'') (change b p ''internal''))
                       (only_if (p \<in> T ''external'') (change b p ''external''))"

lemma step_ends:
  assumes "ready b W T w"
  shows "ends b W (zones \<times> {p}) w (step b T p w)"
proof -
  have D: "zones \<times> {p} = {(''internal'', p)} \<union> {(''external'', p)}" by (auto simp: zones_def)
  show ?thesis unfolding D step_def
    by (rule ends_then) (auto simp: zones_def intro!: guarded ready_keeps[OF assms] assms)
qed

lemma steps_end: "ready b W T w \<Longrightarrow> ends b W (zones \<times> set ps) w (p_for (step b T) ps w)"
proof (induction ps arbitrary: w)
  case Nil
  then show ?case by (auto simp: ends_def settled_def ready_def towards_refl prog_simps)
next
  case (Cons p ps)
  have D: "zones \<times> set (p # ps) = zones \<times> {p} \<union> zones \<times> set ps" by auto
  show ?case unfolding D p_for.simps
    by (rule ends_then[where E = "zones \<times> set ps"])
      (auto intro: step_ends[OF Cons.prems] Cons.IH ready_keeps[OF Cons.prems])
qed

text \<open>
  An operation that looks at the zones, makes the changes it finds needed, and is retried
  after a reload, ends with every port of \<open>W\<close> changed and no other port touched.
\<close>

definition retried :: "('w, unit) prog \<Rightarrow> ('w, unit) prog" where
  "retried operation =
     p_catch operation
       (\<lambda>e. case e of
              GlibError msg \<Rightarrow> p_bind (p_lift (parse_dbus_error msg))
                (\<lambda>err. if err \<noteq> Some ''INVALID_SERVICE'' then p_raise e else p_then reload operation)
            | _ \<Rightarrow> p_raise e)"

lemma retried_ends:
  assumes op: "\<And>w. same w0 w \<Longrightarrow> agree w \<Longrightarrow> ends b W (zones \<times> set ps) w (operation w)"
    and agree: "agree w0" and installed: "set ps \<subseteq> installed" and W: "\<forall>z \<in> zones. W z \<subseteq> set ps"
  shows "\<exists>w'. retried operation w0 = (Inr (), w') \<and> same w0 w' \<and> agree w' \<and>
    (\<forall>z \<in> zones. opened w' z = (if b then opened w0 z \<union> W z else opened w0 z - W z))"
proof -
  have final: "\<forall>z \<in> zones. opened w' z = (if b then opened w0 z \<union> W z else opened w0 z - W z)"
    if "towards b W w0 w'" "settled b W (zones \<times> set ps) w'" for w'
    using that W unfolding towards_def settled_def by (cases b) (simp_all, blast+)
  obtain r w1 where r: "operation w0 = (r, w1)" by fastforce
  have e1: "ends b W (zones \<times> set ps) w0 (r, w1)" using op[OF same_refl agree] r by simp
  then have t1: "towards b W w0 w1" by (simp add: ends_def)
  consider "r = Inr ()" "settled b W (zones \<times> set ps) w1"
    | m where "r = Inl (GlibError m)" "parse_dbus_error m = Inr (Some ''INVALID_SERVICE'')"
    using e1 by (auto simp: ends_def)
  then show ?thesis
  proof cases
    case 1
    then show ?thesis using r t1 final[OF t1] by (auto simp: retried_def prog_simps towards_def)
  next
    case 2
    obtain w2 where w2: "reload w1 = (Inr (), w2)" "same w1 w2" "usable w2 = installed"
        "opened w2 = kept w1" "kept w2 = kept w1" using reload_ok by blast
    have s2: "towards b W w1 w2" using w2 t1 by (auto simp: towards_def agree_def)
    then have a2: "same w0 w2" "agree w2" using t1 same_trans by (auto simp: towards_def)
    have e2: "ends b W (zones \<times> set ps) w2 (operation w2)" by (rule op[OF a2])
    obtain r3 w3 where r3: "operation w2 = (r3, w3)" by fastforce
    have "snd ` (zones \<times> set ps) \<subseteq> usable w2" using installed w2(3) by auto
    then have ok: "r3 = Inr ()" "settled b W (zones \<times> set ps) w3" "towards b W w2 w3"
      using e2 r3 by (auto simp: ends_def)
    have t3: "towards b W w0 w3" by (rule towards_trans[OF t1 towards_trans[OF s2 ok(3)]])
    have "retried operation w0 = (Inr (), w3)"
      using r 2 w2(1) r3 ok(1) by (simp add: retried_def prog_simps)
    then show ?thesis using t3 final[OF t3 ok(2)] by (auto simp: towards_def)
  qed
qed

end

section \<open>firewalld's documented behaviour\<close>

record fw_view =
  fv_running :: "string \<Rightarrow> string set"
  fv_permanent :: "string \<Rightarrow> string set"
  fv_loaded :: "string set"
  fv_direct :: "(string \<times> string list) set"
  fv_direct_permanent :: "(string \<times> string list) set"

text \<open>The text of a firewalld exception as GLib reports it.\<close>

definition exception_text :: "string \<Rightarrow> string \<Rightarrow> bool" where
  "exception_text code m \<longleftrightarrow>
     (\<exists>rest. m = (''GDBus.Error:org.fedoraproject.FirewallD1.Exception: '' @ code) @ CHR '':'' # rest)"

text \<open>A call that fails with an exception of firewalld changes nothing.\<close>

definition refuses :: "string \<Rightarrow> ('f, 'a) prog \<Rightarrow> 'f \<Rightarrow> bool" where
  "refuses code m f \<longleftrightarrow> (\<exists>msg. m f = (Inl (GlibError msg), f) \<and> exception_text code msg)"

definition does :: "('f \<Rightarrow> fw_view) \<Rightarrow> (fw_view \<Rightarrow> fw_view) \<Rightarrow> ('f, unit) prog \<Rightarrow> 'f \<Rightarrow> bool" where
  "does v g m f \<longleftrightarrow> (\<exists>f'. m f = (Inr (), f') \<and> v f' = g (v f))"

text \<open>Adding a service (\<open>b\<close> true) and removing one, and the error when there is nothing to do.\<close>

definition no_change_code :: "bool \<Rightarrow> string" where
  "no_change_code b = (if b then ''ALREADY_ENABLED'' else ''NOT_ENABLED'')"

definition zone_change :: "'f firewalld_api \<Rightarrow> bool \<Rightarrow> string \<Rightarrow> string \<Rightarrow> ('f, unit) prog" where
  "zone_change api b = (if b then zone_add api else zone_remove api)"

definition config_zone_change :: "'f firewalld_api \<Rightarrow> bool \<Rightarrow> string \<Rightarrow> string \<Rightarrow> ('f, unit) prog" where
  "config_zone_change api b = (if b then config_zone_add api else config_zone_remove api)"

definition run_put :: "bool \<Rightarrow> string \<Rightarrow> string \<Rightarrow> fw_view \<Rightarrow> fw_view" where
  "run_put b p z u = u\<lparr>fv_running := (fv_running u)(z := put b p (fv_running u z))\<rparr>"

definition perm_put :: "bool \<Rightarrow> string \<Rightarrow> string \<Rightarrow> fw_view \<Rightarrow> fw_view" where
  "perm_put b p z u = u\<lparr>fv_permanent := (fv_permanent u)(z := put b p (fv_permanent u z))\<rparr>"

definition running_laws :: "'f firewalld_api \<Rightarrow> ('f \<Rightarrow> fw_view) \<Rightarrow> bool" where
  "running_laws api v \<longleftrightarrow> (\<forall>f z.
     (\<exists>xs. get_services api z f = (Inr xs, f) \<and> set xs = fv_running (v f) z) \<and>
     (\<forall>b p. if p \<notin> fv_loaded (v f) then refuses ''INVALID_SERVICE'' (zone_change api b z p) f
            else if (p \<in> fv_running (v f) z) = b then refuses (no_change_code b) (zone_change api b z p) f
            else does v (run_put b p z) (zone_change api b z p) f))"

definition permanent_laws :: "'f firewalld_api \<Rightarrow> ('f \<Rightarrow> fw_view) \<Rightarrow> bool" where
  "permanent_laws api v \<longleftrightarrow> (\<forall>z \<in> zones. \<exists>path. (\<forall>f. zone_by_name api z f = (Inr path, f)) \<and>
     (\<forall>f b p. if (p \<in> fv_permanent (v f) z) = b then refuses (no_change_code b) (config_zone_change api b path p) f
              else does v (perm_put b p z) (config_zone_change api b path p) f))"

definition firewalld_laws :: "'f firewalld_api \<Rightarrow> ('f \<Rightarrow> fw_view) \<Rightarrow> string set \<Rightarrow> bool" where
  "firewalld_laws api v installed \<longleftrightarrow>
     (\<forall>path iface f. proxy api path iface f = (Inr (), f)) \<and> running_laws api v \<and> permanent_laws api v \<and>
     (\<forall>f. does v (\<lambda>u. u\<lparr>fv_running := fv_permanent u, fv_loaded := installed\<rparr>) (reload_runtime api) f)"

subsection \<open>How the helpers read its exceptions\<close>

lemma split_on_nonempty: "split_on c s \<noteq> []"
  by (induction s) (auto split: list.split)

lemma split_on_append: "split_on c (a @ c # b) = split_on c a @ split_on c b"
  by (induction a) (auto simp: split_on_nonempty split: list.split)

lemma split_exception:
  "exception_text code m \<Longrightarrow> CHR '':'' \<notin> set code \<Longrightarrow>
     \<exists>rest. split_on (CHR '':'') m = [''GDBus.Error'', ''org.fedoraproject.FirewallD1.Exception'', CHR '' '' # code] @ rest"
proof -
  assume a: "exception_text code m" "CHR '':'' \<notin> set code"
  have "split_on (CHR '':'') code = [code]" using a(2) by (induction code) auto
  then have "split_on (CHR '':'') (''GDBus.Error:org.fedoraproject.FirewallD1.Exception: '' @ code) =
      [''GDBus.Error'', ''org.fedoraproject.FirewallD1.Exception'', CHR '' '' # code]" by simp
  then show ?thesis using a(1) split_on_append unfolding exception_text_def by metis
qed

lemmas dbus_tests = ignored_error_def parse_dbus_error_def part_at_def Let_def strip_str_def

lemma exception_read:
  assumes "exception_text code m" and "code \<in> {''INVALID_SERVICE'', ''ALREADY_ENABLED'', ''NOT_ENABLED''}"
  shows "parse_dbus_error m = Inr (Some code)"
    and "ignored_error (Some ''ServiceUnknown'') None m = Inr False"
    and "s \<in> {''ALREADY_ENABLED'', ''NOT_ENABLED''} \<Longrightarrow> ignored_error None (Some s) m = Inr (code = s)"
proof -
  have "CHR '':'' \<notin> set code" using assms(2) by auto
  then obtain rest where r: "split_on (CHR '':'') m =
      [''GDBus.Error'', ''org.fedoraproject.FirewallD1.Exception'', CHR '' '' # code] @ rest"
    using split_exception[OF assms(1)] by blast
  show "parse_dbus_error m = Inr (Some code)" using assms(2) r by (auto simp: dbus_tests)
  show "ignored_error (Some ''ServiceUnknown'') None m = Inr False" using r by (simp add: dbus_tests)
  show "s \<in> {''ALREADY_ENABLED'', ''NOT_ENABLED''} \<Longrightarrow> ignored_error None (Some s) m = Inr (code = s)"
    using assms(2) r by (auto simp: dbus_tests)
qed

section \<open>The helpers meet the contract\<close>

definition change_service :: "'f firewalld_api \<Rightarrow> bool \<Rightarrow> string \<Rightarrow> string \<Rightarrow> ('f firewall_world, unit) prog" where
  "change_service api b p z = (if b then add_service api p z else remove_service api p z)"

lemma on_fw_same: "m (firewalld w) = (r, firewalld w) \<Longrightarrow> on_fw m w = (r, w)"
  by (simp add: on_fw_def)

lemma via_running: "firewalld_laws api v ins \<Longrightarrow> via api path iface m w = m w"
  by (simp add: via_def p_then_def p_bind_def on_fw_same firewalld_laws_def)

lemma refused:
  assumes "refuses code m (firewalld w)" and "code \<in> {''INVALID_SERVICE'', ''ALREADY_ENABLED'', ''NOT_ENABLED''}"
    and "s \<in> {''ALREADY_ENABLED'', ''NOT_ENABLED''}" and "code \<noteq> s"
  shows "\<exists>msg. ignore_dbus_error None (Some s) (on_fw m) w = (Inl (GlibError msg), w) \<and> exception_text code msg"
proof -
  obtain msg where m: "m (firewalld w) = (Inl (GlibError msg), firewalld w)" "exception_text code msg"
    using assms(1) by (auto simp: refuses_def)
  then have "on_fw m w = (Inl (GlibError msg), w)" by (simp add: on_fw_same)
  then show ?thesis using m(2) exception_read(3)[OF m(2) assms(2,3)] assms(4)
    by (simp add: ignore_dbus_error_def prog_simps)
qed

text \<open>A call whose \<open>already\<close> error is ignored makes its change hold.\<close>

lemma ensured:
  assumes "if c then refuses s m (firewalld w) else does v g m (firewalld w)"
    and "c \<Longrightarrow> g (v (firewalld w)) = v (firewalld w)" and "s \<in> {''ALREADY_ENABLED'', ''NOT_ENABLED''}"
  shows "\<exists>r f. ignore_dbus_error None (Some s) (on_fw m) w = (Inr r, w\<lparr>firewalld := f\<rparr>) \<and> v f = g (v (firewalld w))"
proof (cases c)
  case True
  then obtain msg where m: "m (firewalld w) = (Inl (GlibError msg), firewalld w)" "exception_text s msg"
    using assms(1) by (auto simp: refuses_def)
  then have "on_fw m w = (Inl (GlibError msg), w)" by (simp add: on_fw_same)
  moreover have "ignored_error None (Some s) msg = Inr True"
    using exception_read(3)[OF m(2) _ assms(3)] assms(3) by auto
  ultimately have "ignore_dbus_error None (Some s) (on_fw m) w = (Inr None, w)"
    by (simp add: ignore_dbus_error_def prog_simps)
  moreover have "w\<lparr>firewalld := firewalld w\<rparr> = w" by simp
  ultimately show ?thesis using assms(2)[OF True] by metis
next
  case False
  then obtain f where "m (firewalld w) = (Inr (), f)" "v f = g (v (firewalld w))"
    using assms(1) by (auto simp: does_def)
  then show ?thesis by (auto simp: ignore_dbus_error_def on_fw_def prog_simps)
qed

text \<open>The shape the two helpers share.\<close>

lemma changed:
  assumes laws: "firewalld_laws api v ins"
    and m: "\<exists>r f. m w = (Inr r, w\<lparr>firewalld := f\<rparr>) \<and> v f = u1"
    and path: "\<And>x. fst (on_fw (zone_by_name api z) x) = Inr path \<and> snd (on_fw (zone_by_name api z) x) = x"
    and n: "\<And>x. v (firewalld x) = u1 \<Longrightarrow> \<exists>r f. n path x = (Inr r, x\<lparr>firewalld := f\<rparr>) \<and> v f = u2"
  shows "\<exists>f. p_skip (ignore_dbus_error (Some ''ServiceUnknown'') None
      (via api a b (p_then m (via api c d (p_bind (on_fw (zone_by_name api z)) (\<lambda>path. via api path e (n path))))))) w =
    (Inr (), w\<lparr>firewalld := f\<rparr>) \<and> v f = u2"
proof -
  obtain r f where 1: "m w = (Inr r, w\<lparr>firewalld := f\<rparr>)" "v f = u1" using m by blast
  obtain r' f' where 2: "n path (w\<lparr>firewalld := f\<rparr>) = (Inr r', w\<lparr>firewalld := f'\<rparr>)" "v f' = u2"
    using n[of "w\<lparr>firewalld := f\<rparr>"] 1(2) by auto
  have "on_fw (zone_by_name api z) (w\<lparr>firewalld := f\<rparr>) = (Inr path, w\<lparr>firewalld := f\<rparr>)"
    using path[of "w\<lparr>firewalld := f\<rparr>"] by (simp add: prod_eq_iff)
  then have "p_bind (on_fw (zone_by_name api z)) (\<lambda>path. via api path e (n path)) (w\<lparr>firewalld := f\<rparr>) =
      (Inr r', w\<lparr>firewalld := f'\<rparr>)" using 2 by (simp add: prog_simps via_running[OF laws])
  then show ?thesis using 1 2
    by (auto simp: p_skip_def ignore_dbus_error_def via_running[OF laws] p_bind_def p_then_def p_catch_def p_ret_def)
qed

lemma no_change_code_cases: "no_change_code b \<in> {''ALREADY_ENABLED'', ''NOT_ENABLED''}"
  by (simp add: no_change_code_def)

lemma no_change_code_valid: "''INVALID_SERVICE'' \<noteq> no_change_code b"
  by (simp add: no_change_code_def)

lemma put_same: "(p \<in> S) = b \<Longrightarrow> put b p S = S"
  by (auto simp: put_def)

lemma change_service_eq:
  "change_service api b p z =
     p_skip (ignore_dbus_error (Some ''ServiceUnknown'') None
       (via api FIREWALLD_OBJECT ZONE_INTERFACE
         (p_then (ignore_dbus_error None (Some (no_change_code b)) (on_fw (zone_change api b z p)))
           (via api CONFIG_OBJECT CONFIG_INTERFACE
             (p_bind (on_fw (zone_by_name api z)) (\<lambda>path.
               via api path CONFIG_ZONE_INTERFACE
                 (ignore_dbus_error None (Some (no_change_code b)) (on_fw (config_zone_change api b path p)))))))))"
  by (simp add: change_service_def add_service_def remove_service_def no_change_code_def zone_change_def
      config_zone_change_def)

lemma run_law:
  "firewalld_laws api v ins \<Longrightarrow>
     if p \<notin> fv_loaded (v f) then refuses ''INVALID_SERVICE'' (zone_change api b z p) f
     else if (p \<in> fv_running (v f) z) = b then refuses (no_change_code b) (zone_change api b z p) f
     else does v (run_put b p z) (zone_change api b z p) f"
  unfolding firewalld_laws_def running_laws_def by blast

lemma change_service_ok:
  assumes laws: "firewalld_laws api v ins" and z: "z \<in> zones" and p: "p \<in> fv_loaded (v (firewalld w))"
  shows "\<exists>f. change_service api b p z w = (Inr (), w\<lparr>firewalld := f\<rparr>) \<and>
    v f = perm_put b p z (run_put b p z (v (firewalld w)))"
proof -
  let ?u = "v (firewalld w)"
  note code = no_change_code_cases[of b]
  have "permanent_laws api v" using laws by (simp add: firewalld_laws_def)
  then obtain path where path: "\<And>f. zone_by_name api z f = (Inr path, f)"
    and config: "\<And>f. if (p \<in> fv_permanent (v f) z) = b then refuses (no_change_code b) (config_zone_change api b path p) f
      else does v (perm_put b p z) (config_zone_change api b path p) f"
    using z unfolding permanent_laws_def by blast
  have "if (p \<in> fv_running ?u z) = b then refuses (no_change_code b) (zone_change api b z p) (firewalld w)
      else does v (run_put b p z) (zone_change api b z p) (firewalld w)"
    using run_law[OF laws, of p "firewalld w" b z] p by simp
  then have run: "\<exists>r f. ignore_dbus_error None (Some (no_change_code b)) (on_fw (zone_change api b z p)) w =
      (Inr r, w\<lparr>firewalld := f\<rparr>) \<and> v f = run_put b p z ?u"
    by (rule ensured[OF _ _ code, where c = "(p \<in> fv_running ?u z) = b"]) (simp_all add: run_put_def put_same)
  have perm: "\<exists>r f. ignore_dbus_error None (Some (no_change_code b)) (on_fw (config_zone_change api b path p)) x =
      (Inr r, x\<lparr>firewalld := f\<rparr>) \<and> v f = perm_put b p z (v (firewalld x))" for x :: "'a firewall_world"
    by (rule ensured[OF _ _ code, where c = "(p \<in> fv_permanent (v (firewalld x)) z) = b"])
      (rule config, simp add: perm_put_def put_same)
  show ?thesis unfolding change_service_eq
    by (rule changed[OF laws, where path = path], rule run, simp add: on_fw_same path) (metis perm)
qed

lemma change_service_unknown:
  assumes laws: "firewalld_laws api v ins" and p: "p \<notin> fv_loaded (v (firewalld w))"
  shows "\<exists>m. change_service api b p z w = (Inl (GlibError m), w) \<and> parse_dbus_error m = Inr (Some ''INVALID_SERVICE'')"
proof -
  have "refuses ''INVALID_SERVICE'' (zone_change api b z p) (firewalld w)"
    using run_law[OF laws, of p "firewalld w" b z] p by simp
  then obtain m where m: "ignore_dbus_error None (Some (no_change_code b)) (on_fw (zone_change api b z p)) w =
      (Inl (GlibError m), w)" "exception_text ''INVALID_SERVICE'' m"
    using refused[OF _ insertI1 no_change_code_cases no_change_code_valid] by blast
  then show ?thesis using exception_read[OF m(2)] unfolding change_service_eq
    by (simp add: via_running[OF laws] p_skip_def ignore_dbus_error_def[of "Some ''ServiceUnknown''"] p_bind_def
        p_then_def p_catch_def prog_simps)
qed

lemma fw_reload_ok:
  assumes laws: "firewalld_laws api v ins"
  shows "\<exists>f. fw_reload api w = (Inr (), w\<lparr>firewalld := f\<rparr>) \<and>
    v f = (v (firewalld w))\<lparr>fv_running := fv_permanent (v (firewalld w)), fv_loaded := ins\<rparr>"
proof -
  have "does v (\<lambda>u. u\<lparr>fv_running := fv_permanent u, fv_loaded := ins\<rparr>) (reload_runtime api) (firewalld w)"
    using laws by (simp add: firewalld_laws_def)
  then show ?thesis
    by (auto simp: does_def fw_reload_def p_skip_def ignore_dbus_error_def via_running[OF laws] on_fw_def prog_simps
        p_bind_def p_catch_def)
qed

definition same_but_fw :: "'f firewall_world \<Rightarrow> 'f firewall_world \<Rightarrow> bool" where
  "same_but_fw w w' \<longleftrightarrow> (\<exists>f. w' = w\<lparr>firewalld := f\<rparr>)"

definition running :: "('f \<Rightarrow> fw_view) \<Rightarrow> 'f firewall_world \<Rightarrow> string \<Rightarrow> string set" where
  "running v w = fv_running (v (firewalld w))"

definition permanent :: "('f \<Rightarrow> fw_view) \<Rightarrow> 'f firewall_world \<Rightarrow> string \<Rightarrow> string set" where
  "permanent v w = fv_permanent (v (firewalld w))"

definition loaded :: "('f \<Rightarrow> fw_view) \<Rightarrow> 'f firewall_world \<Rightarrow> string set" where
  "loaded v w = fv_loaded (v (firewalld w))"

lemmas view_defs = running_def permanent_def loaded_def same_but_fw_def

lemma firewalld_zone_table:
  assumes laws: "firewalld_laws api v ins"
  shows "zone_table (running v) (permanent v) (loaded v) ins same_but_fw (change_service api) (fw_reload api)"
proof unfold_locales
  fix w w1 w2 w3 :: "'a firewall_world" and z p b
  show "same_but_fw w w" unfolding same_but_fw_def by (rule exI[of _ "firewalld w"]) simp
  show "same_but_fw w1 w2 \<Longrightarrow> same_but_fw w2 w3 \<Longrightarrow> same_but_fw w1 w3" by (auto simp: same_but_fw_def)
  show "\<exists>w'. change_service api b p z w = (Inr (), w') \<and> same_but_fw w w' \<and> loaded v w' = loaded v w \<and>
      running v w' = (running v w)(z := put b p (running v w z)) \<and>
      permanent v w' = (permanent v w)(z := put b p (permanent v w z))" if "z \<in> zones" "p \<in> loaded v w"
    using change_service_ok[OF laws that(1), of p w b] that(2)
    by (auto simp: view_defs run_put_def perm_put_def)
  show "\<exists>m. change_service api b p z w = (Inl (GlibError m), w) \<and> parse_dbus_error m = Inr (Some ''INVALID_SERVICE'')"
    if "p \<notin> loaded v w"
    using change_service_unknown[OF laws, of p w b z] that by (simp add: loaded_def)
  show "\<exists>w'. fw_reload api w = (Inr (), w') \<and> same_but_fw w w' \<and> loaded v w' = ins \<and>
      running v w' = permanent v w \<and> permanent v w' = permanent v w"
    using fw_reload_ok[OF laws, of w] by (auto simp: view_defs)
qed

section \<open>Which ports ought to be open\<close>

definition is_on :: "'f firewall_world \<Rightarrow> fw_component \<Rightarrow> bool" where
  "is_on w d \<longleftrightarrow> map_of (enabled_attr w) (component_id (fw_obj d)) = Some True"

definition registered :: "'f firewall_world \<Rightarrow> fw_component set" where
  "registered w = set (od_values (all_firewall_components w))"

definition wants :: "fw_component \<Rightarrow> string \<Rightarrow> string \<Rightarrow> bool" where
  "wants d z p \<longleftrightarrow> p \<in> set (fw_ports d) \<and> (z = ''external'' \<longrightarrow> fw_is_external d)"

definition managed :: "'f firewall_world \<Rightarrow> string set" where
  "managed w = (\<Union>d \<in> registered w. set (fw_ports d))"

text \<open>The abstract firewall: a port is open in a zone when an enabled component wants it there.\<close>

definition asked :: "'f firewall_world \<Rightarrow> string \<Rightarrow> string set" where
  "asked w z = {p. \<exists>d \<in> registered w. wants d z p \<and> is_on w d}"

definition known_components :: "'f firewall_world \<Rightarrow> bool" where
  "known_components w \<longleftrightarrow> inj_on (\<lambda>d. component_id (fw_obj d)) (registered w) \<and>
     (\<forall>d \<in> registered w. map_of (enabled_attr w) (component_id (fw_obj d)) \<noteq> None)"

definition fw_consistent :: "('f \<Rightarrow> fw_view) \<Rightarrow> 'f firewall_world \<Rightarrow> bool" where
  "fw_consistent v w \<longleftrightarrow> known_components w \<and>
     (\<forall>z \<in> zones. running v w z \<inter> managed w = asked w z \<and> permanent v w z = running v w z)"

section \<open>Opening and closing the ports of a component\<close>

lemma enabled_services:
  assumes "firewalld_laws api v ins"
  shows "\<exists>xs. get_enabled_services api z w = (Inr xs, w) \<and> set xs = running v w z"
proof -
  obtain xs where "get_services api z (firewalld w) = (Inr xs, firewalld w)" "set xs = running v w z"
    using assms unfolding firewalld_laws_def running_laws_def running_def by metis
  then show ?thesis
    by (auto simp: get_enabled_services_def ignore_dbus_error_def via_running[OF assms] on_fw_same prog_simps
        p_bind_def p_catch_def)
qed

lemma p_for_cong: "(\<And>x. x \<in> set xs \<Longrightarrow> f x = g x) \<Longrightarrow> p_for f xs = p_for g xs"
  by (induction xs) auto

lemma p_then_cong:
  "m u = m' u \<Longrightarrow> (\<And>x. x = snd (m' u) \<Longrightarrow> n x = n' x) \<Longrightarrow> p_then m n u = p_then m' n' u"
  by (auto simp: p_then_def p_bind_def split: prod.splits sum.splits)

lemma p_for_cong_inv:
  assumes "\<And>x v. x \<in> set xs \<Longrightarrow> P v \<Longrightarrow> f x v = g x v \<and> P (snd (g x v))" and "P w"
  shows "p_for f xs w = p_for g xs w"
  using assms
proof (induction xs arbitrary: w)
  case (Cons x xs)
  have "f x w = g x w" "P (snd (g x w))" using Cons.prems by simp_all
  moreover have "p_for f xs w' = p_for g xs w'" if "P w'" for w' using Cons.IH[OF _ that] Cons.prems(1) by simp
  ultimately show ?case by (auto simp: p_then_def p_bind_def split: prod.splits sum.splits)
qed simp

definition to_open :: "fw_component \<Rightarrow> string \<Rightarrow> string set" where
  "to_open c z = {p. wants c z p}"

definition to_close :: "'f firewall_world \<Rightarrow> fw_component \<Rightarrow> string \<Rightarrow> string set" where
  "to_close w c z = {p \<in> set (fw_ports c). \<not> (\<exists>d \<in> registered w.
     wants d z p \<and> component_id (fw_obj c) \<noteq> component_id (fw_obj d) \<and> is_on w d)}"

text \<open>The state a component is in after a list of changes.\<close>

definition last_switch :: "(bool \<times> fw_component) list \<Rightarrow> fw_component \<Rightarrow> bool \<Rightarrow> bool" where
  "last_switch cs d b0 = fold (\<lambda>(b, c) x. if d = c then b else x) cs b0"

text \<open>The code's helpers over any firewalld that behaves as documented.\<close>

locale running_firewalld =
  fixes api :: "'f firewalld_api" and v :: "'f \<Rightarrow> fw_view" and ins :: "string set"
  assumes laws: "firewalld_laws api v ins"

sublocale running_firewalld \<subseteq>
  zone_table "running v" "permanent v" "loaded v" ins same_but_fw "change_service api" "fw_reload api"
  by (rule firewalld_zone_table[OF laws])

context running_firewalld
begin

lemma registered_same: "same_but_fw w w' \<Longrightarrow> registered w' = registered w"
  by (auto simp: same_but_fw_def registered_def)

lemma is_on_same: "same_but_fw w w' \<Longrightarrow> is_on w' d = is_on w d"
  by (auto simp: same_but_fw_def is_on_def)

lemma known_same: "same_but_fw w w' \<Longrightarrow> known_components w' = known_components w"
proof -
  assume "same_but_fw w w'"
  then obtain f where w': "w' = w\<lparr>firewalld := f\<rparr>" by (auto simp: same_but_fw_def)
  show ?thesis unfolding w' known_components_def registered_def by simp
qed

lemma try_with_reload_retried: "try_with_reload api = retried"
  by (rule ext) (simp add: try_with_reload_def retried_def)

lemma open_ports_ends:
  assumes agree: "agree w"
  shows "ends True (to_open c) (zones \<times> set (fw_ports c)) w (open_ports api c w)"
proof -
  define T where "T = (\<lambda>z. to_open c z - running v w z)"
  obtain internal external where lists: "get_enabled_services api ''internal'' w = (Inr internal, w)"
      "get_enabled_services api ''external'' w = (Inr external, w)"
    and sets: "set internal = running v w ''internal''" "set external = running v w ''external''"
    using enabled_services[OF laws] by metis
  have "p_for (open_port api c internal external) (fw_ports c) = p_for (step True T) (fw_ports c)"
    by (rule p_for_cong)
      (use sets in \<open>auto simp: open_port_def step_def only_if_def T_def to_open_def wants_def change_service_def\<close>)
  then have "open_ports api c w = p_for (step True T) (fw_ports c) w"
    using lists by (simp add: open_ports_def prog_simps)
  moreover have "ready True (to_open c) T w" using agree by (auto simp: ready_def T_def)
  ultimately show ?thesis using steps_end by simp
qed

lemma others_known:
  assumes "known_components w"
  shows "others_on_port c p ext w = (Inr (\<exists>d \<in> registered w. wants d (if ext then ''external'' else ''internal'') p \<and>
      component_id (fw_obj c) \<noteq> component_id (fw_obj d) \<and> is_on w d), w)"
proof -
  let ?ds = "filter (\<lambda>d. p \<in> set (fw_ports d) \<and> component_id (fw_obj c) \<noteq> component_id (fw_obj d) \<and>
      (if ext then fw_is_external d else True)) (od_values (all_firewall_components w))"
  have "p_map (\<lambda>d. follower_is_enabled (fw_obj d)) ds w = (Inr (map (is_on w) ds), w)"
    if "set ds \<subseteq> registered w" for ds
    using that
  proof (induction ds)
    case (Cons d ds)
    then have "follower_is_enabled (fw_obj d) w = (Inr (is_on w d), w)"
      using assms by (auto simp: follower_is_enabled_def is_on_def known_components_def split: option.splits)
    with Cons show ?case by (simp add: prog_simps)
  qed (simp add: prog_simps)
  moreover have "set ?ds \<subseteq> registered w" by (auto simp: registered_def)
  ultimately have "others_on_port c p ext w = (Inr (True \<in> set (map (is_on w) ?ds)), w)"
    by (simp add: others_on_port_def prog_simps)
  moreover have "True \<in> set (map (is_on w) ?ds) \<longleftrightarrow>
      (\<exists>d \<in> registered w. wants d (if ext then ''external'' else ''internal'') p \<and>
        component_id (fw_obj c) \<noteq> component_id (fw_obj d) \<and> is_on w d)"
    by (auto simp: registered_def wants_def)
  ultimately show ?thesis by simp
qed

lemma close_port_step:
  assumes sets: "set internal = running v w ''internal''" "set external = running v w ''external''"
    and known: "known_components w" and same: "same_but_fw w u" and p: "p \<in> set (fw_ports c)"
  shows "close_port api c internal external p u = step False (\<lambda>z. to_close w c z \<inter> running v w z) p u"
proof -
  have others: "others_on_port c p ext x =
      (Inr (p \<notin> to_close w c (if ext then ''external'' else ''internal'')), x)" if "same_but_fw w x" for ext x
  proof -
    have "known_components x" using known known_same[OF that] by simp
    then show ?thesis using others_known[of x c p ext] p registered_same[OF that] is_on_same[OF that]
      by (simp add: to_close_def)
  qed
  have one: "(if p \<in> S then p_bind (others_on_port c p ext) (\<lambda>b. if \<not> b then remove_service api p z else p_ret ())
      else p_ret ()) x = only_if (p \<in> to_close w c z \<inter> S) (change_service api False p z) x"
    if "same_but_fw w x" "z = (if ext then ''external'' else ''internal'')" for S ext z x
    unfolding that(2) p_bind_def others[OF that(1)] by (simp add: p_bind_def only_if_def change_service_def p_ret_def others[OF that(1)])
  have keeps: "same_but_fw w (snd (only_if b (change_service api False p z) x))" if "same_but_fw w x" "z \<in> zones" for b z x
    using that change_ok[OF that(2), of p x False] change_unknown[OF that(2), of p x False]
      same_trans[OF that(1)] by (cases "p \<in> loaded v x") (auto simp: only_if_def prog_simps)
  have "same_but_fw w (snd (only_if b (change_service api False p ''internal'') u))" for b
    using keeps[OF same] by (simp add: zones_def)
  then show ?thesis unfolding close_port_def step_def sets
    using one[OF same, of "''internal''" False] one[of _ "''external''" True]
    by (intro p_then_cong) simp_all
qed

lemma close_ports_ends:
  assumes agree: "agree w" and known: "known_components w"
  shows "ends False (to_close w c) (zones \<times> set (fw_ports c)) w (close_ports api c w)"
proof -
  define T where "T = (\<lambda>z. to_close w c z \<inter> running v w z)"
  obtain internal external where lists: "get_enabled_services api ''internal'' w = (Inr internal, w)"
      "get_enabled_services api ''external'' w = (Inr external, w)"
    and sets: "set internal = running v w ''internal''" "set external = running v w ''external''"
    using enabled_services[OF laws] by metis
  have ready: "ready False (to_close w c) T w" using agree by (auto simp: ready_def T_def)
  have "p_for (close_port api c internal external) (fw_ports c) w = p_for (step False T) (fw_ports c) w"
  proof (rule p_for_cong_inv[where P = "\<lambda>u. same_but_fw w u \<and> ready False (to_close w c) T u"])
    fix p u assume p: "p \<in> set (fw_ports c)" and u: "same_but_fw w u \<and> ready False (to_close w c) T u"
    have "close_port api c internal external p u = step False T p u"
      unfolding T_def using close_port_step[OF sets known _ p] u by blast
    moreover have "towards False (to_close w c) u (snd (step False T p u))"
      using step_ends u by (simp add: ends_def)
    ultimately show "close_port api c internal external p u = step False T p u \<and>
        same_but_fw w (snd (step False T p u)) \<and> ready False (to_close w c) T (snd (step False T p u))"
      using u ready_keeps same_trans unfolding towards_def by blast
  qed (simp add: ready same_refl)
  then show ?thesis using lists steps_end[OF ready] by (simp add: close_ports_def prog_simps)
qed

lemma to_close_same: "same_but_fw w w' \<Longrightarrow> to_close w' c = to_close w c"
  by (rule ext) (simp add: to_close_def registered_same is_on_same)

lemma open_settles:
  assumes "agree w" and "set (fw_ports c) \<subseteq> ins"
  shows "\<exists>w'. try_with_reload api (open_ports api c) w = (Inr (), w') \<and> same_but_fw w w' \<and> agree w' \<and>
    (\<forall>z \<in> zones. running v w' z = running v w z \<union> to_open c z)"
  using retried_ends[of w True "to_open c" "fw_ports c" "open_ports api c"] open_ports_ends assms
  by (auto simp: try_with_reload_retried to_open_def wants_def)

lemma close_settles:
  assumes "agree w" and "set (fw_ports c) \<subseteq> ins" and "known_components w"
  shows "\<exists>w'. try_with_reload api (close_ports api c) w = (Inr (), w') \<and> same_but_fw w w' \<and> agree w' \<and>
    (\<forall>z \<in> zones. running v w' z = running v w z - to_close w c z)"
proof -
  have "ends False (to_close w c) (zones \<times> set (fw_ports c)) u (close_ports api c u)"
    if "same_but_fw w u" "agree u" for u
    using close_ports_ends[OF that(2), of c] known_same[OF that(1)] to_close_same[OF that(1)] assms(3) by simp
  then show ?thesis
    using retried_ends[of w False "to_close w c" "fw_ports c" "close_ports api c"] assms
    by (auto simp: try_with_reload_retried to_close_def)
qed

text \<open>One change of a component, and what it does to the flags.\<close>

definition switch :: "bool \<times> fw_component \<Rightarrow> ('f firewall_world, unit) prog" where
  "switch bc = (if fst bc then firewall_enable api (snd bc) else firewall_disable api (snd bc))"

definition flagged :: "bool \<times> fw_component \<Rightarrow> 'f firewall_world \<Rightarrow> 'f firewall_world" where
  "flagged bc w = w\<lparr>enabled_attr := od_set (enabled_attr w) (component_id (fw_obj (snd bc))) (fst bc)\<rparr>"

lemma flagged_simps:
  "registered (flagged bc w) = registered w" "managed (flagged bc w) = managed w"
  "running v (flagged bc w) = running v w" "permanent v (flagged bc w) = permanent v w"
  by (simp_all add: flagged_def registered_def managed_def running_def permanent_def)

lemma is_on_flagged:
  assumes "known_components w" and "c \<in> registered w" and "d \<in> registered w"
  shows "is_on (flagged (b, c) w) d \<longleftrightarrow> (if d = c then b else is_on w d)"
  using assms by (auto simp: is_on_def flagged_def odict_simps known_components_def inj_on_def)

lemma known_flagged: "known_components w \<Longrightarrow> known_components (flagged bc w)"
  by (auto simp: known_components_def flagged_simps) (auto simp: flagged_def odict_simps)

lemma asked_flagged_on:
  assumes "known_components w" and "c \<in> registered w"
  shows "asked (flagged (True, c) w) z = asked w z \<union> to_open c z"
proof -
  have "is_on (flagged (True, c) w) d \<longleftrightarrow> d = c \<or> is_on w d" if "d \<in> registered w" for d
    using is_on_flagged[OF assms that] by simp
  then have "p \<in> asked (flagged (True, c) w) z \<longleftrightarrow> (\<exists>d \<in> registered w. wants d z p \<and> (d = c \<or> is_on w d))" for p
    unfolding asked_def flagged_simps by blast
  then show ?thesis using assms(2) unfolding asked_def to_open_def by blast
qed

lemma asked_flagged_off:
  assumes "known_components w" and "c \<in> registered w"
  shows "asked (flagged (False, c) w) z = asked w z - to_close w c z"
proof -
  have "component_id (fw_obj c) \<noteq> component_id (fw_obj d) \<longleftrightarrow> d \<noteq> c" if "d \<in> registered w" for d
    using assms that by (auto simp: known_components_def inj_on_def)
  then have "p \<in> to_close w c z \<longleftrightarrow> p \<in> set (fw_ports c) \<and> \<not> (\<exists>d \<in> registered w. wants d z p \<and> d \<noteq> c \<and> is_on w d)" for p
    unfolding to_close_def by blast
  moreover have "p \<in> asked (flagged (False, c) w) z \<longleftrightarrow> (\<exists>d \<in> registered w. wants d z p \<and> d \<noteq> c \<and> is_on w d)" for p
    using is_on_flagged[OF assms] by (auto simp: asked_def flagged_simps)
  moreover have "wants d z p \<Longrightarrow> p \<in> set (fw_ports d)" for d p by (simp add: wants_def)
  ultimately show ?thesis unfolding asked_def by blast
qed

lemma to_close_flagged:
  assumes "known_components w" and "c \<in> registered w"
  shows "to_close (flagged (b, c) w) c z = to_close w c z"
proof -
  have "is_on (flagged (b, c) w) d = is_on w d"
    if "d \<in> registered w" "component_id (fw_obj c) \<noteq> component_id (fw_obj d)" for d
    using is_on_flagged[OF assms that(1)] that(2) by auto
  then show ?thesis unfolding to_close_def flagged_simps by blast
qed

lemma switch_ok:
  assumes con: "fw_consistent v w" and c: "c \<in> registered w" and ins: "managed w \<subseteq> ins"
  shows "\<exists>w'. switch (b, c) w = (Inr (), w') \<and> same_but_fw (flagged (b, c) w) w' \<and> fw_consistent v w' \<and>
    (\<forall>z \<in> zones. running v w' z - managed w = running v w z - managed w)"
proof -
  let ?u = "flagged (b, c) w"
  have known: "known_components w" "known_components ?u" using con known_flagged by (auto simp: fw_consistent_def)
  have agree: "agree ?u" using con by (simp add: agree_def flagged_simps fw_consistent_def)
  have ports: "set (fw_ports c) \<subseteq> managed w" using c by (auto simp: managed_def)
  then have "set (fw_ports c) \<subseteq> ins" using ins by simp
  then obtain w' where w': "switch (b, c) w = (Inr (), w')" "same_but_fw ?u w'" "agree w'"
    and run: "\<forall>z \<in> zones. running v w' z =
      (if b then running v w z \<union> to_open c z else running v w z - to_close w c z)"
    using open_settles[OF agree, of c] close_settles[OF agree _ known(2), of c] to_close_flagged[OF known(1) c, of b]
    by (cases b) (auto simp: switch_def firewall_enable_def firewall_disable_def follower_enable_def
        follower_disable_def follower_set_enabled_def flagged_def running_def prog_simps)
  have sub: "to_open c z \<subseteq> managed w" "to_close w c z \<subseteq> managed w" for z
    using ports by (auto simp: to_open_def to_close_def wants_def)
  have same: "registered w' = registered w" "managed w' = managed w"
    using registered_same[OF w'(2)] by (simp_all add: managed_def flagged_simps)
  have asked: "asked w' z = asked ?u z" for z
    using is_on_same[OF w'(2)] by (simp add: asked_def same flagged_simps)
  have "running v w' z \<inter> managed w' = asked w' z" if "z \<in> zones" for z
  proof -
    have "running v w z \<inter> managed w = asked w z" using con that by (simp add: fw_consistent_def)
    then show ?thesis using run that sub asked[of z] asked_flagged_on[OF known(1) c] asked_flagged_off[OF known(1) c]
      by (cases b) (simp_all add: same Int_Un_distrib2 Int_absorb2 Diff_Int_distrib2 Int_absorb1)
  qed
  then have "fw_consistent v w'"
    using w'(3) known(2) known_same[OF w'(2)] by (simp add: fw_consistent_def agree_def)
  moreover have "\<forall>z \<in> zones. running v w' z - managed w = running v w z - managed w"
    using run sub by (cases b) (simp_all, blast+)
  ultimately show ?thesis using w' by blast
qed

lemma switches_ok:
  assumes "fw_consistent v w" and "snd ` set cs \<subseteq> registered w" and "managed w \<subseteq> ins"
  shows "\<exists>w'. p_for switch cs w = (Inr (), w') \<and> fw_consistent v w' \<and> registered w' = registered w \<and>
    (\<forall>z \<in> zones. running v w' z - managed w = running v w z - managed w) \<and>
    (\<forall>d \<in> registered w. is_on w' d = last_switch cs d (is_on w d))"
  using assms
proof (induction cs arbitrary: w)
  case Nil
  then show ?case by (simp add: prog_simps last_switch_def)
next
  case (Cons bc cs)
  obtain b c where bc: "bc = (b, c)" by (cases bc)
  have c: "c \<in> registered w" using Cons.prems bc by simp
  obtain w1 where w1: "switch bc w = (Inr (), w1)" "same_but_fw (flagged (b, c) w) w1" "fw_consistent v w1"
    and run1: "\<forall>z \<in> zones. running v w1 z - managed w = running v w z - managed w"
    using switch_ok[OF Cons.prems(1) c Cons.prems(3)] bc by blast
  have reg: "registered w1 = registered w" "managed w1 = managed w"
    using registered_same[OF w1(2)] by (simp_all add: managed_def flagged_simps)
  have on: "is_on w1 d = (if d = c then b else is_on w d)" if "d \<in> registered w" for d
    using is_on_same[OF w1(2)] is_on_flagged[OF _ c that] Cons.prems(1) by (simp add: fw_consistent_def)
  obtain w2 where "p_for switch cs w1 = (Inr (), w2)" "fw_consistent v w2" "registered w2 = registered w"
      "\<forall>z \<in> zones. running v w2 z - managed w = running v w1 z - managed w"
      "\<forall>d \<in> registered w. is_on w2 d = last_switch cs d (is_on w1 d)"
    using Cons.IH[OF w1(3)] Cons.prems reg by auto
  then show ?case using w1(1) run1 on bc by (auto simp: prog_simps last_switch_def)
qed

end

section \<open>A reference firewalld\<close>

text \<open>A firewalld in memory, that meets the laws and computes.\<close>

record table_state =
  ts_running :: "(string \<times> string) list"
  ts_permanent :: "(string \<times> string) list"
  ts_loaded :: "string list"
  ts_direct :: "(string \<times> string list) list"
  ts_direct_permanent :: "(string \<times> string list) list"

definition table_view :: "table_state \<Rightarrow> fw_view" where
  "table_view s = \<lparr>fv_running = \<lambda>z. {p. (z, p) \<in> set (ts_running s)},
     fv_permanent = \<lambda>z. {p. (z, p) \<in> set (ts_permanent s)}, fv_loaded = set (ts_loaded s),
     fv_direct = set (ts_direct s), fv_direct_permanent = set (ts_direct_permanent s)\<rparr>"

definition fails_with :: "string \<Rightarrow> ('w, 'a) prog" where
  "fails_with code = p_raise (GlibError (''GDBus.Error:org.fedoraproject.FirewallD1.Exception: '' @ code @ '': ''))"

definition table_firewalld :: "string list \<Rightarrow> table_state firewalld_api" where
  "table_firewalld installed =
     \<lparr>proxy = \<lambda>_ _. p_ret (),
      reload_runtime = p_mod (\<lambda>s. s\<lparr>ts_running := ts_permanent s, ts_loaded := installed\<rparr>),
      get_services = \<lambda>z. p_get (\<lambda>s. map snd (filter (\<lambda>e. fst e = z) (ts_running s))),
      zone_interfaces = \<lambda>_. p_ret [],
      zone_add = \<lambda>z p s. if p \<notin> set (ts_loaded s) then fails_with ''INVALID_SERVICE'' s
        else if (z, p) \<in> set (ts_running s) then fails_with ''ALREADY_ENABLED'' s
        else p_mod (\<lambda>s. s\<lparr>ts_running := (z, p) # ts_running s\<rparr>) s,
      zone_remove = \<lambda>z p s. if p \<notin> set (ts_loaded s) then fails_with ''INVALID_SERVICE'' s
        else if (z, p) \<notin> set (ts_running s) then fails_with ''NOT_ENABLED'' s
        else p_mod (\<lambda>s. s\<lparr>ts_running := removeAll (z, p) (ts_running s)\<rparr>) s,
      zone_by_name = p_ret,
      config_zone_add = \<lambda>z p s. if (z, p) \<in> set (ts_permanent s) then fails_with ''ALREADY_ENABLED'' s
        else p_mod (\<lambda>s. s\<lparr>ts_permanent := (z, p) # ts_permanent s\<rparr>) s,
      config_zone_remove = \<lambda>z p s. if (z, p) \<notin> set (ts_permanent s) then fails_with ''NOT_ENABLED'' s
        else p_mod (\<lambda>s. s\<lparr>ts_permanent := removeAll (z, p) (ts_permanent s)\<rparr>) s,
      service_by_name = p_ret,
      service_ports = \<lambda>p. p_ret [(p, ''tcp'')],
      query_direct = \<lambda>i r. p_get (\<lambda>s. (i, r) \<in> set (ts_direct s)),
      add_direct = \<lambda>i r. p_mod (\<lambda>s. s\<lparr>ts_direct := (i, r) # ts_direct s\<rparr>),
      remove_direct = \<lambda>i r. p_mod (\<lambda>s. s\<lparr>ts_direct := removeAll (i, r) (ts_direct s)\<rparr>),
      config_query_direct = \<lambda>i r. p_get (\<lambda>s. (i, r) \<in> set (ts_direct_permanent s)),
      config_add_direct = \<lambda>i r. p_mod (\<lambda>s. s\<lparr>ts_direct_permanent := (i, r) # ts_direct_permanent s\<rparr>),
      config_remove_direct = \<lambda>i r. p_mod (\<lambda>s. s\<lparr>ts_direct_permanent := removeAll (i, r) (ts_direct_permanent s)\<rparr>)\<rparr>"

lemma refuses_fails: "m f = fails_with code f \<Longrightarrow> refuses code m f"
  by (auto simp: refuses_def fails_with_def exception_text_def prog_simps)

lemma table_running_laws: "running_laws (table_firewalld ins) table_view"
proof -
  have "if p \<notin> fv_loaded (table_view f) then refuses ''INVALID_SERVICE'' (zone_change (table_firewalld ins) b z p) f
    else if (p \<in> fv_running (table_view f) z) = b then refuses (no_change_code b) (zone_change (table_firewalld ins) b z p) f
    else does table_view (run_put b p z) (zone_change (table_firewalld ins) b z p) f" for b p z f
    by (cases b) (auto simp: table_firewalld_def table_view_def zone_change_def no_change_code_def does_def
        run_put_def put_def prog_simps split: if_splits intro!: refuses_fails ext)
  moreover have "\<exists>xs. get_services (table_firewalld ins) z f = (Inr xs, f) \<and> set xs = fv_running (table_view f) z" for z f
    by (force simp: table_firewalld_def table_view_def prog_simps)
  ultimately show ?thesis unfolding running_laws_def by blast
qed

lemma table_permanent_laws: "permanent_laws (table_firewalld ins) table_view"
proof -
  have "if (p \<in> fv_permanent (table_view f) z) = b then refuses (no_change_code b) (config_zone_change (table_firewalld ins) b z p) f
    else does table_view (perm_put b p z) (config_zone_change (table_firewalld ins) b z p) f" for b p z f
    by (cases b) (auto simp: table_firewalld_def table_view_def config_zone_change_def no_change_code_def does_def
        perm_put_def put_def prog_simps split: if_splits intro!: refuses_fails ext)
  moreover have "zone_by_name (table_firewalld ins) z f = (Inr z, f)" for z f
    by (simp add: table_firewalld_def prog_simps)
  ultimately show ?thesis unfolding permanent_laws_def by blast
qed

lemma table_firewalld_laws: "firewalld_laws (table_firewalld ins) table_view (set ins)"
proof -
  have "does table_view (\<lambda>u. u\<lparr>fv_running := fv_permanent u, fv_loaded := set ins\<rparr>)
      (reload_runtime (table_firewalld ins)) f" for f
    by (simp add: table_firewalld_def does_def table_view_def prog_simps)
  moreover have "proxy (table_firewalld ins) path iface f = (Inr (), f)" for path iface f
    by (simp add: table_firewalld_def prog_simps)
  ultimately show ?thesis using table_running_laws table_permanent_laws by (simp add: firewalld_laws_def)
qed

interpretation table_fw: running_firewalld "table_firewalld ins" table_view "set ins" for ins
  by unfold_locales (rule table_firewalld_laws)

section \<open>The ports that are open\<close>

text \<open>C12: Enabling and disabling firewall components, in any order, keeps the zones equal to what
  the enabled components ask for: no call raises, a managed port is open in a zone exactly
  when some enabled component wants it there (also when components share the port and when
  firewalld must first be reloaded to know the service), the permanent configuration follows,
  other services are untouched, and each component is in the state of its last change.\<close>

theorem firewall_follows_components:
  assumes "firewalld_laws api v ins" and "fw_consistent v w" and "snd ` set cs \<subseteq> registered w" and "managed w \<subseteq> ins"
  shows "\<exists>w'. p_for (\<lambda>(b, c). if b then firewall_enable api c else firewall_disable api c) cs w = (Inr (), w') \<and> registered w' = registered w \<and>
    (\<forall>z \<in> {''internal'', ''external''}. running v w' z = (running v w z - managed w) \<union> asked w' z \<and>
       permanent v w' z = running v w' z) \<and>
    (\<forall>d \<in> registered w. is_on w' d = last_switch cs d (is_on w d))"
proof -
  have rf: "running_firewalld api v ins" using assms(1) by unfold_locales
  obtain w' where w': "p_for (running_firewalld.switch api) cs w = (Inr (), w')" "fw_consistent v w'"
      "registered w' = registered w"
    and rest: "\<forall>z \<in> zones. running v w' z - managed w = running v w z - managed w"
    and on: "\<forall>d \<in> registered w. is_on w' d = last_switch cs d (is_on w d)"
    using running_firewalld.switches_ok[OF rf assms(2-4)] by blast
  have eq: "running_firewalld.switch api = (\<lambda>(b, c). if b then firewall_enable api c else firewall_disable api c)"
    by (rule ext) (simp add: running_firewalld.switch_def[OF rf] split_beta)
  have "managed w' = managed w" using w'(3) by (simp add: managed_def)
  then have zone: "running v w' z = (running v w z - managed w) \<union> asked w' z \<and> permanent v w' z = running v w' z"
    if "z \<in> zones" for z
    using w'(2) rest that unfolding fw_consistent_def by blast
  show ?thesis unfolding zones_def[symmetric] eq[symmetric] using w'(1,3) zone on by blast
qed

definition shop :: fw_component where
  "shop = \<lparr>fw_obj = \<lparr>component_id = ''firewall-shop'', comp_app_id = None, is_leader = False, classes = [],
     info = None, packages = None\<rparr>, fw_name = None, fw_ports = [''http''], fw_is_external = False\<rparr>"

definition blog :: fw_component where
  "blog = \<lparr>fw_obj = \<lparr>component_id = ''firewall-blog'', comp_app_id = None, is_leader = False, classes = [],
     info = None, packages = None\<rparr>, fw_name = None, fw_ports = [''http'', ''https''], fw_is_external = True\<rparr>"

definition fresh_box :: "table_state firewall_world" where
  "fresh_box = \<lparr>kv = [], module_versions = [], enabled_attr = [(''firewall-shop'', False), (''firewall-blog'', False)],
     firewalld = \<lparr>ts_running = [(''external'', ''ssh'')], ts_permanent = [(''external'', ''ssh'')], ts_loaded = [],
                  ts_direct = [], ts_direct_permanent = []\<rparr>,
     all_firewall_components = [(''firewall-shop'', shop), (''firewall-blog'', blog)], port_details_cache = []\<rparr>"

lemmas box_defs = fresh_box_def shop_def blog_def registered_def managed_def is_on_def wants_def asked_def

lemma fresh_box_consistent: "fw_consistent table_view fresh_box"
  by (auto simp: fw_consistent_def known_components_def zones_def running_def permanent_def table_view_def box_defs)

theorem firewall_follows_components_witness:
  "\<exists>w'. p_for (\<lambda>(b, c). if b then firewall_enable (table_firewalld [''http'', ''https'']) c
        else firewall_disable (table_firewalld [''http'', ''https'']) c)
      [(True, shop), (True, blog), (False, shop)] fresh_box = (Inr (), w') \<and>
    \<not> is_on w' shop \<and> is_on w' blog \<and> ''http'' \<in> running table_view w' ''external''"
proof -
  let ?cs = "[(True, shop), (True, blog), (False, shop)]"
  have ne: "shop \<noteq> blog" by (simp add: shop_def blog_def)
  have reg: "snd ` set ?cs \<subseteq> registered fresh_box" "managed fresh_box \<subseteq> set [''http'', ''https'']"
    by (auto simp: fresh_box_def registered_def managed_def shop_def blog_def)
  obtain w' where w': "p_for (\<lambda>(b, c). if b then firewall_enable (table_firewalld [''http'', ''https'']) c
        else firewall_disable (table_firewalld [''http'', ''https'']) c) ?cs fresh_box = (Inr (), w')"
      "registered w' = registered fresh_box"
      "running table_view w' ''external'' = (running table_view fresh_box ''external'' - managed fresh_box) \<union> asked w' ''external''"
      "\<forall>d \<in> registered fresh_box. is_on w' d = last_switch ?cs d (is_on fresh_box d)"
    using firewall_follows_components[OF table_firewalld_laws fresh_box_consistent reg] by blast
  have on: "\<not> is_on w' shop" "is_on w' blog"
    using w'(4) ne by (auto simp: fresh_box_def registered_def last_switch_def)
  have "blog \<in> registered w'" "wants blog ''external'' ''http''"
    using w'(2) by (simp_all add: fresh_box_def registered_def wants_def blog_def)
  then have "''http'' \<in> asked w' ''external''" using on(2) by (auto simp: asked_def)
  then show ?thesis using w'(1,3) on by blast
qed

end
