(* ===== verification/FirewallChecks.thy ===== *)
theory FirewallChecks
  imports FirewallLaws
begin

text \<open>
  The diagnostics of the firewall components, their behaviour when firewalld is not running,
  and the protection of local services.
\<close>

section \<open>Diagnostics\<close>

text \<open>The look-up of a service by name either finds it or fails; its ports can be read.\<close>

definition details_laws :: "'f firewalld_api \<Rightarrow> bool" where
  "details_laws api \<longleftrightarrow>
     (\<forall>p f. (\<exists>path. service_by_name api p f = (Inr path, f)) \<or>
            (\<exists>m. service_by_name api p f = (Inl (GlibError m), f))) \<and>
     (\<forall>path f. \<exists>ds. service_ports api path f = (Inr ds, f))"

lemma port_details_found:
  assumes "firewalld_laws api v ins" and "details_laws api"
  shows "\<exists>ds w'. get_port_details api p w = (Inr ds, w')"
proof (cases "map_of (port_details_cache w) p")
  case (Some ds)
  then show ?thesis by (simp add: get_port_details_def prog_simps)
next
  case None
  consider path where "service_by_name api p (firewalld w) = (Inr path, firewalld w)"
    | m where "service_by_name api p (firewalld w) = (Inl (GlibError m), firewalld w)"
    using assms(2) unfolding details_laws_def by blast
  then show ?thesis
  proof cases
    case (1 path)
    obtain ds where "service_ports api path (firewalld w) = (Inr ds, firewalld w)"
      using assms(2) unfolding details_laws_def by blast
    with 1 None show ?thesis
      by (simp add: get_port_details_def prog_simps via_running[OF assms(1)] on_fw_same p_bind_def p_catch_def p_then_def)
  next
    case (2 m)
    with None show ?thesis
      by (simp add: get_port_details_def prog_simps via_running[OF assms(1)] on_fw_same p_bind_def p_catch_def)
  qed
qed

lemma ports_details_found:
  assumes "firewalld_laws api v ins" and "details_laws api"
  shows "\<exists>pds w'. ports_details api c w = (Inr pds, w') \<and> map fst pds = fw_ports c"
proof -
  define look where "look = (\<lambda>port. p_bind (get_port_details api port) (\<lambda>ds. p_ret (port, ds)))"
  have "\<exists>pds w'. p_map look ps w = (Inr pds, w') \<and> map fst pds = ps" for ps
  proof (induction ps arbitrary: w)
    case (Cons p ps)
    obtain ds w1 where "get_port_details api p w = (Inr ds, w1)" using port_details_found[OF assms] by blast
    then have "look p w = (Inr (p, ds), w1)" by (simp add: look_def prog_simps)
    moreover obtain pds w2 where "p_map look ps w1 = (Inr pds, w2)" "map fst pds = ps" using Cons.IH by blast
    ultimately show ?case by (auto simp: p_bind_eval p_ret_def)
  qed (simp add: prog_simps)
  then show ?thesis by (simp add: ports_details_def look_def)
qed

lemma port_checks_pass:
  "(\<forall>ch \<in> set (port_checks c internal external pd). check_result ch = PASSED) \<longleftrightarrow>
     fst pd \<in> set internal \<and> (fst pd \<in> set external) = fw_is_external c"
  by (auto simp: port_checks_def Let_def result_of_def)

text \<open>The diagnosis of an enabled firewall component in a consistent firewall returns two
  checks per port, and all of them pass exactly when the component is external or no other
  enabled external component opens one of its ports: an internal-only component whose port is
  shared with an enabled external one is reported as failed.\<close>

theorem firewall_diagnose_passes_iff:
  assumes "firewalld_laws api v ins" and "details_laws api" and "fw_consistent v w"
    and "c \<in> registered w" and "is_on w c"
  shows "\<exists>checks w'. firewall_diagnose api c w = (Inr checks, w') \<and> length checks = 2 * length (fw_ports c) \<and>
    ((\<forall>ch \<in> set checks. check_result ch = PASSED) \<longleftrightarrow>
       fw_is_external c \<or> \<not> (\<exists>d \<in> registered w. fw_is_external d \<and> is_on w d \<and> set (fw_ports d) \<inter> set (fw_ports c) \<noteq> {}))"
proof -
  obtain internal external where lists: "get_enabled_services api ''internal'' w = (Inr internal, w)"
      "get_enabled_services api ''external'' w = (Inr external, w)"
    and sets: "set internal = running v w ''internal''" "set external = running v w ''external''"
    using enabled_services[OF assms(1)] by metis
  obtain pds w' where pds: "ports_details api c w = (Inr pds, w')" "map fst pds = fw_ports c"
    using ports_details_found[OF assms(1,2)] by blast
  let ?checks = "concat (map (port_checks c internal external) pds)"
  have ports: "fst ` set pds = set (fw_ports c)" using pds(2) by (metis set_map)
  have "length pds = length (fw_ports c)" using pds(2) by (metis length_map)
  moreover have "length (port_checks c internal external pd) = 2" for pd by (simp add: port_checks_def Let_def)
  ultimately have len: "length ?checks = 2 * length (fw_ports c)" by (simp add: length_concat comp_def sum_list_triv)
  have opened: "(p \<in> running v w z) = (p \<in> asked w z)" if "p \<in> set (fw_ports c)" "z \<in> zones" for p z
    using assms(3,4) that by (auto simp: fw_consistent_def managed_def)
  have int: "p \<in> set internal" if "p \<in> set (fw_ports c)" for p
    using opened[OF that, of "''internal''"] that assms(4,5) sets by (auto simp: zones_def asked_def wants_def)
  have ext: "p \<in> set external \<longleftrightarrow> (\<exists>d \<in> registered w. fw_is_external d \<and> is_on w d \<and> p \<in> set (fw_ports d))"
    if "p \<in> set (fw_ports c)" for p
    using opened[OF that, of "''external''"] sets by (auto simp: zones_def asked_def wants_def)
  have "(\<forall>ch \<in> set ?checks. check_result ch = PASSED) \<longleftrightarrow>
      (\<forall>pd \<in> set pds. \<forall>ch \<in> set (port_checks c internal external pd). check_result ch = PASSED)" by auto
  also have "\<dots> \<longleftrightarrow> (\<forall>p \<in> fst ` set pds. p \<in> set internal \<and> (p \<in> set external) = fw_is_external c)"
    by (simp add: port_checks_pass)
  also have "\<dots> \<longleftrightarrow> fw_is_external c \<or>
      \<not> (\<exists>d \<in> registered w. fw_is_external d \<and> is_on w d \<and> set (fw_ports d) \<inter> set (fw_ports c) \<noteq> {})"
    unfolding ports using int ext assms(4,5) by blast
  finally show ?thesis using lists pds(1) len by (simp add: firewall_diagnose_def prog_simps)
qed

definition blog_only :: "table_state firewall_world" where
  "blog_only = fresh_box\<lparr>enabled_attr := [(''firewall-shop'', True), (''firewall-blog'', True)],
     firewalld := \<lparr>ts_running = [(''internal'', ''http''), (''internal'', ''https''), (''external'', ''http''), (''external'', ''https'')],
       ts_permanent = [(''internal'', ''http''), (''internal'', ''https''), (''external'', ''http''), (''external'', ''https'')],
       ts_loaded = [''http'', ''https''], ts_direct = [], ts_direct_permanent = []\<rparr>\<rparr>"

lemma blog_only_consistent: "fw_consistent table_view blog_only"
  by (auto simp: fw_consistent_def known_components_def zones_def running_def permanent_def table_view_def box_defs
      blog_only_def)

lemma table_details: "details_laws (table_firewalld ins)"
  by (simp add: details_laws_def table_firewalld_def prog_simps)

theorem firewall_diagnose_passes_iff_witness:
  "\<exists>checks w'. firewall_diagnose (table_firewalld [''http'', ''https'']) shop blog_only = (Inr checks, w') \<and>
    length checks = 2 \<and> (\<exists>ch \<in> set checks. check_result ch \<noteq> PASSED)"
proof -
  have "shop \<in> registered blog_only" "blog \<in> registered blog_only" "is_on blog_only shop" "is_on blog_only blog"
    by (simp_all add: blog_only_def box_defs)
  moreover have "\<not> fw_is_external shop" "fw_is_external blog" "length (fw_ports shop) = 1"
    "set (fw_ports blog) \<inter> set (fw_ports shop) \<noteq> {}" by (simp_all add: shop_def blog_def)
  ultimately show ?thesis
    using firewall_diagnose_passes_iff[OF table_firewalld_laws table_details blog_only_consistent, of shop "[''http'', ''https'']"]
    by auto
qed

section \<open>When firewalld is not running\<close>

text \<open>The error D-Bus gives for a name nobody owns.\<close>

definition service_unknown :: string where
  "service_unknown = ''GDBus.Error:org.freedesktop.DBus.Error.ServiceUnknown: The name org.fedoraproject.FirewallD1 was not provided by any .service files''"

definition down_laws :: "'f firewalld_api \<Rightarrow> bool" where
  "down_laws api \<longleftrightarrow> (\<forall>path iface z p f. proxy api path iface f = (Inr (), f) \<and>
     get_services api z f = (Inl (GlibError service_unknown), f) \<and>
     zone_add api z p f = (Inl (GlibError service_unknown), f) \<and>
     zone_remove api z p f = (Inl (GlibError service_unknown), f))"

lemma service_unknown_read:
  "ignored_error (Some ''ServiceUnknown'') None service_unknown = Inr True"
  "ignored_error None (Some ''ALREADY_ENABLED'') service_unknown = Inr False"
  by (simp_all add: service_unknown_def dbus_tests)

lemma via_down: "down_laws api \<Longrightarrow> via api path iface m w = m w"
  by (simp add: via_def p_then_def p_bind_def on_fw_same down_laws_def)

lemma down_services: "down_laws api \<Longrightarrow> get_enabled_services api z w = (Inr [], w)"
proof -
  assume d: "down_laws api"
  then have "on_fw (get_services api z) w = (Inl (GlibError service_unknown), w)" by (simp add: on_fw_same down_laws_def)
  then show ?thesis
    by (simp add: get_enabled_services_def ignore_dbus_error_def via_down[OF d] service_unknown_read prog_simps
        p_bind_def p_catch_def)
qed

lemma down_add: "down_laws api \<Longrightarrow> add_service api p z w = (Inr (), w)"
proof -
  assume d: "down_laws api"
  then have "on_fw (zone_add api z p) w = (Inl (GlibError service_unknown), w)" by (simp add: on_fw_same down_laws_def)
  then have "ignore_dbus_error None (Some ''ALREADY_ENABLED'') (on_fw (zone_add api z p)) w =
      (Inl (GlibError service_unknown), w)"
    by (simp add: ignore_dbus_error_def service_unknown_read prog_simps p_bind_def)
  then show ?thesis
    by (simp add: add_service_def p_skip_def ignore_dbus_error_def[of "Some ''ServiceUnknown''"] via_down[OF d]
        service_unknown_read prog_simps p_bind_def p_then_def p_catch_def)
qed

text \<open>When firewalld is not running, enabling or disabling a firewall component neither fails nor
  touches anything but the component's own flag: the errors of D-Bus are swallowed and the
  ports stay as they are.\<close>

lemma firewall_down_ignored:
  assumes "down_laws api"
  shows "firewall_enable api c w = (Inr (), w\<lparr>enabled_attr := od_set (enabled_attr w) (component_id (fw_obj c)) True\<rparr>) \<and>
    firewall_disable api c w = (Inr (), w\<lparr>enabled_attr := od_set (enabled_attr w) (component_id (fw_obj c)) False\<rparr>)"
proof -
  have "open_port api c [] [] p u = (Inr (), u)" for p u
    by (simp add: open_port_def down_add[OF assms] p_then_def p_bind_def p_ret_def)
  then have "p_for (open_port api c [] []) ps u = (Inr (), u)" for ps u
    by (induction ps) (simp_all add: prog_simps)
  then have "try_with_reload api (open_ports api c) u = (Inr (), u)" for u
    by (simp add: try_with_reload_def open_ports_def down_services[OF assms] prog_simps)
  then have "firewall_enable api c w = (Inr (), w\<lparr>enabled_attr := od_set (enabled_attr w) (component_id (fw_obj c)) True\<rparr>)"
    by (simp add: firewall_enable_def follower_enable_def follower_set_enabled_def prog_simps)
  moreover have "close_port api c [] [] p u = (Inr (), u)" for p u
    by (simp add: close_port_def prog_simps)
  then have "p_for (close_port api c [] []) ps u = (Inr (), u)" for ps u
    by (induction ps) (simp_all add: prog_simps)
  then have "try_with_reload api (close_ports api c) u = (Inr (), u)" for u
    by (simp add: try_with_reload_def close_ports_def down_services[OF assms] prog_simps)
  then have "firewall_disable api c w = (Inr (), w\<lparr>enabled_attr := od_set (enabled_attr w) (component_id (fw_obj c)) False\<rparr>)"
    by (simp add: firewall_disable_def follower_disable_def follower_set_enabled_def prog_simps)
  ultimately show ?thesis by blast
qed

definition stopped_firewalld :: "table_state firewalld_api" where
  "stopped_firewalld = (table_firewalld [])\<lparr>
     get_services := \<lambda>_. p_raise (GlibError service_unknown),
     zone_add := \<lambda>_ _. p_raise (GlibError service_unknown),
     zone_remove := \<lambda>_ _. p_raise (GlibError service_unknown)\<rparr>"

lemma firewall_down_ignored_witness:
  "firewall_enable stopped_firewalld blog fresh_box =
     (Inr (), fresh_box\<lparr>enabled_attr := [(''firewall-shop'', False), (''firewall-blog'', True)]\<rparr>)"
proof -
  have "down_laws stopped_firewalld"
    by (simp add: down_laws_def stopped_firewalld_def table_firewalld_def prog_simps)
  then show ?thesis using firewall_down_ignored[of stopped_firewalld blog fresh_box]
    by (simp add: fresh_box_def blog_def od_set_def)
qed

section \<open>Protection of local services\<close>

definition direct_laws :: "'f firewalld_api \<Rightarrow> ('f \<Rightarrow> fw_view) \<Rightarrow> bool" where
  "direct_laws api v \<longleftrightarrow> (\<forall>i r f.
     query_direct api i r f = (Inr ((i, r) \<in> fv_direct (v f)), f) \<and>
     config_query_direct api i r f = (Inr ((i, r) \<in> fv_direct_permanent (v f)), f) \<and>
     does v (\<lambda>u. u\<lparr>fv_direct := insert (i, r) (fv_direct u)\<rparr>) (add_direct api i r) f \<and>
     does v (\<lambda>u. u\<lparr>fv_direct := fv_direct u - {(i, r)}\<rparr>) (remove_direct api i r) f \<and>
     does v (\<lambda>u. u\<lparr>fv_direct_permanent := insert (i, r) (fv_direct_permanent u)\<rparr>) (config_add_direct api i r) f \<and>
     does v (\<lambda>u. u\<lparr>fv_direct_permanent := fv_direct_permanent u - {(i, r)}\<rparr>) (config_remove_direct api i r) f)"

definition direct_rules :: "('f \<Rightarrow> fw_view) \<Rightarrow> 'f firewall_world \<Rightarrow> (string \<times> string list) set \<times> (string \<times> string list) set" where
  "direct_rules v w = (fv_direct (v (firewalld w)), fv_direct_permanent (v (firewalld w)))"

lemma ensure_rule:
  assumes "q (firewalld u) = (Inr x, firewalld u)" and "C x \<Longrightarrow> does v g m (firewalld u)"
    and "\<not> C x \<Longrightarrow> g (v (firewalld u)) = v (firewalld u)"
  shows "\<exists>f. p_bind (on_fw q) (\<lambda>b. if C b then on_fw m else p_ret ()) u = (Inr (), u\<lparr>firewalld := f\<rparr>) \<and>
    v f = g (v (firewalld u))"
proof (cases "C x")
  case True
  then show ?thesis using assms(1,2) by (auto simp: p_bind_eval on_fw_same does_def on_fw_def)
next
  case False
  then show ?thesis using assms(1,3)
    by (intro exI[of _ "firewalld u"]) (simp add: p_bind_eval on_fw_same p_ret_def)
qed

lemma two_rules:
  assumes "\<And>u. \<exists>f. m u = (Inr (), u\<lparr>firewalld := f\<rparr>) \<and> v f = g (v (firewalld u))"
    and "\<And>u. \<exists>f. n u = (Inr (), u\<lparr>firewalld := f\<rparr>) \<and> v f = h (v (firewalld u))"
  shows "\<exists>f. p_then m n w = (Inr (), w\<lparr>firewalld := f\<rparr>) \<and> v f = h (g (v (firewalld w)))"
proof -
  obtain f where f: "m w = (Inr (), w\<lparr>firewalld := f\<rparr>)" "v f = g (v (firewalld w))" using assms(1) by blast
  obtain f' where "n (w\<lparr>firewalld := f\<rparr>) = (Inr (), w\<lparr>firewalld := f'\<rparr>)" "v f' = h (v f)"
    using assms(2)[of "w\<lparr>firewalld := f\<rparr>"] by auto
  then show ?thesis using f by (auto simp: p_then_eval)
qed

definition with_rules :: "(string \<times> string list) set \<Rightarrow> fw_view \<Rightarrow> fw_view" where
  "with_rules R u = u\<lparr>fv_direct := fv_direct u \<union> R, fv_direct_permanent := fv_direct_permanent u \<union> R\<rparr>"

definition without_rules :: "(string \<times> string list) set \<Rightarrow> fw_view \<Rightarrow> fw_view" where
  "without_rules R u = u\<lparr>fv_direct := fv_direct u - R, fv_direct_permanent := fv_direct_permanent u - R\<rparr>"

lemma fw_view_same:
  "S = fv_direct x \<Longrightarrow> x\<lparr>fv_direct := S\<rparr> = x" "S = fv_direct_permanent x \<Longrightarrow> x\<lparr>fv_direct_permanent := S\<rparr> = x"
  by simp_all

lemma direct_laws_d:
  assumes "direct_laws api v"
  shows "query_direct api i r f = (Inr ((i, r) \<in> fv_direct (v f)), f)"
    and "config_query_direct api i r f = (Inr ((i, r) \<in> fv_direct_permanent (v f)), f)"
    and "does v (\<lambda>u. u\<lparr>fv_direct := insert (i, r) (fv_direct u)\<rparr>) (add_direct api i r) f"
    and "does v (\<lambda>u. u\<lparr>fv_direct := fv_direct u - {(i, r)}\<rparr>) (remove_direct api i r) f"
    and "does v (\<lambda>u. u\<lparr>fv_direct_permanent := insert (i, r) (fv_direct_permanent u)\<rparr>) (config_add_direct api i r) f"
    and "does v (\<lambda>u. u\<lparr>fv_direct_permanent := fv_direct_permanent u - {(i, r)}\<rparr>) (config_remove_direct api i r) f"
  using assms unfolding direct_laws_def by blast+

lemma via_eq: "firewalld_laws api v ins \<Longrightarrow> via api path iface m = m"
  by (rule ext) (simp add: via_running)

lemma add_passthrough_ok:
  assumes laws: "firewalld_laws api v ins" and direct: "direct_laws api v"
  shows "\<exists>f. add_passthrough api i r w = (Inr (), w\<lparr>firewalld := f\<rparr>) \<and> v f = with_rules {(i, r)} (v (firewalld w))"
proof -
  let ?g = "\<lambda>x. x\<lparr>fv_direct := insert (i, r) (fv_direct x)\<rparr>"
  let ?h = "\<lambda>x. x\<lparr>fv_direct_permanent := insert (i, r) (fv_direct_permanent x)\<rparr>"
  have "\<exists>f. p_bind (on_fw (query_direct api i r)) (\<lambda>b. if \<not> b then on_fw (add_direct api i r) else p_ret ()) u =
      (Inr (), u\<lparr>firewalld := f\<rparr>) \<and> v f = ?g (v (firewalld u))" for u
    by (rule ensure_rule[where g = ?g and C = "\<lambda>b. \<not> b"]) (simp add: direct_laws_d(1,2)[OF direct], simp add: direct_laws_d[OF direct],
      rule fw_view_same, auto)
  moreover have "\<exists>f. p_bind (on_fw (config_query_direct api i r)) (\<lambda>b. if \<not> b then on_fw (config_add_direct api i r) else p_ret ()) u =
      (Inr (), u\<lparr>firewalld := f\<rparr>) \<and> v f = ?h (v (firewalld u))" for u
    by (rule ensure_rule[where g = ?h and C = "\<lambda>b. \<not> b"]) (simp add: direct_laws_d(1,2)[OF direct], simp add: direct_laws_d[OF direct],
      rule fw_view_same, auto)
  moreover have "with_rules {(i, r)} x = ?h (?g x)" for x by (simp add: with_rules_def)
  ultimately show ?thesis unfolding add_passthrough_def via_eq[OF laws] by (simp only: two_rules[where g = ?g and h = ?h])
qed

lemma remove_passthrough_ok:
  assumes laws: "firewalld_laws api v ins" and direct: "direct_laws api v"
  shows "\<exists>f. remove_passthrough api i r w = (Inr (), w\<lparr>firewalld := f\<rparr>) \<and> v f = without_rules {(i, r)} (v (firewalld w))"
proof -
  let ?g = "\<lambda>x. x\<lparr>fv_direct := fv_direct x - {(i, r)}\<rparr>"
  let ?h = "\<lambda>x. x\<lparr>fv_direct_permanent := fv_direct_permanent x - {(i, r)}\<rparr>"
  have "\<exists>f. p_bind (on_fw (query_direct api i r)) (\<lambda>b. if b then on_fw (remove_direct api i r) else p_ret ()) u =
      (Inr (), u\<lparr>firewalld := f\<rparr>) \<and> v f = ?g (v (firewalld u))" for u
    by (rule ensure_rule[where g = ?g and C = "\<lambda>b. b"]) (simp add: direct_laws_d(1,2)[OF direct], simp add: direct_laws_d[OF direct],
      rule fw_view_same, auto)
  moreover have "\<exists>f. p_bind (on_fw (config_query_direct api i r)) (\<lambda>b. if b then on_fw (config_remove_direct api i r) else p_ret ()) u =
      (Inr (), u\<lparr>firewalld := f\<rparr>) \<and> v f = ?h (v (firewalld u))" for u
    by (rule ensure_rule[where g = ?h and C = "\<lambda>b. b"]) (simp add: direct_laws_d(1,2)[OF direct], simp add: direct_laws_d[OF direct],
      rule fw_view_same, auto)
  moreover have "without_rules {(i, r)} x = ?h (?g x)" for x by (simp add: without_rules_def)
  ultimately show ?thesis unfolding remove_passthrough_def via_eq[OF laws] by (simp only: two_rules[where g = ?g and h = ?h])
qed

text \<open>A loop over ports of one such step each.\<close>

lemma loop_changes:
  assumes step: "\<And>p u. \<exists>f. m p u = (Inr (), u\<lparr>firewalld := f\<rparr>) \<and> v f = k {(''ipv6'', reject_rule p), (''ipv4'', reject_rule p)} (v (firewalld u))"
    and zero: "\<And>x. k {} x = x" and plus: "\<And>A B x. k B (k A x) = k (A \<union> B) x"
  shows "\<exists>f. p_for m ps w = (Inr (), w\<lparr>firewalld := f\<rparr>) \<and>
    v f = k (\<Union>p \<in> set ps. {(''ipv6'', reject_rule p), (''ipv4'', reject_rule p)}) (v (firewalld w))"
proof (induction ps arbitrary: w)
  case Nil
  then show ?case by (intro exI[of _ "firewalld w"]) (simp add: p_ret_def zero)
next
  case (Cons p ps)
  obtain f where f: "m p w = (Inr (), w\<lparr>firewalld := f\<rparr>)"
      "v f = k {(''ipv6'', reject_rule p), (''ipv4'', reject_rule p)} (v (firewalld w))" using step by blast
  obtain f' where f': "p_for m ps (w\<lparr>firewalld := f\<rparr>) = (Inr (), w\<lparr>firewalld := f'\<rparr>)"
      "v f' = k (\<Union>p \<in> set ps. {(''ipv6'', reject_rule p), (''ipv4'', reject_rule p)}) (v f)"
    using Cons.IH[of "w\<lparr>firewalld := f\<rparr>"] by auto
  have "p_for m (p # ps) w = (Inr (), w\<lparr>firewalld := f'\<rparr>)" using f(1) f'(1) by (simp add: p_then_eval)
  then show ?case using f(2) f'(2) plus by auto
qed

definition protection_rules :: "protection \<Rightarrow> (string \<times> string list) set" where
  "protection_rules c = (\<Union>p \<in> set (tcp_ports c). {(''ipv6'', reject_rule p), (''ipv4'', reject_rule p)})"

lemma add_both:
  assumes "firewalld_laws api v ins" and "direct_laws api v"
  shows "\<exists>f. p_then (add_passthrough api ''ipv6'' r) (add_passthrough api ''ipv4'' r) u = (Inr (), u\<lparr>firewalld := f\<rparr>) \<and>
    v f = with_rules {(''ipv6'', r), (''ipv4'', r)} (v (firewalld u))"
proof -
  have "with_rules {(''ipv6'', r), (''ipv4'', r)} x = with_rules {(''ipv4'', r)} (with_rules {(''ipv6'', r)} x)" for x
    by (simp add: with_rules_def insert_commute)
  then show ?thesis
    using two_rules[of "add_passthrough api ''ipv6'' r" v "with_rules {(''ipv6'', r)}" "add_passthrough api ''ipv4'' r"
        "with_rules {(''ipv4'', r)}" u] add_passthrough_ok[OF assms] by simp
qed

lemma diff_diff: "S - A - B = S - (A \<union> B)"
  by auto

lemma remove_both:
  assumes "firewalld_laws api v ins" and "direct_laws api v"
  shows "\<exists>f. p_then (remove_passthrough api ''ipv6'' r) (remove_passthrough api ''ipv4'' r) u = (Inr (), u\<lparr>firewalld := f\<rparr>) \<and>
    v f = without_rules {(''ipv6'', r), (''ipv4'', r)} (v (firewalld u))"
proof -
  have "without_rules {(''ipv6'', r), (''ipv4'', r)} x = without_rules {(''ipv4'', r)} (without_rules {(''ipv6'', r)} x)" for x
    by (simp add: without_rules_def diff_diff insert_commute)
  then show ?thesis
    using two_rules[of "remove_passthrough api ''ipv6'' r" v "without_rules {(''ipv6'', r)}" "remove_passthrough api ''ipv4'' r"
        "without_rules {(''ipv4'', r)}" u] remove_passthrough_ok[OF assms] by simp
qed

text \<open>Enabling the protection of local services adds, for each of its ports, the rule that rejects
  local users over IPv6 and over IPv4, to the running and to the permanent rules, whether or
  not it is there already; disabling removes exactly these rules. Neither raises, and the zones
  and all other rules stay as they are.\<close>

theorem protection_changes_rules:
  assumes "firewalld_laws api v ins" and "direct_laws api v"
  shows "(\<exists>w1. protection_enable api c w = (Inr (), w1) \<and>
       v (firewalld w1) = with_rules (protection_rules c) (v (firewalld w))) \<and>
    (\<exists>w2. protection_disable api c w = (Inr (), w2) \<and>
       v (firewalld w2) = without_rules (protection_rules c) (v (firewalld w)))"
proof -
  let ?on = "w\<lparr>enabled_attr := od_set (enabled_attr w) (component_id (lp_obj c)) True\<rparr>"
  let ?off = "w\<lparr>enabled_attr := od_set (enabled_attr w) (component_id (lp_obj c)) False\<rparr>"
  have "\<exists>f. p_for (\<lambda>port. p_then (add_passthrough api ''ipv6'' (reject_rule port)) (add_passthrough api ''ipv4'' (reject_rule port)))
      (tcp_ports c) ?on = (Inr (), ?on\<lparr>firewalld := f\<rparr>) \<and> v f = with_rules (protection_rules c) (v (firewalld ?on))"
    unfolding protection_rules_def
    by (rule loop_changes[where k = with_rules and v = v], rule add_both[OF assms]) (simp_all add: with_rules_def Un_assoc)
  moreover have "\<exists>f. p_for (\<lambda>port. p_then (remove_passthrough api ''ipv6'' (reject_rule port)) (remove_passthrough api ''ipv4'' (reject_rule port)))
      (tcp_ports c) ?off = (Inr (), ?off\<lparr>firewalld := f\<rparr>) \<and> v f = without_rules (protection_rules c) (v (firewalld ?off))"
    unfolding protection_rules_def
    by (rule loop_changes[where k = without_rules and v = v], rule remove_both[OF assms]) (simp_all add: without_rules_def diff_diff)
  ultimately show ?thesis
    by (auto simp: protection_enable_def protection_disable_def follower_enable_def follower_disable_def
        follower_set_enabled_def prog_simps)
qed

lemma table_direct_laws: "direct_laws (table_firewalld ins) table_view"
  unfolding direct_laws_def by (auto simp: table_firewalld_def table_view_def does_def prog_simps)

theorem protection_changes_rules_witness:
  "\<exists>w1. protection_enable (table_firewalld []) \<lparr>lp_obj = fw_obj shop, tcp_ports = [''9091'']\<rparr> fresh_box = (Inr (), w1) \<and>
    (''ipv4'', reject_rule ''9091'') \<in> fv_direct (table_view (firewalld w1))"
proof -
  let ?c = "\<lparr>lp_obj = fw_obj shop, tcp_ports = [''9091'']\<rparr>"
  obtain w1 where "protection_enable (table_firewalld []) ?c fresh_box = (Inr (), w1)"
      "table_view (firewalld w1) = with_rules (protection_rules ?c) (table_view (firewalld fresh_box))"
    using protection_changes_rules[OF table_firewalld_laws table_direct_laws, of "[]" ?c fresh_box] by auto
  then show ?thesis by (simp add: with_rules_def protection_rules_def)
qed

end
