(* ===== verification/Paths.thy ===== *)
theory Paths
  imports Prelude
begin

text \<open>
  The parts of Python's \<open>pathlib\<close> and \<open>str\<close> the code uses on paths and names: pure paths in
  their normal form, joining, name and parents, splitting at white space, and \<open>str.format\<close>
  with the one field \<open>{domain}\<close>.
\<close>

section \<open>Pure paths\<close>

text \<open>The parts of a path; empty parts and single dots disappear.\<close>

definition path_parts :: "string \<Rightarrow> string list" where
  "path_parts s = filter (\<lambda>p. p \<noteq> [] \<and> p \<noteq> ''.'') (split_on (CHR ''/'') s)"

text \<open>POSIX keeps a root of exactly two slashes.\<close>

definition path_root :: "string \<Rightarrow> string" where
  "path_root s =
     (if starts_with s ''//'' \<and> \<not> starts_with s ''///'' then ''//''
      else if starts_with s ''/'' then ''/'' else [])"

definition path_of :: "string \<Rightarrow> string list \<Rightarrow> string" where
  "path_of root parts = (if root = [] \<and> parts = [] then ''.'' else root @ join_str ''/'' parts)"

text \<open>\<open>str(pathlib.Path(s))\<close>, \<open>Path(a) / b\<close>, \<open>Path(s).name\<close>, \<open>Path(s).parent\<close> and \<open>Path(s).parents\<close>.\<close>

definition path_str :: "string \<Rightarrow> string" where
  "path_str s = path_of (path_root s) (path_parts s)"

definition path_join :: "string \<Rightarrow> string \<Rightarrow> string" where
  "path_join a b = (if starts_with b ''/'' then path_str b else path_of (path_root a) (path_parts a @ path_parts b))"

definition path_name :: "string \<Rightarrow> string" where
  "path_name s = (if path_parts s = [] then [] else last (path_parts s))"

definition path_parent :: "string \<Rightarrow> string" where
  "path_parent s = path_of (path_root s) (butlast (path_parts s))"

definition path_parents :: "string \<Rightarrow> string list" where
  "path_parents s = map (\<lambda>n. path_of (path_root s) (take n (path_parts s))) (rev [0..<length (path_parts s)])"

section \<open>Strings\<close>

text \<open>\<open>s.split()\<close>: at runs of white space.\<close>

definition is_space :: "char \<Rightarrow> bool" where
  "is_space c \<longleftrightarrow> c \<in> {CHR '' '', CHR 0x09, CHR 0x0A, CHR 0x0B, CHR 0x0C, CHR 0x0D}"

function split_words :: "string \<Rightarrow> string list" where
  "split_words [] = []"
| "split_words (c # cs) =
     (if is_space c then split_words cs
      else (c # takeWhile (\<lambda>x. \<not> is_space x) cs) # split_words (dropWhile (\<lambda>x. \<not> is_space x) cs))"
  by pat_completeness auto

termination
  by (relation "measure length") (auto simp: less_Suc_eq_le length_dropWhile_le)

text \<open>
  \<open>s.format(f=d)\<close>: doubled braces stand for one, any other field than \<open>{f}\<close> has no value, and a
  single closing brace is an error.
\<close>

fun format_field :: "string \<Rightarrow> string \<Rightarrow> string \<Rightarrow> string result" where
  "format_field f d [] = Inr []"
| "format_field f d (c # cs) =
     (if starts_with (c # cs) ''{{'' \<or> starts_with (c # cs) ''}}''
      then r_bind (format_field f d (tl cs)) (\<lambda>r. Inr (c # r))
      else if starts_with (c # cs) (''{'' @ f @ ''}'')
      then r_bind (format_field f d (drop (length f + 1) cs)) (\<lambda>r. Inr (d @ r))
      else if c = CHR ''{'' then Inl (KeyError cs)
      else if c = CHR ''}'' then Inl (ValueError ''Single '' )
      else r_bind (format_field f d cs) (\<lambda>r. Inr (c # r)))"

abbreviation format_domain :: "string \<Rightarrow> string \<Rightarrow> string result" where
  "format_domain \<equiv> format_field ''domain''"

text \<open>\<open>s.partition(sub)[0]\<close>.\<close>

fun before_str :: "string \<Rightarrow> string \<Rightarrow> string" where
  "before_str sub [] = []"
| "before_str sub (c # cs) = (if starts_with (c # cs) sub then [] else c # before_str sub cs)"

text \<open>\<open>s.find(sub)\<close>, and \<open>s[i:j]\<close>, which is empty when the end is before the start.\<close>

fun find_str :: "string \<Rightarrow> string \<Rightarrow> nat option" where
  "find_str sub [] = (if sub = [] then Some 0 else None)"
| "find_str sub (c # cs) = (if starts_with (c # cs) sub then Some 0 else map_option Suc (find_str sub cs))"

definition slice :: "string \<Rightarrow> nat \<Rightarrow> nat \<Rightarrow> string" where
  "slice s i j = drop i (take j s)"

text \<open>\<open>s.rpartition(c)\<close> of a string that has the character.\<close>

definition rsplit :: "char \<Rightarrow> string \<Rightarrow> (string \<times> string) option" where
  "rsplit c s =
     (if c \<in> set s then Some (rev (tl (dropWhile (\<lambda>x. x \<noteq> c) (rev s))), rev (takeWhile (\<lambda>x. x \<noteq> c) (rev s))) else None)"

text \<open>What stands before the last occurrence of a string.\<close>

definition before_last :: "string \<Rightarrow> string \<Rightarrow> string option" where
  "before_last sub s =
     map_option (\<lambda>k. take (length s - k - length sub) s) (find_str (rev sub) (rev s))"

text \<open>\<open>c.lower()\<close> in ASCII.\<close>

definition lower_char :: "char \<Rightarrow> char" where
  "lower_char c = (if c \<in> set ''ABCDEFGHIJKLMNOPQRSTUVWXYZ'' then char_of (of_char c + 32 :: nat) else c)"

text \<open>Lines with their ends.\<close>

definition unlines :: "string list \<Rightarrow> string" where
  "unlines ls = concat (map (\<lambda>l. l @ [CHR 0x0A]) ls)"

text \<open>
  \<open>int(s)\<close> of ASCII text: white space around it, a sign, and digits that single underscores may
  separate.
\<close>

definition digit_value :: "char \<Rightarrow> int option" where
  "digit_value c = (let n = of_char c :: int in if 48 \<le> n \<and> n \<le> 57 then Some (n - 48) else None)"

fun digits_value :: "int \<Rightarrow> string \<Rightarrow> int option" where
  "digits_value n [] = Some n"
| "digits_value n (c # cs) =
     (case digit_value c of
        Some d \<Rightarrow> digits_value (10 * n + d) cs
      | None \<Rightarrow> (case cs of d # _ \<Rightarrow> if c = CHR ''_'' \<and> digit_value d \<noteq> None then digits_value n cs else None | [] \<Rightarrow> None))"

definition python_int :: "string \<Rightarrow> int result" where
  "python_int s =
     (let trim = (\<lambda>t. rev (dropWhile is_space (rev (dropWhile is_space t)))); t = trim s;
          u = (if t \<noteq> [] \<and> hd t \<in> {CHR ''+'', CHR ''-''} then tl t else t)
      in case (if u \<noteq> [] \<and> digit_value (hd u) \<noteq> None then digits_value 0 u else None) of
           None \<Rightarrow> Inl (ValueError ''invalid literal for int()'')
         | Some n \<Rightarrow> Inr (if t \<noteq> [] \<and> hd t = CHR ''-'' then - n else n))"

lemma split_on_none: "c \<notin> set s \<Longrightarrow> split_on c s = [s]"
  by (induction s) auto

lemma join_prefix: "m \<le> length xs \<Longrightarrow> \<exists>t. join_str sep xs = join_str sep (take m xs) @ t"
proof (induction sep xs arbitrary: m rule: join_str.induct)
  case (3 sep x y xs)
  show ?case
  proof (cases m)
    case (Suc n)
    show ?thesis
    proof (cases n)
      case 0
      then show ?thesis using Suc by simp
    next
      case (Suc k)
      obtain t where "join_str sep (y # xs) = join_str sep (take n (y # xs)) @ t" using 3 \<open>m = Suc n\<close> by fastforce
      then show ?thesis using Suc \<open>m = Suc n\<close> by simp
    qed
  qed simp
qed (auto simp: take_Cons split: nat.splits)

text \<open>A parent of a path is a prefix of it.\<close>

lemma path_parents_prefix: "q \<in> set (path_parents s) \<Longrightarrow> path_root s \<noteq> [] \<Longrightarrow> starts_with (path_str s) q"
proof -
  assume q: "q \<in> set (path_parents s)" and root: "path_root s \<noteq> []"
  then obtain n where n: "n < length (path_parts s)" "q = path_of (path_root s) (take n (path_parts s))"
    by (auto simp: path_parents_def)
  obtain t where "join_str ''/'' (path_parts s) = join_str ''/'' (take n (path_parts s)) @ t"
    using join_prefix[of n "path_parts s" "''/''"] n(1) by auto
  then show ?thesis using n root by (auto simp: path_str_def path_of_def starts_with_iff)
qed

text \<open>
  Naive date-times as Python's \<open>datetime\<close> has them: the proleptic Gregorian calendar from year 1
  to year 9999, with \<open>replace\<close>, differences in microseconds and the day of the week.
\<close>

record datetime =
  year :: nat
  month :: nat
  day :: nat
  hour :: nat
  minute :: nat
  second :: nat
  microsecond :: nat

definition leap_year :: "nat \<Rightarrow> bool" where
  "leap_year y \<longleftrightarrow> 4 dvd y \<and> (\<not> 100 dvd y \<or> 400 dvd y)"

definition days_in_month :: "nat \<Rightarrow> nat \<Rightarrow> nat" where
  "days_in_month y m =
     (if m = 2 then (if leap_year y then 29 else 28) else if m \<in> {4, 6, 9, 11} then 30 else 31)"

definition days_before_year :: "nat \<Rightarrow> nat" where
  "days_before_year y = (y - 1) * 365 + (y - 1) div 4 - (y - 1) div 100 + (y - 1) div 400"

definition days_before_month :: "nat \<Rightarrow> nat \<Rightarrow> nat" where
  "days_before_month y m = sum_list (map (days_in_month y) [1..<m])"

text \<open>\<open>toordinal\<close>: 1 January of year 1 is day 1; \<open>isoweekday\<close>: Monday is 1, Sunday is 7.\<close>

definition ordinal :: "datetime \<Rightarrow> nat" where
  "ordinal t = days_before_year (year t) + days_before_month (year t) (month t) + day t"

definition isoweekday :: "datetime \<Rightarrow> nat" where
  "isoweekday t = (if ordinal t mod 7 = 0 then 7 else ordinal t mod 7)"

definition valid_date :: "nat \<Rightarrow> nat \<Rightarrow> nat \<Rightarrow> bool" where
  "valid_date y m d \<longleftrightarrow> 1 \<le> y \<and> y \<le> 9999 \<and> 1 \<le> m \<and> m \<le> 12 \<and> 1 \<le> d \<and> d \<le> days_in_month y m"

definition valid_datetime :: "datetime \<Rightarrow> bool" where
  "valid_datetime t \<longleftrightarrow> valid_date (year t) (month t) (day t) \<and> hour t < 24 \<and> minute t < 60 \<and> second t < 60 \<and>
     microsecond t < 1000000"

text \<open>Microseconds since the start of day 0: the difference of two date-times is that of these.\<close>

definition microseconds :: "datetime \<Rightarrow> int" where
  "microseconds t =
     (((int (ordinal t) * 24 + int (hour t)) * 60 + int (minute t)) * 60 + int (second t)) * 1000000 + int (microsecond t)"

definition seconds :: "int \<Rightarrow> int" where
  "seconds n = n * 1000000"

definition datetime_min :: datetime where
  "datetime_min = \<lparr>year = 1, month = 1, day = 1, hour = 0, minute = 0, second = 0, microsecond = 0\<rparr>"

text \<open>\<open>replace(year=y, month=m)\<close>: ValueError when the day does not exist.\<close>

definition replace_date :: "datetime \<Rightarrow> nat \<Rightarrow> nat \<Rightarrow> datetime result" where
  "replace_date t y m =
     (if valid_date y m (day t) then Inr (t\<lparr>year := y, month := m\<rparr>) else Inl (ValueError ''day is out of range for month''))"

text \<open>
  The file system as the privileged code uses it, and the move of an uploaded file to its place
  (\<open>move_uploaded_file\<close> of plinth/action_utils.py). The operations of the operating system are
  parameters; paths are pure paths of \<open>Paths\<close>.
\<close>

record 'w files =
  fl_exists :: "string \<Rightarrow> 'w \<Rightarrow> bool"
  fl_is_file :: "string \<Rightarrow> 'w \<Rightarrow> bool"
  fl_is_dir :: "string \<Rightarrow> 'w \<Rightarrow> bool"
  fl_resolve :: "string \<Rightarrow> 'w \<Rightarrow> string"
  fl_list :: "string \<Rightarrow> ('w, string list) prog"
  fl_read :: "string \<Rightarrow> ('w, string) prog"
  fl_write :: "string \<Rightarrow> string \<Rightarrow> ('w, unit) prog"
  fl_unlink :: "string \<Rightarrow> ('w, unit) prog"
  fl_make_dirs :: "string \<Rightarrow> ('w, unit) prog"
  fl_make_dir :: "string \<Rightarrow> ('w, unit) prog"
  fl_remove_tree :: "string \<Rightarrow> ('w, unit) prog"
  fl_chmod :: "string \<Rightarrow> nat \<Rightarrow> ('w, unit) prog"
  fl_chown :: "string \<Rightarrow> string \<Rightarrow> string \<Rightarrow> ('w, unit) prog"
  fl_move :: "string \<Rightarrow> string \<Rightarrow> ('w, unit) prog"
  fl_umask :: "nat \<Rightarrow> ('w, nat) prog"

text \<open>Symbolic links: \<open>lk_symlink p t\<close> makes \<open>p\<close> a link to \<open>t\<close>, \<open>lk_copyfile s d\<close> copies the content of \<open>s\<close>.\<close>

record 'w links = "'w files" +
  lk_is_link :: "string \<Rightarrow> 'w \<Rightarrow> bool"
  lk_readlink :: "string \<Rightarrow> ('w, string) prog"
  lk_symlink :: "string \<Rightarrow> string \<Rightarrow> ('w, unit) prog"
  lk_copyfile :: "string \<Rightarrow> string \<Rightarrow> ('w, unit) prog"

text \<open>\<open>Path(p).unlink(missing_ok=True)\<close>.\<close>

definition unlink_if_there :: "('w, 'z) files_scheme \<Rightarrow> string \<Rightarrow> ('w, unit) prog" where
  "unlink_if_there fs p = p_catch (fl_unlink fs p) (\<lambda>e. if is_file_not_found e then p_ret () else p_raise e)"

text \<open>\<open>Path(p).parts\<close>: the root counts as a part; \<open>is_relative_to\<close> compares the parts.\<close>

definition all_parts :: "string \<Rightarrow> string list" where
  "all_parts p = (if path_root p = [] then [] else [path_root p]) @ path_parts p"

definition is_relative_to :: "string \<Rightarrow> string \<Rightarrow> bool" where
  "is_relative_to p d \<longleftrightarrow> take (length (all_parts d)) (all_parts p) = all_parts d"

definition resolve_strict :: "'w files \<Rightarrow> string \<Rightarrow> ('w, string) prog" where
  "resolve_strict fs p w =
     (if fl_exists fs p w then (Inr (fl_resolve fs p w), w) else (Inl (FileNotFoundError p), w))"

definition require :: "('w \<Rightarrow> bool) \<Rightarrow> exn \<Rightarrow> ('w, unit) prog" where
  "require c e w = (if c w then (Inr (), w) else (Inl e, w))"

definition move_uploaded_file ::
  "'w files \<Rightarrow> string \<Rightarrow> string \<Rightarrow> string \<Rightarrow> string \<Rightarrow> bool \<Rightarrow> string \<Rightarrow> string \<Rightarrow> nat \<Rightarrow> ('w, unit) prog"
where
  "move_uploaded_file fs temp_dir source destination_dir destination_file_name allow_overwrite user grp permissions =
     p_bind (resolve_strict fs source) (\<lambda>src.
     p_bind (p_get (fl_resolve fs destination_dir)) (\<lambda>dir.
     p_then (require (fl_is_file fs src) (ValueError ''Source is not a file''))
    (p_then (require (\<lambda>_. is_relative_to src temp_dir) (ValueError ''Uploaded file is not in expected temp directory''))
    (p_then (require (fl_is_dir fs dir) (ValueError ''Destination is not a directory''))
    (p_then (require (\<lambda>_. length (all_parts destination_file_name) = 1) (ValueError ''Invalid destination file name''))
       (let destination = path_join dir destination_file_name in
        p_then (require (\<lambda>w. \<not> fl_exists fs destination w \<or> allow_overwrite) (FileExistsError ''Destination already exists''))
       (p_then (fl_move fs src destination)
       (p_then (fl_chown fs destination user grp)
               (fl_chmod fs destination permissions)))))))))"

lemma require_eval [prog_simps]:
  "c w \<Longrightarrow> require c e w = (Inr (), w)"
  "\<not> c w \<Longrightarrow> require c e w = (Inl e, w)"
  by (simp_all add: require_def)

lemma keeps_require [keeps_intros]: "p_keeps P (require c e)"
  by (simp add: p_keeps_def require_def)

section \<open>Where an upload may go\<close>

text \<open>The name of an upload is checked to have one part, which the root directory also has: an
  upload named \<open>/\<close> passes every check of the privileged move, and the owner and the mode are set
  on the root directory of the system instead of a file of the destination directory.\<close>

theorem upload_named_root:
  assumes "fl_exists fs source w" and "fl_is_file fs (fl_resolve fs source w) w"
    and "is_relative_to (fl_resolve fs source w) temp_dir" and "fl_is_dir fs (fl_resolve fs dir w) w"
  shows "move_uploaded_file fs temp_dir source dir ''/'' True user grp permissions w =
    p_then (fl_move fs (fl_resolve fs source w) ''/'')
      (p_then (fl_chown fs ''/'' user grp) (fl_chmod fs ''/'' permissions)) w"
proof -
  have "length (all_parts ''/'') = 1" "path_join d ''/'' = ''/''" for d
    by (simp_all add: all_parts_def path_root_def path_parts_def path_join_def path_str_def path_of_def)
  then show ?thesis using assms by (simp add: move_uploaded_file_def resolve_strict_def p_defs prog_simps Let_def)
qed

text \<open>A file system that notes the last path whose mode was changed.\<close>

definition noting_files :: "string files" where
  "noting_files =
     \<lparr>fl_exists = \<lambda>_ _. True, fl_is_file = \<lambda>_ _. True, fl_is_dir = \<lambda>_ _. True, fl_resolve = \<lambda>p _. path_str p,
      fl_list = \<lambda>_. p_ret [], fl_read = \<lambda>_. p_ret [], fl_write = \<lambda>_ _. p_ret (), fl_unlink = \<lambda>_. p_ret (),
      fl_make_dirs = \<lambda>_. p_ret (), fl_make_dir = \<lambda>_. p_ret (), fl_remove_tree = \<lambda>_. p_ret (),
      fl_chmod = \<lambda>p _. p_mod (\<lambda>_. p), fl_chown = \<lambda>_ _ _. p_ret (), fl_move = \<lambda>_ _. p_ret (), fl_umask = \<lambda>n. p_ret n\<rparr>"

theorem upload_named_root_witness:
  "move_uploaded_file noting_files ''/tmp'' ''/tmp/x'' ''/var/lib/freedombox/backups-upload'' ''/'' True ''root'' ''root'' 384 [] =
     (Inr (), ''/'')"
  by (subst upload_named_root)
    (simp_all add: noting_files_def prog_simps is_relative_to_def all_parts_def path_root_def path_parts_def path_str_def path_of_def)

end
