(* ===== verification/LetsEncrypt.thy ===== *)
theory LetsEncrypt
  imports AppModel Names Paths System
begin

text \<open>
  Let's Encrypt certificates (plinth/modules/letsencrypt): the components of apps that use
  certificates (components.py), the events of certificates and the domains that come and go
  (\<open>__init__.py\<close>), and the privileged calls (privileged.py). certbot, openssl and the file
  system are parameters, and so are the threads and JSON text.
\<close>

section \<open>Certificates and components\<close>

record cert_status =
  certificate_available :: bool
  expiry_date :: string
  web_enabled :: bool
  validity :: string
  lineage :: string
  modified_time :: int

text \<open>The dict of \<open>get_status\<close>: \<open>None\<close> is the empty dict of a domain without a certificate.\<close>

type_synonym statuses = "(string, cert_status option) odict"

text \<open>What \<open>domains\<close> of a component gives: nothing, all of them (the string \<open>'*'\<close>), or a list.\<close>

datatype interest = Nothing | Every | Listed "string list"

record 'w le_component =
  le_id :: string
  le_domains :: "('w, interest) prog"
  daemons :: "string list option"
  reload_daemons :: bool
  should_copy_certificates :: bool
  private_key_path :: "string option"
  certificate_path :: "string option"
  user_owner :: "string option"
  group_owner :: "string option"
  managing_app :: "string option"

type_synonym 'w le_components = "(string, 'w le_component) odict"

text \<open>
  The calls that leave the process or the module: the privileged calls, services, the app of a
  component, threads, and JSON.
\<close>

record 'w le_env =
  le_status :: "('w, (string \<times> cert_status) list) prog"
  le_modified_time :: "string \<Rightarrow> ('w, int) prog"
  le_copy :: "string \<Rightarrow> string \<Rightarrow> string \<Rightarrow> string \<Rightarrow> string \<Rightarrow> string \<Rightarrow> string \<Rightarrow> ('w, unit) prog"
  le_compare :: "string \<Rightarrow> string \<Rightarrow> string \<Rightarrow> string \<Rightarrow> string \<Rightarrow> ('w, bool) prog"
  le_obtain :: "string \<Rightarrow> ('w, unit) prog"
  le_revoke :: "string \<Rightarrow> ('w, unit) prog"
  le_delete :: "string \<Rightarrow> ('w, unit) prog"
  le_try_restart :: "string \<Rightarrow> ('w, unit) prog"
  le_try_reload :: "string \<Rightarrow> ('w, unit) prog"
  le_needs_setup :: "string \<Rightarrow> ('w, bool) prog"
  le_start_thread :: "string \<Rightarrow> string list \<Rightarrow> string option \<Rightarrow> ('w, unit) prog"
  le_names :: domain_names
  le_loads :: "string \<Rightarrow> json result"
  le_dumps :: "json \<Rightarrow> string"

text \<open>An optional attribute that the constructor wants to be given and not empty.\<close>

definition given :: "string option \<Rightarrow> bool" where
  "given x \<longleftrightarrow> (case x of None \<Rightarrow> False | Some s \<Rightarrow> s \<noteq> [])"

definition le_component_init ::
  "('x world_scheme) le_component \<Rightarrow> ('x world_scheme) le_components \<Rightarrow>
   ('x world_scheme, ('x world_scheme) le_components) prog"
where
  "le_component_init c all_components =
     (if should_copy_certificates c \<and>
         \<not> (given (private_key_path c) \<and> given (certificate_path c) \<and> given (user_owner c) \<and>
            given (group_owner c) \<and> given (managing_app c))
      then p_raise (ValueError ''Not enough values for copying certificates'')
      else p_then (p_bind (follower_init (le_id c) False) (\<lambda>_. p_ret ()))
             (p_ret (od_set all_components (le_id c) c)))"

section \<open>Status\<close>

text \<open>\<open>letsencrypt.get_status\<close>: the certificates, and an empty entry for the other domains.\<close>

definition add_missing :: "domain_name list \<Rightarrow> statuses \<Rightarrow> statuses" where
  "add_missing ds st = fold (\<lambda>d s. if can_have_certificate (dn_type d)
     then (if map_of s (dn_name d) = None then od_set s (dn_name d) None else s) else s) ds st"

definition le_get_status :: "'w le_env \<Rightarrow> ('w, statuses) prog" where
  "le_get_status env =
     p_bind (le_status env) (\<lambda>st.
       p_ret (add_missing (domain_name_list None (le_names env)) (map (\<lambda>(d, s). (d, Some s)) st)))"

text \<open>The domains with a certificate, and the status.\<close>

definition letsencrypt_domains :: "'w le_env \<Rightarrow> ('w, string set \<times> statuses) prog" where
  "letsencrypt_domains env =
     p_bind (le_get_status env) (\<lambda>st. p_ret (set (od_keys (filter (\<lambda>p. snd p \<noteq> None) st)), st))"

definition lineage_of :: "statuses \<Rightarrow> string \<Rightarrow> string result" where
  "lineage_of st d = (case map_of st d of Some (Some s) \<Rightarrow> Inr (lineage s) | _ \<Rightarrow> Inl (KeyError ''lineage''))"

section \<open>Copying certificates\<close>

definition text_of :: "string option \<Rightarrow> string result" where
  "text_of x = (case x of None \<Rightarrow> Inl (TypeError ''NoneType'') | Some s \<Rightarrow> Inr s)"

definition copy_one :: "'w le_env \<Rightarrow> 'w le_component \<Rightarrow> string \<Rightarrow> string \<Rightarrow> string \<Rightarrow> string \<Rightarrow> ('w, unit) prog" where
  "copy_one env c source_key source_cert key cert =
     p_bind (p_lift (text_of (managing_app c))) (\<lambda>app.
     p_bind (p_lift (text_of (user_owner c))) (\<lambda>user.
     p_bind (p_lift (text_of (group_owner c))) (\<lambda>grp.
       le_copy env app (path_str source_key) (path_str source_cert) key cert user grp)))"

definition copy_certificates :: "'w le_env \<Rightarrow> 'w le_component \<Rightarrow> string list \<Rightarrow> string \<Rightarrow> string \<Rightarrow> ('w, unit) prog" where
  "copy_certificates env c domains source_key source_cert =
     p_bind (p_lift (text_of (private_key_path c))) (\<lambda>key_path.
     p_bind (p_lift (text_of (certificate_path c))) (\<lambda>cert_path.
       if contains_str ''{domain}'' key_path \<or> contains_str ''{domain}'' cert_path
       then p_for (\<lambda>d. p_bind (p_lift (format_domain d key_path)) (\<lambda>key.
              p_bind (p_lift (format_domain d cert_path)) (\<lambda>cert.
                copy_one env c source_key source_cert key cert))) domains
       else copy_one env c source_key source_cert key_path cert_path))"

definition copy_self_signed :: "'w le_env \<Rightarrow> 'w le_component \<Rightarrow> string list \<Rightarrow> ('w, unit) prog" where
  "copy_self_signed env c domains =
     copy_certificates env c domains ''/etc/ssl/private/ssl-cert-snakeoil.key'' ''/etc/ssl/certs/ssl-cert-snakeoil.pem''"

definition copy_letsencrypt :: "'w le_env \<Rightarrow> 'w le_component \<Rightarrow> string list \<Rightarrow> string \<Rightarrow> ('w, unit) prog" where
  "copy_letsencrypt env c domains lin =
     copy_certificates env c domains (path_join lin ''privkey.pem'') (path_join lin ''fullchain.pem'')"

definition compare_copy :: "'w le_env \<Rightarrow> 'w le_component \<Rightarrow> string \<Rightarrow> string \<Rightarrow> ('w, bool) prog" where
  "compare_copy env c d lin =
     p_bind (p_lift (r_bind (text_of (private_key_path c)) (format_domain d))) (\<lambda>key.
     p_bind (p_lift (r_bind (text_of (certificate_path c)) (format_domain d))) (\<lambda>cert.
     p_bind (p_lift (text_of (managing_app c))) (\<lambda>app.
       le_compare env app (path_join lin ''privkey.pem'') (path_join lin ''fullchain.pem'') key cert)))"

definition refresh_daemons :: "'w le_env \<Rightarrow> 'w le_component \<Rightarrow> ('w, unit) prog" where
  "refresh_daemons env c =
     (case daemons c of
        None \<Rightarrow> p_raise (TypeError ''NoneType'')
      | Some ds \<Rightarrow> p_for (\<lambda>d. if reload_daemons c then le_try_reload env d else le_try_restart env d) ds)"

section \<open>Operations of a component\<close>

text \<open>\<open>for domain in app_domains\<close>: \<open>None\<close> cannot be iterated, the string \<open>'*'\<close> gives its character.\<close>

definition iterate_interest :: "interest \<Rightarrow> string list result" where
  "iterate_interest i = (case i of Nothing \<Rightarrow> Inl (TypeError ''NoneType'') | Every \<Rightarrow> Inr [''*''] | Listed ds \<Rightarrow> Inr ds)"

definition falsy_interest :: "interest \<Rightarrow> bool" where
  "falsy_interest i = (case i of Nothing \<Rightarrow> True | Every \<Rightarrow> False | Listed ds \<Rightarrow> ds = [])"

definition setup_certificates :: "'w le_env \<Rightarrow> 'w le_component \<Rightarrow> interest \<Rightarrow> ('w, unit) prog" where
  "setup_certificates env c arg =
     p_bind (if falsy_interest arg then le_domains c else p_ret arg) (\<lambda>i.
     let i' = (if i = Every then Listed (list_names None (le_names env)) else i) in
     p_bind (letsencrypt_domains env) (\<lambda>(have_cert, st).
       p_then (if should_copy_certificates c
               then p_bind (p_lift (iterate_interest i')) (p_for (\<lambda>d.
                      if d \<in> have_cert
                      then p_bind (p_lift (lineage_of st d)) (copy_letsencrypt env c [d])
                      else copy_self_signed env c [d]))
               else p_ret ())
         (refresh_daemons env c)))"

definition component_domain_status :: "'w le_env \<Rightarrow> 'w le_component \<Rightarrow> string set \<Rightarrow> statuses \<Rightarrow> string \<Rightarrow> ('w, string) prog" where
  "component_domain_status env c have_cert st d =
     (if d \<in> have_cert
      then (case map_of st d of
              Some (Some s) \<Rightarrow>
                if should_copy_certificates c
                then p_bind (compare_copy env c d (lineage s)) (\<lambda>same.
                       p_ret (if \<not> same then ''outdated-copy'' else validity s))
                else p_ret (validity s)
            | _ \<Rightarrow> p_raise (KeyError d))
      else p_ret ''self-signed'')"

definition component_get_status :: "'w le_env \<Rightarrow> 'w le_component \<Rightarrow> ('w, (string, string) odict) prog" where
  "component_get_status env c =
     p_bind (le_domains c) (\<lambda>i.
     p_bind (letsencrypt_domains env) (\<lambda>(have_cert, st).
     p_bind (p_lift (iterate_interest i)) (\<lambda>ds.
     p_bind (p_map (\<lambda>d. p_bind (component_domain_status env c have_cert st d) (\<lambda>s. p_ret (d, s))) ds) (\<lambda>rows.
       p_ret (fold (\<lambda>(d, s) out. od_set out d s) rows [])))))"

text \<open>The code collects the domains in a set; here they keep the order of the event.\<close>

definition interested_domains :: "interest \<Rightarrow> string list \<Rightarrow> string list" where
  "interested_domains i domains =
     (if falsy_interest i then []
      else case i of Listed ds \<Rightarrow> filter (\<lambda>d. d \<in> set ds) (remdups domains) | _ \<Rightarrow> remdups domains)"

definition on_certificate_obtained :: "'w le_env \<Rightarrow> 'w le_component \<Rightarrow> string list \<Rightarrow> string \<Rightarrow> ('w, unit) prog" where
  "on_certificate_obtained env c domains lin =
     p_bind (le_domains c) (\<lambda>i.
       let ds = interested_domains i domains in
       if ds = [] then p_ret ()
       else p_then (if should_copy_certificates c then copy_letsencrypt env c ds lin else p_ret ())
              (refresh_daemons env c))"

definition on_certificate_renewed :: "'w le_env \<Rightarrow> 'w le_component \<Rightarrow> string list \<Rightarrow> string \<Rightarrow> ('w, unit) prog" where
  "on_certificate_renewed = on_certificate_obtained"

definition on_certificate_revoked :: "'w le_env \<Rightarrow> 'w le_component \<Rightarrow> string list \<Rightarrow> string \<Rightarrow> ('w, unit) prog" where
  "on_certificate_revoked env c domains lin =
     p_bind (le_domains c) (\<lambda>i.
       let ds = interested_domains i domains in
       if ds = [] then p_ret ()
       else p_then (if should_copy_certificates c then copy_self_signed env c ds else p_ret ())
              (refresh_daemons env c))"

definition on_certificate_deleted :: "'w le_env \<Rightarrow> 'w le_component \<Rightarrow> string list \<Rightarrow> string \<Rightarrow> ('w, unit) prog" where
  "on_certificate_deleted = on_certificate_revoked"

definition LIVE_DIRECTORY :: string where
  "LIVE_DIRECTORY = ''/etc/letsencrypt/live/''"

section \<open>Events\<close>

datatype event = Obtained | Renewed | Revoked | Deleted

text \<open>\<open>getattr(component, 'on_certificate_' + event)\<close>.\<close>

definition event_handler :: "event \<Rightarrow> 'w le_env \<Rightarrow> 'w le_component \<Rightarrow> string list \<Rightarrow> string \<Rightarrow> ('w, unit) prog" where
  "event_handler e = (case e of Obtained \<Rightarrow> on_certificate_obtained | Renewed \<Rightarrow> on_certificate_renewed
     | Revoked \<Rightarrow> on_certificate_revoked | Deleted \<Rightarrow> on_certificate_deleted)"

definition event_of_name :: "string \<Rightarrow> event result" where
  "event_of_name s =
     (if s = ''obtained'' then Inr Obtained else if s = ''renewed'' then Inr Renewed
      else if s = ''revoked'' then Inr Revoked else if s = ''deleted'' then Inr Deleted else Inl AssertionError)"

text \<open>The lineage of an event without one is that of its first domain.\<close>

definition event_lineage :: "string list \<Rightarrow> string option \<Rightarrow> string result" where
  "event_lineage domains lin =
     (if given lin then Inr (the lin)
      else case domains of [] \<Rightarrow> Inl (IndexError ''list index out of range'')
           | d # ds \<Rightarrow> Inr (path_join LIVE_DIRECTORY d))"

text \<open>One component: its handler runs unless its app waits for setup; what it raises is logged.\<close>

definition notify_component ::
  "'w le_env \<Rightarrow> event \<Rightarrow> string list \<Rightarrow> string \<Rightarrow> 'w le_component \<Rightarrow> ('w, unit) prog"
where
  "notify_component env e domains lin c =
     p_bind (le_needs_setup env (le_id c)) (\<lambda>b.
       if b then p_ret ()
       else p_catch (event_handler e env c domains lin) (\<lambda>_. p_ret ()))"

definition CERTIFICATE_INFO :: string where
  "CERTIFICATE_INFO = ''letsencrypt_certificate_info''"

text \<open>The stored JSON text of the known certificates; the default is the text of an empty dict.\<close>

definition load_certificate_info :: "('x world_scheme) le_env \<Rightarrow> ('x world_scheme, json) prog" where
  "load_certificate_info env =
     p_bind (kv_get_default CERTIFICATE_INFO (JStr ''{}'')) (\<lambda>text.
       p_lift (case text of JStr s \<Rightarrow> le_loads env s | _ \<Rightarrow> Inl (TypeError ''the JSON object must be str'')))"

definition get_last_seen_modified_time :: "('x world_scheme) le_env \<Rightarrow> string \<Rightarrow> ('x world_scheme, int) prog" where
  "get_last_seen_modified_time env lin =
     p_bind (load_certificate_info env) (\<lambda>info.
       p_lift (case r_bind (subscript info lin) (\<lambda>i. subscript i ''last_seen_modified_time'') of
                 Inr (JInt n) \<Rightarrow> Inr n
               | Inr _ \<Rightarrow> Inl (TypeError ''not supported'')
               | Inl e \<Rightarrow> if is_key_error e then Inr 0 else Inl e))"

definition set_last_seen_modified_time :: "('x world_scheme) le_env \<Rightarrow> string \<Rightarrow> ('x world_scheme, unit) prog" where
  "set_last_seen_modified_time env lin =
     p_bind (le_modified_time env (path_name lin)) (\<lambda>t.
     p_bind (load_certificate_info env) (\<lambda>info.
       case info of
         JDict certs \<Rightarrow>
           (case map_of certs (path_str lin) of
              None \<Rightarrow> kv_set CERTIFICATE_INFO
                (JStr (le_dumps env (JDict (od_set certs (path_str lin) (JDict [(''last_seen_modified_time'', JInt t)])))))
            | Some (JDict c) \<Rightarrow> kv_set CERTIFICATE_INFO
                (JStr (le_dumps env (JDict (od_set certs (path_str lin) (JDict (od_set c ''last_seen_modified_time'' (JInt t)))))))
            | Some _ \<Rightarrow> p_raise (TypeError ''item assignment''))
       | _ \<Rightarrow> p_raise (AttributeError ''setdefault'')))"

definition on_certificate_event_sync ::
  "('x world_scheme) le_env \<Rightarrow> ('x world_scheme) le_components \<Rightarrow> string \<Rightarrow> string list \<Rightarrow> string option \<Rightarrow>
   ('x world_scheme, unit) prog"
where
  "on_certificate_event_sync env all_components name domains lin =
     p_bind (p_lift (event_lineage domains lin)) (\<lambda>l.
     p_bind (p_lift (event_of_name name)) (\<lambda>e.
       p_then (p_for (notify_component env e domains l) (od_values all_components))
         (if e = Obtained \<or> e = Renewed then set_last_seen_modified_time env l else p_ret ())))"

section \<open>Certificates and domains\<close>

definition certificate_obtain :: "'w le_env \<Rightarrow> string \<Rightarrow> ('w, unit) prog" where
  "certificate_obtain env d = p_then (le_obtain env d) (le_start_thread env ''obtained'' [d] None)"

definition certificate_reobtain :: "'w le_env \<Rightarrow> string \<Rightarrow> ('w, unit) prog" where
  "certificate_reobtain env d = le_obtain env d"

definition certificate_revoke :: "'w le_env \<Rightarrow> string \<Rightarrow> bool \<Rightarrow> ('w, unit) prog" where
  "certificate_revoke env d really_revoke =
     p_then (if really_revoke then le_revoke env d else p_ret ()) (le_start_thread env ''revoked'' [d] None)"

definition certificate_delete :: "'w le_env \<Rightarrow> string \<Rightarrow> ('w, unit) prog" where
  "certificate_delete env d = p_then (le_delete env d) (le_start_thread env ''deleted'' [d] None)"

definition valid_certificate :: "statuses \<Rightarrow> string \<Rightarrow> bool" where
  "valid_certificate st d \<longleftrightarrow>
     (case map_of st d of Some (Some s) \<Rightarrow> certificate_available s \<and> validity s = ''valid'' | _ \<Rightarrow> False)"

definition on_domain_added :: "'w le_env \<Rightarrow> domain_types \<Rightarrow> string \<Rightarrow> string \<Rightarrow> ('w, bool) prog" where
  "on_domain_added env all_types type_id name =
     p_bind (p_lift (domain_type_get all_types type_id)) (\<lambda>t.
       if \<not> can_have_certificate t then p_ret False
       else p_bind (le_get_status env) (\<lambda>st.
         if valid_certificate st name then p_ret False
         else p_catch (p_then (if name \<noteq> [] then certificate_obtain env name else p_ret ()) (p_ret True))
                (\<lambda>_. p_ret False)))"

definition on_domain_removed :: "'w le_env \<Rightarrow> domain_types \<Rightarrow> string \<Rightarrow> string \<Rightarrow> ('w, bool) prog" where
  "on_domain_removed env all_types type_id name =
     p_bind (p_lift (domain_type_get all_types type_id)) (\<lambda>t.
       if \<not> can_have_certificate t then p_ret False
       else p_catch (p_then (if name \<noteq> [] then certificate_revoke env name False else p_ret ()) (p_ret True))
              (\<lambda>_. p_ret False))"

definition handle_modified_internal ::
  "('x world_scheme) le_env \<Rightarrow> ('x world_scheme) le_components \<Rightarrow> ('x world_scheme, unit) prog"
where
  "handle_modified_internal env all_components =
     p_bind (le_get_status env) (\<lambda>st.
       p_for (\<lambda>(d, s). case s of
           None \<Rightarrow> p_ret ()
         | Some cs \<Rightarrow> p_bind (get_last_seen_modified_time env (lineage cs)) (\<lambda>seen.
             if seen < modified_time cs
             then on_certificate_event_sync env all_components ''renewed'' (split_words d) (Some (lineage cs))
             else p_ret ())) st)"

definition handle_modified ::
  "('x world_scheme) le_env \<Rightarrow> ('x world_scheme) le_components \<Rightarrow> ('x world_scheme, unit) prog"
where
  "handle_modified env all_components = p_catch (handle_modified_internal env all_components) (\<lambda>_. p_ret ())"

section \<open>The app\<close>

definition le_app_diagnose ::
  "'w app \<Rightarrow> domain_names \<Rightarrow> (string \<Rightarrow> ('w, diagnostic_check) prog) \<Rightarrow> ('w, diagnostic_check list) prog"
where
  "le_app_diagnose a all_names diagnose_url =
     p_bind (app_diagnose a) (\<lambda>rs.
     p_bind (p_map (\<lambda>d. p_bind (diagnose_url (''https://'' @ dn_name d)) (\<lambda>r.
               p_ret (r\<lparr>check_id := ''letsencrypt-domain-'' @ dn_name d,
                        parameters := od_set (parameters r) ''domain'' (JStr (dn_name d))\<rparr>)))
             (filter (\<lambda>d. can_have_certificate (dn_type d)) (domain_name_list None all_names)))
       (\<lambda>ds. p_ret (rs @ ds)))"

text \<open>\<open>store\<close> keeps the text of an error for the running thread.\<close>

definition is_domain_check :: "diagnostic_check \<Rightarrow> bool" where
  "is_domain_check ch = starts_with (check_id ch) ''letsencrypt-domain''"

definition repair_domain :: "'w le_env \<Rightarrow> (exn \<Rightarrow> ('w, unit) prog) \<Rightarrow> statuses \<Rightarrow> diagnostic_check \<Rightarrow> ('w, unit) prog" where
  "repair_domain env store st ch =
     p_bind (p_lift (case map_of (parameters ch) ''domain'' of
                       None \<Rightarrow> Inl (KeyError ''domain'') | Some (JStr d) \<Rightarrow> Inr d | Some _ \<Rightarrow> Inl (TypeError ''domain'')))
       (\<lambda>d. p_catch
              (case map_of st d of
                 None \<Rightarrow> p_raise (KeyError d)
               | Some s \<Rightarrow> if (case s of None \<Rightarrow> False | Some cs \<Rightarrow> certificate_available cs)
                   then certificate_obtain env d else certificate_reobtain env d)
              store)"

definition le_app_repair ::
  "'w le_env \<Rightarrow> (exn \<Rightarrow> ('w, unit) prog) \<Rightarrow> 'w app \<Rightarrow> diagnostic_check list \<Rightarrow> ('w, bool) prog"
where
  "le_app_repair env store a chs =
     p_bind (le_get_status env) (\<lambda>st.
       p_then (p_for (repair_domain env store st) (filter is_domain_check chs))
              (app_repair a (filter (\<lambda>ch. \<not> is_domain_check ch) chs)))"

section \<open>Privileged calls\<close>

text \<open>
  \<open>le_sys\<close> runs the commands of \<open>System\<close>; the rest are calls of the standard library on the
  file system. A mode is the umask of the code.
\<close>

record 'w le_host =
  le_sys :: "'w system"
  list_dir :: "string \<Rightarrow> ('w, string list) prog"
  is_dir :: "string \<Rightarrow> 'w \<Rightarrow> bool"
  stat_mtime :: "string \<Rightarrow> ('w, int) prog"
  resolve_path :: "string \<Rightarrow> 'w \<Rightarrow> string"
  make_parents :: "string \<Rightarrow> ('w, unit) prog"
  copy_file :: "nat \<Rightarrow> string \<Rightarrow> string \<Rightarrow> ('w, unit) prog"
  append_file :: "nat \<Rightarrow> string \<Rightarrow> string \<Rightarrow> ('w, unit) prog"
  change_owner :: "string \<Rightarrow> string \<Rightarrow> string \<Rightarrow> ('w, unit) prog"
  compare_files :: "string \<Rightarrow> string \<Rightarrow> ('w, bool) prog"

definition LE_DIRECTORY :: string where "LE_DIRECTORY = ''/etc/letsencrypt/''"
definition ETC_SSL_DIRECTORY :: string where "ETC_SSL_DIRECTORY = ''/etc/ssl/''"

definition get_certificate_expiry :: "'w le_host \<Rightarrow> string \<Rightarrow> ('w, string) prog" where
  "get_certificate_expiry h d =
     p_bind (run_command (le_sys h)
       [''openssl'', ''x509'', ''-enddate'', ''-noout'', ''-in'', path_join (path_join LIVE_DIRECTORY d) ''cert.pem''] True)
       (\<lambda>out. p_lift (case split_on (CHR ''='') (strip_str out) of
          a # b # r \<Rightarrow> Inr b | _ \<Rightarrow> Inl (IndexError ''list index out of range'')))"

definition get_modified_time :: "'w le_host \<Rightarrow> string \<Rightarrow> ('w, int) prog" where
  "get_modified_time h d = stat_mtime h (path_join (path_join LIVE_DIRECTORY d) ''cert.pem'')"

text \<open>\<open>re.search(r'INVALID: (.*)\)', line)\<close>: up to the last parenthesis of the same line.\<close>

definition upto_last_paren :: "string \<Rightarrow> string option" where
  "upto_last_paren s =
     (let line = takeWhile (\<lambda>c. c \<noteq> CHR 0x0A) s
      in if CHR '')'' \<in> set line then Some (rev (tl (dropWhile (\<lambda>c. c \<noteq> CHR '')'') (rev line)))) else None)"

fun find_invalid :: "string \<Rightarrow> string option" where
  "find_invalid [] = None"
| "find_invalid (c # cs) =
     (case (if starts_with (c # cs) ''INVALID: '' then upto_last_paren (drop 8 cs) else None) of
        Some m \<Rightarrow> Some m
      | None \<Rightarrow> find_invalid cs)"

definition validity_of_output :: "string \<Rightarrow> string" where
  "validity_of_output s =
     (case find_invalid s of
        Some m \<Rightarrow> map lower_char m
      | None \<Rightarrow> if contains_str ''VALID'' s then ''valid'' else ''unknown'')"

definition get_validity_status :: "'w le_host \<Rightarrow> string \<Rightarrow> ('w, string) prog" where
  "get_validity_status h d =
     p_bind (run_command (le_sys h) [''certbot'', ''certificates'', ''-d'', d] True) (\<lambda>out. p_ret (validity_of_output out))"

definition privileged_domain_status :: "'w le_host \<Rightarrow> string \<Rightarrow> ('w, string \<times> cert_status) prog" where
  "privileged_domain_status h d =
     p_bind (get_certificate_expiry h d) (\<lambda>expiry.
     p_bind (webserver_is_enabled (le_sys h) d ''site'') (\<lambda>web.
     p_bind (get_validity_status h d) (\<lambda>valid.
     p_bind (get_modified_time h d) (\<lambda>mtime.
       p_ret (d, \<lparr>certificate_available = True, expiry_date = expiry, web_enabled = web, validity = valid,
                  lineage = path_join LIVE_DIRECTORY d, modified_time = mtime\<rparr>)))))"

fun is_os_error :: "exn \<Rightarrow> bool" where
  "is_os_error (FileNotFoundError m) = True"
| "is_os_error (FileExistsError m) = True"
| "is_os_error (PermissionError m) = True"
| "is_os_error (ConnectionError m) = True"
| "is_os_error (TimeoutError m) = True"
| "is_os_error e = False"

definition privileged_get_status :: "'w le_host \<Rightarrow> ('w, (string \<times> cert_status) list) prog" where
  "privileged_get_status h =
     p_bind (p_catch (list_dir h LIVE_DIRECTORY) (\<lambda>e. if is_os_error e then p_ret [] else p_raise e)) (\<lambda>names.
     p_bind (p_get (\<lambda>w. filter (\<lambda>d. is_dir h (path_join LIVE_DIRECTORY d) w) names)) (\<lambda>ds.
       p_map (privileged_domain_status h) ds))"

definition privileged_revoke :: "'w le_host \<Rightarrow> string \<Rightarrow> ('w, unit) prog" where
  "privileged_revoke h d =
     (let cert = path_join (path_join LIVE_DIRECTORY d) ''cert.pem'' in
      p_bind (p_get (path_exists (le_sys h) cert)) (\<lambda>present.
        p_then (if present
                then run_ok (le_sys h) [''certbot'', ''revoke'', ''--non-interactive'', ''--domain'', d, ''--cert-path'', cert] True
                else p_ret ())
          (p_bind (webserver_disable (le_sys h) d ''site'' True) (\<lambda>_. p_ret ()))))"

definition privileged_obtain :: "'w le_host \<Rightarrow> string \<Rightarrow> ('w, unit) prog" where
  "privileged_obtain h d =
     run_ok (le_sys h) [''certbot'', ''certonly'', ''--non-interactive'', ''--text'', ''--agree-tos'',
       ''--register-unsafely-without-email'', ''--domain'', d, ''--authenticator'', ''webroot'',
       ''--webroot-path'', ''/var/www/html'', ''--renew-by-default''] True"

definition privileged_delete :: "'w le_host \<Rightarrow> string \<Rightarrow> ('w, unit) prog" where
  "privileged_delete h d =
     p_then (run_ok (le_sys h) [''certbot'', ''delete'', ''--non-interactive'', ''--cert-name'', d] True)
       (p_bind (webserver_disable (le_sys h) d ''site'' True) (\<lambda>_. p_ret ()))"

subsection \<open>Copies\<close>

definition assert_source_directory :: "string \<Rightarrow> unit result" where
  "assert_source_directory p = assert_that (starts_with p LE_DIRECTORY \<or> starts_with p ETC_SSL_DIRECTORY)"

definition get_managed_path :: "string \<Rightarrow> string" where
  "get_managed_path p =
     (if contains_str ''{domain}'' p then path_str (before_str ''{domain}'' p) else path_parent p)"

text \<open>\<open>cs\<close> are the LetsEncrypt components of the apps of the module that asks.\<close>

definition managed_paths :: "'v le_component list \<Rightarrow> string list" where
  "managed_paths cs = concat (map (\<lambda>c.
     (if given (private_key_path c) then [get_managed_path (the (private_key_path c))] else []) @
     (if given (certificate_path c) then [get_managed_path (the (certificate_path c))] else [])) cs)"

definition assert_managed_path :: "'v le_component list \<Rightarrow> string \<Rightarrow> unit result" where
  "assert_managed_path cs p = assert_that (set (path_parents p) \<inter> set (managed_paths cs) \<noteq> {})"

definition privileged_copy_certificate ::
  "'w le_host \<Rightarrow> 'v le_component list \<Rightarrow> string \<Rightarrow> string \<Rightarrow> string \<Rightarrow> string \<Rightarrow> string \<Rightarrow> string \<Rightarrow> ('w, unit) prog"
where
  "privileged_copy_certificate h cs source_key source_cert key cert user grp =
     p_bind (p_get (resolve_path h source_key)) (\<lambda>sk.
     p_then (p_lift (assert_source_directory sk))
    (p_bind (p_get (resolve_path h source_cert)) (\<lambda>sc.
     p_then (p_lift (assert_source_directory sc))
    (p_bind (p_get (resolve_path h key)) (\<lambda>k.
     p_then (p_lift (assert_managed_path cs k))
    (p_bind (p_get (resolve_path h cert)) (\<lambda>c.
     p_then (p_lift (assert_managed_path cs c))
    (p_then (make_parents h k)
    (p_then (make_parents h c)
    (p_then (copy_file h 127 sk k)
    (p_then (if c \<noteq> k then copy_file h 91 sc c else append_file h 127 sc k)
    (p_then (change_owner h c user grp) (change_owner h k user grp)))))))))))))"

definition privileged_compare_certificate ::
  "'w le_host \<Rightarrow> 'v le_component list \<Rightarrow> string \<Rightarrow> string \<Rightarrow> string \<Rightarrow> string \<Rightarrow> ('w, bool) prog"
where
  "privileged_compare_certificate h cs source_key source_cert key cert =
     p_then (p_lift (assert_source_directory (path_str source_key)))
    (p_then (p_lift (assert_source_directory (path_str source_cert)))
    (p_then (p_lift (assert_managed_path cs (path_str key)))
    (p_then (p_lift (assert_managed_path cs (path_str cert)))
       (p_catch
         (p_bind (compare_files h (path_str source_cert) (path_str cert)) (\<lambda>a.
            if a then compare_files h (path_str source_key) (path_str key) else p_ret False))
         (\<lambda>e. case e of FileNotFoundError m \<Rightarrow> p_ret False | _ \<Rightarrow> p_raise e)))))"

end
