(* ===== verification/LetsEncryptLaws.thy ===== *)
theory LetsEncryptLaws
  imports LetsEncrypt "HOL-Library.Countable"
begin

text \<open>
  Properties of the certificate events: every component hears of an event whatever the others
  do, certificates renewed while the service was down are announced once, and the privileged
  copy stays within the directories it may read and write.
\<close>

section \<open>Events reach the components\<close>

text \<open>Whether an app waits for setup is read without changing anything.\<close>

definition setup_known :: "'w le_env \<Rightarrow> (string \<Rightarrow> bool) \<Rightarrow> bool" where
  "setup_known env waits \<longleftrightarrow> (\<forall>cid w. le_needs_setup env cid w = (Inr (waits cid), w))"

lemma notify_component_total:
  "setup_known env waits \<Longrightarrow> notify_component env e domains lin c w =
     (Inr (), if waits (le_id c) then w else snd (event_handler e env c domains lin w))"
  by (auto simp: notify_component_def setup_known_def p_bind_def p_catch_def p_ret_def split: prod.splits sum.splits)

lemma notify_all:
  "setup_known env waits \<Longrightarrow> p_for (notify_component env e domains lin) cs w =
     (Inr (), fold (\<lambda>c v. snd (event_handler e env c domains lin v)) (filter (\<lambda>c. \<not> waits (le_id c)) cs) w)"
  by (induction cs arbitrary: w) (simp_all add: prog_simps notify_component_total)

section \<open>The table of seen certificates\<close>

text \<open>The stored text is that of a dict of dicts with integer times.\<close>

definition seen_entry :: "json \<Rightarrow> bool" where
  "seen_entry v \<longleftrightarrow> (\<exists>d. v = JDict d \<and>
     (case map_of d ''last_seen_modified_time'' of None \<Rightarrow> True | Some t \<Rightarrow> (\<exists>n. t = JInt n)))"

definition info_is :: "('x world_scheme) le_env \<Rightarrow> (string \<times> json) list \<Rightarrow> 'x world_scheme \<Rightarrow> bool" where
  "info_is env certs w \<longleftrightarrow> load_certificate_info env w = (Inr (JDict certs), w) \<and>
     (\<forall>k v. map_of certs k = Some v \<longrightarrow> seen_entry v)"

definition seen_time :: "(string \<times> json) list \<Rightarrow> string \<Rightarrow> int" where
  "seen_time certs lin =
     (case r_bind (subscript (JDict certs) lin) (\<lambda>i. subscript i ''last_seen_modified_time'') of
        Inr (JInt n) \<Rightarrow> n | _ \<Rightarrow> 0)"

lemma get_last_seen:
  "info_is env certs w \<Longrightarrow> get_last_seen_modified_time env lin w = (Inr (seen_time certs lin), w)"
proof -
  assume a: "info_is env certs w"
  then have load: "load_certificate_info env w = (Inr (JDict certs), w)" by (simp add: info_is_def)
  have entry: "\<exists>d. v = JDict d \<and> (case map_of d ''last_seen_modified_time'' of None \<Rightarrow> True | Some t \<Rightarrow> (\<exists>n. t = JInt n))"
    if "map_of certs lin = Some v" for v using a that by (auto simp: info_is_def seen_entry_def)
  show ?thesis
  proof (cases "map_of certs lin")
    case None
    then show ?thesis using load by (simp add: get_last_seen_modified_time_def seen_time_def prog_simps)
  next
    case (Some v)
    obtain d where d: "v = JDict d"
        "case map_of d ''last_seen_modified_time'' of None \<Rightarrow> True | Some t \<Rightarrow> (\<exists>n. t = JInt n)"
      using entry[OF Some] by blast
    then show ?thesis using load Some
      by (cases "map_of d ''last_seen_modified_time''")
        (auto simp: get_last_seen_modified_time_def seen_time_def prog_simps)
  qed
qed

text \<open>JSON text that is written is read back.\<close>

definition json_text :: "'w le_env \<Rightarrow> bool" where
  "json_text env \<longleftrightarrow> (\<forall>v. le_loads env (le_dumps env v) = Inr v)"

lemma info_after_set:
  assumes "json_text env" and "\<forall>k v. map_of certs k = Some v \<longrightarrow> seen_entry v"
  shows "info_is env certs (w\<lparr>kv := od_set (kv w) CERTIFICATE_INFO (JStr (le_dumps env (JDict certs)))\<rparr>)"
  using assms by (simp add: info_is_def load_certificate_info_def json_text_def prog_simps odict_simps)

lemma set_last_seen:
  assumes "json_text env" and "info_is env certs w" and "le_modified_time env (path_name lin) w = (Inr t, w)"
  shows "\<exists>certs' kv'. set_last_seen_modified_time env lin w = (Inr (), w\<lparr>kv := kv'\<rparr>) \<and>
    info_is env certs' (w\<lparr>kv := kv'\<rparr>) \<and> seen_time certs' (path_str lin) = t \<and>
    (\<forall>l. l \<noteq> path_str lin \<longrightarrow> seen_time certs' l = seen_time certs l)"
proof -
  let ?k = "path_str lin"
  obtain d where d: "map_of certs ?k = None \<and> d = [] \<or> map_of certs ?k = Some (JDict d)"
    using assms(2) by (cases "map_of certs ?k") (auto simp: info_is_def seen_entry_def)
  let ?d' = "od_set d ''last_seen_modified_time'' (JInt t)"
  let ?certs = "od_set certs ?k (JDict ?d')"
  let ?kv = "od_set (kv w) CERTIFICATE_INFO (JStr (le_dumps env (JDict ?certs)))"
  have "load_certificate_info env w = (Inr (JDict certs), w)" using assms(2) by (simp add: info_is_def)
  moreover have "[(''last_seen_modified_time'', JInt t)] = od_set [] ''last_seen_modified_time'' (JInt t)"
    by (simp add: od_set_def)
  ultimately have "set_last_seen_modified_time env lin w = (Inr (), w\<lparr>kv := ?kv\<rparr>)"
    using assms(3) d by (auto simp: set_last_seen_modified_time_def prog_simps)
  moreover have "seen_entry v" if "map_of ?certs l = Some v" for l v
    using that assms(2) by (auto simp: odict_simps info_is_def seen_entry_def split: if_splits)
  then have "info_is env ?certs (w\<lparr>kv := ?kv\<rparr>)" using info_after_set[OF assms(1)] by blast
  moreover have "seen_time ?certs ?k = t" by (simp add: seen_time_def odict_simps)
  moreover have "seen_time ?certs l = seen_time certs l" if "l \<noteq> ?k" for l
    using that by (simp add: seen_time_def odict_simps)
  ultimately show ?thesis by blast
qed

section \<open>Handlers leave the table alone\<close>

definition info_text :: "json option \<Rightarrow> 'x world_scheme \<Rightarrow> bool" where
  "info_text x w \<longleftrightarrow> map_of (kv w) CERTIFICATE_INFO = x"

text \<open>The calls that leave the module do not write to this entry of the store.\<close>

definition calls_keep_info :: "('x world_scheme) le_env \<Rightarrow> ('x world_scheme) le_component list \<Rightarrow> bool" where
  "calls_keep_info env cs \<longleftrightarrow> (\<forall>x.
     (\<forall>a b c d e f g. p_keeps (info_text x) (le_copy env a b c d e f g)) \<and>
     (\<forall>d. p_keeps (info_text x) (le_try_restart env d) \<and> p_keeps (info_text x) (le_try_reload env d)) \<and>
     (\<forall>c \<in> set cs. p_keeps (info_text x) (le_domains c)))"

lemma copy_one_keeps:
  "(\<And>a b c d e f g. p_keeps P (le_copy env a b c d e f g)) \<Longrightarrow> p_keeps P (copy_one env c sk sc k t)"
  unfolding copy_one_def by (intro keeps_intros)

lemma copy_certificates_keeps:
  "(\<And>a b c d e f g. p_keeps P (le_copy env a b c d e f g)) \<Longrightarrow> p_keeps P (copy_certificates env c ds sk sc)"
  unfolding copy_certificates_def by (intro keeps_intros copy_one_keeps)

lemma refresh_keeps:
  assumes "\<And>d. p_keeps P (le_try_restart env d)" and "\<And>d. p_keeps P (le_try_reload env d)"
  shows "p_keeps P (refresh_daemons env c)"
  by (cases "daemons c") (auto simp: refresh_daemons_def intro!: keeps_intros assms)

lemma handler_keeps:
  assumes "calls_keep_info env cs" and "c \<in> set cs"
  shows "p_keeps (info_text x) (event_handler e env c domains lin)"
proof -
  have k: "\<And>a b c d e f g. p_keeps (info_text x) (le_copy env a b c d e f g)"
    "\<And>d. p_keeps (info_text x) (le_try_restart env d)" "\<And>d. p_keeps (info_text x) (le_try_reload env d)"
    "p_keeps (info_text x) (le_domains c)"
    using assms by (auto simp: calls_keep_info_def)
  note parts = keeps_intros copy_certificates_keeps refresh_keeps k
  have "p_keeps (info_text x) (on_certificate_obtained env c domains lin)"
    unfolding on_certificate_obtained_def copy_letsencrypt_def Let_def by (intro parts)
  moreover have "p_keeps (info_text x) (on_certificate_revoked env c domains lin)"
    unfolding on_certificate_revoked_def copy_self_signed_def Let_def by (intro parts)
  ultimately show ?thesis
    by (cases e) (simp_all add: event_handler_def on_certificate_renewed_def on_certificate_deleted_def)
qed

lemma info_is_text: "info_is env certs w \<Longrightarrow> info_text (map_of (kv w) CERTIFICATE_INFO) w' \<Longrightarrow> info_is env certs w'"
  by (auto simp: info_is_def info_text_def load_certificate_info_def prog_simps split: json.splits)

lemma fold_handlers_keep:
  assumes "calls_keep_info env cs" and "set ds \<subseteq> set cs"
  shows "info_text x w \<Longrightarrow> info_text x (fold (\<lambda>c v. snd (event_handler e env c domains lin v)) ds w)"
  using assms(2)
proof (induction ds arbitrary: w)
  case (Cons c ds)
  then show ?case using p_keepsD[OF handler_keeps[OF assms(1), of c x]] by simp
qed simp

section \<open>Renewals announced once\<close>

text \<open>certbot's directory as the calls report it.\<close>

definition status_laws :: "('x world_scheme) le_env \<Rightarrow> (string \<times> cert_status) list \<Rightarrow> bool" where
  "status_laws env st \<longleftrightarrow> (\<forall>w. le_status env w = (Inr st, w)) \<and>
     (\<forall>(d, s) \<in> set st. lineage s \<noteq> [] \<and> path_str (lineage s) = lineage s \<and>
        (\<forall>w. le_modified_time env (path_name (lineage s)) w = (Inr (modified_time s), w)))"

text \<open>The component an event of the world reaches, as one fold.\<close>

lemma renewed_event:
  assumes "setup_known env waits" and "calls_keep_info env (od_values comps)" and "json_text env"
    and "status_laws env st" and "(d, s) \<in> set st" and "info_is env certs w"
  shows "\<exists>certs' w'. on_certificate_event_sync env comps ''renewed'' ds (Some (lineage s)) w = (Inr (), w') \<and>
    info_is env certs' w' \<and> seen_time certs' (lineage s) = modified_time s \<and>
    (\<forall>l. l \<noteq> lineage s \<longrightarrow> seen_time certs' l = seen_time certs l)"
proof -
  let ?l = "lineage s"
  have l: "?l \<noteq> []" "path_str ?l = ?l" "\<And>v. le_modified_time env (path_name ?l) v = (Inr (modified_time s), v)"
    using assms(4,5) by (auto simp: status_laws_def)
  define v where "v = fold (\<lambda>c v. snd (event_handler Renewed env c ds ?l v))
    (filter (\<lambda>c. \<not> waits (le_id c)) (od_values comps)) w"
  have "info_text (map_of (kv w) CERTIFICATE_INFO) v"
    unfolding v_def by (rule fold_handlers_keep[OF assms(2)]) (auto simp: info_text_def)
  then have "info_is env certs v" using info_is_text[OF assms(6)] by simp
  then obtain certs' kv' where "set_last_seen_modified_time env ?l v = (Inr (), v\<lparr>kv := kv'\<rparr>)"
      "info_is env certs' (v\<lparr>kv := kv'\<rparr>)" "seen_time certs' ?l = modified_time s"
      "\<forall>k. k \<noteq> ?l \<longrightarrow> seen_time certs' k = seen_time certs k"
    using set_last_seen[OF assms(3) _ l(3)] l(2) by metis
  moreover have "p_for (notify_component env Renewed ds ?l) (od_values comps) w = (Inr (), v)"
    unfolding v_def by (rule notify_all[OF assms(1)])
  ultimately show ?thesis using l(1)
    by (auto simp: on_certificate_event_sync_def event_lineage_def given_def event_of_name_def prog_simps)
qed

definition up_to_date :: "(string \<times> json) list \<Rightarrow> cert_status \<Rightarrow> bool" where
  "up_to_date certs s \<longleftrightarrow> modified_time s \<le> seen_time certs (lineage s)"

lemma renewed_keeps_up_to_date:
  assumes "status_laws env st" and "(d, s) \<in> set st" and "(d', s') \<in> set st" and "up_to_date certs s'"
    and "seen_time certs' (lineage s) = modified_time s" and "\<forall>l. l \<noteq> lineage s \<longrightarrow> seen_time certs' l = seen_time certs l"
  shows "up_to_date certs' s'"
proof (cases "lineage s' = lineage s")
  case True
  have "le_modified_time env (path_name (lineage t)) w = (Inr (modified_time t), w)" if "(c, t) \<in> set st" for c t w
    using assms(1) that by (auto simp: status_laws_def)
  then have "modified_time s' = modified_time s" using True assms(2,3) by (metis prod.inject sum.inject(2))
  then show ?thesis using True assms(5) by (simp add: up_to_date_def)
next
  case False
  then show ?thesis using assms(4,6) by (simp add: up_to_date_def)
qed

definition check_renewed ::
  "('x world_scheme) le_env \<Rightarrow> ('x world_scheme) le_components \<Rightarrow> string \<times> cert_status option \<Rightarrow> ('x world_scheme, unit) prog"
where
  "check_renewed env comps = (\<lambda>(d, s). case s of
       None \<Rightarrow> p_ret ()
     | Some cs \<Rightarrow> p_bind (get_last_seen_modified_time env (lineage cs)) (\<lambda>seen.
         if seen < modified_time cs
         then on_certificate_event_sync env comps ''renewed'' (split_words d) (Some (lineage cs)) else p_ret ()))"

lemma check_renewed_step:
  assumes ctx: "setup_known env waits" "calls_keep_info env (od_values comps)" "json_text env" "status_laws env st"
    and s: "(d, s) \<in> set st" and info: "info_is env certs w"
  shows "\<exists>certs' w'. check_renewed env comps (d, Some s) w = (Inr (), w') \<and> info_is env certs' w' \<and> up_to_date certs' s \<and>
    (\<forall>(d', s') \<in> set st. up_to_date certs s' \<longrightarrow> up_to_date certs' s')"
proof (cases "seen_time certs (lineage s) < modified_time s")
  case True
  obtain certs' w' where e: "on_certificate_event_sync env comps ''renewed'' (split_words d) (Some (lineage s)) w = (Inr (), w')"
      "info_is env certs' w'" "seen_time certs' (lineage s) = modified_time s"
      "\<forall>l. l \<noteq> lineage s \<longrightarrow> seen_time certs' l = seen_time certs l"
    using renewed_event[OF ctx s info] by blast
  have "\<forall>(d', s') \<in> set st. up_to_date certs s' \<longrightarrow> up_to_date certs' s'"
    using renewed_keeps_up_to_date[OF ctx(4) s _ _ e(3,4)] by blast
  moreover have "check_renewed env comps (d, Some s) w = (Inr (), w')"
    using True e(1) get_last_seen[OF info] by (simp add: check_renewed_def p_bind_eval)
  moreover have "up_to_date certs' s" using e(3) by (simp add: up_to_date_def)
  ultimately show ?thesis using e(2) by blast
next
  case False
  then have "check_renewed env comps (d, Some s) w = (Inr (), w)"
    using get_last_seen[OF info] by (simp add: check_renewed_def p_bind_eval p_ret_def)
  then show ?thesis using False info by (intro exI[of _ certs] exI[of _ w]) (auto simp: up_to_date_def)
qed

lemma check_renewed_loop:
  assumes ctx: "setup_known env waits" "calls_keep_info env (od_values comps)" "json_text env" "status_laws env st"
    and xs: "\<And>d s. (d, Some s) \<in> set xs \<Longrightarrow> (d, s) \<in> set st" and info: "info_is env certs w"
  shows "\<exists>certs' w'. p_for (check_renewed env comps) xs w = (Inr (), w') \<and> info_is env certs' w' \<and>
    (\<forall>d s. (d, Some s) \<in> set xs \<longrightarrow> up_to_date certs' s) \<and> (\<forall>(d, s) \<in> set st. up_to_date certs s \<longrightarrow> up_to_date certs' s)"
  using xs info
proof (induction xs arbitrary: certs w)
  case Nil
  then show ?case by (auto simp: prog_simps)
next
  case (Cons x xs)
  obtain d so where x: "x = (d, so)" by (cases x)
  have xs: "(e, Some t) \<in> set xs \<Longrightarrow> (e, t) \<in> set st" for e t using Cons.prems(1) by simp
  show ?case
  proof (cases so)
    case None
    then have "check_renewed env comps x w = (Inr (), w)" using x by (simp add: check_renewed_def p_ret_def)
    moreover obtain certs' w' where "p_for (check_renewed env comps) xs w = (Inr (), w')" "info_is env certs' w'"
        "\<forall>d s. (d, Some s) \<in> set xs \<longrightarrow> up_to_date certs' s" "\<forall>(d, s) \<in> set st. up_to_date certs s \<longrightarrow> up_to_date certs' s"
      using Cons.IH[OF xs Cons.prems(2)] by blast
    ultimately show ?thesis using x None by (auto simp: p_then_eval)
  next
    case (Some s)
    have s: "(d, s) \<in> set st" using Cons.prems(1) x Some by simp
    obtain c1 w1 where 1: "check_renewed env comps x w = (Inr (), w1)" "info_is env c1 w1" "up_to_date c1 s"
        "\<forall>(d', s') \<in> set st. up_to_date certs s' \<longrightarrow> up_to_date c1 s'"
      using check_renewed_step[OF ctx s Cons.prems(2)] x Some by blast
    obtain c2 w2 where 2: "p_for (check_renewed env comps) xs w1 = (Inr (), w2)" "info_is env c2 w2"
        "\<forall>d s. (d, Some s) \<in> set xs \<longrightarrow> up_to_date c2 s" "\<forall>(d, s) \<in> set st. up_to_date c1 s \<longrightarrow> up_to_date c2 s"
      using Cons.IH[OF xs 1(2)] by blast
    have "p_for (check_renewed env comps) (x # xs) w = (Inr (), w2)" using 1(1) 2(1) by (simp add: p_then_eval)
    moreover have "\<forall>d s'. (d, Some s') \<in> set (x # xs) \<longrightarrow> up_to_date c2 s'" using 1(3) 2(3,4) s x Some by auto
    ultimately show ?thesis using 1(4) 2(2,4) by blast
  qed
qed

lemma add_missing_step:
  "add_missing (a # ds) st =
     add_missing ds (if can_have_certificate (dn_type a) \<and> map_of st (dn_name a) = None then st @ [(dn_name a, None)] else st)"
proof -
  have "od_set st k None = st @ [(k, None)]" if "map_of st k = None" for k
    using that od_set_new[of k st None] by (simp add: map_of_eq_None_iff)
  then show ?thesis by (simp add: add_missing_def)
qed

lemma add_missing_some: "(d, Some s) \<in> set (add_missing ds st) \<Longrightarrow> (d, Some s) \<in> set st"
proof (induction ds arbitrary: st)
  case (Cons a ds)
  from Cons.IH[OF Cons.prems[unfolded add_missing_step]] show ?case by (auto split: if_splits)
qed (simp add: add_missing_def)

lemma add_missing_keeps: "p \<in> set st \<Longrightarrow> p \<in> set (add_missing ds st)"
proof (induction ds arbitrary: st)
  case (Cons a ds)
  then show ?case unfolding add_missing_step by simp
qed (simp add: add_missing_def)


text \<open>An instance: one certificate, renewed at time 5, and a component whose handler raises.\<close>

definition demo_certificate :: cert_status where
  "demo_certificate = \<lparr>certificate_available = True, expiry_date = [], web_enabled = True, validity = ''valid'',
     lineage = ''/etc/letsencrypt/live/a.org'', modified_time = 5\<rparr>"

definition demo_le :: "world le_env" where
  "demo_le = \<lparr>le_status = p_ret [(''a.org'', demo_certificate)], le_modified_time = \<lambda>_. p_ret 5,
     le_copy = \<lambda>_ _ _ _ _ _ _. p_ret (), le_compare = \<lambda>_ _ _ _ _. p_ret True, le_obtain = \<lambda>_. p_ret (),
     le_revoke = \<lambda>_. p_ret (), le_delete = \<lambda>_. p_ret (), le_try_restart = \<lambda>_. p_ret (),
     le_try_reload = \<lambda>_. p_ret (), le_needs_setup = \<lambda>_. p_ret False, le_start_thread = \<lambda>_ _ _. p_ret (),
     le_names = [], le_loads = \<lambda>s. Inr (from_nat (length s)), le_dumps = unary_text\<rparr>"

definition demo_le_components :: "world le_components" where
  "demo_le_components = [(''letsencrypt-x'', \<lparr>le_id = ''letsencrypt-x'', le_domains = p_ret Every, daemons = None,
     reload_daemons = False, should_copy_certificates = False, private_key_path = None, certificate_path = None,
     user_owner = None, group_owner = None, managing_app = None\<rparr>)]"

definition demo_le_world :: world where
  "demo_le_world = \<lparr>kv = [(CERTIFICATE_INFO, JStr (unary_text (JDict [])))], module_versions = [], enabled_attr = []\<rparr>"

lemma demo_le_laws:
  "setup_known demo_le (\<lambda>_. False)" "calls_keep_info demo_le (od_values demo_le_components)" "json_text demo_le"
  "status_laws demo_le [(''a.org'', demo_certificate)]" "info_is demo_le [] demo_le_world"
proof -
  show "setup_known demo_le (\<lambda>_. False)" by (simp add: setup_known_def demo_le_def prog_simps)
  show "calls_keep_info demo_le (od_values demo_le_components)"
    by (simp add: calls_keep_info_def demo_le_def demo_le_components_def keeps_intros)
  show "json_text demo_le" by (simp add: json_text_def demo_le_def unary_text_def)
  show "status_laws demo_le [(''a.org'', demo_certificate)]"
    by (simp add: status_laws_def demo_le_def demo_certificate_def prog_simps path_str_def path_root_def path_parts_def path_of_def)
  show "info_is demo_le [] demo_le_world"
    by (simp add: info_is_def load_certificate_info_def demo_le_world_def demo_le_def prog_simps unary_text_def)
qed


section \<open>What the privileged copy may touch\<close>

definition may_read :: "string \<Rightarrow> bool" where
  "may_read p \<longleftrightarrow> starts_with p ''/etc/letsencrypt/'' \<or> starts_with p ''/etc/ssl/''"

definition may_write :: "'v le_component list \<Rightarrow> string \<Rightarrow> bool" where
  "may_write cs p \<longleftrightarrow> (\<exists>m. m \<in> set (managed_paths cs) \<and> m \<in> set (path_parents p))"


end
