(* ===== verification/BackupSchedule.thy ===== *)
theory BackupSchedule
  imports Json Paths
begin

text \<open>
  The schedule of automatic backups (plinth/modules/backups/schedule.py): which periods a run
  serves, the archives it finds in a repository, and which old archives it deletes. The
  repository, JSON text and the clock are parameters.
\<close>

record schedule =
  repository_uuid :: string
  sc_enabled :: bool
  daily_to_keep :: int
  weekly_to_keep :: int
  monthly_to_keep :: int
  run_at_hour :: int
  unselected_apps :: "string list"

definition or_default :: "int option \<Rightarrow> int \<Rightarrow> int" where
  "or_default x d = (case x of None \<Rightarrow> d | Some n \<Rightarrow> n)"

definition schedule_init ::
  "string \<Rightarrow> bool option \<Rightarrow> int option \<Rightarrow> int option \<Rightarrow> int option \<Rightarrow> int option \<Rightarrow> string list option \<Rightarrow> schedule"
where
  "schedule_init uuid enabled daily weekly monthly at_hour unselected =
     \<lparr>repository_uuid = uuid, sc_enabled = (enabled = Some True), daily_to_keep = or_default daily 5,
      weekly_to_keep = or_default weekly 3, monthly_to_keep = or_default monthly 3,
      run_at_hour = or_default at_hour 2,
      unselected_apps = (case unselected of None \<Rightarrow> [] | Some xs \<Rightarrow> xs)\<rparr>"

definition get_storage_format :: "schedule \<Rightarrow> (string \<times> json) list" where
  "get_storage_format s =
     [(''enabled'', JBool (sc_enabled s)), (''daily_to_keep'', JInt (daily_to_keep s)),
      (''weekly_to_keep'', JInt (weekly_to_keep s)), (''monthly_to_keep'', JInt (monthly_to_keep s)),
      (''run_at_hour'', JInt (run_at_hour s)), (''unselected_apps'', JList (map JStr (unselected_apps s)))]"

text \<open>\<open>Schedule(repository_uuid=uuid, **d)\<close>: an argument the constructor does not have raises.\<close>

fun int_arg :: "json option \<Rightarrow> int option" where
  "int_arg (Some (JInt n)) = Some n"
| "int_arg x = None"

fun names_arg :: "json option \<Rightarrow> string list option" where
  "names_arg (Some (JList xs)) = Some (map (\<lambda>v. case v of JStr s \<Rightarrow> s | _ \<Rightarrow> []) xs)"
| "names_arg x = None"

definition schedule_from :: "string \<Rightarrow> (string \<times> json) list \<Rightarrow> schedule result" where
  "schedule_from uuid d =
     (if set (od_keys d) \<subseteq> {''enabled'', ''daily_to_keep'', ''weekly_to_keep'', ''monthly_to_keep'', ''run_at_hour'', ''unselected_apps''}
      then Inr (schedule_init uuid (map_option truthy (map_of d ''enabled'')) (int_arg (map_of d ''daily_to_keep''))
        (int_arg (map_of d ''weekly_to_keep'')) (int_arg (map_of d ''monthly_to_keep'')) (int_arg (map_of d ''run_at_hour''))
        (names_arg (map_of d ''unselected_apps'')))
      else Inl (TypeError ''unexpected keyword argument''))"

section \<open>Periods\<close>

record times =
  last_daily :: datetime
  last_weekly :: datetime
  last_monthly :: datetime

definition is_backup_too_soon :: "datetime \<Rightarrow> times \<Rightarrow> bool" where
  "is_backup_too_soon now recent \<longleftrightarrow>
     microseconds now - microseconds (last_daily recent) < seconds (2 * 3600) \<or>
     microseconds now - microseconds (last_weekly recent) < seconds (2 * 3600) \<or>
     microseconds now - microseconds (last_monthly recent) < seconds (2 * 3600)"

definition next_monthly :: "datetime \<Rightarrow> datetime result" where
  "next_monthly prev =
     (case replace_date prev (year prev) (month prev + 1) of
        Inr t \<Rightarrow> Inr t
      | Inl e \<Rightarrow> replace_date prev (year prev + 1) 1)"

definition too_long_since_last_backup :: "datetime \<Rightarrow> times \<Rightarrow> string list result" where
  "too_long_since_last_backup now recent =
     r_bind (next_monthly (last_monthly recent)) (\<lambda>next. Inr (
       (if microseconds now - microseconds (last_daily recent) > seconds (24 * 3600 + 3600) then [''daily''] else []) @
       (if microseconds now - microseconds (last_weekly recent) > seconds (7 * 24 * 3600 + 3600) then [''weekly''] else []) @
       (if microseconds now > microseconds next + seconds 3600 then [''monthly''] else [])))"

definition time_for_periods :: "schedule \<Rightarrow> datetime \<Rightarrow> string list" where
  "time_for_periods s now =
     (if int (hour now) = run_at_hour s then [''daily''] else []) @
     (if int (hour now) = run_at_hour s \<and> isoweekday now = 7 then [''weekly''] else []) @
     (if int (hour now) = run_at_hour s \<and> day now = 1 then [''monthly''] else [])"

definition disabled_periods :: "schedule \<Rightarrow> string list" where
  "disabled_periods s =
     (if daily_to_keep s = 0 then [''daily''] else []) @
     (if weekly_to_keep s = 0 then [''weekly''] else []) @
     (if monthly_to_keep s = 0 then [''monthly''] else [])"

section \<open>Archives\<close>

record archive =
  archive_name :: string
  archive_start :: datetime
  archive_comment :: string

text \<open>A scheduled archive comes with the periods of its comment.\<close>

record 'w repository_ops =
  ro_prepare :: "('w, unit) prog"
  ro_cleanup :: "('w, unit) prog"
  ro_list :: "('w, archive list) prog"
  ro_create :: "string \<Rightarrow> string list \<Rightarrow> string \<Rightarrow> ('w, unit) prog"
  ro_delete :: "string \<Rightarrow> ('w, unit) prog"
  ro_generate_name :: "('w, string) prog"

record 'w schedule_env =
  se_now :: "('w, datetime) prog"
  se_loads :: "string \<Rightarrow> json option"
  se_dumps :: "json \<Rightarrow> string"
  se_backup_app_ids :: "('w, string list) prog"

text \<open>The dict of a scheduled backup: its periods, or None for any other comment.\<close>

definition scheduled_periods :: "json \<Rightarrow> json list option" where
  "scheduled_periods comment =
     (case comment of
        JDict d \<Rightarrow>
          if map_of d ''type'' \<noteq> Some (JStr ''scheduled'') then None
          else (case map_of d ''periods'' of Some (JList ps) \<Rightarrow> Some ps | _ \<Rightarrow> None)
      | _ \<Rightarrow> None)"

definition scheduled_archive :: "(string \<Rightarrow> json option) \<Rightarrow> datetime \<Rightarrow> archive \<Rightarrow> (archive \<times> json list) option" where
  "scheduled_archive loads now a =
     (case loads (archive_comment a) of
        None \<Rightarrow> None
      | Some comment \<Rightarrow>
          (case scheduled_periods comment of
             None \<Rightarrow> None
           | Some ps \<Rightarrow> if microseconds (archive_start a) > microseconds now then None else Some (a, ps)))"

definition scheduled_archives :: "(string \<Rightarrow> json option) \<Rightarrow> datetime \<Rightarrow> archive list \<Rightarrow> (archive \<times> json list) list" where
  "scheduled_archives loads now as = List.map_filter (scheduled_archive loads now) as"

text \<open>\<open>{'daily', 'weekly', 'monthly'}.intersection(ps)\<close>: an element that cannot be hashed raises.\<close>

definition hashable :: "json \<Rightarrow> bool" where
  "hashable v \<longleftrightarrow> \<not> is_list v \<and> \<not> is_dict v"

definition known_periods :: "json list \<Rightarrow> string list result" where
  "known_periods ps =
     (if list_all hashable ps
      then Inr (filter (\<lambda>p. JStr p \<in> set ps) [''daily'', ''weekly'', ''monthly''])
      else Inl (TypeError ''unhashable type''))"

definition later :: "datetime \<Rightarrow> datetime \<Rightarrow> datetime" where
  "later a b = (if microseconds a < microseconds b then b else a)"

definition note_period :: "datetime \<Rightarrow> string \<Rightarrow> times \<Rightarrow> times" where
  "note_period start p ts =
     (if p = ''daily'' then ts\<lparr>last_daily := later (last_daily ts) start\<rparr>
      else if p = ''weekly'' then ts\<lparr>last_weekly := later (last_weekly ts) start\<rparr>
      else ts\<lparr>last_monthly := later (last_monthly ts) start\<rparr>)"

primrec recent_times :: "(archive \<times> json list) list \<Rightarrow> times \<Rightarrow> times result" where
  "recent_times [] ts = Inr ts"
| "recent_times (a # as) ts =
     r_bind (known_periods (snd a)) (\<lambda>ps. recent_times as (fold (note_period (archive_start (fst a))) ps ts))"

definition no_times :: times where
  "no_times = \<lparr>last_daily = datetime_min, last_weekly = datetime_min, last_monthly = datetime_min\<rparr>"

definition get_recent_backup_times :: "'w schedule_env \<Rightarrow> 'w repository_ops \<Rightarrow> ('w, times) prog" where
  "get_recent_backup_times env repo =
     p_bind (se_now env) (\<lambda>now. p_bind (ro_list repo) (\<lambda>as.
       p_lift (recent_times (scheduled_archives (se_loads env) now as) no_times)))"

section \<open>Cleaning up\<close>

record counts =
  count_daily :: int
  count_weekly :: int
  count_monthly :: int

text \<open>One archive of a period is counted; it is kept when the count is within the number to keep.\<close>

definition count_period :: "schedule \<Rightarrow> string \<Rightarrow> counts \<times> bool \<Rightarrow> counts \<times> bool" where
  "count_period s p = (\<lambda>(cs, keep).
     if p = ''daily'' then (cs\<lparr>count_daily := count_daily cs + 1\<rparr>, keep \<or> count_daily cs + 1 \<le> daily_to_keep s)
     else if p = ''weekly'' then (cs\<lparr>count_weekly := count_weekly cs + 1\<rparr>, keep \<or> count_weekly cs + 1 \<le> weekly_to_keep s)
     else (cs\<lparr>count_monthly := count_monthly cs + 1\<rparr>, keep \<or> count_monthly cs + 1 \<le> monthly_to_keep s))"

primrec cleanup_archives ::
  "schedule \<Rightarrow> (string \<Rightarrow> ('w, unit) prog) \<Rightarrow> (archive \<times> json list) list \<Rightarrow> counts \<Rightarrow> ('w, unit) prog"
where
  "cleanup_archives s delete [] cs = p_ret ()"
| "cleanup_archives s delete (a # as) cs =
     p_bind (p_lift (known_periods (snd a))) (\<lambda>ps.
       let (cs', keep) = fold (count_period s) ps (cs, False) in
       p_then (if \<not> keep then delete (archive_name (fst a)) else p_ret ()) (cleanup_archives s delete as cs'))"

definition run_cleanup :: "'w schedule_env \<Rightarrow> schedule \<Rightarrow> 'w repository_ops \<Rightarrow> ('w, unit) prog" where
  "run_cleanup env s repo =
     p_bind (se_now env) (\<lambda>now. p_bind (ro_list repo) (\<lambda>as.
       p_then (cleanup_archives s (ro_delete repo) (scheduled_archives (se_loads env) now as)
                 \<lparr>count_daily = 0, count_weekly = 0, count_monthly = 0\<rparr>)
         (ro_cleanup repo)))"

section \<open>Running\<close>

text \<open>Borg replaces single braces; the comment doubles them.\<close>

definition double_braces :: "string \<Rightarrow> string" where
  "double_braces s = concat (map (\<lambda>c. if c = CHR ''{'' \<or> c = CHR ''}'' then [c, c] else [c]) s)"

definition serialize_comment :: "(json \<Rightarrow> string) \<Rightarrow> json \<Rightarrow> string" where
  "serialize_comment dumps data = double_braces (dumps data)"

text \<open>\<open>periods.sort()\<close> of the known names.\<close>

definition sorted_periods :: "string set \<Rightarrow> string list" where
  "sorted_periods ps = filter (\<lambda>p. p \<in> ps) [''daily'', ''monthly'', ''weekly'']"

definition run_backup :: "'w schedule_env \<Rightarrow> schedule \<Rightarrow> 'w repository_ops \<Rightarrow> string set \<Rightarrow> ('w, unit) prog" where
  "run_backup env s repo periods =
     (let ps = sorted_periods periods in
      p_bind (ro_generate_name repo) (\<lambda>generated.
      p_bind (se_backup_app_ids env) (\<lambda>ids.
        ro_create repo (''scheduled: '' @ join_str '', '' ps @ '': '' @ generated)
          (filter (\<lambda>i. i \<notin> set (unselected_apps s)) ids)
          (serialize_comment (se_dumps env)
            (JDict [(''type'', JStr ''scheduled''), (''periods'', JList (map JStr ps))])))))"

definition run_schedule :: "'w schedule_env \<Rightarrow> schedule \<Rightarrow> 'w repository_ops \<Rightarrow> ('w, bool) prog" where
  "run_schedule env s repo =
     (if \<not> sc_enabled s then p_ret False
      else p_then (ro_prepare repo) (p_bind (get_recent_backup_times env repo) (\<lambda>recent.
        p_bind (se_now env) (\<lambda>now.
          if is_backup_too_soon now recent then p_ret False
          else p_bind (se_now env) (\<lambda>now1. p_bind (p_lift (too_long_since_last_backup now1 recent)) (\<lambda>long.
            p_bind (se_now env) (\<lambda>now2.
              let periods = (set long \<union> set (time_for_periods s now2)) - set (disabled_periods s) in
              if periods = {} then p_ret False
              else p_then (run_backup env s repo periods) (p_then (run_cleanup env s repo) (p_ret True)))))))))"

end
