(* ===== verification/BackupScheduleLaws.thy ===== *)
theory BackupScheduleLaws
  imports BackupSchedule
begin

text \<open>
  Which archives the clean-up deletes and how many it leaves, and when a monthly backup counts
  as overdue.
\<close>

section \<open>The archives to keep\<close>

definition to_keep :: "schedule \<Rightarrow> string \<Rightarrow> int" where
  "to_keep s p = (if p = ''daily'' then daily_to_keep s else if p = ''weekly'' then weekly_to_keep s else monthly_to_keep s)"

definition of_period :: "string \<Rightarrow> archive \<times> json list \<Rightarrow> bool" where
  "of_period p a \<longleftrightarrow> JStr p \<in> set (snd a)"

text \<open>The number of archives of a period among the first ones of a list, newest first.\<close>

definition rank :: "(archive \<times> json list) list \<Rightarrow> string \<Rightarrow> nat \<Rightarrow> nat" where
  "rank as p i = length (filter (of_period p) (take (Suc i) as))"

definition among_newest :: "schedule \<Rightarrow> (archive \<times> json list) list \<Rightarrow> string \<Rightarrow> nat \<Rightarrow> bool" where
  "among_newest s as p i \<longleftrightarrow> of_period p (as ! i) \<and> int (rank as p i) \<le> to_keep s p"

definition kept :: "schedule \<Rightarrow> (archive \<times> json list) list \<Rightarrow> nat \<Rightarrow> bool" where
  "kept s as i \<longleftrightarrow> (\<exists>p \<in> set [''daily'', ''weekly'', ''monthly'']. among_newest s as p i)"

definition surplus :: "schedule \<Rightarrow> (archive \<times> json list) list \<Rightarrow> (archive \<times> json list) list" where
  "surplus s as = map (nth as) (filter (\<lambda>i. \<not> kept s as i) [0..<length as])"

definition counts_of :: "(archive \<times> json list) list \<Rightarrow> counts" where
  "counts_of as = (let n = (\<lambda>p. int (length (filter (of_period p) as))) in
     \<lparr>count_daily = n ''daily'', count_weekly = n ''weekly'', count_monthly = n ''monthly''\<rparr>)"

definition well_formed :: "(archive \<times> json list) list \<Rightarrow> bool" where
  "well_formed as \<longleftrightarrow> list_all (\<lambda>a. list_all hashable (snd a)) as"

lemma count_archive:
  "fold (count_period s) (filter (\<lambda>p. JStr p \<in> set (snd a)) [''daily'', ''weekly'', ''monthly'']) (counts_of pre, False) =
     (counts_of (pre @ [a]), kept s (pre @ a # as) (length pre))"
  by (cases "of_period ''daily'' a"; cases "of_period ''weekly'' a"; cases "of_period ''monthly'' a")
    (simp_all add: count_period_def counts_of_def kept_def among_newest_def rank_def to_keep_def of_period_def nth_append Let_def)

lemma cleanup_from:
  assumes "well_formed as"
  shows "cleanup_archives s delete as (counts_of pre) =
    p_for (\<lambda>a. delete (archive_name (fst a)))
      (map (nth (pre @ as)) (filter (\<lambda>i. \<not> kept s (pre @ as) i) [length pre..<length (pre @ as)]))"
  using assms
proof (induction as arbitrary: pre)
  case (Cons a as)
  have "known_periods (snd a) = Inr (filter (\<lambda>p. JStr p \<in> set (snd a)) [''daily'', ''weekly'', ''monthly''])"
    using Cons.prems by (simp add: known_periods_def well_formed_def)
  then obtain ps where ps: "known_periods (snd a) = Inr ps"
      "fold (count_period s) ps (counts_of pre, False) = (counts_of (pre @ [a]), kept s (pre @ a # as) (length pre))"
    using count_archive[of s a pre as] by blast
  have upt: "[length pre..<length (pre @ a # as)] = length pre # [Suc (length pre)..<length (pre @ a # as)]"
    by (rule upt_conv_Cons) simp
  have here: "(pre @ a # as) ! length pre = a" by simp
  have rest: "cleanup_archives s delete as (counts_of (pre @ [a])) =
      p_for (\<lambda>a. delete (archive_name (fst a)))
        (map (nth (pre @ a # as)) (filter (\<lambda>i. \<not> kept s (pre @ a # as) i) [Suc (length pre)..<length (pre @ a # as)]))"
    using Cons.IH[of "pre @ [a]"] Cons.prems by (simp add: well_formed_def)
  have unit: "p_then (p_ret ()) m = m" for m :: "('a, unit) prog" by (simp add: p_then_def p_ret_bind)
  have lift: "p_bind (p_lift (Inr x)) f = f x" for x and f :: "string list \<Rightarrow> ('a, unit) prog"
    by (rule ext) (simp add: prog_simps)
  show ?case unfolding upt using here rest
    by (simp add: ps lift unit Let_def)
qed (simp add: kept_def)

text \<open>The clean-up deletes exactly the scheduled archives that are not, for any of their periods,
  among the newest ones of that period the schedule keeps; it deletes them in the order of the
  list and calls nothing else before the clean-up of the repository.\<close>

theorem cleanup_deletes_surplus:
  assumes "well_formed as"
  shows "cleanup_archives s delete as \<lparr>count_daily = 0, count_weekly = 0, count_monthly = 0\<rparr> =
    p_for (\<lambda>a. delete (archive_name (fst a))) (surplus s as)"
  using cleanup_from[OF assms, of s delete "[]"] by (simp add: surplus_def counts_of_def)

definition old_archives :: "(archive \<times> json list) list" where
  "old_archives =
     [(\<lparr>archive_name = ''b'', archive_start = datetime_min, archive_comment = []\<rparr>, [JStr ''daily'']),
      (\<lparr>archive_name = ''a'', archive_start = datetime_min, archive_comment = []\<rparr>, [JStr ''daily'', JStr ''monthly'']),
      (\<lparr>archive_name = ''0'', archive_start = datetime_min, archive_comment = []\<rparr>, [JStr ''daily''])]"

theorem cleanup_deletes_surplus_witness:
  "cleanup_archives (schedule_init ''root'' (Some True) (Some 1) None None None None)
     (\<lambda>n log. (Inr (), log @ [n])) old_archives \<lparr>count_daily = 0, count_weekly = 0, count_monthly = 0\<rparr> [] = (Inr (), [''0''])"
proof -
  let ?s = "schedule_init ''root'' (Some True) (Some 1) None None None None"
  have "well_formed old_archives" by (simp add: well_formed_def old_archives_def hashable_def)
  moreover have "surplus ?s old_archives = [old_archives ! 2]"
    by (simp add: surplus_def old_archives_def kept_def among_newest_def rank_def of_period_def to_keep_def
        schedule_init_def or_default_def upt_rec)
  ultimately show ?thesis
    using cleanup_deletes_surplus[of old_archives ?s "\<lambda>n log. (Inr (), log @ [n])"]
    by (simp add: old_archives_def p_then_eval p_ret_def)
qed

section \<open>How many remain\<close>

lemma rank_less:
  assumes "i < j" and "j < length as" and "of_period p (as ! j)"
  shows "rank as p i < rank as p j"
proof -
  have "take (Suc j) as = take (Suc i) as @ drop (Suc i) (take (Suc j) as)"
    using assms(1) by (metis append_take_drop_id min.absorb1 less_imp_le_nat Suc_leI take_take min.commute Suc_le_mono)
  moreover have "as ! j \<in> set (drop (Suc i) (take (Suc j) as))"
    using assms(1,2) by (auto simp: in_set_conv_nth intro!: exI[of _ "j - Suc i"])
  then have "filter (of_period p) (drop (Suc i) (take (Suc j) as)) \<noteq> []"
    using assms(3) by (auto simp: filter_empty_conv)
  ultimately show ?thesis unfolding rank_def by (metis filter_append length_append length_greater_0_conv less_add_same_cancel1)
qed

lemma among_newest_card:
  "int (card {i. i < length as \<and> among_newest s as p i}) \<le> max 0 (to_keep s p)"
proof -
  let ?I = "{i. i < length as \<and> among_newest s as p i}"
  have "inj_on (rank as p) ?I"
  proof (rule inj_onI)
    fix i j assume "i \<in> ?I" "j \<in> ?I" "rank as p i = rank as p j"
    then show "i = j" using rank_less[of i j as p] rank_less[of j i as p]
      by (cases i j rule: linorder_cases) (auto simp: among_newest_def)
  qed
  moreover have "rank as p ` ?I \<subseteq> {1..nat (to_keep s p)}"
  proof
    fix n assume "n \<in> rank as p ` ?I"
    then obtain i where i: "i < length as" "of_period p (as ! i)" "int (rank as p i) \<le> to_keep s p" "n = rank as p i"
      by (auto simp: among_newest_def)
    have "as ! i \<in> set (take (Suc i) as)" using i(1) by (auto simp: in_set_conv_nth intro!: exI[of _ i])
    then have "filter (of_period p) (take (Suc i) as) \<noteq> []" using i(2) by (auto simp: filter_empty_conv)
    then have "1 \<le> rank as p i" by (simp add: rank_def Suc_le_eq)
    then show "n \<in> {1..nat (to_keep s p)}" using i(3,4) by auto
  qed
  ultimately have "card ?I \<le> card {1..nat (to_keep s p)}" by (metis card_inj_on_le finite_atLeastAtMost)
  then show ?thesis by simp
qed

lemma surplus_bound:
  "int (length as) - int (length (surplus s as)) \<le>
     max 0 (daily_to_keep s) + max 0 (weekly_to_keep s) + max 0 (monthly_to_keep s)"
proof -
  let ?I = "\<lambda>p. {i. i < length as \<and> among_newest s as p i}"
  have "length (filter (kept s as) [0..<length as]) + length (filter (\<lambda>i. \<not> kept s as i) [0..<length as]) = length as"
    using sum_length_filter_compl[of "kept s as" "[0..<length as]"] by simp
  then have "int (length as) - int (length (surplus s as)) = int (length (filter (kept s as) [0..<length as]))"
    by (simp add: surplus_def)
  also have "length (filter (kept s as) [0..<length as]) = card {i. i < length as \<and> kept s as i}"
    by (subst distinct_card[symmetric]) (auto intro: arg_cong[of _ _ card])
  also have "{i. i < length as \<and> kept s as i} = ?I ''daily'' \<union> ?I ''weekly'' \<union> ?I ''monthly''"
    by (auto simp: kept_def)
  also have "int (card (?I ''daily'' \<union> ?I ''weekly'' \<union> ?I ''monthly'')) \<le>
      int (card (?I ''daily'')) + int (card (?I ''weekly'')) + int (card (?I ''monthly''))"
    using card_Un_le[of "?I ''daily'' \<union> ?I ''weekly''" "?I ''monthly''"] card_Un_le[of "?I ''daily''" "?I ''weekly''"]
    by linarith
  also have "\<dots> \<le> max 0 (daily_to_keep s) + max 0 (weekly_to_keep s) + max 0 (monthly_to_keep s)"
    using among_newest_card[of as s "''daily''"] among_newest_card[of as s "''weekly''"] among_newest_card[of as s "''monthly''"]
    by (simp add: to_keep_def)
  finally show ?thesis .
qed



section \<open>Overdue monthly backups\<close>

lemma next_monthly_postponed:
  assumes "valid_datetime t" and "month t < 12" and "days_in_month (year t) (month t + 1) < day t" and "year t < 9999"
  shows "next_monthly t = Inr (t\<lparr>year := year t + 1, month := 1\<rparr>)"
proof -
  have "day t \<le> 31" using assms(1) by (auto simp: valid_datetime_def valid_date_def days_in_month_def split: if_splits)
  then have "day t \<le> days_in_month y 1" for y by (simp add: days_in_month_def)
  then show ?thesis using assms by (simp add: next_monthly_def replace_date_def valid_date_def valid_datetime_def)
qed

text \<open>When the last monthly backup was taken on a day its following month does not have (the 29th
  to the 31st), the code takes the error of the date for the end of the year: no monthly backup
  counts as overdue before an hour after that day of the next January.\<close>

theorem monthly_overdue_postponed:
  assumes "valid_datetime (last_monthly recent)" and "month (last_monthly recent) < 12"
    and "days_in_month (year (last_monthly recent)) (month (last_monthly recent) + 1) < day (last_monthly recent)"
    and "year (last_monthly recent) < 9999"
    and "microseconds now \<le> microseconds ((last_monthly recent)\<lparr>year := year (last_monthly recent) + 1, month := 1\<rparr>) + seconds 3600"
  shows "\<exists>periods. too_long_since_last_backup now recent = Inr periods \<and> ''monthly'' \<notin> set periods"
  using next_monthly_postponed[OF assms(1-4)] assms(5) by (simp add: too_long_since_last_backup_def)

text \<open>A backup of 31 January 2024 is not overdue on 30 December 2024.\<close>

theorem monthly_overdue_postponed_witness:
  "\<exists>periods. too_long_since_last_backup
      \<lparr>year = 2024, month = 12, day = 30, hour = 12, minute = 0, second = 0, microsecond = 0\<rparr>
      \<lparr>last_daily = datetime_min, last_weekly = datetime_min,
       last_monthly = \<lparr>year = 2024, month = 1, day = 31, hour = 2, minute = 0, second = 0, microsecond = 0\<rparr>\<rparr> = Inr periods \<and>
    ''monthly'' \<notin> set periods"
  by (rule monthly_overdue_postponed)
    (simp_all add: valid_datetime_def valid_date_def days_in_month_def leap_year_def microseconds_def ordinal_def
      days_before_year_def days_before_month_def seconds_def upt_rec)

end
