(* ===== verification/BackupComponents.thy ===== *)
theory BackupComponents
  imports AppModel
begin

text \<open>
  What an app declares to be backed up (plinth/modules/backups/components.py): the validation of
  the declaration, the manifest made from it, and the default hooks, which keep settings of the
  key/value store in a file that is backed up with the app. The privileged calls of the hooks are
  parameters here; their bodies are in \<open>BackupPrivileged\<close>.
\<close>

section \<open>Validation\<close>

text \<open>\<open>assert isinstance(v, list)\<close>, then \<open>assert isinstance(x, str)\<close> of every element.\<close>

definition validate_strings :: "json \<Rightarrow> unit result" where
  "validate_strings v =
     (case v of JList xs \<Rightarrow> r_for (\<lambda>x. assert_that (is_str x)) xs | _ \<Rightarrow> Inl AssertionError)"

definition validate_key :: "(string \<times> json) list \<Rightarrow> string \<Rightarrow> unit result" where
  "validate_key d key = (case map_of d key of None \<Rightarrow> Inr () | Some v \<Rightarrow> validate_strings v)"

definition validate_directories_and_files :: "json \<Rightarrow> unit result" where
  "validate_directories_and_files sec =
     (if \<not> truthy sec then Inr ()
      else case sec of
        JDict d \<Rightarrow> r_bind (validate_key d ''directories'') (\<lambda>_. validate_key d ''files'')
      | _ \<Rightarrow> Inl AssertionError)"

definition validate_service :: "json \<Rightarrow> unit result" where
  "validate_service service =
     r_bind (subscript service ''name'') (\<lambda>name.
     r_bind (assert_that (is_str name)) (\<lambda>_.
     r_bind (subscript service ''type'') (\<lambda>type.
     r_bind (assert_that (is_str type)) (\<lambda>_.
     r_bind (assert_that (type \<in> {JStr ''apache'', JStr ''system''})) (\<lambda>_.
       if type = JStr ''apache''
       then r_bind (subscript service ''kind'') (\<lambda>kind.
              assert_that (kind \<in> {JStr ''config'', JStr ''site'', JStr ''module''}))
       else Inr ())))))"

definition validate_services :: "json \<Rightarrow> unit result" where
  "validate_services services =
     (if \<not> truthy services then Inr ()
      else case services of
        JList xs \<Rightarrow> r_for (\<lambda>s. r_bind (assert_that (is_str s \<or> is_dict s)) (\<lambda>_.
                        if is_dict s then validate_service s else Inr ())) xs
      | _ \<Rightarrow> Inl AssertionError)"

definition validate_settings :: "json \<Rightarrow> unit result" where
  "validate_settings settings = (if \<not> truthy settings then Inr () else validate_strings settings)"

definition validate_paths :: "json \<Rightarrow> unit result" where
  "validate_paths paths = (if \<not> truthy paths then Inr () else validate_strings paths)"

section \<open>The component\<close>

record backup_component =
  br_obj :: comp_obj
  br_config :: "(string \<times> json) list"
  br_data :: "(string \<times> json) list"
  br_secrets :: "(string \<times> json) list"
  br_services :: "json list"
  br_settings :: "string list"
  delete_before_restore :: "string list"
  has_data :: bool

text \<open>\<open>v or {}\<close> and \<open>v or []\<close>, once \<open>v\<close> is validated.\<close>

fun or_dict :: "json \<Rightarrow> (string \<times> json) list" where
  "or_dict (JDict d) = d"
| "or_dict v = []"

fun or_list :: "json \<Rightarrow> json list" where
  "or_list (JList xs) = xs"
| "or_list v = []"

fun str_of :: "json \<Rightarrow> string" where
  "str_of (JStr s) = s"
| "str_of v = []"

definition backup_restore_init ::
  "string \<Rightarrow> json \<Rightarrow> json \<Rightarrow> json \<Rightarrow> json \<Rightarrow> json \<Rightarrow> json \<Rightarrow> ('x world_scheme, backup_component) prog"
where
  "backup_restore_init cid config data secrets services settings delete =
     p_bind (follower_init cid False) (\<lambda>self.
     p_then (p_lift (validate_directories_and_files config))
    (p_then (p_lift (validate_directories_and_files data))
    (p_then (p_lift (validate_directories_and_files secrets))
    (p_then (p_lift (validate_services services))
    (p_then (p_lift (validate_settings settings))
    (p_then (p_lift (validate_paths delete))
       (p_ret \<lparr>br_obj = self\<lparr>classes := ''BackupRestore'' # classes self\<rparr>,
               br_config = or_dict config, br_data = or_dict data, br_secrets = or_dict secrets,
               br_services = or_list services, br_settings = map str_of (or_list settings),
               delete_before_restore = map str_of (or_list delete),
               has_data = (truthy config \<or> truthy data \<or> truthy secrets \<or> truthy settings)\<rparr>)))))))"

definition get_settings_file :: "backup_component \<Rightarrow> string option" where
  "get_settings_file c =
     (case comp_app_id (br_obj c) of
        None \<Rightarrow> None
      | Some a \<Rightarrow> if br_settings c = [] \<or> a = [] then None
                  else Some (''/var/lib/plinth/backups-data/'' @ a @ ''-settings.json''))"

text \<open>The property \<open>data\<close>: \<open>data.setdefault('files', []).append(settings_file)\<close> on a copy.\<close>

definition component_data :: "backup_component \<Rightarrow> (string \<times> json) list result" where
  "component_data c =
     (case get_settings_file c of
        None \<Rightarrow> Inr (br_data c)
      | Some f \<Rightarrow>
          (case map_of (br_data c) ''files'' of
             None \<Rightarrow> Inr (od_set (br_data c) ''files'' (JList [JStr f]))
           | Some (JList xs) \<Rightarrow> Inr (od_set (br_data c) ''files'' (JList (xs @ [JStr f])))
           | Some v \<Rightarrow> Inl (AttributeError ''append'')))"

definition component_manifest :: "backup_component \<Rightarrow> (string \<times> json) list result" where
  "component_manifest c =
     r_bind (component_data c) (\<lambda>data. Inr (
       (if br_config c \<noteq> [] then [(''config'', JDict (br_config c))] else []) @
       (if br_secrets c \<noteq> [] then [(''secrets'', JDict (br_secrets c))] else []) @
       (if data \<noteq> [] then [(''data'', JDict data)] else []) @
       (if br_services c \<noteq> [] then [(''services'', JList (br_services c))] else []) @
       (if br_settings c \<noteq> [] then [(''settings'', JList (map JStr (br_settings c)))] else []) @
       (if delete_before_restore c \<noteq> []
        then [(''delete_before_restore'', JList (map JStr (delete_before_restore c)))] else [])))"

section \<open>Hooks\<close>

record 'w backup_calls =
  call_dump_settings :: "json \<Rightarrow> json \<Rightarrow> ('w, unit) prog"
  call_load_settings :: "json \<Rightarrow> ('w, json) prog"
  call_delete_before_restore :: "json \<Rightarrow> ('w, unit) prog"

definition app_id_arg :: "backup_component \<Rightarrow> json" where
  "app_id_arg c = (case comp_app_id (br_obj c) of None \<Rightarrow> JNull | Some a \<Rightarrow> JStr a)"

text \<open>The loop over the settings: one that the store does not have is passed over.\<close>

primrec collect_settings :: "string list \<Rightarrow> (string \<times> json) list \<Rightarrow> ('x world_scheme, (string \<times> json) list) prog" where
  "collect_settings [] data = p_ret data"
| "collect_settings (key # keys) data =
     p_bind (p_catch (p_bind (kv_get key) (\<lambda>v. p_ret (od_set data key v))) (\<lambda>_. p_ret data))
       (collect_settings keys)"

definition settings_backup_pre ::
  "('x world_scheme) backup_calls \<Rightarrow> backup_component \<Rightarrow> ('x world_scheme, unit) prog"
where
  "settings_backup_pre calls c =
     (if br_settings c = [] then p_ret ()
      else p_bind (collect_settings (br_settings c) []) (\<lambda>data.
             call_dump_settings calls (app_id_arg c) (JDict data)))"

definition files_restore_pre :: "'w backup_calls \<Rightarrow> backup_component \<Rightarrow> ('w, unit) prog" where
  "files_restore_pre calls c =
     (if delete_before_restore c = [] then p_ret () else call_delete_before_restore calls (app_id_arg c))"

definition settings_restore_post ::
  "('x world_scheme) backup_calls \<Rightarrow> backup_component \<Rightarrow> ('x world_scheme, unit) prog"
where
  "settings_restore_post calls c =
     (if br_settings c = [] then p_ret ()
      else p_bind (call_load_settings calls (app_id_arg c)) (\<lambda>data.
             case data of JDict d \<Rightarrow> p_for (\<lambda>(key, v). kv_set key v) d
             | _ \<Rightarrow> p_raise (AttributeError ''items'')))"

text \<open>The hooks of the class; an app may override them.\<close>

definition base_hook ::
  "('x world_scheme) backup_calls \<Rightarrow> backup_component \<Rightarrow> string \<Rightarrow> ('x world_scheme, unit) prog"
where
  "base_hook calls c hook =
     (if hook = ''backup_pre'' then settings_backup_pre calls c
      else if hook = ''restore_pre'' then files_restore_pre calls c
      else if hook = ''restore_post'' then settings_restore_post calls c
      else if hook = ''backup_post'' then p_ret ()
      else p_raise (AttributeError hook))"

end
