(* ===== verification/BackupApi.thy ===== *)
theory BackupApi
  imports BackupComponents System
begin

text \<open>
  Taking and restoring backups of apps (plinth/modules/backups/api.py): the packet that hooks and
  handlers get, the selection of the components, locking of apps and stopping of services around
  the operation. The handler that talks to the backup program, the hooks that apps override, the
  privileged calls and the set-up of apps are parameters.
\<close>

section \<open>Packets\<close>

record backup_error =
  be_type :: string
  be_component :: backup_component
  be_hook :: "string option"

record packet =
  pk_operation :: string
  pk_scope :: string
  pk_root :: string
  pk_components :: "backup_component list"
  pk_path :: "string option"
  pk_comment :: "string option"
  pk_errors :: "backup_error list"
  pk_directories :: "json list"
  pk_files :: "json list"

text \<open>\<open>section.get(key, [])\<close>, which the packet appends to a list: any iterable will do.\<close>

definition section_items :: "(string \<times> json) list \<Rightarrow> string \<Rightarrow> json list result" where
  "section_items sec key = (case map_of sec key of None \<Rightarrow> Inr [] | Some v \<Rightarrow> iter_json v)"

definition component_sections :: "backup_component \<Rightarrow> (string \<times> json) list list result" where
  "component_sections c = r_bind (component_data c) (\<lambda>data. Inr [br_config c, data, br_secrets c])"

primrec process_sections :: "(string \<times> json) list list \<Rightarrow> packet \<Rightarrow> packet result" where
  "process_sections [] p = Inr p"
| "process_sections (s # ss) p =
     r_bind (section_items s ''directories'') (\<lambda>ds.
     r_bind (section_items s ''files'') (\<lambda>fs.
       process_sections ss (p\<lparr>pk_directories := pk_directories p @ ds, pk_files := pk_files p @ fs\<rparr>)))"

primrec process_manifests :: "backup_component list \<Rightarrow> packet \<Rightarrow> packet result" where
  "process_manifests [] p = Inr p"
| "process_manifests (c # cs) p =
     r_bind (component_sections c) (\<lambda>ss. r_bind (process_sections ss p) (process_manifests cs))"

definition packet_init ::
  "string \<Rightarrow> string \<Rightarrow> string \<Rightarrow> backup_component list \<Rightarrow> string option \<Rightarrow> string option \<Rightarrow> packet result"
where
  "packet_init op scope root cs path comment =
     (let p = \<lparr>pk_operation = op, pk_scope = scope, pk_root = root, pk_components = cs, pk_path = path,
               pk_comment = comment, pk_errors = [], pk_directories = [], pk_files = []\<rparr>
      in if scope = ''apps'' then process_manifests cs p else Inr p)"

section \<open>The calls\<close>

text \<open>\<open>bk_registry\<close> has the BackupRestore objects by component id, \<open>bk_hook\<close> their methods.\<close>

record 'w backup_env =
  bk_apps :: "'w apps"
  bk_registry :: "(string, backup_component) odict"
  bk_hook :: "backup_component \<Rightarrow> string \<Rightarrow> packet \<Rightarrow> ('w, unit) prog"
  bk_sys :: "'w system"
  bk_stop :: "string \<Rightarrow> ('w, unit) prog"
  bk_start :: "string \<Rightarrow> ('w, unit) prog"
  bk_web_enable :: "string \<Rightarrow> string \<Rightarrow> ('w, unit) prog"
  bk_web_disable :: "string \<Rightarrow> string \<Rightarrow> ('w, unit) prog"
  bk_set_locked :: "string \<Rightarrow> bool \<Rightarrow> 'w \<Rightarrow> 'w"
  bk_run_setup_on_apps :: "string list \<Rightarrow> ('w, unit) prog"

text \<open>The property \<open>app\<close> of a component.\<close>

abbreviation backup_app :: "'w backup_env \<Rightarrow> backup_component \<Rightarrow> 'w app result" where
  "backup_app env c \<equiv> component_app (bk_apps env) (br_obj c)"

section \<open>Selecting components\<close>

definition backup_restore_component :: "'w backup_env \<Rightarrow> 'w app \<Rightarrow> backup_component result" where
  "backup_restore_component env a =
     (case get_components_of_type a ''BackupRestore'' of
        [] \<Rightarrow> Inl (TypeError [])
      | c # _ \<Rightarrow> od_get (bk_registry env) (component_id (obj c)))"

primrec components_for_backup ::
  "('x world_scheme) backup_env \<Rightarrow> ('x world_scheme) app list \<Rightarrow> ('x world_scheme, backup_component list) prog"
where
  "components_for_backup env [] = p_ret []"
| "components_for_backup env (a # as) =
     p_bind (p_catch (p_bind (needs_setup a) (\<lambda>ns.
               if \<not> ns then p_bind (p_lift (backup_restore_component env a)) (\<lambda>c. p_ret [c]) else p_ret []))
             (\<lambda>e. if is_type_error e then p_ret [] else p_raise e))
       (\<lambda>cs. p_bind (components_for_backup env as) (\<lambda>cs'. p_ret (cs @ cs')))"

definition get_all_components_for_backup ::
  "('x world_scheme) backup_env \<Rightarrow> ('x world_scheme, backup_component list) prog"
where
  "get_all_components_for_backup env = components_for_backup env (od_values (bk_apps env))"

definition get_components_in_order :: "'w backup_env \<Rightarrow> string list \<Rightarrow> backup_component list result" where
  "get_components_in_order env app_ids =
     r_map (backup_restore_component env) (filter (\<lambda>a. app_id a \<in> set app_ids) (od_values (bk_apps env)))"

definition select_components ::
  "('x world_scheme) backup_env \<Rightarrow> string list \<Rightarrow> ('x world_scheme, backup_component list) prog"
where
  "select_components env app_ids =
     (if app_ids = [] then get_all_components_for_backup env else p_lift (get_components_in_order env app_ids))"

section \<open>Locks and services\<close>

definition lockdown_apps :: "'w backup_env \<Rightarrow> backup_component list \<Rightarrow> bool \<Rightarrow> ('w, unit) prog" where
  "lockdown_apps env cs lockdown =
     p_for (\<lambda>c. p_bind (p_lift (backup_app env c)) (\<lambda>a. p_mod (bk_set_locked env (app_id a) lockdown))) cs"

text \<open>
  A ServiceHandler: \<open>was_on\<close> is \<open>was_running\<close> of a system service and \<open>was_enabled\<close> of an Apache
  configuration. The handler of a system service keeps the service as the manifest has it.
\<close>

datatype service = SystemService json | ApacheService string string

record service_handler =
  sh_component :: backup_component
  sh_service :: service
  was_on :: "bool option"

definition handler_create :: "backup_component \<Rightarrow> json \<Rightarrow> service_handler result" where
  "handler_create c service =
     r_bind (if is_dict service then subscript service ''type'' else Inr (JStr ''system'')) (\<lambda>type.
     r_bind (assert_that (type \<in> {JStr ''system'', JStr ''apache''})) (\<lambda>_.
       if type = JStr ''system''
       then Inr \<lparr>sh_component = c, sh_service = SystemService service, was_on = None\<rparr>
       else r_bind (subscript service ''name'') (\<lambda>name. r_bind (subscript service ''kind'') (\<lambda>kind.
              Inr \<lparr>sh_component = c, sh_service = ApacheService (str_of name) (str_of kind), was_on = None\<rparr>))))"

text \<open>A service given as a dict cannot be an argument of a command.\<close>

definition service_is_on :: "'w backup_env \<Rightarrow> service \<Rightarrow> ('w, bool) prog" where
  "service_is_on env s =
     (case s of
        SystemService (JStr n) \<Rightarrow> service_is_running (bk_sys env) n
      | SystemService v \<Rightarrow> p_raise (TypeError ''expected str, bytes or os.PathLike object'')
      | ApacheService name kind \<Rightarrow> webserver_is_enabled (bk_sys env) name kind)"

definition service_turn_off :: "'w backup_env \<Rightarrow> service \<Rightarrow> ('w, unit) prog" where
  "service_turn_off env s =
     (case s of
        SystemService v \<Rightarrow> bk_stop env (str_of v)
      | ApacheService name kind \<Rightarrow> bk_web_disable env name kind)"

definition service_turn_on :: "'w backup_env \<Rightarrow> service \<Rightarrow> ('w, unit) prog" where
  "service_turn_on env s =
     (case s of
        SystemService v \<Rightarrow> bk_start env (str_of v)
      | ApacheService name kind \<Rightarrow> bk_web_enable env name kind)"

text \<open>\<open>stop\<close> gives the handler with what it remembers.\<close>

definition handler_stop :: "'w backup_env \<Rightarrow> service_handler \<Rightarrow> ('w, service_handler) prog" where
  "handler_stop env h =
     p_bind (service_is_on env (sh_service h)) (\<lambda>b.
       p_then (if b then service_turn_off env (sh_service h) else p_ret ()) (p_ret (h\<lparr>was_on := Some b\<rparr>)))"

definition handler_restart :: "'w backup_env \<Rightarrow> service_handler \<Rightarrow> ('w, unit) prog" where
  "handler_restart env h = (if was_on h = Some True then service_turn_on env (sh_service h) else p_ret ())"

definition create_handlers :: "backup_component list \<Rightarrow> service_handler list result" where
  "create_handlers cs = r_map (\<lambda>(c, s). handler_create c s) (concat (map (\<lambda>c. map (Pair c) (br_services c)) cs))"

definition shutdown_services :: "'w backup_env \<Rightarrow> backup_component list \<Rightarrow> ('w, service_handler list) prog" where
  "shutdown_services env cs =
     p_bind (p_lift (create_handlers cs)) (\<lambda>state.
     p_bind (p_map (handler_stop env) (rev state)) (\<lambda>stopped. p_ret (rev stopped)))"

definition restore_services :: "'w backup_env \<Rightarrow> service_handler list \<Rightarrow> ('w, unit) prog" where
  "restore_services env original_state = p_for (handler_restart env) original_state"

section \<open>Operations\<close>

text \<open>The hooks of all components; a hook that raises is noted in the packet.\<close>

primrec run_hooks_on :: "'w backup_env \<Rightarrow> string \<Rightarrow> backup_component list \<Rightarrow> packet \<Rightarrow> ('w, packet) prog" where
  "run_hooks_on env hook [] p = p_ret p"
| "run_hooks_on env hook (c # cs) p =
     p_bind (p_catch (p_then (bk_hook env c hook p) (p_ret p))
               (\<lambda>_. p_ret (p\<lparr>pk_errors := pk_errors p @ [\<lparr>be_type = ''hook'', be_component = c, be_hook = Some hook\<rparr>]\<rparr>)))
       (run_hooks_on env hook cs)"

definition run_hooks :: "'w backup_env \<Rightarrow> string \<Rightarrow> packet \<Rightarrow> ('w, packet) prog" where
  "run_hooks env hook p = run_hooks_on env hook (pk_components p) p"

type_synonym 'w handler = "packet \<Rightarrow> string option \<Rightarrow> ('w, unit) prog"

definition run_operation :: "'w backup_env \<Rightarrow> 'w handler \<Rightarrow> packet \<Rightarrow> string option \<Rightarrow> ('w, unit) prog" where
  "run_operation env handler p passphrase =
     p_bind (run_hooks env (pk_operation p @ ''_pre'') p) (\<lambda>p1.
     p_then (handler p1 passphrase)
       (p_bind (run_hooks env (pk_operation p1 @ ''_post'') p1) (\<lambda>_. p_ret ())))"

text \<open>\<open>_is_snapshot_available\<close> returns nothing, and the functions on snapshots are not implemented.\<close>

definition is_snapshot_available :: bool where
  "is_snapshot_available = False"

definition take_snapshot :: "('w, string) prog" where
  "take_snapshot = p_raise NotImplementedError"

definition create_subvolume :: "('w, string) prog" where
  "create_subvolume = p_raise NotImplementedError"

definition delete_snapshot :: "string \<Rightarrow> ('w, unit) prog" where
  "delete_snapshot snapshot = p_raise NotImplementedError"

definition switch_to_subvolume :: "string \<Rightarrow> ('w, unit) prog" where
  "switch_to_subvolume subvolume = p_raise NotImplementedError"

text \<open>What \<open>backup_apps\<close> and \<open>restore_apps\<close> do without snapshots around \<open>body\<close>.\<close>

definition with_apps_down :: "'w backup_env \<Rightarrow> backup_component list \<Rightarrow> ('w, unit) prog \<Rightarrow> ('w, unit) prog" where
  "with_apps_down env cs body =
     p_then (lockdown_apps env cs True)
       (p_bind (shutdown_services env cs) (\<lambda>original_state.
          p_finally body (p_then (restore_services env original_state) (lockdown_apps env cs False))))"

text \<open>The body of their \<open>try\<close>: the packet is made and the operation runs on it.\<close>

definition operation_on ::
  "'w backup_env \<Rightarrow> 'w handler \<Rightarrow> string \<Rightarrow> backup_component list \<Rightarrow> string option \<Rightarrow> string option \<Rightarrow> string option \<Rightarrow>
   string \<Rightarrow> ('w, unit) prog"
where
  "operation_on env handler operation cs path passphrase comment root =
     p_bind (p_lift (packet_init operation ''apps'' root cs path comment)) (\<lambda>p. run_operation env handler p passphrase)"

definition backup_apps ::
  "('x world_scheme) backup_env \<Rightarrow> ('x world_scheme) handler \<Rightarrow> string \<Rightarrow> string list \<Rightarrow> string option \<Rightarrow> string option \<Rightarrow>
   ('x world_scheme, unit) prog"
where
  "backup_apps env handler path app_ids passphrase comment =
     p_bind (select_components env app_ids) (\<lambda>cs.
       let operation = operation_on env handler ''backup'' cs (Some path) passphrase comment
       in if is_snapshot_available
          then p_bind take_snapshot (\<lambda>snapshot. p_finally (operation snapshot) (delete_snapshot snapshot))
          else with_apps_down env cs (operation ''/''))"

definition install_apps_before_restore ::
  "('x world_scheme) backup_env \<Rightarrow> backup_component list \<Rightarrow> ('x world_scheme, unit) prog"
where
  "install_apps_before_restore env cs =
     p_bind (p_map (\<lambda>c. p_bind (p_lift (backup_app env c)) (\<lambda>a.
               p_bind (get_setup_state a) (\<lambda>st.
                 p_ret (if st = NEEDS_SETUP \<or> st = NEEDS_UPDATE then [app_id a] else [])))) cs)
       (\<lambda>ids. bk_run_setup_on_apps env (concat ids))"

definition restore_apps ::
  "('x world_scheme) backup_env \<Rightarrow> ('x world_scheme) handler \<Rightarrow> string list \<Rightarrow> bool \<Rightarrow> string option \<Rightarrow> string option \<Rightarrow>
   ('x world_scheme, unit) prog"
where
  "restore_apps env handler app_ids subvolume backup_file passphrase =
     p_bind (select_components env app_ids) (\<lambda>cs.
     p_then (install_apps_before_restore env cs)
       (let operation = operation_on env handler ''restore'' cs backup_file passphrase None
        in if is_snapshot_available \<and> subvolume
           then p_bind create_subvolume (\<lambda>s. p_finally (operation s) (switch_to_subvolume s))
           else with_apps_down env cs (operation ''/'')))"

definition backup_full :: "('w, unit) prog" where
  "backup_full =
     (if \<not> is_snapshot_available then p_raise (OtherError ''Full backup is not supported without snapshots.'')
      else p_bind take_snapshot (\<lambda>_. p_raise NotImplementedError))"

definition restore_full :: "('w, unit) prog" where
  "restore_full =
     (if \<not> is_snapshot_available then p_raise (OtherError ''Full restore is not supported without snapshots.'')
      else p_bind create_subvolume (\<lambda>_. p_raise NotImplementedError))"

end
