(* ===== verification/BackupApiLaws.thy ===== *)
theory BackupApiLaws
  imports BackupApi
begin

text \<open>
  The bracket around backups and restores: the services of the apps are stopped and the apps
  locked while the handler runs, and afterwards every service is as it was. The locale
  \<open>service_manager\<close> states what systemd and Apache are documented to do with independent units.
\<close>

section \<open>What the service managers promise\<close>

text \<open>\<open>on\<close> reads from the world which services run and which configurations are enabled.\<close>

fun usable :: "service \<Rightarrow> bool" where
  "usable (SystemService v) = is_str v"
| "usable (ApacheService name kind) = (kind \<in> {''config'', ''site'', ''module''})"

definition service_status_laws ::
  "'w system \<Rightarrow> ('w \<Rightarrow> service \<Rightarrow> bool) \<Rightarrow> bool"
where
  "service_status_laws sys on \<longleftrightarrow>
     (\<forall>n w. sh sys [''systemctl'', ''status'', n] w = (Inr (if on w (SystemService (JStr n)) then 0 else 3, []), w)) \<and>
     (\<forall>w. which sys ''a2query'' w) \<and>
     (\<forall>kind opt n w. (kind, opt) \<in> {(''config'', ''-c''), (''site'', ''-s''), (''module'', ''-m'')} \<longrightarrow>
        sh sys [''a2query'', opt, n] w = (Inr (if on w (ApacheService n kind) then 0 else 1, []), w))"

definition switch_laws :: "'w backup_env \<Rightarrow> ('w \<Rightarrow> service \<Rightarrow> bool) \<Rightarrow> ('w \<Rightarrow> string \<Rightarrow> bool) \<Rightarrow> bool" where
  "switch_laws env on locked \<longleftrightarrow>
     (\<forall>s w. usable s \<longrightarrow>
        (\<exists>w'. service_turn_off env s w = (Inr (), w') \<and> on w' = (on w)(s := False) \<and> locked w' = locked w) \<and>
        (\<exists>w'. service_turn_on env s w = (Inr (), w') \<and> on w' = (on w)(s := True) \<and> locked w' = locked w)) \<and>
     (\<forall>a b w. on (bk_set_locked env a b w) = on w \<and> locked (bk_set_locked env a b w) = (locked w)(a := b))"

definition apps_of :: "'w backup_env \<Rightarrow> backup_component list \<Rightarrow> string set" where
  "apps_of env cs = {i. \<exists>c a. c \<in> set cs \<and> backup_app env c = Inr a \<and> i = app_id a}"

definition services_of :: "backup_component list \<Rightarrow> service set" where
  "services_of cs = (case create_handlers cs of Inl e \<Rightarrow> {} | Inr hs \<Rightarrow> sh_service ` set hs)"

text \<open>The services whose handlers remember that they were on.\<close>

definition marked :: "service_handler list \<Rightarrow> service set" where
  "marked hs = {s. \<exists>h. h \<in> set hs \<and> sh_service h = s \<and> was_on h = Some True}"

lemma marked_simps [simp]:
  "marked [] = {}"
  "marked (h # hs) = (if was_on h = Some True then insert (sh_service h) (marked hs) else marked hs)"
  "marked (hs @ hs') = marked hs \<union> marked hs'"
  "marked (rev hs) = marked hs"
  by (auto simp: marked_def)

text \<open>A service of a manifest that the handlers can stop: a name, or a valid Apache configuration.\<close>

definition usable_service :: "json \<Rightarrow> bool" where
  "usable_service v \<longleftrightarrow>
     is_str v \<or> is_dict v \<and> validate_service v = Inr () \<and> subscript v ''type'' = Inr (JStr ''apache'')"

text \<open>What the constructor of the component lets pass.\<close>

definition declared_service :: "json \<Rightarrow> bool" where
  "declared_service v \<longleftrightarrow> is_str v \<or> is_dict v \<and> validate_service v = Inr ()"

definition handler_for :: "json \<Rightarrow> service_handler \<Rightarrow> bool" where
  "handler_for s h \<longleftrightarrow> (if usable_service s then usable (sh_service h) else \<exists>d. sh_service h = SystemService (JDict d))"

lemma handler_create_declared:
  assumes "declared_service s"
  shows "\<exists>h. handler_create c s = Inr h \<and> handler_for s h"
proof (cases "is_str s")
  case True
  then show ?thesis by (auto simp: is_str_iff handler_create_def assert_that_def handler_for_def usable_service_def)
next
  case False
  then obtain d type name where s: "s = JDict d" "map_of d ''type'' = Some type" "map_of d ''name'' = Some (JStr name)"
      "type \<in> {JStr ''apache'', JStr ''system''}"
      "type = JStr ''apache'' \<Longrightarrow> \<exists>kind. map_of d ''kind'' = Some kind \<and> kind \<in> {JStr ''config'', JStr ''site'', JStr ''module''}"
    using assms
    by (auto simp: declared_service_def is_dict_iff validate_service_def r_bind_Inr_iff is_str_iff
        split: option.splits if_splits)
  show ?thesis
  proof (cases "type = JStr ''apache''")
    case True
    then show ?thesis using s assms False by (auto simp: handler_create_def assert_that_def handler_for_def usable_service_def declared_service_def)
  next
    case False
    then show ?thesis using s by (auto simp: handler_create_def assert_that_def handler_for_def usable_service_def)
  qed
qed

lemma usable_declared: "usable_service s \<Longrightarrow> declared_service s"
  by (auto simp: usable_service_def declared_service_def)

lemma create_handlers_declared:
  assumes "\<forall>c \<in> set cs. \<forall>s \<in> set (br_services c). declared_service s"
  shows "\<exists>hs. create_handlers cs = Inr hs \<and> list_all2 handler_for (concat (map br_services cs)) hs"
proof -
  have all: "\<exists>hs. r_map (\<lambda>(c, s). handler_create c s) ps = Inr hs \<and> list_all2 handler_for (map snd ps) hs"
    if "\<forall>p \<in> set ps. declared_service (snd p)" for ps :: "(backup_component \<times> json) list"
    using that
  proof (induction ps)
    case (Cons p ps)
    obtain h where "handler_create (fst p) (snd p) = Inr h" "handler_for (snd p) h"
      using handler_create_declared[of "snd p" "fst p"] Cons.prems by auto
    moreover obtain hs where "r_map (\<lambda>(c, s). handler_create c s) ps = Inr hs" "list_all2 handler_for (map snd ps) hs"
      using Cons by auto
    ultimately show ?case by (cases p) simp
  qed simp
  have "map snd (concat (map (\<lambda>c. map (Pair c) (br_services c)) cs)) = concat (map br_services cs)"
    by (induction cs) (auto simp: comp_def)
  moreover have "\<forall>p \<in> set (concat (map (\<lambda>c. map (Pair c) (br_services c)) cs)). declared_service (snd p)"
    using assms by auto
  ultimately show ?thesis
    using all[of "concat (map (\<lambda>c. map (Pair c) (br_services c)) cs)"] by (simp add: create_handlers_def)
qed

lemma handlers_usable:
  "list_all2 handler_for ss hs \<Longrightarrow> \<forall>s \<in> set ss. usable_service s \<Longrightarrow> \<forall>h \<in> set hs. usable (sh_service h)"
  by (induction rule: list_all2_induct) (auto simp: handler_for_def)

lemma create_handlers_usable:
  assumes "\<forall>c \<in> set cs. \<forall>s \<in> set (br_services c). usable_service s"
  shows "\<exists>hs. create_handlers cs = Inr hs \<and> (\<forall>h \<in> set hs. usable (sh_service h))"
proof -
  obtain hs where hs: "create_handlers cs = Inr hs" "list_all2 handler_for (concat (map br_services cs)) hs"
    using create_handlers_declared[of cs] assms usable_declared by blast
  then show ?thesis using handlers_usable[OF hs(2)] assms by auto
qed

locale service_manager =
  fixes env :: "('x world_scheme) backup_env" and on :: "'x world_scheme \<Rightarrow> service \<Rightarrow> bool"
    and locked :: "'x world_scheme \<Rightarrow> string \<Rightarrow> bool"
  assumes status: "service_status_laws (bk_sys env) on" and switches: "switch_laws env on locked"
begin

lemma is_on: "usable s \<Longrightarrow> service_is_on env s w = (Inr (on w s), w)"
  using status
  by (cases s) (auto simp: service_status_laws_def is_str_iff service_is_on_def service_is_running_def webserver_is_enabled_def
      run_succeeds_def run_ok_def run_command_def od_get_def prog_simps p_defs)

lemma turn_off: "usable s \<Longrightarrow> \<exists>w'. service_turn_off env s w = (Inr (), w') \<and> on w' = (on w)(s := False) \<and> locked w' = locked w"
  using switches by (simp add: switch_laws_def)

lemma turn_on: "usable s \<Longrightarrow> \<exists>w'. service_turn_on env s w = (Inr (), w') \<and> on w' = (on w)(s := True) \<and> locked w' = locked w"
  using switches by (simp add: switch_laws_def)

lemma stop_one:
  assumes "usable (sh_service h)"
  shows "\<exists>w'. handler_stop env h w = (Inr (h\<lparr>was_on := Some (on w (sh_service h))\<rparr>), w') \<and>
    on w' = (on w)(sh_service h := False) \<and> locked w' = locked w"
proof (cases "on w (sh_service h)")
  case True
  then show ?thesis using turn_off[OF assms, of w] is_on[OF assms, of w]
    by (auto simp: handler_stop_def prog_simps)
next
  case False
  then show ?thesis using is_on[OF assms, of w] by (auto simp: handler_stop_def prog_simps fun_eq_iff)
qed

lemma stop_all:
  assumes "\<forall>h \<in> set hs. usable (sh_service h)"
  shows "\<exists>w' hs'. p_map (handler_stop env) hs w = (Inr hs', w') \<and> locked w' = locked w \<and>
    map sh_service hs' = map sh_service hs \<and> marked hs' = {s. s \<in> sh_service ` set hs \<and> on w s} \<and>
    (\<forall>s. on w' s = (on w s \<and> s \<notin> sh_service ` set hs))"
  using assms
proof (induction hs arbitrary: w)
  case Nil
  then show ?case by (simp add: prog_simps)
next
  case (Cons h hs)
  let ?h = "h\<lparr>was_on := Some (on w (sh_service h))\<rparr>"
  obtain w1 where w1: "handler_stop env h w = (Inr ?h, w1)" "on w1 = (on w)(sh_service h := False)" "locked w1 = locked w"
    using stop_one[of h w] Cons.prems by auto
  obtain w2 hs' where w2: "p_map (handler_stop env) hs w1 = (Inr hs', w2)" "locked w2 = locked w1"
      "map sh_service hs' = map sh_service hs" "marked hs' = {s. s \<in> sh_service ` set hs \<and> on w1 s}"
      "\<forall>s. on w2 s = (on w1 s \<and> s \<notin> sh_service ` set hs)"
    using Cons.IH[of w1] Cons.prems by auto
  have "p_map (handler_stop env) (h # hs) w = (Inr (?h # hs'), w2)"
    using w1(1) w2(1) by (simp add: prog_simps)
  moreover have "marked (?h # hs') = {s. s \<in> sh_service ` set (h # hs) \<and> on w s}"
    using w1(2) w2(4) by auto
  ultimately show ?case using w1 w2 by auto
qed

lemma restart_all:
  assumes "\<forall>h \<in> set hs. usable (sh_service h)"
  shows "\<exists>w'. restore_services env hs w = (Inr (), w') \<and> locked w' = locked w \<and>
    (\<forall>s. on w' s = (on w s \<or> s \<in> marked hs))"
  using assms
proof (induction hs arbitrary: w)
  case Nil
  then show ?case by (simp add: restore_services_def prog_simps)
next
  case (Cons h hs)
  have "\<exists>w1. handler_restart env h w = (Inr (), w1) \<and> locked w1 = locked w \<and>
      (\<forall>s. on w1 s = (on w s \<or> was_on h = Some True \<and> s = sh_service h))"
    using turn_on[of "sh_service h" w] Cons.prems by (auto simp: handler_restart_def prog_simps)
  then obtain w1 where w1: "handler_restart env h w = (Inr (), w1)" "locked w1 = locked w"
      "\<forall>s. on w1 s = (on w s \<or> was_on h = Some True \<and> s = sh_service h)" by blast
  obtain w2 where "restore_services env hs w1 = (Inr (), w2)" "locked w2 = locked w1"
      "\<forall>s. on w2 s = (on w1 s \<or> s \<in> marked hs)"
    using Cons.IH[of w1] Cons.prems by auto
  then show ?case using w1 by (auto simp: restore_services_def prog_simps)
qed

lemma lockdown_all:
  assumes "\<forall>c \<in> set cs. \<exists>a. backup_app env c = Inr a"
  shows "\<exists>w'. lockdown_apps env cs b w = (Inr (), w') \<and> on w' = on w \<and>
    (\<forall>a. locked w' a = (if a \<in> apps_of env cs then b else locked w a))"
  using assms
proof (induction cs arbitrary: w)
  case Nil
  then show ?case by (simp add: lockdown_apps_def apps_of_def prog_simps)
next
  case (Cons c cs)
  obtain a where a: "backup_app env c = Inr a" using Cons.prems by auto
  let ?w = "bk_set_locked env (app_id a) b w"
  obtain w' where w': "lockdown_apps env cs b ?w = (Inr (), w')" "on w' = on ?w"
      "\<forall>i. locked w' i = (if i \<in> apps_of env cs then b else locked ?w i)"
    using Cons.IH[of ?w] Cons.prems by auto
  have "apps_of env (c # cs) = insert (app_id a) (apps_of env cs)" using a by (auto simp: apps_of_def)
  then show ?case using w' a switches by (auto simp: lockdown_apps_def switch_laws_def prog_simps)
qed

lemma stop_fails:
  assumes "\<forall>h \<in> set hs. usable (sh_service h) \<or> (\<exists>d. sh_service h = SystemService (JDict d))"
    and "\<exists>h \<in> set hs. \<not> usable (sh_service h)"
  shows "\<exists>w'. p_map (handler_stop env) hs w = (Inl (TypeError ''expected str, bytes or os.PathLike object''), w') \<and>
    locked w' = locked w"
  using assms
proof (induction hs arbitrary: w)
  case (Cons h hs)
  show ?case
  proof (cases "usable (sh_service h)")
    case True
    obtain w1 where w1: "handler_stop env h w = (Inr (h\<lparr>was_on := Some (on w (sh_service h))\<rparr>), w1)" "locked w1 = locked w"
      using stop_one[OF True, of w] by auto
    then show ?thesis using Cons.IH[of w1] Cons.prems True by (auto simp: prog_simps)
  next
    case False
    then obtain d where "sh_service h = SystemService (JDict d)" using Cons.prems by auto
    then show ?thesis by (simp add: handler_stop_def service_is_on_def prog_simps)
  qed
qed simp

lemma apps_down:
  assumes "\<forall>c \<in> set cs. \<exists>a. backup_app env c = Inr a"
    and "\<forall>c \<in> set cs. \<forall>s \<in> set (br_services c). usable_service s"
    and keeps: "\<And>v. on (snd (body v)) = on v \<and> locked (snd (body v)) = locked v"
  shows "\<exists>w1 w2. with_apps_down env cs body w = (fst (body w1), w2) \<and>
    (\<forall>s. s \<in> services_of cs \<longrightarrow> \<not> on w1 s) \<and> (\<forall>i. i \<in> apps_of env cs \<longrightarrow> locked w1 i) \<and>
    on w2 = on w \<and> (\<forall>i. locked w2 i = (locked w i \<and> i \<notin> apps_of env cs))"
proof -
  obtain hs where hs: "create_handlers cs = Inr hs" "\<forall>h \<in> set hs. usable (sh_service h)"
    using create_handlers_usable[OF assms(2)] by blast
  obtain w0 where w0: "lockdown_apps env cs True w = (Inr (), w0)" "on w0 = on w"
      "\<forall>i. locked w0 i = (i \<in> apps_of env cs \<or> locked w i)"
    using lockdown_all[OF assms(1), of True w] by auto
  obtain w1 hs' where w1: "p_map (handler_stop env) (rev hs) w0 = (Inr hs', w1)" "locked w1 = locked w0"
      "map sh_service hs' = rev (map sh_service hs)" "marked hs' = {s. s \<in> sh_service ` set hs \<and> on w0 s}"
      "\<forall>s. on w1 s = (on w0 s \<and> s \<notin> sh_service ` set hs)"
    using stop_all[of "rev hs" w0] hs(2) by (auto simp: rev_map)
  obtain r wb where wb: "body w1 = (r, wb)" "on wb = on w1" "locked wb = locked w1"
    using keeps[of w1] by (cases "body w1") auto
  have "sh_service ` set hs' = sh_service ` set hs" using arg_cong[OF w1(3), of set] by simp
  then have "\<forall>h \<in> set (rev hs'). usable (sh_service h)" using hs(2) by (metis (no_types, lifting) image_iff set_rev)
  then obtain w2 where w2: "restore_services env (rev hs') wb = (Inr (), w2)" "locked w2 = locked wb"
      "\<forall>s. on w2 s = (on wb s \<or> s \<in> marked hs')"
    using restart_all[of "rev hs'" wb] by auto
  obtain w3 where w3: "lockdown_apps env cs False w2 = (Inr (), w3)" "on w3 = on w2"
      "\<forall>i. locked w3 i = (i \<notin> apps_of env cs \<and> locked w2 i)"
    using lockdown_all[OF assms(1), of False w2] by auto
  have "shutdown_services env cs w0 = (Inr (rev hs'), w1)" using hs(1) w1(1) by (simp add: shutdown_services_def prog_simps)
  then have "with_apps_down env cs body w = (r, w3)"
    using w0(1) wb(1) w2(1) w3(1) by (simp add: with_apps_down_def prog_simps p_finally_def)
  moreover have "on w3 = on w" using w0(2) w1(4,5) wb(2) w2(3) w3(2) by auto
  moreover have "services_of cs = sh_service ` set hs" by (simp add: services_of_def hs(1))
  ultimately show ?thesis using w0 w1 wb w2(2) w3(3) by (intro exI[of _ w1] exI[of _ w3]) auto
qed

end

section \<open>Backups and restores\<close>

lemma module_version_get_reads [keeps_intros]: "p_keeps P (module_version_get i)"
  by (simp add: p_keeps_def module_version_get_def split: option.splits)

lemma get_setup_state_reads [keeps_intros]: "p_keeps P (get_setup_state a)"
  unfolding get_setup_state_def get_setup_version_def by (intro keeps_intros)

lemma needs_setup_reads [keeps_intros]: "p_keeps P (needs_setup a)"
  unfolding needs_setup_def by (intro keeps_intros)

lemma select_components_reads: "p_keeps P (select_components env ids)"
proof -
  have "p_keeps P (components_for_backup env as)" for as
    by (induction as) (auto intro!: keeps_intros)
  then show ?thesis by (auto simp: select_components_def get_all_components_for_backup_def intro!: keeps_intros)
qed

text \<open>The hooks of the apps and the handler leave services and locks alone.\<close>

definition quiet_calls ::
  "('x world_scheme) backup_env \<Rightarrow> ('x world_scheme) handler \<Rightarrow> ('x world_scheme \<Rightarrow> service \<Rightarrow> bool) \<Rightarrow>
   ('x world_scheme \<Rightarrow> string \<Rightarrow> bool) \<Rightarrow> bool"
where
  "quiet_calls env handler on locked \<longleftrightarrow>
     (\<forall>c hook p w. on (snd (bk_hook env c hook p w)) = on w \<and> locked (snd (bk_hook env c hook p w)) = locked w) \<and>
     (\<forall>p passphrase w. on (snd (handler p passphrase w)) = on w \<and> locked (snd (handler p passphrase w)) = locked w)"

lemma operation_keeps:
  assumes "quiet_calls env handler on locked"
  shows "p_keeps (\<lambda>v. on v = o1 \<and> locked v = l1) (operation_on env handler op cs path passphrase comment root)"
proof -
  have calls: "p_keeps (\<lambda>v. on v = o1 \<and> locked v = l1) (bk_hook env c hook p)"
    "p_keeps (\<lambda>v. on v = o1 \<and> locked v = l1) (handler p q)" for c hook p q
    using assms by (simp_all add: quiet_calls_def p_keeps_def)
  have "p_keeps (\<lambda>v. on v = o1 \<and> locked v = l1) (run_hooks_on env hook ds p)" for hook ds p
    by (induction ds arbitrary: p) (auto intro!: keeps_intros calls)
  then show ?thesis
    by (auto simp: operation_on_def run_operation_def run_hooks_def intro!: keeps_intros calls)
qed

definition components_ready :: "'w backup_env \<Rightarrow> backup_component list \<Rightarrow> bool" where
  "components_ready env cs \<longleftrightarrow>
     (\<forall>c \<in> set cs. (\<exists>a. backup_app env c = Inr a) \<and> (\<forall>s \<in> set (br_services c). usable_service s))"

lemma service_managerI:
  "service_status_laws (bk_sys env) on \<Longrightarrow> switch_laws env on locked \<Longrightarrow> service_manager env on locked"
  by (simp add: service_manager_def)

text \<open>A machine that keeps the set of the services that are on and of the apps that are locked.\<close>

record bk_world = world +
  bw_on :: "service list"
  bw_locked :: "string list"

definition turn :: "service \<Rightarrow> bool \<Rightarrow> (bk_world, unit) prog" where
  "turn s b = p_mod (\<lambda>w. w\<lparr>bw_on := (if b then [s] else []) @ removeAll s (bw_on w)\<rparr>)"

definition machine_sh :: "string list \<Rightarrow> (bk_world, nat \<times> string) prog" where
  "machine_sh cmd w =
     (let is_on = (\<lambda>s. (Inr (if s \<in> set (bw_on w) then 0 else (1::nat), []), w)) in
      case cmd of
        [''systemctl'', ''status'', n] \<Rightarrow> (Inr (if SystemService (JStr n) \<in> set (bw_on w) then 0 else 3, []), w)
      | [''a2query'', opt, n] \<Rightarrow>
          is_on (ApacheService n (if opt = ''-c'' then ''config'' else if opt = ''-s'' then ''site'' else ''module''))
      | _ \<Rightarrow> (Inr (1, []), w))"

definition machine_env :: "bk_world apps \<Rightarrow> (string, backup_component) odict \<Rightarrow> bk_world backup_env" where
  "machine_env apps reg =
     \<lparr>bk_apps = apps, bk_registry = reg, bk_hook = \<lambda>_ _ _. p_ret (),
      bk_sys = \<lparr>sh = machine_sh, path_exists = \<lambda>_ _. False, touch_file = \<lambda>_ w. w, unlink_file = \<lambda>_ w. w,
               which = \<lambda>_ _. True\<rparr>,
      bk_stop = \<lambda>n. turn (SystemService (JStr n)) False, bk_start = \<lambda>n. turn (SystemService (JStr n)) True,
      bk_web_enable = \<lambda>n k. turn (ApacheService n k) True, bk_web_disable = \<lambda>n k. turn (ApacheService n k) False,
      bk_set_locked = \<lambda>a b w. w\<lparr>bw_locked := (if b then [a] else []) @ removeAll a (bw_locked w)\<rparr>,
      bk_run_setup_on_apps = \<lambda>_. p_ret ()\<rparr>"

definition machine_on :: "bk_world \<Rightarrow> service \<Rightarrow> bool" where
  "machine_on w s = (s \<in> set (bw_on w))"

definition machine_locked :: "bk_world \<Rightarrow> string \<Rightarrow> bool" where
  "machine_locked w a = (a \<in> set (bw_locked w))"

lemma machine_status: "service_status_laws (bk_sys (machine_env apps reg)) machine_on"
  by (auto simp: service_status_laws_def machine_env_def machine_sh_def machine_on_def)

lemma machine_switches: "switch_laws (machine_env apps reg) machine_on machine_locked"
  unfolding switch_laws_def
proof (intro conjI allI impI)
  fix s w assume u: "usable s"
  have "service_turn_off (machine_env apps reg) s w = turn s False w"
    "service_turn_on (machine_env apps reg) s w = turn s True w"
    using u by (cases s; auto simp: service_turn_off_def service_turn_on_def machine_env_def is_str_iff)+
  then show "\<exists>w'. service_turn_off (machine_env apps reg) s w = (Inr (), w') \<and> machine_on w' = (machine_on w)(s := False) \<and> machine_locked w' = machine_locked w"
    and "\<exists>w'. service_turn_on (machine_env apps reg) s w = (Inr (), w') \<and> machine_on w' = (machine_on w)(s := True) \<and> machine_locked w' = machine_locked w"
    by (auto simp: turn_def prog_simps machine_on_def machine_locked_def fun_eq_iff)
next
  fix a b w
  show "machine_on (bk_set_locked (machine_env apps reg) a b w) = machine_on w"
    and "machine_locked (bk_set_locked (machine_env apps reg) a b w) = (machine_locked w)(a := b)"
    by (auto simp: machine_env_def machine_on_def machine_locked_def fun_eq_iff)
qed

interpretation machine: service_manager "machine_env apps reg" machine_on machine_locked for apps reg
  by unfold_locales (rule machine_status, rule machine_switches)

text \<open>An app with two services that backs up its directory.\<close>

definition demo_backup_component :: "json list \<Rightarrow> backup_component" where
  "demo_backup_component services =
     \<lparr>br_obj = \<lparr>component_id = ''backup-restore-zoph'', comp_app_id = Some ''zoph'', is_leader = False,
        classes = [''BackupRestore'', ''FollowerComponent'', ''Component''], info = None, packages = None\<rparr>,
      br_config = [], br_data = [(''directories'', JList [JStr ''/var/lib/zoph''])], br_secrets = [],
      br_services = services, br_settings = [], delete_before_restore = [], has_data = True\<rparr>"

definition demo_backup_env :: "json list \<Rightarrow> bk_world backup_env" where
  "demo_backup_env services =
     machine_env [(''zoph'', \<lparr>app_id = ''zoph'', can_be_disabled = True, configure_when_disabled = True,
         components = [(''backup-restore-zoph'', \<lparr>obj = br_obj (demo_backup_component []), vt = follower_vtable\<rparr>)],
         ov_post_init = p_ret (), ov_setup = None, ov_uninstall = None, ov_enable = None, ov_disable = None,
         ov_diagnose = None, ov_repair = None\<rparr>)]
       [(''backup-restore-zoph'', demo_backup_component services)]"

definition apache_site :: "string \<Rightarrow> json" where
  "apache_site n = JDict [(''type'', JStr ''apache''), (''name'', JStr n), (''kind'', JStr ''config'')]"

definition demo_backup_world :: bk_world where
  "demo_backup_world = \<lparr>kv = [], module_versions = [(''zoph'', 1)], enabled_attr = [],
     bw_on = [SystemService (JStr ''mysql'')], bw_locked = []\<rparr>"

lemma demo_selects:
  "fst (select_components (demo_backup_env ss) [''zoph''] w) = Inr [demo_backup_component ss]"
  by (simp add: select_components_def get_components_in_order_def demo_backup_env_def machine_env_def
      backup_restore_component_def get_components_of_type_def demo_backup_component_def od_get_def prog_simps)

lemma demo_app: "\<exists>a. backup_app (demo_backup_env ss) (demo_backup_component ss) = Inr a"
  by (simp add: component_app_def demo_backup_component_def demo_backup_env_def machine_env_def od_get_def)

lemma demo_laws:
  "service_status_laws (bk_sys (demo_backup_env ss)) machine_on"
  "switch_laws (demo_backup_env ss) machine_on machine_locked"
  unfolding demo_backup_env_def by (rule machine_status machine_switches)+



lemma handlers_bad:
  assumes "list_all2 handler_for ss hs"
  shows "(\<forall>h \<in> set hs. usable (sh_service h) \<or> (\<exists>d. sh_service h = SystemService (JDict d))) \<and>
    ((\<exists>s \<in> set ss. \<not> usable_service s) \<longrightarrow> (\<exists>h \<in> set hs. \<not> usable (sh_service h)))"
  using assms by (induction rule: list_all2_induct) (auto simp: handler_for_def split: if_splits)

text \<open>A service declared as a dict of type system passes the validation of the component but
  cannot be stopped: every backup of the app raises TypeError before the handler runs, and
  since the services are stopped outside the \<open>try\<close> block, the apps of the backup stay locked
  and the services stopped so far stay down.\<close>

theorem system_dict_breaks_backup:
  assumes "service_status_laws (bk_sys env) on" and "switch_laws env on locked"
    and "fst (select_components env ids w) = Inr cs"
    and "\<forall>c \<in> set cs. (\<exists>a. backup_app env c = Inr a) \<and> (\<forall>s \<in> set (br_services c). declared_service s)"
    and "c \<in> set cs" and "s \<in> set (br_services c)" and "subscript s ''type'' = Inr (JStr ''system'')"
  shows "\<exists>w2. backup_apps env handler path ids passphrase comment w =
      (Inl (TypeError ''expected str, bytes or os.PathLike object''), w2) \<and> (\<forall>i. i \<in> apps_of env cs \<longrightarrow> locked w2 i)"
proof -
  have m: "service_manager env on locked" using assms(1,2) by (rule service_managerI)
  have "select_components env ids w = (Inr cs, w)"
    using p_keepsD[OF select_components_reads[of "\<lambda>v. v = w" env ids], of w] assms(3)
    by (cases "select_components env ids w") auto
  then have run: "backup_apps env handler path ids passphrase comment w =
      with_apps_down env cs (operation_on env handler ''backup'' cs (Some path) passphrase comment ''/'') w"
    by (simp add: backup_apps_def is_snapshot_available_def prog_simps)
  obtain hs where hs: "create_handlers cs = Inr hs" "list_all2 handler_for (concat (map br_services cs)) hs"
    using create_handlers_declared[of cs] assms(4) by blast
  have "s \<in> set (concat (map br_services cs))" and "\<not> usable_service s"
    using assms(5-7) by (auto simp: usable_service_def subscript_Inr)
  then have bad: "\<forall>h \<in> set (rev hs). usable (sh_service h) \<or> (\<exists>d. sh_service h = SystemService (JDict d))"
      "\<exists>h \<in> set (rev hs). \<not> usable (sh_service h)"
    using handlers_bad[OF hs(2)] by (simp, metis set_rev)
  obtain w1 where w1: "lockdown_apps env cs True w = (Inr (), w1)" "\<forall>i. i \<in> apps_of env cs \<longrightarrow> locked w1 i"
    using service_manager.lockdown_all[OF m, of cs True w] assms(4) by auto
  obtain w2 where "p_map (handler_stop env) (rev hs) w1 =
      (Inl (TypeError ''expected str, bytes or os.PathLike object''), w2)" "locked w2 = locked w1"
    using service_manager.stop_fails[OF m bad, of w1] by blast
  then show ?thesis using w1 hs(1) by (simp add: run with_apps_down_def shutdown_services_def prog_simps)
qed

theorem system_dict_breaks_backup_witness:
  "\<exists>w2. backup_apps (demo_backup_env [JDict [(''type'', JStr ''system''), (''name'', JStr ''mysql'')]]) (\<lambda>_ _. p_ret ())
      ''a'' [''zoph''] None None demo_backup_world =
      (Inl (TypeError ''expected str, bytes or os.PathLike object''), w2) \<and>
    (\<forall>i. i \<in> apps_of (demo_backup_env [JDict [(''type'', JStr ''system''), (''name'', JStr ''mysql'')]])
        [demo_backup_component [JDict [(''type'', JStr ''system''), (''name'', JStr ''mysql'')]]] \<longrightarrow> machine_locked w2 i)"
proof (rule system_dict_breaks_backup[OF demo_laws demo_selects,
      where s = "JDict [(''type'', JStr ''system''), (''name'', JStr ''mysql'')]" and
        c = "demo_backup_component [JDict [(''type'', JStr ''system''), (''name'', JStr ''mysql'')]]"])
  show "\<forall>c \<in> set [demo_backup_component [JDict [(''type'', JStr ''system''), (''name'', JStr ''mysql'')]]].
      (\<exists>a. backup_app (demo_backup_env [JDict [(''type'', JStr ''system''), (''name'', JStr ''mysql'')]]) c = Inr a) \<and>
      (\<forall>s \<in> set (br_services c). declared_service s)"
    using demo_app by simp
      (simp add: demo_backup_component_def declared_service_def validate_service_def assert_that_def)
qed (simp_all add: demo_backup_component_def)

end
