(* ===== verification/BackupPrivileged.thy ===== *)
theory BackupPrivileged
  imports BackupComponents Privileged System Paths
begin

text \<open>
  The privileged side of backups (plinth/modules/backups/privileged.py): mounting remote
  repositories, running borg, reading the manifests of archives, restoring exported archives, the
  settings of apps, and the errors of borg turned into exceptions of the app. borg, sshfs, tar
  archives and the file system are parameters.
\<close>

section \<open>Known errors\<close>

text \<open>The regular expressions of the table: literals, \<open>.\<close>, \<open>.*\<close> and a set of characters.\<close>

datatype re_item = Lit char | AnyOf "char list" | AnyChar | AnyRun

fun re_match :: "re_item list \<Rightarrow> string \<Rightarrow> bool" where
  "re_match [] s = True"
| "re_match (Lit c # r) s = (case s of [] \<Rightarrow> False | x # xs \<Rightarrow> x = c \<and> re_match r xs)"
| "re_match (AnyOf cs # r) s = (case s of [] \<Rightarrow> False | x # xs \<Rightarrow> x \<in> set cs \<and> re_match r xs)"
| "re_match (AnyChar # r) s = (case s of [] \<Rightarrow> False | x # xs \<Rightarrow> x \<noteq> CHR 0x0A \<and> re_match r xs)"
| "re_match (AnyRun # r) [] = re_match r []"
| "re_match (AnyRun # r) (x # xs) = (re_match r (x # xs) \<or> x \<noteq> CHR 0x0A \<and> re_match (AnyRun # r) xs)"

fun re_search :: "re_item list \<Rightarrow> string \<Rightarrow> bool" where
  "re_search r [] = re_match r []"
| "re_search r (x # xs) = (re_match r (x # xs) \<or> re_search r xs)"

abbreviation lit :: "string \<Rightarrow> re_item list" where
  "lit \<equiv> map Lit"

record known_error =
  ke_errors :: "re_item list list"
  ke_message :: string
  ke_raise_as :: string

definition KNOWN_ERRORS :: "known_error list" where
  "KNOWN_ERRORS =
     [\<lparr>ke_errors = [lit ''subprocess'' @ [AnyChar] @ lit ''TimeoutExpired''],
       ke_message = ''Connection refused - make sure you provided correct credentials and the server is running.'',
       ke_raise_as = ''BorgError''\<rparr>,
      \<lparr>ke_errors = [lit ''Connection refused''], ke_message = ''Connection refused'', ke_raise_as = ''BorgError''\<rparr>,
      \<lparr>ke_errors = [lit ''not a valid repository'', lit ''does not exist'', lit ''FileNotFoundError''],
       ke_message = ''Repository not found'', ke_raise_as = ''BorgRepositoryDoesNotExistError''\<rparr>,
      \<lparr>ke_errors = [[AnyOf ''Pp''] @ lit ''assphrase supplied in '' @ [AnyRun] @ lit '' is incorrect''],
       ke_message = ''Incorrect encryption passphrase'', ke_raise_as = ''BorgError''\<rparr>,
      \<lparr>ke_errors = [lit ''Connection reset by peer''], ke_message = ''SSH access denied'', ke_raise_as = ''SshfsError''\<rparr>,
      \<lparr>ke_errors = [lit ''There is already something at''],
       ke_message = ''Repository path is neither empty nor is an existing backups repository.'',
       ke_raise_as = ''BorgError''\<rparr>,
      \<lparr>ke_errors = [lit ''A repository already exists at''], ke_message = [], ke_raise_as = ''BorgRepositoryExists''\<rparr>,
      \<lparr>ke_errors = [lit ''Archive '' @ [AnyRun] @ lit '' already exists''],
       ke_message = ''An archive with given name already exists in the repository.'', ke_raise_as = ''BorgArchiveExists''\<rparr>,
      \<lparr>ke_errors = [lit ''Archive '' @ [AnyRun] @ lit '' not found''],
       ke_message = ''Archive with given name was not found in the repository.'',
       ke_raise_as = ''BorgArchiveDoesNotExist''\<rparr>,
      \<lparr>ke_errors = [lit ''Failed to create/acquire the lock''],
       ke_message = ''Backup system is busy with another operation.'', ke_raise_as = ''BorgBusy''\<rparr>,
      \<lparr>ke_errors = [lit ''No space left on device''],
       ke_message = ''Not enough space left on the disk or remote location.'', ke_raise_as = ''BorgNoSpace''\<rparr>]"

text \<open>\<open>error_text\<close> is the text of the exception with its arguments and captured output.\<close>

definition known_exception :: "(exn \<Rightarrow> string) \<Rightarrow> exn \<Rightarrow> exn" where
  "known_exception error_text e =
     (case find (\<lambda>k. list_ex (\<lambda>r. re_search r (error_text e)) (ke_errors k)) KNOWN_ERRORS of
        None \<Rightarrow> e | Some k \<Rightarrow> PlinthError (ke_raise_as k) (ke_message k))"

definition reraise_known_errors :: "(exn \<Rightarrow> string) \<Rightarrow> ('w, 'a) prog \<Rightarrow> ('w, 'a) prog" where
  "reraise_known_errors error_text m = p_catch m (\<lambda>e. p_raise (known_exception error_text e))"

section \<open>The host\<close>

text \<open>
  \<open>bh_borg\<close> runs a command with \<open>BORG_PASSPHRASE\<close> set and gives its exit code, output and error
  output; a tar archive is the list of its members, each with its content when it is a file.
\<close>

record 'w backup_host =
  bh_sys :: "'w system"
  bh_files :: "'w files"
  bh_borg :: "string \<Rightarrow> string list \<Rightarrow> ('w, nat \<times> string \<times> string) prog"
  bh_loads :: "string \<Rightarrow> json result"
  bh_dumps :: "json \<Rightarrow> string"
  bh_version_less :: "string \<Rightarrow> string \<Rightarrow> bool"
  bh_getcwd :: "('w, string) prog"
  bh_chdir :: "string \<Rightarrow> ('w, unit) prog"
  bh_tar :: "string \<Rightarrow> ('w, (string \<times> string option) list) prog"
  bh_tar_extract :: "string \<Rightarrow> string \<Rightarrow> string \<Rightarrow> ('w, unit) prog"
  bh_temp_dir :: string

definition BACKUPS_DATA_PATH :: string where "BACKUPS_DATA_PATH = ''/var/lib/plinth/backups-data''"
definition BACKUPS_UPLOAD_PATH :: string where "BACKUPS_UPLOAD_PATH = ''/var/lib/freedombox/backups-upload''"
definition MANIFESTS_FOLDER :: string where "MANIFESTS_FOLDER = ''/var/lib/plinth/backups-manifests/''"

definition passphrase_env :: "string option \<Rightarrow> string" where
  "passphrase_env passphrase = (case passphrase of None \<Rightarrow> [] | Some p \<Rightarrow> p)"

text \<open>\<open>_run\<close> with \<open>check=True\<close>: the output, or CalledProcessError.\<close>

definition borg_run :: "'w backup_host \<Rightarrow> string list \<Rightarrow> string option \<Rightarrow> ('w, string) prog" where
  "borg_run h cmd passphrase =
     p_bind (bh_borg h (passphrase_env passphrase) cmd) (\<lambda>(rc, out, err).
       if rc \<noteq> 0 then p_raise (CalledProcessError (join_str '' '' cmd)) else p_ret out)"

section \<open>Mounting\<close>

function replace_str :: "string \<Rightarrow> string \<Rightarrow> string \<Rightarrow> string" where
  "replace_str old new [] = []"
| "replace_str old new (c # cs) =
     (if old \<noteq> [] \<and> starts_with (c # cs) old then new @ replace_str old new (drop (length old) (c # cs))
      else c # replace_str old new cs)"
  by pat_completeness auto

termination
  by (relation "measure (\<lambda>(old, new, s). length s)") (auto simp: neq_Nil_conv)

definition is_mountpoint :: "'w backup_host \<Rightarrow> string \<Rightarrow> ('w, bool) prog" where
  "is_mountpoint h mountpoint = run_succeeds (bh_sys h) [''mountpoint'', ''-q'', mountpoint]"

text \<open>\<open>_validate_mountpoint\<close>: true when AlreadyMountedError is raised.\<close>

definition validate_mountpoint :: "'w backup_host \<Rightarrow> string \<Rightarrow> ('w, bool) prog" where
  "validate_mountpoint h mountpoint =
     p_bind (p_get (fl_exists (bh_files h) mountpoint)) (\<lambda>present.
       if present
       then p_bind (is_mountpoint h mountpoint) (\<lambda>mounted.
              if mounted then p_ret True
              else p_bind (fl_list (bh_files h) mountpoint) (\<lambda>names.
                   p_then (require (\<lambda>w. names = [] \<and> fl_is_dir (bh_files h) mountpoint w)
                             (ValueError ''Mountpoint is not an empty directory''))
                     (p_ret False)))
       else p_then (fl_make_dirs (bh_files h) mountpoint) (p_ret False))"

definition privileged_mount :: "'w backup_host \<Rightarrow> string \<Rightarrow> string \<Rightarrow> string \<Rightarrow> string \<Rightarrow> ('w, unit) prog" where
  "privileged_mount h mountpoint remote_path ssh_keyfile user_known_hosts_file =
     p_bind (validate_mountpoint h mountpoint) (\<lambda>already.
       if already then p_ret ()
       else run_ok (bh_sys h)
              [''sshfs'', replace_str ''~'' [] (replace_str ''~/'' [] remote_path), mountpoint, ''-o'',
               ''UserKnownHostsFile='' @ user_known_hosts_file, ''-o'', ''StrictHostKeyChecking=yes'', ''-o'', ''reconnect'',
               ''-o'', ''ServerAliveInterval=15'', ''-o'', ''ServerAliveCountMax=3'', ''-o'', ''IdentityFile='' @ ssh_keyfile] True)"

definition privileged_umount :: "'w backup_host \<Rightarrow> string \<Rightarrow> ('w, unit) prog" where
  "privileged_umount h mountpoint = run_ok (bh_sys h) [''umount'', mountpoint] True"

section \<open>Repositories and archives\<close>

definition create_backup_data_directory :: "'w backup_host \<Rightarrow> ('w, unit) prog" where
  "create_backup_data_directory h =
     p_bind (fl_umask (bh_files h) 63) (\<lambda>old_umask.
       p_finally
         (p_then (fl_make_dir (bh_files h) BACKUPS_DATA_PATH)
         (p_then (fl_chmod (bh_files h) BACKUPS_DATA_PATH 448)
                 (fl_chown (bh_files h) BACKUPS_DATA_PATH ''root'' ''root'')))
         (p_bind (fl_umask (bh_files h) old_umask) (\<lambda>_. p_ret ())))"

definition init_repository :: "'w backup_host \<Rightarrow> string \<Rightarrow> string \<Rightarrow> string option \<Rightarrow> ('w, unit) prog" where
  "init_repository h path encryption passphrase =
     (if encryption \<noteq> ''none'' \<and> passphrase_env passphrase = []
      then p_raise (ValueError ''No encryption passphrase provided'')
      else p_bind (borg_run h [''borg'', ''init'', ''--encryption'', encryption, path] passphrase) (\<lambda>_. p_ret ()))"

text \<open>\<open>os.path.dirname\<close>: up to the last slash, without trailing slashes unless there is nothing else.\<close>

definition dirname :: "string \<Rightarrow> string" where
  "dirname p =
     (let head = rev (dropWhile (\<lambda>c. c \<noteq> CHR ''/'') (rev p)) in
      if list_all (\<lambda>c. c = CHR ''/'') head then head else rev (dropWhile (\<lambda>c. c = CHR ''/'') (rev head)))"

definition privileged_setup :: "'w backup_host \<Rightarrow> string \<Rightarrow> ('w, unit) prog" where
  "privileged_setup h path =
     p_then (create_backup_data_directory h)
       (p_catch (p_bind (borg_run h [''borg'', ''info'', path] None) (\<lambda>_. p_ret ()))
          (\<lambda>e. if is_called_process_error e
               then p_bind (p_get (fl_exists (bh_files h) (dirname path))) (\<lambda>present.
                      p_then (if \<not> present then fl_make_dirs (bh_files h) (dirname path) else p_ret ())
                        (init_repository h path ''none'' None))
               else p_raise e))"

definition privileged_info :: "'w backup_host \<Rightarrow> string \<Rightarrow> string option \<Rightarrow> ('w, json) prog" where
  "privileged_info h path passphrase =
     p_bind (borg_run h [''borg'', ''info'', ''--json'', path] passphrase) (\<lambda>out. p_lift (bh_loads h out))"

definition privileged_list_repo :: "'w backup_host \<Rightarrow> string \<Rightarrow> string option \<Rightarrow> ('w, json) prog" where
  "privileged_list_repo h path passphrase =
     p_bind (borg_run h [''borg'', ''list'', ''--json'', ''--format='' @ [CHR 0x22] @ ''{comment}'' @ [CHR 0x22], path] passphrase)
       (\<lambda>out. p_lift (bh_loads h out))"

definition add_uploaded_archive :: "'w backup_host \<Rightarrow> string \<Rightarrow> string \<Rightarrow> ('w, unit) prog" where
  "add_uploaded_archive h file_name temporary_file_path =
     p_then (fl_make_dirs (bh_files h) BACKUPS_UPLOAD_PATH)
       (move_uploaded_file (bh_files h) (bh_temp_dir h) temporary_file_path BACKUPS_UPLOAD_PATH file_name True
          ''root'' ''root'' 384)"

definition remove_uploaded_archive :: "'w backup_host \<Rightarrow> string \<Rightarrow> ('w, unit) prog" where
  "remove_uploaded_archive h file_path =
     p_bind (p_get (fl_resolve (bh_files h) file_path)) (\<lambda>resolved.
     p_bind (p_get (fl_is_file (bh_files h) resolved)) (\<lambda>is_file.
       if is_relative_to resolved BACKUPS_UPLOAD_PATH \<and> is_file then fl_unlink (bh_files h) resolved else p_ret ()))"

definition get_borg_version :: "'w backup_host \<Rightarrow> ('w, string) prog" where
  "get_borg_version h =
     p_bind (borg_run h [''borg'', ''--version''] None) (\<lambda>out.
       p_lift (case split_words out of a # b # r \<Rightarrow> Inr b | _ \<Rightarrow> Inl (IndexError ''list index out of range'')))"

definition undo_braces :: "string \<Rightarrow> string" where
  "undo_braces s = replace_str ''}}'' ''}'' (replace_str ''{{'' ''{'' s)"

definition comment_arguments :: "'w backup_host \<Rightarrow> string option \<Rightarrow> ('w, string list) prog" where
  "comment_arguments h comment =
     (case comment of
        None \<Rightarrow> p_ret []
      | Some c \<Rightarrow>
          if c = [] then p_ret []
          else p_bind (get_borg_version h) (\<lambda>v.
                 p_ret [''--comment'', if bh_version_less h v ''1.1.10'' then undo_braces c else c]))"

definition create_archive ::
  "'w backup_host \<Rightarrow> string \<Rightarrow> string list \<Rightarrow> string option \<Rightarrow> string option \<Rightarrow> ('w, unit) prog"
where
  "create_archive h path paths comment passphrase =
     p_bind (comment_arguments h comment) (\<lambda>args.
     p_bind (p_get (\<lambda>w. filter (\<lambda>p. fl_exists (bh_files h) p w) paths)) (\<lambda>existing.
     p_bind (borg_run h ([''borg'', ''create'', ''--json''] @ args @ [path] @ existing) passphrase) (\<lambda>_. p_ret ())))"

definition privileged_delete_archive :: "'w backup_host \<Rightarrow> string \<Rightarrow> string option \<Rightarrow> ('w, unit) prog" where
  "privileged_delete_archive h path passphrase =
     p_bind (borg_run h [''borg'', ''delete'', path] passphrase) (\<lambda>_. p_ret ())"

definition extract_archive :: "'w backup_host \<Rightarrow> string \<Rightarrow> string \<Rightarrow> string option \<Rightarrow> string list option \<Rightarrow> ('w, unit) prog" where
  "extract_archive h archive_path destination passphrase locations =
     p_bind (bh_getcwd h) (\<lambda>prev_dir.
       p_finally
         (p_then (bh_chdir h destination)
           (p_bind (bh_borg h (passphrase_env passphrase)
                      ([''borg'', ''extract'', archive_path] @ (case locations of None \<Rightarrow> [] | Some ls \<Rightarrow> ls)))
             (\<lambda>(rc, out, err).
                if rc \<noteq> 0 \<and> \<not> contains_str ''never matched'' err
                then p_raise (CalledProcessError ''borg extract'') else p_ret ())))
         (bh_chdir h prev_dir))"

text \<open>\<open>os.path.relpath(location, '/')\<close> of a location that is absolute; \<open>..\<close> is resolved by name.\<close>

definition norm_step :: "string \<Rightarrow> string list \<Rightarrow> string list" where
  "norm_step p stack = (if p = ''..'' then tl stack else p # stack)"

definition relative_to_root :: "string \<Rightarrow> string" where
  "relative_to_root location =
     (let parts = rev (fold norm_step (path_parts location) []) in if parts = [] then ''.'' else join_str ''/'' parts)"

definition restore_archive ::
  "'w backup_host \<Rightarrow> string \<Rightarrow> string \<Rightarrow> string list \<Rightarrow> string list \<Rightarrow> string option \<Rightarrow> ('w, unit) prog"
where
  "restore_archive h archive_path destination directories file_list passphrase =
     extract_archive h archive_path destination passphrase (Some (map relative_to_root (directories @ file_list)))"

section \<open>Manifests of archives\<close>

definition read_archive_file :: "'w backup_host \<Rightarrow> string \<Rightarrow> string \<Rightarrow> string option \<Rightarrow> ('w, string) prog" where
  "read_archive_file h archive filepath passphrase =
     borg_run h [''borg'', ''extract'', archive, filepath, ''--stdout''] passphrase"

definition apps_of_manifest :: "json \<Rightarrow> json result" where
  "apps_of_manifest manifest =
     (case manifest of
        JList xs \<Rightarrow> Inr manifest
      | JDict d \<Rightarrow> (case map_of d ''apps'' of Some v \<Rightarrow> Inr v | None \<Rightarrow> Inl (RuntimeError ''Unknown manifest format''))
      | _ \<Rightarrow> Inl (RuntimeError ''Unknown manifest format''))"

definition app_names_of_manifest :: "json \<Rightarrow> json list result" where
  "app_names_of_manifest manifest =
     (if \<not> truthy manifest then Inr []
      else r_bind (apps_of_manifest manifest) (\<lambda>apps. r_bind (iter_json apps) (r_map (\<lambda>a. subscript a ''name''))))"

definition get_archive_apps :: "'w backup_host \<Rightarrow> string \<Rightarrow> string option \<Rightarrow> ('w, json list) prog" where
  "get_archive_apps h path passphrase =
     p_bind (p_catch (borg_run h [''borg'', ''list'', path, relative_to_root MANIFESTS_FOLDER, ''--format'', ''{path}{NEWLINE}''] passphrase)
              (\<lambda>e. if is_called_process_error e then p_raise (RuntimeError ''Borg exited unsuccessfully'') else p_raise e))
       (\<lambda>out. let manifest_path = strip_str out in
          p_bind (if manifest_path \<noteq> []
                  then p_bind (read_archive_file h path manifest_path passphrase) (\<lambda>t. p_lift (bh_loads h t))
                  else p_ret JNull)
            (\<lambda>manifest. p_lift (app_names_of_manifest manifest)))"

definition is_manifest_name :: "string \<Rightarrow> bool" where
  "is_manifest_name name \<longleftrightarrow> contains_str ''var/lib/plinth/backups-manifests/'' name \<and> ends_with name ''.json''"

definition get_exported_archive_apps :: "'w backup_host \<Rightarrow> string \<Rightarrow> ('w, json list) prog" where
  "get_exported_archive_apps h path =
     p_bind (bh_tar h path) (\<lambda>members.
       p_bind (case find (\<lambda>m. is_manifest_name (fst m)) members of
                 None \<Rightarrow> p_ret JNull
               | Some (name, None) \<Rightarrow> p_raise (RuntimeError ''Unable to extract app manifest from backup file.'')
               | Some (name, Some t) \<Rightarrow> p_lift (bh_loads h t))
         (\<lambda>manifest. p_lift (app_names_of_manifest manifest)))"

text \<open>A member is extracted when it is one of the files or its path starts with one of the directories.\<close>

definition is_selected :: "string list \<Rightarrow> string list \<Rightarrow> string \<Rightarrow> bool" where
  "is_selected directories file_list name =
     (let path = ''/'' @ name in path \<in> set file_list \<or> list_ex (\<lambda>d. starts_with path d) directories)"

definition restore_exported_archive :: "'w backup_host \<Rightarrow> string \<Rightarrow> string list \<Rightarrow> string list \<Rightarrow> ('w, unit) prog" where
  "restore_exported_archive h path directories file_list =
     p_bind (bh_tar h path) (\<lambda>members.
       p_for (\<lambda>m. if is_selected directories file_list (fst m) then bh_tar_extract h path (fst m) ''/'' else p_ret ()) members)"

section \<open>Settings of apps\<close>

definition app_id_chars :: string where
  "app_id_chars = ''abcdefghijklmnopqrstuvwxyz0123456789_''"

definition assert_app_id :: "string \<Rightarrow> unit result" where
  "assert_app_id a = (if a \<noteq> [] \<and> set a \<subseteq> set app_id_chars then Inr () else Inl (OtherError ''Invalid App ID''))"

definition settings_path :: "string \<Rightarrow> string" where
  "settings_path a = path_join BACKUPS_DATA_PATH (a @ ''-settings.json'')"

definition dump_settings :: "'w backup_host \<Rightarrow> string \<Rightarrow> json \<Rightarrow> ('w, unit) prog" where
  "dump_settings h a settings =
     p_then (p_lift (assert_app_id a)) (fl_write (bh_files h) (settings_path a) (bh_dumps h settings))"

definition load_settings :: "'w backup_host \<Rightarrow> string \<Rightarrow> ('w, json) prog" where
  "load_settings h a =
     p_then (p_lift (assert_app_id a))
       (p_catch (p_bind (fl_read (bh_files h) (settings_path a)) (\<lambda>t. p_lift (bh_loads h t)))
          (\<lambda>e. if is_file_not_found e then p_ret (JDict []) else p_raise e))"

text \<open>\<open>cs\<close> are the BackupRestore components of the app.\<close>

definition privileged_delete_before_restore :: "'w backup_host \<Rightarrow> backup_component list \<Rightarrow> ('w, unit) prog" where
  "privileged_delete_before_restore h cs =
     p_for (\<lambda>c. p_for (fl_remove_tree (bh_files h)) (delete_before_restore c)) cs"

text \<open>The types of the arguments, which the daemon checks before it runs the action.\<close>

definition dump_settings_spec :: argspec where
  "dump_settings_spec =
     \<lparr>sp_args = [''app_id'', ''settings''], sp_varargs = False, sp_varkw = False, sp_kwonlyargs = [], sp_defaults = 0,
      sp_annotations = [(''app_id'', TStr), (''settings'', TDict TStr (TUnion [TInt, TFloat, TBool, TStr]))]\<rparr>"

definition load_settings_spec :: argspec where
  "load_settings_spec =
     \<lparr>sp_args = [''app_id''], sp_varargs = False, sp_varkw = False, sp_kwonlyargs = [], sp_defaults = 0,
      sp_annotations = [(''app_id'', TStr), (''return'', TDict TStr (TUnion [TInt, TFloat, TBool, TStr]))]\<rparr>"

definition checked_call :: "argspec \<Rightarrow> json list \<Rightarrow> ('w, 'a) prog \<Rightarrow> ('w, 'a) prog" where
  "checked_call sp arguments body =
     p_then (p_lift (assert_valid_arguments sp (JDict [(''args'', JList arguments), (''kwargs'', JDict [])]))) body"

text \<open>The calls of the component through the daemon.\<close>

definition settings_calls ::
  "'w backup_host \<Rightarrow> (exn \<Rightarrow> string) \<Rightarrow> (json \<Rightarrow> ('w, unit) prog) \<Rightarrow> 'w backup_calls"
where
  "settings_calls h error_text delete_call =
     \<lparr>call_dump_settings = \<lambda>a v. reraise_known_errors error_text (checked_call dump_settings_spec [a, v] (dump_settings h (str_of a) v)),
      call_load_settings = \<lambda>a. reraise_known_errors error_text (checked_call load_settings_spec [a] (load_settings h (str_of a))),
      call_delete_before_restore = delete_call\<rparr>"

end
