(* ===== verification/BackupSettings.thy ===== *)
theory BackupSettings
  imports BackupPrivileged
begin

text \<open>
  The settings of an app survive a backup: what the hooks of the BackupRestore component keep in
  the settings file, through the type check of the privileged call, comes back at a restore.
\<close>

section \<open>Settings of the store\<close>

text \<open>The settings a backup finds in the store, and the values the privileged call takes.\<close>

primrec collected :: "(string, json) odict \<Rightarrow> string list \<Rightarrow> (string \<times> json) list \<Rightarrow> (string \<times> json) list" where
  "collected m [] data = data"
| "collected m (k # ks) data = collected m ks (case map_of m k of None \<Rightarrow> data | Some v \<Rightarrow> od_set data k v)"

definition scalar :: "json \<Rightarrow> bool" where
  "scalar v \<longleftrightarrow> is_int v \<or> is_float v \<or> is_bool v \<or> is_str v"

lemma collect_settings_eval: "collect_settings ks data w = (Inr (collected (kv w) ks data), w)"
proof (induction ks arbitrary: data)
  case (Cons k ks)
  have "p_catch (p_bind (kv_get k) (\<lambda>v. p_ret (od_set data k v))) (\<lambda>_. p_ret data) w =
      (Inr (case map_of (kv w) k of None \<Rightarrow> data | Some v \<Rightarrow> od_set data k v), w)"
    by (simp add: kv_get_def p_defs p_ret_def split: option.splits)
  then show ?case using Cons by (simp add: p_bind_def)
qed (simp add: prog_simps)

lemma collected_map:
  "map_of (collected m ks data) k = (if k \<in> set ks \<and> map_of m k \<noteq> None then map_of m k else map_of data k)"
  by (induction ks arbitrary: data) (auto simp: odict_simps split: option.splits)

lemma collected_wf: "od_wf data \<Longrightarrow> od_wf (collected m ks data)"
  by (induction ks arbitrary: data) (auto split: option.splits)

lemma kv_set_all:
  assumes "od_wf d"
  shows "\<exists>w'. p_for (\<lambda>(key, v). kv_set key v) d w = (Inr (), w') \<and>
    (\<forall>k. map_of (kv w') k = (case map_of d k of None \<Rightarrow> map_of (kv w) k | Some v \<Rightarrow> Some v))"
  using assms
proof (induction d arbitrary: w)
  case Nil
  then show ?case by (simp add: prog_simps)
next
  case (Cons p d)
  obtain k v where p: "p = (k, v)" by (cases p)
  let ?w = "w\<lparr>kv := od_set (kv w) k v\<rparr>"
  obtain w' where w': "p_for (\<lambda>(key, v). kv_set key v) d ?w = (Inr (), w')"
      "\<forall>j. map_of (kv w') j = (case map_of d j of None \<Rightarrow> map_of (kv ?w) j | Some v \<Rightarrow> Some v)"
    using Cons by fastforce
  have "map_of d k = None" using Cons.prems p by (simp add: map_of_eq_None_iff)
  then have "\<forall>j. map_of (kv w') j = (case map_of (p # d) j of None \<Rightarrow> map_of (kv w) j | Some v \<Rightarrow> Some v)"
    using w'(2) p by (simp add: odict_simps split: option.splits)
  moreover have "p_for (\<lambda>(key, v). kv_set key v) (p # d) w = p_for (\<lambda>(key, v). kv_set key v) d ?w"
    using p by (simp add: p_then_def p_bind_def kv_set_eval)
  ultimately show ?case using w'(1) by metis
qed

lemma scalar_well_typed: "scalar v \<Longrightarrow> assert_valid_type v (TUnion [TInt, TFloat, TBool, TStr]) = Inr ()"
  by (auto simp: scalar_def)

lemma dump_arguments_valid:
  assumes "\<forall>p \<in> set d. scalar (snd p)"
  shows "assert_valid_arguments dump_settings_spec
    (JDict [(''args'', JList [JStr a, JDict d]), (''kwargs'', JDict [])]) = Inr ()"
proof -
  have "assert_valid_type (JDict d) (TDict TStr (TUnion [TInt, TFloat, TBool, TStr])) = Inr ()"
    using assms scalar_well_typed by (auto simp: r_for_ok r_bind_Inr_iff)
  then show ?thesis
    by (simp add: assert_valid_arguments_def dump_settings_spec_def check_arg_def nth_arg_def annotation_of_def od_get_def
        upt_rec del: assert_valid_type.simps(10))
qed

lemma load_arguments_valid:
  "assert_valid_arguments load_settings_spec (JDict [(''args'', JList [JStr a]), (''kwargs'', JDict [])]) = Inr ()"
  by (simp add: assert_valid_arguments_def load_settings_spec_def check_arg_def nth_arg_def annotation_of_def od_get_def)

section \<open>Through the settings file\<close>

text \<open>
  What files and JSON are documented to do: a file that was written has the text, reading changes
  nothing, writing leaves the database alone, and the text of a value is read as that value.
\<close>

definition settings_host :: "('x world_scheme) backup_host \<Rightarrow> (string \<Rightarrow> 'x world_scheme \<Rightarrow> string option) \<Rightarrow> bool" where
  "settings_host h content \<longleftrightarrow>
     (\<forall>p t w. \<exists>w'. fl_write (bh_files h) p t w = (Inr (), w') \<and> kv w' = kv w \<and> content p w' = Some t) \<and>
     (\<forall>p w. fl_read (bh_files h) p w = (case content p w of None \<Rightarrow> Inl (FileNotFoundError p) | Some t \<Rightarrow> Inr t, w)) \<and>
     (\<forall>v. bh_loads h (bh_dumps h v) = Inr v)"

lemma split_on_free: "c \<notin> set s \<Longrightarrow> split_on c s = [s]"
  by (induction s) auto

lemma settings_path_eq:
  assumes "assert_app_id a = Inr ()"
  shows "settings_path a = ''/var/lib/plinth/backups-data/'' @ a @ ''-settings.json''"
proof -
  have "CHR ''/'' \<notin> set (a @ ''-settings.json'')" and "hd (a @ ''-settings.json'') \<noteq> CHR ''/''"
    using assms by (cases a; auto simp: assert_app_id_def app_id_chars_def split: if_splits)+
  moreover have "a @ ''-settings.json'' \<noteq> ''.''" using assms by (cases a) (auto simp: assert_app_id_def split: if_splits)
  moreover have "\<not> starts_with (a @ ''-settings.json'') ''/''"
    using calculation(2) by (cases "a @ ''-settings.json''") auto
  ultimately show ?thesis
    by (simp add: settings_path_def BACKUPS_DATA_PATH_def path_join_def path_str_def path_of_def path_root_def path_parts_def
        split_on_free)
qed

lemma dump_settings_writes:
  assumes "settings_host h content" and "assert_app_id a = Inr ()" and "\<forall>p \<in> set d. scalar (snd p)"
  shows "\<exists>w'. call_dump_settings (settings_calls h txt del) (JStr a) (JDict d) w = (Inr (), w') \<and>
    kv w' = kv w \<and> content (settings_path a) w' = Some (bh_dumps h (JDict d))"
proof -
  obtain w' where "fl_write (bh_files h) (settings_path a) (bh_dumps h (JDict d)) w = (Inr (), w')"
      "kv w' = kv w" "content (settings_path a) w' = Some (bh_dumps h (JDict d))"
    using assms(1) unfolding settings_host_def by blast
  then show ?thesis using assms(2) dump_arguments_valid[OF assms(3)]
    by (simp add: settings_calls_def reraise_known_errors_def checked_call_def dump_settings_def p_defs prog_simps)
qed

lemma load_settings_reads:
  assumes "settings_host h content" and "assert_app_id a = Inr ()" and "content (settings_path a) w = Some (bh_dumps h (JDict d))"
  shows "call_load_settings (settings_calls h txt del) (JStr a) w = (Inr (JDict d), w)"
proof -
  have "fl_read (bh_files h) (settings_path a) w = (Inr (bh_dumps h (JDict d)), w)"
    and "bh_loads h (bh_dumps h (JDict d)) = Inr (JDict d)"
    using assms(1,3) by (simp_all add: settings_host_def)
  then show ?thesis using assms(2) load_arguments_valid[of a]
    by (simp add: settings_calls_def reraise_known_errors_def checked_call_def load_settings_def p_defs prog_simps)
qed

text \<open>C17: Settings round-trip. The hook before a backup writes the settings of the app that the store
  has into the file that the component adds to the backup, provided their values are numbers,
  booleans or strings, which the privileged call checks. When that file is back after a restore,
  the hook after the restore gives every setting the value it had at the backup and leaves
  everything else in the store, and settings that were not set, as they are.\<close>

theorem settings_survive_backup:
  assumes "settings_host h content" and "comp_app_id (br_obj c) = Some a" and "assert_app_id a = Inr ()"
    and "br_settings c \<noteq> []"
    and "\<forall>k \<in> set (br_settings c). \<forall>v. map_of (kv w) k = Some v \<longrightarrow> scalar v"
  shows "get_settings_file c = Some (settings_path a) \<and>
    (\<exists>w1. base_hook (settings_calls h txt del) c ''backup_pre'' w = (Inr (), w1) \<and> kv w1 = kv w \<and>
      (\<forall>w2. content (settings_path a) w2 = content (settings_path a) w1 \<longrightarrow>
        (\<exists>w3. base_hook (settings_calls h txt del) c ''restore_post'' w2 = (Inr (), w3) \<and>
          (\<forall>k. map_of (kv w3) k =
             (if k \<in> set (br_settings c) \<and> map_of (kv w) k \<noteq> None then map_of (kv w) k else map_of (kv w2) k)))))"
proof -
  let ?d = "collected (kv w) (br_settings c) []"
  have d: "map_of ?d k = (if k \<in> set (br_settings c) then map_of (kv w) k else None)" for k
    by (simp add: collected_map)
  have wf: "od_wf ?d" by (rule collected_wf) simp
  have "scalar (snd p)" if "p \<in> set ?d" for p
    using assms(5) d[of "fst p"] map_of_is_SomeI[OF wf, of "fst p" "snd p"] that by (auto split: if_splits)
  then obtain w1 where w1: "call_dump_settings (settings_calls h txt del) (JStr a) (JDict ?d) w = (Inr (), w1)"
      "kv w1 = kv w" "content (settings_path a) w1 = Some (bh_dumps h (JDict ?d))"
    using dump_settings_writes[OF assms(1,3)] by blast
  have "base_hook (settings_calls h txt del) c ''backup_pre'' w = (Inr (), w1)"
    using assms(2,4) w1(1) by (simp add: base_hook_def settings_backup_pre_def app_id_arg_def collect_settings_eval prog_simps)
  moreover have "\<exists>w3. base_hook (settings_calls h txt del) c ''restore_post'' w2 = (Inr (), w3) \<and>
      (\<forall>k. map_of (kv w3) k =
         (if k \<in> set (br_settings c) \<and> map_of (kv w) k \<noteq> None then map_of (kv w) k else map_of (kv w2) k))"
    if "content (settings_path a) w2 = content (settings_path a) w1" for w2
  proof -
    have "call_load_settings (settings_calls h txt del) (JStr a) w2 = (Inr (JDict ?d), w2)"
      using load_settings_reads[OF assms(1,3)] that w1(3) by simp
    moreover obtain w3 where "p_for (\<lambda>(key, v). kv_set key v) ?d w2 = (Inr (), w3)"
        "\<forall>k. map_of (kv w3) k = (case map_of ?d k of None \<Rightarrow> map_of (kv w2) k | Some v \<Rightarrow> Some v)"
      using kv_set_all[OF wf, of w2] by blast
    ultimately show ?thesis using assms(2,4) d
      by (auto simp: base_hook_def settings_restore_post_def app_id_arg_def prog_simps split: option.splits)
  qed
  moreover have "get_settings_file c = Some (settings_path a)"
    using assms(2,3,4) settings_path_eq[OF assms(3)] by (auto simp: get_settings_file_def assert_app_id_def)
  ultimately show ?thesis using w1(2) by blast
qed

text \<open>A host whose files are part of the world.\<close>

record file_world = world +
  fw_files :: "(string \<times> string) list"

definition file_host :: "file_world backup_host" where
  "file_host =
     \<lparr>bh_sys = \<lparr>sh = \<lambda>_. p_ret (0, []), path_exists = \<lambda>_ _. False, touch_file = \<lambda>_ w. w, unlink_file = \<lambda>_ w. w,
               which = \<lambda>_ _. True\<rparr>,
      bh_files = \<lparr>fl_exists = \<lambda>p w. map_of (fw_files w) p \<noteq> None, fl_is_file = \<lambda>p w. map_of (fw_files w) p \<noteq> None,
        fl_is_dir = \<lambda>_ _. False, fl_resolve = \<lambda>p _. path_str p, fl_list = \<lambda>_. p_ret [],
        fl_read = (\<lambda>p w. (case map_of (fw_files w) p of None \<Rightarrow> Inl (FileNotFoundError p) | Some t \<Rightarrow> Inr t, w)),
        fl_write = (\<lambda>p t. p_mod (\<lambda>w. w\<lparr>fw_files := (p, t) # fw_files w\<rparr>)), fl_unlink = \<lambda>_. p_ret (),
        fl_make_dirs = \<lambda>_. p_ret (), fl_make_dir = \<lambda>_. p_ret (), fl_remove_tree = \<lambda>_. p_ret (),
        fl_chmod = \<lambda>_ _. p_ret (), fl_chown = \<lambda>_ _ _. p_ret (), fl_move = \<lambda>_ _. p_ret (), fl_umask = \<lambda>n. p_ret n\<rparr>,
      bh_borg = \<lambda>_ _. p_ret (0, [], []), bh_loads = \<lambda>t. Inr (from_nat (length t)), bh_dumps = unary_text,
      bh_version_less = \<lambda>_ _. False, bh_getcwd = p_ret ''/'', bh_chdir = \<lambda>_. p_ret (), bh_tar = \<lambda>_. p_ret [],
      bh_tar_extract = \<lambda>_ _ _. p_ret (), bh_temp_dir = ''/tmp''\<rparr>"

lemma file_host_laws: "settings_host file_host (\<lambda>p w. map_of (fw_files w) p)"
  by (simp add: settings_host_def file_host_def prog_simps)

definition dynamicdns_component :: backup_component where
  "dynamicdns_component =
     \<lparr>br_obj = \<lparr>component_id = ''backup-restore-dynamicdns'', comp_app_id = Some ''dynamicdns'', is_leader = False,
        classes = [''BackupRestore'', ''FollowerComponent'', ''Component''], info = None, packages = None\<rparr>,
      br_config = [], br_data = [], br_secrets = [], br_services = [],
      br_settings = [''dynamicdns_enable'', ''dynamicdns_config''], delete_before_restore = [], has_data = True\<rparr>"

definition dynamicdns_world :: file_world where
  "dynamicdns_world = \<lparr>kv = [(''dynamicdns_config'', JStr ''{}'')], module_versions = [], enabled_attr = [], fw_files = []\<rparr>"

text \<open>An app with one setting that is set and one that is not.\<close>

theorem settings_survive_backup_witness:
  "\<exists>w1. base_hook (settings_calls file_host (\<lambda>_. []) (\<lambda>_. p_ret ())) dynamicdns_component ''backup_pre'' dynamicdns_world = (Inr (), w1) \<and>
    kv w1 = kv dynamicdns_world \<and>
    (\<exists>w3. base_hook (settings_calls file_host (\<lambda>_. []) (\<lambda>_. p_ret ())) dynamicdns_component ''restore_post'' (w1\<lparr>kv := []\<rparr>) = (Inr (), w3) \<and>
      map_of (kv w3) ''dynamicdns_config'' = Some (JStr ''{}''))"
proof -
  have 1: "comp_app_id (br_obj dynamicdns_component) = Some ''dynamicdns''"
    "assert_app_id ''dynamicdns'' = Inr ()" "br_settings dynamicdns_component \<noteq> []"
    by (simp_all add: dynamicdns_component_def assert_app_id_def app_id_chars_def)
  have 2: "\<forall>k \<in> set (br_settings dynamicdns_component). \<forall>v. map_of (kv dynamicdns_world) k = Some v \<longrightarrow> scalar v"
    by (auto simp: dynamicdns_component_def dynamicdns_world_def scalar_def)
  obtain w1 where w1: "base_hook (settings_calls file_host (\<lambda>_. []) (\<lambda>_. p_ret ())) dynamicdns_component ''backup_pre'' dynamicdns_world = (Inr (), w1)"
      "kv w1 = kv dynamicdns_world"
      "\<And>w2. map_of (fw_files w2) (settings_path ''dynamicdns'') = map_of (fw_files w1) (settings_path ''dynamicdns'') \<Longrightarrow>
        (\<exists>w3. base_hook (settings_calls file_host (\<lambda>_. []) (\<lambda>_. p_ret ())) dynamicdns_component ''restore_post'' w2 = (Inr (), w3) \<and>
          (\<forall>k. map_of (kv w3) k = (if k \<in> set (br_settings dynamicdns_component) \<and> map_of (kv dynamicdns_world) k \<noteq> None
             then map_of (kv dynamicdns_world) k else map_of (kv w2) k)))"
    using settings_survive_backup[OF file_host_laws 1 2, of "\<lambda>_. []" "\<lambda>_. p_ret ()"] by blast
  have "map_of (fw_files (w1\<lparr>kv := []\<rparr>)) (settings_path ''dynamicdns'') = map_of (fw_files w1) (settings_path ''dynamicdns'')"
    by simp
  from w1(3)[OF this] obtain w3 where w3:
      "base_hook (settings_calls file_host (\<lambda>_. []) (\<lambda>_. p_ret ())) dynamicdns_component ''restore_post'' (w1\<lparr>kv := []\<rparr>) = (Inr (), w3)"
      "map_of (kv w3) ''dynamicdns_config'' = (if ''dynamicdns_config'' \<in> set (br_settings dynamicdns_component) \<and>
         map_of (kv dynamicdns_world) ''dynamicdns_config'' \<noteq> None
         then map_of (kv dynamicdns_world) ''dynamicdns_config'' else map_of (kv (w1\<lparr>kv := []\<rparr>)) ''dynamicdns_config'')"
    by blast
  then have "map_of (kv w3) ''dynamicdns_config'' = Some (JStr ''{}'')"
    by (simp add: dynamicdns_component_def dynamicdns_world_def)
  with w1(1,2) w3(1) show ?thesis by blast
qed

end
