(* ===== verification/BackupStore.thy ===== *)
theory BackupStore
  imports Store BackupSchedule
begin

text \<open>
  The repositories of backups in the key/value store (plinth/modules/backups/store.py) and their
  objects (plinth/modules/backups/repository.py): what is saved of a repository and how it is
  loaded, by kind of repository. JSON text and the generator of identifiers are parameters.
\<close>

section \<open>The store\<close>

record 'w store_env =
  st_loads :: "string \<Rightarrow> json result"
  st_dumps :: "json \<Rightarrow> string"
  st_uuid1 :: "('w, string) prog"

definition STORAGE_KEY :: string where "STORAGE_KEY = ''network_storage''"
definition REQUIRED_FIELDS :: "string list" where "REQUIRED_FIELDS = [''path'', ''storage_type'', ''added_by_module'']"

definition set_item :: "json \<Rightarrow> string \<Rightarrow> json \<Rightarrow> json result" where
  "set_item v k x = (case v of JDict d \<Rightarrow> Inr (JDict (od_set d k x)) | _ \<Rightarrow> Inl (TypeError ''item assignment''))"

definition del_item :: "json \<Rightarrow> string \<Rightarrow> json result" where
  "del_item v k =
     (case v of
        JDict d \<Rightarrow> r_bind (od_pop d k) (\<lambda>(x, rest). Inr (JDict rest))
      | _ \<Rightarrow> Inl (TypeError ''item deletion''))"

text \<open>The storages of one type: the dict comprehension.\<close>

primrec storages_of_type :: "string \<Rightarrow> (string \<times> json) list \<Rightarrow> (string \<times> json) list result" where
  "storages_of_type t [] = Inr []"
| "storages_of_type t (p # ps) =
     r_bind (subscript (snd p) ''storage_type'') (\<lambda>v.
     r_bind (storages_of_type t ps) (\<lambda>rest. Inr (if v = JStr t then p # rest else rest)))"

definition get_storages :: "'w store_env \<Rightarrow> string option \<Rightarrow> ('x world_scheme, json) prog" where
  "get_storages env storage_type =
     p_bind (kv_get_default STORAGE_KEY (JDict [])) (\<lambda>stored.
     p_bind (p_lift (if truthy stored
                     then (case stored of JStr t \<Rightarrow> st_loads env t | _ \<Rightarrow> Inl (TypeError ''the JSON object must be str''))
                     else Inr stored)) (\<lambda>storages.
       case storage_type of
         None \<Rightarrow> p_ret storages
       | Some t \<Rightarrow>
           if t = [] then p_ret storages
           else (case storages of
                   JDict d \<Rightarrow> p_lift (r_bind (storages_of_type t d) (\<lambda>ps. Inr (JDict ps)))
                 | _ \<Rightarrow> p_raise (AttributeError ''items''))))"

definition store_get :: "'w store_env \<Rightarrow> string \<Rightarrow> ('x world_scheme, json) prog" where
  "store_get env uuid = p_bind (get_storages env None) (\<lambda>storages. p_lift (subscript storages uuid))"

definition store_update_or_add ::
  "('x world_scheme) store_env \<Rightarrow> (string \<times> json) list \<Rightarrow> ('x world_scheme, json) prog"
where
  "store_update_or_add env storage =
     p_then (p_lift (r_for (\<lambda>f. if f \<notin> set (od_keys storage) then Inl (ValueError (''missing storage parameter: '' @ f)) else Inr ())
               REQUIRED_FIELDS))
       (p_bind (get_storages env None) (\<lambda>existing.
        p_bind (case map_of storage ''uuid'' of
                  Some (JStr uuid) \<Rightarrow> p_ret (uuid, storage)
                | Some v \<Rightarrow> p_raise (TypeError ''the uuid of a storage is a string'')
                | None \<Rightarrow> p_bind (st_uuid1 env) (\<lambda>uuid. p_ret (uuid, od_set storage ''uuid'' (JStr uuid))))
          (\<lambda>(uuid, storage').
             p_bind (p_lift (set_item existing uuid (JDict storage'))) (\<lambda>storages.
               p_then (kv_set STORAGE_KEY (JStr (st_dumps env storages))) (p_ret (JStr uuid))))))"

definition store_delete :: "'w store_env \<Rightarrow> string \<Rightarrow> ('x world_scheme, unit) prog" where
  "store_delete env uuid =
     p_bind (get_storages env None) (\<lambda>storages.
     p_bind (p_lift (del_item storages uuid)) (\<lambda>rest.
       kv_set STORAGE_KEY (JStr (st_dumps env rest))))"

section \<open>Repositories\<close>

text \<open>The three classes; \<open>verified\<close> is an attribute of \<open>SshBorgRepository\<close> alone.\<close>

datatype repository_kind = RootBorg | DiskBorg | SshBorg

record repository =
  rp_kind :: repository_kind
  rp_path :: string
  rp_credentials :: "(string \<times> json) list"
  rp_uuid :: string
  rp_kwargs :: "(string \<times> json) list"
  rp_schedule :: schedule
  rp_verified :: json

primrec storage_type_of :: "repository_kind \<Rightarrow> string" where
  "storage_type_of RootBorg = ''root''"
| "storage_type_of DiskBorg = ''disk''"
| "storage_type_of SshBorg = ''ssh''"

primrec sort_order :: "repository_kind \<Rightarrow> nat" where
  "sort_order RootBorg = 10"
| "sort_order DiskBorg = 20"
| "sort_order SshBorg = 30"

primrec known_credentials :: "repository_kind \<Rightarrow> string list" where
  "known_credentials RootBorg = []"
| "known_credentials DiskBorg = [''encryption_passphrase'']"
| "known_credentials SshBorg = [''ssh_keyfile'', ''ssh_password'', ''encryption_passphrase'']"

definition ROOT_UUID :: string where "ROOT_UUID = ''root''"
definition ROOT_PATH :: string where "ROOT_PATH = ''/var/lib/freedombox/borgbackup''"

text \<open>
  The constructors. \<open>schedule['repository_uuid'] = self.uuid\<close> before \<open>Schedule(**schedule)\<close>: a
  stored schedule that has the key already is overwritten.
\<close>

definition base_init ::
  "'w store_env \<Rightarrow> repository_kind \<Rightarrow> string \<Rightarrow> (string \<times> json) list \<Rightarrow> string option \<Rightarrow> (string \<times> json) list \<Rightarrow>
   (string \<times> json) list \<Rightarrow> json \<Rightarrow> ('w, repository) prog"
where
  "base_init env kind path credentials uuid sched kwargs verified =
     p_bind (case uuid of
               Some u \<Rightarrow> if u = [] then st_uuid1 env else p_ret u
             | None \<Rightarrow> st_uuid1 env) (\<lambda>u.
     p_bind (p_lift (schedule_from u (od_del sched ''repository_uuid''))) (\<lambda>s.
       p_ret \<lparr>rp_kind = kind, rp_path = path, rp_credentials = credentials, rp_uuid = u, rp_kwargs = kwargs,
              rp_schedule = s, rp_verified = verified\<rparr>))"

definition repository_init ::
  "'w store_env \<Rightarrow> repository_kind \<Rightarrow> string \<Rightarrow> (string \<times> json) list \<Rightarrow> string option \<Rightarrow> (string \<times> json) list \<Rightarrow>
   (string \<times> json) list \<Rightarrow> ('w, repository) prog"
where
  "repository_init env kind path credentials uuid sched kwargs =
     (case kind of
        RootBorg \<Rightarrow> base_init env RootBorg ROOT_PATH credentials (Some ROOT_UUID) sched kwargs (JBool False)
      | DiskBorg \<Rightarrow> base_init env DiskBorg path credentials uuid sched kwargs (JBool False)
      | SshBorg \<Rightarrow>
          (let v = (case map_of kwargs ''verified'' of None \<Rightarrow> JNull | Some v \<Rightarrow> v) in
           base_init env SshBorg path credentials uuid sched (od_del kwargs ''verified'')
             (if truthy v then v else JBool False)))"

text \<open>\<open>x or {}\<close> of the dicts of a stored repository.\<close>

definition dict_or_empty :: "json \<Rightarrow> (string \<times> json) list result" where
  "dict_or_empty v = (case v of JDict d \<Rightarrow> Inr d | _ \<Rightarrow> if truthy v then Inl (TypeError ''not a mapping'') else Inr [])"

definition repository_load ::
  "('x world_scheme) store_env \<Rightarrow> repository_kind \<Rightarrow> string \<Rightarrow> ('x world_scheme, repository) prog"
where
  "repository_load env kind uuid =
     p_bind (store_get env uuid) (\<lambda>stored.
     p_bind (p_lift (case stored of JDict d \<Rightarrow> Inr d | _ \<Rightarrow> Inl (TypeError ''not a mapping''))) (\<lambda>d.
     p_bind (p_lift (od_pop d ''path'')) (\<lambda>(path, d1).
     p_bind (p_lift (od_pop d1 ''uuid'')) (\<lambda>(u, d2).
     p_bind (p_lift (dict_or_empty (case map_of d2 ''credentials'' of None \<Rightarrow> JDict [] | Some v \<Rightarrow> v))) (\<lambda>credentials.
     p_bind (p_lift (dict_or_empty (case map_of d2 ''schedule'' of None \<Rightarrow> JDict [] | Some v \<Rightarrow> v))) (\<lambda>sched.
       repository_init env kind (case path of JStr p \<Rightarrow> p | _ \<Rightarrow> []) credentials (Some uuid) sched
         (od_del (od_del d2 ''credentials'') ''schedule''))))))) "

definition repository_storage_format :: "repository \<Rightarrow> (string \<times> json) list" where
  "repository_storage_format r =
     [(''path'', JStr (rp_path r)), (''storage_type'', JStr (storage_type_of (rp_kind r))), (''added_by_module'', JStr ''backups''),
      (''credentials'', JDict (rp_credentials r)), (''schedule'', JDict (get_storage_format (rp_schedule r)))] @
     (if rp_uuid r \<noteq> [] then [(''uuid'', JStr (rp_uuid r))] else []) @
     (if rp_kind r = SshBorg then [(''verified'', rp_verified r)] else [])"

definition repository_save ::
  "('x world_scheme) store_env \<Rightarrow> repository \<Rightarrow> ('x world_scheme, repository) prog"
where
  "repository_save env r =
     p_bind (store_update_or_add env (repository_storage_format r)) (\<lambda>uuid.
       p_ret (r\<lparr>rp_uuid := (case uuid of JStr u \<Rightarrow> u | _ \<Rightarrow> [])\<rparr>))"

definition get_instance :: "('x world_scheme) store_env \<Rightarrow> string \<Rightarrow> ('x world_scheme, repository) prog" where
  "get_instance env uuid =
     (if uuid = ROOT_UUID
      then p_catch (repository_load env RootBorg uuid)
             (\<lambda>e. if is_key_error e then repository_init env RootBorg [] [] None [] [] else p_raise e)
      else p_bind (store_get env uuid) (\<lambda>storage.
           p_bind (p_lift (subscript storage ''storage_type'')) (\<lambda>t.
             if t = JStr ''ssh'' then repository_load env SshBorg uuid else repository_load env DiskBorg uuid)))"

definition get_repositories :: "('x world_scheme) store_env \<Rightarrow> ('x world_scheme, repository list) prog" where
  "get_repositories env =
     p_bind (get_storages env None) (\<lambda>storages.
     p_bind (p_lift (case storages of JDict d \<Rightarrow> Inr (od_keys d) | _ \<Rightarrow> Inl (TypeError ''not iterable''))) (\<lambda>uuids.
     p_bind (p_map (get_instance env) uuids) (\<lambda>rs.
     p_bind (if ROOT_UUID \<notin> set uuids then p_bind (get_instance env ROOT_UUID) (\<lambda>r. p_ret [r]) else p_ret []) (\<lambda>root.
       p_ret (sort_key (\<lambda>r. sort_order (rp_kind r)) (rs @ root))))))"

end
