(* ===== verification/BackupStoreLaws.thy ===== *)
theory BackupStoreLaws
  imports BackupStore
begin

text \<open>
  A repository that is saved is loaded as it was, of its own class, with its schedule; the other
  repositories of the store are untouched.
\<close>

text \<open>What the constructors make of a repository; the schedule has the id of its repository.\<close>

definition repository_wf :: "repository \<Rightarrow> bool" where
  "repository_wf r \<longleftrightarrow>
     rp_uuid r \<noteq> [] \<and> (rp_uuid r = ROOT_UUID \<longleftrightarrow> rp_kind r = RootBorg) \<and>
     (rp_kind r = RootBorg \<longrightarrow> rp_path r = ROOT_PATH) \<and> repository_uuid (rp_schedule r) = rp_uuid r \<and>
     (rp_kind r \<noteq> SshBorg \<longrightarrow> rp_verified r = JBool False) \<and> (truthy (rp_verified r) \<or> rp_verified r = JBool False)"

definition store_text :: "'w store_env \<Rightarrow> bool" where
  "store_text env \<longleftrightarrow> (\<forall>v. st_loads env (st_dumps env v) = Inr v) \<and> (\<forall>v. st_dumps env v \<noteq> [])"

text \<open>The keyword arguments that a loaded repository has left over.\<close>

definition left_over :: "repository \<Rightarrow> (string \<times> json) list" where
  "left_over r = [(''storage_type'', JStr (storage_type_of (rp_kind r))), (''added_by_module'', JStr ''backups'')]"

lemma schedule_round_trip: "repository_uuid s = u \<Longrightarrow> schedule_from u (get_storage_format s) = Inr s"
  by (simp add: schedule_from_def get_storage_format_def schedule_init_def or_default_def comp_def)

lemma schedule_keys: "od_del (get_storage_format s) ''repository_uuid'' = get_storage_format s"
  by (simp add: get_storage_format_def od_del_filter)

section \<open>The store\<close>

definition stored_storages :: "'w store_env \<Rightarrow> 'x world_scheme \<Rightarrow> json result" where
  "stored_storages env w =
     (case map_of (kv w) STORAGE_KEY of
        None \<Rightarrow> Inr (JDict [])
      | Some v \<Rightarrow>
          if truthy v then (case v of JStr t \<Rightarrow> st_loads env t | _ \<Rightarrow> Inl (TypeError ''the JSON object must be str'')) else Inr v)"

lemma get_storages_eval: "get_storages env None w = (stored_storages env w, w)"
  by (simp add: get_storages_def stored_storages_def p_bind_def p_lift_def p_ret_def kv_get_default_eval
      split: option.splits sum.splits)

lemma store_get_eval: "store_get env u w = (r_bind (stored_storages env w) (\<lambda>s. subscript s u), w)"
  by (cases "stored_storages env w") (simp_all add: store_get_def p_bind_def get_storages_eval p_lift_def)

lemma stored_after:
  assumes "store_text env"
  shows "stored_storages env (w\<lparr>kv := od_set (kv w) STORAGE_KEY (JStr (st_dumps env v))\<rparr>) = Inr v"
  using assms by (simp add: stored_storages_def odict_simps store_text_def)

lemma store_update_eval:
  assumes "stored_storages env w = Inr (JDict d)" and "map_of storage ''uuid'' = Some (JStr u)"
    and "set REQUIRED_FIELDS \<subseteq> set (od_keys storage)"
  shows "store_update_or_add env storage w =
    (Inr (JStr u), w\<lparr>kv := od_set (kv w) STORAGE_KEY (JStr (st_dumps env (JDict (od_set d u (JDict storage)))))\<rparr>)"
proof -
  have "r_for (\<lambda>f. if f \<notin> set (od_keys storage) then Inl (ValueError (''missing storage parameter: '' @ f)) else Inr ()) REQUIRED_FIELDS = Inr ()"
    using assms(3) by (auto simp: r_for_ok)
  then show ?thesis using assms(1,2)
    by (simp add: store_update_or_add_def p_then_def p_bind_def p_lift_def p_ret_def get_storages_eval set_item_def kv_set_eval
        split: option.splits)
qed

section \<open>Saving and loading\<close>

lemma load_stored:
  assumes "repository_wf r" and "stored_storages env w = Inr (JDict d)"
    and "map_of d (rp_uuid r) = Some (JDict (repository_storage_format r))"
  shows "repository_load env (rp_kind r) (rp_uuid r) w = (Inr (r\<lparr>rp_kwargs := left_over r\<rparr>), w)"
proof -
  have s: "schedule_from u (od_del (get_storage_format (rp_schedule r)) ''repository_uuid'') = Inr (rp_schedule r)"
    if "u = rp_uuid r" for u
    using assms(1) that schedule_round_trip[of "rp_schedule r" "rp_uuid r"] by (simp add: schedule_keys repository_wf_def)
  have "store_get env (rp_uuid r) w = (Inr (JDict (repository_storage_format r)), w)"
    using assms(2,3) by (simp add: store_get_eval)
  then show ?thesis using assms(1) s
    by (cases "rp_kind r")
      (auto simp: repository_load_def repository_storage_format_def repository_init_def base_init_def repository_wf_def
        left_over_def od_pop_def od_del_filter dict_or_empty_def p_bind_def p_lift_def p_ret_def split: if_splits)
qed

text \<open>A repository that is saved is loaded again: the object that \<open>get_instance\<close> makes of its
  identifier has the class, path, credentials, schedule and verification of the saved one, whose
  identifier is kept, and what the store gives for every other identifier is unchanged.\<close>

theorem repository_save_load:
  assumes "store_text env" and "repository_wf r" and "stored_storages env w = Inr (JDict d)"
  shows "\<exists>w'. repository_save env r w = (Inr r, w') \<and>
    get_instance env (rp_uuid r) w' = (Inr (r\<lparr>rp_kwargs := left_over r\<rparr>), w') \<and>
    (\<forall>u. u \<noteq> rp_uuid r \<longrightarrow> fst (store_get env u w') = fst (store_get env u w))"
proof -
  let ?f = "repository_storage_format r" and ?d = "od_set d (rp_uuid r) (JDict (repository_storage_format r))"
  let ?w = "w\<lparr>kv := od_set (kv w) STORAGE_KEY (JStr (st_dumps env (JDict ?d)))\<rparr>"
  have "map_of ?f ''uuid'' = Some (JStr (rp_uuid r))" "set REQUIRED_FIELDS \<subseteq> set (od_keys ?f)"
    "subscript (JDict ?f) ''storage_type'' = Inr (JStr (storage_type_of (rp_kind r)))"
    using assms(2) by (auto simp: repository_storage_format_def repository_wf_def REQUIRED_FIELDS_def)
  then have save: "repository_save env r w = (Inr r, ?w)" and type: "subscript (JDict ?f) ''storage_type'' = Inr (JStr (storage_type_of (rp_kind r)))"
    by (simp_all add: repository_save_def p_bind_def store_update_eval[OF assms(3)] p_ret_def)
  have new: "stored_storages env ?w = Inr (JDict ?d)" by (rule stored_after[OF assms(1)])
  have load: "repository_load env (rp_kind r) (rp_uuid r) ?w = (Inr (r\<lparr>rp_kwargs := left_over r\<rparr>), ?w)"
    by (rule load_stored[OF assms(2) new]) (simp add: odict_simps)
  have "store_get env (rp_uuid r) ?w = (Inr (JDict ?f), ?w)" by (simp add: store_get_eval new odict_simps)
  then have "get_instance env (rp_uuid r) ?w = (Inr (r\<lparr>rp_kwargs := left_over r\<rparr>), ?w)"
    using load type assms(2)
    by (cases "rp_kind r") (auto simp: get_instance_def p_bind_def p_catch_def p_lift_def repository_wf_def)
  moreover have "fst (store_get env u ?w) = fst (store_get env u w)" if "u \<noteq> rp_uuid r" for u
    using that by (simp add: store_get_eval new assms(3) odict_simps)
  ultimately show ?thesis using save by blast
qed

text \<open>A verified remote repository is saved beside one that is there.\<close>

definition demo_store :: "world store_env" where
  "demo_store = \<lparr>st_loads = \<lambda>t. Inr (from_nat (length t - 1)), st_dumps = \<lambda>v. CHR ''1'' # unary_text v, st_uuid1 = p_ret ''u''\<rparr>"

definition demo_repository :: repository where
  "demo_repository = \<lparr>rp_kind = SshBorg, rp_path = ''me@host:~'', rp_credentials = [(''ssh_keyfile'', JStr ''/k'')], rp_uuid = ''u1'',
     rp_kwargs = [], rp_schedule = schedule_init ''u1'' (Some True) (Some 5) None None None (Some [''zoph'']),
     rp_verified = JBool True\<rparr>"

theorem repository_save_load_witness:
  "\<exists>w'. repository_save demo_store demo_repository \<lparr>kv = [], module_versions = [], enabled_attr = []\<rparr> = (Inr demo_repository, w') \<and>
    get_instance demo_store (rp_uuid demo_repository) w' = (Inr (demo_repository\<lparr>rp_kwargs := left_over demo_repository\<rparr>), w') \<and>
    (\<forall>u. u \<noteq> rp_uuid demo_repository \<longrightarrow>
      fst (store_get demo_store u w') = fst (store_get demo_store u \<lparr>kv = [], module_versions = [], enabled_attr = []\<rparr>))"
  by (rule repository_save_load)
    (simp_all add: store_text_def demo_store_def demo_repository_def repository_wf_def ROOT_UUID_def schedule_init_def
      stored_storages_def)

end
