(* ===== verification/BackupRepository.thy ===== *)
theory BackupRepository
  imports BackupStore Notifications Paths
begin

text \<open>
  What repositories of backups do (plinth/modules/backups/repository.py) and the scheduled run over
  all of them (\<open>__init__.py\<close>): credentials, archives, and for remote repositories the mount point,
  the move from a stored password to a key, and the clean-up. borg, ssh and the privileged calls are
  parameters. A method that changes its object returns the changed object.
\<close>

record 'w borg_calls =
  bc_store :: "'w store_env"
  bc_info :: "string \<Rightarrow> json \<Rightarrow> ('w, json) prog"
  bc_list_repo :: "string \<Rightarrow> json \<Rightarrow> ('w, json) prog"
  bc_init :: "string \<Rightarrow> string \<Rightarrow> json \<Rightarrow> ('w, unit) prog"
  bc_delete_archive :: "string \<Rightarrow> json \<Rightarrow> ('w, unit) prog"
  bc_archive_apps :: "string \<Rightarrow> json \<Rightarrow> ('w, json) prog"
  bc_is_mounted :: "string \<Rightarrow> ('w, bool) prog"
  bc_mount :: "string \<Rightarrow> string \<Rightarrow> json \<Rightarrow> string \<Rightarrow> ('w, unit) prog"
  bc_umount :: "string \<Rightarrow> ('w, unit) prog"
  bc_backup_apps :: "string \<Rightarrow> string list \<Rightarrow> json \<Rightarrow> string option \<Rightarrow> ('w, unit) prog"
  bc_restore_apps :: "string \<Rightarrow> string list \<Rightarrow> json \<Rightarrow> ('w, unit) prog"
  bc_strptime :: "string \<Rightarrow> datetime result"
  bc_now_name :: "('w, string) prog"
  bc_key_paths :: "string \<times> string"
  bc_known_hosts :: string
  bc_key_exists :: "'w \<Rightarrow> bool"
  bc_run :: "string list \<Rightarrow> ('w, unit) prog"
  bc_sshpass :: "string \<Rightarrow> string list \<Rightarrow> ('w, unit) prog"
  bc_domain_names :: "'w \<Rightarrow> string list"
  bc_make_key_directory :: "('w, unit) prog"
  bc_path_exists :: "string \<Rightarrow> 'w \<Rightarrow> bool"
  bc_list_dir :: "string \<Rightarrow> ('w, string list) prog"
  bc_rmdir :: "string \<Rightarrow> ('w, unit) prog"

section \<open>Names of remote repositories\<close>

text \<open>
  \<open>re.findall(r'^(.*)@([^/]*):(.*)$', path)[0]\<close> of a path without line breaks: the last \<open>@\<close> that
  is followed by a colon before the next slash, and the last such colon.
\<close>

definition after_host :: "string \<Rightarrow> (string \<times> string) option" where
  "after_host s =
     (let seg = takeWhile (\<lambda>c. c \<noteq> CHR ''/'') s in
      if CHR '':'' \<in> set seg
      then let h = rev (tl (dropWhile (\<lambda>c. c \<noteq> CHR '':'') (rev seg))) in Some (h, drop (length h + 1) s)
      else None)"

fun find_user :: "string \<Rightarrow> (string \<times> string \<times> string) option" where
  "find_user [] = None"
| "find_user (c # cs) =
     (case find_user cs of
        Some (u, h, d) \<Rightarrow> Some (c # u, h, d)
      | None \<Rightarrow> if c = CHR ''@'' then map_option (\<lambda>(h, d). ([], h, d)) (after_host cs) else None)"

definition split_path :: "string \<Rightarrow> (string \<times> string \<times> string) result" where
  "split_path path = (case find_user path of Some x \<Rightarrow> Inr x | None \<Rightarrow> Inl (IndexError ''list index out of range''))"

definition rp_hostname :: "repository \<Rightarrow> string result" where
  "rp_hostname r = r_bind (split_path (rp_path r)) (\<lambda>(u, h, d). Inr (hd (split_on (CHR ''%'') h)))"

definition rp_username :: "repository \<Rightarrow> string result" where
  "rp_username r = r_bind (split_path (rp_path r)) (\<lambda>(u, h, d). Inr u)"

definition mountpoint :: "repository \<Rightarrow> string" where
  "mountpoint r = (if starts_with (rp_uuid r) ''/'' then rp_uuid r else ''/media/'' @ rp_uuid r)"

definition borg_path :: "repository \<Rightarrow> string" where
  "borg_path r = (case rp_kind r of RootBorg \<Rightarrow> ROOT_PATH | DiskBorg \<Rightarrow> rp_path r | SshBorg \<Rightarrow> mountpoint r)"

definition archive_path :: "repository \<Rightarrow> string \<Rightarrow> string" where
  "archive_path r n = borg_path r @ ''::'' @ n"

section \<open>Credentials\<close>

definition credential :: "repository \<Rightarrow> string \<Rightarrow> json" where
  "credential r key = (case map_of (rp_credentials r) key of None \<Rightarrow> JNull | Some v \<Rightarrow> v)"

definition encryption_passphrase :: "repository \<Rightarrow> json result" where
  "encryption_passphrase r =
     r_bind (r_for (\<lambda>k. if k \<notin> set (known_credentials (rp_kind r)) then Inl (ValueError (''Unknown credentials entry: '' @ k)) else Inr ())
               (od_keys (rp_credentials r)))
       (\<lambda>_. Inr (credential r ''encryption_passphrase''))"

definition encryption_data :: "repository \<Rightarrow> bool" where
  "encryption_data r = truthy (credential r ''encryption_passphrase'')"

section \<open>Archives\<close>

definition get_info :: "'w borg_calls \<Rightarrow> repository \<Rightarrow> ('w, json) prog" where
  "get_info bc r =
     p_bind (p_lift (encryption_passphrase r)) (\<lambda>pass.
     p_bind (bc_info bc (borg_path r) pass) (\<lambda>output.
     p_bind (p_lift (r_bind (subscript output ''encryption'') (\<lambda>e. subscript e ''mode''))) (\<lambda>mode.
       if mode = JStr ''none'' \<and> encryption_data r
       then p_raise (PlinthError ''BorgUnencryptedRepository'' ''Existing repository is not encrypted.'')
       else p_ret output)))"

definition parse_archive :: "'w borg_calls \<Rightarrow> json \<Rightarrow> archive result" where
  "parse_archive bc a =
     r_bind (subscript a ''time'') (\<lambda>time. r_bind (bc_strptime bc (case time of JStr t \<Rightarrow> t | _ \<Rightarrow> [])) (\<lambda>_.
     r_bind (subscript a ''start'') (\<lambda>start. r_bind (bc_strptime bc (case start of JStr t \<Rightarrow> t | _ \<Rightarrow> [])) (\<lambda>t.
     r_bind (subscript a ''name'') (\<lambda>n. r_bind (subscript a ''comment'') (\<lambda>c.
       Inr \<lparr>archive_name = (case n of JStr s \<Rightarrow> s | _ \<Rightarrow> []), archive_start = t,
            archive_comment = (case c of JStr s \<Rightarrow> s | _ \<Rightarrow> [])\<rparr>))))))"

text \<open>The newest first; the sort is stable. The listing of borg has a name and a comment for each.\<close>

definition list_archives :: "'w borg_calls \<Rightarrow> repository \<Rightarrow> ('w, archive list) prog" where
  "list_archives bc r =
     p_bind (p_lift (encryption_passphrase r)) (\<lambda>pass.
     p_bind (bc_list_repo bc (borg_path r) pass) (\<lambda>output.
     p_bind (p_lift (r_bind (subscript output ''archives'') iter_json)) (\<lambda>items.
     p_bind (p_lift (r_map (parse_archive bc) items)) (\<lambda>as.
       p_ret (sort_key (\<lambda>a. - microseconds (archive_start a)) as)))))"

definition repository_create_archive ::
  "'w borg_calls \<Rightarrow> repository \<Rightarrow> string \<Rightarrow> string list \<Rightarrow> string option \<Rightarrow> ('w, unit) prog"
where
  "repository_create_archive bc r n app_ids comment =
     bc_backup_apps bc (archive_path r n) app_ids (credential r ''encryption_passphrase'') comment"

definition repository_delete_archive :: "'w borg_calls \<Rightarrow> repository \<Rightarrow> string \<Rightarrow> ('w, unit) prog" where
  "repository_delete_archive bc r n =
     p_bind (p_lift (encryption_passphrase r)) (bc_delete_archive bc (archive_path r n))"

definition get_archive :: "'w borg_calls \<Rightarrow> repository \<Rightarrow> string \<Rightarrow> ('w, archive option) prog" where
  "get_archive bc r n = p_bind (list_archives bc r) (\<lambda>as. p_ret (find (\<lambda>a. archive_name a = n) as))"

definition repository_archive_apps :: "'w borg_calls \<Rightarrow> repository \<Rightarrow> string \<Rightarrow> ('w, json) prog" where
  "repository_archive_apps bc r n = p_bind (p_lift (encryption_passphrase r)) (bc_archive_apps bc (archive_path r n))"

definition repository_restore_archive :: "'w borg_calls \<Rightarrow> repository \<Rightarrow> string \<Rightarrow> string list \<Rightarrow> ('w, unit) prog" where
  "repository_restore_archive bc r n app_ids =
     bc_restore_apps bc (archive_path r n) app_ids (credential r ''encryption_passphrase'')"

text \<open>\<open>initialize\<close> of the base class: an existing repository is taken if the passphrase fits.\<close>

definition base_initialize :: "'w borg_calls \<Rightarrow> repository \<Rightarrow> ('w, unit) prog" where
  "base_initialize bc r =
     p_then
       (p_catch (p_bind (p_lift (encryption_passphrase r))
                   (bc_init bc (borg_path r) (if encryption_data r then ''repokey'' else ''none'')))
          (\<lambda>e. case e of PlinthError c m \<Rightarrow> if c = ''BorgRepositoryExists'' then p_ret () else p_raise e | _ \<Rightarrow> p_raise e))
       (p_bind (get_info bc r) (\<lambda>_. p_ret ()))"

section \<open>Keys of remote repositories\<close>

text \<open>\<open>raise_ssh_error\<close>.\<close>

definition raise_ssh_error :: "('w, 'a) prog \<Rightarrow> ('w, 'a) prog" where
  "raise_ssh_error m =
     p_catch m (\<lambda>e. case e of CalledProcessError c \<Rightarrow> p_raise (PlinthError ''SshError'' c) | _ \<Rightarrow> p_raise e)"

definition generate_ssh_client_auth_key :: "'w borg_calls \<Rightarrow> ('w, unit) prog" where
  "generate_ssh_client_auth_key bc =
     p_then (bc_make_key_directory bc)
       (p_bind (p_get (bc_key_exists bc)) (\<lambda>there.
          if there then p_ret ()
          else p_bind (p_get (bc_domain_names bc)) (\<lambda>names.
               case names of
                 [] \<Rightarrow> p_raise (IndexError ''list index out of range'')
               | d # _ \<Rightarrow> bc_run bc [''ssh-keygen'', ''-t'', ''ed25519'', ''-N'', [], ''-C'', ''freedombox@'' @ d, ''-f'',
                            snd (bc_key_paths bc)])))"

definition copy_ssh_client_public_key ::
  "'w borg_calls \<Rightarrow> string \<Rightarrow> string \<Rightarrow> string \<Rightarrow> string \<Rightarrow> ('w, unit) prog"
where
  "copy_ssh_client_public_key bc pubkey_path host user password =
     raise_ssh_error (bc_sshpass bc password [''sshpass'', ''-e'', ''ssh-copy-id'', ''-i'', pubkey_path, user @ ''@'' @ host])"

definition ssh_password :: "repository \<Rightarrow> json" where
  "ssh_password r = credential r ''ssh_password''"

definition migrate_credentials ::
  "('x world_scheme) borg_calls \<Rightarrow> repository \<Rightarrow> ('x world_scheme, repository) prog"
where
  "migrate_credentials bc r =
     (if rp_kind r \<noteq> SshBorg \<or> \<not> truthy (ssh_password r) then p_ret r
      else p_then (generate_ssh_client_auth_key bc)
        (p_bind (p_lift (rp_hostname r)) (\<lambda>host. p_bind (p_lift (rp_username r)) (\<lambda>user.
         p_then (copy_ssh_client_public_key bc (fst (bc_key_paths bc)) host user (case ssh_password r of JStr p \<Rightarrow> p | _ \<Rightarrow> []))
           (repository_save (bc_store bc)
              (r\<lparr>rp_credentials := od_del (od_set (rp_credentials r) ''ssh_keyfile'' (JStr (snd (bc_key_paths bc)))) ''ssh_password''\<rparr>))))))"

section \<open>Mounting\<close>

definition repository_is_mounted :: "'w borg_calls \<Rightarrow> repository \<Rightarrow> ('w, bool) prog" where
  "repository_is_mounted bc r = (if rp_kind r = SshBorg then bc_is_mounted bc (mountpoint r) else p_ret True)"

definition repository_mount ::
  "('x world_scheme) borg_calls \<Rightarrow> repository \<Rightarrow> ('x world_scheme, repository) prog"
where
  "repository_mount bc r =
     p_bind (repository_is_mounted bc r) (\<lambda>mounted.
       if mounted then p_ret r
       else p_bind (migrate_credentials bc r) (\<lambda>r'.
            p_bind (p_lift (od_get (rp_credentials r') ''ssh_keyfile'')) (\<lambda>keyfile.
            p_then (bc_mount bc (mountpoint r') (rp_path r') keyfile (bc_known_hosts bc)) (p_ret r'))))"

definition repository_umount :: "'w borg_calls \<Rightarrow> repository \<Rightarrow> ('w, unit) prog" where
  "repository_umount bc r =
     p_bind (repository_is_mounted bc r) (\<lambda>mounted. if \<not> mounted then p_ret () else bc_umount bc (mountpoint r))"

definition umount_ignore_errors :: "'w borg_calls \<Rightarrow> repository \<Rightarrow> ('w, unit) prog" where
  "umount_ignore_errors bc r = p_catch (repository_umount bc r) (\<lambda>_. p_ret ())"

definition is_usable :: "repository \<Rightarrow> bool" where
  "is_usable r = (if rp_kind r = SshBorg then truthy (rp_verified r) else True)"

definition repository_prepare ::
  "('x world_scheme) borg_calls \<Rightarrow> repository \<Rightarrow> ('x world_scheme, repository) prog"
where
  "repository_prepare bc r =
     (if rp_kind r \<noteq> SshBorg then p_ret r
      else if \<not> is_usable r then p_raise (PlinthError ''SshfsError'' ''Remote host not verified'')
      else p_then (umount_ignore_errors bc r) (repository_mount bc r))"

definition repository_cleanup :: "'w borg_calls \<Rightarrow> repository \<Rightarrow> ('w, unit) prog" where
  "repository_cleanup bc r = (if rp_kind r = SshBorg then umount_ignore_errors bc r else p_ret ())"

definition ensure_remote_directory :: "'w borg_calls \<Rightarrow> repository \<Rightarrow> ('w, unit) prog" where
  "ensure_remote_directory bc r =
     p_bind (p_lift (split_path (rp_path r))) (\<lambda>(user, host, dir_path).
       let d1 = (if dir_path = [] then ''.'' else dir_path);
           d2 = (if hd d1 = CHR ''~'' then ''.'' @ tl d1 else d1)
       in raise_ssh_error (bc_run bc
            [''ssh'', ''-i'', (case credential r ''ssh_keyfile'' of JStr k \<Rightarrow> k | _ \<Rightarrow> ''None''), ''-o'',
             ''UserKnownHostsFile='' @ bc_known_hosts bc, ''-o'', ''BatchMode=yes'', user @ ''@'' @ host, ''mkdir'', ''-p'', d2]))"

definition repository_initialize ::
  "('x world_scheme) borg_calls \<Rightarrow> repository \<Rightarrow> ('x world_scheme, repository) prog"
where
  "repository_initialize bc r =
     (if rp_kind r \<noteq> SshBorg then p_then (base_initialize bc r) (p_ret r)
      else p_bind (migrate_credentials bc r) (\<lambda>r1.
           p_then (ensure_remote_directory bc r1)
             (p_bind (repository_mount bc r1) (\<lambda>r2. p_then (base_initialize bc r2) (p_ret r2)))))"

text \<open>\<open>remove\<close>: a root repository is not removed; of a remote one also the mount point goes.\<close>

definition repository_remove ::
  "('x world_scheme) borg_calls \<Rightarrow> repository \<Rightarrow> ('x world_scheme, unit) prog"
where
  "repository_remove bc r =
     (case rp_kind r of
        RootBorg \<Rightarrow> p_ret ()
      | DiskBorg \<Rightarrow> store_delete (bc_store bc) (rp_uuid r)
      | SshBorg \<Rightarrow>
          p_then (repository_umount bc r)
         (p_then (store_delete (bc_store bc) (rp_uuid r))
            (p_catch
              (p_bind (p_get (bc_path_exists bc (mountpoint r))) (\<lambda>there.
                 if there
                 then p_then (umount_ignore_errors bc r)
                        (p_bind (bc_list_dir bc (mountpoint r)) (\<lambda>names.
                           if names = [] then bc_rmdir bc (mountpoint r) else p_ret ()))
                 else p_ret ()))
              (\<lambda>_. p_ret ()))))"

section \<open>Scheduled backups\<close>

text \<open>The repository as the schedule uses it; \<open>prepare\<close> may move its credentials.\<close>

definition repository_ops_of :: "('x world_scheme) borg_calls \<Rightarrow> repository \<Rightarrow> ('x world_scheme) repository_ops" where
  "repository_ops_of bc r =
     \<lparr>ro_prepare = p_bind (repository_prepare bc r) (\<lambda>_. p_ret ()), ro_cleanup = repository_cleanup bc r,
      ro_list = list_archives bc r, ro_create = \<lambda>n ids c. repository_create_archive bc r n ids (Some c),
      ro_delete = repository_delete_archive bc r, ro_generate_name = bc_now_name bc\<rparr>"

definition error_notification_id :: "repository \<Rightarrow> string" where
  "error_notification_id r = ''backups-schedule-error-'' @ rp_uuid r"

definition goto_actions :: json where
  "goto_actions = JList [JDict [(''type'', JStr ''link''), (''class'', JStr ''primary''), (''text'', JStr ''Go to {app_name}''),
     (''url'', JStr ''backups:index'')], JDict [(''type'', JStr ''dismiss'')]]"

text \<open>\<open>Notification.get(id_).data['error_count']\<close>; without the notification or the entry, zero.\<close>

definition error_count :: "notifications \<Rightarrow> string \<Rightarrow> int result" where
  "error_count db k =
     (case r_bind (notification_get k db) (\<lambda>n. subscript (n_data n) ''error_count'') of
        Inr (JInt c) \<Rightarrow> Inr c
      | Inr v \<Rightarrow> Inl (TypeError ''unsupported operand type'')
      | Inl e \<Rightarrow> if is_key_error e then Inr 0 else Inl e)"

definition show_schedule_error ::
  "'w notify_env \<Rightarrow> repository \<Rightarrow> bool \<Rightarrow> exn option \<Rightarrow> ('w, unit) prog"
where
  "show_schedule_error ne r is_error exception =
     p_bind (p_get (\<lambda>w. (ne_get ne w, ne_now ne w))) (\<lambda>(db, now).
     p_bind (p_lift (error_count db (error_notification_id r))) (\<lambda>count.
       let fields = [F_app_id (Some ''backups''), F_severity ''error'', F_title ''Error During Backup'',
             F_message (Some ''A scheduled backup failed. Past {error_count} attempts for backup did not succeed. The latest error is: {error_message}''),
             F_actions goto_actions,
             F_data (JDict [(''app_name'', JStr ''translate:Backups''), (''app_icon'', JStr ''fa-files-o''),
               (''error_count'', JInt (if is_error then count + 1 else 0)), (''error_message'', JStr (ne_str ne exception))]),
             F_group (Some ''admin'')]
       in p_mod (ne_put ne (dismiss (error_notification_id r) (\<not> is_error) now
                  (update_or_create (error_notification_id r) fields now db)))))"

definition schedule_one ::
  "'w notify_env \<Rightarrow> (repository \<Rightarrow> ('w, bool) prog) \<Rightarrow> repository \<Rightarrow> ('w, unit) prog"
where
  "schedule_one ne run r =
     p_catch (p_then (run r) (show_schedule_error ne r False None))
       (\<lambda>e. show_schedule_error ne r True (Some e))"

definition backup_by_schedule ::
  "('x world_scheme) borg_calls \<Rightarrow> ('x world_scheme) notify_env \<Rightarrow> ('x world_scheme) schedule_env \<Rightarrow>
   ('x world_scheme, unit) prog"
where
  "backup_by_schedule bc ne se =
     p_bind (get_repositories (bc_store bc)) (\<lambda>rs.
       p_for (schedule_one ne (\<lambda>r. run_schedule se (rp_schedule r) (repository_ops_of bc r))) rs)"

text \<open>\<open>on_schedule_save\<close>: the hint to set a schedule up is dismissed once one is enabled.\<close>

definition on_schedule_save :: "'w notify_env \<Rightarrow> repository \<Rightarrow> ('w, unit) prog" where
  "on_schedule_save ne r =
     (if \<not> sc_enabled (rp_schedule r) then p_ret ()
      else p_mod (\<lambda>w. case notification_get ''backups-remote-schedule'' (ne_get ne w) of
                        Inl e \<Rightarrow> w
                      | Inr n \<Rightarrow> ne_put ne (dismiss ''backups-remote-schedule'' True (ne_now ne w) (ne_get ne w)) w))"

end
