(* ===== verification/BackupRepositoryLaws.thy ===== *)
theory BackupRepositoryLaws
  imports BackupRepository BackupStoreLaws
begin

text \<open>
  The scheduled run counts the failures of every repository on its own, and moving a remote
  repository to a key leaves no password behind.
\<close>

section \<open>Counting failures\<close>

text \<open>The run of a repository does not touch notifications and fails exactly for \<open>bad\<close> ones.\<close>

definition run_laws :: "'w notify_env \<Rightarrow> (repository \<Rightarrow> ('w, bool) prog) \<Rightarrow> (repository \<Rightarrow> bool) \<Rightarrow> bool" where
  "run_laws ne run bad \<longleftrightarrow>
     (\<forall>r w. ne_get ne (snd (run r w)) = ne_get ne w \<and> ((\<exists>e. fst (run r w) = Inl e) \<longleftrightarrow> bad r))"

definition shown_count :: "notifications \<Rightarrow> repository \<Rightarrow> int \<Rightarrow> bool \<Rightarrow> bool" where
  "shown_count db r count off \<longleftrightarrow>
     (\<exists>n. map_of db (error_notification_id r) = Some n \<and> n_dismissed n = off \<and>
        subscript (n_data n) ''error_count'' = Inr (JInt count))"

lemma show_error_eval:
  assumes "notify_laws ne" and "error_count (ne_get ne w) (error_notification_id r) = Inr c"
  shows "\<exists>w'. show_schedule_error ne r b e w = (Inr (), w') \<and>
    shown_count (ne_get ne w') r (if b then c + 1 else 0) (\<not> b) \<and>
    (\<forall>k. k \<noteq> error_notification_id r \<longrightarrow> map_of (ne_get ne w') k = map_of (ne_get ne w) k)"
  using assms
  by (auto simp: show_schedule_error_def notify_laws_def prog_simps p_bind_def Let_def shown_count_def dismiss_def
      update_or_create_def odict_simps split: option.splits)

lemma schedule_one_eval:
  assumes "notify_laws ne" and "run_laws ne run bad" and "error_count (ne_get ne w) (error_notification_id r) = Inr c"
  shows "\<exists>w'. schedule_one ne run r w = (Inr (), w') \<and>
    shown_count (ne_get ne w') r (if bad r then c + 1 else 0) (\<not> bad r) \<and>
    (\<forall>k. k \<noteq> error_notification_id r \<longrightarrow> map_of (ne_get ne w') k = map_of (ne_get ne w) k)"
proof -
  obtain res w1 where run: "run r w = (res, w1)" by fastforce
  have get: "ne_get ne w1 = ne_get ne w" and res: "(\<exists>e. res = Inl e) \<longleftrightarrow> bad r"
    using assms(2) run unfolding run_laws_def by (metis snd_conv, metis fst_conv)
  have c: "error_count (ne_get ne w1) (error_notification_id r) = Inr c" using get assms(3) by simp
  show ?thesis
  proof (cases res)
    case (Inl e)
    then show ?thesis using show_error_eval[OF assms(1) c, of True "Some e"] res run get
      by (auto simp: schedule_one_def p_defs)
  next
    case (Inr x)
    then show ?thesis using show_error_eval[OF assms(1) c, of False None] res run get
      by (auto simp: schedule_one_def p_defs)
  qed
qed

text \<open>The hourly run of the schedules reaches every repository whatever the backups of the others
  raise, and its notifications count the failures: after the run, the notification of a repository
  whose backup failed is visible with a count one above the one before, and the notification of a
  repository whose backup did not fail is hidden with count zero.\<close>

theorem schedule_counts_failures:
  assumes "notify_laws ne" and "run_laws ne run bad" and "distinct (map rp_uuid rs)"
    and "\<forall>r \<in> set rs. error_count (ne_get ne w) (error_notification_id r) = Inr (c (rp_uuid r))"
  shows "\<exists>w'. p_for (schedule_one ne run) rs w = (Inr (), w') \<and>
    (\<forall>r \<in> set rs. shown_count (ne_get ne w') r (if bad r then c (rp_uuid r) + 1 else 0) (\<not> bad r))"
proof -
  have "\<exists>w'. p_for (schedule_one ne run) rs w = (Inr (), w') \<and>
    (\<forall>r \<in> set rs. shown_count (ne_get ne w') r (if bad r then c (rp_uuid r) + 1 else 0) (\<not> bad r)) \<and>
    (\<forall>k. k \<notin> error_notification_id ` set rs \<longrightarrow> map_of (ne_get ne w') k = map_of (ne_get ne w) k)"
    using assms(3,4)
  proof (induction rs arbitrary: w)
    case Nil
    then show ?case by (simp add: prog_simps)
  next
    case (Cons r rs)
    have neq: "error_notification_id q \<noteq> error_notification_id r" if "q \<in> set rs" for q
      using Cons.prems(1) that by (auto simp: error_notification_id_def rev_image_eqI)
    obtain w1 where w1: "schedule_one ne run r w = (Inr (), w1)"
        "shown_count (ne_get ne w1) r (if bad r then c (rp_uuid r) + 1 else 0) (\<not> bad r)"
        "\<forall>k. k \<noteq> error_notification_id r \<longrightarrow> map_of (ne_get ne w1) k = map_of (ne_get ne w) k"
      using schedule_one_eval[OF assms(1,2), of w r "c (rp_uuid r)"] Cons.prems(2) by auto
    have "error_count (ne_get ne w1) (error_notification_id q) = Inr (c (rp_uuid q))" if "q \<in> set rs" for q
      using Cons.prems(2) that w1(3) neq[OF that] by (auto simp: error_count_def notification_get_def)
    then obtain w2 where w2: "p_for (schedule_one ne run) rs w1 = (Inr (), w2)"
        "\<forall>q \<in> set rs. shown_count (ne_get ne w2) q (if bad q then c (rp_uuid q) + 1 else 0) (\<not> bad q)"
        "\<forall>k. k \<notin> error_notification_id ` set rs \<longrightarrow> map_of (ne_get ne w2) k = map_of (ne_get ne w1) k"
      using Cons.IH[of w1] Cons.prems(1) by auto
    have "error_notification_id r \<notin> error_notification_id ` set rs" using neq by force
    then have "shown_count (ne_get ne w2) r (if bad r then c (rp_uuid r) + 1 else 0) (\<not> bad r)"
      using w1(2) w2(3) by (simp add: shown_count_def)
    then show ?case using w1 w2 by (auto simp: prog_simps)
  qed
  then show ?thesis by blast
qed

text \<open>Two repositories, the first of which cannot be reached for the second time.\<close>

definition notes_env :: "notifications notify_env" where
  "notes_env = \<lparr>ne_get = \<lambda>w. w, ne_put = \<lambda>db w. db, ne_now = \<lambda>_. 7, ne_str = \<lambda>_. ''error''\<rparr>"

definition local_repository :: "string \<Rightarrow> repository" where
  "local_repository u = \<lparr>rp_kind = DiskBorg, rp_path = ''/media/disk'', rp_credentials = [], rp_uuid = u, rp_kwargs = [],
     rp_schedule = schedule_init u None None None None None None, rp_verified = JBool False\<rparr>"

definition unreachable_once :: notifications where
  "unreachable_once = [(''backups-schedule-error-a'', (new_notification ''backups-schedule-error-a'' 3)
     \<lparr>n_data := JDict [(''error_count'', JInt 1)]\<rparr>)]"

theorem schedule_counts_failures_witness:
  "\<exists>w'. p_for (schedule_one notes_env (\<lambda>r. if rp_uuid r = ''a'' then p_raise (OtherError ''borg'') else p_ret True))
      [local_repository ''a'', local_repository ''b''] unreachable_once = (Inr (), w') \<and>
    shown_count (ne_get notes_env w') (local_repository ''a'') 2 False \<and>
    shown_count (ne_get notes_env w') (local_repository ''b'') 0 True"
  using schedule_counts_failures[of notes_env "\<lambda>r. if rp_uuid r = ''a'' then p_raise (OtherError ''borg'') else p_ret True"
      "\<lambda>r. rp_uuid r = ''a''" "[local_repository ''a'', local_repository ''b'']" unreachable_once "\<lambda>u. if u = ''a'' then 1 else 0"]
  by (auto simp: notify_laws_def notes_env_def run_laws_def prog_simps local_repository_def unreachable_once_def
      error_count_def error_notification_id_def notification_get_def)

section \<open>From a password to a key\<close>

text \<open>Making the key and copying it leave the database alone.\<close>

definition key_calls_quiet :: "('x world_scheme) borg_calls \<Rightarrow> bool" where
  "key_calls_quiet bc \<longleftrightarrow>
     (\<forall>v. kv (snd (bc_make_key_directory bc v)) = kv v) \<and> (\<forall>c v. kv (snd (bc_run bc c v)) = kv v) \<and>
     (\<forall>p c v. kv (snd (bc_sshpass bc p c v)) = kv v)"

lemma key_calls_keep:
  assumes "key_calls_quiet bc"
  shows "p_keeps (\<lambda>v. kv v = m) (generate_ssh_client_auth_key bc)"
    and "p_keeps (\<lambda>v. kv v = m) (copy_ssh_client_public_key bc pub host user pass)"
proof -
  have calls: "p_keeps (\<lambda>v. kv v = m) (bc_make_key_directory bc)" "p_keeps (\<lambda>v. kv v = m) (bc_run bc c)"
    "p_keeps (\<lambda>v. kv v = m) (bc_sshpass bc p c)" for c p
    using assms by (simp_all add: key_calls_quiet_def p_keeps_def)
  show "p_keeps (\<lambda>v. kv v = m) (generate_ssh_client_auth_key bc)"
    unfolding generate_ssh_client_auth_key_def by (auto intro!: keeps_intros calls split: list.splits)
  show "p_keeps (\<lambda>v. kv v = m) (copy_ssh_client_public_key bc pub host user pass)"
    unfolding copy_ssh_client_public_key_def raise_ssh_error_def
    by (auto intro!: keeps_intros calls split: exn.splits)
qed

definition keyed :: "'w borg_calls \<Rightarrow> repository \<Rightarrow> repository" where
  "keyed bc r = r\<lparr>rp_credentials := od_del (od_set (rp_credentials r) ''ssh_keyfile'' (JStr (snd (bc_key_paths bc)))) ''ssh_password''\<rparr>"

text \<open>A remote repository whose password is stored is moved to a key: when the move succeeds the
  password is gone from the object and from what the store has of the repository, which both
  have the key; when making or copying the key fails, the store is as before.\<close>

theorem migration_forgets_password:
  assumes "store_text (bc_store bc)" and "key_calls_quiet bc" and "rp_kind r = SshBorg" and "rp_uuid r \<noteq> []"
    and "truthy (ssh_password r)" and "stored_storages (bc_store bc) w = Inr (JDict d)"
  shows "(\<exists>r' w' d'. migrate_credentials bc r w = (Inr r', w') \<and> map_of (rp_credentials r') ''ssh_password'' = None \<and>
      map_of (rp_credentials r') ''ssh_keyfile'' = Some (JStr (snd (bc_key_paths bc))) \<and>
      stored_storages (bc_store bc) w' = Inr (JDict d') \<and>
      map_of d' (rp_uuid r) = Some (JDict (repository_storage_format r'))) \<or>
    (\<exists>e w'. migrate_credentials bc r w = (Inl e, w') \<and> kv w' = kv w)"
proof -
  let ?body = "\<lambda>host user. p_then (copy_ssh_client_public_key bc (fst (bc_key_paths bc)) host user (case ssh_password r of JStr p \<Rightarrow> p | _ \<Rightarrow> []))
    (repository_save (bc_store bc) (keyed bc r))"
  have run: "migrate_credentials bc r w =
      p_then (generate_ssh_client_auth_key bc) (p_bind (p_lift (rp_hostname r)) (\<lambda>host. p_bind (p_lift (rp_username r)) (?body host))) w"
    using assms(3,5) by (simp add: migrate_credentials_def keyed_def)
  obtain g w1 where g: "generate_ssh_client_auth_key bc w = (g, w1)" "kv w1 = kv w"
    using p_keepsD[OF key_calls_keep(1)[OF assms(2), of "kv w"], of w] by (cases "generate_ssh_client_auth_key bc w") auto
  have save: "\<exists>w' d'. repository_save (bc_store bc) (keyed bc r) v = (Inr (keyed bc r), w') \<and>
      stored_storages (bc_store bc) w' = Inr (JDict d') \<and> map_of d' (rp_uuid r) = Some (JDict (repository_storage_format (keyed bc r)))"
    if "kv v = kv w" for v
  proof -
    let ?k = "keyed bc r"
    have "stored_storages (bc_store bc) v = Inr (JDict d)" using that assms(6) by (simp add: stored_storages_def)
    moreover have "map_of (repository_storage_format ?k) ''uuid'' = Some (JStr (rp_uuid r))"
      "set REQUIRED_FIELDS \<subseteq> set (od_keys (repository_storage_format ?k))" "rp_uuid ?k = rp_uuid r"
      using assms(4) by (auto simp: repository_storage_format_def REQUIRED_FIELDS_def keyed_def)
    ultimately show ?thesis
      using stored_after[OF assms(1)]
      by (intro exI[of _ "v\<lparr>kv := od_set (kv v) STORAGE_KEY (JStr (st_dumps (bc_store bc) (JDict (od_set d (rp_uuid r) (JDict (repository_storage_format ?k))))))\<rparr>"]
          exI[of _ "od_set d (rp_uuid r) (JDict (repository_storage_format ?k))"])
        (simp add: repository_save_def p_bind_def store_update_eval p_ret_def odict_simps keyed_def)
  qed
  have creds: "map_of (rp_credentials (keyed bc r)) ''ssh_password'' = None"
    "map_of (rp_credentials (keyed bc r)) ''ssh_keyfile'' = Some (JStr (snd (bc_key_paths bc)))"
    by (simp_all add: keyed_def odict_simps)
  show ?thesis
  proof (cases "\<exists>u host user. g = Inr u \<and> rp_hostname r = Inr host \<and> rp_username r = Inr user")
    case True
    then obtain u host user where ok: "g = Inr u" "rp_hostname r = Inr host" "rp_username r = Inr user" by blast
    obtain q w2 where q: "copy_ssh_client_public_key bc (fst (bc_key_paths bc)) host user (case ssh_password r of JStr p \<Rightarrow> p | _ \<Rightarrow> []) w1 = (q, w2)"
        "kv w2 = kv w"
      using p_keepsD[OF key_calls_keep(2)[OF assms(2), of "kv w"], of w1] g(2) by (metis prod.collapse)
    show ?thesis
    proof (cases q)
      case (Inl e)
      then show ?thesis using run g ok q by (auto simp: p_defs p_lift_def)
    next
      case (Inr x)
      then show ?thesis using run g ok q save[OF q(2)] creds by (auto simp: p_defs p_lift_def)
    qed
  next
    case False
    then have "\<exists>e w'. migrate_credentials bc r w = (Inl e, w') \<and> kv w' = kv w"
      using g by (cases g; cases "rp_hostname r"; cases "rp_username r") (auto simp: run p_defs p_lift_def)
    then show ?thesis by blast
  qed
qed

definition demo_calls :: "world borg_calls" where
  "demo_calls = \<lparr>bc_store = demo_store, bc_info = \<lambda>_ _. p_ret JNull, bc_list_repo = \<lambda>_ _. p_ret JNull, bc_init = \<lambda>_ _ _. p_ret (),
     bc_delete_archive = \<lambda>_ _. p_ret (), bc_archive_apps = \<lambda>_ _. p_ret JNull, bc_is_mounted = \<lambda>_. p_ret False,
     bc_mount = \<lambda>_ _ _ _. p_ret (), bc_umount = \<lambda>_. p_ret (), bc_backup_apps = \<lambda>_ _ _ _. p_ret (),
     bc_restore_apps = \<lambda>_ _ _. p_ret (), bc_strptime = \<lambda>_. Inr datetime_min, bc_now_name = p_ret ''now'',
     bc_key_paths = (''/k.pub'', ''/k''), bc_known_hosts = ''/known_hosts'', bc_key_exists = \<lambda>_. True,
     bc_run = \<lambda>_. p_ret (), bc_sshpass = \<lambda>_ _. p_ret (), bc_domain_names = \<lambda>_. [], bc_make_key_directory = p_ret (),
     bc_path_exists = \<lambda>_ _. False, bc_list_dir = \<lambda>_. p_ret [], bc_rmdir = \<lambda>_. p_ret ()\<rparr>"

text \<open>A repository that still has its password.\<close>

theorem migration_forgets_password_witness:
  "(\<exists>r' w' d'. migrate_credentials demo_calls (demo_repository\<lparr>rp_credentials := [(''ssh_password'', JStr ''pw'')]\<rparr>)
       \<lparr>kv = [], module_versions = [], enabled_attr = []\<rparr> = (Inr r', w') \<and> map_of (rp_credentials r') ''ssh_password'' = None \<and>
      map_of (rp_credentials r') ''ssh_keyfile'' = Some (JStr (snd (bc_key_paths demo_calls))) \<and>
      stored_storages (bc_store demo_calls) w' = Inr (JDict d') \<and>
      map_of d' (rp_uuid (demo_repository\<lparr>rp_credentials := [(''ssh_password'', JStr ''pw'')]\<rparr>)) = Some (JDict (repository_storage_format r'))) \<or>
    (\<exists>e w'. migrate_credentials demo_calls (demo_repository\<lparr>rp_credentials := [(''ssh_password'', JStr ''pw'')]\<rparr>)
       \<lparr>kv = [], module_versions = [], enabled_attr = []\<rparr> = (Inl e, w') \<and> kv w' = kv \<lparr>kv = [], module_versions = [], enabled_attr = []\<rparr>)"
  by (rule migration_forgets_password)
    (simp_all add: store_text_def demo_store_def demo_calls_def demo_repository_def key_calls_quiet_def ssh_password_def
      credential_def stored_storages_def prog_simps)

end
