(* ===== verification/BackupHandlers.thy ===== *)
theory BackupHandlers
  imports BackupApi BackupPrivileged
begin

text \<open>
  The handlers that the backups app gives to \<open>BackupApi\<close> (plinth/modules/backups/\<open>__init__.py\<close>): what
  an archive contains and which manifest goes with it, and how archives are restored. Django's
  \<open>get_valid_filename\<close> is a parameter.
\<close>

definition app_entry :: "'w backup_env \<Rightarrow> backup_component \<Rightarrow> json result" where
  "app_entry env c =
     r_bind (backup_app env c) (\<lambda>a.
     r_bind (app_info a) (\<lambda>i.
     r_bind (component_manifest c) (\<lambda>m.
       Inr (JDict [(''name'', JStr (app_id a)), (''version'', JInt (version i)), (''backup'', JDict m)]))))"

definition manifest_of :: "'w backup_env \<Rightarrow> packet \<Rightarrow> json result" where
  "manifest_of env p = r_bind (r_map (app_entry env) (pk_components p)) (\<lambda>es. Inr (JDict [(''apps'', JList es)]))"

definition path_text :: "packet \<Rightarrow> string" where
  "path_text p = (case pk_path p of None \<Rightarrow> ''None'' | Some s \<Rightarrow> s)"

definition backup_handler :: "'w backup_env \<Rightarrow> 'w backup_host \<Rightarrow> (string \<Rightarrow> string result) \<Rightarrow> 'w handler" where
  "backup_handler env h valid_filename p passphrase =
     p_bind (p_get (fl_exists (bh_files h) MANIFESTS_FOLDER)) (\<lambda>there.
     p_then (if \<not> there then fl_make_dirs (bh_files h) MANIFESTS_FOLDER else p_ret ())
    (p_bind (p_lift (valid_filename (path_text p))) (\<lambda>name.
     p_bind (p_lift (manifest_of env p)) (\<lambda>manifests.
       let manifest_path = MANIFESTS_FOLDER @ name @ ''.json'' in
       p_then (fl_write (bh_files h) manifest_path (bh_dumps h manifests))
         (create_archive h (path_text p) (map str_of (pk_directories p) @ map str_of (pk_files p) @ [manifest_path])
            (pk_comment p) passphrase)))))"

definition restore_exported_archive_handler :: "'w backup_host \<Rightarrow> 'w handler" where
  "restore_exported_archive_handler h p passphrase =
     restore_exported_archive h (path_text p) (map str_of (pk_directories p)) (map str_of (pk_files p))"

definition restore_archive_handler :: "'w backup_host \<Rightarrow> 'w handler" where
  "restore_archive_handler h p passphrase =
     restore_archive h (path_text p) ''/'' (map str_of (pk_directories p)) (map str_of (pk_files p)) passphrase"

definition restore_from_upload ::
  "('x world_scheme) backup_env \<Rightarrow> ('x world_scheme) backup_host \<Rightarrow> string \<Rightarrow> string list \<Rightarrow> ('x world_scheme, unit) prog"
where
  "restore_from_upload env h path app_ids =
     restore_apps env (restore_exported_archive_handler h) app_ids False (Some path) None"

section \<open>What an archive says of its apps\<close>

text \<open>The apps that a manifest lists are read back from it in the same order.\<close>

lemma manifest_names:
  assumes "manifest_of env p = Inr m"
  shows "\<exists>as. list_all2 (\<lambda>c a. backup_app env c = Inr a) (pk_components p) as \<and>
    app_names_of_manifest m = Inr (map (\<lambda>a. JStr (app_id a)) as)"
proof -
  obtain es where es: "r_map (app_entry env) (pk_components p) = Inr es" "m = JDict [(''apps'', JList es)]"
    using assms by (auto simp: manifest_of_def r_bind_Inr_iff)
  from es(1) have "\<exists>as. list_all2 (\<lambda>c a. backup_app env c = Inr a) (pk_components p) as \<and>
      r_map (\<lambda>e. subscript e ''name'') es = Inr (map (\<lambda>a. JStr (app_id a)) as)"
  proof (induction "pk_components p" arbitrary: es p)
    case (Cons c cs)
    obtain e es' where e: "app_entry env c = Inr e" "r_map (app_entry env) cs = Inr es'" "es = e # es'"
      using Cons.prems Cons.hyps(2)[symmetric] by (auto simp: r_bind_Inr_iff)
    obtain a where a: "backup_app env c = Inr a" "subscript e ''name'' = Inr (JStr (app_id a))"
      using e(1) by (auto simp: app_entry_def r_bind_Inr_iff)
    obtain as where "list_all2 (\<lambda>c a. backup_app env c = Inr a) cs as"
        "r_map (\<lambda>e. subscript e ''name'') es' = Inr (map (\<lambda>a. JStr (app_id a)) as)"
      using Cons.hyps(1)[of "p\<lparr>pk_components := cs\<rparr>" es'] e(2) by auto
    then show ?case using a e(3) Cons.hyps(2)[symmetric] by (intro exI[of _ "a # as"]) simp
  qed simp
  then show ?thesis using es(2) by (auto simp: app_names_of_manifest_def apps_of_manifest_def)
qed

section \<open>What a restore of an exported archive extracts\<close>

text \<open>Exactly the members that are selected are extracted, in the order of the archive.\<close>

lemma restore_exported_selected:
  "restore_exported_archive h path ds fs w =
     p_bind (bh_tar h path) (\<lambda>ms. p_for (\<lambda>m. bh_tar_extract h path (fst m) ''/'') (filter (\<lambda>m. is_selected ds fs (fst m)) ms)) w"
proof -
  have "p_for (\<lambda>m. if is_selected ds fs (fst m) then bh_tar_extract h path (fst m) ''/'' else p_ret ()) ms =
      p_for (\<lambda>m. bh_tar_extract h path (fst m) ''/'') (filter (\<lambda>m. is_selected ds fs (fst m)) ms)" for ms :: "(string \<times> string option) list"
    by (induction ms) (simp_all add: p_then_def p_ret_bind)
  then show ?thesis unfolding restore_exported_archive_def p_bind_def by (auto split: sum.splits prod.splits)
qed

text \<open>A directory selects its siblings whose names start with its own.\<close>

lemma sibling_is_selected: "is_selected [''/var/lib/zoph''] [] ''var/lib/zoph-photos/1.jpg''"
  by (simp add: is_selected_def)

end
