(* ===== verification/Daemon.thy ===== *)
theory Daemon
  imports AppModel System
begin

text \<open>
  Daemons of apps (plinth/daemon.py) and the privileged service calls (plinth/privileged/service.py):
  which services an app may control, enabling and disabling of daemons and of daemons that apps
  share, and the diagnostics of daemons and ports. systemd, the table of network connections and
  netcat are parameters.
\<close>

section \<open>Daemon components\<close>

record daemon_fields =
  dm_unit :: string
  dm_strict_check :: bool
  dm_listen_ports :: "(int \<times> string) list"
  dm_alias :: "string option"

record connection =
  cn_status :: string
  cn_inet :: bool
  cn_laddr :: "string \<times> int"
  cn_raddr :: "(string \<times> int) option"

text \<open>
  \<open>de_daemons\<close>, \<open>de_related\<close> and \<open>de_containers\<close> have the attributes of the Daemon, RelatedDaemon
  and Container objects by component id; \<open>de_apps\<close> is the list of all apps.
\<close>

record 'w daemon_env =
  de_sys :: "'w system"
  de_apps :: "'w apps"
  de_daemons :: "(string, daemon_fields) odict"
  de_related :: "(string, string) odict"
  de_containers :: "(string, string) odict"
  de_connections :: "string \<Rightarrow> ('w, connection list) prog"
  de_netcat :: "string \<Rightarrow> int \<Rightarrow> string \<Rightarrow> ('w, int) prog"

definition nonempty :: "string option \<Rightarrow> string list" where
  "nonempty s = (case s of None \<Rightarrow> [] | Some t \<Rightarrow> if t = [] then [] else [t])"

definition daemon_init :: "string \<Rightarrow> string \<Rightarrow> bool \<Rightarrow> (int \<times> string) list option \<Rightarrow> string option \<Rightarrow> (comp_obj \<times> daemon_fields) result" where
  "daemon_init cid unit strict ports alias =
     r_bind (leader_init cid) (\<lambda>self.
       Inr (self\<lparr>classes := [''Daemon'', ''LeaderComponent'', ''Component'', ''LogEmitter'']\<rparr>,
            \<lparr>dm_unit = unit, dm_strict_check = strict, dm_listen_ports = (case ports of None \<Rightarrow> [] | Some ps \<Rightarrow> ps),
             dm_alias = alias\<rparr>))"

definition related_daemon_init :: "string \<Rightarrow> string \<Rightarrow> ('x world_scheme, comp_obj \<times> string) prog" where
  "related_daemon_init cid unit =
     p_bind (follower_init cid False) (\<lambda>self.
       p_ret (self\<lparr>classes := [''RelatedDaemon'', ''FollowerComponent'', ''Component'', ''LogEmitter'']\<rparr>, unit))"

definition fields_of :: "'w daemon_env \<Rightarrow> comp_obj \<Rightarrow> daemon_fields result" where
  "fields_of env self = od_get (de_daemons env) (component_id self)"

section \<open>Privileged service calls\<close>

text \<open>\<open>service_show\<close>: the lines of \<open>systemctl show\<close>, each split at its first equals sign.\<close>

definition partition_eq :: "string \<Rightarrow> string \<times> string" where
  "partition_eq line = (takeWhile (\<lambda>c. c \<noteq> CHR ''='') line, tl (dropWhile (\<lambda>c. c \<noteq> CHR ''='') line))"

definition split_lines :: "string \<Rightarrow> string list" where
  "split_lines s = (let ls = split_on (CHR 0x0A) s in if last ls = [] then butlast ls else ls)"

definition service_show :: "'w system \<Rightarrow> string \<Rightarrow> ('w, (string, string) odict) prog" where
  "service_show sys name =
     p_bind (run_command sys [''systemctl'', ''show'', name] False) (\<lambda>out.
       p_ret (fold (\<lambda>l st. od_set st (fst (partition_eq l)) (snd (partition_eq l))) (split_lines out) []))"

definition services_of_app :: "'w daemon_env \<Rightarrow> 'w app \<Rightarrow> string list result" where
  "services_of_app env a =
     r_bind (r_map (fields_of env \<circ> obj) (get_components_of_type a ''Daemon'')) (\<lambda>ds.
     r_bind (r_map (\<lambda>c. od_get (de_related env) (component_id (obj c))) (get_components_of_type a ''RelatedDaemon'')) (\<lambda>rs.
     r_bind (r_map (\<lambda>c. od_get (de_containers env) (component_id (obj c))) (get_components_of_type a ''Container'')) (\<lambda>cs.
       Inr (concat (map (\<lambda>d. dm_unit d # nonempty (dm_alias d)) ds) @ rs @ cs))))"

definition managed_services :: "'w daemon_env \<Rightarrow> string list result" where
  "managed_services env = r_bind (r_map (services_of_app env) (od_values (de_apps env))) (\<lambda>ss. Inr (concat ss))"

definition assert_service_is_managed :: "'w daemon_env \<Rightarrow> string \<Rightarrow> unit result" where
  "assert_service_is_managed env name =
     r_bind (managed_services env) (\<lambda>ss.
       if name \<notin> set ss then Inl (ValueError ''The service is not managed by FreedomBox.'') else Inr ())"

definition managed :: "'w daemon_env \<Rightarrow> string \<Rightarrow> ('w, 'a) prog \<Rightarrow> ('w, 'a) prog" where
  "managed env name m = p_then (p_lift (assert_service_is_managed env name)) m"

definition priv_systemd_set_default :: "'w daemon_env \<Rightarrow> string \<Rightarrow> ('w, unit) prog" where
  "priv_systemd_set_default env target =
     (if target \<notin> {''graphical.target'', ''multi-user.target''} then p_raise (ValueError ''Invalid target'')
      else systemd_set_default (de_sys env) target)"

definition priv_start :: "'w daemon_env \<Rightarrow> string \<Rightarrow> ('w, unit) prog" where
  "priv_start env s = managed env s (service_start (de_sys env) s False)"

definition priv_stop :: "'w daemon_env \<Rightarrow> string \<Rightarrow> ('w, unit) prog" where
  "priv_stop env s = managed env s (service_stop (de_sys env) s False)"

definition priv_enable :: "'w daemon_env \<Rightarrow> string \<Rightarrow> ('w, unit) prog" where
  "priv_enable env s = managed env s (service_enable (de_sys env) s False)"

definition priv_disable :: "'w daemon_env \<Rightarrow> string \<Rightarrow> ('w, unit) prog" where
  "priv_disable env s = managed env s (service_disable (de_sys env) s False)"

definition priv_restart :: "'w daemon_env \<Rightarrow> string \<Rightarrow> ('w, unit) prog" where
  "priv_restart env s = managed env s (service_restart (de_sys env) s False)"

definition priv_try_restart :: "'w daemon_env \<Rightarrow> string \<Rightarrow> ('w, unit) prog" where
  "priv_try_restart env s = managed env s (service_try_restart (de_sys env) s False)"

definition priv_reload :: "'w daemon_env \<Rightarrow> string \<Rightarrow> ('w, unit) prog" where
  "priv_reload env s = managed env s (service_reload (de_sys env) s False)"

definition priv_try_reload_or_restart :: "'w daemon_env \<Rightarrow> string \<Rightarrow> ('w, unit) prog" where
  "priv_try_reload_or_restart env s = managed env s (service_try_reload_or_restart (de_sys env) s False)"

definition priv_mask :: "'w daemon_env \<Rightarrow> string \<Rightarrow> ('w, unit) prog" where
  "priv_mask env s = managed env s (service_mask (de_sys env) s False)"

definition priv_unmask :: "'w daemon_env \<Rightarrow> string \<Rightarrow> ('w, unit) prog" where
  "priv_unmask env s = managed env s (service_unmask (de_sys env) s False)"

definition priv_is_enabled :: "'w daemon_env \<Rightarrow> string \<Rightarrow> ('w, bool) prog" where
  "priv_is_enabled env s = managed env s (service_is_enabled (de_sys env) s False)"

definition priv_is_running :: "'w daemon_env \<Rightarrow> string \<Rightarrow> ('w, bool) prog" where
  "priv_is_running env s = managed env s (service_is_running (de_sys env) s)"

definition priv_get_logs :: "'w daemon_env \<Rightarrow> string \<Rightarrow> ('w, (string \<times> string) list) prog" where
  "priv_get_logs env s =
     managed env s (p_bind (service_show (de_sys env) s) (\<lambda>st.
       p_bind (p_lift (od_get st ''Description'')) (\<lambda>d.
       p_bind (service_get_logs (de_sys env) s) (\<lambda>logs.
         p_ret [(''unit'', s), (''description'', d), (''logs'', logs)]))))"

section \<open>Operations of daemons\<close>

definition daemon_is_enabled :: "'w daemon_env \<Rightarrow> comp_obj \<Rightarrow> ('w, bool) prog" where
  "daemon_is_enabled env self =
     p_bind (p_lift (fields_of env self)) (\<lambda>f.
     p_bind (p_any (\<lambda>alias. service_is_enabled (de_sys env) alias (dm_strict_check f)) (nonempty (dm_alias f))) (\<lambda>b.
       if b then p_ret True else service_is_enabled (de_sys env) (dm_unit f) (dm_strict_check f)))"

definition daemon_enable :: "'w daemon_env \<Rightarrow> comp_obj \<Rightarrow> ('w, unit) prog" where
  "daemon_enable env self =
     p_bind (p_lift (fields_of env self)) (\<lambda>f.
       p_then (priv_enable env (dm_unit f)) (p_for (priv_enable env) (nonempty (dm_alias f))))"

definition daemon_disable :: "'w daemon_env \<Rightarrow> comp_obj \<Rightarrow> ('w, unit) prog" where
  "daemon_disable env self =
     p_bind (p_lift (fields_of env self)) (\<lambda>f.
       p_then (priv_disable env (dm_unit f)) (p_for (priv_disable env) (nonempty (dm_alias f))))"

definition daemon_is_running :: "'w daemon_env \<Rightarrow> comp_obj \<Rightarrow> ('w, bool) prog" where
  "daemon_is_running env self =
     p_bind (p_lift (fields_of env self)) (\<lambda>f. service_is_running (de_sys env) (dm_unit f))"

text \<open>The context manager, as a function of the body; the body may learn that nothing is installed.\<close>

definition daemon_ensure_running :: "'w daemon_env \<Rightarrow> comp_obj \<Rightarrow> (bool \<Rightarrow> ('w, 'a) prog) \<Rightarrow> ('w, 'a) prog" where
  "daemon_ensure_running env self body =
     p_bind (p_lift (fields_of env self)) (\<lambda>f.
     p_bind (service_show (de_sys env) (dm_unit f)) (\<lambda>st.
     p_bind (p_lift (od_get st ''LoadState'')) (\<lambda>load_state.
       if load_state = ''not-found'' then body False
       else p_bind (daemon_is_running env self) (\<lambda>starting_state.
            p_then (if \<not> starting_state then priv_enable env (dm_unit f) else p_ret ())
              (p_finally (body starting_state)
                 (if \<not> starting_state then priv_disable env (dm_unit f) else p_ret ()))))))"

section \<open>Diagnostics\<close>

definition digit :: "nat \<Rightarrow> char" where
  "digit n = ''0123456789'' ! n"

fun decimal :: "nat \<Rightarrow> string" where
  "decimal n = (if n < 10 then [digit n] else decimal (n div 10) @ [digit (n mod 10)])"

declare decimal.simps [simp del]

definition int_text :: "int \<Rightarrow> string" where
  "int_text i = (if i < 0 then ''-'' @ decimal (nat (- i)) else decimal (nat i))"

definition listens :: "int \<Rightarrow> string \<Rightarrow> string option \<Rightarrow> connection \<Rightarrow> bool" where
  "listens port kind listen_address c \<longleftrightarrow>
     (kind \<in> {''tcp'', ''tcp4'', ''tcp6''} \<longrightarrow> cn_status c = ''LISTEN'') \<and>
     (kind \<in> {''udp'', ''udp4'', ''udp6''} \<longrightarrow> cn_raddr c = None) \<and>
     snd (cn_laddr c) = port \<and>
     (\<forall>a \<in> set (nonempty listen_address). fst (cn_laddr c) = a) \<and>
     (kind \<notin> {''tcp4'', ''udp4''} \<or> cn_inet c \<or> fst (cn_laddr c) = ''::'')"

definition check_port :: "'w daemon_env \<Rightarrow> int \<Rightarrow> string \<Rightarrow> string option \<Rightarrow> ('w, bool) prog" where
  "check_port env port kind listen_address =
     (let run_kind = (if kind = ''tcp4'' then ''tcp'' else if kind = ''udp4'' then ''udp'' else kind)
      in p_bind (de_connections env run_kind) (\<lambda>cs. p_ret (list_ex (listens port kind listen_address) cs)))"

definition diagnose_port_listening ::
  "'w daemon_env \<Rightarrow> int \<Rightarrow> string \<Rightarrow> string option \<Rightarrow> string option \<Rightarrow> ('w, diagnostic_check) prog"
where
  "diagnose_port_listening env port kind listen_address cid =
     p_bind (check_port env port kind listen_address) (\<lambda>result. p_ret
       (case nonempty listen_address of
          a # _ \<Rightarrow>
            \<lparr>check_id = ''daemon-listening-address-'' @ kind @ ''-'' @ int_text port @ ''-'' @ a,
             description = ''Listening on {kind} port {listen_address}:{port}'',
             check_result = (if result then PASSED else FAILED),
             parameters = [(''kind'', JStr kind), (''port'', JInt port), (''listen_address'', JStr a)],
             check_component_id = cid\<rparr>
        | [] \<Rightarrow>
            \<lparr>check_id = ''daemon-listening-'' @ kind @ ''-'' @ int_text port,
             description = ''Listening on {kind} port {port}'', check_result = (if result then PASSED else FAILED),
             parameters = [(''kind'', JStr kind), (''port'', JInt port)], check_component_id = cid\<rparr>))"

definition diagnose_unit_is_running :: "'w daemon_env \<Rightarrow> comp_obj \<Rightarrow> ('w, diagnostic_check) prog" where
  "diagnose_unit_is_running env self =
     p_bind (p_lift (fields_of env self)) (\<lambda>f.
     p_bind (daemon_is_running env self) (\<lambda>b. p_ret
       \<lparr>check_id = ''daemon-running-'' @ dm_unit f, description = ''Service {service_name} is running'',
        check_result = (if b then PASSED else FAILED), parameters = [(''service_name'', JStr (dm_unit f))],
        check_component_id = Some (component_id self)\<rparr>))"

definition daemon_diagnose :: "'w daemon_env \<Rightarrow> comp_obj \<Rightarrow> ('w, diagnostic_check list) prog" where
  "daemon_diagnose env self =
     p_bind (p_lift (fields_of env self)) (\<lambda>f.
     p_bind (diagnose_unit_is_running env self) (\<lambda>r.
     p_bind (p_map (\<lambda>p. diagnose_port_listening env (fst p) (snd p) None (Some (component_id self))) (dm_listen_ports f)) (\<lambda>rs.
       p_ret (r # rs))))"

definition diagnose_netcat ::
  "'w daemon_env \<Rightarrow> string \<Rightarrow> int \<Rightarrow> string \<Rightarrow> bool \<Rightarrow> string option \<Rightarrow> ('w, diagnostic_check) prog"
where
  "diagnose_netcat env host port remote_input negate cid =
     p_bind (p_catch (p_bind (de_netcat env host port remote_input) (\<lambda>rc.
               p_ret (if rc \<noteq> 0 then (if \<not> negate then FAILED else PASSED) else (if \<not> negate then PASSED else FAILED))))
             (\<lambda>_. p_ret FAILED))
       (\<lambda>result. p_ret
          \<lparr>check_id = (if negate then ''daemon-netcat-negate-'' else ''daemon-netcat-'') @ host @ ''-'' @ int_text port,
           description = (if negate then ''Cannot connect to {host}:{port}'' else ''Connect to {host}:{port}''),
           check_result = result,
           parameters = [(''host'', JStr host), (''port'', JInt port), (''negate'', JBool negate)], check_component_id = cid\<rparr>)"

definition daemon_vtable :: "'w daemon_env \<Rightarrow> 'w vtable" where
  "daemon_vtable env = leader_vtable\<lparr>vt_is_enabled := daemon_is_enabled env, vt_enable := daemon_enable env,
     vt_disable := daemon_disable env, vt_diagnose := daemon_diagnose env, vt_has_diagnostics := \<lambda>_. True,
     vt_get_logs := \<lambda>self. p_bind (p_lift (fields_of env self)) (\<lambda>f. priv_get_logs env (dm_unit f))\<rparr>"

section \<open>Shared daemons\<close>

text \<open>The loop over the other apps has no early exit: every app that shares the unit is asked.\<close>

definition shared_use :: "'w daemon_env \<Rightarrow> daemon_fields \<Rightarrow> 'w app \<Rightarrow> ('w, bool list) prog" where
  "shared_use env f a =
     p_map (\<lambda>c. p_bind (p_lift (fields_of env (obj c))) (\<lambda>g. if dm_unit g = dm_unit f then app_is_enabled a else p_ret False))
       (get_components_of_type a ''SharedDaemon'')"

definition other_apps_enabled :: "'w daemon_env \<Rightarrow> comp_obj \<Rightarrow> daemon_fields \<Rightarrow> ('w, bool) prog" where
  "other_apps_enabled env self f =
     p_bind (p_map (shared_use env f) (filter (\<lambda>a. Some (app_id a) \<noteq> comp_app_id self) (od_values (de_apps env))))
       (\<lambda>bss. p_ret (True \<in> set (concat bss)))"

definition shared_disable :: "'w daemon_env \<Rightarrow> comp_obj \<Rightarrow> ('w, unit) prog" where
  "shared_disable env self =
     p_bind (p_lift (fields_of env self)) (\<lambda>f.
     p_bind (other_apps_enabled env self f) (\<lambda>b. if \<not> b then daemon_disable env self else p_ret ()))"

definition shared_vtable :: "'w daemon_env \<Rightarrow> 'w vtable" where
  "shared_vtable env = (daemon_vtable env)\<lparr>vt_set_enabled := \<lambda>_ _. p_ret (), vt_disable := shared_disable env\<rparr>"

text \<open>\<open>app_is_running\<close>: the components that have a method \<open>is_running\<close> are daemons and containers.\<close>

definition component_is_running :: "'w daemon_env \<Rightarrow> comp_obj \<Rightarrow> ('w, bool) prog" where
  "component_is_running env self =
     (if ''Daemon'' \<in> set (classes self) then daemon_is_running env self
      else if ''Container'' \<in> set (classes self)
      then p_bind (p_lift (od_get (de_containers env) (component_id self))) (priv_is_running env)
      else p_ret True)"

definition app_is_running :: "'w daemon_env \<Rightarrow> 'w app \<Rightarrow> ('w, bool) prog" where
  "app_is_running env a = p_all (component_is_running env \<circ> obj) (od_values (components a))"

end
