(* ===== verification/DaemonLaws.thy ===== *)
theory DaemonLaws
  imports Daemon AppLaws
begin

text \<open>
  Apps that share a daemon: whatever the order in which they are enabled and disabled, the daemon
  of an enabled app is enabled, and the daemon that no enabled app uses is disabled once one of its
  apps has been disabled.
\<close>

section \<open>systemd\<close>

definition unit_laws :: "('x world_scheme) system \<Rightarrow> ('x world_scheme \<Rightarrow> string \<Rightarrow> bool) \<Rightarrow> bool" where
  "unit_laws sys on \<longleftrightarrow>
     (\<forall>w m. on (w\<lparr>kv := m\<rparr>) = on w) \<and>
     (\<forall>u w. \<exists>rc out w'. sh sys [''systemctl'', ''enable'', u] w = (Inr (rc, out), w') \<and> on w' = (on w)(u := True) \<and> kv w' = kv w) \<and>
     (\<forall>u w. \<exists>rc out w'. sh sys [''systemctl'', ''disable'', u] w = (Inr (rc, out), w') \<and> on w' = (on w)(u := False) \<and> kv w' = kv w) \<and>
     (\<forall>u w. \<exists>rc out w'. sh sys [''systemctl'', ''start'', u] w = (Inr (rc, out), w') \<and> on w' = on w \<and> kv w' = kv w) \<and>
     (\<forall>u w. \<exists>rc out w'. sh sys [''systemctl'', ''stop'', u] w = (Inr (rc, out), w') \<and> on w' = on w \<and> kv w' = kv w)"

lemma action_eval:
  assumes "unit_laws sys on" and "a \<in> {''start'', ''stop''}"
  shows "\<exists>w'. service_action sys u a False w = (Inr (), w') \<and> on w' = on w \<and> kv w' = kv w"
proof -
  obtain rc out w' where "sh sys [''systemctl'', a, u] w = (Inr (rc, out), w')" "on w' = on w" "kv w' = kv w"
    using assms unfolding unit_laws_def by blast
  then show ?thesis by (simp add: service_action_def run_ok_def run_command_def p_defs p_ret_def)
qed

lemma unit_enable_eval:
  assumes "unit_laws sys on"
  shows "\<exists>w'. service_enable sys u False w = (Inr (), w') \<and> on w' = (on w)(u := True) \<and> kv w' = kv w"
proof -
  obtain rc out w1 where 1: "sh sys [''systemctl'', ''enable'', u] w = (Inr (rc, out), w1)" "on w1 = (on w)(u := True)" "kv w1 = kv w"
    using assms unfolding unit_laws_def by blast
  obtain w2 where "service_action sys u ''start'' False w1 = (Inr (), w2)" "on w2 = on w1" "kv w2 = kv w1"
    using action_eval[OF assms, of "''start''"] by blast
  with 1 show ?thesis by (simp add: service_enable_def service_start_def run_ok_def run_command_def p_defs p_ret_def)
qed

lemma unit_stop_eval:
  assumes "unit_laws sys on"
  shows "\<exists>w'. service_stop sys u False w = (Inr (), w') \<and> on w' = on w \<and> kv w' = kv w"
proof -
  obtain w1 where 1: "service_action sys u ''stop'' False w = (Inr (), w1)" "on w1 = on w" "kv w1 = kv w"
    using action_eval[OF assms, of "''stop''"] by blast
  obtain w2 where "service_action sys (get_service_unit u) ''stop'' False w1 = (Inr (), w2)" "on w2 = on w1" "kv w2 = kv w1"
    using action_eval[OF assms, of "''stop''"] by blast
  with 1 show ?thesis by (simp add: service_stop_def p_defs p_ret_def)
qed

lemma unit_disable_eval:
  assumes "unit_laws sys on"
  shows "\<exists>w'. service_disable sys u False w = (Inr (), w') \<and> on w' = (on w)(u := False) \<and> kv w' = kv w"
proof -
  obtain rc out w1 where 1: "sh sys [''systemctl'', ''disable'', u] w = (Inr (rc, out), w1)" "on w1 = (on w)(u := False)" "kv w1 = kv w"
    using assms unfolding unit_laws_def by blast
  obtain w2 where "service_stop sys u False w1 = (Inr (), w2)" "on w2 = on w1" "kv w2 = kv w1"
    using unit_stop_eval[OF assms] by blast
  with 1 show ?thesis by (simp add: service_disable_def run_ok_def run_command_def p_defs p_ret_def)
qed

section \<open>Apps that share daemons\<close>

text \<open>An app with its enable state and the shared daemons \<open>ds\<close> (component id and unit).\<close>

definition switch_component :: "string \<Rightarrow> ('x world_scheme) component" where
  "switch_component aid =
     \<lparr>obj = \<lparr>component_id = aid @ ''-enable'', comp_app_id = Some aid, is_leader = True,
             classes = [''EnableState'', ''LeaderComponent'', ''Component''], info = None, packages = None\<rparr>,
      vt = enable_state_vtable\<rparr>"

definition shared_component :: "('x world_scheme) daemon_env \<Rightarrow> string \<Rightarrow> string \<Rightarrow> ('x world_scheme) component" where
  "shared_component env aid cid =
     \<lparr>obj = \<lparr>component_id = cid, comp_app_id = Some aid, is_leader = False,
             classes = [''SharedDaemon'', ''Daemon'', ''LeaderComponent'', ''Component'', ''LogEmitter''], info = None, packages = None\<rparr>,
      vt = shared_vtable env\<rparr>"

definition shared_app :: "('x world_scheme) daemon_env \<Rightarrow> string \<times> (string \<times> string) list \<Rightarrow> ('x world_scheme) app" where
  "shared_app env a =
     \<lparr>app_id = fst a, can_be_disabled = True, configure_when_disabled = True,
      components = (fst a @ ''-enable'', switch_component (fst a)) # map (\<lambda>(cid, u). (cid, shared_component env (fst a) cid)) (snd a),
      ov_post_init = p_ret (), ov_setup = None, ov_uninstall = None, ov_enable = None, ov_disable = None,
      ov_diagnose = None, ov_repair = None\<rparr>"

text \<open>
  A system of such apps: the registry has the unit of every daemon, and the components ask the list
  of all apps. Whether an app is enabled does not depend on the daemons, so the apps in the list
  are built over an environment without apps.
\<close>

definition shared_registry :: "(string \<times> (string \<times> string) list) list \<Rightarrow> (string, daemon_fields) odict" where
  "shared_registry sp = concat (map (\<lambda>a. map (\<lambda>(cid, u). (cid, \<lparr>dm_unit = u, dm_strict_check = False, dm_listen_ports = [], dm_alias = None\<rparr>)) (snd a)) sp)"

definition base_env :: "('x world_scheme) system \<Rightarrow> (string \<times> (string \<times> string) list) list \<Rightarrow> ('x world_scheme) daemon_env" where
  "base_env sys sp = \<lparr>de_sys = sys, de_apps = [], de_daemons = shared_registry sp, de_related = [], de_containers = [],
     de_connections = \<lambda>_. p_ret [], de_netcat = \<lambda>_ _ _. p_ret 0\<rparr>"

definition shared_env :: "('x world_scheme) system \<Rightarrow> (string \<times> (string \<times> string) list) list \<Rightarrow> ('x world_scheme) daemon_env" where
  "shared_env sys sp = (base_env sys sp)\<lparr>de_apps := map (\<lambda>a. (fst a, shared_app (base_env sys sp) a)) sp\<rparr>"

text \<open>Enabling and disabling apps in any order, from a world in which no app is enabled.\<close>

definition flag :: "'x world_scheme \<Rightarrow> string \<Rightarrow> bool" where
  "flag w aid = (case map_of (kv w) (aid @ ''_enable'') of None \<Rightarrow> False | Some v \<Rightarrow> truthy v)"

inductive toggled ::
  "('x world_scheme) system \<Rightarrow> (string \<times> (string \<times> string) list) list \<Rightarrow> 'x world_scheme \<Rightarrow> 'x world_scheme \<Rightarrow> bool"
  for sys sp w0
where
  toggled_start: "toggled sys sp w0 w0"
| toggled_enable: "toggled sys sp w0 w \<Longrightarrow> a \<in> set sp \<Longrightarrow> toggled sys sp w0 (snd (app_enable (shared_app (shared_env sys sp) a) w))"
| toggled_disable: "toggled sys sp w0 w \<Longrightarrow> a \<in> set sp \<Longrightarrow> toggled sys sp w0 (snd (app_disable (shared_app (shared_env sys sp) a) w))"

text \<open>The ids of apps and components are unique and not empty.\<close>

definition well_named :: "(string \<times> (string \<times> string) list) list \<Rightarrow> bool" where
  "well_named sp \<longleftrightarrow> distinct (map fst sp) \<and> [] \<notin> fst ` set sp \<and> distinct (map fst (shared_registry sp))"

definition uses :: "string \<times> (string \<times> string) list \<Rightarrow> string set" where
  "uses a = snd ` set (snd a)"

lemma app_is_enabled_eval:
  assumes "fst a \<noteq> []"
  shows "app_is_enabled (shared_app env a) w = (Inr (flag w (fst a)), w)"
proof -
  have "filter (\<lambda>c. is_leader (obj c)) (od_values (components (shared_app env a))) = [switch_component (fst a)]"
    by (auto simp: shared_app_def switch_component_def shared_component_def filter_empty_conv split: prod.splits)
  then show ?thesis using assms
    by (simp add: app_is_enabled_def switch_component_def vtable_defs enable_state_eval flag_def prog_simps)
qed

lemma shared_types: "get_components_of_type (shared_app env a) ''SharedDaemon'' = map (\<lambda>(cid, u). shared_component env (fst a) cid) (snd a)"
  "get_components_of_type (shared_app env a) ''Daemon'' = map (\<lambda>(cid, u). shared_component env (fst a) cid) (snd a)"
  "get_components_of_type (shared_app env a) ''RelatedDaemon'' = []" "get_components_of_type (shared_app env a) ''Container'' = []"
  by (auto simp: get_components_of_type_def shared_app_def switch_component_def shared_component_def filter_id_conv filter_empty_conv
      comp_def case_prod_beta)

lemma registry_lookup:
  assumes "well_named sp" and "a \<in> set sp" and "(cid, u) \<in> set (snd a)"
  shows "map_of (shared_registry sp) cid = Some \<lparr>dm_unit = u, dm_strict_check = False, dm_listen_ports = [], dm_alias = None\<rparr>"
proof (rule map_of_is_SomeI)
  show "distinct (map fst (shared_registry sp))" using assms(1) by (simp add: well_named_def)
  show "(cid, \<lparr>dm_unit = u, dm_strict_check = False, dm_listen_ports = [], dm_alias = None\<rparr>) \<in> set (shared_registry sp)"
    using assms(2,3) by (force simp: shared_registry_def)
qed

lemma fields_eval:
  assumes "well_named sp" and "a \<in> set sp" and "(cid, u) \<in> set (snd a)"
  shows "fields_of (shared_env sys sp) (obj (shared_component env' x cid)) =
    Inr \<lparr>dm_unit = u, dm_strict_check = False, dm_listen_ports = [], dm_alias = None\<rparr>"
  using registry_lookup[OF assms] by (simp add: fields_of_def shared_env_def base_env_def shared_component_def od_get_def)

lemma r_map_eq: "(\<And>x. x \<in> set xs \<Longrightarrow> f x = Inr (g x)) \<Longrightarrow> r_map f xs = Inr (map g xs)"
  by (induction xs) simp_all

lemma services_eval:
  assumes "well_named sp" and "a \<in> set sp"
  shows "services_of_app (shared_env sys sp) (shared_app env' a) = Inr (map snd (snd a))"
proof -
  have "r_map (fields_of (shared_env sys sp) \<circ> obj) (map (\<lambda>(cid, u). shared_component env' (fst a) cid) ps) =
      Inr (map (\<lambda>p. \<lparr>dm_unit = snd p, dm_strict_check = False, dm_listen_ports = [], dm_alias = None\<rparr>) ps)"
    if "set ps \<subseteq> set (snd a)" for ps
    using that by (induction ps) (auto simp: fields_eval[OF assms])
  from this[of "snd a"] show ?thesis
    by (simp add: services_of_app_def shared_types nonempty_def comp_def)
qed

lemma managed_eval:
  assumes "well_named sp" and "a \<in> set sp" and "u \<in> uses a"
  shows "assert_service_is_managed (shared_env sys sp) u = Inr ()"
proof -
  have "r_map (services_of_app (shared_env sys sp)) (map (shared_app (base_env sys sp)) bs) = Inr (map (map snd \<circ> snd) bs)"
    if "set bs \<subseteq> set sp" for bs
    using that by (induction bs) (auto simp: services_eval[OF assms(1)])
  from this[of sp] have "managed_services (shared_env sys sp) = Inr (concat (map (map snd \<circ> snd) sp))"
    by (simp add: managed_services_def shared_env_def comp_def)
  moreover have "u \<in> set (concat (map (map snd \<circ> snd) sp))" using assms(2,3) by (auto simp: uses_def)
  ultimately show ?thesis by (simp add: assert_service_is_managed_def)
qed

lemma env_sys [simp]: "de_sys (shared_env sys sp) = sys"
  by (simp add: shared_env_def base_env_def)

lemma shared_on:
  assumes "unit_laws sys on" and "well_named sp" and "a \<in> set sp" and "(cid, u) \<in> set (snd a)"
  shows "\<exists>w'. daemon_enable (shared_env sys sp) (obj (shared_component env' x cid)) w = (Inr (), w') \<and>
    on w' = (on w)(u := True) \<and> kv w' = kv w"
proof -
  have "assert_service_is_managed (shared_env sys sp) u = Inr ()"
    using managed_eval[OF assms(2,3)] assms(4) by (force simp: uses_def)
  moreover obtain w' where "service_enable sys u False w = (Inr (), w')" "on w' = (on w)(u := True)" "kv w' = kv w"
    using unit_enable_eval[OF assms(1)] by blast
  ultimately show ?thesis
    by (simp add: fields_eval[OF assms(2-4)] daemon_enable_def priv_enable_def managed_def nonempty_def p_defs p_lift_def p_ret_def)
qed

lemma shared_off:
  assumes "unit_laws sys on" and "well_named sp" and "a \<in> set sp" and "(cid, u) \<in> set (snd a)"
  shows "\<exists>w'. daemon_disable (shared_env sys sp) (obj (shared_component env' x cid)) w = (Inr (), w') \<and>
    on w' = (on w)(u := False) \<and> kv w' = kv w"
proof -
  have "assert_service_is_managed (shared_env sys sp) u = Inr ()"
    using managed_eval[OF assms(2,3)] assms(4) by (force simp: uses_def)
  moreover obtain w' where "service_disable sys u False w = (Inr (), w')" "on w' = (on w)(u := False)" "kv w' = kv w"
    using unit_disable_eval[OF assms(1)] by blast
  ultimately show ?thesis
    by (simp add: fields_eval[OF assms(2-4)] daemon_disable_def priv_disable_def managed_def nonempty_def p_defs p_lift_def p_ret_def)
qed

text \<open>The other enabled apps that use a unit.\<close>

definition needed_by_other :: "(string \<times> (string \<times> string) list) list \<Rightarrow> 'x world_scheme \<Rightarrow> string \<Rightarrow> string \<Rightarrow> bool" where
  "needed_by_other sp w aid u \<longleftrightarrow> (\<exists>b \<in> set sp. fst b \<noteq> aid \<and> u \<in> uses b \<and> flag w (fst b))"

lemma p_map_eval: "(\<And>x. x \<in> set xs \<Longrightarrow> f x w = (Inr (g x), w)) \<Longrightarrow> p_map f xs w = (Inr (map g xs), w)"
  by (induction xs) (simp_all add: prog_simps)

lemma shared_use_eval:
  assumes "well_named sp" and "b \<in> set sp"
  shows "shared_use (shared_env sys sp) f (shared_app (base_env sys sp) b) w =
    (Inr (map (\<lambda>p. snd p = dm_unit f \<and> flag w (fst b)) (snd b)), w)"
proof -
  have ne: "fst b \<noteq> []" using assms by (force simp: well_named_def)
  have "p_map (\<lambda>c. p_bind (p_lift (fields_of (shared_env sys sp) (obj c)))
      (\<lambda>g. if dm_unit g = dm_unit f then app_is_enabled (shared_app (base_env sys sp) b) else p_ret False))
      (map (\<lambda>(cid, u). shared_component (base_env sys sp) (fst b) cid) ps) w =
      (Inr (map (\<lambda>p. snd p = dm_unit f \<and> flag w (fst b)) ps), w)" if "set ps \<subseteq> set (snd b)" for ps
    using that
    by (induction ps) (auto simp: fields_eval[OF assms] app_is_enabled_eval[OF ne] p_bind_def p_lift_def p_ret_def)
  from this[of "snd b"] show ?thesis by (simp add: shared_use_def shared_types)
qed

lemma other_apps_eval:
  assumes "well_named sp"
  shows "other_apps_enabled (shared_env sys sp) (obj (shared_component env' aid cid)) f w =
    (Inr (needed_by_other sp w aid (dm_unit f)), w)"
proof -
  let ?others = "filter (\<lambda>b. fst b \<noteq> aid) sp"
  have apps: "filter (\<lambda>a. Some (app_id a) \<noteq> comp_app_id (obj (shared_component env' aid cid))) (od_values (de_apps (shared_env sys sp))) =
      map (shared_app (base_env sys sp)) ?others"
    by (simp add: shared_env_def shared_component_def filter_map comp_def shared_app_def)
  have "p_map (shared_use (shared_env sys sp) f) (map (shared_app (base_env sys sp)) bs) w =
      (Inr (map (\<lambda>b. map (\<lambda>p. snd p = dm_unit f \<and> flag w (fst b)) (snd b)) bs), w)" if "set bs \<subseteq> set sp" for bs
    using that by (induction bs) (simp_all add: prog_simps shared_use_eval[OF assms])
  from this[of ?others] have
      "other_apps_enabled (shared_env sys sp) (obj (shared_component env' aid cid)) f w =
        (Inr (True \<in> set (concat (map (\<lambda>b. map (\<lambda>p. snd p = dm_unit f \<and> flag w (fst b)) (snd b)) ?others))), w)"
    unfolding other_apps_enabled_def apps by (auto simp: p_bind_def p_ret_def)
  moreover have "(True \<in> set (concat (map (\<lambda>b. map (\<lambda>p. snd p = dm_unit f \<and> flag w (fst b)) (snd b)) ?others))) =
      needed_by_other sp w aid (dm_unit f)"
    by (force simp: needed_by_other_def uses_def)
  ultimately show ?thesis by simp
qed

section \<open>Enabling and disabling\<close>

abbreviation turn_on :: "('x world_scheme) component \<Rightarrow> ('x world_scheme, unit) prog" where
  "turn_on \<equiv> \<lambda>c. vt_enable (vt c) (obj c)"

abbreviation turn_off :: "('x world_scheme) component \<Rightarrow> ('x world_scheme, unit) prog" where
  "turn_off \<equiv> \<lambda>c. vt_disable (vt c) (obj c)"

lemma shared_vt:
  "vt_enable (vt (shared_component env x cid)) = daemon_enable env"
  "vt_disable (vt (shared_component env x cid)) = shared_disable env"
  by (simp_all add: shared_component_def shared_vtable_def daemon_vtable_def)

lemma loop_on:
  assumes "unit_laws sys on" and "well_named sp" and "a \<in> set sp" and "set ps \<subseteq> set (snd a)"
  shows "\<exists>w'. p_for turn_on (map (\<lambda>(cid, u). shared_component (shared_env sys sp) (fst a) cid) ps) w = (Inr (), w') \<and>
    kv w' = kv w \<and> (\<forall>u. on w' u = (on w u \<or> u \<in> snd ` set ps))"
  using assms(4)
proof (induction ps arbitrary: w)
  case Nil
  then show ?case by (simp add: p_ret_def)
next
  case (Cons p ps)
  obtain cid u where p: "p = (cid, u)" "(cid, u) \<in> set (snd a)" using Cons.prems by (cases p) auto
  obtain w1 where w1: "daemon_enable (shared_env sys sp) (obj (shared_component (shared_env sys sp) (fst a) cid)) w = (Inr (), w1)"
      "on w1 = (on w)(u := True)" "kv w1 = kv w"
    using shared_on[OF assms(1-3) p(2)] by blast
  obtain w2 where "p_for turn_on (map (\<lambda>(cid, u). shared_component (shared_env sys sp) (fst a) cid) ps) w1 = (Inr (), w2)"
      "kv w2 = kv w1" "\<forall>v. on w2 v = (on w1 v \<or> v \<in> snd ` set ps)"
    using Cons.IH[of w1] Cons.prems by auto
  with w1 p(1) show ?case by (auto simp: p_defs shared_vt)
qed

lemma needed_kv: "kv v = kv w \<Longrightarrow> needed_by_other sp v x u = needed_by_other sp w x u"
  by (simp add: needed_by_other_def flag_def)

lemma loop_off:
  assumes "unit_laws sys on" and "well_named sp" and "a \<in> set sp" and "set ps \<subseteq> set (snd a)"
  shows "\<exists>w'. p_for turn_off (map (\<lambda>(cid, u). shared_component (shared_env sys sp) (fst a) cid) ps) w = (Inr (), w') \<and>
    kv w' = kv w \<and> (\<forall>u. on w' u = (on w u \<and> (u \<in> snd ` set ps \<longrightarrow> needed_by_other sp w (fst a) u)))"
  using assms(4)
proof (induction ps arbitrary: w)
  case Nil
  then show ?case by (simp add: p_ret_def)
next
  case (Cons p ps)
  obtain cid u where p: "p = (cid, u)" "(cid, u) \<in> set (snd a)" using Cons.prems by (cases p) auto
  let ?c = "shared_component (shared_env sys sp) (fst a) cid"
  have ask: "shared_disable (shared_env sys sp) (obj ?c) w =
      (if needed_by_other sp w (fst a) u then (Inr (), w) else daemon_disable (shared_env sys sp) (obj ?c) w)"
    by (simp add: shared_disable_def fields_eval[OF assms(2,3) p(2)] p_bind_def p_lift_def other_apps_eval[OF assms(2)] p_ret_def)
  obtain w0 where "daemon_disable (shared_env sys sp) (obj ?c) w = (Inr (), w0)" "on w0 = (on w)(u := False)" "kv w0 = kv w"
    using shared_off[OF assms(1-3) p(2)] by blast
  then obtain w1 where w1: "shared_disable (shared_env sys sp) (obj ?c) w = (Inr (), w1)" "kv w1 = kv w"
      "\<forall>v. on w1 v = (on w v \<and> (v = u \<longrightarrow> needed_by_other sp w (fst a) u))"
    using ask by (cases "needed_by_other sp w (fst a) u") auto
  obtain w2 where "p_for turn_off (map (\<lambda>(cid, u). shared_component (shared_env sys sp) (fst a) cid) ps) w1 = (Inr (), w2)"
      "kv w2 = kv w1" "\<forall>v. on w2 v = (on w1 v \<and> (v \<in> snd ` set ps \<longrightarrow> needed_by_other sp w1 (fst a) v))"
    using Cons.IH[of w1] Cons.prems by auto
  with w1 p(1) needed_kv[OF w1(2)] show ?case by (auto simp: p_defs shared_vt)
qed

lemma switch_vt:
  "x \<noteq> [] \<Longrightarrow> turn_on (switch_component x) w = (Inr (), w\<lparr>kv := od_set (kv w) (x @ ''_enable'') (JBool True)\<rparr>)"
  "x \<noteq> [] \<Longrightarrow> turn_off (switch_component x) w = (Inr (), w\<lparr>kv := od_set (kv w) (x @ ''_enable'') (JBool False)\<rparr>)"
  by (simp_all add: switch_component_def vtable_defs enable_state_eval)

lemma flag_set: "flag (w\<lparr>kv := od_set (kv w) (x @ ''_enable'') (JBool b)\<rparr>) y = (if y = x then b else flag w y)"
  by (simp add: flag_def odict_simps)

lemma flag_kv: "kv v = kv w \<Longrightarrow> flag v x = flag w x"
  by (simp add: flag_def)

lemma app_enable_eval:
  assumes "unit_laws sys on" and "well_named sp" and "a \<in> set sp"
  shows "\<exists>w'. app_enable (shared_app (shared_env sys sp) a) w = (Inr (), w') \<and>
    (\<forall>x. flag w' x = (x = fst a \<or> flag w x)) \<and> (\<forall>u. on w' u = (on w u \<or> u \<in> uses a))"
proof -
  have ne: "fst a \<noteq> []" using assms(2,3) by (force simp: well_named_def)
  let ?w = "w\<lparr>kv := od_set (kv w) (fst a @ ''_enable'') (JBool True)\<rparr>"
  have on: "on ?w = on w" using assms(1) by (simp add: unit_laws_def)
  obtain w' where "p_for turn_on (map (\<lambda>(cid, u). shared_component (shared_env sys sp) (fst a) cid) (snd a)) ?w = (Inr (), w')"
      "kv w' = kv ?w" "\<forall>u. on w' u = (on ?w u \<or> u \<in> snd ` set (snd a))"
    using loop_on[OF assms subset_refl, of ?w] by blast
  moreover have "map snd (map (\<lambda>(cid, u). (cid, shared_component (shared_env sys sp) (fst a) cid)) (snd a)) =
      map (\<lambda>(cid, u). shared_component (shared_env sys sp) (fst a) cid) (snd a)" by auto
  ultimately show ?thesis using switch_vt(1)[OF ne, of w] on flag_kv[of w' ?w]
    by (intro exI[of _ w']) (auto simp: app_enable_def shared_app_def p_defs uses_def flag_set simp del: map_map)
qed

lemma app_disable_eval:
  assumes "unit_laws sys on" and "well_named sp" and "a \<in> set sp"
  shows "\<exists>w'. app_disable (shared_app (shared_env sys sp) a) w = (Inr (), w') \<and>
    (\<forall>x. flag w' x = (x \<noteq> fst a \<and> flag w x)) \<and>
    (\<forall>u. on w' u = (on w u \<and> (u \<in> uses a \<longrightarrow> needed_by_other sp w (fst a) u)))"
proof -
  have ne: "fst a \<noteq> []" using assms(2,3) by (force simp: well_named_def)
  obtain w1 where w1: "p_for turn_off (map (\<lambda>(cid, u). shared_component (shared_env sys sp) (fst a) cid) (rev (snd a))) w = (Inr (), w1)"
      "kv w1 = kv w" "\<forall>u. on w1 u = (on w u \<and> (u \<in> snd ` set (rev (snd a)) \<longrightarrow> needed_by_other sp w (fst a) u))"
    using loop_off[OF assms, of "rev (snd a)" w] by auto
  let ?w = "w1\<lparr>kv := od_set (kv w1) (fst a @ ''_enable'') (JBool False)\<rparr>"
  have on: "on ?w = on w1" using assms(1) by (simp add: unit_laws_def)
  have "rev (map snd (components (shared_app (shared_env sys sp) a))) =
      map (\<lambda>(cid, u). shared_component (shared_env sys sp) (fst a) cid) (rev (snd a)) @ [switch_component (fst a)]"
    by (auto simp: shared_app_def rev_map)
  then have "app_disable (shared_app (shared_env sys sp) a) w = (Inr (), ?w)"
    using w1(1) switch_vt(2)[OF ne, of w1] by (simp add: app_disable_def p_for_append p_defs p_ret_def)
  moreover have "flag ?w x = (x \<noteq> fst a \<and> flag w x)" for x by (simp only: flag_set flag_kv[OF w1(2)]) simp
  moreover have "on ?w u = (on w u \<and> (u \<in> uses a \<longrightarrow> needed_by_other sp w (fst a) u))" for u
    using w1(3) by (simp add: on uses_def)
  ultimately show ?thesis by blast
qed

text \<open>C18: Shared daemons. Whatever the order in which apps that share daemons are enabled and
  disabled, starting with no app enabled, every daemon that an enabled app uses is enabled; and
  when an app is disabled, each of its daemons that was enabled stays enabled exactly when another
  enabled app uses it.\<close>

theorem shared_daemons_follow_apps:
  assumes "unit_laws sys on" and "well_named sp" and "\<forall>a \<in> set sp. \<not> flag w0 (fst a)" and "toggled sys sp w0 w"
  shows "(\<forall>a \<in> set sp. flag w (fst a) \<longrightarrow> (\<forall>u \<in> uses a. on w u)) \<and>
    (\<forall>a \<in> set sp. \<forall>u \<in> uses a. on w u \<longrightarrow>
      on (snd (app_disable (shared_app (shared_env sys sp) a) w)) u =
      (\<exists>b \<in> set sp. u \<in> uses b \<and> flag (snd (app_disable (shared_app (shared_env sys sp) a) w)) (fst b)))"
proof -
  have inv: "\<forall>a \<in> set sp. flag w (fst a) \<longrightarrow> (\<forall>u \<in> uses a. on w u)" using assms(4)
  proof (induction rule: toggled.induct)
    case toggled_start
    then show ?case using assms(3) by blast
  next
    case (toggled_enable w a)
    obtain w' where w': "app_enable (shared_app (shared_env sys sp) a) w = (Inr (), w')"
        "\<forall>x. flag w' x = (x = fst a \<or> flag w x)" "\<forall>u. on w' u = (on w u \<or> u \<in> uses a)"
      using app_enable_eval[OF assms(1,2) toggled_enable.hyps(2)] by blast
    have "on w' u" if "b \<in> set sp" "flag w' (fst b)" "u \<in> uses b" for b u
    proof (cases "fst b = fst a")
      case True
      have "b = a" using True that(1) toggled_enable.hyps(2) assms(2) by (simp add: well_named_def distinct_map inj_on_def)
      then show ?thesis using that(3) w'(3) by simp
    next
      case False
      then show ?thesis using that w'(2,3) toggled_enable.IH by blast
    qed
    with w'(1) show ?case by simp
  next
    case (toggled_disable w a)
    obtain w' where "app_disable (shared_app (shared_env sys sp) a) w = (Inr (), w')"
        "\<forall>x. flag w' x = (x \<noteq> fst a \<and> flag w x)"
        "\<forall>u. on w' u = (on w u \<and> (u \<in> uses a \<longrightarrow> needed_by_other sp w (fst a) u))"
      using app_disable_eval[OF assms(1,2) toggled_disable.hyps(2)] by blast
    then show ?case using toggled_disable.IH by (auto simp: needed_by_other_def)
  qed
  moreover have "on (snd (app_disable (shared_app (shared_env sys sp) a) w)) u =
      (\<exists>b \<in> set sp. u \<in> uses b \<and> flag (snd (app_disable (shared_app (shared_env sys sp) a) w)) (fst b))"
    if mem: "a \<in> set sp" and used: "u \<in> uses a" and act: "on w u" for a u
  proof -
    obtain w' where w': "app_disable (shared_app (shared_env sys sp) a) w = (Inr (), w')"
        "\<forall>x. flag w' x = (x \<noteq> fst a \<and> flag w x)"
        "\<forall>u. on w' u = (on w u \<and> (u \<in> uses a \<longrightarrow> needed_by_other sp w (fst a) u))"
      using app_disable_eval[OF assms(1,2) mem] by blast
    then have "on w' u = needed_by_other sp w (fst a) u" using used act by blast
    also have "\<dots> = (\<exists>b \<in> set sp. u \<in> uses b \<and> flag w' (fst b))"
      unfolding needed_by_other_def using w'(2) by blast
    finally show ?thesis using w'(1) by simp
  qed
  ultimately show ?thesis by blast
qed

text \<open>A machine that keeps the list of the enabled units, and two apps that share a database.\<close>

record unit_world = world +
  uw_on :: "string list"

definition unit_system :: "unit_world system" where
  "unit_system = \<lparr>sh = \<lambda>c w. (case c of
       [x, action, u] \<Rightarrow> (Inr (0, []), if action = ''enable'' then w\<lparr>uw_on := u # uw_on w\<rparr>
                          else if action = ''disable'' then w\<lparr>uw_on := removeAll u (uw_on w)\<rparr> else w)
     | _ \<Rightarrow> (Inr (1, []), w)),
     path_exists = \<lambda>_ _. False, touch_file = \<lambda>_ w. w, unlink_file = \<lambda>_ w. w, which = \<lambda>_ _. True\<rparr>"

lemma unit_system_laws: "unit_laws unit_system (\<lambda>w u. u \<in> set (uw_on w))"
  by (auto simp: unit_laws_def unit_system_def fun_eq_iff)

definition two_apps :: "(string \<times> (string \<times> string) list) list" where
  "two_apps = [(''zoph'', [(''shared-daemon-zoph'', ''mysql'')]), (''wordpress'', [(''shared-daemon-wordpress'', ''mysql'')])]"

definition unit_start :: unit_world where
  "unit_start = \<lparr>kv = [], module_versions = [], enabled_attr = [], uw_on = []\<rparr>"

definition both_enabled :: unit_world where
  "both_enabled = snd (app_enable (shared_app (shared_env unit_system two_apps) (''wordpress'', [(''shared-daemon-wordpress'', ''mysql'')]))
     (snd (app_enable (shared_app (shared_env unit_system two_apps) (''zoph'', [(''shared-daemon-zoph'', ''mysql'')])) unit_start)))"

abbreviation "wordpress_app \<equiv> (''wordpress'', [(''shared-daemon-wordpress'', ''mysql'')])"

lemma two_apps_named: "well_named two_apps"
  by (simp add: well_named_def two_apps_def shared_registry_def)

lemma two_apps_mem: "wordpress_app \<in> set two_apps" "(''zoph'', [(''shared-daemon-zoph'', ''mysql'')]) \<in> set two_apps"
  by (simp_all add: two_apps_def)

lemma both_flags: "flag both_enabled ''zoph'' \<and> flag both_enabled ''wordpress''"
proof -
  have eval: "flag (snd (app_enable (shared_app (shared_env unit_system two_apps) a) w)) x = (x = fst a \<or> flag w x)"
    if "a \<in> set two_apps" for a w x
    using app_enable_eval[OF unit_system_laws two_apps_named that, of w] by auto
  show ?thesis unfolding both_enabled_def by (simp add: eval[OF two_apps_mem(1)] eval[OF two_apps_mem(2)])
qed

theorem shared_daemons_follow_apps_witness:
  "''mysql'' \<in> set (uw_on both_enabled) \<and>
    ''mysql'' \<in> set (uw_on (snd (app_disable (shared_app (shared_env unit_system two_apps) wordpress_app) both_enabled))) \<and>
    \<not> flag (snd (app_disable (shared_app (shared_env unit_system two_apps) wordpress_app) both_enabled)) ''wordpress''"
proof -
  let ?w = "snd (app_disable (shared_app (shared_env unit_system two_apps) wordpress_app) both_enabled)"
  note mem = two_apps_mem
  have flags: "flag ?w x = (x \<noteq> ''wordpress'' \<and> flag both_enabled x)" for x
    using app_disable_eval[OF unit_system_laws two_apps_named mem(1), of both_enabled] by auto
  have "toggled unit_system two_apps unit_start both_enabled"
    unfolding both_enabled_def by (intro toggled_enable toggled_start mem)
  moreover have "\<forall>a \<in> set two_apps. \<not> flag unit_start (fst a)" by (simp add: flag_def unit_start_def)
  ultimately have fol: "\<forall>a \<in> set two_apps. flag both_enabled (fst a) \<longrightarrow> (\<forall>u \<in> uses a. u \<in> set (uw_on both_enabled))"
      "\<forall>a \<in> set two_apps. \<forall>u \<in> uses a. u \<in> set (uw_on both_enabled) \<longrightarrow>
        (u \<in> set (uw_on (snd (app_disable (shared_app (shared_env unit_system two_apps) a) both_enabled)))) =
        (\<exists>b \<in> set two_apps. u \<in> uses b \<and> flag (snd (app_disable (shared_app (shared_env unit_system two_apps) a) both_enabled)) (fst b))"
    using shared_daemons_follow_apps[OF unit_system_laws two_apps_named, of unit_start both_enabled] by blast+
  have on: "''mysql'' \<in> set (uw_on both_enabled)" using fol(1) mem(1) both_flags by (force simp: uses_def)
  moreover have "''mysql'' \<in> set (uw_on ?w)"
  proof -
    have "''mysql'' \<in> uses wordpress_app" by (simp add: uses_def)
    then have "(''mysql'' \<in> set (uw_on ?w)) = (\<exists>b \<in> set two_apps. ''mysql'' \<in> uses b \<and> flag ?w (fst b))"
      using fol(2) mem(1) on by blast
    then show ?thesis using mem(2) both_flags by (force simp: flags uses_def)
  qed
  ultimately show ?thesis by (simp add: flags)
qed

end
