(* ===== verification/Webserver.thy ===== *)
theory Webserver
  imports Daemon Paths Names
begin

text \<open>
  Web server components of apps (plinth/modules/apache): the components that enable Apache
  configuration and host an app at the root of a domain, their diagnostics with the addresses of
  the machine, and the privileged calls. curl, Apache and the file system are parameters.
\<close>

section \<open>Addresses of the machine\<close>

text \<open>\<open>get_addresses\<close> and its helpers of plinth/action_utils.py.\<close>

record address =
  ad_kind :: string
  ad_address :: string
  ad_url_address :: string
  ad_numeric :: bool
  ad_scope :: "string option"
  ad_interface :: "string option"

definition nth_word :: "string list \<Rightarrow> nat \<Rightarrow> string result" where
  "nth_word ws i = (if i < length ws then Inr (ws ! i) else Inl (IndexError ''list index out of range''))"

definition address_of_line :: "string \<Rightarrow> address result" where
  "address_of_line line =
     (let parts = split_words line in
      r_bind (nth_word parts 2) (\<lambda>k.
      r_bind (nth_word parts 3) (\<lambda>net.
      r_bind (nth_word parts 5) (\<lambda>scope.
      r_bind (nth_word parts 1) (\<lambda>interface.
        let kind = (if k = ''inet'' then ''4'' else ''6''); a = hd (split_on (CHR ''/'') net)
        in Inr \<lparr>ad_kind = kind, ad_address = a, ad_url_address = (if kind = ''6'' then ''['' @ a @ '']'' else a),
                ad_numeric = True, ad_scope = Some scope, ad_interface = Some interface\<rparr>)))))"

definition get_ip_addresses :: "'w system \<Rightarrow> ('w, address list) prog" where
  "get_ip_addresses sys =
     p_bind (run_command sys [''ip'', ''-o'', ''addr''] True) (\<lambda>out.
     p_bind (p_lift (r_map address_of_line (split_lines out))) (\<lambda>as.
       p_ret (filter (\<lambda>a. ad_scope a \<noteq> Some ''link'') as)))"

definition get_hostname :: "'w system \<Rightarrow> ('w, string) prog" where
  "get_hostname sys = p_bind (run_command sys [''hostname''] True) (\<lambda>out. p_ret (strip_str out))"

definition named_address :: "string \<Rightarrow> string \<Rightarrow> address" where
  "named_address kind a =
     \<lparr>ad_kind = kind, ad_address = a, ad_url_address = a, ad_numeric = False, ad_scope = None, ad_interface = None\<rparr>"

definition get_addresses :: "'w system \<Rightarrow> ('w, address list) prog" where
  "get_addresses sys =
     p_bind (get_ip_addresses sys) (\<lambda>as.
     p_bind (get_hostname sys) (\<lambda>hostname.
       p_ret (as @ [named_address ''4'' ''localhost'', named_address ''6'' ''localhost'', named_address ''4'' hostname])))"

section \<open>Access to URLs\<close>

record webserver_fields =
  ws_web_name :: string
  ws_kind :: string
  ws_urls :: "string list"
  ws_expect_redirects :: bool
  ws_last_updated_version :: int

record webserver_root_fields =
  wr_web_name :: string
  wr_expect_redirects :: bool
  wr_last_updated_version :: int

text \<open>\<open>we_curl\<close> is \<open>subprocess.run\<close> of check_url, with the environment or None; \<open>we_str\<close> is \<open>str\<close>.\<close>

record 'w web_env =
  we_daemon :: "'w daemon_env"
  we_curl :: "(string, string) odict option \<Rightarrow> string list \<Rightarrow> ('w, nat \<times> string) prog"
  we_files :: "'w links"
  we_webservers :: "(string, webserver_fields) odict"
  we_roots :: "(string, webserver_root_fields) odict"
  we_str :: "json \<Rightarrow> string"

text \<open>
  \<open>re.match(r'(.*://)\[(.*)%(?P<zone>.*)\](.*)', url)\<close> of a URL without line breaks: the last \<open>://[\<close>
  with a zone after it, the last closing bracket, and the last percent sign before that.
\<close>

definition zone_rest :: "string \<Rightarrow> (string \<times> string \<times> string) option" where
  "zone_rest s =
     (case rsplit (CHR '']'') s of
        None \<Rightarrow> None
      | Some (before, after) \<Rightarrow>
          (case rsplit (CHR 0x25) before of None \<Rightarrow> None | Some (a, zone) \<Rightarrow> Some (a, zone, after)))"

fun zone_match :: "string \<Rightarrow> string \<Rightarrow> (string \<times> string \<times> string \<times> string) option" where
  "zone_match pre [] = None"
| "zone_match pre (c # cs) =
     (case zone_match (pre @ [c]) cs of
        Some m \<Rightarrow> Some m
      | None \<Rightarrow> if c = CHR ''['' \<and> ends_with pre ''://'' then map_option (\<lambda>(a, zone, r). (pre, a, zone, r)) (zone_rest cs)
                else None)"

definition kind_option :: "string option \<Rightarrow> string list result" where
  "kind_option kind =
     (case nonempty kind of [] \<Rightarrow> Inr []
      | k # _ \<Rightarrow> r_bind (od_get [(''4'', ''-4''), (''6'', ''-6'')] k) (\<lambda>opt. Inr [opt]))"

definition check_url_command ::
  "string \<Rightarrow> string option \<Rightarrow> bool \<Rightarrow> string list \<Rightarrow> string option \<Rightarrow> string list result"
where
  "check_url_command url kind check_certificate extra_options wrapper =
     (let base = [''curl'', ''--location'', ''--cookie'', [], ''--fail'', ''--write-out'', CHR 0x25 # ''{response_code}''];
          (interface, url') = (case (if kind = Some ''6'' then zone_match [] url else None) of
             None \<Rightarrow> ([], url) | Some (a, b, zone, r) \<Rightarrow> ([''--interface'', zone], a @ ''['' @ b @ '']'' @ r))
      in r_bind (kind_option kind) (\<lambda>k.
           Inr (nonempty wrapper @ base @ interface @ [url'] @ (if check_certificate then [] else [''-k'']) @ extra_options @ k)))"

definition check_url ::
  "'w web_env \<Rightarrow> string \<Rightarrow> string option \<Rightarrow> (string, string) odict option \<Rightarrow> bool \<Rightarrow> string list \<Rightarrow>
   string option \<Rightarrow> string option \<Rightarrow> ('w, bool) prog"
where
  "check_url we url kind env check_certificate extra_options wrapper expected_output =
     p_bind (p_lift (check_url_command url kind check_certificate extra_options wrapper)) (\<lambda>command.
     p_bind (we_curl we env command) (\<lambda>(rc, out). p_ret
       (if rc = 0 then \<not> (\<exists>e \<in> set (nonempty expected_output). \<not> contains_str e out)
        else strip_str out \<in> {''401'', ''405''})))"

definition diagnose_url ::
  "'w web_env \<Rightarrow> string \<Rightarrow> string option \<Rightarrow> (string, string) odict option \<Rightarrow> bool \<Rightarrow> string list \<Rightarrow>
   string option \<Rightarrow> string option \<Rightarrow> string option \<Rightarrow> ('w, diagnostic_check) prog"
where
  "diagnose_url we url kind env check_certificate extra_options wrapper expected_output cid =
     p_bind (p_catch
         (p_bind (check_url we url kind env check_certificate extra_options wrapper expected_output) (\<lambda>b.
            p_ret (if b then PASSED else FAILED)))
         (\<lambda>e. if is_file_not_found e then p_ret ERROR else p_raise e)) (\<lambda>result. p_ret
       (let parameters = [(''url'', JStr url), (''kind'', case kind of None \<Rightarrow> JNull | Some k \<Rightarrow> JStr k)]
        in case nonempty kind of
             k # _ \<Rightarrow> \<lparr>check_id = ''apache-url-kind-'' @ url @ ''-'' @ k, description = ''Access URL {url} on tcp{kind}'',
                       check_result = result, parameters = parameters, check_component_id = cid\<rparr>
           | [] \<Rightarrow> \<lparr>check_id = ''apache-url-'' @ url, description = ''Access URL {url}'',
                    check_result = result, parameters = parameters, check_component_id = cid\<rparr>))"

text \<open>\<open>diagnose_url_on_all\<close>; \<open>kind\<close> is the keyword argument that may be given, and wins over the address.\<close>

definition diagnose_url_on_all ::
  "'w web_env \<Rightarrow> string \<Rightarrow> bool \<Rightarrow> string option \<Rightarrow> string option option \<Rightarrow> bool \<Rightarrow> ('w, diagnostic_check list) prog"
where
  "diagnose_url_on_all we url expect_redirects cid kind check_certificate =
     p_bind (get_addresses (de_sys (we_daemon we))) (\<lambda>as.
       p_map (\<lambda>a. p_bind (p_lift (format_field ''host'' (ad_url_address a) url)) (\<lambda>current_url.
         diagnose_url we current_url
           (case kind of Some k \<Rightarrow> k | None \<Rightarrow> if expect_redirects then None else Some (ad_kind a))
           None check_certificate [] None None cid)) as)"

section \<open>Privileged calls\<close>

definition assert_kind :: "string \<Rightarrow> unit result" where
  "assert_kind kind =
     (if kind \<notin> {''site'', ''config'', ''module''} then Inl (ValueError ''Invalid value for parameter kind'') else Inr ())"

definition priv_web_enable :: "'w system \<Rightarrow> string \<Rightarrow> string \<Rightarrow> ('w, unit) prog" where
  "priv_web_enable sys name kind =
     p_then (p_lift (assert_kind kind)) (p_bind (webserver_enable sys name kind True) (\<lambda>_. p_ret ()))"

definition priv_web_disable :: "'w system \<Rightarrow> string \<Rightarrow> string \<Rightarrow> ('w, unit) prog" where
  "priv_web_disable sys name kind =
     p_then (p_lift (assert_kind kind)) (p_bind (webserver_disable sys name kind True) (\<lambda>_. p_ret ()))"

definition root_config :: "string \<Rightarrow> string" where
  "root_config domain = path_join ''/etc/apache2/includes/'' (domain @ ''-include-freedombox.conf'')"

definition link_root :: "'w web_env \<Rightarrow> string \<Rightarrow> string \<Rightarrow> ('w, unit) prog" where
  "link_root we domain name =
     (if CHR ''/'' \<in> set domain \<or> CHR ''/'' \<in> set name then p_raise (ValueError ''Invalid domain or name'')
      else p_then (unlink_if_there (we_files we) (root_config domain))
          (p_then (lk_symlink (we_files we) (root_config domain) (name @ ''.conf''))
                  (service_reload (de_sys (we_daemon we)) ''apache2'' False)))"

definition unlink_root :: "'w web_env \<Rightarrow> string \<Rightarrow> ('w, unit) prog" where
  "unlink_root we domain =
     (if CHR ''/'' \<in> set domain then p_raise (ValueError ''Invalid domain'')
      else p_bind (p_get (lk_is_link (we_files we) (root_config domain))) (\<lambda>there.
        if \<not> there then p_ret ()
        else p_then (fl_unlink (we_files we) (root_config domain))
               (service_reload (de_sys (we_daemon we)) ''apache2'' False)))"

definition site_config :: "string \<Rightarrow> string" where
  "site_config domain = path_join ''/etc/apache2/sites-available/'' (domain @ ''.conf'')"

definition domain_setup :: "'w web_env \<Rightarrow> string \<Rightarrow> ('w, unit) prog" where
  "domain_setup we domain =
     (if CHR ''/'' \<in> set domain then p_raise (ValueError ''Invalid domain'')
      else p_bind (p_get (fl_is_file (we_files we) (site_config domain))) (\<lambda>there.
        if there then p_ret ()
        else p_then (fl_write (we_files we) (site_config domain) (''Use FreedomBoxTLSSiteMacro '' @ domain @ [CHR 0x0A]))
               (webserver_change (de_sys (we_daemon we))
                  [Web_enable ''freedombox-tls-site-macro'' ''config'', Web_enable domain ''site''])))"

definition domain_remove :: "'w web_env \<Rightarrow> string \<Rightarrow> ('w, unit) prog" where
  "domain_remove we domain =
     (if CHR ''/'' \<in> set domain then p_raise (ValueError ''Invalid domain'')
      else p_then (webserver_change (de_sys (we_daemon we)) [Web_disable domain ''site''])
             (unlink_if_there (we_files we) (site_config domain)))"

text \<open>The handlers of the signals when a domain is added or removed (\<open>__init__.py\<close>).\<close>

definition web_on_domain_added :: "'w web_env \<Rightarrow> string \<Rightarrow> ('w, unit) prog" where
  "web_on_domain_added we name = (if name \<noteq> [] then domain_setup we name else p_ret ())"

definition web_on_domain_removed :: "'w web_env \<Rightarrow> string \<Rightarrow> ('w, unit) prog" where
  "web_on_domain_removed we name = (if name \<noteq> [] then domain_remove we name else p_ret ())"

section \<open>The Webserver component\<close>

definition webserver_init ::
  "string \<Rightarrow> string \<Rightarrow> string \<Rightarrow> string list option \<Rightarrow> bool \<Rightarrow> int option \<Rightarrow> (comp_obj \<times> webserver_fields) result"
where
  "webserver_init cid web_name kind urls expect_redirects last_updated =
     r_bind (leader_init cid) (\<lambda>self.
       Inr (self\<lparr>classes := ''Webserver'' # classes self\<rparr>,
            \<lparr>ws_web_name = web_name, ws_kind = kind, ws_urls = (case urls of None \<Rightarrow> [] | Some us \<Rightarrow> us),
             ws_expect_redirects = expect_redirects,
             ws_last_updated_version = (case last_updated of None \<Rightarrow> 0 | Some v \<Rightarrow> v)\<rparr>))"

definition webserver_of :: "'w web_env \<Rightarrow> comp_obj \<Rightarrow> webserver_fields result" where
  "webserver_of we self = od_get (we_webservers we) (component_id self)"

definition ws_is_enabled :: "'w web_env \<Rightarrow> comp_obj \<Rightarrow> ('w, bool) prog" where
  "ws_is_enabled we self =
     p_bind (p_lift (webserver_of we self)) (\<lambda>f. webserver_is_enabled (de_sys (we_daemon we)) (ws_web_name f) (ws_kind f))"

definition ws_enable :: "'w web_env \<Rightarrow> comp_obj \<Rightarrow> ('w, unit) prog" where
  "ws_enable we self =
     p_bind (p_lift (webserver_of we self)) (\<lambda>f. priv_web_enable (de_sys (we_daemon we)) (ws_web_name f) (ws_kind f))"

definition ws_disable :: "'w web_env \<Rightarrow> comp_obj \<Rightarrow> ('w, unit) prog" where
  "ws_disable we self =
     p_bind (p_lift (webserver_of we self)) (\<lambda>f. priv_web_disable (de_sys (we_daemon we)) (ws_web_name f) (ws_kind f))"

definition ws_diagnose :: "'w web_env \<Rightarrow> comp_obj \<Rightarrow> ('w, diagnostic_check list) prog" where
  "ws_diagnose we self =
     p_bind (p_lift (webserver_of we self)) (\<lambda>f.
     p_bind (p_map (\<lambda>url.
         if contains_str ''{host}'' url
         then diagnose_url_on_all we url (ws_expect_redirects f) (Some (component_id self)) None False
         else p_bind (diagnose_url we url None None False [] None None (Some (component_id self))) (\<lambda>c. p_ret [c]))
       (ws_urls f)) (\<lambda>css. p_ret (concat css)))"

text \<open>
  \<open>setup\<close>: Apache is told when the configuration of an enabled app has changed. What both
  components share is the decision.
\<close>

definition web_setup :: "'w web_env \<Rightarrow> comp_obj \<Rightarrow> int \<Rightarrow> int \<Rightarrow> ('w, unit) prog \<Rightarrow> ('w, unit) prog" where
  "web_setup we self last_updated old_version tell =
     (if old_version = 0 \<or> old_version \<ge> last_updated then p_ret ()
      else p_bind (p_lift (component_app (de_apps (we_daemon we)) self)) (\<lambda>a.
           p_bind (app_is_enabled a) (\<lambda>en. if en then tell else p_ret ())))"

definition ws_setup :: "'w web_env \<Rightarrow> comp_obj \<Rightarrow> int \<Rightarrow> ('w, unit) prog" where
  "ws_setup we self old_version =
     p_bind (p_lift (webserver_of we self)) (\<lambda>f.
       web_setup we self (ws_last_updated_version f) old_version
         (if ws_kind f = ''module'' then priv_restart (we_daemon we) ''apache2'' else priv_reload (we_daemon we) ''apache2''))"

definition webserver_vtable :: "'w web_env \<Rightarrow> 'w vtable" where
  "webserver_vtable we = leader_vtable\<lparr>vt_is_enabled := ws_is_enabled we, vt_enable := ws_enable we,
     vt_disable := ws_disable we, vt_diagnose := ws_diagnose we, vt_has_diagnostics := \<lambda>_. True, vt_setup := ws_setup we\<rparr>"

section \<open>The WebserverRoot component\<close>

definition webserver_root_init ::
  "string \<Rightarrow> string \<Rightarrow> bool \<Rightarrow> int option \<Rightarrow> ('x world_scheme, comp_obj \<times> webserver_root_fields) prog"
where
  "webserver_root_init cid web_name expect_redirects last_updated =
     p_bind (follower_init cid False) (\<lambda>self.
       p_ret (self\<lparr>classes := ''WebserverRoot'' # classes self\<rparr>,
            \<lparr>wr_web_name = web_name, wr_expect_redirects = expect_redirects,
             wr_last_updated_version = (case last_updated of None \<Rightarrow> 0 | Some v \<Rightarrow> v)\<rparr>))"

definition root_of :: "'w web_env \<Rightarrow> comp_obj \<Rightarrow> webserver_root_fields result" where
  "root_of we self = od_get (we_roots we) (component_id self)"

definition domain_key :: "comp_obj \<Rightarrow> string" where
  "domain_key self = component_id self @ ''_domain''"

definition domain_get :: "comp_obj \<Rightarrow> ('x world_scheme, json) prog" where
  "domain_get self = kv_get_default (domain_key self) JNull"

text \<open>\<open>if domain: f(domain)\<close>; the privileged calls refuse a domain that is not a string.\<close>

definition for_domain :: "json \<Rightarrow> (string \<Rightarrow> ('w, unit) prog) \<Rightarrow> ('w, unit) prog" where
  "for_domain v f =
     (if \<not> truthy v then p_ret ()
      else case v of JStr d \<Rightarrow> f d | _ \<Rightarrow> p_raise (TypeError ''Expected type str for domain''))"

definition root_enable :: "('x world_scheme) web_env \<Rightarrow> comp_obj \<Rightarrow> ('x world_scheme, unit) prog" where
  "root_enable we self =
     p_bind (domain_get self) (\<lambda>v.
     p_bind (p_lift (root_of we self)) (\<lambda>f. for_domain v (\<lambda>d. link_root we d (wr_web_name f))))"

definition root_disable :: "('x world_scheme) web_env \<Rightarrow> comp_obj \<Rightarrow> ('x world_scheme, unit) prog" where
  "root_disable we self = p_bind (domain_get self) (\<lambda>v. for_domain v (unlink_root we))"

definition domain_set :: "('x world_scheme) web_env \<Rightarrow> comp_obj \<Rightarrow> string option \<Rightarrow> ('x world_scheme, unit) prog" where
  "domain_set we self domain =
     p_then (root_disable we self)
    (p_then (kv_set (domain_key self) (case domain of None \<Rightarrow> JNull | Some d \<Rightarrow> JStr d))
    (p_bind (p_lift (component_app (de_apps (we_daemon we)) self)) (\<lambda>a.
     p_bind (app_is_enabled a) (\<lambda>en. if en then root_enable we self else p_ret ()))))"

definition root_diagnose :: "('x world_scheme) web_env \<Rightarrow> comp_obj \<Rightarrow> ('x world_scheme, diagnostic_check list) prog" where
  "root_diagnose we self =
     p_bind (domain_get self) (\<lambda>v.
       if \<not> truthy v then p_ret []
       else p_bind (diagnose_url we (''https://'' @ (case v of JStr d \<Rightarrow> d | _ \<Rightarrow> we_str we v)) None None False [] None None
              (Some (component_id self))) (\<lambda>c. p_ret [c]))"

definition root_setup :: "('x world_scheme) web_env \<Rightarrow> comp_obj \<Rightarrow> int \<Rightarrow> ('x world_scheme, unit) prog" where
  "root_setup we self old_version =
     p_bind (p_lift (root_of we self)) (\<lambda>f.
       web_setup we self (wr_last_updated_version f) old_version (priv_reload (we_daemon we) ''apache2''))"

definition root_uninstall :: "comp_obj \<Rightarrow> ('x world_scheme, unit) prog" where
  "root_uninstall self = kv_delete (domain_key self) True"

definition webserver_root_vtable :: "('x world_scheme) web_env \<Rightarrow> ('x world_scheme) vtable" where
  "webserver_root_vtable we = follower_vtable\<lparr>vt_enable := root_enable we, vt_disable := root_disable we,
     vt_diagnose := root_diagnose we, vt_has_diagnostics := \<lambda>_. True, vt_setup := root_setup we, vt_uninstall := root_uninstall\<rparr>"

section \<open>Hosts and web sites of users\<close>

text \<open>\<open>is_address\<close> is \<open>ipaddress.ip_address\<close>: whether it accepts the text.\<close>

definition validate_host :: "(string \<Rightarrow> bool) \<Rightarrow> 'w system \<Rightarrow> ('w \<Rightarrow> string list) \<Rightarrow> string \<Rightarrow> ('w, unit) prog" where
  "validate_host is_address sys names hostname =
     (if hostname \<in> {''localhost'', ''ip6-localhost'', ''ip6-loopback''} then p_ret ()
      else p_bind (get_hostname sys) (\<lambda>own.
        if hostname = own then p_ret ()
        else p_bind (p_get names) (\<lambda>ns.
          if hostname \<in> set ns \<or> is_address hostname then p_ret ()
          else p_raise (ValueError (''Server not configured to be called as '' @ hostname)))))"

definition is_valid_user_name :: "string \<Rightarrow> bool" where
  "is_valid_user_name u \<longleftrightarrow>
     length u \<le> 32 \<and> \<not> starts_with u ''-'' \<and>
     (\<forall>c \<in> set [CHR '' '', CHR 0x0A, CHR 0x09, CHR ''/'', CHR 0x5C, CHR '':'']. c \<notin> set u)"

text \<open>A user that is None is formatted as \<open>None\<close>.\<close>

definition user_text :: "string option \<Rightarrow> string" where
  "user_text u = (case u of None \<Rightarrow> ''None'' | Some v \<Rightarrow> v)"

definition uws_directory_of_user :: "string option \<Rightarrow> string" where
  "uws_directory_of_user u = ''/home/'' @ user_text u @ ''/public_html''"

definition uws_url_of_user :: "string option \<Rightarrow> string" where
  "uws_url_of_user u = ''/~'' @ user_text u @ ''/''"

definition user_of_uws_directory :: "string \<Rightarrow> string option" where
  "user_of_uws_directory directory =
     (let pos_ini = (if starts_with directory ''/home/'' then Some 6
                     else if starts_with directory ''home/'' then Some 5 else None)
      in case (pos_ini, find_str ''/public_html'' directory) of
           (Some i, Some j) \<Rightarrow> (let user = slice directory i j in if is_valid_user_name user then Some user else None)
         | _ \<Rightarrow> None)"

definition user_of_uws_url :: "string \<Rightarrow> string option" where
  "user_of_uws_url url =
     (case find_str ''~'' url of
        None \<Rightarrow> None
      | Some i \<Rightarrow>
          (let j = (case find_str ''/'' (drop i url) of None \<Rightarrow> length url | Some k \<Rightarrow> i + k); user = slice url (i + 1) j
           in if is_valid_user_name user then Some user else None))"

definition uws_directory_of_url :: "string \<Rightarrow> string" where
  "uws_directory_of_url url = uws_directory_of_user (user_of_uws_url url)"

definition uws_url_of_directory :: "string \<Rightarrow> string" where
  "uws_url_of_directory directory = uws_url_of_user (user_of_uws_directory directory)"

text \<open>\<open>is_dir\<close> is \<open>os.path.isdir\<close>; \<open>names\<close> are the entries of /home.\<close>

definition get_users_with_website :: "(string \<Rightarrow> bool) \<Rightarrow> string list \<Rightarrow> (string, string) odict" where
  "get_users_with_website is_dir names =
     fold (\<lambda>n d. od_set d n (uws_url_of_user (Some n)))
       (filter (\<lambda>n. is_dir (uws_directory_of_user (Some n))) (filter (\<lambda>n. is_dir (path_join ''/home'' n)) names)) []"

end
