(* ===== verification/WebserverLaws.thy ===== *)
theory WebserverLaws
  imports Webserver DaemonLaws
begin

text \<open>
  The link that puts an app at the root of a domain exists exactly while the app is enabled and for
  the domain that is selected; and the web sites of users are found again by their directories and
  addresses.
\<close>

section \<open>The links of the file system\<close>

text \<open>
  \<open>lnk\<close> reads the links in the directory of includes; a name that is no link there does not exist.
  Reloading Apache touches neither links nor the store.
\<close>

definition link_laws ::
  "('x world_scheme) web_env \<Rightarrow> ('x world_scheme \<Rightarrow> string \<Rightarrow> string option) \<Rightarrow> bool"
where
  "link_laws we lnk \<longleftrightarrow>
     (\<forall>w m. lnk (w\<lparr>kv := m\<rparr>) = lnk w) \<and>
     (\<forall>p w. lk_is_link (we_files we) p w = (lnk w p \<noteq> None)) \<and>
     (\<forall>p w. lnk w p = None \<longrightarrow> fl_unlink (we_files we) p w = (Inl (FileNotFoundError p), w)) \<and>
     (\<forall>p w. lnk w p \<noteq> None \<longrightarrow> (\<exists>w'. fl_unlink (we_files we) p w = (Inr (), w') \<and> lnk w' = (lnk w)(p := None) \<and> kv w' = kv w)) \<and>
     (\<forall>p t w. lnk w p = None \<longrightarrow> (\<exists>w'. lk_symlink (we_files we) p t w = (Inr (), w') \<and> lnk w' = (lnk w)(p := Some t) \<and> kv w' = kv w)) \<and>
     (\<forall>w. \<exists>rc out w'. sh (de_sys (we_daemon we)) [''systemctl'', ''reload'', ''apache2''] w = (Inr (rc, out), w') \<and>
        lnk w' = lnk w \<and> kv w' = kv w)"

lemma root_config_eq: "CHR ''/'' \<notin> set d \<Longrightarrow> root_config d = ''/etc/apache2/includes/'' @ d @ ''-include-freedombox.conf''"
proof -
  assume d: "CHR ''/'' \<notin> set d"
  let ?b = "d @ ''-include-freedombox.conf''"
  have b: "split_on (CHR ''/'') ?b = [?b]" by (rule split_on_none) (use d in simp)
  have "\<not> starts_with ?b ''/''" using d by (cases d) auto
  moreover have "?b \<noteq> []" "?b \<noteq> ''.''" by (auto simp: append_eq_Cons_conv)
  ultimately show ?thesis using b
    by (simp add: root_config_def path_join_def path_str_def path_of_def path_root_def path_parts_def del: append_assoc)
qed

lemma root_config_inj: "CHR ''/'' \<notin> set d \<Longrightarrow> CHR ''/'' \<notin> set e \<Longrightarrow> root_config d = root_config e \<longleftrightarrow> d = e"
  by (simp add: root_config_eq)

lemma reload_eval:
  assumes "link_laws we lnk"
  shows "\<exists>w'. service_reload (de_sys (we_daemon we)) ''apache2'' False w = (Inr (), w') \<and> lnk w' = lnk w \<and> kv w' = kv w"
proof -
  obtain rc out w' where "sh (de_sys (we_daemon we)) [''systemctl'', ''reload'', ''apache2''] w = (Inr (rc, out), w')"
      "lnk w' = lnk w" "kv w' = kv w"
    using assms unfolding link_laws_def by blast
  then show ?thesis
    by (simp add: service_reload_def service_action_def run_ok_def run_command_def p_defs p_ret_def ends_with_def)
qed

lemma unlink_if_there_eval:
  assumes "link_laws we lnk"
  shows "\<exists>w'. unlink_if_there (we_files we) p w = (Inr (), w') \<and> lnk w' = (lnk w)(p := None) \<and> kv w' = kv w"
proof (cases "lnk w p = None")
  case True
  then have "fl_unlink (we_files we) p w = (Inl (FileNotFoundError p), w)" using assms unfolding link_laws_def by blast
  then show ?thesis using True by (auto simp: unlink_if_there_def p_catch_def p_ret_def)
next
  case False
  then obtain w' where "fl_unlink (we_files we) p w = (Inr (), w')" "lnk w' = (lnk w)(p := None)" "kv w' = kv w"
    using assms unfolding link_laws_def by blast
  then show ?thesis by (simp add: unlink_if_there_def p_catch_def)
qed

lemma link_root_eval:
  assumes "link_laws we lnk" and "CHR ''/'' \<notin> set d" and "CHR ''/'' \<notin> set n"
  shows "\<exists>w'. link_root we d n w = (Inr (), w') \<and> lnk w' = (lnk w)(root_config d := Some (n @ ''.conf'')) \<and> kv w' = kv w"
proof -
  obtain w1 where 1: "unlink_if_there (we_files we) (root_config d) w = (Inr (), w1)" "lnk w1 = (lnk w)(root_config d := None)" "kv w1 = kv w"
    using unlink_if_there_eval[OF assms(1)] by blast
  then have "lnk w1 (root_config d) = None" by simp
  then obtain w2 where 2: "lk_symlink (we_files we) (root_config d) (n @ ''.conf'') w1 = (Inr (), w2)"
      "lnk w2 = (lnk w1)(root_config d := Some (n @ ''.conf''))" "kv w2 = kv w1"
    using assms(1) unfolding link_laws_def by blast
  obtain w3 where "service_reload (de_sys (we_daemon we)) ''apache2'' False w2 = (Inr (), w3)" "lnk w3 = lnk w2" "kv w3 = kv w2"
    using reload_eval[OF assms(1)] by blast
  with 1 2 show ?thesis using assms(2,3) by (simp add: link_root_def p_defs)
qed

lemma unlink_root_eval:
  assumes "link_laws we lnk" and "CHR ''/'' \<notin> set d"
  shows "\<exists>w'. unlink_root we d w = (Inr (), w') \<and> lnk w' = (lnk w)(root_config d := None) \<and> kv w' = kv w"
proof (cases "lnk w (root_config d) = None")
  case True
  then have "\<not> lk_is_link (we_files we) (root_config d) w" using assms(1) unfolding link_laws_def by blast
  then show ?thesis using True assms(2) by (auto simp: unlink_root_def p_bind_def p_get_def p_ret_def)
next
  case False
  then have there: "lk_is_link (we_files we) (root_config d) w" using assms(1) unfolding link_laws_def by blast
  obtain w1 where 1: "fl_unlink (we_files we) (root_config d) w = (Inr (), w1)" "lnk w1 = (lnk w)(root_config d := None)" "kv w1 = kv w"
    using False assms(1) unfolding link_laws_def by blast
  obtain w2 where "service_reload (de_sys (we_daemon we)) ''apache2'' False w1 = (Inr (), w2)" "lnk w2 = lnk w1" "kv w2 = kv w1"
    using reload_eval[OF assms(1)] by blast
  with 1 there show ?thesis using assms(2) by (simp add: unlink_root_def p_defs p_get_def)
qed

section \<open>An app at the root of a domain\<close>

text \<open>
  An app with its enable state and one such component. The domain is stored as text; anything else
  under the key is no domain.
\<close>

definition root_component :: "('x world_scheme) web_env \<Rightarrow> string \<Rightarrow> string \<Rightarrow> ('x world_scheme) component" where
  "root_component we aid cid =
     \<lparr>obj = \<lparr>component_id = cid, comp_app_id = Some aid, is_leader = False,
             classes = [''WebserverRoot'', ''FollowerComponent'', ''Component''], info = None, packages = None\<rparr>,
      vt = webserver_root_vtable we\<rparr>"

definition root_app :: "('x world_scheme) web_env \<Rightarrow> string \<Rightarrow> string \<Rightarrow> ('x world_scheme) app" where
  "root_app we aid cid =
     \<lparr>app_id = aid, can_be_disabled = True, configure_when_disabled = True,
      components = [(aid @ ''-enable'', switch_component aid), (cid, root_component we aid cid)],
      ov_post_init = p_ret (), ov_setup = None, ov_uninstall = None, ov_enable = None, ov_disable = None,
      ov_diagnose = None, ov_repair = None\<rparr>"

definition selected :: "'x world_scheme \<Rightarrow> string \<Rightarrow> string" where
  "selected w cid = (case map_of (kv w) (cid @ ''_domain'') of Some (JStr d) \<Rightarrow> d | _ \<Rightarrow> [])"

definition domain_stored :: "'x world_scheme \<Rightarrow> string \<Rightarrow> bool" where
  "domain_stored w cid \<longleftrightarrow>
     (case map_of (kv w) (cid @ ''_domain'') of
        None \<Rightarrow> True | Some JNull \<Rightarrow> True | Some (JStr d) \<Rightarrow> CHR ''/'' \<notin> set d | _ \<Rightarrow> False)"

text \<open>The app is in the list of apps, and the component has its fields.\<close>

definition hosted :: "('x world_scheme) web_env \<Rightarrow> string \<Rightarrow> string \<Rightarrow> string \<Rightarrow> bool" where
  "hosted we aid cid name \<longleftrightarrow>
     aid \<noteq> [] \<and> CHR ''/'' \<notin> set name \<and>
     (\<exists>f. map_of (we_roots we) cid = Some f \<and> wr_web_name f = name) \<and>
     (\<exists>a. map_of (de_apps (we_daemon we)) aid = Some a \<and> (\<forall>w. app_is_enabled a w = (Inr (flag w aid), w)))"

inductive root_steps ::
  "('x world_scheme) web_env \<Rightarrow> string \<Rightarrow> string \<Rightarrow> 'x world_scheme \<Rightarrow> 'x world_scheme \<Rightarrow> bool"
  for we aid cid w0
where
  root_start: "root_steps we aid cid w0 w0"
| root_app_enabled: "root_steps we aid cid w0 w \<Longrightarrow> root_steps we aid cid w0 (snd (app_enable (root_app we aid cid) w))"
| root_app_disabled: "root_steps we aid cid w0 w \<Longrightarrow> root_steps we aid cid w0 (snd (app_disable (root_app we aid cid) w))"
| root_domain_set: "root_steps we aid cid w0 w \<Longrightarrow> (\<And>d. domain = Some d \<Longrightarrow> CHR ''/'' \<notin> set d) \<Longrightarrow>
    root_steps we aid cid w0 (snd (domain_set we (obj (root_component we aid cid)) domain w))"

definition root_inv :: "('x world_scheme \<Rightarrow> string \<Rightarrow> string option) \<Rightarrow> string \<Rightarrow> string \<Rightarrow> string \<Rightarrow> 'x world_scheme \<Rightarrow> bool" where
  "root_inv lnk aid cid name w \<longleftrightarrow>
     domain_stored w cid \<and>
     (\<forall>d. CHR ''/'' \<notin> set d \<longrightarrow>
        lnk w (root_config d) = (if flag w aid \<and> d \<noteq> [] \<and> d = selected w cid then Some (name @ ''.conf'') else None))"

lemma selected_truthy:
  "domain_stored w cid \<Longrightarrow>
     kv_get_default (cid @ ''_domain'') JNull w = (Inr v, w) \<Longrightarrow>
     (if selected w cid = [] then \<not> truthy v else v = JStr (selected w cid) \<and> CHR ''/'' \<notin> set (selected w cid))"
  by (auto simp: domain_stored_def selected_def prog_simps split: option.splits json.splits)

lemma root_on:
  assumes "link_laws we lnk" and "hosted we aid cid name" and "domain_stored w cid"
  shows "\<exists>w'. root_enable we (obj (root_component we aid cid)) w = (Inr (), w') \<and> kv w' = kv w \<and>
    lnk w' = (if selected w cid = [] then lnk w else (lnk w)(root_config (selected w cid) := Some (name @ ''.conf'')))"
proof -
  obtain v where v: "kv_get_default (cid @ ''_domain'') JNull w = (Inr v, w)" by (simp add: prog_simps)
  have name: "CHR ''/'' \<notin> set name" using assms(2) by (simp add: hosted_def)
  have f: "\<exists>f. root_of we (obj (root_component we aid cid)) = Inr f \<and> wr_web_name f = name"
    using assms(2) by (auto simp: hosted_def root_of_def root_component_def od_get_def)
  show ?thesis
  proof (cases "selected w cid = []")
    case True
    then show ?thesis using selected_truthy[OF assms(3) v] v f
      by (auto simp: root_enable_def domain_get_def domain_key_def root_component_def for_domain_def p_bind_def p_lift_def p_ret_def)
  next
    case False
    then have d: "v = JStr (selected w cid)" "CHR ''/'' \<notin> set (selected w cid)"
      using selected_truthy[OF assms(3) v] by auto
    then show ?thesis using False v f link_root_eval[OF assms(1) d(2) name, of w]
      by (auto simp: root_enable_def domain_get_def domain_key_def root_component_def for_domain_def p_bind_def p_lift_def)
  qed
qed

lemma root_off:
  assumes "link_laws we lnk" and "domain_stored w cid"
  shows "\<exists>w'. root_disable we (obj (root_component we aid cid)) w = (Inr (), w') \<and> kv w' = kv w \<and>
    lnk w' = (if selected w cid = [] then lnk w else (lnk w)(root_config (selected w cid) := None))"
proof -
  obtain v where v: "kv_get_default (cid @ ''_domain'') JNull w = (Inr v, w)" by (simp add: prog_simps)
  show ?thesis
  proof (cases "selected w cid = []")
    case True
    then show ?thesis using selected_truthy[OF assms(2) v] v
      by (auto simp: root_disable_def domain_get_def domain_key_def root_component_def for_domain_def p_bind_def p_ret_def)
  next
    case False
    then have d: "v = JStr (selected w cid)" "CHR ''/'' \<notin> set (selected w cid)"
      using selected_truthy[OF assms(2) v] by auto
    then show ?thesis using False v unlink_root_eval[OF assms(1) d(2), of w]
      by (auto simp: root_disable_def domain_get_def domain_key_def root_component_def for_domain_def p_bind_def)
  qed
qed

lemma keys_differ [simp]: "cid @ ''_domain'' \<noteq> aid @ ''_enable''" "aid @ ''_enable'' \<noteq> cid @ ''_domain''"
proof -
  have "last (cid @ ''_domain'') \<noteq> last (aid @ ''_enable'')" by simp
  then show "cid @ ''_domain'' \<noteq> aid @ ''_enable''" by metis
  then show "aid @ ''_enable'' \<noteq> cid @ ''_domain''" by metis
qed

lemma selected_kv: "kv v = kv w \<Longrightarrow> selected v cid = selected w cid" "kv v = kv w \<Longrightarrow> domain_stored v cid = domain_stored w cid"
  by (simp_all add: selected_def domain_stored_def)

lemma selected_flag:
  "selected (w\<lparr>kv := od_set (kv w) (aid @ ''_enable'') b\<rparr>) cid = selected w cid"
  "domain_stored (w\<lparr>kv := od_set (kv w) (aid @ ''_enable'') b\<rparr>) cid = domain_stored w cid"
  by (simp_all add: selected_def domain_stored_def odict_simps)

lemma root_vt: "vt_enable (vt (root_component we aid cid)) = root_enable we" "vt_disable (vt (root_component we aid cid)) = root_disable we"
  by (simp_all add: root_component_def webserver_root_vtable_def)

text \<open>The three kinds of steps keep the invariant.\<close>

lemma root_app_enable_inv:
  assumes "link_laws we lnk" and "hosted we aid cid name" and "root_inv lnk aid cid name w"
  shows "root_inv lnk aid cid name (snd (app_enable (root_app we aid cid) w))"
proof -
  have ne: "aid \<noteq> []" using assms(2) by (simp add: hosted_def)
  let ?w = "w\<lparr>kv := od_set (kv w) (aid @ ''_enable'') (JBool True)\<rparr>"
  have st: "domain_stored ?w cid" using assms(3) by (simp add: root_inv_def selected_flag)
  obtain w' where w': "root_enable we (obj (root_component we aid cid)) ?w = (Inr (), w')" "kv w' = kv ?w"
      "lnk w' = (if selected ?w cid = [] then lnk ?w else (lnk ?w)(root_config (selected ?w cid) := Some (name @ ''.conf'')))"
    using root_on[OF assms(1,2) st] by blast
  have "app_enable (root_app we aid cid) w = (Inr (), w')"
    using w'(1) switch_vt(1)[OF ne, of w] by (simp add: app_enable_def root_app_def p_defs root_vt p_ret_def)
  moreover have "lnk ?w = lnk w" using assms(1) by (simp add: link_laws_def)
  moreover have "CHR ''/'' \<notin> set (selected w cid)"
    using assms(3) by (auto simp: root_inv_def domain_stored_def selected_def split: option.splits json.splits)
  ultimately show ?thesis using assms(3) st w'(3) selected_kv[OF w'(2)] flag_kv[OF w'(2), of aid]
    by (auto simp: root_inv_def selected_flag flag_set root_config_inj)
qed

lemma root_app_disable_inv:
  assumes "link_laws we lnk" and "hosted we aid cid name" and "root_inv lnk aid cid name w"
  shows "root_inv lnk aid cid name (snd (app_disable (root_app we aid cid) w))"
proof -
  have ne: "aid \<noteq> []" using assms(2) by (simp add: hosted_def)
  have st: "domain_stored w cid" using assms(3) by (simp add: root_inv_def)
  obtain w1 where w1: "root_disable we (obj (root_component we aid cid)) w = (Inr (), w1)" "kv w1 = kv w"
      "lnk w1 = (if selected w cid = [] then lnk w else (lnk w)(root_config (selected w cid) := None))"
    using root_off[OF assms(1) st] by blast
  let ?w = "w1\<lparr>kv := od_set (kv w1) (aid @ ''_enable'') (JBool False)\<rparr>"
  have "app_disable (root_app we aid cid) w = (Inr (), ?w)"
    using w1(1) switch_vt(2)[OF ne, of w1] by (simp add: app_disable_def root_app_def p_defs root_vt p_ret_def)
  moreover have "lnk ?w = lnk w1" using assms(1) by (simp add: link_laws_def)
  ultimately show ?thesis using assms(3) st w1(3) selected_kv[OF w1(2)]
    by (auto simp: root_inv_def selected_flag flag_set root_config_inj)
qed

lemma domain_set_inv:
  assumes "link_laws we lnk" and "hosted we aid cid name" and "root_inv lnk aid cid name w"
    and "\<And>d. domain = Some d \<Longrightarrow> CHR ''/'' \<notin> set d"
  shows "root_inv lnk aid cid name (snd (domain_set we (obj (root_component we aid cid)) domain w))"
proof -
  let ?obj = "obj (root_component we aid cid)"
  have st: "domain_stored w cid" using assms(3) by (simp add: root_inv_def)
  obtain w1 where w1: "root_disable we ?obj w = (Inr (), w1)" "kv w1 = kv w"
      "lnk w1 = (if selected w cid = [] then lnk w else (lnk w)(root_config (selected w cid) := None))"
    using root_off[OF assms(1) st] by blast
  let ?w = "w1\<lparr>kv := od_set (kv w1) (cid @ ''_domain'') (case domain of None \<Rightarrow> JNull | Some d \<Rightarrow> JStr d)\<rparr>"
  have st': "domain_stored ?w cid" and sel: "selected ?w cid = (case domain of None \<Rightarrow> [] | Some d \<Rightarrow> d)"
    using assms(4) by (auto simp: domain_stored_def selected_def odict_simps split: option.splits)
  have fl: "flag ?w aid = flag w aid" by (simp add: flag_def odict_simps w1(2))
  have clean: "lnk ?w (root_config d) = None" if "CHR ''/'' \<notin> set d" for d
    using assms(1,3) w1(3) that by (auto simp: link_laws_def root_inv_def)
  obtain a where a: "map_of (de_apps (we_daemon we)) aid = Some a" "\<forall>w. app_is_enabled a w = (Inr (flag w aid), w)"
    using assms(2) by (auto simp: hosted_def)
  have "domain_set we ?obj domain w = (if flag ?w aid then root_enable we ?obj ?w else (Inr (), ?w))"
    using w1(1) a by (simp add: domain_set_def p_defs prog_simps domain_key_def root_component_def component_app_def od_get_def)
  moreover obtain w2 where "root_enable we ?obj ?w = (Inr (), w2)" "kv w2 = kv ?w"
      "lnk w2 = (if selected ?w cid = [] then lnk ?w else (lnk ?w)(root_config (selected ?w cid) := Some (name @ ''.conf'')))"
    using root_on[OF assms(1,2) st'] by blast
  ultimately show ?thesis using st' clean selected_kv[of w2 ?w cid] flag_kv[of w2 ?w aid] assms(4) sel
    by (cases "flag ?w aid") (auto simp: root_inv_def root_config_inj split: option.splits)
qed

text \<open>C19: Hosting an app at the root of a domain. Starting with the app disabled and no link, whatever
  the order in which the app is enabled and disabled and other domains are selected for it, the
  include of a domain is a link exactly when the app is enabled and the domain is the selected one,
  and the link is to the configuration of the app: no link of an earlier domain stays behind.\<close>

theorem root_link_follows_domain:
  assumes "link_laws we lnk" and "hosted we aid cid name" and "root_steps we aid cid w0 w"
    and "domain_stored w0 cid" and "\<not> flag w0 aid"
    and "\<forall>d. CHR ''/'' \<notin> set d \<longrightarrow> lnk w0 (root_config d) = None" and "CHR ''/'' \<notin> set d"
  shows "lnk w (root_config d) =
    (if flag w aid \<and> d \<noteq> [] \<and> d = selected w cid then Some (name @ ''.conf'') else None)"
proof -
  have "root_inv lnk aid cid name w" using assms(3)
  proof (induction rule: root_steps.induct)
    case root_start
    then show ?case using assms(4-6) by (simp add: root_inv_def)
  qed (use root_app_enable_inv root_app_disable_inv domain_set_inv assms(1,2) in blast)+
  then show ?thesis using assms(7) by (simp add: root_inv_def)
qed

text \<open>A machine that keeps the links, with an app that is hosted there.\<close>

record link_world = world +
  lw_links :: "(string \<times> string) list"

definition link_files :: "link_world links" where
  "link_files =
     \<lparr>fl_exists = \<lambda>p w. map_of (lw_links w) p \<noteq> None, fl_is_file = \<lambda>_ _. False, fl_is_dir = \<lambda>_ _. False,
      fl_resolve = \<lambda>p _. p, fl_list = \<lambda>_. p_ret [], fl_read = \<lambda>_. p_ret [], fl_write = \<lambda>_ _. p_ret (),
      fl_unlink = \<lambda>p w. if map_of (lw_links w) p = None then (Inl (FileNotFoundError p), w)
                        else (Inr (), w\<lparr>lw_links := od_del (lw_links w) p\<rparr>),
      fl_make_dirs = \<lambda>_. p_ret (), fl_make_dir = \<lambda>_. p_ret (), fl_remove_tree = \<lambda>_. p_ret (),
      fl_chmod = \<lambda>_ _. p_ret (), fl_chown = \<lambda>_ _ _. p_ret (), fl_move = \<lambda>_ _. p_ret (), fl_umask = \<lambda>n. p_ret n,
      lk_is_link = \<lambda>p w. map_of (lw_links w) p \<noteq> None, lk_readlink = \<lambda>_. p_ret [],
      lk_symlink = \<lambda>p t w. (Inr (), w\<lparr>lw_links := od_set (lw_links w) p t\<rparr>), lk_copyfile = \<lambda>_ _. p_ret ()\<rparr>"

definition link_daemon :: "(string \<times> link_world app) list \<Rightarrow> link_world daemon_env" where
  "link_daemon apps =
     \<lparr>de_sys = \<lparr>sh = \<lambda>_ w. (Inr (0, []), w), path_exists = \<lambda>_ _. False, touch_file = \<lambda>_ w. w, unlink_file = \<lambda>_ w. w,
                which = \<lambda>_ _. True\<rparr>, de_apps = apps, de_daemons = [], de_related = [], de_containers = [],
      de_connections = \<lambda>_. p_ret [], de_netcat = \<lambda>_ _ _. p_ret 0\<rparr>"

definition link_env_over :: "(string \<times> link_world app) list \<Rightarrow> link_world web_env" where
  "link_env_over apps =
     \<lparr>we_daemon = link_daemon apps, we_curl = \<lambda>_ _. p_ret (0, []), we_files = link_files, we_webservers = [],
      we_roots = [(''root-ha'', \<lparr>wr_web_name = ''home-assistant'', wr_expect_redirects = False, wr_last_updated_version = 0\<rparr>)],
      we_str = \<lambda>_. []\<rparr>"

definition link_env :: "link_world web_env" where
  "link_env = link_env_over [(''ha'', root_app (link_env_over []) ''ha'' ''root-ha'')]"

lemma link_env_laws: "link_laws link_env (\<lambda>w. map_of (lw_links w))"
  by (auto simp: link_laws_def link_env_def link_env_over_def link_files_def link_daemon_def odict_simps fun_eq_iff)

lemma root_app_flag:
  assumes "aid \<noteq> []"
  shows "app_is_enabled (root_app we aid cid) w = (Inr (flag w aid), w)"
proof -
  have "filter (\<lambda>c. is_leader (obj c)) (od_values (components (root_app we aid cid))) = [switch_component aid]"
    by (simp add: root_app_def switch_component_def root_component_def)
  then show ?thesis using assms
    by (simp add: app_is_enabled_def switch_component_def vtable_defs enable_state_eval flag_def prog_simps)
qed

lemma link_env_hosted: "hosted link_env ''ha'' ''root-ha'' ''home-assistant''"
  by (simp add: hosted_def link_env_def link_env_over_def link_daemon_def root_app_flag)

abbreviation "ha_root \<equiv> obj (root_component link_env ''ha'' ''root-ha'')"

definition link_start :: link_world where
  "link_start = \<lparr>kv = [], module_versions = [], enabled_attr = [], lw_links = []\<rparr>"

definition link_moved :: link_world where
  "link_moved = snd (domain_set link_env ha_root (Some ''b.example'') (snd (domain_set link_env ha_root (Some ''a.example'')
     (snd (app_enable (root_app link_env ''ha'' ''root-ha'') link_start)))))"

lemma link_moved_selected: "flag link_moved ''ha'' \<and> selected link_moved ''root-ha'' = ''b.example''"
  by code_simp

text \<open>After the app has moved from one domain to another only the second has its include.\<close>

theorem root_link_follows_domain_witness:
  "map_of (lw_links link_moved) (root_config ''b.example'') = Some ''home-assistant.conf'' \<and>
   map_of (lw_links link_moved) (root_config ''a.example'') = None"
proof -
  have steps: "root_steps link_env ''ha'' ''root-ha'' link_start link_moved"
    unfolding link_moved_def by (intro root_domain_set root_app_enabled root_app_enabled root_start) auto
  note fol = root_link_follows_domain[OF link_env_laws link_env_hosted steps]
  have "domain_stored link_start ''root-ha''" "\<not> flag link_start ''ha''" "\<forall>d. CHR ''/'' \<notin> set d \<longrightarrow> map_of (lw_links link_start) (root_config d) = None"
    by (simp_all add: domain_stored_def flag_def link_start_def)
  from fol[OF this, of "''b.example''"] fol[OF this, of "''a.example''"] show ?thesis
    using link_moved_selected by simp
qed

section \<open>Addresses\<close>

text \<open>
  The sixth word of a line is the scope only when the address has no broadcast address: the scope
  of this link-local address is not recognised, so the filter of link-local addresses keeps it.
\<close>

lemma brd_line_scope:
  "map_sum (\<lambda>e. e) ad_scope (address_of_line ''2: eth0 inet 169.254.3.4/16 brd 169.254.255.255 scope link eth0'') =
     Inr (Some ''169.254.255.255'')"
  by code_simp

section \<open>Web sites of users\<close>

lemma starts_with_before: "c \<notin> set p \<Longrightarrow> starts_with (u @ c # r) p = starts_with u p"
  by (induction u p rule: starts_with.induct) auto

lemma find_after: "c \<notin> set u \<Longrightarrow> find_str (c # sub) (u @ c # sub @ r) = Some (length u)"
proof (induction u)
  case Nil
  then show ?case by (auto simp: starts_with_iff)
qed auto

lemma find_char: "c \<notin> set u \<Longrightarrow> find_str [c] (u @ c # r) = Some (length u)"
  using find_after[of c u "[]" r] by simp

text \<open>Web sites of users. For a valid user name, the address of the user's web site leads back to
  the user, and so does its directory, except that a user whose name starts with public_html is
  taken for the user without a name.\<close>

theorem user_sites_roundtrip:
  assumes "is_valid_user_name u"
  shows "user_of_uws_url (uws_url_of_user (Some u)) = Some u \<and>
    user_of_uws_directory (uws_directory_of_user (Some u)) = Some (if starts_with u ''public_html'' then [] else u)"
proof
  have u: "CHR ''/'' \<notin> set u" using assms by (simp add: is_valid_user_name_def)
  have "find_str ''/'' (CHR ''~'' # u @ ''/'') = Some (Suc (length u))"
    using find_char[OF u, of "[]"] by simp
  then show "user_of_uws_url (uws_url_of_user (Some u)) = Some u"
    using assms by (simp add: user_of_uws_url_def uws_url_of_user_def user_text_def slice_def)
  have "find_str ''/public_html'' (u @ ''/public_html'') = Some (length u)"
    using find_after[OF u, of "''public_html''" "[]"] by simp
  then have pos: "find_str ''/public_html'' (''/home/'' @ u @ ''/public_html'') =
      Some (if starts_with u ''public_html'' then 5 else 6 + length u)"
    using starts_with_before[of "CHR ''/''" "''public_html''" u "''public_html''"] by simp
  have home: "starts_with (''/home/'' @ u @ ''/public_html'') ''/home/''" by simp
  have cut: "slice (''/home/'' @ u @ ''/public_html'') 6 (if starts_with u ''public_html'' then 5 else 6 + length u) =
      (if starts_with u ''public_html'' then [] else u)"
    by (simp add: slice_def take_Cons' drop_Cons')
  have "is_valid_user_name []" by (simp add: is_valid_user_name_def)
  then have "is_valid_user_name (if starts_with u ''public_html'' then [] else u)" using assms by simp
  then show "user_of_uws_directory (uws_directory_of_user (Some u)) = Some (if starts_with u ''public_html'' then [] else u)"
    unfolding user_of_uws_directory_def uws_directory_of_user_def user_text_def option.case pos
    by (simp only: home if_True Let_def option.case prod.case cut)
qed

theorem user_sites_roundtrip_witness:
  "user_of_uws_url (uws_url_of_user (Some ''tester'')) = Some ''tester'' \<and>
   user_of_uws_directory (uws_directory_of_user (Some ''public_html'')) = Some []"
  using user_sites_roundtrip[of "''tester''"] user_sites_roundtrip[of "''public_html''"]
  by (simp add: is_valid_user_name_def)

end
