(* ===== verification/Users.thy ===== *)
theory Users
  imports Paths Daemon
begin

text \<open>
  Users and groups (plinth/modules/users/privileged.py and components.py): the privileged calls on
  the user directory, who may make them, and the parsing of what the directory's commands print.
  The commands (ldapscripts, ldap-utils, samba), PAM and the file system are parameters.
\<close>

section \<open>Commands\<close>

text \<open>
  \<open>ue_run env cmd input\<close> runs a command with further environment variables and standard input, and
  gives its return code and output; \<open>ue_pam\<close> is the answer of PAM, \<open>ue_owner\<close> is \<open>Path.owner\<close>.
\<close>

record 'w users_env =
  ue_sys :: "'w system"
  ue_run :: "(string \<times> string) list \<Rightarrow> string list \<Rightarrow> string option \<Rightarrow> ('w, nat \<times> string) prog"
  ue_pam :: "string \<Rightarrow> string option \<Rightarrow> ('w, bool) prog"
  ue_files :: "'w files"
  ue_owner :: "string \<Rightarrow> ('w, string) prog"

definition LDAPSCRIPTS_CONF :: string where
  "LDAPSCRIPTS_CONF = ''/etc/ldapscripts/freedombox-ldapscripts.conf''"

definition checked :: "string list \<Rightarrow> ('w, nat \<times> string) prog \<Rightarrow> ('w, string) prog" where
  "checked cmd m =
     p_bind m (\<lambda>(rc, out). if rc \<noteq> 0 then p_raise (CalledProcessError (join_str '' '' cmd)) else p_ret out)"

text \<open>\<open>_run\<close> adds the configuration of ldapscripts to the environment.\<close>

definition ldap_rc :: "'w users_env \<Rightarrow> string list \<Rightarrow> string option \<Rightarrow> ('w, nat \<times> string) prog" where
  "ldap_rc ue cmd input = ue_run ue [(''LDAPSCRIPTS_CONF'', LDAPSCRIPTS_CONF)] cmd input"

definition ldap_run :: "'w users_env \<Rightarrow> string list \<Rightarrow> ('w, string) prog" where
  "ldap_run ue cmd = checked cmd (ldap_rc ue cmd None)"

definition ldap_do :: "'w users_env \<Rightarrow> string list \<Rightarrow> ('w, unit) prog" where
  "ldap_do ue cmd = p_then (ldap_run ue cmd) (p_ret ())"

text \<open>\<open>try: run(...) except CalledProcessError as error: if error.returncode != code: raise\<close>.\<close>

definition tolerate :: "nat \<Rightarrow> string list \<Rightarrow> ('w, nat \<times> string) prog \<Rightarrow> ('w, bool) prog" where
  "tolerate code cmd m =
     p_bind m (\<lambda>(rc, out). if rc = 0 then p_ret True else if rc = code then p_ret False
       else p_raise (CalledProcessError (join_str '' '' cmd)))"

section \<open>Reading the output of commands\<close>

definition admin_search :: "string list" where
  "admin_search = [''ldapsearch'', ''-LLL'', ''-Q'', ''-Y'', ''EXTERNAL'', ''-H'', ''ldapi:///'', ''-o'', ''ldif-wrap=no'',
     ''-s'', ''base'', ''-b'', ''cn=admin,ou=groups,dc=thisbox'', ''memberUid'']"

definition members_of_ldif :: "string \<Rightarrow> string list" where
  "members_of_ldif out =
     map (\<lambda>l. strip_str (drop (length ''memberUid: '') l)) (filter (\<lambda>l. starts_with l ''memberUid: '') (split_lines out))"

definition get_admin_users :: "'w users_env \<Rightarrow> ('w, string list) prog" where
  "get_admin_users ue =
     p_bind (ue_run ue [] admin_search None) (\<lambda>(rc, out).
       if rc = 0 then p_ret (members_of_ldif out)
       else if rc = 32 then p_ret []
       else p_raise (CalledProcessError (join_str '' '' admin_search)))"

definition get_user_ids :: "'w users_env \<Rightarrow> string \<Rightarrow> ('w, string option) prog" where
  "get_user_ids ue username =
     p_bind (ldap_rc ue [''ldapid'', username] None) (\<lambda>(rc, out).
       if rc = 0 then p_ret (Some (strip_str out))
       else if rc = 1 then p_ret None
       else p_raise (CalledProcessError (join_str '' '' [''ldapid'', username])))"

definition user_exists :: "'w users_env \<Rightarrow> string \<Rightarrow> ('w, bool) prog" where
  "user_exists ue username = p_bind (get_user_ids ue username) (\<lambda>ids. p_ret (ids \<noteq> None))"

definition get_group_users :: "'w users_env \<Rightarrow> string \<Rightarrow> ('w, string list) prog" where
  "get_group_users ue groupname =
     p_catch (p_bind (ldap_run ue [''ldapgid'', ''-P'', groupname]) (\<lambda>out.
         let users = split_on (CHR '','') (strip_str (last (split_on (CHR '':'') out)))
         in p_ret (if users = [[]] then [] else users)))
       (\<lambda>e. if is_called_process_error e then p_ret [] else p_raise e)"

lemma tl_dropWhile_short: "length (tl (dropWhile P cs)) < Suc (length cs)"
  using length_dropWhile_le[of P cs] by (simp add: le_imp_less_Suc)

text \<open>\<open>re.findall(r'\(.*?\)', s)\<close> with the parentheses stripped: a match ends at the first closing one.\<close>

definition strip_parens :: "string \<Rightarrow> string" where
  "strip_parens s =
     (let p = (\<lambda>c. c \<in> {CHR ''('', CHR '')''}) in rev (dropWhile p (rev (dropWhile p s))))"

function paren_groups :: "string \<Rightarrow> string list" where
  "paren_groups [] = []"
| "paren_groups (c # cs) =
     (let stop = (\<lambda>x. x = CHR '')'' \<or> x = CHR 0x0A); after = dropWhile (\<lambda>x. \<not> stop x) cs
      in if c = CHR ''('' \<and> after \<noteq> [] \<and> hd after = CHR '')''
         then strip_parens (takeWhile (\<lambda>x. \<not> stop x) cs) # paren_groups (tl after)
         else paren_groups cs)"
  by pat_completeness auto

termination
  by (relation "measure length") (auto simp: tl_dropWhile_short simp del: length_tl)

text \<open>
  \<open>output.split(' ')[2].split('=')[1]\<close>; without an equals sign there are no groups, and \<open>remove\<close> fails
  when \<open>users\<close> is not among the groups.
\<close>

definition groups_of_ids :: "string \<Rightarrow> string list result" where
  "groups_of_ids output =
     (let words = split_on (CHR '' '') output
      in if length words \<le> 2 then Inl (IndexError ''list index out of range'')
         else let parts = split_on (CHR ''='') (words ! 2)
              in if length parts \<le> 1 then Inr []
                 else let names = paren_groups (parts ! 1)
                      in if ''users'' \<in> set names then Inr (remove1 ''users'' names)
                         else Inl (ValueError ''list.remove(x): x not in list''))"

definition get_user_groups :: "'w users_env \<Rightarrow> string \<Rightarrow> ('w, string list) prog" where
  "get_user_groups ue username =
     p_bind (get_user_ids ue username) (\<lambda>ids.
       case ids of None \<Rightarrow> p_ret [] | Some output \<Rightarrow> if output = [] then p_ret [] else p_lift (groups_of_ids output))"

text \<open>\<open>re.findall(r'USER_(.*)\\0', stdout)\<close>: per line, up to the last \<open>\0\<close>.\<close>

definition samba_user_of_line :: "string \<Rightarrow> string list" where
  "samba_user_of_line line =
     (case find_str ''USER_'' line of
        None \<Rightarrow> []
      | Some k \<Rightarrow> (case before_last [CHR 0x5C, CHR ''0''] (drop (k + 5) line) of None \<Rightarrow> [] | Some u \<Rightarrow> [u]))"

definition get_samba_users :: "'w users_env \<Rightarrow> ('w, string list) prog" where
  "get_samba_users ue =
     (let cmd = [''tdbdump'', ''/var/lib/samba/private/passdb.tdb''] in
      p_bind (checked cmd (ue_run ue [] cmd None)) (\<lambda>out.
        p_ret (concat (map samba_user_of_line (split_on (CHR 0x0A) out)))))"

section \<open>Authentication\<close>

definition validate_password :: "'w users_env \<Rightarrow> string \<Rightarrow> string option \<Rightarrow> ('w, unit) prog" where
  "validate_password ue username password =
     p_bind (ue_pam ue username password) (\<lambda>ok.
       if \<not> ok then p_raise (PermissionError ''Invalid credentials'') else p_ret ())"

definition validate_user :: "'w users_env \<Rightarrow> string option \<Rightarrow> string option \<Rightarrow> bool \<Rightarrow> ('w, unit) prog" where
  "validate_user ue username password must_be_admin =
     (let check_password = (case nonempty username of
            [] \<Rightarrow> p_raise (PermissionError ''Authentication user is required'')
          | u # _ \<Rightarrow> validate_password ue u password)
      in if \<not> must_be_admin then check_password
         else p_bind (get_admin_users ue) (\<lambda>admins.
           if admins = [] then p_ret ()
           else case nonempty username of
                  [] \<Rightarrow> p_raise (PermissionError ''Authentication user is required'')
                | u # _ \<Rightarrow> if u \<notin> set admins then p_raise (PermissionError (u @ '' is not authorized to perform this action''))
                          else check_password))"

definition validate_username :: "string \<Rightarrow> unit result" where
  "validate_username username =
     (if all_parts username = [] then Inl (IndexError ''tuple index out of range'')
      else if last (all_parts username) \<noteq> username then Inl (ValueError ''Invalid username'') else Inr ())"

section \<open>Users\<close>

definition flush_cache :: "'w users_env \<Rightarrow> ('w, unit) prog" where
  "flush_cache ue = service_reload (ue_sys ue) ''apache2'' False"

definition disconnect_samba_user :: "'w users_env \<Rightarrow> string \<Rightarrow> ('w, unit) prog" where
  "disconnect_samba_user ue username =
     (let cmd = [''pkill'', ''-U'', username, ''smbd''] in p_then (tolerate 1 cmd (ue_run ue [] cmd None)) (p_ret ()))"

definition samba_do :: "'w users_env \<Rightarrow> string list \<Rightarrow> ('w, unit) prog" where
  "samba_do ue cmd = p_then (checked cmd (ue_run ue [] cmd None)) (p_ret ())"

definition delete_samba_user :: "'w users_env \<Rightarrow> string \<Rightarrow> ('w, unit) prog" where
  "delete_samba_user ue username =
     p_bind (get_samba_users ue) (\<lambda>us.
       if username \<in> set us
       then p_then (samba_do ue [''smbpasswd'', ''-x'', username]) (disconnect_samba_user ue username)
       else p_ret ())"

definition get_user_home :: "'w users_env \<Rightarrow> string \<Rightarrow> ('w, string) prog" where
  "get_user_home ue username =
     (let cmd = [''getent'', ''passwd'', username] in
      p_bind (checked cmd (ue_run ue [] cmd None)) (\<lambda>out.
        let fields = split_on (CHR '':'') out
        in if length fields \<le> 5 then p_raise (IndexError ''list index out of range'') else p_ret (path_str (fields ! 5))))"

definition set_user_password_of :: "'w users_env \<Rightarrow> string \<Rightarrow> string \<Rightarrow> ('w, unit) prog" where
  "set_user_password_of ue username password =
     p_bind (ldap_run ue [''slappasswd'', ''-s'', password]) (\<lambda>out.
       ldap_do ue [''ldapsetpasswd'', username, strip_str out])"

definition set_samba_user :: "'w users_env \<Rightarrow> string \<Rightarrow> string \<Rightarrow> ('w, unit) prog" where
  "set_samba_user ue username password =
     p_bind (ue_run ue [] [''smbpasswd'', ''-a'', ''-s'', username] (Some (password @ [CHR 0x0A] @ password @ [CHR 0x0A])))
       (\<lambda>(rc, out). if rc \<noteq> 0 then p_raise (RuntimeError ''Unable to add Samba user: '') else p_ret ())"

definition create_user :: "'w users_env \<Rightarrow> string \<Rightarrow> string \<Rightarrow> string option \<Rightarrow> string option \<Rightarrow> ('w, unit) prog" where
  "create_user ue username password auth_user auth_password =
     p_then (p_lift (validate_username username))
    (p_then (validate_user ue auth_user auth_password True)
    (p_then (ldap_do ue [''ldapadduser'', username, ''users''])
    (p_then (set_user_password_of ue username password)
    (p_then (flush_cache ue)
            (set_samba_user ue username password)))))"

definition remove_membership :: "'w users_env \<Rightarrow> string \<Rightarrow> string \<Rightarrow> ('w, unit) prog" where
  "remove_membership ue username groupname = ldap_do ue [''ldapdeleteuserfromgroup'', username, groupname]"

text \<open>The home directory goes only when it belongs to the user; an owner without a name is KeyError.\<close>

definition remove_home :: "'w users_env \<Rightarrow> string \<Rightarrow> ('w, unit) prog" where
  "remove_home ue username =
     p_bind (get_user_home ue username) (\<lambda>home.
     p_bind (p_get (fl_is_dir (ue_files ue) home)) (\<lambda>there.
       if \<not> there then p_ret ()
       else p_bind (p_catch (p_bind (ue_owner ue home) (\<lambda>u. p_ret (Some u)))
                     (\<lambda>e. if is_key_error e then p_ret None else p_raise e)) (\<lambda>owner.
            if owner = Some username
            then p_catch (fl_remove_tree (ue_files ue) home) (\<lambda>_. p_ret ()) else p_ret ())))"

definition remove_user :: "'w users_env \<Rightarrow> string \<Rightarrow> string option \<Rightarrow> string option \<Rightarrow> ('w, unit) prog" where
  "remove_user ue username auth_user auth_password =
     p_then (p_lift (validate_username username))
    (p_then (validate_user ue auth_user auth_password True)
    (p_bind (get_user_groups ue username) (\<lambda>groups.
     p_then (delete_samba_user ue username)
    (p_then (p_for (remove_membership ue username) groups)
    (p_then (p_bind (user_exists ue username) (\<lambda>there.
        if there then p_then (remove_home ue username) (ldap_do ue [''ldapdeleteuser'', username]) else p_ret ()))
            (flush_cache ue))))))"

section \<open>Groups\<close>

definition group_exists :: "'w users_env \<Rightarrow> string \<Rightarrow> ('w, bool) prog" where
  "group_exists ue groupname = p_bind (ldap_rc ue [''ldapgid'', groupname] None) (\<lambda>(rc, out). p_ret (rc = 0))"

definition ensure_group :: "'w users_env \<Rightarrow> string \<Rightarrow> ('w, unit) prog" where
  "ensure_group ue groupname =
     p_bind (group_exists ue groupname) (\<lambda>there. if \<not> there then ldap_do ue [''ldapaddgroup'', groupname] else p_ret ())"

definition create_group :: "'w users_env \<Rightarrow> string \<Rightarrow> ('w, unit) prog" where
  "create_group ue groupname = p_then (ensure_group ue groupname) (flush_cache ue)"

definition rename_group :: "'w users_env \<Rightarrow> string \<Rightarrow> string \<Rightarrow> ('w, unit) prog" where
  "rename_group ue old_groupname new_groupname =
     (if old_groupname = ''admin'' \<or> new_groupname = ''admin'' then p_raise (ValueError ''Cannot rename the group admin'')
      else p_bind (group_exists ue old_groupname) (\<lambda>there.
        if there then p_then (ldap_do ue [''ldaprenamegroup'', old_groupname, new_groupname]) (flush_cache ue) else p_ret ()))"

definition remove_group :: "'w users_env \<Rightarrow> string \<Rightarrow> ('w, unit) prog" where
  "remove_group ue groupname =
     (if groupname = ''admin'' then p_raise (ValueError ''Cannot remove the group admin'')
      else p_bind (group_exists ue groupname) (\<lambda>there.
        if there then p_then (ldap_do ue [''ldapdeletegroup'', groupname]) (flush_cache ue) else p_ret ()))"

definition add_membership :: "'w users_env \<Rightarrow> string \<Rightarrow> string \<Rightarrow> ('w, unit) prog" where
  "add_membership ue username groupname =
     p_then (ensure_group ue groupname) (ldap_do ue [''ldapaddusertogroup'', username, groupname])"

definition add_user_to_group :: "'w users_env \<Rightarrow> string \<Rightarrow> string \<Rightarrow> string option \<Rightarrow> string option \<Rightarrow> ('w, unit) prog" where
  "add_user_to_group ue username groupname auth_user auth_password =
     p_then (if groupname = ''admin'' then validate_user ue auth_user auth_password True else p_ret ())
    (p_then (add_membership ue username groupname) (flush_cache ue))"

definition remove_user_from_group ::
  "'w users_env \<Rightarrow> string \<Rightarrow> string \<Rightarrow> string option \<Rightarrow> string option \<Rightarrow> ('w, unit) prog"
where
  "remove_user_from_group ue username groupname auth_user auth_password =
     p_then (if groupname = ''admin'' then validate_user ue auth_user auth_password True else p_ret ())
    (p_then (remove_membership ue username groupname)
    (p_then (flush_cache ue)
            (if groupname = ''freedombox-share'' then disconnect_samba_user ue username else p_ret ())))"

section \<open>Renaming, passwords and status\<close>

text \<open>\<open>Path(p).with_name(name)\<close>: ValueError when either has no proper name.\<close>

definition path_with_name :: "string \<Rightarrow> string \<Rightarrow> string result" where
  "path_with_name p name =
     (if path_name p = [] then Inl (ValueError ''has an empty name'')
      else if name = [] \<or> CHR ''/'' \<in> set name \<or> name = ''.'' then Inl (ValueError ''Invalid name'')
      else Inr (path_of (path_root p) (butlast (path_parts p) @ [name])))"

definition modify_user :: "'w users_env \<Rightarrow> string \<Rightarrow> string list \<Rightarrow> ('w, unit) prog" where
  "modify_user ue username ls =
     (let cmd = [''ldapmodifyuser'', username] in p_then (checked cmd (ldap_rc ue cmd (Some (unlines ls)))) (p_ret ()))"

definition rename_ldap_user :: "'w users_env \<Rightarrow> string \<Rightarrow> string \<Rightarrow> string option \<Rightarrow> ('w, unit) prog" where
  "rename_ldap_user ue old_username new_username new_home =
     p_then (ldap_do ue [''ldaprenameuser'', old_username, new_username])
       (modify_user ue new_username
          ([''changetype: modify'', ''replace: cn'', ''cn: '' @ new_username, ''-'', ''replace: gecos'', ''gecos: '' @ new_username] @
           (case new_home of None \<Rightarrow> [] | Some h \<Rightarrow> [''-'', ''replace: homeDirectory'', ''homeDirectory: '' @ h])))"

definition rename_user :: "'w users_env \<Rightarrow> string \<Rightarrow> string \<Rightarrow> ('w, unit) prog" where
  "rename_user ue old_username new_username =
     p_then (p_lift (validate_username old_username))
    (p_then (p_lift (validate_username new_username))
    (p_bind (get_user_groups ue old_username) (\<lambda>groups.
     p_then (delete_samba_user ue old_username)
    (p_then (p_for (remove_membership ue old_username) groups)
    (p_bind (get_user_home ue old_username) (\<lambda>old_home.
     p_bind (p_lift (path_with_name old_home new_username)) (\<lambda>new_home.
     p_bind (p_get (fl_exists (ue_files ue) new_home)) (\<lambda>taken.
     p_then (if taken then p_ret ()
             else p_bind (p_get (fl_is_dir (ue_files ue) old_home)) (\<lambda>there.
               if there then fl_move (ue_files ue) old_home new_home else p_ret ()))
    (p_then (rename_ldap_user ue old_username new_username (if taken then None else Some new_home))
    (p_then (p_for (add_membership ue new_username) groups)
            (flush_cache ue)))))))))))"

definition set_user_password ::
  "'w users_env \<Rightarrow> string \<Rightarrow> string \<Rightarrow> string option \<Rightarrow> string option \<Rightarrow> ('w, unit) prog"
where
  "set_user_password ue username password auth_user auth_password =
     p_then (validate_user ue auth_user auth_password (Some username \<noteq> auth_user))
    (p_then (set_user_password_of ue username password)
            (set_samba_user ue username password))"

definition lock_ldap_user :: "'w users_env \<Rightarrow> string \<Rightarrow> ('w, unit) prog" where
  "lock_ldap_user ue username =
     p_bind (user_exists ue username) (\<lambda>there.
       if \<not> there then p_ret ()
       else modify_user ue username [''changetype: modify'', ''replace: pwdAccountLockedTime'', ''pwdAccountLockedTime: 000001010000Z''])"

definition unlock_ldap_user :: "'w users_env \<Rightarrow> string \<Rightarrow> ('w, unit) prog" where
  "unlock_ldap_user ue username =
     p_bind (user_exists ue username) (\<lambda>there.
       if \<not> there then p_ret () else modify_user ue username [''changetype: modify'', ''replace: pwdAccountLockedTime''])"

definition kill_processes :: "'w users_env \<Rightarrow> string \<Rightarrow> ('w, unit) prog" where
  "kill_processes ue username =
     p_then (ue_run ue [] [''pkill'', ''--signal'', ''KILL'', ''--uid'', username] None) (p_ret ())"

definition set_user_status ::
  "'w users_env \<Rightarrow> string \<Rightarrow> string \<Rightarrow> string option \<Rightarrow> string option \<Rightarrow> ('w, unit) prog"
where
  "set_user_status ue username status auth_user auth_password =
     (if status \<notin> {''active'', ''inactive''} then p_raise (ValueError ''Invalid status'')
      else p_then (validate_user ue auth_user auth_password True)
          (p_then (if status = ''active'' then unlock_ldap_user ue username else lock_ldap_user ue username)
          (p_bind (get_samba_users ue) (\<lambda>us.
           p_then (if username \<in> set us
                   then samba_do ue [''smbpasswd'', if status = ''active'' then ''-e'' else ''-d'', username] else p_ret ())
          (p_then (flush_cache ue)
                  (if status = ''inactive'' then kill_processes ue username else p_ret ()))))))"

definition upgrade_inactivate_users :: "'w users_env \<Rightarrow> string list \<Rightarrow> ('w, unit) prog" where
  "upgrade_inactivate_users ue usernames =
     p_then (p_for (lock_ldap_user ue) usernames)
    (p_then (flush_cache ue)
            (p_for (kill_processes ue) usernames))"

section \<open>The component\<close>

record users_groups =
  ug_reserved :: "string list"
  ug_groups :: "(string, string) odict"

text \<open>\<open>all_components\<close> is the set of all components, in some order.\<close>

definition get_groups :: "users_groups list \<Rightarrow> string set" where
  "get_groups all_components = set (concat (map (\<lambda>c. od_keys (ug_groups c)) all_components))"

definition is_username_reserved :: "users_groups list \<Rightarrow> string \<Rightarrow> bool" where
  "is_username_reserved all_components username = list_ex (\<lambda>c. username \<in> set (ug_reserved c)) all_components"

text \<open>
  \<open>UsernameValidator\<close> (forms.py): \<open>^[\w.@][\w.@-]+\Z\<close> in ASCII, and at most 150 characters.
\<close>

definition word_char :: "char \<Rightarrow> bool" where
  "word_char c \<longleftrightarrow> c \<in> set ''abcdefghijklmnopqrstuvwxyzABCDEFGHIJKLMNOPQRSTUVWXYZ0123456789_''"

definition valid_form_username :: "string \<Rightarrow> bool" where
  "valid_form_username u \<longleftrightarrow>
     2 \<le> length u \<and> length u \<le> 150 \<and> hd u \<noteq> CHR ''-'' \<and> list_all (\<lambda>c. word_char c \<or> c \<in> set ''.@-'') u"

definition get_last_admin_user :: "'w users_env \<Rightarrow> ('w, string option) prog" where
  "get_last_admin_user ue =
     p_bind (get_group_users ue ''admin'') (\<lambda>us. p_ret (if length us = 1 \<and> hd us \<noteq> [] then Some (hd us) else None))"

end
