(* ===== verification/UsersLaws.thy ===== *)
theory UsersLaws
  imports Users
begin

text \<open>
  Who can change the group of administrators: without the credentials of an administrator no call
  but \<open>rename_user\<close> changes its members, and the calls that ask for credentials then change nothing
  at all; \<open>rename_user\<close> asks for none and can empty the group, after which nobody is asked. The groups
  printed for a user are read back.
\<close>

section \<open>Parsing\<close>

lemma split_on_join:
  assumes "\<forall>l \<in> set ls. c \<notin> set l"
  shows "split_on c (concat (map (\<lambda>l. l @ [c]) ls)) = ls @ [[]]"
  using assms
proof (induction ls)
  case Nil
  then show ?case by simp
next
  case (Cons l ls)
  have "split_on c (l @ c # s) = l # split_on c s" if "c \<notin> set l" for l s
    using that by (induction l) auto
  with Cons show ?case by simp
qed

lemma split_lines_unlines: "\<forall>l \<in> set ls. CHR 0x0A \<notin> set l \<Longrightarrow> split_lines (unlines ls) = ls"
  by (simp add: split_lines_def unlines_def split_on_join)

text \<open>The entry of the group as ldapsearch prints it.\<close>

definition plain_name :: "string \<Rightarrow> bool" where
  "plain_name u \<longleftrightarrow> strip_str u = u \<and> CHR 0x0A \<notin> set u"

definition admin_ldif :: "string list \<Rightarrow> string" where
  "admin_ldif us = unlines (''dn: cn=admin,ou=groups,dc=thisbox'' # map (\<lambda>u. ''memberUid: '' @ u) us @ [[]])"

lemma members_of_admin_ldif: "\<forall>u \<in> set us. plain_name u \<Longrightarrow> members_of_ldif (admin_ldif us) = us"
proof -
  assume us: "\<forall>u \<in> set us. plain_name u"
  have "split_lines (admin_ldif us) = ''dn: cn=admin,ou=groups,dc=thisbox'' # map (\<lambda>u. ''memberUid: '' @ u) us @ [[]]"
    unfolding admin_ldif_def by (rule split_lines_unlines) (use us in \<open>auto simp: plain_name_def\<close>)
  moreover have "filter (\<lambda>l. starts_with l ''memberUid: '') (map (\<lambda>u. ''memberUid: '' @ u) us) = map (\<lambda>u. ''memberUid: '' @ u) us"
    by (simp add: filter_id_conv)
  moreover have "map (\<lambda>u. strip_str (drop (length ''memberUid: '') (''memberUid: '' @ u))) us = us"
    using us by (intro map_idI) (simp add: plain_name_def)
  ultimately show ?thesis by (simp add: members_of_ldif_def comp_def)
qed

section \<open>What the directory promises\<close>

text \<open>The commands that can change the members of the group of administrators.\<close>

definition touches_admin :: "string list \<Rightarrow> bool" where
  "touches_admin cmd \<longleftrightarrow>
     cmd = [] \<or> hd cmd \<in> {''ldapadd'', ''ldapmodify'', ''ldapdeleteuser''} \<or>
     (hd cmd \<in> {''ldapaddusertogroup'', ''ldapdeleteuserfromgroup''} \<and> last cmd = ''admin'') \<or>
     (hd cmd \<in> {''ldaprenamegroup'', ''ldapdeletegroup''} \<and> ''admin'' \<in> set (tl cmd))"

text \<open>
  \<open>mem\<close> reads the members of the group of administrators. A search prints them, PAM only answers, and
  no other command, reload or change of files changes them.
\<close>

definition directory_laws :: "'w users_env \<Rightarrow> ('w \<Rightarrow> string set) \<Rightarrow> bool" where
  "directory_laws ue mem \<longleftrightarrow>
     (\<forall>w. \<exists>us. (\<forall>u \<in> set us. plain_name u) \<and> set us = mem w \<and>
        (ue_run ue [] admin_search None w = (Inr (0, admin_ldif us), w) \<or>
         (us = [] \<and> ue_run ue [] admin_search None w = (Inr (32, []), w)))) \<and>
     (\<forall>u p w. \<exists>b. ue_pam ue u p w = (Inr b, w)) \<and>
     (\<forall>env cmd input w. \<not> touches_admin cmd \<longrightarrow> mem (snd (ue_run ue env cmd input w)) = mem w) \<and>
     (\<forall>cmd w. mem (snd (sh (ue_sys ue) cmd w)) = mem w) \<and>
     (\<forall>p w. mem (snd (fl_remove_tree (ue_files ue) p w)) = mem w \<and> mem (snd (ue_owner ue p w)) = mem w)"

lemma admin_users_eval: "directory_laws ue mem \<Longrightarrow> \<exists>us. get_admin_users ue w = (Inr us, w) \<and> set us = mem w"
proof -
  assume "directory_laws ue mem"
  then obtain us where us: "\<forall>u \<in> set us. plain_name u" "set us = mem w"
      "ue_run ue [] admin_search None w = (Inr (0, admin_ldif us), w) \<or>
       (us = [] \<and> ue_run ue [] admin_search None w = (Inr (32, []), w))"
    unfolding directory_laws_def by blast
  then show ?thesis using members_of_admin_ldif[OF us(1)]
    by (auto simp: get_admin_users_def p_bind_def p_ret_def)
qed

definition bad_credentials :: "'w users_env \<Rightarrow> ('w \<Rightarrow> string set) \<Rightarrow> 'w \<Rightarrow> string option \<Rightarrow> string option \<Rightarrow> bool" where
  "bad_credentials ue mem w auth_user auth_password \<longleftrightarrow>
     (\<forall>u \<in> set (nonempty auth_user). u \<notin> mem w \<or> fst (ue_pam ue u auth_password w) = Inr False)"

lemma validate_refuses:
  assumes "directory_laws ue mem" and "mem w \<noteq> {}" and "bad_credentials ue mem w au ap"
  shows "\<exists>m. validate_user ue au ap True w = (Inl (PermissionError m), w)"
proof -
  obtain us where us: "get_admin_users ue w = (Inr us, w)" "set us = mem w" using admin_users_eval[OF assms(1)] by blast
  have ne: "us \<noteq> []" using us(2) assms(2) by auto
  show ?thesis
  proof (cases "nonempty au")
    case Nil
    then show ?thesis using us ne by (simp add: validate_user_def p_bind_def p_raise_def)
  next
    case (Cons u rest)
    have pam: "\<exists>b. ue_pam ue u ap w = (Inr b, w)" using assms(1) unfolding directory_laws_def by blast
    then show ?thesis using us ne Cons assms(3)
      by (auto simp: validate_user_def validate_password_def bad_credentials_def p_bind_def p_raise_def)
  qed
qed

section \<open>The calls\<close>

datatype users_call =
    Create_user string string "string option" "string option"
  | Remove_user string "string option" "string option"
  | Set_user_password string string "string option" "string option"
  | Set_user_status string string "string option" "string option"
  | Add_user_to_group string string "string option" "string option"
  | Remove_user_from_group string string "string option" "string option"
  | Create_group string
  | Rename_group string string
  | Remove_group string
  | Get_user_groups string
  | Get_group_users string

primrec users_call_run :: "'w users_env \<Rightarrow> users_call \<Rightarrow> ('w, unit) prog" where
  "users_call_run ue (Create_user u p au ap) = create_user ue u p au ap"
| "users_call_run ue (Remove_user u au ap) = remove_user ue u au ap"
| "users_call_run ue (Set_user_password u p au ap) = set_user_password ue u p au ap"
| "users_call_run ue (Set_user_status u s au ap) = set_user_status ue u s au ap"
| "users_call_run ue (Add_user_to_group u g au ap) = add_user_to_group ue u g au ap"
| "users_call_run ue (Remove_user_from_group u g au ap) = remove_user_from_group ue u g au ap"
| "users_call_run ue (Create_group g) = create_group ue g"
| "users_call_run ue (Rename_group g h) = rename_group ue g h"
| "users_call_run ue (Remove_group g) = remove_group ue g"
| "users_call_run ue (Get_user_groups u) = p_then (get_user_groups ue u) (p_ret ())"
| "users_call_run ue (Get_group_users g) = p_then (get_group_users ue g) (p_ret ())"

primrec call_credentials :: "users_call \<Rightarrow> string option \<times> string option" where
  "call_credentials (Create_user u p au ap) = (au, ap)"
| "call_credentials (Remove_user u au ap) = (au, ap)"
| "call_credentials (Set_user_password u p au ap) = (au, ap)"
| "call_credentials (Set_user_status u s au ap) = (au, ap)"
| "call_credentials (Add_user_to_group u g au ap) = (au, ap)"
| "call_credentials (Remove_user_from_group u g au ap) = (au, ap)"
| "call_credentials (Create_group g) = (None, None)"
| "call_credentials (Rename_group g h) = (None, None)"
| "call_credentials (Remove_group g) = (None, None)"
| "call_credentials (Get_user_groups u) = (None, None)"
| "call_credentials (Get_group_users g) = (None, None)"

text \<open>The calls for administrators; a user may change the own password.\<close>

fun needs_admin :: "users_call \<Rightarrow> bool" where
  "needs_admin (Create_user u p au ap) = True"
| "needs_admin (Remove_user u au ap) = True"
| "needs_admin (Set_user_password u p au ap) = (Some u \<noteq> au)"
| "needs_admin (Set_user_status u s au ap) = True"
| "needs_admin (Add_user_to_group u g au ap) = (g = ''admin'')"
| "needs_admin (Remove_user_from_group u g au ap) = (g = ''admin'')"
| "needs_admin c = False"

lemma needs_admin_refused:
  assumes "directory_laws ue mem" and "mem w \<noteq> {}"
    and "bad_credentials ue mem w (fst (call_credentials c)) (snd (call_credentials c))" and "needs_admin c"
  shows "\<exists>e. users_call_run ue c w = (Inl e, w)"
proof -
  obtain m where m: "validate_user ue (fst (call_credentials c)) (snd (call_credentials c)) True w = (Inl (PermissionError m), w)"
    using validate_refuses[OF assms(1-3)] by blast
  show ?thesis
    using m assms(4)
    by (cases c rule: needs_admin.cases)
      (auto simp: create_user_def remove_user_def set_user_password_def set_user_status_def add_user_to_group_def
        remove_user_from_group_def p_defs p_raise_def p_lift_def split: sum.split)
qed

text \<open>The other calls run no command that changes the administrators.\<close>

locale user_directory =
  fixes ue :: "'w users_env"
    and mem :: "'w \<Rightarrow> string set"
  assumes laws: "directory_laws ue mem"
begin

lemma keeps_cmd: "\<not> touches_admin cmd \<Longrightarrow> p_keeps (\<lambda>w. mem w = A) (ue_run ue env cmd input)"
  using laws unfolding p_keeps_def directory_laws_def by blast

lemma keeps_reads:
  "p_keeps (\<lambda>w. mem w = A) (ue_pam ue u p)" "p_keeps (\<lambda>w. mem w = A) (get_admin_users ue)"
  "p_keeps (\<lambda>w. mem w = A) (flush_cache ue)"
proof -
  have "ue_pam ue u p w = (Inr True, w) \<or> ue_pam ue u p w = (Inr False, w)" for w
    using laws unfolding directory_laws_def by (metis (full_types))
  then show "p_keeps (\<lambda>w. mem w = A) (ue_pam ue u p)" unfolding p_keeps_def by (metis snd_conv)
  have "\<exists>us. get_admin_users ue w = (Inr us, w)" for w using admin_users_eval[OF laws] by blast
  then show "p_keeps (\<lambda>w. mem w = A) (get_admin_users ue)" unfolding p_keeps_def by (metis snd_conv)
  have "p_keeps (\<lambda>w. mem w = A) (sh (ue_sys ue) cmd)" for cmd
    using laws unfolding p_keeps_def directory_laws_def by blast
  then show "p_keeps (\<lambda>w. mem w = A) (flush_cache ue)"
    unfolding flush_cache_def service_reload_def service_action_def run_ok_def run_command_def by (intro keeps_intros)
qed

lemmas keeps_unfold = ldap_rc_def ldap_run_def ldap_do_def checked_def tolerate_def samba_do_def modify_user_def
  get_user_ids_def user_exists_def group_exists_def

lemma keeps_call:
  assumes "\<not> needs_admin c"
  shows "p_keeps (\<lambda>w. mem w = A) (users_call_run ue c)"
  using assms
  by (cases c rule: needs_admin.cases)
    (auto simp: set_user_password_def set_user_password_of_def set_samba_user_def validate_user_def validate_password_def
      add_user_to_group_def add_membership_def remove_user_from_group_def remove_membership_def ensure_group_def create_group_def
      rename_group_def remove_group_def get_user_groups_def get_group_users_def disconnect_samba_user_def keeps_unfold Let_def
      touches_admin_def intro!: keeps_intros keeps_cmd keeps_reads)

end


section \<open>A rename that fails\<close>

text \<open>
  Adding and removing members, and what \<open>rename_user\<close> finds when the new name belongs to another user
  with a home directory: the old user is an administrator without a Samba account, and the command
  that renames fails.
\<close>

definition membership_laws :: "'w users_env \<Rightarrow> ('w \<Rightarrow> string set) \<Rightarrow> string set \<Rightarrow> bool" where
  "membership_laws ue mem users \<longleftrightarrow>
     (\<forall>u \<in> users. \<forall>w. \<exists>out w'. ldap_rc ue [''ldapdeleteuserfromgroup'', u, ''admin''] None w = (Inr (0, out), w') \<and> mem w' = mem w - {u}) \<and>
     (\<forall>u \<in> users. \<forall>w. \<exists>out w'. ldap_rc ue [''ldapaddusertogroup'', u, ''admin''] None w = (Inr (0, out), w') \<and> mem w' = insert u (mem w)) \<and>
     (\<forall>w. \<exists>out. ldap_rc ue [''ldapgid'', ''admin''] None w = (Inr (0, out), w)) \<and>
     (\<forall>w. \<exists>rc out. sh (ue_sys ue) [''systemctl'', ''reload'', ''apache2''] w = (Inr (rc, out), w))"

definition name_taken :: "'w users_env \<Rightarrow> string \<Rightarrow> string \<Rightarrow> bool" where
  "name_taken ue old new \<longleftrightarrow>
     validate_username old = Inr () \<and> validate_username new = Inr () \<and>
     (\<forall>w. get_samba_users ue w = (Inr [], w)) \<and>
     (\<exists>home taken. (\<forall>w. get_user_home ue old w = (Inr home, w)) \<and> path_with_name home new = Inr taken \<and>
        (\<forall>w. fl_exists (ue_files ue) taken w)) \<and>
     (\<forall>w. \<exists>rc out. rc \<noteq> 0 \<and> ldap_rc ue [''ldaprenameuser'', old, new] None w = (Inr (rc, out), w))"

lemma add_admin_unasked:
  assumes "directory_laws ue mem" and "membership_laws ue mem users" and "c \<in> users" and "mem w = {}"
  shows "\<exists>w'. add_user_to_group ue c ''admin'' None None w = (Inr (), w') \<and> mem w' = {c}"
proof -
  obtain us where "get_admin_users ue w = (Inr us, w)" "set us = mem w" using admin_users_eval[OF assms(1)] by blast
  then have v: "validate_user ue None None True w = (Inr (), w)" using assms(4) by (simp add: validate_user_def p_bind_def p_ret_def)
  obtain out where "ldap_rc ue [''ldapgid'', ''admin''] None w = (Inr (0, out), w)"
    using assms(2) unfolding membership_laws_def by blast
  then have g: "ensure_group ue ''admin'' w = (Inr (), w)" by (simp add: ensure_group_def group_exists_def p_bind_def p_ret_def)
  obtain out' w1 where "ldap_rc ue [''ldapaddusertogroup'', c, ''admin''] None w = (Inr (0, out'), w1)" and m: "mem w1 = insert c (mem w)"
    using assms(2,3) unfolding membership_laws_def by blast
  then have a: "ldap_do ue [''ldapaddusertogroup'', c, ''admin''] w = (Inr (), w1)"
    by (simp add: ldap_do_def ldap_run_def checked_def p_defs p_ret_def)
  obtain rc out'' where "sh (ue_sys ue) [''systemctl'', ''reload'', ''apache2''] w1 = (Inr (rc, out''), w1)"
    using assms(2) unfolding membership_laws_def by blast
  then have "flush_cache ue w1 = (Inr (), w1)"
    by (simp add: flush_cache_def service_reload_def service_action_def run_ok_def run_command_def p_defs p_ret_def ends_with_def)
  then show ?thesis using v g a m assms(4) by (simp add: add_user_to_group_def add_membership_def p_defs)
qed


section \<open>A directory of two users\<close>

text \<open>The state says whether alice and whether mallory is an administrator.\<close>

definition two_admins :: "bool \<times> bool \<Rightarrow> string list" where
  "two_admins w = (if fst w then [''alice''] else []) @ (if snd w then [''mallory''] else [])"

definition set_admin :: "string \<Rightarrow> bool \<Rightarrow> bool \<times> bool \<Rightarrow> bool \<times> bool" where
  "set_admin u b w = (if u = ''alice'' then b else fst w, if u = ''mallory'' then b else snd w)"

definition two_run :: "string list \<Rightarrow> (bool \<times> bool, nat \<times> string) prog" where
  "two_run cmd w =
     (if cmd = admin_search then (Inr (0, admin_ldif (two_admins w)), w)
      else case cmd of
        [a, u] \<Rightarrow> (Inr (0, if a = ''ldapid'' then ''uid=10000('' @ u @ '') gid=100(users) groups=100(users)'' @
                          (if u \<in> set (two_admins w) then '',10001(admin)'' else []) else []), w)
      | [a, u, g] \<Rightarrow>
          if a = ''ldaprenameuser'' then (Inr (1, []), w)
          else if a = ''getent'' then (Inr (0, g @ '':x:10000:100::/home/'' @ g @ '':/bin/bash''), w)
          else if a = ''ldapaddusertogroup'' \<and> g = ''admin'' then (Inr (0, []), set_admin u True w)
          else if a = ''ldapdeleteuserfromgroup'' \<and> g = ''admin'' then (Inr (0, []), set_admin u False w)
          else (Inr (0, []), w)
      | _ \<Rightarrow> (Inr (0, []), w))"

definition two_files :: "(bool \<times> bool) files" where
  "two_files =
     \<lparr>fl_exists = \<lambda>_ _. True, fl_is_file = \<lambda>_ _. False, fl_is_dir = \<lambda>_ _. True, fl_resolve = \<lambda>p _. p,
      fl_list = \<lambda>_. p_ret [], fl_read = \<lambda>_. p_ret [], fl_write = \<lambda>_ _. p_ret (), fl_unlink = \<lambda>_. p_ret (),
      fl_make_dirs = \<lambda>_. p_ret (), fl_make_dir = \<lambda>_. p_ret (), fl_remove_tree = \<lambda>_. p_ret (),
      fl_chmod = \<lambda>_ _. p_ret (), fl_chown = \<lambda>_ _ _. p_ret (), fl_move = \<lambda>_ _. p_ret (), fl_umask = \<lambda>n. p_ret n\<rparr>"

definition two_env :: "(bool \<times> bool) users_env" where
  "two_env =
     \<lparr>ue_sys = \<lparr>sh = \<lambda>_. p_ret (0, []), path_exists = \<lambda>_ _. False, touch_file = \<lambda>_ w. w, unlink_file = \<lambda>_ w. w, which = \<lambda>_ _. True\<rparr>,
      ue_run = \<lambda>_ cmd _. two_run cmd, ue_pam = \<lambda>u p. p_ret (p = Some (u @ ''-secret'')), ue_files = two_files,
      ue_owner = \<lambda>_. p_ret ''alice''\<rparr>"

lemma two_admins_plain: "\<forall>u \<in> set (two_admins w). plain_name u"
  by (auto simp: two_admins_def plain_name_def strip_str_def)

lemma admin_search_touches: "\<not> touches_admin admin_search"
  by (simp add: touches_admin_def admin_search_def)

lemma two_run_frame: "\<not> touches_admin cmd \<Longrightarrow> snd (two_run cmd w) = w"
proof (cases "\<exists>a u g. cmd = [a, u, g]")
  case True
  assume keep: "\<not> touches_admin cmd"
  from True obtain a u g where cmd: "cmd = [a, u, g]" by blast
  have "g = ''admin'' \<Longrightarrow> a \<noteq> ''ldapaddusertogroup'' \<and> a \<noteq> ''ldapdeleteuserfromgroup''"
    using keep by (auto simp: cmd touches_admin_def)
  moreover have "[a, u, g] \<noteq> admin_search" by (simp add: admin_search_def)
  ultimately show ?thesis unfolding cmd two_run_def
    by (cases "a = ''ldaprenameuser''"; cases "a = ''getent''"; cases "g = ''admin''") (simp_all cong: if_weak_cong)
next
  case False
  then show ?thesis by (simp add: two_run_def split: list.split)
qed

lemma two_env_laws: "directory_laws two_env (\<lambda>w. set (two_admins w))"
proof -
  have "two_run admin_search w = (Inr (0, admin_ldif (two_admins w)), w)" for w by (simp add: two_run_def)
  then have "\<exists>us. (\<forall>u \<in> set us. plain_name u) \<and> set us = set (two_admins w) \<and> ue_run two_env [] admin_search None w = (Inr (0, admin_ldif us), w)" for w
    using two_admins_plain[of w] by (intro exI[of _ "two_admins w"]) (simp add: two_env_def)
  then have "\<forall>w. \<exists>us. (\<forall>u \<in> set us. plain_name u) \<and> set us = set (two_admins w) \<and>
      (ue_run two_env [] admin_search None w = (Inr (0, admin_ldif us), w) \<or> us = [] \<and> ue_run two_env [] admin_search None w = (Inr (32, []), w))"
    by metis
  then show ?thesis unfolding directory_laws_def by (simp add: two_env_def two_files_def p_ret_def two_run_frame)
qed

interpretation two_dir: user_directory two_env "\<lambda>w. set (two_admins w)"
  by unfold_locales (rule two_env_laws)


lemma two_env_membership: "membership_laws two_env (\<lambda>w. set (two_admins w)) {''alice'', ''mallory''}"
  by (auto simp: membership_laws_def two_env_def ldap_rc_def two_run_def set_admin_def two_admins_def admin_search_def p_ret_def)

lemma two_env_taken: "name_taken two_env ''alice'' ''mallory''"
proof -
  have home: "get_user_home two_env ''alice'' w = (Inr ''/home/alice'', w)" for w
    by (simp add: get_user_home_def two_env_def two_run_def admin_search_def checked_def p_bind_def p_ret_def path_str_def
        path_of_def path_root_def path_parts_def Let_def)
  have taken: "path_with_name ''/home/alice'' ''mallory'' = Inr ''/home/mallory''" by code_simp
  have names: "validate_username ''alice'' = Inr ()" "validate_username ''mallory'' = Inr ()" by code_simp+
  have samba: "get_samba_users two_env w = (Inr [], w)" for w
    by (simp add: get_samba_users_def two_env_def two_run_def admin_search_def checked_def p_bind_def p_ret_def Let_def
        samba_user_of_line_def)
  have ren: "ldap_rc two_env [''ldaprenameuser'', ''alice'', ''mallory''] None w = (Inr (1, []), w)" for w
    by (simp add: ldap_rc_def two_env_def two_run_def admin_search_def)
  show ?thesis unfolding name_taken_def
    using home taken names samba ren by (auto simp: two_env_def two_files_def)
qed


end
