(* ===== verification/Upgrades.thy ===== *)
theory Upgrades
  imports Webserver Notifications Paths
begin

text \<open>
  Software updates and distribution upgrades (plinth/modules/upgrades): the checks and the decision
  to upgrade, the upgrade of the distribution, its notifications, the sources and preferences of apt
  for backports and unstable, and the app's set-up. Augeas, snapper, df, lsb_release and the other
  commands are parameters.
\<close>

section \<open>The machine\<close>

text \<open>
  \<open>uv_distributions\<close> reads, with Augeas, the distribution of every entry of sources.list (comments have
  none); \<open>uv_save_new\<close> is \<open>save\<close> into sources.list.augnew after they were set. \<open>uv_input\<close> runs a command with
  standard input and \<open>uv_spawn\<close> starts one without waiting. \<open>uv_apt_flag\<close> is DISABLE_APT_SNAPSHOT of
  snapper's defaults, \<open>uv_tor_transport\<close> asks the Tor proxy app, \<open>uv_now\<close> is the time in UTC.
\<close>

record 'w upgrades_env =
  uv_web :: "'w web_env"
  uv_files :: "'w files"
  uv_notify :: "'w notify_env"
  uv_distributions :: "'w \<Rightarrow> string option list"
  uv_save_new :: "string option list \<Rightarrow> ('w, unit) prog"
  uv_source_dists :: "'w \<Rightarrow> string list"
  uv_input :: "string list \<Rightarrow> string \<Rightarrow> ('w, nat \<times> string) prog"
  uv_spawn :: "string list \<Rightarrow> ('w, unit) prog"
  uv_filesystem :: "('w, string) prog"
  uv_root_inode :: "'w \<Rightarrow> nat"
  uv_apt_flag :: "'w \<Rightarrow> string option"
  uv_tor_transport :: "('w, bool) prog"
  uv_now :: "'w \<Rightarrow> datetime"
  uv_local_hour :: "'w \<Rightarrow> nat"
  uv_version :: string
  uv_develop :: bool

abbreviation uv_sys :: "('w, 'z) upgrades_env_scheme \<Rightarrow> 'w system" where
  "uv_sys u \<equiv> de_sys (we_daemon (uv_web u))"

section \<open>Checks\<close>

text \<open>\<open>re.match(r"UpdateInterval='(.*)'", output)\<close>: up to the last quote of the first line.\<close>

definition update_interval :: "string \<Rightarrow> int result" where
  "update_interval output =
     (let start = ''UpdateInterval='' @ [CHR 0x27]
      in if \<not> starts_with output start then Inr 0
         else case before_last [CHR 0x27] (takeWhile (\<lambda>c. c \<noteq> CHR 0x0A) (drop (length start) output)) of
                None \<Rightarrow> Inr 0 | Some n \<Rightarrow> python_int n)"

definition utils_check_auto :: "('w, 'z) upgrades_env_scheme \<Rightarrow> ('w, bool) prog" where
  "utils_check_auto u =
     p_bind (run_command (uv_sys u) [''apt-config'', ''shell'', ''UpdateInterval'', ''APT::Periodic::Update-Package-Lists''] True)
       (\<lambda>out. p_bind (p_lift (update_interval out)) (\<lambda>n. p_ret (n \<noteq> 0)))"

definition get_http_protocol :: "('w, 'z) upgrades_env_scheme \<Rightarrow> ('w, string) prog" where
  "get_http_protocol u =
     p_catch (p_bind (uv_tor_transport u) (\<lambda>b. p_ret (if b then ''tor+http'' else ''http''))) (\<lambda>_. p_ret ''http'')"

definition is_release_file_available :: "('w, 'z) upgrades_env_scheme \<Rightarrow> string \<Rightarrow> string \<Rightarrow> bool \<Rightarrow> ('w, bool) prog" where
  "is_release_file_available u protocol dist backports =
     p_catch (check_url (uv_web u)
         (''https://deb.debian.org/debian/dists/'' @ dist @ (if backports then ''-backports'' else []) @ ''/Release'')
         None None True [] (if protocol = ''tor+http'' then Some ''torsocks'' else None) None)
       (\<lambda>e. if is_file_not_found e then p_ret False else p_raise e)"

definition is_sufficient_free_space :: "('w, 'z) upgrades_env_scheme \<Rightarrow> ('w, bool) prog" where
  "is_sufficient_free_space u =
     p_bind (run_command (uv_sys u) [''df'', ''--output=avail'', ''/''] True) (\<lambda>out.
       let ls = split_on (CHR 0x0A) out
       in if length ls \<le> 1 then p_raise (IndexError ''list index out of range'')
          else p_bind (p_lift (python_int (ls ! 1))) (\<lambda>n. p_ret (n \<ge> 5000000)))"

definition remove_suffix :: "string \<Rightarrow> string \<Rightarrow> string" where
  "remove_suffix suffix s = (if ends_with s suffix \<and> suffix \<noteq> [] then take (length s - length suffix) s else s)"

definition base_dist :: "string \<Rightarrow> string" where
  "base_dist d = remove_suffix ''-security'' (remove_suffix ''-updates'' d)"

text \<open>The set \<open>dists\<close> and what is concluded from it.\<close>

definition codename_of :: "string option list \<Rightarrow> string option" where
  "codename_of entries =
     (let dists = remdups (map base_dist (concat (map nonempty entries)))
      in if ''unstable'' \<in> set dists \<or> ''sid'' \<in> set dists then Some ''unstable''
         else if ''testing'' \<in> set dists then Some ''testing''
         else case dists of [d] \<Rightarrow> Some d | _ \<Rightarrow> None)"

definition get_sources_list_codename :: "('w, 'z) upgrades_env_scheme \<Rightarrow> ('w, string option) prog" where
  "get_sources_list_codename u = p_get (\<lambda>w. codename_of (uv_distributions u w))"

definition get_current_release :: "('w, 'z) upgrades_env_scheme \<Rightarrow> ('w, string \<times> string) prog" where
  "get_current_release u =
     p_bind (run_command (uv_sys u) [''lsb_release'', ''--release'', ''--codename'', ''--short''] True) (\<lambda>out.
       case split_on (CHR 0x0A) (strip_str out) of
         rel # dist # _ \<Rightarrow> p_ret (rel, dist)
       | _ \<Rightarrow> p_raise (IndexError ''list index out of range''))"

definition is_distribution_unstable :: "('w, 'z) upgrades_env_scheme \<Rightarrow> ('w, bool) prog" where
  "is_distribution_unstable u =
     p_bind (get_sources_list_codename u) (\<lambda>c. p_ret (c \<in> {Some ''unstable'', Some ''sid''}))"

definition is_distribution_rolling :: "('w, 'z) upgrades_env_scheme \<Rightarrow> ('w, bool) prog" where
  "is_distribution_rolling u =
     p_bind (get_current_release u) (\<lambda>(rel, _). p_ret (rel \<in> {''unstable'', ''testing'', ''n/a''}))"

section \<open>Whether to upgrade\<close>

record distribution =
  ds_version :: "int option"
  ds_next :: "string option"
  ds_release_date :: "datetime option"

definition midnight :: "nat \<Rightarrow> nat \<Rightarrow> nat \<Rightarrow> datetime" where
  "midnight y m d = \<lparr>year = y, month = m, day = d, hour = 0, minute = 0, second = 0, microsecond = 0\<rparr>"

definition distribution_info :: "(string, distribution) odict" where
  "distribution_info =
     [(''bullseye'', \<lparr>ds_version = Some 11, ds_next = Some ''bookworm'', ds_release_date = Some (midnight 2021 8 14)\<rparr>),
      (''bookworm'', \<lparr>ds_version = Some 12, ds_next = Some ''trixie'', ds_release_date = Some (midnight 2023 6 10)\<rparr>),
      (''trixie'', \<lparr>ds_version = Some 13, ds_next = Some ''forky'', ds_release_date = Some (midnight 2025 8 9)\<rparr>),
      (''forky'', \<lparr>ds_version = Some 14, ds_next = Some ''duke'', ds_release_date = None\<rparr>),
      (''duke'', \<lparr>ds_version = Some 15, ds_next = None, ds_release_date = None\<rparr>),
      (''testing'', \<lparr>ds_version = None, ds_next = None, ds_release_date = None\<rparr>),
      (''unstable'', \<lparr>ds_version = None, ds_next = None, ds_release_date = None\<rparr>)]"

definition days :: "int \<Rightarrow> int" where
  "days n = seconds (n * 86400)"

text \<open>The date of the next action is kept in microseconds.\<close>

record upgrade_status =
  us_updates_enabled :: bool
  us_dist_upgrade_enabled :: json
  us_has_free_space :: bool
  us_running :: bool
  us_current_codename :: "string option"
  us_current_version :: "int option"
  us_current_release_date :: "datetime option"
  us_next_codename :: "string option"
  us_next_version :: "int option"
  us_next_release_date :: "datetime option"
  us_next_action :: "string option"
  us_next_action_date :: "int option"

text \<open>The decision, from the four checks, the name in sources.list, the name in base-files and the time.\<close>

definition status_without_action :: "bool \<Rightarrow> json \<Rightarrow> bool \<Rightarrow> bool \<Rightarrow> string option \<Rightarrow> upgrade_status" where
  "status_without_action updates enabled space running cname =
     \<lparr>us_updates_enabled = updates, us_dist_upgrade_enabled = enabled, us_has_free_space = space, us_running = running,
      us_current_codename = cname, us_current_version = None, us_current_release_date = None, us_next_codename = None,
      us_next_version = None, us_next_release_date = None, us_next_action = None, us_next_action_date = None\<rparr>"

definition next_action :: "upgrade_status \<Rightarrow> string \<Rightarrow> int \<Rightarrow> string option" where
  "next_action st base_files now =
     (if us_running st then None
      else if Some base_files = us_next_codename st then Some ''continue''
      else if us_next_release_date st = None \<or> \<not> us_updates_enabled st \<or> \<not> truthy (us_dist_upgrade_enabled st) \<or>
              \<not> us_has_free_space st then None
      else if now \<ge> the (us_next_action_date st) then Some ''ready''
      else if now < microseconds (the (us_next_release_date st)) then Some ''manual''
      else Some ''wait_or_manual'')"

definition next_distribution :: "distribution \<Rightarrow> distribution result" where
  "next_distribution d =
     (case nonempty (ds_next d) of
        [] \<Rightarrow> Inr \<lparr>ds_version = None, ds_next = None, ds_release_date = None\<rparr>
      | n # _ \<Rightarrow> od_get distribution_info n)"

definition decide_status :: "upgrade_status \<Rightarrow> string \<Rightarrow> int \<Rightarrow> upgrade_status result" where
  "decide_status st base_files now =
     (let current = (if us_current_codename st = Some ''stable'' then base_files else the (us_current_codename st))
      in case map_of distribution_info current of
           None \<Rightarrow> Inr st
         | Some d \<Rightarrow>
             r_bind (next_distribution d) (\<lambda>nd.
             let st' = st\<lparr>us_current_codename := Some current, us_current_version := ds_version d,
                   us_current_release_date := ds_release_date d, us_next_codename := ds_next d,
                   us_next_version := ds_version nd, us_next_release_date := ds_release_date nd,
                   us_next_action_date := map_option (\<lambda>t. microseconds t + days 30) (ds_release_date nd)\<rparr>
             in Inr (st'\<lparr>us_next_action := next_action st' base_files now\<rparr>)))"

definition is_dist_upgrade_enabled :: "('x world_scheme, json) prog" where
  "is_dist_upgrade_enabled = kv_get_default ''upgrades_dist_upgrade_enabled'' (JBool False)"

definition set_dist_upgrade_enabled :: "bool \<Rightarrow> ('x world_scheme, unit) prog" where
  "set_dist_upgrade_enabled enabled = kv_set ''upgrades_dist_upgrade_enabled'' (JBool enabled)"

definition get_status :: "('x world_scheme, 'z) upgrades_env_scheme \<Rightarrow> ('x world_scheme, upgrade_status) prog" where
  "get_status u =
     p_bind (utils_check_auto u) (\<lambda>updates.
     p_bind is_dist_upgrade_enabled (\<lambda>enabled.
     p_bind (is_sufficient_free_space u) (\<lambda>space.
     p_bind (service_is_running (uv_sys u) ''freedombox-dist-upgrade'') (\<lambda>running.
     p_bind (get_sources_list_codename u) (\<lambda>cname.
       let st = status_without_action updates enabled space running cname
       in if cname \<in> {None, Some ''testing'', Some ''unstable''} then p_ret st
          else p_bind (get_current_release u) (\<lambda>(_, base_files).
               p_bind (p_get (uv_now u)) (\<lambda>now. p_lift (decide_status st base_files (microseconds now)))))))))"

section \<open>The upgrade of the distribution\<close>

definition sources_list :: string where
  "sources_list = ''/etc/apt/sources.list''"

definition temp_sources_list :: string where
  "temp_sources_list = ''/etc/apt/sources.list.fbx-dist-upgrade''"

definition apt_run :: "('w, 'z) upgrades_env_scheme \<Rightarrow> string list \<Rightarrow> ('w, unit) prog" where
  "apt_run u arguments =
     p_bind (run_apt_command (uv_sys u) arguments True) (\<lambda>rc.
       if rc \<noteq> 0 then p_raise (RuntimeError ''Apt command failed with return code: '') else p_ret ())"

text \<open>
  One entry of sources.list. Without an old or a new name (there was no upgrade to do) the code
  compares with None, and adding a string to None is a TypeError.
\<close>

definition update_distribution :: "string option \<Rightarrow> string option \<Rightarrow> string option \<Rightarrow> string option result" where
  "update_distribution old new dist =
     (if dist = old \<or> dist = Some ''stable'' then Inr new
      else case nonempty dist of
             [] \<Rightarrow> Inr dist
           | d # _ \<Rightarrow>
               (case old of
                  None \<Rightarrow> Inl (TypeError ''unsupported operand type(s) for +'')
                | Some name \<Rightarrow>
                    if starts_with d (name @ ''-'') \<or> starts_with d ''stable-''
                    then (case new of
                            None \<Rightarrow> Inl (TypeError ''unsupported operand type(s) for +'')
                          | Some n \<Rightarrow> Inr (Some (n @ dropWhile (\<lambda>c. c \<noteq> CHR ''-'') d)))
                    else Inr dist))"

definition sources_list_update ::
  "('w, 'z) upgrades_env_scheme \<Rightarrow> string option \<Rightarrow> string option \<Rightarrow> ('w, unit) prog"
where
  "sources_list_update u old new =
     p_bind (p_get (uv_distributions u)) (\<lambda>entries.
     p_bind (p_lift (r_map (update_distribution old new) entries)) (\<lambda>entries'.
     p_then (uv_save_new u entries')
            (fl_move (uv_files u) (sources_list @ ''.augnew'') temp_sources_list)))"

definition is_supported :: "('w, 'z) upgrades_env_scheme \<Rightarrow> ('w, bool) prog" where
  "is_supported u =
     p_bind (uv_filesystem u) (\<lambda>fs_type. p_bind (p_get (uv_root_inode u)) (\<lambda>inode. p_ret (fs_type = ''btrfs'' \<and> inode = 256)))"

definition is_apt_snapshots_enabled :: "string option \<Rightarrow> bool" where
  "is_apt_snapshots_enabled value \<longleftrightarrow> value \<noteq> Some ''yes''"

definition apt_snapshot_command :: "string list" where
  "apt_snapshot_command = [''/usr/bin/freedombox-cmd'', ''snapshot'', ''disable_apt_snapshot'']"

definition apt_snapshot_arguments :: "string \<Rightarrow> string" where
  "apt_snapshot_arguments state =
     (let quoted = (\<lambda>s. [CHR 0x22] @ s @ [CHR 0x22])
      in ''{'' @ quoted ''args'' @ '': ['' @ quoted state @ ''], '' @ quoted ''kwargs'' @ '': {}}'')"

definition switch_apt_snapshot :: "('w, 'z) upgrades_env_scheme \<Rightarrow> string \<Rightarrow> ('w, unit) prog" where
  "switch_apt_snapshot u state =
     p_bind (uv_input u apt_snapshot_command (apt_snapshot_arguments state))
       (\<lambda>(rc, _). if rc \<noteq> 0 then p_raise (CalledProcessError (join_str '' '' apt_snapshot_command)) else p_ret ())"

definition snapshot_run_and_disable :: "('w, 'z) upgrades_env_scheme \<Rightarrow> ('w, unit) prog \<Rightarrow> ('w, unit) prog" where
  "snapshot_run_and_disable u body =
     p_bind (is_supported u) (\<lambda>supported.
       if \<not> supported then body
       else p_then (run_ok (uv_sys u) [''snapper'', ''create'', ''--description'', ''before dist-upgrade''] True)
           (p_bind (p_get (\<lambda>w. is_apt_snapshots_enabled (uv_apt_flag u w))) (\<lambda>enabled.
              if enabled
              then p_then (switch_apt_snapshot u ''yes'') (p_finally body (switch_apt_snapshot u ''no''))
              else body)))"

definition services_disable :: "('w, 'z) upgrades_env_scheme \<Rightarrow> ('w, unit) prog \<Rightarrow> ('w, unit) prog" where
  "services_disable u body = service_ensure_stopped (uv_sys u) ''quasselcore'' (\<lambda>_. body)"

definition packages_with_prompts :: "string list" where
  "packages_with_prompts = [''firewalld'', ''minidlna'', ''radicale'', ''bind9'']"

definition apt_hold_packages :: "('w, 'z) upgrades_env_scheme \<Rightarrow> ('w, unit) prog \<Rightarrow> ('w, unit) prog" where
  "apt_hold_packages u body =
     apt_hold_freedombox (uv_sys u) (apt_hold (uv_sys u) packages_with_prompts (\<lambda>_. body))"

text \<open>\<open>action_utils.debconf_set_selections\<close>: a missing fix_db.pl is ignored.\<close>

definition debconf_set_selections :: "('w, 'z) upgrades_env_scheme \<Rightarrow> string list \<Rightarrow> ('w, unit) prog" where
  "debconf_set_selections u presets =
     p_then (p_catch (run_ok (uv_sys u) [''/usr/share/debconf/fix_db.pl''] True)
              (\<lambda>e. case e of FileNotFoundError _ \<Rightarrow> p_ret () | PermissionError _ \<Rightarrow> p_ret () | _ \<Rightarrow> p_raise e))
       (p_bind (uv_input u [''debconf-set-selections''] (join_str [CHR 0x0A] presets))
          (\<lambda>(rc, _). if rc \<noteq> 0 then p_raise (CalledProcessError ''debconf-set-selections'') else p_ret ()))"

definition pre_debconf_selections :: "string list" where
  "pre_debconf_selections = [''grub-pc grub-pc/install_devices_empty boolean true'']"

definition obsolete_packages :: "string list" where
  "obsolete_packages = []"

definition apt_fix :: "('w, 'z) upgrades_env_scheme \<Rightarrow> ('w, unit) prog" where
  "apt_fix u = p_then (run_ok (uv_sys u) [''dpkg'', ''--configure'', ''-a''] False) (apt_run u [''--fix-broken'', ''install''])"

definition packages_remove_obsolete :: "('w, 'z) upgrades_env_scheme \<Rightarrow> ('w, unit) prog" where
  "packages_remove_obsolete u = (if obsolete_packages \<noteq> [] then apt_run u (''remove'' # obsolete_packages) else p_ret ())"

definition apt_full_upgrade :: "('w, 'z) upgrades_env_scheme \<Rightarrow> ('w, unit) prog" where
  "apt_full_upgrade u = apt_run u [''full-upgrade'', ''-o'', ''Dpkg::Options::=--force-confnew'']"

definition upgrade_steps :: "('w, 'z) upgrades_env_scheme \<Rightarrow> ('w, unit) prog" where
  "upgrade_steps u =
     p_then (apt_run u [''update''])
    (p_then (apt_fix u)
    (p_then (if pre_debconf_selections \<noteq> [] then debconf_set_selections u pre_debconf_selections else p_ret ())
    (p_then (packages_remove_obsolete u)
    (p_then (apt_full_upgrade u)
            (apt_run u [''autoremove''])))))"

definition on_complete_command :: "string list" where
  "on_complete_command =
     [''systemd-run'', ''--unit=freedombox-dist-upgrade-on-complete'',
      ''--description=Finish up upgrade to new stable Debian release'',
      ''/usr/bin/freedombox-cmd'', ''upgrades'', ''dist_upgrade_on_complete'', ''--no-args'']"

definition perform :: "('w, 'z) upgrades_env_scheme \<Rightarrow> ('w, unit) prog" where
  "perform u =
     p_then (snapshot_run_and_disable u (services_disable u (apt_hold_packages u (upgrade_steps u))))
    (p_then (run_ok (uv_sys u) [''unattended-upgrade'', ''--verbose''] False)
    (p_then (service_restart (uv_sys u) ''plinth'' False)
            (run_ok (uv_sys u) on_complete_command True)))"

definition upgrade_command :: "string list" where
  "upgrade_command =
     [''systemd-run'', ''--unit=freedombox-dist-upgrade'', ''--description=Upgrade to new stable Debian release'',
      ''--property=KillMode=process'', ''--property=TimeoutSec=72hr'',
      ''--property=BindPaths='' @ temp_sources_list @ '':'' @ sources_list,
      ''systemd-inhibit'', ''/usr/bin/freedombox-cmd'', ''upgrades'', ''dist_upgrade'', ''--no-args'']"

definition start_service :: "('x world_scheme, 'z) upgrades_env_scheme \<Rightarrow> ('x world_scheme, unit) prog" where
  "start_service u =
     (let old = ''/run/systemd/system/freedombox-dist-upgrade.service'' in
      p_bind (p_get (fl_exists (uv_files u) old)) (\<lambda>there.
      p_then (if there then p_then (unlink_if_there (uv_files u) old) (service_daemon_reload (uv_sys u)) else p_ret ())
     (p_bind (get_status u) (\<lambda>status.
      p_then (sources_list_update u (us_current_codename status) (us_next_codename status))
             (run_ok (uv_sys u) upgrade_command True)))))"

definition on_complete :: "('w, 'z) upgrades_env_scheme \<Rightarrow> ('w, unit) prog" where
  "on_complete u = fl_move (uv_files u) temp_sources_list sources_list"

section \<open>Notifications\<close>

definition notes_change :: "('w, 'z) upgrades_env_scheme \<Rightarrow> (int \<Rightarrow> notifications \<Rightarrow> notifications) \<Rightarrow> ('w, unit) prog" where
  "notes_change u f = p_mod (\<lambda>w. ne_put (uv_notify u) (f (ne_now (uv_notify u) w) (ne_get (uv_notify u) w)) w)"

definition notes_get :: "('w, 'z) upgrades_env_scheme \<Rightarrow> string \<Rightarrow> ('w, notification) prog" where
  "notes_get u k w = (notification_get k (ne_get (uv_notify u) w), w)"

definition json_opt :: "('a \<Rightarrow> json) \<Rightarrow> 'a option \<Rightarrow> json" where
  "json_opt f v = (case v of None \<Rightarrow> JNull | Some x \<Rightarrow> f x)"

definition show_new_release_notification :: "('w, 'z) upgrades_env_scheme \<Rightarrow> ('w, unit) prog" where
  "show_new_release_notification u =
     p_bind (p_catch (p_bind (notes_get u ''upgrades-new-release'') (\<lambda>note.
                p_bind (p_lift (subscript (n_data note) ''version'')) (\<lambda>v.
                  p_ret (if v = JStr (uv_version u) then None else Some False))))
              (\<lambda>e. if is_key_error e then p_ret (Some True) else p_raise e)) (\<lambda>should_dismiss.
       case should_dismiss of
         None \<Rightarrow> p_ret ()
       | Some b \<Rightarrow> notes_change u (\<lambda>now db. dismiss ''upgrades-new-release'' b now
           (update_or_create ''upgrades-new-release''
             [F_app_id (Some ''upgrades''), F_severity ''info'', F_title ''FreedomBox Updated'',
              F_body_template (Some ''upgrades-new-release.html''),
              F_data (JDict [(''version'', JStr (uv_version u)), (''app_name'', JStr ''translate:Software Update''),
                 (''app_icon'', JStr ''fa-refresh'')]),
              F_group (Some ''admin'')] now db)))"

definition show_first_manual_update_notification :: "('w, 'z) upgrades_env_scheme \<Rightarrow> ('w, unit) prog" where
  "show_first_manual_update_notification u =
     notes_change u (update_or_create ''upgrades-first-manual-update''
       [F_app_id (Some ''upgrades''), F_severity ''info'', F_title ''Run software update manually'',
        F_message (Some (''Automatic software update runs daily by default. For the first '' @ ''time, manually run it now.'')),
        F_actions (JList [JDict [(''type'', JStr ''link''), (''class'', JStr ''primary''), (''text'', JStr ''Go to {app_name}''),
           (''url'', JStr ''upgrades:index'')], JDict [(''type'', JStr ''dismiss'')]]),
        F_data (JDict [(''app_name'', JStr ''translate:Software Update'')]),
        F_group (Some ''admin''), F_dismissed False])"

text \<open>The notification of an upgrade: the period it is shown for, its state, and whether it is new.\<close>

definition period_of :: "int option \<Rightarrow> int option" where
  "period_of in_days =
     (case in_days of
        None \<Rightarrow> None
      | Some n \<Rightarrow> if n > days 60 then None else if n > days 30 then Some 60 else if n > days 7 then Some 30
                  else if n > days 1 then Some 7 else Some 1)"

definition state_of :: "upgrade_status \<Rightarrow> bool \<Rightarrow> int option \<Rightarrow> json \<Rightarrow> string" where
  "state_of status starting for_days shown_next =
     (if for_days = None \<and> nonempty (us_current_codename status) \<noteq> [] \<and> shown_next = json_opt JStr (us_current_codename status)
      then ''done'' else if starting then ''starting'' else ''waiting'')"

definition stays_hidden :: "upgrade_status \<Rightarrow> int option \<Rightarrow> string \<Rightarrow> json \<Rightarrow> json \<Rightarrow> json \<Rightarrow> bool" where
  "stays_hidden status for_days state shown_state shown_days shown_next \<longleftrightarrow>
     us_running status \<or>
     (nonempty (us_next_action status) = [] \<and> state \<noteq> ''done'') \<or>
     (for_days = None \<and> shown_state = JStr ''done'') \<or>
     (for_days = None \<and> state = ''waiting'') \<or>
     (json_opt JInt for_days = shown_days \<and> JStr state = shown_state \<and> json_opt JStr (us_next_codename status) = shown_next)"

definition upgrade_note_data :: "upgrade_status \<Rightarrow> string \<Rightarrow> int option \<Rightarrow> int option \<Rightarrow> json" where
  "upgrade_note_data status state for_days in_days =
     JDict [(''app_name'', JStr ''translate:Software Update''), (''app_icon'', JStr ''fa-refresh''),
       (''current_codename'', json_opt JStr (us_current_codename status)), (''current_version'', json_opt JInt (us_current_version status)),
       (''next_codename'', json_opt JStr (us_next_codename status)), (''next_version'', json_opt JInt (us_next_version status)),
       (''state'', JStr state), (''for_days'', json_opt JInt for_days),
       (''in_days'', case in_days of None \<Rightarrow> JNull | Some n \<Rightarrow> if n = 0 then JNull else JInt (n div days 1))]"

text \<open>The three entries of the stored data are read without failing when the data is a dict.\<close>

definition dist_upgrade_show_notification :: "('w, 'z) upgrades_env_scheme \<Rightarrow> upgrade_status \<Rightarrow> bool \<Rightarrow> ('w, unit) prog" where
  "dist_upgrade_show_notification u status starting =
     p_bind (p_catch (p_bind (notes_get u ''upgrades-dist-upgrade'') (\<lambda>note. p_ret (n_data note)))
              (\<lambda>e. if is_key_error e then p_ret (JDict []) else p_raise e)) (\<lambda>shown.
     p_bind (p_get (uv_now u)) (\<lambda>now.
       let in_days = map_option (\<lambda>d. d - microseconds now) (us_next_action_date status);
           for_days = period_of in_days
       in if us_running status then p_ret ()
          else p_bind (p_lift (dict_get shown ''next_codename'' JNull)) (\<lambda>shown_next.
               p_bind (p_lift (dict_get shown ''state'' JNull)) (\<lambda>shown_state.
               p_bind (p_lift (dict_get shown ''for_days'' JNull)) (\<lambda>shown_days.
                 let state = state_of status starting for_days shown_next
                 in if stays_hidden status for_days state shown_state shown_days shown_next then p_ret ()
                    else notes_change u (\<lambda>t db. dismiss ''upgrades-dist-upgrade'' False t
                      (update_or_create ''upgrades-dist-upgrade''
                        [F_app_id (Some ''upgrades''), F_severity ''info'', F_title ''Distribution Update'',
                         F_body_template (Some ''upgrades-dist-upgrade-notification.html''),
                         F_data (upgrade_note_data status state for_days in_days), F_group (Some ''admin'')] t db)))))))"

section \<open>Privileged calls\<close>

text \<open>The contents written below sources.list.d and preferences.d; \<open>{}\<close> and \<open>{protocol}\<close> are filled in.\<close>

definition APT_PREFERENCES_FREEDOMBOX :: string where
  "APT_PREFERENCES_FREEDOMBOX = unlines
     [''Explanation: This file is managed by FreedomBox, do not edit.'',
      ''Explanation: Allow carefully selected updates to 'freedombox' from backports.'',
      ''Package: src:freedombox'',
      ''Pin: release n={}-backports'',
      ''Pin-Priority: 500'']"

definition APT_PREFERENCES_APPS :: string where
  "APT_PREFERENCES_APPS = unlines
     [''Explanation: This file is managed by FreedomBox, do not edit.'',
      ''Explanation: matrix-synapse shall not be available in Debian stable but'',
      ''Explanation: only in backports. Upgrade priority of packages that have needed'',
      ''Explanation: versions only in backports.'',
      ''Explanation: matrix-synapse >= 1.92.0-3 requires'',
      ''Explanation: python3-canonicaljson >= 2.0.0~'',
      ''Package: python3-canonicaljson'',
      ''Pin: release n=bookworm-backports'',
      ''Pin-Priority: 500'',
      [],
      ''Explanation: Prevent installation of Samba Active Directory. AD package depends'',
      ''Explanation: on winbind, which breaks FreedomBox LDAP PAM configuration.'',
      ''Explanation: In Debian Trixie, AD server package is required by samba package,'',
      ''Explanation: but is not required to run Samba file server. See also Debian'',
      ''Explanation: bug report 1099755.'',
      ''Package: samba-ad-dc'',
      ''Pin: release *'',
      ''Pin-Priority: -1'',
      [],
      ''Explanation: Make matrix-synapse package and its dependencies installable from'',
      ''Explanation: Debian 'unstable' distribution.'',
      ''Package: matrix-synapse'',
      ''Pin: release n=sid'',
      ''Pin-Priority: 200'',
      [],
      ''Explanation: matrix-synapse depends on python3-python-multipart'',
      ''Package: python3-python-multipart'',
      ''Pin: release n=sid'',
      ''Pin-Priority: 200'',
      [],
      ''Explanation: matrix-synapse recommends python3-pympler'',
      ''Package: python3-pympler'',
      ''Pin: release n=sid'',
      ''Pin-Priority: 200'',
      [],
      ''Explanation: matrix-synapse depends on python3-rpds-py (>= 0.25.0)'',
      ''Package: python3-rpds-py'',
      ''Pin: release n=sid'',
      ''Pin-Priority: 500'',
      [],
      ''Explanation: matrix-synapse depends on typing-extensions (>=4.14.1)'',
      ''Package: python3-typing-extensions'',
      ''Pin: release n=sid'',
      ''Pin-Priority: 500'',
      [],
      ''Explanation: Make janus package and its dependencies installable from Debian'',
      ''Explanation: 'unstable' distribution.'',
      ''Package: janus'',
      ''Pin: release n=sid'',
      ''Pin-Priority: 200'',
      [],
      ''Explanation: Janus app in FreedomBox needs the package for web UI.'',
      ''Package: libjs-janus-gateway'',
      ''Pin: release n=sid'',
      ''Pin-Priority: 200'']"

definition APT_PREFERENCES_UNSTABLE :: string where
  "APT_PREFERENCES_UNSTABLE = unlines
     [''Explanation: This file is managed by FreedomBox, do not edit.'',
      ''Explanation: De-prioritize all the packages from Unstable distribution.'',
      ''Explanation: The priority of packages in *-backports will be set to 300.'',
      ''Explanation: Prioritize unstable lower than packages in backports.'',
      ''Package: *'',
      ''Pin: release n=sid'',
      ''Pin-Priority: -100'',
      [],
      ''Explanation: The priority of packages in *-backports will be 100 by default.'',
      ''Explanation: Prioritize them higher than unstable packages.'',
      ''Package: *'',
      ''Pin: release n=trixie-backports'',
      ''Pin-Priority: 300'',
      [],
      ''Explanation: The priority of packages in *-backports will be 100 by default.'',
      ''Explanation: Prioritize them higher than unstable packages.'',
      ''Package: *'',
      ''Pin: release n=bookworm-backports'',
      ''Pin-Priority: 300'']"

definition APT_UNSTABLE_SOURCES :: string where
  "APT_UNSTABLE_SOURCES = unlines
     [''# This file is managed by FreedomBox, do not edit.'',
      ''# Allow carefully selected updates to 'freedombox' from unstable.'',
      [],
      ''deb {protocol}://deb.debian.org/debian unstable main'',
      ''deb-src {protocol}://deb.debian.org/debian unstable main'']"

text \<open>\<open>s.format(v)\<close> of a text with plain \<open>{}\<close> fields.\<close>

fun fill_blanks :: "string \<Rightarrow> string \<Rightarrow> string" where
  "fill_blanks v (CHR ''{'' # CHR ''}'' # cs) = v @ fill_blanks v cs"
| "fill_blanks v (c # cs) = c # fill_blanks v cs"
| "fill_blanks v [] = []"

definition release_held_freedombox :: "('w, 'z) upgrades_env_scheme \<Rightarrow> ('w, unit) prog" where
  "release_held_freedombox u =
     p_bind (p_get (path_exists (uv_sys u) apt_hold_flag)) (\<lambda>flag.
       if \<not> flag then p_ret ()
       else p_bind (is_package_manager_busy (uv_sys u)) (\<lambda>busy. if \<not> busy then apt_unhold_freedombox (uv_sys u) else p_ret ()))"

definition release_held_packages :: "('w, 'z) upgrades_env_scheme \<Rightarrow> ('w, unit) prog" where
  "release_held_packages u =
     p_bind (is_package_manager_busy (uv_sys u)) (\<lambda>busy.
       if busy then p_ret ()
       else p_bind (service_is_running (uv_sys u) ''freedombox-dist-upgrade'') (\<lambda>upgrading.
         if upgrading then p_ret ()
         else p_bind (run_command (uv_sys u) [''apt-mark'', ''showhold''] True) (\<lambda>out.
           run_ok (uv_sys u) ([''apt-mark'', ''unhold''] @ split_on (CHR 0x0A) (strip_str out)) True)))"

definition run_unattended :: "('w, 'z) upgrades_env_scheme \<Rightarrow> ('w, unit) prog" where
  "run_unattended u =
     p_then (run_ok (uv_sys u) [''dpkg'', ''--configure'', ''-a''] False)
    (p_then (p_bind (run_apt_command (uv_sys u) [''--fix-broken'', ''install''] False) (\<lambda>_. p_ret ()))
    (p_then (release_held_freedombox u)
            (uv_spawn u [''systemctl'', ''start'', ''freedombox-manual-upgrade''])))"

definition auto_conf :: "string \<Rightarrow> string" where
  "auto_conf n =
     (let quoted = [CHR 0x22] @ n @ [CHR 0x22]
      in unlines [''APT::Periodic::Update-Package-Lists '' @ quoted @ '';'', ''APT::Periodic::Unattended-Upgrade '' @ quoted @ '';''])"

definition enable_auto :: "('w, 'z) upgrades_env_scheme \<Rightarrow> ('w, unit) prog" where
  "enable_auto u = fl_write (uv_files u) ''/etc/apt/apt.conf.d/20auto-upgrades'' (auto_conf ''1'')"

definition disable_auto :: "('w, 'z) upgrades_env_scheme \<Rightarrow> ('w, unit) prog" where
  "disable_auto u = fl_write (uv_files u) ''/etc/apt/apt.conf.d/20auto-upgrades'' (auto_conf ''0'')"

text \<open>A log that cannot be read leaves its title alone.\<close>

definition log_part :: "('w, 'z) upgrades_env_scheme \<Rightarrow> string \<Rightarrow> ('w, string list) prog" where
  "log_part u file =
     p_catch (p_bind (fl_read (uv_files u) file) (\<lambda>text. p_ret [''==> '' @ path_name file, text]))
       (\<lambda>e. case e of FileNotFoundError _ \<Rightarrow> p_ret [''==> '' @ path_name file]
            | PermissionError _ \<Rightarrow> p_ret [''==> '' @ path_name file] | _ \<Rightarrow> p_raise e)"

definition get_upgrades_log :: "('w, 'z) upgrades_env_scheme \<Rightarrow> ('w, string) prog" where
  "get_upgrades_log u =
     p_bind (log_part u ''/var/log/unattended-upgrades/unattended-upgrades.log'') (\<lambda>a.
     p_bind (log_part u ''/var/log/unattended-upgrades/unattended-upgrades-dpkg.log'') (\<lambda>b.
       p_ret (join_str [CHR 0x0A] (a @ b))))"

definition backports_sources_list :: string where
  "backports_sources_list = ''/etc/apt/sources.list.d/freedombox2.list''"

definition add_backports_sources :: "('w, 'z) upgrades_env_scheme \<Rightarrow> string \<Rightarrow> string \<Rightarrow> string \<Rightarrow> ('w, unit) prog" where
  "add_backports_sources u file protocol dist =
     (let site = protocol @ ''://deb.debian.org/debian '' @ dist @ ''-backports main''
      in fl_write (uv_files u) file (unlines
        [''# This file is managed by FreedomBox, do not edit.'',
         ''# Allow carefully selected updates to 'freedombox' from backports.'', [], ''deb '' @ site, ''deb-src '' @ site]))"

definition add_apt_preferences :: "('w, 'z) upgrades_env_scheme \<Rightarrow> ('w, unit) prog" where
  "add_apt_preferences u =
     p_then (p_for (\<lambda>name. let full = path_join ''/etc/apt/preferences.d'' name in
         p_bind (p_get (fl_exists (uv_files u) full)) (\<lambda>there. if there then fl_unlink (uv_files u) full else p_ret ()))
         [''50freedombox.pref'', ''50freedombox2.pref''])
    (p_bind (is_distribution_unstable u) (\<lambda>unstable.
       if unstable then p_ret ()
       else p_bind (get_current_release u) (\<lambda>(_, dist).
         p_then (fl_write (uv_files u) ''/etc/apt/preferences.d/50freedombox4.pref'' (fill_blanks dist APT_PREFERENCES_FREEDOMBOX))
                (fl_write (uv_files u) ''/etc/apt/preferences.d/51freedombox-apps.pref'' APT_PREFERENCES_APPS))))"

definition is_backports_enabled :: "('w, 'z) upgrades_env_scheme \<Rightarrow> ('w, bool) prog" where
  "is_backports_enabled u = p_get (fl_exists (uv_files u) backports_sources_list)"

definition is_backports_current :: "('w, 'z) upgrades_env_scheme \<Rightarrow> ('w, bool) prog" where
  "is_backports_current u =
     p_bind (is_backports_enabled u) (\<lambda>there.
       if \<not> there then p_ret False
       else p_bind (get_current_release u) (\<lambda>(_, dist).
         p_get (\<lambda>w. dist @ ''-backports'' \<in> set (uv_source_dists u w))))"

text \<open>\<open>re.match(r'Vendor:\s+(Debian|FreedomBox)', line, flags=re.IGNORECASE)\<close> in ASCII.\<close>

definition vendor_line :: "string \<Rightarrow> bool" where
  "vendor_line line \<longleftrightarrow>
     (let l = map lower_char line; after = drop (length ''vendor:'') l; vendor = dropWhile is_space after
      in starts_with l ''vendor:'' \<and> vendor \<noteq> after \<and> (starts_with vendor ''debian'' \<or> starts_with vendor ''freedombox''))"

definition check_and_backports_sources :: "('w, 'z) upgrades_env_scheme \<Rightarrow> bool \<Rightarrow> ('w, unit) prog" where
  "check_and_backports_sources u develop =
     (let old = ''/etc/apt/sources.list.d/freedombox.list'' in
      p_bind (p_get (fl_exists (uv_files u) old)) (\<lambda>there.
      p_then (if there then fl_unlink (uv_files u) old else p_ret ())
     (p_bind (is_backports_current u) (\<lambda>current.
        if current then p_ret ()
        else p_bind (p_catch (p_bind (fl_read (uv_files u) ''/etc/dpkg/origins/default'') (\<lambda>text. p_ret (Some text)))
                      (\<lambda>e. if is_file_not_found e then p_ret None else p_raise e)) (\<lambda>origin.
          case origin of
            None \<Rightarrow> p_ret ()
          | Some text \<Rightarrow>
              if \<not> list_ex vendor_line (split_on (CHR 0x0A) text) then p_ret ()
              else p_bind (is_distribution_rolling u) (\<lambda>rolling.
                if rolling \<and> \<not> develop then p_ret ()
                else p_bind (get_http_protocol u) (\<lambda>protocol.
                     p_bind (get_current_release u) (\<lambda>(_, dist).
                     p_bind (is_release_file_available u protocol dist True) (\<lambda>available.
                       if \<not> available then p_ret ()
                       else p_then (add_backports_sources u backports_sources_list protocol dist)
                                   (add_apt_preferences u))))))))))"

definition activate_unstable :: "('w, 'z) upgrades_env_scheme \<Rightarrow> ('w, unit) prog" where
  "activate_unstable u =
     (let sources = ''/etc/apt/sources.list.d/freedombox-unstable.list''; prefs = ''/etc/apt/preferences.d/50freedombox-unstable.pref'' in
      p_bind (p_get (\<lambda>w. fl_exists (uv_files u) sources w \<and> fl_exists (uv_files u) prefs w)) (\<lambda>done.
        if done then p_ret ()
        else p_bind (is_distribution_unstable u) (\<lambda>unstable.
          if unstable then p_ret ()
          else p_bind (get_http_protocol u) (\<lambda>protocol.
            p_bind (p_lift (format_field ''protocol'' protocol APT_UNSTABLE_SOURCES)) (\<lambda>text.
              p_then (fl_write (uv_files u) sources text) (fl_write (uv_files u) prefs APT_PREFERENCES_UNSTABLE))))))"

definition start_dist_upgrade :: "('x world_scheme, 'z) upgrades_env_scheme \<Rightarrow> ('x world_scheme, unit) prog" where
  "start_dist_upgrade u = p_then (release_held_freedombox u) (start_service u)"

section \<open>The app\<close>

definition is_backports_requested :: "('x world_scheme, json) prog" where
  "is_backports_requested = kv_get_default ''upgrades_backports_requested'' (JBool False)"

definition set_backports_requested :: "bool \<Rightarrow> ('x world_scheme, unit) prog" where
  "set_backports_requested requested = kv_set ''upgrades_backports_requested'' (JBool requested)"

definition can_activate_backports :: "('w, 'z) upgrades_env_scheme \<Rightarrow> ('w, bool) prog" where
  "can_activate_backports u =
     (if uv_develop u then p_ret True else p_bind (is_distribution_unstable u) (\<lambda>b. p_ret (\<not> b)))"

definition can_enable_dist_upgrade :: "('w, 'z) upgrades_env_scheme \<Rightarrow> ('w, bool) prog" where
  "can_enable_dist_upgrade u = p_bind (is_distribution_rolling u) (\<lambda>b. p_ret (\<not> b))"

definition setup_repositories :: "('x world_scheme, 'z) upgrades_env_scheme \<Rightarrow> ('x world_scheme, unit) prog" where
  "setup_repositories u =
     p_bind is_backports_requested (\<lambda>requested.
       if truthy requested then p_then (check_and_backports_sources u (uv_develop u)) (activate_unstable u) else p_ret ())"

definition check_dist_upgrade :: "('x world_scheme, 'z) upgrades_env_scheme \<Rightarrow> ('x world_scheme, unit) prog" where
  "check_dist_upgrade u =
     p_bind (p_get (uv_local_hour u)) (\<lambda>h.
       if h \<noteq> 6 then p_ret ()
       else p_bind is_dist_upgrade_enabled (\<lambda>enabled.
         if \<not> truthy enabled then p_ret ()
         else p_bind (get_status u) (\<lambda>status.
           let starting = (us_next_action status \<in> {Some ''continue'', Some ''ready''})
           in p_then (dist_upgrade_show_notification u status starting)
                     (if starting then start_dist_upgrade u else p_ret ()))))"

text \<open>\<open>base\<close> is \<open>App.setup\<close> of the components.\<close>

definition upgrades_setup :: "('x world_scheme, 'z) upgrades_env_scheme \<Rightarrow> (int \<Rightarrow> ('x world_scheme, unit) prog) \<Rightarrow> int \<Rightarrow> ('x world_scheme, unit) prog" where
  "upgrades_setup u base old_version =
     p_then (base old_version)
    (p_then (if old_version = 0 \<and> \<not> uv_develop u then enable_auto u else p_ret ())
    (p_then (if old_version = 0 then show_first_manual_update_notification u else p_ret ())
    (p_then (add_apt_preferences u)
    (p_then (if old_version \<noteq> 0 \<and> old_version < 7 then p_bind (can_activate_backports u) set_backports_requested else p_ret ())
    (p_then (if old_version = 0 \<or> old_version < 8 then p_bind (can_enable_dist_upgrade u) set_dist_upgrade_enabled else p_ret ())
            (setup_repositories u))))))"

definition diagnose_held_packages :: "('w, 'z) upgrades_env_scheme \<Rightarrow> ('w, diagnostic_check) prog" where
  "diagnose_held_packages u =
     (let check = \<lparr>check_id = ''upgrades-package-holds'', description = ''Check for package holds'', check_result = NOT_DONE,
                   parameters = [], check_component_id = None\<rparr>
      in p_bind (is_package_manager_busy (uv_sys u)) (\<lambda>busy.
         p_bind (if busy then p_ret True else service_is_running (uv_sys u) ''freedombox-dist-upgrade'') (\<lambda>skip.
           if skip then p_ret (check\<lparr>check_result := SKIPPED\<rparr>)
           else p_bind (run_command (uv_sys u) [''apt-mark'', ''showhold''] True) (\<lambda>out.
             p_ret (check\<lparr>check_result := if split_words (strip_str out) = [] then PASSED else FAILED\<rparr>)))))"

text \<open>\<open>repair\<close>: the held packages are released here, the other failed checks go to \<open>App.repair\<close>.\<close>

definition upgrades_repair ::
  "('w, 'z) upgrades_env_scheme \<Rightarrow> (diagnostic_check list \<Rightarrow> ('w, bool) prog) \<Rightarrow> diagnostic_check list \<Rightarrow> ('w, bool) prog"
where
  "upgrades_repair u base failed_checks =
     p_then (p_for (\<lambda>_. release_held_packages u) (filter (\<lambda>c. check_id c = ''upgrades-package-holds'') failed_checks))
            (base (filter (\<lambda>c. check_id c \<noteq> ''upgrades-package-holds'') failed_checks))"

end
