(* ===== verification/UpgradesLaws.thy ===== *)
theory UpgradesLaws
  imports Upgrades
begin

text \<open>
  An upgrade of the distribution: after it is committed sources.list names the next release and the
  upgrade is not offered again; an upgrade interrupted under the name \<open>stable\<close> is not continued; the
  upgrade gives holds and snapshots back and is committed only when its steps succeeded; and its
  notification is shown once per release, period and state.
\<close>

section \<open>The decision\<close>

lemma remove_suffix_cases: "remove_suffix s d = r \<Longrightarrow> d = r \<or> d = r @ s"
  unfolding remove_suffix_def ends_with_iff by (auto split: if_splits)

lemma base_dist_cases:
  assumes "base_dist d = b"
  shows "d = b \<or> (\<exists>s \<in> {''-updates'', ''-security'', ''-security-updates''}. d = b @ s)"
proof -
  obtain e where "d = e \<or> d = e @ ''-updates''" "e = b \<or> e = b @ ''-security''"
    using remove_suffix_cases[OF refl, of d "''-updates''"] remove_suffix_cases[OF assms[unfolded base_dist_def]] by blast
  then consider "d = b" | "d = b @ ''-updates''" | "d = b @ ''-security''" | "d = b @ ''-security'' @ ''-updates''"
    by (metis append.assoc)
  then show ?thesis by cases simp_all
qed

lemma remdups_same: "xs \<noteq> [] \<Longrightarrow> set xs \<subseteq> {n} \<Longrightarrow> remdups xs = [n]"
proof (induction xs)
  case (Cons x xs)
  then show ?case by (cases xs) auto
qed simp

text \<open>The names in the table have no dash, and a next release is in the table and none of the rolling ones.\<close>

definition next_releases :: "string list" where
  "next_releases = concat (map (\<lambda>d. nonempty (ds_next d)) (od_values distribution_info))"

lemma table_names:
  "\<forall>n \<in> set (od_keys distribution_info). n \<noteq> [] \<and> CHR ''-'' \<notin> set n \<and> base_dist n = n \<and> base_dist (n @ ''-updates'') = n \<and>
     base_dist (n @ ''-security'') = n \<and> base_dist (n @ ''-security-updates'') = n"
  by code_simp

lemma next_names:
  "\<forall>n \<in> set next_releases. n \<in> set (od_keys distribution_info) \<and> n \<notin> {''unstable'', ''sid'', ''testing'', ''stable''}"
  by code_simp

lemma next_differs:
  "\<forall>(k, d) \<in> set distribution_info. ds_next d \<noteq> Some k \<and> ds_next d \<noteq> Some [] \<and>
     list_all (\<lambda>n. n \<in> set next_releases) (nonempty (ds_next d))"
  by code_simp

lemma table_next:
  assumes "map_of distribution_info k = Some d"
  shows "ds_next d \<noteq> Some k" and "ds_next d = Some n \<Longrightarrow> n \<in> set next_releases \<and> nonempty (ds_next d) = [n]"
proof -
  have kd: "(k, d) \<in> set distribution_info" using assms by (rule map_of_SomeD)
  show "ds_next d \<noteq> Some k" using next_differs kd by blast
  show "n \<in> set next_releases \<and> nonempty (ds_next d) = [n]" if "ds_next d = Some n"
    using next_differs kd that by (auto simp: nonempty_def split: if_splits)
qed

lemma update_entry:
  assumes "nonempty e = [] \<or> (\<exists>d. nonempty e = [d] \<and> base_dist d = b)" and "b = ''stable'' \<or> b = cur" and "cur \<noteq> []" and "CHR ''-'' \<notin> set cur"
    and "n \<in> set next_releases"
  shows "\<exists>e'. update_distribution (Some cur) (Some n) e = Inr e' \<and> map base_dist (nonempty e') = map (\<lambda>_. n) (nonempty e)"
proof (cases "nonempty e = []")
  case True
  then have "e = None \<or> e = Some []" by (cases e) (auto simp: nonempty_def split: if_splits)
  then show ?thesis using assms(3) by (auto simp: update_distribution_def nonempty_def)
next
  case False
  with assms(1) obtain d where d: "nonempty e = [d]" "base_dist d = b" by blast
  then have e: "e = Some d" by (cases e) (auto simp: nonempty_def split: if_splits)
  have n: "n \<noteq> []" "base_dist n = n" "base_dist (n @ ''-updates'') = n" "base_dist (n @ ''-security'') = n"
      "base_dist (n @ ''-security-updates'') = n"
    using next_names table_names assms(5) by blast+
  from base_dist_cases[OF d(2)] show ?thesis
  proof
    assume "d = b"
    then show ?thesis using assms(2) n(2) by (auto simp: update_distribution_def e nonempty_def n(1) assms(3))
  next
    assume "\<exists>s \<in> {''-updates'', ''-security'', ''-security-updates''}. d = b @ s"
    then obtain s where s: "s \<in> {''-updates'', ''-security'', ''-security-updates''}" "d = b @ s" by blast
    have dash: "CHR ''-'' \<notin> set b" "hd s = CHR ''-''" "s \<noteq> []" using assms(2,4) s(1) by auto
    have "dropWhile (\<lambda>c. c \<noteq> CHR ''-'') d = s"
      using dash dropWhile_append2[of b "\<lambda>c. c \<noteq> CHR ''-''" s] unfolding s(2) by (cases s) (auto simp: dropWhile_append3)
    moreover have "starts_with d (cur @ ''-'') \<or> starts_with d ''stable-''"
      using assms(2) dash(2,3) unfolding s(2) by (cases s) (auto simp: starts_with_iff)
    ultimately have "update_distribution (Some cur) (Some n) e = Inr (Some n) \<or>
        update_distribution (Some cur) (Some n) e = Inr (Some (n @ s))"
      by (auto simp: update_distribution_def e d(1)[unfolded e])
    moreover have "base_dist (n @ s) = n" using s(1) n by auto
    ultimately show ?thesis using n(1,2) d(1) by (auto simp: nonempty_def)
  qed
qed

lemma update_entries:
  assumes "\<forall>e \<in> set entries. nonempty e = [] \<or> (\<exists>d. nonempty e = [d] \<and> base_dist d = b)"
    and "b = ''stable'' \<or> b = cur" and "cur \<noteq> []" and "CHR ''-'' \<notin> set cur" and "n \<in> set next_releases"
  shows "\<exists>entries'. r_map (update_distribution (Some cur) (Some n)) entries = Inr entries' \<and>
    map base_dist (concat (map nonempty entries')) = map (\<lambda>_. n) (concat (map nonempty entries))"
  using assms(1)
proof (induction entries)
  case (Cons e entries)
  then obtain es where "r_map (update_distribution (Some cur) (Some n)) entries = Inr es"
      "map base_dist (concat (map nonempty es)) = map (\<lambda>_. n) (concat (map nonempty entries))" by auto
  moreover obtain e' where "update_distribution (Some cur) (Some n) e = Inr e'"
      "map base_dist (nonempty e') = map (\<lambda>_. n) (nonempty e)"
    using update_entry[OF _ assms(2-5), of e] Cons.prems by auto
  ultimately show ?case by auto
qed simp

text \<open>What a name read from sources.list says of its entries.\<close>

lemma codename_entries:
  assumes "codename_of entries = Some b" and "b \<notin> {''testing'', ''unstable''}"
  shows "\<forall>e \<in> set entries. nonempty e = [] \<or> (\<exists>d. nonempty e = [d] \<and> base_dist d = b)"
    and "concat (map nonempty entries) \<noteq> []"
proof -
  let ?ds = "map base_dist (concat (map nonempty entries))"
  have "remdups ?ds = [b]"
    using assms by (auto simp: codename_of_def Let_def split: if_splits list.splits)
  then have ds: "set ?ds = {b}" by (metis empty_set list.simps(15) set_remdups)
  then show "concat (map nonempty entries) \<noteq> []" by (metis empty_not_insert list.map(1) list.set(1))
  show "\<forall>e \<in> set entries. nonempty e = [] \<or> (\<exists>d. nonempty e = [d] \<and> base_dist d = b)"
  proof
    fix e assume "e \<in> set entries"
    then have "base_dist ` set (nonempty e) \<subseteq> {b}" using ds by auto
    then show "nonempty e = [] \<or> (\<exists>d. nonempty e = [d] \<and> base_dist d = b)"
      by (cases e) (auto simp: nonempty_def split: if_splits)
  qed
qed

lemma codename_next:
  assumes "n \<in> set next_releases" and "map base_dist (concat (map nonempty es)) = map (\<lambda>_. n) ds" and "ds \<noteq> []"
  shows "codename_of es = Some n"
proof -
  have "remdups (map (\<lambda>_. n) ds) = [n]" using assms(3) by (intro remdups_same) auto
  moreover have "n \<notin> {''unstable'', ''sid'', ''testing''}" using next_names assms(1) by blast
  ultimately show ?thesis unfolding codename_of_def assms(2) Let_def by auto
qed

lemma decided:
  assumes "decide_status (status_without_action up en sp run (Some b)) base now = Inr st" and "us_next_codename st = Some n"
  shows "us_current_codename st = Some (if b = ''stable'' then base else b)"
    and "(if b = ''stable'' then base else b) \<in> set (od_keys distribution_info)" and "n \<in> set next_releases"
proof -
  let ?c = "if b = ''stable'' then base else b"
  obtain d where d: "map_of distribution_info ?c = Some d"
    using assms by (cases "map_of distribution_info ?c") (auto simp: decide_status_def status_without_action_def Let_def split: if_splits)
  then show "?c \<in> set (od_keys distribution_info)" using map_of_SomeD[OF d] by force
  have st: "us_current_codename st = Some ?c \<and> us_next_codename st = ds_next d"
    using assms(1) d by (auto simp: decide_status_def status_without_action_def Let_def r_bind_Inr_iff split: if_splits)
  then show "us_current_codename st = Some ?c" ..
  show "n \<in> set next_releases" using table_next(2)[OF d] st assms(2) by simp
qed

lemma next_distribution_ok: "map_of distribution_info c = Some d \<Longrightarrow> \<exists>nd. next_distribution d = Inr nd"
proof (cases "ds_next d")
  case (Some n)
  assume "map_of distribution_info c = Some d"
  then have n: "n \<in> set next_releases" "nonempty (ds_next d) = [n]" using table_next(2)[OF _ Some] by simp_all
  then have "n \<in> set (od_keys distribution_info)" using next_names by blast
  then show ?thesis using n(2) by (cases "map_of distribution_info n") (auto simp: next_distribution_def od_get_def map_of_eq_None_iff)
qed (simp add: next_distribution_def nonempty_def)

lemma decide_known:
  assumes "map_of distribution_info c = Some d" and "c \<noteq> ''stable''"
  shows "\<exists>st. decide_status (status_without_action up en sp run (Some c)) base now = Inr st \<and> us_current_codename st = Some c \<and>
    us_next_codename st = ds_next d \<and> (us_next_action st = Some ''continue'' \<longrightarrow> Some base = ds_next d)"
proof -
  obtain nd where "next_distribution d = Inr nd" using next_distribution_ok[OF assms(1)] by blast
  then show ?thesis
    by (auto simp: decide_status_def status_without_action_def assms Let_def next_action_def split: if_splits)
qed

text \<open>C22: An upgrade moves sources.list to the next release. When sources.list names one release \<open>b\<close>, directly
  or as \<open>stable\<close>, and the next release of the status is \<open>n\<close>, rewriting the entries succeeds and
  sources.list then names exactly \<open>n\<close>, with the updates and security entries alike. From then on the
  current release is \<open>n\<close>, and the upgrade to \<open>n\<close> is neither offered nor continued again.\<close>

theorem upgrade_moves_sources:
  assumes "codename_of entries = Some b" and "b \<notin> {''testing'', ''unstable''}"
    and "decide_status (status_without_action up en sp run (codename_of entries)) base now = Inr st"
    and "us_next_codename st = Some n"
  shows "\<exists>entries'. r_map (update_distribution (us_current_codename st) (us_next_codename st)) entries = Inr entries' \<and>
    codename_of entries' = Some n \<and>
    (\<exists>st'. decide_status (status_without_action up' en' sp' run' (codename_of entries')) n now' = Inr st' \<and>
       us_current_codename st' = Some n \<and> us_next_codename st' \<noteq> Some n \<and> us_next_action st' \<noteq> Some ''continue'')"
proof -
  note st = decided[OF assms(3)[unfolded assms(1)] assms(4)]
  let ?c = "if b = ''stable'' then base else b"
  have c: "?c \<noteq> []" "CHR ''-'' \<notin> set ?c" using table_names st(2) by blast+
  have "b = ''stable'' \<or> b = ?c" by simp
  then obtain es where es: "r_map (update_distribution (Some ?c) (Some n)) entries = Inr es"
      "map base_dist (concat (map nonempty es)) = map (\<lambda>_. n) (concat (map nonempty entries))"
    using update_entries[OF codename_entries(1)[OF assms(1,2)] _ c st(3)] by blast
  have name: "codename_of es = Some n" by (rule codename_next[OF st(3) es(2) codename_entries(2)[OF assms(1,2)]])
  have "n \<noteq> ''stable''" "n \<in> set (od_keys distribution_info)" using next_names st(3) by blast+
  then obtain d where d: "map_of distribution_info n = Some d" by (cases "map_of distribution_info n") (auto simp: map_of_eq_None_iff)
  show ?thesis using es(1) name decide_known[OF d \<open>n \<noteq> ''stable''\<close>] table_next(1)[OF d] st(1) assms(4) by fastforce
qed

text \<open>A machine on bookworm, on the day the wait for trixie ends.\<close>

theorem upgrade_moves_sources_witness:
  "\<exists>st. decide_status (status_without_action True (JBool True) True False (Some ''stable'')) ''bookworm''
      (microseconds (midnight 2025 8 9) + days 30) = Inr st \<and> us_next_action st = Some ''ready'' \<and>
    (\<exists>entries'. r_map (update_distribution (us_current_codename st) (us_next_codename st))
        [Some ''stable'', None, Some ''stable-security'', Some ''stable-updates''] = Inr entries' \<and> codename_of entries' = Some ''trixie'')"
proof -
  let ?es = "[Some ''stable'', None, Some ''stable-security'', Some ''stable-updates'']"
  let ?r = "decide_status (status_without_action True (JBool True) True False (Some ''stable'')) ''bookworm''
      (microseconds (midnight 2025 8 9) + days 30)"
  have "(case ?r of Inl e \<Rightarrow> False | Inr st \<Rightarrow> us_next_action st = Some ''ready'' \<and> us_next_codename st = Some ''trixie'')"
    by (simp add: decide_status_def status_without_action_def distribution_info_def nonempty_def od_get_def next_action_def next_distribution_def)
  then obtain st where st: "?r = Inr st" "us_next_action st = Some ''ready''" "us_next_codename st = Some ''trixie''"
    by (auto split: sum.splits)
  have name: "codename_of ?es = Some ''stable''" by code_simp
  have "''stable'' \<notin> {''testing'', ''unstable''}" by simp
  from upgrade_moves_sources[OF name this _ st(3), unfolded name, OF st(1)] show ?thesis using st(1,2) by blast
qed

text \<open>C36: An upgrade that is interrupted is continued only when sources.list has the code name of the release:
  after base-files is upgraded to \<open>n\<close>, the status of a machine whose sources.list names the release
  before \<open>n\<close> is to continue, whatever the settings and the time, and that of one whose sources.list
  says \<open>stable\<close> never is, since the current release is then read from base-files.\<close>

theorem stable_is_not_continued:
  assumes "map_of distribution_info c = Some d" and "ds_next d = Some n"
  shows "(\<forall>base up en sp run now. case decide_status (status_without_action up en sp run (Some ''stable'')) base now of
        Inl e \<Rightarrow> False | Inr st \<Rightarrow> us_next_action st \<noteq> Some ''continue'') \<and>
    (\<forall>up en sp now. case decide_status (status_without_action up en sp False (Some c)) n now of
        Inl e \<Rightarrow> False | Inr st \<Rightarrow> us_next_action st = Some ''continue'')"
proof (intro conjI allI)
  fix base up en sp run now
  show "case decide_status (status_without_action up en sp run (Some ''stable'')) base now of
      Inl e \<Rightarrow> False | Inr st \<Rightarrow> us_next_action st \<noteq> Some ''continue''"
  proof (cases "map_of distribution_info base")
    case None
    then show ?thesis by (simp add: decide_status_def status_without_action_def Let_def)
  next
    case (Some d')
    then obtain nd where "next_distribution d' = Inr nd" using next_distribution_ok by blast
    then show ?thesis using Some table_next(1)[OF Some]
      by (auto simp: decide_status_def status_without_action_def next_action_def Let_def)
  qed
next
  fix up en sp now
  have "c \<noteq> ''stable''" using assms(1) by (auto simp: distribution_info_def split: if_splits)
  obtain nd where "next_distribution d = Inr nd" using next_distribution_ok[OF assms(1)] by blast
  then show "case decide_status (status_without_action up en sp False (Some c)) n now of
      Inl e \<Rightarrow> False | Inr st \<Rightarrow> us_next_action st = Some ''continue''"
    using assms \<open>c \<noteq> ''stable''\<close> by (simp add: decide_status_def status_without_action_def next_action_def Let_def)
qed

text \<open>A machine on bookworm whose base-files is already that of trixie.\<close>

theorem stable_is_not_continued_witness:
  "(case decide_status (status_without_action True (JBool True) True False (Some ''bookworm'')) ''trixie'' 0 of
      Inl e \<Rightarrow> False | Inr st \<Rightarrow> us_next_action st = Some ''continue'') \<and>
   (case decide_status (status_without_action True (JBool True) True False (Some ''stable'')) ''trixie'' 0 of
      Inl e \<Rightarrow> False | Inr st \<Rightarrow> us_next_action st \<noteq> Some ''continue'')"
proof -
  obtain d where "map_of distribution_info ''bookworm'' = Some d" "ds_next d = Some ''trixie''"
    by (simp add: distribution_info_def)
  from stable_is_not_continued[OF this] show ?thesis by simp
qed

section \<open>The notification\<close>

text \<open>What the data of the shown notification says, or nothing when there is none.\<close>

definition shown_data :: "('w, 'z) upgrades_env_scheme \<Rightarrow> 'w \<Rightarrow> json" where
  "shown_data u w =
     (case map_of (ne_get (uv_notify u) w) ''upgrades-dist-upgrade'' of None \<Rightarrow> JDict [] | Some n \<Rightarrow> n_data n)"

definition days_left :: "('w, 'z) upgrades_env_scheme \<Rightarrow> upgrade_status \<Rightarrow> 'w \<Rightarrow> int option" where
  "days_left u status w = period_of (map_option (\<lambda>d. d - microseconds (uv_now u w)) (us_next_action_date status))"

lemma show_notification_eval:
  assumes "shown_data u w = JDict d"
  shows "dist_upgrade_show_notification u status starting w =
    (let item = (\<lambda>k. case map_of d k of None \<Rightarrow> JNull | Some v \<Rightarrow> v); for_days = days_left u status w;
         state = state_of status starting for_days (item ''next_codename'')
     in if us_running status \<or> stays_hidden status for_days state (item ''state'') (item ''for_days'') (item ''next_codename'')
        then (Inr (), w)
        else notes_change u (\<lambda>t db. dismiss ''upgrades-dist-upgrade'' False t
               (update_or_create ''upgrades-dist-upgrade''
                 [F_app_id (Some ''upgrades''), F_severity ''info'', F_title ''Distribution Update'',
                  F_body_template (Some ''upgrades-dist-upgrade-notification.html''),
                  F_data (upgrade_note_data status state for_days
                    (map_option (\<lambda>d. d - microseconds (uv_now u w)) (us_next_action_date status))), F_group (Some ''admin'')] t db)) w)"
  using assms
  by (cases "map_of (ne_get (uv_notify u) w) ''upgrades-dist-upgrade''")
    (simp_all add: dist_upgrade_show_notification_def notes_get_def notification_get_def shown_data_def days_left_def
      p_defs p_ret_def p_lift_def p_get_def Let_def)

lemma written_note:
  assumes "notify_laws (uv_notify u)"
  shows "\<exists>n. map_of (ne_get (uv_notify u) (snd (notes_change u (\<lambda>t db. dismiss k False t
      (update_or_create k [F_app_id a, F_severity sv, F_title ti, F_body_template bt,
         F_data (upgrade_note_data status state fd left), F_group g] t db)) w))) k = Some n \<and>
    \<not> n_dismissed n \<and> n_data n = upgrade_note_data status state fd left"
  using assms by (simp add: notes_change_def p_mod_def notify_laws_def dismiss_def update_or_create_def Let_def od_map_of
    upgrade_note_data_def)

lemma written_data:
  assumes "notify_laws (uv_notify u)"
  shows "shown_data u (snd (notes_change u (\<lambda>t db. dismiss ''upgrades-dist-upgrade'' False t
      (update_or_create ''upgrades-dist-upgrade'' [F_app_id a, F_severity sv, F_title ti, F_body_template bt,
         F_data (upgrade_note_data status state fd left), F_group g] t db)) w)) = upgrade_note_data status state fd left"
proof -
  obtain n where "map_of (ne_get (uv_notify u) (snd (notes_change u (\<lambda>t db. dismiss ''upgrades-dist-upgrade'' False t
      (update_or_create ''upgrades-dist-upgrade'' [F_app_id a, F_severity sv, F_title ti, F_body_template bt,
         F_data (upgrade_note_data status state fd left), F_group g] t db)) w))) ''upgrades-dist-upgrade'' = Some n"
      "n_data n = upgrade_note_data status state fd left"
    using written_note[OF assms] by blast
  then show ?thesis by (simp add: shown_data_def)
qed

lemma hidden_again:
  assumes "\<not> stays_hidden status fd (state_of status b fd x) a c x" and "us_current_codename status \<noteq> us_next_codename status"
    and "y = json_opt JStr (us_next_codename status)"
  shows "stays_hidden status fd (state_of status b fd y) (JStr (state_of status b fd x)) (json_opt JInt fd) y"
proof (cases "state_of status b fd x = ''done''")
  case True
  then have "fd = None" by (auto simp: state_of_def split: if_splits)
  then show ?thesis using True by (simp add: stays_hidden_def)
next
  case False
  have "y \<noteq> json_opt JStr (us_current_codename status)"
    using assms(2,3) by (auto simp: json_opt_def split: option.splits)
  then have "state_of status b fd y = state_of status b fd x" using False by (auto simp: state_of_def split: if_splits)
  then show ?thesis using assms(3) by (simp add: stays_hidden_def)
qed

text \<open>C37: The notification of an upgrade never fails, and is shown once: after a call, whether it showed the
  notification or not, a later call for the same status in the same period (60, 30, 7 days or one day
  before the upgrade) changes nothing, so that a notification the user has dismissed meanwhile stays
  dismissed. A call that changes anything leaves the notification undismissed with the data of the
  upgrade.\<close>

theorem upgrade_notified_once:
  assumes "notify_laws (uv_notify u)" and "shown_data u w = JDict d" and "us_current_codename status \<noteq> us_next_codename status"
    and "shown_data u w2 = shown_data u (snd (dist_upgrade_show_notification u status starting w))"
    and "days_left u status w2 = days_left u status w"
  shows "fst (dist_upgrade_show_notification u status starting w) = Inr () \<and>
    dist_upgrade_show_notification u status starting w2 = (Inr (), w2) \<and>
    (snd (dist_upgrade_show_notification u status starting w) = w \<or>
     (\<exists>n. map_of (ne_get (uv_notify u) (snd (dist_upgrade_show_notification u status starting w))) ''upgrades-dist-upgrade'' = Some n \<and>
        \<not> n_dismissed n \<and> dict_get (n_data n) ''next_codename'' JNull = Inr (json_opt JStr (us_next_codename status))))"
proof -
  define item where "item = (\<lambda>k. case map_of d k of None \<Rightarrow> JNull | Some v \<Rightarrow> v)"
  define fd where "fd = days_left u status w"
  define state where "state = state_of status starting fd (item ''next_codename'')"
  define quiet where "quiet \<longleftrightarrow> us_running status \<or> stays_hidden status fd state (item ''state'') (item ''for_days'') (item ''next_codename'')"
  note ev = show_notification_eval[OF assms(2), of status starting, folded item_def, folded fd_def, unfolded Let_def, folded state_def,
      folded quiet_def]
  show ?thesis
  proof (cases quiet)
    case True
    then have w1: "dist_upgrade_show_notification u status starting w = (Inr (), w)" using ev by simp
    then have "shown_data u w2 = JDict d" using assms(2,4) by simp
    from show_notification_eval[OF this, of status starting] show ?thesis
      using True assms(5) w1 by (simp add: Let_def quiet_def state_def fd_def item_def)
  next
    case False
    let ?left = "map_option (\<lambda>t. t - microseconds (uv_now u w)) (us_next_action_date status)"
    let ?data = "upgrade_note_data status state fd ?left"
    have w1: "shown_data u (snd (dist_upgrade_show_notification u status starting w)) = ?data"
      using False ev written_data[OF assms(1)] by simp
    then obtain d2 where d2: "shown_data u w2 = JDict d2" "?data = JDict d2"
      using assms(4) by (simp add: upgrade_note_data_def)
    let ?y = "json_opt JStr (us_next_codename status)"
    have items: "map_of d2 ''next_codename'' = Some ?y" "map_of d2 ''state'' = Some (JStr state)" "map_of d2 ''for_days'' = Some (json_opt JInt fd)"
      using d2(2) by (auto simp: upgrade_note_data_def)
    have "stays_hidden status fd (state_of status starting fd ?y) (JStr state) (json_opt JInt fd) ?y"
      using hidden_again[OF _ assms(3) refl, of fd starting "item ''next_codename''"] False unfolding quiet_def state_def by blast
    then have "dist_upgrade_show_notification u status starting w2 = (Inr (), w2)"
      unfolding show_notification_eval[OF d2(1), of status starting] using assms(5) by (simp add: Let_def items fd_def)
    moreover have "fst (dist_upgrade_show_notification u status starting w) = Inr ()"
      using ev False by (simp add: notes_change_def p_mod_def)
    moreover have "\<exists>n. map_of (ne_get (uv_notify u) (snd (dist_upgrade_show_notification u status starting w))) ''upgrades-dist-upgrade'' = Some n \<and>
        \<not> n_dismissed n \<and> n_data n = ?data"
      using ev False written_note[OF assms(1)] by simp
    ultimately show ?thesis using d2(2) items(1) by auto
  qed
qed

section \<open>What an upgrade leaves behind\<close>

text \<open>
  \<open>hold\<close> reads the held packages and \<open>triggered\<close> whether the commit of sources.list was started. apt-mark
  keeps the holds, and one that fails holds nothing; no other command changes them, and only the
  switch of the snapshot app changes snapper's flag.
\<close>

definition upgrade_laws :: "('w, 'z) upgrades_env_scheme \<Rightarrow> ('w \<Rightarrow> string set) \<Rightarrow> ('w \<Rightarrow> bool) \<Rightarrow> bool" where
  "upgrade_laws u hold triggered \<longleftrightarrow>
     (\<forall>p w. sh (uv_sys u) [''apt-mark'', ''showhold'', p] w = (Inr (0, if p \<in> hold w then p else []), w)) \<and>
     (\<forall>p w. \<exists>rc out w'. sh (uv_sys u) [''apt-mark'', ''hold'', p] w = (Inr (rc, out), w') \<and>
        hold w' = (if rc = 0 then insert p (hold w) else hold w)) \<and>
     (\<forall>p w. \<exists>out w'. sh (uv_sys u) [''apt-mark'', ''unhold'', p] w = (Inr (0, out), w') \<and> hold w' = hold w - {p}) \<and>
     (\<forall>c w. hd c \<noteq> ''apt-mark'' \<longrightarrow> hold (snd (sh (uv_sys u) c w)) = hold w) \<and>
     (\<forall>c w. c \<noteq> on_complete_command \<longrightarrow> triggered (snd (sh (uv_sys u) c w)) = triggered w) \<and>
     (\<forall>c w. path_exists (uv_sys u) apt_hold_flag (snd (sh (uv_sys u) c w)) = path_exists (uv_sys u) apt_hold_flag w \<and>
        uv_apt_flag u (snd (sh (uv_sys u) c w)) = uv_apt_flag u w) \<and>
     (\<forall>w. let t = touch_file (uv_sys u) apt_hold_flag w; d = unlink_file (uv_sys u) apt_hold_flag w in
        hold t = hold w \<and> hold d = hold w \<and> triggered t = triggered w \<and> triggered d = triggered w \<and>
        uv_apt_flag u t = uv_apt_flag u w \<and> uv_apt_flag u d = uv_apt_flag u w \<and>
        path_exists (uv_sys u) apt_hold_flag t \<and> \<not> path_exists (uv_sys u) apt_hold_flag d) \<and>
     (\<forall>c i w. let w' = snd (uv_input u c i w) in
        hold w' = hold w \<and> triggered w' = triggered w \<and> path_exists (uv_sys u) apt_hold_flag w' = path_exists (uv_sys u) apt_hold_flag w \<and>
        (c \<noteq> apt_snapshot_command \<longrightarrow> uv_apt_flag u w' = uv_apt_flag u w)) \<and>
     (\<forall>w. \<exists>rc out w'. uv_input u apt_snapshot_command (apt_snapshot_arguments ''yes'') w = (Inr (rc, out), w') \<and>
        uv_apt_flag u w' = (if rc = 0 then Some ''yes'' else uv_apt_flag u w)) \<and>
     (\<forall>w. \<exists>out w'. uv_input u apt_snapshot_command (apt_snapshot_arguments ''no'') w = (Inr (0, out), w') \<and>
        uv_apt_flag u w' = Some ''no'') \<and>
     (\<forall>w. snd (uv_filesystem u w) = w)"

locale upgrade_machine =
  fixes u :: "('w, 'z) upgrades_env_scheme"
    and hold :: "'w \<Rightarrow> string set"
    and triggered :: "'w \<Rightarrow> bool"
  assumes laws: "upgrade_laws u hold triggered"
begin

lemmas hold_law = laws[unfolded upgrade_laws_def, THEN conjunct2, THEN conjunct1, rule_format]
lemmas unhold_law = laws[unfolded upgrade_laws_def, THEN conjunct2, THEN conjunct2, THEN conjunct1, rule_format]

lemma file_laws:
  "hold (touch_file (uv_sys u) apt_hold_flag w) = hold w" "hold (unlink_file (uv_sys u) apt_hold_flag w) = hold w"
  "triggered (touch_file (uv_sys u) apt_hold_flag w) = triggered w" "triggered (unlink_file (uv_sys u) apt_hold_flag w) = triggered w"
  "uv_apt_flag u (touch_file (uv_sys u) apt_hold_flag w) = uv_apt_flag u w"
  "uv_apt_flag u (unlink_file (uv_sys u) apt_hold_flag w) = uv_apt_flag u w"
  "path_exists (uv_sys u) apt_hold_flag (touch_file (uv_sys u) apt_hold_flag w)"
  "\<not> path_exists (uv_sys u) apt_hold_flag (unlink_file (uv_sys u) apt_hold_flag w)"
  using laws unfolding upgrade_laws_def Let_def by simp_all

lemma input_laws:
  "hold (snd (uv_input u c i w)) = hold w" "triggered (snd (uv_input u c i w)) = triggered w"
  "path_exists (uv_sys u) apt_hold_flag (snd (uv_input u c i w)) = path_exists (uv_sys u) apt_hold_flag w"
  "c \<noteq> apt_snapshot_command \<Longrightarrow> uv_apt_flag u (snd (uv_input u c i w)) = uv_apt_flag u w"
  using laws unfolding upgrade_laws_def Let_def by simp_all

lemma yes_law:
  "\<exists>rc out w'. uv_input u apt_snapshot_command (apt_snapshot_arguments ''yes'') w = (Inr (rc, out), w') \<and>
     uv_apt_flag u w' = (if rc = 0 then Some ''yes'' else uv_apt_flag u w)"
  using laws unfolding upgrade_laws_def by (elim conjE) (erule spec)

lemma no_law:
  "\<exists>out w'. uv_input u apt_snapshot_command (apt_snapshot_arguments ''no'') w = (Inr (0, out), w') \<and> uv_apt_flag u w' = Some ''no''"
  using laws unfolding upgrade_laws_def by (elim conjE) (erule spec)

lemma filesystem_law: "snd (uv_filesystem u w) = w"
  using laws unfolding upgrade_laws_def by simp

text \<open>What a program of the upgrade may not change: everything but the trigger.\<close>

definition same :: "string set \<Rightarrow> bool \<Rightarrow> bool \<Rightarrow> bool \<Rightarrow> 'w \<Rightarrow> bool" where
  "same H flag snapshots t w \<longleftrightarrow>
     hold w = H \<and> path_exists (uv_sys u) apt_hold_flag w = flag \<and> is_apt_snapshots_enabled (uv_apt_flag u w) = snapshots \<and> triggered w = t"

lemma keeps_sh: "hd c \<noteq> ''apt-mark'' \<Longrightarrow> c \<noteq> on_complete_command \<Longrightarrow> p_keeps (same H f s t) (sh (uv_sys u) c)"
  using laws unfolding upgrade_laws_def p_keeps_def same_def by simp

lemma keeps_command:
  "hd c \<noteq> ''apt-mark'' \<Longrightarrow> c \<noteq> on_complete_command \<Longrightarrow> p_keeps (same H f s t) (run_command (uv_sys u) c b)"
  "hd c \<noteq> ''apt-mark'' \<Longrightarrow> c \<noteq> on_complete_command \<Longrightarrow> p_keeps (same H f s t) (run_ok (uv_sys u) c b)"
  unfolding run_ok_def run_command_def by (intro keeps_intros keeps_sh; assumption)+

lemma keeps_input: "c \<noteq> apt_snapshot_command \<Longrightarrow> p_keeps (same H f s t) (uv_input u c i)"
  using laws unfolding upgrade_laws_def p_keeps_def same_def Let_def by simp

lemma keeps_apt_run: "p_keeps (same H f s t) (apt_run u args)"
  unfolding apt_run_def run_apt_command_def
  by (intro keeps_intros keeps_sh) (simp_all add: on_complete_command_def)

lemma keeps_steps: "p_keeps (same H f s t) (upgrade_steps u)"
proof -
  have "p_keeps (same H f s t) (debconf_set_selections u ps)" for ps
    unfolding debconf_set_selections_def
    by (intro keeps_intros keeps_command keeps_input) (auto simp: on_complete_command_def apt_snapshot_command_def intro!: keeps_intros split: exn.split)
  moreover have "p_keeps (same H f s t) (run_ok (uv_sys u) [''dpkg'', ''--configure'', ''-a''] False)"
    by (rule keeps_command) (simp_all add: on_complete_command_def)
  ultimately show ?thesis
    unfolding upgrade_steps_def apt_fix_def packages_remove_obsolete_def apt_full_upgrade_def by (intro keeps_intros keeps_apt_run)
qed

lemma keeps_services: "p_keeps (same H f s t) body \<Longrightarrow> p_keeps (same H f s t) (services_disable u body)"
proof -
  assume body: "p_keeps (same H f s t) body"
  have ctl: "p_keeps (same H f s t) (run_ok (uv_sys u) [''systemctl'', a, n] b)" for a n b
    by (rule keeps_command) (simp_all add: on_complete_command_def)
  show ?thesis
    unfolding services_disable_def service_ensure_stopped_def service_is_running_def run_succeeds_def service_disable_def
      service_enable_def service_start_def service_stop_def service_action_def
    by (intro keeps_intros ctl body)
qed

lemma apt_mark_frame:
  "path_exists (uv_sys u) apt_hold_flag (snd (sh (uv_sys u) [''apt-mark'', a, p] w)) = path_exists (uv_sys u) apt_hold_flag w \<and>
   uv_apt_flag u (snd (sh (uv_sys u) [''apt-mark'', a, p] w)) = uv_apt_flag u w \<and>
   triggered (snd (sh (uv_sys u) [''apt-mark'', a, p] w)) = triggered w"
proof -
  have "[''apt-mark'', a, p] \<noteq> on_complete_command" by (simp add: on_complete_command_def)
  then show ?thesis using laws unfolding upgrade_laws_def by blast
qed

text \<open>Holding packages one by one: what is held in addition is in the list.\<close>

lemma hold_each:
  assumes "same (H \<union> set held) f s t w" and "set held \<inter> H = {}" and "apt_hold_each (uv_sys u) ps held w = (r, held', w')"
    and "[] \<notin> set ps"
  shows "same (H \<union> set held') f s t w' \<and> set held' \<inter> H = {}"
  using assms
proof (induction ps arbitrary: held w)
  case (Cons p ps)
  have show_hold: "run_command (uv_sys u) [''apt-mark'', ''showhold'', p] True w = (Inr (if p \<in> hold w then p else []), w)"
    using laws unfolding upgrade_laws_def by (simp add: run_command_def p_bind_def p_ret_def)
  show ?case
  proof (cases "p \<in> hold w")
    case True
    then show ?thesis using Cons.IH[of held w] Cons.prems show_hold by auto
  next
    case False
    obtain rc out w1 where w1: "sh (uv_sys u) [''apt-mark'', ''hold'', p] w = (Inr (rc, out), w1)"
        "hold w1 = (if rc = 0 then insert p (hold w) else hold w)"
      using hold_law[of p w] by blast
    have "path_exists (uv_sys u) apt_hold_flag w1 = path_exists (uv_sys u) apt_hold_flag w \<and> uv_apt_flag u w1 = uv_apt_flag u w \<and>
        triggered w1 = triggered w"
      using apt_mark_frame[of "''hold''" p w] w1(1) by simp
    then have "same (H \<union> set (if rc = 0 then held @ [p] else held)) f s t w1"
      using Cons.prems(1) w1(2) by (auto simp: same_def)
    moreover have "p \<notin> H" using False Cons.prems(1) by (auto simp: same_def)
    ultimately show ?thesis
      using Cons.IH[of "if rc = 0 then held @ [p] else held" w1] Cons.prems False show_hold w1(1) by auto
  qed
qed auto

lemma unhold: "same (H \<union> S) f s t w \<Longrightarrow> \<exists>w'. run_ok (uv_sys u) [''apt-mark'', ''unhold'', p] b w = (Inr (), w') \<and> same (H \<union> S - {p}) f s t w'"
proof -
  assume w: "same (H \<union> S) f s t w"
  obtain out w1 where w1: "sh (uv_sys u) [''apt-mark'', ''unhold'', p] w = (Inr (0, out), w1)" "hold w1 = hold w - {p}"
    using unhold_law[of p w] by blast
  have "path_exists (uv_sys u) apt_hold_flag w1 = path_exists (uv_sys u) apt_hold_flag w \<and> uv_apt_flag u w1 = uv_apt_flag u w \<and>
      triggered w1 = triggered w"
    using apt_mark_frame[of "''unhold''" p w] w1(1) by simp
  then show ?thesis using w w1 by (auto simp: run_ok_def run_command_def p_bind_def p_ret_def same_def)
qed

lemma unhold_all:
  assumes "same (H \<union> S) f s t w" and "S \<subseteq> set ps" and "set ps \<inter> H = {}"
  shows "\<exists>w'. p_for (\<lambda>p. run_ok (uv_sys u) [''apt-mark'', ''unhold'', p] True) ps w = (Inr (), w') \<and> same H f s t w'"
  using assms
proof (induction ps arbitrary: S w)
  case Nil
  then show ?case by (simp add: p_ret_def)
next
  case (Cons p ps)
  obtain w1 where w1: "run_ok (uv_sys u) [''apt-mark'', ''unhold'', p] True w = (Inr (), w1)" "same (H \<union> S - {p}) f s t w1"
    using unhold[OF Cons.prems(1)] by blast
  have "H \<union> S - {p} = H \<union> (S - {p})" "S - {p} \<subseteq> set ps" "set ps \<inter> H = {}" using Cons.prems(2,3) by auto
  then obtain w2 where "p_for (\<lambda>p. run_ok (uv_sys u) [''apt-mark'', ''unhold'', p] True) ps w1 = (Inr (), w2)" "same H f s t w2"
    using Cons.IH[of "S - {p}" w1] w1(2) by auto
  then show ?case using w1(1) by (simp add: p_then_def p_bind_def)
qed

lemma finally_snd: "snd (p_finally m f w) = snd (f (snd (m w)))"
  by (auto simp: p_finally_def split: prod.split sum.split)

lemma keeps_apt_hold:
  assumes "\<And>H held. p_keeps (same H f s t) (body held)" and "[] \<notin> set ps"
  shows "p_keeps (same H f s t) (apt_hold (uv_sys u) ps body)"
  unfolding p_keeps_def
proof (intro allI impI)
  fix w assume w: "same H f s t w"
  obtain r held w1 where each: "apt_hold_each (uv_sys u) ps [] w = (r, held, w1)" by (cases "apt_hold_each (uv_sys u) ps [] w") auto
  have w1: "same (H \<union> set held) f s t w1" "set held \<inter> H = {}"
    using hold_each[of H "[]" f s t w ps, OF _ _ each assms(2)] w by simp_all
  let ?m = "p_bind (p_lift r) (\<lambda>_. body held)"
  have "p_keeps (same (H \<union> set held) f s t) ?m" by (intro keeps_intros assms(1))
  then have "same (H \<union> set held) f s t (snd (?m w1))" using w1(1) by (rule p_keepsD)
  from unhold_all[OF this _ w1(2)] show "same H f s t (snd (apt_hold (uv_sys u) ps body w))"
    by (auto simp: apt_hold_def each finally_snd)
qed

lemma keeps_freedombox:
  assumes "\<And>H f. p_keeps (same H f s t) body"
  shows "p_keeps (same H False s t) (apt_hold_freedombox (uv_sys u) body)"
  unfolding p_keeps_def
proof (intro allI impI)
  fix w assume w: "same H False s t w"
  have show_hold: "run_command (uv_sys u) [''apt-mark'', ''showhold'', ''freedombox''] True w =
      (Inr (if ''freedombox'' \<in> H then ''freedombox'' else []), w)"
    using laws w unfolding upgrade_laws_def by (simp add: run_command_def p_bind_def p_ret_def same_def)
  have released: "same (H - {''freedombox''}) False s t (snd (apt_unhold_freedombox (uv_sys u) w'))" if w': "same (H \<union> S) f s t w'" "S \<subseteq> {''freedombox''}" for w' f S
  proof -
    obtain w2 where w2: "run_ok (uv_sys u) [''apt-mark'', ''unhold'', ''freedombox''] False w' = (Inr (), w2)" "same (H \<union> S - {''freedombox''}) f s t w2"
      using unhold[OF w'(1)] by blast
    moreover have "H \<union> S - {''freedombox''} = H - {''freedombox''}" using w'(2) by auto
    ultimately show ?thesis
      by (simp add: apt_unhold_freedombox_def p_then_def p_bind_def p_mod_def same_def file_laws)
  qed
  show "same H False s t (snd (apt_hold_freedombox (uv_sys u) body w))"
  proof (cases "''freedombox'' \<in> H")
    case True
    then have "same H False s t (snd (body w))" using p_keepsD[OF assms w] by simp
    then show ?thesis using True by (simp add: apt_hold_freedombox_def p_bind_def show_hold finally_snd same_def)
  next
    case False
    let ?w0 = "touch_file (uv_sys u) apt_hold_flag w"
    let ?m = "p_then (p_mod (touch_file (uv_sys u) apt_hold_flag)) (p_then (run_ok (uv_sys u) [''apt-mark'', ''hold'', ''freedombox''] True) body)"
    have w0: "same H True s t ?w0" using w by (simp add: same_def file_laws)
    obtain rc out w1 where w1: "sh (uv_sys u) [''apt-mark'', ''hold'', ''freedombox''] ?w0 = (Inr (rc, out), w1)"
        "hold w1 = (if rc = 0 then insert ''freedombox'' (hold ?w0) else hold ?w0)" using hold_law[of "''freedombox''" ?w0] by blast
    then have s1: "same (H \<union> (if rc = 0 then {''freedombox''} else {})) True s t w1"
      using w0 apt_mark_frame[of "''hold''" "''freedombox''" ?w0] by (auto simp: same_def)
    have "snd (?m w) = (if rc = 0 then snd (body w1) else w1)"
      by (simp add: p_then_def p_bind_def p_mod_def run_ok_def run_command_def p_raise_def p_ret_def w1(1))
    then have "same (H \<union> (if rc = 0 then {''freedombox''} else {})) True s t (snd (?m w))"
      using s1 p_keepsD[OF assms, OF s1] by presburger
    then have "same (H - {''freedombox''}) False s t (snd (apt_unhold_freedombox (uv_sys u) (snd (?m w))))"
      by (rule released) simp
    then show ?thesis using False by (simp add: apt_hold_freedombox_def p_bind_def[of "run_command _ _ _"] show_hold finally_snd)
  qed
qed

lemma keeps_snapshot:
  assumes "\<And>s. p_keeps (same H f s t) body"
  shows "p_keeps (same H f s t) (snapshot_run_and_disable u body)"
proof -
  let ?switched = "p_then (switch_apt_snapshot u ''yes'') (p_finally body (switch_apt_snapshot u ''no''))"
  have "same H f True t (snd (?switched w))" if w: "same H f True t w" for w
  proof -
    obtain rc out w1 where w1: "uv_input u apt_snapshot_command (apt_snapshot_arguments ''yes'') w = (Inr (rc, out), w1)"
        "uv_apt_flag u w1 = (if rc = 0 then Some ''yes'' else uv_apt_flag u w)" using yes_law by blast
    then have s1: "same H f (rc \<noteq> 0) t w1"
      using w input_laws[of apt_snapshot_command "apt_snapshot_arguments ''yes''" w] by (auto simp: same_def is_apt_snapshots_enabled_def)
    let ?w2 = "snd (body w1)"
    obtain out' w3 where w3: "uv_input u apt_snapshot_command (apt_snapshot_arguments ''no'') ?w2 = (Inr (0, out'), w3)" "uv_apt_flag u w3 = Some ''no''"
      using no_law by blast
    then have "same H f True t w3"
      using p_keepsD[OF assms, OF s1] input_laws[of apt_snapshot_command "apt_snapshot_arguments ''no''" ?w2]
      by (simp add: same_def is_apt_snapshots_enabled_def)
    then show ?thesis using s1 w1(1) w3(1)
      by (cases "rc = 0") (simp_all add: p_then_def p_bind_def switch_apt_snapshot_def finally_snd p_ret_def p_raise_def)
  qed
  then have on: "p_keeps (same H f True t) ?switched" by (simp add: p_keeps_def)
  have "p_keeps (same H f s t) (p_bind (p_get (\<lambda>w. is_apt_snapshots_enabled (uv_apt_flag u w))) (\<lambda>enabled. if enabled then ?switched else body))"
    using on p_keepsD[OF assms] by (auto simp: p_keeps_def p_bind_def p_get_def same_def)
  moreover have "p_keeps (same H f s t) (is_supported u)"
    using filesystem_law unfolding is_supported_def by (intro keeps_intros) (simp add: p_keeps_def)
  moreover have "p_keeps (same H f s t) (run_ok (uv_sys u) [''snapper'', ''create'', ''--description'', ''before dist-upgrade''] True)"
    by (rule keeps_command) (simp_all add: on_complete_command_def)
  ultimately show ?thesis unfolding snapshot_run_and_disable_def
    by (intro p_keeps_bind[of _ "is_supported u"] p_keeps_if p_keeps_then[of _ "run_ok _ _ _"] assms)
qed

lemma keeps_bracket:
  "p_keeps (same H False s t) (snapshot_run_and_disable u (services_disable u (apt_hold_packages u (upgrade_steps u))))"
  unfolding apt_hold_packages_def
  by (intro keeps_snapshot keeps_services keeps_freedombox keeps_apt_hold keeps_steps) (simp add: packages_with_prompts_def)

lemma keeps_after:
  "p_keeps (same H f s t) (p_then (run_ok (uv_sys u) [''unattended-upgrade'', ''--verbose''] False) (service_restart (uv_sys u) ''plinth'' False))"
proof -
  have "p_keeps (same H f s t) (run_ok (uv_sys u) [''systemctl'', a, n] b)" for a n b
    by (rule keeps_command) (simp_all add: on_complete_command_def)
  moreover have "p_keeps (same H f s t) (run_ok (uv_sys u) [''unattended-upgrade'', ''--verbose''] False)"
    by (rule keeps_command) (simp_all add: on_complete_command_def)
  ultimately show ?thesis unfolding service_restart_def service_action_def by (intro p_keeps_then p_keeps_if)
qed

lemma keeps_commit:
  "same H f s t w \<Longrightarrow> \<exists>t'. same H f s t' (snd (run_ok (uv_sys u) on_complete_command b w))"
proof -
  have "snd (run_ok (uv_sys u) on_complete_command b w) = snd (sh (uv_sys u) on_complete_command w)"
    by (auto simp: run_ok_def run_command_def p_bind_def p_raise_def p_ret_def split: prod.split sum.split)
  moreover have "hd on_complete_command \<noteq> ''apt-mark''" by (simp add: on_complete_command_def)
  ultimately show "same H f s t w \<Longrightarrow> \<exists>t'. same H f s t' (snd (run_ok (uv_sys u) on_complete_command b w))"
    using laws unfolding upgrade_laws_def same_def by simp
qed

end

text \<open>The steps have succeeded when everything around them has.\<close>

lemma finally_ok: "p_finally m g w = (Inr x, w') \<Longrightarrow> \<exists>w1 w2. m w1 = (Inr x, w2)"
  by (auto simp: p_finally_def split: prod.splits sum.splits)

lemma snapshot_ok: "snapshot_run_and_disable u body w = (Inr x, w') \<Longrightarrow> \<exists>w1 w2. body w1 = (Inr x, w2)"
  unfolding snapshot_run_and_disable_def p_bind_Inr_iff
  by (auto simp: p_then_Inr_iff p_bind_Inr_iff split: if_splits dest!: finally_ok)

lemma services_ok: "services_disable u body w = (Inr x, w') \<Longrightarrow> \<exists>w1 w2. body w1 = (Inr x, w2)"
  unfolding services_disable_def service_ensure_stopped_def p_bind_Inr_iff p_then_Inr_iff by (blast dest!: finally_ok)

lemma holds_ok: "apt_hold_packages u body w = (Inr x, w') \<Longrightarrow> \<exists>w1 w2. body w1 = (Inr x, w2)"
proof -
  have inner: "\<exists>w1 w2. body w1 = (Inr y, w2)" if "apt_hold (uv_sys u) ps (\<lambda>_. body) w = (Inr y, w')" for y ps w w'
    using that unfolding apt_hold_def by (auto simp: p_bind_Inr_iff split: prod.splits dest!: finally_ok) blast
  show "apt_hold_packages u body w = (Inr x, w') \<Longrightarrow> \<exists>w1 w2. body w1 = (Inr x, w2)"
    unfolding apt_hold_packages_def apt_hold_freedombox_def p_bind_Inr_iff
    by (auto simp: p_then_Inr_iff split: if_splits dest!: finally_ok) (blast dest: inner)+
qed

text \<open>What an upgrade of the distribution leaves behind, whether it succeeds or fails at any of its
  commands: the packages held before are held and no others, no flag of a hold remains, and apt
  snapshots are enabled exactly when they were before. And the new sources.list is committed only
  after the steps of the upgrade succeeded; when any of them fails, the upgrade fails without it.\<close>

theorem upgrade_gives_back:
  assumes "upgrade_laws u hold triggered" and "\<not> path_exists (uv_sys u) apt_hold_flag w"
  shows "hold (snd (perform u w)) = hold w \<and>
    \<not> path_exists (uv_sys u) apt_hold_flag (snd (perform u w)) \<and>
    is_apt_snapshots_enabled (uv_apt_flag u (snd (perform u w))) = is_apt_snapshots_enabled (uv_apt_flag u w) \<and>
    (triggered (snd (perform u w)) = triggered w \<or> (\<exists>w1. fst (upgrade_steps u w1) = Inr ())) \<and>
    ((\<forall>w1. fst (upgrade_steps u w1) \<noteq> Inr ()) \<longrightarrow> (\<exists>e. fst (perform u w) = Inl e))"
proof -
  note m = upgrade_machine.intro[OF assms(1)]
  let ?same = "upgrade_machine.same u hold triggered (hold w) False (is_apt_snapshots_enabled (uv_apt_flag u w))"
  let ?B = "snapshot_run_and_disable u (services_disable u (apt_hold_packages u (upgrade_steps u)))"
  let ?A = "p_then (run_ok (uv_sys u) [''unattended-upgrade'', ''--verbose''] False) (service_restart (uv_sys u) ''plinth'' False)"
  let ?C = "run_ok (uv_sys u) on_complete_command True"
  have perform: "perform u = p_then ?B (p_then ?A ?C)" by (simp add: perform_def p_then_def p_bind_assoc)
  have same: "?same t w' \<longleftrightarrow> hold w' = hold w \<and> \<not> path_exists (uv_sys u) apt_hold_flag w' \<and>
      is_apt_snapshots_enabled (uv_apt_flag u w') = is_apt_snapshots_enabled (uv_apt_flag u w) \<and> triggered w' = t" for t w'
    by (auto simp: upgrade_machine.same_def[OF m])
  obtain r w1 where B: "?B w = (r, w1)" by (cases "?B w") auto
  have w1: "?same (triggered w) w1"
    using p_keepsD[OF upgrade_machine.keeps_bracket[OF m], of "hold w" _ _ w] same[of "triggered w" w] assms(2) B by simp
  show ?thesis
  proof (cases r)
    case (Inl e)
    then have "perform u w = (Inl e, w1)" using B by (simp add: perform p_then_def p_bind_def)
    then show ?thesis using w1 same by auto
  next
    case (Inr x)
    then have steps: "\<exists>w1. fst (upgrade_steps u w1) = Inr ()" using snapshot_ok services_ok holds_ok B by (metis fst_conv old.unit.exhaust)
    obtain r2 w2 where A: "?A w1 = (r2, w2)" by (cases "?A w1") auto
    have w2: "?same (triggered w) w2" using p_keepsD[OF upgrade_machine.keeps_after[OF m], OF w1] A by simp
    have "snd (perform u w) = (case r2 of Inl e \<Rightarrow> w2 | Inr y \<Rightarrow> snd (?C w2))"
      using B Inr A by (auto simp: perform p_then_def p_bind_def split: sum.split prod.split)
    then have "\<exists>t. ?same t (snd (perform u w))"
      using w2 upgrade_machine.keeps_commit[OF m w2] by (cases r2) auto
    then show ?thesis using steps same by auto
  qed
qed

text \<open>A machine whose full upgrade fails: held packages, the flag of the hold, snapper's flag, the trigger and the notifications.\<close>

record upgrade_box =
  ub_hold :: "string set"
  ub_flag :: bool
  ub_apt :: "string option"
  ub_triggered :: bool
  ub_notes :: notifications

definition box_sh :: "string list \<Rightarrow> (upgrade_box, nat \<times> string) prog" where
  "box_sh c w =
     (if c = on_complete_command then (Inr (0, []), w\<lparr>ub_triggered := True\<rparr>)
      else if length c = 3 \<and> hd c = ''apt-mark''
      then (let p = c ! 2 in
            if c ! 1 = ''showhold'' then (Inr (0, if p \<in> ub_hold w then p else []), w)
            else if c ! 1 = ''hold'' then (Inr (0, []), w\<lparr>ub_hold := insert p (ub_hold w)\<rparr>)
            else if c ! 1 = ''unhold'' then (Inr (0, []), w\<lparr>ub_hold := ub_hold w - {p}\<rparr>)
            else (Inr (1, []), w))
      else (Inr (if ''full-upgrade'' \<in> set c then 100 else 0, []), w))"

definition box_sys :: "upgrade_box system" where
  "box_sys = \<lparr>sh = box_sh, path_exists = \<lambda>_. ub_flag, touch_file = \<lambda>_ w. w\<lparr>ub_flag := True\<rparr>,
     unlink_file = \<lambda>_ w. w\<lparr>ub_flag := False\<rparr>, which = \<lambda>_ _. True\<rparr>"

definition box_files :: "upgrade_box links" where
  "box_files =
     \<lparr>fl_exists = \<lambda>_ _. False, fl_is_file = \<lambda>_ _. False, fl_is_dir = \<lambda>_ _. False, fl_resolve = \<lambda>p _. p,
      fl_list = \<lambda>_. p_ret [], fl_read = \<lambda>_. p_ret [], fl_write = \<lambda>_ _. p_ret (), fl_unlink = \<lambda>_. p_ret (),
      fl_make_dirs = \<lambda>_. p_ret (), fl_make_dir = \<lambda>_. p_ret (), fl_remove_tree = \<lambda>_. p_ret (),
      fl_chmod = \<lambda>_ _. p_ret (), fl_chown = \<lambda>_ _ _. p_ret (), fl_move = \<lambda>_ _. p_ret (), fl_umask = \<lambda>n. p_ret n,
      lk_is_link = \<lambda>_ _. False, lk_readlink = \<lambda>_. p_ret [], lk_symlink = \<lambda>_ _. p_ret (), lk_copyfile = \<lambda>_ _. p_ret ()\<rparr>"

definition box_env :: "upgrade_box upgrades_env" where
  "box_env =
     \<lparr>uv_web = \<lparr>we_daemon = \<lparr>de_sys = box_sys, de_apps = [], de_daemons = [], de_related = [], de_containers = [],
                  de_connections = \<lambda>_. p_ret [], de_netcat = \<lambda>_ _ _. p_ret 0\<rparr>,
               we_curl = \<lambda>_ _. p_ret (0, []), we_files = box_files, we_webservers = [], we_roots = [], we_str = \<lambda>_. []\<rparr>,
      uv_files = files.truncate box_files,
      uv_notify = \<lparr>ne_get = ub_notes, ne_put = \<lambda>db w. w\<lparr>ub_notes := db\<rparr>, ne_now = \<lambda>_. 0, ne_str = \<lambda>_. []\<rparr>,
      uv_distributions = \<lambda>_. [Some ''bookworm''], uv_save_new = \<lambda>_. p_ret (), uv_source_dists = \<lambda>_. [],
      uv_input = \<lambda>c i w. (Inr (0, []),
        if c = apt_snapshot_command then w\<lparr>ub_apt := Some (if i = apt_snapshot_arguments ''yes'' then ''yes'' else ''no'')\<rparr> else w),
      uv_spawn = \<lambda>_. p_ret (), uv_filesystem = p_ret ''btrfs'', uv_root_inode = \<lambda>_. 256, uv_apt_flag = ub_apt,
      uv_tor_transport = p_ret False, uv_now = \<lambda>_. midnight 2025 8 1, uv_local_hour = \<lambda>_. 6, uv_version = ''25.9'', uv_develop = False\<rparr>"

definition box_start :: upgrade_box where
  "box_start = \<lparr>ub_hold = {''linux-image''}, ub_flag = False, ub_apt = None, ub_triggered = False, ub_notes = []\<rparr>"

lemma box_sh_frame:
  "(hd c \<noteq> ''apt-mark'' \<longrightarrow> ub_hold (snd (box_sh c w)) = ub_hold w) \<and> (c \<noteq> on_complete_command \<longrightarrow> ub_triggered (snd (box_sh c w)) = ub_triggered w) \<and>
   ub_flag (snd (box_sh c w)) = ub_flag w \<and> ub_apt (snd (box_sh c w)) = ub_apt w"
  by (simp add: box_sh_def Let_def on_complete_command_def)

lemma box_laws: "upgrade_laws box_env ub_hold ub_triggered"
  unfolding upgrade_laws_def
  by (simp add: box_env_def box_sys_def box_sh_frame box_sh_def[of "[_, _, _]"] on_complete_command_def p_ret_def Let_def) (simp add: apt_snapshot_arguments_def)

theorem upgrade_gives_back_witness:
  "ub_hold (snd (perform box_env box_start)) = {''linux-image''} \<and> \<not> ub_flag (snd (perform box_env box_start)) \<and>
   is_apt_snapshots_enabled (ub_apt (snd (perform box_env box_start))) \<and> \<not> ub_triggered (snd (perform box_env box_start)) \<and>
   (\<exists>e. fst (perform box_env box_start) = Inl e)"
proof -
  have "fst (upgrade_steps box_env w) \<noteq> Inr ()" for w
    by (simp add: upgrade_steps_def apt_run_def apt_fix_def apt_full_upgrade_def packages_remove_obsolete_def obsolete_packages_def
      pre_debconf_selections_def debconf_set_selections_def run_apt_command_def run_ok_def run_command_def box_env_def box_sys_def
      box_sh_def on_complete_command_def apt_snapshot_command_def p_defs p_ret_def p_raise_def)
  then show ?thesis
    using upgrade_gives_back[OF box_laws, of box_start] by (simp add: box_start_def box_env_def box_sys_def is_apt_snapshots_enabled_def)
qed

interpretation box_machine: upgrade_machine box_env ub_hold ub_triggered
  by unfold_locales (rule box_laws)

text \<open>The upgrade to trixie is announced a week before; the user dismisses it, and it stays away on the same day.\<close>

definition box_status :: upgrade_status where
  "box_status = (status_without_action True (JBool True) True False (Some ''bookworm''))
     \<lparr>us_next_codename := Some ''trixie'', us_next_action := Some ''wait_or_manual'',
      us_next_action_date := Some (microseconds (midnight 2025 8 1) + days 5)\<rparr>"

definition box_dismiss :: "upgrade_box \<Rightarrow> upgrade_box" where
  "box_dismiss w = w\<lparr>ub_notes := dismiss ''upgrades-dist-upgrade'' True 0 (ub_notes w)\<rparr>"

theorem upgrade_notified_once_witness:
  "\<exists>w. dist_upgrade_show_notification box_env box_status False box_start = (Inr (), w) \<and> w \<noteq> box_start \<and>
     dist_upgrade_show_notification box_env box_status False (box_dismiss w) = (Inr (), box_dismiss w)"
proof -
  let ?show = "dist_upgrade_show_notification box_env box_status False"
  have laws: "notify_laws (uv_notify box_env)" by (simp add: notify_laws_def box_env_def)
  have start: "shown_data box_env box_start = JDict []" by (simp add: shown_data_def box_env_def box_start_def)
  have new: "us_current_codename box_status \<noteq> us_next_codename box_status" by (simp add: box_status_def status_without_action_def)
  have kept: "shown_data box_env (box_dismiss w) = shown_data box_env w" for w
    by (cases "map_of (ub_notes w) ''upgrades-dist-upgrade''") (simp_all add: shown_data_def box_env_def box_dismiss_def dismiss_def od_map_of)
  have day: "days_left box_env box_status (box_dismiss w) = days_left box_env box_status box_start" for w
    by (simp add: days_left_def box_env_def)
  have "days_left box_env box_status box_start = Some 7"
    by (simp add: days_left_def box_status_def box_env_def period_of_def days_def seconds_def status_without_action_def)
  then have "ub_notes (snd (?show box_start)) \<noteq> []"
    unfolding show_notification_eval[OF start, of box_status False]
    by (simp add: Let_def state_of_def stays_hidden_def box_status_def status_without_action_def nonempty_def json_opt_def notes_change_def
      p_mod_def box_env_def update_or_create_def dismiss_def od_map_of box_start_def od_set_def)
  then have "snd (?show box_start) \<noteq> box_start" by (auto simp: box_start_def)
  then show ?thesis using upgrade_notified_once[OF laws start new kept day, of False] by (metis prod.collapse)
qed

end
