(* ===== verification/Dropin.thy ===== *)
theory Dropin
  imports Paths Daemon
begin

text \<open>
  Configuration files that apps drop into /etc (plinth/config.py and plinth/privileged/config.py): the
  component, and the privileged calls that check, link, copy and remove the files of a component.
\<close>

section \<open>The component\<close>

record dropin_fields =
  dp_etc_paths :: "string list"
  dp_copy_only :: bool

text \<open>
  \<open>dr_components\<close> are the components by id; \<open>dr_module\<close> imports the module of an app and gives the drop-in
  components of the app classes in it.
\<close>

record 'w dropin_env =
  dr_files :: "'w links"
  dr_apps :: "'w apps"
  dr_components :: "(string, dropin_fields) odict"
  dr_module :: "string \<Rightarrow> dropin_fields list result"

definition dropin_init :: "string \<Rightarrow> string list option \<Rightarrow> bool \<Rightarrow> ('x world_scheme, comp_obj \<times> dropin_fields) prog" where
  "dropin_init cid etc_paths copy_only =
     p_bind (follower_init cid False) (\<lambda>self. p_ret (self\<lparr>classes := ''DropinConfigs'' # classes self\<rparr>,
       \<lparr>dp_etc_paths = (case etc_paths of None \<Rightarrow> [] | Some ps \<Rightarrow> ps), dp_copy_only = copy_only\<rparr>))"

definition strip_slashes :: "string \<Rightarrow> string" where
  "strip_slashes p = dropWhile (\<lambda>c. c = CHR ''/'') p"

definition get_target_path :: "string \<Rightarrow> string" where
  "get_target_path path = path_join (path_join ''/'' ''usr/share/freedombox/'') (strip_slashes path)"

definition get_etc_path :: "string \<Rightarrow> string" where
  "get_etc_path path = path_join ''/'' (strip_slashes path)"

section \<open>Privileged calls\<close>

definition get_managed_dropin_config :: "'w dropin_env \<Rightarrow> string \<Rightarrow> string \<Rightarrow> dropin_fields result" where
  "get_managed_dropin_config env a path =
     r_bind (dr_module env a) (\<lambda>cs.
       case filter (\<lambda>c. path \<in> set (dp_etc_paths c)) cs of [] \<Rightarrow> Inl AssertionError | c # _ \<Rightarrow> Inr c)"

text \<open>\<open>exists\<close>, \<open>is_file\<close> and \<open>read_text\<close> follow links; the component only serves to check the path.\<close>

definition dropin_is_valid :: "'w dropin_env \<Rightarrow> string \<Rightarrow> string \<Rightarrow> bool \<Rightarrow> bool \<Rightarrow> ('w, bool) prog" where
  "dropin_is_valid env a path copy_only unlink_invalid =
     p_bind (p_lift (get_managed_dropin_config env a path)) (\<lambda>_.
       let fs = dr_files env; etc = get_etc_path path; target = get_target_path path
       in p_bind (p_get (\<lambda>w. fl_exists fs etc w \<or> lk_is_link fs etc w)) (\<lambda>there.
          if \<not> there then p_ret False
          else p_bind (p_bind (p_get (\<lambda>w. \<not> copy_only \<and> lk_is_link fs etc w)) (\<lambda>link.
                 if link then p_bind (lk_readlink fs etc) (\<lambda>t. p_ret (t = target)) else p_ret False)) (\<lambda>linked.
               if linked then p_ret True
               else p_bind (p_bind (p_get (\<lambda>w. copy_only \<and> fl_is_file fs etc w)) (\<lambda>file.
                      if file then p_bind (fl_read fs etc) (\<lambda>s. p_bind (fl_read fs target) (\<lambda>t. p_ret (s = t))) else p_ret False)) (\<lambda>copied.
                    if copied then p_ret True
                    else p_then (if unlink_invalid then unlink_if_there fs etc else p_ret ()) (p_ret False)))))"

definition dropin_link :: "'w dropin_env \<Rightarrow> string \<Rightarrow> string \<Rightarrow> bool \<Rightarrow> ('w, unit) prog" where
  "dropin_link env a path copy_only =
     p_bind (p_lift (get_managed_dropin_config env a path)) (\<lambda>_.
       p_then (fl_make_dirs (dr_files env) (path_parent (get_etc_path path)))
         (if copy_only then lk_copyfile (dr_files env) (get_target_path path) (get_etc_path path)
          else lk_symlink (dr_files env) (get_etc_path path) (get_target_path path)))"

definition dropin_unlink :: "'w dropin_env \<Rightarrow> string \<Rightarrow> string \<Rightarrow> bool \<Rightarrow> ('w, unit) prog" where
  "dropin_unlink env a path missing_ok =
     p_bind (p_lift (get_managed_dropin_config env a path)) (\<lambda>_.
       if missing_ok then unlink_if_there (dr_files env) (get_etc_path path) else fl_unlink (dr_files env) (get_etc_path path))"

section \<open>Operations of the component\<close>

definition dropin_of :: "'w dropin_env \<Rightarrow> comp_obj \<Rightarrow> dropin_fields result" where
  "dropin_of env self = od_get (dr_components env) (component_id self)"

text \<open>A component outside of an app has no app id, which the calls refuse as an argument.\<close>

definition own_app_id :: "comp_obj \<Rightarrow> string result" where
  "own_app_id self = (case comp_app_id self of None \<Rightarrow> Inl (TypeError ''app_id'') | Some a \<Rightarrow> Inr a)"

text \<open>The body of the loop of \<open>enable\<close>.\<close>

definition dropin_place :: "'w dropin_env \<Rightarrow> string \<Rightarrow> bool \<Rightarrow> string \<Rightarrow> ('w, unit) prog" where
  "dropin_place env a copy_only path =
     p_bind (dropin_is_valid env a path copy_only True) (\<lambda>valid.
       if \<not> valid then dropin_link env a path copy_only else p_ret ())"

definition dropin_enable :: "'w dropin_env \<Rightarrow> comp_obj \<Rightarrow> ('w, unit) prog" where
  "dropin_enable env self =
     p_bind (p_lift (dropin_of env self)) (\<lambda>f.
       p_for (\<lambda>path. p_bind (p_lift (own_app_id self)) (\<lambda>a.
         dropin_place env a (dp_copy_only f) path)) (dp_etc_paths f))"

definition dropin_disable :: "'w dropin_env \<Rightarrow> comp_obj \<Rightarrow> ('w, unit) prog" where
  "dropin_disable env self =
     p_bind (p_lift (dropin_of env self)) (\<lambda>f.
       p_for (\<lambda>path. p_bind (p_lift (own_app_id self)) (\<lambda>a. dropin_unlink env a path True)) (dp_etc_paths f))"

definition dropin_setup :: "'w dropin_env \<Rightarrow> comp_obj \<Rightarrow> int \<Rightarrow> ('w, unit) prog" where
  "dropin_setup env self old_version =
     (if comp_app_id self = None \<or> comp_app_id self = Some [] then p_ret ()
      else p_bind (p_lift (component_app (dr_apps env) self)) (\<lambda>a.
        p_bind (app_is_enabled a) (\<lambda>en. if en then dropin_enable env self else p_ret ())))"

definition dropin_diagnose :: "'w dropin_env \<Rightarrow> comp_obj \<Rightarrow> ('w, diagnostic_check list) prog" where
  "dropin_diagnose env self =
     p_bind (p_lift (dropin_of env self)) (\<lambda>f.
       p_map (\<lambda>path. p_bind (p_lift (own_app_id self)) (\<lambda>a.
         p_bind (dropin_is_valid env a path (dp_copy_only f) False) (\<lambda>valid. p_ret
           \<lparr>check_id = ''dropin-config-'' @ get_etc_path path,
            description = ''Static configuration {etc_path} is setup properly'',
            check_result = (if valid then PASSED else FAILED),
            parameters = [(''etc_path'', JStr (get_etc_path path))],
            check_component_id = Some (component_id self)\<rparr>))) (dp_etc_paths f))"

text \<open>\<open>enable\<close> and \<open>disable\<close> do not call those of the base class.\<close>

definition dropin_vtable :: "('x world_scheme) dropin_env \<Rightarrow> ('x world_scheme) vtable" where
  "dropin_vtable env = follower_vtable\<lparr>vt_setup := dropin_setup env, vt_enable := dropin_enable env,
     vt_disable := dropin_disable env, vt_diagnose := dropin_diagnose env, vt_has_diagnostics := \<lambda>_. True\<rparr>"

text \<open>
  Drop-in configuration files: enabling the component puts every file in place, whatever was there
  before, and touches no other; the diagnosis then passes; disabling removes them. A component that
  copies leaves a link to the shipped file in place.
\<close>

section \<open>The file system\<close>

datatype entry = Link string | File string

text \<open>
  \<open>at w p\<close> is the link or the regular file at a path; where \<open>exists\<close> holds without one there is a
  directory. The laws are for the files \<open>P\<close>: directories above them can be made, which removes
  nothing and puts directories nowhere else.
\<close>

definition blocked :: "'w links \<Rightarrow> ('w \<Rightarrow> string \<Rightarrow> entry option) \<Rightarrow> 'w \<Rightarrow> string \<Rightarrow> bool" where
  "blocked fs at w p \<longleftrightarrow> at w p = None \<and> fl_exists fs p w"

definition tree_laws :: "'w links \<Rightarrow> ('w \<Rightarrow> string \<Rightarrow> entry option) \<Rightarrow> string set \<Rightarrow> bool" where
  "tree_laws fs at P \<longleftrightarrow>
     (\<forall>p w. lk_is_link fs p w \<longleftrightarrow> (\<exists>t. at w p = Some (Link t))) \<and>
     (\<forall>p t w. at w p = Some (Link t) \<longrightarrow> lk_readlink fs p w = (Inr t, w)) \<and>
     (\<forall>p s w. at w p = Some (File s) \<longrightarrow> fl_exists fs p w \<and> fl_is_file fs p w \<and> fl_read fs p w = (Inr s, w)) \<and>
     (\<forall>p t s w. at w p = Some (Link t) \<longrightarrow> at w t = Some (File s) \<longrightarrow>
        fl_exists fs p w \<and> fl_is_file fs p w \<and> fl_read fs p w = (Inr s, w)) \<and>
     (\<forall>p w. at w p \<noteq> None \<longrightarrow> (\<exists>w'. fl_unlink fs p w = (Inr (), w') \<and> at w' = (at w)(p := None) \<and>
        (\<forall>q. blocked fs at w' q \<longrightarrow> blocked fs at w q))) \<and>
     (\<forall>p w. at w p = None \<longrightarrow> \<not> blocked fs at w p \<longrightarrow> fl_unlink fs p w = (Inl (FileNotFoundError p), w)) \<and>
     (\<forall>p \<in> P. \<forall>w. \<exists>w'. fl_make_dirs fs (path_parent p) w = (Inr (), w') \<and> at w' = at w \<and>
        (\<forall>q \<in> P. blocked fs at w' q \<longrightarrow> blocked fs at w q)) \<and>
     (\<forall>p t w. at w p = None \<longrightarrow> \<not> blocked fs at w p \<longrightarrow> (\<exists>w'. lk_symlink fs p t w = (Inr (), w') \<and>
        at w' = (at w)(p := Some (Link t)) \<and> (\<forall>q. blocked fs at w' q \<longrightarrow> blocked fs at w q))) \<and>
     (\<forall>p t s w. at w p = None \<longrightarrow> \<not> blocked fs at w p \<longrightarrow> at w t = Some (File s) \<longrightarrow> (\<exists>w'. lk_copyfile fs t p w = (Inr (), w') \<and>
        at w' = (at w)(p := Some (File s)) \<and> (\<forall>q. blocked fs at w' q \<longrightarrow> blocked fs at w q)))"

locale file_tree =
  fixes fs :: "'w links"
    and at :: "'w \<Rightarrow> string \<Rightarrow> entry option"
    and P :: "string set"
  assumes laws: "tree_laws fs at P"
begin

lemma is_link: "lk_is_link fs p w \<longleftrightarrow> (\<exists>t. at w p = Some (Link t))"
  using laws unfolding tree_laws_def by (elim conjE) blast

lemma readlink: "at w p = Some (Link t) \<Longrightarrow> lk_readlink fs p w = (Inr t, w)"
  using laws unfolding tree_laws_def by (elim conjE) blast

lemma regular: "at w p = Some (File s) \<Longrightarrow> fl_exists fs p w \<and> fl_is_file fs p w \<and> fl_read fs p w = (Inr s, w)"
  using laws unfolding tree_laws_def by (elim conjE) blast

lemma linked: "at w p = Some (Link t) \<Longrightarrow> at w t = Some (File s) \<Longrightarrow> fl_is_file fs p w \<and> fl_read fs p w = (Inr s, w)"
  using laws unfolding tree_laws_def by (elim conjE) blast

lemmas unlink_law = laws[unfolded tree_laws_def, THEN conjunct2, THEN conjunct2, THEN conjunct2, THEN conjunct2, THEN conjunct1, rule_format]
lemmas missing_law = laws[unfolded tree_laws_def, THEN conjunct2, THEN conjunct2, THEN conjunct2, THEN conjunct2, THEN conjunct2, THEN conjunct1, rule_format]

lemma unlink:
  assumes "\<not> blocked fs at w p"
  shows "\<exists>w'. unlink_if_there fs p w = (Inr (), w') \<and> at w' = (at w)(p := None) \<and> (\<forall>q. blocked fs at w' q \<longrightarrow> blocked fs at w q)"
proof (cases "at w p")
  case None
  then show ?thesis using missing_law[OF None assms] by (auto simp: unlink_if_there_def p_catch_def p_ret_def)
next
  case (Some e)
  then have "at w p \<noteq> None" by simp
  from unlink_law[OF this] show ?thesis by (auto simp: unlink_if_there_def p_catch_def)
qed

lemma make_dirs:
  assumes "p \<in> P"
  shows "\<exists>w'. fl_make_dirs fs (path_parent p) w = (Inr (), w') \<and> at w' = at w \<and> (\<forall>q \<in> P. blocked fs at w' q \<longrightarrow> blocked fs at w q)"
  by (rule laws[unfolded tree_laws_def, THEN conjunct2, THEN conjunct2, THEN conjunct2, THEN conjunct2, THEN conjunct2, THEN conjunct2, THEN conjunct1, rule_format]) (rule assms)

lemma symlink:
  assumes "at w p = None" and "\<not> blocked fs at w p"
  shows "\<exists>w'. lk_symlink fs p t w = (Inr (), w') \<and> at w' = (at w)(p := Some (Link t)) \<and> (\<forall>q. blocked fs at w' q \<longrightarrow> blocked fs at w q)"
  by (rule laws[unfolded tree_laws_def, THEN conjunct2, THEN conjunct2, THEN conjunct2, THEN conjunct2, THEN conjunct2, THEN conjunct2, THEN conjunct2, THEN conjunct1, rule_format]) (rule assms)+

lemma copyfile:
  assumes "at w p = None" and "\<not> blocked fs at w p" and "at w t = Some (File s)"
  shows "\<exists>w'. lk_copyfile fs t p w = (Inr (), w') \<and> at w' = (at w)(p := Some (File s)) \<and> (\<forall>q. blocked fs at w' q \<longrightarrow> blocked fs at w q)"
  by (rule laws[unfolded tree_laws_def, THEN conjunct2, THEN conjunct2, THEN conjunct2, THEN conjunct2, THEN conjunct2, THEN conjunct2, THEN conjunct2, THEN conjunct2, rule_format]) (rule assms)+

end

section \<open>The component\<close>

text \<open>What a component promises of a path, and what must hold of the shipped files and the places in /etc.\<close>

definition placed :: "bool \<Rightarrow> (string \<Rightarrow> string) \<Rightarrow> string \<Rightarrow> entry" where
  "placed copy_only shipped path = (if copy_only then File (shipped path) else Link (get_target_path path))"

definition places_ok :: "'w links \<Rightarrow> ('w \<Rightarrow> string \<Rightarrow> entry option) \<Rightarrow> (string \<Rightarrow> string) \<Rightarrow> dropin_fields \<Rightarrow> 'w \<Rightarrow> bool" where
  "places_ok fs at shipped f w \<longleftrightarrow> inj_on get_etc_path (set (dp_etc_paths f)) \<and>
     (\<forall>path \<in> set (dp_etc_paths f). at w (get_target_path path) = Some (File (shipped path)) \<and>
        get_target_path path \<notin> get_etc_path ` set (dp_etc_paths f) \<and> \<not> blocked fs at w (get_etc_path path) \<and>
        (dp_copy_only f \<longrightarrow> (\<forall>t. at w (get_etc_path path) \<noteq> Some (Link t))))"

text \<open>Nothing else changes.\<close>

definition only_places :: "('w \<Rightarrow> string \<Rightarrow> entry option) \<Rightarrow> dropin_fields \<Rightarrow> 'w \<Rightarrow> 'w \<Rightarrow> bool" where
  "only_places at f w w' \<longleftrightarrow> (\<forall>p. p \<notin> get_etc_path ` set (dp_etc_paths f) \<longrightarrow> at w' p = at w p)"

lemma check_eval:
  assumes "tree_laws (dr_files env) at P" and "get_managed_dropin_config env a path = Inr c"
    and "places_ok (dr_files env) at shipped f w" and "path \<in> set (dp_etc_paths f)"
  shows "if at w (get_etc_path path) = Some (placed (dp_copy_only f) shipped path)
    then dropin_is_valid env a path (dp_copy_only f) b w = (Inr True, w)
    else \<exists>w'. dropin_is_valid env a path (dp_copy_only f) b w = (Inr False, w') \<and>
      at w' = (if b then (at w)(get_etc_path path := None) else at w) \<and>
      (\<forall>q. blocked (dr_files env) at w' q \<longrightarrow> blocked (dr_files env) at w q) \<and> (\<not> b \<longrightarrow> w' = w)"
proof -
  note t = file_tree.intro[OF assms(1)]
  let ?etc = "get_etc_path path" and ?target = "get_target_path path"
  have target: "at w ?target = Some (File (shipped path))" and free: "\<not> blocked (dr_files env) at w ?etc"
    and plain: "dp_copy_only f \<Longrightarrow> at w ?etc \<noteq> Some (Link l)" for l
    using assms(3,4) by (auto simp: places_ok_def)
  note read = file_tree.regular[OF t target]
  note ev = dropin_is_valid_def assms(2) Let_def p_defs p_lift_def p_get_def p_ret_def file_tree.is_link[OF t] placed_def
  show ?thesis
  proof (cases "at w ?etc")
    case None
    then have "\<not> fl_exists (dr_files env) ?etc w" using free by (simp add: blocked_def)
    then show ?thesis using None by (auto simp: ev)
  next
    case (Some e)
    obtain w' where w': "unlink_if_there (dr_files env) ?etc w = (Inr (), w')" "at w' = (at w)(?etc := None)"
        "\<forall>q. blocked (dr_files env) at w' q \<longrightarrow> blocked (dr_files env) at w q"
      using file_tree.unlink[OF t free] by blast
    show ?thesis
    proof (cases e)
      case (Link l)
      then show ?thesis using Some plain file_tree.readlink[OF t Some[unfolded Link]] w' by (auto simp: ev)
    next
      case (File s)
      then show ?thesis using Some file_tree.regular[OF t Some[unfolded File]] read w' by (auto simp: ev)
    qed
  qed
qed

abbreviation "etc_places f \<equiv> get_etc_path ` set (dp_etc_paths f)"

lemma places_ok_upd:
  assumes "places_ok fs at shipped f w" and "path \<in> set (dp_etc_paths f)" and "at w' = (at w)(get_etc_path path := e)"
    and "\<forall>q \<in> etc_places f. blocked fs at w' q \<longrightarrow> blocked fs at w q" and "\<And>t. dp_copy_only f \<Longrightarrow> e \<noteq> Some (Link t)"
  shows "places_ok fs at shipped f w' \<and> only_places at f w w'"
  using assms unfolding places_ok_def only_places_def by (auto simp: fun_upd_def)

lemma place_step:
  assumes "tree_laws (dr_files env) at (etc_places f)" and "get_managed_dropin_config env a path = Inr c"
    and "places_ok (dr_files env) at shipped f w" and path: "path \<in> set (dp_etc_paths f)"
  shows "\<exists>w'. dropin_place env a (dp_copy_only f) path w = (Inr (), w') \<and>
      at w' = (at w)(get_etc_path path := Some (placed (dp_copy_only f) shipped path)) \<and>
      places_ok (dr_files env) at shipped f w' \<and> only_places at f w w'"
proof -
  note t = file_tree.intro[OF assms(1)]
  let ?etc = "get_etc_path path" and ?e = "Some (placed (dp_copy_only f) shipped path)" and ?blocked = "blocked (dr_files env) at"
  note check = check_eval[OF assms, of True]
  have e: "\<And>l. dp_copy_only f \<Longrightarrow> ?e \<noteq> Some (Link l)" by (simp add: placed_def)
  have "\<exists>w'. dropin_place env a (dp_copy_only f) path w = (Inr (), w') \<and> at w' = (at w)(?etc := ?e) \<and>
      (\<forall>q \<in> etc_places f. ?blocked w' q \<longrightarrow> ?blocked w q)"
  proof (cases "at w ?etc = ?e")
    case True
    then show ?thesis using check by (auto simp: dropin_place_def p_bind_def p_ret_def)
  next
    case False
    then obtain w1 where w1: "dropin_is_valid env a path (dp_copy_only f) True w = (Inr False, w1)" "at w1 = (at w)(?etc := None)"
        "\<forall>q. ?blocked w1 q \<longrightarrow> ?blocked w q" using check by auto
    obtain w2 where w2: "fl_make_dirs (dr_files env) (path_parent ?etc) w1 = (Inr (), w2)" "at w2 = at w1"
        "\<forall>q \<in> etc_places f. ?blocked w2 q \<longrightarrow> ?blocked w1 q" using file_tree.make_dirs[OF t, of ?etc w1] path by blast
    have free: "at w2 ?etc = None" "\<not> ?blocked w2 ?etc"
      using assms(3) path w1(2,3) w2(2,3) by (auto simp: places_ok_def)
    have target: "at w2 (get_target_path path) = Some (File (shipped path))"
      using assms(3) path w1(2) w2(2) by (auto simp: places_ok_def fun_upd_def)
    let ?put = "if dp_copy_only f then lk_copyfile (dr_files env) (get_target_path path) ?etc
        else lk_symlink (dr_files env) ?etc (get_target_path path)"
    obtain w3 where w3: "?put w2 = (Inr (), w3)" "at w3 = (at w2)(?etc := ?e)" "\<forall>q. ?blocked w3 q \<longrightarrow> ?blocked w2 q"
      using file_tree.symlink[OF t free, of "get_target_path path"] file_tree.copyfile[OF t free target] by (cases "dp_copy_only f") (auto simp: placed_def)
    have "at w3 = (at w)(?etc := ?e)" using w3(2) w2(2) w1(2) by simp
    moreover have "\<forall>q \<in> etc_places f. ?blocked w3 q \<longrightarrow> ?blocked w q" using w1(3) w2(3) w3(3) by blast
    ultimately show ?thesis using w1(1) w2(1) w3(1) assms(2) by (simp add: dropin_place_def p_bind_def p_then_def dropin_link_def p_lift_def)
  qed
  then show ?thesis using places_ok_upd[OF assms(3) path _ _ e] by blast
qed

lemma enable_loop:
  assumes "tree_laws (dr_files env) at (etc_places f)" and "\<forall>path \<in> set (dp_etc_paths f). \<exists>c. get_managed_dropin_config env a path = Inr c"
    and "places_ok (dr_files env) at shipped f w" and "set ps \<subseteq> set (dp_etc_paths f)"
  shows "\<exists>w'. p_for (dropin_place env a (dp_copy_only f)) ps w = (Inr (), w') \<and>
      places_ok (dr_files env) at shipped f w' \<and> only_places at f w w' \<and>
      (\<forall>path \<in> set (dp_etc_paths f). at w' (get_etc_path path) =
         (if path \<in> set ps then Some (placed (dp_copy_only f) shipped path) else at w (get_etc_path path)))"
  using assms(3,4)
proof (induction ps arbitrary: w)
  case Nil
  then show ?case by (simp add: p_ret_def only_places_def)
next
  case (Cons path ps)
  have p: "path \<in> set (dp_etc_paths f)" using Cons.prems(2) by simp
  obtain c where c: "get_managed_dropin_config env a path = Inr c" using assms(2) p by blast
  obtain w1 where w1: "dropin_place env a (dp_copy_only f) path w = (Inr (), w1)"
      "at w1 = (at w)(get_etc_path path := Some (placed (dp_copy_only f) shipped path))"
      "places_ok (dr_files env) at shipped f w1" "only_places at f w w1"
    using place_step[OF assms(1) c Cons.prems(1) p] by blast
  obtain w2 where w2: "p_for (dropin_place env a (dp_copy_only f)) ps w1 = (Inr (), w2)"
      "places_ok (dr_files env) at shipped f w2" "only_places at f w1 w2"
      "\<forall>path \<in> set (dp_etc_paths f). at w2 (get_etc_path path) =
         (if path \<in> set ps then Some (placed (dp_copy_only f) shipped path) else at w1 (get_etc_path path))"
    using Cons.IH[OF w1(3)] Cons.prems(2) by auto
  have "inj_on get_etc_path (set (dp_etc_paths f))" using w1(3) by (simp add: places_ok_def)
  then have "\<forall>q \<in> set (dp_etc_paths f). at w1 (get_etc_path q) = (if q = path then Some (placed (dp_copy_only f) shipped path) else at w (get_etc_path q))"
    using w1(2) p by (auto simp: inj_on_eq_iff)
  moreover have "only_places at f w w2" using w1(4) w2(3) by (simp add: only_places_def)
  ultimately show ?case using w1(1) w2 by (auto simp: p_then_def p_bind_def)
qed

lemma disable_loop:
  assumes "tree_laws (dr_files env) at (etc_places f)" and "\<forall>path \<in> set (dp_etc_paths f). \<exists>c. get_managed_dropin_config env a path = Inr c"
    and "places_ok (dr_files env) at shipped f w" and "set ps \<subseteq> set (dp_etc_paths f)"
  shows "\<exists>w'. p_for (\<lambda>path. dropin_unlink env a path True) ps w = (Inr (), w') \<and> only_places at f w w' \<and>
      (\<forall>path \<in> set (dp_etc_paths f). at w' (get_etc_path path) = (if path \<in> set ps then None else at w (get_etc_path path)))"
  using assms(3,4)
proof (induction ps arbitrary: w)
  case Nil
  then show ?case by (simp add: p_ret_def only_places_def)
next
  case (Cons path ps)
  have p: "path \<in> set (dp_etc_paths f)" using Cons.prems(2) by simp
  obtain c where c: "get_managed_dropin_config env a path = Inr c" using assms(2) p by blast
  have "\<not> blocked (dr_files env) at w (get_etc_path path)" using Cons.prems(1) p by (simp add: places_ok_def)
  then obtain w1 where w1: "unlink_if_there (dr_files env) (get_etc_path path) w = (Inr (), w1)" "at w1 = (at w)(get_etc_path path := None)"
      "\<forall>q. blocked (dr_files env) at w1 q \<longrightarrow> blocked (dr_files env) at w q"
    using file_tree.unlink[OF file_tree.intro[OF assms(1)]] by blast
  have ok: "places_ok (dr_files env) at shipped f w1 \<and> only_places at f w w1"
    using w1(3) by (intro places_ok_upd[OF Cons.prems(1) p w1(2)]) auto
  then obtain w2 where w2: "p_for (\<lambda>path. dropin_unlink env a path True) ps w1 = (Inr (), w2)" "only_places at f w1 w2"
      "\<forall>path \<in> set (dp_etc_paths f). at w2 (get_etc_path path) = (if path \<in> set ps then None else at w1 (get_etc_path path))"
    using Cons.IH[of w1] Cons.prems(2) by auto
  have "inj_on get_etc_path (set (dp_etc_paths f))" using Cons.prems(1) by (simp add: places_ok_def)
  then have "\<forall>q \<in> set (dp_etc_paths f). at w1 (get_etc_path q) = (if q = path then None else at w (get_etc_path q))"
    using w1(2) p by (auto simp: inj_on_eq_iff)
  moreover have "only_places at f w w2" using ok w2(2) by (simp add: only_places_def)
  moreover have "dropin_unlink env a path True w = (Inr (), w1)" using w1(1) c by (simp add: dropin_unlink_def p_bind_def p_lift_def)
  ultimately show ?case using w2 by (auto simp: p_then_def p_bind_def)
qed

lemma diagnose_loop:
  assumes "tree_laws (dr_files env) at (etc_places f)" and "\<forall>path \<in> set (dp_etc_paths f). \<exists>c. get_managed_dropin_config env a path = Inr c"
    and "places_ok (dr_files env) at shipped f w" and "comp_app_id self = Some a" and "set ps \<subseteq> set (dp_etc_paths f)"
    and "\<forall>path \<in> set ps. at w (get_etc_path path) = Some (placed (dp_copy_only f) shipped path)"
  shows "\<exists>rs. p_map (\<lambda>path. p_bind (p_lift (own_app_id self)) (\<lambda>a.
         p_bind (dropin_is_valid env a path (dp_copy_only f) False) (\<lambda>valid. p_ret
           \<lparr>check_id = ''dropin-config-'' @ get_etc_path path,
            description = ''Static configuration {etc_path} is setup properly'',
            check_result = (if valid then PASSED else FAILED),
            parameters = [(''etc_path'', JStr (get_etc_path path))],
            check_component_id = Some (component_id self)\<rparr>))) ps w = (Inr rs, w) \<and>
    length rs = length ps \<and> (\<forall>r \<in> set rs. check_result r = PASSED)"
  using assms(5,6)
proof (induction ps)
  case Nil
  then show ?case by (simp add: p_ret_def)
next
  case (Cons path ps)
  obtain c where "get_managed_dropin_config env a path = Inr c" using assms(2) Cons.prems(1) by auto
  from check_eval[OF assms(1) this assms(3), of False]
  have "dropin_is_valid env a path (dp_copy_only f) False w = (Inr True, w)" using Cons.prems by simp
  then show ?case using Cons by (auto simp: p_bind_def p_ret_def p_lift_def own_app_id_def assms(4))
qed


text \<open>A disk that is a table of links and files.\<close>

definition disk_file :: "string \<Rightarrow> (string \<rightharpoonup> entry) \<Rightarrow> string option" where
  "disk_file p w =
     (case w p of
        None \<Rightarrow> None
      | Some (File s) \<Rightarrow> Some s
      | Some (Link t) \<Rightarrow> (case w t of Some (File s) \<Rightarrow> Some s | _ \<Rightarrow> None))"

definition disk_links :: "(string \<rightharpoonup> entry) links" where
  "disk_links =
     \<lparr>fl_exists = \<lambda>p w. disk_file p w \<noteq> None, fl_is_file = \<lambda>p w. disk_file p w \<noteq> None, fl_is_dir = \<lambda>_ _. False,
      fl_resolve = \<lambda>p _. p, fl_list = \<lambda>_. p_ret [],
      fl_read = \<lambda>p w. (case disk_file p w of None \<Rightarrow> (Inl (FileNotFoundError p), w) | Some s \<Rightarrow> (Inr s, w)),
      fl_write = \<lambda>_ _. p_ret (),
      fl_unlink = \<lambda>p w. (if w p = None then (Inl (FileNotFoundError p), w) else (Inr (), w(p := None))),
      fl_make_dirs = \<lambda>_. p_ret (), fl_make_dir = \<lambda>_. p_ret (), fl_remove_tree = \<lambda>_. p_ret (),
      fl_chmod = \<lambda>_ _. p_ret (), fl_chown = \<lambda>_ _ _. p_ret (), fl_move = \<lambda>_ _. p_ret (), fl_umask = \<lambda>n. p_ret n,
      lk_is_link = \<lambda>p w. (case w p of Some (Link t) \<Rightarrow> True | _ \<Rightarrow> False),
      lk_readlink = \<lambda>p w. (case w p of Some (Link t) \<Rightarrow> (Inr t, w) | _ \<Rightarrow> (Inl (OtherError ''EINVAL''), w)),
      lk_symlink = \<lambda>p t w. (if w p = None then (Inr (), w(p := Some (Link t))) else (Inl (FileExistsError p), w)),
      lk_copyfile = \<lambda>t p w. (case disk_file t w of
         None \<Rightarrow> (Inl (FileNotFoundError t), w) | Some s \<Rightarrow> (Inr (), w(p := Some (File s))))\<rparr>"

lemma disk_blocked: "\<not> blocked disk_links (\<lambda>w. w) w p"
  by (auto simp: blocked_def disk_links_def disk_file_def split: option.splits)

lemma disk_laws: "tree_laws disk_links (\<lambda>w. w) P"
  unfolding tree_laws_def
  by (simp add: disk_blocked) (auto simp: disk_links_def disk_file_def p_ret_def split: option.splits entry.splits)

interpretation disk: file_tree disk_links "\<lambda>w. w" P for P
  by unfold_locales (rule disk_laws)

text \<open>An app with one file, in the place of which the administrator has put another.\<close>

abbreviation "conf_fields \<equiv> \<lparr>dp_etc_paths = [''/etc/a/x.conf''], dp_copy_only = False\<rparr>"

definition conf_component :: comp_obj where
  "conf_component = \<lparr>component_id = ''conf'', comp_app_id = Some ''a'', is_leader = False,
     classes = [''DropinConfigs'', ''FollowerComponent'', ''Component''], info = None, packages = None\<rparr>"

definition conf_env :: "(string \<rightharpoonup> entry) dropin_env" where
  "conf_env = \<lparr>dr_files = disk_links, dr_apps = [], dr_components = [(''conf'', conf_fields)], dr_module = \<lambda>_. Inr [conf_fields]\<rparr>"

definition conf_disk :: "string \<rightharpoonup> entry" where
  "conf_disk = [''/usr/share/freedombox/etc/a/x.conf'' \<mapsto> File ''shipped'', ''/etc/a/x.conf'' \<mapsto> File ''edited'']"


text \<open>
  What the theorem leaves out: a component that copies accepts a link to the shipped file as a copy,
  since reading follows it, and leaves the link. And the flag of the component is not set by enabling.
\<close>

lemma copy_keeps_link:
  assumes "tree_laws (dr_files env) at P" and "get_managed_dropin_config env a path = Inr c"
    and "at w (get_etc_path path) = Some (Link (get_target_path path))" and "at w (get_target_path path) = Some (File s)"
  shows "dropin_place env a True path w = (Inr (), w)"
proof -
  note t = file_tree.intro[OF assms(1)]
  show ?thesis
    using file_tree.linked[OF t assms(3,4)] file_tree.regular[OF t assms(4)] file_tree.is_link[OF t, of "get_etc_path path" w] assms(2,3)
    by (simp add: dropin_place_def dropin_is_valid_def Let_def p_bind_def p_lift_def p_get_def p_ret_def)
qed

end
