(* ===== verification/Container.thy ===== *)
theory Container
  imports Paths Daemon
begin

text \<open>
  Containers of apps (plinth/container.py, plinth/privileged/container.py and the podman functions of
  plinth/action_utils.py): the component, the privileged calls, and the unit files written for
  podman's generator or, where there is none, for systemd.
\<close>

section \<open>The component\<close>

record container_fields =
  ct_name :: string
  ct_image :: string
  ct_volume_name :: string
  ct_volume_path :: string
  ct_volumes :: "(string, string) odict option"
  ct_env :: "(string, string) odict option"
  ct_binds_to :: "string list option"
  ct_devices :: "(string, string) odict option"
  ct_listen_ports :: "(int \<times> string) list"

text \<open>
  \<open>ce_wanted c\<close> reads, with Augeas, the values of WantedBy in the Install section of the container's
  file; \<open>ce_save c vs\<close> saves the file with these values.
\<close>

record 'w container_env =
  ce_daemon :: "'w daemon_env"
  ce_files :: "'w files"
  ce_fields :: "(string, container_fields) odict"
  ce_wanted :: "string \<Rightarrow> 'w \<Rightarrow> string list"
  ce_save :: "string \<Rightarrow> string list \<Rightarrow> ('w, unit) prog"

abbreviation ce_sys :: "'w container_env \<Rightarrow> 'w system" where
  "ce_sys e \<equiv> de_sys (ce_daemon e)"

definition container_init ::
  "string \<Rightarrow> string \<Rightarrow> string \<Rightarrow> string \<Rightarrow> string \<Rightarrow> (string, string) odict option \<Rightarrow> (string, string) odict option \<Rightarrow>
   string list option \<Rightarrow> (string, string) odict option \<Rightarrow> (int \<times> string) list option \<Rightarrow> (comp_obj \<times> container_fields) result"
where
  "container_init cid name img volume_name volume_path volumes envs binds_to devices listen_ports =
     r_bind (leader_init cid) (\<lambda>self.
       Inr (self\<lparr>classes := ''Container'' # classes self @ [''LogEmitter'']\<rparr>,
         \<lparr>ct_name = name, ct_image = img, ct_volume_name = volume_name, ct_volume_path = volume_path, ct_volumes = volumes,
          ct_env = envs, ct_binds_to = binds_to, ct_devices = devices,
          ct_listen_ports = (case listen_ports of None \<Rightarrow> [] | Some ps \<Rightarrow> ps)\<rparr>))"

section \<open>Podman\<close>

definition entries :: "('k, 'v) odict option \<Rightarrow> ('k, 'v) odict" where
  "entries d = (case d of None \<Rightarrow> [] | Some m \<Rightarrow> m)"

definition joined :: "string list \<Rightarrow> string" where
  "joined ls = join_str [CHR 0x0A] ls"

definition bind_lines :: "string list option \<Rightarrow> string" where
  "bind_lines binds_to =
     joined (map (\<lambda>s. ''BindsTo='' @ s @ [CHR 0x0A] @ ''After='' @ s) (case binds_to of None \<Rightarrow> [] | Some ss \<Rightarrow> ss))"

definition volume_file :: "string \<Rightarrow> string" where
  "volume_file volume_name = path_join ''/etc/containers/systemd'' (volume_name @ ''.volume'')"

definition container_file :: "string \<Rightarrow> string" where
  "container_file container = path_join ''/etc/containers/systemd'' (container @ ''.container'')"

definition fallback_file :: "string \<Rightarrow> string" where
  "fallback_file container = path_str (''/etc/systemd/system/'' @ container @ ''.service'')"

definition volume_text :: "string \<Rightarrow> string \<Rightarrow> string" where
  "volume_text volume_name volume_path =
     unlines [''[Volume]'', ''Device='' @ volume_path, ''Driver=local'', ''VolumeName='' @ volume_name, ''Options=bind'']"

definition install_text :: string where
  "install_text = unlines [''[Install]'', ''WantedBy=default.target'']"

text \<open>\<open>there\<close> tells which devices exist on the host.\<close>

definition container_text :: "container_fields \<Rightarrow> (string \<Rightarrow> bool) \<Rightarrow> string" where
  "container_text f there =
     unlines
       [''[Unit]'', ''Requires='' @ ct_volume_name f @ ''-volume.service'', ''After='' @ ct_volume_name f @ ''-volume.service'',
        bind_lines (ct_binds_to f), [],
        ''[Container]'', ''AutoUpdate=registry'', ''ContainerName='' @ [CHR 0x25] @ ''N'',
        joined (map (\<lambda>(k, v). ''Environment='' @ k @ ''='' @ v) (entries (ct_env f))),
        ''Image='' @ ct_image f, ''Network=host'',
        joined (map (\<lambda>(s, d). ''Volume='' @ s @ '':'' @ d) (entries (ct_volumes f))),
        joined (map (\<lambda>(s, d). ''AddDevice='' @ s @ '':'' @ d) (filter (\<lambda>(s, d). there s) (entries (ct_devices f)))), [],
        ''[Service]'', ''Restart=always'', []] @ install_text"

definition fallback_text :: "container_fields \<Rightarrow> (string \<Rightarrow> bool) \<Rightarrow> string" where
  "fallback_text f there =
     (let pc = [CHR 0x25] in
      unlines
       [''[Unit]'', bind_lines (ct_binds_to f), ''RequiresMountsFor='' @ pc @ ''t/containers'',
        joined (map (\<lambda>(h, c). ''RequiresMountsFor='' @ h) (filter (\<lambda>(h, c). starts_with h ''/'') (entries (ct_volumes f)))), [],
        ''[Service]'', ''Restart=always'', ''Environment=PODMAN_SYSTEMD_UNIT='' @ pc @ ''n'', ''KillMode=mixed'',
        ''ExecStop=/usr/bin/podman rm -v -f -i --cidfile='' @ pc @ ''t/'' @ pc @ ''N.cid'',
        ''ExecStopPost=-/usr/bin/podman rm -v -f -i --cidfile='' @ pc @ ''t/'' @ pc @ ''N.cid'',
        ''Delegate=yes'', ''Type=notify'', ''NotifyAccess=all'', ''SyslogIdentifier='' @ pc @ ''N'',
        ''ExecStartPre=/usr/bin/rm -f '' @ pc @ ''t/'' @ pc @ ''N.cid'',
        ''ExecStartPre=/usr/bin/podman volume rm --force '' @ ct_volume_name f,
        ''ExecStartPre=/usr/bin/podman volume create --driver=local --opt device='' @ ct_volume_path f @ '' --opt o=bind '' @
          ct_volume_name f,
        ''ExecStart=/usr/bin/podman run --name='' @ pc @ ''N --cidfile='' @ pc @ ''t/'' @ pc @
          ''N.cid --replace --rm --cgroups=split --network=host --sdnotify=conmon --detach --label io.containers.autoupdate=registry '' @
          join_str '' '' (map (\<lambda>(h, c). ''-v '' @ h @ '':'' @ c) (entries (ct_volumes f))) @ '' '' @
          join_str '' '' (map (\<lambda>(k, v). ''--env '' @ k @ ''='' @ v) (entries (ct_env f))) @ '' '' @
          join_str '' '' (map (\<lambda>(h, c). ''-d '' @ h @ '':'' @ c) (filter (\<lambda>(h, c). there h) (entries (ct_devices f)))) @ '' '' @
          ct_image f, []] @ install_text)"

definition create_fallback_service_file :: "'w container_env \<Rightarrow> container_fields \<Rightarrow> ('w, unit) prog" where
  "create_fallback_service_file e f =
     p_bind (p_get (fl_exists (ce_files e) ''/usr/lib/systemd/system-generators/podman-system-generator'')) (\<lambda>generator.
       if generator then unlink_if_there (ce_files e) (fallback_file (ct_name f))
       else p_then (fl_make_dirs (ce_files e) (path_parent (fallback_file (ct_name f))))
           (p_bind (p_get (\<lambda>w s. fl_exists (ce_files e) s w)) (\<lambda>there.
            p_then (fl_write (ce_files e) (fallback_file (ct_name f)) (fallback_text f there))
                   (service_daemon_reload (ce_sys e)))))"

definition podman_create :: "'w container_env \<Rightarrow> container_fields \<Rightarrow> ('w, unit) prog" where
  "podman_create e f =
     p_then (service_stop (ce_sys e) (ct_volume_name f @ ''-volume.service'') False)
    (p_then (service_stop (ce_sys e) (ct_name f) False)
    (p_then (run_ok (ce_sys e) [''podman'', ''volume'', ''rm'', ''--force'', ct_volume_name f] False)
    (p_then (fl_make_dirs (ce_files e) ''/etc/containers/systemd'')
    (p_then (run_ok (ce_sys e) [''podman'', ''image'', ''pull'', ct_image f] True)
    (p_then (fl_make_dirs (ce_files e) (path_str (ct_volume_path f)))
    (p_then (fl_write (ce_files e) (volume_file (ct_volume_name f)) (volume_text (ct_volume_name f) (ct_volume_path f)))
    (p_bind (p_get (\<lambda>w s. fl_exists (ce_files e) s w)) (\<lambda>there.
     p_then (fl_write (ce_files e) (container_file (ct_name f)) (container_text f there))
    (p_then (create_fallback_service_file e f)
            (service_daemon_reload (ce_sys e)))))))))))"

definition podman_is_enabled :: "'w container_env \<Rightarrow> string \<Rightarrow> ('w, bool) prog" where
  "podman_is_enabled e c = p_get (\<lambda>w. ''default.target'' \<in> set (ce_wanted e c w))"

definition podman_enable :: "'w container_env \<Rightarrow> string \<Rightarrow> ('w, unit) prog" where
  "podman_enable e c =
     p_bind (p_get (ce_wanted e c)) (\<lambda>vs.
       if ''default.target'' \<notin> set vs then ce_save e c (vs @ [''default.target'']) else p_ret ())"

definition podman_disable :: "'w container_env \<Rightarrow> string \<Rightarrow> ('w, unit) prog" where
  "podman_disable e c = ce_save e c []"

text \<open>\<open>rmtree(..., ignore_errors=True)\<close>.\<close>

definition podman_uninstall :: "'w container_env \<Rightarrow> string \<Rightarrow> string \<Rightarrow> string \<Rightarrow> string \<Rightarrow> ('w, unit) prog" where
  "podman_uninstall e container volume_name img volume_path =
     p_then (run_ok (ce_sys e) [''podman'', ''volume'', ''rm'', ''--force'', volume_name] True)
    (p_then (run_ok (ce_sys e) [''podman'', ''image'', ''rm'', ''--ignore'', img] True)
    (p_then (unlink_if_there (ce_files e) (volume_file volume_name))
    (p_then (unlink_if_there (ce_files e) (container_file container))
    (p_then (unlink_if_there (ce_files e) (path_join ''/etc/systemd/system/'' (container @ ''.service'')))
    (p_then (p_catch (fl_remove_tree (ce_files e) volume_path) (\<lambda>_. p_ret ()))
            (service_daemon_reload (ce_sys e)))))))"

section \<open>Privileged calls\<close>

definition container_of :: "'w container_env \<Rightarrow> comp_obj \<Rightarrow> container_fields result" where
  "container_of e self = od_get (ce_fields e) (component_id self)"

definition get_managed_containers :: "'w container_env \<Rightarrow> string list result" where
  "get_managed_containers e =
     r_map (\<lambda>c. r_bind (container_of e (obj c)) (\<lambda>f. Inr (ct_name f)))
       (concat (map (\<lambda>a. get_components_of_type a ''Container'') (od_values (de_apps (ce_daemon e)))))"

definition assert_container_is_managed :: "'w container_env \<Rightarrow> string \<Rightarrow> unit result" where
  "assert_container_is_managed e container =
     r_bind (get_managed_containers e) (\<lambda>cs.
       if container \<notin> set cs then Inl (ValueError ''The container is not managed by FreedomBox.'') else Inr ())"

definition container_is_enabled :: "'w container_env \<Rightarrow> string \<Rightarrow> ('w, bool) prog" where
  "container_is_enabled e c = p_then (p_lift (assert_container_is_managed e c)) (podman_is_enabled e c)"

definition container_enable :: "'w container_env \<Rightarrow> string \<Rightarrow> ('w, unit) prog" where
  "container_enable e c =
     p_then (p_lift (assert_container_is_managed e c))
    (p_then (podman_enable e c) (service_enable (ce_sys e) c False))"

definition container_disable :: "'w container_env \<Rightarrow> string \<Rightarrow> ('w, unit) prog" where
  "container_disable e c =
     p_then (p_lift (assert_container_is_managed e c))
    (p_then (service_disable (ce_sys e) c False) (podman_disable e c))"

text \<open>The arguments of the call are those of the container's fields.\<close>

definition container_setup :: "'w container_env \<Rightarrow> container_fields \<Rightarrow> ('w, unit) prog" where
  "container_setup e f =
     p_then (p_lift (assert_container_is_managed e (ct_name f)))
    (p_then (podman_create e f) (service_start (ce_sys e) (ct_name f) True))"

definition container_uninstall :: "'w container_env \<Rightarrow> string \<Rightarrow> string \<Rightarrow> string \<Rightarrow> string \<Rightarrow> ('w, unit) prog" where
  "container_uninstall e container img volume_name volume_path = podman_uninstall e container volume_name img volume_path"

section \<open>Operations of the component\<close>

definition ct_is_enabled :: "'w container_env \<Rightarrow> comp_obj \<Rightarrow> ('w, bool) prog" where
  "ct_is_enabled e self = p_bind (p_lift (container_of e self)) (\<lambda>f. container_is_enabled e (ct_name f))"

definition ct_enable :: "'w container_env \<Rightarrow> comp_obj \<Rightarrow> ('w, unit) prog" where
  "ct_enable e self = p_bind (p_lift (container_of e self)) (\<lambda>f. container_enable e (ct_name f))"

definition ct_disable :: "'w container_env \<Rightarrow> comp_obj \<Rightarrow> ('w, unit) prog" where
  "ct_disable e self = p_bind (p_lift (container_of e self)) (\<lambda>f. container_disable e (ct_name f))"

definition ct_is_running :: "'w container_env \<Rightarrow> comp_obj \<Rightarrow> ('w, bool) prog" where
  "ct_is_running e self = p_bind (p_lift (container_of e self)) (\<lambda>f. priv_is_running (ce_daemon e) (ct_name f))"

definition ct_ensure_running :: "'w container_env \<Rightarrow> comp_obj \<Rightarrow> (bool \<Rightarrow> ('w, 'a) prog) \<Rightarrow> ('w, 'a) prog" where
  "ct_ensure_running e self body =
     p_bind (p_lift (container_of e self)) (\<lambda>f.
     p_bind (ct_is_running e self) (\<lambda>starting_state.
       p_then (if \<not> starting_state then priv_enable (ce_daemon e) (ct_name f) else p_ret ())
         (p_finally (body starting_state) (if \<not> starting_state then priv_disable (ce_daemon e) (ct_name f) else p_ret ()))))"

definition ct_setup :: "'w container_env \<Rightarrow> comp_obj \<Rightarrow> int \<Rightarrow> ('w, unit) prog" where
  "ct_setup e self old_version =
     p_bind (if old_version \<noteq> 0 then p_bind (ct_is_enabled e self) (\<lambda>b. p_ret (\<not> b)) else p_ret False) (\<lambda>should_disable.
     p_bind (p_lift (container_of e self)) (\<lambda>f.
     p_then (container_setup e f)
            (if should_disable then ct_disable e self else p_ret ())))"

definition ct_uninstall :: "'w container_env \<Rightarrow> comp_obj \<Rightarrow> ('w, unit) prog" where
  "ct_uninstall e self =
     p_bind (p_lift (container_of e self)) (\<lambda>f. container_uninstall e (ct_name f) (ct_image f) (ct_volume_name f) (ct_volume_path f))"

definition ct_diagnose_unit_is_running :: "'w container_env \<Rightarrow> comp_obj \<Rightarrow> ('w, diagnostic_check) prog" where
  "ct_diagnose_unit_is_running e self =
     p_bind (p_lift (container_of e self)) (\<lambda>f.
     p_bind (ct_is_running e self) (\<lambda>b. p_ret
       \<lparr>check_id = ''container-running-'' @ ct_name f, description = ''Container {container_name} is running'',
        check_result = (if b then PASSED else FAILED), parameters = [(''container_name'', JStr (ct_name f))],
        check_component_id = Some (component_id self)\<rparr>))"

definition ct_diagnose :: "'w container_env \<Rightarrow> comp_obj \<Rightarrow> ('w, diagnostic_check list) prog" where
  "ct_diagnose e self =
     p_bind (p_lift (container_of e self)) (\<lambda>f.
     p_bind (ct_diagnose_unit_is_running e self) (\<lambda>r.
     p_bind (p_map (\<lambda>(port, kind). diagnose_port_listening (ce_daemon e) port kind None (Some (component_id self))) (ct_listen_ports f))
       (\<lambda>rs. p_ret (r # rs))))"

definition container_vtable :: "'w container_env \<Rightarrow> 'w vtable" where
  "container_vtable e = leader_vtable\<lparr>vt_is_enabled := ct_is_enabled e, vt_enable := ct_enable e, vt_disable := ct_disable e,
     vt_setup := ct_setup e, vt_uninstall := ct_uninstall e, vt_diagnose := ct_diagnose e, vt_has_diagnostics := \<lambda>_. True,
     vt_get_logs := \<lambda>self. p_bind (p_lift (container_of e self)) (\<lambda>f. priv_get_logs (ce_daemon e) (ct_name f))\<rparr>"

text \<open>
  Running the set-up of a container again writes its unit file anew, in which the container starts at
  boot; a container that was disabled is disabled afterwards all the same.
\<close>

section \<open>The unit file\<close>

text \<open>
  What Augeas reads of a written unit file that ends with the Install section, and that no command and
  no change of another file changes it.
\<close>

definition container_laws :: "'w container_env \<Rightarrow> string \<Rightarrow> bool" where
  "container_laws e c \<longleftrightarrow>
     (\<forall>txt w. ce_wanted e c (snd (fl_write (ce_files e) (container_file c) (txt @ install_text) w)) = [''default.target''] \<or>
        (\<exists>x. fst (fl_write (ce_files e) (container_file c) (txt @ install_text) w) = Inl x)) \<and>
     (\<forall>p txt w. p \<noteq> container_file c \<longrightarrow> ce_wanted e c (snd (fl_write (ce_files e) p txt w)) = ce_wanted e c w) \<and>
     (\<forall>p w. p \<noteq> container_file c \<longrightarrow> ce_wanted e c (snd (fl_unlink (ce_files e) p w)) = ce_wanted e c w) \<and>
     (\<forall>p w. ce_wanted e c (snd (fl_make_dirs (ce_files e) p w)) = ce_wanted e c w) \<and>
     (\<forall>cmd w. ce_wanted e c (snd (sh (ce_sys e) cmd w)) = ce_wanted e c w) \<and>
     (\<forall>vs w. \<exists>w'. ce_save e c vs w = (Inr (), w') \<and> ce_wanted e c w' = vs)"

locale unit_file =
  fixes e :: "'w container_env"
    and c :: string
  assumes laws: "container_laws e c"
begin

abbreviation "wanted vs \<equiv> (\<lambda>w. ce_wanted e c w = vs)"

lemma keeps_sh: "p_keeps (wanted vs) (sh (ce_sys e) cmd)"
  using laws unfolding container_laws_def p_keeps_def by simp

lemma keeps_commands:
  "p_keeps (wanted vs) (run_ok (ce_sys e) cmd b)" "p_keeps (wanted vs) (service_action (ce_sys e) s a b)"
  "p_keeps (wanted vs) (service_daemon_reload (ce_sys e))" "p_keeps (wanted vs) (service_stop (ce_sys e) s b)"
  "p_keeps (wanted vs) (service_start (ce_sys e) s b)" "p_keeps (wanted vs) (service_disable (ce_sys e) s b)"
  "p_keeps (wanted vs) (service_enable (ce_sys e) s b)"
  unfolding service_action_def run_ok_def run_command_def service_daemon_reload_def service_stop_def service_start_def
    service_disable_def service_enable_def
  by (intro keeps_intros keeps_sh)+

lemma keeps_files:
  "p_keeps (wanted vs) (fl_make_dirs (ce_files e) p)"
  "p \<noteq> container_file c \<Longrightarrow> p_keeps (wanted vs) (fl_write (ce_files e) p txt)"
  "p \<noteq> container_file c \<Longrightarrow> p_keeps (wanted vs) (unlink_if_there (ce_files e) p)"
proof -
  show "p_keeps (wanted vs) (fl_make_dirs (ce_files e) p)"
    using laws unfolding container_laws_def p_keeps_def by simp
  show "p_keeps (wanted vs) (fl_write (ce_files e) p txt)" if "p \<noteq> container_file c"
    using that laws unfolding container_laws_def p_keeps_def by simp
  have "p_keeps (wanted vs) (fl_unlink (ce_files e) p)" if "p \<noteq> container_file c"
    using that laws unfolding container_laws_def p_keeps_def by simp
  then show "p_keeps (wanted vs) (unlink_if_there (ce_files e) p)" if "p \<noteq> container_file c"
    using that unfolding unlink_if_there_def by (intro keeps_intros)
qed

text \<open>The unit file is written by \<open>podman_create\<close>, and what follows leaves it.\<close>

lemma created:
  assumes "podman_create e f w = (Inr (), w')" and "ct_name f = c" and "fallback_file c \<noteq> container_file c"
  shows "ce_wanted e c w' = [''default.target'']"
proof -
  obtain there w1 w2 where stored: "fl_write (ce_files e) (container_file c) (container_text f there) w1 = (Inr (), w2)"
    and rest: "p_then (create_fallback_service_file e f) (service_daemon_reload (ce_sys e)) w2 = (Inr (), w')"
    using assms(1,2) unfolding podman_create_def p_then_Inr_iff p_bind_Inr_iff by auto
  have "\<exists>t. container_text f there = t @ install_text" by (simp add: container_text_def)
  then obtain t where "container_text f there = t @ install_text" ..
  then have w2: "ce_wanted e c w2 = [''default.target'']"
    using laws[unfolded container_laws_def, THEN conjunct1, rule_format, of t w1] stored by simp
  have keep: "p_keeps (wanted vs) (p_then (create_fallback_service_file e f) (service_daemon_reload (ce_sys e)))" for vs
    unfolding create_fallback_service_file_def assms(2) by (intro keeps_intros keeps_files keeps_commands assms(3))
  have "ce_wanted e c (snd (p_then (create_fallback_service_file e f) (service_daemon_reload (ce_sys e)) w2)) = [''default.target'']"
    using p_keepsD[OF keep, of w2] w2 by simp
  then show ?thesis using rest by simp
qed

end

section \<open>Set-up\<close>

text \<open>Updating an app does not change whether its container starts at boot. When the set-up of the
  component succeeds, the container is enabled afterwards if it was installed for the first time or was enabled
  before, and disabled if it was disabled, although the unit file is written anew with the container
  enabled.\<close>

theorem container_update_keeps_state:
  assumes "container_laws e (ct_name f)" and "container_of e self = Inr f"
    and "fallback_file (ct_name f) \<noteq> container_file (ct_name f)" and "ct_setup e self old_version w = (Inr (), w')"
  shows "ct_is_enabled e self w' = (Inr (old_version = 0 \<or> ''default.target'' \<in> set (ce_wanted e (ct_name f) w)), w')"
proof -
  note u = unit_file.intro[OF assms(1)]
  let ?c = "ct_name f"
  let ?before = "''default.target'' \<in> set (ce_wanted e ?c w)"
  have managed: "assert_container_is_managed e ?c = Inr ()"
    using assms(2,4) by (auto simp: ct_setup_def container_setup_def p_bind_Inr_iff p_then_Inr_iff p_lift_def)
  have enabled: "ct_is_enabled e self v = (Inr (''default.target'' \<in> set (ce_wanted e ?c v)), v)" for v
    by (simp add: ct_is_enabled_def container_is_enabled_def podman_is_enabled_def assms(2) managed p_defs p_lift_def p_get_def)
  obtain w1 where w1: "p_then (podman_create e f) (service_start (ce_sys e) ?c True) w = (Inr (), w1)"
    and rest: "(if old_version \<noteq> 0 \<and> \<not> ?before then ct_disable e self else p_ret ()) w1 = (Inr (), w')"
    using assms(4) managed
    by (auto simp: ct_setup_def container_setup_def enabled assms(2) p_bind_Inr_iff p_then_Inr_iff p_lift_def p_ret_def split: if_splits)
  obtain w0 where w0: "podman_create e f w = (Inr (), w0)" "service_start (ce_sys e) ?c True w0 = (Inr (), w1)"
    using w1 by (auto simp: p_then_Inr_iff)
  have "ce_wanted e ?c w1 = [''default.target'']"
    using p_keepsD[OF unit_file.keeps_commands(5)[OF u], OF unit_file.created[OF u w0(1) refl assms(3)], of ?c True] w0(2) by simp
  moreover have "ce_wanted e ?c w' = []" if off: "ct_disable e self w1 = (Inr (), w')"
  proof -
    obtain w2 where "ce_save e ?c [] w2 = (Inr (), w')"
      using off managed by (auto simp: ct_disable_def container_disable_def podman_disable_def assms(2) p_bind_Inr_iff p_then_Inr_iff p_lift_def)
    then show ?thesis using assms(1) unfolding container_laws_def by (metis prod.inject)
  qed
  ultimately show ?thesis using rest unfolding enabled by (cases "old_version \<noteq> 0 \<and> \<not> ?before") (auto simp: p_ret_def)
qed

text \<open>A host with one container, whose world is the values of WantedBy.\<close>

definition wanted_files :: "string list files" where
  "wanted_files =
     \<lparr>fl_exists = \<lambda>_ _. True, fl_is_file = \<lambda>_ _. False, fl_is_dir = \<lambda>_ _. False, fl_resolve = \<lambda>p _. p,
      fl_list = \<lambda>_. p_ret [], fl_read = \<lambda>_. p_ret [],
      fl_write = \<lambda>p _ w. (Inr (), if p = container_file ''ha'' then [''default.target''] else w), fl_unlink = \<lambda>_. p_ret (),
      fl_make_dirs = \<lambda>_. p_ret (), fl_make_dir = \<lambda>_. p_ret (), fl_remove_tree = \<lambda>_. p_ret (),
      fl_chmod = \<lambda>_ _. p_ret (), fl_chown = \<lambda>_ _ _. p_ret (), fl_move = \<lambda>_ _. p_ret (), fl_umask = \<lambda>n. p_ret n\<rparr>"

definition ha_fields :: container_fields where
  "ha_fields = \<lparr>ct_name = ''ha'', ct_image = ''home-assistant'', ct_volume_name = ''ha'', ct_volume_path = ''/var/lib/ha'',
     ct_volumes = None, ct_env = None, ct_binds_to = None, ct_devices = None, ct_listen_ports = []\<rparr>"

definition ha_component :: comp_obj where
  "ha_component = \<lparr>component_id = ''container-ha'', comp_app_id = Some ''ha'', is_leader = True,
     classes = [''Container'', ''LeaderComponent'', ''Component''], info = None, packages = None\<rparr>"

definition ha_app :: "string list app" where
  "ha_app = \<lparr>app_id = ''ha'', can_be_disabled = True, configure_when_disabled = True,
     components = [(''container-ha'', \<lparr>obj = ha_component, vt = component_vtable\<rparr>)], ov_post_init = p_ret (),
     ov_setup = None, ov_uninstall = None, ov_enable = None, ov_disable = None, ov_diagnose = None, ov_repair = None\<rparr>"

definition ha_env :: "string list container_env" where
  "ha_env =
     \<lparr>ce_daemon = \<lparr>de_sys = \<lparr>sh = \<lambda>_. p_ret (0, []), path_exists = \<lambda>_ _. False, touch_file = \<lambda>_ w. w, unlink_file = \<lambda>_ w. w, which = \<lambda>_ _. True\<rparr>,
         de_apps = [(''ha'', ha_app)], de_daemons = [], de_related = [], de_containers = [(''container-ha'', ''ha'')],
         de_connections = \<lambda>_. p_ret [], de_netcat = \<lambda>_ _ _. p_ret 0\<rparr>,
      ce_files = wanted_files, ce_fields = [(''container-ha'', ha_fields)], ce_wanted = \<lambda>_ w. w, ce_save = \<lambda>_ vs _. (Inr (), vs)\<rparr>"

lemma ha_laws: "container_laws ha_env ''ha''"
  by (simp add: container_laws_def ha_env_def wanted_files_def p_ret_def)

interpretation ha: unit_file ha_env "''ha''"
  by unfold_locales (rule ha_laws)

theorem container_update_keeps_state_witness:
  "\<exists>w'. ct_setup ha_env ha_component 1 [] = (Inr (), w') \<and> ct_is_enabled ha_env ha_component w' = (Inr False, w')"
proof -
  have run: "ct_setup ha_env ha_component 1 [] = (Inr (), snd (ct_setup ha_env ha_component 1 []))" by code_simp
  have own: "container_of ha_env ha_component = Inr ha_fields" "ct_name ha_fields = ''ha''"
    by (simp_all add: container_of_def ha_env_def ha_component_def ha_fields_def od_get_def)
  have "fallback_file ''ha'' \<noteq> container_file ''ha''" by code_simp
  then show ?thesis
    using container_update_keeps_state[of ha_env ha_fields ha_component 1 "[]", OF _ own(1) _ run] ha_laws run
    by (auto simp: own(2) ha_env_def)
qed

end
