(* ===== verification/Web.thy ===== *)
theory Web
  imports AppLaws Notifications Operations
begin

text \<open>
  Requests and responses of the web front, and the state that the web process keeps between
  requests. A request carries its path, its parameters and its user; the user's groups are the
  rows of Django's group table. \<open>reverse\<close>, Django's map from names of pages to paths, is a
  parameter of the definitions that use it. Rendering a page is the value \<open>Rendered\<close> with the
  name of its template.
\<close>

record http_request =
  rq_path :: string
  rq_path_info :: string
  http_method :: string
  rq_user :: "request_user option"
  get_params :: "(string, string) odict"
  post_params :: "(string, string) odict"
  rq_headers :: "(string, string) odict"

datatype response =
    Redirect string
  | Rendered string
  | Bad_request string
  | Not_allowed
  | Json_response "(string \<times> json) list" nat
  | Error_page nat string
  | Empty_response nat "(string, string) odict"

text \<open>
  A step of the first boot wizard, and the world: the database, the module variables
  \<open>_all_first_boot_steps\<close> and \<open>_is_completed\<close> of the first boot module and
  \<open>is_first_setup_running\<close> of the setup module, the session of the client, the file with the
  secret of the wizard, the notifications, the clock, the manager of the operations and the
  messages that the next page shows, each with its level.
\<close>

record boot_step =
  step_id :: string
  step_url :: string
  step_order :: int

record web_world = world +
  all_first_boot_steps :: "boot_step list option"
  completed_cache :: "json option"
  first_setup_running :: bool
  session :: "(string, json) odict"
  wizard_secret :: "string option"
  note_table :: notifications
  web_clock :: int
  op_manager :: ops_manager
  web_messages :: "(string \<times> string) list"

definition user_in_group :: "http_request \<Rightarrow> string \<Rightarrow> bool" where
  "user_in_group request g \<longleftrightarrow> (\<exists>u. rq_user request = Some u \<and> g \<in> set (groups u))"

definition session_set :: "string \<Rightarrow> json \<Rightarrow> (web_world, unit) prog" where
  "session_set k v = p_mod (\<lambda>w. w\<lparr>session := od_set (session w) k v\<rparr>)"

text \<open>\<open>utils.is_user_admin\<close>: the answer is stored in the session, and read from it on demand.\<close>

definition is_user_admin :: "http_request \<Rightarrow> bool \<Rightarrow> (web_world, bool) prog" where
  "is_user_admin request cached =
     (if rq_user request = None then p_ret False
      else p_bind (p_get session) (\<lambda>s.
        case map_of s ''cache_user_is_admin'' of
          Some v \<Rightarrow>
            if cached then p_ret (truthy v)
            else p_then (session_set ''cache_user_is_admin'' (JBool (user_in_group request ''admin'')))
                        (p_ret (user_in_group request ''admin''))
        | None \<Rightarrow>
            p_then (session_set ''cache_user_is_admin'' (JBool (user_in_group request ''admin'')))
                   (p_ret (user_in_group request ''admin''))))"

lemma is_user_admin_fresh:
  "\<exists>w'. is_user_admin request False w = (Inr (user_in_group request ''admin''), w') \<and>
        (w' = w \<or> w' = w\<lparr>session := od_set (session w) ''cache_user_is_admin'' (JBool (user_in_group request ''admin''))\<rparr>)"
  by (auto simp: is_user_admin_def session_set_def p_defs prog_simps user_in_group_def split: option.splits)

text \<open>
  Asked without the cache, the answer is the state of the group table. A cached answer may be
  older: a session that asked before the user lost the group still hears yes.
\<close>

lemma cached_admin_may_be_stale:
  assumes "user_in_group before ''admin''" "\<not> user_in_group after ''admin''" "rq_user after \<noteq> None"
  shows "fst (is_user_admin after True (snd (is_user_admin before False w))) = Inr True"
    and "fst (is_user_admin after False (snd (is_user_admin before False w))) = Inr False"
proof -
  have b: "\<exists>u. rq_user before = Some u" using assms(1) by (auto simp: user_in_group_def)
  have *: "map_of (session (snd (is_user_admin before False w))) ''cache_user_is_admin'' = Some (JBool True)"
    using b assms(1) by (auto simp: is_user_admin_def session_set_def p_defs prog_simps odict_simps split: option.splits)
  show "fst (is_user_admin after True (snd (is_user_admin before False w))) = Inr True"
    using * assms(3) by (simp add: is_user_admin_def p_defs prog_simps)
  show "fst (is_user_admin after False (snd (is_user_admin before False w))) = Inr False"
    using is_user_admin_fresh[of after "snd (is_user_admin before False w)"] assms(2) by auto
qed

text \<open>A web process without requests, for examples.\<close>

definition empty_front :: web_world where
  "empty_front =
     \<lparr>kv = [], module_versions = [], enabled_attr = [], all_first_boot_steps = None, completed_cache = None,
      first_setup_running = False, session = [], wizard_secret = None, note_table = [], web_clock = 0,
      op_manager = manager_init, web_messages = []\<rparr>"

end
