(* ===== verification/FirstBoot.thy ===== *)
theory FirstBoot
  imports Web
begin

text \<open>
  The first boot wizard (modules/first_boot): the steps that apps contribute, the flag that
  says the wizard is complete, its secret, the middleware that redirects to the wizard, and the
  form of the welcome page. The file of the secret is the option \<open>wizard_secret\<close> of the world;
  generating a random secret is a parameter.
\<close>

section \<open>Steps\<close>

text \<open>The variables \<open>first_boot_steps\<close> of the modules first_boot, users and upgrades.\<close>

definition first_boot_first_boot_steps :: "boot_step list" where
  "first_boot_first_boot_steps =
     [\<lparr>step_id = ''firstboot_welcome'', step_url = ''first_boot:welcome'', step_order = 0\<rparr>]"

definition users_first_boot_steps :: "boot_step list" where
  "users_first_boot_steps =
     [\<lparr>step_id = ''users_firstboot'', step_url = ''users:firstboot'', step_order = 1\<rparr>]"

definition upgrades_first_boot_steps :: "boot_step list" where
  "upgrades_first_boot_steps =
     [\<lparr>step_id = ''backports_wizard'', step_url = ''upgrades:backports-firstboot'', step_order = 5\<rparr>]"

text \<open>\<open>getattr(sys.modules[app.__module__], 'first_boot_steps', None)\<close>.\<close>

definition module_first_boot_steps :: "string \<Rightarrow> boot_step list" where
  "module_first_boot_steps aid =
     (if aid = ''first_boot'' then first_boot_first_boot_steps
      else if aid = ''users'' then users_first_boot_steps
      else if aid = ''upgrades'' then upgrades_first_boot_steps else [])"

definition clear_first_boot_steps :: "(web_world, unit) prog" where
  "clear_first_boot_steps = p_mod (\<lambda>w. w\<lparr>all_first_boot_steps := None\<rparr>)"

primrec collect_steps :: "web_world app list \<Rightarrow> (web_world, boot_step list) prog" where
  "collect_steps [] = p_ret []"
| "collect_steps (a # as) =
     p_bind (if module_first_boot_steps (app_id a) = [] then p_ret []
             else p_bind (needs_setup a) (\<lambda>b.
               p_ret (if b then [] else module_first_boot_steps (app_id a))))
       (\<lambda>steps. p_bind (collect_steps as) (\<lambda>rest. p_ret (steps @ rest)))"

definition get_steps :: "web_world app list \<Rightarrow> (web_world, boot_step list) prog" where
  "get_steps apps =
     p_bind (p_get all_first_boot_steps) (\<lambda>cache.
       case cache of
         Some steps \<Rightarrow> p_ret steps
       | None \<Rightarrow>
           p_bind (collect_steps apps) (\<lambda>steps.
             p_then (p_mod (\<lambda>w. w\<lparr>all_first_boot_steps := Some (sort_key step_order steps)\<rparr>))
                    (p_ret (sort_key step_order steps))))"

definition is_firstboot_url ::
  "(string \<Rightarrow> string) \<Rightarrow> web_world app list \<Rightarrow> string \<Rightarrow> (web_world, bool) prog"
where
  "is_firstboot_url reverse apps path =
     p_bind (get_steps apps) (\<lambda>steps.
       p_ret (\<exists>s \<in> set steps. starts_with path (reverse (step_url s))))"

primrec first_undone :: "boot_step list \<Rightarrow> (web_world, string option) prog" where
  "first_undone [] = p_ret None"
| "first_undone (s # ss) =
     p_bind (kv_get_default (step_id s) (JInt 0)) (\<lambda>done.
       if \<not> truthy done then p_ret (Some (step_url s)) else first_undone ss)"

definition next_step_or_none :: "web_world app list \<Rightarrow> (web_world, string option) prog" where
  "next_step_or_none apps = p_bind (get_steps apps) first_undone"

definition next_step :: "web_world app list \<Rightarrow> (web_world, string) prog" where
  "next_step apps =
     p_bind (next_step_or_none apps) (\<lambda>s.
       p_ret (case s of None \<Rightarrow> ''first_boot:complete''
              | Some u \<Rightarrow> if u = [] then ''first_boot:complete'' else u))"

section \<open>Completion\<close>

definition is_completed :: "(web_world, bool) prog" where
  "is_completed =
     p_bind (p_get completed_cache) (\<lambda>c.
       case c of
         Some v \<Rightarrow> p_ret (truthy v)
       | None \<Rightarrow>
           p_bind (kv_get_default ''firstboot_completed'' (JInt 0)) (\<lambda>v.
             p_then (p_mod (\<lambda>w. w\<lparr>completed_cache := Some v\<rparr>)) (p_ret (truthy v))))"

definition set_completed :: "(web_world, unit) prog" where
  "set_completed =
     p_then (p_mod (\<lambda>w. w\<lparr>completed_cache := Some (JBool True)\<rparr>))
            (kv_set ''firstboot_completed'' (JInt 1))"

text \<open>\<open>not next_step_or_none()\<close> also holds for a step whose URL is empty.\<close>

definition no_step :: "string option \<Rightarrow> bool" where
  "no_step s \<longleftrightarrow> s = None \<or> s = Some []"

definition mark_step_done :: "web_world app list \<Rightarrow> string \<Rightarrow> (web_world, unit) prog" where
  "mark_step_done apps i =
     p_then (kv_set i (JInt 1))
       (p_bind (next_step_or_none apps) (\<lambda>s. if no_step s then set_completed else p_ret ()))"

section \<open>The secret\<close>

definition firstboot_wizard_secret_exists :: "(web_world, bool) prog" where
  "firstboot_wizard_secret_exists = p_get (\<lambda>w. \<exists>s. wizard_secret w = Some s \<and> s \<noteq> [])"

text \<open>\<open>_firstboot_wizard_secret_create\<close>: \<open>secret\<close> is what \<open>_generate_secret_key\<close> returns.\<close>

definition firstboot_wizard_secret_create :: "bool \<Rightarrow> string \<Rightarrow> (web_world, unit) prog" where
  "firstboot_wizard_secret_create is_disk_image secret w =
     (if is_disk_image then (Inr (), w)
      else if wizard_secret w \<noteq> None then (Inr (), w)
      else (Inr (), w\<lparr>wizard_secret := Some (secret @ [CHR 0x0A])\<rparr>))"

definition show_next_steps_notification :: "string \<Rightarrow> (web_world, unit) prog" where
  "show_next_steps_notification box_name =
     p_mod (\<lambda>w. w\<lparr>note_table := update_or_create ''first-boot-complete''
       [F_app_id (Some ''first_boot''), F_severity ''info'',
        F_title ''Setup complete! Next steps:'',
        F_message (Some (''Initial setup has been completed. Perform the next steps to make '' @
                         ''your {box_name} operational.'')),
        F_actions (JList
          [JDict [(''type'', JStr ''link''), (''class'', JStr ''primary''),
                  (''text'', JStr ''See next steps''), (''url'', JStr ''first_boot:complete'')],
           JDict [(''type'', JStr ''dismiss'')]]),
        F_data (JDict
          [(''app_name'', JStr (''translate:'' @ ''Next steps'')),
           (''app_icon'', JStr ''fa-arrow-right''),
           (''box_name'', JStr (''translate:'' @ box_name))]),
        F_group (Some ''admin''), F_dismissed False] (web_clock w) (note_table w)\<rparr>)"

text \<open>\<open>FirstBootApp.setup\<close>.\<close>

definition first_boot_setup ::
  "bool \<Rightarrow> string \<Rightarrow> string \<Rightarrow> web_world app \<Rightarrow> int \<Rightarrow> (web_world, unit) prog"
where
  "first_boot_setup is_disk_image secret box_name self old_version =
     p_then (app_setup self old_version)
       (p_then (firstboot_wizard_secret_create is_disk_image secret)
         (p_then (if old_version = 0 then show_next_steps_notification box_name else p_ret ())
                 (call_enable self)))"

text \<open>\<open>FirstbootWizardSecretForm.clean\<close>: the errors of the form.\<close>

definition secret_form_errors :: "string \<Rightarrow> (web_world, string list) prog" where
  "secret_form_errors secret =
     p_bind firstboot_wizard_secret_exists (\<lambda>exists.
       if \<not> exists then p_ret []
       else p_get (\<lambda>w. case wizard_secret w of
              None \<Rightarrow> []
            | Some content \<Rightarrow> if secret \<noteq> strip_str content then [''Invalid secret''] else []))"

text \<open>\<open>WelcomeView\<close>: a valid form marks the session and the step, and goes to the next step.\<close>

definition welcome_post ::
  "(string \<Rightarrow> string) \<Rightarrow> web_world app list \<Rightarrow> string \<Rightarrow> (web_world, response) prog"
where
  "welcome_post reverse apps secret =
     p_bind (secret_form_errors secret) (\<lambda>errors.
       if errors \<noteq> [] then p_ret (Rendered ''firstboot_welcome.html'')
       else p_then (session_set ''firstboot_secret_provided'' (JBool True))
              (p_then (mark_step_done apps ''firstboot_welcome'')
                (p_bind (next_step apps) (\<lambda>s. p_ret (Redirect (reverse s))))))"

section \<open>The middleware\<close>

definition exempt_path :: "(string \<Rightarrow> string) \<Rightarrow> string \<Rightarrow> bool" where
  "exempt_path reverse path \<longleftrightarrow>
     starts_with path (reverse ''users:login'') \<or> starts_with path (reverse ''help:index'') \<or>
     starts_with path (reverse ''status'')"

definition lacks_secret ::
  "(string \<Rightarrow> string) \<Rightarrow> http_request \<Rightarrow> bool \<Rightarrow> (web_world, bool) prog"
where
  "lacks_secret reverse request requests_firstboot =
     (if \<not> requests_firstboot \<or> starts_with (rq_path request) (reverse ''first_boot:welcome'') then p_ret False
      else p_bind firstboot_wizard_secret_exists (\<lambda>exists.
        if \<not> exists then p_ret False
        else p_bind (p_get session) (\<lambda>s.
          if (case map_of s ''firstboot_secret_provided'' of None \<Rightarrow> False | Some v \<Rightarrow> truthy v) then p_ret False
          else p_bind (is_user_admin request False) (\<lambda>admin. p_ret (\<not> admin)))))"

definition first_boot_process_request ::
  "(string \<Rightarrow> string) \<Rightarrow> web_world app list \<Rightarrow> http_request \<Rightarrow> (web_world, response option) prog"
where
  "first_boot_process_request reverse apps request =
     (if exempt_path reverse (rq_path request) then p_ret None
      else p_bind (p_get first_setup_running) (\<lambda>running.
        if running then p_ret None
        else p_bind is_completed (\<lambda>finished.
          p_bind (is_firstboot_url reverse apps (rq_path request)) (\<lambda>requests_firstboot.
            p_bind (lacks_secret reverse request requests_firstboot) (\<lambda>lacks.
              if lacks then p_ret (Some (Redirect (reverse ''first_boot:welcome'')))
              else if \<not> finished \<and> \<not> requests_firstboot then
                p_bind (next_step_or_none apps) (\<lambda>s.
                  if no_step s then p_then set_completed (p_ret None)
                  else p_ret (Some (Redirect (reverse (the s)))))
              else if finished \<and> requests_firstboot then
                p_ret (Some (Redirect (reverse ''first_boot:complete'')))
              else p_ret None)))))"

end
