(* ===== verification/FirstBootLaws.thy ===== *)
theory FirstBootLaws
  imports FirstBoot
begin

text \<open>
  What the first boot wizard promises: the flag that says it is complete agrees with the
  database and is never taken back, marking every step completes it, and without the secret of
  the installation nobody but an administrator passes its welcome page.
\<close>

section \<open>Reading the steps\<close>

abbreviation kv_value :: "'x world_scheme \<Rightarrow> string \<Rightarrow> json \<Rightarrow> json" where
  "kv_value w k d \<equiv> (case map_of (kv w) k of None \<Rightarrow> d | Some v \<Rightarrow> v)"

lemma needs_setup_ignores:
  "needs_setup a (w\<lparr>completed_cache := c\<rparr>) =
     (fst (needs_setup a w), (snd (needs_setup a w))\<lparr>completed_cache := c\<rparr>)"
  by (simp add: needs_setup_def get_setup_state_def get_setup_version_def module_version_get_def p_defs prog_simps
        split: option.splits sum.splits)

lemma collect_steps_ignores:
  "collect_steps as (w\<lparr>completed_cache := c\<rparr>) =
     (fst (collect_steps as w), (snd (collect_steps as w))\<lparr>completed_cache := c\<rparr>)"
proof (induction as arbitrary: w)
  case Nil
  show ?case by (simp add: prog_simps)
next
  case (Cons a as)
  show ?case
    by (auto simp: p_defs prog_simps Cons needs_setup_ignores split: prod.splits sum.splits)
qed

lemma is_firstboot_url_ignores:
  "fst (is_firstboot_url reverse apps path (w\<lparr>completed_cache := c\<rparr>)) = fst (is_firstboot_url reverse apps path w)"
  by (auto simp: is_firstboot_url_def get_steps_def p_defs prog_simps collect_steps_ignores
      split: option.splits prod.splits sum.splits)

section \<open>The flag of completion\<close>

text \<open>The database says the wizard is complete; the cached flag agrees with it.\<close>

definition completed_in_db :: "web_world \<Rightarrow> bool" where
  "completed_in_db w \<longleftrightarrow> truthy (kv_value w ''firstboot_completed'' (JInt 0))"

definition flag_ok :: "web_world \<Rightarrow> bool" where
  "flag_ok w \<longleftrightarrow> (case completed_cache w of None \<Rightarrow> True | Some v \<Rightarrow> truthy v = completed_in_db w)"

text \<open>The programs that only read the database and change the cache of steps or the session.\<close>

definition quiet_state :: "web_world \<Rightarrow> web_world \<Rightarrow> bool" where
  "quiet_state w w' \<longleftrightarrow> kv w' = kv w \<and> completed_cache w' = completed_cache w \<and> wizard_secret w' = wizard_secret w \<and>
     map_of (session w') ''firstboot_secret_provided'' = map_of (session w) ''firstboot_secret_provided''"

definition quiet :: "(web_world, 'a) prog \<Rightarrow> bool" where
  "quiet m \<longleftrightarrow> (\<forall>w. quiet_state w (snd (m w)))"

lemma quiet_trans: "quiet_state u v \<Longrightarrow> quiet_state v w \<Longrightarrow> quiet_state u w"
  by (simp add: quiet_state_def)

named_theorems quiet_intros "programs that keep the database"

lemma quiet_basic [quiet_intros]:
  "quiet (p_ret x)" "quiet (p_raise e)" "quiet (p_get f)" "quiet (p_lift r)"
  by (simp_all add: quiet_def quiet_state_def prog_simps)

lemma quiet_bind [quiet_intros]: "quiet m \<Longrightarrow> (\<And>x. quiet (f x)) \<Longrightarrow> quiet (p_bind m f)"
  unfolding quiet_def p_bind_def
  by (auto split: prod.splits sum.splits) (metis quiet_trans snd_conv)+

lemma quiet_then [quiet_intros]: "quiet m \<Longrightarrow> quiet n \<Longrightarrow> quiet (p_then m n)"
  by (simp add: p_then_def quiet_bind)

lemma quiet_if [quiet_intros]: "quiet m \<Longrightarrow> quiet n \<Longrightarrow> quiet (if c then m else n)"
  by simp

lemma quiet_option [quiet_intros]: "quiet m \<Longrightarrow> (\<And>x. quiet (f x)) \<Longrightarrow> quiet (case z of None \<Rightarrow> m | Some x \<Rightarrow> f x)"
  by (cases z) simp_all

lemma quiet_reads [quiet_intros]:
  "quiet (needs_setup a)" "quiet (kv_get_default k d :: (web_world, json) prog)"
  "quiet (p_mod (\<lambda>w. w\<lparr>all_first_boot_steps := s\<rparr>))"
  "quiet (session_set ''cache_user_is_admin'' v)"
  by (auto simp: quiet_def quiet_state_def needs_setup_def get_setup_state_def p_defs prog_simps session_set_def odict_simps
      split: sum.splits prod.splits)

lemma quiet_collect [quiet_intros]: "quiet (collect_steps as)"
  by (induction as) (auto intro!: quiet_intros)

lemma quiet_first_undone [quiet_intros]: "quiet (first_undone ss)"
  by (induction ss) (auto intro!: quiet_intros)

lemma quiet_steps [quiet_intros]:
  "quiet (get_steps apps)" "quiet (is_firstboot_url reverse apps path)" "quiet (next_step_or_none apps)" "quiet (next_step apps)"
  unfolding get_steps_def is_firstboot_url_def next_step_or_none_def next_step_def
  by (intro quiet_intros)+

lemma quiet_admin [quiet_intros]: "quiet (is_user_admin request cached)"
  unfolding is_user_admin_def by (intro quiet_intros)

lemma quiet_lacks_secret [quiet_intros]: "quiet (lacks_secret reverse request b)"
  unfolding lacks_secret_def firstboot_wizard_secret_exists_def by (intro quiet_intros)

lemma quiet_clear [quiet_intros]: "quiet clear_first_boot_steps"
  unfolding clear_first_boot_steps_def by (intro quiet_intros)

lemma quiet_form [quiet_intros]: "quiet (secret_form_errors secret)"
  unfolding secret_form_errors_def firstboot_wizard_secret_exists_def by (intro quiet_intros)

text \<open>What a quiet program keeps: anything that looks at the database, the flag or the secret alone.\<close>

lemma quiet_keeps: "quiet m \<Longrightarrow> (\<And>w w'. quiet_state w w' \<Longrightarrow> P w \<Longrightarrow> P w') \<Longrightarrow> p_keeps P m"
  unfolding quiet_def p_keeps_def by blast

lemma quiet_flag: "quiet m \<Longrightarrow> p_keeps flag_ok m" "quiet m \<Longrightarrow> p_keeps completed_in_db m"
  by (auto intro!: quiet_keeps simp: quiet_state_def flag_ok_def completed_in_db_def split: option.splits)

lemma set_completed_eval: "set_completed w =
    (Inr (), w\<lparr>completed_cache := Some (JBool True), kv := od_set (kv w) ''firstboot_completed'' (JInt 1)\<rparr>)"
  by (simp add: set_completed_def p_defs prog_simps)

lemma set_completed_completes:
  "flag_ok (snd (set_completed w))" "completed_in_db (snd (set_completed w))"
  by (simp_all add: set_completed_eval flag_ok_def completed_in_db_def odict_simps)

lemma is_completed_eval:
  "flag_ok w \<Longrightarrow> \<exists>c. is_completed w = (Inr (completed_in_db w), w\<lparr>completed_cache := c\<rparr>) \<and> flag_ok (w\<lparr>completed_cache := c\<rparr>)"
proof (cases "completed_cache w")
  case None
  then have "is_completed w = (Inr (completed_in_db w), w\<lparr>completed_cache := Some (kv_value w ''firstboot_completed'' (JInt 0))\<rparr>)"
    by (simp add: is_completed_def p_defs prog_simps completed_in_db_def)
  then show ?thesis by (auto simp: flag_ok_def completed_in_db_def)
next
  case (Some v)
  assume "flag_ok w"
  moreover have "is_completed w = (Inr (truthy v), w\<lparr>completed_cache := completed_cache w\<rparr>)"
    using Some by (simp add: is_completed_def p_defs prog_simps)
  ultimately show ?thesis using Some by (auto simp: flag_ok_def completed_in_db_def)
qed

lemma flag_ok_keeps [keeps_intros]:
  "p_keeps flag_ok set_completed" "p_keeps completed_in_db set_completed"
  "p_keeps flag_ok is_completed" "p_keeps completed_in_db is_completed"
proof -
  show "p_keeps flag_ok set_completed" "p_keeps completed_in_db set_completed"
    by (simp_all add: p_keeps_def set_completed_completes)
  show "p_keeps flag_ok is_completed"
    unfolding p_keeps_def using is_completed_eval by (metis snd_conv)
  show "p_keeps completed_in_db is_completed"
    by (auto simp: p_keeps_def is_completed_def p_defs prog_simps completed_in_db_def split: option.splits)
qed

lemma kv_set_completed: "p_keeps completed_in_db (kv_set i (JInt 1))"
  by (auto simp: p_keeps_def prog_simps completed_in_db_def odict_simps)

lemma kv_set_flag: "i \<noteq> ''firstboot_completed'' \<Longrightarrow> p_keeps flag_ok (kv_set i v)"
  by (auto simp: p_keeps_def prog_simps completed_in_db_def flag_ok_def odict_simps split: option.splits)

lemma mark_step_done_keeps:
  "i \<noteq> ''firstboot_completed'' \<Longrightarrow> p_keeps flag_ok (mark_step_done apps i)"
  "p_keeps completed_in_db (mark_step_done apps i)"
  unfolding mark_step_done_def
  by (intro keeps_intros kv_set_completed kv_set_flag quiet_flag quiet_intros, simp)
     (intro keeps_intros kv_set_completed quiet_flag quiet_intros)

lemma process_request_keeps:
  "p_keeps flag_ok (first_boot_process_request reverse apps request)"
  "p_keeps completed_in_db (first_boot_process_request reverse apps request)"
  unfolding first_boot_process_request_def
  by (intro keeps_intros quiet_flag quiet_intros)+

section \<open>Events\<close>

text \<open>
  What happens in the web process: the client of a session visits a page or submits a secret on
  the welcome page, another client marks a step, an app has been set up, the first setup starts
  or ends.
\<close>

datatype boot_event =
    Visit http_request
  | Submit string
  | Mark_elsewhere string
  | Post_setup
  | First_setup bool

fun boot_exec ::
  "(string \<Rightarrow> string) \<Rightarrow> web_world app list \<Rightarrow> boot_event \<Rightarrow> web_world \<Rightarrow> web_world"
where
  "boot_exec reverse apps (Visit request) w = snd (first_boot_process_request reverse apps request w)"
| "boot_exec reverse apps (Submit secret) w = snd (welcome_post reverse apps secret w)"
| "boot_exec reverse apps (Mark_elsewhere i) w = snd (mark_step_done apps i w)"
| "boot_exec reverse apps Post_setup w = snd (clear_first_boot_steps w)"
| "boot_exec reverse apps (First_setup b) w = w\<lparr>first_setup_running := b\<rparr>"

lemma fold_keeps:
  "(\<And>e w. e \<in> set es \<Longrightarrow> P w \<Longrightarrow> P (f e w)) \<Longrightarrow> P w \<Longrightarrow> P (fold f es w)"
  by (induction es arbitrary: w) auto

lemma welcome_post_keeps: "p_keeps completed_in_db (welcome_post reverse apps secret)"
proof -
  have *: "p_keeps completed_in_db (session_set ''firstboot_secret_provided'' (JBool True))"
    by (auto simp: p_keeps_def session_set_def prog_simps completed_in_db_def)
  show ?thesis unfolding welcome_post_def
    by (intro keeps_intros * mark_step_done_keeps quiet_flag quiet_intros)
qed

lemma boot_exec_completed: "completed_in_db w \<Longrightarrow> completed_in_db (boot_exec reverse apps e w)"
proof (cases e)
  case (Visit request)
  then show "completed_in_db w \<Longrightarrow> ?thesis" using p_keepsD[OF process_request_keeps(2)] by simp
next
  case (Submit secret)
  then show "completed_in_db w \<Longrightarrow> ?thesis" using p_keepsD[OF welcome_post_keeps] by simp
next
  case (Mark_elsewhere i)
  then show "completed_in_db w \<Longrightarrow> ?thesis" using p_keepsD[OF mark_step_done_keeps(2)] by simp
qed (simp_all add: clear_first_boot_steps_def prog_simps completed_in_db_def)

section \<open>Completing the wizard\<close>

lemma p_bind_ok: "fst (m w) = Inr x \<Longrightarrow> p_bind m f w = f x (snd (m w))"
  by (cases "m w") (simp add: p_bind_def)

lemma p_then_ok: "fst (m w) = Inr x \<Longrightarrow> p_then m n w = n (snd (m w))"
  by (cases "m w") (simp add: p_then_def p_bind_def)

lemma first_undone_eval:
  "first_undone ss w =
     (Inr (map_option step_url (find (\<lambda>s. \<not> truthy (kv_value w (step_id s) (JInt 0))) ss)), w)"
  by (induction ss) (auto simp: p_defs prog_simps)

lemma next_step_cached:
  "all_first_boot_steps w = Some ss \<Longrightarrow> next_step_or_none apps w = first_undone ss w"
  by (simp add: next_step_or_none_def get_steps_def p_defs prog_simps)

lemma mark_step_done_marks:
  assumes "all_first_boot_steps w = Some ss"
  shows "fst (mark_step_done apps i w) = Inr ()"
    and "all_first_boot_steps (snd (mark_step_done apps i w)) = Some ss"
    and "truthy (kv_value (snd (mark_step_done apps i w)) k (JInt 0)) \<longleftrightarrow>
           k = i \<or> truthy (kv_value w k (JInt 0)) \<or>
           k = ''firstboot_completed'' \<and> completed_in_db (snd (mark_step_done apps i w))"
    and "(\<forall>s \<in> set ss. truthy (kv_value (w\<lparr>kv := od_set (kv w) i (JInt 1)\<rparr>) (step_id s) (JInt 0))) \<Longrightarrow>
           completed_in_db (snd (mark_step_done apps i w))"
proof -
  let ?w = "w\<lparr>kv := od_set (kv w) i (JInt 1)\<rparr>"
  have s: "all_first_boot_steps ?w = Some ss" using assms by simp
  have *: "mark_step_done apps i w =
      (if no_step (map_option step_url (find (\<lambda>s. \<not> truthy (kv_value ?w (step_id s) (JInt 0))) ss))
       then set_completed ?w else (Inr (), ?w))"
    by (simp add: mark_step_done_def p_defs prog_simps next_step_cached[OF s] first_undone_eval)
  show "fst (mark_step_done apps i w) = Inr ()" "all_first_boot_steps (snd (mark_step_done apps i w)) = Some ss"
    using assms by (simp_all add: * set_completed_eval)
  show "truthy (kv_value (snd (mark_step_done apps i w)) k (JInt 0)) \<longleftrightarrow>
           k = i \<or> truthy (kv_value w k (JInt 0)) \<or>
           k = ''firstboot_completed'' \<and> completed_in_db (snd (mark_step_done apps i w))"
    by (auto simp: * set_completed_eval completed_in_db_def odict_simps split: if_splits)
  assume "\<forall>s \<in> set ss. truthy (kv_value ?w (step_id s) (JInt 0))"
  then have "find (\<lambda>s. \<not> truthy (kv_value ?w (step_id s) (JInt 0))) ss = None"
    by (simp add: find_None_iff)
  then show "completed_in_db (snd (mark_step_done apps i w))"
    using set_completed_completes(2)[of ?w] by (simp only: *) (simp add: no_step_def)
qed

lemma marks_accumulate:
  assumes "all_first_boot_steps w = Some ss"
  shows "fst (p_for (mark_step_done apps) is w) = Inr () \<and>
         all_first_boot_steps (snd (p_for (mark_step_done apps) is w)) = Some ss \<and>
         (\<forall>k. k \<in> set is \<or> truthy (kv_value w k (JInt 0)) \<longrightarrow>
              truthy (kv_value (snd (p_for (mark_step_done apps) is w)) k (JInt 0)))"
  using assms
proof (induction "is" arbitrary: w)
  case Nil
  then show ?case by (simp add: prog_simps)
next
  case (Cons i "is")
  let ?w = "snd (mark_step_done apps i w)"
  have e: "p_for (mark_step_done apps) (i # is) w = p_for (mark_step_done apps) is ?w"
    using p_then_ok[of "mark_step_done apps i" w, OF mark_step_done_marks(1)[OF Cons.prems]] by simp
  show ?case
    using Cons.IH[OF mark_step_done_marks(2)[OF Cons.prems, of apps i]]
      mark_step_done_marks(3)[OF Cons.prems, of apps i]
    by (simp only: e list.set) blast
qed

text \<open>C25: the first boot wizard ends: once every step has been marked as done, in any order and
  however often, the wizard is complete, in the database and for the process that asks, and
  stays complete whatever is requested later.
\<close>

theorem first_boot_completes:
  assumes "all_first_boot_steps w = Some ss" and "flag_ok w"
    and "is \<noteq> []" and "step_id ` set ss \<subseteq> set is" and "''firstboot_completed'' \<notin> set is"
  shows "fst (p_for (mark_step_done apps) is w) = Inr () \<and>
    completed_in_db (snd (p_for (mark_step_done apps) is w)) \<and>
    fst (is_completed (snd (p_for (mark_step_done apps) is w))) = Inr True \<and>
    completed_in_db (fold (boot_exec reverse apps) events (snd (p_for (mark_step_done apps) is w)))"
proof (intro conjI)
  show "fst (p_for (mark_step_done apps) is w) = Inr ()"
    using marks_accumulate[OF assms(1)] by blast
  obtain js i where js: "is = js @ [i]" using assms(3) by (metis rev_exhaust)
  let ?v = "snd (p_for (mark_step_done apps) js w)"
  have v: "fst (p_for (mark_step_done apps) js w) = Inr ()" "all_first_boot_steps ?v = Some ss"
    "\<forall>k \<in> set js. truthy (kv_value ?v k (JInt 0))"
    using marks_accumulate[OF assms(1), of apps js] by auto
  have last: "snd (p_for (mark_step_done apps) is w) = snd (mark_step_done apps i ?v)"
    by (simp add: js p_for_append prog_simps p_then_ok[of "p_for (mark_step_done apps) js" w, OF v(1)]
      p_then_ok[of "mark_step_done apps i" ?v, OF mark_step_done_marks(1)[OF v(2)]])
  have "\<forall>s \<in> set ss. step_id s = i \<or> step_id s \<in> set js" using assms(4) js by auto
  then have "\<forall>s \<in> set ss. truthy (kv_value (?v\<lparr>kv := od_set (kv ?v) i (JInt 1)\<rparr>) (step_id s) (JInt 0))"
    using v(3) by (auto simp: odict_simps)
  from mark_step_done_marks(4)[OF v(2) this] show c: "completed_in_db (snd (p_for (mark_step_done apps) is w))"
    by (simp add: last)
  show "completed_in_db (fold (boot_exec reverse apps) events (snd (p_for (mark_step_done apps) is w)))"
    by (rule fold_keeps) (simp_all add: c boot_exec_completed)
  have "\<And>i. i \<in> set is \<Longrightarrow> p_keeps flag_ok (mark_step_done apps i)"
    using assms(5) mark_step_done_keeps(1) by metis
  then have "p_keeps flag_ok (p_for (mark_step_done apps) is)" by (rule p_keeps_for)
  from is_completed_eval[OF p_keepsD[OF this assms(2)]] c
  show "fst (is_completed (snd (p_for (mark_step_done apps) is w))) = Inr True" by auto
qed

section \<open>The secret\<close>

text \<open>The session has not proved the secret, and the file has it.\<close>

definition no_proof :: "string \<Rightarrow> web_world \<Rightarrow> bool" where
  "no_proof file w \<longleftrightarrow> map_of (session w) ''firstboot_secret_provided'' = None \<and> wizard_secret w = Some file"

lemma quiet_no_proof: "quiet m \<Longrightarrow> p_keeps (no_proof file) m"
  by (auto intro!: quiet_keeps simp: quiet_state_def no_proof_def)

lemma no_proof_kept:
  "p_keeps (no_proof file) set_completed" "p_keeps (no_proof file) is_completed" "p_keeps (no_proof file) (kv_set k v)"
  by (auto simp: p_keeps_def set_completed_eval is_completed_def no_proof_def p_defs prog_simps split: option.splits)

lemma process_request_no_proof: "p_keeps (no_proof file) (first_boot_process_request reverse apps request)"
  unfolding first_boot_process_request_def
  by (intro keeps_intros no_proof_kept quiet_no_proof quiet_intros)+

lemma mark_step_done_no_proof: "p_keeps (no_proof file) (mark_step_done apps i)"
  unfolding mark_step_done_def
  by (intro keeps_intros no_proof_kept quiet_no_proof quiet_intros)

lemma wrong_secret_rejected:
  "no_proof file w \<Longrightarrow> file \<noteq> [] \<Longrightarrow> secret \<noteq> strip_str file \<Longrightarrow>
     welcome_post reverse apps secret w = (Inr (Rendered ''firstboot_welcome.html''), w)"
  by (simp add: welcome_post_def secret_form_errors_def firstboot_wizard_secret_exists_def no_proof_def p_defs prog_simps)

lemma boot_exec_no_proof:
  assumes "no_proof file w" and "file \<noteq> []" and "e \<noteq> Submit (strip_str file)"
  shows "no_proof file (boot_exec reverse apps e w)"
proof (cases e)
  case (Visit request)
  then show ?thesis using p_keepsD[OF process_request_no_proof assms(1)] by simp
next
  case (Submit secret)
  then show ?thesis using wrong_secret_rejected[OF assms(1,2)] assms by simp
next
  case (Mark_elsewhere i)
  then show ?thesis using p_keepsD[OF mark_step_done_no_proof assms(1)] by simp
qed (use assms(1) in \<open>simp_all add: clear_first_boot_steps_def prog_simps no_proof_def\<close>)

text \<open>C24: the secret of the installation guards the wizard: while a session has not submitted it,
  whatever else happens, every visit to a page of the wizard behind its welcome page is answered
  with a redirection to the welcome page, unless the visitor is an administrator.
\<close>

theorem first_boot_needs_secret:
  assumes "map_of (session w) ''firstboot_secret_provided'' = None"
    and "wizard_secret w = Some file" and "file \<noteq> []"
    and "Submit (strip_str file) \<notin> set events"
    and "v = fold (boot_exec reverse apps) events w"
    and "\<not> first_setup_running v" and "\<not> exempt_path reverse (rq_path request)"
    and "fst (is_firstboot_url reverse apps (rq_path request) v) = Inr True"
    and "\<not> starts_with (rq_path request) (reverse ''first_boot:welcome'')"
    and "\<not> user_in_group request ''admin''"
  shows "fst (first_boot_process_request reverse apps request v) = Inr (Some (Redirect (reverse ''first_boot:welcome'')))"
proof -
  have "no_proof file v"
    unfolding assms(5)
  proof (rule fold_keeps)
    fix e w assume "e \<in> set events" and "no_proof file w"
    then show "no_proof file (boot_exec reverse apps e w)"
      using assms(3,4) by (metis boot_exec_no_proof)
  qed (simp add: no_proof_def assms(1,2))
  have "\<exists>c b. is_completed v = (Inr b, v\<lparr>completed_cache := c\<rparr>)"
  proof (cases "completed_cache v")
    case (Some x)
    then have "is_completed v = (Inr (truthy x), v\<lparr>completed_cache := completed_cache v\<rparr>)"
      by (simp add: is_completed_def p_defs prog_simps)
    then show ?thesis by blast
  qed (simp add: is_completed_def p_defs prog_simps, blast)
  then obtain c b where c: "is_completed v = (Inr b, v\<lparr>completed_cache := c\<rparr>)" by blast
  let ?v = "v\<lparr>completed_cache := c\<rparr>"
  have u: "fst (is_firstboot_url reverse apps (rq_path request) ?v) = Inr True"
    using assms(8) by (simp add: is_firstboot_url_ignores)
  then obtain u where u1: "is_firstboot_url reverse apps (rq_path request) ?v = (Inr True, u)" by (metis prod.collapse)
  have "no_proof file u"
  proof -
    have k: "p_keeps (no_proof file) (is_firstboot_url reverse apps (rq_path request))"
      by (intro quiet_no_proof quiet_steps)
    have "no_proof file ?v" using \<open>no_proof file v\<close> by (simp add: no_proof_def)
    from p_keepsD[OF k, OF this] show ?thesis by (simp add: u1)
  qed
  then have "fst (lacks_secret reverse request True u) = Inr True"
    using assms(3,9,10) is_user_admin_fresh[of request u]
    by (auto simp: lacks_secret_def firstboot_wizard_secret_exists_def no_proof_def p_defs prog_simps)
  then obtain u' where l: "lacks_secret reverse request True u = (Inr True, u')" by (metis prod.collapse)
  have "first_boot_process_request reverse apps request v =
      (Inr (Some (Redirect (reverse ''first_boot:welcome''))), u')"
    using assms(6,7)
    by (simp add: first_boot_process_request_def prog_simps c u1 l)
  then show ?thesis by simp
qed

section \<open>A machine on its first boot\<close>

definition page_path :: "string \<Rightarrow> string" where
  "page_path name =
     (if name = ''users:login'' then ''/freedombox/accounts/login/''
      else if name = ''help:index'' then ''/freedombox/help/''
      else if name = ''status'' then ''/freedombox/status/''
      else if name = ''first_boot:welcome'' then ''/freedombox/firstboot/welcome/''
      else if name = ''users:firstboot'' then ''/freedombox/users/firstboot/''
      else ''/freedombox/'')"

definition first_boot_world :: web_world where
  "first_boot_world =
     \<lparr>kv = [], module_versions = [], enabled_attr = [],
      all_first_boot_steps = Some (first_boot_first_boot_steps @ users_first_boot_steps),
      completed_cache = None, first_setup_running = False, session = [],
      wizard_secret = Some (''s3cret'' @ [CHR 0x0A]), note_table = [], web_clock = 0,
      op_manager = manager_init, web_messages = []\<rparr>"

definition visit_of :: "string \<Rightarrow> http_request" where
  "visit_of path = \<lparr>rq_path = path, rq_path_info = path, http_method = ''GET'', rq_user = None,
     get_params = [], post_params = [], rq_headers = []\<rparr>"

lemmas first_boot_example = page_path_def first_boot_world_def visit_of_def exempt_path_def user_in_group_def
  first_boot_first_boot_steps_def users_first_boot_steps_def flag_ok_def
  is_firstboot_url_def get_steps_def p_defs prog_simps strip_str_def

theorem first_boot_completes_witness:
  "completed_in_db (snd (p_for (mark_step_done []) [''users_firstboot'', ''firstboot_welcome''] first_boot_world)) \<and>
   \<not> completed_in_db first_boot_world"
  using first_boot_completes[of first_boot_world "first_boot_first_boot_steps @ users_first_boot_steps"
      "[''users_firstboot'', ''firstboot_welcome'']" "[]"]
  by (simp add: first_boot_example completed_in_db_def)

theorem first_boot_needs_secret_witness:
  "fst (first_boot_process_request page_path [] (visit_of ''/freedombox/users/firstboot/'')
     (boot_exec page_path [] (Submit ''guess'') first_boot_world)) =
   Inr (Some (Redirect ''/freedombox/firstboot/welcome/''))"
proof -
  have "no_proof (''s3cret'' @ [CHR 0x0A]) first_boot_world" by (simp add: no_proof_def first_boot_world_def)
  from wrong_secret_rejected[OF this, of "''guess''" page_path "[]"]
  have w: "boot_exec page_path [] (Submit ''guess'') first_boot_world = first_boot_world"
    by (simp add: strip_str_def)
  show ?thesis
    using first_boot_needs_secret[of first_boot_world "''s3cret'' @ [CHR 0x0A]" "[Submit ''guess'']" first_boot_world
        page_path "[]" "visit_of ''/freedombox/users/firstboot/''"] w
    by (simp add: first_boot_example)
qed

end
