(* ===== verification/Menu.thy ===== *)
theory Menu
  imports Web Paths "HOL-Library.Char_ord" "HOL-Library.List_Lexorder" "HOL-Library.Product_Lexorder"
begin

text \<open>
  Menu items and what the pages derive from them (menu.py and the functions on menus in
  views.py): children, the active item, the breadcrumbs of a page, the items picked by tags and
  the section that tags lead to. The class attribute \<open>_all_menus\<close> is a set; here it is the
  list of the items in the order in which the set gives them. The tags of an item are a Python
  list that other objects may share, so an item has the address of its list in a heap.
\<close>

section \<open>Menu items\<close>

record menu_item =
  menu_id :: string
  menu_name :: "string option"
  menu_icon :: "string option"
  menu_tags :: "nat option"
  menu_url :: string
  menu_order :: int
  menu_advanced :: bool
  url_name :: string
  parent_url_name :: "string option"

definition menu_init ::
  "(string \<Rightarrow> string) \<Rightarrow> string \<Rightarrow> string option \<Rightarrow> string option \<Rightarrow> nat option \<Rightarrow> string option \<Rightarrow>
   string option \<Rightarrow> int \<Rightarrow> bool \<Rightarrow> menu_item list \<Rightarrow> (menu_item \<times> menu_item list) result"
where
  "menu_init reverse cid name icn tgs uname parent order advanced menus =
     r_bind (component_init cid) (\<lambda>_.
       case uname of
         None \<Rightarrow> Inl (ValueError ''Valid url_name is expected'')
       | Some u \<Rightarrow>
           if u = [] then Inl (ValueError ''Valid url_name is expected'')
           else let m = \<lparr>menu_id = cid, menu_name = name, menu_icon = icn, menu_tags = tgs, menu_url = reverse u,
                         menu_order = order, menu_advanced = advanced, url_name = u, parent_url_name = parent\<rparr>
                in Inr (m, menus @ [m]))"

definition menu_items :: "menu_item list \<Rightarrow> menu_item \<Rightarrow> menu_item list" where
  "menu_items menus self = filter (\<lambda>item. parent_url_name item = Some (url_name self)) menus"

text \<open>\<open>x.name.lower()\<close> raises for an item without a name.\<close>

definition lower_name :: "menu_item \<Rightarrow> string result" where
  "lower_name item =
     (case menu_name item of None \<Rightarrow> Inl (AttributeError ''lower'') | Some n \<Rightarrow> Inr (map lower_char n))"

definition sorted_items :: "menu_item list \<Rightarrow> menu_item \<Rightarrow> menu_item list result" where
  "sorted_items menus self =
     r_bind (r_map (\<lambda>item. r_bind (lower_name item) (\<lambda>n. Inr ((menu_order item, n), item))) (menu_items menus self))
       (\<lambda>keyed. Inr (map snd (sort_key fst keyed)))"

definition active_item :: "menu_item list \<Rightarrow> menu_item \<Rightarrow> string \<Rightarrow> menu_item option" where
  "active_item menus self path = find (\<lambda>item. starts_with path (menu_url item)) (menu_items menus self)"

definition get_with_url_name :: "menu_item list \<Rightarrow> string \<Rightarrow> menu_item result" where
  "get_with_url_name menus name =
     (case find (\<lambda>item. url_name item = name) menus of None \<Rightarrow> Inl (LookupError []) | Some m \<Rightarrow> Inr m)"

text \<open>\<open>menu.init\<close>: the items that exist before any app.\<close>

definition menu_entry ::
  "(string \<Rightarrow> string) \<Rightarrow> string \<Rightarrow> string \<Rightarrow> string option \<Rightarrow> string \<Rightarrow> string option \<Rightarrow> int \<Rightarrow>
   menu_item list \<Rightarrow> menu_item list result"
where
  "menu_entry reverse cid name icn u parent order menus =
     r_bind (menu_init reverse cid (Some name) icn None (Some u) parent order False menus) (\<lambda>(m, ms). Inr ms)"

definition menu_init_all :: "(string \<Rightarrow> string) \<Rightarrow> menu_item list \<Rightarrow> menu_item list result" where
  "menu_init_all reverse m0 =
     r_bind (menu_entry reverse ''menu-index'' ''Home'' None ''index'' None 50 m0) (\<lambda>m1.
     r_bind (menu_entry reverse ''menu-apps'' ''Apps'' (Some ''fa-download'') ''apps'' (Some ''index'') 50 m1) (\<lambda>m2.
     r_bind (menu_entry reverse ''menu-system'' ''System'' (Some ''fa-cog'') ''system'' (Some ''index'') 50 m2) (\<lambda>m3.
     r_bind (menu_entry reverse ''menu-system-visibility'' ''Visibility'' (Some ''fa-cog'') ''system:visibility'' (Some ''system'') 10 m3) (\<lambda>m4.
     r_bind (menu_entry reverse ''menu-system-data'' ''Data'' (Some ''fa-cog'') ''system:data'' (Some ''system'') 20 m4) (\<lambda>m5.
     r_bind (menu_entry reverse ''menu-system-system'' ''System'' (Some ''fa-cog'') ''system:system'' (Some ''system'') 30 m5) (\<lambda>m6.
     r_bind (menu_entry reverse ''menu-system-security'' ''Security'' (Some ''fa-cog'') ''system:security'' (Some ''system'') 40 m6) (\<lambda>m7.
     menu_entry reverse ''menu-system-administration'' ''Administration'' (Some ''fa-cog'') ''system:administration'' (Some ''system'') 50 m7)))))))"

section \<open>Breadcrumbs\<close>

text \<open>What the URL resolver says of a page: the names of the apps around it and its own name.\<close>

record resolver_match =
  app_names :: "string list"
  match_url_name :: string
  namespaces :: "string list"

record crumb =
  crumb_name :: "string option"
  crumb_is_active :: bool
  crumb_url_name :: string
  is_active_section :: bool

type_synonym crumbs = "(string, crumb) odict"

definition full_url_name :: "resolver_match \<Rightarrow> string" where
  "full_url_name m = join_str '':'' (app_names m @ [match_url_name m])"

definition add_crumb :: "string \<Rightarrow> string \<Rightarrow> string option \<Rightarrow> string \<Rightarrow> crumbs \<Rightarrow> crumbs" where
  "add_crumb path url name uname d =
     od_set d url \<lparr>crumb_name = name, crumb_is_active = (path = url), crumb_url_name = uname,
                    is_active_section = False\<rparr>"

text \<open>The item of a page, and the breadcrumb of a page that has none.\<close>

definition page_item ::
  "menu_item list \<Rightarrow> string \<Rightarrow> resolver_match option \<Rightarrow> (crumbs \<times> menu_item) result"
where
  "page_item menus path match =
     (case match of
        None \<Rightarrow> r_bind (get_with_url_name menus ''index'') (\<lambda>m. Inr ([], m))
      | Some rm \<Rightarrow>
          (case get_with_url_name menus (full_url_name rm) of
             Inr m \<Rightarrow> Inr ([], m)
           | Inl _ \<Rightarrow>
               let here = add_crumb path path (Some ''Here'') (full_url_name rm) []
               in case get_with_url_name menus (join_str '':'' (app_names rm @ [''index''])) of
                    Inr m \<Rightarrow> Inr (here, m)
                  | Inl _ \<Rightarrow> r_bind (get_with_url_name menus ''index'') (\<lambda>m. Inr (here, m))))"

definition no_parent :: "menu_item \<Rightarrow> bool" where
  "no_parent m \<longleftrightarrow> parent_url_name m = None \<or> parent_url_name m = Some []"

text \<open>The loop to the top; \<open>None\<close> when its rounds are used up.\<close>

primrec crumb_loop :: "nat \<Rightarrow> menu_item list \<Rightarrow> string \<Rightarrow> menu_item \<Rightarrow> crumbs \<Rightarrow> crumbs option result" where
  "crumb_loop 0 menus path m d = Inr None"
| "crumb_loop (Suc n) menus path m d =
     (let d' = add_crumb path (menu_url m) (menu_name m) (url_name m) d
      in if no_parent m then Inr (Some d')
         else r_bind (get_with_url_name menus (the (parent_url_name m))) (\<lambda>p. crumb_loop n menus path p d'))"

definition get_breadcrumbs :: "menu_item list \<Rightarrow> string \<Rightarrow> resolver_match option \<Rightarrow> crumbs result" where
  "get_breadcrumbs menus path match =
     r_bind (page_item menus path match) (\<lambda>(d, m).
       r_bind (crumb_loop 10 menus path m d) (\<lambda>r.
         r_bind (case r of
                   Some d' \<Rightarrow> Inr d'
                 | None \<Rightarrow> r_bind (get_with_url_name menus ''index'') (\<lambda>h.
                     Inr (add_crumb path (menu_url h) (menu_name h) (url_name h) [])))
           (\<lambda>d'. let k = od_keys d' ! (if 2 \<le> length d' then length d' - 2 else length d' - 1)
                 in r_bind (od_get d' k) (\<lambda>c. Inr (od_set d' k (c\<lparr>is_active_section := True\<rparr>))))))"

section \<open>Picking items by tags\<close>

text \<open>
  \<open>MenuProxy\<close>: \<open>tags = menu_item.tags or []\<close> is the list of the item itself when it has tags,
  and \<open>+=\<close> extends that list in place.
\<close>

datatype proxy = Proxy menu_item "string list" "proxy list"

primrec proxy_item :: "proxy \<Rightarrow> menu_item" where
  "proxy_item (Proxy m tgs cs) = m"

primrec proxy_tags :: "proxy \<Rightarrow> string list" where
  "proxy_tags (Proxy m tgs cs) = tgs"

type_synonym tag_heap = "string list list"

definition tags_of :: "tag_heap \<Rightarrow> menu_item \<Rightarrow> string list" where
  "tags_of h m = (case menu_tags m of None \<Rightarrow> [] | Some r \<Rightarrow> h ! r)"

primrec add_child_tags :: "nat \<Rightarrow> menu_item list \<Rightarrow> tag_heap \<Rightarrow> tag_heap" where
  "add_child_tags r [] h = h"
| "add_child_tags r (c # cs) h = add_child_tags r cs (h[r := h ! r @ tags_of h c])"

definition proxy_init :: "menu_item list \<Rightarrow> menu_item \<Rightarrow> tag_heap \<Rightarrow> string list \<times> tag_heap" where
  "proxy_init menus m h =
     (case menu_tags m of
        Some r \<Rightarrow>
          if h ! r \<noteq> [] then let h' = add_child_tags r (menu_items menus m) h in (h' ! r, h')
          else (concat (map (tags_of h) (menu_items menus m)), h)
      | None \<Rightarrow> (concat (map (tags_of h) (menu_items menus m)), h))"

definition mismatch_map :: "string list \<Rightarrow> string list \<Rightarrow> bool list" where
  "mismatch_map selected tgs = map (\<lambda>tag. tag \<notin> set tgs) selected"

type_synonym pick_key = "nat \<times> bool list \<times> int \<times> string"

definition pick_sort_key :: "string list \<Rightarrow> proxy \<Rightarrow> pick_key result" where
  "pick_sort_key selected p =
     (let mm = mismatch_map selected (proxy_tags p)
      in r_bind (lower_name (proxy_item p)) (\<lambda>n. Inr (count_list mm True, mm, menu_order (proxy_item p), n)))"

text \<open>
  The recursion goes down the children; on items that are their own ancestors it ends with
  RecursionError, at the depth of the interpreter's stack, which is the first argument.
\<close>

definition pick_filter :: "string list \<Rightarrow> proxy list \<Rightarrow> proxy list result" where
  "pick_filter selected ps =
     r_bind (r_map (\<lambda>p. r_bind (pick_sort_key selected p) (\<lambda>k. Inr (k, p)))
               (filter (\<lambda>p. selected = [] \<or> \<not> list_all id (mismatch_map selected (proxy_tags p))) ps))
       (\<lambda>keyed. Inr (map snd (sort_key fst keyed)))"

primrec pick_menu_items ::
  "nat \<Rightarrow> menu_item list \<Rightarrow> string list \<Rightarrow> menu_item list \<Rightarrow> (tag_heap, proxy list) prog"
where
  "pick_menu_items 0 menus selected ms = p_raise (RuntimeError ''maximum recursion depth exceeded'')"
| "pick_menu_items (Suc n) menus selected ms =
     p_bind (p_map (\<lambda>m. p_bind (\<lambda>h. (Inr (fst (proxy_init menus m h)), snd (proxy_init menus m h))) (\<lambda>tgs.
               p_bind (pick_menu_items n menus selected (menu_items menus m)) (\<lambda>cs.
                 p_ret (Proxy m tgs cs)))) ms)
       (\<lambda>ps. p_lift (pick_filter selected ps))"

primrec collect_tags :: "nat \<Rightarrow> menu_item list \<Rightarrow> tag_heap \<Rightarrow> menu_item list \<Rightarrow> string set result" where
  "collect_tags 0 menus h ms = Inl (RuntimeError ''maximum recursion depth exceeded'')"
| "collect_tags (Suc n) menus h ms =
     foldr (\<lambda>m acc. r_bind (collect_tags n menus h (menu_items menus m)) (\<lambda>below.
              r_bind acc (\<lambda>s. Inr (set (tags_of h m) \<union> below \<union> s)))) ms (Inr {})"

text \<open>\<open>_get_all_tags\<close>: sorted by their translations; \<open>tr\<close> is \<open>gettext\<close>.\<close>

definition get_all_tags ::
  "(string \<Rightarrow> string) \<Rightarrow> nat \<Rightarrow> menu_item list \<Rightarrow> tag_heap \<Rightarrow> menu_item list \<Rightarrow> string list result"
where
  "get_all_tags tr n menus h ms =
     r_bind (collect_tags n menus h ms) (\<lambda>s. Inr (sort_key tr (sorted_list_of_set s)))"

section \<open>The section of an app\<close>

text \<open>\<open>None\<close>: the rounds of the loop are used up.\<close>

primrec section_loop :: "nat \<Rightarrow> menu_item list \<Rightarrow> menu_item \<Rightarrow> menu_item option option" where
  "section_loop 0 menus m = None"
| "section_loop (Suc n) menus m =
     (if parent_url_name m = Some ''index'' \<or> parent_url_name m = None then Some (Some m)
      else case get_with_url_name menus (the (parent_url_name m)) of
             Inl _ \<Rightarrow> Some None
           | Inr p \<Rightarrow> section_loop n menus p)"

definition get_tag_search_url :: "menu_item list \<Rightarrow> menu_item list \<Rightarrow> string" where
  "get_tag_search_url menus app_menus =
     (case app_menus of
        [] \<Rightarrow> ''apps-add''
      | m # _ \<Rightarrow>
          (case section_loop 10 menus m of
             None \<Rightarrow> ''apps-add''
           | Some None \<Rightarrow> ''apps-add''
           | Some (Some s) \<Rightarrow> if url_name s = ''apps'' then ''apps-add'' else url_name s))"

section \<open>Index pages\<close>

text \<open>
  \<open>AppsView\<close>, \<open>AppsAddView\<close> and \<open>system_index\<close>: the children of the active item of the main
  menu; \<open>main_menu.active_item(request).items\<close> raises when no item is active.
\<close>

definition active_children :: "menu_item list \<Rightarrow> menu_item \<Rightarrow> string \<Rightarrow> menu_item list result" where
  "active_children menus main path =
     (case active_item menus main path of
        None \<Rightarrow> Inl (AttributeError ''items'')
      | Some m \<Rightarrow> Inr (menu_items menus m))"

definition apps_view_items ::
  "nat \<Rightarrow> menu_item list \<Rightarrow> menu_item \<Rightarrow> (menu_item \<Rightarrow> bool) \<Rightarrow> bool \<Rightarrow> string \<Rightarrow> string list \<Rightarrow> (tag_heap, proxy list) prog"
where
  "apps_view_items n menus main enabled installed path tgs =
     p_bind (p_lift (active_children menus main path)) (\<lambda>ms.
       pick_menu_items n menus tgs (filter (\<lambda>m. enabled m = installed) ms))"

definition system_index_items ::
  "nat \<Rightarrow> menu_item list \<Rightarrow> menu_item \<Rightarrow> string \<Rightarrow> string list \<Rightarrow> (tag_heap, proxy list) prog"
where
  "system_index_items n menus main path tgs =
     p_bind (p_lift (active_children menus main path)) (\<lambda>ms. pick_menu_items n menus tgs ms)"

end
