(* ===== verification/Frontpage.thy ===== *)
theory Frontpage
  imports Menu
begin

text \<open>
  The front page (frontpage.py, the index view of views.py and the list of services for other
  programs in modules/api): the shortcuts of the apps, who is shown which of them, and the
  shortcuts that administrators add in files. \<open>get_user_groups\<close>, the privileged call for the
  groups of a user, is a parameter.
\<close>

section \<open>Shortcuts\<close>

record shortcut =
  sc_id :: string
  sc_app_id :: "string option"
  sc_name :: "string option"
  sc_url :: string
  sc_icon :: "string option"
  sc_description :: "string list option"
  sc_manual_page :: "string option"
  sc_configure_url :: "string option"
  sc_clients :: json
  sc_tags :: "string list option"
  login_required :: bool
  allowed_groups :: "string list option"

type_synonym shortcuts = "(string, shortcut) odict"

text \<open>\<open>Shortcut.__init__\<close>: it enters the dict of all shortcuts, an empty list of groups is none.\<close>

definition shortcut_init ::
  "string \<Rightarrow> string option \<Rightarrow> string option \<Rightarrow> string option \<Rightarrow> string list option \<Rightarrow> string option \<Rightarrow>
   string option \<Rightarrow> json \<Rightarrow> string list option \<Rightarrow> bool \<Rightarrow> string list option \<Rightarrow> shortcuts \<Rightarrow> (shortcut \<times> shortcuts) result"
where
  "shortcut_init cid name icn url desc manual configure_url cs tgs login grps all =
     r_bind (component_init cid) (\<lambda>_.
       let s = \<lparr>sc_id = cid, sc_app_id = None, sc_name = name,
                sc_url = (case url of None \<Rightarrow> ''?selected='' @ cid | Some u \<Rightarrow> u),
                sc_icon = icn, sc_description = desc, sc_manual_page = manual, sc_configure_url = configure_url,
                sc_clients = cs, sc_tags = tgs, login_required = login,
                allowed_groups = (if grps = Some [] then None else grps)\<rparr>
       in Inr (s, od_set all cid s))"

definition shortcut_remove :: "shortcut \<Rightarrow> shortcuts \<Rightarrow> shortcuts result" where
  "shortcut_remove self all = r_bind (od_pop all (sc_id self)) (\<lambda>(s, rest). Inr rest)"

definition not_for_groups :: "string list \<Rightarrow> shortcut \<Rightarrow> bool" where
  "not_for_groups grps s \<longleftrightarrow>
     login_required s \<and>
     (case allowed_groups s of None \<Rightarrow> False | Some gs \<Rightarrow> gs \<noteq> [] \<and> set grps \<inter> set gs = {})"

definition list_for_user ::
  "(string \<Rightarrow> ('w, string list) prog) \<Rightarrow> shortcuts \<Rightarrow> string option \<Rightarrow> ('w, shortcuts) prog"
where
  "list_for_user get_user_groups all uname =
     (case uname of
        None \<Rightarrow> p_ret all
      | Some u \<Rightarrow>
          if u = [] then p_ret all
          else p_bind (get_user_groups u) (\<lambda>grps.
            p_ret (if ''admin'' \<in> set grps then all
                   else filter (\<lambda>(k, s). \<not> not_for_groups grps s) all)))"

text \<open>\<open>Shortcut.list\<close> with its default \<open>sort_by='name'\<close>.\<close>

definition shortcut_sort_key :: "shortcut \<Rightarrow> string result" where
  "shortcut_sort_key s =
     (case sc_name s of None \<Rightarrow> Inl (AttributeError ''lower'') | Some n \<Rightarrow> Inr (map lower_char n))"

definition shortcut_list ::
  "(string \<Rightarrow> ('w, string list) prog) \<Rightarrow> shortcuts \<Rightarrow> string option \<Rightarrow> bool \<Rightarrow> ('w, shortcut list) prog"
where
  "shortcut_list get_user_groups all uname web_apps_only =
     p_bind (list_for_user get_user_groups all uname) (\<lambda>d.
       p_lift (r_bind
         (r_map (\<lambda>s. r_bind (shortcut_sort_key s) (\<lambda>k. Inr (k, s)))
            (filter (\<lambda>s. \<not> web_apps_only \<or> \<not> starts_with (sc_url s) ''?selected='') (od_values d)))
         (\<lambda>keyed. Inr (map snd (sort_key fst keyed)))))"

section \<open>The index page\<close>

text \<open>
  The view picks the shortcut named by the parameter \<open>selected\<close>; the template lists the enabled
  shortcuts, those that require a login only when there is one, and describes the selected one.
\<close>

record index_page =
  page_shortcuts :: "shortcut list"
  page_selected :: "shortcut option"

definition index_view ::
  "(string \<Rightarrow> ('w, string list) prog) \<Rightarrow> shortcuts \<Rightarrow> http_request \<Rightarrow> ('w, index_page) prog"
where
  "index_view get_user_groups all request =
     p_bind (shortcut_list get_user_groups all (map_option username (rq_user request)) False) (\<lambda>ss.
       p_ret \<lparr>page_shortcuts = ss,
              page_selected = (case map_of (get_params request) ''selected'' of
                 None \<Rightarrow> None | Some i \<Rightarrow> find (\<lambda>s. sc_id s = i) ss)\<rparr>)"

definition template_cards :: "(shortcut \<Rightarrow> bool) \<Rightarrow> http_request \<Rightarrow> index_page \<Rightarrow> shortcut list" where
  "template_cards enabled request page =
     filter (\<lambda>s. enabled s \<and> (rq_user request \<noteq> None \<or> \<not> login_required s)) (page_shortcuts page)"

definition template_described :: "index_page \<Rightarrow> shortcut option" where
  "template_described page =
     (case page_selected page of
        Some s \<Rightarrow> if (\<exists>d. sc_description s = Some d \<and> d \<noteq> []) then Some s else None
      | None \<Rightarrow> None)"

section \<open>Shortcuts from files\<close>

text \<open>\<open>_extract_web_app_url\<close>: the URL of the first web platform of the first client that has one.\<close>

primrec first_web_platform :: "json list \<Rightarrow> json option result" where
  "first_web_platform [] = Inr None"
| "first_web_platform (p # ps) =
     r_bind (subscript p ''type'') (\<lambda>t.
       if t = JStr ''web'' then r_bind (subscript p ''url'') (\<lambda>u. Inr (Some u))
       else first_web_platform ps)"

primrec first_web_client :: "json list \<Rightarrow> json option result" where
  "first_web_client [] = Inr None"
| "first_web_client (c # cs) =
     r_bind (dict_get c ''platforms'' JNull) (\<lambda>ps.
       if \<not> truthy ps then first_web_client cs
       else r_bind (iter_json ps) (\<lambda>xs. r_bind (first_web_platform xs) (\<lambda>r.
         case r of Some u \<Rightarrow> Inr (Some u) | None \<Rightarrow> first_web_client cs)))"

definition extract_web_app_url :: "json \<Rightarrow> json option result" where
  "extract_web_app_url custom =
     r_bind (dict_get custom ''clients'' JNull) (\<lambda>cs.
       if \<not> truthy cs then Inr None
       else r_bind (subscript custom ''clients'') (\<lambda>v. r_bind (iter_json v) first_web_client))"

text \<open>
  \<open>get_custom_shortcuts\<close>: each file of the list is \<open>None\<close> when it is missing or empty, and
  otherwise the value of its text or the exception of reading it; a file that cannot be used is
  logged and skipped.
\<close>

definition custom_shortcuts_of :: "json result \<Rightarrow> json list" where
  "custom_shortcuts_of content =
     (case r_bind content (\<lambda>v. r_bind (subscript v ''shortcuts'') iter_json) of Inl e \<Rightarrow> [] | Inr xs \<Rightarrow> xs)"

definition get_custom_shortcuts :: "json result option list \<Rightarrow> json list" where
  "get_custom_shortcuts files =
     concat (map (\<lambda>f. case f of None \<Rightarrow> [] | Some c \<Rightarrow> custom_shortcuts_of c) files)"

section \<open>The list for other programs\<close>

definition get_icon_url :: "(string \<Rightarrow> string) \<Rightarrow> string option \<Rightarrow> string option \<Rightarrow> string option" where
  "get_icon_url static aid icon_name =
     (case icon_name of
        None \<Rightarrow> None
      | Some i \<Rightarrow>
          if i = [] then None
          else if starts_with i ''/'' then Some i
          else if (\<exists>a. aid = Some a \<and> a \<noteq> []) then Some (static (the aid) @ ''/icons/'' @ i @ ''.png'')
          else Some (static (''theme/icons/'' @ i @ ''.png'')))"

definition option_json :: "('a \<Rightarrow> json) \<Rightarrow> 'a option \<Rightarrow> json" where
  "option_json f x = (case x of None \<Rightarrow> JNull | Some v \<Rightarrow> f v)"

text \<open>
  \<open>_get_shortcut_data\<close>. For a name that starts with \<open>shortcut-ikiwiki-\<close> the code subscripts the
  shortcut object, which is not a dict.
\<close>

definition shortcut_data :: "(string \<Rightarrow> string) \<Rightarrow> shortcut \<Rightarrow> json result" where
  "shortcut_data static s =
     (case sc_name s of
        None \<Rightarrow> Inl (AttributeError ''startswith'')
      | Some name \<Rightarrow>
          if starts_with name ''shortcut-ikiwiki-'' then Inl (TypeError ''not subscriptable'')
          else Inr (JDict
            [(''name'', JStr name),
             (''description'', option_json (\<lambda>d. JList (map JStr d)) (sc_description s)),
             (''icon_url'', option_json JStr (get_icon_url static (sc_app_id s) (sc_icon s))),
             (''clients'', sc_clients s),
             (''tags'', option_json (\<lambda>t. JList (map JStr t)) (sc_tags s))]))"

definition get_shortcuts_as_json ::
  "(string \<Rightarrow> ('w, string list) prog) \<Rightarrow> (string \<Rightarrow> string) \<Rightarrow> (shortcut \<Rightarrow> bool) \<Rightarrow> shortcuts \<Rightarrow> json list \<Rightarrow>
   string option \<Rightarrow> ('w, json list) prog"
where
  "get_shortcuts_as_json get_user_groups static enabled all custom uname =
     p_bind (shortcut_list get_user_groups all uname False) (\<lambda>ss.
       p_lift (r_bind (r_map (shortcut_data static) (filter (\<lambda>s. sc_id s \<noteq> [] \<and> enabled s) ss))
         (\<lambda>ds. Inr (ds @ custom))))"

text \<open>
  Who is shown which shortcut. Logged-in users are shown what their groups allow. The documented
  rule for visitors who are not logged in is kept by the cards of the index page only: the page
  also describes any shortcut that the visitor names, and the list for other programs has them all.
\<close>

lemma keyed_map:
  "r_map (\<lambda>s. r_bind (f s) (\<lambda>k. Inr (k, s))) xs = Inr ys \<Longrightarrow> map snd ys = xs \<and> (\<forall>(k, s) \<in> set ys. f s = Inr k)"
proof (induction xs arbitrary: ys)
  case (Cons x xs)
  then obtain k zs where "f x = Inr k" "r_map (\<lambda>s. r_bind (f s) (\<lambda>k. Inr (k, s))) xs = Inr zs" "ys = (k, x) # zs"
    by (auto simp: r_bind_Inr_iff)
  with Cons.IH[of zs] show ?case by simp
qed simp

lemma sorted_by_key:
  assumes "r_map (\<lambda>s. r_bind (f s) (\<lambda>k. Inr (k, s))) xs = Inr ys"
  shows "set (map snd (sort_key fst ys)) = set xs"
    and "sorted_wrt (\<lambda>s t. projr (f s) \<le> projr (f t)) (map snd (sort_key fst ys))"
proof -
  note k = keyed_map[OF assms]
  show "set (map snd (sort_key fst ys)) = set xs" using k by (metis list.set_map set_sort)
  have e: "projr (f (snd p)) = fst p" if "p \<in> set (sort_key fst ys)" for p
    using k that by (cases p) auto
  have "sorted_wrt (\<lambda>p q. fst p \<le> fst q) (sort_key fst ys)"
    using sorted_sort_key[of fst ys] by (simp add: sorted_map)
  then have "sorted_wrt (\<lambda>p q. projr (f (snd p)) \<le> projr (f (snd q))) (sort_key fst ys)"
    by (rule sorted_wrt_mono_rel[rotated]) (simp add: e)
  then show "sorted_wrt (\<lambda>s t. projr (f s) \<le> projr (f t)) (map snd (sort_key fst ys))"
    by (simp add: sorted_wrt_map)
qed

text \<open>The rule of the documentation, for a user with groups \<open>grps\<close>.\<close>

definition may_see :: "string list \<Rightarrow> shortcut \<Rightarrow> bool" where
  "may_see grps s \<longleftrightarrow>
     ''admin'' \<in> set grps \<or> \<not> login_required s \<or>
     (case allowed_groups s of None \<Rightarrow> True | Some gs \<Rightarrow> gs = [] \<or> (\<exists>g \<in> set gs. g \<in> set grps))"

definition named :: "shortcuts \<Rightarrow> bool" where
  "named all \<longleftrightarrow> (\<forall>s \<in> set (od_values all). sc_name s \<noteq> None)"

lemma list_succeeds:
  assumes "named all" and "set xs \<subseteq> set (od_values all)"
  shows "\<exists>ys. r_map (\<lambda>s. r_bind (shortcut_sort_key s) (\<lambda>k. Inr (k, s))) xs = Inr ys"
proof -
  have "\<forall>s \<in> set xs. \<exists>y. r_bind (shortcut_sort_key s) (\<lambda>k. Inr (k, s)) = Inr y"
  proof
    fix s assume "s \<in> set xs"
    then have "sc_name s \<noteq> None" using assms by (auto simp: named_def)
    then show "\<exists>y. r_bind (shortcut_sort_key s) (\<lambda>k. Inr (k, s)) = Inr y"
      by (auto simp: shortcut_sort_key_def)
  qed
  then show ?thesis using r_map_succeeds_iff by blast
qed

text \<open>
  A logged-in user is shown exactly the enabled shortcuts that are for everyone, for every
  user, or for a group of the user, and an administrator every enabled one, sorted by name.
\<close>

theorem cards_of_user:
  assumes "named all" and "rq_user request = Some u" and "username u \<noteq> []"
    and "get_user_groups (username u) w = (Inr grps, v)"
  shows "\<exists>page. index_view get_user_groups all request w = (Inr page, v) \<and>
    set (template_cards enabled request page) = {s \<in> set (od_values all). enabled s \<and> may_see grps s} \<and>
    sorted_wrt (\<lambda>s t. map lower_char (the (sc_name s)) \<le> map lower_char (the (sc_name t)))
      (template_cards enabled request page)"
proof -
  let ?d = "if ''admin'' \<in> set grps then all else filter (\<lambda>(k, s). \<not> not_for_groups grps s) all"
  have l: "list_for_user get_user_groups all (Some (username u)) w = (Inr ?d, v)"
    using assms(3,4) by (simp add: list_for_user_def prog_simps)
  have sub: "set (od_values ?d) = {s \<in> set (od_values all). may_see grps s}"
  proof (cases "''admin'' \<in> set grps")
    case False
    have "\<not> not_for_groups grps s \<longleftrightarrow> may_see grps s" for s
      using False by (auto simp: may_see_def not_for_groups_def split: option.splits)
    then show ?thesis using False by force
  qed (simp add: may_see_def)
  then obtain ys where ys: "r_map (\<lambda>s. r_bind (shortcut_sort_key s) (\<lambda>k. Inr (k, s))) (od_values ?d) = Inr ys"
    using list_succeeds[OF assms(1), of "od_values ?d"] by auto
  let ?ss = "map snd (sort_key fst ys)"
  have ss: "shortcut_list get_user_groups all (Some (username u)) False w = (Inr ?ss, v)"
    using l ys by (simp add: shortcut_list_def p_bind_def p_lift_def)
  define page where "page = \<lparr>page_shortcuts = ?ss,
    page_selected = (case map_of (get_params request) ''selected'' of
                 None \<Rightarrow> None | Some i \<Rightarrow> find (\<lambda>s. sc_id s = i) ?ss)\<rparr>"
  have "index_view get_user_groups all request w = (Inr page, v)"
    using assms(2) ss by (simp add: index_view_def p_bind_def p_ret_def page_def)
  moreover have "set (template_cards enabled request page) = {s \<in> set (od_values all). enabled s \<and> may_see grps s}"
    using sorted_by_key(1)[OF ys] sub assms(2) by (auto simp: template_cards_def page_def)
  moreover have "sorted_wrt (\<lambda>s t. map lower_char (the (sc_name s)) \<le> map lower_char (the (sc_name t)))
      (template_cards enabled request page)"
  proof -
    have n: "sc_name s \<noteq> None" if "s \<in> set ?ss" for s
      using that sorted_by_key(1)[OF ys] sub assms(1) by (auto simp: named_def)
    have k: "projr (shortcut_sort_key s) = map lower_char (the (sc_name s))" if "s \<in> set ?ss" for s
      using n[OF that] by (auto simp: shortcut_sort_key_def)
    have "sorted_wrt (\<lambda>s t. projr (shortcut_sort_key s) \<le> projr (shortcut_sort_key t)) ?ss"
      by (rule sorted_by_key(2)[OF ys])
    then have "sorted_wrt (\<lambda>s t. map lower_char (the (sc_name s)) \<le> map lower_char (the (sc_name t))) ?ss"
      by (rule sorted_wrt_mono_rel[rotated]) (simp add: k)
    then show ?thesis by (simp add: template_cards_def page_def sorted_wrt_filter)
  qed
  ultimately show ?thesis by blast
qed

text \<open>C28: a visitor who is not logged in is shown cards of enabled shortcuts that need no login
  only; yet the page describes any shortcut with a description that the visitor names, one that
  requires a login, is for a group only or is disabled included.
\<close>

theorem visitor_reads_hidden_shortcuts:
  assumes "named all" and "od_wf all" and "\<forall>(k, s) \<in> set all. sc_id s = k"
    and "rq_user request = None"
    and "map_of all i = Some s" and "sc_description s = Some d" and "d \<noteq> []"
    and "map_of (get_params request) ''selected'' = Some i"
  shows "\<exists>page. index_view get_user_groups all request w = (Inr page, w) \<and>
    (\<forall>c \<in> set (template_cards enabled request page). enabled c \<and> \<not> login_required c) \<and>
    template_described page = Some s"
proof -
  obtain ys where ys: "r_map (\<lambda>s. r_bind (shortcut_sort_key s) (\<lambda>k. Inr (k, s))) (od_values all) = Inr ys"
    using list_succeeds[OF assms(1)] by blast
  let ?ss = "map snd (sort_key fst ys)"
  have ss: "shortcut_list get_user_groups all None False w = (Inr ?ss, w)"
    using ys by (simp add: shortcut_list_def list_for_user_def p_bind_def p_lift_def p_ret_def)
  have one: "t = s" if "t \<in> set ?ss" "sc_id t = i" for t
  proof -
    have "t \<in> set (od_values all)" using that sorted_by_key(1)[OF ys] by simp
    then obtain k where "(k, t) \<in> set all" by auto
    moreover from this have "k = i" using assms(3) that(2) by auto
    ultimately show ?thesis using assms(2,5) by simp
  qed
  have m: "(i, s) \<in> set all" by (rule map_of_SomeD[OF assms(5)])
  then have "s \<in> snd ` set all" by force
  then have "s \<in> set ?ss" using sorted_by_key(1)[OF ys] by simp
  moreover have "sc_id s = i" using assms(3) m by auto
  ultimately have "find (\<lambda>s. sc_id s = i) ?ss \<noteq> None" by (auto simp: find_None_iff)
  then have f: "find (\<lambda>s. sc_id s = i) ?ss = Some s"
  proof -
    from \<open>find (\<lambda>s. sc_id s = i) ?ss \<noteq> None\<close> obtain t where t: "find (\<lambda>s. sc_id s = i) ?ss = Some t" by blast
    then obtain n where "n < length ?ss" "sc_id (?ss ! n) = i" "t = ?ss ! n" unfolding find_Some_iff by blast
    then have "t \<in> set ?ss" "sc_id t = i" using nth_mem by blast+
    with one t show ?thesis by simp
  qed
  define page where "page = \<lparr>page_shortcuts = ?ss, page_selected = Some s\<rparr>"
  have "index_view get_user_groups all request w = (Inr page, w)"
    using assms(4,8) ss f by (simp add: index_view_def p_bind_def p_ret_def page_def)
  moreover have "\<forall>c \<in> set (template_cards enabled request page). enabled c \<and> \<not> login_required c"
    using assms(4) by (auto simp: template_cards_def)
  moreover have "template_described page = Some s"
    using assms(6,7) by (simp add: template_described_def page_def)
  ultimately show ?thesis by blast
qed

section \<open>A front page\<close>

definition private_shortcut :: shortcut where
  "private_shortcut = \<lparr>sc_id = ''shortcut-files'', sc_app_id = Some ''files'', sc_name = Some ''Files'',
     sc_url = ''?selected=shortcut-files'', sc_icon = None, sc_description = Some [''Files of the family''],
     sc_manual_page = None, sc_configure_url = None, sc_clients = JNull, sc_tags = None,
     login_required = True, allowed_groups = Some [''family'']\<rparr>"

definition index_request :: "request_user option \<Rightarrow> http_request" where
  "index_request u = \<lparr>rq_path = ''/'', rq_path_info = ''/'', http_method = ''GET'', rq_user = u,
     get_params = [(''selected'', ''shortcut-files'')], post_params = [], rq_headers = []\<rparr>"

lemmas front_page_example = private_shortcut_def index_request_def named_def may_see_def

theorem cards_of_user_witness:
  "\<exists>page. index_view (\<lambda>u w. (Inr [''guests''], w)) [(''shortcut-files'', private_shortcut)]
             (index_request (Some \<lparr>username = ''eve'', groups = []\<rparr>)) () = (Inr page, ()) \<and>
          template_cards (\<lambda>s. True) (index_request (Some \<lparr>username = ''eve'', groups = []\<rparr>)) page = []"
proof -
  let ?rq = "index_request (Some \<lparr>username = ''eve'', groups = []\<rparr>)" and ?all = "[(''shortcut-files'', private_shortcut)]"
  have n: "named ?all" "\<not> may_see [''guests''] private_shortcut" "rq_user ?rq = Some \<lparr>username = ''eve'', groups = []\<rparr>"
    by (simp_all add: front_page_example)
  have "{s \<in> set (od_values ?all). True \<and> may_see [''guests''] s} = {}" using n(2) by auto
  with cards_of_user[OF n(1,3), of "\<lambda>u w. (Inr [''guests''], w)" "()" "[''guests'']" "()" "\<lambda>s. True"]
  show ?thesis by (auto simp only: request_user.simps list.distinct set_empty simp_thms)
qed

theorem visitor_reads_hidden_shortcuts_witness:
  "\<exists>page. index_view (\<lambda>u w. (Inr [], w)) [(''shortcut-files'', private_shortcut)] (index_request None) () = (Inr page, ()) \<and>
          template_cards (\<lambda>s. False) (index_request None) page = [] \<and>
          template_described page = Some private_shortcut"
  using visitor_reads_hidden_shortcuts[of "[(''shortcut-files'', private_shortcut)]" "index_request None" "''shortcut-files''"
      private_shortcut "[''Files of the family'']" "\<lambda>u w. (Inr [], w)" "()" "\<lambda>s. False"]
  by (simp add: front_page_example)

text \<open>
  The items that a page picks by tags are exactly those that have a selected tag, themselves or
  through a child, best matches first, as long as no item has both tags and children. Where one
  has both, every request makes its list of tags longer.
\<close>

definition own_or_child_tags :: "menu_item list \<Rightarrow> tag_heap \<Rightarrow> menu_item \<Rightarrow> string list" where
  "own_or_child_tags menus h m = tags_of h m @ concat (map (tags_of h) (menu_items menus m))"

text \<open>No item has both.\<close>

definition tags_separate :: "menu_item list \<Rightarrow> tag_heap \<Rightarrow> bool" where
  "tags_separate menus h \<longleftrightarrow> (\<forall>m \<in> set menus. menu_items menus m = [] \<or> tags_of h m = [])"

lemma proxy_init_pure:
  "tags_separate menus h \<Longrightarrow> m \<in> set menus \<Longrightarrow> proxy_init menus m h = (own_or_child_tags menus h m, h)"
  by (auto simp: tags_separate_def proxy_init_def own_or_child_tags_def tags_of_def Let_def split: option.splits)

lemma picked_from:
  assumes "pick_filter selected ps = Inr qs"
  shows "set qs = {p \<in> set ps. selected = [] \<or> (\<exists>t \<in> set selected. t \<in> set (proxy_tags p))}"
    and "sorted_wrt (\<lambda>p q. count_list (mismatch_map selected (proxy_tags p)) True
                         \<le> count_list (mismatch_map selected (proxy_tags q)) True) qs"
proof -
  let ?ps = "filter (\<lambda>p. selected = [] \<or> \<not> list_all id (mismatch_map selected (proxy_tags p))) ps"
  obtain ys where ys: "r_map (\<lambda>p. r_bind (pick_sort_key selected p) (\<lambda>k. Inr (k, p))) ?ps = Inr ys"
    and qs: "qs = map snd (sort_key fst ys)"
    using assms by (auto simp: pick_filter_def r_bind_Inr_iff)
  have m: "\<not> list_all id (mismatch_map selected tgs) \<longleftrightarrow> (\<exists>t \<in> set selected. t \<in> set tgs)" for tgs
    by (auto simp: list_all_iff mismatch_map_def)
  show "set qs = {p \<in> set ps. selected = [] \<or> (\<exists>t \<in> set selected. t \<in> set (proxy_tags p))}"
    using sorted_by_key(1)[OF ys] qs by (simp add: m)
  have k: "fst (projr (pick_sort_key selected p)) = count_list (mismatch_map selected (proxy_tags p)) True"
    if "p \<in> set qs" for p
  proof -
    have "p \<in> set (map snd ys)" using that qs by simp
    then obtain x where x: "(x, p) \<in> set ys" by auto
    have "pick_sort_key selected p = Inr x" using keyed_map[OF ys] x by auto
    then show ?thesis by (auto simp: pick_sort_key_def Let_def r_bind_Inr_iff)
  qed
  have "sorted_wrt (\<lambda>p q. projr (pick_sort_key selected p) \<le> projr (pick_sort_key selected q)) qs"
    using sorted_by_key(2)[OF ys] qs by simp
  then show "sorted_wrt (\<lambda>p q. count_list (mismatch_map selected (proxy_tags p)) True
                         \<le> count_list (mismatch_map selected (proxy_tags q)) True) qs"
    by (rule sorted_wrt_mono_rel[rotated]) (auto simp: k[symmetric] less_eq_prod_def)
qed

lemma pick_keeps_heap:
  assumes "tags_separate menus h"
  shows "set ms \<subseteq> set menus \<Longrightarrow> snd (pick_menu_items n menus selected ms h) = h"
proof (induction n arbitrary: ms)
  case (Suc n)
  have sub: "set (menu_items menus m) \<subseteq> set menus" for m by (auto simp: menu_items_def)
  have "snd (p_map (\<lambda>m. p_bind (\<lambda>h. (Inr (fst (proxy_init menus m h)), snd (proxy_init menus m h))) (\<lambda>tgs.
               p_bind (pick_menu_items n menus selected (menu_items menus m)) (\<lambda>cs.
                 p_ret (Proxy m tgs cs)))) ms h) = h"
    using Suc.prems
  proof (induction ms)
    case (Cons m ms)
    then show ?case
      using Suc.IH[OF sub[of m]]
      by (auto simp: p_bind_def p_ret_def proxy_init_pure[OF assms] split: prod.splits sum.splits)
  qed (simp add: p_ret_def)
  then show ?case by (auto simp: p_bind_def p_lift_def split: prod.splits sum.splits)
qed (simp add: p_raise_def)

lemma proxies_of:
  assumes "tags_separate menus h" and "set ms \<subseteq> set menus"
    and "p_map (\<lambda>m. p_bind (\<lambda>h. (Inr (fst (proxy_init menus m h)), snd (proxy_init menus m h))) (\<lambda>tgs.
               p_bind (pick_menu_items n menus selected (menu_items menus m)) (\<lambda>cs.
                 p_ret (Proxy m tgs cs)))) ms h = (Inr ps, h')"
  shows "map (\<lambda>p. (proxy_item p, proxy_tags p)) ps = map (\<lambda>m. (m, own_or_child_tags menus h m)) ms"
  using assms(2,3)
proof (induction ms arbitrary: ps h')
  case (Cons m ms)
  have sub: "set (menu_items menus m) \<subseteq> set menus" by (auto simp: menu_items_def)
  let ?cs = "pick_menu_items n menus selected (menu_items menus m) h"
  obtain cs where cs: "?cs = (Inr cs, h)"
    using Cons.prems pick_keeps_heap[OF assms(1) sub, of n selected]
    by (auto simp: p_bind_def p_ret_def proxy_init_pure[OF assms(1)] split: prod.splits sum.splits)
  with Cons show ?case
    by (auto simp: p_bind_def p_ret_def proxy_init_pure[OF assms(1)] split: prod.splits sum.splits)
qed (simp add: p_ret_def)

text \<open>
  A page filtered by tags shows exactly the items that have one of the selected tags,
  themselves or through a child, those with more of them first, and leaves all tags as they were.
\<close>

theorem items_picked_by_tags:
  assumes "tags_separate menus h" and "set ms \<subseteq> set menus" and "pick_menu_items n menus selected ms h = (Inr ps, h')"
  shows "set (map proxy_item ps) =
           {m \<in> set ms. selected = [] \<or> (\<exists>t \<in> set selected. t \<in> set (own_or_child_tags menus h m))}"
    and "sorted_wrt (\<lambda>a b. count_list (mismatch_map selected (own_or_child_tags menus h a)) True
                         \<le> count_list (mismatch_map selected (own_or_child_tags menus h b)) True) (map proxy_item ps)"
    and "h' = h"
proof -
  obtain k where n: "n = Suc k" using assms(3) by (cases n) (auto simp: p_raise_def)
  obtain qs h2 where q: "p_map (\<lambda>m. p_bind (\<lambda>h. (Inr (fst (proxy_init menus m h)), snd (proxy_init menus m h))) (\<lambda>tgs.
               p_bind (pick_menu_items k menus selected (menu_items menus m)) (\<lambda>cs.
                 p_ret (Proxy m tgs cs)))) ms h = (Inr qs, h2)" "pick_filter selected qs = Inr ps"
    using assms(3) by (auto simp: n p_bind_def p_lift_def split: prod.splits sum.splits)
  have m: "map (\<lambda>p. (proxy_item p, proxy_tags p)) qs = map (\<lambda>m. (m, own_or_child_tags menus h m)) ms"
    by (rule proxies_of[OF assms(1,2) q(1)])
  then have t: "proxy_tags p = own_or_child_tags menus h (proxy_item p)" if "p \<in> set qs" for p
  proof -
    have "(proxy_item p, proxy_tags p) \<in> set (map (\<lambda>m. (m, own_or_child_tags menus h m)) ms)"
      unfolding m[symmetric] using that by auto
    then show ?thesis by auto
  qed
  have "map proxy_item qs = ms" using arg_cong[OF m, of "map fst"] by (simp add: o_def)
  then have "proxy_item ` set qs = set ms" by (metis list.set_map)
  then show "set (map proxy_item ps) =
      {m \<in> set ms. selected = [] \<or> (\<exists>t \<in> set selected. t \<in> set (own_or_child_tags menus h m))}"
  proof -
    let ?Q = "\<lambda>m. selected = [] \<or> (\<exists>t \<in> set selected. t \<in> set (own_or_child_tags menus h m))"
    have "set ps = {p \<in> set qs. ?Q (proxy_item p)}"
      unfolding picked_from(1)[OF q(2)] by (rule Collect_cong) (simp add: t cong: conj_cong)
    then have "set (map proxy_item ps) = {m \<in> proxy_item ` set qs. ?Q m}" by auto
    with \<open>proxy_item ` set qs = set ms\<close> show ?thesis by simp
  qed
  have "sorted_wrt (\<lambda>p q. count_list (mismatch_map selected (own_or_child_tags menus h (proxy_item p))) True
                         \<le> count_list (mismatch_map selected (own_or_child_tags menus h (proxy_item q))) True) ps"
    using picked_from(2)[OF q(2)]
    by (rule sorted_wrt_mono_rel[rotated]) (use t picked_from(1)[OF q(2)] in auto)
  then show "sorted_wrt (\<lambda>a b. count_list (mismatch_map selected (own_or_child_tags menus h a)) True
                         \<le> count_list (mismatch_map selected (own_or_child_tags menus h b)) True) (map proxy_item ps)"
    by (simp add: sorted_wrt_map)
  show "h' = h" using pick_keeps_heap[OF assms(1,2), of n selected] assms(3) by simp
qed

section \<open>Tags that grow\<close>

definition growing_menu :: "menu_item list" where
  "growing_menu =
     [\<lparr>menu_id = ''menu-files'', menu_name = Some ''Files'', menu_icon = None, menu_tags = Some 0, menu_url = ''/apps/files/'',
       menu_order = 50, menu_advanced = False, url_name = ''files:index'', parent_url_name = Some ''apps''\<rparr>,
      \<lparr>menu_id = ''menu-share'', menu_name = Some ''Share'', menu_icon = None, menu_tags = Some 1, menu_url = ''/apps/files/share/'',
       menu_order = 50, menu_advanced = False, url_name = ''files:share'', parent_url_name = Some ''files:index''\<rparr>]"

lemma tags_grow:
  "snd (proxy_init growing_menu (hd growing_menu) [[''files''], [''sharing'']]) = [[''files'', ''sharing''], [''sharing'']]"
  "snd (proxy_init growing_menu (hd growing_menu) [[''files'', ''sharing''], [''sharing'']]) =
     [[''files'', ''sharing'', ''sharing''], [''sharing'']]"
  by (simp_all add: proxy_init_def growing_menu_def menu_items_def tags_of_def Let_def)

text \<open>The menu with the child alone has no item with both.\<close>

definition flat_menu :: "menu_item list" where
  "flat_menu = tl growing_menu"

theorem items_picked_by_tags_witness:
  "\<exists>ps. pick_menu_items 2 flat_menu [''sharing''] flat_menu [[], [''sharing'']] = (Inr ps, [[], [''sharing'']]) \<and>
        set (map proxy_item ps) = set flat_menu"
proof -
  let ?h = "[[], [''sharing'']]"
  have s: "tags_separate flat_menu ?h"
    by (simp add: tags_separate_def menu_items_def flat_menu_def growing_menu_def tags_of_def)
  obtain ps h' where e: "pick_menu_items 2 flat_menu [''sharing''] flat_menu ?h = (Inr ps, h')"
    by (simp add: numeral_eq_Suc p_defs prog_simps menu_items_def flat_menu_def growing_menu_def tags_of_def proxy_init_def
        pick_filter_def pick_sort_key_def lower_name_def mismatch_map_def Let_def)
  have "own_or_child_tags flat_menu ?h (hd flat_menu) = [''sharing'']"
    by (simp add: own_or_child_tags_def menu_items_def flat_menu_def growing_menu_def tags_of_def)
  moreover have "set flat_menu = {hd flat_menu}" by (simp add: flat_menu_def growing_menu_def)
  ultimately show ?thesis
    using items_picked_by_tags(1,3)[OF s _ e] e by auto
qed

end
