(* ===== verification/Access.thy ===== *)
theory Access
  imports FirstBoot Menu
begin

text \<open>
  What stands between a request and its view (plinth/middleware.py, in the order of MIDDLEWARE
  in settings.py): the redirection to the first boot wizard, the login and the membership that a
  view asks for, the page of the first setup, the setup page of an app that is not up to date;
  and the errors and headers on the way back. Django's resolver of paths and the login check of
  the package stronghold are parameters.
\<close>

text \<open>The attributes that decorators put on a view function.\<close>

record view_attrs =
  view_public :: bool
  view_non_admin :: bool
  view_group :: "string option"

record web_env =
  reverse :: "string \<Rightarrow> string"
  resolve :: "string \<Rightarrow> resolver_match option"
  stronghold :: "view_attrs \<Rightarrow> http_request \<Rightarrow> response option"
  web_apps :: "web_world apps"
  setup_view :: "string \<Rightarrow> http_request \<Rightarrow> (web_world, response) prog"

section \<open>Before the view\<close>

text \<open>\<open>AdminRequiredMiddleware\<close>; the setting STRONGHOLD_PUBLIC_URLS has the one pattern \<open>^/o/\<close>.\<close>

definition check_user_group :: "view_attrs \<Rightarrow> http_request \<Rightarrow> bool" where
  "check_user_group view request =
     (case view_group view of None \<Rightarrow> False | Some g \<Rightarrow> user_in_group request g)"

definition admin_process_view :: "view_attrs \<Rightarrow> http_request \<Rightarrow> (web_world, response option) prog" where
  "admin_process_view view request =
     (if view_public view \<or> view_non_admin view then p_ret None
      else if starts_with (rq_path_info request) ''/o/'' then p_ret None
      else p_bind (is_user_admin request False) (\<lambda>admin.
        if admin then p_ret None
        else if check_user_group view request then p_ret None
        else p_raise PermissionDenied))"

definition first_setup_process_view :: "(web_world, response option) prog" where
  "first_setup_process_view =
     p_bind (p_get first_setup_running) (\<lambda>running.
       p_ret (if running then Some (Rendered ''first_setup.html'') else None))"

text \<open>\<open>_collect_operations_results\<close>: a message for every finished operation of the app.\<close>

definition result_message :: "operation \<Rightarrow> string \<times> string" where
  "result_message oper =
     (if op_exception oper \<noteq> None then (''error'', operation_message oper) else (''success'', operation_message oper))"

definition collect_operations_results :: "string \<Rightarrow> (web_world, unit) prog" where
  "collect_operations_results aid =
     p_mod (\<lambda>w. case collect_results aid (op_manager w) of
       (results, m) \<Rightarrow>
         w\<lparr>op_manager := m,
           web_messages := web_messages w @ map (\<lambda>r. result_message (heap (op_manager w) ! r)) results\<rparr>)"

text \<open>\<open>SetupMiddleware\<close>: \<open>login_required\<close> lets the administrator through, who is logged in.\<close>

definition setup_process_view :: "web_env \<Rightarrow> http_request \<Rightarrow> (web_world, response option) prog" where
  "setup_process_view env request =
     (if starts_with (rq_path request) (reverse env ''users:login'') then p_ret None
      else case resolve env (rq_path_info request) of
        None \<Rightarrow> p_ret None
      | Some m \<Rightarrow>
          if namespaces m = [] \<or> ''oauth2_provider'' \<in> set (namespaces m) then p_ret None
          else p_bind (p_lift (od_get (web_apps env) (hd (namespaces m)))) (\<lambda>a.
            p_bind (is_user_admin request False) (\<lambda>admin.
              p_then (if admin then collect_operations_results (app_id a) else p_ret ())
                (p_bind (get_setup_state a) (\<lambda>st.
                  if st = UP_TO_DATE then p_ret None
                  else if \<not> admin then p_raise PermissionDenied
                  else p_bind (setup_view env (hd (namespaces m)) request) (\<lambda>r. p_ret (Some r)))))))"

text \<open>
  A request before its view: first every middleware's \<open>process_request\<close>, of which the one of the
  first boot wizard is the only one of the program, then every \<open>process_view\<close>; the first
  response wins. \<open>None\<close>: the view is called.
\<close>

definition handle_request :: "web_env \<Rightarrow> view_attrs \<Rightarrow> http_request \<Rightarrow> (web_world, response option) prog" where
  "handle_request env view request =
     p_bind (first_boot_process_request (reverse env) (od_values (web_apps env)) request) (\<lambda>r1.
       if r1 \<noteq> None then p_ret r1
       else if stronghold env view request \<noteq> None then p_ret (stronghold env view request)
       else p_bind (admin_process_view view request) (\<lambda>r2.
         if r2 \<noteq> None then p_ret r2
         else p_bind first_setup_process_view (\<lambda>r3.
           if r3 \<noteq> None then p_ret r3 else setup_process_view env request)))"

section \<open>After the view\<close>

definition get_redirect_url_on_error ::
  "menu_item list \<Rightarrow> http_request \<Rightarrow> resolver_match option \<Rightarrow> string result"
where
  "get_redirect_url_on_error menus request match =
     (if http_method request \<noteq> ''GET'' then Inr (rq_path request)
      else r_bind (get_breadcrumbs menus (rq_path request) match) (\<lambda>d.
        Inr (od_keys d ! (if 1 < length d then 1 else 0))))"

definition is_home_page :: "resolver_match \<Rightarrow> bool" where
  "is_home_page m \<longleftrightarrow> app_names m = [] \<and> match_url_name m = ''index''"

definition error_message_for :: "http_request \<Rightarrow> exn \<Rightarrow> string" where
  "error_message_for request e =
     (case e of
        Http404 m \<Rightarrow> ''Page not found: '' @ rq_path request
      | _ \<Rightarrow> if http_method request = ''POST'' then ''Error running operation.'' else ''Error loading page.'')"

text \<open>\<open>CommonErrorMiddleware.process_exception\<close>; \<open>None\<close> leaves the exception to Django.\<close>

definition process_exception ::
  "menu_item list \<Rightarrow> http_request \<Rightarrow> resolver_match \<Rightarrow> exn \<Rightarrow> (web_world, response option) prog"
where
  "process_exception menus request match e =
     (case e of
        OperationalError m \<Rightarrow> p_ret (Some (Error_page 503 ''System is possibly under heavy load. Please retry later.''))
      | _ \<Rightarrow>
          if is_home_page match then p_ret None
          else p_then (p_mod (\<lambda>w. w\<lparr>web_messages := web_messages w @ [(''error'', error_message_for request e)]\<rparr>))
                 (p_bind (p_lift (get_redirect_url_on_error menus request (Some match))) (\<lambda>u.
                   p_ret (Some (Redirect u)))))"

definition process_response ::
  "menu_item list \<Rightarrow> http_request \<Rightarrow> resolver_match option \<Rightarrow> response \<Rightarrow> response result"
where
  "process_response menus request match response =
     (if response = Not_allowed
      then r_bind (get_redirect_url_on_error menus request match) (\<lambda>u. Inr (Redirect u))
      else Inr response)"

text \<open>\<open>CommonHeadersMiddleware\<close>: a header that the view has set is kept.\<close>

definition content_security_policy :: "(string, string) odict" where
  "content_security_policy =
     [(''font-src'', [CHR 0x27] @ ''self'' @ [CHR 0x27]),
      (''frame-src'', [CHR 0x27] @ ''none'' @ [CHR 0x27]),
      (''img-src'', [CHR 0x27] @ ''self'' @ [CHR 0x27] @ '' data:''),
      (''manifest-src'', [CHR 0x27] @ ''none'' @ [CHR 0x27]),
      (''media-src'', [CHR 0x27] @ ''none'' @ [CHR 0x27]),
      (''object-src'', [CHR 0x27] @ ''none'' @ [CHR 0x27]),
      (''script-src'', [CHR 0x27] @ ''self'' @ [CHR 0x27]),
      (''style-src'', [CHR 0x27] @ ''self'' @ [CHR 0x27] @ '' '' @ [CHR 0x27] @ ''unsafe-inline'' @ [CHR 0x27]),
      (''worker-src'', [CHR 0x27] @ ''self'' @ [CHR 0x27]),
      (''default-src'', [CHR 0x27] @ ''self'' @ [CHR 0x27]),
      (''base-uri'', [CHR 0x27] @ ''none'' @ [CHR 0x27]),
      (''sandbox'', ''allow-scripts allow-popups allow-popups-to-escape-sandbox allow-forms '' @
                    ''allow-same-origin allow-downloads''),
      (''form-action'', [CHR 0x27] @ ''self'' @ [CHR 0x27]),
      (''frame-ancestors'', [CHR 0x27] @ ''none'' @ [CHR 0x27])]"

definition get_header_value :: "(string, string) odict \<Rightarrow> string" where
  "get_header_value d = join_str '' '' (map (\<lambda>(k, v). k @ '' '' @ v @ '';'') d)"

definition default_header :: "string \<Rightarrow> string \<Rightarrow> (string, string) odict \<Rightarrow> (string, string) odict" where
  "default_header k v h =
     (case map_of h k of None \<Rightarrow> od_set h k v | Some x \<Rightarrow> if x = [] then od_set h k v else h)"

definition add_common_headers :: "(string, string) odict \<Rightarrow> (string, string) odict" where
  "add_common_headers h =
     default_header ''Content-Security-Policy'' (get_header_value content_security_policy)
       (default_header ''X-Content-Type-Options'' ''nosniff''
         (default_header ''Referrer-Policy'' ''same-origin'' h))"

text \<open>
  \<open>context_processors.common\<close>: the section to highlight is the first breadcrumb that is marked,
  and the pages ask for the administrator through the cache of the session.
\<close>

definition active_section_url :: "crumbs \<Rightarrow> string result" where
  "active_section_url d =
     (case filter (\<lambda>(k, c). is_active_section c) d of [] \<Rightarrow> Inl (IndexError ''list index out of range'') | (k, c) # _ \<Rightarrow> Inr k)"

section \<open>Safe redirection\<close>

text \<open>
  \<open>urllib.parse.urlparse\<close> as far as \<open>is_safe_url\<close> uses it: leading control characters and all
  tabs and line ends are dropped, a scheme is letters, digits and \<open>+-.\<close> before the first colon,
  and the network location stands between \<open>//\<close> and the next of \<open>/?#\<close>. The code answers False
  for a \<open>ValueError\<close> of the network location and for any network location.
\<close>

definition scheme_char :: "char \<Rightarrow> bool" where
  "scheme_char c \<longleftrightarrow> c \<in> set ''abcdefghijklmnopqrstuvwxyzABCDEFGHIJKLMNOPQRSTUVWXYZ0123456789+-.''"

definition letter :: "char \<Rightarrow> bool" where
  "letter c \<longleftrightarrow> c \<in> set ''abcdefghijklmnopqrstuvwxyzABCDEFGHIJKLMNOPQRSTUVWXYZ''"

definition url_clean :: "string \<Rightarrow> string" where
  "url_clean url =
     filter (\<lambda>c. c \<notin> {CHR 0x09, CHR 0x0A, CHR 0x0D}) (dropWhile (\<lambda>c. (of_char c :: nat) \<le> 32) url)"

definition has_scheme :: "string \<Rightarrow> bool" where
  "has_scheme url \<longleftrightarrow>
     CHR '':'' \<in> set url \<and>
     (let s = takeWhile (\<lambda>c. c \<noteq> CHR '':'') url in s \<noteq> [] \<and> letter (hd s) \<and> list_all scheme_char s)"

definition after_scheme :: "string \<Rightarrow> string" where
  "after_scheme url = (if has_scheme url then tl (dropWhile (\<lambda>c. c \<noteq> CHR '':'') url) else url)"

definition url_netloc :: "string \<Rightarrow> string" where
  "url_netloc rest =
     (if starts_with rest ''//'' then takeWhile (\<lambda>c. c \<notin> set ''/?#'') (drop 2 rest) else [])"

text \<open>\<open>url.strip()\<close> takes every character away that Unicode calls white space.\<close>

definition py_space :: "char \<Rightarrow> bool" where
  "py_space c \<longleftrightarrow> (let n = of_char c :: nat in 9 \<le> n \<and> n \<le> 13 \<or> 28 \<le> n \<and> n \<le> 32 \<or> n = 133 \<or> n = 160)"

definition py_strip :: "string \<Rightarrow> string" where
  "py_strip s = rev (dropWhile py_space (rev (dropWhile py_space s)))"

definition is_safe_url :: "string option \<Rightarrow> bool" where
  "is_safe_url url =
     (case url of
        None \<Rightarrow> False
      | Some u0 \<Rightarrow>
          (let u = py_strip u0
           in u \<noteq> [] \<and> CHR 0x5C \<notin> set u \<and> \<not> starts_with u ''///'' \<and>
              \<not> has_scheme (url_clean u) \<and> url_netloc (after_scheme (url_clean u)) = []))"

definition get_redirect_url_from_param :: "(string \<Rightarrow> string) \<Rightarrow> http_request \<Rightarrow> string" where
  "get_redirect_url_from_param rv request =
     (let got = (case map_of (get_params request) ''next'' of None \<Rightarrow> [] | Some u \<Rightarrow> u);
          target = (case map_of (post_params request) ''next'' of None \<Rightarrow> got | Some u \<Rightarrow> u)
      in if is_safe_url (Some target) then target else rv ''index'')"

end
