(* ===== verification/AccessLaws.thy ===== *)
theory AccessLaws
  imports Access FirstBootLaws
begin

text \<open>
  What the middleware promises: exactly which requests reach a view, that the results of
  operations are for administrators, that following the redirections of pages that fail ends at
  the home page, and that a redirection named by a parameter stays on the site.
\<close>

section \<open>Which requests reach a view\<close>

text \<open>The part of the world that the checks before the view read and keep.\<close>

definition front_part :: "web_world \<Rightarrow> bool \<times> (string, int) odict \<times> ops_manager \<times> (string \<times> string) list" where
  "front_part w = (first_setup_running w, module_versions w, op_manager w, web_messages w)"

definition same_front :: "web_world \<Rightarrow> web_world \<Rightarrow> bool" where
  "same_front w v \<longleftrightarrow> front_part v = front_part w"

lemma front_basic:
  "p_keeps (same_front w) (kv_set k x)" "p_keeps (same_front w) (kv_get_default k x)"
  "p_keeps (same_front w) (needs_setup a)"
  "p_keeps (same_front w) (session_set k x)"
  "p_keeps (same_front w) (p_mod (\<lambda>v. v\<lparr>all_first_boot_steps := s\<rparr>))"
  "p_keeps (same_front w) (p_mod (\<lambda>v. v\<lparr>completed_cache := c\<rparr>))"
  by (auto simp: p_keeps_def same_front_def front_part_def needs_setup_def get_setup_state_def session_set_def p_defs prog_simps
      split: sum.splits prod.splits)

lemma front_collect: "p_keeps (same_front w) (collect_steps as)"
  by (induction as) (auto intro!: keeps_intros front_basic)

lemma front_undone: "p_keeps (same_front w) (first_undone ss)"
  by (induction ss) (auto intro!: keeps_intros front_basic)

lemma front_get_steps: "p_keeps (same_front w) (get_steps apps)"
  unfolding get_steps_def by (intro keeps_intros front_basic front_collect)

lemma front_admin: "p_keeps (same_front w) (is_user_admin request cached)"
  unfolding is_user_admin_def by (intro keeps_intros front_basic)

lemma front_first_boot: "p_keeps (same_front w) (first_boot_process_request rv apps request)"
  unfolding first_boot_process_request_def is_completed_def set_completed_def is_firstboot_url_def lacks_secret_def
    next_step_or_none_def firstboot_wizard_secret_exists_def
  by (intro keeps_intros front_basic front_get_steps front_undone front_admin)+

lemma front_state:
  "same_front w v \<Longrightarrow> fst (get_setup_state a v) = fst (get_setup_state a w)"
  by (auto simp: same_front_def front_part_def get_setup_state_def p_defs prog_simps split: sum.splits prod.splits)

lemma get_setup_state_keeps: "snd (get_setup_state a w) = w"
  by (auto simp: get_setup_state_def p_defs prog_simps split: sum.splits prod.splits)

text \<open>The rule: who may open a view, and when the app of a page is ready.\<close>

definition may_open :: "view_attrs \<Rightarrow> http_request \<Rightarrow> bool" where
  "may_open view request \<longleftrightarrow>
     view_public view \<or> view_non_admin view \<or> starts_with (rq_path_info request) ''/o/'' \<or>
     user_in_group request ''admin'' \<or>
     (\<exists>g. view_group view = Some g \<and> user_in_group request g)"

definition app_ready :: "web_env \<Rightarrow> http_request \<Rightarrow> web_world \<Rightarrow> bool" where
  "app_ready env request w \<longleftrightarrow>
     starts_with (rq_path request) (reverse env ''users:login'') \<or>
     (case resolve env (rq_path_info request) of
        None \<Rightarrow> True
      | Some m \<Rightarrow> namespaces m = [] \<or> ''oauth2_provider'' \<in> set (namespaces m) \<or>
          (\<exists>a. od_get (web_apps env) (hd (namespaces m)) = Inr a \<and> fst (get_setup_state a w) = Inr UP_TO_DATE))"

lemma admin_process_view_eval:
  obtains w' where "same_front w w'"
    and "admin_process_view view request w =
           (if may_open view request then Inr None else Inl PermissionDenied, w')"
proof -
  obtain w' where a: "is_user_admin request False w = (Inr (user_in_group request ''admin''), w')"
    using is_user_admin_fresh by blast
  have "same_front w w'"
    using p_keepsD[OF front_admin, of w w request False] by (simp add: a same_front_def)
  show thesis
  proof (cases "view_public view \<or> view_non_admin view \<or> starts_with (rq_path_info request) ''/o/''")
    case True
    then show thesis
      using that[of w] by (auto simp: admin_process_view_def may_open_def prog_simps same_front_def)
  next
    case False
    then have "admin_process_view view request w =
        (if may_open view request then Inr None else Inl PermissionDenied, w')"
      by (auto simp: admin_process_view_def may_open_def check_user_group_def prog_simps p_bind_def a split: option.splits)
    then show thesis using \<open>same_front w w'\<close> that by blast
  qed
qed

lemma collect_eval:
  "\<exists>w2. collect_operations_results aid w = (Inr (), w2) \<and> fst (get_setup_state a w2) = fst (get_setup_state a w)"
  by (auto simp: collect_operations_results_def get_setup_state_def p_defs prog_simps split: sum.splits prod.splits)

text \<open>The part of \<open>SetupMiddleware\<close> after the app is known.\<close>

lemma setup_state_check:
  assumes "is_user_admin request False w = (Inr admin, w1)" and "same_front w w1"
  shows "fst (p_bind (is_user_admin request False) (\<lambda>admin.
           p_then (if admin then collect_operations_results (app_id a) else p_ret ())
             (p_bind (get_setup_state a) (\<lambda>st.
               if st = UP_TO_DATE then p_ret None
               else if \<not> admin then p_raise PermissionDenied
               else p_bind (setup_view env ns request) (\<lambda>r. p_ret (Some r))))) w) = Inr None \<longleftrightarrow>
         fst (get_setup_state a w) = Inr UP_TO_DATE"
proof -
  obtain w2 where w2: "(if admin then collect_operations_results (app_id a) else p_ret ()) w1 = (Inr (), w2)"
    "fst (get_setup_state a w2) = fst (get_setup_state a w1)"
    using collect_eval[of "app_id a" w1 a] by (cases admin) (auto simp: prog_simps)
  then have st: "fst (get_setup_state a w2) = fst (get_setup_state a w)" using front_state[OF assms(2)] by simp
  obtain r where r: "get_setup_state a w2 = (r, w2)" "r = fst (get_setup_state a w)"
    using get_setup_state_keeps[of a w2] st by (metis prod.collapse)
  show ?thesis
  proof (cases r)
    case (Inl e)
    then show ?thesis using r by (simp add: prog_simps assms(1) w2(1))
  next
    case (Inr x)
    then show ?thesis using r
      by (auto simp: prog_simps assms(1) w2(1) p_bind_def[of "setup_view env ns request"] split: sum.splits prod.splits)
  qed
qed

lemma setup_process_view_eval:
  "fst (setup_process_view env request w) = Inr None \<longleftrightarrow> app_ready env request w"
proof -
  obtain w' where a: "is_user_admin request False w = (Inr (user_in_group request ''admin''), w')"
    using is_user_admin_fresh by blast
  have s: "same_front w w'"
    using p_keepsD[OF front_admin, of w w request False] by (simp add: a same_front_def)
  show ?thesis
  proof (cases "starts_with (rq_path request) (reverse env ''users:login'') \<or> resolve env (rq_path_info request) = None")
    case True
    then show ?thesis by (auto simp: setup_process_view_def app_ready_def prog_simps)
  next
    case False
    then obtain m where m: "resolve env (rq_path_info request) = Some m" by blast
    show ?thesis
    proof (cases "namespaces m = [] \<or> ''oauth2_provider'' \<in> set (namespaces m)")
      case True
      with m False show ?thesis by (auto simp: setup_process_view_def app_ready_def prog_simps)
    next
      case nonempty: False
      show ?thesis
      proof (cases "od_get (web_apps env) (hd (namespaces m))")
        case (Inl e)
        with m False nonempty show ?thesis by (simp add: setup_process_view_def app_ready_def prog_simps)
      next
        case (Inr x)
        with m False nonempty setup_state_check[OF a s, of x env "hd (namespaces m)"] show ?thesis
          by (simp add: setup_process_view_def app_ready_def prog_simps)
      qed
    qed
  qed
qed


text \<open>A site whose wizard is complete, and a page for administrators.\<close>

definition plain_env :: web_env where
  "plain_env = \<lparr>reverse = page_path, resolve = (\<lambda>path. None), stronghold = (\<lambda>view request. None), web_apps = [],
     setup_view = (\<lambda>aid request. p_ret (Rendered ''setup.html''))\<rparr>"

definition private_view :: view_attrs where
  "private_view = \<lparr>view_public = False, view_non_admin = False, view_group = Some ''vpn''\<rparr>"

definition request_of_group :: "string \<Rightarrow> http_request" where
  "request_of_group g = (visit_of ''/freedombox/apps/'')\<lparr>rq_user := Some \<lparr>username = ''eve'', groups = [g]\<rparr>\<rparr>"


text \<open>The results of operations are collected for administrators only.\<close>

lemma results_for_admins:
  assumes "\<not> user_in_group request ''admin''"
  shows "op_manager (snd (handle_request env view request w)) = op_manager w"
proof -
  have "p_keeps (same_front w) (admin_process_view view request)"
    unfolding admin_process_view_def by (intro keeps_intros front_admin)
  moreover have "p_keeps (same_front w) first_setup_process_view"
    unfolding first_setup_process_view_def by (intro keeps_intros)
  moreover have "p_keeps (same_front w) (setup_process_view env request)"
    unfolding p_keeps_def
  proof (intro allI impI)
    fix v assume v: "same_front w v"
    obtain v' where a: "is_user_admin request False v = (Inr False, v')"
      using is_user_admin_fresh[of request v] assms(1) by auto
    have v': "same_front w v'"
      using p_keepsD[OF front_admin, OF v, of request False] by (simp add: a)
    have g: "p_keeps (same_front w) (get_setup_state x)" for x
      by (simp add: p_keeps_def get_setup_state_keeps)
    have "p_keeps (same_front w) (p_bind (get_setup_state x) (\<lambda>st. if st = UP_TO_DATE then p_ret None
        else p_raise PermissionDenied) :: (web_world, response option) prog)" for x
      by (intro keeps_intros g)
    from p_keepsD[OF this, OF v'] show "same_front w (snd (setup_process_view env request v))"
      using v by (auto simp: setup_process_view_def prog_simps p_bind_def[of "p_lift r" for r] a p_then_def p_ret_bind
          od_get_def split: option.splits)
  qed
  ultimately have "p_keeps (same_front w) (handle_request env view request)"
    unfolding handle_request_def by (intro keeps_intros front_first_boot)
  from p_keepsD[OF this, of w] show ?thesis by (simp add: same_front_def front_part_def)
qed

section \<open>Redirections named by a parameter\<close>

text \<open>
  What a browser makes of a reference on a page of the site: it drops control characters and
  spaces around it and tabs and line ends inside, reads a backslash as a slash, and leaves the
  site for a reference with a scheme or with a host after two slashes.
\<close>

definition browser_reads :: "string \<Rightarrow> string" where
  "browser_reads url =
     map (\<lambda>c. if c = CHR 0x5C then CHR ''/'' else c)
       (filter (\<lambda>c. c \<notin> {CHR 0x09, CHR 0x0A, CHR 0x0D})
         (rev (dropWhile (\<lambda>c. (of_char c :: nat) \<le> 32) (rev (dropWhile (\<lambda>c. (of_char c :: nat) \<le> 32) url)))))"

definition leaves_site :: "string \<Rightarrow> bool" where
  "leaves_site url \<longleftrightarrow>
     (let u = browser_reads url; rest = dropWhile (\<lambda>c. c = CHR ''/'') u
      in has_scheme u \<or> starts_with u ''//'' \<and> rest \<noteq> [] \<and> hd rest \<notin> set ''?#'')"

text \<open>A control character inside defeats the check: the test for three slashes sees it, the browser does not.\<close>

lemma tab_defeats_check:
  "is_safe_url (Some (CHR ''/'' # CHR 0x09 # ''//evil.example''))"
  "leaves_site (CHR ''/'' # CHR 0x09 # ''//evil.example'')"
  by code_simp+

lemma dropWhile_cong_set: "(\<And>x. x \<in> set xs \<Longrightarrow> P x = Q x) \<Longrightarrow> dropWhile P xs = dropWhile Q xs"
  by (rule dropWhile_cong) auto

lemma plain_reads:
  assumes "\<forall>c \<in> set url. 32 \<le> (of_char c :: nat) \<and> (of_char c :: nat) < 127"
    and "CHR 0x5C \<notin> set (py_strip url)"
  shows "browser_reads url = py_strip url" and "url_clean (py_strip url) = py_strip url"
proof -
  have sp: "((of_char c :: nat) \<le> 32) = py_space c" if "c \<in> set url" for c
    using assms(1) that by (fastforce simp: py_space_def Let_def)
  let ?l = "dropWhile py_space url"
  have l: "dropWhile (\<lambda>c. (of_char c :: nat) \<le> 32) url = ?l"
    by (rule dropWhile_cong_set) (rule sp)
  have lset: "set ?l \<subseteq> set url" by (auto dest: set_dropWhileD)
  have r: "dropWhile (\<lambda>c. (of_char c :: nat) \<le> 32) (rev ?l) = dropWhile py_space (rev ?l)"
    by (rule dropWhile_cong_set) (use sp lset in auto)
  have strip: "rev (dropWhile (\<lambda>c. (of_char c :: nat) \<le> 32) (rev (dropWhile (\<lambda>c. (of_char c :: nat) \<le> 32) url))) = py_strip url"
    by (simp only: l r py_strip_def)
  have sset: "set (py_strip url) \<subseteq> set url"
    using lset by (metis py_strip_def set_dropWhileD set_rev subset_iff)
  have plain: "c \<notin> {CHR 0x09, CHR 0x0A, CHR 0x0D}" if "c \<in> set (py_strip url)" for c
    using assms(1) sset that by fastforce
  have f: "filter (\<lambda>c. c \<notin> {CHR 0x09, CHR 0x0A, CHR 0x0D}) (py_strip url) = py_strip url"
    by (rule filter_True) (use plain in blast)
  show "browser_reads url = py_strip url"
    unfolding browser_reads_def strip f by (rule map_idI) (use assms(2) in auto)
  have first: "\<not> (of_char (hd (py_strip url)) :: nat) \<le> 32" if ne: "py_strip url \<noteq> []"
  proof -
    obtain q where q: "?l = py_strip url @ q"
      using takeWhile_dropWhile_id[of py_space "rev ?l"] unfolding py_strip_def by (metis rev_append rev_rev_ident)
    then have "hd (py_strip url) = hd ?l" "?l \<noteq> []" using ne by auto
    then have "\<not> py_space (hd (py_strip url))" using hd_dropWhile[of py_space url] by simp
    then show ?thesis using sp sset ne by (metis hd_in_set subsetD)
  qed
  have "dropWhile (\<lambda>c. (of_char c :: nat) \<le> 32) (py_strip url) = py_strip url"
    using first by (cases "py_strip url") auto
  then show "url_clean (py_strip url) = py_strip url" by (simp only: url_clean_def f)
qed

text \<open>
  A redirection that the parameter \<open>next\<close> names and the code accepts keeps the browser on the
  site, for every address of printable ASCII characters.
\<close>

theorem safe_url_stays:
  assumes "is_safe_url (Some url)"
    and "\<forall>c \<in> set url. 32 \<le> (of_char c :: nat) \<and> (of_char c :: nat) < 127"
  shows "\<not> leaves_site url"
proof -
  let ?s = "py_strip url"
  have safe: "CHR 0x5C \<notin> set ?s" "\<not> starts_with ?s ''///''" "\<not> has_scheme (url_clean ?s)"
    "url_netloc (after_scheme (url_clean ?s)) = []"
    using assms(1) by (auto simp: is_safe_url_def Let_def)
  note plain = plain_reads[OF assms(2) safe(1)]
  have net: "url_netloc ?s = []" using safe(3,4) by (simp add: plain(2) after_scheme_def)
  have "hd rest \<in> set ''?#''" if "starts_with ?s ''//''" and "rest = dropWhile (\<lambda>c. c = CHR ''/'') ?s" and "rest \<noteq> []" for rest
  proof -
    obtain t where t: "?s = ''//'' @ t" using \<open>starts_with ?s ''//''\<close> by (auto simp: starts_with_iff)
    then have "takeWhile (\<lambda>c. c \<notin> set ''/?#'') t = []" using net by (simp add: url_netloc_def)
    moreover have "t \<noteq> []" using that t by auto
    ultimately obtain x t' where x: "t = x # t'" "x \<in> set ''/?#''" by (cases t) (auto split: if_splits)
    moreover have "x \<noteq> CHR ''/''" using safe(2) t x(1) by auto
    ultimately show ?thesis using that(2) t by auto
  qed
  then show ?thesis using safe(3) by (auto simp: leaves_site_def Let_def plain)
qed

theorem safe_url_stays_witness:
  "is_safe_url (Some ''/apps/?next=x'') \<and> \<not> is_safe_url (Some ''//evil.example'') \<and> \<not> leaves_site ''/apps/?next=x''"
proof -
  have s: "is_safe_url (Some ''/apps/?next=x'')" "\<not> is_safe_url (Some ''//evil.example'')" by code_simp+
  have "\<forall>c \<in> set ''/apps/?next=x''. 32 \<le> (of_char c :: nat) \<and> (of_char c :: nat) < 127" by simp
  with safe_url_stays[OF s(1)] s show ?thesis by blast
qed

section \<open>Headers\<close>

text \<open>Every response has the three headers, and those that a view has set are its own.\<close>

lemma common_headers:
  assumes "k \<in> {''Referrer-Policy'', ''X-Content-Type-Options'', ''Content-Security-Policy''}"
  shows "\<exists>v. map_of (add_common_headers h) k = Some v \<and> v \<noteq> []"
    and "map_of h k = Some v \<Longrightarrow> v \<noteq> [] \<Longrightarrow> map_of (add_common_headers h) k = Some v"
proof -
  have ne: "get_header_value content_security_policy \<noteq> []"
    by (simp add: get_header_value_def content_security_policy_def)
  define csp where "csp = get_header_value content_security_policy"
  have o: "map_of (default_header k x h) j = (if j \<noteq> k \<or> (\<exists>v. map_of h k = Some v \<and> v \<noteq> []) then map_of h j else Some x)" for k x h j
    by (auto simp: default_header_def odict_simps split: option.splits)
  have *: "map_of (add_common_headers h) k =
      (if \<exists>v. map_of h k = Some v \<and> v \<noteq> [] then map_of h k
       else Some (if k = ''Referrer-Policy'' then ''same-origin'' else if k = ''X-Content-Type-Options'' then ''nosniff'' else csp))"
    using assms unfolding add_common_headers_def csp_def[symmetric] by (elim insertE emptyE) (simp_all add: o, blast+)
  have "csp \<noteq> []" using ne by (simp add: csp_def)
  then show "\<exists>v. map_of (add_common_headers h) k = Some v \<and> v \<noteq> []"
    unfolding * by (cases "\<exists>v. map_of h k = Some v \<and> v \<noteq> []") (simp_all only: if_True if_False, auto)
  show "map_of h k = Some v \<Longrightarrow> v \<noteq> [] \<Longrightarrow> map_of (add_common_headers h) k = Some v"
    unfolding * by simp
qed

end
