(* ===== verification/ErrorRedirects.thy ===== *)
theory ErrorRedirects
  imports Access
begin

text \<open>
  The redirections after an error: the breadcrumbs of a page are the addresses from the page to
  the top of the menu, so a page that fails to load sends the browser to an address nearer to the
  top, and following failing pages ends at the home page.
\<close>

section \<open>From an item to the top\<close>

text \<open>The items from one to the top, when at most \<open>n\<close> of them have to be visited.\<close>

primrec ancestry :: "nat \<Rightarrow> menu_item list \<Rightarrow> menu_item \<Rightarrow> menu_item list option" where
  "ancestry 0 menus m = None"
| "ancestry (Suc n) menus m =
     (if no_parent m then Some [m]
      else case get_with_url_name menus (the (parent_url_name m)) of
             Inl _ \<Rightarrow> None
           | Inr p \<Rightarrow> map_option ((#) m) (ancestry n menus p))"

definition crumb_of :: "string \<Rightarrow> crumbs \<Rightarrow> menu_item \<Rightarrow> crumbs" where
  "crumb_of path d m = add_crumb path (menu_url m) (menu_name m) (url_name m) d"

definition parents_exist :: "menu_item list \<Rightarrow> bool" where
  "parents_exist menus \<longleftrightarrow>
     (\<forall>m \<in> set menus. \<not> no_parent m \<longrightarrow> (\<exists>p. get_with_url_name menus (the (parent_url_name m)) = Inr p))"

lemma get_with_url_name_in: "get_with_url_name menus u = Inr m \<Longrightarrow> m \<in> set menus \<and> url_name m = u"
  by (auto simp: get_with_url_name_def find_Some_iff split: option.splits)

lemma crumb_loop_ancestry:
  assumes "parents_exist menus"
  shows "m \<in> set menus \<Longrightarrow>
    crumb_loop n menus path m d = Inr (map_option (foldl (crumb_of path) d) (ancestry n menus m))"
proof (induction n arbitrary: m d)
  case (Suc n)
  show ?case
  proof (cases "no_parent m")
    case False
    then obtain p where p: "get_with_url_name menus (the (parent_url_name m)) = Inr p"
      using assms Suc.prems by (auto simp: parents_exist_def)
    then have "p \<in> set menus" by (simp add: get_with_url_name_in)
    with Suc.IH p False show ?thesis
      by (simp add: Let_def crumb_of_def option.map_comp o_def)
  qed (simp add: crumb_of_def)
qed simp

text \<open>The addresses of the breadcrumbs, each once, in the order of the items.\<close>

lemma od_keys_od_set: "od_keys (od_set d k v) = (if k \<in> set (od_keys d) then od_keys d else od_keys d @ [k])"
proof (cases "k \<in> set (od_keys d)")
  case True
  then show ?thesis by (simp add: od_keys_set_present del: set_map)
next
  case False
  then show ?thesis by (simp add: od_set_new del: set_map)
qed

lemma uniq_seen_cong: "set seen = set seen' \<Longrightarrow> uniq_from seen xs = uniq_from seen' xs"
proof (induction xs arbitrary: seen seen')
  case (Cons x xs)
  have "uniq_from (x # seen) xs = uniq_from (x # seen') xs" by (rule Cons.IH) (simp add: Cons.prems)
  then show ?case using Cons.prems Cons.IH[of seen seen'] by simp
qed simp

lemma crumb_keys:
  "od_keys (foldl (crumb_of path) d ms) = od_keys d @ uniq_from (od_keys d) (map menu_url ms)"
proof (induction ms arbitrary: d)
  case (Cons m ms)
  let ?k = "od_keys d" and ?u = "menu_url m"
  have e: "od_keys (crumb_of path d m) = (if ?u \<in> set ?k then ?k else ?k @ [?u])"
    by (simp only: crumb_of_def add_crumb_def od_keys_od_set)
  have u: "uniq_from (?k @ [?u]) (map menu_url ms) = uniq_from (?u # ?k) (map menu_url ms)"
    by (rule uniq_seen_cong) simp
  show ?case
  proof (cases "?u \<in> set ?k")
    case True
    then show ?thesis using e by (simp add: Cons del: set_map)
  next
    case False
    then show ?thesis using e u by (simp add: Cons del: set_map)
  qed
qed simp

text \<open>The breadcrumbs of a page: its own address when it has no item, then those of the items.\<close>

definition menu_ok :: "menu_item list \<Rightarrow> bool" where
  "menu_ok menus \<longleftrightarrow> parents_exist menus \<and> (\<exists>h. get_with_url_name menus ''index'' = Inr h \<and> no_parent h) \<and>
     (\<forall>m \<in> set menus. no_parent m \<longrightarrow> url_name m = ''index'')"

definition page_trail :: "menu_item list \<Rightarrow> string \<Rightarrow> resolver_match option \<Rightarrow> string list result" where
  "page_trail menus path match =
     r_bind (page_item menus path match) (\<lambda>(d, m).
       case ancestry 10 menus m of
         Some ms \<Rightarrow> Inr (od_keys d @ uniq_from (od_keys d) (map menu_url ms))
       | None \<Rightarrow> r_bind (get_with_url_name menus ''index'') (\<lambda>h. Inr [menu_url h]))"

lemma page_item_ok:
  assumes "menu_ok menus"
  obtains d m where "page_item menus path match = Inr (d, m)" and "m \<in> set menus" and "od_keys d \<in> {[], [path]}"
proof -
  obtain h where h: "get_with_url_name menus ''index'' = Inr h" using assms by (auto simp: menu_ok_def)
  have k: "od_keys (add_crumb path path x y []) = [path]" for x y by (simp add: add_crumb_def od_set_def)
  show thesis
  proof (cases match)
    case None
    then show thesis using that[of "[]" h] h get_with_url_name_in[OF h] by (simp add: page_item_def)
  next
    case (Some rm)
    show thesis
    proof (cases "get_with_url_name menus (full_url_name rm)")
      case (Inr m)
      then show thesis using that[of "[]" m] Some get_with_url_name_in[OF Inr] by (simp add: page_item_def)
    next
      case (Inl e)
      note none = this
      let ?d = "add_crumb path path (Some ''Here'') (full_url_name rm) []"
      show thesis
      proof (cases "get_with_url_name menus (join_str '':'' (app_names rm @ [''index'']))")
        case (Inr m)
        then show thesis using that[of ?d m] Some none get_with_url_name_in[OF Inr] k by (simp add: page_item_def)
      next
        case (Inl e)
        then show thesis using that[of ?d h] Some none h get_with_url_name_in[OF h] k by (simp add: page_item_def)
      qed
    qed
  qed
qed

lemma breadcrumb_keys:
  assumes "menu_ok menus"
  shows "\<exists>d. get_breadcrumbs menus path match = Inr d \<and> page_trail menus path match = Inr (od_keys d) \<and> od_keys d \<noteq> []"
proof -
  obtain d m where p: "page_item menus path match = Inr (d, m)" "m \<in> set menus"
    by (rule page_item_ok[OF assms])
  obtain h where h: "get_with_url_name menus ''index'' = Inr h" using assms by (auto simp: menu_ok_def)
  have pe: "parents_exist menus" using assms by (simp add: menu_ok_def)
  let ?home = "add_crumb path (menu_url h) (menu_name h) (url_name h) []"
  define d' where "d' = (case ancestry 10 menus m of Some ms \<Rightarrow> foldl (crumb_of path) d ms | None \<Rightarrow> ?home)"
  define k where "k = od_keys d' ! (if 2 \<le> length d' then length d' - 2 else length d' - 1)"
  have trail: "page_trail menus path match = Inr (od_keys d')"
    by (auto simp: page_trail_def p(1) d'_def crumb_keys h add_crumb_def od_set_def split: option.splits)
  have ne: "d' \<noteq> []"
  proof (cases "ancestry 10 menus m")
    case None
    then show ?thesis by (simp add: d'_def add_crumb_def od_set_def)
  next
    case (Some ms)
    then have "ms \<noteq> []" by (cases "(10::nat)") (auto split: if_splits sum.splits)
    then have "od_keys (foldl (crumb_of path) d ms) \<noteq> []"
      unfolding crumb_keys by (cases d; cases ms) auto
    then show ?thesis by (simp add: d'_def Some)
  qed
  have "k \<in> set (od_keys d')" unfolding k_def by (rule nth_mem) (use ne in auto)
  then obtain c where c: "od_get d' k = Inr c" by (auto simp: od_get_Inr dest: weak_map_of_SomeI)
  have e: "get_breadcrumbs menus path match = Inr (od_set d' k (c\<lparr>is_active_section := True\<rparr>))"
    using c h by (auto simp: get_breadcrumbs_def p(1) crumb_loop_ancestry[OF pe p(2)] d'_def Let_def k_def split: option.splits)
  have keys: "od_keys (od_set d' k x) = od_keys d'" for x
    by (rule od_keys_set_present[OF \<open>k \<in> set (od_keys d')\<close>])
  have "od_keys d' \<noteq> []" using ne by simp
  then show ?thesis using e trail keys by metis
qed

section \<open>Following failing pages\<close>

text \<open>
  A browser follows the redirections of pages that all fail to load; it stops at a page that is
  not redirected, which the home page is. \<open>None\<close>: the given number of redirections did not do.
\<close>

primrec follow_errors ::
  "nat \<Rightarrow> menu_item list \<Rightarrow> (string \<Rightarrow> resolver_match) \<Rightarrow> http_request \<Rightarrow> exn \<Rightarrow> web_world \<Rightarrow> string option"
where
  "follow_errors 0 menus match request e w = None"
| "follow_errors (Suc n) menus match request e w =
     (case process_exception menus request (match (rq_path request)) e w of
        (Inr (Some (Redirect u)), w') \<Rightarrow> follow_errors n menus match (request\<lparr>rq_path := u\<rparr>) e w'
      | (Inr None, w') \<Rightarrow> Some (rq_path request)
      | _ \<Rightarrow> None)"

text \<open>
  What the menu and the addresses have to do with each other: the address of an item leads to a
  page with an item of the same address, and of those to one that is nearest to the top; the
  home page is the one of the item \<open>index\<close>, which alone has no parent.
\<close>

definition height :: "menu_item list \<Rightarrow> menu_item \<Rightarrow> nat" where
  "height menus m = (case ancestry 10 menus m of Some ms \<Rightarrow> length ms | None \<Rightarrow> 11)"

definition site_ok :: "menu_item list \<Rightarrow> (string \<Rightarrow> resolver_match) \<Rightarrow> bool" where
  "site_ok menus match \<longleftrightarrow> menu_ok menus \<and>
     (\<forall>m \<in> set menus. \<exists>m'. get_with_url_name menus (full_url_name (match (menu_url m))) = Inr m' \<and>
        menu_url m' = menu_url m \<and> height menus m' \<le> height menus m) \<and>
     (\<forall>m \<in> set menus. url_name m = ''index'' \<longrightarrow> is_home_page (match (menu_url m)))"

lemma ancestry_Suc: "ancestry n menus m = Some ms \<Longrightarrow> ancestry (Suc n) menus m = Some ms"
proof (induction n arbitrary: m ms)
  case (Suc n)
  show ?case
  proof (cases "no_parent m")
    case False
    with Suc.prems obtain p ps where p: "get_with_url_name menus (the (parent_url_name m)) = Inr p"
      "ancestry n menus p = Some ps" "ms = m # ps" by (auto split: sum.splits)
    show ?thesis using False p(1,3) Suc.IH[OF p(2)] by (subst ancestry.simps) simp
  qed (use Suc.prems in simp)
qed simp

lemma ancestry_suffix:
  "ancestry n menus m = Some ms \<Longrightarrow> m \<in> set menus \<Longrightarrow> i < length ms \<Longrightarrow>
     ms ! i \<in> set menus \<and> ancestry n menus (ms ! i) = Some (drop i ms)"
proof (induction n arbitrary: m ms i)
  case (Suc n)
  show ?case
  proof (cases "no_parent m")
    case True
    with Suc.prems have "ms = [m]" "i = 0" by auto
    with True Suc.prems show ?thesis by simp
  next
    case False
    with Suc.prems(1) obtain p ps where p: "get_with_url_name menus (the (parent_url_name m)) = Inr p"
      "ancestry n menus p = Some ps" "ms = m # ps" by (auto split: sum.splits)
    show ?thesis
    proof (cases i)
      case 0
      then show ?thesis using Suc.prems p by simp
    next
      case (Suc j)
      have "p \<in> set menus" using get_with_url_name_in[OF p(1)] by simp
      with Suc.IH[OF p(2), of j] Suc p(3) Suc.prems(3)
      have j: "ps ! j \<in> set menus" "ancestry n menus (ps ! j) = Some (drop j ps)" by auto
      then show ?thesis using ancestry_Suc[OF j(2)] Suc p(3) by (simp del: ancestry.simps)
    qed
  qed
qed simp

lemma ancestry_top:
  "ancestry n menus m = Some ms \<Longrightarrow> ms \<noteq> [] \<and> no_parent (last ms) \<and> hd ms = m \<and> length ms \<le> n"
  by (induction n arbitrary: m ms) (fastforce split: if_splits sum.splits)+

text \<open>The address that a failing page redirects to.\<close>

lemma redirect_of_trail:
  assumes "menu_ok menus" and "http_method request = ''GET''" and "page_trail menus (rq_path request) match = Inr ks"
  shows "get_redirect_url_on_error menus request match = Inr (ks ! (if 1 < length ks then 1 else 0))" and "ks \<noteq> []"
  using breadcrumb_keys[OF assms(1), of "rq_path request" match] assms(2,3)
  by (auto simp: get_redirect_url_on_error_def)

lemma uniq_second:
  assumes "y \<in> set xs" and "y \<noteq> x"
  shows "1 < length (uniq_from [] (x # xs)) \<and> uniq_from [] (x # xs) ! 1 \<in> set xs - {x}"
proof -
  have s: "set (uniq_from [x] xs) = set xs - {x}" by (simp add: uniq_from_set)
  have "y \<in> set (uniq_from [x] xs)" unfolding s using assms by blast
  then obtain z zs where z: "uniq_from [x] xs = z # zs" by (metis list.exhaust empty_iff list.set(1))
  have "z \<in> set xs - {x}" unfolding s[symmetric] z by simp
  then show ?thesis by (simp add: z)
qed

lemma menu_address_redirect:
  assumes "site_ok menus match" and "http_method request = ''GET''"
    and "get_with_url_name menus (full_url_name (match (rq_path request))) = Inr m"
    and "menu_url m = rq_path request" and "\<not> is_home_page (match (rq_path request))"
  shows "\<exists>a \<in> set menus. get_redirect_url_on_error menus request (Some (match (rq_path request))) = Inr (menu_url a) \<and>
           height menus a < height menus m"
proof -
  have ok: "menu_ok menus" using assms(1) by (simp add: site_ok_def)
  have m: "m \<in> set menus" using get_with_url_name_in[OF assms(3)] by simp
  have item: "page_item menus (rq_path request) (Some (match (rq_path request))) = Inr ([], m)"
    by (simp add: page_item_def assms(3))
  obtain h where h: "get_with_url_name menus ''index'' = Inr h" "no_parent h" using ok by (auto simp: menu_ok_def)
  show ?thesis
  proof (cases "ancestry 10 menus m")
    case None
    have "page_trail menus (rq_path request) (Some (match (rq_path request))) = Inr [menu_url h]"
      by (simp add: page_trail_def item None h)
    moreover have "h \<in> set menus" using get_with_url_name_in[OF h(1)] by simp
    moreover have "height menus h < height menus m"
    proof -
      have "ancestry 10 menus h = Some [h]" using h(2) by (simp add: numeral_eq_Suc)
      then show ?thesis by (simp add: height_def None)
    qed
    ultimately show ?thesis using redirect_of_trail(1)[OF ok assms(2)] by fastforce
  next
    case (Some ms)
    note top = ancestry_top[OF Some]
    then obtain ns where ms: "ms = m # ns" by (cases ms) auto
    have trail: "page_trail menus (rq_path request) (Some (match (rq_path request))) =
        Inr (uniq_from [] (menu_url m # map menu_url ns))"
      by (simp add: page_trail_def item Some ms)
    have "last ms \<in> set menus"
      using ancestry_suffix[OF Some m, of "length ms - 1"] top by (simp add: last_conv_nth)
    then have "is_home_page (match (menu_url (last ms)))"
      using assms(1) top by (auto simp: site_ok_def menu_ok_def)
    then have "menu_url (last ms) \<noteq> menu_url m" using assms(4,5) by auto
    then have "menu_url (last ms) \<in> set (map menu_url ns)" using ms by (cases ns) auto
    from uniq_second[OF this \<open>menu_url (last ms) \<noteq> menu_url m\<close>]
    obtain i where i: "i < length ns" "get_redirect_url_on_error menus request (Some (match (rq_path request))) = Inr (menu_url (ns ! i))"
      using redirect_of_trail(1)[OF ok assms(2) trail] by (auto simp: in_set_conv_nth simp del: uniq_from.simps)
    have "ns ! i \<in> set menus \<and> ancestry 10 menus (ns ! i) = Some (drop i ns)"
      using ancestry_suffix[OF Some m, of "Suc i"] i(1) ms by simp
    then have "height menus (ns ! i) < height menus m" "ns ! i \<in> set menus"
      using i(1) ms by (simp_all add: height_def Some)
    then show ?thesis using i(2) by blast
  qed
qed

text \<open>Any failing page redirects to the address of an item, or is one itself.\<close>

lemma any_redirect:
  assumes "site_ok menus match" and "http_method request = ''GET''"
    and "rq_path request \<notin> menu_url ` set menus"
  shows "\<exists>a \<in> set menus. get_redirect_url_on_error menus request (Some (match (rq_path request))) = Inr (menu_url a)"
proof -
  let ?p = "rq_path request"
  have ok: "menu_ok menus" using assms(1) by (simp add: site_ok_def)
  obtain d m where p: "page_item menus ?p (Some (match ?p)) = Inr (d, m)" "m \<in> set menus" "od_keys d \<in> {[], [?p]}"
    by (rule page_item_ok[OF ok])
  obtain h where h: "get_with_url_name menus ''index'' = Inr h" using ok by (auto simp: menu_ok_def)
  have hin: "h \<in> set menus" using get_with_url_name_in[OF h] by simp
  show ?thesis
  proof (cases "ancestry 10 menus m")
    case None
    then have "page_trail menus ?p (Some (match ?p)) = Inr [menu_url h]" by (simp add: page_trail_def p(1) h)
    from redirect_of_trail(1)[OF ok assms(2) this] hin show ?thesis by auto
  next
    case (Some ms)
    let ?us = "map menu_url ms"
    have us: "set ?us \<subseteq> menu_url ` set menus"
      using ancestry_suffix[OF Some p(2)] by (auto simp: in_set_conv_nth)
    have ne: "ms \<noteq> []" using ancestry_top[OF Some] by simp
    have trail: "page_trail menus ?p (Some (match ?p)) = Inr (od_keys d @ uniq_from (od_keys d) ?us)"
      by (simp add: page_trail_def p(1) Some)
    note r = redirect_of_trail[OF ok assms(2) trail]
    let ?i = "if 1 < length (od_keys d @ uniq_from (od_keys d) ?us) then 1 else 0 :: nat"
    have "(od_keys d @ uniq_from (od_keys d) ?us) ! ?i \<in> menu_url ` set menus"
    proof (cases "od_keys d = []")
      case True
      have "uniq_from [] ?us ! ?i \<in> set (uniq_from [] ?us)"
        by (rule nth_mem) (use r(2) True in auto)
      then show ?thesis using us True by (simp add: uniq_from_set subset_iff)
    next
      case False
      then have k: "od_keys d = [?p]" using p(3) by auto
      have "?p \<notin> set ?us" using us assms(3) by auto
      then obtain z zs where z: "uniq_from [?p] ?us = z # zs"
        using ne uniq_from_set[of "[?p]" ?us] by (cases "uniq_from [?p] ?us") auto
      then have "z \<in> set ?us" using uniq_from_set[of "[?p]" ?us] by auto
      then show ?thesis using us by (simp add: k z subset_iff)
    qed
    then obtain a where "a \<in> set menus" "(od_keys d @ uniq_from (od_keys d) ?us) ! ?i = menu_url a" by blast
    with r(1) show ?thesis by auto
  qed
qed

lemma exception_redirects:
  assumes "\<And>m. e \<noteq> OperationalError m" and "\<not> is_home_page match"
    and "get_redirect_url_on_error menus request (Some match) = Inr u"
  obtains w' where "process_exception menus request match e w = (Inr (Some (Redirect u)), w')"
  using assms by (cases e) (simp add: process_exception_def p_defs prog_simps | metis)+

lemma exception_at_home:
  "(\<And>m. e \<noteq> OperationalError m) \<Longrightarrow> is_home_page match \<Longrightarrow> process_exception menus request match e w = (Inr None, w)"
  by (cases e) (simp add: process_exception_def prog_simps | metis)+

lemma follow_from_item:
  assumes "site_ok menus match" and "\<And>m. e \<noteq> OperationalError m"
  shows "http_method request = ''GET'' \<Longrightarrow> m \<in> set menus \<Longrightarrow> menu_url m = rq_path request \<Longrightarrow> height menus m \<le> n \<Longrightarrow>
    \<exists>p. follow_errors (Suc n) menus match request e w = Some p \<and> is_home_page (match p)"
proof (induction n arbitrary: request m w)
  case 0
  then have "ancestry 10 menus m = Some []" by (simp add: height_def split: option.splits)
  then show ?case using ancestry_top by blast
next
  case (Suc n)
  let ?p = "rq_path request"
  show ?case
  proof (cases "is_home_page (match ?p)")
    case True
    then show ?thesis by (simp add: exception_at_home[OF assms(2) True])
  next
    case False
    obtain m' where m': "get_with_url_name menus (full_url_name (match ?p)) = Inr m'" "menu_url m' = ?p"
      "height menus m' \<le> height menus m"
      using assms(1) Suc.prems(2,3) by (fastforce simp: site_ok_def)
    obtain a where a: "a \<in> set menus" "get_redirect_url_on_error menus request (Some (match ?p)) = Inr (menu_url a)"
      "height menus a < height menus m'"
      using menu_address_redirect[OF assms(1) Suc.prems(1) m'(1,2) False] by blast
    obtain w' where "process_exception menus request (match ?p) e w = (Inr (Some (Redirect (menu_url a))), w')"
      by (rule exception_redirects[OF assms(2) False a(2)])
    moreover have "\<exists>p. follow_errors (Suc n) menus match (request\<lparr>rq_path := menu_url a\<rparr>) e w' = Some p \<and> is_home_page (match p)"
      by (rule Suc.IH) (use Suc.prems a m' in auto)
    ultimately show ?thesis by (subst follow_errors.simps) simp
  qed
qed

text \<open>C27: when every page a browser is sent to fails as well, the redirections of failing pages end
  at the home page, after at most twelve of them, whatever page the browser began with.
\<close>

theorem failing_pages_lead_home:
  assumes "site_ok menus match" and "http_method request = ''GET''" and "\<And>m. e \<noteq> OperationalError m"
  shows "\<exists>p. follow_errors 13 menus match request e w = Some p \<and> is_home_page (match p)"
proof -
  have bound: "height menus a \<le> 11" for a
    using ancestry_top[of 10 menus a] by (auto simp: height_def split: option.splits)
  have from_item: "\<exists>p. follow_errors 12 menus match rq e v = Some p \<and> is_home_page (match p)"
    if "http_method rq = ''GET''" "rq_path rq \<in> menu_url ` set menus" for rq v
    using follow_from_item[OF assms(1,3) that(1), of _ 11 v] that(2) bound by auto
  let ?p = "rq_path request"
  consider "is_home_page (match ?p)" | "\<not> is_home_page (match ?p)" by blast
  then show ?thesis
  proof cases
    case 1
    then show ?thesis by (simp add: exception_at_home[OF assms(3) 1] numeral_eq_Suc)
  next
    case 2
    have "\<exists>a \<in> set menus. get_redirect_url_on_error menus request (Some (match ?p)) = Inr (menu_url a)"
    proof (cases "?p \<in> menu_url ` set menus")
      case True
      then obtain m where m: "m \<in> set menus" "menu_url m = ?p" by auto
      then obtain m' where m': "get_with_url_name menus (full_url_name (match ?p)) = Inr m'" "menu_url m' = ?p"
        using assms(1) by (fastforce simp: site_ok_def)
      then show ?thesis using menu_address_redirect[OF assms(1,2) m' 2] by blast
    qed (rule any_redirect[OF assms(1,2)])
    then obtain a where a: "a \<in> set menus" "get_redirect_url_on_error menus request (Some (match ?p)) = Inr (menu_url a)" by blast
    obtain w' where x: "process_exception menus request (match ?p) e w = (Inr (Some (Redirect (menu_url a))), w')"
      by (rule exception_redirects[OF assms(3) 2 a(2)])
    have "follow_errors (Suc 12) menus match request e w = follow_errors 12 menus match (request\<lparr>rq_path := menu_url a\<rparr>) e w'"
      by (subst follow_errors.simps) (simp add: x)
    then show ?thesis using from_item[of "request\<lparr>rq_path := menu_url a\<rparr>" w'] assms(2) a(1) by simp
  qed
qed

section \<open>A small site\<close>

definition site_item :: "string \<Rightarrow> string \<Rightarrow> string option \<Rightarrow> menu_item" where
  "site_item uname url parent =
     \<lparr>menu_id = uname, menu_name = Some uname, menu_icon = None, menu_tags = None, menu_url = url, menu_order = 50,
      menu_advanced = False, url_name = uname, parent_url_name = parent\<rparr>"

definition small_menu :: "menu_item list" where
  "small_menu =
     [site_item ''files:index'' ''/apps/files/'' (Some ''apps''), site_item ''apps'' ''/apps/'' (Some ''index''),
      site_item ''index'' ''/'' None]"

definition small_match :: "string \<Rightarrow> resolver_match" where
  "small_match path =
     (if path = ''/'' then \<lparr>app_names = [], match_url_name = ''index'', namespaces = []\<rparr>
      else if path = ''/apps/'' then \<lparr>app_names = [], match_url_name = ''apps'', namespaces = []\<rparr>
      else if path = ''/apps/files/'' then \<lparr>app_names = [''files''], match_url_name = ''index'', namespaces = [''files'']\<rparr>
      else \<lparr>app_names = [''files''], match_url_name = ''edit'', namespaces = [''files'']\<rparr>)"

lemma small_site_items:
  "get_with_url_name small_menu ''index'' = Inr (site_item ''index'' ''/'' None)"
  "get_with_url_name small_menu ''apps'' = Inr (site_item ''apps'' ''/apps/'' (Some ''index''))"
  "get_with_url_name small_menu ''files:index'' = Inr (site_item ''files:index'' ''/apps/files/'' (Some ''apps''))"
  by (simp_all add: get_with_url_name_def small_menu_def site_item_def)

lemma small_site_ok: "site_ok small_menu small_match"
proof -
  have "menu_ok small_menu"
    unfolding menu_ok_def parents_exist_def small_menu_def[THEN arg_cong[of _ _ set]]
    using small_site_items by (auto simp: no_parent_def site_item_def)
  moreover have "full_url_name (small_match ''/'') = ''index''" "full_url_name (small_match ''/apps/'') = ''apps''"
    "full_url_name (small_match ''/apps/files/'') = ''files:index''" "is_home_page (small_match ''/'')"
    by (simp_all add: full_url_name_def small_match_def is_home_page_def)
  ultimately show ?thesis
    unfolding site_ok_def small_menu_def[THEN arg_cong[of _ _ set]]
    using small_site_items by (auto simp: site_item_def)
qed

definition edit_request :: http_request where
  "edit_request = \<lparr>rq_path = ''/apps/files/edit/'', rq_path_info = ''/apps/files/edit/'', http_method = ''GET'',
     rq_user = None, get_params = [], post_params = [], rq_headers = []\<rparr>"

theorem failing_pages_lead_home_witness:
  "\<exists>p. follow_errors 13 small_menu small_match edit_request (KeyError ''file'') empty_front = Some p \<and> is_home_page (small_match p)"
  by (rule failing_pages_lead_home[OF small_site_ok]) (simp_all add: edit_request_def)

end
