(* ===== verification/AppPages.thy ===== *)
theory AppPages
  imports Access Setup Privileged
begin

text \<open>
  The pages of an app (views.py): the page with its form and its button, the page that sets the
  app up, the one that removes it, and the dismissal of notifications. An app view is a record of
  what its class sets. The calls that create operations for setting up and removing are those of
  theory \<open>Setup\<close>, over the world of a setup; here they are parameters, as is the backup before a
  removal.
\<close>

section \<open>The page of an app\<close>

text \<open>
  \<open>av_form\<close>: the form class of the view, as the test whether a submission is valid and what the
  view does with a valid one before it calls \<open>super().form_valid\<close>.
\<close>

record app_view =
  av_app_id :: "string option"
  av_form :: "((http_request \<Rightarrow> bool) \<times> (http_request \<Rightarrow> (web_world, unit) prog)) option"
  av_template :: string

definition view_app :: "web_world apps \<Rightarrow> app_view \<Rightarrow> web_world app result" where
  "view_app apps v =
     (case av_app_id v of
        None \<Rightarrow> Inl (PlinthError ''ImproperlyConfigured'' ''Missing attribute: app_id'')
      | Some aid \<Rightarrow>
          if aid = [] then Inl (PlinthError ''ImproperlyConfigured'' ''Missing attribute: app_id'')
          else od_get apps aid)"

text \<open>\<open>get_form\<close>: whether there is a form.\<close>

definition view_get_form :: "app_view \<Rightarrow> web_world app \<Rightarrow> (web_world, bool) prog" where
  "view_get_form v a =
     (if av_form v = None then p_ret False
      else if configure_when_disabled a then p_ret True
      else app_is_enabled a)"

text \<open>Django's \<open>BooleanField\<close> with a hidden input.\<close>

definition should_enable :: "http_request \<Rightarrow> bool" where
  "should_enable request =
     (case map_of (post_params request) ''should_enable'' of
        None \<Rightarrow> False
      | Some s \<Rightarrow> map lower_char s \<notin> {''false'', ''0''} \<and> s \<noteq> [])"

definition enable_disable_form_valid :: "web_world app \<Rightarrow> http_request \<Rightarrow> (web_world, response) prog" where
  "enable_disable_form_valid a request =
     p_bind (app_is_enabled a) (\<lambda>enabled.
       p_then (if should_enable request \<noteq> enabled
               then (if should_enable request then call_enable a else call_disable a) else p_ret ())
              (p_ret (Redirect (rq_path request))))"

definition app_form_valid :: "http_request \<Rightarrow> (web_world, response) prog" where
  "app_form_valid request =
     p_bind (p_get web_messages) (\<lambda>ms.
       p_then (if ms = [] then p_mod (\<lambda>w. w\<lparr>web_messages := [(''info'', ''Setting unchanged'')]\<rparr>) else p_ret ())
              (p_ret (Redirect (rq_path request))))"

text \<open>Django's \<open>FormView.post\<close> calls \<open>is_valid\<close> of the form even when \<open>get_form\<close> gave None.\<close>

definition app_view_post :: "app_view \<Rightarrow> web_world app \<Rightarrow> http_request \<Rightarrow> (web_world, response) prog" where
  "app_view_post v a request =
     (if map_of (post_params request) ''app_enable_disable_button'' \<noteq> None
      then enable_disable_form_valid a request
      else p_bind (view_get_form v a) (\<lambda>there.
        if \<not> there then p_raise (AttributeError ''is_valid'')
        else case av_form v of
          None \<Rightarrow> p_raise (AttributeError ''is_valid'')
        | Some (valid, save) \<Rightarrow>
            if valid request then p_then (save request) (app_form_valid request)
            else p_ret (Rendered (av_template v))))"

text \<open>\<open>dispatch\<close>: while operations of the app run, their page is shown, whatever is submitted.\<close>

definition app_view_dispatch :: "web_world apps \<Rightarrow> app_view \<Rightarrow> http_request \<Rightarrow> (web_world, response) prog" where
  "app_view_dispatch apps v request =
     p_bind (p_lift (view_app apps v)) (\<lambda>a.
       p_bind (p_get (\<lambda>w. manager_filter (app_id a) (op_manager w))) (\<lambda>opers.
         if opers \<noteq> [] then
           (if http_method request = ''GET'' then p_ret (Rendered ''app-operations.html'') else p_ret Not_allowed)
         else if http_method request = ''POST'' then app_view_post v a request
         else p_ret (Rendered (av_template v))))"

text \<open>The button is left out of the page of an app that cannot be disabled.\<close>

definition get_enable_disable_form :: "web_world app \<Rightarrow> (web_world, bool option) prog" where
  "get_enable_disable_form a =
     (if \<not> can_be_disabled a then p_ret None
      else p_bind (app_is_enabled a) (\<lambda>b. p_ret (Some (\<not> b))))"

section \<open>Setting up and removing\<close>

definition setup_view_dispatch ::
  "(string \<Rightarrow> (web_world, unit) prog) \<Rightarrow> web_world apps \<Rightarrow> string \<Rightarrow> http_request \<Rightarrow> (web_world, response) prog"
where
  "setup_view_dispatch run_setup apps aid request =
     (if http_method request = ''POST'' \<and> map_of (post_params request) ''install'' \<noteq> None
      then p_then (run_setup aid) (p_ret (Redirect (rq_path request)))
      else if http_method request = ''GET'' then p_bind (p_lift (od_get apps aid)) (\<lambda>a. p_ret (Rendered ''setup.html''))
      else p_ret Not_allowed)"

text \<open>
  \<open>refresh_page_sec\<close> of the set-up page: every three seconds during operations, at once when the
  app is up to date, and otherwise never.
\<close>

definition setup_refresh :: "nat list \<Rightarrow> setup_state \<Rightarrow> int option" where
  "setup_refresh opers st = (if opers \<noteq> [] then Some 3 else if st = UP_TO_DATE then Some 0 else None)"

primrec package_conflicts ::
  "packages_fields list \<Rightarrow> string list \<times> conflicts_action option \<Rightarrow> (sys_world, string list \<times> conflicts_action option) prog"
where
  "package_conflicts [] acc = p_ret acc"
| "package_conflicts (c # cs) acc =
     p_bind (find_conflicts c) (\<lambda>found.
       package_conflicts cs
         (case found of
            None \<Rightarrow> acc
          | Some ps \<Rightarrow>
              if ps = [] then acc
              else (fst acc @ ps,
                    if snd acc = None \<or> snd acc = Some CONFLICTS_IGNORE then conflicts_action c else snd acc)))"

definition get_app_package_conflicts :: "sys_world app \<Rightarrow> (sys_world, string list \<times> conflicts_action option) prog" where
  "get_app_package_conflicts a = package_conflicts (packages_components a) ([], None)"

definition rerun_setup_view ::
  "(string \<Rightarrow> string) \<Rightarrow> (string \<Rightarrow> (web_world, unit) prog) \<Rightarrow> string \<Rightarrow> http_request \<Rightarrow> (web_world, response) prog"
where
  "rerun_setup_view rv rerun aid request =
     (if http_method request \<noteq> ''POST'' then p_ret Not_allowed
      else p_then (rerun aid) (p_ret (Redirect (rv (aid @ '':index'')))))"

text \<open>A repository as the view of a removal uses it.\<close>

record 'w uninstall_repository =
  ur_mountable :: bool
  ur_mount :: "('w, unit) prog"
  ur_archive_name :: "('w, string) prog"
  ur_create_archive :: "string \<Rightarrow> string list \<Rightarrow> ('w, unit) prog"

definition uninstall_form_valid ::
  "(string \<Rightarrow> ('w, 'w uninstall_repository) prog) \<Rightarrow> (string \<Rightarrow> ('w, unit) prog) \<Rightarrow> (string \<Rightarrow> string) \<Rightarrow>
   string \<Rightarrow> bool \<Rightarrow> bool \<Rightarrow> string \<Rightarrow> ('w, response) prog"
where
  "uninstall_form_valid get_instance run_uninstall rv aid has_backup_restore should_backup repository_id =
     p_then
       (if has_backup_restore \<and> should_backup
        then p_bind (get_instance repository_id) (\<lambda>repository.
          p_then (if ur_mountable repository then ur_mount repository else p_ret ())
            (p_bind (ur_archive_name repository) (\<lambda>name.
              ur_create_archive repository (name @ '' '' @ ''before uninstall of '' @ aid) [aid])))
        else p_ret ())
       (p_then (run_uninstall aid) (p_ret (Redirect (rv (aid @ '':index'')))))"

definition uninstall_dispatch :: "'w app \<Rightarrow> ('w, response) prog \<Rightarrow> ('w, response) prog" where
  "uninstall_dispatch a rest =
     p_bind (p_lift (app_info a)) (\<lambda>i. if is_essential i then p_raise (Http404 []) else rest)"

definition is_available_view :: "web_world apps \<Rightarrow> string \<Rightarrow> (web_world, response) prog" where
  "is_available_view apps aid =
     p_bind (p_lift (od_get apps aid)) (\<lambda>a.
       p_bind (app_is_available a) (\<lambda>b. p_ret (Json_response [(''is_available'', JBool b)] 200)))"

definition status_view :: "(web_world, response) prog" where
  "status_view =
     p_bind (p_get first_setup_running) (\<lambda>b.
       p_ret (Json_response [(''is_available'', JBool True), (''is_first_setup_running'', JBool b)] 200))"

section \<open>Notifications and errors\<close>

text \<open>\<open>notification_dismiss\<close>: only a notification that the user is shown can be dismissed.\<close>

definition notification_dismiss :: "(string \<Rightarrow> string) \<Rightarrow> http_request \<Rightarrow> string \<Rightarrow> (web_world, response) prog" where
  "notification_dismiss rv request i =
     p_then
       (p_mod (\<lambda>w.
          case notification_list (Some i) None (rq_user request) None (note_table w) of
            [] \<Rightarrow> w
          | n # _ \<Rightarrow> w\<lparr>note_table := dismiss (n_id n) True (web_clock w) (note_table w)\<rparr>))
       (p_ret (if (\<exists>h. map_of (rq_headers request) ''HX-Request'' = Some h \<and> h \<noteq> [])
               then Empty_response 200 [(''HX-Trigger'', ''notification-dismissed'')]
               else Redirect (get_redirect_url_from_param rv request)))"

definition json_exception :: "('w, response) prog \<Rightarrow> ('w, response) prog" where
  "json_exception view_func =
     p_catch view_func (\<lambda>e.
       p_ret (Json_response
         [(''result'', JBool False), (''error_name'', JStr (fst (exn_parts e))), (''error_string'', JStr (exn_str e))] 500))"

section \<open>What the pages promise\<close>

text \<open>
  The button of the page: pressed with a state, the app is in it afterwards, in whatever state it
  was; pressed while operations of the app run, nothing happens.
\<close>

lemma flag_app_is_enabled:
  assumes "aid \<noteq> []" and "\<forall>c \<in> set (od_values (components a)). flag_component aid c"
  shows "\<exists>b. app_is_enabled a w = (Inr b, w)"
proof -
  have "\<exists>b. p_all (\<lambda>c. vt_is_enabled (vt c) (obj c)) cs w = (Inr b, w)"
    if "\<forall>c \<in> set cs. flag_component aid c \<and> is_leader (obj c)" for cs
    using that
  proof (induction cs)
    case (Cons c cs)
    then have "vt c = enable_state_vtable" "comp_app_id (obj c) = Some aid" by (auto simp: flag_component_def)
    then have "\<exists>b. vt_is_enabled (vt c) (obj c) w = (Inr b, w)"
      by (simp add: vtable_defs enable_state_eval(3)[OF _ assms(1)])
    then obtain b where b: "vt_is_enabled (vt c) (obj c) w = (Inr b, w)" by blast
    then show ?case using Cons by (cases b) (auto simp: prog_simps)
  qed (auto simp: prog_simps)
  from this[of "filter (\<lambda>c. is_leader (obj c)) (od_values (components a))"] show ?thesis
    unfolding app_is_enabled_def using assms(2) by auto
qed

text \<open>
  The button on the page of an app works: pressed with a state while no operation of the app
  runs, it leaves the app in that state whatever it was before; while one runs, nothing changes.
\<close>

theorem button_sets_state:
  assumes "aid \<noteq> []" and "\<forall>c \<in> set (od_values (components a)). flag_component aid c"
    and "\<exists>c \<in> set (od_values (components a)). is_leader (obj c)"
    and "ov_enable a = None" and "ov_disable a = None"
    and "view_app apps v = Inr a" and "http_method request = ''POST''"
    and "map_of (post_params request) ''app_enable_disable_button'' \<noteq> None"
  shows "manager_filter (app_id a) (op_manager w) = [] \<longrightarrow>
           (\<exists>w'. app_view_dispatch apps v request w = (Inr (Redirect (rq_path request)), w') \<and>
                 app_is_enabled a w' = (Inr (should_enable request), w'))"
    and "manager_filter (app_id a) (op_manager w) \<noteq> [] \<longrightarrow> snd (app_view_dispatch apps v request w) = w"
proof -
  obtain b where b: "app_is_enabled a w = (Inr b, w)" using flag_app_is_enabled[OF assms(1,2)] by blast
  obtain w1 w2 where e: "call_enable a w = (Inr (), w1)" "app_is_enabled a w1 = (Inr True, w1)"
    "call_disable a w = (Inr (), w2)" "app_is_enabled a w2 = (Inr False, w2)"
  proof -
    have "(\<not> (\<exists>c \<in> set (od_values (components a)). is_leader (obj c))) = False" using assms(3) by simp
    then show thesis
      using that app_enable_disable_flags[OF assms(1,2), of w] assms(4,5) by (auto simp only: call_enable_def call_disable_def option.case)
  qed
  show "manager_filter (app_id a) (op_manager w) = [] \<longrightarrow>
           (\<exists>w'. app_view_dispatch apps v request w = (Inr (Redirect (rq_path request)), w') \<and>
                 app_is_enabled a w' = (Inr (should_enable request), w'))"
    using assms(6-8) b e
    by (cases "should_enable request"; cases b)
       (auto simp: app_view_dispatch_def app_view_post_def enable_disable_form_valid_def prog_simps)
  show "manager_filter (app_id a) (op_manager w) \<noteq> [] \<longrightarrow> snd (app_view_dispatch apps v request w) = w"
    using assms(6,7) by (simp add: app_view_dispatch_def prog_simps)
qed

text \<open>The witness: an app with an EnableState, disabled, whose button is pressed.\<close>

definition paged_app :: "web_world app" where
  "paged_app =
     \<lparr>app_id = ''tor'', can_be_disabled = True, configure_when_disabled = True,
      components = map (\<lambda>c. (component_id (obj c), c)) (flag_app_components ''tor''),
      ov_post_init = p_ret (), ov_setup = None, ov_uninstall = None, ov_enable = None,
      ov_disable = None, ov_diagnose = None, ov_repair = None\<rparr>"

definition press_request :: http_request where
  "press_request = \<lparr>rq_path = ''/apps/tor/'', rq_path_info = ''/apps/tor/'', http_method = ''POST'', rq_user = None,
     get_params = [], post_params = [(''app_enable_disable_button'', ''1''), (''should_enable'', ''True'')], rq_headers = []\<rparr>"

theorem button_sets_state_witness:
  "\<exists>w'. app_view_dispatch [(''tor'', paged_app)] \<lparr>av_app_id = Some ''tor'', av_form = None, av_template = ''app.html''\<rparr>
          press_request empty_front = (Inr (Redirect ''/apps/tor/''), w') \<and> app_is_enabled paged_app w' = (Inr True, w')"
proof -
  let ?v = "\<lparr>av_app_id = Some ''tor'', av_form = None, av_template = ''app.html''\<rparr>"
  have h: "\<forall>c \<in> set (od_values (components paged_app)). flag_component ''tor'' c"
    "\<exists>c \<in> set (od_values (components paged_app)). is_leader (obj c)"
    by (simp_all add: paged_app_def flag_app_components_def flag_component_def)
  have "manager_filter (app_id paged_app) (op_manager empty_front) = []"
    by (simp add: manager_filter_def empty_front_def manager_init_def)
  moreover have "should_enable press_request" by (simp add: should_enable_def press_request_def lower_char_def)
  ultimately show ?thesis
    using button_sets_state(1)[OF _ h, of "[(''tor'', paged_app)]" ?v press_request empty_front]
    by (simp add: paged_app_def view_app_def od_get_def press_request_def)
qed

text \<open>A removal with a backup: when the backup fails, the app is not removed.\<close>

lemma no_removal_without_backup:
  assumes "should_backup" and "has_backup_restore"
    and "get_instance i w = (Inr r, w1)" and "ur_mountable r \<longrightarrow> ur_mount r w1 = (Inr (), w2)" and "\<not> ur_mountable r \<longrightarrow> w2 = w1"
    and "ur_archive_name r w2 = (Inr name, w3)"
    and "ur_create_archive r (name @ '' '' @ ''before uninstall of '' @ aid) [aid] w3 = (Inl e, w4)"
  shows "uninstall_form_valid get_instance run_uninstall rv aid has_backup_restore should_backup i w = (Inl e, w4)"
  using assms by (cases "ur_mountable r") (simp_all add: uninstall_form_valid_def p_then_def p_bind_def p_ret_def)

definition shown_to :: "request_user \<Rightarrow> notification \<Rightarrow> bool" where
  "shown_to u n \<longleftrightarrow>
     (n_user n = None \<or> n_user n = Some (username u)) \<and> (n_group n = None \<or> (\<exists>g \<in> set (groups u). n_group n = Some g))"

lemma listed_by_id:
  assumes "ids_match db" and "has_text (Some i)"
  shows "notification_list (Some i) None (Some u) None db =
           (case map_of db i of None \<Rightarrow> [] | Some n \<Rightarrow> if shown_to u n then [n] else [])"
proof -
  have m: "matches (Some i) None (Some u) None n \<longleftrightarrow> n_id n = i \<and> shown_to u n" for n
    using assms(2) by (auto simp: matches_def shown_to_def has_text_def)
  have "filter (matches (Some i) None (Some u) None) (od_values db) =
      (case map_of db i of None \<Rightarrow> [] | Some n \<Rightarrow> if shown_to u n then [n] else [])"
    using assms(1)
  proof (induction db)
    case (Cons p db)
    obtain k n where p: "p = (k, n)" by (cases p)
    have ok: "ids_match db" "n_id n = k" "k \<notin> fst ` set db" using Cons.prems p by (auto simp: ids_match_def)
    show ?case
    proof (cases "k = i")
      case True
      then have "map_of db i = None" using ok(3) by (simp add: map_of_eq_None_iff)
      then show ?thesis using Cons.IH[OF ok(1)] ok(2) p True by (simp add: m)
    next
      case False
      then show ?thesis using Cons.IH[OF ok(1)] ok(2) p by (simp add: m)
    qed
  qed simp
  then show ?thesis by (simp add: notification_list_def split: option.splits)
qed

text \<open>
  Dismissing a notification changes no other notification, and none that the user is not
  shown: not one for another user or for a group the user is not in.
\<close>

theorem dismissal_stays_with_user:
  assumes "ids_match (note_table w)" and "rq_user request = Some u" and "i \<noteq> []"
  shows "map_of (note_table (snd (notification_dismiss rv request i w))) k =
           (case map_of (note_table w) k of
              None \<Rightarrow> None
            | Some n \<Rightarrow>
                if k = i \<and> (n_user n = None \<or> n_user n = Some (username u)) \<and>
                   (n_group n = None \<or> (\<exists>g \<in> set (groups u). n_group n = Some g))
                then Some (n\<lparr>n_dismissed := True, n_updated := web_clock w\<rparr>) else Some n)"
proof -
  let ?db = "note_table w"
  have "has_text (Some i)" using assms(3) by (simp add: has_text_def)
  note l = listed_by_id[OF assms(1) this, of u]
  have id: "n_id n = i" if "map_of ?db i = Some n" for n
    using assms(1) map_of_SomeD[OF that] by (auto simp: ids_match_def)
  have "note_table (snd (notification_dismiss rv request i w)) =
      (case map_of ?db i of None \<Rightarrow> ?db | Some n \<Rightarrow> if shown_to u n then dismiss i True (web_clock w) ?db else ?db)"
    using id by (auto simp: notification_dismiss_def p_defs prog_simps assms(2) l split: option.splits)
  then show ?thesis
    by (auto simp: dismiss_def odict_simps shown_to_def split: option.splits)
qed

definition two_notes :: notifications where
  "two_notes =
     [(''mine'', (new_notification ''mine'' 0)\<lparr>n_user := Some ''eve''\<rparr>),
      (''admins'', (new_notification ''admins'' 0)\<lparr>n_group := Some ''admin''\<rparr>)]"

theorem dismissal_stays_with_user_witness:
  "map_of (note_table (snd (notification_dismiss (\<lambda>_. ''/'')
       (press_request\<lparr>rq_user := Some \<lparr>username = ''eve'', groups = []\<rparr>\<rparr>) ''admins'' (empty_front\<lparr>note_table := two_notes\<rparr>)))) ''admins'' =
   map_of two_notes ''admins''"
proof -
  have "ids_match two_notes" by (simp add: ids_match_def two_notes_def new_notification_def)
  then show ?thesis
    using dismissal_stays_with_user[of "empty_front\<lparr>note_table := two_notes\<rparr>"
        "press_request\<lparr>rq_user := Some \<lparr>username = ''eve'', groups = []\<rparr>\<rparr>" "\<lparr>username = ''eve'', groups = []\<rparr>"
        "''admins''" "\<lambda>_. ''/''" "''admins''"]
    by (simp add: two_notes_def)
qed

end
