(* ===== verification/AppDecls.thy ===== *)
theory AppDecls
  imports AppOrder BackupComponents Menu
begin

text \<open>
  What an app class declares and what start-up makes of it: the components that \<open>__init__\<close> creates
  with their arguments, the construction of the app from them, and \<open>apps_init\<close>, which constructs the
  apps of all modules and orders them (plinth/app.py). An argument that the code computes at
  start-up is kept as its expression, and \<open>eval\<close> gives its value.
\<close>

section \<open>Declarations\<close>

datatype arg = Lit json | Code string

datatype component_decl = Component_Decl (decl_class: string) (decl_args: "(string \<times> arg) list")

datatype app_decl = App_Decl (decl_app: string) (decl_can_be_disabled: bool) (decl_configure: bool)
  (decl_components: "component_decl list")

text \<open>\<open>**manifest.backup\<close>.\<close>

fun splat :: "json \<Rightarrow> (string \<times> arg) list" where
  "splat (JDict d) = map (\<lambda>(k, v). (k, Lit v)) d"
| "splat v = []"

primrec arg_value :: "(string \<Rightarrow> json) \<Rightarrow> arg \<Rightarrow> json" where
  "arg_value eval (Lit v) = v"
| "arg_value eval (Code e) = eval e"

text \<open>The argument of a call; one that is not given has the default.\<close>

definition arg_or :: "(string \<Rightarrow> json) \<Rightarrow> component_decl \<Rightarrow> string \<Rightarrow> json \<Rightarrow> json" where
  "arg_or eval c k dflt = (case map_of (decl_args c) k of None \<Rightarrow> dflt | Some a \<Rightarrow> arg_value eval a)"

fun opt_str :: "json \<Rightarrow> string option" where
  "opt_str (JStr s) = Some s"
| "opt_str v = None"

fun opt_strs :: "json \<Rightarrow> string list option" where
  "opt_strs (JList xs) = Some (map str_of xs)"
| "opt_strs v = None"

fun opt_json :: "json \<Rightarrow> json option" where
  "opt_json JNull = None"
| "opt_json v = Some v"

fun int_or :: "json \<Rightarrow> int \<Rightarrow> int" where
  "int_or (JInt n) d = n"
| "int_or v d = d"

section \<open>Construction\<close>

text \<open>
  What the initialisers of the classes check of their arguments: \<open>Menu\<close>, \<open>LetsEncrypt\<close>, and
  \<open>BackupRestore\<close> with the classes derived from it, none of which overrides \<open>__init__\<close>.
\<close>

definition backup_classes :: "string list" where
  "backup_classes = [''BackupRestore'', ''GitwebBackupRestore'', ''IkiwikiBackupRestore'',
     ''MinifluxBackupRestore'', ''NextcloudBackupRestore'', ''SnapshotBackupRestore'', ''SOGoBackupRestore'',
     ''WordPressBackupRestore'', ''ZophBackupRestore'']"

definition validate_backup :: "(string \<Rightarrow> json) \<Rightarrow> unit result" where
  "validate_backup a =
     r_bind (validate_directories_and_files (a ''config'')) (\<lambda>_.
     r_bind (validate_directories_and_files (a ''data'')) (\<lambda>_.
     r_bind (validate_directories_and_files (a ''secrets'')) (\<lambda>_.
     r_bind (validate_services (a ''services'')) (\<lambda>_.
     r_bind (validate_settings (a ''settings'')) (\<lambda>_.
       validate_paths (a ''delete_before_restore''))))))"

definition init_check :: "string \<Rightarrow> (string \<Rightarrow> json) \<Rightarrow> unit result" where
  "init_check cls a =
     (if cls = ''Menu''
      then if truthy (a ''url_name'') then Inr () else Inl (ValueError ''Valid url_name is expected'')
      else if cls = ''LetsEncrypt''
      then if truthy (a ''should_copy_certificates'') \<and>
              \<not> (truthy (a ''private_key_path'') \<and> truthy (a ''certificate_path'') \<and> truthy (a ''user_owner'') \<and>
                 truthy (a ''group_owner'') \<and> truthy (a ''managing_app''))
           then Inl (ValueError ''Not enough values for copying certificates'') else Inr ()
      else if cls \<in> set backup_classes then validate_backup a
      else Inr ())"

text \<open>The object that a declaration makes: \<open>Info\<close> with its fields, any other class with its id.\<close>

definition declared_info :: "(string \<Rightarrow> json) \<Rightarrow> component_decl \<Rightarrow> comp_obj result" where
  "declared_info eval c =
     info_init (str_of (arg_or eval c ''app_id'' JNull)) (int_or (arg_or eval c ''version'' JNull) 0)
       (truthy (arg_or eval c ''is_essential'' (JBool False))) (opt_strs (arg_or eval c ''depends'' JNull))
       (opt_str (arg_or eval c ''name'' JNull)) (opt_str (arg_or eval c ''icon'' JNull))
       (opt_str (arg_or eval c ''icon_filename'' JNull)) (opt_strs (arg_or eval c ''description'' JNull))
       (opt_str (arg_or eval c ''manual_page'' JNull)) (opt_json (arg_or eval c ''clients'' JNull))
       (opt_str (arg_or eval c ''donation_url'' JNull)) (opt_strs (arg_or eval c ''tags'' JNull))"

definition declared_object :: "(string \<Rightarrow> json) \<Rightarrow> component_decl \<Rightarrow> comp_obj result" where
  "declared_object eval c =
     (if decl_class c = ''Info'' then declared_info eval c
      else r_bind (component_init (str_of (arg_or eval c ''component_id'' JNull))) (\<lambda>self.
           r_bind (init_check (decl_class c) (\<lambda>k. arg_or eval c k JNull)) (\<lambda>_.
             Inr (self\<lparr>classes := decl_class c # classes self\<rparr>))))"

text \<open>
  \<open>__init__\<close> of an app class: the base class puts the app without components into the list of all
  apps, then the components are created and added one after the other. An exception leaves the app
  in the list as it is. \<open>vts\<close> gives the methods of the component classes.
\<close>

primrec add_declared ::
  "(string \<Rightarrow> json) \<Rightarrow> (string \<Rightarrow> 'w vtable) \<Rightarrow> component_decl list \<Rightarrow> 'w app \<Rightarrow> unit result \<times> 'w app"
where
  "add_declared eval vts [] a = (Inr (), a)"
| "add_declared eval vts (c # cs) a =
     (case declared_object eval c of
        Inl e \<Rightarrow> (Inl e, a)
      | Inr self \<Rightarrow> add_declared eval vts cs (app_add a \<lparr>obj = self, vt = vts (decl_class c)\<rparr>))"

definition construct_app ::
  "(string \<Rightarrow> string \<Rightarrow> json) \<Rightarrow> (string \<Rightarrow> 'w vtable) \<Rightarrow> app_decl \<Rightarrow> 'w apps \<Rightarrow> unit result \<times> 'w apps"
where
  "construct_app eval vts d all_apps =
     (case app_init all_apps (decl_app d) of
        Inl e \<Rightarrow> (Inl e, all_apps)
      | Inr (a, apps') \<Rightarrow>
          (let (r, a') = add_declared (eval (decl_app d)) vts (decl_components d)
                 (a\<lparr>can_be_disabled := decl_can_be_disabled d, configure_when_disabled := decl_configure d\<rparr>)
           in (r, od_set apps' (decl_app d) a')))"

section \<open>Start-up\<close>

text \<open>
  \<open>_initialize_module\<close>: the app classes of a module, here the declarations; an exception ends the
  module and is logged, and raised in development mode only.
\<close>

primrec construct_all ::
  "(string \<Rightarrow> string \<Rightarrow> json) \<Rightarrow> (string \<Rightarrow> 'w vtable) \<Rightarrow> app_decl list \<Rightarrow> 'w apps \<Rightarrow> unit result \<times> 'w apps"
where
  "construct_all eval vts [] all_apps = (Inr (), all_apps)"
| "construct_all eval vts (d # ds) all_apps =
     (case construct_app eval vts d all_apps of
        (Inl e, apps') \<Rightarrow> (Inl e, apps')
      | (Inr _, apps') \<Rightarrow> construct_all eval vts ds apps')"

definition initialize_module ::
  "(string \<Rightarrow> string \<Rightarrow> json) \<Rightarrow> (string \<Rightarrow> 'w vtable) \<Rightarrow> bool \<Rightarrow> app_decl list \<Rightarrow> 'w apps \<Rightarrow> unit result \<times> 'w apps"
where
  "initialize_module eval vts develop ds all_apps =
     (case construct_all eval vts ds all_apps of
        (Inl e, apps') \<Rightarrow> ((if develop then Inl e else Inr ()), apps')
      | (Inr _, apps') \<Rightarrow> (Inr (), apps'))"

primrec initialize_modules ::
  "(string \<Rightarrow> string \<Rightarrow> json) \<Rightarrow> (string \<Rightarrow> 'w vtable) \<Rightarrow> bool \<Rightarrow> app_decl list list \<Rightarrow> 'w apps \<Rightarrow> unit result \<times> 'w apps"
where
  "initialize_modules eval vts develop [] all_apps = (Inr (), all_apps)"
| "initialize_modules eval vts develop (m # ms) all_apps =
     (case initialize_module eval vts develop m all_apps of
        (Inl e, apps') \<Rightarrow> (Inl e, apps')
      | (Inr _, apps') \<Rightarrow> initialize_modules eval vts develop ms apps')"

definition apps_init ::
  "(string \<Rightarrow> string \<Rightarrow> json) \<Rightarrow> (string \<Rightarrow> 'w vtable) \<Rightarrow> bool \<Rightarrow> app_decl list list \<Rightarrow> 'w apps \<Rightarrow> unit result \<times> 'w apps"
where
  "apps_init eval vts develop modules all_apps =
     (if all_apps \<noteq> [] then (Inr (), all_apps)
      else case initialize_modules eval vts develop modules all_apps of
             (Inl e, apps') \<Rightarrow> (Inl e, apps')
           | (Inr _, apps') \<Rightarrow>
               (case sort_apps apps' of Inl e \<Rightarrow> (Inl e, apps') | Inr ordered \<Rightarrow> (Inr (), ordered)))"

end
