(* ===== verification/Manifests.thy ===== *)
theory Manifests
  imports Clients
begin

text \<open>
  The manifests of the apps (the module manifest.py of each app): the clients that an app can be
  used with, what is backed up of it, and its tags, as the values that the code builds. A text that
  is translated is its original; an address of \<open>reverse_lazy\<close> is made by the parameter
  \<open>reverse_url\<close>, and \<open>store_url\<close> of plinth/clients.py is written out.
\<close>

subsection \<open>avahi\<close>

definition avahi_backup :: "json" where
  "avahi_backup = JDict []"

definition avahi_tags :: "json" where
  "avahi_tags = JList [JStr ''Auto-discovery'', JStr ''Local'', JStr ''mDNS'']"

subsection \<open>backups\<close>

definition backups_backup :: "json" where
  "backups_backup = JDict []"

definition backups_tags :: "json" where
  "backups_tags = JList [JStr ''Restore'', JStr ''Encrypted'', JStr ''Schedules'', JStr ''Local'',
    JStr ''Remote'', JStr ''App data'', JStr ''Configuration'', JStr ''Borg'']"

subsection \<open>bepasty\<close>

definition bepasty_clients :: "json" where
  "bepasty_clients = JList [JDict [(''name'', JStr ''bepasty''),
    (''platforms'', JList [JDict [(''type'', JStr ''web''), (''url'', JStr ''/bepasty'')]])]]"

definition bepasty_backup :: "json" where
  "bepasty_backup = JDict [(''config'', JDict [(''files'', JList [JStr ''/etc/bepasty-freedombox.conf''])]),
    (''data'', JDict [(''directories'', JList [JStr ''/var/lib/bepasty'',
    JStr ''/var/lib/private/bepasty''])]),
    (''services'', JList [JStr ''uwsgi-app@bepasty-freedombox.socket''])]"

definition bepasty_tags :: "json" where
  "bepasty_tags = JList [JStr ''File sharing'', JStr ''Pastebin'']"

subsection \<open>bind\<close>

definition bind_backup :: "json" where
  "bind_backup = JDict [(''config'', JDict [(''files'', JList [JStr ''/etc/bind/named.conf.options''])]),
    (''services'', JList [JStr ''named''])]"

definition bind_tags :: "json" where
  "bind_tags = JList [JStr ''DNS'', JStr ''Server'', JStr ''Resolver'']"

subsection \<open>calibre\<close>

definition calibre_clients :: "json" where
  "calibre_clients = JList [JDict [(''name'', JStr ''calibre''),
    (''platforms'', JList [JDict [(''type'', JStr ''web''), (''url'', JStr ''/calibre/'')]])]]"

definition calibre_backup :: "json" where
  "calibre_backup = JDict [(''data'', JDict [(''directories'', JList [JStr ''/var/lib/private/calibre-server-freedombox/''])]),
    (''services'', JList [JStr ''calibre-server-freedombox'']),
    (''delete_before_restore'', JList [JStr ''/var/lib/private/calibre-server-freedombox/''])]"

definition calibre_tags :: "json" where
  "calibre_tags = JList [JStr ''Ebook'', JStr ''Library'', JStr ''Ebook reader'']"

subsection \<open>cockpit\<close>

definition cockpit_clients :: "json" where
  "cockpit_clients = JList [JDict [(''name'', JStr ''Cockpit''),
    (''platforms'', JList [JDict [(''type'', JStr ''web''), (''url'', JStr ''/_cockpit/'')]])]]"

definition cockpit_backup :: "json" where
  "cockpit_backup = JDict []"

definition cockpit_tags :: "json" where
  "cockpit_tags = JList [JStr ''Advanced administration'', JStr ''Web terminal'', JStr ''Storage'',
    JStr ''Networking'', JStr ''Services'', JStr ''Logs'', JStr ''Performance'']"

subsection \<open>config\<close>

definition config_tags :: "json" where
  "config_tags = JList [JStr ''Homepage'', JStr ''Logging'', JStr ''Advanced apps'']"

subsection \<open>coturn\<close>

definition coturn_backup :: "json" where
  "coturn_backup = JDict [(''secrets'', JDict [(''directories'', JList [JStr ''/etc/coturn''])]),
    (''services'', JList [JStr ''coturn''])]"

definition coturn_tags :: "json" where
  "coturn_tags = JList [JStr ''Video conference'', JStr ''STUN'', JStr ''TURN'']"

subsection \<open>datetime\<close>

definition datetime_backup :: "json" where
  "datetime_backup = JDict [(''data'', JDict [(''files'', JList [JStr ''/etc/localtime''])]),
    (''services'', JList [JStr ''systemd-timedated''])]"

definition datetime_tags :: "json" where
  "datetime_tags = JList [JStr ''Network time'', JStr ''Timezone'']"

subsection \<open>deluge\<close>

definition deluge_clients :: "json" where
  "deluge_clients = JList [JDict [(''name'', JStr ''Deluge''),
    (''description'', JStr ''Bittorrent client written in Python/PyGTK''),
    (''platforms'', JList [JDict [(''type'', JStr ''web''), (''url'', JStr ''/deluge'')]])]]"

definition deluge_backup :: "json" where
  "deluge_backup = JDict [(''config'', JDict [(''directories'', JList [JStr ''/var/lib/deluged/config''])]),
    (''services'', JList [JStr ''deluged'', JStr ''deluge-web''])]"

definition deluge_tags :: "json" where
  "deluge_tags = JList [JStr ''File sharing'', JStr ''BitTorrent'', JStr ''Web client'', JStr ''P2P'']"

subsection \<open>diagnostics\<close>

definition diagnostics_backup :: "json" where
  "diagnostics_backup = JDict []"

definition diagnostics_tags :: "json" where
  "diagnostics_tags = JList [JStr ''Detect problems'', JStr ''Repair'', JStr ''Daily'']"

subsection \<open>dynamicdns\<close>

definition dynamicdns_backup :: "json" where
  "dynamicdns_backup = JDict [(''config'', JDict [(''directories'', JList [JStr ''/etc/ez-ipupdate/''])]),
    (''settings'', JList [JStr ''dynamicdns_enable'', JStr ''dynamicdns_config'',
    JStr ''dynamicdns_status''])]"

definition dynamicdns_tags :: "json" where
  "dynamicdns_tags = JList [JStr ''Domain'', JStr ''Free'', JStr ''Needs public IP'']"

subsection \<open>ejabberd\<close>

definition ejabberd_clients :: "json" where
  "ejabberd_clients = JList [JDict [(''name'', JStr ''Conversations''),
    (''platforms'', JList [JDict [(''type'', JStr ''store''), (''os'', JStr ''android''),
    (''store_name'', JStr ''f-droid''),
    (''url'', JStr ''https://f-droid.org/packages/eu.siacs.conversations'')],
    JDict [(''type'', JStr ''store''), (''os'', JStr ''android''), (''store_name'', JStr ''google-play''),
    (''url'', JStr ''https://play.google.com/store/apps/details?id=eu.siacs.conversations'')]])],
    JDict [(''name'', JStr ''Xabber''),
    (''description'', JStr ''Open source Jabber (XMPP) client with multi-account support and clean and simple interface. ''),
    (''platforms'', JList [JDict [(''type'', JStr ''store''), (''os'', JStr ''android''),
    (''store_name'', JStr ''f-droid''),
    (''url'', JStr ''https://f-droid.org/packages/com.xabber.androiddev'')],
    JDict [(''type'', JStr ''store''), (''os'', JStr ''android''), (''store_name'', JStr ''google-play''),
    (''url'', JStr ''https://play.google.com/store/apps/details?id=com.xabber.android'')]])],
    JDict [(''name'', JStr ''Yaxim''), (''platforms'', JList [JDict [(''type'', JStr ''store''),
    (''os'', JStr ''android''), (''store_name'', JStr ''f-droid''),
    (''url'', JStr ''https://f-droid.org/packages/org.yaxim.androidclient'')],
    JDict [(''type'', JStr ''store''), (''os'', JStr ''android''), (''store_name'', JStr ''google-play''),
    (''url'', JStr ''https://play.google.com/store/apps/details?id=org.yaxim.androidclient'')]])],
    JDict [(''name'', JStr ''Monal - XMPP Chat''),
    (''platforms'', JList [JDict [(''type'', JStr ''store''), (''os'', JStr ''ios''),
    (''store_name'', JStr ''app-store''),
    (''url'', JStr ''https://apps.apple.com/us/app/monal-xmpp-chat/id317711500'')]])],
    JDict [(''name'', JStr ''Siskin IM''), (''platforms'', JList [JDict [(''type'', JStr ''store''),
    (''os'', JStr ''ios''), (''store_name'', JStr ''app-store''),
    (''url'', JStr ''https://apps.apple.com/us/app/tigase-messenger/id1153516838'')]])],
    JDict [(''name'', JStr ''Dino''), (''platforms'', JList [JDict [(''type'', JStr ''download''),
    (''os'', JStr ''gnu-linux''),
    (''url'', JStr ''https://github.com/dino/dino/wiki/Distribution-Packages'')],
    JDict [(''type'', JStr ''package''), (''format'', JStr ''deb''), (''name'', JStr ''dino-im'')]])],
    JDict [(''name'', JStr ''Gajim''), (''platforms'', JList [JDict [(''type'', JStr ''package''),
    (''format'', JStr ''deb''), (''name'', JStr ''gajim'')], JDict [(''type'', JStr ''download''),
    (''os'', JStr ''gnu-linux''), (''url'', JStr ''https://gajim.org/downloads.php'')],
    JDict [(''type'', JStr ''download''), (''os'', JStr ''macos''),
    (''url'', JStr ''https://gajim.org/downloads.php'')], JDict [(''type'', JStr ''download''),
    (''os'', JStr ''windows''), (''url'', JStr ''https://gajim.org/downloads.php'')]])]]"

definition ejabberd_backup :: "json" where
  "ejabberd_backup = JDict [(''config'', JDict [(''files'', JList [JStr ''/etc/ejabberd/ejabberd.yml''])]),
    (''data'', JDict [(''directories'', JList [JStr ''/var/lib/ejabberd/''])]),
    (''secrets'', JDict [(''files'', JList [JStr ''/etc/ejabberd/ejabberd.pem'']),
    (''directories'', JList [JStr ''/etc/ejabberd/letsencrypt/''])]),
    (''services'', JList [JStr ''ejabberd''])]"

definition ejabberd_tags :: "json" where
  "ejabberd_tags = JList [JStr ''Encrypted messaging'', JStr ''Audio chat'', JStr ''Video chat'',
    JStr ''XMPP'']"

subsection \<open>email\<close>

definition email_clients :: "json" where
  "email_clients = JList [JDict [(''name'', JStr ''Roundcube''),
    (''platforms'', JList [JDict [(''type'', JStr ''web''), (''url'', JStr ''/roundcube/'')]])],
    JDict [(''name'', JStr ''Thunderbird''), (''platforms'', JList [JDict [(''type'', JStr ''download''),
    (''os'', JStr ''gnu-linux''), (''url'', JStr ''https://www.thunderbird.net/'')],
    JDict [(''type'', JStr ''download''), (''os'', JStr ''macos''),
    (''url'', JStr ''https://www.thunderbird.net/'')], JDict [(''type'', JStr ''download''),
    (''os'', JStr ''windows''), (''url'', JStr ''https://www.thunderbird.net/'')]])],
    JDict [(''name'', JStr ''Thunderbird Mobile''),
    (''platforms'', JList [JDict [(''type'', JStr ''store''), (''os'', JStr ''android''),
    (''store_name'', JStr ''f-droid''),
    (''url'', JStr ''https://f-droid.org/packages/net.thunderbird.android'')],
    JDict [(''type'', JStr ''store''), (''os'', JStr ''android''), (''store_name'', JStr ''google-play''),
    (''url'', JStr ''https://play.google.com/store/apps/details?id=net.thunderbird.android'')]])],
    JDict [(''name'', JStr ''FairEmail''), (''platforms'', JList [JDict [(''type'', JStr ''store''),
    (''os'', JStr ''android''), (''store_name'', JStr ''f-droid''),
    (''url'', JStr ''https://f-droid.org/packages/eu.faircode.email'')], JDict [(''type'', JStr ''store''),
    (''os'', JStr ''android''), (''store_name'', JStr ''google-play''),
    (''url'', JStr ''https://play.google.com/store/apps/details?id=eu.faircode.email'')]])]]"

definition email_backup :: "json" where
  "email_backup = JDict [(''data'', JDict [(''files'', JList [JStr ''/etc/aliases'']),
    (''directories'', JList [JStr ''/etc/postfix/'', JStr ''/etc/dovecot/conf.d/'', JStr ''/etc/rspamd/'',
    JStr ''/var/lib/postfix/freedombox-aliases/'', JStr ''/var/lib/rspamd/'', JStr ''/var/mail/''])]),
    (''services'', JList [JStr ''postfix'', JStr ''dovecot'', JStr ''rspamd''])]"

definition email_tags :: "json" where
  "email_tags = JList [JStr ''Email server'', JStr ''IMAP'', JStr ''Spam control'']"

subsection \<open>featherwiki\<close>

definition featherwiki_clients :: "json" where
  "featherwiki_clients = JList [JDict [(''name'', JStr ''Feather Wiki''),
    (''platforms'', JList [JDict [(''type'', JStr ''web''), (''url'', JStr ''/featherwiki/'')]])]]"

definition featherwiki_backup :: "json" where
  "featherwiki_backup = JDict [(''data'', JDict [(''directories'', JList [JStr ''/var/lib/featherwiki''])])]"

definition featherwiki_tags :: "json" where
  "featherwiki_tags = JList [JStr ''Wiki'', JStr ''Note taking'', JStr ''Website'', JStr ''Quine'',
    JStr ''Non-Debian'']"

subsection \<open>firewall\<close>

definition firewall_backup :: "json" where
  "firewall_backup = JDict []"

definition firewall_tags :: "json" where
  "firewall_tags = JList [JStr ''Ports'', JStr ''Blocking'', JStr ''Status'', JStr ''Automatic'']"

subsection \<open>gitweb\<close>

definition gitweb_clients :: "json" where
  "gitweb_clients = JList [JDict [(''name'', JStr ''Gitweb''),
    (''platforms'', JList [JDict [(''type'', JStr ''web''), (''url'', JStr ''/gitweb/'')]])],
    JDict [(''name'', JStr ''Git''), (''platforms'', JList [JDict [(''type'', JStr ''download''),
    (''os'', JStr ''gnu-linux''), (''url'', JStr ''https://git-scm.com/download/linux'')],
    JDict [(''type'', JStr ''download''), (''os'', JStr ''macos''),
    (''url'', JStr ''https://git-scm.com/download/mac'')], JDict [(''type'', JStr ''download''),
    (''os'', JStr ''windows''), (''url'', JStr ''https://git-scm.com/download/windows'')]])]]"

definition gitweb_backup :: "json" where
  "gitweb_backup = JDict [(''data'', JDict [(''directories'', JList [JStr ''/var/lib/git''])])]"

definition gitweb_tags :: "json" where
  "gitweb_tags = JList [JStr ''Git hosting'', JStr ''Version control'', JStr ''Developer tool'']"

subsection \<open>gnome\<close>

definition gnome_backup :: "json" where
  "gnome_backup = JDict []"

definition gnome_tags :: "json" where
  "gnome_tags = JList [JStr ''Desktop'', JStr ''Browser'', JStr ''Office suite'', JStr ''Software store'',
    JStr ''GUI'', JStr ''Graphical apps'']"

subsection \<open>homeassistant\<close>

definition homeassistant_clients :: "json" where
  "homeassistant_clients = JList [JDict [(''name'', JStr ''Home Assistant''),
    (''platforms'', JList [JDict [(''type'', JStr ''web''), (''url'', JStr ''#'')]])],
    JDict [(''name'', JStr ''Home Assistant''),
    (''platforms'', JList [JDict [(''type'', JStr ''download''), (''os'', JStr ''macos''),
    (''url'', JStr ''https://apps.apple.com/us/app/home-assistant/id1099568401'')],
    JDict [(''type'', JStr ''store''), (''os'', JStr ''ios''), (''store_name'', JStr ''app-store''),
    (''url'', JStr ''https://apps.apple.com/us/app/home-assistant/id1099568401?platform=iphone'')],
    JDict [(''type'', JStr ''store''), (''os'', JStr ''android''), (''store_name'', JStr ''google-play''),
    (''url'', JStr ''https://play.google.com/store/apps/details?id=io.homeassistant.companion.android'')],
    JDict [(''type'', JStr ''store''), (''os'', JStr ''android''), (''store_name'', JStr ''f-droid''),
    (''url'', JStr ''https://f-droid.org/packages/io.homeassistant.companion.android.minimal'')]])]]"

definition homeassistant_backup :: "json" where
  "homeassistant_backup = JDict [(''data'', JDict [(''directories'', JList [JStr ''/var/lib/home-assistant-freedombox/''])]),
    (''services'', JList [JStr ''home-assistant-freedombox''])]"

definition homeassistant_tags :: "json" where
  "homeassistant_tags = JList [JStr ''Home Automation'', JStr ''IoT'', JStr ''Wi-Fi'', JStr ''ZigBee'',
    JStr ''Z-Wave'', JStr ''Thread'']"

subsection \<open>ikiwiki\<close>

definition ikiwiki_clients :: "json" where
  "ikiwiki_clients = JList [JDict [(''name'', JStr ''ikiwiki''),
    (''platforms'', JList [JDict [(''type'', JStr ''web''), (''url'', JStr ''/ikiwiki'')]])]]"

definition ikiwiki_backup :: "json" where
  "ikiwiki_backup = JDict [(''data'', JDict [(''directories'', JList [JStr ''/var/lib/ikiwiki/'',
    JStr ''/var/www/ikiwiki/''])])]"

definition ikiwiki_tags :: "json" where
  "ikiwiki_tags = JList [JStr ''Wiki'', JStr ''Blog'', JStr ''Website'']"

subsection \<open>infinoted\<close>

definition infinoted_clients :: "string \<Rightarrow> json" where
  "infinoted_clients box_name = JList [JDict [(''name'', JStr ''Gobby''),
    (''description'', JStr ''Gobby is a collaborative text editor''),
    (''usage'', JStr (''Start Gobby and select '' @ [CHR 0x22] @ ''Connect to Server'' @ [CHR 0x22] @ '' and enter your '' @ box_name @ [CHR 0x27] @ ''s domain name.'')),
    (''platforms'', JList [JDict [(''type'', JStr ''download''), (''os'', JStr ''gnu-linux''),
    (''url'', JStr ''https://github.com/gobby/gobby/wiki/Download'')],
    JDict [(''type'', JStr ''download''), (''os'', JStr ''windows''),
    (''url'', JStr ''https://github.com/gobby/gobby/wiki/Download'')], JDict [(''type'', JStr ''package''),
    (''format'', JStr ''deb''), (''name'', JStr ''gobby'')]])]]"

definition infinoted_backup :: "json" where
  "infinoted_backup = JDict [(''data'', JDict [(''directories'', JList [JStr ''/var/lib/infinoted/''])]),
    (''secrets'', JDict [(''files'', JList [JStr ''/etc/infinoted/infinoted-cert.pem'',
    JStr ''/etc/infinoted/infinoted-key.pem''])]), (''services'', JList [JStr ''infinoted''])]"

definition infinoted_tags :: "json" where
  "infinoted_tags = JList [JStr ''Note taking'', JStr ''Collaborative editing'', JStr ''Gobby'']"

subsection \<open>janus\<close>

definition janus_clients :: "(string \<Rightarrow> string) \<Rightarrow> json" where
  "janus_clients reverse_url = JList [JDict [(''name'', JStr ''Janus Video Room''),
    (''platforms'', JList [JDict [(''type'', JStr ''web''),
    (''url'', JStr (reverse_url ''janus:room''))]])]]"

definition janus_backup :: "json" where
  "janus_backup = JDict []"

definition janus_tags :: "json" where
  "janus_tags = JList [JStr ''Video conference'', JStr ''WebRTC'', JStr ''Web conference'']"

subsection \<open>jsxc\<close>

definition jsxc_clients :: "(string \<Rightarrow> string) \<Rightarrow> json" where
  "jsxc_clients reverse_url = JList [JDict [(''name'', JStr ''JSXC''),
    (''platforms'', JList [JDict [(''type'', JStr ''web''), (''url'', JStr (reverse_url ''jsxc:jsxc''))]])]]"

definition jsxc_backup :: "json" where
  "jsxc_backup = JDict []"

definition jsxc_tags :: "json" where
  "jsxc_tags = JList [JStr ''Web chat'', JStr ''XMPP'', JStr ''Client'']"

subsection \<open>kiwix\<close>

definition kiwix_clients :: "json" where
  "kiwix_clients = JList [JDict [(''name'', JStr ''Kiwix''),
    (''platforms'', JList [JDict [(''type'', JStr ''web''), (''url'', JStr ''/kiwix'')]])]]"

definition kiwix_backup :: "json" where
  "kiwix_backup = JDict [(''data'', JDict [(''directories'', JList [JStr ''/var/lib/private/kiwix-server-freedombox/''])]),
    (''services'', JList [JStr ''kiwix-server-freedombox'']),
    (''delete_before_restore'', JList [JStr ''/var/lib/private/kiwix-server-freedombox/''])]"

definition kiwix_tags :: "json" where
  "kiwix_tags = JList [JStr ''Offline reader'', JStr ''Archival'', JStr ''Censorship resistance'',
    JStr ''Wikipedia'']"

subsection \<open>letsencrypt\<close>

definition letsencrypt_backup :: "json" where
  "letsencrypt_backup = JDict [(''secrets'', JDict [(''directories'', JList [JStr ''/etc/letsencrypt/''])])]"

definition letsencrypt_tags :: "json" where
  "letsencrypt_tags = JList [JStr ''Certificates'', JStr ''HTTPS'', JStr ''Web security'', JStr ''Encryption'']"

subsection \<open>matrixsynapse\<close>

definition matrixsynapse_clients :: "json" where
  "matrixsynapse_clients = JList [JDict [(''name'', JStr ''Element''),
    (''platforms'', JList [JDict [(''type'', JStr ''store''), (''os'', JStr ''android''),
    (''store_name'', JStr ''google-play''),
    (''url'', JStr ''https://play.google.com/store/apps/details?id=im.vector.app'')],
    JDict [(''type'', JStr ''store''), (''os'', JStr ''android''), (''store_name'', JStr ''f-droid''),
    (''url'', JStr ''https://f-droid.org/packages/im.vector.app'')], JDict [(''type'', JStr ''store''),
    (''os'', JStr ''ios''), (''store_name'', JStr ''app-store''),
    (''url'', JStr ''https://apps.apple.com/app/vector/id1083446067'')], JDict [(''type'', JStr ''web''),
    (''url'', JStr ''https://app.element.io/'')], JDict [(''type'', JStr ''download''),
    (''os'', JStr ''gnu-linux''), (''url'', JStr ''https://element.io/get-started'')],
    JDict [(''type'', JStr ''download''), (''os'', JStr ''macos''),
    (''url'', JStr ''https://element.io/get-started'')], JDict [(''type'', JStr ''download''),
    (''os'', JStr ''windows''), (''url'', JStr ''https://element.io/get-started'')]])],
    JDict [(''name'', JStr ''FluffyChat''), (''platforms'', JList [JDict [(''type'', JStr ''store''),
    (''os'', JStr ''android''), (''store_name'', JStr ''google-play''),
    (''url'', JStr ''https://play.google.com/store/apps/details?id=chat.fluffy.fluffychat'')],
    JDict [(''type'', JStr ''store''), (''os'', JStr ''android''), (''store_name'', JStr ''f-droid''),
    (''url'', JStr ''https://f-droid.org/packages/chat.fluffy.fluffychat'')],
    JDict [(''type'', JStr ''store''), (''os'', JStr ''ios''), (''store_name'', JStr ''app-store''),
    (''url'', JStr ''https://apps.apple.com/app/fluffychat/id1551469600'')],
    JDict [(''type'', JStr ''web''), (''url'', JStr ''https://fluffychat.im/web'')],
    JDict [(''type'', JStr ''download''), (''os'', JStr ''gnu-linux''),
    (''url'', JStr ''https://fluffychat.im/'')]])]]"

definition matrixsynapse_backup :: "json" where
  "matrixsynapse_backup = JDict [(''config'', JDict [(''directories'', JList [JStr ''/etc/matrix-synapse/conf.d/'']),
    (''files'', JList [JStr ''/etc/matrix-synapse/homeserver.yaml'',
    JStr ''/etc/matrix-synapse/log.yaml''])]),
    (''data'', JDict [(''directories'', JList [JStr ''/var/lib/matrix-synapse/media/'',
    JStr ''/var/lib/matrix-synapse/uploads/'']),
    (''files'', JList [JStr ''/var/lib/matrix-synapse/homeserver.db''])]),
    (''secrets'', JDict [(''files'', JList [JStr ''/etc/matrix-synapse/homeserver.signing.key'',
    JStr ''/etc/matrix-synapse/homeserver.tls.crt'', JStr ''/etc/matrix-synapse/homeserver.tls.dh'',
    JStr ''/etc/matrix-synapse/homeserver.tls.key''])]), (''services'', JList [JStr ''matrix-synapse''])]"

definition matrixsynapse_tags :: "json" where
  "matrixsynapse_tags = JList [JStr ''Chat room'', JStr ''Encrypted messaging'', JStr ''Audio chat'',
    JStr ''Video chat'', JStr ''Matrix server'']"

subsection \<open>mediawiki\<close>

definition mediawiki_clients :: "json" where
  "mediawiki_clients = JList [JDict [(''name'', JStr ''MediaWiki''),
    (''platforms'', JList [JDict [(''type'', JStr ''web''), (''url'', JStr ''/mediawiki'')]])]]"

definition mediawiki_backup :: "json" where
  "mediawiki_backup = JDict [(''config'', JDict [(''files'', JList [JStr ''/etc/mediawiki/FreedomBoxSettings.php''])]),
    (''data'', JDict [(''directories'', JList [JStr ''/var/lib/mediawiki-db/'',
    JStr ''/var/lib/mediawiki/images/''])]), (''services'', JList [JStr ''mediawiki-jobrunner''])]"

definition mediawiki_tags :: "json" where
  "mediawiki_tags = JList [JStr ''Wiki'', JStr ''Website'']"

subsection \<open>minetest\<close>

definition minetest_clients :: "json" where
  "minetest_clients = JList [JDict [(''name'', JStr ''Luanti''),
    (''platforms'', JList [JDict [(''type'', JStr ''download''), (''os'', JStr ''gnu-linux''),
    (''url'', JStr ''https://www.luanti.org/downloads/'')], JDict [(''type'', JStr ''download''),
    (''os'', JStr ''macos''), (''url'', JStr ''https://www.luanti.org/downloads/'')],
    JDict [(''type'', JStr ''download''), (''os'', JStr ''windows''),
    (''url'', JStr ''https://www.luanti.org/downloads/'')], JDict [(''type'', JStr ''store''),
    (''os'', JStr ''android''), (''store_name'', JStr ''f-droid''),
    (''url'', JStr ''https://f-droid.org/packages/net.minetest.minetest'')],
    JDict [(''type'', JStr ''store''), (''os'', JStr ''android''), (''store_name'', JStr ''google-play''),
    (''url'', JStr ''https://play.google.com/store/apps/details?id=net.minetest.minetest'')],
    JDict [(''type'', JStr ''package''), (''format'', JStr ''deb''), (''name'', JStr ''luanti'')]])]]"

definition minetest_backup :: "json" where
  "minetest_backup = JDict [(''config'', JDict [(''files'', JList [JStr ''/etc/luanti/default.conf''])]),
    (''data'', JDict [(''directories'', JList [JStr ''/var/lib/private/luanti/default/''])]),
    (''services'', JList [JStr ''luanti-server''])]"

definition minetest_tags :: "json" where
  "minetest_tags = JList [JStr ''Game server'', JStr ''Block sandbox'', JStr ''Platform'']"

subsection \<open>minidlna\<close>

definition minidlna_clients :: "json" where
  "minidlna_clients = JList [JDict [(''name'', JStr ''vlc''),
    (''platforms'', JList [JDict [(''type'', JStr ''package''), (''os'', JStr ''gnu-linux''),
    (''format'', JStr ''deb''), (''name'', JStr ''vlc'')], JDict [(''type'', JStr ''package''),
    (''os'', JStr ''gnu-linux''), (''format'', JStr ''rpm''), (''name'', JStr ''vlc'')],
    JDict [(''type'', JStr ''download''), (''os'', JStr ''windows''),
    (''url'', JStr ''https://www.videolan.org/vlc/download-windows.html'')],
    JDict [(''type'', JStr ''download''), (''os'', JStr ''macos''),
    (''url'', JStr ''https://www.videolan.org/vlc/download-macosx.html'')],
    JDict [(''type'', JStr ''store''), (''os'', JStr ''android''), (''store_name'', JStr ''google-play''),
    (''url'', JStr ''https://play.google.com/store/apps/details?id=org.videolan.vlc'')],
    JDict [(''type'', JStr ''store''), (''os'', JStr ''android''), (''store_name'', JStr ''f-droid''),
    (''url'', JStr ''https://f-droid.org/packages/org.videolan.vlc'')], JDict [(''type'', JStr ''store''),
    (''os'', JStr ''ios''), (''store_name'', JStr ''app-store''),
    (''url'', JStr ''https://apps.apple.com/app/apple-store/id650377962'')]])],
    JDict [(''name'', JStr ''kodi''), (''platforms'', JList [JDict [(''type'', JStr ''package''),
    (''os'', JStr ''gnu-linux''), (''format'', JStr ''deb''), (''name'', JStr ''kodi'')],
    JDict [(''type'', JStr ''package''), (''os'', JStr ''gnu-linux''), (''format'', JStr ''rpm''),
    (''name'', JStr ''kodi'')], JDict [(''type'', JStr ''download''), (''os'', JStr ''windows''),
    (''url'', JStr ''http://kodi.tv/download/'')], JDict [(''type'', JStr ''download''),
    (''os'', JStr ''macos''), (''url'', JStr ''http://kodi.tv/download/'')],
    JDict [(''type'', JStr ''store''), (''os'', JStr ''android''), (''store_name'', JStr ''google-play''),
    (''url'', JStr ''https://play.google.com/store/apps/details?id=org.xbmc.kodi'')],
    JDict [(''type'', JStr ''store''), (''os'', JStr ''android''), (''store_name'', JStr ''f-droid''),
    (''url'', JStr ''https://f-droid.org/packages/org.xbmc.kodi'')]])], JDict [(''name'', JStr ''yaacc''),
    (''platforms'', JList [JDict [(''type'', JStr ''store''), (''os'', JStr ''android''),
    (''store_name'', JStr ''f-droid''), (''url'', JStr ''https://f-droid.org/packages/de.yaacc'')]])],
    JDict [(''name'', JStr ''totem''), (''platforms'', JList [JDict [(''type'', JStr ''package''),
    (''os'', JStr ''gnu-linux''), (''format'', JStr ''deb''), (''name'', JStr ''totem'')],
    JDict [(''type'', JStr ''package''), (''os'', JStr ''gnu-linux''), (''format'', JStr ''rpm''),
    (''name'', JStr ''totem'')]])]]"

definition minidlna_backup :: "json" where
  "minidlna_backup = JDict [(''data'', JDict [(''files'', JList [JStr ''/etc/minidlna.conf'']),
    (''directories'', JList [JStr ''/var/lib/minidlna''])]), (''services'', JList [JStr ''minidlna''])]"

definition minidlna_tags :: "json" where
  "minidlna_tags = JList [JStr ''Media server'', JStr ''Television'', JStr ''UPnP'', JStr ''DLNA'']"

subsection \<open>miniflux\<close>

definition miniflux_clients :: "json" where
  "miniflux_clients = JList [JDict [(''name'', JStr ''Miniflux''),
    (''platforms'', JList [JDict [(''type'', JStr ''web''), (''url'', JStr ''/miniflux/'')]])],
    JDict [(''name'', JStr ''Fluent Reader Lite''),
    (''platforms'', JList [JDict [(''type'', JStr ''store''), (''os'', JStr ''android''),
    (''store_name'', JStr ''google-play''),
    (''url'', JStr ''https://play.google.com/store/apps/details?id=me.hyliu.fluent_reader_lite'')],
    JDict [(''type'', JStr ''store''), (''os'', JStr ''ios''), (''store_name'', JStr ''app-store''),
    (''url'', JStr ''https://apps.apple.com/app/id1549611796'')]])],
    JDict [(''name'', JStr ''Fluent Reader''), (''platforms'', JList [JDict [(''type'', JStr ''download''),
    (''os'', JStr ''windows''), (''url'', JStr ''https://github.com/yang991178/fluent-reader/releases'')],
    JDict [(''type'', JStr ''download''), (''os'', JStr ''macos''),
    (''url'', JStr ''https://github.com/yang991178/fluent-reader/releases'')]])],
    JDict [(''name'', JStr ''FluxNews''), (''platforms'', JList [JDict [(''type'', JStr ''store''),
    (''os'', JStr ''android''), (''store_name'', JStr ''f-droid''),
    (''url'', JStr ''https://f-droid.org/packages/de.circle_dev.flux_news'')],
    JDict [(''type'', JStr ''store''), (''os'', JStr ''android''), (''store_name'', JStr ''google-play''),
    (''url'', JStr ''https://play.google.com/store/apps/details?id=de.circle_dev.flux_news'')]])],
    JDict [(''name'', JStr ''MiniFlutt''), (''platforms'', JList [JDict [(''type'', JStr ''store''),
    (''os'', JStr ''android''), (''store_name'', JStr ''google-play''),
    (''url'', JStr ''https://play.google.com/store/apps/details?id=be.martinelli.miniflutt'')]])],
    JDict [(''name'', JStr ''NetNewsWire''), (''platforms'', JList [JDict [(''type'', JStr ''download''),
    (''os'', JStr ''macos''), (''url'', JStr ''https://netnewswire.com/'')],
    JDict [(''type'', JStr ''store''), (''os'', JStr ''ios''), (''store_name'', JStr ''app-store''),
    (''url'', JStr ''https://apps.apple.com/us/app/netnewswire-rss-reader/id1480640210'')]])],
    JDict [(''name'', JStr ''Newsflash''), (''platforms'', JList [JDict [(''type'', JStr ''download''),
    (''os'', JStr ''gnu-linux''),
    (''url'', JStr ''https://flathub.org/apps/details/io.gitlab.news_flash.NewsFlash'')]])],
    JDict [(''name'', JStr ''Read You''), (''platforms'', JList [JDict [(''type'', JStr ''store''),
    (''os'', JStr ''android''), (''store_name'', JStr ''f-droid''),
    (''url'', JStr ''https://f-droid.org/packages/me.ash.reader'')]])],
    JDict [(''name'', JStr ''RSS Guard''), (''platforms'', JList [JDict [(''type'', JStr ''download''),
    (''os'', JStr ''gnu-linux''), (''url'', JStr ''https://github.com/martinrotter/rssguard/releases'')],
    JDict [(''type'', JStr ''download''), (''os'', JStr ''macos''),
    (''url'', JStr ''https://github.com/martinrotter/rssguard/releases'')],
    JDict [(''type'', JStr ''download''), (''os'', JStr ''windows''),
    (''url'', JStr ''https://github.com/martinrotter/rssguard/releases'')]])]]"

definition miniflux_backup :: "json" where
  "miniflux_backup = JDict [(''config'', JDict [(''files'', JList [JStr ''/etc/miniflux/freedombox.conf'',
    JStr ''/var/lib/plinth/backups-data/miniflux-database.sql''])]),
    (''secrets'', JDict [(''files'', JList [JStr ''/etc/miniflux/database'',
    JStr ''/etc/dbconfig-common/miniflux.conf''])]), (''services'', JList [JStr ''miniflux''])]"

definition miniflux_tags :: "json" where
  "miniflux_tags = JList [JStr ''Feed reader'', JStr ''News aggregation'', JStr ''RSS'', JStr ''ATOM'']"

subsection \<open>mumble\<close>

definition mumble_clients :: "json" where
  "mumble_clients = JList [JDict [(''name'', JStr ''Mumble''),
    (''platforms'', JList [JDict [(''type'', JStr ''download''), (''os'', JStr ''gnu-linux''),
    (''url'', JStr ''https://wiki.mumble.info/wiki/Main_Page'')], JDict [(''type'', JStr ''download''),
    (''os'', JStr ''macos''), (''url'', JStr ''https://wiki.mumble.info/wiki/Main_Page'')],
    JDict [(''type'', JStr ''download''), (''os'', JStr ''windows''),
    (''url'', JStr ''https://wiki.mumble.info/wiki/Main_Page'')], JDict [(''type'', JStr ''package''),
    (''format'', JStr ''deb''), (''name'', JStr ''mumble'')], JDict [(''type'', JStr ''store''),
    (''os'', JStr ''ios''), (''store_name'', JStr ''app-store''),
    (''url'', JStr ''https://apps.apple.com/us/app/mumble/id443472808'')]])],
    JDict [(''name'', JStr ''Mumblefly''), (''platforms'', JList [JDict [(''type'', JStr ''store''),
    (''os'', JStr ''ios''), (''store_name'', JStr ''app-store''),
    (''url'', JStr ''https://apps.apple.com/dk/app/mumblefy/id858752232'')]])],
    JDict [(''name'', JStr ''Mumla''), (''platforms'', JList [JDict [(''type'', JStr ''store''),
    (''os'', JStr ''android''), (''store_name'', JStr ''f-droid''),
    (''url'', JStr ''https://f-droid.org/packages/se.lublin.mumla'')], JDict [(''type'', JStr ''store''),
    (''os'', JStr ''android''), (''store_name'', JStr ''google-play''),
    (''url'', JStr ''https://play.google.com/store/apps/details?id=se.lublin.mumla'')]])]]"

definition mumble_backup :: "json" where
  "mumble_backup = JDict [(''config'', JDict [(''files'', JList [JStr ''/etc/mumble/mumble-server.ini''])]),
    (''data'', JDict [(''directories'', JList [JStr ''/var/lib/mumble-server''])]),
    (''services'', JList [JStr ''mumble-server''])]"

definition mumble_tags :: "json" where
  "mumble_tags = JList [JStr ''Audio chat'', JStr ''Group conference'', JStr ''Server'']"

subsection \<open>names\<close>

definition names_backup :: "json" where
  "names_backup = JDict []"

definition names_tags :: "json" where
  "names_tags = JList [JStr ''Domains'', JStr ''Hostname'', JStr ''DNS Resolution'']"

subsection \<open>networks\<close>

definition networks_tags :: "json" where
  "networks_tags = JList [JStr ''Internet'', JStr ''Wi-Fi'', JStr ''Local network'', JStr ''Topology'']"

subsection \<open>nextcloud\<close>

definition nextcloud_clients :: "json" where
  "nextcloud_clients = JList [JDict [(''name'', JStr ''Nextcloud''),
    (''platforms'', JList [JDict [(''type'', JStr ''web''), (''url'', JStr ''/nextcloud/'')]])],
    JDict [(''name'', JStr ''Nextcloud''), (''platforms'', JList [JDict [(''type'', JStr ''download''),
    (''os'', JStr ''gnu-linux''), (''url'', JStr ''https://nextcloud.com/install/#install-clients'')],
    JDict [(''type'', JStr ''download''), (''os'', JStr ''macos''),
    (''url'', JStr ''https://nextcloud.com/install/#install-clients'')],
    JDict [(''type'', JStr ''download''), (''os'', JStr ''windows''),
    (''url'', JStr ''https://nextcloud.com/install/#install-clients'')], JDict [(''type'', JStr ''store''),
    (''os'', JStr ''ios''), (''store_name'', JStr ''app-store''),
    (''url'', JStr ''https://itunes.apple.com/us/app/nextcloud/id1125420102?mt=8'')],
    JDict [(''type'', JStr ''store''), (''os'', JStr ''android''), (''store_name'', JStr ''google-play''),
    (''url'', JStr ''https://play.google.com/store/apps/details?id=com.nextcloud.client'')],
    JDict [(''type'', JStr ''store''), (''os'', JStr ''android''), (''store_name'', JStr ''f-droid''),
    (''url'', JStr ''https://f-droid.org/packages/com.nextcloud.client'')]])]]"

definition nextcloud_backup :: "json" where
  "nextcloud_backup = JDict [(''data'', JDict [(''directories'', JList [JStr ''/var/lib/nextcloud/'']),
    (''files'', JList [JStr ''/var/lib/plinth/backups-data/nextcloud-database.sql''])])]"

definition nextcloud_tags :: "json" where
  "nextcloud_tags = JList [JStr ''File sync'', JStr ''Sharing'', JStr ''Groupware'', JStr ''Non-Debian'']"

subsection \<open>openvpn\<close>

definition openvpn_backup :: "json" where
  "openvpn_backup = JDict [(''secrets'', JDict [(''directories'', JList [JStr ''/etc/openvpn/''])])]"

definition openvpn_clients :: "json" where
  "openvpn_clients = JList [JDict [(''name'', JStr ''OpenVPN''),
    (''platforms'', JList [JDict [(''type'', JStr ''package''), (''format'', JStr ''deb''),
    (''name'', JStr ''openvpn'')], JDict [(''type'', JStr ''package''), (''format'', JStr ''brew''),
    (''name'', JStr ''openvpn'')], JDict [(''type'', JStr ''store''), (''os'', JStr ''android''),
    (''store_name'', JStr ''f-droid''),
    (''url'', JStr ''https://f-droid.org/packages/de.blinkt.openvpn'')], JDict [(''type'', JStr ''store''),
    (''os'', JStr ''android''), (''store_name'', JStr ''google-play''),
    (''url'', JStr ''https://play.google.com/store/apps/details?id=de.blinkt.openvpn'')],
    JDict [(''type'', JStr ''store''), (''os'', JStr ''ios''), (''store_name'', JStr ''app-store''),
    (''url'', JStr ''https://apps.apple.com/app/openvpn-connect/id590379981'')],
    JDict [(''type'', JStr ''download''), (''os'', JStr ''gnu-linux''),
    (''url'', JStr ''https://openvpn.net/community-downloads'')], JDict [(''type'', JStr ''download''),
    (''os'', JStr ''windows''), (''url'', JStr ''https://openvpn.net/community-downloads'')]])],
    JDict [(''name'', JStr ''Tunnelblick''), (''platforms'', JList [JDict [(''type'', JStr ''download''),
    (''os'', JStr ''macos''), (''url'', JStr ''https://tunnelblick.net/downloads.html'')]])]]"

definition openvpn_tags :: "json" where
  "openvpn_tags = JList [JStr ''VPN server'', JStr ''Privacy'', JStr ''Remote access'']"

subsection \<open>pagekite\<close>

definition pagekite_backup :: "json" where
  "pagekite_backup = JDict [(''config'', JDict [(''directories'', JList [JStr ''/etc/pagekite.d/''])]),
    (''services'', JList [JStr ''pagekite''])]"

definition pagekite_tags :: "json" where
  "pagekite_tags = JList [JStr ''Reachability'', JStr ''Remote access'', JStr ''Tunneling'']"

subsection \<open>performance\<close>

definition performance_clients :: "json" where
  "performance_clients = JList [JDict [(''name'', JStr ''Cockpit''),
    (''platforms'', JList [JDict [(''type'', JStr ''web''), (''url'', JStr ''/_cockpit/metrics'')]])]]"

definition performance_backup :: "json" where
  "performance_backup = JDict []"

definition performance_tags :: "json" where
  "performance_tags = JList [JStr ''Monitoring'', JStr ''Resource utilization'']"

subsection \<open>power\<close>

definition power_backup :: "json" where
  "power_backup = JDict []"

definition power_tags :: "json" where
  "power_tags = JList [JStr ''Reboot'', JStr ''Shutdown'']"

subsection \<open>privacy\<close>

definition privacy_backup :: "json" where
  "privacy_backup = JDict [(''config'', JDict [(''files'', JList [JStr ''/etc/popularity-contest.d/freedombox.conf''])])]"

definition privacy_tags :: "json" where
  "privacy_tags = JList [JStr ''Usage reporting'', JStr ''External services'', JStr ''Fallback DNS'']"

subsection \<open>privoxy\<close>

definition privoxy_backup :: "json" where
  "privoxy_backup = JDict []"

definition privoxy_tags :: "json" where
  "privoxy_tags = JList [JStr ''Ad blocker'', JStr ''Proxy server'', JStr ''Local network'']"

subsection \<open>quassel\<close>

definition quassel_clients :: "json" where
  "quassel_clients = JList [JDict [(''name'', JStr ''Quassel''),
    (''platforms'', JList [JDict [(''type'', JStr ''download''), (''os'', JStr ''gnu-linux''),
    (''url'', JStr ''http://quassel-irc.org/downloads'')], JDict [(''type'', JStr ''download''),
    (''os'', JStr ''macos''), (''url'', JStr ''http://quassel-irc.org/downloads'')],
    JDict [(''type'', JStr ''download''), (''os'', JStr ''windows''),
    (''url'', JStr ''http://quassel-irc.org/downloads'')], JDict [(''type'', JStr ''package''),
    (''format'', JStr ''deb''), (''name'', JStr ''quassel-client'')], JDict [(''type'', JStr ''package''),
    (''format'', JStr ''brew''), (''name'', JStr ''quassel-client'')]])],
    JDict [(''name'', JStr ''Quasseldroid''), (''platforms'', JList [JDict [(''type'', JStr ''store''),
    (''os'', JStr ''android''), (''store_name'', JStr ''f-droid''),
    (''url'', JStr ''https://f-droid.org/packages/com.iskrembilen.quasseldroid'')],
    JDict [(''type'', JStr ''store''), (''os'', JStr ''android''), (''store_name'', JStr ''google-play''),
    (''url'', JStr ''https://play.google.com/store/apps/details?id=com.iskrembilen.quasseldroid'')]])]]"

definition quassel_backup :: "json" where
  "quassel_backup = JDict [(''secrets'', JDict [(''directories'', JList [JStr ''/var/lib/quassel/''])]),
    (''services'', JList [JStr ''quasselcore''])]"

definition quassel_tags :: "json" where
  "quassel_tags = JList [JStr ''Chat room'', JStr ''IRC'', JStr ''Client'']"

subsection \<open>radicale\<close>

definition radicale_clients :: "json" where
  "radicale_clients = JList [JDict [(''name'', JStr ''DAVx5''),
    (''usage'', JStr ''Enter the URL of the Radicale server (e.g. https://<your.freedombox.address>) and your user name. DAVx5 will show all existing calendars and address books and you can create new.''),
    (''platforms'', JList [JDict [(''type'', JStr ''store''), (''os'', JStr ''android''),
    (''store_name'', JStr ''f-droid''),
    (''url'', JStr ''https://f-droid.org/packages/at.bitfire.davdroid'')],
    JDict [(''type'', JStr ''store''), (''os'', JStr ''android''), (''store_name'', JStr ''google-play''),
    (''url'', JStr ''https://play.google.com/store/apps/details?id=at.bitfire.davdroid'')]])],
    JDict [(''name'', JStr ''GNOME Calendar''), (''platforms'', JList [JDict [(''type'', JStr ''package''),
    (''format'', JStr ''deb''), (''name'', JStr ''gnome-calendar'')]])],
    JDict [(''name'', JStr ''Thunderbird''), (''platforms'', JList [JDict [(''type'', JStr ''package''),
    (''format'', JStr ''deb''), (''name'', JStr ''thunderbird'')], JDict [(''type'', JStr ''download''),
    (''os'', JStr ''gnu-linux''), (''url'', JStr ''https://www.thunderbird.net/'')],
    JDict [(''type'', JStr ''download''), (''os'', JStr ''macos''),
    (''url'', JStr ''https://www.thunderbird.net/'')], JDict [(''type'', JStr ''download''),
    (''os'', JStr ''windows''), (''url'', JStr ''https://www.thunderbird.net/'')]])],
    JDict [(''name'', JStr ''Evolution''),
    (''description'', JStr ''Evolution is a personal information management application that provides integrated mail, calendaring and address book functionality.''),
    (''usage'', JStr ''In Evolution add a new calendar and address book respectively with WebDAV. Enter the URL of the Radicale server (e.g. https://<your.freedombox.address>) and your user name. Clicking on the search button will list the existing calendars and address books.''),
    (''platforms'', JList [JDict [(''type'', JStr ''package''), (''format'', JStr ''deb''),
    (''name'', JStr ''evolution'')]])], JDict [(''name'', JStr ''Radicale''),
    (''platforms'', JList [JDict [(''type'', JStr ''web''), (''url'', JStr ''/radicale/'')]])]]"

definition radicale_backup :: "json" where
  "radicale_backup = JDict [(''config'', JDict [(''directories'', JList [JStr ''/etc/radicale/''])]),
    (''data'', JDict [(''directories'', JList [JStr ''/var/lib/private/radicale/'',
    JStr ''/var/lib/radicale/''])]), (''services'', JList [JStr ''uwsgi-app@radicale.socket''])]"

definition radicale_tags :: "json" where
  "radicale_tags = JList [JStr ''Calendar'', JStr ''Contacts'', JStr ''Server'', JStr ''CalDAV'',
    JStr ''CardDAV'']"

subsection \<open>roundcube\<close>

definition roundcube_clients :: "json" where
  "roundcube_clients = JList [JDict [(''name'', JStr ''Roundcube''),
    (''platforms'', JList [JDict [(''type'', JStr ''web''), (''url'', JStr ''/roundcube'')]])]]"

definition roundcube_backup :: "json" where
  "roundcube_backup = JDict [(''data'', JDict [(''files'', JList [JStr ''/etc/roundcube/freedombox-config.php'',
    JStr ''/var/lib/dbconfig-common/sqlite3/roundcube/roundcube''])])]"

definition roundcube_tags :: "json" where
  "roundcube_tags = JList [JStr ''Email'', JStr ''Contacts'', JStr ''Web client'']"

subsection \<open>rssbridge\<close>

definition rssbridge_clients :: "json" where
  "rssbridge_clients = JList [JDict [(''name'', JStr ''RSS-Bridge''),
    (''platforms'', JList [JDict [(''type'', JStr ''web''), (''url'', JStr ''/rss-bridge/'')]])]]"

definition rssbridge_backup :: "json" where
  "rssbridge_backup = JDict [(''data'', JDict [(''files'', JList [JStr ''/etc/rss-bridge/is_public''])])]"

definition rssbridge_tags :: "json" where
  "rssbridge_tags = JList [JStr ''Feed generator'', JStr ''News'', JStr ''RSS'', JStr ''ATOM'']"

subsection \<open>samba\<close>

definition samba_clients :: "json" where
  "samba_clients = JList [JDict [(''name'', JStr ''SambaLite''),
    (''platforms'', JList [JDict [(''type'', JStr ''store''), (''os'', JStr ''android''),
    (''store_name'', JStr ''f-droid''),
    (''url'', JStr ''https://f-droid.org/packages/de.schliweb.sambalite'')],
    JDict [(''type'', JStr ''store''), (''os'', JStr ''android''), (''store_name'', JStr ''google-play''),
    (''url'', JStr ''https://play.google.com/store/apps/details?id=de.schliweb.sambalite'')]])],
    JDict [(''name'', JStr ''Ghost Commander''), (''platforms'', JList [JDict [(''type'', JStr ''store''),
    (''os'', JStr ''android''), (''store_name'', JStr ''f-droid''),
    (''url'', JStr ''https://f-droid.org/packages/com.ghostsq.commander'')]])],
    JDict [(''name'', JStr ''VLC media player''), (''platforms'', JList [JDict [(''type'', JStr ''store''),
    (''os'', JStr ''android''), (''store_name'', JStr ''f-droid''),
    (''url'', JStr ''https://f-droid.org/packages/org.videolan.vlc'')], JDict [(''type'', JStr ''store''),
    (''os'', JStr ''android''), (''store_name'', JStr ''google-play''),
    (''url'', JStr ''https://play.google.com/store/apps/details?id=org.videolan.vlc'')],
    JDict [(''type'', JStr ''store''), (''os'', JStr ''ios''), (''store_name'', JStr ''app-store''),
    (''url'', JStr ''https://apps.apple.com/app/apple-store/id650377962'')]])],
    JDict [(''name'', JStr ''GNOME Files''), (''platforms'', JList [JDict [(''type'', JStr ''package''),
    (''format'', JStr ''deb''), (''name'', JStr ''nautilus'')], JDict [(''type'', JStr ''download''),
    (''os'', JStr ''gnu-linux''), (''url'', JStr ''https://wiki.gnome.org/Apps/Files'')]])],
    JDict [(''name'', JStr ''Dolphin''), (''platforms'', JList [JDict [(''type'', JStr ''package''),
    (''format'', JStr ''deb''), (''name'', JStr ''dolphin'')], JDict [(''type'', JStr ''download''),
    (''os'', JStr ''gnu-linux''),
    (''url'', JStr ''https://kde.org/applications/system/org.kde.dolphin'')]])]]"

definition samba_backup :: "json" where
  "samba_backup = JDict []"

definition samba_tags :: "json" where
  "samba_tags = JList [JStr ''File sharing'', JStr ''Local network'', JStr ''Network drive'',
    JStr ''Media storage'', JStr ''Backup storage'']"

subsection \<open>searx\<close>

definition searx_clients :: "json" where
  "searx_clients = JList [JDict [(''name'', JStr ''Searx''),
    (''platforms'', JList [JDict [(''type'', JStr ''web''), (''url'', JStr ''/searx/'')]])]]"

definition searx_backup :: "json" where
  "searx_backup = JDict [(''config'', JDict [(''files'', JList [JStr ''/etc/searx/allow_public_access''])])]"

definition searx_tags :: "json" where
  "searx_tags = JList [JStr ''Web search'', JStr ''Metasearch Engine'']"

subsection \<open>security\<close>

definition security_backup :: "json" where
  "security_backup = JDict [(''config'', JDict [(''files'', JList [JStr ''/etc/security/access.d/50freedombox.conf''])])]"

definition security_tags :: "json" where
  "security_tags = JList [JStr ''Automatic bans'', JStr ''Reports'']"

subsection \<open>shaarli\<close>

definition shaarli_clients :: "json" where
  "shaarli_clients = JList [JDict [(''name'', JStr ''Shaarlier''),
    (''platforms'', JList [JDict [(''type'', JStr ''store''), (''os'', JStr ''android''),
    (''store_name'', JStr ''google-play''),
    (''url'', JStr ''https://play.google.com/store/apps/details?id=com.dimtion.shaarlier'')],
    JDict [(''type'', JStr ''store''), (''os'', JStr ''android''), (''store_name'', JStr ''f-droid''),
    (''url'', JStr ''https://f-droid.org/packages/com.dimtion.shaarlier'')]])],
    JDict [(''name'', JStr ''Shaarli''), (''platforms'', JList [JDict [(''type'', JStr ''web''),
    (''url'', JStr ''/shaarli/'')]])]]"

definition shaarli_backup :: "json" where
  "shaarli_backup = JDict [(''data'', JDict [(''directories'', JList [JStr ''/var/lib/shaarli/data''])])]"

definition shaarli_tags :: "json" where
  "shaarli_tags = JList [JStr ''Bookmarks'', JStr ''Link blog'', JStr ''Single user'']"

subsection \<open>shadowsocks\<close>

definition shadowsocks_backup :: "json" where
  "shadowsocks_backup = JDict [(''secrets'', JDict [(''files'', JList [JStr ''/var/lib/private/shadowsocks-libev/freedombox/freedombox.json''])]),
    (''services'', JList [JStr ''shadowsocks-libev-local@freedombox''])]"

definition shadowsocks_tags :: "json" where
  "shadowsocks_tags = JList [JStr ''Proxy server'', JStr ''Censorship resistance'', JStr ''Encrypted tunnel'',
    JStr ''Entry point'', JStr ''Shadowsocks'']"

subsection \<open>shadowsocksserver\<close>

definition shadowsocksserver_backup :: "json" where
  "shadowsocksserver_backup = JDict [(''secrets'', JDict [(''files'', JList [JStr ''/var/lib/private/shadowsocks-libev/fbxserver/fbxserver.json''])]),
    (''services'', JList [JStr ''shadowsocks-libev-server@fbxserver''])]"

definition shadowsocksserver_tags :: "json" where
  "shadowsocksserver_tags = JList [JStr ''Censorship resistance'', JStr ''Encrypted tunnel'',
    JStr ''Exit point'', JStr ''Shadowsocks'']"

subsection \<open>sharing\<close>

definition sharing_backup :: "json" where
  "sharing_backup = JDict [(''config'', JDict [(''files'', JList [JStr ''/etc/apache2/conf-available/sharing-freedombox.conf''])]),
    (''services'', JList [JDict [(''type'', JStr ''apache''), (''kind'', JStr ''config''),
    (''name'', JStr ''sharing-freedombox'')]])]"

definition sharing_tags :: "json" where
  "sharing_tags = JList [JStr ''File sharing'', JStr ''Web sharing'']"

subsection \<open>snapshot\<close>

definition snapshot_backup :: "json" where
  "snapshot_backup = JDict [(''config'', JDict [(''files'', JList [JStr ''/etc/snapper/configs/root'',
    JStr ''/etc/default/snapper''])])]"

definition snapshot_tags :: "json" where
  "snapshot_tags = JList [JStr ''Periodic'', JStr ''Restore'', JStr ''Known good state'', JStr ''Btrfs'']"

subsection \<open>sogo\<close>

definition sogo_clients :: "json" where
  "sogo_clients = JList [JDict [(''name'', JStr ''SOGo''),
    (''platforms'', JList [JDict [(''type'', JStr ''web''), (''url'', JStr ''/SOGo/'')]])],
    JDict [(''name'', JStr ''Thunderbird + SOGo connector''),
    (''platforms'', JList [JDict [(''type'', JStr ''download''), (''os'', JStr ''gnu-linux''),
    (''url'', JStr ''https://www.sogo.nu/download.html#/frontends'')],
    JDict [(''type'', JStr ''download''), (''os'', JStr ''macos''),
    (''url'', JStr ''https://www.sogo.nu/download.html#/frontends'')],
    JDict [(''type'', JStr ''download''), (''os'', JStr ''windows''),
    (''url'', JStr ''https://www.sogo.nu/download.html#/frontends'')]])],
    JDict [(''name'', JStr ''DAVx5''), (''platforms'', JList [JDict [(''type'', JStr ''store''),
    (''os'', JStr ''android''), (''store_name'', JStr ''f-droid''),
    (''url'', JStr ''https://f-droid.org/packages/at.bitfire.davdroid'')],
    JDict [(''type'', JStr ''store''), (''os'', JStr ''android''), (''store_name'', JStr ''google-play''),
    (''url'', JStr ''https://play.google.com/store/apps/details?id=at.bitfire.davdroid'')]])],
    JDict [(''name'', JStr ''GNOME Calendar''), (''platforms'', JList [JDict [(''type'', JStr ''package''),
    (''format'', JStr ''deb''), (''name'', JStr ''gnome-calendar'')]])]]"

definition sogo_backup :: "json" where
  "sogo_backup = JDict [(''data'', JDict [(''files'', JList [JStr ''/var/lib/plinth/backups-data/sogo-database.sql''])]),
    (''services'', JList [JStr ''sogo'']),
    (''secrets'', JDict [(''directories'', JList [JStr ''/etc/sogo/sogo.conf''])])]"

definition sogo_tags :: "json" where
  "sogo_tags = JList [JStr ''Webmail'', JStr ''Groupware'', JStr ''Calendar'', JStr ''Address book'',
    JStr ''CalDAV'', JStr ''CardDAV'']"

subsection \<open>ssh\<close>

definition ssh_backup :: "json" where
  "ssh_backup = JDict [(''config'', JDict [(''files'', JList [JStr ''/etc/ssh/sshd_config.d/freedombox.conf''])]),
    (''secrets'', JDict [(''files'', JList [JStr ''/etc/ssh/ssh_host_ecdsa_key'',
    JStr ''/etc/ssh/ssh_host_ecdsa_key.pub'', JStr ''/etc/ssh/ssh_host_ed25519_key'',
    JStr ''/etc/ssh/ssh_host_ed25519_key.pub'', JStr ''/etc/ssh/ssh_host_rsa_key'',
    JStr ''/etc/ssh/ssh_host_rsa_key.pub''])])]"

definition ssh_tags :: "json" where
  "ssh_tags = JList [JStr ''SSH'', JStr ''Remote terminal'', JStr ''Fingerprints'']"

subsection \<open>storage\<close>

definition storage_backup :: "json" where
  "storage_backup = JDict []"

definition storage_tags :: "json" where
  "storage_tags = JList [JStr ''Disks'', JStr ''Usage'', JStr ''Auto-mount'', JStr ''Expand partition'']"

subsection \<open>syncthing\<close>

definition syncthing_clients :: "json" where
  "syncthing_clients = JList [JDict [(''name'', JStr ''Syncthing''),
    (''platforms'', JList [JDict [(''type'', JStr ''package''), (''format'', JStr ''deb''),
    (''name'', JStr ''syncthing'')], JDict [(''type'', JStr ''package''), (''format'', JStr ''brew''),
    (''name'', JStr ''syncthing'')], JDict [(''type'', JStr ''download''), (''os'', JStr ''gnu-linux''),
    (''url'', JStr ''https://syncthing.net/'')], JDict [(''type'', JStr ''download''),
    (''os'', JStr ''macos''), (''url'', JStr ''https://syncthing.net/'')],
    JDict [(''type'', JStr ''download''), (''os'', JStr ''windows''),
    (''url'', JStr ''https://syncthing.net/'')], JDict [(''type'', JStr ''store''),
    (''os'', JStr ''android''), (''store_name'', JStr ''google-play''),
    (''url'', JStr ''https://play.google.com/store/apps/details?id=com.github.catfriend1.syncthingandroid'')],
    JDict [(''type'', JStr ''store''), (''os'', JStr ''android''), (''store_name'', JStr ''f-droid''),
    (''url'', JStr ''https://f-droid.org/packages/com.github.catfriend1.syncthingandroid'')],
    JDict [(''type'', JStr ''web''), (''url'', JStr ''/syncthing'')]])]]"

definition syncthing_backup :: "json" where
  "syncthing_backup = JDict [(''secrets'', JDict [(''directories'', JList [JStr ''/var/lib/syncthing/.config'',
    JStr ''/var/lib/syncthing/.local''])]), (''services'', JList [JStr ''syncthing@syncthing''])]"

definition syncthing_tags :: "json" where
  "syncthing_tags = JList [JStr ''File sync'', JStr ''File sharing'', JStr ''P2P'']"

subsection \<open>tiddlywiki\<close>

definition tiddlywiki_clients :: "json" where
  "tiddlywiki_clients = JList [JDict [(''name'', JStr ''TiddlyWiki''),
    (''platforms'', JList [JDict [(''type'', JStr ''web''), (''url'', JStr ''/tiddlywiki/'')]])]]"

definition tiddlywiki_backup :: "json" where
  "tiddlywiki_backup = JDict [(''data'', JDict [(''directories'', JList [JStr ''/var/lib/tiddlywiki''])])]"

definition tiddlywiki_tags :: "json" where
  "tiddlywiki_tags = JList [JStr ''Wiki'', JStr ''Note taking'', JStr ''Website'', JStr ''Journal'',
    JStr ''Digital garden'', JStr ''Zettelkasten'', JStr ''Quine'', JStr ''Non-Debian'']"

subsection \<open>tor\<close>

definition tor_clients :: "json" where
  "tor_clients = JList [JDict [(''name'', JStr ''Tor Browser''),
    (''platforms'', JList [JDict [(''type'', JStr ''download''), (''os'', JStr ''windows''),
    (''url'', JStr ''https://www.torproject.org/download/download-easy.html'')],
    JDict [(''type'', JStr ''download''), (''os'', JStr ''gnu-linux''),
    (''url'', JStr ''https://www.torproject.org/download/download-easy.html'')],
    JDict [(''type'', JStr ''download''), (''os'', JStr ''macos''),
    (''url'', JStr ''https://www.torproject.org/download/download-easy.html'')]])],
    JDict [(''name'', JStr ''Orbot: Proxy with Tor''),
    (''platforms'', JList [JDict [(''type'', JStr ''store''), (''os'', JStr ''android''),
    (''store_name'', JStr ''google-play''),
    (''url'', JStr ''https://play.google.com/store/apps/details?id=org.torproject.android'')],
    JDict [(''type'', JStr ''store''), (''os'', JStr ''android''), (''store_name'', JStr ''f-droid''),
    (''url'', JStr ''https://f-droid.org/packages/org.torproject.android'')]])]]"

definition tor_backup :: "json" where
  "tor_backup = JDict [(''config'', JDict [(''directories'', JList [JStr ''/etc/tor/instances/plinth/'']),
    (''files'', JList [JStr ''/etc/apache2/conf-available/onion-location-freedombox.conf''])]),
    (''secrets'', JDict [(''directories'', JList [JStr ''/var/lib/tor-instances/plinth/''])]),
    (''services'', JList [JStr ''tor@plinth''])]"

definition tor_tags :: "json" where
  "tor_tags = JList [JStr ''Onion services'', JStr ''Relay'', JStr ''Anonymity network'',
    JStr ''Censorship resistance'', JStr ''Tor'']"

subsection \<open>torproxy\<close>

definition torproxy_clients :: "json" where
  "torproxy_clients = JList [JDict [(''name'', JStr ''Tor Browser''),
    (''platforms'', JList [JDict [(''type'', JStr ''download''), (''os'', JStr ''windows''),
    (''url'', JStr ''https://www.torproject.org/download/download-easy.html'')],
    JDict [(''type'', JStr ''download''), (''os'', JStr ''gnu-linux''),
    (''url'', JStr ''https://www.torproject.org/download/download-easy.html'')],
    JDict [(''type'', JStr ''download''), (''os'', JStr ''macos''),
    (''url'', JStr ''https://www.torproject.org/download/download-easy.html'')]])],
    JDict [(''name'', JStr ''Orbot: Proxy with Tor''),
    (''platforms'', JList [JDict [(''type'', JStr ''store''), (''os'', JStr ''android''),
    (''store_name'', JStr ''google-play''),
    (''url'', JStr ''https://play.google.com/store/apps/details?id=org.torproject.android'')],
    JDict [(''type'', JStr ''store''), (''os'', JStr ''android''), (''store_name'', JStr ''f-droid''),
    (''url'', JStr ''https://f-droid.org/packages/org.torproject.android'')]])]]"

definition torproxy_backup :: "json" where
  "torproxy_backup = JDict [(''config'', JDict [(''directories'', JList [JStr ''/etc/tor/instances/fbxproxy/''])]),
    (''secrets'', JDict [(''directories'', JList [JStr ''/var/lib/tor-instances/fbxproxy/''])]),
    (''services'', JList [JStr ''tor@fbxproxy''])]"

definition torproxy_tags :: "json" where
  "torproxy_tags = JList [JStr ''Proxy server'', JStr ''Anonymity network'', JStr ''Censorship resistance'',
    JStr ''Tor'']"

subsection \<open>transmission\<close>

definition transmission_clients :: "json" where
  "transmission_clients = JList [JDict [(''name'', JStr ''Transmission''),
    (''platforms'', JList [JDict [(''type'', JStr ''web''), (''url'', JStr ''/transmission'')]])],
    JDict [(''name'', JStr ''Tremotesf''), (''platforms'', JList [JDict [(''type'', JStr ''store''),
    (''os'', JStr ''android''), (''store_name'', JStr ''f-droid''),
    (''url'', JStr ''https://f-droid.org/packages/org.equeim.tremotesf'')],
    JDict [(''type'', JStr ''store''), (''os'', JStr ''android''), (''store_name'', JStr ''google-play''),
    (''url'', JStr ''https://play.google.com/store/apps/details?id=org.equeim.tremotesf'')]])]]"

definition transmission_backup :: "json" where
  "transmission_backup = JDict [(''data'', JDict [(''directories'', JList [JStr ''/var/lib/transmission-daemon/.config''])]),
    (''secrets'', JDict [(''files'', JList [JStr ''/etc/transmission-daemon/settings.json''])]),
    (''services'', JList [JStr ''transmission-daemon''])]"

definition transmission_tags :: "json" where
  "transmission_tags = JList [JStr ''File sharing'', JStr ''BitTorrent'', JStr ''Web client'', JStr ''P2P'']"

subsection \<open>upgrades\<close>

definition upgrades_backup :: "json" where
  "upgrades_backup = JDict [(''config'', JDict [(''files'', JList [JStr ''/etc/apt/apt.conf.d/20auto-upgrades''])])]"

definition upgrades_tags :: "json" where
  "upgrades_tags = JList [JStr ''Security'', JStr ''Automatic'', JStr ''Reboots'', JStr ''New features'']"

subsection \<open>users\<close>

definition users_tags :: "json" where
  "users_tags = JList [JStr ''Manage accounts'', JStr ''App permissions'']"

subsection \<open>wireguard\<close>

definition wireguard_clients :: "json" where
  "wireguard_clients = JList [JDict [(''name'', JStr ''WireGuard''),
    (''platforms'', JList [JDict [(''type'', JStr ''download''), (''os'', JStr ''windows''),
    (''url'', JStr ''https://download.wireguard.com/windows-client/wireguard-installer.exe'')],
    JDict [(''type'', JStr ''download''), (''os'', JStr ''macos''),
    (''url'', JStr ''https://apps.apple.com/us/app/wireguard/id1451685025'')],
    JDict [(''type'', JStr ''package''), (''format'', JStr ''deb''), (''name'', JStr ''wireguard'')],
    JDict [(''type'', JStr ''package''), (''format'', JStr ''rpm''), (''name'', JStr ''wireguard-tools'')],
    JDict [(''type'', JStr ''package''), (''format'', JStr ''brew''),
    (''name'', JStr ''wireguard-tools'')], JDict [(''type'', JStr ''download''),
    (''os'', JStr ''android''),
    (''url'', JStr ''https://www.wireguard.com/install/#android-play-store-direct-apk-file'')],
    JDict [(''type'', JStr ''store''), (''os'', JStr ''android''), (''store_name'', JStr ''google-play''),
    (''url'', JStr ''https://play.google.com/store/apps/details?id=com.wireguard.android'')],
    JDict [(''type'', JStr ''store''), (''os'', JStr ''ios''), (''store_name'', JStr ''app-store''),
    (''url'', JStr ''https://apps.apple.com/us/app/wireguard/id1441195209'')]])]]"

definition wireguard_tags :: "json" where
  "wireguard_tags = JList [JStr ''VPN client'', JStr ''VPN server'', JStr ''Privacy'', JStr ''Remote access'']"

subsection \<open>wordpress\<close>

definition wordpress_clients :: "json" where
  "wordpress_clients = JList [JDict [(''name'', JStr ''WordPress''),
    (''platforms'', JList [JDict [(''type'', JStr ''web''), (''url'', JStr ''/wordpress/'')]])]]"

definition wordpress_backup :: "json" where
  "wordpress_backup = JDict [(''data'', JDict [(''files'', JList [JStr ''/var/lib/plinth/backups-data/wordpress-database.sql'',
    JStr ''/etc/wordpress/is_public'']), (''directories'', JList [JStr ''/var/lib/wordpress/''])]),
    (''secrets'', JDict [(''directories'', JList [JStr ''/etc/wordpress/''])])]"

definition wordpress_tags :: "json" where
  "wordpress_tags = JList [JStr ''Website'', JStr ''Blog'', JStr ''Content management system'']"

subsection \<open>zoph\<close>

definition zoph_clients :: "json" where
  "zoph_clients = JList [JDict [(''name'', JStr ''Zoph''),
    (''platforms'', JList [JDict [(''type'', JStr ''web''), (''url'', JStr ''/zoph/'')]])]]"

definition zoph_backup :: "json" where
  "zoph_backup = JDict [(''data'', JDict [(''files'', JList [JStr ''/var/lib/plinth/backups-data/zoph-database.sql'']),
    (''directories'', JList [JStr ''/var/lib/zoph/''])]),
    (''secrets'', JDict [(''files'', JList [JStr ''/etc/zoph.ini'',
    JStr ''/etc/dbconfig-common/zoph.conf''])])]"

definition zoph_tags :: "json" where
  "zoph_tags = JList [JStr ''Photo'', JStr ''Organizer'', JStr ''Web sharing'']"

end
