(* ===== verification/ShippedAppsAK.thy ===== *)
theory ShippedAppsAK
  imports AppDecls Manifests
begin

text \<open>
  The components that the apps apache to kiwix declare (\<open>__init__\<close> of the app classes), in the order in
  which they are added.
\<close>

definition apache_decl :: "string \<Rightarrow> app_decl" where
  "apache_decl box_name = App_Decl ''apache'' True True
    [Component_Decl ''Info'' [(''app_id'', Lit (JStr ''apache'')), (''version'', Lit (JInt 17)),
       (''is_essential'', Lit (JBool True)), (''name'', Lit (JStr ''Apache HTTP Server''))],
     Component_Decl ''Packages'' [(''component_id'', Lit (JStr ''packages-apache'')),
       (''packages'', Lit (JList [JStr ''apache2'', JStr ''php-fpm'', JStr ''ssl-cert'',
       JStr ''libapache2-mod-auth-openidc'']))],
     Component_Decl ''DropinConfigs'' [(''component_id'', Lit (JStr ''dropin-configs-apache'')),
       (''etc_paths'', Lit (JList [JStr ''/etc/apache2/conf-available/10-freedombox.conf'',
       JStr ''/etc/apache2/conf-available/php-fpm-freedombox.conf'',
       JStr ''/etc/fail2ban/jail.d/apache-auth-freedombox.conf'']))],
     Component_Decl ''Firewall'' [(''component_id'', Lit (JStr ''firewall-web'')),
       (''name'', Lit (JStr ''Web Server'')), (''ports'', Lit (JList [JStr ''http'', JStr ''https''])),
       (''is_external'', Lit (JBool True))],
     Component_Decl ''Firewall'' [(''component_id'', Lit (JStr ''firewall-plinth'')),
       (''name'', Lit (JStr (box_name @ '' Web Interface (Plinth)''))),
       (''ports'', Lit (JList [JStr ''http'', JStr ''https''])), (''is_external'', Lit (JBool True))],
     Component_Decl ''LetsEncrypt'' [(''component_id'', Lit (JStr ''letsencrypt-apache'')),
       (''domains'', Lit (JStr ''*'')), (''daemons'', Lit (JList [JStr ''apache2''])),
       (''reload_daemons'', Lit (JBool True))],
     Component_Decl ''OpenIDConnect'' [(''component_id'', Lit (JStr ''openidconnect-apache'')),
       (''client_id'', Lit (JStr ''apache'')), (''name'', Lit (JStr ''Web app protected by FreedomBox'')),
       (''redirect_uris'', Lit (JList [JStr ''https://{domain}/apache/oidc/callback''])),
       (''skip_authorization'', Lit (JBool True))],
     Component_Decl ''Daemon'' [(''component_id'', Lit (JStr ''daemon-apache'')),
       (''unit'', Lit (JStr ''apache2''))]]"

definition api_decl :: "app_decl" where
  "api_decl = App_Decl ''api'' True True
    [Component_Decl ''Info'' [(''app_id'', Lit (JStr ''api'')), (''version'', Lit (JInt 1)),
       (''is_essential'', Lit (JBool True))]]"

definition avahi_decl :: "app_decl" where
  "avahi_decl = App_Decl ''avahi'' True True
    [Component_Decl ''Info'' [(''app_id'', Lit (JStr ''avahi'')), (''version'', Lit (JInt 1)),
       (''is_essential'', Lit (JBool True)), (''depends'', Lit (JList [JStr ''names''])),
       (''name'', Lit (JStr ''Service Discovery'')), (''icon'', Lit (JStr ''fa-compass'')),
       (''description'', Code ''_description''), (''manual_page'', Lit (JStr ''ServiceDiscovery'')),
       (''tags'', Lit avahi_tags)],
     Component_Decl ''Menu'' [(''component_id'', Lit (JStr ''menu-avahi'')),
       (''name'', Lit (JStr ''Service Discovery'')), (''icon'', Lit (JStr ''fa-compass'')),
       (''tags'', Lit avahi_tags), (''url_name'', Lit (JStr ''avahi:index'')),
       (''parent_url_name'', Lit (JStr ''system:visibility'')), (''order'', Lit (JInt 50))],
     Component_Decl ''Packages'' [(''component_id'', Lit (JStr ''packages-avahi'')),
       (''packages'', Lit (JList [JStr ''avahi-daemon'', JStr ''avahi-utils'']))],
     Component_Decl ''DomainType'' [(''component_id'', Lit (JStr ''domain-type-local'')),
       (''display_name'', Lit (JStr ''Local Network Domain'')),
       (''configuration_url'', Lit (JStr ''names:hostname'')),
       (''can_have_certificate'', Lit (JBool False)), (''priority'', Lit (JInt 10))],
     Component_Decl ''Firewall'' [(''component_id'', Lit (JStr ''firewall-avahi'')),
       (''name'', Lit (JStr ''Service Discovery'')), (''ports'', Lit (JList [JStr ''mdns''])),
       (''is_external'', Lit (JBool False))],
     Component_Decl ''Daemon'' [(''component_id'', Lit (JStr ''daemon-avahi'')),
       (''unit'', Lit (JStr ''avahi-daemon''))],
     Component_Decl ''BackupRestore'' ([(''component_id'', Lit (JStr ''backup-restore-avahi''))] @ splat avahi_backup)]"

definition backups_decl :: "app_decl" where
  "backups_decl = App_Decl ''backups'' False True
    [Component_Decl ''Info'' [(''app_id'', Lit (JStr ''backups'')), (''version'', Lit (JInt 4)),
       (''is_essential'', Lit (JBool True)), (''depends'', Lit (JList [JStr ''storage''])),
       (''name'', Lit (JStr ''Backups'')), (''icon'', Lit (JStr ''fa-files-o'')),
       (''description'', Code ''_description''), (''manual_page'', Lit (JStr ''Backups'')),
       (''donation_url'', Lit (JStr ''https://www.borgbackup.org/support/fund.html'')),
       (''tags'', Lit backups_tags)],
     Component_Decl ''Menu'' [(''component_id'', Lit (JStr ''menu-backups'')),
       (''name'', Lit (JStr ''Backups'')), (''icon'', Lit (JStr ''fa-files-o'')),
       (''tags'', Lit backups_tags), (''url_name'', Lit (JStr ''backups:index'')),
       (''parent_url_name'', Lit (JStr ''system:data'')), (''order'', Lit (JInt 20))],
     Component_Decl ''Packages'' [(''component_id'', Lit (JStr ''packages-backups'')),
       (''packages'', Lit (JList [JStr ''borgbackup'', JStr ''sshfs'', JStr ''sshpass'']))]]"

definition bepasty_decl :: "app_decl" where
  "bepasty_decl = App_Decl ''bepasty'' True True
    [Component_Decl ''Info'' [(''app_id'', Lit (JStr ''bepasty'')), (''version'', Lit (JInt 5)),
       (''name'', Lit (JStr ''bepasty'')), (''icon_filename'', Lit (JStr ''bepasty'')),
       (''description'', Code ''_description''), (''manual_page'', Lit (JStr ''bepasty'')),
       (''clients'', Lit bepasty_clients), (''tags'', Lit bepasty_tags)],
     Component_Decl ''Menu'' [(''component_id'', Lit (JStr ''menu-bepasty'')),
       (''name'', Lit (JStr ''bepasty'')), (''icon'', Lit (JStr ''bepasty'')),
       (''tags'', Lit bepasty_tags), (''url_name'', Lit (JStr ''bepasty:index'')),
       (''parent_url_name'', Lit (JStr ''apps''))],
     Component_Decl ''Shortcut'' [(''component_id'', Lit (JStr ''shortcut-bepasty'')),
       (''name'', Lit (JStr ''bepasty'')), (''icon'', Lit (JStr ''bepasty'')),
       (''url'', Lit (JStr ''/bepasty'')), (''clients'', Lit bepasty_clients), (''tags'', Lit bepasty_tags)],
     Component_Decl ''Packages'' [(''component_id'', Lit (JStr ''packages-bepasty'')),
       (''packages'', Lit (JList [JStr ''bepasty'', JStr ''uwsgi'', JStr ''uwsgi-plugin-python3'']))],
     Component_Decl ''DropinConfigs'' [(''component_id'', Lit (JStr ''dropin-configs-bepasty'')),
       (''etc_paths'', Lit (JList [JStr ''/etc/apache2/conf-available/bepasty-freedombox.conf'',
       JStr ''/etc/uwsgi/apps-available/bepasty-freedombox.ini'']))],
     Component_Decl ''Firewall'' [(''component_id'', Lit (JStr ''firewall-bepasty'')),
       (''name'', Lit (JStr ''bepasty'')), (''ports'', Lit (JList [JStr ''http'', JStr ''https''])),
       (''is_external'', Lit (JBool True))],
     Component_Decl ''Daemon'' [(''component_id'', Lit (JStr ''daemon-bepasty'')),
       (''unit'', Lit (JStr ''uwsgi-app@bepasty-freedombox.socket''))],
     Component_Decl ''Webserver'' [(''component_id'', Lit (JStr ''webserver-bepasty'')),
       (''web_name'', Lit (JStr ''bepasty-freedombox'')),
       (''urls'', Lit (JList [JStr ''https://{host}/bepasty/'']))],
     Component_Decl ''BackupRestore'' ([(''component_id'', Lit (JStr ''backup-restore-bepasty''))] @ splat bepasty_backup),
     Component_Decl ''RelatedDaemon'' [(''component_id'', Lit (JStr ''related-daemon-bepasty'')),
       (''unit'', Lit (JStr ''uwsgi''))]]"

definition bind_decl :: "app_decl" where
  "bind_decl = App_Decl ''bind'' True True
    [Component_Decl ''Info'' [(''app_id'', Lit (JStr ''bind'')), (''version'', Lit (JInt 4)),
       (''name'', Lit (JStr ''BIND'')), (''icon'', Lit (JStr ''fa-globe-w'')),
       (''description'', Code ''_description''), (''manual_page'', Lit (JStr ''Bind'')),
       (''tags'', Lit bind_tags)],
     Component_Decl ''Menu'' [(''component_id'', Lit (JStr ''menu-bind'')), (''name'', Lit (JStr ''BIND'')),
       (''icon'', Lit (JStr ''fa-globe-w'')), (''tags'', Lit bind_tags),
       (''url_name'', Lit (JStr ''bind:index'')), (''parent_url_name'', Lit (JStr ''system:visibility'')),
       (''order'', Lit (JInt 30))],
     Component_Decl ''Packages'' [(''component_id'', Lit (JStr ''packages-bind'')),
       (''packages'', Lit (JList [JStr ''bind9'']))],
     Component_Decl ''Firewall'' [(''component_id'', Lit (JStr ''firewall-bind'')),
       (''name'', Lit (JStr ''BIND'')), (''ports'', Lit (JList [JStr ''dns''])),
       (''is_external'', Lit (JBool False))],
     Component_Decl ''Daemon'' [(''component_id'', Lit (JStr ''daemon-bind'')),
       (''unit'', Lit (JStr ''named'')), (''listen_ports'', Lit (JList [JList [JInt 53, JStr ''tcp6''],
       JList [JInt 53, JStr ''udp6''], JList [JInt 53, JStr ''tcp4''], JList [JInt 53, JStr ''udp4'']]))],
     Component_Decl ''BackupRestore'' ([(''component_id'', Lit (JStr ''backup-restore-bind''))] @ splat bind_backup)]"

definition calibre_decl :: "app_decl" where
  "calibre_decl = App_Decl ''calibre'' True True
    [Component_Decl ''Info'' [(''app_id'', Lit (JStr ''calibre'')), (''version'', Lit (JInt 3)),
       (''name'', Lit (JStr ''calibre'')), (''icon_filename'', Lit (JStr ''calibre'')),
       (''description'', Code ''_description''), (''manual_page'', Lit (JStr ''Calibre'')),
       (''clients'', Lit calibre_clients), (''tags'', Lit calibre_tags),
       (''donation_url'', Lit (JStr ''https://calibre-ebook.com/donate''))],
     Component_Decl ''Menu'' [(''component_id'', Lit (JStr ''menu-calibre'')),
       (''name'', Lit (JStr ''calibre'')), (''icon'', Lit (JStr ''calibre'')),
       (''tags'', Lit calibre_tags), (''url_name'', Lit (JStr ''calibre:index'')),
       (''parent_url_name'', Lit (JStr ''apps''))],
     Component_Decl ''Shortcut'' [(''component_id'', Lit (JStr ''shortcut-calibre'')),
       (''name'', Lit (JStr ''calibre'')), (''icon'', Lit (JStr ''calibre'')),
       (''url'', Lit (JStr ''/calibre'')), (''clients'', Lit calibre_clients),
       (''tags'', Lit calibre_tags), (''login_required'', Lit (JBool True)),
       (''allowed_groups'', Lit (JList [JStr ''calibre'']))],
     Component_Decl ''Packages'' [(''component_id'', Lit (JStr ''packages-calibre'')),
       (''packages'', Lit (JList [JStr ''calibre'']))],
     Component_Decl ''DropinConfigs'' [(''component_id'', Lit (JStr ''dropin-configs-calibre'')),
       (''etc_paths'', Lit (JList [JStr ''/etc/apache2/conf-available/calibre-freedombox.conf'']))],
     Component_Decl ''Firewall'' [(''component_id'', Lit (JStr ''firewall-calibre'')),
       (''name'', Lit (JStr ''calibre'')), (''ports'', Lit (JList [JStr ''http'', JStr ''https''])),
       (''is_external'', Lit (JBool True))],
     Component_Decl ''FirewallLocalProtection'' [(''component_id'', Lit (JStr ''firewall-local-protection-calibre'')),
       (''tcp_ports'', Lit (JList [JStr ''8844'']))],
     Component_Decl ''Webserver'' [(''component_id'', Lit (JStr ''webserver-calibre'')),
       (''web_name'', Lit (JStr ''calibre-freedombox'')),
       (''urls'', Lit (JList [JStr ''https://{host}/calibre'']))],
     Component_Decl ''Daemon'' [(''component_id'', Lit (JStr ''daemon-calibre'')),
       (''unit'', Lit (JStr ''calibre-server-freedombox'')),
       (''listen_ports'', Lit (JList [JList [JInt 8844, JStr ''tcp4'']]))],
     Component_Decl ''UsersAndGroups'' [(''component_id'', Lit (JStr ''users-and-groups-calibre'')),
       (''reserved_usernames'', Lit (JList [JStr ''calibre''])),
       (''groups'', Lit (JDict [(''calibre'', JStr ''Use calibre e-book libraries'')]))],
     Component_Decl ''BackupRestore'' ([(''component_id'', Lit (JStr ''backup-restore-calibre''))] @ splat calibre_backup)]"

definition cockpit_decl :: "app_decl" where
  "cockpit_decl = App_Decl ''cockpit'' True True
    [Component_Decl ''Info'' [(''app_id'', Lit (JStr ''cockpit'')), (''version'', Lit (JInt 3)),
       (''depends'', Lit (JList [JStr ''apache''])), (''is_essential'', Lit (JBool True)),
       (''name'', Lit (JStr ''Cockpit'')), (''icon'', Lit (JStr ''fa-wrench'')),
       (''icon_filename'', Lit (JStr ''cockpit'')), (''description'', Code ''_description''),
       (''manual_page'', Lit (JStr ''Cockpit'')), (''clients'', Lit cockpit_clients),
       (''tags'', Lit cockpit_tags)],
     Component_Decl ''Menu'' [(''component_id'', Lit (JStr ''menu-cockpit'')),
       (''name'', Lit (JStr ''Cockpit'')), (''icon'', Lit (JStr ''fa-wrench'')),
       (''tags'', Lit cockpit_tags), (''url_name'', Lit (JStr ''cockpit:index'')),
       (''parent_url_name'', Lit (JStr ''system:administration'')), (''order'', Lit (JInt 20))],
     Component_Decl ''Shortcut'' [(''component_id'', Lit (JStr ''shortcut-cockpit'')),
       (''name'', Lit (JStr ''Cockpit'')), (''icon'', Lit (JStr ''cockpit'')),
       (''url'', Lit (JStr ''/_cockpit/'')), (''clients'', Lit cockpit_clients),
       (''tags'', Lit cockpit_tags), (''login_required'', Lit (JBool True)),
       (''allowed_groups'', Lit (JList [JStr ''admin'']))],
     Component_Decl ''Packages'' [(''component_id'', Lit (JStr ''packages-cockpit'')),
       (''packages'', Lit (JList [JStr ''cockpit'']))],
     Component_Decl ''DropinConfigs'' [(''component_id'', Lit (JStr ''dropin-configs-cockpit'')),
       (''etc_paths'', Lit (JList [JStr ''/etc/apache2/conf-available/cockpit-freedombox.conf'']))],
     Component_Decl ''Firewall'' [(''component_id'', Lit (JStr ''firewall-cockpit'')),
       (''name'', Lit (JStr ''Cockpit'')), (''ports'', Lit (JList [JStr ''http'', JStr ''https''])),
       (''is_external'', Lit (JBool True))],
     Component_Decl ''Webserver'' [(''component_id'', Lit (JStr ''webserver-cockpit'')),
       (''web_name'', Lit (JStr ''cockpit-freedombox'')),
       (''urls'', Lit (JList [JStr ''https://{host}/_cockpit/'']))],
     Component_Decl ''Daemon'' [(''component_id'', Lit (JStr ''daemon-cockpit'')),
       (''unit'', Lit (JStr ''cockpit.socket''))],
     Component_Decl ''BackupRestore'' ([(''component_id'', Lit (JStr ''backup-restore-cockpit''))] @ splat cockpit_backup)]"

definition config_decl :: "app_decl" where
  "config_decl = App_Decl ''config'' False True
    [Component_Decl ''Info'' [(''app_id'', Lit (JStr ''config'')), (''version'', Lit (JInt 6)),
       (''is_essential'', Lit (JBool True)), (''depends'', Lit (JList [JStr ''apache'', JStr ''firewall'',
       JStr ''names''])), (''name'', Lit (JStr ''General Configuration'')),
       (''icon'', Lit (JStr ''fa-cog'')), (''description'', Code ''_description''),
       (''manual_page'', Lit (JStr ''Configure'')), (''tags'', Lit config_tags)],
     Component_Decl ''Menu'' [(''component_id'', Lit (JStr ''menu-config'')),
       (''name'', Lit (JStr ''Configure'')), (''icon'', Lit (JStr ''fa-cog'')),
       (''tags'', Lit config_tags), (''url_name'', Lit (JStr ''config:index'')),
       (''parent_url_name'', Lit (JStr ''system:system'')), (''order'', Lit (JInt 30))],
     Component_Decl ''Packages'' [(''component_id'', Lit (JStr ''packages-config'')),
       (''packages'', Lit (JList [JStr ''zram-tools'']))],
     Component_Decl ''RelatedDaemon'' [(''component_id'', Lit (JStr ''related-daemon-config1'')),
       (''unit'', Lit (JStr ''systemd-journald''))],
     Component_Decl ''RelatedDaemon'' [(''component_id'', Lit (JStr ''related-daemon-config2'')),
       (''unit'', Lit (JStr ''rsyslog''))]]"

definition coturn_decl :: "app_decl" where
  "coturn_decl = App_Decl ''coturn'' True True
    [Component_Decl ''Info'' [(''app_id'', Lit (JStr ''coturn'')), (''version'', Lit (JInt 2)),
       (''name'', Lit (JStr ''Coturn'')), (''icon_filename'', Lit (JStr ''coturn'')),
       (''description'', Code ''_description''), (''manual_page'', Lit (JStr ''Coturn'')),
       (''tags'', Lit coturn_tags)],
     Component_Decl ''Menu'' [(''component_id'', Lit (JStr ''menu-coturn'')), (''name'', Lit (JStr ''Coturn'')),
       (''icon'', Lit (JStr ''coturn'')), (''tags'', Lit coturn_tags),
       (''url_name'', Lit (JStr ''coturn:index'')), (''parent_url_name'', Lit (JStr ''apps''))],
     Component_Decl ''Packages'' [(''component_id'', Lit (JStr ''packages-coturn'')),
       (''packages'', Lit (JList [JStr ''coturn'', JStr ''sqlite3'']))],
     Component_Decl ''Firewall'' [(''component_id'', Lit (JStr ''firewall-coturn'')),
       (''name'', Lit (JStr ''Coturn'')), (''ports'', Lit (JList [JStr ''coturn-freedombox''])),
       (''is_external'', Lit (JBool True))],
     Component_Decl ''LetsEncrypt'' [(''component_id'', Lit (JStr ''letsencrypt-coturn'')),
       (''domains'', Code ''get_domains''), (''daemons'', Lit (JList [JStr ''coturn''])),
       (''should_copy_certificates'', Lit (JBool True)),
       (''private_key_path'', Lit (JStr ''/etc/coturn/certs/pkey.pem'')),
       (''certificate_path'', Lit (JStr ''/etc/coturn/certs/cert.pem'')),
       (''user_owner'', Lit (JStr ''turnserver'')), (''group_owner'', Lit (JStr ''turnserver'')),
       (''managing_app'', Lit (JStr ''coturn''))],
     Component_Decl ''Daemon'' [(''component_id'', Lit (JStr ''daemon-coturn'')),
       (''unit'', Lit (JStr ''coturn'')), (''listen_ports'', Lit (JList [JList [JInt 3478, JStr ''udp4''],
       JList [JInt 3478, JStr ''udp6''], JList [JInt 3478, JStr ''tcp4''],
       JList [JInt 3478, JStr ''tcp6''], JList [JInt 3479, JStr ''udp4''],
       JList [JInt 3479, JStr ''udp6''], JList [JInt 3479, JStr ''tcp4''],
       JList [JInt 3479, JStr ''tcp6''], JList [JInt 5349, JStr ''udp4''],
       JList [JInt 5349, JStr ''udp6''], JList [JInt 5349, JStr ''tcp4''],
       JList [JInt 5349, JStr ''tcp6''], JList [JInt 5350, JStr ''udp4''],
       JList [JInt 5350, JStr ''udp6''], JList [JInt 5350, JStr ''tcp4''],
       JList [JInt 5350, JStr ''tcp6'']]))],
     Component_Decl ''UsersAndGroups'' [(''component_id'', Lit (JStr ''users-and-groups-coturn'')),
       (''reserved_usernames'', Lit (JList [JStr ''turnserver'']))],
     Component_Decl ''BackupRestore'' ([(''component_id'', Lit (JStr ''backup-restore-coturn''))] @ splat coturn_backup)]"

definition datetime_decl :: "bool \<Rightarrow> app_decl" where
  "datetime_decl time_managed = App_Decl ''datetime'' True True
    ([Component_Decl ''Info'' [(''app_id'', Lit (JStr ''datetime'')), (''version'', Lit (JInt 2)),
       (''is_essential'', Lit (JBool True)), (''name'', Lit (JStr ''Date & Time'')),
       (''icon'', Lit (JStr ''fa-clock-o'')), (''description'', Code ''_description''),
       (''manual_page'', Lit (JStr ''DateTime'')), (''tags'', Lit datetime_tags)],
     Component_Decl ''Menu'' [(''component_id'', Lit (JStr ''menu-datetime'')),
       (''name'', Lit (JStr ''Date & Time'')), (''icon'', Lit (JStr ''fa-clock-o'')),
       (''tags'', Lit datetime_tags), (''url_name'', Lit (JStr ''datetime:index'')),
       (''parent_url_name'', Lit (JStr ''system:system'')), (''order'', Lit (JInt 40))],
     Component_Decl ''Packages'' [(''component_id'', Lit (JStr ''packages-datetime'')),
       (''packages'', Lit (JList [JStr ''systemd-timesyncd'']))],
     Component_Decl ''RelatedDaemon'' [(''component_id'', Lit (JStr ''daemon-datetime-timedated'')),
       (''unit'', Lit (JStr ''systemd-timedated''))]] @
    (if time_managed then [Component_Decl ''Daemon'' [(''component_id'', Lit (JStr ''daemon-datetime'')),
       (''unit'', Lit (JStr ''systemd-timesyncd''))]] else []) @
    [Component_Decl ''BackupRestore'' ([(''component_id'', Lit (JStr ''backup-restore-datetime''))] @ splat datetime_backup)])"

definition deluge_decl :: "app_decl" where
  "deluge_decl = App_Decl ''deluge'' True True
    [Component_Decl ''Info'' [(''app_id'', Lit (JStr ''deluge'')), (''version'', Lit (JInt 9)),
       (''name'', Lit (JStr ''Deluge'')), (''icon_filename'', Lit (JStr ''deluge'')),
       (''description'', Code ''_description''), (''manual_page'', Lit (JStr ''Deluge'')),
       (''clients'', Lit deluge_clients),
       (''donation_url'', Lit (JStr ''https://www.patreon.com/deluge_cas'')), (''tags'', Lit deluge_tags)],
     Component_Decl ''Menu'' [(''component_id'', Lit (JStr ''menu-deluge'')), (''name'', Lit (JStr ''Deluge'')),
       (''icon'', Lit (JStr ''deluge'')), (''tags'', Lit deluge_tags),
       (''url_name'', Lit (JStr ''deluge:index'')), (''parent_url_name'', Lit (JStr ''apps''))],
     Component_Decl ''Shortcut'' [(''component_id'', Lit (JStr ''shortcut-deluge'')),
       (''name'', Lit (JStr ''Deluge'')), (''url'', Lit (JStr ''/deluge'')),
       (''icon'', Lit (JStr ''deluge'')), (''clients'', Lit deluge_clients), (''tags'', Lit deluge_tags),
       (''login_required'', Lit (JBool True)), (''allowed_groups'', Lit (JList [JStr ''bit-torrent'']))],
     Component_Decl ''DelugePackages'' [(''component_id'', Lit (JStr ''packages-deluge'')),
       (''packages'', Lit (JList [JStr ''deluged'', JStr ''deluge-web'']))],
     Component_Decl ''DropinConfigs'' [(''component_id'', Lit (JStr ''dropin-configs-deluge'')),
       (''etc_paths'', Lit (JList [JStr ''/etc/apache2/conf-available/deluge-plinth.conf'']))],
     Component_Decl ''Firewall'' [(''component_id'', Lit (JStr ''firewall-deluge'')),
       (''name'', Lit (JStr ''Deluge'')), (''ports'', Lit (JList [JStr ''http'', JStr ''https''])),
       (''is_external'', Lit (JBool True))],
     Component_Decl ''FirewallLocalProtection'' [(''component_id'', Lit (JStr ''firewall-local-protection-deluge'')),
       (''tcp_ports'', Lit (JList [JStr ''8112'']))],
     Component_Decl ''Webserver'' [(''component_id'', Lit (JStr ''webserver-deluge'')),
       (''web_name'', Lit (JStr ''deluge-plinth'')),
       (''urls'', Lit (JList [JStr ''https://{host}/deluge'']))],
     Component_Decl ''Daemon'' [(''component_id'', Lit (JStr ''daemon-deluged'')),
       (''unit'', Lit (JStr ''deluged'')),
       (''listen_ports'', Lit (JList [JList [JInt 58846, JStr ''tcp4'']]))],
     Component_Decl ''Daemon'' [(''component_id'', Lit (JStr ''daemon-deluge-web'')),
       (''unit'', Lit (JStr ''deluge-web'')),
       (''listen_ports'', Lit (JList [JList [JInt 8112, JStr ''tcp4'']]))],
     Component_Decl ''UsersAndGroups'' [(''component_id'', Lit (JStr ''users-and-groups-deluge'')),
       (''reserved_usernames'', Lit (JList [JStr ''debian-deluged''])),
       (''groups'', Lit (JDict [(''bit-torrent'', JStr ''Download files using BitTorrent applications'')]))],
     Component_Decl ''BackupRestore'' ([(''component_id'', Lit (JStr ''backup-restore-deluge''))] @ splat deluge_backup)]"

definition diagnostics_decl :: "app_decl" where
  "diagnostics_decl = App_Decl ''diagnostics'' False True
    [Component_Decl ''Info'' [(''app_id'', Lit (JStr ''diagnostics'')), (''version'', Lit (JInt 1)),
       (''is_essential'', Lit (JBool True)), (''name'', Lit (JStr ''Diagnostics'')),
       (''icon'', Lit (JStr ''fa-heartbeat'')), (''description'', Code ''_description''),
       (''manual_page'', Lit (JStr ''Diagnostics'')), (''tags'', Lit diagnostics_tags)],
     Component_Decl ''Menu'' [(''component_id'', Lit (JStr ''menu-diagnostics'')),
       (''name'', Lit (JStr ''Diagnostics'')), (''icon'', Lit (JStr ''fa-heartbeat'')),
       (''tags'', Lit diagnostics_tags), (''url_name'', Lit (JStr ''diagnostics:index'')),
       (''parent_url_name'', Lit (JStr ''system:administration'')), (''order'', Lit (JInt 30))],
     Component_Decl ''RelatedDaemon'' [(''component_id'', Lit (JStr ''related-daemon-plinth'')),
       (''unit'', Lit (JStr ''plinth''))],
     Component_Decl ''RelatedDaemon'' [(''component_id'', Lit (JStr ''related-daemon-freedombox-privileged'')),
       (''unit'', Lit (JStr ''freedombox-privileged''))],
     Component_Decl ''BackupRestore'' ([(''component_id'', Lit (JStr ''backup-restore-diagnostics''))] @ splat diagnostics_backup)]"

definition dynamicdns_decl :: "app_decl" where
  "dynamicdns_decl = App_Decl ''dynamicdns'' True True
    [Component_Decl ''Info'' [(''app_id'', Lit (JStr ''dynamicdns'')), (''version'', Lit (JInt 2)),
       (''is_essential'', Lit (JBool True)), (''depends'', Lit (JList [JStr ''names''])),
       (''name'', Lit (JStr ''Dynamic DNS Client'')), (''icon'', Lit (JStr ''fa-refresh'')),
       (''description'', Code ''_description''), (''manual_page'', Lit (JStr ''DynamicDNS'')),
       (''tags'', Lit dynamicdns_tags)],
     Component_Decl ''Menu'' [(''component_id'', Lit (JStr ''menu-dynamicdns'')),
       (''name'', Lit (JStr ''Dynamic DNS Client'')), (''icon'', Lit (JStr ''fa-refresh'')),
       (''tags'', Lit dynamicdns_tags), (''url_name'', Lit (JStr ''dynamicdns:index'')),
       (''parent_url_name'', Lit (JStr ''system:visibility'')), (''order'', Lit (JInt 20))],
     Component_Decl ''EnableState'' [(''component_id'', Lit (JStr ''enable-state-dynamicdns''))],
     Component_Decl ''DomainType'' [(''component_id'', Lit (JStr ''domain-type-dynamic'')),
       (''display_name'', Lit (JStr ''Dynamic Domain'')),
       (''edit_url'', Lit (JStr ''dynamicdns:domain-edit'')),
       (''delete_url'', Lit (JStr ''dynamicdns:domain-delete'')),
       (''add_url'', Lit (JStr ''dynamicdns:domain-add'')), (''can_have_certificate'', Lit (JBool True)),
       (''priority'', Lit (JInt 70))],
     Component_Decl ''UsersAndGroups'' [(''component_id'', Lit (JStr ''users-and-groups-dynamicdns'')),
       (''reserved_usernames'', Lit (JList [JStr ''ez-ipupd'']))],
     Component_Decl ''BackupRestore'' ([(''component_id'', Lit (JStr ''backup-restore-dynamicdns''))] @ splat dynamicdns_backup)]"

definition ejabberd_decl :: "(string \<Rightarrow> string) \<Rightarrow> app_decl" where
  "ejabberd_decl reverse_url = App_Decl ''ejabberd'' True True
    [Component_Decl ''Info'' [(''app_id'', Lit (JStr ''ejabberd'')), (''version'', Lit (JInt 10)),
       (''depends'', Lit (JList [JStr ''coturn''])), (''name'', Lit (JStr ''ejabberd'')),
       (''icon_filename'', Lit (JStr ''ejabberd'')), (''description'', Code ''_description''),
       (''manual_page'', Lit (JStr ''ejabberd'')), (''clients'', Lit ejabberd_clients),
       (''tags'', Lit ejabberd_tags)],
     Component_Decl ''Menu'' [(''component_id'', Lit (JStr ''menu-ejabberd'')),
       (''name'', Lit (JStr ''ejabberd'')), (''icon'', Lit (JStr ''ejabberd'')),
       (''tags'', Lit ejabberd_tags), (''url_name'', Lit (JStr ''ejabberd:index'')),
       (''parent_url_name'', Lit (JStr ''apps''))],
     Component_Decl ''Shortcut'' [(''component_id'', Lit (JStr ''shortcut-ejabberd'')),
       (''name'', Lit (JStr ''ejabberd'')), (''icon'', Lit (JStr ''ejabberd'')),
       (''description'', Code ''_description''), (''manual_page'', Lit (JStr ''ejabberd'')),
       (''configure_url'', Lit (JStr (reverse_url ''ejabberd:index''))),
       (''clients'', Lit ejabberd_clients), (''tags'', Lit ejabberd_tags),
       (''login_required'', Lit (JBool True))],
     Component_Decl ''Packages'' [(''component_id'', Lit (JStr ''packages-ejabberd'')),
       (''packages'', Lit (JList [JStr ''ejabberd'']))],
     Component_Decl ''DropinConfigs'' [(''component_id'', Lit (JStr ''dropin-configs-ejabberd'')),
       (''etc_paths'', Lit (JList [JStr ''/etc/apache2/conf-available/jwchat-plinth.conf'']))],
     Component_Decl ''DropinConfigs'' [(''component_id'', Lit (JStr ''dropin-config-ejabberd-avahi'')),
       (''etc_paths'', Lit (JList [JStr ''/etc/avahi/services/xmpp-server.service''])),
       (''copy_only'', Lit (JBool True))],
     Component_Decl ''Firewall'' [(''component_id'', Lit (JStr ''firewall-ejabberd'')),
       (''name'', Lit (JStr ''ejabberd'')), (''ports'', Lit (JList [JStr ''xmpp-client'',
       JStr ''xmpp-server'', JStr ''xmpp-bosh''])), (''is_external'', Lit (JBool True))],
     Component_Decl ''Webserver'' [(''component_id'', Lit (JStr ''webserver-ejabberd'')),
       (''web_name'', Lit (JStr ''jwchat-plinth'')), (''urls'', Lit (JList [JStr ''http://{host}/bosh/'']))],
     Component_Decl ''LetsEncrypt'' [(''component_id'', Lit (JStr ''letsencrypt-ejabberd'')),
       (''domains'', Lit (JStr ''*'')), (''daemons'', Lit (JList [JStr ''ejabberd''])),
       (''should_copy_certificates'', Lit (JBool True)),
       (''private_key_path'', Lit (JStr ''/etc/ejabberd/letsencrypt/{domain}/ejabberd.pem'')),
       (''certificate_path'', Lit (JStr ''/etc/ejabberd/letsencrypt/{domain}/ejabberd.pem'')),
       (''user_owner'', Lit (JStr ''ejabberd'')), (''group_owner'', Lit (JStr ''ejabberd'')),
       (''managing_app'', Lit (JStr ''ejabberd''))],
     Component_Decl ''Daemon'' [(''component_id'', Lit (JStr ''daemon-ejabberd'')),
       (''unit'', Lit (JStr ''ejabberd'')),
       (''listen_ports'', Lit (JList [JList [JInt 5222, JStr ''tcp4''], JList [JInt 5222, JStr ''tcp6''],
       JList [JInt 5269, JStr ''tcp4''], JList [JInt 5269, JStr ''tcp6''],
       JList [JInt 5443, JStr ''tcp4''], JList [JInt 5443, JStr ''tcp6'']]))],
     Component_Decl ''UsersAndGroups'' [(''component_id'', Lit (JStr ''users-and-groups-ejabberd'')),
       (''reserved_usernames'', Lit (JList [JStr ''ejabberd'']))],
     Component_Decl ''BackupRestore'' ([(''component_id'', Lit (JStr ''backup-restore-ejabberd''))] @ splat ejabberd_backup),
     Component_Decl ''EjabberdTurnConsumer'' [(''component_id'', Lit (JStr ''turn-ejabberd''))]]"

definition email_decl :: "(string \<Rightarrow> string) \<Rightarrow> app_decl" where
  "email_decl reverse_url = App_Decl ''email'' True True
    [Component_Decl ''Info'' [(''app_id'', Lit (JStr ''email'')), (''version'', Lit (JInt 9)),
       (''name'', Lit (JStr ''Postfix/Dovecot'')), (''icon_filename'', Lit (JStr ''email'')),
       (''description'', Code ''_description''), (''manual_page'', Lit (JStr ''Email'')),
       (''clients'', Lit email_clients), (''tags'', Lit email_tags),
       (''donation_url'', Lit (JStr ''https://rspamd.com/support.html''))],
     Component_Decl ''Menu'' [(''component_id'', Lit (JStr ''menu-email'')),
       (''name'', Lit (JStr ''Postfix/Dovecot'')), (''icon'', Lit (JStr ''email'')),
       (''tags'', Lit email_tags), (''url_name'', Lit (JStr ''email:index'')),
       (''parent_url_name'', Lit (JStr ''apps''))],
     Component_Decl ''Shortcut'' [(''component_id'', Lit (JStr ''shortcut-email'')),
       (''name'', Lit (JStr ''Postfix/Dovecot'')), (''icon'', Lit (JStr ''email'')),
       (''description'', Code ''_description''), (''manual_page'', Lit (JStr ''Email'')),
       (''configure_url'', Lit (JStr (reverse_url ''email:index''))), (''clients'', Lit email_clients),
       (''tags'', Lit email_tags), (''login_required'', Lit (JBool True))],
     Component_Decl ''Shortcut'' [(''component_id'', Lit (JStr ''shortcut-email-aliases'')),
       (''name'', Lit (JStr ''My Email Aliases'')), (''icon'', Lit (JStr ''email'')),
       (''tags'', Lit (JList [JStr ''More emails'', JStr ''Same mailbox''])),
       (''url'', Lit (JStr (reverse_url ''email:aliases''))), (''login_required'', Lit (JBool True))],
     Component_Decl ''Packages'' [(''component_id'', Lit (JStr ''packages-email'')),
       (''packages'', Lit (JList [JStr ''postfix'', JStr ''postfix-sqlite'', JStr ''dovecot-pop3d'',
       JStr ''dovecot-imapd'', JStr ''dovecot-lmtpd'', JStr ''dovecot-managesieved'',
       JStr ''dovecot-ldap'', JStr ''dovecot-fts-xapian'', JStr ''rspamd'', JStr ''redis-server'',
       JStr ''openssl''])), (''conflicts'', Lit (JList [JStr ''exim4-base'', JStr ''exim4-config'',
       JStr ''exim4-daemon-light''])), (''conflicts_action'', Code ''Packages.ConflictsAction.REMOVE''),
       (''rerun_setup_on_upgrade'', Lit (JBool True))],
     Component_Decl ''DropinConfigs'' [(''component_id'', Lit (JStr ''dropin-configs-email'')),
       (''etc_paths'', Lit (JList [JStr ''/etc/apache2/conf-available/email-freedombox.conf'',
       JStr ''/etc/fail2ban/jail.d/dovecot-freedombox.conf'', JStr ''/etc/postfix/freedombox-aliases.cf'',
       JStr ''/etc/rspamd/local.d/freedombox-logging.inc'',
       JStr ''/etc/rspamd/local.d/freedombox-milter-headers.conf'',
       JStr ''/etc/rspamd/local.d/freedombox-redis.conf'',
       JStr ''/etc/rspamd/local.d/freedombox-dkim-signing.conf'']))],
     Component_Decl ''DropinConfigs'' [(''component_id'', Lit (JStr ''dropin-configs-email-sieve'')),
       (''etc_paths'', Lit (JList [JStr ''/etc/dovecot/freedombox-sieve/learn-ham.sieve'',
       JStr ''/etc/dovecot/freedombox-sieve/learn-spam.sieve'',
       JStr ''/etc/dovecot/freedombox-sieve-after/sort-spam.sieve'']))],
     Component_Decl ''DovecotDropinConfigs'' [(''component_id'', Lit (JStr ''dropin-configs-email-dovecot'')),
       (''etc_paths'', Lit (JList [JStr ''/etc/dovecot/conf.d/05-freedombox-passdb.conf'',
       JStr ''/etc/dovecot/conf.d/05-freedombox-userdb.conf'',
       JStr ''/etc/dovecot/conf.d/15-freedombox-auth.conf'',
       JStr ''/etc/dovecot/conf.d/15-freedombox-mail.conf'',
       JStr ''/etc/dovecot/conf.d/90-freedombox-imap.conf'',
       JStr ''/etc/dovecot/conf.d/90-freedombox-lmtp.conf'',
       JStr ''/etc/dovecot/conf.d/90-freedombox-mailboxes.conf'',
       JStr ''/etc/dovecot/conf.d/90-freedombox-master.conf'',
       JStr ''/etc/dovecot/conf.d/90-freedombox-tls.conf'',
       JStr ''/etc/dovecot/conf.d/95-freedombox-sieve.conf'',
       JStr ''/etc/dovecot/conf.d/95-freedombox-fts.conf'',
       JStr ''/etc/dovecot/conf.d/freedombox-ldap.conf.ext'']))],
     Component_Decl ''Daemon'' [(''component_id'', Lit (JStr ''daemon-email-postfix'')),
       (''unit'', Lit (JStr ''postfix'')), (''listen_ports'', Lit (JList [JList [JInt 25, JStr ''tcp4''],
       JList [JInt 25, JStr ''tcp6''], JList [JInt 465, JStr ''tcp4''], JList [JInt 465, JStr ''tcp6''],
       JList [JInt 587, JStr ''tcp4''], JList [JInt 587, JStr ''tcp6'']]))],
     Component_Decl ''Daemon'' [(''component_id'', Lit (JStr ''daemon-email-dovecot'')),
       (''unit'', Lit (JStr ''dovecot'')), (''listen_ports'', Lit (JList [JList [JInt 143, JStr ''tcp4''],
       JList [JInt 143, JStr ''tcp6''], JList [JInt 993, JStr ''tcp4''], JList [JInt 993, JStr ''tcp6''],
       JList [JInt 110, JStr ''tcp4''], JList [JInt 110, JStr ''tcp6''], JList [JInt 995, JStr ''tcp4''],
       JList [JInt 995, JStr ''tcp6''], JList [JInt 4190, JStr ''tcp4''],
       JList [JInt 4190, JStr ''tcp6'']]))],
     Component_Decl ''Daemon'' [(''component_id'', Lit (JStr ''daemon-email-rspamd'')),
       (''unit'', Lit (JStr ''rspamd'')), (''listen_ports'', Lit (JList [JList [JInt 11332, JStr ''tcp4''],
       JList [JInt 11332, JStr ''tcp6''], JList [JInt 11333, JStr ''tcp4''],
       JList [JInt 11333, JStr ''tcp6''], JList [JInt 11334, JStr ''tcp4''],
       JList [JInt 11334, JStr ''tcp6'']]))],
     Component_Decl ''Daemon'' [(''component_id'', Lit (JStr ''daemon-email-redis'')),
       (''unit'', Lit (JStr ''redis-server'')),
       (''listen_ports'', Lit (JList [JList [JInt 6379, JStr ''tcp4''], JList [JInt 6379, JStr ''tcp6'']]))],
     Component_Decl ''Firewall'' [(''component_id'', Lit (JStr ''firewall-email'')),
       (''name'', Lit (JStr ''Postfix/Dovecot'')), (''ports'', Lit (JList [JStr ''smtp'', JStr ''smtps'',
       JStr ''smtp-submission'', JStr ''imaps'', JStr ''pop3s'', JStr ''managesieve''])),
       (''is_external'', Lit (JBool True))],
     Component_Decl ''FirewallLocalProtection'' [(''component_id'', Lit (JStr ''firewall-local-protection-email'')),
       (''tcp_ports'', Lit (JList [JStr ''11334'']))],
     Component_Decl ''Webserver'' [(''component_id'', Lit (JStr ''webserver-email'')),
       (''web_name'', Lit (JStr ''email-freedombox'')),
       (''urls'', Lit (JList [JStr ''https://{host}/rspamd'']))],
     Component_Decl ''LetsEncrypt'' [(''component_id'', Lit (JStr ''letsencrypt-email-postfix'')),
       (''domains'', Lit (JStr ''*'')), (''daemons'', Lit (JList [JStr ''postfix''])),
       (''should_copy_certificates'', Lit (JBool True)),
       (''private_key_path'', Lit (JStr ''/etc/postfix/letsencrypt/{domain}/chain.pem'')),
       (''certificate_path'', Lit (JStr ''/etc/postfix/letsencrypt/{domain}/chain.pem'')),
       (''user_owner'', Lit (JStr ''root'')), (''group_owner'', Lit (JStr ''root'')),
       (''managing_app'', Lit (JStr ''email''))],
     Component_Decl ''LetsEncrypt'' [(''component_id'', Lit (JStr ''letsencrypt-email-dovecot'')),
       (''domains'', Lit (JStr ''*'')), (''daemons'', Lit (JList [JStr ''dovecot''])),
       (''should_copy_certificates'', Lit (JBool True)),
       (''private_key_path'', Lit (JStr ''/etc/dovecot/letsencrypt/{domain}/privkey.pem'')),
       (''certificate_path'', Lit (JStr ''/etc/dovecot/letsencrypt/{domain}/cert.pem'')),
       (''user_owner'', Lit (JStr ''root'')), (''group_owner'', Lit (JStr ''root'')),
       (''managing_app'', Lit (JStr ''email''))],
     Component_Decl ''BackupRestore'' ([(''component_id'', Lit (JStr ''backup-restore-email''))] @ splat email_backup)]"

definition featherwiki_decl :: "app_decl" where
  "featherwiki_decl = App_Decl ''featherwiki'' True True
    [Component_Decl ''Info'' [(''app_id'', Lit (JStr ''featherwiki'')), (''version'', Lit (JInt 1)),
       (''name'', Lit (JStr ''Feather Wiki'')), (''icon_filename'', Lit (JStr ''featherwiki'')),
       (''description'', Code ''_description''), (''manual_page'', Lit (JStr ''FeatherWiki'')),
       (''clients'', Lit featherwiki_clients), (''tags'', Lit featherwiki_tags)],
     Component_Decl ''Menu'' [(''component_id'', Lit (JStr ''menu-featherwiki'')),
       (''name'', Lit (JStr ''Feather Wiki'')), (''icon'', Lit (JStr ''featherwiki'')),
       (''tags'', Lit featherwiki_tags), (''url_name'', Lit (JStr ''featherwiki:index'')),
       (''parent_url_name'', Lit (JStr ''apps''))],
     Component_Decl ''Shortcut'' [(''component_id'', Lit (JStr ''shortcut-featherwiki'')),
       (''name'', Lit (JStr ''Feather Wiki'')), (''icon'', Lit (JStr ''featherwiki'')),
       (''description'', Code ''_description''), (''manual_page'', Lit (JStr ''FeatherWiki'')),
       (''url'', Lit (JStr ''/featherwiki/'')), (''clients'', Lit featherwiki_clients),
       (''tags'', Lit featherwiki_tags), (''login_required'', Lit (JBool True)),
       (''allowed_groups'', Lit (JList [JStr ''wiki'']))],
     Component_Decl ''DropinConfigs'' [(''component_id'', Lit (JStr ''dropin-configs-featherwiki'')),
       (''etc_paths'', Lit (JList [JStr ''/etc/apache2/conf-available/featherwiki-freedombox.conf'']))],
     Component_Decl ''Firewall'' [(''component_id'', Lit (JStr ''firewall-featherwiki'')),
       (''name'', Lit (JStr ''Feather Wiki'')), (''ports'', Lit (JList [JStr ''http'', JStr ''https''])),
       (''is_external'', Lit (JBool True))],
     Component_Decl ''Webserver'' [(''component_id'', Lit (JStr ''webserver-featherwiki'')),
       (''web_name'', Lit (JStr ''featherwiki-freedombox''))],
     Component_Decl ''UsersAndGroups'' [(''component_id'', Lit (JStr ''users-and-groups-featherwiki'')),
       (''groups'', Lit (JDict [(''wiki'', JStr ''View and edit wiki applications'')]))],
     Component_Decl ''BackupRestore'' ([(''component_id'', Lit (JStr ''backup-restore-featherwiki''))] @ splat featherwiki_backup)]"

definition firewall_decl :: "app_decl" where
  "firewall_decl = App_Decl ''firewall'' False True
    [Component_Decl ''Info'' [(''app_id'', Lit (JStr ''firewall'')), (''version'', Lit (JInt 5)),
       (''is_essential'', Lit (JBool True)), (''name'', Lit (JStr ''Firewall'')),
       (''icon'', Lit (JStr ''fa-shield'')), (''description'', Code ''_description''),
       (''manual_page'', Lit (JStr ''Firewall'')), (''tags'', Lit firewall_tags)],
     Component_Decl ''Menu'' [(''component_id'', Lit (JStr ''menu-firewall'')),
       (''name'', Lit (JStr ''Firewall'')), (''icon'', Lit (JStr ''fa-shield'')),
       (''tags'', Lit firewall_tags), (''url_name'', Lit (JStr ''firewall:index'')),
       (''parent_url_name'', Lit (JStr ''system:security'')), (''order'', Lit (JInt 30))],
     Component_Decl ''Packages'' [(''component_id'', Lit (JStr ''packages-firewall'')),
       (''packages'', Lit (JList [JStr ''firewalld'', JStr ''nftables'']))],
     Component_Decl ''Daemon'' [(''component_id'', Lit (JStr ''daemon-firewall'')),
       (''unit'', Lit (JStr ''firewalld''))],
     Component_Decl ''BackupRestore'' ([(''component_id'', Lit (JStr ''backup-restore-firewall''))] @ splat firewall_backup)]"

definition first_boot_decl :: "app_decl" where
  "first_boot_decl = App_Decl ''first_boot'' True True
    [Component_Decl ''Info'' [(''app_id'', Lit (JStr ''first_boot'')), (''version'', Lit (JInt 1)),
       (''is_essential'', Lit (JBool True)), (''name'', Lit (JStr ''First Boot''))]]"

definition gitweb_decl :: "app_decl" where
  "gitweb_decl = App_Decl ''gitweb'' True True
    [Component_Decl ''Info'' [(''app_id'', Lit (JStr ''gitweb'')), (''version'', Lit (JInt 4)),
       (''name'', Lit (JStr ''Gitweb'')), (''icon_filename'', Lit (JStr ''gitweb'')),
       (''description'', Code ''_description''), (''manual_page'', Lit (JStr ''GitWeb'')),
       (''clients'', Lit gitweb_clients), (''tags'', Lit gitweb_tags)],
     Component_Decl ''Menu'' [(''component_id'', Lit (JStr ''menu-gitweb'')), (''name'', Lit (JStr ''Gitweb'')),
       (''icon'', Lit (JStr ''gitweb'')), (''tags'', Lit gitweb_tags),
       (''url_name'', Lit (JStr ''gitweb:index'')), (''parent_url_name'', Lit (JStr ''apps''))],
     Component_Decl ''Shortcut'' [(''component_id'', Lit (JStr ''shortcut-gitweb'')),
       (''name'', Lit (JStr ''Gitweb'')), (''icon'', Lit (JStr ''gitweb'')),
       (''url'', Lit (JStr ''/gitweb/'')), (''clients'', Lit gitweb_clients), (''tags'', Lit gitweb_tags),
       (''login_required'', Lit (JBool True)), (''allowed_groups'', Lit (JList [JStr ''git-access'']))],
     Component_Decl ''Packages'' [(''component_id'', Lit (JStr ''packages-gitweb'')),
       (''packages'', Lit (JList [JStr ''gitweb'', JStr ''highlight'']))],
     Component_Decl ''DropinConfigs'' [(''component_id'', Lit (JStr ''dropin-configs-gitweb'')),
       (''etc_paths'', Lit (JList [JStr ''/etc/gitweb-freedombox.conf'',
       JStr ''/etc/apache2/conf-available/gitweb-freedombox.conf'',
       JStr ''/etc/apache2/conf-available/gitweb-freedombox-auth.conf'']))],
     Component_Decl ''Firewall'' [(''component_id'', Lit (JStr ''firewall-gitweb'')),
       (''name'', Lit (JStr ''Gitweb'')), (''ports'', Lit (JList [JStr ''http'', JStr ''https''])),
       (''is_external'', Lit (JBool True))],
     Component_Decl ''Webserver'' [(''component_id'', Lit (JStr ''webserver-gitweb'')),
       (''web_name'', Lit (JStr ''gitweb-freedombox'')),
       (''urls'', Lit (JList [JStr ''https://{host}/gitweb/'']))],
     Component_Decl ''GitwebWebserverAuth'' [(''component_id'', Lit (JStr ''webserver-gitweb-auth'')),
       (''web_name'', Lit (JStr ''gitweb-freedombox-auth''))],
     Component_Decl ''UsersAndGroups'' [(''component_id'', Lit (JStr ''users-and-groups-gitweb'')),
       (''groups'', Lit (JDict [(''git-access'', JStr ''Read-write access to Git repositories'')]))],
     Component_Decl ''GitwebBackupRestore'' ([(''component_id'', Lit (JStr ''backup-restore-gitweb''))] @ splat gitweb_backup)]"

definition gnome_decl :: "app_decl" where
  "gnome_decl = App_Decl ''gnome'' True True
    [Component_Decl ''Info'' [(''app_id'', Lit (JStr ''gnome'')), (''version'', Lit (JInt 1)),
       (''name'', Lit (JStr ''GNOME'')), (''icon_filename'', Lit (JStr ''gnome'')),
       (''description'', Code ''_description''), (''manual_page'', Lit (JStr ''GNOME'')),
       (''donation_url'', Lit (JStr ''https://www.gnome.org/donate/'')), (''tags'', Lit gnome_tags)],
     Component_Decl ''Menu'' [(''component_id'', Lit (JStr ''menu-gnome'')), (''name'', Lit (JStr ''GNOME'')),
       (''icon'', Lit (JStr ''gnome'')), (''tags'', Lit gnome_tags),
       (''url_name'', Lit (JStr ''gnome:index'')), (''parent_url_name'', Lit (JStr ''apps''))],
     Component_Decl ''Packages'' [(''component_id'', Lit (JStr ''packages-gnome'')),
       (''packages'', Lit (JList [JStr ''gnome'']))],
     Component_Decl ''SystemTarget'' [(''component_id'', Lit (JStr ''system-target-gnome'')),
       (''target'', Lit (JStr ''graphical.target''))],
     Component_Decl ''BackupRestore'' ([(''component_id'', Lit (JStr ''backup-restore-gnome''))] @ splat gnome_backup)]"

definition help_decl :: "app_decl" where
  "help_decl = App_Decl ''help'' True True
    [Component_Decl ''Info'' [(''app_id'', Lit (JStr ''help'')), (''version'', Lit (JInt 1)),
       (''is_essential'', Lit (JBool True))],
     Component_Decl ''Menu'' [(''component_id'', Lit (JStr ''menu-help'')), (''name'', Lit (JStr ''Help'')),
       (''icon'', Lit (JStr ''fa-book'')), (''tags'', Lit (JNull)),
       (''url_name'', Lit (JStr ''help:index'')), (''parent_url_name'', Lit (JStr ''index''))],
     Component_Decl ''Menu'' [(''component_id'', Lit (JStr ''menu-help-manual'')),
       (''name'', Lit (JStr ''Manual'')), (''icon'', Lit (JStr ''fa-info-circle'')),
       (''tags'', Lit (JNull)), (''url_name'', Lit (JStr ''help:manual'')),
       (''parent_url_name'', Lit (JStr ''help:index'')), (''order'', Lit (JInt 10))],
     Component_Decl ''Menu'' [(''component_id'', Lit (JStr ''menu-help-support'')),
       (''name'', Lit (JStr ''Get Support'')), (''icon'', Lit (JStr ''fa-life-ring'')),
       (''tags'', Lit (JNull)), (''url_name'', Lit (JStr ''help:support'')),
       (''parent_url_name'', Lit (JStr ''help:index'')), (''order'', Lit (JInt 20))],
     Component_Decl ''Menu'' [(''component_id'', Lit (JStr ''menu-help-feedback'')),
       (''name'', Lit (JStr ''Submit Feedback'')), (''icon'', Lit (JStr ''fa-comments'')),
       (''tags'', Lit (JNull)), (''url_name'', Lit (JStr ''help:feedback'')),
       (''parent_url_name'', Lit (JStr ''help:index'')), (''order'', Lit (JInt 25))],
     Component_Decl ''Menu'' [(''component_id'', Lit (JStr ''menu-help-contribute'')),
       (''name'', Lit (JStr ''Contribute'')), (''icon'', Lit (JStr ''fa-wrench'')),
       (''tags'', Lit (JNull)), (''url_name'', Lit (JStr ''help:contribute'')),
       (''parent_url_name'', Lit (JStr ''help:index'')), (''order'', Lit (JInt 30))],
     Component_Decl ''Menu'' [(''component_id'', Lit (JStr ''menu-help-about'')),
       (''name'', Lit (JStr ''About'')), (''icon'', Lit (JStr ''fa-star'')), (''tags'', Lit (JNull)),
       (''url_name'', Lit (JStr ''help:about'')), (''parent_url_name'', Lit (JStr ''help:index'')),
       (''order'', Lit (JInt 100))]]"

definition homeassistant_decl :: "app_decl" where
  "homeassistant_decl = App_Decl ''homeassistant'' True True
    [Component_Decl ''Info'' [(''app_id'', Lit (JStr ''homeassistant'')), (''version'', Lit (JInt 1)),
       (''name'', Lit (JStr ''Home Assistant'')), (''icon_filename'', Lit (JStr ''homeassistant'')),
       (''description'', Code ''_description''), (''manual_page'', Lit (JStr ''HomeAssistant'')),
       (''clients'', Lit homeassistant_clients), (''tags'', Lit homeassistant_tags)],
     Component_Decl ''Menu'' [(''component_id'', Lit (JStr ''menu-homeassistant'')),
       (''name'', Lit (JStr ''Home Assistant'')), (''icon'', Lit (JStr ''homeassistant'')),
       (''tags'', Lit homeassistant_tags), (''url_name'', Lit (JStr ''homeassistant:index'')),
       (''parent_url_name'', Lit (JStr ''apps''))],
     Component_Decl ''Shortcut'' [(''component_id'', Lit (JStr ''shortcut-homeassistant'')),
       (''name'', Lit (JStr ''Home Assistant'')), (''icon'', Lit (JStr ''homeassistant'')),
       (''url'', Lit (JStr ''#'')), (''clients'', Lit homeassistant_clients),
       (''tags'', Lit homeassistant_tags), (''login_required'', Lit (JBool True))],
     Component_Decl ''Packages'' [(''component_id'', Lit (JStr ''packages-homeassistant'')),
       (''packages'', Lit (JList [JStr ''podman''])),
       (''conflicts'', Lit (JList [JStr ''libpam-tmpdir''])),
       (''conflicts_action'', Code ''Packages.ConflictsAction.REMOVE'')],
     Component_Decl ''DropinConfigs'' [(''component_id'', Lit (JStr ''dropin-configs-homeassistant'')),
       (''etc_paths'', Lit (JList [JStr ''/etc/apache2/includes/home-assistant-freedombox.conf'']))],
     Component_Decl ''Firewall'' [(''component_id'', Lit (JStr ''firewall-homeassistant'')),
       (''name'', Lit (JStr ''Home Assistant'')), (''ports'', Lit (JList [JStr ''http'', JStr ''https''])),
       (''is_external'', Lit (JBool True))],
     Component_Decl ''FirewallLocalProtection'' [(''component_id'', Lit (JStr ''firewall-local-protection-homeassistant'')),
       (''tcp_ports'', Lit (JList [JStr ''8123'']))],
     Component_Decl ''WebserverRoot'' [(''component_id'', Lit (JStr ''webserverroot-homeassistant'')),
       (''web_name'', Lit (JStr ''home-assistant-freedombox''))],
     Component_Decl ''Container'' [(''component_id'', Lit (JStr ''container-homeassistant'')),
       (''name'', Lit (JStr ''home-assistant-freedombox'')),
       (''image_name'', Lit (JStr ''registry.freedombox.org/homeassistant/home-assistant:stable'')),
       (''volume_name'', Lit (JStr ''home-assistant-freedombox'')),
       (''volume_path'', Lit (JStr ''/var/lib/home-assistant-freedombox/config/'')),
       (''volumes'', Lit (JDict [(''/run/dbus'', JStr ''/run/dbus''),
       (''home-assistant-freedombox'', JStr ''/config'')])),
       (''devices'', Lit (JDict [(''/dev/ttyUSB0'', JStr ''/dev/ttyUSB0''),
       (''/dev/ttyUSB1'', JStr ''/dev/ttyUSB1''), (''/dev/ttyUSB2'', JStr ''/dev/ttyUSB2''),
       (''/dev/ttyUSB3'', JStr ''/dev/ttyUSB3''), (''/dev/ttyUSB4'', JStr ''/dev/ttyUSB4''),
       (''/dev/ttyUSB5'', JStr ''/dev/ttyUSB5''), (''/dev/ttyUSB6'', JStr ''/dev/ttyUSB6''),
       (''/dev/ttyUSB7'', JStr ''/dev/ttyUSB7'')])),
       (''listen_ports'', Lit (JList [JList [JInt 8123, JStr ''tcp4'']]))],
     Component_Decl ''BackupRestore'' ([(''component_id'', Lit (JStr ''backup-restore-homeassistant''))] @ splat homeassistant_backup)]"

definition ikiwiki_decl :: "app_decl" where
  "ikiwiki_decl = App_Decl ''ikiwiki'' True True
    [Component_Decl ''Info'' [(''app_id'', Lit (JStr ''ikiwiki'')), (''version'', Lit (JInt 2)),
       (''name'', Lit (JStr ''ikiwiki'')), (''icon_filename'', Lit (JStr ''ikiwiki'')),
       (''description'', Code ''_description''), (''manual_page'', Lit (JStr ''Ikiwiki'')),
       (''clients'', Lit ikiwiki_clients), (''tags'', Lit ikiwiki_tags),
       (''donation_url'', Lit (JStr ''https://ikiwiki.info/tipjar/''))],
     Component_Decl ''Menu'' [(''component_id'', Lit (JStr ''menu-ikiwiki'')),
       (''name'', Lit (JStr ''ikiwiki'')), (''icon'', Lit (JStr ''ikiwiki'')),
       (''tags'', Lit ikiwiki_tags), (''url_name'', Lit (JStr ''ikiwiki:index'')),
       (''parent_url_name'', Lit (JStr ''apps''))],
     Component_Decl ''Packages'' [(''component_id'', Lit (JStr ''packages-ikiwiki'')),
       (''packages'', Lit (JList [JStr ''ikiwiki'', JStr ''libdigest-sha-perl'',
       JStr ''libxml-writer-perl'', JStr ''xapian-omega'', JStr ''libsearch-xapian-perl'',
       JStr ''libimage-magick-perl'', JStr ''gcc'', JStr ''git'', JStr ''librpc-xml-perl'',
       JStr ''libcgi-session-perl'', JStr ''libcgi-formbuilder-perl'', JStr ''libc6-dev'']))],
     Component_Decl ''DropinConfigs'' [(''component_id'', Lit (JStr ''dropin-configs-ikiwiki'')),
       (''etc_paths'', Lit (JList [JStr ''/etc/ikiwiki/plinth-blog.setup'',
       JStr ''/etc/ikiwiki/plinth-wiki.setup'', JStr ''/etc/apache2/conf-available/ikiwiki-plinth.conf'']))],
     Component_Decl ''Firewall'' [(''component_id'', Lit (JStr ''firewall-ikiwiki'')),
       (''name'', Lit (JStr ''ikiwiki'')), (''ports'', Lit (JList [JStr ''http'', JStr ''https''])),
       (''is_external'', Lit (JBool True))],
     Component_Decl ''Webserver'' [(''component_id'', Lit (JStr ''webserver-ikiwiki'')),
       (''web_name'', Lit (JStr ''ikiwiki-plinth'')),
       (''urls'', Lit (JList [JStr ''https://{host}/ikiwiki'']))],
     Component_Decl ''UsersAndGroups'' [(''component_id'', Lit (JStr ''users-and-groups-ikiwiki'')),
       (''groups'', Lit (JDict [(''wiki'', JStr ''View and edit wiki applications'')]))],
     Component_Decl ''IkiwikiBackupRestore'' ([(''component_id'', Lit (JStr ''backup-restore-ikiwiki''))] @ splat ikiwiki_backup)]"

definition infinoted_decl :: "(string \<Rightarrow> string) \<Rightarrow> string \<Rightarrow> app_decl" where
  "infinoted_decl reverse_url box_name = App_Decl ''infinoted'' True True
    [Component_Decl ''Info'' [(''app_id'', Lit (JStr ''infinoted'')), (''version'', Lit (JInt 3)),
       (''name'', Lit (JStr ''infinoted'')), (''icon_filename'', Lit (JStr ''infinoted'')),
       (''description'', Code ''_description''), (''manual_page'', Lit (JStr ''Infinoted'')),
       (''clients'', Lit (infinoted_clients box_name)), (''tags'', Lit infinoted_tags)],
     Component_Decl ''Menu'' [(''component_id'', Lit (JStr ''menu-infinoted'')),
       (''name'', Lit (JStr ''infinoted'')), (''icon'', Lit (JStr ''infinoted'')),
       (''tags'', Lit infinoted_tags), (''url_name'', Lit (JStr ''infinoted:index'')),
       (''parent_url_name'', Lit (JStr ''apps''))],
     Component_Decl ''Shortcut'' [(''component_id'', Lit (JStr ''shortcut-infinoted'')),
       (''name'', Lit (JStr ''infinoted'')), (''icon'', Lit (JStr ''infinoted'')),
       (''description'', Code ''_description''), (''manual_page'', Lit (JStr ''Infinoted'')),
       (''configure_url'', Lit (JStr (reverse_url ''infinoted:index''))),
       (''clients'', Lit (infinoted_clients box_name)), (''tags'', Lit infinoted_tags),
       (''login_required'', Lit (JBool False))],
     Component_Decl ''Packages'' [(''component_id'', Lit (JStr ''packages-infinoted'')),
       (''packages'', Lit (JList [JStr ''infinoted'']))],
     Component_Decl ''Firewall'' [(''component_id'', Lit (JStr ''firewall-infinoted'')),
       (''name'', Lit (JStr ''infinoted'')), (''ports'', Lit (JList [JStr ''infinoted-plinth''])),
       (''is_external'', Lit (JBool True))],
     Component_Decl ''Daemon'' [(''component_id'', Lit (JStr ''daemon-infinoted'')),
       (''unit'', Lit (JStr ''infinoted'')),
       (''listen_ports'', Lit (JList [JList [JInt 6523, JStr ''tcp4''], JList [JInt 6523, JStr ''tcp6'']]))],
     Component_Decl ''BackupRestore'' ([(''component_id'', Lit (JStr ''backup-restore-infinoted''))] @ splat infinoted_backup)]"

definition janus_decl :: "(string \<Rightarrow> string) \<Rightarrow> app_decl" where
  "janus_decl reverse_url = App_Decl ''janus'' True True
    [Component_Decl ''Info'' [(''app_id'', Lit (JStr ''janus'')), (''version'', Lit (JInt 2)),
       (''name'', Lit (JStr ''Janus'')), (''icon_filename'', Lit (JStr ''janus'')),
       (''description'', Code ''_description''), (''manual_page'', Lit (JStr ''Janus'')),
       (''clients'', Lit (janus_clients reverse_url)), (''tags'', Lit janus_tags)],
     Component_Decl ''Menu'' [(''component_id'', Lit (JStr ''menu-janus'')), (''name'', Lit (JStr ''Janus'')),
       (''icon'', Lit (JStr ''janus'')), (''tags'', Lit janus_tags),
       (''url_name'', Lit (JStr ''janus:index'')), (''parent_url_name'', Lit (JStr ''apps''))],
     Component_Decl ''Shortcut'' [(''component_id'', Lit (JStr ''shortcut-janus'')),
       (''name'', Lit (JStr ''Janus'')), (''icon'', Lit (JStr ''janus'')),
       (''url'', Lit (JStr (reverse_url ''janus:room''))), (''clients'', Lit (janus_clients reverse_url)),
       (''tags'', Lit janus_tags)],
     Component_Decl ''Packages'' [(''component_id'', Lit (JStr ''packages-janus'')),
       (''packages'', Lit (JList [JStr ''janus'', JStr ''libjs-jquery'', JStr ''libjs-bootbox'',
       JStr ''libjs-bootstrap5'', JStr ''libjs-janus-gateway'', JStr ''libjs-jquery-blockui'',
       JStr ''libjs-toastr'', JStr ''libjs-webrtc-adapter'', JStr ''node-popper2'']))],
     Component_Decl ''DropinConfigs'' [(''component_id'', Lit (JStr ''dropin-configs-janus'')),
       (''etc_paths'', Lit (JList [JStr ''/etc/apache2/conf-available/janus-freedombox.conf'']))],
     Component_Decl ''Firewall'' [(''component_id'', Lit (JStr ''firewall-janus'')),
       (''name'', Lit (JStr ''Janus'')), (''ports'', Lit (JList [JStr ''http'', JStr ''https'',
       JStr ''janus-freedombox''])), (''is_external'', Lit (JBool True))],
     Component_Decl ''Webserver'' [(''component_id'', Lit (JStr ''webserver-janus'')),
       (''web_name'', Lit (JStr ''janus-freedombox''))],
     Component_Decl ''Daemon'' [(''component_id'', Lit (JStr ''daemon-janus'')),
       (''unit'', Lit (JStr ''janus'')), (''listen_ports'', Lit (JList [JList [JInt 8088, JStr ''tcp4''],
       JList [JInt 8088, JStr ''tcp6''], JList [JInt 8188, JStr ''tcp4''],
       JList [JInt 8188, JStr ''tcp6'']]))],
     Component_Decl ''TurnTimeLimitedConsumer'' [(''component_id'', Lit (JStr ''turn-janus''))],
     Component_Decl ''BackupRestore'' ([(''component_id'', Lit (JStr ''backup-restore-janus''))] @ splat janus_backup)]"

definition jsxc_decl :: "(string \<Rightarrow> string) \<Rightarrow> app_decl" where
  "jsxc_decl reverse_url = App_Decl ''jsxc'' True True
    [Component_Decl ''Info'' [(''app_id'', Lit (JStr ''jsxc'')), (''version'', Lit (JInt 1)),
       (''name'', Lit (JStr ''JSXC'')), (''icon_filename'', Lit (JStr ''jsxc'')),
       (''description'', Code ''_description''), (''manual_page'', Lit (JStr ''JSXC'')),
       (''clients'', Lit (jsxc_clients reverse_url)), (''tags'', Lit jsxc_tags)],
     Component_Decl ''Menu'' [(''component_id'', Lit (JStr ''menu-jsxc'')), (''name'', Lit (JStr ''JSXC'')),
       (''icon'', Lit (JStr ''jsxc'')), (''tags'', Lit jsxc_tags),
       (''url_name'', Lit (JStr ''jsxc:index'')), (''parent_url_name'', Lit (JStr ''apps''))],
     Component_Decl ''EnableState'' [(''component_id'', Lit (JStr ''enable-state-jsxc''))],
     Component_Decl ''Shortcut'' [(''component_id'', Lit (JStr ''shortcut-jsxc'')),
       (''name'', Lit (JStr ''JSXC'')), (''icon'', Lit (JStr ''jsxc'')),
       (''url'', Lit (JStr (reverse_url ''jsxc:jsxc''))), (''clients'', Lit (jsxc_clients reverse_url)),
       (''tags'', Lit jsxc_tags)],
     Component_Decl ''Packages'' [(''component_id'', Lit (JStr ''packages-jsxc'')),
       (''packages'', Lit (JList [JStr ''libjs-jsxc'', JStr ''libjs-bootstrap4'', JStr ''libjs-jquery'',
       JStr ''libjs-jquery-ui'', JStr ''node-jquery-slimscroll'', JStr ''libjs-jquery-fullscreen'']))],
     Component_Decl ''Firewall'' [(''component_id'', Lit (JStr ''firewall-jsxc'')),
       (''name'', Lit (JStr ''JSXC'')), (''ports'', Lit (JList [JStr ''http'', JStr ''https''])),
       (''is_external'', Lit (JBool True))],
     Component_Decl ''StaticFiles'' [(''component_id'', Lit (JStr ''static-files-jsxc'')),
       (''directory_map'', Lit (JDict [(''/static/jsxc/img'', JStr ''/usr/share/libjs-jsxc/img/''),
       (''/static/jsxc/libjs-jsxc/lib'', JStr ''/usr/share/javascript/jsxc/lib/''),
       (''/static/jsxc/libjs-jsxc/sound'', JStr ''/usr/share/libjs-jsxc/sound/''),
       (''/static/jsxc/libjs-jsxc/'', JStr ''/usr/share/libjs-jsxc/css/'')]))],
     Component_Decl ''BackupRestore'' ([(''component_id'', Lit (JStr ''backup-restore-jsxc''))] @ splat jsxc_backup)]"

definition kiwix_decl :: "app_decl" where
  "kiwix_decl = App_Decl ''kiwix'' True True
    [Component_Decl ''Info'' [(''app_id'', Lit (JStr ''kiwix'')), (''version'', Lit (JInt 1)),
       (''name'', Lit (JStr ''Kiwix'')), (''icon_filename'', Lit (JStr ''kiwix'')),
       (''description'', Code ''_description''), (''manual_page'', Lit (JStr ''Kiwix'')),
       (''clients'', Lit kiwix_clients), (''tags'', Lit kiwix_tags),
       (''donation_url'', Lit (JStr ''https://www.kiwix.org/en/support-us/''))],
     Component_Decl ''Menu'' [(''component_id'', Lit (JStr ''menu-kiwix'')), (''name'', Lit (JStr ''Kiwix'')),
       (''icon'', Lit (JStr ''kiwix'')), (''tags'', Lit kiwix_tags),
       (''url_name'', Lit (JStr ''kiwix:index'')), (''parent_url_name'', Lit (JStr ''apps''))],
     Component_Decl ''Shortcut'' [(''component_id'', Lit (JStr ''shortcut-kiwix'')),
       (''name'', Lit (JStr ''Kiwix'')), (''icon'', Lit (JStr ''kiwix'')),
       (''url'', Lit (JStr ''/kiwix'')), (''clients'', Lit kiwix_clients), (''tags'', Lit kiwix_tags),
       (''login_required'', Lit (JBool False)), (''allowed_groups'', Lit (JList [JStr ''kiwix'']))],
     Component_Decl ''Packages'' [(''component_id'', Lit (JStr ''packages-kiwix'')),
       (''packages'', Lit (JList [JStr ''kiwix-tools'']))],
     Component_Decl ''DropinConfigs'' [(''component_id'', Lit (JStr ''dropin-configs-kiwix'')),
       (''etc_paths'', Lit (JList [JStr ''/etc/apache2/conf-available/kiwix-freedombox.conf'']))],
     Component_Decl ''Firewall'' [(''component_id'', Lit (JStr ''firewall-kiwix'')),
       (''name'', Lit (JStr ''Kiwix'')), (''ports'', Lit (JList [JStr ''http'', JStr ''https''])),
       (''is_external'', Lit (JBool True))],
     Component_Decl ''FirewallLocalProtection'' [(''component_id'', Lit (JStr ''firewall-local-protection-kiwix'')),
       (''tcp_ports'', Lit (JList [JStr ''4201'']))],
     Component_Decl ''Webserver'' [(''component_id'', Lit (JStr ''webserver-kiwix'')),
       (''web_name'', Lit (JStr ''kiwix-freedombox'')),
       (''urls'', Lit (JList [JStr ''https://{host}/kiwix'']))],
     Component_Decl ''Daemon'' [(''component_id'', Lit (JStr ''daemon-kiwix'')),
       (''unit'', Lit (JStr ''kiwix-server-freedombox'')),
       (''listen_ports'', Lit (JList [JList [JInt 4201, JStr ''tcp4'']]))],
     Component_Decl ''UsersAndGroups'' [(''component_id'', Lit (JStr ''users-and-groups-kiwix'')),
       (''reserved_usernames'', Lit (JList [JStr ''kiwix''])),
       (''groups'', Lit (JDict [(''kiwix'', JStr ''Manage Kiwix content server'')]))],
     Component_Decl ''BackupRestore'' ([(''component_id'', Lit (JStr ''backup-restore-kiwix''))] @ splat kiwix_backup)]"

end
