(* ===== verification/ShippedAppsLZ.thy ===== *)
theory ShippedAppsLZ
  imports AppDecls Manifests
begin

text \<open>
  The components that the apps letsencrypt to zoph declare (\<open>__init__\<close> of the app classes), in the order in
  which they are added.
\<close>

definition letsencrypt_decl :: "app_decl" where
  "letsencrypt_decl = App_Decl ''letsencrypt'' False True
    [Component_Decl ''Info'' [(''app_id'', Lit (JStr ''letsencrypt'')), (''version'', Lit (JInt 4)),
       (''is_essential'', Lit (JBool True)), (''depends'', Lit (JList [JStr ''names''])),
       (''name'', Lit (JStr (''Let'' @ [CHR 0x27] @ ''s Encrypt''))), (''icon'', Lit (JStr ''fa-lock'')),
       (''description'', Code ''_description''), (''manual_page'', Lit (JStr ''LetsEncrypt'')),
       (''tags'', Lit letsencrypt_tags), (''donation_url'', Lit (JStr ''https://letsencrypt.org/donate/''))],
     Component_Decl ''Menu'' [(''component_id'', Lit (JStr ''menu-letsencrypt'')),
       (''name'', Lit (JStr (''Let'' @ [CHR 0x27] @ ''s Encrypt''))), (''icon'', Lit (JStr ''fa-lock'')),
       (''tags'', Lit letsencrypt_tags), (''url_name'', Lit (JStr ''letsencrypt:index'')),
       (''parent_url_name'', Lit (JStr ''system:security'')), (''order'', Lit (JInt 20))],
     Component_Decl ''Packages'' [(''component_id'', Lit (JStr ''packages-letsencrypt'')),
       (''packages'', Lit (JList [JStr ''certbot'', JStr ''openssl'']))],
     Component_Decl ''DropinConfigs'' [(''component_id'', Lit (JStr ''dropin-configs-letsencrypt'')),
       (''etc_paths'', Lit (JList [JStr ''/etc/letsencrypt/renewal-hooks/deploy/50-freedombox'']))],
     Component_Decl ''BackupRestore'' ([(''component_id'', Lit (JStr ''backup-restore-letsencrypt''))] @ splat letsencrypt_backup)]"

definition matrixsynapse_decl :: "(string \<Rightarrow> string) \<Rightarrow> app_decl" where
  "matrixsynapse_decl reverse_url = App_Decl ''matrixsynapse'' True True
    [Component_Decl ''Info'' [(''app_id'', Lit (JStr ''matrixsynapse'')), (''version'', Lit (JInt 11)),
       (''depends'', Lit (JList [JStr ''coturn''])), (''name'', Lit (JStr ''Matrix Synapse'')),
       (''icon_filename'', Lit (JStr ''matrixsynapse'')), (''description'', Code ''_description''),
       (''manual_page'', Lit (JStr ''MatrixSynapse'')), (''clients'', Lit matrixsynapse_clients),
       (''tags'', Lit matrixsynapse_tags)],
     Component_Decl ''Menu'' [(''component_id'', Lit (JStr ''menu-matrixsynapse'')),
       (''name'', Lit (JStr ''Matrix Synapse'')), (''icon'', Lit (JStr ''matrixsynapse'')),
       (''tags'', Lit matrixsynapse_tags), (''url_name'', Lit (JStr ''matrixsynapse:index'')),
       (''parent_url_name'', Lit (JStr ''apps''))],
     Component_Decl ''Shortcut'' [(''component_id'', Lit (JStr ''shortcut-matrixsynapse'')),
       (''name'', Lit (JStr ''Matrix Synapse'')), (''icon'', Lit (JStr ''matrixsynapse'')),
       (''description'', Code ''_description''), (''manual_page'', Lit (JStr ''MatrixSynapse'')),
       (''configure_url'', Lit (JStr (reverse_url ''matrixsynapse:index''))),
       (''clients'', Lit matrixsynapse_clients), (''tags'', Lit matrixsynapse_tags),
       (''login_required'', Lit (JBool True))],
     Component_Decl ''Packages'' [(''component_id'', Lit (JStr ''packages-matrixsynapse'')),
       (''packages'', Lit (JList [JStr ''matrix-synapse'', JStr ''matrix-synapse-ldap3'',
       JStr ''python3-psycopg2'']))],
     Component_Decl ''DropinConfigs'' [(''component_id'', Lit (JStr ''dropin-configs-matrixsynapse'')),
       (''etc_paths'', Lit (JList [JStr ''/etc/apache2/conf-available/matrix-synapse-plinth.conf'',
       JStr ''/etc/fail2ban/jail.d/matrix-auth-freedombox.conf'',
       JStr ''/etc/fail2ban/filter.d/matrix-auth-freedombox.conf'']))],
     Component_Decl ''Firewall'' [(''component_id'', Lit (JStr ''firewall-matrixsynapse'')),
       (''name'', Lit (JStr ''Matrix Synapse'')),
       (''ports'', Lit (JList [JStr ''matrix-synapse-plinth''])), (''is_external'', Lit (JBool True))],
     Component_Decl ''Webserver'' [(''component_id'', Lit (JStr ''webserver-matrixsynapse'')),
       (''web_name'', Lit (JStr ''matrix-synapse-plinth'')),
       (''urls'', Lit (JList [JStr ''https://{host}/_matrix/client/versions'']))],
     Component_Decl ''LetsEncrypt'' [(''component_id'', Lit (JStr ''letsencrypt-matrixsynapse'')),
       (''domains'', Code ''get_domains''), (''daemons'', Lit (JList [JStr ''matrix-synapse''])),
       (''should_copy_certificates'', Lit (JBool True)),
       (''private_key_path'', Lit (JStr ''/etc/matrix-synapse/homeserver.tls.key'')),
       (''certificate_path'', Lit (JStr ''/etc/matrix-synapse/homeserver.tls.crt'')),
       (''user_owner'', Lit (JStr ''matrix-synapse'')), (''group_owner'', Lit (JStr ''nogroup'')),
       (''managing_app'', Lit (JStr ''matrixsynapse''))],
     Component_Decl ''Daemon'' [(''component_id'', Lit (JStr ''daemon-matrixsynapse'')),
       (''unit'', Lit (JStr ''matrix-synapse'')),
       (''listen_ports'', Lit (JList [JList [JInt 8008, JStr ''tcp4''], JList [JInt 8448, JStr ''tcp4'']]))],
     Component_Decl ''BackupRestore'' ([(''component_id'', Lit (JStr ''backup-restore-matrixsynapse''))] @ splat matrixsynapse_backup),
     Component_Decl ''MatrixSynapseTurnConsumer'' [(''component_id'', Lit (JStr ''turn-matrixsynapse''))]]"

definition mediawiki_decl :: "app_decl" where
  "mediawiki_decl = App_Decl ''mediawiki'' True True
    [Component_Decl ''Info'' [(''app_id'', Lit (JStr ''mediawiki'')), (''version'', Lit (JInt 13)),
       (''name'', Lit (JStr ''MediaWiki'')), (''icon_filename'', Lit (JStr ''mediawiki'')),
       (''description'', Code ''_description''), (''manual_page'', Lit (JStr ''MediaWiki'')),
       (''clients'', Lit mediawiki_clients), (''tags'', Lit mediawiki_tags)],
     Component_Decl ''Menu'' [(''component_id'', Lit (JStr ''menu-mediawiki'')),
       (''name'', Lit (JStr ''MediaWiki'')), (''icon'', Lit (JStr ''mediawiki'')),
       (''tags'', Lit mediawiki_tags), (''url_name'', Lit (JStr ''mediawiki:index'')),
       (''parent_url_name'', Lit (JStr ''apps''))],
     Component_Decl ''Shortcut'' [(''component_id'', Lit (JStr ''shortcut-mediawiki'')),
       (''name'', Lit (JStr ''MediaWiki'')), (''icon'', Lit (JStr ''mediawiki'')),
       (''url'', Lit (JStr ''/mediawiki'')), (''clients'', Lit mediawiki_clients),
       (''tags'', Lit mediawiki_tags), (''login_required'', Lit (JBool True))],
     Component_Decl ''Packages'' [(''component_id'', Lit (JStr ''packages-mediawiki'')),
       (''packages'', Lit (JList [JStr ''mediawiki'', JStr ''imagemagick'', JStr ''php-sqlite3''])),
       (''rerun_setup_on_upgrade'', Lit (JBool True))],
     Component_Decl ''DropinConfigs'' [(''component_id'', Lit (JStr ''dropin-configs-mediawiki'')),
       (''etc_paths'', Lit (JList [JStr ''/etc/apache2/conf-available/mediawiki-freedombox.conf'',
       JStr ''/etc/mediawiki/FreedomBoxStaticSettings.php'']))],
     Component_Decl ''Firewall'' [(''component_id'', Lit (JStr ''firewall-mediawiki'')),
       (''name'', Lit (JStr ''MediaWiki'')), (''ports'', Lit (JList [JStr ''http'', JStr ''https''])),
       (''is_external'', Lit (JBool True))],
     Component_Decl ''Webserver'' [(''component_id'', Lit (JStr ''webserver-mediawiki'')),
       (''web_name'', Lit (JStr ''mediawiki'')),
       (''urls'', Lit (JList [JStr ''https://{host}/mediawiki/''])),
       (''expect_redirects'', Lit (JBool True))],
     Component_Decl ''Webserver'' [(''component_id'', Lit (JStr ''webserver-mediawiki-freedombox'')),
       (''web_name'', Lit (JStr ''mediawiki-freedombox'')), (''last_updated_version'', Lit (JInt 13))],
     Component_Decl ''Daemon'' [(''component_id'', Lit (JStr ''daemon-mediawiki'')),
       (''unit'', Lit (JStr ''mediawiki-jobrunner''))],
     Component_Decl ''BackupRestore'' ([(''component_id'', Lit (JStr ''backup-restore-mediawiki''))] @ splat mediawiki_backup)]"

definition minetest_decl :: "(string \<Rightarrow> string) \<Rightarrow> app_decl" where
  "minetest_decl reverse_url = App_Decl ''minetest'' True True
    [Component_Decl ''Info'' [(''app_id'', Lit (JStr ''minetest'')), (''version'', Lit (JInt 3)),
       (''name'', Lit (JStr ''Luanti'')), (''icon_filename'', Lit (JStr ''minetest'')),
       (''description'', Code ''_description''), (''manual_page'', Lit (JStr ''Minetest'')),
       (''clients'', Lit minetest_clients), (''tags'', Lit minetest_tags),
       (''donation_url'', Lit (JStr ''https://www.luanti.org/donate/''))],
     Component_Decl ''Menu'' [(''component_id'', Lit (JStr ''menu-minetest'')),
       (''name'', Lit (JStr ''Luanti'')), (''icon'', Lit (JStr ''minetest'')),
       (''tags'', Lit minetest_tags), (''url_name'', Lit (JStr ''minetest:index'')),
       (''parent_url_name'', Lit (JStr ''apps''))],
     Component_Decl ''Shortcut'' [(''component_id'', Lit (JStr ''shortcut-minetest'')),
       (''name'', Lit (JStr ''Luanti'')), (''icon'', Lit (JStr ''minetest'')),
       (''description'', Code ''_description''), (''manual_page'', Lit (JStr ''Minetest'')),
       (''configure_url'', Lit (JStr (reverse_url ''minetest:index''))),
       (''clients'', Lit minetest_clients), (''tags'', Lit minetest_tags),
       (''login_required'', Lit (JBool False))],
     Component_Decl ''Packages'' [(''component_id'', Lit (JStr ''packages-minetest'')),
       (''packages'', Code (''['' @ [CHR 0x27] @ ''luanti-server'' @ [CHR 0x27] @ ''] + _mods''))],
     Component_Decl ''Firewall'' [(''component_id'', Lit (JStr ''firewall-minetest'')),
       (''name'', Lit (JStr ''Luanti'')), (''ports'', Lit (JList [JStr ''minetest-plinth''])),
       (''is_external'', Lit (JBool True))],
     Component_Decl ''Daemon'' [(''component_id'', Lit (JStr ''daemon-minetest'')),
       (''unit'', Lit (JStr ''luanti-server'')),
       (''listen_ports'', Lit (JList [JList [JInt 30000, JStr ''udp4'']]))],
     Component_Decl ''UsersAndGroups'' [(''component_id'', Lit (JStr ''users-and-groups-minetest'')),
       (''reserved_usernames'', Lit (JList [JStr ''Debian-minetest'']))],
     Component_Decl ''BackupRestore'' ([(''component_id'', Lit (JStr ''backup-restore-minetest''))] @ splat minetest_backup)]"

definition minidlna_decl :: "(string \<Rightarrow> string) \<Rightarrow> app_decl" where
  "minidlna_decl reverse_url = App_Decl ''minidlna'' True True
    [Component_Decl ''Info'' [(''app_id'', Lit (JStr ''minidlna'')), (''version'', Lit (JInt 6)),
       (''name'', Lit (JStr ''MiniDLNA'')), (''icon_filename'', Lit (JStr ''minidlna'')),
       (''description'', Code ''_description''), (''manual_page'', Lit (JStr ''MiniDLNA'')),
       (''clients'', Lit minidlna_clients), (''tags'', Lit minidlna_tags)],
     Component_Decl ''Menu'' [(''component_id'', Lit (JStr ''menu-minidlna'')),
       (''name'', Lit (JStr ''MiniDLNA'')), (''icon'', Lit (JStr ''minidlna'')),
       (''tags'', Lit minidlna_tags), (''url_name'', Lit (JStr ''minidlna:index'')),
       (''parent_url_name'', Lit (JStr ''apps''))],
     Component_Decl ''Shortcut'' [(''component_id'', Lit (JStr ''shortcut-minidlna'')),
       (''name'', Lit (JStr ''MiniDLNA'')), (''description'', Code ''_description''),
       (''icon'', Lit (JStr ''minidlna'')),
       (''configure_url'', Lit (JStr (reverse_url ''minidlna:index''))), (''tags'', Lit minidlna_tags),
       (''login_required'', Lit (JBool True))],
     Component_Decl ''Packages'' [(''component_id'', Lit (JStr ''packages-minidlna'')),
       (''packages'', Lit (JList [JStr ''minidlna'']))],
     Component_Decl ''Firewall'' [(''component_id'', Lit (JStr ''firewall-minidlna'')),
       (''name'', Lit (JStr ''MiniDLNA'')), (''ports'', Lit (JList [JStr ''minidlna'', JStr ''ssdp''])),
       (''is_external'', Lit (JBool False))],
     Component_Decl ''Daemon'' [(''component_id'', Lit (JStr ''daemon-minidlna'')),
       (''unit'', Lit (JStr ''minidlna''))],
     Component_Decl ''BackupRestore'' ([(''component_id'', Lit (JStr ''backup-restore-minidlna''))] @ splat minidlna_backup)]"

definition miniflux_decl :: "app_decl" where
  "miniflux_decl = App_Decl ''miniflux'' True True
    [Component_Decl ''Info'' [(''app_id'', Lit (JStr ''miniflux'')), (''version'', Lit (JInt 2)),
       (''name'', Lit (JStr ''Miniflux'')), (''icon_filename'', Lit (JStr ''miniflux'')),
       (''description'', Code ''_description''), (''manual_page'', Lit (JStr ''miniflux'')),
       (''clients'', Lit miniflux_clients), (''tags'', Lit miniflux_tags),
       (''donation_url'', Lit (JStr ''https://miniflux.app/#donations''))],
     Component_Decl ''Menu'' [(''component_id'', Lit (JStr ''menu-miniflux'')),
       (''name'', Lit (JStr ''Miniflux'')), (''icon'', Lit (JStr ''miniflux'')),
       (''tags'', Lit miniflux_tags), (''url_name'', Lit (JStr ''miniflux:index'')),
       (''parent_url_name'', Lit (JStr ''apps''))],
     Component_Decl ''Shortcut'' [(''component_id'', Lit (JStr ''shortcut-miniflux'')),
       (''name'', Lit (JStr ''Miniflux'')), (''icon'', Lit (JStr ''miniflux'')),
       (''url'', Lit (JStr ''/miniflux'')), (''clients'', Lit miniflux_clients),
       (''tags'', Lit miniflux_tags), (''login_required'', Lit (JBool True))],
     Component_Decl ''Packages'' [(''component_id'', Lit (JStr ''packages-miniflux-postgresql'')),
       (''packages'', Lit (JList [JStr ''postgresql'']))],
     Component_Decl ''Packages'' [(''component_id'', Lit (JStr ''packages-miniflux'')),
       (''packages'', Lit (JList [JStr ''miniflux'']))],
     Component_Decl ''DropinConfigs'' [(''component_id'', Lit (JStr ''dropin-configs-miniflux'')),
       (''etc_paths'', Lit (JList [JStr ''/etc/apache2/conf-available/miniflux-freedombox.conf'']))],
     Component_Decl ''Firewall'' [(''component_id'', Lit (JStr ''firewall-miniflux'')),
       (''name'', Lit (JStr ''Miniflux'')), (''ports'', Lit (JList [JStr ''http'', JStr ''https''])),
       (''is_external'', Lit (JBool True))],
     Component_Decl ''Webserver'' [(''component_id'', Lit (JStr ''webserver-miniflux'')),
       (''web_name'', Lit (JStr ''miniflux-freedombox'')),
       (''urls'', Lit (JList [JStr ''https://{host}/miniflux/'']))],
     Component_Decl ''SharedDaemon'' [(''component_id'', Lit (JStr ''shared-daemon-miniflux-postgresql'')),
       (''unit'', Lit (JStr ''postgresql''))],
     Component_Decl ''Daemon'' [(''component_id'', Lit (JStr ''daemon-miniflux'')),
       (''unit'', Lit (JStr ''miniflux'')),
       (''listen_ports'', Lit (JList [JList [JInt 8788, JStr ''tcp4''], JList [JInt 8788, JStr ''tcp6'']]))],
     Component_Decl ''MinifluxBackupRestore'' ([(''component_id'', Lit (JStr ''backup-restore-miniflux''))] @ splat miniflux_backup)]"

definition mumble_decl :: "(string \<Rightarrow> string) \<Rightarrow> app_decl" where
  "mumble_decl reverse_url = App_Decl ''mumble'' True True
    [Component_Decl ''Info'' [(''app_id'', Lit (JStr ''mumble'')), (''version'', Lit (JInt 2)),
       (''name'', Lit (JStr ''Mumble'')), (''icon_filename'', Lit (JStr ''mumble'')),
       (''description'', Code ''_description''), (''manual_page'', Lit (JStr ''Mumble'')),
       (''clients'', Lit mumble_clients), (''tags'', Lit mumble_tags),
       (''donation_url'', Lit (JStr ''https://wiki.mumble.info/wiki/Donate''))],
     Component_Decl ''Menu'' [(''component_id'', Lit (JStr ''menu-mumble'')), (''name'', Lit (JStr ''Mumble'')),
       (''icon'', Lit (JStr ''mumble'')), (''tags'', Lit mumble_tags),
       (''url_name'', Lit (JStr ''mumble:index'')), (''parent_url_name'', Lit (JStr ''apps''))],
     Component_Decl ''Shortcut'' [(''component_id'', Lit (JStr ''shortcut-mumble'')),
       (''name'', Lit (JStr ''Mumble'')), (''icon'', Lit (JStr ''mumble'')),
       (''description'', Code ''_description''), (''manual_page'', Lit (JStr ''Mumble'')),
       (''configure_url'', Lit (JStr (reverse_url ''mumble:index''))), (''clients'', Lit mumble_clients),
       (''tags'', Lit mumble_tags)],
     Component_Decl ''Packages'' [(''component_id'', Lit (JStr ''packages-mumble'')),
       (''packages'', Lit (JList [JStr ''mumble-server'']))],
     Component_Decl ''Firewall'' [(''component_id'', Lit (JStr ''firewall-mumble'')),
       (''name'', Lit (JStr ''Mumble'')), (''ports'', Lit (JList [JStr ''mumble-plinth''])),
       (''is_external'', Lit (JBool True))],
     Component_Decl ''LetsEncrypt'' [(''component_id'', Lit (JStr ''letsencrypt-mumble'')),
       (''domains'', Code ''get_domains''), (''daemons'', Lit (JList [JStr ''mumble-server''])),
       (''should_copy_certificates'', Lit (JBool True)),
       (''private_key_path'', Lit (JStr ''/var/lib/mumble-server/privkey.pem'')),
       (''certificate_path'', Lit (JStr ''/var/lib/mumble-server/fullchain.pem'')),
       (''user_owner'', Lit (JStr ''mumble-server'')), (''group_owner'', Lit (JStr ''mumble-server'')),
       (''managing_app'', Lit (JStr ''mumble''))],
     Component_Decl ''Daemon'' [(''component_id'', Lit (JStr ''daemon-mumble'')),
       (''unit'', Lit (JStr ''mumble-server'')),
       (''listen_ports'', Lit (JList [JList [JInt 64738, JStr ''tcp4''], JList [JInt 64738, JStr ''tcp6''],
       JList [JInt 64738, JStr ''udp4''], JList [JInt 64738, JStr ''udp6'']]))],
     Component_Decl ''UsersAndGroups'' [(''component_id'', Lit (JStr ''users-and-groups-mumble'')),
       (''reserved_usernames'', Lit (JList [JStr ''mumble-server'']))],
     Component_Decl ''BackupRestore'' ([(''component_id'', Lit (JStr ''backup-restore-mumble''))] @ splat mumble_backup)]"

definition names_decl :: "app_decl" where
  "names_decl = App_Decl ''names'' False True
    [Component_Decl ''Info'' [(''app_id'', Lit (JStr ''names'')), (''version'', Lit (JInt 4)),
       (''is_essential'', Lit (JBool True)), (''name'', Lit (JStr ''Name Services'')),
       (''icon'', Lit (JStr ''fa-tags'')), (''description'', Code ''_description''),
       (''manual_page'', Lit (JStr ''NameServices'')), (''tags'', Lit names_tags)],
     Component_Decl ''Menu'' [(''component_id'', Lit (JStr ''menu-names'')),
       (''name'', Lit (JStr ''Name Services'')), (''icon'', Lit (JStr ''fa-tags'')),
       (''tags'', Lit names_tags), (''url_name'', Lit (JStr ''names:index'')),
       (''parent_url_name'', Lit (JStr ''system:visibility'')), (''order'', Lit (JInt 10))],
     Component_Decl ''Packages'' [(''component_id'', Lit (JStr ''packages-names'')),
       (''packages'', Lit (JList [JStr ''iproute2'']))],
     Component_Decl ''DomainType'' [(''component_id'', Lit (JStr ''domain-type-static'')),
       (''display_name'', Lit (JStr ''Domain (regular)'')),
       (''delete_url'', Lit (JStr ''names:domain-delete'')),
       (''add_url'', Lit (JStr ''names:domain-add'')), (''can_have_certificate'', Lit (JBool True)),
       (''priority'', Lit (JInt 100))],
     Component_Decl ''ResolvedDaemon'' [(''component_id'', Lit (JStr ''daemon-names'')),
       (''unit'', Lit (JStr ''systemd-resolved''))],
     Component_Decl ''BackupRestore'' ([(''component_id'', Lit (JStr ''backup-restore-names''))] @ splat names_backup)]"

definition networks_decl :: "app_decl" where
  "networks_decl = App_Decl ''networks'' False True
    [Component_Decl ''Info'' [(''app_id'', Lit (JStr ''networks'')), (''version'', Lit (JInt 2)),
       (''is_essential'', Lit (JBool True)), (''name'', Lit (JStr ''Networks'')),
       (''icon'', Lit (JStr ''fa-signal'')), (''description'', Code ''_description''),
       (''manual_page'', Lit (JStr ''Networks'')), (''tags'', Lit networks_tags)],
     Component_Decl ''Menu'' [(''component_id'', Lit (JStr ''menu-networks'')),
       (''name'', Lit (JStr ''Networks'')), (''icon'', Lit (JStr ''fa-signal'')),
       (''tags'', Lit networks_tags), (''url_name'', Lit (JStr ''networks:index'')),
       (''parent_url_name'', Lit (JStr ''system:system'')), (''order'', Lit (JInt 20))],
     Component_Decl ''Packages'' [(''component_id'', Lit (JStr ''packages-networks'')),
       (''packages'', Lit (JList [JStr ''network-manager'', JStr ''batctl'']))],
     Component_Decl ''Firewall'' [(''component_id'', Lit (JStr ''firewall-networks'')),
       (''name'', Lit (JStr ''Networks'')), (''ports'', Lit (JList [JStr ''dns'', JStr ''dhcp''])),
       (''is_external'', Lit (JBool False))],
     Component_Decl ''DropinConfigs'' [(''component_id'', Lit (JStr ''dropin-configs-networks'')),
       (''etc_paths'', Lit (JList [JStr ''/etc/NetworkManager/dispatcher.d/10-freedombox-batman'']))]]"

definition nextcloud_decl :: "app_decl" where
  "nextcloud_decl = App_Decl ''nextcloud'' True False
    [Component_Decl ''Info'' [(''app_id'', Lit (JStr ''nextcloud'')), (''version'', Lit (JInt 2)),
       (''name'', Lit (JStr ''Nextcloud'')), (''icon_filename'', Lit (JStr ''nextcloud'')),
       (''description'', Code ''_description''), (''manual_page'', Lit (JStr ''Nextcloud'')),
       (''clients'', Lit nextcloud_clients), (''tags'', Lit nextcloud_tags)],
     Component_Decl ''Menu'' [(''component_id'', Lit (JStr ''menu-nextcloud'')),
       (''name'', Lit (JStr ''Nextcloud'')), (''icon'', Lit (JStr ''nextcloud'')),
       (''tags'', Lit nextcloud_tags), (''url_name'', Lit (JStr ''nextcloud:index'')),
       (''parent_url_name'', Lit (JStr ''apps''))],
     Component_Decl ''Shortcut'' [(''component_id'', Lit (JStr ''shortcut-nextcloud'')),
       (''name'', Lit (JStr ''Nextcloud'')), (''icon'', Lit (JStr ''nextcloud'')),
       (''url'', Lit (JStr ''/nextcloud/'')), (''clients'', Lit nextcloud_clients),
       (''tags'', Lit nextcloud_tags), (''login_required'', Lit (JBool True))],
     Component_Decl ''Packages'' [(''component_id'', Lit (JStr ''packages-nextcloud'')),
       (''packages'', Lit (JList [JStr ''podman'', JStr ''default-mysql-server'', JStr ''python3-iso3166'',
       JStr ''redis-server'', JStr ''php-redis''])), (''conflicts'', Lit (JList [JStr ''libpam-tmpdir''])),
       (''conflicts_action'', Code ''Packages.ConflictsAction.REMOVE'')],
     Component_Decl ''DropinConfigs'' [(''component_id'', Lit (JStr ''dropin-configs-nextcloud'')),
       (''etc_paths'', Lit (JList [JStr ''/etc/apache2/conf-available/nextcloud-freedombox.conf'',
       JStr ''/etc/redis/conf.d/freedombox.conf'']))],
     Component_Decl ''Firewall'' [(''component_id'', Lit (JStr ''firewall-nextcloud'')),
       (''name'', Lit (JStr ''Nextcloud'')), (''ports'', Lit (JList [JStr ''http'', JStr ''https''])),
       (''is_external'', Lit (JBool True))],
     Component_Decl ''FirewallLocalProtection'' [(''component_id'', Lit (JStr ''firewall-local-protection-nextcloud'')),
       (''tcp_ports'', Lit (JList [JStr ''9000'']))],
     Component_Decl ''Webserver'' [(''component_id'', Lit (JStr ''webserver-nextcloud'')),
       (''web_name'', Lit (JStr ''nextcloud-freedombox''))],
     Component_Decl ''SharedDaemon'' [(''component_id'', Lit (JStr ''shared-daemon-podman-auto-update'')),
       (''unit'', Lit (JStr ''podman-auto-update.timer''))],
     Component_Decl ''SharedDaemon'' [(''component_id'', Lit (JStr ''shared-daemon-nextcloud-redis'')),
       (''unit'', Lit (JStr ''redis-server'')),
       (''listen_ports'', Lit (JList [JList [JInt 6379, JStr ''tcp4'']]))],
     Component_Decl ''SharedDaemon'' [(''component_id'', Lit (JStr ''shared-daemon-nextcloud-mysql'')),
       (''unit'', Lit (JStr ''mysql''))],
     Component_Decl ''NextcloudDaemon'' [(''component_id'', Lit (JStr ''daemon-nextcloud'')),
       (''unit'', Lit (JStr ''nextcloud-freedombox''))],
     Component_Decl ''Daemon'' [(''component_id'', Lit (JStr ''daemon-nextcloud-timer'')),
       (''unit'', Lit (JStr ''nextcloud-cron-freedombox.timer''))],
     Component_Decl ''NextcloudBackupRestore'' ([(''component_id'', Lit (JStr ''backup-restore-nextcloud''))] @ splat nextcloud_backup)]"

definition oidc_decl :: "app_decl" where
  "oidc_decl = App_Decl ''oidc'' True True
    [Component_Decl ''Info'' [(''app_id'', Lit (JStr ''oidc'')), (''version'', Lit (JInt 1)),
       (''is_essential'', Lit (JBool True)), (''name'', Lit (JStr ''OpenID Connect Provider''))]]"

definition openvpn_decl :: "(string \<Rightarrow> string) \<Rightarrow> app_decl" where
  "openvpn_decl reverse_url = App_Decl ''openvpn'' True True
    [Component_Decl ''Info'' [(''app_id'', Lit (JStr ''openvpn'')), (''version'', Lit (JInt 5)),
       (''name'', Lit (JStr ''OpenVPN'')), (''icon_filename'', Lit (JStr ''openvpn'')),
       (''description'', Code ''_description''), (''manual_page'', Lit (JStr ''OpenVPN'')),
       (''clients'', Lit openvpn_clients), (''tags'', Lit openvpn_tags)],
     Component_Decl ''Menu'' [(''component_id'', Lit (JStr ''menu-openvpn'')),
       (''name'', Lit (JStr ''OpenVPN'')), (''icon'', Lit (JStr ''openvpn'')),
       (''tags'', Lit openvpn_tags), (''url_name'', Lit (JStr ''openvpn:index'')),
       (''parent_url_name'', Lit (JStr ''apps''))],
     Component_Decl ''Shortcut'' [(''component_id'', Lit (JStr ''shortcut-openvpn'')),
       (''name'', Lit (JStr ''OpenVPN'')), (''icon'', Lit (JStr ''openvpn'')),
       (''description'', Code ''(info.description or []) + [download_profile]''),
       (''manual_page'', Lit (JStr ''OpenVPN'')),
       (''configure_url'', Lit (JStr (reverse_url ''openvpn:index''))), (''tags'', Lit openvpn_tags),
       (''login_required'', Lit (JBool True)), (''allowed_groups'', Lit (JList [JStr ''vpn'']))],
     Component_Decl ''Packages'' [(''component_id'', Lit (JStr ''packages-openvpn'')),
       (''packages'', Lit (JList [JStr ''openvpn'', JStr ''easy-rsa'', JStr ''openssl'']))],
     Component_Decl ''Firewall'' [(''component_id'', Lit (JStr ''firewall-openvpn'')),
       (''name'', Lit (JStr ''OpenVPN'')), (''ports'', Lit (JList [JStr ''openvpn''])),
       (''is_external'', Lit (JBool True))],
     Component_Decl ''Daemon'' [(''component_id'', Lit (JStr ''daemon-openvpn'')),
       (''unit'', Lit (JStr ''openvpn-server@freedombox'')),
       (''listen_ports'', Lit (JList [JList [JInt 1194, JStr ''udp4''], JList [JInt 1194, JStr ''udp6'']]))],
     Component_Decl ''UsersAndGroups'' [(''component_id'', Lit (JStr ''users-and-groups-openvpn'')),
       (''groups'', Lit (JDict [(''vpn'', JStr ''Connect to VPN services'')]))],
     Component_Decl ''BackupRestore'' ([(''component_id'', Lit (JStr ''backup-restore-openvpn''))] @ splat openvpn_backup)]"

definition pagekite_decl :: "app_decl" where
  "pagekite_decl = App_Decl ''pagekite'' True True
    [Component_Decl ''Info'' [(''app_id'', Lit (JStr ''pagekite'')), (''version'', Lit (JInt 2)),
       (''depends'', Lit (JList [JStr ''names''])), (''name'', Lit (JStr ''PageKite'')),
       (''icon'', Lit (JStr ''fa-flag'')), (''description'', Code ''_description''),
       (''manual_page'', Lit (JStr ''PageKite'')), (''tags'', Lit pagekite_tags),
       (''donation_url'', Lit (JStr ''https://pagekite.net/support/faq/#donate''))],
     Component_Decl ''Menu'' [(''component_id'', Lit (JStr ''menu-pagekite'')),
       (''name'', Lit (JStr ''PageKite'')), (''icon'', Lit (JStr ''fa-flag'')),
       (''tags'', Lit pagekite_tags), (''url_name'', Lit (JStr ''pagekite:index'')),
       (''parent_url_name'', Lit (JStr ''system:visibility'')), (''order'', Lit (JInt 40))],
     Component_Decl ''Packages'' [(''component_id'', Lit (JStr ''packages-pagekite'')),
       (''packages'', Lit (JList [JStr ''pagekite'']))],
     Component_Decl ''DomainType'' [(''component_id'', Lit (JStr ''domain-type-pagekite'')),
       (''display_name'', Lit (JStr ''PageKite Domain'')),
       (''configuration_url'', Lit (JStr ''pagekite:index'')),
       (''can_have_certificate'', Lit (JBool True)), (''priority'', Lit (JInt 40))],
     Component_Decl ''Daemon'' [(''component_id'', Lit (JStr ''daemon-pagekite'')),
       (''unit'', Lit (JStr ''pagekite''))],
     Component_Decl ''BackupRestore'' ([(''component_id'', Lit (JStr ''backup-restore-pagekite''))] @ splat pagekite_backup)]"

definition performance_decl :: "app_decl" where
  "performance_decl = App_Decl ''performance'' True True
    [Component_Decl ''Info'' [(''app_id'', Lit (JStr ''performance'')), (''version'', Lit (JInt 1)),
       (''name'', Lit (JStr ''Performance'')), (''icon'', Lit (JStr ''fa-bar-chart'')),
       (''description'', Code ''_description''), (''manual_page'', Lit (JStr ''Performance'')),
       (''clients'', Lit performance_clients), (''tags'', Lit performance_tags)],
     Component_Decl ''Menu'' [(''component_id'', Lit (JStr ''menu-performance'')),
       (''name'', Lit (JStr ''Performance'')), (''icon'', Lit (JStr ''fa-bar-chart'')),
       (''tags'', Lit performance_tags), (''url_name'', Lit (JStr ''performance:index'')),
       (''parent_url_name'', Lit (JStr ''system:administration'')), (''order'', Lit (JInt 40))],
     Component_Decl ''Packages'' [(''component_id'', Lit (JStr ''packages-performance'')),
       (''packages'', Code (''[Package('' @ [CHR 0x27] @ ''cockpit-pcp'' @ [CHR 0x27] @ '') | Package('' @ [CHR 0x27] @ ''cockpit-bridge'' @ [CHR 0x27] @ ''), '' @ [CHR 0x27] @ ''cockpit-bridge'' @ [CHR 0x27] @ '', '' @ [CHR 0x27] @ ''pcp'' @ [CHR 0x27] @ '']''))],
     Component_Decl ''BackupRestore'' ([(''component_id'', Lit (JStr ''backup-restore-performance''))] @ splat performance_backup),
     Component_Decl ''Daemon'' [(''component_id'', Lit (JStr ''daemon-performance-0'')),
       (''unit'', Lit (JStr ''pmcd.service'')), (''listen_ports'', Lit (JNull))],
     Component_Decl ''Daemon'' [(''component_id'', Lit (JStr ''daemon-performance-1'')),
       (''unit'', Lit (JStr ''pmie.service'')), (''listen_ports'', Lit (JNull))],
     Component_Decl ''Daemon'' [(''component_id'', Lit (JStr ''daemon-performance-2'')),
       (''unit'', Lit (JStr ''pmlogger.service'')), (''listen_ports'', Lit (JNull))],
     Component_Decl ''Daemon'' [(''component_id'', Lit (JStr ''daemon-performance-3'')),
       (''unit'', Lit (JStr ''pmproxy.service'')), (''listen_ports'', Lit (JNull))]]"

definition power_decl :: "app_decl" where
  "power_decl = App_Decl ''power'' False True
    [Component_Decl ''Info'' [(''app_id'', Lit (JStr ''power'')), (''version'', Lit (JInt 1)),
       (''is_essential'', Lit (JBool True)), (''name'', Lit (JStr ''Power'')),
       (''icon'', Lit (JStr ''fa-power-off'')), (''description'', Code ''_description''),
       (''manual_page'', Lit (JStr ''Power'')), (''tags'', Lit power_tags)],
     Component_Decl ''Menu'' [(''component_id'', Lit (JStr ''menu-power'')), (''name'', Lit (JStr ''Power'')),
       (''icon'', Lit (JStr ''fa-power-off'')), (''tags'', Lit power_tags),
       (''url_name'', Lit (JStr ''power:index'')),
       (''parent_url_name'', Lit (JStr ''system:administration'')), (''order'', Lit (JInt 50))],
     Component_Decl ''BackupRestore'' ([(''component_id'', Lit (JStr ''backup-restore-power''))] @ splat power_backup)]"

definition privacy_decl :: "app_decl" where
  "privacy_decl = App_Decl ''privacy'' False True
    [Component_Decl ''Info'' [(''app_id'', Lit (JStr ''privacy'')), (''version'', Lit (JInt 4)),
       (''is_essential'', Lit (JBool True)), (''name'', Lit (JStr ''Privacy'')),
       (''icon'', Lit (JStr ''fa-eye-slash'')), (''description'', Code ''_description''),
       (''manual_page'', Lit (JNull)), (''tags'', Lit privacy_tags)],
     Component_Decl ''Menu'' [(''component_id'', Lit (JStr ''menu-privacy'')),
       (''name'', Lit (JStr ''Privacy'')), (''icon'', Lit (JStr ''fa-eye-slash'')),
       (''tags'', Lit privacy_tags), (''url_name'', Lit (JStr ''privacy:index'')),
       (''parent_url_name'', Lit (JStr ''system:data'')), (''order'', Lit (JInt 10))],
     Component_Decl ''Packages'' [(''component_id'', Lit (JStr ''packages-privacy'')),
       (''packages'', Lit (JList [JStr ''popularity-contest'', JStr ''gpg'']))],
     Component_Decl ''DropinConfigs'' [(''component_id'', Lit (JStr ''dropin-configs-privacy'')),
       (''etc_paths'', Lit (JList [JStr ''/etc/dpkg/origins/freedombox'']))],
     Component_Decl ''BackupRestore'' ([(''component_id'', Lit (JStr ''backup-restore-privacy''))] @ splat privacy_backup)]"

definition privoxy_decl :: "(string \<Rightarrow> string) \<Rightarrow> app_decl" where
  "privoxy_decl reverse_url = App_Decl ''privoxy'' True True
    [Component_Decl ''Info'' [(''app_id'', Lit (JStr ''privoxy'')), (''version'', Lit (JInt 2)),
       (''name'', Lit (JStr ''Privoxy'')), (''icon_filename'', Lit (JStr ''privoxy'')),
       (''description'', Code ''_description''), (''manual_page'', Lit (JStr ''Privoxy'')),
       (''donation_url'', Lit (JStr ''https://www.privoxy.org/faq/general.html#DONATE'')),
       (''tags'', Lit privoxy_tags)],
     Component_Decl ''Menu'' [(''component_id'', Lit (JStr ''menu-privoxy'')),
       (''name'', Lit (JStr ''Privoxy'')), (''icon'', Lit (JStr ''privoxy'')),
       (''tags'', Lit privoxy_tags), (''url_name'', Lit (JStr ''privoxy:index'')),
       (''parent_url_name'', Lit (JStr ''apps''))],
     Component_Decl ''Shortcut'' [(''component_id'', Lit (JStr ''shortcut-privoxy'')),
       (''name'', Lit (JStr ''Privoxy'')), (''icon'', Lit (JStr ''privoxy'')),
       (''description'', Code ''_description''), (''manual_page'', Lit (JStr ''Privoxy'')),
       (''configure_url'', Lit (JStr (reverse_url ''privoxy:index''))), (''tags'', Lit privoxy_tags),
       (''login_required'', Lit (JBool True))],
     Component_Decl ''Packages'' [(''component_id'', Lit (JStr ''packages-privoxy'')),
       (''packages'', Lit (JList [JStr ''privoxy'']))],
     Component_Decl ''Firewall'' [(''component_id'', Lit (JStr ''firewall-privoxy'')),
       (''name'', Lit (JStr ''Privoxy'')), (''ports'', Lit (JList [JStr ''privoxy''])),
       (''is_external'', Lit (JBool False))],
     Component_Decl ''Daemon'' [(''component_id'', Lit (JStr ''daemon-privoxy'')),
       (''unit'', Lit (JStr ''privoxy'')), (''listen_ports'', Lit (JList [JList [JInt 8118, JStr ''tcp4''],
       JList [JInt 8118, JStr ''tcp6'']]))],
     Component_Decl ''UsersAndGroups'' [(''component_id'', Lit (JStr ''users-and-groups-privoxy'')),
       (''reserved_usernames'', Lit (JList [JStr ''privoxy'']))],
     Component_Decl ''BackupRestore'' ([(''component_id'', Lit (JStr ''backup-restore-privoxy''))] @ splat privoxy_backup)]"

definition quassel_decl :: "(string \<Rightarrow> string) \<Rightarrow> app_decl" where
  "quassel_decl reverse_url = App_Decl ''quassel'' True True
    [Component_Decl ''Info'' [(''app_id'', Lit (JStr ''quassel'')), (''version'', Lit (JInt 1)),
       (''name'', Lit (JStr ''Quassel'')), (''icon_filename'', Lit (JStr ''quassel'')),
       (''description'', Code ''_description''), (''manual_page'', Lit (JStr ''Quassel'')),
       (''clients'', Lit quassel_clients), (''tags'', Lit quassel_tags)],
     Component_Decl ''Menu'' [(''component_id'', Lit (JStr ''menu-quassel'')),
       (''name'', Lit (JStr ''Quassel'')), (''icon'', Lit (JStr ''quassel'')),
       (''tags'', Lit quassel_tags), (''url_name'', Lit (JStr ''quassel:index'')),
       (''parent_url_name'', Lit (JStr ''apps''))],
     Component_Decl ''Shortcut'' [(''component_id'', Lit (JStr ''shortcut-quassel'')),
       (''name'', Lit (JStr ''Quassel'')), (''icon'', Lit (JStr ''quassel'')),
       (''description'', Code ''_description''), (''manual_page'', Lit (JStr ''Quassel'')),
       (''configure_url'', Lit (JStr (reverse_url ''quassel:index''))), (''clients'', Lit quassel_clients),
       (''tags'', Lit quassel_tags), (''login_required'', Lit (JBool True))],
     Component_Decl ''Packages'' [(''component_id'', Lit (JStr ''packages-quassel'')),
       (''packages'', Lit (JList [JStr ''quassel-core'']))],
     Component_Decl ''Firewall'' [(''component_id'', Lit (JStr ''firewall-quassel'')),
       (''name'', Lit (JStr ''Quassel'')), (''ports'', Lit (JList [JStr ''quassel-plinth''])),
       (''is_external'', Lit (JBool True))],
     Component_Decl ''LetsEncrypt'' [(''component_id'', Lit (JStr ''letsencrypt-quassel'')),
       (''domains'', Code ''get_domains''), (''daemons'', Lit (JList [JStr ''quasselcore''])),
       (''should_copy_certificates'', Lit (JBool True)),
       (''private_key_path'', Lit (JStr ''/var/lib/quassel/quasselCert.pem'')),
       (''certificate_path'', Lit (JStr ''/var/lib/quassel/quasselCert.pem'')),
       (''user_owner'', Lit (JStr ''quasselcore'')), (''group_owner'', Lit (JStr ''quassel'')),
       (''managing_app'', Lit (JStr ''quassel''))],
     Component_Decl ''Daemon'' [(''component_id'', Lit (JStr ''daemon-quassel'')),
       (''unit'', Lit (JStr ''quasselcore'')),
       (''listen_ports'', Lit (JList [JList [JInt 4242, JStr ''tcp4''], JList [JInt 4242, JStr ''tcp6'']]))],
     Component_Decl ''UsersAndGroups'' [(''component_id'', Lit (JStr ''users-and-groups-quasselcore'')),
       (''reserved_usernames'', Lit (JList [JStr ''quasselcore'']))],
     Component_Decl ''BackupRestore'' ([(''component_id'', Lit (JStr ''backup-restore-quassel''))] @ splat quassel_backup)]"

definition radicale_decl :: "app_decl" where
  "radicale_decl = App_Decl ''radicale'' True True
    [Component_Decl ''Info'' [(''app_id'', Lit (JStr ''radicale'')), (''version'', Lit (JInt 7)),
       (''name'', Lit (JStr ''Radicale'')), (''icon_filename'', Lit (JStr ''radicale'')),
       (''description'', Code ''_description''), (''manual_page'', Lit (JStr ''Radicale'')),
       (''clients'', Lit radicale_clients), (''tags'', Lit radicale_tags)],
     Component_Decl ''Menu'' [(''component_id'', Lit (JStr ''menu-radicale'')),
       (''name'', Lit (JStr ''Radicale'')), (''icon'', Lit (JStr ''radicale'')),
       (''tags'', Lit radicale_tags), (''url_name'', Lit (JStr ''radicale:index'')),
       (''parent_url_name'', Lit (JStr ''apps''))],
     Component_Decl ''Shortcut'' [(''component_id'', Lit (JStr ''shortcut-radicale'')),
       (''name'', Lit (JStr ''Radicale'')), (''icon'', Lit (JStr ''radicale'')),
       (''url'', Lit (JStr ''/radicale/'')), (''clients'', Lit radicale_clients),
       (''tags'', Lit radicale_tags), (''login_required'', Lit (JBool True))],
     Component_Decl ''Packages'' [(''component_id'', Lit (JStr ''packages-radicale'')),
       (''packages'', Lit (JList [JStr ''radicale'', JStr ''uwsgi'', JStr ''uwsgi-plugin-python3''])),
       (''rerun_setup_on_upgrade'', Lit (JBool True))],
     Component_Decl ''DropinConfigs'' [(''component_id'', Lit (JStr ''dropin-configs-radicale'')),
       (''etc_paths'', Lit (JList [JStr ''/etc/apache2/conf-available/radicale2-freedombox.conf'']))],
     Component_Decl ''Firewall'' [(''component_id'', Lit (JStr ''firewall-radicale'')),
       (''name'', Lit (JStr ''Radicale'')), (''ports'', Lit (JList [JStr ''http'', JStr ''https''])),
       (''is_external'', Lit (JBool True))],
     Component_Decl ''Webserver'' [(''component_id'', Lit (JStr ''webserver-radicale'')),
       (''web_name'', Lit (JStr ''radicale2-freedombox'')),
       (''urls'', Lit (JList [JStr ''https://{host}/radicale'']))],
     Component_Decl ''Daemon'' [(''component_id'', Lit (JStr ''daemon-radicale'')),
       (''unit'', Lit (JStr ''uwsgi-app@radicale.socket''))],
     Component_Decl ''UsersAndGroups'' [(''component_id'', Lit (JStr ''users-and-groups-radicale'')),
       (''reserved_usernames'', Lit (JList [JStr ''radicale'']))],
     Component_Decl ''BackupRestore'' ([(''component_id'', Lit (JStr ''backup-restore-radicale''))] @ splat radicale_backup),
     Component_Decl ''RelatedDaemon'' [(''component_id'', Lit (JStr ''related-daemon-radicale'')),
       (''unit'', Lit (JStr ''uwsgi''))]]"

definition roundcube_decl :: "app_decl" where
  "roundcube_decl = App_Decl ''roundcube'' True True
    [Component_Decl ''Info'' [(''app_id'', Lit (JStr ''roundcube'')), (''version'', Lit (JInt 4)),
       (''name'', Lit (JStr ''Roundcube'')), (''icon_filename'', Lit (JStr ''roundcube'')),
       (''description'', Code ''_description''), (''manual_page'', Lit (JStr ''Roundcube'')),
       (''clients'', Lit roundcube_clients), (''tags'', Lit roundcube_tags)],
     Component_Decl ''Menu'' [(''component_id'', Lit (JStr ''menu-roundcube'')),
       (''name'', Lit (JStr ''Roundcube'')), (''icon'', Lit (JStr ''roundcube'')),
       (''tags'', Lit roundcube_tags), (''url_name'', Lit (JStr ''roundcube:index'')),
       (''parent_url_name'', Lit (JStr ''apps''))],
     Component_Decl ''Shortcut'' [(''component_id'', Lit (JStr ''shortcut-roundcube'')),
       (''name'', Lit (JStr ''Roundcube'')), (''icon'', Lit (JStr ''roundcube'')),
       (''url'', Lit (JStr ''/roundcube/'')), (''clients'', Lit roundcube_clients),
       (''tags'', Lit roundcube_tags), (''login_required'', Lit (JBool True))],
     Component_Decl ''Packages'' [(''component_id'', Lit (JStr ''packages-roundcube'')),
       (''packages'', Lit (JList [JStr ''sqlite3'', JStr ''roundcube'', JStr ''roundcube-core'',
       JStr ''roundcube-sqlite3'']))],
     Component_Decl ''DropinConfigs'' [(''component_id'', Lit (JStr ''dropin-configs-roundcube'')),
       (''etc_paths'', Lit (JList [JStr ''/etc/apache2/conf-available/roundcube-freedombox.conf'',
       JStr ''/etc/fail2ban/jail.d/roundcube-auth-freedombox.conf'']))],
     Component_Decl ''Firewall'' [(''component_id'', Lit (JStr ''firewall-roundcube'')),
       (''name'', Lit (JStr ''Roundcube'')), (''ports'', Lit (JList [JStr ''http'', JStr ''https''])),
       (''is_external'', Lit (JBool True))],
     Component_Decl ''Webserver'' [(''component_id'', Lit (JStr ''webserver-roundcube'')),
       (''web_name'', Lit (JStr ''roundcube''))],
     Component_Decl ''Webserver'' [(''component_id'', Lit (JStr ''webserver-roundcube-freedombox'')),
       (''web_name'', Lit (JStr ''roundcube-freedombox'')),
       (''urls'', Lit (JList [JStr ''https://{host}/roundcube'']))],
     Component_Decl ''BackupRestore'' ([(''component_id'', Lit (JStr ''backup-restore-roundcube''))] @ splat roundcube_backup)]"

definition rssbridge_decl :: "app_decl" where
  "rssbridge_decl = App_Decl ''rssbridge'' True True
    [Component_Decl ''Info'' [(''app_id'', Lit (JStr ''rssbridge'')), (''version'', Lit (JInt 2)),
       (''name'', Lit (JStr ''RSS-Bridge'')), (''icon_filename'', Lit (JStr ''rssbridge'')),
       (''description'', Code ''_description''), (''manual_page'', Lit (JStr ''RSSBridge'')),
       (''donation_url'', Lit (JNull)), (''clients'', Lit rssbridge_clients),
       (''tags'', Lit rssbridge_tags)],
     Component_Decl ''Menu'' [(''component_id'', Lit (JStr ''menu-rssbridge'')),
       (''name'', Lit (JStr ''RSS-Bridge'')), (''icon'', Lit (JStr ''rssbridge'')),
       (''tags'', Lit rssbridge_tags), (''url_name'', Lit (JStr ''rssbridge:index'')),
       (''parent_url_name'', Lit (JStr ''apps''))],
     Component_Decl ''Shortcut'' [(''component_id'', Lit (JStr ''shortcut-rssbridge'')),
       (''name'', Lit (JStr ''RSS-Bridge'')), (''icon'', Lit (JStr ''rssbridge'')),
       (''url'', Lit (JStr ''/rss-bridge/'')), (''tags'', Lit rssbridge_tags),
       (''login_required'', Lit (JBool True)), (''allowed_groups'', Lit (JList [JStr ''feed-reader'']))],
     Component_Decl ''Packages'' [(''component_id'', Lit (JStr ''packages-rssbridge'')),
       (''packages'', Lit (JList [JStr ''rss-bridge'']))],
     Component_Decl ''DropinConfigs'' [(''component_id'', Lit (JStr ''dropin-configs-rssbridge'')),
       (''etc_paths'', Lit (JList [JStr ''/etc/apache2/conf-available/rss-bridge.conf'']))],
     Component_Decl ''Firewall'' [(''component_id'', Lit (JStr ''firewall-rssbridge'')),
       (''name'', Lit (JStr ''RSS-Bridge'')), (''ports'', Lit (JList [JStr ''http'', JStr ''https''])),
       (''is_external'', Lit (JBool True))],
     Component_Decl ''Webserver'' [(''component_id'', Lit (JStr ''webserver-rssbridge'')),
       (''web_name'', Lit (JStr ''rss-bridge'')),
       (''urls'', Lit (JList [JStr ''https://{host}/rss-bridge/'']))],
     Component_Decl ''UsersAndGroups'' [(''component_id'', Lit (JStr ''users-and-groups-rssbridge'')),
       (''groups'', Lit (JDict [(''feed-reader'', JStr ''Read and subscribe to news feeds'')]))],
     Component_Decl ''BackupRestore'' ([(''component_id'', Lit (JStr ''backup-restore-rssbridge''))] @ splat rssbridge_backup)]"

definition samba_decl :: "(string \<Rightarrow> string) \<Rightarrow> app_decl" where
  "samba_decl reverse_url = App_Decl ''samba'' True True
    [Component_Decl ''Info'' [(''app_id'', Lit (JStr ''samba'')), (''version'', Lit (JInt 6)),
       (''name'', Lit (JStr ''Samba'')), (''icon_filename'', Lit (JStr ''samba'')),
       (''manual_page'', Lit (JStr ''Samba'')), (''description'', Code ''_description''),
       (''clients'', Lit samba_clients), (''tags'', Lit samba_tags),
       (''donation_url'', Lit (JStr ''https://www.samba.org/samba/donations.html''))],
     Component_Decl ''Menu'' [(''component_id'', Lit (JStr ''menu-samba'')), (''name'', Lit (JStr ''Samba'')),
       (''icon'', Lit (JStr ''samba'')), (''tags'', Lit samba_tags),
       (''url_name'', Lit (JStr ''samba:index'')), (''parent_url_name'', Lit (JStr ''apps''))],
     Component_Decl ''Shortcut'' [(''component_id'', Lit (JStr ''shortcut-samba'')),
       (''name'', Lit (JStr ''Samba'')), (''icon'', Lit (JStr ''samba'')),
       (''description'', Code ''_description''), (''manual_page'', Lit (JStr ''Samba'')),
       (''configure_url'', Lit (JStr (reverse_url ''samba:index''))), (''clients'', Lit samba_clients),
       (''tags'', Lit samba_tags), (''login_required'', Lit (JBool True)),
       (''allowed_groups'', Lit (JList [JStr ''freedombox-share'']))],
     Component_Decl ''Packages'' [(''component_id'', Lit (JStr ''packages-samba'')),
       (''packages'', Lit (JList [JStr ''samba'', JStr ''acl'']))],
     Component_Decl ''Firewall'' [(''component_id'', Lit (JStr ''firewall-samba'')),
       (''name'', Lit (JStr ''Samba'')), (''ports'', Lit (JList [JStr ''samba'']))],
     Component_Decl ''Daemon'' [(''component_id'', Lit (JStr ''daemon-samba'')),
       (''unit'', Lit (JStr ''smbd'')), (''listen_ports'', Lit (JList [JList [JInt 139, JStr ''tcp4''],
       JList [JInt 139, JStr ''tcp6''], JList [JInt 445, JStr ''tcp4''], JList [JInt 445, JStr ''tcp6'']]))],
     Component_Decl ''UsersAndGroups'' [(''component_id'', Lit (JStr ''users-and-groups-samba'')),
       (''groups'', Lit (JDict [(''freedombox-share'', JStr ''Access to the private shares'')]))],
     Component_Decl ''BackupRestore'' ([(''component_id'', Lit (JStr ''backup-restore-samba''))] @ splat samba_backup)]"

definition searx_decl :: "app_decl" where
  "searx_decl = App_Decl ''searx'' True True
    [Component_Decl ''Info'' [(''app_id'', Lit (JStr ''searx'')), (''version'', Lit (JInt 8)),
       (''name'', Lit (JStr ''Searx'')), (''icon_filename'', Lit (JStr ''searx'')),
       (''description'', Code ''_description''), (''manual_page'', Lit (JStr ''Searx'')),
       (''clients'', Lit searx_clients), (''tags'', Lit searx_tags),
       (''donation_url'', Lit (JStr ''https://searx.me/static/donate.html''))],
     Component_Decl ''Menu'' [(''component_id'', Lit (JStr ''menu-searx'')), (''name'', Lit (JStr ''Searx'')),
       (''icon'', Lit (JStr ''searx'')), (''tags'', Lit searx_tags),
       (''url_name'', Lit (JStr ''searx:index'')), (''parent_url_name'', Lit (JStr ''apps''))],
     Component_Decl ''Shortcut'' [(''component_id'', Lit (JStr ''shortcut-searx'')),
       (''name'', Lit (JStr ''Searx'')), (''icon'', Lit (JStr ''searx'')),
       (''url'', Lit (JStr ''/searx/'')), (''clients'', Lit searx_clients), (''tags'', Lit searx_tags),
       (''login_required'', Code ''not is_public_access_enabled()''),
       (''allowed_groups'', Lit (JList [JStr ''web-search'']))],
     Component_Decl ''Packages'' [(''component_id'', Lit (JStr ''packages-searx'')),
       (''packages'', Lit (JList [JStr ''searx'', JStr ''libjs-bootstrap'', JStr ''uwsgi'',
       JStr ''uwsgi-plugin-python3'']))],
     Component_Decl ''DropinConfigs'' [(''component_id'', Lit (JStr ''dropin-configs-searx'')),
       (''etc_paths'', Lit (JList [JStr ''/etc/apache2/conf-available/searx-freedombox-auth.conf'',
       JStr ''/etc/apache2/conf-available/searx-freedombox.conf'']))],
     Component_Decl ''Firewall'' [(''component_id'', Lit (JStr ''firewall-searx'')),
       (''name'', Lit (JStr ''Searx'')), (''ports'', Lit (JList [JStr ''http'', JStr ''https''])),
       (''is_external'', Lit (JBool True))],
     Component_Decl ''Webserver'' [(''component_id'', Lit (JStr ''webserver-searx'')),
       (''web_name'', Lit (JStr ''searx-freedombox'')),
       (''urls'', Lit (JList [JStr ''https://{host}/searx/'']))],
     Component_Decl ''SearxWebserverAuth'' [(''component_id'', Lit (JStr ''webserver-searx-auth'')),
       (''web_name'', Lit (JStr ''searx-freedombox-auth''))],
     Component_Decl ''Daemon'' [(''component_id'', Lit (JStr ''daemon-searx'')),
       (''unit'', Lit (JStr ''uwsgi-app@searx.socket''))],
     Component_Decl ''UsersAndGroups'' [(''component_id'', Lit (JStr ''users-and-groups-searx'')),
       (''groups'', Lit (JDict [(''web-search'', JStr ''Search the web'')]))],
     Component_Decl ''BackupRestore'' ([(''component_id'', Lit (JStr ''backup-restore-searx''))] @ splat searx_backup),
     Component_Decl ''RelatedDaemon'' [(''component_id'', Lit (JStr ''related-daemon-searx'')),
       (''unit'', Lit (JStr ''uwsgi''))]]"

definition security_decl :: "app_decl" where
  "security_decl = App_Decl ''security'' False True
    [Component_Decl ''Info'' [(''app_id'', Lit (JStr ''security'')), (''version'', Lit (JInt 9)),
       (''is_essential'', Lit (JBool True)), (''name'', Lit (JStr ''Security'')),
       (''icon'', Lit (JStr ''fa-lock'')), (''manual_page'', Lit (JStr ''Security'')),
       (''tags'', Lit security_tags)],
     Component_Decl ''Menu'' [(''component_id'', Lit (JStr ''menu-security'')),
       (''name'', Lit (JStr ''Security'')), (''icon'', Lit (JStr ''fa-lock'')),
       (''tags'', Lit security_tags), (''url_name'', Lit (JStr ''security:index'')),
       (''parent_url_name'', Lit (JStr ''system:security'')), (''order'', Lit (JInt 10))],
     Component_Decl ''Packages'' [(''component_id'', Lit (JStr ''packages-security'')),
       (''packages'', Lit (JList [JStr ''fail2ban'', JStr ''debsecan'']))],
     Component_Decl ''DropinConfigs'' [(''component_id'', Lit (JStr ''dropin-configs-security'')),
       (''etc_paths'', Lit (JList [JStr ''/etc/fail2ban/fail2ban.d/freedombox.conf'',
       JStr ''/etc/fail2ban/jail.d/freedombox.conf'']))],
     Component_Decl ''RelatedDaemon'' [(''component_id'', Lit (JStr ''related-daemon-fail2ban'')),
       (''unit'', Lit (JStr ''fail2ban''))],
     Component_Decl ''BackupRestore'' ([(''component_id'', Lit (JStr ''backup-restore-security''))] @ splat security_backup)]"

definition shaarli_decl :: "app_decl" where
  "shaarli_decl = App_Decl ''shaarli'' True True
    [Component_Decl ''Info'' [(''app_id'', Lit (JStr ''shaarli'')), (''version'', Lit (JInt 1)),
       (''name'', Lit (JStr ''Shaarli'')), (''icon_filename'', Lit (JStr ''shaarli'')),
       (''description'', Code ''_description''), (''manual_page'', Lit (JStr ''Shaarli'')),
       (''clients'', Lit shaarli_clients), (''tags'', Lit shaarli_tags)],
     Component_Decl ''Menu'' [(''component_id'', Lit (JStr ''menu-shaarli'')),
       (''name'', Lit (JStr ''Shaarli'')), (''icon'', Lit (JStr ''shaarli'')),
       (''tags'', Lit shaarli_tags), (''url_name'', Lit (JStr ''shaarli:index'')),
       (''parent_url_name'', Lit (JStr ''apps''))],
     Component_Decl ''Shortcut'' [(''component_id'', Lit (JStr ''shortcut-shaarli'')),
       (''name'', Lit (JStr ''Shaarli'')), (''icon'', Lit (JStr ''shaarli'')),
       (''url'', Lit (JStr ''/shaarli'')), (''clients'', Lit shaarli_clients),
       (''tags'', Lit shaarli_tags), (''login_required'', Lit (JBool True))],
     Component_Decl ''Packages'' [(''component_id'', Lit (JStr ''packages-shaarli'')),
       (''packages'', Lit (JList [JStr ''shaarli'']))],
     Component_Decl ''Firewall'' [(''component_id'', Lit (JStr ''firewall-shaarli'')),
       (''name'', Lit (JStr ''Shaarli'')), (''ports'', Lit (JList [JStr ''http'', JStr ''https''])),
       (''is_external'', Lit (JBool True))],
     Component_Decl ''Webserver'' [(''component_id'', Lit (JStr ''webserver-shaarli'')),
       (''web_name'', Lit (JStr ''shaarli''))],
     Component_Decl ''BackupRestore'' ([(''component_id'', Lit (JStr ''backup-restore-shaarli''))] @ splat shaarli_backup)]"

definition shadowsocks_decl :: "(string \<Rightarrow> string) \<Rightarrow> app_decl" where
  "shadowsocks_decl reverse_url = App_Decl ''shadowsocks'' True True
    [Component_Decl ''Info'' [(''app_id'', Lit (JStr ''shadowsocks'')), (''version'', Lit (JInt 3)),
       (''name'', Lit (JStr ''Shadowsocks Client'')), (''icon_filename'', Lit (JStr ''shadowsocks'')),
       (''description'', Code ''_description''), (''manual_page'', Lit (JStr ''Shadowsocks'')),
       (''tags'', Lit shadowsocks_tags)],
     Component_Decl ''Menu'' [(''component_id'', Lit (JStr ''menu-shadowsocks'')),
       (''name'', Lit (JStr ''Shadowsocks Client'')), (''icon'', Lit (JStr ''shadowsocks'')),
       (''tags'', Lit shadowsocks_tags), (''url_name'', Lit (JStr ''shadowsocks:index'')),
       (''parent_url_name'', Lit (JStr ''apps''))],
     Component_Decl ''Shortcut'' [(''component_id'', Lit (JStr ''shortcut-shadowsocks'')),
       (''name'', Lit (JStr ''Shadowsocks Client'')), (''icon'', Lit (JStr ''shadowsocks'')),
       (''description'', Code ''_description''), (''manual_page'', Lit (JStr ''Shadowsocks'')),
       (''configure_url'', Lit (JStr (reverse_url ''shadowsocks:index''))),
       (''tags'', Lit shadowsocks_tags), (''login_required'', Lit (JBool True))],
     Component_Decl ''Packages'' [(''component_id'', Lit (JStr ''packages-shadowsocks'')),
       (''packages'', Lit (JList [JStr ''shadowsocks-libev'']))],
     Component_Decl ''Firewall'' [(''component_id'', Lit (JStr ''firewall-shadowsocks'')),
       (''name'', Lit (JStr ''Shadowsocks Client'')),
       (''ports'', Lit (JList [JStr ''shadowsocks-local-plinth''])), (''is_external'', Lit (JBool False))],
     Component_Decl ''Daemon'' [(''component_id'', Lit (JStr ''daemon-shadowsocks'')),
       (''unit'', Lit (JStr ''shadowsocks-libev-local@freedombox'')),
       (''listen_ports'', Lit (JList [JList [JInt 1080, JStr ''tcp4''], JList [JInt 1080, JStr ''tcp6'']]))],
     Component_Decl ''BackupRestore'' ([(''component_id'', Lit (JStr ''backup-restore-shadowsocks''))] @ splat shadowsocks_backup)]"

definition shadowsocksserver_decl :: "(string \<Rightarrow> string) \<Rightarrow> app_decl" where
  "shadowsocksserver_decl reverse_url = App_Decl ''shadowsocksserver'' True True
    [Component_Decl ''Info'' [(''app_id'', Lit (JStr ''shadowsocksserver'')), (''version'', Lit (JInt 1)),
       (''name'', Lit (JStr ''Shadowsocks Server'')), (''icon_filename'', Lit (JStr ''shadowsocks'')),
       (''description'', Code ''_description''), (''manual_page'', Lit (JStr ''Shadowsocks'')),
       (''tags'', Lit shadowsocksserver_tags)],
     Component_Decl ''Menu'' [(''component_id'', Lit (JStr ''menu-shadowsocks-server'')),
       (''name'', Lit (JStr ''Shadowsocks Server'')), (''icon'', Lit (JStr ''shadowsocks'')),
       (''tags'', Lit shadowsocksserver_tags), (''url_name'', Lit (JStr ''shadowsocksserver:index'')),
       (''parent_url_name'', Lit (JStr ''apps''))],
     Component_Decl ''Shortcut'' [(''component_id'', Lit (JStr ''shortcut-shadowsocks-server'')),
       (''name'', Lit (JStr ''Shadowsocks Server'')), (''icon'', Lit (JStr ''shadowsocks'')),
       (''description'', Code ''_description''), (''manual_page'', Lit (JStr ''Shadowsocks'')),
       (''configure_url'', Lit (JStr (reverse_url ''shadowsocksserver:index''))),
       (''tags'', Lit shadowsocksserver_tags), (''login_required'', Lit (JBool True))],
     Component_Decl ''Packages'' [(''component_id'', Lit (JStr ''packages-shadowsocks-server'')),
       (''packages'', Lit (JList [JStr ''shadowsocks-libev'']))],
     Component_Decl ''Firewall'' [(''component_id'', Lit (JStr ''firewall-shadowsocks-server'')),
       (''name'', Lit (JStr ''Shadowsocks Server'')),
       (''ports'', Lit (JList [JStr ''shadowsocks-server-freedombox''])),
       (''is_external'', Lit (JBool True))],
     Component_Decl ''Daemon'' [(''component_id'', Lit (JStr ''daemon-shadowsocks-server'')),
       (''unit'', Lit (JStr ''shadowsocks-libev-server@fbxserver'')),
       (''listen_ports'', Lit (JList [JList [JInt 8388, JStr ''tcp4''], JList [JInt 8388, JStr ''tcp6''],
       JList [JInt 8388, JStr ''udp4''], JList [JInt 8388, JStr ''udp6'']]))],
     Component_Decl ''BackupRestore'' ([(''component_id'', Lit (JStr ''backup-restore-shadowsocks-server''))] @ splat shadowsocksserver_backup)]"

definition sharing_decl :: "app_decl" where
  "sharing_decl = App_Decl ''sharing'' True True
    [Component_Decl ''Info'' [(''app_id'', Lit (JStr ''sharing'')), (''version'', Lit (JInt 4)),
       (''name'', Lit (JStr ''Sharing'')), (''icon_filename'', Lit (JStr ''sharing'')),
       (''manual_page'', Lit (JStr ''Sharing'')), (''description'', Code ''_description''),
       (''tags'', Lit sharing_tags)],
     Component_Decl ''Menu'' [(''component_id'', Lit (JStr ''menu-sharing'')),
       (''name'', Lit (JStr ''Sharing'')), (''icon'', Lit (JStr ''sharing'')),
       (''tags'', Lit sharing_tags), (''url_name'', Lit (JStr ''sharing:index'')),
       (''parent_url_name'', Lit (JStr ''apps''))],
     Component_Decl ''DropinConfigs'' [(''component_id'', Lit (JStr ''dropin-configs-sharing'')),
       (''etc_paths'', Lit (JList [JStr ''/etc/apache2/includes/freedombox-sharing.conf'']))],
     Component_Decl ''Webserver'' [(''component_id'', Lit (JStr ''webserver-sharing'')),
       (''web_name'', Lit (JStr ''sharing-freedombox''))],
     Component_Decl ''BackupRestore'' ([(''component_id'', Lit (JStr ''backup-restore-sharing''))] @ splat sharing_backup)]"

definition snapshot_decl :: "app_decl" where
  "snapshot_decl = App_Decl ''snapshot'' False True
    [Component_Decl ''Info'' [(''app_id'', Lit (JStr ''snapshot'')), (''version'', Lit (JInt 5)),
       (''is_essential'', Lit (JBool True)), (''name'', Lit (JStr ''Storage Snapshots'')),
       (''icon'', Lit (JStr ''fa-film'')), (''description'', Code ''_description''),
       (''manual_page'', Lit (JStr ''Snapshots'')), (''tags'', Lit snapshot_tags)],
     Component_Decl ''Menu'' [(''component_id'', Lit (JStr ''menu-snapshot'')),
       (''name'', Lit (JStr ''Storage Snapshots'')), (''icon'', Lit (JStr ''fa-film'')),
       (''tags'', Lit snapshot_tags), (''url_name'', Lit (JStr ''snapshot:index'')),
       (''parent_url_name'', Lit (JStr ''system:data'')), (''order'', Lit (JInt 40))],
     Component_Decl ''Packages'' [(''component_id'', Lit (JStr ''packages-snapshot'')),
       (''packages'', Lit (JList [JStr ''snapper'']))],
     Component_Decl ''SnapshotBackupRestore'' ([(''component_id'', Lit (JStr ''backup-restore-snapshot''))] @ splat snapshot_backup)]"

definition sogo_decl :: "app_decl" where
  "sogo_decl = App_Decl ''sogo'' True True
    [Component_Decl ''Info'' [(''app_id'', Lit (JStr ''sogo'')), (''version'', Lit (JInt 3)),
       (''depends'', Lit (JList [JStr ''email''])), (''name'', Lit (JStr ''SOGo'')),
       (''icon_filename'', Lit (JStr ''sogo'')), (''description'', Code ''_description''),
       (''manual_page'', Lit (JStr ''SOGo'')), (''clients'', Lit sogo_clients), (''tags'', Lit sogo_tags)],
     Component_Decl ''Menu'' [(''component_id'', Lit (JStr ''menu-sogo'')), (''name'', Lit (JStr ''SOGo'')),
       (''icon'', Lit (JStr ''sogo'')), (''tags'', Lit sogo_tags),
       (''url_name'', Lit (JStr ''sogo:index'')), (''parent_url_name'', Lit (JStr ''apps''))],
     Component_Decl ''Shortcut'' [(''component_id'', Lit (JStr ''shortcut-sogo'')),
       (''name'', Lit (JStr ''SOGo'')), (''icon'', Lit (JStr ''sogo'')), (''url'', Lit (JStr ''/SOGo/'')),
       (''clients'', Lit sogo_clients), (''tags'', Lit sogo_tags)],
     Component_Decl ''Packages'' [(''component_id'', Lit (JStr ''packages-sogo'')),
       (''packages'', Lit (JList [JStr ''sogo'', JStr ''postgresql'', JStr ''memcached'',
       JStr ''dpkg-dev'']))],
     Component_Decl ''DropinConfigs'' [(''component_id'', Lit (JStr ''dropin-configs-sogo'')),
       (''etc_paths'', Lit (JList [JStr ''/etc/apache2/conf-available/sogo-freedombox.conf'']))],
     Component_Decl ''Firewall'' [(''component_id'', Lit (JStr ''firewall-sogo'')),
       (''name'', Lit (JStr ''SOGo'')), (''ports'', Lit (JList [JStr ''http'', JStr ''https''])),
       (''is_external'', Lit (JBool True))],
     Component_Decl ''Webserver'' [(''component_id'', Lit (JStr ''webserver-sogo'')),
       (''web_name'', Lit (JStr ''sogo-freedombox'')),
       (''urls'', Lit (JList [JStr ''https://{host}/SOGo/'']))],
     Component_Decl ''SharedDaemon'' [(''component_id'', Lit (JStr ''shared-daemon-sogo-memcached'')),
       (''unit'', Lit (JStr ''memcached'')),
       (''listen_ports'', Lit (JList [JList [JInt 11211, JStr ''tcp4'']]))],
     Component_Decl ''SharedDaemon'' [(''component_id'', Lit (JStr ''shared-daemon-sogo-postgresql'')),
       (''unit'', Lit (JStr ''postgresql''))],
     Component_Decl ''Daemon'' [(''component_id'', Lit (JStr ''daemon-sogo'')), (''unit'', Lit (JStr ''sogo'')),
       (''listen_ports'', Lit (JList [JList [JInt 20000, JStr ''tcp4'']]))],
     Component_Decl ''SOGoBackupRestore'' ([(''component_id'', Lit (JStr ''backup-restore-sogo''))] @ splat sogo_backup)]"

definition ssh_decl :: "app_decl" where
  "ssh_decl = App_Decl ''ssh'' True True
    [Component_Decl ''Info'' [(''app_id'', Lit (JStr ''ssh'')), (''version'', Lit (JInt 4)),
       (''is_essential'', Lit (JBool True)), (''name'', Lit (JStr ''Secure Shell Server'')),
       (''icon'', Lit (JStr ''fa-terminal'')), (''description'', Code ''_description''),
       (''manual_page'', Lit (JStr ''SecureShell'')), (''tags'', Lit ssh_tags)],
     Component_Decl ''Menu'' [(''component_id'', Lit (JStr ''menu-ssh'')),
       (''name'', Lit (JStr ''Secure Shell Server'')), (''icon'', Lit (JStr ''fa-terminal'')),
       (''tags'', Lit ssh_tags), (''url_name'', Lit (JStr ''ssh:index'')),
       (''parent_url_name'', Lit (JStr ''system:administration'')), (''order'', Lit (JInt 10))],
     Component_Decl ''Packages'' [(''component_id'', Lit (JStr ''packages-ssh'')),
       (''packages'', Lit (JList [JStr ''openssh-server'']))],
     Component_Decl ''DropinConfigs'' [(''component_id'', Lit (JStr ''dropin-configs-ssh'')),
       (''etc_paths'', Lit (JList [JStr ''/etc/fail2ban/jail.d/ssh-freedombox.conf'']))],
     Component_Decl ''DropinConfigs'' [(''component_id'', Lit (JStr ''dropin-config-ssh-avahi'')),
       (''etc_paths'', Lit (JList [JStr ''/etc/avahi/services/sftp-ssh.service'',
       JStr ''/etc/avahi/services/ssh.service''])), (''copy_only'', Lit (JBool True))],
     Component_Decl ''Firewall'' [(''component_id'', Lit (JStr ''firewall-ssh'')),
       (''name'', Lit (JStr ''Secure Shell Server'')), (''ports'', Lit (JList [JStr ''ssh''])),
       (''is_external'', Lit (JBool True))],
     Component_Decl ''Daemon'' [(''component_id'', Lit (JStr ''daemon-ssh'')), (''unit'', Lit (JStr ''ssh''))],
     Component_Decl ''UsersAndGroups'' [(''component_id'', Lit (JStr ''users-and-groups-ssh'')),
       (''groups'', Lit (JDict [(''freedombox-ssh'', JStr ''Remotely login using Secure Shell (SSH)'')]))],
     Component_Decl ''BackupRestore'' ([(''component_id'', Lit (JStr ''backup-restore-ssh''))] @ splat ssh_backup)]"

definition storage_decl :: "app_decl" where
  "storage_decl = App_Decl ''storage'' False True
    [Component_Decl ''Info'' [(''app_id'', Lit (JStr ''storage'')), (''version'', Lit (JInt 4)),
       (''is_essential'', Lit (JBool True)), (''name'', Lit (JStr ''Storage'')),
       (''icon'', Lit (JStr ''fa-hdd-o'')), (''description'', Code ''_description''),
       (''manual_page'', Lit (JStr ''Storage'')), (''tags'', Lit storage_tags)],
     Component_Decl ''Menu'' [(''component_id'', Lit (JStr ''menu-storage'')),
       (''name'', Lit (JStr ''Storage'')), (''icon'', Lit (JStr ''fa-hdd-o'')),
       (''tags'', Lit storage_tags), (''url_name'', Lit (JStr ''storage:index'')),
       (''parent_url_name'', Lit (JStr ''system:data'')), (''order'', Lit (JInt 30))],
     Component_Decl ''Packages'' [(''component_id'', Lit (JStr ''packages-storage'')),
       (''packages'', Lit (JList [JStr ''parted'', JStr ''udisks2'', JStr ''gir1.2-udisks-2.0'']))],
     Component_Decl ''BackupRestore'' ([(''component_id'', Lit (JStr ''backup-restore-storage''))] @ splat storage_backup)]"

definition syncthing_decl :: "app_decl" where
  "syncthing_decl = App_Decl ''syncthing'' True True
    [Component_Decl ''Info'' [(''app_id'', Lit (JStr ''syncthing'')), (''version'', Lit (JInt 7)),
       (''name'', Lit (JStr ''Syncthing'')), (''icon_filename'', Lit (JStr ''syncthing'')),
       (''description'', Code ''_description''), (''manual_page'', Lit (JStr ''Syncthing'')),
       (''clients'', Lit syncthing_clients),
       (''donation_url'', Lit (JStr ''https://syncthing.net/donations/'')), (''tags'', Lit syncthing_tags)],
     Component_Decl ''Menu'' [(''component_id'', Lit (JStr ''menu-syncthing'')),
       (''name'', Lit (JStr ''Syncthing'')), (''icon'', Lit (JStr ''syncthing'')),
       (''tags'', Lit syncthing_tags), (''url_name'', Lit (JStr ''syncthing:index'')),
       (''parent_url_name'', Lit (JStr ''apps''))],
     Component_Decl ''Shortcut'' [(''component_id'', Lit (JStr ''shortcut-syncthing'')),
       (''name'', Lit (JStr ''Syncthing'')), (''icon'', Lit (JStr ''syncthing'')),
       (''url'', Lit (JStr ''/syncthing/'')), (''clients'', Lit syncthing_clients),
       (''tags'', Lit syncthing_tags), (''login_required'', Lit (JBool True)),
       (''allowed_groups'', Lit (JList [JStr ''syncthing-access'']))],
     Component_Decl ''Packages'' [(''component_id'', Lit (JStr ''packages-syncthing'')),
       (''packages'', Lit (JList [JStr ''syncthing'']))],
     Component_Decl ''DropinConfigs'' [(''component_id'', Lit (JStr ''dropin-configs-syncthing'')),
       (''etc_paths'', Lit (JList [JStr ''/etc/apache2/conf-available/syncthing-plinth.conf'']))],
     Component_Decl ''Firewall'' [(''component_id'', Lit (JStr ''firewall-syncthing-web'')),
       (''name'', Lit (JStr ''Syncthing'')), (''ports'', Lit (JList [JStr ''http'', JStr ''https''])),
       (''is_external'', Lit (JBool True))],
     Component_Decl ''Firewall'' [(''component_id'', Lit (JStr ''firewall-syncthing-ports'')),
       (''name'', Lit (JStr ''Syncthing'')), (''ports'', Lit (JList [JStr ''syncthing''])),
       (''is_external'', Lit (JBool True))],
     Component_Decl ''FirewallLocalProtection'' [(''component_id'', Lit (JStr ''firewall-local-protection-syncthing'')),
       (''tcp_ports'', Lit (JList [JStr ''8384'']))],
     Component_Decl ''Webserver'' [(''component_id'', Lit (JStr ''webserver-syncthing'')),
       (''web_name'', Lit (JStr ''syncthing-plinth'')),
       (''urls'', Lit (JList [JStr ''https://{host}/syncthing/'']))],
     Component_Decl ''Daemon'' [(''component_id'', Lit (JStr ''daemon-syncthing'')),
       (''unit'', Lit (JStr ''syncthing@syncthing''))],
     Component_Decl ''UsersAndGroups'' [(''component_id'', Lit (JStr ''users-and-groups-syncthing'')),
       (''reserved_usernames'', Lit (JList [JStr ''syncthing''])),
       (''groups'', Lit (JDict [(''syncthing-access'', JStr ''Administer Syncthing application'')]))],
     Component_Decl ''BackupRestore'' ([(''component_id'', Lit (JStr ''backup-restore-syncthing''))] @ splat syncthing_backup)]"

definition tiddlywiki_decl :: "app_decl" where
  "tiddlywiki_decl = App_Decl ''tiddlywiki'' True True
    [Component_Decl ''Info'' [(''app_id'', Lit (JStr ''tiddlywiki'')), (''version'', Lit (JInt 1)),
       (''name'', Lit (JStr ''TiddlyWiki'')), (''icon_filename'', Lit (JStr ''tiddlywiki'')),
       (''description'', Code ''_description''), (''manual_page'', Lit (JStr ''TiddlyWiki'')),
       (''clients'', Lit tiddlywiki_clients), (''tags'', Lit tiddlywiki_tags)],
     Component_Decl ''Menu'' [(''component_id'', Lit (JStr ''menu-tiddlywiki'')),
       (''name'', Lit (JStr ''TiddlyWiki'')), (''icon'', Lit (JStr ''tiddlywiki'')),
       (''tags'', Lit tiddlywiki_tags), (''url_name'', Lit (JStr ''tiddlywiki:index'')),
       (''parent_url_name'', Lit (JStr ''apps''))],
     Component_Decl ''Shortcut'' [(''component_id'', Lit (JStr ''shortcut-tiddlywiki'')),
       (''name'', Lit (JStr ''TiddlyWiki'')), (''icon'', Lit (JStr ''tiddlywiki'')),
       (''description'', Code ''_description''), (''manual_page'', Lit (JStr ''TiddlyWiki'')),
       (''url'', Lit (JStr ''/tiddlywiki/'')), (''clients'', Lit tiddlywiki_clients),
       (''tags'', Lit tiddlywiki_tags), (''login_required'', Lit (JBool True)),
       (''allowed_groups'', Lit (JList [JStr ''wiki'']))],
     Component_Decl ''DropinConfigs'' [(''component_id'', Lit (JStr ''dropin-configs-tiddlywiki'')),
       (''etc_paths'', Lit (JList [JStr ''/etc/apache2/conf-available/tiddlywiki-freedombox.conf'']))],
     Component_Decl ''Firewall'' [(''component_id'', Lit (JStr ''firewall-tiddlywiki'')),
       (''name'', Lit (JStr ''TiddlyWiki'')), (''ports'', Lit (JList [JStr ''http'', JStr ''https''])),
       (''is_external'', Lit (JBool True))],
     Component_Decl ''Webserver'' [(''component_id'', Lit (JStr ''webserver-tiddlywiki'')),
       (''web_name'', Lit (JStr ''tiddlywiki-freedombox''))],
     Component_Decl ''UsersAndGroups'' [(''component_id'', Lit (JStr ''users-and-groups-tiddlywiki'')),
       (''groups'', Lit (JDict [(''wiki'', JStr ''View and edit wiki applications'')]))],
     Component_Decl ''BackupRestore'' ([(''component_id'', Lit (JStr ''backup-restore-tiddlywiki''))] @ splat tiddlywiki_backup)]"

definition tor_decl :: "app_decl" where
  "tor_decl = App_Decl ''tor'' True True
    [Component_Decl ''Info'' [(''app_id'', Lit (JStr ''tor'')), (''version'', Lit (JInt 8)),
       (''depends'', Lit (JList [JStr ''names''])), (''name'', Lit (JStr ''Tor'')),
       (''icon_filename'', Lit (JStr ''tor'')), (''description'', Code ''_description''),
       (''manual_page'', Lit (JStr ''Tor'')), (''clients'', Lit tor_clients), (''tags'', Lit tor_tags),
       (''donation_url'', Lit (JStr ''https://donate.torproject.org/''))],
     Component_Decl ''Menu'' [(''component_id'', Lit (JStr ''menu-tor'')), (''name'', Lit (JStr ''Tor'')),
       (''icon'', Lit (JStr ''tor'')), (''tags'', Lit tor_tags), (''url_name'', Lit (JStr ''tor:index'')),
       (''parent_url_name'', Lit (JStr ''apps''))],
     Component_Decl ''Packages'' [(''component_id'', Lit (JStr ''packages-tor'')),
       (''packages'', Lit (JList [JStr ''tor'', JStr ''tor-geoipdb'', JStr ''obfs4proxy'']))],
     Component_Decl ''DomainType'' [(''component_id'', Lit (JStr ''domain-type-tor'')),
       (''display_name'', Lit (JStr ''Tor Onion Service'')),
       (''configuration_url'', Lit (JStr ''tor:index'')), (''can_have_certificate'', Lit (JBool False)),
       (''priority'', Lit (JInt 30))],
     Component_Decl ''Firewall'' [(''component_id'', Lit (JStr ''firewall-tor-relay'')),
       (''name'', Lit (JStr ''Tor Bridge Relay'')), (''ports'', Lit (JList [JStr ''tor-orport'',
       JStr ''tor-obfs3'', JStr ''tor-obfs4''])), (''is_external'', Lit (JBool True))],
     Component_Decl ''Daemon'' [(''component_id'', Lit (JStr ''daemon-tor'')),
       (''unit'', Lit (JStr ''tor@plinth'')), (''strict_check'', Lit (JBool True))],
     Component_Decl ''Webserver'' [(''component_id'', Lit (JStr ''webserver-onion-location'')),
       (''web_name'', Lit (JStr ''onion-location-freedombox''))],
     Component_Decl ''UsersAndGroups'' [(''component_id'', Lit (JStr ''users-and-groups-tor'')),
       (''reserved_usernames'', Lit (JList [JStr ''debian-tor'']))],
     Component_Decl ''BackupRestore'' ([(''component_id'', Lit (JStr ''backup-restore-tor''))] @ splat tor_backup)]"

definition torproxy_decl :: "(string \<Rightarrow> string) \<Rightarrow> app_decl" where
  "torproxy_decl reverse_url = App_Decl ''torproxy'' True True
    [Component_Decl ''Info'' [(''app_id'', Lit (JStr ''torproxy'')), (''version'', Lit (JInt 2)),
       (''name'', Lit (JStr ''Tor Proxy'')), (''icon_filename'', Lit (JStr ''torproxy'')),
       (''description'', Code ''_description''), (''manual_page'', Lit (JStr ''TorProxy'')),
       (''clients'', Lit torproxy_clients), (''tags'', Lit torproxy_tags),
       (''donation_url'', Lit (JStr ''https://donate.torproject.org/''))],
     Component_Decl ''Menu'' [(''component_id'', Lit (JStr ''menu-torproxy'')),
       (''name'', Lit (JStr ''Tor Proxy'')), (''icon'', Lit (JStr ''torproxy'')),
       (''tags'', Lit torproxy_tags), (''url_name'', Lit (JStr ''torproxy:index'')),
       (''parent_url_name'', Lit (JStr ''apps''))],
     Component_Decl ''Shortcut'' [(''component_id'', Lit (JStr ''shortcut-torproxy'')),
       (''name'', Lit (JStr ''Tor Proxy'')), (''icon'', Lit (JStr ''torproxy'')),
       (''description'', Code ''_description''), (''manual_page'', Lit (JStr ''TorProxy'')),
       (''configure_url'', Lit (JStr (reverse_url ''torproxy:index''))), (''tags'', Lit torproxy_tags),
       (''login_required'', Lit (JBool True))],
     Component_Decl ''Packages'' [(''component_id'', Lit (JStr ''packages-torproxy'')),
       (''packages'', Lit (JList [JStr ''tor'', JStr ''tor-geoipdb'', JStr ''torsocks'',
       JStr ''obfs4proxy'', JStr ''apt-transport-tor'']))],
     Component_Decl ''Firewall'' [(''component_id'', Lit (JStr ''firewall-torproxy-socks'')),
       (''name'', Lit (JStr ''Tor Socks Proxy'')), (''ports'', Lit (JList [JStr ''tor-socks''])),
       (''is_external'', Lit (JBool False))],
     Component_Decl ''Daemon'' [(''component_id'', Lit (JStr ''daemon-torproxy'')),
       (''unit'', Lit (JStr ''tor@fbxproxy'')), (''strict_check'', Lit (JBool True)),
       (''listen_ports'', Lit (JList [JList [JInt 9050, JStr ''tcp4''], JList [JInt 9050, JStr ''tcp6''],
       JList [JInt 9040, JStr ''tcp4''], JList [JInt 9040, JStr ''tcp6''],
       JList [JInt 9053, JStr ''udp4''], JList [JInt 9053, JStr ''udp6'']]))],
     Component_Decl ''UsersAndGroups'' [(''component_id'', Lit (JStr ''users-and-groups-torproxy'')),
       (''reserved_usernames'', Lit (JList [JStr ''debian-tor'']))],
     Component_Decl ''BackupRestore'' ([(''component_id'', Lit (JStr ''backup-restore-torproxy''))] @ splat torproxy_backup)]"

definition transmission_decl :: "app_decl" where
  "transmission_decl = App_Decl ''transmission'' True True
    [Component_Decl ''Info'' [(''app_id'', Lit (JStr ''transmission'')), (''version'', Lit (JInt 8)),
       (''name'', Lit (JStr ''Transmission'')), (''icon_filename'', Lit (JStr ''transmission'')),
       (''description'', Code ''_description''), (''manual_page'', Lit (JStr ''Transmission'')),
       (''clients'', Lit transmission_clients),
       (''donation_url'', Lit (JStr ''https://transmissionbt.com/donate/'')),
       (''tags'', Lit transmission_tags)],
     Component_Decl ''Menu'' [(''component_id'', Lit (JStr ''menu-transmission'')),
       (''name'', Lit (JStr ''Transmission'')), (''icon'', Lit (JStr ''transmission'')),
       (''tags'', Lit transmission_tags), (''url_name'', Lit (JStr ''transmission:index'')),
       (''parent_url_name'', Lit (JStr ''apps''))],
     Component_Decl ''Shortcut'' [(''component_id'', Lit (JStr ''shortcut-transmission'')),
       (''name'', Lit (JStr ''Transmission'')), (''icon'', Lit (JStr ''transmission'')),
       (''url'', Lit (JStr ''/transmission'')), (''clients'', Lit transmission_clients),
       (''tags'', Lit transmission_tags), (''login_required'', Lit (JBool True)),
       (''allowed_groups'', Lit (JList [JStr ''bit-torrent'']))],
     Component_Decl ''Packages'' [(''component_id'', Lit (JStr ''packages-transmission'')),
       (''packages'', Lit (JList [JStr ''transmission-daemon''])),
       (''rerun_setup_on_upgrade'', Lit (JBool True))],
     Component_Decl ''DropinConfigs'' [(''component_id'', Lit (JStr ''dropin-configs-transmission'')),
       (''etc_paths'', Lit (JList [JStr ''/etc/apache2/conf-available/transmission-plinth.conf'']))],
     Component_Decl ''Firewall'' [(''component_id'', Lit (JStr ''firewall-transmission'')),
       (''name'', Lit (JStr ''Transmission'')), (''ports'', Lit (JList [JStr ''http'', JStr ''https'',
       JStr ''transmission-client''])), (''is_external'', Lit (JBool True))],
     Component_Decl ''FirewallLocalProtection'' [(''component_id'', Lit (JStr ''firewall-local-protection-transmission'')),
       (''tcp_ports'', Lit (JList [JStr ''9091'']))],
     Component_Decl ''Webserver'' [(''component_id'', Lit (JStr ''webserver-transmission'')),
       (''web_name'', Lit (JStr ''transmission-plinth'')),
       (''urls'', Lit (JList [JStr ''https://{host}/transmission''])),
       (''last_updated_version'', Lit (JInt 8))],
     Component_Decl ''Daemon'' [(''component_id'', Lit (JStr ''daemon-transmission'')),
       (''unit'', Lit (JStr ''transmission-daemon'')),
       (''listen_ports'', Lit (JList [JList [JInt 9091, JStr ''tcp4''], JList [JInt 51413, JStr ''tcp4''],
       JList [JInt 51413, JStr ''tcp6''], JList [JInt 51413, JStr ''udp4'']]))],
     Component_Decl ''UsersAndGroups'' [(''component_id'', Lit (JStr ''users-and-groups-transmission'')),
       (''reserved_usernames'', Lit (JList [JStr ''debian-transmission''])),
       (''groups'', Lit (JDict [(''bit-torrent'', JStr ''Download files using BitTorrent applications'')]))],
     Component_Decl ''BackupRestore'' ([(''component_id'', Lit (JStr ''backup-restore-transmission''))] @ splat transmission_backup)]"

definition upgrades_decl :: "app_decl" where
  "upgrades_decl = App_Decl ''upgrades'' False True
    [Component_Decl ''Info'' [(''app_id'', Lit (JStr ''upgrades'')), (''version'', Lit (JInt 22)),
       (''is_essential'', Lit (JBool True)), (''name'', Lit (JStr ''Software Update'')),
       (''icon'', Lit (JStr ''fa-refresh'')), (''description'', Code ''_description''),
       (''manual_page'', Lit (JStr ''Upgrades'')), (''tags'', Lit upgrades_tags)],
     Component_Decl ''Menu'' [(''component_id'', Lit (JStr ''menu-upgrades'')),
       (''name'', Lit (JStr ''Software Update'')), (''icon'', Lit (JStr ''fa-refresh'')),
       (''tags'', Lit upgrades_tags), (''url_name'', Lit (JStr ''upgrades:index'')),
       (''parent_url_name'', Lit (JStr ''system:system'')), (''order'', Lit (JInt 50))],
     Component_Decl ''Packages'' [(''component_id'', Lit (JStr ''packages-upgrades'')),
       (''packages'', Lit (JList [JStr ''unattended-upgrades'', JStr ''needrestart'']))],
     Component_Decl ''DropinConfigs'' [(''component_id'', Lit (JStr ''dropin-configs-upgrades'')),
       (''etc_paths'', Lit (JList [JStr ''/etc/apt/apt.conf.d/20freedombox'',
       JStr ''/etc/apt/apt.conf.d/20freedombox-allow-release-info-change'',
       JStr ''/etc/apt/apt.conf.d/60unattended-upgrades'',
       JStr ''/etc/needrestart/conf.d/freedombox.conf'']))],
     Component_Decl ''RelatedDaemon'' [(''component_id'', Lit (JStr ''related-daemon-upgrades'')),
       (''unit'', Lit (JStr ''freedombox-dist-upgrade''))],
     Component_Decl ''BackupRestore'' ([(''component_id'', Lit (JStr ''backup-restore-upgrades''))] @ splat upgrades_backup)]"

definition users_decl :: "app_decl" where
  "users_decl = App_Decl ''users'' False True
    [Component_Decl ''Info'' [(''app_id'', Lit (JStr ''users'')), (''version'', Lit (JInt 8)),
       (''is_essential'', Lit (JBool True)), (''name'', Lit (JStr ''Users and Groups'')),
       (''icon'', Lit (JStr ''fa-users'')), (''description'', Code ''_description''),
       (''manual_page'', Lit (JStr ''Users'')), (''tags'', Lit users_tags)],
     Component_Decl ''Menu'' [(''component_id'', Lit (JStr ''menu-users'')),
       (''name'', Lit (JStr ''Users and Groups'')), (''icon'', Lit (JStr ''fa-users'')),
       (''tags'', Lit users_tags), (''url_name'', Lit (JStr ''users:index'')),
       (''parent_url_name'', Lit (JStr ''system:system'')), (''order'', Lit (JInt 10))],
     Component_Decl ''Packages'' [(''component_id'', Lit (JStr ''packages-users'')),
       (''packages'', Lit (JList [JStr ''ldapscripts'', JStr ''ldap-utils'', JStr ''libnss-ldapd'',
       JStr ''libpam-ldapd'', JStr ''nslcd'', JStr ''samba-common-bin'', JStr ''slapd'',
       JStr ''tdb-tools'']))],
     Component_Decl ''DropinConfigs'' [(''component_id'', Lit (JStr ''dropin-configs-users'')),
       (''etc_paths'', Lit (JList [JStr ''/etc/apache2/includes/freedombox-auth-ldap.conf'',
       JStr ''/etc/apache2/includes/freedombox-single-sign-on.conf'']))],
     Component_Decl ''Daemon'' [(''component_id'', Lit (JStr ''daemon-users'')),
       (''unit'', Lit (JStr ''slapd'')), (''listen_ports'', Lit (JList [JList [JInt 389, JStr ''tcp4''],
       JList [JInt 389, JStr ''tcp6'']]))],
     Component_Decl ''UsersAndGroups'' [(''component_id'', Lit (JStr ''users-and-groups-admin'')),
       (''groups'', Lit (JDict [(''admin'', JStr ''Access to all services and system settings'')]))]]"

definition wireguard_decl :: "(string \<Rightarrow> string) \<Rightarrow> app_decl" where
  "wireguard_decl reverse_url = App_Decl ''wireguard'' True True
    [Component_Decl ''Info'' [(''app_id'', Lit (JStr ''wireguard'')), (''version'', Lit (JInt 2)),
       (''name'', Lit (JStr ''WireGuard'')), (''icon_filename'', Lit (JStr ''wireguard'')),
       (''description'', Code ''_description''), (''manual_page'', Lit (JStr ''WireGuard'')),
       (''clients'', Lit wireguard_clients), (''tags'', Lit wireguard_tags),
       (''donation_url'', Lit (JStr ''https://www.wireguard.com/donations/''))],
     Component_Decl ''Menu'' [(''component_id'', Lit (JStr ''menu-wireguard'')),
       (''name'', Lit (JStr ''WireGuard'')), (''icon'', Lit (JStr ''wireguard'')),
       (''tags'', Lit wireguard_tags), (''url_name'', Lit (JStr ''wireguard:index'')),
       (''parent_url_name'', Lit (JStr ''apps''))],
     Component_Decl ''Shortcut'' [(''component_id'', Lit (JStr ''shortcut-wireguard'')),
       (''name'', Lit (JStr ''WireGuard'')), (''icon'', Lit (JStr ''wireguard'')),
       (''tags'', Lit wireguard_tags), (''description'', Code ''_description''),
       (''manual_page'', Lit (JStr ''WireGuard'')),
       (''configure_url'', Lit (JStr (reverse_url ''wireguard:index''))),
       (''login_required'', Lit (JBool True)), (''clients'', Lit wireguard_clients)],
     Component_Decl ''Packages'' [(''component_id'', Lit (JStr ''packages-wireguard'')),
       (''packages'', Lit (JList [JStr ''wireguard'', JStr ''python3-segno'']))],
     Component_Decl ''Firewall'' [(''component_id'', Lit (JStr ''firewall-wireguard'')),
       (''name'', Lit (JStr ''WireGuard'')), (''ports'', Lit (JList [JStr ''wireguard-freedombox''])),
       (''is_external'', Lit (JBool True))]]"

definition wordpress_decl :: "app_decl" where
  "wordpress_decl = App_Decl ''wordpress'' True True
    [Component_Decl ''Info'' [(''app_id'', Lit (JStr ''wordpress'')), (''version'', Lit (JInt 4)),
       (''name'', Lit (JStr ''WordPress'')), (''icon_filename'', Lit (JStr ''wordpress'')),
       (''description'', Code ''_description''), (''manual_page'', Lit (JStr ''WordPress'')),
       (''clients'', Lit wordpress_clients), (''tags'', Lit wordpress_tags),
       (''donation_url'', Lit (JStr ''https://wordpressfoundation.org/donate/''))],
     Component_Decl ''Menu'' [(''component_id'', Lit (JStr ''menu-wordpress'')),
       (''name'', Lit (JStr ''WordPress'')), (''icon'', Lit (JStr ''wordpress'')),
       (''tags'', Lit wordpress_tags), (''url_name'', Lit (JStr ''wordpress:index'')),
       (''parent_url_name'', Lit (JStr ''apps''))],
     Component_Decl ''Shortcut'' [(''component_id'', Lit (JStr ''shortcut-wordpress'')),
       (''name'', Lit (JStr ''WordPress'')), (''icon'', Lit (JStr ''wordpress'')),
       (''url'', Lit (JStr ''/wordpress/'')), (''clients'', Lit wordpress_clients),
       (''tags'', Lit wordpress_tags)],
     Component_Decl ''Packages'' [(''component_id'', Lit (JStr ''packages-wordpress'')),
       (''packages'', Lit (JList [JStr ''wordpress'', JStr ''php'', JStr ''php-imagick'', JStr ''php-zip'',
       JStr ''default-mysql-server''])), (''conflicts'', Lit (JList [JStr ''libpam-tmpdir''])),
       (''conflicts_action'', Code ''Packages.ConflictsAction.REMOVE'')],
     Component_Decl ''DropinConfigs'' [(''component_id'', Lit (JStr ''dropin-configs-wordpress'')),
       (''etc_paths'', Lit (JList [JStr ''/etc/apache2/conf-available/wordpress-freedombox.conf'',
       JStr ''/etc/fail2ban/jail.d/wordpress-freedombox.conf'',
       JStr ''/etc/fail2ban/filter.d/wordpress-freedombox.conf'',
       JStr ''/etc/wordpress/freedombox-static.php'']))],
     Component_Decl ''Firewall'' [(''component_id'', Lit (JStr ''firewall-wordpress'')),
       (''name'', Lit (JStr ''WordPress'')), (''ports'', Lit (JList [JStr ''http'', JStr ''https''])),
       (''is_external'', Lit (JBool True))],
     Component_Decl ''Webserver'' [(''component_id'', Lit (JStr ''webserver-wordpress'')),
       (''web_name'', Lit (JStr ''wordpress-freedombox'')),
       (''urls'', Lit (JList [JStr ''https://{host}/wordpress/'']))],
     Component_Decl ''SharedDaemon'' [(''component_id'', Lit (JStr ''shared-daemon-wordpress-mysql'')),
       (''unit'', Lit (JStr ''mysql''))],
     Component_Decl ''Daemon'' [(''component_id'', Lit (JStr ''daemon-wordpress'')),
       (''unit'', Lit (JStr ''wordpress-freedombox.timer''))],
     Component_Decl ''WordPressBackupRestore'' ([(''component_id'', Lit (JStr ''backup-restore-wordpress''))] @ splat wordpress_backup)]"

definition zoph_decl :: "app_decl" where
  "zoph_decl = App_Decl ''zoph'' True False
    [Component_Decl ''Info'' [(''app_id'', Lit (JStr ''zoph'')), (''version'', Lit (JInt 3)),
       (''name'', Lit (JStr ''Zoph'')), (''icon_filename'', Lit (JStr ''zoph'')),
       (''description'', Code ''_description''), (''manual_page'', Lit (JStr ''Zoph'')),
       (''clients'', Lit zoph_clients), (''tags'', Lit zoph_tags)],
     Component_Decl ''Menu'' [(''component_id'', Lit (JStr ''menu-zoph'')), (''name'', Lit (JStr ''Zoph'')),
       (''icon'', Lit (JStr ''zoph'')), (''tags'', Lit zoph_tags),
       (''url_name'', Lit (JStr ''zoph:index'')), (''parent_url_name'', Lit (JStr ''apps''))],
     Component_Decl ''Shortcut'' [(''component_id'', Lit (JStr ''shortcut-zoph'')),
       (''name'', Lit (JStr ''Zoph'')), (''icon'', Lit (JStr ''zoph'')), (''url'', Lit (JStr ''/zoph/'')),
       (''clients'', Lit zoph_clients), (''tags'', Lit zoph_tags), (''login_required'', Lit (JBool True))],
     Component_Decl ''Packages'' [(''component_id'', Lit (JStr ''packages-zoph'')),
       (''packages'', Lit (JList [JStr ''zoph'', JStr ''default-mysql-server''])),
       (''conflicts'', Lit (JList [JStr ''libpam-tmpdir''])),
       (''conflicts_action'', Code ''Packages.ConflictsAction.REMOVE'')],
     Component_Decl ''Firewall'' [(''component_id'', Lit (JStr ''firewall-zoph'')),
       (''name'', Lit (JStr ''Zoph'')), (''ports'', Lit (JList [JStr ''http'', JStr ''https''])),
       (''is_external'', Lit (JBool True))],
     Component_Decl ''DropinConfigs'' [(''component_id'', Lit (JStr ''dropin-configs-zoph'')),
       (''etc_paths'', Lit (JList [JStr ''/etc/apache2/conf-available/zoph-freedombox.conf'']))],
     Component_Decl ''Webserver'' [(''component_id'', Lit (JStr ''webserver-zoph'')),
       (''web_name'', Lit (JStr ''zoph'')), (''urls'', Lit (JList [JStr ''https://{host}/zoph/'']))],
     Component_Decl ''Webserver'' [(''component_id'', Lit (JStr ''webserver-zoph-freedombox'')),
       (''web_name'', Lit (JStr ''zoph-freedombox''))],
     Component_Decl ''SharedDaemon'' [(''component_id'', Lit (JStr ''shared-daemon-zoph-mysql'')),
       (''unit'', Lit (JStr ''mysql''))],
     Component_Decl ''ZophBackupRestore'' ([(''component_id'', Lit (JStr ''backup-restore-zoph''))] @ splat zoph_backup)]"

end
