(* ===== verification/ShippedAppsChecks.thy ===== *)
theory ShippedAppsChecks
  imports ShippedAppsLaws
begin

text \<open>
  The declarations of the repository, checked one by one: each passes the checks of the classes it
  uses, and what its Info says of dependencies. \<open>decl_summary\<close> is the part of a declaration that the
  order of the apps depends on.
\<close>

definition decl_summary :: "(string \<Rightarrow> json) \<Rightarrow> app_decl \<Rightarrow> string \<times> string list \<times> bool" where
  "decl_summary eval d = (decl_app d, decl_depends eval d, decl_essential eval d)"

lemmas summary_simps = decl_summary_def decl_depends_def decl_essential_def arg_or_def

lemma fine_1:
  "list_all (decl_fine eval)
    [apache_decl box_name,
     api_decl,
     avahi_decl,
     backups_decl,
     bepasty_decl,
     bind_decl,
     calibre_decl]"
  by code_simp

lemma summary_1:
  "decl_summary eval (apache_decl box_name) = (''apache'', [], True)"
  "decl_summary eval api_decl = (''api'', [], True)"
  "decl_summary eval avahi_decl = (''avahi'', [''names''], True)"
  "decl_summary eval backups_decl = (''backups'', [''storage''], True)"
  "decl_summary eval bepasty_decl = (''bepasty'', [], False)"
  "decl_summary eval bind_decl = (''bind'', [], False)"
  "decl_summary eval calibre_decl = (''calibre'', [], False)"
  by (simp_all add: summary_simps apache_decl_def api_decl_def avahi_decl_def backups_decl_def bepasty_decl_def bind_decl_def
    calibre_decl_def)

lemma fine_2:
  "list_all (decl_fine eval)
    [cockpit_decl,
     config_decl,
     coturn_decl,
     datetime_decl time_managed,
     deluge_decl,
     diagnostics_decl,
     dynamicdns_decl]"
  by (cases time_managed; simp only:) code_simp+

lemma summary_2:
  "decl_summary eval cockpit_decl = (''cockpit'', [''apache''], True)"
  "decl_summary eval config_decl = (''config'', [''apache'', ''firewall'', ''names''], True)"
  "decl_summary eval coturn_decl = (''coturn'', [], False)"
  "decl_summary eval (datetime_decl time_managed) = (''datetime'', [], True)"
  "decl_summary eval deluge_decl = (''deluge'', [], False)"
  "decl_summary eval diagnostics_decl = (''diagnostics'', [], True)"
  "decl_summary eval dynamicdns_decl = (''dynamicdns'', [''names''], True)"
  by (simp_all add: summary_simps cockpit_decl_def config_decl_def coturn_decl_def datetime_decl_def deluge_decl_def
    diagnostics_decl_def dynamicdns_decl_def)

lemma fine_3:
  "list_all (decl_fine eval)
    [ejabberd_decl reverse_url,
     email_decl reverse_url,
     featherwiki_decl,
     firewall_decl,
     first_boot_decl,
     gitweb_decl,
     gnome_decl]"
  by code_simp

lemma summary_3:
  "decl_summary eval (ejabberd_decl reverse_url) = (''ejabberd'', [''coturn''], False)"
  "decl_summary eval (email_decl reverse_url) = (''email'', [], False)"
  "decl_summary eval featherwiki_decl = (''featherwiki'', [], False)"
  "decl_summary eval firewall_decl = (''firewall'', [], True)"
  "decl_summary eval first_boot_decl = (''first_boot'', [], True)"
  "decl_summary eval gitweb_decl = (''gitweb'', [], False)"
  "decl_summary eval gnome_decl = (''gnome'', [], False)"
  by (simp_all add: summary_simps ejabberd_decl_def email_decl_def featherwiki_decl_def firewall_decl_def first_boot_decl_def
    gitweb_decl_def gnome_decl_def)

lemma fine_4:
  "list_all (decl_fine eval)
    [help_decl,
     homeassistant_decl,
     ikiwiki_decl,
     infinoted_decl reverse_url box_name,
     janus_decl reverse_url,
     jsxc_decl reverse_url,
     kiwix_decl]"
  by code_simp

lemma summary_4:
  "decl_summary eval help_decl = (''help'', [], True)"
  "decl_summary eval homeassistant_decl = (''homeassistant'', [], False)"
  "decl_summary eval ikiwiki_decl = (''ikiwiki'', [], False)"
  "decl_summary eval (infinoted_decl reverse_url box_name) = (''infinoted'', [], False)"
  "decl_summary eval (janus_decl reverse_url) = (''janus'', [], False)"
  "decl_summary eval (jsxc_decl reverse_url) = (''jsxc'', [], False)"
  "decl_summary eval kiwix_decl = (''kiwix'', [], False)"
  by (simp_all add: summary_simps help_decl_def homeassistant_decl_def ikiwiki_decl_def infinoted_decl_def janus_decl_def
    jsxc_decl_def kiwix_decl_def)

lemma fine_5:
  "list_all (decl_fine eval)
    [letsencrypt_decl,
     matrixsynapse_decl reverse_url,
     mediawiki_decl,
     minetest_decl reverse_url,
     minidlna_decl reverse_url,
     miniflux_decl,
     mumble_decl reverse_url]"
  by code_simp

lemma summary_5:
  "decl_summary eval letsencrypt_decl = (''letsencrypt'', [''names''], True)"
  "decl_summary eval (matrixsynapse_decl reverse_url) = (''matrixsynapse'', [''coturn''], False)"
  "decl_summary eval mediawiki_decl = (''mediawiki'', [], False)"
  "decl_summary eval (minetest_decl reverse_url) = (''minetest'', [], False)"
  "decl_summary eval (minidlna_decl reverse_url) = (''minidlna'', [], False)"
  "decl_summary eval miniflux_decl = (''miniflux'', [], False)"
  "decl_summary eval (mumble_decl reverse_url) = (''mumble'', [], False)"
  by (simp_all add: summary_simps letsencrypt_decl_def matrixsynapse_decl_def mediawiki_decl_def minetest_decl_def minidlna_decl_def
    miniflux_decl_def mumble_decl_def)

lemma fine_6:
  "list_all (decl_fine eval)
    [names_decl,
     networks_decl,
     nextcloud_decl,
     oidc_decl,
     openvpn_decl reverse_url,
     pagekite_decl,
     performance_decl]"
  by code_simp

lemma summary_6:
  "decl_summary eval names_decl = (''names'', [], True)"
  "decl_summary eval networks_decl = (''networks'', [], True)"
  "decl_summary eval nextcloud_decl = (''nextcloud'', [], False)"
  "decl_summary eval oidc_decl = (''oidc'', [], True)"
  "decl_summary eval (openvpn_decl reverse_url) = (''openvpn'', [], False)"
  "decl_summary eval pagekite_decl = (''pagekite'', [''names''], False)"
  "decl_summary eval performance_decl = (''performance'', [], False)"
  by (simp_all add: summary_simps names_decl_def networks_decl_def nextcloud_decl_def oidc_decl_def openvpn_decl_def pagekite_decl_def
    performance_decl_def)

lemma fine_7:
  "list_all (decl_fine eval)
    [power_decl,
     privacy_decl,
     privoxy_decl reverse_url,
     quassel_decl reverse_url,
     radicale_decl,
     roundcube_decl,
     rssbridge_decl]"
  by code_simp

lemma summary_7:
  "decl_summary eval power_decl = (''power'', [], True)"
  "decl_summary eval privacy_decl = (''privacy'', [], True)"
  "decl_summary eval (privoxy_decl reverse_url) = (''privoxy'', [], False)"
  "decl_summary eval (quassel_decl reverse_url) = (''quassel'', [], False)"
  "decl_summary eval radicale_decl = (''radicale'', [], False)"
  "decl_summary eval roundcube_decl = (''roundcube'', [], False)"
  "decl_summary eval rssbridge_decl = (''rssbridge'', [], False)"
  by (simp_all add: summary_simps power_decl_def privacy_decl_def privoxy_decl_def quassel_decl_def radicale_decl_def
    roundcube_decl_def rssbridge_decl_def)

lemma fine_8:
  "list_all (decl_fine eval)
    [samba_decl reverse_url,
     searx_decl,
     security_decl,
     shaarli_decl,
     shadowsocks_decl reverse_url,
     shadowsocksserver_decl reverse_url,
     sharing_decl]"
  by code_simp

lemma summary_8:
  "decl_summary eval (samba_decl reverse_url) = (''samba'', [], False)"
  "decl_summary eval searx_decl = (''searx'', [], False)"
  "decl_summary eval security_decl = (''security'', [], True)"
  "decl_summary eval shaarli_decl = (''shaarli'', [], False)"
  "decl_summary eval (shadowsocks_decl reverse_url) = (''shadowsocks'', [], False)"
  "decl_summary eval (shadowsocksserver_decl reverse_url) = (''shadowsocksserver'', [], False)"
  "decl_summary eval sharing_decl = (''sharing'', [], False)"
  by (simp_all add: summary_simps samba_decl_def searx_decl_def security_decl_def shaarli_decl_def shadowsocks_decl_def
    shadowsocksserver_decl_def sharing_decl_def)

lemma fine_9:
  "list_all (decl_fine eval)
    [snapshot_decl,
     sogo_decl,
     ssh_decl,
     storage_decl,
     syncthing_decl,
     tiddlywiki_decl,
     tor_decl]"
  by code_simp

lemma summary_9:
  "decl_summary eval snapshot_decl = (''snapshot'', [], True)"
  "decl_summary eval sogo_decl = (''sogo'', [''email''], False)"
  "decl_summary eval ssh_decl = (''ssh'', [], True)"
  "decl_summary eval storage_decl = (''storage'', [], True)"
  "decl_summary eval syncthing_decl = (''syncthing'', [], False)"
  "decl_summary eval tiddlywiki_decl = (''tiddlywiki'', [], False)"
  "decl_summary eval tor_decl = (''tor'', [''names''], False)"
  by (simp_all add: summary_simps snapshot_decl_def sogo_decl_def ssh_decl_def storage_decl_def syncthing_decl_def tiddlywiki_decl_def
    tor_decl_def)

lemma fine_10:
  "list_all (decl_fine eval)
    [torproxy_decl reverse_url,
     transmission_decl,
     upgrades_decl,
     users_decl,
     wireguard_decl reverse_url,
     wordpress_decl,
     zoph_decl]"
  by code_simp

lemma summary_10:
  "decl_summary eval (torproxy_decl reverse_url) = (''torproxy'', [], False)"
  "decl_summary eval transmission_decl = (''transmission'', [], False)"
  "decl_summary eval upgrades_decl = (''upgrades'', [], True)"
  "decl_summary eval users_decl = (''users'', [], True)"
  "decl_summary eval (wireguard_decl reverse_url) = (''wireguard'', [], False)"
  "decl_summary eval wordpress_decl = (''wordpress'', [], False)"
  "decl_summary eval zoph_decl = (''zoph'', [], False)"
  by (simp_all add: summary_simps torproxy_decl_def transmission_decl_def upgrades_decl_def users_decl_def wireguard_decl_def
    wordpress_decl_def zoph_decl_def)

lemmas fine_all = fine_1 fine_2 fine_3 fine_4 fine_5 fine_6 fine_7 fine_8 fine_9 fine_10
lemmas summary_all = summary_1 summary_2 summary_3 summary_4 summary_5 summary_6 summary_7 summary_8 summary_9 summary_10

lemma shipped_fine: "d \<in> set (shipped_apps reverse_url box_name time_managed) \<Longrightarrow> decl_fine eval d"
  unfolding shipped_apps_def using fine_all[of eval] by (simp add: list_all_iff) blast

end
