(* ===== verification/ShippedAppsStart.thy ===== *)
theory ShippedAppsStart
  imports ShippedAppsChecks
begin

text \<open>Start-up of the apps of the repository, and of an app whose Info cannot be made.\<close>

text \<open>The apps that have dependencies, and the apps they depend on.\<close>

definition with_deps :: "(string \<times> string list \<times> bool) list" where
  "with_deps = [(''avahi'', [''names''], True), (''backups'', [''storage''], True), (''cockpit'', [''apache''], True),
     (''config'', [''apache'', ''firewall'', ''names''], True), (''dynamicdns'', [''names''], True),
     (''ejabberd'', [''coturn''], False), (''letsencrypt'', [''names''], True), (''matrixsynapse'', [''coturn''], False),
     (''pagekite'', [''names''], False), (''sogo'', [''email''], False), (''tor'', [''names''], False)]"

definition needed_apps :: "(string \<times> bool) list" where
  "needed_apps = [(''names'', True), (''storage'', True), (''apache'', True), (''firewall'', True), (''coturn'', False), (''email'', False)]"

lemma shipped_deps:
  assumes "d \<in> set (shipped_apps reverse_url box_name time_managed)"
  shows "decl_depends eval d = [] \<or> decl_summary eval d \<in> set with_deps"
    and "(decl_app d, decl_essential eval d) \<in> set needed_apps \<and> decl_depends eval d = [] \<or> decl_app d \<notin> fst ` set needed_apps"
proof -
  have "list_all (\<lambda>s. fst (snd s) = [] \<or> s \<in> set with_deps) (map (decl_summary eval) (shipped_apps reverse_url box_name time_managed))"
    by (simp add: shipped_apps_def summary_all with_deps_def)
  then show "decl_depends eval d = [] \<or> decl_summary eval d \<in> set with_deps"
    using assms by (auto simp: list_all_iff decl_summary_def)
  have "list_all (\<lambda>s. (fst s, snd (snd s)) \<in> set needed_apps \<and> fst (snd s) = [] \<or> fst s \<notin> fst ` set needed_apps)
      (map (decl_summary eval) (shipped_apps reverse_url box_name time_managed))"
    by (simp add: shipped_apps_def summary_all needed_apps_def)
  then show "(decl_app d, decl_essential eval d) \<in> set needed_apps \<and> decl_depends eval d = [] \<or> decl_app d \<notin> fst ` set needed_apps"
    using assms by (auto simp: list_all_iff decl_summary_def)
qed

lemma with_deps_needed:
  "s \<in> set with_deps \<Longrightarrow> x \<in> set (fst (snd s)) \<Longrightarrow> x \<in> fst ` set needed_apps \<and> (snd (snd s) \<longrightarrow> (x, False) \<notin> set needed_apps)"
  by (auto simp: with_deps_def needed_apps_def)

lemma shipped_flat:
  assumes "set ds \<subseteq> set (shipped_apps reverse_url box_name time_managed)"
  shows "flat eval ds"
  unfolding flat_def
proof (intro ballI impI)
  fix d e
  assume d: "d \<in> set ds" and e: "e \<in> set ds" and x: "decl_app e \<in> set (decl_depends (eval (decl_app d)) d)"
  have dd: "d \<in> set (shipped_apps reverse_url box_name time_managed)" and ee: "e \<in> set (shipped_apps reverse_url box_name time_managed)"
    using assms d e by auto
  have w: "decl_summary (eval (decl_app d)) d \<in> set with_deps"
    using shipped_deps(1)[OF dd, of "eval (decl_app d)"] x by auto
  have n: "decl_app e \<in> fst ` set needed_apps"
    "decl_essential (eval (decl_app d)) d \<longrightarrow> (decl_app e, False) \<notin> set needed_apps"
    using with_deps_needed[OF w, of "decl_app e"] x by (simp_all add: decl_summary_def)
  have "(decl_app e, decl_essential (eval (decl_app e)) e) \<in> set needed_apps \<and> decl_depends (eval (decl_app e)) e = []"
    using shipped_deps(2)[OF ee, of "eval (decl_app e)"] n(1) by blast
  then show "decl_depends (eval (decl_app e)) e = [] \<and>
      (decl_essential (eval (decl_app d)) d \<longrightarrow> decl_essential (eval (decl_app e)) e)"
    using n(2) by (cases "decl_essential (eval (decl_app e)) e") auto
qed

text \<open>C29: whichever of the apps of the repository are enabled, and whatever the order in which their
  modules are loaded, start-up succeeds and keeps an app exactly when all apps that it depends
  on are enabled too: every declaration passes the checks of its components, no dependency is circular,
  an app comes after the apps it depends on, and the essential apps come first.\<close>

theorem shipped_apps_start:
  assumes "set (concat modules) \<subseteq> set (shipped_apps reverse_url box_name time_managed)"
    and "distinct (map decl_app (concat modules))"
  shows "\<exists>apps pre post. apps_init eval vts develop modules [] = (Inr (), apps) \<and>
    od_keys apps = pre @ post \<and> distinct (pre @ post) \<and>
    set (pre @ post) = decl_app ` {d \<in> set (concat modules).
      set (decl_depends (eval (decl_app d)) d) \<subseteq> decl_app ` set (concat modules)} \<and>
    (\<forall>d \<in> set (concat modules). decl_app d \<in> set (pre @ post) \<longrightarrow>
      (\<forall>x \<in> set (decl_depends (eval (decl_app d)) d). precedes (pre @ post) x (decl_app d)) \<and>
      (decl_app d \<in> set pre \<longleftrightarrow> decl_essential (eval (decl_app d)) d))"
proof -
  let ?ds = "concat modules"
  have fine: "\<forall>d \<in> set ?ds. decl_fine (eval (decl_app d)) d" using assms(1) shipped_fine by blast
  have "built eval [] []" by (simp add: built_def)
  from initialize_modules_built[OF this, of modules vts develop] assms(2) fine
  obtain all where all: "initialize_modules eval vts develop modules [] = (Inr (), all)" "built eval ?ds all" by auto
  have start: "decl_app d \<in> decl_app ` {d \<in> set ?ds. startable eval ?ds d} \<Longrightarrow> d \<in> set ?ds \<Longrightarrow> startable eval ?ds d" for d
    using assms(2) by (auto simp: distinct_map inj_on_def)
  obtain res pre post where res: "sort_apps all = Inr res" "od_keys res = pre @ post" "distinct (pre @ post)"
    "set (pre @ post) = decl_app ` {d \<in> set ?ds. startable eval ?ds d}"
    "\<forall>d \<in> set ?ds. startable eval ?ds d \<longrightarrow>
       (\<forall>x \<in> set (decl_depends (eval (decl_app d)) d). precedes (pre @ post) x (decl_app d)) \<and>
       (decl_app d \<in> set pre \<longleftrightarrow> decl_essential (eval (decl_app d)) d)"
    using start_order[OF all(2) shipped_flat[OF assms(1)]] by blast
  have "apps_init eval vts develop modules [] = (Inr (), res)"
    using all(1) res(1) by (simp add: apps_init_def)
  moreover have "\<forall>d \<in> set ?ds. decl_app d \<in> set (pre @ post) \<longrightarrow>
      (\<forall>x \<in> set (decl_depends (eval (decl_app d)) d). precedes (pre @ post) x (decl_app d)) \<and>
      (decl_app d \<in> set pre \<longleftrightarrow> decl_essential (eval (decl_app d)) d)"
    using res(4,5) start by metis
  ultimately show ?thesis using res(2-4) unfolding startable_def by blast
qed

text \<open>SOGo needs email, which is there; Tor needs the app names, which is not.\<close>

theorem shipped_apps_start_witness:
  "\<exists>apps. apps_init (\<lambda>_ _. JNull) (\<lambda>_. component_vtable :: world vtable) False [[tor_decl], [sogo_decl], [email_decl (\<lambda>n. n)]] [] =
     (Inr (), apps) \<and> set (od_keys apps) = {''sogo'', ''email''}"
proof -
  let ?ds = "[tor_decl, sogo_decl, email_decl (\<lambda>n. n)]"
  have s: "decl_summary eval tor_decl = (''tor'', [''names''], False)"
    "decl_summary eval sogo_decl = (''sogo'', [''email''], False)"
    "decl_summary eval (email_decl u) = (''email'', [], False)" for eval u
    by (simp_all add: summary_all)
  have m: "set (concat [[tor_decl], [sogo_decl], [email_decl (\<lambda>n. n)]]) \<subseteq> set (shipped_apps (\<lambda>n. n) [] False)"
    by (simp add: shipped_apps_def)
  have d: "distinct (map decl_app (concat [[tor_decl], [sogo_decl], [email_decl (\<lambda>n. n)]]))"
    using s by (simp add: decl_summary_def)
  have k: "decl_app ` {d \<in> set ?ds. set (decl_depends (\<lambda>_. JNull) d) \<subseteq> decl_app ` set ?ds} = {''sogo'', ''email''}"
    unfolding set_filter[symmetric] using s[of "\<lambda>_. JNull"] by (auto simp: decl_summary_def)
  let ?ms = "[[tor_decl], [sogo_decl], [email_decl (\<lambda>n. n)]]"
  have c: "concat ?ms = ?ds" by simp
  from shipped_apps_start[OF m d, of "\<lambda>_ _. JNull" "\<lambda>_. component_vtable :: world vtable" False]
  obtain apps pre post where
      r: "apps_init (\<lambda>_ _. JNull) (\<lambda>_. component_vtable :: world vtable) False ?ms [] = (Inr (), apps)"
      "od_keys apps = pre @ post"
      "set (pre @ post) = decl_app ` {d \<in> set (concat ?ms). set (decl_depends (\<lambda>_. JNull) d) \<subseteq> decl_app ` set (concat ?ms)}"
    by (elim exE conjE) (rule that)
  have "set (od_keys apps) = {''sogo'', ''email''}" using r(3) unfolding c k r(2) .
  with r(1) show ?thesis by (intro exI conjI)
qed

text \<open>the error handling around the initialization of a module does not protect start-up: when
  the Info of one app refuses its clients, the exception is logged, but the app stays in the list
  of all apps without an Info, and the sort of the apps raises for all of them.\<close>

theorem bad_clients_stop_start:
  assumes "[d] \<in> set modules" and "distinct (map decl_app (concat modules))" and "decl_app d \<noteq> []"
    and "decl_components d = c # cs" and "decl_class c = ''Info''"
    and "arg_or (eval (decl_app d)) c ''clients'' JNull = v" and "truthy v" and "clients_validate v = Inl e"
  shows "\<exists>e' apps. apps_init eval vts False modules [] = (Inl e', apps) \<and> decl_app d \<in> set (od_keys apps)"
proof -
  obtain ms ns where m: "modules = ms @ [d] # ns" using assms(1) by (meson split_list)
  have new: "decl_app d \<notin> decl_app ` set (concat ms)" "decl_app d \<notin> decl_app ` set (concat ns)"
    using assms(2) m by auto
  have "opt_json v = Some v" using assms(7) by (cases v) auto
  then have bad: "declared_object (eval (decl_app d)) c = Inl e"
    using assms(5-8) by (simp add: declared_object_def declared_info_def info_init_def)
  obtain apps1 where 1: "initialize_modules eval vts False ms [] = (Inr (), apps1)"
    using initialize_modules_others[OF new(1)] by blast
  obtain a where a: "construct_app eval vts d apps1 = (Inl e, od_set apps1 (decl_app d) a)"
    "components a = []" "app_id a = decl_app d"
    using construct_bad_info[where d = d and eval = eval and vts = vts, OF assms(3,4) bad] by blast
  then have 2: "initialize_module eval vts False [d] apps1 = (Inr (), od_set apps1 (decl_app d) a)"
    by (simp add: initialize_module_def)
  obtain apps2 where 3: "initialize_modules eval vts False ns (od_set apps1 (decl_app d) a) = (Inr (), apps2)"
    "map_of apps2 (decl_app d) = Some a"
    using initialize_modules_others[OF new(2), of eval vts "od_set apps1 (decl_app d) a"] by (auto simp: odict_simps)
  have "app_info a = Inl (KeyError (decl_app d @ ''-info''))"
    using a(2,3) by (simp add: app_info_def app_get_component_def od_get_def)
  moreover have "(decl_app d, a) \<in> set apps2" using 3(2) by (rule map_of_SomeD)
  ultimately have "without_info apps2" unfolding without_info_def by blast
  then obtain e' where "sort_apps apps2 = Inl e'" using sort_without_info by blast
  then have "apps_init eval vts False modules [] = (Inl e', apps2)"
    using 1 2 3(1) by (simp add: apps_init_def m initialize_modules_append)
  moreover have "decl_app d \<in> set (od_keys apps2)" using \<open>(decl_app d, a) \<in> set apps2\<close> by force
  ultimately show ?thesis by blast
qed

text \<open>An app beside the web server whose client has no list of platforms.\<close>

definition bad_decl :: app_decl where
  "bad_decl = App_Decl ''chat'' True True
     [Component_Decl ''Info'' [(''app_id'', Lit (JStr ''chat'')), (''version'', Lit (JInt 1)),
        (''clients'', Lit (JList [JDict [(''name'', JStr ''Chat'')]]))]]"

theorem bad_clients_stop_start_witness:
  "\<exists>e apps. apps_init (\<lambda>_ _. JNull) (\<lambda>_. component_vtable :: world vtable) False [[apache_decl ''FreedomBox''], [bad_decl]] [] = (Inl e, apps)"
proof -
  have apache: "decl_app (apache_decl b) = ''apache''" for b
    using summary_1(1)[of "\<lambda>_. JNull" b] by (simp add: decl_summary_def)
  show ?thesis
    using bad_clients_stop_start[of bad_decl "[[apache_decl ''FreedomBox''], [bad_decl]]"
        "hd (decl_components bad_decl)" "[]" "\<lambda>_ _. JNull" _ "KeyError ''platforms''" "\<lambda>_. component_vtable :: world vtable"]
    by (auto simp: bad_decl_def apache arg_or_def clients_validate_def validate_client_def assert_that_def)
qed

end
