(* ===== verification/ShippedDaemons.thy ===== *)
theory ShippedDaemons
  imports ShippedAppsLaws DaemonLaws
begin

text \<open>
  The units that the apps of the repository control: which apps name the same unit, and what
  happens to a unit that one app declares as its own and another as shared.
\<close>

section \<open>Units of declarations\<close>

definition decl_arg :: "component_decl \<Rightarrow> string \<Rightarrow> json" where
  "decl_arg c k = arg_or (\<lambda>_. JNull) c k JNull"

text \<open>The components whose \<open>disable\<close> acts on a unit, and their units; \<open>True\<close> for shared ones.\<close>

definition daemon_decls :: "app_decl \<Rightarrow> component_decl list" where
  "daemon_decls d = filter (\<lambda>c. decl_class c \<in> {''Daemon'', ''SharedDaemon'', ''NextcloudDaemon'', ''ResolvedDaemon''}) (decl_components d)"

definition decl_units :: "app_decl \<Rightarrow> (string \<times> bool) list" where
  "decl_units d = map (\<lambda>c. (str_of (decl_arg c ''unit''), decl_class c = ''SharedDaemon'')) (daemon_decls d)"

text \<open>The units of the apps that have any, when the time is managed.\<close>

definition declared_units :: "(string \<times> (string \<times> bool) list) list" where
  "declared_units =
     [(''apache'', [(''apache2'', False)]), (''avahi'', [(''avahi-daemon'', False)]), (''bepasty'',
      [(''uwsgi-app@bepasty-freedombox.socket'', False)]), (''bind'', [(''named'', False)]),
      (''calibre'', [(''calibre-server-freedombox'', False)]), (''cockpit'', [(''cockpit.socket'',
      False)]), (''coturn'', [(''coturn'', False)]), (''datetime'', [(''systemd-timesyncd'', False)]),
      (''deluge'', [(''deluged'', False), (''deluge-web'', False)]), (''ejabberd'', [(''ejabberd'',
      False)]), (''email'', [(''postfix'', False), (''dovecot'', False), (''rspamd'', False),
      (''redis-server'', False)]), (''firewall'', [(''firewalld'', False)]), (''infinoted'',
      [(''infinoted'', False)]), (''janus'', [(''janus'', False)]), (''kiwix'',
      [(''kiwix-server-freedombox'', False)]), (''matrixsynapse'', [(''matrix-synapse'', False)]),
      (''mediawiki'', [(''mediawiki-jobrunner'', False)]), (''minetest'', [(''luanti-server'', False)]),
      (''minidlna'', [(''minidlna'', False)]), (''miniflux'', [(''postgresql'', True), (''miniflux'',
      False)]), (''mumble'', [(''mumble-server'', False)]), (''names'', [(''systemd-resolved'',
      False)]), (''nextcloud'', [(''podman-auto-update.timer'', True), (''redis-server'', True),
      (''mysql'', True), (''nextcloud-freedombox'', False), (''nextcloud-cron-freedombox.timer'',
      False)]), (''openvpn'', [(''openvpn-server@freedombox'', False)]), (''pagekite'', [(''pagekite'',
      False)]), (''performance'', [(''pmcd.service'', False), (''pmie.service'', False),
      (''pmlogger.service'', False), (''pmproxy.service'', False)]), (''privoxy'', [(''privoxy'',
      False)]), (''quassel'', [(''quasselcore'', False)]), (''radicale'',
      [(''uwsgi-app@radicale.socket'', False)]), (''samba'', [(''smbd'', False)]), (''searx'',
      [(''uwsgi-app@searx.socket'', False)]), (''shadowsocks'',
      [(''shadowsocks-libev-local@freedombox'', False)]), (''shadowsocksserver'',
      [(''shadowsocks-libev-server@fbxserver'', False)]), (''sogo'', [(''memcached'', True),
      (''postgresql'', True), (''sogo'', False)]), (''ssh'', [(''ssh'', False)]), (''syncthing'',
      [(''syncthing@syncthing'', False)]), (''tor'', [(''tor@plinth'', False)]), (''torproxy'',
      [(''tor@fbxproxy'', False)]), (''transmission'', [(''transmission-daemon'', False)]), (''users'',
      [(''slapd'', False)]), (''wordpress'', [(''mysql'', True), (''wordpress-freedombox.timer'',
      False)]), (''zoph'', [(''mysql'', True)])]"

definition units_listed :: "app_decl \<Rightarrow> bool" where
  "units_listed d \<longleftrightarrow> set (decl_units d) \<subseteq> set (case map_of declared_units (decl_app d) of None \<Rightarrow> [] | Some us \<Rightarrow> us)"

lemma units_1: "list_all units_listed
    [apache_decl box_name, api_decl, avahi_decl, backups_decl, bepasty_decl, bind_decl, calibre_decl,
     cockpit_decl, config_decl, coturn_decl, datetime_decl time_managed, deluge_decl, diagnostics_decl,
     dynamicdns_decl]"
  by (cases time_managed; simp only:) code_simp+

lemma units_2: "list_all units_listed
    [ejabberd_decl reverse_url, email_decl reverse_url, featherwiki_decl, firewall_decl,
     first_boot_decl, gitweb_decl, gnome_decl, help_decl, homeassistant_decl, ikiwiki_decl,
     infinoted_decl reverse_url box_name, janus_decl reverse_url, jsxc_decl reverse_url, kiwix_decl]"
  by code_simp

lemma units_3: "list_all units_listed
    [letsencrypt_decl, matrixsynapse_decl reverse_url, mediawiki_decl, minetest_decl reverse_url,
     minidlna_decl reverse_url, miniflux_decl, mumble_decl reverse_url, names_decl, networks_decl,
     nextcloud_decl, oidc_decl, openvpn_decl reverse_url, pagekite_decl, performance_decl]"
  by code_simp

lemma units_4: "list_all units_listed
    [power_decl, privacy_decl, privoxy_decl reverse_url, quassel_decl reverse_url, radicale_decl,
     roundcube_decl, rssbridge_decl, samba_decl reverse_url, searx_decl, security_decl, shaarli_decl,
     shadowsocks_decl reverse_url, shadowsocksserver_decl reverse_url, sharing_decl]"
  by code_simp

lemma units_5: "list_all units_listed
    [snapshot_decl, sogo_decl, ssh_decl, storage_decl, syncthing_decl, tiddlywiki_decl, tor_decl,
     torproxy_decl reverse_url, transmission_decl, upgrades_decl, users_decl, wireguard_decl
     reverse_url, wordpress_decl, zoph_decl]"
  by code_simp

lemma shipped_units_listed: "d \<in> set (shipped_apps reverse_url box_name time_managed) \<Longrightarrow> units_listed d"
  unfolding shipped_apps_def using units_1 units_2 units_3 units_4 units_5 by (simp add: list_all_iff) blast

text \<open>
  Two different apps name the same unit only as shared ones, but for \<open>redis-server\<close>, which the
  email app declares as its own and Nextcloud as shared.
\<close>

definition units_agree :: "string \<times> (string \<times> bool) list \<Rightarrow> string \<times> (string \<times> bool) list \<Rightarrow> bool" where
  "units_agree p q \<longleftrightarrow>
     list_all (\<lambda>(u, s). list_all (\<lambda>(v, t). u \<noteq> v \<or> s \<and> t \<or> u = ''redis-server'' \<or> fst p = fst q) (snd q)) (snd p)"

lemma units_agreeD:
  "units_agree (a, us) (b, vs) \<Longrightarrow> (u, s) \<in> set us \<Longrightarrow> (u, t) \<in> set vs \<Longrightarrow> a \<noteq> b \<Longrightarrow> s \<and> t \<or> u = ''redis-server''"
  by (fastforce simp: units_agree_def list_all_iff)

lemma declared_units_agree: "list_all (\<lambda>p. list_all (units_agree p) declared_units) declared_units"
  by code_simp

section \<open>Apps with their daemons\<close>

text \<open>The Daemon and SharedDaemon components of a declaration.\<close>

definition unit_decls :: "app_decl \<Rightarrow> component_decl list" where
  "unit_decls d = filter (\<lambda>c. decl_class c \<in> {''Daemon'', ''SharedDaemon''}) (decl_components d)"

definition decl_fields :: "component_decl \<Rightarrow> daemon_fields" where
  "decl_fields c = \<lparr>dm_unit = str_of (decl_arg c ''unit''), dm_strict_check = truthy (decl_arg c ''strict_check''),
     dm_listen_ports = [], dm_alias = opt_str (decl_arg c ''alias'')\<rparr>"

definition unit_component :: "('x world_scheme) daemon_env \<Rightarrow> string \<Rightarrow> component_decl \<Rightarrow> ('x world_scheme) component" where
  "unit_component env aid c =
     \<lparr>obj = \<lparr>component_id = str_of (decl_arg c ''component_id''), comp_app_id = Some aid, is_leader = True,
             classes = (if decl_class c = ''SharedDaemon'' then [''SharedDaemon''] else []) @
               [''Daemon'', ''LeaderComponent'', ''Component'', ''LogEmitter''], info = None, packages = None\<rparr>,
      vt = (if decl_class c = ''SharedDaemon'' then shared_vtable env else daemon_vtable env)\<rparr>"

definition unit_app :: "('x world_scheme) daemon_env \<Rightarrow> app_decl \<Rightarrow> ('x world_scheme) app" where
  "unit_app env d =
     \<lparr>app_id = decl_app d, can_be_disabled = decl_can_be_disabled d, configure_when_disabled = decl_configure d,
      components = map (\<lambda>c. (str_of (decl_arg c ''component_id''), unit_component env (decl_app d) c)) (unit_decls d),
      ov_post_init = p_ret (), ov_setup = None, ov_uninstall = None, ov_enable = None, ov_disable = None,
      ov_diagnose = None, ov_repair = None\<rparr>"

definition unit_base :: "('x world_scheme) system \<Rightarrow> app_decl list \<Rightarrow> ('x world_scheme) daemon_env" where
  "unit_base sys ds = \<lparr>de_sys = sys, de_apps = [],
     de_daemons = concat (map (\<lambda>d. map (\<lambda>c. (str_of (decl_arg c ''component_id''), decl_fields c)) (unit_decls d)) ds),
     de_related = [], de_containers = [], de_connections = \<lambda>_. p_ret [], de_netcat = \<lambda>_ _ _. p_ret 0\<rparr>"

definition unit_env :: "('x world_scheme) system \<Rightarrow> app_decl list \<Rightarrow> ('x world_scheme) daemon_env" where
  "unit_env sys ds = (unit_base sys ds)\<lparr>de_apps := map (\<lambda>d. (decl_app d, unit_app (unit_base sys ds) d)) ds\<rparr>"

lemma plain_disable:
  assumes "unit_laws sys on" and "de_sys env = sys" and "fields_of env self = Inr f" and "dm_alias f = None"
    and "assert_service_is_managed env (dm_unit f) = Inr ()"
  shows "\<exists>w'. daemon_disable env self w = (Inr (), w') \<and> on w' = (on w)(dm_unit f := False)"
proof -
  obtain w' where "service_disable sys (dm_unit f) False w = (Inr (), w')" "on w' = (on w)(dm_unit f := False)"
    using unit_disable_eval[OF assms(1)] by blast
  then show ?thesis
    using assms(2-5) by (simp add: daemon_disable_def priv_disable_def managed_def nonempty_def prog_simps)
qed

lemma plain_loop:
  assumes "unit_laws sys on" and "de_sys env = sys"
    and "\<forall>(self, u) \<in> set cs. \<exists>f. fields_of env self = Inr f \<and> dm_unit f = u \<and> dm_alias f = None \<and> assert_service_is_managed env u = Inr ()"
  shows "\<exists>w'. p_for (daemon_disable env) (map fst cs) w = (Inr (), w') \<and> (\<forall>u. on w' u = (on w u \<and> u \<notin> snd ` set cs))"
  using assms(3)
proof (induction cs arbitrary: w)
  case (Cons c cs)
  obtain self u where c: "c = (self, u)" by (cases c)
  obtain f where f: "fields_of env self = Inr f" "dm_unit f = u" "dm_alias f = None" "assert_service_is_managed env u = Inr ()"
    using Cons.prems c by auto
  obtain v where v: "daemon_disable env self w = (Inr (), v)" "on v = (on w)(u := False)"
    using plain_disable[OF assms(1,2) f(1,3), of w] f(2,4) by auto
  obtain w' where "p_for (daemon_disable env) (map fst cs) v = (Inr (), w')" "\<forall>x. on w' x = (on v x \<and> x \<notin> snd ` set cs)"
    using Cons.IH[of v] Cons.prems by auto
  with v c show ?case by (auto simp: prog_simps)
qed (simp add: prog_simps)

text \<open>The daemons of the email app, all of them its own.\<close>

definition mail_daemons :: "(string \<times> string) list" where
  "mail_daemons = [(''daemon-email-postfix'', ''postfix''), (''daemon-email-dovecot'', ''dovecot''),
     (''daemon-email-rspamd'', ''rspamd''), (''daemon-email-redis'', ''redis-server'')]"

lemma mail_units:
  "map (\<lambda>c. (str_of (decl_arg c ''component_id''), str_of (decl_arg c ''unit''))) (unit_decls (email_decl u)) = mail_daemons"
  "list_all (\<lambda>c. decl_class c = ''Daemon'' \<and> decl_arg c ''alias'' = JNull) (unit_decls (email_decl u))"
  "(''redis-server'', True) \<in> set (decl_units nextcloud_decl)"
  "decl_app (email_decl u) = ''email''"
  by code_simp+

abbreviation mail_and_cloud :: "(string \<Rightarrow> string) \<Rightarrow> app_decl list" where
  "mail_and_cloud u \<equiv> [email_decl u, nextcloud_decl]"

lemma mail_registry:
  "list_all (\<lambda>(cid, u). od_get (de_daemons (unit_env sys (mail_and_cloud rurl))) cid =
     Inr \<lparr>dm_unit = u, dm_strict_check = False, dm_listen_ports = [], dm_alias = None\<rparr>)
     ((''shared-daemon-nextcloud-redis'', ''redis-server'') # mail_daemons)"
  by code_simp

lemma mail_managed:
  "list_all (\<lambda>(cid, u). assert_service_is_managed (unit_env sys (mail_and_cloud rurl)) u = Inr ()) mail_daemons"
  by code_simp

lemma listed_unit:
  assumes "units_listed d" and "x \<in> set (decl_units d)"
  shows "\<exists>us. (decl_app d, us) \<in> set declared_units \<and> x \<in> set us"
proof (cases "map_of declared_units (decl_app d)")
  case None
  with assms show ?thesis by (simp add: units_listed_def)
next
  case (Some us)
  then have "(decl_app d, us) \<in> set declared_units" by (rule map_of_SomeD)
  with assms Some show ?thesis by (auto simp: units_listed_def)
qed

lemma mail_disable:
  assumes "unit_laws sys on"
  shows "\<exists>w'. app_disable (unit_app (unit_env sys (mail_and_cloud rurl)) (email_decl rurl)) w = (Inr (), w') \<and>
    (\<forall>u. on w' u = (on w u \<and> u \<notin> snd ` set mail_daemons))"
proof -
  let ?env = "unit_env sys (mail_and_cloud rurl)"
  let ?app = "unit_app ?env (email_decl rurl)"
  let ?cs = "map (\<lambda>c. (obj (unit_component ?env ''email'' c), str_of (decl_arg c ''unit''))) (rev (unit_decls (email_decl rurl)))"
  have ids: "map (\<lambda>(self, u). (component_id self, u)) ?cs = rev mail_daemons"
    using mail_units(1)[of rurl] by (simp add: unit_component_def rev_map[symmetric] comp_def)
  have reg: "\<exists>f. fields_of ?env self = Inr f \<and> dm_unit f = u \<and> dm_alias f = None \<and> assert_service_is_managed ?env u = Inr ()"
    if "(self, u) \<in> set ?cs" for self u
  proof -
    have "(component_id self, u) \<in> set (map (\<lambda>(self, u). (component_id self, u)) ?cs)" using that by force
    then have m: "(component_id self, u) \<in> set mail_daemons" unfolding ids by simp
    then show ?thesis using mail_registry[of sys rurl] mail_managed[of sys rurl]
      by (auto simp: list_all_iff fields_of_def)
  qed
  have sys: "de_sys ?env = sys" by (simp add: unit_env_def unit_base_def)
  have comps: "map (\<lambda>c. vt_disable (vt c) (obj c)) (rev (od_values (components ?app))) = map (daemon_disable ?env) (map fst ?cs)"
    using mail_units(2)[of rurl] mail_units(4)[of rurl]
    by (auto simp: unit_app_def unit_component_def daemon_vtable_def list_all_iff rev_map[symmetric])
  obtain w' where w': "p_for (daemon_disable ?env) (map fst ?cs) w = (Inr (), w')"
    "\<forall>u. on w' u = (on w u \<and> u \<notin> snd ` set ?cs)"
    using plain_loop[OF assms sys, of ?cs w] reg by blast
  have run: "p_for f xs = p_for id (map f xs)" for f :: "'b \<Rightarrow> ('a world_scheme, unit) prog" and xs
    by (induction xs) auto
  have "app_disable ?app = p_for (daemon_disable ?env) (map fst ?cs)"
    unfolding app_disable_def run[of "\<lambda>c. vt_disable (vt c) (obj c)"] run[of "daemon_disable ?env"] comps ..
  moreover have "snd ` set ?cs = snd ` set mail_daemons"
  proof -
    have "snd ` set ?cs = snd ` set (map (\<lambda>(self, u). (component_id self, u)) ?cs)" by force
    then show ?thesis unfolding ids by simp
  qed
  ultimately show ?thesis using w' by metis
qed



end
