(* ===== verification/Loader.thy ===== *)
theory Loader
  imports Json Paths "HOL-Library.List_Lexorder" "HOL-Library.Char_ord"
begin

text \<open>
  Which modules the service loads and where its settings come from (plinth/module_loader.py and
  plinth/cfg.py). The file system is read only: directory listings, symbolic links and lines of
  files are the fields of \<open>disk\<close>. Importing a module and parsing a configuration file are
  parameters.
\<close>

record disk =
  dk_list :: "string \<Rightarrow> string list"
  dk_link :: "string \<Rightarrow> string option"
  dk_exists :: "string \<Rightarrow> bool"
  dk_lines :: "string \<Rightarrow> string list result"

section \<open>Enabled modules\<close>

definition modules_enabled_paths :: "string list" where
  "modules_enabled_paths =
     [''/usr/share/freedombox/modules-enabled/'', ''/etc/plinth/modules-enabled/'', ''/etc/freedombox/modules-enabled/'']"

text \<open>\<open>directory.glob('*')\<close> gives names; a path is its directory and its name.\<close>

definition skipped_name :: "string \<Rightarrow> bool" where
  "skipped_name n \<longleftrightarrow> starts_with n ''.'' \<or> contains_str ''.dpkg'' n"

definition masked :: "disk \<Rightarrow> string \<Rightarrow> bool" where
  "masked fs file \<longleftrightarrow> dk_link fs file = Some ''/dev/null''"

definition note_file :: "disk \<Rightarrow> string \<Rightarrow> string \<Rightarrow> (string, string) odict \<Rightarrow> (string, string) odict" where
  "note_file fs dir n files =
     (if skipped_name n then files
      else if masked fs (path_join dir n) then od_del files n
      else od_set files n (path_join dir n))"

definition enabled_files :: "disk \<Rightarrow> (string, string) odict" where
  "enabled_files fs = fold (\<lambda>dir files. fold (note_file fs dir) (dk_list fs dir) files) modules_enabled_paths []"

text \<open>
  Without any enabled file, the files in the source tree: \<open>local_files\<close> is what the glob pattern
  \<open>modules/*/data/usr/share/freedombox/modules-enabled/*\<close> finds.
\<close>

definition files_to_read :: "disk \<Rightarrow> string list \<Rightarrow> string list" where
  "files_to_read fs local_files = (if enabled_files fs \<noteq> [] then od_values (enabled_files fs) else local_files)"

text \<open>\<open>re.sub('#.*', '', line)\<close>: the dot does not match the end of the line.\<close>

definition strip_comment :: "string \<Rightarrow> string" where
  "strip_comment line =
     (if CHR ''#'' \<in> set line
      then takeWhile (\<lambda>c. c \<noteq> CHR ''#'') line @ dropWhile (\<lambda>c. c \<noteq> CHR 0x0A) (dropWhile (\<lambda>c. c \<noteq> CHR ''#'') line)
      else line)"

primrec first_import_path :: "string list \<Rightarrow> string option" where
  "first_import_path [] = None"
| "first_import_path (l # ls) =
     (let s = strip_str (strip_comment l) in if s \<noteq> [] then Some s else first_import_path ls)"

definition read_import_path :: "disk \<Rightarrow> string \<Rightarrow> string option result" where
  "read_import_path fs file = r_bind (dk_lines fs file) (\<lambda>ls. Inr (first_import_path ls))"

text \<open>The list is computed once; \<open>cache\<close> is the global \<open>_modules_to_load\<close>.\<close>

definition some_paths :: "string option list \<Rightarrow> string list" where
  "some_paths ps = concat (map (\<lambda>p. case p of None \<Rightarrow> [] | Some s \<Rightarrow> [s]) ps)"

definition get_modules_to_load ::
  "disk \<Rightarrow> string list \<Rightarrow> string list option \<Rightarrow> string list result \<times> string list option"
where
  "get_modules_to_load fs local_files cache =
     (case cache of
        Some ms \<Rightarrow> (Inr ms, cache)
      | None \<Rightarrow>
          (case r_map (read_import_path fs) (files_to_read fs local_files) of
             Inl e \<Rightarrow> (Inl e, None)
           | Inr ps \<Rightarrow> (Inr (some_paths ps), Some (some_paths ps))))"

text \<open>
  The import path of one module, for the privileged process: the last directory that has the
  file counts, unless the file is masked there.
\<close>

definition import_file_step :: "disk \<Rightarrow> string \<Rightarrow> string \<Rightarrow> string option \<Rightarrow> string option" where
  "import_file_step fs n dir acc =
     (let file = path_join dir n;
          acc' = (if dk_exists fs file then Some file else acc)
      in if masked fs file then None else acc')"

definition import_file :: "disk \<Rightarrow> string \<Rightarrow> string option" where
  "import_file fs n = fold (import_file_step fs n) modules_enabled_paths None"

definition local_import_file :: "string \<Rightarrow> string \<Rightarrow> string" where
  "local_import_file source_dir n =
     path_join source_dir (''modules/'' @ n @ ''/data/usr/share/freedombox/modules-enabled/'' @ n)"

definition get_module_import_path :: "disk \<Rightarrow> string \<Rightarrow> string \<Rightarrow> string result" where
  "get_module_import_path fs source_dir n =
     r_bind (read_import_path fs (case import_file fs n of None \<Rightarrow> local_import_file source_dir n | Some f \<Rightarrow> f))
       (\<lambda>p. case p of None \<Rightarrow> Inl (ValueError ''Module disabled'') | Some m \<Rightarrow> Inr m)"

section \<open>Loading\<close>

text \<open>\<open>module_import_path.split('.')[-1]\<close>.\<close>

definition module_name_of :: "string \<Rightarrow> string" where
  "module_name_of p = last (split_on (CHR ''.'') p)"

text \<open>
  \<open>load_modules\<close>: \<open>import_module\<close> is a parameter; a module that cannot be imported is logged and
  left out, and raises in development mode.
\<close>

primrec load_each ::
  "(string \<Rightarrow> 'm result) \<Rightarrow> bool \<Rightarrow> string list \<Rightarrow> (string, 'm) odict \<Rightarrow> unit result \<times> (string, 'm) odict"
where
  "load_each import_module develop [] loaded = (Inr (), loaded)"
| "load_each import_module develop (p # ps) loaded =
     (case import_module p of
        Inr m \<Rightarrow> load_each import_module develop ps (od_set loaded (module_name_of p) m)
      | Inl e \<Rightarrow> if develop then (Inl e, loaded) else load_each import_module develop ps loaded)"

definition load_modules ::
  "disk \<Rightarrow> string list \<Rightarrow> (string \<Rightarrow> 'm result) \<Rightarrow> bool \<Rightarrow>
   (string, 'm) odict \<times> string list option \<Rightarrow> unit result \<times> (string, 'm) odict \<times> string list option"
where
  "load_modules fs local_files import_module develop s =
     (let (loaded, cache) = s in
      if loaded \<noteq> [] then (Inr (), s)
      else case get_modules_to_load fs local_files cache of
             (Inl e, cache') \<Rightarrow> (Inl e, (loaded, cache'))
           | (Inr ps, cache') \<Rightarrow>
               (let (r, loaded') = load_each import_module develop ps loaded in (r, (loaded', cache'))))"

text \<open>
  \<open>include_urls\<close>: the patterns of the URL configuration; a module without URLs raises ImportError,
  here ModuleNotFoundError, which is logged, other exceptions are not caught.
\<close>

primrec include_each ::
  "(string \<Rightarrow> 'u result) \<Rightarrow> bool \<Rightarrow> string list \<Rightarrow> 'u list \<Rightarrow> unit result \<times> 'u list"
where
  "include_each include_url develop [] urls = (Inr (), urls)"
| "include_each include_url develop (p # ps) urls =
     (case include_url (p @ ''.urls'') of
        Inr u \<Rightarrow> include_each include_url develop ps (urls @ [u])
      | Inl e \<Rightarrow>
          (case e of
             ModuleNotFoundError m \<Rightarrow> if develop then (Inl e, urls) else include_each include_url develop ps urls
           | _ \<Rightarrow> (Inl e, urls)))"

section \<open>Settings\<close>

text \<open>\<open>path.suffix\<close>, and \<open>path.with_suffix(path.suffix + '.d')\<close>, which puts .d after the path.\<close>

definition path_suffix :: "string \<Rightarrow> string" where
  "path_suffix p =
     (let (stem, ext) = rpartition_dot (path_name p)
      in if stem = [] \<or> ext = [] then [] else ''.'' @ ext)"

definition dot_d_path :: "string \<Rightarrow> string" where
  "dot_d_path p = path_str p @ ''.d''"

text \<open>
  \<open>expand_to_dot_d_paths\<close>: \<open>list_dir\<close> is the directory listing that \<open>glob\<close> filters; when it
  raises, a warning is logged and the path stands alone.
\<close>

definition expand_one :: "(string \<Rightarrow> string list result) \<Rightarrow> string \<Rightarrow> string list" where
  "expand_one list_dir p =
     p # (case list_dir (dot_d_path p) of
            Inl e \<Rightarrow> []
          | Inr ns \<Rightarrow> sort (map (path_join (dot_d_path p)) (filter (\<lambda>n. ends_with n (path_suffix p)) ns)))"

definition expand_to_dot_d_paths :: "(string \<Rightarrow> string list result) \<Rightarrow> string list \<Rightarrow> string list" where
  "expand_to_dot_d_paths list_dir ps = concat (map (expand_one list_dir) ps)"

definition get_config_paths :: "string list" where
  "get_config_paths =
     [''/usr/share/freedombox/freedombox.config'', ''/etc/plinth/plinth.config'', ''/etc/freedombox/freedombox.config'']"

datatype option_type = StringOption | IntOption | BoolOption

definition config_items :: "(string \<times> string \<times> option_type) list" where
  "config_items =
     [(''Path'', ''file_root'', StringOption), (''Path'', ''data_dir'', StringOption),
      (''Path'', ''custom_static_dir'', StringOption), (''Path'', ''store_file'', StringOption),
      (''Path'', ''doc_dir'', StringOption), (''Path'', ''server_dir'', StringOption),
      (''Network'', ''host'', StringOption), (''Network'', ''port'', IntOption),
      (''Network'', ''secure_proxy_ssl_header'', StringOption), (''Network'', ''use_x_forwarded_for'', BoolOption),
      (''Network'', ''use_x_forwarded_host'', BoolOption), (''Misc'', ''box_name'', StringOption)]"

definition default_settings :: "(string, json) odict" where
  "default_settings =
     [(''file_root'', JStr ''/usr/share/plinth''), (''data_dir'', JStr ''/var/lib/plinth''),
      (''custom_static_dir'', JStr ''/var/www/plinth/custom/static''),
      (''store_file'', JStr ''/var/lib/plinth/plinth.sqlite3''), (''doc_dir'', JStr ''/usr/share/freedombox''),
      (''server_dir'', JStr ''/freedombox''), (''host'', JStr ''127.0.0.1''), (''port'', JInt 8000),
      (''use_x_forwarded_for'', JBool True), (''use_x_forwarded_host'', JBool True),
      (''secure_proxy_ssl_header'', JStr ''HTTP_X_FORWARDED_PROTO''), (''box_name'', JStr ''FreedomBox''),
      (''develop'', JBool False)]"

text \<open>The module globals: the settings and \<open>config_files\<close>.\<close>

record settings =
  st_values :: "(string, json) odict"
  st_files :: "string list"

definition config_value :: "option_type \<Rightarrow> string \<Rightarrow> json result" where
  "config_value t v =
     (case t of
        StringOption \<Rightarrow> Inr (JStr v)
      | IntOption \<Rightarrow> r_bind (python_int v) (\<lambda>n. Inr (JInt n))
      | BoolOption \<Rightarrow> Inr (JBool (map lower_char v = ''true'')))"

text \<open>
  The parser of a file is the function from section and option to the value: \<open>None\<close> when the
  section or option is missing; a bad interpolation raises.
\<close>

type_synonym parser = "string \<Rightarrow> string \<Rightarrow> string option result"

primrec read_items :: "parser \<Rightarrow> (string \<times> string \<times> option_type) list \<Rightarrow> settings \<Rightarrow> unit result \<times> settings" where
  "read_items get [] s = (Inr (), s)"
| "read_items get (i # is) s =
     (case get (fst i) (fst (snd i)) of
        Inl e \<Rightarrow> (Inl e, s)
      | Inr None \<Rightarrow> read_items get is s
      | Inr (Some v) \<Rightarrow>
          (case config_value (snd (snd i)) v of
             Inl e \<Rightarrow> (Inl e, s)
           | Inr x \<Rightarrow> read_items get is (s\<lparr>st_values := od_set (st_values s) (fst (snd i)) x\<rparr>)))"

definition read_file :: "(string \<Rightarrow> bool) \<Rightarrow> (string \<Rightarrow> parser) \<Rightarrow> string \<Rightarrow> settings \<Rightarrow> unit result \<times> settings" where
  "read_file isfile parse p s =
     (if \<not> isfile p then (Inr (), s)
      else read_items (parse p) config_items (s\<lparr>st_files := st_files s @ [p]\<rparr>))"

primrec read_files :: "(string \<Rightarrow> bool) \<Rightarrow> (string \<Rightarrow> parser) \<Rightarrow> string list \<Rightarrow> settings \<Rightarrow> unit result \<times> settings" where
  "read_files isfile parse [] s = (Inr (), s)"
| "read_files isfile parse (p # ps) s =
     (case read_file isfile parse p s of
        (Inl e, s') \<Rightarrow> (Inl e, s')
      | (Inr _, s') \<Rightarrow> read_files isfile parse ps s')"

definition read_config ::
  "(string \<Rightarrow> string list result) \<Rightarrow> (string \<Rightarrow> bool) \<Rightarrow> (string \<Rightarrow> parser) \<Rightarrow> settings \<Rightarrow> unit result \<times> settings"
where
  "read_config list_dir isfile parse s = read_files isfile parse (expand_to_dot_d_paths list_dir get_config_paths) s"

text \<open>
  The service and its privileged process agree on the file of an enabled module, and the settings
  are those of the last file that has them.
\<close>

section \<open>One file for a module\<close>

text \<open>A directory lists a name when the path exists or is a masking link.\<close>

definition listed_as_found :: "disk \<Rightarrow> string \<Rightarrow> bool" where
  "listed_as_found fs n \<longleftrightarrow>
     (\<forall>dir \<in> set modules_enabled_paths. n \<in> set (dk_list fs dir) \<longleftrightarrow> dk_exists fs (path_join dir n) \<or> masked fs (path_join dir n))"

lemma note_file_lookup:
  "\<not> skipped_name n \<Longrightarrow> map_of (note_file fs dir m files) n =
     (if m = n then (if masked fs (path_join dir n) then None else Some (path_join dir n)) else map_of files n)"
  by (auto simp: note_file_def odict_simps)

lemma note_files_lookup:
  assumes "\<not> skipped_name n"
  shows "map_of (fold (note_file fs dir) ns files) n =
     (if n \<in> set ns then (if masked fs (path_join dir n) then None else Some (path_join dir n)) else map_of files n)"
proof (induction ns arbitrary: files)
  case (Cons m ns)
  show ?case
  proof (cases "n \<in> set ns")
    case True
    then show ?thesis using Cons.IH[of "note_file fs dir m files"] by simp
  next
    case False
    then show ?thesis
      using Cons.IH[of "note_file fs dir m files"] by (simp add: note_file_lookup[OF assms] eq_commute[of n])
  qed
qed simp

lemma enabled_lookup:
  assumes "\<not> skipped_name n" and "listed_as_found fs n" and "set dirs \<subseteq> set modules_enabled_paths"
  shows "map_of (fold (\<lambda>dir files. fold (note_file fs dir) (dk_list fs dir) files) dirs files) n =
     fold (import_file_step fs n) dirs (map_of files n)"
  using assms(3)
proof (induction dirs arbitrary: files)
  case (Cons dir dirs)
  have "n \<in> set (dk_list fs dir) \<longleftrightarrow> dk_exists fs (path_join dir n) \<or> masked fs (path_join dir n)"
    using assms(2) Cons.prems by (simp add: listed_as_found_def)
  then have "map_of (fold (note_file fs dir) (dk_list fs dir) files) n = import_file_step fs n dir (map_of files n)"
    by (auto simp: note_files_lookup[OF assms(1)] import_file_step_def)
  then show ?case using Cons.IH[of "fold (note_file fs dir) (dk_list fs dir) files"] Cons.prems by simp
qed simp


text \<open>A module masked in /etc, with its file in /usr/share.\<close>

definition masked_disk :: disk where
  "masked_disk =
     \<lparr>dk_list = \<lambda>d. if d = ''/usr/share/freedombox/modules-enabled/'' then [''tor'', ''ssh'']
                    else if d = ''/etc/freedombox/modules-enabled/'' then [''tor''] else [],
      dk_link = \<lambda>p. if p = ''/etc/freedombox/modules-enabled/tor'' then Some ''/dev/null'' else None,
      dk_exists = \<lambda>p. p \<in> {''/usr/share/freedombox/modules-enabled/tor'', ''/usr/share/freedombox/modules-enabled/ssh''},
      dk_lines = \<lambda>p. Inr [''# module'' @ [CHR 0x0A], ''plinth.modules.'' @ path_name p @ [CHR 0x0A]]\<rparr>"


text \<open>
  A name without a file falls back to the source tree: a masked module is imported from there when
  the tree has it, and an unknown one raises what \<open>open\<close> raises, not the ValueError of the code.
\<close>

lemma masked_module_from_source:
  "import_file fs n = None \<Longrightarrow> get_module_import_path fs source_dir n =
     r_bind (read_import_path fs (local_import_file source_dir n))
       (\<lambda>p. case p of None \<Rightarrow> Inl (ValueError ''Module disabled'') | Some m \<Rightarrow> Inr m)"
  by (simp add: get_module_import_path_def)

lemma masked_module_imported:
  "map_of (enabled_files masked_disk) ''tor'' = None \<and>
   get_module_import_path masked_disk ''/usr/lib/python3/dist-packages/plinth'' ''tor'' = Inr ''plinth.modules.tor''"
  by code_simp

section \<open>Settings\<close>

text \<open>The value that a list of files gives an option: that of the last file that has it.\<close>

fun last_value :: "(string \<Rightarrow> bool) \<Rightarrow> (string \<Rightarrow> parser) \<Rightarrow> string list \<Rightarrow> string \<times> string \<times> option_type \<Rightarrow> json option" where
  "last_value isfile parse [] i = None"
| "last_value isfile parse (p # ps) i =
     (case last_value isfile parse ps i of
        Some v \<Rightarrow> Some v
      | None \<Rightarrow> if \<not> isfile p then None
                else case parse p (fst i) (fst (snd i)) of
                       Inr (Some v) \<Rightarrow> (case config_value (snd (snd i)) v of Inr x \<Rightarrow> Some x | Inl e \<Rightarrow> None)
                     | _ \<Rightarrow> None)"

text \<open>The names of the options are different.\<close>

lemma read_items_keeps:
  assumes "read_items get is s = (Inr (), s')" and "k \<notin> (fst \<circ> snd) ` set is"
  shows "map_of (st_values s') k = map_of (st_values s) k"
  using assms
proof (induction "is" arbitrary: s)
  case (Cons i "is")
  then show ?case by (fastforce split: sum.splits option.splits simp: odict_simps)
qed simp

lemma read_items_value:
  assumes "read_items get is s = (Inr (), s')" and "distinct (map (fst \<circ> snd) is)" and "i \<in> set is"
  shows "map_of (st_values s') (fst (snd i)) =
    (case get (fst i) (fst (snd i)) of
       Inr (Some v) \<Rightarrow> (case config_value (snd (snd i)) v of Inr x \<Rightarrow> Some x | Inl e \<Rightarrow> map_of (st_values s) (fst (snd i)))
     | _ \<Rightarrow> map_of (st_values s) (fst (snd i)))"
  using assms
proof (induction "is" arbitrary: s)
  case (Cons j "is")
  have step: "\<exists>s1. read_items get is s1 = (Inr (), s') \<and> map_of (st_values s1) =
      (case get (fst j) (fst (snd j)) of
         Inr (Some v) \<Rightarrow> (case config_value (snd (snd j)) v of
              Inr x \<Rightarrow> (map_of (st_values s))(fst (snd j) \<mapsto> x) | Inl e \<Rightarrow> map_of (st_values s))
       | _ \<Rightarrow> map_of (st_values s))"
    using Cons.prems(1) by (auto split: sum.splits option.splits simp: odict_simps)
  then obtain s1 where s1: "read_items get is s1 = (Inr (), s')" "map_of (st_values s1) =
      (case get (fst j) (fst (snd j)) of
         Inr (Some v) \<Rightarrow> (case config_value (snd (snd j)) v of
              Inr x \<Rightarrow> (map_of (st_values s))(fst (snd j) \<mapsto> x) | Inl e \<Rightarrow> map_of (st_values s))
       | _ \<Rightarrow> map_of (st_values s))" by blast
  show ?case
  proof (cases "i = j")
    case True
    then have "fst (snd i) \<notin> (fst \<circ> snd) ` set is" using Cons.prems(2) by simp
    from read_items_keeps[OF s1(1) this] s1(2) True show ?thesis by (auto split: sum.splits option.splits)
  next
    case False
    then have i: "i \<in> set is" using Cons.prems(3) by simp
    have "fst (snd j) \<notin> (fst \<circ> snd) ` set is" using Cons.prems(2) by simp
    with i have "fst (snd i) \<noteq> fst (snd j)" by (metis comp_apply image_eqI)
    then have "map_of (st_values s1) (fst (snd i)) = map_of (st_values s) (fst (snd i))"
      using s1(2) by (auto split: sum.splits option.splits)
    then show ?thesis using Cons.IH[OF s1(1) _ i] Cons.prems(2) by (simp split: sum.splits option.splits)
  qed
qed simp

lemma config_items_distinct: "distinct (map (fst \<circ> snd) config_items)"
  by (simp add: config_items_def)

lemma read_file_value:
  assumes "read_file isfile parse p s = (Inr (), s')" and "i \<in> set config_items"
  shows "map_of (st_values s') (fst (snd i)) =
    (case last_value isfile parse [p] i of Some v \<Rightarrow> Some v | None \<Rightarrow> map_of (st_values s) (fst (snd i)))"
proof (cases "isfile p")
  case True
  then show ?thesis
    using assms(1) read_items_value[OF _ config_items_distinct assms(2), of "parse p" "s\<lparr>st_files := st_files s @ [p]\<rparr>" s']
    by (auto simp: read_file_def split: sum.splits option.splits)
qed (use assms in \<open>simp add: read_file_def\<close>)

lemma read_files_value:
  assumes "read_files isfile parse ps s = (Inr (), s')" and "i \<in> set config_items"
  shows "map_of (st_values s') (fst (snd i)) =
    (case last_value isfile parse ps i of Some v \<Rightarrow> Some v | None \<Rightarrow> map_of (st_values s) (fst (snd i)))"
  using assms(1)
proof (induction ps arbitrary: s)
  case (Cons p ps)
  obtain s1 where 1: "read_file isfile parse p s = (Inr (), s1)" "read_files isfile parse ps s1 = (Inr (), s')"
    using Cons.prems by (auto split: prod.splits sum.splits)
  show ?case
    using Cons.IH[OF 1(2)] read_file_value[OF 1(1) assms(2)]
    by (auto split: option.splits)
qed simp

lemma read_items_files: "st_files (snd (read_items get is s)) = st_files s"
  by (induction "is" arbitrary: s) (auto split: sum.splits option.splits)

lemma read_files_files:
  "read_files isfile parse ps s = (Inr (), s') \<Longrightarrow> st_files s' = st_files s @ filter isfile ps"
proof (induction ps arbitrary: s)
  case (Cons p ps)
  obtain s1 where 1: "read_file isfile parse p s = (Inr (), s1)" "read_files isfile parse ps s1 = (Inr (), s')"
    using Cons.prems by (auto split: prod.splits sum.splits)
  have "st_files s1 = st_files s @ filter isfile [p]"
    using 1(1) read_items_files[of "parse p" config_items "s\<lparr>st_files := st_files s @ [p]\<rparr>"]
    by (auto simp: read_file_def split: if_splits)
  with Cons.IH[OF 1(2)] show ?case by simp
qed simp

text \<open>
  When the configuration is read without error, each setting has the value of the last file that
  has it, in the order of the directories and of the names in their .d directories, and keeps its
  default when no file has it; the files that were read are noted in that order.
\<close>

theorem last_setting_wins:
  assumes "read_config list_dir isfile parse s = (Inr (), s')" and "i \<in> set config_items"
  shows "map_of (st_values s') (fst (snd i)) =
    (case last_value isfile parse (expand_to_dot_d_paths list_dir get_config_paths) i of
       Some v \<Rightarrow> Some v | None \<Rightarrow> map_of (st_values s) (fst (snd i))) \<and>
    st_files s' = st_files s @ filter isfile (expand_to_dot_d_paths list_dir get_config_paths)"
  using read_files_value[OF _ assms(2)] read_files_files assms(1) unfolding read_config_def by blast

end
