(* ===== verification/Urls.thy ===== *)
theory Urls
  imports Paths
begin

text \<open>
  URLs as Python's standard library takes them apart (\<open>urllib.parse.urlparse\<close> and \<open>parse_qs\<close>) and the
  textual forms of IP addresses (\<open>ipaddress.ip_address\<close>), for ASCII text.
\<close>

section \<open>Taking a URL apart\<close>

record url =
  u_scheme :: string
  u_netloc :: string
  u_path :: string
  u_query :: string
  u_fragment :: string

text \<open>\<open>s.partition(c)\<close>: before, whether it occurs, after.\<close>

definition partition_at :: "char \<Rightarrow> string \<Rightarrow> string \<times> bool \<times> string" where
  "partition_at c s = (takeWhile (\<lambda>x. x \<noteq> c) s, c \<in> set s, tl (dropWhile (\<lambda>x. x \<noteq> c) s))"

definition control_or_space :: "char \<Rightarrow> bool" where
  "control_or_space c \<longleftrightarrow> (of_char c :: nat) \<le> 32"

definition clean_url :: "string \<Rightarrow> string" where
  "clean_url s = filter (\<lambda>c. c \<notin> {CHR 0x09, CHR 0x0D, CHR 0x0A}) (dropWhile control_or_space s)"

definition alpha :: "char \<Rightarrow> bool" where
  "alpha c \<longleftrightarrow> (let n = of_char c :: nat in 65 \<le> n \<and> n \<le> 90 \<or> 97 \<le> n \<and> n \<le> 122)"

definition dec_digit :: "char \<Rightarrow> bool" where
  "dec_digit c \<longleftrightarrow> (let n = of_char c :: nat in 48 \<le> n \<and> n \<le> 57)"

definition hex_digit :: "char \<Rightarrow> bool" where
  "hex_digit c \<longleftrightarrow> c \<in> set ''0123456789abcdefABCDEF''"

definition scheme_letter :: "char \<Rightarrow> bool" where
  "scheme_letter c \<longleftrightarrow> alpha c \<or> dec_digit c \<or> c \<in> set ''+-.''"

definition split_scheme :: "string \<Rightarrow> string \<times> string" where
  "split_scheme s =
     (let (pre, found, rest) = partition_at (CHR '':'') s
      in if found \<and> pre \<noteq> [] \<and> alpha (hd pre) \<and> list_all scheme_letter pre
         then (map lower_char pre, rest) else ([], s))"

definition netloc_end :: "char \<Rightarrow> bool" where
  "netloc_end c \<longleftrightarrow> c \<in> set ''/?#''"

definition split_netloc :: "string \<Rightarrow> string \<times> string" where
  "split_netloc s =
     (if starts_with s ''//'' then (takeWhile (\<lambda>c. \<not> netloc_end c) (drop 2 s), dropWhile (\<lambda>c. \<not> netloc_end c) (drop 2 s))
      else ([], s))"

text \<open>The schemes whose last path segment has parameters after a semicolon.\<close>

definition uses_params :: "string list" where
  "uses_params = ['''', ''ftp'', ''hdl'', ''prospero'', ''http'', ''https'', ''shttp'', ''rtsp'', ''rtsps'', ''rtspu'',
     ''sip'', ''sips'', ''mms'', ''sftp'', ''tel'']"

definition cut_params :: "string \<Rightarrow> string" where
  "cut_params p =
     (case rsplit (CHR ''/'') p of
        None \<Rightarrow> fst (partition_at (CHR '';'') p)
      | Some (dir, seg) \<Rightarrow> dir @ ''/'' @ fst (partition_at (CHR '';'') seg))"

section \<open>IP addresses\<close>

definition decimal_octet :: "string \<Rightarrow> bool" where
  "decimal_octet s \<longleftrightarrow>
     s \<noteq> [] \<and> list_all dec_digit s \<and> length s \<le> 3 \<and> (s = ''0'' \<or> hd s \<noteq> CHR ''0'') \<and>
     foldl (\<lambda>n c. 10 * n + (of_char c - 48)) 0 s \<le> (255 :: nat)"

definition is_ipv4 :: "string \<Rightarrow> bool" where
  "is_ipv4 s \<longleftrightarrow> (let os = split_on (CHR ''.'') s in length os = 4 \<and> list_all decimal_octet os)"

definition hextet :: "string \<Rightarrow> bool" where
  "hextet s \<longleftrightarrow> s \<noteq> [] \<and> list_all hex_digit s \<and> length s \<le> 4"

text \<open>An IPv4 address as the last part counts as two hextets.\<close>

definition ipv6_parts :: "string \<Rightarrow> string list option" where
  "ipv6_parts s =
     (let ps = split_on (CHR '':'') s
      in if length ps < 3 then None
         else if CHR ''.'' \<in> set (last ps)
         then if is_ipv4 (last ps) then Some (butlast ps @ [''0'', ''0'']) else None
         else Some ps)"

definition ipv6_shape :: "string list \<Rightarrow> bool" where
  "ipv6_shape ps \<longleftrightarrow>
     length ps \<le> 9 \<and>
     (case filter (\<lambda>i. ps ! i = []) [1..<length ps - 1] of
        [] \<Rightarrow> length ps = 8 \<and> list_all hextet ps
      | [i] \<Rightarrow>
          (let lead = (hd ps = []); trail = (last ps = []);
               hi = (if lead then i - 1 else i); lo = (if trail then length ps - i - 2 else length ps - i - 1)
           in (lead \<longrightarrow> hi = 0) \<and> (trail \<longrightarrow> lo = 0) \<and> hi + lo < 8 \<and>
              list_all hextet (take hi ps) \<and> list_all hextet (drop (length ps - lo) ps))
      | _ \<Rightarrow> False)"

definition is_ipv6 :: "string \<Rightarrow> bool" where
  "is_ipv6 s \<longleftrightarrow>
     (let (addr, sep, scope) = partition_at (CHR ''%'') s
      in CHR ''/'' \<notin> set s \<and> addr \<noteq> [] \<and> (sep \<longrightarrow> scope \<noteq> [] \<and> CHR ''%'' \<notin> set scope) \<and>
         (case ipv6_parts addr of None \<Rightarrow> False | Some ps \<Rightarrow> ipv6_shape ps))"

definition is_ip_address :: "string \<Rightarrow> bool" where
  "is_ip_address s \<longleftrightarrow> is_ipv4 s \<or> is_ipv6 s"

section \<open>Hosts\<close>

text \<open>What follows the last at sign.\<close>

definition host_and_port :: "string \<Rightarrow> string" where
  "host_and_port netloc = (case rsplit (CHR ''@'') netloc of None \<Rightarrow> netloc | Some (user, rest) \<Rightarrow> rest)"

text \<open>Square brackets must come in pairs and hold an IPv6 address or an address of a later version.\<close>

definition future_address :: "string \<Rightarrow> bool" where
  "future_address s \<longleftrightarrow>
     (let (ver, dot, rest) = partition_at (CHR ''.'') (tl s)
      in starts_with s ''v'' \<and> dot \<and> ver \<noteq> [] \<and> list_all hex_digit ver \<and> rest \<noteq> [])"

definition netloc_ok :: "string \<Rightarrow> bool" where
  "netloc_ok netloc \<longleftrightarrow>
     (CHR ''['' \<in> set netloc \<longleftrightarrow> CHR '']'' \<in> set netloc) \<and>
     (CHR ''['' \<in> set netloc \<longrightarrow>
        (let (pre, found, rest) = partition_at (CHR ''['') (host_and_port netloc);
             (host, closed, port) = partition_at (CHR '']'') rest
         in if found then pre = [] \<and> (port = [] \<or> hd port = CHR '':'') \<and>
              (if starts_with host ''v'' then future_address host else is_ipv6 host)
            else (let h = fst (partition_at (CHR '':'') (host_and_port netloc))
                  in if starts_with h ''v'' then future_address h else is_ipv6 h)))"

definition urlparse :: "string \<Rightarrow> url result" where
  "urlparse s =
     (let (sch, r1) = split_scheme (clean_url s);
          (netloc, r2) = split_netloc r1;
          (r3, has_fragment, fragment) = partition_at (CHR ''#'') r2;
          (p, has_query, qry) = partition_at (CHR ''?'') r3
      in if \<not> netloc_ok netloc then Inl (ValueError ''Invalid IPv6 URL'')
         else Inr \<lparr>u_scheme = sch, u_netloc = netloc,
                   u_path = (if sch \<in> set uses_params \<and> CHR '';'' \<in> set p then cut_params p else p),
                   u_query = qry, u_fragment = fragment\<rparr>)"

text \<open>\<open>.hostname\<close>: lower case up to a zone, \<open>None\<close> when empty.\<close>

definition hostname :: "url \<Rightarrow> string option" where
  "hostname u =
     (let hp = host_and_port (u_netloc u);
          (pre, opened, rest) = partition_at (CHR ''['') hp;
          h = (if opened then fst (partition_at (CHR '']'') rest) else fst (partition_at (CHR '':'') hp));
          (name, zoned, zone) = partition_at (CHR ''%'') h
      in if h = [] then None else Some (map lower_char name @ (if zoned then ''%'' @ zone else [])))"

section \<open>Queries\<close>

definition hex_value :: "char \<Rightarrow> nat" where
  "hex_value c = (if dec_digit c then of_char c - 48 else of_char (lower_char c) - 87)"

text \<open>\<open>unquote\<close> of a text with plus signs for spaces.\<close>

fun unquote_plus :: "string \<Rightarrow> string" where
  "unquote_plus (c # a # b # cs) =
     (if c = CHR ''%'' \<and> hex_digit a \<and> hex_digit b
      then char_of (16 * hex_value a + hex_value b) # unquote_plus cs
      else (if c = CHR ''+'' then CHR '' '' else c) # unquote_plus (a # b # cs))"
| "unquote_plus (c # cs) = (if c = CHR ''+'' then CHR '' '' else c) # unquote_plus cs"
| "unquote_plus [] = []"

text \<open>The keys of \<open>parse_qs\<close>: of the fields that have a value.\<close>

definition field_key :: "string \<Rightarrow> string list" where
  "field_key f = (let (k, eq, v) = partition_at (CHR ''='') f in if v \<noteq> [] then [unquote_plus k] else [])"

definition query_keys :: "string \<Rightarrow> string list" where
  "query_keys q = concat (map field_key (split_on (CHR ''&'') q))"

end
