(* ===== verification/Oidc.thy ===== *)
theory Oidc
  imports Urls Names System Webserver
begin

text \<open>
  The OpenID Connect provider (plinth/modules/oidc): which addresses the browser may be sent to after
  a login, and the registration of apps as clients, whose redirect addresses follow the domain
  names of the machine; and the handlers of modules/names that keep the list of domains. The
  models and generators of django-oauth-toolkit are parameters.
\<close>

section \<open>Checking a redirect\<close>

text \<open>\<open>_validate_local_domains_and_ips\<close>; \<open>request_host\<close> is the header HTTP_HOST.\<close>

definition localhost_names :: "string \<Rightarrow> string list" where
  "localhost_names own = [''localhost'', ''ip6-localhost'', ''ip6-loopback'', own]"

primrec match_allowed ::
  "url \<Rightarrow> string option \<Rightarrow> bool \<Rightarrow> bool \<Rightarrow> string list \<Rightarrow> bool result"
where
  "match_allowed u request_host is_ip is_local [] = Inr False"
| "match_allowed u request_host is_ip is_local (a # as) =
     r_bind (urlparse a) (\<lambda>v.
       if u_path u \<noteq> u_path v then match_allowed u request_host is_ip is_local as
       else if \<not> set (query_keys (u_query v)) \<subseteq> set (query_keys (u_query u))
       then match_allowed u request_host is_ip is_local as
       else if is_ip \<and> request_host \<notin> {None, Some []} \<and> Some (u_netloc u) = request_host then Inr True
       else if is_local then Inr True
       else match_allowed u request_host is_ip is_local as)"

definition validate_local_domains_and_ips ::
  "'w system \<Rightarrow> string \<Rightarrow> string option \<Rightarrow> string list \<Rightarrow> ('w, bool) prog"
where
  "validate_local_domains_and_ips sys redirect_uri request_host allowed =
     p_bind (p_lift (urlparse redirect_uri)) (\<lambda>u.
     p_bind (get_hostname sys) (\<lambda>own.
       p_lift (match_allowed u request_host
         (case hostname u of None \<Rightarrow> False | Some h \<Rightarrow> is_ip_address h)
         (case hostname u of None \<Rightarrow> False | Some h \<Rightarrow> h \<in> set (localhost_names own)) allowed)))"

text \<open>The validator; \<open>base\<close> is that of django-oauth-toolkit.\<close>

definition validate_redirect_uri ::
  "'w system \<Rightarrow> (string \<Rightarrow> ('w, bool) prog) \<Rightarrow> string \<Rightarrow> string option \<Rightarrow> string \<Rightarrow> ('w, bool) prog"
where
  "validate_redirect_uri sys base redirect_uri request_host redirect_uris =
     p_bind (validate_local_domains_and_ips sys redirect_uri request_host (split_words redirect_uris)) (\<lambda>ok.
       if ok then p_ret True else base redirect_uri)"

text \<open>The claims about a user.\<close>

record claims =
  sub :: string
  claim_email :: string
  preferred_username :: string
  freedombox_groups :: "string list"

definition get_additional_claims :: "string \<Rightarrow> string \<Rightarrow> string list \<Rightarrow> claims" where
  "get_additional_claims uname mail gs =
     \<lparr>sub = uname, claim_email = mail, preferred_username = uname, freedombox_groups = gs\<rparr>"

section \<open>Clients\<close>

record oidc_component =
  oc_id :: string
  oc_client_id :: string
  oc_name :: string
  oc_redirect_uris :: "string list"
  oc_post_logout_redirect_uris :: string
  oc_client_type :: "string option"
  oc_grant_type :: "string option"
  oc_algorithm :: "string option"
  oc_hash_client_secret :: bool
  oc_skip_authorization :: bool

definition oidc_init :: "string \<Rightarrow> string \<Rightarrow> string \<Rightarrow> string list \<Rightarrow> bool \<Rightarrow> oidc_component" where
  "oidc_init cid client_id name uris skip =
     \<lparr>oc_id = cid, oc_client_id = client_id, oc_name = name, oc_redirect_uris = uris,
      oc_post_logout_redirect_uris = [], oc_client_type = None, oc_grant_type = None, oc_algorithm = None,
      oc_hash_client_secret = False, oc_skip_authorization = skip\<rparr>"

text \<open>The setters of the three properties.\<close>

definition set_client_type :: "string option \<Rightarrow> oidc_component \<Rightarrow> oidc_component" where
  "set_client_type v c = c\<lparr>oc_client_type := v\<rparr>"

definition set_grant_type :: "string option \<Rightarrow> oidc_component \<Rightarrow> oidc_component" where
  "set_grant_type v c = c\<lparr>oc_grant_type := v\<rparr>"

definition set_algorithm :: "string option \<Rightarrow> oidc_component \<Rightarrow> oidc_component" where
  "set_algorithm v c = c\<lparr>oc_algorithm := v\<rparr>"

record oauth_application =
  ap_client_secret :: string
  ap_redirect_uris :: string
  ap_post_logout_redirect_uris :: string
  ap_client_type :: string
  ap_grant_type :: string
  ap_hash_client_secret :: bool
  ap_name :: string
  ap_algorithm :: string
  ap_allowed_origins :: string
  ap_skip_authorization :: bool

text \<open>
  The table of applications by client id, and the domain names of the process. \<open>oe_order\<close> is the
  order in which a set of strings is iterated; the components are those of all apps.
\<close>

record oidc_world =
  ow_names :: domain_names
  ow_applications :: "(string, oauth_application) odict"

record oidc_env =
  oe_types :: domain_types
  oe_components :: "oidc_component list"
  oe_order :: "string set \<Rightarrow> string list"
  oe_new_secret :: "(oidc_world, string) prog"
  oe_confidential :: string
  oe_code_grant :: string
  oe_hs256 :: string

definition value_or :: "string option \<Rightarrow> string \<Rightarrow> string" where
  "value_or v d = (case v of None \<Rightarrow> d | Some s \<Rightarrow> if s = [] then d else s)"

definition client_domains :: "oidc_env \<Rightarrow> domain_names \<Rightarrow> string list" where
  "client_domains e ns = oe_order e (set (list_names None ns) \<union> {''localhost''})"

definition expand_uri :: "string list \<Rightarrow> string \<Rightarrow> string list result" where
  "expand_uri domains uri =
     (if contains_str ''{domain}'' uri then r_map (\<lambda>d. format_domain d uri) domains else Inr [uri])"

definition final_uris :: "oidc_env \<Rightarrow> domain_names \<Rightarrow> oidc_component \<Rightarrow> string list result" where
  "final_uris e ns c =
     r_bind (r_map (expand_uri (client_domains e ns)) (oc_redirect_uris c)) (\<lambda>us. Inr (concat us))"

definition get_redirect_uris :: "oidc_env \<Rightarrow> domain_names \<Rightarrow> oidc_component \<Rightarrow> string result" where
  "get_redirect_uris e ns c = r_bind (final_uris e ns c) (\<lambda>us. Inr (join_str '' '' us))"

definition get_allowed_origins :: "oidc_env \<Rightarrow> domain_names \<Rightarrow> string" where
  "get_allowed_origins e ns = join_str '' '' (map (\<lambda>d. ''https://'' @ d) (client_domains e ns))"

text \<open>\<open>_create_application\<close> makes a secret, \<open>_update_application\<close> keeps the one there is.\<close>

definition application_of :: "oidc_env \<Rightarrow> oidc_component \<Rightarrow> string \<Rightarrow> string \<Rightarrow> string \<Rightarrow> oauth_application" where
  "application_of e c secret uris origins =
     \<lparr>ap_client_secret = secret, ap_redirect_uris = uris,
      ap_post_logout_redirect_uris = oc_post_logout_redirect_uris c,
      ap_client_type = value_or (oc_client_type c) (oe_confidential e),
      ap_grant_type = value_or (oc_grant_type c) (oe_code_grant e),
      ap_hash_client_secret = oc_hash_client_secret c, ap_name = oc_name c,
      ap_algorithm = value_or (oc_algorithm c) (oe_hs256 e), ap_allowed_origins = origins,
      ap_skip_authorization = oc_skip_authorization c\<rparr>"

definition put_application :: "string \<Rightarrow> oauth_application \<Rightarrow> (oidc_world, unit) prog" where
  "put_application client_id ap =
     p_mod (\<lambda>w. w\<lparr>ow_applications := od_set (ow_applications w) client_id ap\<rparr>)"

definition create_application :: "oidc_env \<Rightarrow> oidc_component \<Rightarrow> (oidc_world, unit) prog" where
  "create_application e c =
     p_bind (oe_new_secret e) (\<lambda>secret.
     p_bind (p_get ow_names) (\<lambda>ns.
     p_bind (p_lift (get_redirect_uris e ns c)) (\<lambda>uris.
       put_application (oc_client_id c) (application_of e c secret uris (get_allowed_origins e ns)))))"

definition update_application :: "oidc_env \<Rightarrow> oidc_component \<Rightarrow> oauth_application \<Rightarrow> (oidc_world, unit) prog" where
  "update_application e c ap =
     p_bind (p_get ow_names) (\<lambda>ns.
     p_bind (p_lift (get_redirect_uris e ns c)) (\<lambda>uris.
       put_application (oc_client_id c) (application_of e c (ap_client_secret ap) uris (get_allowed_origins e ns))))"

definition create_or_update_application :: "oidc_env \<Rightarrow> oidc_component \<Rightarrow> (oidc_world, unit) prog" where
  "create_or_update_application e c =
     p_bind (p_get ow_applications) (\<lambda>aps.
       case map_of aps (oc_client_id c) of
         Some ap \<Rightarrow> update_application e c ap
       | None \<Rightarrow> create_application e c)"

definition oidc_setup :: "oidc_env \<Rightarrow> oidc_component \<Rightarrow> int \<Rightarrow> (oidc_world, unit) prog" where
  "oidc_setup e c old_version = create_or_update_application e c"

definition get_client_secret :: "oidc_component \<Rightarrow> (oidc_world, string) prog" where
  "get_client_secret c =
     p_bind (p_get ow_applications) (\<lambda>aps.
       case map_of aps (oc_client_id c) of
         None \<Rightarrow> p_raise (DoesNotExist ''Application'')
       | Some ap \<Rightarrow> p_ret (ap_client_secret ap))"

definition update_domains_for_all :: "oidc_env \<Rightarrow> (oidc_world, unit) prog" where
  "update_domains_for_all e = p_for (create_or_update_application e) (oe_components e)"

section \<open>Domains that come and go\<close>

definition oidc_on_domain_changed :: "oidc_env \<Rightarrow> string \<Rightarrow> string \<Rightarrow> (oidc_world, unit) prog" where
  "oidc_on_domain_changed e type_id name =
     (if type_id = [] \<or> name = [] then p_ret () else update_domains_for_all e)"

text \<open>The handlers of modules/names; a list of services that is empty or missing is no services.\<close>

definition names_on_domain_added ::
  "oidc_env \<Rightarrow> string \<Rightarrow> string \<Rightarrow> string \<Rightarrow> service_arg list option option \<Rightarrow> (oidc_world, unit) prog"
where
  "names_on_domain_added e sender type_id name services =
     (if type_id = [] \<or> name = [] then p_ret ()
      else p_bind (p_get ow_names) (\<lambda>ns.
           p_bind (p_lift (domain_name_init (oe_types e) (''domain-'' @ sender @ ''-'' @ name) name type_id
                     (case services of None \<Rightarrow> Some [] | Some ss \<Rightarrow> ss) ns)) (\<lambda>ns'.
           p_then (p_mod (\<lambda>w. w\<lparr>ow_names := ns'\<rparr>)) (oidc_on_domain_changed e type_id name))))"

definition names_of_type :: "string \<Rightarrow> domain_names \<Rightarrow> domain_name list" where
  "names_of_type type_id ns = filter (\<lambda>d. dt_id (dn_type d) = type_id) (domain_name_list None ns)"

definition names_on_domain_removed :: "oidc_env \<Rightarrow> string \<Rightarrow> string \<Rightarrow> string \<Rightarrow> (oidc_world, unit) prog" where
  "names_on_domain_removed e sender type_id name =
     (if name \<noteq> []
      then p_bind (p_get ow_names) (\<lambda>ns.
           p_bind (p_lift (domain_name_get ns (''domain-'' @ sender @ ''-'' @ name))) (\<lambda>d.
           p_then (p_mod (\<lambda>w. w\<lparr>ow_names := domain_name_remove (dn_id d) (ow_names w)\<rparr>))
             (oidc_on_domain_changed e type_id name)))
      else p_mod (\<lambda>w. w\<lparr>ow_names := fold (\<lambda>d ns. domain_name_remove (dn_id d) ns)
                                       (names_of_type type_id (ow_names w)) (ow_names w)\<rparr>))"

end
