(* ===== verification/OidcLaws.thy ===== *)
theory OidcLaws
  imports Oidc
begin

text \<open>
  Redirects stay on this machine: what the check of local addresses accepts, and which redirect
  addresses the clients are registered with as domains come and go.
\<close>

section \<open>Accepted redirects\<close>

definition local_target :: "string \<Rightarrow> string option \<Rightarrow> url \<Rightarrow> bool" where
  "local_target own request_host u \<longleftrightarrow>
     (\<exists>h. hostname u = Some h \<and>
        (h \<in> set (localhost_names own) \<or>
         is_ip_address h \<and> u_netloc u \<noteq> [] \<and> request_host = Some (u_netloc u)))"

definition registered_path :: "string list \<Rightarrow> url \<Rightarrow> bool" where
  "registered_path allowed u \<longleftrightarrow>
     (\<exists>a \<in> set allowed. \<exists>v. urlparse a = Inr v \<and> u_path v = u_path u \<and>
        set (query_keys (u_query v)) \<subseteq> set (query_keys (u_query u)))"

lemma match_allowed_iff:
  assumes "\<forall>a \<in> set allowed. \<exists>v. urlparse a = Inr v"
  shows "match_allowed u host is_ip is_local allowed =
    Inr (registered_path allowed u \<and> (is_ip \<and> host \<notin> {None, Some []} \<and> Some (u_netloc u) = host \<or> is_local))"
  using assms
proof (induction allowed)
  case (Cons a as)
  obtain v where v: "urlparse a = Inr v" using Cons.prems by auto
  have "registered_path (a # as) u \<longleftrightarrow>
      (u_path v = u_path u \<and> set (query_keys (u_query v)) \<subseteq> set (query_keys (u_query u))) \<or> registered_path as u"
    using v by (auto simp: registered_path_def)
  with Cons v show ?case by auto
qed (simp add: registered_path_def)

lemma local_redirect_iff:
  assumes "urlparse redirect_uri = Inr u" and "get_hostname sys w = (Inr own, w')"
    and "\<forall>a \<in> set allowed. \<exists>v. urlparse a = Inr v"
  shows "validate_local_domains_and_ips sys redirect_uri request_host allowed w =
    (Inr (registered_path allowed u \<and> local_target own request_host u), w')"
proof -
  have "(case hostname u of None \<Rightarrow> False | Some h \<Rightarrow> is_ip_address h) \<and>
      request_host \<notin> {None, Some []} \<and> Some (u_netloc u) = request_host \<or>
      (case hostname u of None \<Rightarrow> False | Some h \<Rightarrow> h \<in> set (localhost_names own)) \<longleftrightarrow>
      local_target own request_host u"
    by (auto simp: local_target_def split: option.splits)
  then show ?thesis
    using assms by (auto simp: validate_local_domains_and_ips_def prog_simps match_allowed_iff)
qed


text \<open>A redirect to the IP address of the request, with its port; on another address the toolkit decides.\<close>

definition name_system :: "unit system" where
  "name_system = \<lparr>sh = \<lambda>c w. (Inr (0, ''freedombox'' @ [CHR 0x0A]), w), path_exists = \<lambda>_ _. False,
     touch_file = \<lambda>_ w. w, unlink_file = \<lambda>_ w. w, which = \<lambda>_ _. True\<rparr>"

definition callback_uris :: string where
  "callback_uris = ''https://box.example.org/apache/oidc/callback https://localhost/apache/oidc/callback''"

lemma name_system_host: "get_hostname name_system () = (Inr ''freedombox'', ())"
  by (simp add: get_hostname_def name_system_def run_command_def p_defs p_ret_def strip_str_def)

lemma callback_words:
  "split_words callback_uris = [''https://box.example.org/apache/oidc/callback'', ''https://localhost/apache/oidc/callback'']"
  by code_simp

lemma callback_parsed: "\<forall>a \<in> set (split_words callback_uris). \<exists>v. urlparse a = Inr v"
proof -
  have "list_all (\<lambda>a. \<not> isl (urlparse a)) (split_words callback_uris)" by code_simp
  then show ?thesis by (metis Ball_set isl_def sum.exhaust_sel)
qed


text \<open>
  The keys of the registered query must be among those of the redirect, not the other way round: a
  redirect with a query passes for an address that was registered without one.
\<close>

lemma extra_query_accepted:
  "validate_local_domains_and_ips name_system ''https://localhost/apache/oidc/callback?next=/x'' None (split_words callback_uris) () = (Inr True, ())"
proof -
  let ?u = "\<lparr>u_scheme = ''https'', u_netloc = ''localhost'', u_path = ''/apache/oidc/callback'', u_query = ''next=/x'', u_fragment = []\<rparr>"
  have u: "urlparse ''https://localhost/apache/oidc/callback?next=/x'' = Inr ?u" by code_simp
  have a: "urlparse ''https://localhost/apache/oidc/callback'' = Inr (?u\<lparr>u_query := []\<rparr>)" by code_simp
  have h: "hostname ?u = Some ''localhost''" by code_simp
  have r: "registered_path (split_words callback_uris) ?u"
    unfolding registered_path_def callback_words
    by (rule bexI[of _ "''https://localhost/apache/oidc/callback''"]) (simp_all add: a query_keys_def field_key_def partition_at_def)
  show ?thesis
    using local_redirect_iff[OF u name_system_host callback_parsed, of None] h r
    by (auto simp: local_target_def localhost_names_def)
qed

section \<open>Clients and domains\<close>

definition clients_ok :: "oidc_env \<Rightarrow> bool" where
  "clients_ok e \<longleftrightarrow> distinct (map oc_client_id (oe_components e)) \<and> (\<forall>w. snd (oe_new_secret e w) = w)"

definition client_synced :: "oidc_env \<Rightarrow> oidc_component \<Rightarrow> oidc_world \<Rightarrow> bool" where
  "client_synced e c w \<longleftrightarrow>
     (\<exists>ap. map_of (ow_applications w) (oc_client_id c) = Some ap \<and>
        get_redirect_uris e (ow_names w) c = Inr (ap_redirect_uris ap) \<and>
        ap_allowed_origins ap = get_allowed_origins e (ow_names w))"

definition synced :: "oidc_env \<Rightarrow> oidc_world \<Rightarrow> bool" where
  "synced e w \<longleftrightarrow> (\<forall>c \<in> set (oe_components e). client_synced e c w)"

text \<open>Applications that exist keep their secrets.\<close>

definition secrets_kept :: "oidc_world \<Rightarrow> oidc_world \<Rightarrow> bool" where
  "secrets_kept w w' \<longleftrightarrow>
     (\<forall>i ap. map_of (ow_applications w) i = Some ap \<longrightarrow>
        (\<exists>ap'. map_of (ow_applications w') i = Some ap' \<and> ap_client_secret ap' = ap_client_secret ap))"

lemma secrets_kept_trans: "secrets_kept u v \<Longrightarrow> secrets_kept v w \<Longrightarrow> secrets_kept u w"
  by (fastforce simp: secrets_kept_def)

lemma secrets_kept_same: "ow_applications v = ow_applications w \<Longrightarrow> secrets_kept w v"
  by (auto simp: secrets_kept_def)

lemma put_application_eval:
  "put_application i ap w = (Inr (), w\<lparr>ow_applications := od_set (ow_applications w) i ap\<rparr>)"
  by (simp add: put_application_def prog_simps)

lemma register_effect:
  assumes "clients_ok e"
  shows "ow_names (snd (create_or_update_application e c w)) = ow_names w \<and>
    secrets_kept w (snd (create_or_update_application e c w)) \<and>
    (\<forall>i. i \<noteq> oc_client_id c \<longrightarrow>
       map_of (ow_applications (snd (create_or_update_application e c w))) i = map_of (ow_applications w) i) \<and>
    (fst (create_or_update_application e c w) = Inr () \<longrightarrow> client_synced e c (snd (create_or_update_application e c w)))"
proof (cases "map_of (ow_applications w) (oc_client_id c)")
  case (Some ap)
  then have run: "create_or_update_application e c w = update_application e c ap w"
    by (simp add: create_or_update_application_def prog_simps)
  show ?thesis
  proof (cases "get_redirect_uris e (ow_names w) c")
    case (Inl x)
    then show ?thesis
      unfolding run by (simp add: update_application_def prog_simps secrets_kept_same)
  next
    case (Inr uris)
    then show ?thesis
      unfolding run using Some
      by (auto simp: update_application_def put_application_eval prog_simps client_synced_def application_of_def secrets_kept_def
          odict_simps)
  qed
next
  case None
  then have run: "create_or_update_application e c w = create_application e c w"
    by (simp add: create_or_update_application_def prog_simps)
  obtain r where r: "oe_new_secret e w = (r, w)" using assms by (metis clients_ok_def prod.collapse)
  show ?thesis
  proof (cases r)
    case (Inl x)
    then show ?thesis unfolding run using r by (simp add: create_application_def prog_simps secrets_kept_same)
  next
    case (Inr secret)
    note secret = this
    show ?thesis
    proof (cases "get_redirect_uris e (ow_names w) c")
      case (Inl x)
      then show ?thesis unfolding run using r secret by (simp add: create_application_def prog_simps secrets_kept_same)
    next
      case (Inr uris)
      then show ?thesis unfolding run using r secret None
        by (auto simp: create_application_def put_application_eval prog_simps client_synced_def application_of_def secrets_kept_def
            odict_simps)
    qed
  qed
qed

lemma client_synced_frame:
  "\<lbrakk>client_synced e c w; ow_names v = ow_names w;
    map_of (ow_applications v) (oc_client_id c) = map_of (ow_applications w) (oc_client_id c)\<rbrakk> \<Longrightarrow> client_synced e c v"
  by (simp add: client_synced_def)

lemma register_loop:
  assumes "clients_ok e" and "distinct (map oc_client_id cs)"
  shows "ow_names (snd (p_for (create_or_update_application e) cs w)) = ow_names w \<and>
    secrets_kept w (snd (p_for (create_or_update_application e) cs w)) \<and>
    (\<forall>i. i \<notin> oc_client_id ` set cs \<longrightarrow>
       map_of (ow_applications (snd (p_for (create_or_update_application e) cs w))) i = map_of (ow_applications w) i) \<and>
    (fst (p_for (create_or_update_application e) cs w) = Inr () \<longrightarrow>
       (\<forall>c \<in> set cs. client_synced e c (snd (p_for (create_or_update_application e) cs w))))"
  using assms(2)
proof (induction cs arbitrary: w)
  case Nil
  then show ?case by (simp add: prog_simps secrets_kept_same)
next
  case (Cons c cs)
  obtain r v where v: "create_or_update_application e c w = (r, v)"
    by (cases "create_or_update_application e c w")
  note one = register_effect[OF assms(1), of c w, unfolded v fst_conv snd_conv]
  show ?case
  proof (cases r)
    case (Inl x)
    then show ?thesis using v one by (simp add: prog_simps)
  next
    case (Inr u)
    note rest = Cons.IH[of v]
    have run: "p_for (create_or_update_application e) (c # cs) w = p_for (create_or_update_application e) cs v"
      using v Inr by (simp add: prog_simps)
    have new: "oc_client_id c \<notin> oc_client_id ` set cs" using Cons.prems by simp
    have d: "distinct (map oc_client_id cs)" using Cons.prems by simp
    have "client_synced e c v" using one Inr by simp
    then have "client_synced e c (snd (p_for (create_or_update_application e) cs v))"
      using client_synced_frame rest[OF d] new by blast
    then show ?thesis unfolding run using rest[OF d] one secrets_kept_trans by auto
  qed
qed

lemma update_all_effect:
  assumes "clients_ok e"
  shows "secrets_kept w (snd (update_domains_for_all e w)) \<and> ow_names (snd (update_domains_for_all e w)) = ow_names w \<and>
    (fst (update_domains_for_all e w) = Inr () \<longrightarrow> synced e (snd (update_domains_for_all e w)))"
  using register_loop[OF assms, of "oe_components e" w] assms
  by (simp add: update_domains_for_all_def synced_def clients_ok_def)

text \<open>The signals about domains.\<close>

datatype domain_event =
    Domain_added string string string "service_arg list option option"
  | Domain_removed string string string

fun domain_exec :: "oidc_env \<Rightarrow> domain_event \<Rightarrow> (oidc_world, unit) prog" where
  "domain_exec e (Domain_added sender type_id name svcs) = names_on_domain_added e sender type_id name svcs"
| "domain_exec e (Domain_removed sender type_id name) = names_on_domain_removed e sender type_id name"

fun names_one_domain :: "domain_event \<Rightarrow> bool" where
  "names_one_domain (Domain_added sender type_id name svcs) \<longleftrightarrow> type_id \<noteq> [] \<and> name \<noteq> []"
| "names_one_domain (Domain_removed sender type_id name) \<longleftrightarrow> type_id \<noteq> [] \<and> name \<noteq> []"

lemma changed_effect:
  assumes "clients_ok e"
  shows "secrets_kept w (snd (oidc_on_domain_changed e t n w)) \<and>
    (t \<noteq> [] \<and> n \<noteq> [] \<longrightarrow> fst (oidc_on_domain_changed e t n w) = Inr () \<longrightarrow> synced e (snd (oidc_on_domain_changed e t n w))) \<and>
    (\<not> (t \<noteq> [] \<and> n \<noteq> []) \<longrightarrow> snd (oidc_on_domain_changed e t n w) = w)"
  using update_all_effect[OF assms, of w] by (auto simp: oidc_on_domain_changed_def prog_simps secrets_kept_same)

text \<open>C33: after a signal that adds or removes one domain has been handled, every client is registered with
  the redirect addresses and origins of exactly the domains that are left, and no client's
  secret has changed; but the signal that removes all domains of a type leaves the registrations
  as they are.\<close>

theorem redirects_follow_domains:
  assumes "clients_ok e"
  shows "secrets_kept w (snd (domain_exec e ev w)) \<and>
    (names_one_domain ev \<and> fst (domain_exec e ev w) = Inr () \<longrightarrow> synced e (snd (domain_exec e ev w))) \<and>
    (\<not> names_one_domain ev \<longrightarrow> ow_applications (snd (domain_exec e ev w)) = ow_applications w)"
proof (cases ev)
  case (Domain_added sender t n svcs)
  define ns where "ns = domain_name_init (oe_types e) (''domain-'' @ sender @ ''-'' @ n) n t
    (case svcs of None \<Rightarrow> Some [] | Some ss \<Rightarrow> ss) (ow_names w)"
  have run: "domain_exec e ev w = (if t = [] \<or> n = [] then (Inr (), w)
      else case ns of Inl x \<Rightarrow> (Inl x, w) | Inr ns' \<Rightarrow> oidc_on_domain_changed e t n (w\<lparr>ow_names := ns'\<rparr>))"
    by (simp add: Domain_added names_on_domain_added_def prog_simps ns_def split: sum.split)
  show ?thesis
  proof (cases ns)
    case (Inl x)
    then show ?thesis unfolding run by (simp add: Domain_added secrets_kept_same)
  next
    case (Inr ns')
    have w: "secrets_kept w (w\<lparr>ow_names := ns'\<rparr>)" by (simp add: secrets_kept_same)
    show ?thesis
      unfolding run using changed_effect[OF assms, of "w\<lparr>ow_names := ns'\<rparr>" t n] secrets_kept_trans[OF w] Inr
      by (auto simp: Domain_added secrets_kept_same)
  qed
next
  case (Domain_removed sender t n)
  show ?thesis
  proof (cases "n = []")
    case True
    then show ?thesis by (simp add: Domain_removed names_on_domain_removed_def prog_simps secrets_kept_same)
  next
    case False
    show ?thesis
    proof (cases "domain_name_get (ow_names w) (''domain-'' @ sender @ ''-'' @ n)")
      case (Inl x)
      then show ?thesis using False
        by (simp add: Domain_removed names_on_domain_removed_def prog_simps secrets_kept_same)
    next
      case (Inr d)
      let ?v = "w\<lparr>ow_names := domain_name_remove (dn_id d) (ow_names w)\<rparr>"
      have w: "secrets_kept w ?v" by (simp add: secrets_kept_same)
      have run: "domain_exec e ev w = oidc_on_domain_changed e t n ?v"
        using Inr False by (simp add: Domain_removed names_on_domain_removed_def prog_simps)
      show ?thesis unfolding run
        using changed_effect[OF assms, of ?v t n] secrets_kept_trans[OF w] by (auto simp: Domain_removed False)
    qed
  qed
qed

text \<open>An onion service: its domain is removed by type when Tor is disabled.\<close>

definition tor_type :: domain_type where
  "tor_type = \<lparr>dt_id = ''domain-type-tor'', dt_display_name = ''Tor Onion Service'', configuration_url = None,
     edit_url = None, delete_url = None, add_url = None, can_have_certificate = False, dt_priority = 10\<rparr>"

definition oidc_box :: oidc_env where
  "oidc_box = \<lparr>oe_types = [(''domain-type-tor'', tor_type)],
     oe_components = [oidc_init ''openidconnect-apache'' ''apache'' ''Web app protected by FreedomBox''
       [''https://{domain}/apache/oidc/callback''] True],
     oe_order = sorted_list_of_set, oe_new_secret = \<lambda>w. (Inr ''s3cret'', w), oe_confidential = ''confidential'',
     oe_code_grant = ''authorization-code'', oe_hs256 = ''HS256''\<rparr>"

definition oidc_fresh :: oidc_world where
  "oidc_fresh = \<lparr>ow_names = [], ow_applications = []\<rparr>"

definition with_onion :: oidc_world where
  "with_onion = snd (domain_exec oidc_box (Domain_added ''tor'' ''domain-type-tor'' ''abc.onion'' None) oidc_fresh)"

definition without_onion :: oidc_world where
  "without_onion = snd (domain_exec oidc_box (Domain_removed ''tor'' ''domain-type-tor'' []) with_onion)"

lemma oidc_box_ok: "clients_ok oidc_box"
  by (simp add: clients_ok_def oidc_box_def)

lemma onion_registered:
  "fst (domain_exec oidc_box (Domain_added ''tor'' ''domain-type-tor'' ''abc.onion'' None) oidc_fresh) = Inr () \<and>
   map_option ap_redirect_uris (map_of (ow_applications with_onion) ''apache'') =
     Some ''https://abc.onion/apache/oidc/callback https://localhost/apache/oidc/callback'' \<and> ow_names without_onion = []"
  by code_simp

theorem redirects_follow_domains_witness:
  "synced oidc_box with_onion \<and> ow_names without_onion = [] \<and>
   map_option ap_redirect_uris (map_of (ow_applications without_onion) ''apache'') =
     Some ''https://abc.onion/apache/oidc/callback https://localhost/apache/oidc/callback''"
  using redirects_follow_domains[OF oidc_box_ok, of oidc_fresh "Domain_added ''tor'' ''domain-type-tor'' ''abc.onion'' None"]
    redirects_follow_domains[OF oidc_box_ok, of with_onion "Domain_removed ''tor'' ''domain-type-tor'' []"] onion_registered
  unfolding with_onion_def[symmetric] without_onion_def[symmetric] by (simp add: with_onion_def without_onion_def)

end
