(* ===== verification/Dynamicdns.thy ===== *)
theory Dynamicdns
  imports Json Store Privileged Urls Paths
begin

text \<open>
  Dynamic DNS (plinth/modules/dynamicdns): the configuration of the domains in the key/value store,
  the check every five minutes whether the records of a domain are up to date, the two update
  protocols, the recorded status, and the pages that add, edit and delete a domain. Commands, HTTP
  requests, hashes, the clock and signals are parameters.
\<close>

record 'w dns_env =
  dn_loads :: "string \<Rightarrow> json result"
  dn_dumps :: "json \<Rightarrow> string"
  dn_host :: "string \<Rightarrow> string \<Rightarrow> ('w, string) prog"
  dn_lookup :: "string \<Rightarrow> ('w, string) prog"
  dn_http_get :: "string \<Rightarrow> (string \<times> string) list \<Rightarrow> ('w, string) prog"
  dn_meta_tags :: "string \<Rightarrow> (string, string) odict"
  dn_md5 :: "string \<Rightarrow> string"
  dn_run :: "string list \<Rightarrow> ('w, unit) prog"
  dn_time :: "('w, int) prog"
  dn_app_enabled :: "('w, bool) prog"
  dn_domain_added :: "string \<Rightarrow> ('w, unit) prog"
  dn_domain_removed :: "string \<Rightarrow> ('w, unit) prog"

section \<open>Configuration\<close>

definition set_dns_config :: "('x world_scheme) dns_env \<Rightarrow> json \<Rightarrow> ('x world_scheme, unit) prog" where
  "set_dns_config env config = kv_set ''dynamicdns_config'' (JStr (dn_dumps env config))"

text \<open>\<open>_migrate_old_config\<close>: a domain named null goes, and \<open>use_ipv6\<close> becomes \<open>ip_type\<close>.\<close>

definition migrate_domain :: "json \<Rightarrow> (json \<times> bool) result" where
  "migrate_domain d =
     r_bind (contains_key d ''use_ipv6'') (\<lambda>old.
       if \<not> old then Inr (d, False)
       else r_bind (subscript d ''use_ipv6'') (\<lambda>v6.
            r_bind (json_put d ''ip_type'' (JStr (if truthy v6 then ''ipv6'' else ''ipv4''))) (\<lambda>d1.
            r_bind (json_del d1 ''use_ipv6'') (\<lambda>d2. Inr (d2, True)))))"

definition migrate_old_config :: "json \<Rightarrow> (json \<times> bool) result" where
  "migrate_old_config config =
     r_bind (subscript config ''domains'') (\<lambda>ds.
     r_bind (contains_key ds ''null'') (\<lambda>malformed.
     r_bind (if malformed then json_del ds ''null'' else Inr ds) (\<lambda>ds1.
     r_bind (json_items ds1) (\<lambda>items.
     r_bind (r_map (\<lambda>(k, d). r_bind (migrate_domain d) (\<lambda>(d', u). Inr ((k, d'), u))) items) (\<lambda>rs.
     r_bind (json_put config ''domains'' (JDict (map fst rs))) (\<lambda>config'.
       Inr (config', malformed \<or> True \<in> set (map snd rs))))))))"

definition get_dns_config :: "('x world_scheme) dns_env \<Rightarrow> ('x world_scheme, json) prog" where
  "get_dns_config env =
     p_bind (kv_get_default ''dynamicdns_config'' (JStr ''{}'')) (\<lambda>v.
     p_bind (p_lift (text_of v)) (\<lambda>t.
     p_bind (p_lift (dn_loads env t)) (\<lambda>config.
     p_bind (p_lift (migrate_old_config (if truthy config then config else JDict [(''domains'', JDict [])])))
       (\<lambda>(config', updated). p_then (if updated then set_dns_config env config' else p_ret ()) (p_ret config')))))"

definition dns_domains :: "('x world_scheme) dns_env \<Rightarrow> ('x world_scheme, (string \<times> json) list) prog" where
  "dns_domains env =
     p_bind (get_dns_config env) (\<lambda>config.
     p_lift (r_bind (subscript config ''domains'') json_items))"

section \<open>Looking up addresses\<close>

definition lookup_address :: "'w dns_env \<Rightarrow> string \<Rightarrow> ('w, string option) prog" where
  "lookup_address env ip_type = p_catch (p_bind (dn_lookup env ip_type) (\<lambda>a. p_ret (Some a))) (\<lambda>_. p_ret None)"

text \<open>The last word of the output of host, as in \<open>example.org has address 192.0.2.1\<close>.\<close>

definition query_dns_address :: "'w dns_env \<Rightarrow> string \<Rightarrow> string \<Rightarrow> ('w, string option) prog" where
  "query_dns_address env domain ip_type =
     p_catch
       (p_bind (dn_host env (if ip_type = ''ipv6'' then ''AAAA'' else ''A'') domain) (\<lambda>out.
          p_ret (Some (map lower_char (strip_str (last (split_on (CHR '' '') out)))))))
       (\<lambda>e. if is_called_process_error e then p_ret None else p_raise e)"

definition check_uptodate :: "'w dns_env \<Rightarrow> json \<Rightarrow> string \<Rightarrow> ('w, bool \<times> string option \<times> string option) prog" where
  "check_uptodate env d ip_type =
     p_bind (p_lift (text_field d ''domain'')) (\<lambda>name.
     p_bind (query_dns_address env name ip_type) (\<lambda>dns_address.
     p_bind (lookup_address env ip_type) (\<lambda>external_address.
       p_ret (dns_address = external_address \<and> dns_address \<noteq> None, dns_address, external_address))))"

section \<open>Update protocols\<close>

text \<open>\<open>s.replace(old, new)\<close> for a text that is not empty.\<close>

function replace_all :: "string \<Rightarrow> string \<Rightarrow> string \<Rightarrow> string" where
  "replace_all old new [] = []"
| "replace_all old new (c # cs) =
     (if old \<noteq> [] \<and> starts_with (c # cs) old then new @ replace_all old new (drop (length old) (c # cs))
      else c # replace_all old new cs)"
  by pat_completeness auto

termination
  by (relation "measure (\<lambda>(old, new, s). length s)") auto

definition hex_char :: "nat \<Rightarrow> char" where
  "hex_char n = ''0123456789ABCDEF'' ! n"

definition unreserved :: "char \<Rightarrow> bool" where
  "unreserved c \<longleftrightarrow> alpha c \<or> dec_digit c \<or> c \<in> set ''_.-~/''"

definition quote_url :: "string \<Rightarrow> string" where
  "quote_url s = concat (map (\<lambda>c. if unreserved c then [c]
     else [CHR ''%'', hex_char (of_char c div 16), hex_char (of_char c mod 16)]) s)"

definition replace_field :: "json \<Rightarrow> string \<Rightarrow> string \<Rightarrow> string \<Rightarrow> string result" where
  "replace_field d k pat u =
     r_bind (subscript d k) (\<lambda>v. if truthy v then r_bind (text_of v) (\<lambda>t. Inr (replace_all pat (quote_url t) u)) else Inr u)"

definition update_address :: "json \<Rightarrow> string option \<Rightarrow> string result" where
  "update_address d external_address =
     r_bind (text_field d ''update_url'') (\<lambda>u0.
     r_bind (Inr (case external_address of
                    None \<Rightarrow> u0 | Some a \<Rightarrow> if a = [] then u0 else replace_all ''<Ip>'' (quote_url a) u0)) (\<lambda>u1.
     r_bind (replace_field d ''domain'' ''<Domain>'' u1) (\<lambda>u2.
     r_bind (replace_field d ''username'' ''<User>'' u2) (\<lambda>u3.
       replace_field d ''password'' ''<Pass>'' u3))))"

definition wget_options :: "json \<Rightarrow> string \<Rightarrow> string list result" where
  "wget_options d ip_type =
     r_bind (subscript d ''use_http_basic_auth'') (\<lambda>auth.
     r_bind (if truthy auth
             then r_bind (text_field d ''username'') (\<lambda>u. r_bind (text_field d ''password'') (\<lambda>p.
                    Inr [''--user'', u, ''--password'', p]))
             else Inr []) (\<lambda>login.
     r_bind (subscript d ''disable_ssl_cert_check'') (\<lambda>unchecked.
       Inr ([''-t'', ''3'', ''-T'', ''3''] @ login @ (if truthy unchecked then [''--no-check-certificate''] else []) @
            [if ip_type = ''ipv6'' then ''-6'' else ''-4'']))))"

definition generic_update :: "'w dns_env \<Rightarrow> json \<Rightarrow> string \<Rightarrow> string option \<Rightarrow> ('w, string option) prog" where
  "generic_update env d ip_type external_address =
     p_bind (p_lift (update_address d external_address)) (\<lambda>u.
     p_bind (p_lift (wget_options d ip_type)) (\<lambda>options.
     p_then (dn_run env ([''wget'', ''-O'', ''-''] @ options @ [u])) (p_ret external_address)))"

definition check_required_keys :: "(string, string) odict \<Rightarrow> string list \<Rightarrow> unit result" where
  "check_required_keys d keys =
     (let missing = filter (\<lambda>k. k \<notin> set (od_keys d)) keys
      in if missing \<noteq> [] then Inl (ValueError (''Missing required keys in response: '' @ join_str '', '' missing)) else Inr ())"

definition remove_prefix :: "string \<Rightarrow> string \<Rightarrow> string" where
  "remove_prefix p s = (if starts_with s p then drop (length p) s else s)"

definition gnudip_update :: "'w dns_env \<Rightarrow> string \<Rightarrow> string \<Rightarrow> string \<Rightarrow> string \<Rightarrow> string \<Rightarrow> ('w, string option) prog" where
  "gnudip_update env server ip_type domain uname password =
     (if ip_type = ''ipv6'' then p_raise NotImplementedError
      else let url = ''https://'' @ server @ ''/gnudip/cgi-bin/gdipupdt.cgi''
      in p_bind (dn_http_get env url []) (\<lambda>text1.
         p_bind (p_lift (check_required_keys (dn_meta_tags env text1) [''salt'', ''time'', ''sign''])) (\<lambda>_.
         p_bind (p_lift (od_get (dn_meta_tags env text1) ''salt'')) (\<lambda>salt.
         p_bind (p_lift (od_get (dn_meta_tags env text1) ''time'')) (\<lambda>time.
         p_bind (p_lift (od_get (dn_meta_tags env text1) ''sign'')) (\<lambda>sign.
         p_bind (dn_http_get env url
             [(''salt'', salt), (''time'', time), (''sign'', sign), (''user'', uname),
              (''domn'', remove_prefix (uname @ ''.'') domain),
              (''pass'', dn_md5 env (dn_md5 env password @ ''.'' @ salt)), (''reqc'', ''2'')]) (\<lambda>text2.
         p_bind (p_lift (check_required_keys (dn_meta_tags env text2) [''retc''])) (\<lambda>_.
         p_bind (p_lift (r_bind (od_get (dn_meta_tags env text2) ''retc'') python_int)) (\<lambda>retc.
           if retc \<noteq> 0 then p_raise (OtherError ''Server responded with an error'')
           else p_ret (map_of (dn_meta_tags env text2) ''addr''))))))))))"

definition update_dns_for_domain :: "'w dns_env \<Rightarrow> json \<Rightarrow> string \<Rightarrow> string option \<Rightarrow> ('w, string option) prog" where
  "update_dns_for_domain env d ip_type external_address =
     p_bind (p_lift (subscript d ''service_type'')) (\<lambda>service_type.
       if service_type = JStr ''gnudip''
       then p_bind (p_lift (text_field d ''server'')) (\<lambda>server.
            p_bind (p_lift (text_field d ''domain'')) (\<lambda>name.
            p_bind (p_lift (text_field d ''username'')) (\<lambda>uname.
            p_bind (p_lift (text_field d ''password'')) (\<lambda>password.
              gnudip_update env server ip_type name uname password))))
       else generic_update env d ip_type external_address)"

section \<open>Status\<close>

definition dns_status :: "('x world_scheme) dns_env \<Rightarrow> ('x world_scheme, json) prog" where
  "dns_status env =
     p_bind (kv_get_default ''dynamicdns_status'' (JStr ''{}'')) (\<lambda>v.
     p_bind (p_lift (text_of v)) (\<lambda>t. p_lift (dn_loads env t)))"

definition opt_text :: "string option \<Rightarrow> json" where
  "opt_text s = (case s of None \<Rightarrow> JNull | Some t \<Rightarrow> JStr t)"

definition status_entry :: "json \<Rightarrow> bool \<Rightarrow> string option list \<Rightarrow> string option \<Rightarrow> string option \<Rightarrow> int \<Rightarrow> json" where
  "status_entry name ok addresses code message now_s =
     JDict [(''domain'', name), (''result'', JBool ok), (''ip_addresses'', JList (map opt_text addresses)),
            (''error_code'', opt_text code), (''error_message'', opt_text message), (''timestamp'', JInt now_s)]"

text \<open>\<open>status.setdefault('domains', {})\<close>.\<close>

definition set_default_domains :: "json \<Rightarrow> json result" where
  "set_default_domains status =
     r_bind (contains_key status ''domains'') (\<lambda>b. if b then Inr status else json_put status ''domains'' (JDict []))"

definition set_status ::
  "('x world_scheme) dns_env \<Rightarrow> json \<Rightarrow> bool \<Rightarrow> string option list \<Rightarrow> string option \<Rightarrow> string option \<Rightarrow> ('x world_scheme, unit) prog"
where
  "set_status env d ok addresses code message =
     p_bind (dns_status env) (\<lambda>s0.
     p_bind (p_lift (set_default_domains s0)) (\<lambda>status.
     p_bind (p_lift (text_field d ''domain'')) (\<lambda>name.
     p_bind (dn_time env) (\<lambda>now_s.
     p_bind (p_lift (r_bind (subscript status ''domains'') (\<lambda>ds.
                     json_put ds name (status_entry (JStr name) ok addresses code message now_s)))) (\<lambda>ds'.
     p_bind (p_lift (json_put status ''domains'' ds')) (\<lambda>status'.
       kv_set ''dynamicdns_status'' (JStr (dn_dumps env status'))))))))"

section \<open>The check of all domains\<close>

record outcome =
  oc_result :: bool
  oc_addresses :: "string option list"
  oc_error_code :: "string option"
  oc_error_message :: "string option"

definition start_outcome :: outcome where
  "start_outcome = \<lparr>oc_result = True, oc_addresses = [], oc_error_code = None, oc_error_message = None\<rparr>"

text \<open>
  \<open>str(exception.args[0])\<close> raises for an exception without arguments. The command whose failure is
  caught here is wget, whose output is captured; the message of a CalledProcessError stands for
  the text made of it.
\<close>

definition first_arg :: "exn \<Rightarrow> string result" where
  "first_arg e = (case snd (exn_parts e) of [] \<Rightarrow> Inl (IndexError ''tuple index out of range'') | a # _ \<Rightarrow> Inr a)"

definition failed_outcome :: "outcome \<Rightarrow> exn \<Rightarrow> outcome result" where
  "failed_outcome o1 e =
     (let o2 = o1\<lparr>oc_result := False, oc_error_code := Some (fst (exn_parts e))\<rparr>
      in if is_called_process_error e
         then Inr (o2\<lparr>oc_error_message := Some (''Command failed: '' @ concat (snd (exn_parts e)))\<rparr>)
         else r_bind (first_arg e) (\<lambda>m. Inr (o2\<lparr>oc_error_message := Some m\<rparr>)))"

definition check_ip_type :: "'w dns_env \<Rightarrow> json \<Rightarrow> string \<Rightarrow> outcome \<Rightarrow> ('w, outcome) prog" where
  "check_ip_type env d ip_type o1 =
     p_catch
       (p_bind (check_uptodate env d ip_type) (\<lambda>(uptodate, dns_address, external_address).
        p_bind (if uptodate then p_ret dns_address else update_dns_for_domain env d ip_type external_address) (\<lambda>address.
          p_ret (o1\<lparr>oc_addresses := oc_addresses o1 @ [address]\<rparr>))))
       (\<lambda>e. p_lift (failed_outcome o1 e))"

primrec check_ip_types :: "'w dns_env \<Rightarrow> json \<Rightarrow> string list \<Rightarrow> outcome \<Rightarrow> ('w, outcome) prog" where
  "check_ip_types env d [] o1 = p_ret o1"
| "check_ip_types env d (t # ts) o1 = p_bind (check_ip_type env d t o1) (check_ip_types env d ts)"

definition ip_types_of :: "json \<Rightarrow> string list result" where
  "ip_types_of d =
     r_bind (text_field d ''ip_type'') (\<lambda>t. Inr (if t = ''both'' then [''ipv4'', ''ipv6''] else [t]))"

definition check_and_update_domain :: "('x world_scheme) dns_env \<Rightarrow> json \<Rightarrow> ('x world_scheme, unit) prog" where
  "check_and_update_domain env d =
     p_bind (p_lift (ip_types_of d)) (\<lambda>ts.
     p_bind (check_ip_types env d ts start_outcome) (\<lambda>o1.
       set_status env d (oc_result o1) (oc_addresses o1) (oc_error_code o1) (oc_error_message o1)))"

definition update_dns :: "('x world_scheme) dns_env \<Rightarrow> ('x world_scheme, unit) prog" where
  "update_dns env =
     p_bind (dns_domains env) (\<lambda>ds.
     p_bind (dn_app_enabled env) (\<lambda>enabled.
       if \<not> enabled then p_ret () else p_for (check_and_update_domain env) (map snd ds)))"

section \<open>The status page\<close>

text \<open>\<open>get_status\<close>: an entry for every domain that has none, and the old key \<open>ip_address\<close> moved.\<close>

definition no_status_yet :: "string \<Rightarrow> json" where
  "no_status_yet name = status_entry (JStr name) False [] None None 0"

definition add_missing_status :: "string list \<Rightarrow> (string \<times> json) list \<Rightarrow> (string \<times> json) list" where
  "add_missing_status names = fold (\<lambda>n st. if n \<in> set (map fst st) then st else od_set st n (no_status_yet n)) names"

definition move_ip_address :: "json \<Rightarrow> json result" where
  "move_ip_address d =
     r_bind (contains_key d ''ip_addresses'') (\<lambda>has.
     r_bind (if has then Inr d else json_put d ''ip_addresses'' (JList [])) (\<lambda>d1.
     r_bind (contains_key d1 ''ip_address'') (\<lambda>old.
       if \<not> old then Inr d1
       else r_bind (subscript d1 ''ip_address'') (\<lambda>a.
            r_bind (if truthy a
                    then r_bind (subscript d1 ''ip_addresses'') (\<lambda>as.
                         r_bind (json_append as a) (json_put d1 ''ip_addresses''))
                    else Inr d1) (\<lambda>d2.
              json_del d2 ''ip_address'')))))"

definition dns_get_status :: "('x world_scheme) dns_env \<Rightarrow> ('x world_scheme, json) prog" where
  "dns_get_status env =
     p_bind (dns_status env) (\<lambda>s0.
     p_bind (p_lift (set_default_domains s0)) (\<lambda>status.
     p_bind (dns_domains env) (\<lambda>ds.
     p_lift (r_bind (subscript status ''domains'') (\<lambda>sd.
             r_bind (json_items sd) (\<lambda>st.
             r_bind (r_map (\<lambda>(k, d). r_bind (move_ip_address d) (\<lambda>d'. Inr (k, d')))
                           (add_missing_status (map fst ds) st)) (\<lambda>st'.
               json_put status ''domains'' (JDict st'))))))))"

text \<open>\<open>get_context_data\<close>: the statuses of the domains configured, with messages for known errors.\<close>

definition known_errors :: "(string \<times> string) list" where
  "known_errors =
     [(''timeout'', ''Connection timed out''), (''gaierror'', ''Could not find server''),
      (''TimeoutError'', ''Connection timed out''), (''ConnectionRefusedError'', ''Server refused connection''),
      (''ValueError'', ''Already up-to-date'')]"

definition error_text :: "json \<Rightarrow> json result" where
  "error_text d =
     r_bind (subscript d ''error_code'') (\<lambda>code.
       case code of
         JStr c \<Rightarrow> (case map_of known_errors c of None \<Rightarrow> Inr d | Some m \<Rightarrow> json_put d ''error_message'' (JStr m))
       | JList xs \<Rightarrow> Inl (TypeError ''unhashable type'')
       | JDict xs \<Rightarrow> Inl (TypeError ''unhashable type'')
       | _ \<Rightarrow> Inr d)"

definition shown_statuses :: "string list \<Rightarrow> (string \<times> json) list \<Rightarrow> (string \<times> json) list result" where
  "shown_statuses configured sd =
     r_map (\<lambda>(k, d). r_bind (error_text d) (\<lambda>d'. Inr (k, d'))) (filter (\<lambda>(k, d). k \<in> set configured) sd)"

section \<open>Signals and pages\<close>

definition notify_domain_added :: "'w dns_env \<Rightarrow> string \<Rightarrow> ('w, unit) prog" where
  "notify_domain_added env name = p_bind (dn_app_enabled env) (\<lambda>b. if b then dn_domain_added env name else p_ret ())"

definition notify_domain_removed :: "'w dns_env \<Rightarrow> string \<Rightarrow> ('w, unit) prog" where
  "notify_domain_removed env name = p_bind (dn_app_enabled env) (\<lambda>b. if b then dn_domain_removed env name else p_ret ())"

definition dns_post_init :: "('x world_scheme) dns_env \<Rightarrow> ('x world_scheme, unit) prog" where
  "dns_post_init env =
     p_bind (dns_domains env) (\<lambda>ds. p_bind (dn_app_enabled env) (\<lambda>b.
       if b then p_for (notify_domain_added env) (map fst ds) else p_ret ()))"

definition dns_enable :: "('x world_scheme, unit) prog \<Rightarrow> ('x world_scheme) dns_env \<Rightarrow> ('x world_scheme, unit) prog" where
  "dns_enable super_enable env =
     p_then super_enable (p_bind (dns_domains env) (\<lambda>ds. p_for (notify_domain_added env) (map fst ds)))"

definition dns_disable :: "('x world_scheme, unit) prog \<Rightarrow> ('x world_scheme) dns_env \<Rightarrow> ('x world_scheme, unit) prog" where
  "dns_disable super_disable env =
     p_bind (dns_domains env) (\<lambda>ds. p_then (p_for (notify_domain_removed env) (map fst ds)) super_disable)"

definition domain_add :: "('x world_scheme) dns_env \<Rightarrow> string \<Rightarrow> json \<Rightarrow> ('x world_scheme, unit) prog" where
  "domain_add env name d =
     p_bind (get_dns_config env) (\<lambda>config.
     p_bind (p_lift (r_bind (subscript config ''domains'') (\<lambda>ds. r_bind (json_put ds name d) (json_put config ''domains'')))) (\<lambda>config'.
     p_then (set_dns_config env config') (notify_domain_added env name)))"

definition domain_delete :: "('x world_scheme) dns_env \<Rightarrow> string \<Rightarrow> ('x world_scheme, unit) prog" where
  "domain_delete env name =
     p_bind (get_dns_config env) (\<lambda>config.
     p_bind (p_lift (r_bind (subscript config ''domains'') (\<lambda>ds. r_bind (json_del ds name) (json_put config ''domains'')))) (\<lambda>config'.
     p_then (set_dns_config env config') (if name \<noteq> [] then notify_domain_removed env name else p_ret ())))"

text \<open>The form of a domain: what \<open>clean\<close> refuses, and what it makes of the data.\<close>

definition missing_field :: "json \<Rightarrow> string \<Rightarrow> string list" where
  "missing_field data k = (case dict_get data k JNull of Inr v \<Rightarrow> if truthy v then [] else [k] | Inl e \<Rightarrow> [k])"

definition form_field :: "json \<Rightarrow> string \<Rightarrow> json" where
  "form_field data k = (case dict_get data k JNull of Inr v \<Rightarrow> v | Inl e \<Rightarrow> JNull)"

fun text_contains :: "string \<Rightarrow> json \<Rightarrow> bool" where
  "text_contains p (JStr s) = contains_str p s"
| "text_contains p v = False"

definition clean_domain_form :: "json \<Rightarrow> json \<Rightarrow> (json \<times> string list) result" where
  "clean_domain_form initial cleaned =
     (let password = form_field cleaned ''password'';
          service_type = form_field cleaned ''service_type'';
          update_url = form_field cleaned ''update_url''
      in r_bind (if truthy password then Inr cleaned
                 else json_put cleaned ''password'' (form_field initial ''password'')) (\<lambda>c1.
         let errors =
               (if service_type = JStr ''gnudip'' then concat (map (missing_field c1) [''server'', ''username'', ''password''])
                else (if truthy update_url then [] else [''update_url'']) @
                     concat (map (\<lambda>(k, p). if truthy update_url \<and> text_contains p update_url then missing_field c1 k else [])
                       [(''username'', ''<User>''), (''password'', ''<Pass>'')]) @
                     (if truthy (form_field c1 ''use_http_basic_auth'')
                      then concat (map (missing_field c1) [''username'', ''password'']) else []))
         in r_bind (if service_type = JStr ''gnudip'' then json_put c1 ''ip_type'' (JStr ''ipv4'') else Inr c1) (\<lambda>c2.
            r_bind (json_del c2 ''show_password'') (\<lambda>c3. Inr (c3, errors)))))"

definition clean_domain_name :: "('x world_scheme) dns_env \<Rightarrow> json \<Rightarrow> string \<Rightarrow> ('x world_scheme, string) prog" where
  "clean_domain_name env initial name =
     (let lower = map lower_char name
      in if form_field initial ''domain'' = JStr lower then p_ret lower
         else p_bind (dns_domains env) (\<lambda>ds.
              if lower \<in> set (map fst ds) then p_raise (ValidationError ''Domain already exists.'') else p_ret lower))"

definition domain_form_valid :: "('x world_scheme) dns_env \<Rightarrow> json \<Rightarrow> json \<Rightarrow> ('x world_scheme, unit) prog" where
  "domain_form_valid env old_status new_status =
     p_then
       (if \<not> same_dict old_status new_status
        then p_then (p_catch (p_bind (p_lift (text_field old_status ''domain'')) (domain_delete env))
                       (\<lambda>e. if is_key_error e then p_ret () else p_raise e))
               (p_bind (p_lift (text_field new_status ''domain'')) (\<lambda>name. domain_add env name new_status))
        else p_ret ())
       (update_dns env)"

end
