(* ===== verification/DynamicdnsLaws.thy ===== *)
theory DynamicdnsLaws
  imports Dynamicdns
begin

text \<open>
  What the periodic check of the dynamic domains records: a status for every domain, whatever the
  commands and requests raise, as long as the exceptions carry an argument; and the exception
  without one that stops the check.
\<close>

section \<open>Exceptions with an argument\<close>

named_theorems told_intros "results and programs whose exceptions carry an argument"

definition r_told :: "'a result \<Rightarrow> bool" where
  "r_told r \<longleftrightarrow> (\<forall>e. r = Inl e \<longrightarrow> snd (exn_parts e) \<noteq> [])"

definition p_told :: "('w, 'a) prog \<Rightarrow> bool" where
  "p_told m \<longleftrightarrow> (\<forall>w. r_told (fst (m w)))"

lemma r_told_Inr [told_intros]: "r_told (Inr x)"
  by (simp add: r_told_def)

lemma r_told_bind [told_intros]: "r_told r \<Longrightarrow> (\<And>x. r_told (f x)) \<Longrightarrow> r_told (r_bind r f)"
  by (cases r) (auto simp: r_told_def)

lemma r_told_if [told_intros]: "(c \<Longrightarrow> r_told r) \<Longrightarrow> (\<not> c \<Longrightarrow> r_told s) \<Longrightarrow> r_told (if c then r else s)"
  by simp

lemma r_told_json [told_intros]:
  "r_told (subscript v k)" "r_told (text_of v)" "r_told (od_get d k)" "r_told (python_int s)"
  "r_told (check_required_keys d ks)"
proof -
  show "r_told (subscript v k)" by (cases v) (auto simp: r_told_def split: option.splits)
  show "r_told (text_of v)" by (cases v) (auto simp: r_told_def)
  show "r_told (od_get d k)" by (auto simp: r_told_def od_get_def split: option.splits)
  show "r_told (python_int s)" by (simp add: r_told_def python_int_def Let_def split: option.splits)
  show "r_told (check_required_keys d ks)" by (auto simp: r_told_def check_required_keys_def Let_def split: if_splits)
qed

lemma p_told_basic [told_intros]: "p_told (p_ret x)" "r_told r \<Longrightarrow> p_told (p_lift r)"
  by (simp_all add: p_told_def r_told_def prog_simps)

lemma p_told_raise [told_intros]: "snd (exn_parts e) \<noteq> [] \<Longrightarrow> p_told (p_raise e)"
  by (simp add: p_told_def r_told_def prog_simps)

lemma p_told_bind [told_intros]: "p_told m \<Longrightarrow> (\<And>x. p_told (f x)) \<Longrightarrow> p_told (p_bind m f)"
  unfolding p_told_def p_bind_def
  by (auto simp: r_told_def split: prod.splits sum.splits) (metis fst_conv)+

lemma p_told_then [told_intros]: "p_told m \<Longrightarrow> p_told n \<Longrightarrow> p_told (p_then m n)"
  by (simp add: p_then_def p_told_bind)

lemma p_told_if [told_intros]: "(c \<Longrightarrow> p_told m) \<Longrightarrow> (\<not> c \<Longrightarrow> p_told n) \<Longrightarrow> p_told (if c then m else n)"
  by simp

lemma p_told_prod [told_intros]: "(\<And>x y. p_told (f x y)) \<Longrightarrow> p_told (case z of (x, y) \<Rightarrow> f x y)"
  by (cases z) simp

lemma p_told_handled: "(\<And>e. p_told (h e)) \<Longrightarrow> p_told (p_catch m h)"
  unfolding p_told_def p_catch_def by (auto simp: r_told_def split: prod.splits sum.splits)

lemma p_told_catch_some: "p_told m \<Longrightarrow> p_told (p_catch m (\<lambda>e. if c e then p_ret x else p_raise e))"
  unfolding p_told_def p_catch_def
  by (auto simp: r_told_def prog_simps split: prod.splits sum.splits) (metis fst_conv)+

section \<open>The surroundings\<close>

text \<open>
  Commands and requests leave the key/value store alone and raise only exceptions with an
  argument; the clock answers.
\<close>

definition dns_calls_ok :: "('x world_scheme) dns_env \<Rightarrow> bool" where
  "dns_calls_ok env \<longleftrightarrow>
     (\<forall>s. dn_loads env (dn_dumps env s) = Inr s) \<and>
     (\<forall>t n. p_told (dn_host env t n)) \<and> (\<forall>u ps. p_told (dn_http_get env u ps)) \<and> (\<forall>c. p_told (dn_run env c)) \<and>
     (\<forall>m. (\<forall>t n. p_keeps (\<lambda>v. kv v = m) (dn_host env t n)) \<and> (\<forall>t. p_keeps (\<lambda>v. kv v = m) (dn_lookup env t)) \<and>
          (\<forall>u ps. p_keeps (\<lambda>v. kv v = m) (dn_http_get env u ps)) \<and> (\<forall>c. p_keeps (\<lambda>v. kv v = m) (dn_run env c)) \<and>
          p_keeps (\<lambda>v. kv v = m) (dn_time env)) \<and>
     (\<forall>v. \<exists>n. fst (dn_time env v) = Inr n)"

text \<open>A domain that the check can handle.\<close>

definition checkable :: "json \<Rightarrow> bool" where
  "checkable d \<longleftrightarrow>
     (\<exists>name. text_field d ''domain'' = Inr name) \<and>
     (\<exists>t. text_field d ''ip_type'' = Inr t \<and> (subscript d ''service_type'' = Inr (JStr ''gnudip'') \<longrightarrow> t \<notin> {''ipv6'', ''both''}))"

lemma text_field_told [told_intros]: "r_told (text_field d k)"
  unfolding text_field_def by (intro told_intros)

lemma calls_told:
  assumes "dns_calls_ok env"
  shows "p_told (dn_host env t n)" "p_told (dn_http_get env u ps)" "p_told (dn_run env c)"
  using assms unfolding dns_calls_ok_def by blast+

lemma calls_keep:
  assumes "dns_calls_ok env"
  shows "p_keeps (\<lambda>v. kv v = m) (dn_host env t n)" "p_keeps (\<lambda>v. kv v = m) (dn_lookup env t)"
    "p_keeps (\<lambda>v. kv v = m) (dn_http_get env u ps)" "p_keeps (\<lambda>v. kv v = m) (dn_run env c)"
    "p_keeps (\<lambda>v. kv v = m) (dn_time env)"
  using assms unfolding dns_calls_ok_def by blast+

lemma gnudip_update_told:
  assumes "dns_calls_ok env" and "t \<noteq> ''ipv6''"
  shows "p_told (gnudip_update env server t name u p)"
  unfolding gnudip_update_def Let_def if_not_P[OF assms(2)]
  by (intro told_intros calls_told assms) simp

lemma replace_field_told [told_intros]: "r_told (replace_field d k p u)"
  unfolding replace_field_def by (intro told_intros)

lemma generic_update_told:
  assumes "dns_calls_ok env"
  shows "p_told (generic_update env d t a)"
  unfolding generic_update_def update_address_def wget_options_def
  by (intro told_intros calls_told assms)

lemma check_uptodate_told:
  assumes "dns_calls_ok env"
  shows "p_told (check_uptodate env d t)"
proof -
  have "p_told (query_dns_address env n t)" for n
    unfolding query_dns_address_def by (intro p_told_catch_some told_intros calls_told assms)
  moreover have "p_told (lookup_address env t)"
    unfolding lookup_address_def by (intro p_told_handled told_intros)
  ultimately show ?thesis
    unfolding check_uptodate_def by (intro told_intros)
qed

lemma update_for_domain_told:
  assumes "dns_calls_ok env" and "subscript d ''service_type'' = Inr (JStr ''gnudip'') \<Longrightarrow> t \<noteq> ''ipv6''"
  shows "p_told (update_dns_for_domain env d t a)"
proof (cases "subscript d ''service_type''")
  case (Inl e)
  then show ?thesis
    unfolding update_dns_for_domain_def using r_told_json(1)[of d "''service_type''"]
    by (simp add: p_told_def p_bind_def prog_simps r_told_def)
next
  case (Inr s)
  have "p_told (if s = JStr ''gnudip''
       then p_bind (p_lift (text_field d ''server'')) (\<lambda>server.
            p_bind (p_lift (text_field d ''domain'')) (\<lambda>name.
            p_bind (p_lift (text_field d ''username'')) (\<lambda>uname.
            p_bind (p_lift (text_field d ''password'')) (\<lambda>password.
              gnudip_update env server t name uname password))))
       else generic_update env d t a)" (is "p_told ?m")
    by (intro told_intros gnudip_update_told generic_update_told assms) (simp add: Inr)
  moreover have "update_dns_for_domain env d t a = ?m"
    unfolding update_dns_for_domain_def by (rule ext) (simp add: Inr p_bind_def p_lift_def)
  ultimately show ?thesis by simp
qed

lemma check_keeps_store:
  assumes "dns_calls_ok env"
  shows "p_keeps (\<lambda>v. kv v = m) (check_uptodate env d t)"
    and "p_keeps (\<lambda>v. kv v = m) (update_dns_for_domain env d t a)"
proof -
  show "p_keeps (\<lambda>v. kv v = m) (check_uptodate env d t)"
    unfolding check_uptodate_def query_dns_address_def lookup_address_def
    by (intro keeps_intros calls_keep assms)
  show "p_keeps (\<lambda>v. kv v = m) (update_dns_for_domain env d t a)"
    unfolding update_dns_for_domain_def gnudip_update_def generic_update_def Let_def
    by (intro keeps_intros calls_keep assms)
qed

section \<open>One domain\<close>

definition outcome_ok :: "outcome \<Rightarrow> bool" where
  "outcome_ok r \<longleftrightarrow>
     (oc_result r = (oc_error_code r = None)) \<and> (oc_result r = (oc_error_message r = None))"

lemma failed_outcome_told:
  "snd (exn_parts e) \<noteq> [] \<Longrightarrow> \<exists>r'. failed_outcome r e = Inr r' \<and> outcome_ok r' \<and> \<not> oc_result r'"
  by (cases "snd (exn_parts e)") (auto simp: failed_outcome_def Let_def first_arg_def outcome_ok_def)

lemma check_ip_type_returns:
  assumes "dns_calls_ok env" and "subscript d ''service_type'' = Inr (JStr ''gnudip'') \<Longrightarrow> t \<noteq> ''ipv6''"
    and "outcome_ok r"
  shows "\<exists>r' w'. check_ip_type env d t r w = (Inr r', w') \<and> kv w' = kv w \<and> outcome_ok r' \<and>
    (oc_result r' \<longrightarrow> oc_addresses r' \<noteq> [])"
proof -
  define m where "m = p_bind (check_uptodate env d t) (\<lambda>(uptodate, dns_address, external_address).
        p_bind (if uptodate then p_ret dns_address else update_dns_for_domain env d t external_address) (\<lambda>address.
          p_ret (r\<lparr>oc_addresses := oc_addresses r @ [address]\<rparr>)))"
  have told: "p_told m"
    unfolding m_def by (intro told_intros check_uptodate_told update_for_domain_told assms)
  have "p_keeps (\<lambda>v. kv v = kv w) m"
    unfolding m_def by (intro keeps_intros check_keeps_store assms)
  from p_keepsD[OF this] have keep: "kv (snd (m w)) = kv w" by simp
  have run: "check_ip_type env d t r w = p_catch m (\<lambda>e. p_lift (failed_outcome r e)) w"
    by (simp add: check_ip_type_def m_def)
  show ?thesis
  proof (cases "m w")
    case (Pair x w')
    show ?thesis
    proof (cases x)
      case (Inl e)
      then have "snd (exn_parts e) \<noteq> []"
        using told Pair unfolding p_told_def r_told_def by (metis fst_conv)
      then obtain r' where "failed_outcome r e = Inr r'" "outcome_ok r'" "\<not> oc_result r'"
        using failed_outcome_told by blast
      then show ?thesis using run Pair Inl keep by (auto simp: prog_simps)
    next
      case (Inr r')
      then have "\<exists>a. r' = r\<lparr>oc_addresses := oc_addresses r @ [a]\<rparr>"
        using Pair unfolding m_def by (auto simp: p_bind_Inr_iff p_ret_def split: prod.splits)
      then show ?thesis using run Pair Inr keep assms(3) by (auto simp: prog_simps outcome_ok_def)
    qed
  qed
qed

lemma check_ip_types_returns:
  assumes "dns_calls_ok env" and "subscript d ''service_type'' = Inr (JStr ''gnudip'') \<Longrightarrow> ''ipv6'' \<notin> set ts"
    and "outcome_ok r" "oc_result r \<longrightarrow> ts \<noteq> [] \<or> oc_addresses r \<noteq> []"
  shows "\<exists>r' w'. check_ip_types env d ts r w = (Inr r', w') \<and> kv w' = kv w \<and> outcome_ok r' \<and>
    (oc_result r' \<longrightarrow> oc_addresses r' \<noteq> [])"
  using assms(2-)
proof (induction ts arbitrary: r w)
  case Nil
  then show ?case by (simp add: prog_simps)
next
  case (Cons t ts)
  obtain r1 w1 where 1: "check_ip_type env d t r w = (Inr r1, w1)" "kv w1 = kv w" "outcome_ok r1"
    "oc_result r1 \<longrightarrow> oc_addresses r1 \<noteq> []"
    using check_ip_type_returns[OF assms(1) _ Cons.prems(2), of d t w] Cons.prems(1) by auto
  obtain r2 w2 where "check_ip_types env d ts r1 w1 = (Inr r2, w2)" "kv w2 = kv w1" "outcome_ok r2"
    "oc_result r2 \<longrightarrow> oc_addresses r2 \<noteq> []"
    using Cons.IH[of r1 w1] Cons.prems(1) 1(3,4) by auto
  with 1 show ?case by (simp add: prog_simps)
qed

section \<open>The recorded statuses\<close>

definition recorded :: "('x world_scheme) dns_env \<Rightarrow> 'x world_scheme \<Rightarrow> (string \<times> json) list option" where
  "recorded env w =
     (case fst (dns_status env w) of
        Inl e \<Rightarrow> None
      | Inr s \<Rightarrow> (case r_bind (set_default_domains s) (\<lambda>s1. r_bind (subscript s1 ''domains'') json_items) of
                    Inl e \<Rightarrow> None | Inr sd \<Rightarrow> Some sd))"

lemma dns_status_kv: "dns_status env w = (fst (dns_status env w), w)"
  "kv v = kv w \<Longrightarrow> fst (dns_status env v) = fst (dns_status env w)"
  unfolding dns_status_def kv_get_default_def kv_get_def
  by (simp_all add: p_bind_def p_catch_def prog_simps split: option.splits sum.splits)

lemma recorded_kv: "kv v = kv w \<Longrightarrow> recorded env v = recorded env w"
  by (simp add: recorded_def dns_status_kv(2)[of v w])

lemma set_status_records:
  assumes ok: "dns_calls_ok env" and "recorded env w = Some sd" and "text_field d ''domain'' = Inr name"
  shows "\<exists>w' n. set_status env d b as c msg w = (Inr (), w') \<and>
    recorded env w' = Some (od_set sd name (status_entry (JStr name) b as c msg n))"
proof -
  obtain s s1 x where s: "dns_status env w = (Inr s, w)" "set_default_domains s = Inr s1"
    "subscript s1 ''domains'' = Inr x" "json_items x = Inr sd"
    using assms(2) dns_status_kv(1)[of env w] unfolding recorded_def
    by (auto simp: r_bind_Inr_iff split: sum.splits)
  obtain n w1 where t: "dn_time env w = (Inr n, w1)"
    using ok unfolding dns_calls_ok_def by (metis prod.collapse)
  have x: "x = JDict sd" using s(4) by (cases x) auto
  obtain e where e: "s1 = JDict e" using s(3) by (auto simp: subscript_Inr)
  define s2 where "s2 = JDict (od_set e ''domains'' (JDict (od_set sd name (status_entry (JStr name) b as c msg n))))"
  define w2 where "w2 = w1\<lparr>kv := od_set (kv w1) ''dynamicdns_status'' (JStr (dn_dumps env s2))\<rparr>"
  have "set_status env d b as c msg w = (Inr (), w2)"
    using s t assms(3) by (simp add: set_status_def p_bind_def p_lift_def x e kv_set_def p_mod_def s2_def w2_def)
  moreover have "dns_status env w2 = (Inr s2, w2)"
    using ok by (simp add: dns_status_def kv_get_default_def kv_get_def w2_def odict_simps p_bind_def p_catch_def
        prog_simps dns_calls_ok_def)
  then have "recorded env w2 = Some (od_set sd name (status_entry (JStr name) b as c msg n))"
    by (simp add: recorded_def s2_def set_default_domains_def odict_simps)
  ultimately show ?thesis by blast
qed

text \<open>The entry of a domain after a check: a success has an address, a failure has its error.\<close>

definition status_ok :: "string \<Rightarrow> json \<Rightarrow> bool" where
  "status_ok name e \<longleftrightarrow>
     (\<exists>as n. as \<noteq> [] \<and> e = status_entry (JStr name) True as None None n) \<or>
     (\<exists>as c msg n. e = status_entry (JStr name) False as (Some c) (Some msg) n)"

lemma status_entry_ok:
  assumes "outcome_ok r" and "oc_result r \<longrightarrow> oc_addresses r \<noteq> []"
  shows "status_ok name (status_entry (JStr name) (oc_result r) (oc_addresses r) (oc_error_code r) (oc_error_message r) k)"
proof (cases "oc_result r")
  case True
  then have "oc_error_code r = None" "oc_error_message r = None" using assms(1) by (auto simp: outcome_ok_def)
  then show ?thesis using True assms(2) unfolding status_ok_def by auto
next
  case False
  then obtain c m where "oc_error_code r = Some c" "oc_error_message r = Some m"
    using assms(1) by (auto simp: outcome_ok_def)
  then show ?thesis using False unfolding status_ok_def by (intro disjI2) auto
qed

lemma check_domain_records:
  assumes ok: "dns_calls_ok env" and d: "checkable d" and "recorded env w = Some sd"
  shows "\<exists>w' name e. check_and_update_domain env d w = (Inr (), w') \<and> text_field d ''domain'' = Inr name \<and>
    status_ok name e \<and> recorded env w' = Some (od_set sd name e)"
proof -
  obtain name t where n: "text_field d ''domain'' = Inr name" and t: "text_field d ''ip_type'' = Inr t"
    and g: "subscript d ''service_type'' = Inr (JStr ''gnudip'') \<longrightarrow> t \<notin> {''ipv6'', ''both''}"
    using d unfolding checkable_def by blast
  define ts where "ts = (if t = ''both'' then [''ipv4'', ''ipv6''] else [t])"
  have start: "outcome_ok start_outcome" by (simp add: outcome_ok_def start_outcome_def)
  have pre: "oc_result start_outcome \<longrightarrow> ts \<noteq> [] \<or> oc_addresses start_outcome \<noteq> []" by (simp add: ts_def)
  obtain r w1 where r: "check_ip_types env d ts start_outcome w = (Inr r, w1)" "kv w1 = kv w" "outcome_ok r"
    "oc_result r \<longrightarrow> oc_addresses r \<noteq> []"
    using check_ip_types_returns[OF ok _ start pre, of d w] g by (auto simp: ts_def split: if_splits)
  have "recorded env w1 = Some sd" using assms(3) recorded_kv[OF r(2)] by simp
  from set_status_records[OF ok this n] obtain w2 k where
    "set_status env d (oc_result r) (oc_addresses r) (oc_error_code r) (oc_error_message r) w1 = (Inr (), w2)"
    "recorded env w2 = Some (od_set sd name (status_entry (JStr name) (oc_result r) (oc_addresses r)
        (oc_error_code r) (oc_error_message r) k))" by blast
  moreover have "status_ok name (status_entry (JStr name) (oc_result r) (oc_addresses r)
        (oc_error_code r) (oc_error_message r) k)"
    using r(3,4) by (rule status_entry_ok)
  ultimately show ?thesis
    using t n r(1) by (auto simp: check_and_update_domain_def ip_types_of_def ts_def p_bind_def p_lift_def)
qed

lemma check_domains_record:
  assumes ok: "dns_calls_ok env"
  shows "\<forall>d \<in> set ds. checkable d \<Longrightarrow> recorded env w = Some sd \<Longrightarrow>
    \<exists>w' sd'. p_for (check_and_update_domain env) ds w = (Inr (), w') \<and> recorded env w' = Some sd' \<and>
      (\<forall>d \<in> set ds. \<exists>name e. text_field d ''domain'' = Inr name \<and> map_of sd' name = Some e \<and> status_ok name e) \<and>
      (\<forall>name. (\<forall>d \<in> set ds. text_field d ''domain'' \<noteq> Inr name) \<longrightarrow> map_of sd' name = map_of sd name)"
proof (induction ds rule: rev_induct)
  case Nil
  then show ?case by (simp add: prog_simps)
next
  case (snoc d ds)
  obtain w1 sd1 where 1: "p_for (check_and_update_domain env) ds w = (Inr (), w1)" "recorded env w1 = Some sd1"
    "\<forall>d \<in> set ds. \<exists>name e. text_field d ''domain'' = Inr name \<and> map_of sd1 name = Some e \<and> status_ok name e"
    "\<forall>name. (\<forall>d \<in> set ds. text_field d ''domain'' \<noteq> Inr name) \<longrightarrow> map_of sd1 name = map_of sd name"
    using snoc by auto
  obtain w2 name e where 2: "check_and_update_domain env d w1 = (Inr (), w2)" "text_field d ''domain'' = Inr name"
    "status_ok name e" "recorded env w2 = Some (od_set sd1 name e)"
    using check_domain_records[OF ok _ 1(2), of d] snoc.prems(1) by auto
  have "p_for (check_and_update_domain env) (ds @ [d]) w = (Inr (), w2)"
    using 1(1) 2(1) by (simp add: p_for_append prog_simps)
  moreover have "\<exists>n x. text_field y ''domain'' = Inr n \<and> map_of (od_set sd1 name e) n = Some x \<and> status_ok n x"
    if "y \<in> set (ds @ [d])" for y
    using that 1(3) 2(2,3) by (fastforce simp: odict_simps)
  moreover have "\<forall>n. (\<forall>y \<in> set (ds @ [d]). text_field y ''domain'' \<noteq> Inr n) \<longrightarrow>
      map_of (od_set sd1 name e) n = map_of sd n"
    using 1(4) 2(2) by (auto simp: odict_simps)
  ultimately show ?case using 2(4) by blast
qed

section \<open>The periodic check\<close>

text \<open>
  The exception of the GnuDIP client for IPv6 has no argument: it escapes the check of the domain,
  which records nothing.
\<close>

lemma gnudip_ipv6_stops:
  assumes "subscript d ''service_type'' = Inr (JStr ''gnudip'')" "text_field d ''ip_type'' = Inr ''ipv6''"
    and "text_field d ''server'' = Inr server" "text_field d ''domain'' = Inr name"
    and "text_field d ''username'' = Inr u" "text_field d ''password'' = Inr p"
    and "check_uptodate env d ''ipv6'' w = (Inr (False, a, b), w1)"
  shows "check_and_update_domain env d w = (Inl (IndexError ''tuple index out of range''), w1)"
  using assms
  by (simp add: check_and_update_domain_def ip_types_of_def check_ip_type_def update_dns_for_domain_def
      gnudip_update_def failed_outcome_def first_arg_def Let_def p_bind_def p_catch_def prog_simps)


text \<open>A machine without a network: every request and command fails.\<close>

definition offline_dns :: "world dns_env" where
  "offline_dns =
     \<lparr>dn_loads = (\<lambda>s. Inr (from_nat (length s))), dn_dumps = unary_text,
      dn_host = (\<lambda>t n. p_raise (CalledProcessError ''host'')), dn_lookup = (\<lambda>t. p_raise (OtherError ''offline'')),
      dn_http_get = (\<lambda>u ps. p_raise (ConnectionError ''offline'')), dn_meta_tags = (\<lambda>s. []), dn_md5 = (\<lambda>s. s),
      dn_run = (\<lambda>c. p_raise (CalledProcessError ''wget'')), dn_time = p_ret 7, dn_app_enabled = p_ret True,
      dn_domain_added = (\<lambda>n. p_ret ()), dn_domain_removed = (\<lambda>n. p_ret ())\<rparr>"

definition demo_domain :: json where
  "demo_domain =
     JDict [(''service_type'', JStr ''gnudip''), (''server'', JStr ''ddns.example''), (''update_url'', JStr []),
            (''disable_ssl_cert_check'', JBool False), (''use_http_basic_auth'', JBool False),
            (''domain'', JStr ''a.example''), (''username'', JStr ''a''), (''password'', JStr ''p''),
            (''ip_type'', JStr ''ipv4'')]"

definition demo_world :: world where
  "demo_world =
     \<lparr>kv = [(''dynamicdns_config'', JStr (unary_text (JDict [(''domains'', JDict [(''a.example'', demo_domain)])]))),
            (''dynamicdns_status'', JStr (unary_text (JDict [(''domains'', JDict [])])))],
      module_versions = [], enabled_attr = []\<rparr>"

lemma offline_calls_ok: "dns_calls_ok offline_dns"
  by (simp add: dns_calls_ok_def offline_dns_def p_told_def r_told_def p_keeps_def prog_simps)

lemma demo_domains: "dns_domains offline_dns demo_world = (Inr [(''a.example'', demo_domain)], demo_world)"
  by (simp add: dns_domains_def get_dns_config_def offline_dns_def demo_world_def kv_get_default_def kv_get_def
      p_bind_def p_catch_def p_then_def prog_simps migrate_old_config_def migrate_domain_def demo_domain_def odict_simps)

lemma demo_recorded: "recorded offline_dns demo_world = Some []"
  by (simp add: recorded_def dns_status_def offline_dns_def demo_world_def kv_get_default_def kv_get_def
      p_bind_def p_catch_def prog_simps set_default_domains_def)

lemma demo_checkable: "checkable demo_domain"
  by (simp add: checkable_def demo_domain_def text_field_def)


end
