(* ===== verification/Diagnostics.thy ===== *)
theory Diagnostics
  imports Setup Notifications Paths Complex_Main
begin

text \<open>
  The routine diagnosis of all apps (plinth/modules/diagnostics/__init__.py and
  plinth/diagnostic_check.py): the run over the apps with its progress, the results in memory and in
  the database, their encoding as JSON, the notification of the issues, the repair that may follow,
  and the warning about low memory. The dict \<open>current_results\<close> of the module stands beside the
  world of the apps; the lock around it makes every access atomic.
\<close>

section \<open>Results\<close>

text \<open>The three keys that the diagnosis of an app adds to its entry.\<close>

record app_outcome =
  ao_diagnosis :: "diagnostic_check list"
  ao_exception :: "string option"
  ao_show_repair :: bool

record diag_entry =
  ae_id :: string
  ae_outcome :: "app_outcome option"

record full_results =
  fr_results :: "(string, diag_entry) odict"
  fr_progress :: int
  fr_exception :: "string option"

type_synonym 'w diag_world = "'w \<times> full_results option"

text \<open>A program of the apps, which does not touch \<open>current_results\<close>.\<close>

definition on_apps :: "('w, 'a) prog \<Rightarrow> ('w diag_world, 'a) prog" where
  "on_apps m s = (case m (fst s) of (r, w) \<Rightarrow> (r, (w, snd s)))"

definition set_results :: "full_results \<Rightarrow> ('w diag_world, unit) prog" where
  "set_results r = p_mod (\<lambda>s. (fst s, Some r))"

definition change_results :: "(full_results \<Rightarrow> full_results) \<Rightarrow> ('w diag_world, unit) prog" where
  "change_results f = p_mod (\<lambda>s. (fst s, map_option f (snd s)))"

section \<open>Running\<close>

definition start_results :: full_results where
  "start_results = \<lparr>fr_results = [], fr_progress = 0, fr_exception = None\<rparr>"

definition runs_diagnosis :: "('x world_scheme) app \<Rightarrow> ('x world_scheme, bool) prog" where
  "runs_diagnosis a =
     p_bind (needs_setup a) (\<lambda>ns. if ns then p_ret False
       else p_bind (app_is_enabled a) (\<lambda>en. p_ret (en \<and> app_has_diagnostics a)))"

primrec select_apps :: "('x world_scheme) app list \<Rightarrow> ('x world_scheme diag_world, 'x world_scheme app list) prog" where
  "select_apps [] = p_ret []"
| "select_apps (a # as) =
     p_bind (on_apps (runs_diagnosis a)) (\<lambda>b.
       if \<not> b then select_apps as
       else p_then (change_results (\<lambda>r. r\<lparr>fr_results := od_set (fr_results r) (app_id a) \<lparr>ae_id = app_id a, ae_outcome = None\<rparr>\<rparr>))
              (p_bind (select_apps as) (\<lambda>rest. p_ret (a # rest))))"

text \<open>An exception of the diagnosis is caught and its text kept.\<close>

definition shows_repair :: "diagnostic_check list \<Rightarrow> bool" where
  "shows_repair chs \<longleftrightarrow> (\<exists>ch \<in> set chs. check_result ch \<in> {FAILED, WARNING})"

definition diagnose_outcome :: "'w app \<Rightarrow> ('w, app_outcome) prog" where
  "diagnose_outcome a w =
     (case call_diagnose a w of
        (Inr chs, w') \<Rightarrow> (Inr \<lparr>ao_diagnosis = chs, ao_exception = None, ao_show_repair = shows_repair chs\<rparr>, w')
      | (Inl e, w') \<Rightarrow> (Inr \<lparr>ao_diagnosis = [], ao_exception = Some (exn_str e), ao_show_repair = False\<rparr>, w'))"

definition note_outcome :: "nat \<Rightarrow> nat \<Rightarrow> string \<Rightarrow> app_outcome \<Rightarrow> full_results \<Rightarrow> full_results" where
  "note_outcome i n aid oc r =
     r\<lparr>fr_results := map (\<lambda>(k, e). (k, if k = aid then e\<lparr>ae_outcome := Some oc\<rparr> else e)) (fr_results r),
       fr_progress := (int i + 1) * 100 div int n\<rparr>"

primrec diagnose_each :: "nat \<Rightarrow> nat \<Rightarrow> 'w app list \<Rightarrow> ('w diag_world, unit) prog" where
  "diagnose_each i n [] = p_ret ()"
| "diagnose_each i n (a # as) =
     p_bind (on_apps (diagnose_outcome a)) (\<lambda>oc.
       p_then (change_results (note_outcome i n (app_id a) oc)) (diagnose_each (Suc i) n as))"

definition run_on_all_enabled_modules :: "('x world_scheme) apps \<Rightarrow> ('x world_scheme diag_world, unit) prog" where
  "run_on_all_enabled_modules all_apps =
     p_then (set_results start_results)
       (p_bind (select_apps (od_values all_apps)) (\<lambda>as. diagnose_each 0 (length as) as))"

section \<open>Results as JSON\<close>

definition result_text :: "check_result \<Rightarrow> string" where
  "result_text r = (case r of NOT_DONE \<Rightarrow> ''not_done'' | SKIPPED \<Rightarrow> ''skipped'' | PASSED \<Rightarrow> ''passed''
     | WARNING \<Rightarrow> ''warning'' | FAILED \<Rightarrow> ''failed'' | ERROR \<Rightarrow> ''error'')"

definition text_json :: "string option \<Rightarrow> json" where
  "text_json s = (case s of None \<Rightarrow> JNull | Some t \<Rightarrow> JStr t)"

definition encode_check :: "diagnostic_check \<Rightarrow> json" where
  "encode_check ch =
     JDict [(''check_id'', JStr (check_id ch)), (''description'', JStr (description ch)),
            (''result'', JStr (result_text (check_result ch))), (''parameters'', JDict (parameters ch)),
            (''component_id'', text_json (check_component_id ch)), (''__class__'', JStr ''DiagnosticCheck'')]"

definition encode_entry :: "diag_entry \<Rightarrow> json" where
  "encode_entry e =
     JDict ((''id'', JStr (ae_id e)) #
       (case ae_outcome e of None \<Rightarrow> []
        | Some oc \<Rightarrow> [(''diagnosis'', JList (map encode_check (ao_diagnosis oc))),
                      (''exception'', text_json (ao_exception oc)), (''show_repair'', JBool (ao_show_repair oc))]))"

definition encode_results :: "(string, diag_entry) odict \<Rightarrow> json" where
  "encode_results rs = JDict (map (\<lambda>(k, e). (k, encode_entry e)) rs)"

text \<open>
  What comes back: JSON values in which the dicts tagged as checks are objects. The constructor of
  the dataclass takes the values as they are.
\<close>

datatype decoded =
    L_atom json
  | L_list "decoded list"
  | L_dict "(string \<times> decoded) list"
  | L_check decoded decoded decoded decoded decoded

definition l_get :: "(string \<times> decoded) list \<Rightarrow> string \<Rightarrow> decoded result" where
  "l_get d k = (case map_of d k of None \<Rightarrow> Inl (KeyError k) | Some v \<Rightarrow> Inr v)"

definition from_dict :: "(string \<times> decoded) list \<Rightarrow> decoded result" where
  "from_dict d =
     (if map_of d ''__class__'' = Some (L_atom (JStr ''DiagnosticCheck''))
      then r_bind (l_get d ''check_id'') (\<lambda>c. r_bind (l_get d ''description'') (\<lambda>t.
           r_bind (l_get d ''result'') (\<lambda>r. r_bind (l_get d ''parameters'') (\<lambda>p.
             Inr (L_check c t r p (case map_of d ''component_id'' of None \<Rightarrow> L_atom JNull | Some v \<Rightarrow> v))))))
      else Inr (L_dict d))"

text \<open>The decoder applies the hook to every dict, the inner ones first.\<close>

fun decode :: "json \<Rightarrow> decoded result"
  and decode_list :: "json list \<Rightarrow> decoded list result"
  and decode_items :: "(string \<times> json) list \<Rightarrow> (string \<times> decoded) list result"
where
  "decode (JList xs) = r_bind (decode_list xs) (\<lambda>ys. Inr (L_list ys))"
| "decode (JDict d) = r_bind (decode_items d) from_dict"
| "decode v = Inr (L_atom v)"
| "decode_list [] = Inr []"
| "decode_list (x # xs) = r_bind (decode x) (\<lambda>y. r_bind (decode_list xs) (\<lambda>ys. Inr (y # ys)))"
| "decode_items [] = Inr []"
| "decode_items ((k, x) # d) = r_bind (decode x) (\<lambda>y. r_bind (decode_items d) (\<lambda>ys. Inr ((k, y) # ys)))"

text \<open>The results in memory as such values.\<close>

definition check_value :: "diagnostic_check \<Rightarrow> decoded" where
  "check_value ch =
     L_check (L_atom (JStr (check_id ch))) (L_atom (JStr (description ch))) (L_atom (JStr (result_text (check_result ch))))
       (L_dict (map (\<lambda>(k, v). (k, L_atom v)) (parameters ch))) (L_atom (text_json (check_component_id ch)))"

definition entry_value :: "diag_entry \<Rightarrow> decoded" where
  "entry_value e =
     L_dict ((''id'', L_atom (JStr (ae_id e))) #
       (case ae_outcome e of None \<Rightarrow> []
        | Some oc \<Rightarrow> [(''diagnosis'', L_list (map check_value (ao_diagnosis oc))),
                      (''exception'', L_atom (text_json (ao_exception oc))),
                      (''show_repair'', L_atom (JBool (ao_show_repair oc)))]))"

definition results_value :: "(string, diag_entry) odict \<Rightarrow> (string \<times> decoded) list" where
  "results_value rs = map (\<lambda>(k, e). (k, entry_value e)) rs"

section \<open>Verdict\<close>

definition good_results :: "check_result set" where
  "good_results = {PASSED, NOT_DONE, SKIPPED}"

text \<open>The count of issues, the severity and the apps to repair; an exception with an empty text is falsy.\<close>

record verdict =
  vd_count :: int
  vd_severity :: string
  vd_apps :: "string set"

definition judge_check :: "string \<Rightarrow> diagnostic_check \<Rightarrow> verdict \<Rightarrow> verdict" where
  "judge_check aid ch v =
     (if check_result ch \<in> good_results then v
      else v\<lparr>vd_apps := insert aid (vd_apps v), vd_count := vd_count v + 1,
             vd_severity := if check_result ch \<noteq> WARNING then ''error'' else vd_severity v\<rparr>)"

definition judge_app :: "string \<Rightarrow> app_outcome \<Rightarrow> verdict \<Rightarrow> verdict" where
  "judge_app aid oc v =
     (if ao_exception oc \<notin> {None, Some []} then v\<lparr>vd_count := vd_count v + 1, vd_severity := ''error''\<rparr>
      else fold (judge_check aid) (ao_diagnosis oc) v)"

primrec judge_all :: "(string \<times> diag_entry) list \<Rightarrow> verdict \<Rightarrow> verdict result" where
  "judge_all [] v = Inr v"
| "judge_all (p # ps) v =
     (case ae_outcome (snd p) of
        None \<Rightarrow> Inl (KeyError ''exception'')
      | Some oc \<Rightarrow> judge_all ps (judge_app (fst p) oc v))"

definition no_issues :: verdict where
  "no_issues = \<lparr>vd_count = 0, vd_severity = ''warning'', vd_apps = {}\<rparr>"

section \<open>Notifying\<close>

record 'w diag_env =
  dg_notify :: "'w notify_env"
  dg_dumps :: "json \<Rightarrow> string"
  dg_loads :: "string \<Rightarrow> json result"
  dg_order :: "string set \<Rightarrow> string list"

definition delete_if_there :: "'w notify_env \<Rightarrow> string \<Rightarrow> ('w, unit) prog" where
  "delete_if_there ne k =
     p_mod (\<lambda>w. case notification_get k (ne_get ne w) of
        Inr n \<Rightarrow> ne_put ne (od_del (ne_get ne w) k) w | Inl e \<Rightarrow> w)"

definition results_actions :: json where
  "results_actions =
     JList [JDict [(''type'', JStr ''link''), (''class'', JStr ''primary''), (''text'', JStr ''Go to diagnostics results''),
                   (''url'', JStr ''diagnostics:full'')],
            JDict [(''type'', JStr ''dismiss'')]]"

definition issue_fields :: "verdict \<Rightarrow> notification_field list" where
  "issue_fields v =
     [F_app_id (Some ''diagnostics''), F_severity (vd_severity v), F_title ''Diagnostics results'',
      F_message (Some ''Found {issue_count} issues during routine tests.''), F_actions results_actions,
      F_data (JDict [(''app_icon'', JStr ''fa-heartbeat''), (''issue_count'', JInt (vd_count v))]), F_group (Some ''admin'')]"

definition notify_issues :: "'w notify_env \<Rightarrow> verdict \<Rightarrow> ('w, unit) prog" where
  "notify_issues ne v =
     p_mod (\<lambda>w. ne_put ne (dismiss ''diagnostics-background'' False (ne_now ne w)
        (update_or_create ''diagnostics-background'' (issue_fields v) (ne_now ne w) (ne_get ne w))) w)"

text \<open>\<open>_run_diagnostics\<close> up to the repairs: the verdict when there are issues.\<close>

definition run_and_report ::
  "('x world_scheme) diag_env \<Rightarrow> ('x world_scheme) apps \<Rightarrow> ('x world_scheme diag_world, verdict option) prog"
where
  "run_and_report env all_apps =
     p_then (run_on_all_enabled_modules all_apps)
       (p_bind (p_get snd) (\<lambda>c.
          case c of
            None \<Rightarrow> p_raise (KeyError ''results'')
          | Some r \<Rightarrow>
              p_then (on_apps (kv_set ''diagnostics_results'' (JStr (dg_dumps env (encode_results (fr_results r))))))
                (p_bind (p_lift (judge_all (fr_results r) no_issues)) (\<lambda>v.
                   if vd_count v = 0
                   then p_then (on_apps (delete_if_there (dg_notify env) ''diagnostics-background'')) (p_ret None)
                   else p_then (on_apps (notify_issues (dg_notify env) v)) (p_ret (Some v))))))"

definition is_automatic_repair_enabled :: "('x world_scheme, bool) prog" where
  "is_automatic_repair_enabled =
     p_bind (kv_get_default ''diagnostics_automatic_repair_enabled'' (JBool False)) (\<lambda>v. p_ret (truthy v))"

definition set_automatic_repair_enabled :: "bool \<Rightarrow> ('x world_scheme, unit) prog" where
  "set_automatic_repair_enabled b = kv_set ''diagnostics_automatic_repair_enabled'' (JBool b)"

definition run_diagnostics :: "sys_world diag_env \<Rightarrow> setup_env \<Rightarrow> sys_world apps \<Rightarrow> (sys_world diag_world, unit) prog" where
  "run_diagnostics env se all_apps =
     p_bind (run_and_report env all_apps) (\<lambda>v.
       case v of
         None \<Rightarrow> p_ret ()
       | Some v \<Rightarrow>
           p_bind (on_apps is_automatic_repair_enabled) (\<lambda>auto.
             if auto then p_for (\<lambda>aid. on_apps (p_then (run_repair_on_app se all_apps aid False) (p_ret ())))
                            (dg_order env (vd_apps v))
             else p_ret ()))"

section \<open>Reading the results\<close>

text \<open>Every writer stores a text.\<close>

definition stored_results :: "('x world_scheme) diag_env \<Rightarrow> ('x world_scheme, json) prog" where
  "stored_results env =
     p_bind (kv_get_default ''diagnostics_results'' (JStr ''{}'')) (\<lambda>v.
       case v of JStr t \<Rightarrow> p_lift (dg_loads env t) | _ \<Rightarrow> p_raise (TypeError ''the JSON object must be str''))"

definition are_results_available :: "('x world_scheme) diag_env \<Rightarrow> ('x world_scheme diag_world, bool) prog" where
  "are_results_available env =
     p_bind (p_get snd) (\<lambda>c.
       case c of
         Some r \<Rightarrow> if fr_results r \<noteq> [] then p_ret True
                   else on_apps (p_bind (stored_results env) (\<lambda>v. p_ret (truthy v)))
       | None \<Rightarrow> on_apps (p_bind (stored_results env) (\<lambda>v. p_ret (truthy v))))"

text \<open>
  \<open>get_results\<close>: the results with the names of the apps, the progress, or the error of a copy that
  failed (\<open>uncopyable\<close> is the text of the TypeError of \<open>deepcopy\<close>), after which the results are cleared.
\<close>

datatype results_page =
    Results_error string
  | Results_page "(string \<times> decoded \<times> string) list" int

definition page_name :: "'w apps \<Rightarrow> string \<times> decoded \<Rightarrow> (string \<times> decoded \<times> string) result" where
  "page_name all_apps p =
     r_bind (od_get all_apps (fst p)) (\<lambda>a. r_bind (app_info a) (\<lambda>i.
       Inr (fst p, snd p, case info_name i of None \<Rightarrow> fst p | Some n \<Rightarrow> if n = [] then fst p else n)))"

fun decoded_items :: "decoded \<Rightarrow> (string \<times> decoded) list result" where
  "decoded_items (L_dict d) = Inr d"
| "decoded_items v = Inl (TypeError ''not a dict'')"

definition get_results ::
  "('x world_scheme) diag_env \<Rightarrow> (full_results \<Rightarrow> string option) \<Rightarrow> ('x world_scheme) apps \<Rightarrow>
   ('x world_scheme diag_world, results_page) prog"
where
  "get_results env uncopyable all_apps =
     p_bind (p_get snd) (\<lambda>c.
       case c of
         Some r \<Rightarrow>
           (case uncopyable r of
              Some t \<Rightarrow> p_then (p_mod (\<lambda>s. (fst s, None))) (p_ret (Results_error t))
            | None \<Rightarrow> p_bind (p_lift (r_map (page_name all_apps) (results_value (fr_results r)))) (\<lambda>ps.
                        p_ret (Results_page ps (fr_progress r))))
       | None \<Rightarrow>
           p_bind (on_apps (stored_results env)) (\<lambda>v.
           p_bind (p_lift (r_bind (decode v) (\<lambda>l. r_bind (decoded_items l) (r_map (page_name all_apps))))) (\<lambda>ps.
             p_ret (Results_page ps 100))))"

section \<open>Starting\<close>

definition is_daily_run_enabled :: "('x world_scheme, bool) prog" where
  "is_daily_run_enabled =
     p_bind (kv_get_default ''diagnostics_daily_run_enabled'' (JBool True)) (\<lambda>v. p_ret (truthy v))"

definition set_daily_run_enabled :: "bool \<Rightarrow> ('x world_scheme, unit) prog" where
  "set_daily_run_enabled b = kv_set ''diagnostics_daily_run_enabled'' (JBool b)"

text \<open>The manager refuses a second operation of the same id with KeyError, which is logged.\<close>

definition start_diagnostics :: "(op_request \<Rightarrow> ('w, unit) prog) \<Rightarrow> ('w, unit) prog" where
  "start_diagnostics new_operation =
     p_catch (new_operation \<lparr>rq_id = ''diagnostics-full'', rq_app_id = ''diagnostics'', rq_name = ''Running diagnostics'',
                rq_show_message = False, rq_show_notification = False, rq_data = []\<rparr>)
       (\<lambda>e. if is_key_error e then p_ret () else p_raise e)"

definition daily_diagnostics_run :: "(op_request \<Rightarrow> ('x world_scheme, unit) prog) \<Rightarrow> ('x world_scheme, unit) prog" where
  "daily_diagnostics_run new_operation =
     p_bind is_daily_run_enabled (\<lambda>b. if b then start_diagnostics new_operation else p_ret ())"

section \<open>Memory\<close>

text \<open>
  Sizes are integers, percentages rationals; \<open>fdiv\<close> is the division of floats and \<open>one_digit\<close> the
  format .1f. The three files of the memory controller: \<open>None\<close> when they cannot be read.
\<close>

record memory_info =
  mi_total :: int
  mi_percent :: rat
  mi_free :: int

definition inactive_file_lines :: "string \<Rightarrow> string list" where
  "inactive_file_lines stat = filter (\<lambda>l. starts_with l ''total_inactive_file'') (split_on (CHR 0x0A) stat)"

definition last_word :: "string \<Rightarrow> string result" where
  "last_word l = (let ws = split_words l in if length ws < 2 then Inl (IndexError ''list index out of range'') else Inr (last ws))"

definition cgroup_memory ::
  "(int \<Rightarrow> int \<Rightarrow> rat result) \<Rightarrow> (string \<times> string \<times> string) option \<Rightarrow> memory_info option result"
where
  "cgroup_memory fdiv files =
     (case files of None \<Rightarrow> Inr None
      | Some (limit, usage, stat) \<Rightarrow>
          r_bind (python_int limit) (\<lambda>total. r_bind (python_int usage) (\<lambda>used0.
          r_bind (r_map last_word (inactive_file_lines stat)) (\<lambda>ws.
          r_bind (case ws of [] \<Rightarrow> Inl (IndexError ''list index out of range'') | x # xs \<Rightarrow> python_int x) (\<lambda>inactive.
          r_bind (fdiv ((used0 - inactive) * 100) total) (\<lambda>percent.
            Inr (Some \<lparr>mi_total = total, mi_percent = percent, mi_free = total - (used0 - inactive)\<rparr>)))))))"

definition get_memory_info ::
  "(int \<Rightarrow> int \<Rightarrow> rat result) \<Rightarrow> (string \<times> string \<times> string) option \<Rightarrow> memory_info \<Rightarrow> memory_info result"
where
  "get_memory_info fdiv files virtual_memory =
     r_bind (cgroup_memory fdiv files) (\<lambda>m.
       Inr (case m of None \<Rightarrow> virtual_memory
            | Some c \<Rightarrow> if mi_total c < mi_total virtual_memory then c else virtual_memory))"

definition memory_advice :: "memory_info \<Rightarrow> (string \<times> string) option" where
  "memory_advice m =
     (if mi_percent m > 90 then Some (''error'', ''You should disable some apps to reduce memory usage.'')
      else if mi_percent m > 75 then Some (''warning'', ''You should not install any new apps on this system.'')
      else None)"

definition memory_fields :: "(rat \<Rightarrow> string) \<Rightarrow> rat \<Rightarrow> string \<Rightarrow> memory_info \<Rightarrow> string \<times> string \<Rightarrow> notification_field list" where
  "memory_fields one_digit available size_unit m advice =
     [F_app_id (Some ''diagnostics''), F_severity (fst advice), F_title ''Low Memory'',
      F_message (Some ''System is low on memory: {percent_used}% used, {memory_available} {memory_available_unit} free. {advice_message}''),
      F_actions (JList [JDict [(''type'', JStr ''dismiss'')]]),
      F_data (JDict [(''app_icon'', JStr ''fa-heartbeat''), (''app_name'', JStr ''translate:Diagnostics''),
        (''percent_used'', JStr (one_digit (mi_percent m))), (''memory_available'', JStr (one_digit available)),
        (''memory_available_unit'', JStr (''translate:'' @ size_unit)),
        (''advice_message'', JStr (''translate:'' @ snd advice))]),
      F_group (Some ''admin'')]"

definition warn_about_low_ram_space ::
  "'w notify_env \<Rightarrow> (int \<Rightarrow> int \<Rightarrow> rat result) \<Rightarrow> (rat \<Rightarrow> string) \<Rightarrow> memory_info result \<Rightarrow> ('w, unit) prog"
where
  "warn_about_low_ram_space ne fdiv one_digit memory =
     p_bind (p_lift memory) (\<lambda>m.
     let mib = mi_free m < 1024 ^ 3
     in p_bind (p_lift (fdiv (mi_free m) (if mib then 1024 ^ 2 else 1024 ^ 3))) (\<lambda>available.
        case memory_advice m of
          None \<Rightarrow> delete_if_there ne ''diagnostics-low-ram-space''
        | Some advice \<Rightarrow>
            p_mod (\<lambda>w. ne_put ne (update_or_create ''diagnostics-low-ram-space''
              (memory_fields one_digit available (if mib then ''MiB'' else ''GiB'') m advice) (ne_now ne w) (ne_get ne w)) w)))"

end
