(* ===== verification/DiagnosticsLaws.thy ===== *)
theory DiagnosticsLaws
  imports Diagnostics
begin

text \<open>
  What a routine diagnosis leaves behind: complete results in memory and in the database, and a
  notification exactly when there are issues; and that the stored results give the same page after
  a restart.
\<close>

section \<open>The run\<close>

lemma on_apps_eval [prog_simps]: "m w = (r, w') \<Longrightarrow> on_apps m (w, c) = (r, (w', c))"
  by (simp add: on_apps_def)

definition waiting :: "full_results \<Rightarrow> string set" where
  "waiting r = {k. \<exists>e. (k, e) \<in> set (fr_results r) \<and> ae_outcome e = None}"

lemma note_outcome_simps:
  "od_keys (fr_results (note_outcome i n aid oc r)) = od_keys (fr_results r)"
  "waiting (note_outcome i n aid oc r) = waiting r - {aid}"
  "fr_progress (note_outcome i n aid oc r) = (int i + 1) * 100 div int n"
  "fr_exception (note_outcome i n aid oc r) = fr_exception r"
  by (auto simp: note_outcome_def waiting_def split: if_splits)

lemma diagnose_outcome_returns: "\<exists>oc w'. diagnose_outcome a w = (Inr oc, w')"
  by (auto simp: diagnose_outcome_def split: prod.split sum.split)

lemma diagnose_each_effect:
  "\<exists>w' r'. diagnose_each i n as (w, Some r) = (Inr (), (w', Some r')) \<and>
     od_keys (fr_results r') = od_keys (fr_results r) \<and> waiting r' = waiting r - app_id ` set as \<and>
     fr_exception r' = fr_exception r \<and>
     fr_progress r' = (if as = [] then fr_progress r else (int i + int (length as)) * 100 div int n)"
proof (induction as arbitrary: i w r)
  case Nil
  then show ?case by (simp add: prog_simps)
next
  case (Cons a as)
  obtain oc w1 where 1: "diagnose_outcome a w = (Inr oc, w1)" using diagnose_outcome_returns[of a w] by blast
  let ?r = "note_outcome i n (app_id a) oc r"
  obtain w' r' where 2: "diagnose_each (Suc i) n as (w1, Some ?r) = (Inr (), (w', Some r'))"
    "od_keys (fr_results r') = od_keys (fr_results ?r)" "waiting r' = waiting ?r - app_id ` set as"
    "fr_exception r' = fr_exception ?r"
    "fr_progress r' = (if as = [] then fr_progress ?r else (int (Suc i) + int (length as)) * 100 div int n)"
    using Cons.IH[of "Suc i" w1 ?r] by blast
  have "diagnose_each i n (a # as) (w, Some r) = (Inr (), (w', Some r'))"
    using 1 2(1) by (simp add: p_bind_def p_then_def on_apps_def change_results_def p_mod_def)
  moreover have "waiting r' = waiting r - app_id ` set (a # as)" using 2(3) by (auto simp: note_outcome_simps)
  ultimately show ?case using 2(2,4,5) by (auto simp: note_outcome_simps algebra_simps)
qed

definition fresh_entry :: "'w app \<Rightarrow> string \<times> diag_entry" where
  "fresh_entry a = (app_id a, \<lparr>ae_id = app_id a, ae_outcome = None\<rparr>)"

lemma select_apps_effect:
  assumes "select_apps as (w, Some r) = (Inr sel, s)" and "distinct (map app_id as)"
    and "set (od_keys (fr_results r)) \<inter> app_id ` set as = {}"
  shows "\<exists>w'. s = (w', Some (r\<lparr>fr_results := fr_results r @ map fresh_entry sel\<rparr>)) \<and> set sel \<subseteq> set as \<and>
    distinct (map app_id sel)"
  using assms
proof (induction as arbitrary: w r sel s)
  case Nil
  then show ?case by (auto simp: p_ret_def)
next
  case (Cons a as)
  obtain b w1 where b: "runs_diagnosis a w = (Inr b, w1)"
    using Cons.prems(1) by (auto simp: p_bind_def on_apps_def split: prod.splits sum.splits)
  show ?case
  proof (cases b)
    case False
    then have "select_apps as (w1, Some r) = (Inr sel, s)"
      using Cons.prems(1) b by (simp add: p_bind_def on_apps_def)
    from Cons.IH[OF this] Cons.prems(2,3) show ?thesis by auto
  next
    case True
    let ?r = "r\<lparr>fr_results := fr_results r @ [fresh_entry a]\<rparr>"
    have new: "od_set (fr_results r) (app_id a) \<lparr>ae_id = app_id a, ae_outcome = None\<rparr> = fr_results r @ [fresh_entry a]"
      using Cons.prems(3) by (subst od_set_new) (auto simp: fresh_entry_def)
    obtain sel1 where sel: "select_apps as (w1, Some ?r) = (Inr sel1, s)" "sel = a # sel1"
      using Cons.prems(1) b True
      by (auto simp: p_bind_def p_then_def p_ret_def on_apps_def change_results_def p_mod_def new split: prod.splits sum.splits)
    have "set (od_keys (fr_results ?r)) \<inter> app_id ` set as = {}"
      using Cons.prems(2,3) by (auto simp: fresh_entry_def)
    from Cons.IH[OF sel(1) _ this] Cons.prems(2) obtain w' where
      "s = (w', Some (?r\<lparr>fr_results := fr_results ?r @ map fresh_entry sel1\<rparr>))" "set sel1 \<subseteq> set as"
      "distinct (map app_id sel1)" by auto
    then show ?thesis using sel(2) Cons.prems(2) by (auto simp: fresh_entry_def)
  qed
qed

lemma run_on_all_effect:
  assumes "select_apps (od_values all_apps) (w, Some start_results) = (Inr sel, s)"
    and "distinct (map app_id (od_values all_apps))"
  shows "\<exists>w' r. run_on_all_enabled_modules all_apps (w, c) = (Inr (), (w', Some r)) \<and>
    od_keys (fr_results r) = map app_id sel \<and> (\<forall>p \<in> set (fr_results r). ae_outcome (snd p) \<noteq> None) \<and>
    fr_progress r = (if sel = [] then 0 else 100) \<and> fr_exception r = None"
proof -
  let ?r0 = "start_results\<lparr>fr_results := map fresh_entry sel\<rparr>"
  obtain w1 where s: "s = (w1, Some ?r0)"
    using select_apps_effect[OF assms(1,2)] by (auto simp: start_results_def)
  obtain w' r where r: "diagnose_each 0 (length sel) sel (w1, Some ?r0) = (Inr (), (w', Some r))"
    "od_keys (fr_results r) = od_keys (fr_results ?r0)" "waiting r = waiting ?r0 - app_id ` set sel"
    "fr_exception r = fr_exception ?r0"
    "fr_progress r = (if sel = [] then fr_progress ?r0 else (int 0 + int (length sel)) * 100 div int (length sel))"
    using diagnose_each_effect[of 0 "length sel" sel w1 ?r0] by blast
  have "waiting r = {}" using r(3) by (auto simp: waiting_def fresh_entry_def)
  then have "\<forall>p \<in> set (fr_results r). ae_outcome (snd p) \<noteq> None" by (force simp: waiting_def)
  moreover have "run_on_all_enabled_modules all_apps (w, c) = (Inr (), (w', Some r))"
    using assms(1) s r(1)
    by (simp add: run_on_all_enabled_modules_def p_then_def p_bind_def set_results_def p_mod_def)
  ultimately show ?thesis using r(2,4,5) by (auto simp: start_results_def fresh_entry_def o_def)
qed

section \<open>The verdict\<close>

definition has_exception :: "app_outcome \<Rightarrow> bool" where
  "has_exception oc \<longleftrightarrow> ao_exception oc \<notin> {None, Some []}"

definition bad_checks :: "app_outcome \<Rightarrow> diagnostic_check list" where
  "bad_checks oc = filter (\<lambda>ch. check_result ch \<notin> good_results) (ao_diagnosis oc)"

definition issues_of :: "app_outcome \<Rightarrow> int" where
  "issues_of oc = (if has_exception oc then 1 else int (length (bad_checks oc)))"

definition serious :: "app_outcome \<Rightarrow> bool" where
  "serious oc \<longleftrightarrow> has_exception oc \<or> (\<exists>ch \<in> set (bad_checks oc). check_result ch \<noteq> WARNING)"

definition outcomes :: "(string, diag_entry) odict \<Rightarrow> (string \<times> app_outcome) list" where
  "outcomes rs = map (\<lambda>p. (fst p, the (ae_outcome (snd p)))) rs"

definition verdict_of :: "(string, diag_entry) odict \<Rightarrow> verdict" where
  "verdict_of rs =
     \<lparr>vd_count = sum_list (map (issues_of \<circ> snd) (outcomes rs)),
      vd_severity = if \<exists>p \<in> set (outcomes rs). serious (snd p) then ''error'' else ''warning'',
      vd_apps = set (map fst (filter (\<lambda>p. \<not> has_exception (snd p) \<and> bad_checks (snd p) \<noteq> []) (outcomes rs)))\<rparr>"

lemma judge_checks:
  "fold (judge_check aid) chs v =
     \<lparr>vd_count = vd_count v + int (length (filter (\<lambda>ch. check_result ch \<notin> good_results) chs)),
      vd_severity = if \<exists>ch \<in> set chs. check_result ch \<notin> good_results \<and> check_result ch \<noteq> WARNING then ''error'' else vd_severity v,
      vd_apps = if \<exists>ch \<in> set chs. check_result ch \<notin> good_results then insert aid (vd_apps v) else vd_apps v\<rparr>"
  by (induction chs arbitrary: v) (auto simp: judge_check_def)

lemma judge_app_effect:
  "judge_app aid oc v =
     \<lparr>vd_count = vd_count v + issues_of oc,
      vd_severity = if serious oc then ''error'' else vd_severity v,
      vd_apps = if \<not> has_exception oc \<and> bad_checks oc \<noteq> [] then insert aid (vd_apps v) else vd_apps v\<rparr>"
proof (cases "has_exception oc")
  case True
  then show ?thesis by (simp add: judge_app_def has_exception_def issues_of_def serious_def)
next
  case False
  then show ?thesis
    by (auto simp: judge_app_def has_exception_def issues_of_def serious_def judge_checks bad_checks_def filter_empty_conv)
qed

lemma judge_all_effect:
  assumes "\<forall>p \<in> set rs. ae_outcome (snd p) \<noteq> None"
  shows "judge_all rs v = Inr
     \<lparr>vd_count = vd_count v + vd_count (verdict_of rs),
      vd_severity = if \<exists>p \<in> set (outcomes rs). serious (snd p) then ''error'' else vd_severity v,
      vd_apps = vd_apps v \<union> vd_apps (verdict_of rs)\<rparr>"
  using assms
proof (induction rs arbitrary: v)
  case Nil
  then show ?case by (simp add: verdict_of_def outcomes_def)
next
  case (Cons p rs)
  then obtain oc where "ae_outcome (snd p) = Some oc" by auto
  then show ?case using Cons by (auto simp: judge_app_effect verdict_of_def outcomes_def)
qed

lemma judge_all_verdict:
  "\<forall>p \<in> set rs. ae_outcome (snd p) \<noteq> None \<Longrightarrow> judge_all rs no_issues = Inr (verdict_of rs)"
  by (simp add: judge_all_effect no_issues_def verdict_of_def)

lemma delete_if_there_effect:
  assumes "notify_laws ne"
  shows "\<exists>w'. delete_if_there ne k w = (Inr (), w') \<and> map_of (ne_get ne w') k = None \<and>
    ((\<forall>db v. kv (ne_put ne db v) = kv v) \<longrightarrow> kv w' = kv w)"
  using assms
  by (cases "map_of (ne_get ne w) k")
     (simp_all add: delete_if_there_def notification_get_def p_mod_def notify_laws_def odict_simps)

lemma notify_issues_effect:
  assumes "notify_laws ne"
  shows "\<exists>w' n. notify_issues ne v w = (Inr (), w') \<and> map_of (ne_get ne w') ''diagnostics-background'' = Some n \<and>
    \<not> n_dismissed n \<and> n_severity n = vd_severity v \<and> n_group n = Some ''admin'' \<and>
    ((\<forall>db u. kv (ne_put ne db u) = kv u) \<longrightarrow> kv w' = kv w)"
  using assms
  by (simp add: notify_issues_def p_mod_def notify_laws_def dismiss_def update_or_create_def odict_simps Let_def
      issue_fields_def)


text \<open>A machine with one app that is set up, whose daemon does not run, and whose port check warns.\<close>

record noted_world = world +
  nw_notes :: notifications

definition noted_env :: "noted_world diag_env" where
  "noted_env =
     \<lparr>dg_notify = \<lparr>ne_get = nw_notes, ne_put = (\<lambda>db w. w\<lparr>nw_notes := db\<rparr>), ne_now = (\<lambda>w. 5), ne_str = (\<lambda>e. [])\<rparr>,
      dg_dumps = unary_text, dg_loads = (\<lambda>s. Inr (from_nat (length s))), dg_order = (\<lambda>s. [])\<rparr>"

definition broken_checks :: "diagnostic_check list" where
  "broken_checks =
     [\<lparr>check_id = ''daemon-running'', description = ''Service {service_name} is running'', check_result = FAILED,
       parameters = [(''service_name'', JStr ''tor'')], check_component_id = Some ''daemon-tor''\<rparr>,
      \<lparr>check_id = ''port'', description = ''Listening on port'', check_result = WARNING, parameters = [],
       check_component_id = None\<rparr>]"

definition checked_app :: "string \<Rightarrow> (noted_world, diagnostic_check list) prog \<Rightarrow> noted_world app" where
  "checked_app aid diagnosis =
     \<lparr>app_id = aid, can_be_disabled = True, configure_when_disabled = True,
      components = [(aid @ ''-info'',
        \<lparr>obj = \<lparr>component_id = aid @ ''-info'', comp_app_id = Some aid, is_leader = False, classes = [''Info''],
            info = Some \<lparr>version = 1, is_essential = False, depends = [], info_name = Some ''Tor'', icon = None,
              icon_filename = None, info_description = None, manual_page = None, clients = None,
              donation_url = None, tags = []\<rparr>, packages = None\<rparr>, vt = follower_vtable\<rparr>)],
      ov_post_init = p_ret (), ov_setup = None, ov_uninstall = None, ov_enable = None, ov_disable = None,
      ov_diagnose = Some diagnosis, ov_repair = None\<rparr>"

definition checked_apps :: "noted_world apps" where
  "checked_apps =
     [(''tor'', checked_app ''tor'' (p_ret broken_checks)), (''mumble'', checked_app ''mumble'' (p_raise AssertionError))]"

definition noted_start :: noted_world where
  "noted_start = \<lparr>kv = [], module_versions = [(''tor'', 1), (''mumble'', 1)], enabled_attr = [], nw_notes = []\<rparr>"

lemma checked_selected:
  "\<exists>s. select_apps (od_values checked_apps) (noted_start, Some start_results) = (Inr (od_values checked_apps), s)"
  by (simp add: checked_apps_def select_apps.simps runs_diagnosis_def needs_setup_def get_setup_state_def
      get_setup_version_eval checked_app_def noted_start_def app_info_def app_get_component_def od_get_def
      app_is_enabled_def app_has_diagnostics_def p_defs p_lift_def p_ret_def on_apps_def change_results_def p_mod_def)


text \<open>
  The diagnosis of the second app raises an exception without a text: it counts as healthy.
\<close>

lemma silent_exception_unnoticed:
  assumes "ao_exception oc = Some (exn_str AssertionError)" and "ao_diagnosis oc = []"
  shows "issues_of oc = 0 \<and> \<not> serious oc"
  using assms by (simp add: issues_of_def serious_def has_exception_def bad_checks_def)

section \<open>Stored results\<close>

text \<open>Parameters are texts, numbers, truth values or None, and none is the tag of the encoder.\<close>

fun atomic :: "json \<Rightarrow> bool" where
  "atomic (JList xs) = False"
| "atomic (JDict d) = False"
| "atomic v = True"

definition plain_check :: "diagnostic_check \<Rightarrow> bool" where
  "plain_check ch \<longleftrightarrow> (\<forall>p \<in> set (parameters ch). atomic (snd p)) \<and>
     map_of (parameters ch) ''__class__'' \<noteq> Some (JStr ''DiagnosticCheck'')"

definition plain_results :: "(string, diag_entry) odict \<Rightarrow> bool" where
  "plain_results rs \<longleftrightarrow>
     (\<forall>p \<in> set rs. \<forall>oc. ae_outcome (snd p) = Some oc \<longrightarrow> (\<forall>ch \<in> set (ao_diagnosis oc). plain_check ch))"

lemma decode_atomic: "atomic v \<Longrightarrow> decode v = Inr (L_atom v)"
  by (cases v) auto

lemma decode_atoms: "\<forall>p \<in> set d. atomic (snd p) \<Longrightarrow> decode_items d = Inr (map (\<lambda>(k, v). (k, L_atom v)) d)"
  by (induction d) (auto simp: decode_atomic)

lemma atoms_lookup: "map_of (map (\<lambda>(k, v). (k, L_atom v)) d) k = map_option L_atom (map_of d k)"
  by (induction d) auto

lemma atomic_text_json: "atomic (text_json s)"
  by (cases s) (simp_all add: text_json_def)

lemma decode_check:
  assumes "plain_check ch"
  shows "decode (encode_check ch) = Inr (check_value ch)"
proof -
  have "decode (JDict (parameters ch)) = Inr (L_dict (map (\<lambda>(k, v). (k, L_atom v)) (parameters ch)))"
    using assms by (auto simp: plain_check_def decode_atoms from_dict_def atoms_lookup)
  then show ?thesis
    by (simp add: encode_check_def check_value_def decode_atomic atomic_text_json from_dict_def l_get_def)
qed

lemma decode_checks:
  "\<forall>ch \<in> set chs. plain_check ch \<Longrightarrow> decode_list (map encode_check chs) = Inr (map check_value chs)"
  by (induction chs) (simp_all add: decode_check)

lemma decode_entry:
  assumes "\<forall>oc. ae_outcome e = Some oc \<longrightarrow> (\<forall>ch \<in> set (ao_diagnosis oc). plain_check ch)"
  shows "decode (encode_entry e) = Inr (entry_value e)"
  using assms
  by (cases "ae_outcome e")
     (simp_all add: encode_entry_def entry_value_def from_dict_def decode_checks decode_atomic atomic_text_json)

lemma decode_results:
  assumes "plain_results rs"
  shows "decode (encode_results rs) = Inr (L_dict (results_value rs))"
proof -
  have "decode_items (map (\<lambda>(k, e). (k, encode_entry e)) rs) = Inr (results_value rs)"
    using assms by (induction rs) (auto simp: plain_results_def results_value_def decode_entry)
  moreover have "map_of (results_value rs) ''__class__'' \<noteq> Some (L_atom (JStr ''DiagnosticCheck''))"
    by (induction rs) (auto simp: results_value_def entry_value_def)
  ultimately show ?thesis by (simp add: encode_results_def from_dict_def)
qed

text \<open>C36: the results of a routine diagnosis that are stored in the database give, after a restart of the
  service, the page that the results in memory gave when the run was complete: encoding checks
  as JSON and decoding them loses nothing.\<close>

theorem results_survive_restart:
  assumes "map_of (kv w) ''diagnostics_results'' = Some (JStr (dg_dumps env (encode_results rs)))"
    and "\<forall>j. dg_loads env (dg_dumps env j) = Inr j" and "plain_results rs"
  shows "fst (get_results env (\<lambda>r. None) all_apps (w, None)) =
    fst (get_results env (\<lambda>r. None) all_apps (w, Some \<lparr>fr_results = rs, fr_progress = 100, fr_exception = None\<rparr>))"
proof -
  have "stored_results env w = (Inr (encode_results rs), w)"
    using assms(1,2) by (simp add: stored_results_def kv_get_default_def kv_get_def prog_simps p_bind_def p_catch_def)
  then show ?thesis
    by (simp add: get_results_def p_bind_def p_get_def p_lift_def p_ret_def on_apps_def decode_results[OF assms(3)]
        split: sum.split)
qed

definition stored_run :: "(string, diag_entry) odict" where
  "stored_run =
     [(''tor'', \<lparr>ae_id = ''tor'', ae_outcome = Some \<lparr>ao_diagnosis = broken_checks, ao_exception = None, ao_show_repair = True\<rparr>\<rparr>)]"

theorem results_survive_restart_witness:
  "\<exists>name. fst (get_results noted_env (\<lambda>r. None) checked_apps
      (noted_start\<lparr>kv := [(''diagnostics_results'', JStr (unary_text (encode_results stored_run)))]\<rparr>, None)) =
    Inr (Results_page [(''tor'', entry_value (snd (hd stored_run)), name)] 100)"
proof -
  let ?w = "noted_start\<lparr>kv := [(''diagnostics_results'', JStr (unary_text (encode_results stored_run)))]\<rparr>"
  have "plain_results stored_run"
    by (simp add: plain_results_def stored_run_def plain_check_def broken_checks_def)
  then have "fst (get_results noted_env (\<lambda>r. None) checked_apps (?w, None)) =
    fst (get_results noted_env (\<lambda>r. None) checked_apps (?w, Some \<lparr>fr_results = stored_run, fr_progress = 100, fr_exception = None\<rparr>))"
    by (intro results_survive_restart) (simp_all add: noted_env_def)
  then show ?thesis
    by (simp add: get_results_def p_bind_def p_get_def p_lift_def p_ret_def stored_run_def results_value_def page_name_def
        checked_apps_def checked_app_def od_get_def app_info_def app_get_component_def)
qed

text \<open>Results of an app that the service no longer has make the page fail.\<close>

lemma stored_app_missing:
  assumes "map_of all_apps aid = None"
  shows "page_name all_apps (aid, v) = Inl (KeyError aid)"
  using assms by (simp add: page_name_def od_get_def)

end
