(* ===== verification/Network.thy ===== *)
theory Network
  imports Json "HOL-Library.Word"
begin

text \<open>
  Connections of NetworkManager (plinth/network.py). The client library is the state: the list of
  connections as this process sees them, what NetworkManager has stored of each, the connections
  that were asked for and do not exist yet, the active ones and the devices. A method of the code
  that changes a setting of a connection is a program over that connection. Address parsing, new
  UUIDs and the checks of the client library are parameters.
\<close>

section \<open>Connections\<close>

record ip_config =
  ic_method :: json
  ic_addresses :: "(string \<times> int) list"
  ic_gateway :: json
  ic_ignore_auto_dns :: bool
  ic_dns :: "json list"

record wireguard_peer =
  wp_public_key :: "string option"
  wp_endpoint :: "string option"
  wp_preshared_key :: "string option"
  wp_keep_secret :: bool
  wp_keepalive :: int
  wp_allowed_ips :: "string list"

record wireguard_setting =
  ws_private_key :: json
  ws_listen_port :: json
  ws_fwmark :: int
  ws_mtu :: int
  ws_peers :: "wireguard_peer list"

record wireless_setting =
  wl_ssid :: string
  wl_mode :: json
  wl_band :: json
  wl_channel :: json
  wl_bssid :: json

record nm_connection =
  cn_uuid :: string
  cn_id :: json
  cn_type :: json
  cn_interface :: json
  cn_zone :: json
  cn_dns_over_tls :: string
  cn_autoconnect :: json
  cn_ip4 :: "ip_config option"
  cn_ip6 :: "ip_config option"
  cn_pppoe :: "(json \<times> json) option"
  cn_ppp :: "(int \<times> int) option"
  cn_wireless :: "wireless_setting option"
  cn_security :: "(string \<times> json) option"
  cn_wireguard :: "wireguard_setting option"

record nm_lib =
  nl_inet_aton :: "json \<Rightarrow> 32 word result"
  nl_default_prefix :: "32 word \<Rightarrow> int"
  nl_netmask_prefix :: "32 word \<Rightarrow> int"
  nl_valid_key :: "string \<Rightarrow> bool"
  nl_valid_endpoint :: "string \<Rightarrow> bool"
  nl_allowed_ip :: "string \<Rightarrow> string option"

record network =
  nw_ready :: bool
  nw_connections :: "nm_connection list"
  nw_stored :: "(string, nm_connection) odict"
  nw_pending :: "nm_connection list"
  nw_active :: "string list"
  nw_primary :: "string option"
  nw_devices :: "string list"
  nw_activated :: "(string \<times> string) list"

text \<open>A connection without settings, and fresh settings of the kinds used.\<close>

definition new_connection :: nm_connection where
  "new_connection =
     \<lparr>cn_uuid = [], cn_id = JNull, cn_type = JNull, cn_interface = JNull, cn_zone = JNull, cn_dns_over_tls = ''default'',
      cn_autoconnect = JBool True, cn_ip4 = None, cn_ip6 = None, cn_pppoe = None, cn_ppp = None, cn_wireless = None,
      cn_security = None, cn_wireguard = None\<rparr>"

definition new_ip_config :: ip_config where
  "new_ip_config = \<lparr>ic_method = JNull, ic_addresses = [], ic_gateway = JNull, ic_ignore_auto_dns = False, ic_dns = []\<rparr>"

definition new_peer :: wireguard_peer where
  "new_peer = \<lparr>wp_public_key = None, wp_endpoint = None, wp_preshared_key = None, wp_keep_secret = False,
     wp_keepalive = 0, wp_allowed_ips = []\<rparr>"

definition new_wireguard :: wireguard_setting where
  "new_wireguard = \<lparr>ws_private_key = JNull, ws_listen_port = JInt 0, ws_fwmark = 0, ws_mtu = 0, ws_peers = []\<rparr>"

text \<open>\<open>append_peer\<close> replaces a peer with the same public key and puts the new one at the end.\<close>

definition append_peer :: "wireguard_peer \<Rightarrow> wireguard_peer list \<Rightarrow> wireguard_peer list" where
  "append_peer p ps = filter (\<lambda>q. wp_public_key q \<noteq> wp_public_key p) ps @ [p]"

definition append_allowed_ip :: "nm_lib \<Rightarrow> string \<Rightarrow> wireguard_peer \<Rightarrow> wireguard_peer" where
  "append_allowed_ip lib ip p =
     (case nl_allowed_ip lib ip of None \<Rightarrow> p | Some a \<Rightarrow> p\<lparr>wp_allowed_ips := wp_allowed_ips p @ [a]\<rparr>)"

definition set_public_key :: "nm_lib \<Rightarrow> string \<Rightarrow> wireguard_peer \<Rightarrow> wireguard_peer" where
  "set_public_key lib k p = (if nl_valid_key lib k then p\<lparr>wp_public_key := Some k\<rparr> else p)"

section \<open>Settings\<close>

text \<open>An assignment that is made when the dict has the key.\<close>

definition if_key :: "json \<Rightarrow> string \<Rightarrow> (json \<Rightarrow> ('w, unit) prog) \<Rightarrow> ('w, unit) prog" where
  "if_key d k f =
     p_bind (p_lift (contains_key d k)) (\<lambda>b. if b then p_bind (p_lift (subscript d k)) f else p_ret ())"

definition dns_over_tls_values :: "string list" where
  "dns_over_tls_values = [''default'', ''no'', ''opportunistic'', ''yes'']"

definition set_dns_over_tls :: "json \<Rightarrow> (nm_connection, unit) prog" where
  "set_dns_over_tls v =
     (case v of
        JStr s \<Rightarrow> if s \<in> set dns_over_tls_values then p_mod (\<lambda>c. c\<lparr>cn_dns_over_tls := s\<rparr>) else p_raise (KeyError s)
      | _ \<Rightarrow> p_raise (KeyError ''dns_over_tls''))"

definition update_common_settings :: "string \<Rightarrow> json \<Rightarrow> (nm_connection, unit) prog" where
  "update_common_settings uuid common =
     p_then (p_mod (\<lambda>c. c\<lparr>cn_uuid := uuid\<rparr>))
     (p_then (if_key common ''name'' (\<lambda>v. p_mod (\<lambda>c. c\<lparr>cn_id := v\<rparr>)))
     (p_then (if_key common ''type'' (\<lambda>v. p_mod (\<lambda>c. c\<lparr>cn_type := v\<rparr>)))
     (p_then (if_key common ''interface'' (\<lambda>v. p_mod (\<lambda>c. c\<lparr>cn_interface := v\<rparr>)))
     (p_then (if_key common ''zone'' (\<lambda>v. p_mod (\<lambda>c. c\<lparr>cn_zone := v\<rparr>)))
     (p_then (if_key common ''dns_over_tls'' set_dns_over_tls)
       (if_key common ''autoconnect'' (\<lambda>v. p_mod (\<lambda>c. c\<lparr>cn_autoconnect := v\<rparr>))))))))"

text \<open>IP settings: a new setting takes the place of the old one before its properties are set.\<close>

definition set_ip4 :: "(ip_config \<Rightarrow> ip_config) \<Rightarrow> (nm_connection, unit) prog" where
  "set_ip4 f = p_mod (\<lambda>c. c\<lparr>cn_ip4 := map_option f (cn_ip4 c)\<rparr>)"

definition set_ip6 :: "(ip_config \<Rightarrow> ip_config) \<Rightarrow> (nm_connection, unit) prog" where
  "set_ip6 f = p_mod (\<lambda>c. c\<lparr>cn_ip6 := map_option f (cn_ip6 c)\<rparr>)"

definition when_truthy :: "json \<Rightarrow> string \<Rightarrow> (json \<Rightarrow> ('w, unit) prog) \<Rightarrow> ('w, unit) prog" where
  "when_truthy d k f = p_bind (p_lift (subscript d k)) (\<lambda>v. if truthy v then f v else p_ret ())"

definition add_dns :: "((ip_config \<Rightarrow> ip_config) \<Rightarrow> (nm_connection, unit) prog) \<Rightarrow> json \<Rightarrow> (nm_connection, unit) prog" where
  "add_dns put d =
     p_then (when_truthy d ''dns'' (\<lambda>v. put (\<lambda>s. s\<lparr>ic_dns := ic_dns s @ [v]\<rparr>)))
       (when_truthy d ''second_dns'' (\<lambda>v. put (\<lambda>s. s\<lparr>ic_dns := ic_dns s @ [v]\<rparr>)))"

definition ignore_auto_dns :: "((ip_config \<Rightarrow> ip_config) \<Rightarrow> (nm_connection, unit) prog) \<Rightarrow> json \<Rightarrow> (nm_connection, unit) prog" where
  "ignore_auto_dns put d =
     p_bind (p_lift (subscript d ''dns'')) (\<lambda>v.
     p_bind (if truthy v then p_ret True else p_bind (p_lift (subscript d ''second_dns'')) (\<lambda>v2. p_ret (truthy v2))) (\<lambda>b.
       if b then put (\<lambda>s. s\<lparr>ic_ignore_auto_dns := True\<rparr>) else p_ret ()))"

definition ip4_prefix :: "nm_lib \<Rightarrow> 32 word \<Rightarrow> json \<Rightarrow> int result" where
  "ip4_prefix lib address netmask =
     (if \<not> truthy netmask then Inr (nl_default_prefix lib address)
      else r_bind (nl_inet_aton lib netmask) (\<lambda>m. Inr (nl_netmask_prefix lib m)))"

definition update_ipv4_settings :: "nm_lib \<Rightarrow> json \<Rightarrow> (nm_connection, unit) prog" where
  "update_ipv4_settings lib ipv4 =
     p_then (p_mod (\<lambda>c. c\<lparr>cn_ip4 := Some new_ip_config\<rparr>))
     (p_bind (p_lift (subscript ipv4 ''method'')) (\<lambda>method.
      p_then (set_ip4 (\<lambda>s. s\<lparr>ic_method := method\<rparr>))
      (p_bind (if method \<in> {JStr ''manual'', JStr ''shared''} then p_lift (subscript ipv4 ''address'') else p_ret JNull) (\<lambda>address.
       p_then
         (if truthy address
          then p_bind (p_lift (text_of address)) (\<lambda>text.
               p_bind (p_lift (nl_inet_aton lib address)) (\<lambda>n.
               p_bind (p_lift (subscript ipv4 ''netmask'')) (\<lambda>netmask.
               p_bind (p_lift (ip4_prefix lib n netmask)) (\<lambda>prefix.
               p_then (set_ip4 (\<lambda>s. s\<lparr>ic_addresses := ic_addresses s @ [(text, prefix)]\<rparr>))
               (p_bind (p_lift (subscript ipv4 ''gateway'')) (\<lambda>gateway.
                  set_ip4 (\<lambda>s. s\<lparr>ic_gateway := if truthy gateway then gateway else JStr ''0.0.0.0''\<rparr>)))))))
          else ignore_auto_dns set_ip4 ipv4)
         (add_dns set_ip4 ipv4)))))"

definition update_ipv6_settings :: "(json \<Rightarrow> int result) \<Rightarrow> json \<Rightarrow> (nm_connection, unit) prog" where
  "update_ipv6_settings to_int ipv6 =
     p_then (p_mod (\<lambda>c. c\<lparr>cn_ip6 := Some new_ip_config\<rparr>))
     (p_bind (p_lift (subscript ipv6 ''method'')) (\<lambda>method.
      p_then (set_ip6 (\<lambda>s. s\<lparr>ic_method := method\<rparr>))
      (p_bind (if method = JStr ''manual'' then p_lift (subscript ipv6 ''address'') else p_ret JNull) (\<lambda>address.
       p_bind (if truthy address then p_lift (subscript ipv6 ''prefix'') else p_ret JNull) (\<lambda>prefix.
       p_then
         (if truthy prefix
          then p_bind (p_lift (text_of address)) (\<lambda>text.
               p_bind (p_lift (to_int prefix)) (\<lambda>n.
               p_then (set_ip6 (\<lambda>s. s\<lparr>ic_addresses := ic_addresses s @ [(text, n)]\<rparr>))
               (p_bind (p_lift (subscript ipv6 ''gateway'')) (\<lambda>gateway.
                  set_ip6 (\<lambda>s. s\<lparr>ic_gateway := if truthy gateway then gateway else JStr ''::''\<rparr>)))))
          else ignore_auto_dns set_ip6 ipv6)
         (add_dns set_ip6 ipv6))))))"

definition update_pppoe_settings :: "json \<Rightarrow> (nm_connection, unit) prog" where
  "update_pppoe_settings pppoe =
     p_then (p_mod (\<lambda>c. c\<lparr>cn_pppoe := Some (case cn_pppoe c of None \<Rightarrow> (JNull, JNull) | Some s \<Rightarrow> s)\<rparr>))
     (p_bind (p_lift (subscript pppoe ''username'')) (\<lambda>u.
      p_then (p_mod (\<lambda>c. c\<lparr>cn_pppoe := map_option (\<lambda>(_, p). (u, p)) (cn_pppoe c)\<rparr>))
      (p_bind (p_lift (subscript pppoe ''password'')) (\<lambda>p.
      p_then (p_mod (\<lambda>c. c\<lparr>cn_pppoe := map_option (\<lambda>(u', _). (u', p)) (cn_pppoe c)\<rparr>))
        (p_mod (\<lambda>c. c\<lparr>cn_ppp := Some (5, 30)\<rparr>))))))"

definition new_wireless :: wireless_setting where
  "new_wireless = \<lparr>wl_ssid = [], wl_mode = JNull, wl_band = JNull, wl_channel = JInt 0, wl_bssid = JNull\<rparr>"

definition set_wireless :: "(wireless_setting \<Rightarrow> wireless_setting) \<Rightarrow> (nm_connection, unit) prog" where
  "set_wireless f = p_mod (\<lambda>c. c\<lparr>cn_wireless := map_option f (cn_wireless c)\<rparr>)"

definition update_wireless_settings :: "json \<Rightarrow> (nm_connection, unit) prog" where
  "update_wireless_settings wireless =
     p_then (p_mod (\<lambda>c. c\<lparr>cn_wireless := Some (case cn_wireless c of None \<Rightarrow> new_wireless | Some s \<Rightarrow> s)\<rparr>))
     (p_bind (p_lift (text_field wireless ''ssid'')) (\<lambda>ssid. p_then (set_wireless (\<lambda>s. s\<lparr>wl_ssid := ssid\<rparr>))
     (p_bind (p_lift (subscript wireless ''mode'')) (\<lambda>mode. p_then (set_wireless (\<lambda>s. s\<lparr>wl_mode := mode\<rparr>))
     (p_bind (p_lift (subscript wireless ''band'')) (\<lambda>band.
        p_then (set_wireless (\<lambda>s. s\<lparr>wl_band := if band = JStr ''auto'' then JNull else band\<rparr>))
     (p_bind (p_lift (subscript wireless ''channel'')) (\<lambda>channel.
        p_then (set_wireless (\<lambda>s. s\<lparr>wl_channel := if band = JStr ''auto'' \<or> \<not> truthy channel then JInt 0 else channel\<rparr>))
     (p_bind (p_lift (subscript wireless ''bssid'')) (\<lambda>bssid.
        p_then (set_wireless (\<lambda>s. s\<lparr>wl_bssid := if truthy bssid then bssid else JNull\<rparr>))
     (p_bind (p_lift (subscript wireless ''auth_mode'')) (\<lambda>auth.
      p_bind (if auth = JStr ''wpa'' then p_lift (subscript wireless ''passphrase'') else p_ret JNull) (\<lambda>passphrase.
        p_mod (\<lambda>c. c\<lparr>cn_security := if truthy passphrase then Some (''wpa-psk'', passphrase) else None\<rparr>))))))))))))))"

definition set_wireguard :: "(wireguard_setting \<Rightarrow> wireguard_setting) \<Rightarrow> (nm_connection, unit) prog" where
  "set_wireguard f = p_mod (\<lambda>c. c\<lparr>cn_wireguard := map_option f (cn_wireguard c)\<rparr>)"

definition server_peer :: "nm_lib \<Rightarrow> json \<Rightarrow> wireguard_peer result" where
  "server_peer lib wg =
     r_bind (text_field wg ''peer_public_key'') (\<lambda>k.
     r_bind (contains_key wg ''peer_endpoint'') (\<lambda>has.
     r_bind (if has then r_bind (text_field wg ''peer_endpoint'') (\<lambda>e. Inr (Some e)) else Inr None) (\<lambda>endpoint.
     r_bind (subscript wg ''preshared_key'') (\<lambda>psk.
     r_bind (if truthy psk then r_bind (text_of psk) (\<lambda>p. Inr (Some p)) else Inr None) (\<lambda>secret.
     r_bind (r_bind (subscript wg ''allowed_ips'') iter_json) (\<lambda>ips.
     r_bind (r_map text_of ips) (\<lambda>allowed.
       let p1 = set_public_key lib k new_peer;
           p2 = (case endpoint of None \<Rightarrow> p1
                 | Some e \<Rightarrow> if nl_valid_endpoint lib e then p1\<lparr>wp_endpoint := Some e\<rparr> else p1);
           p3 = (case secret of None \<Rightarrow> p2
                 | Some s \<Rightarrow> let q = p2\<lparr>wp_keep_secret := True\<rparr>
                            in if nl_valid_key lib s then q\<lparr>wp_preshared_key := Some s\<rparr> else q)
       in Inr (fold (append_allowed_ip lib) allowed p3))))))))"

definition update_wireguard_settings :: "nm_lib \<Rightarrow> json \<Rightarrow> (nm_connection, unit) prog" where
  "update_wireguard_settings lib wg =
     p_then (p_mod (\<lambda>c. c\<lparr>cn_wireguard := Some (case cn_wireguard c of None \<Rightarrow> new_wireguard | Some s \<Rightarrow> s)\<rparr>))
     (p_bind (p_lift (subscript wg ''private_key'')) (\<lambda>k.
      p_then (set_wireguard (\<lambda>s. s\<lparr>ws_private_key := k\<rparr>))
      (p_then (if_key wg ''listen_port'' (\<lambda>v. set_wireguard (\<lambda>s. s\<lparr>ws_listen_port := v\<rparr>)))
        (if_key wg ''peer_public_key'' (\<lambda>_. p_bind (p_lift (server_peer lib wg)) (\<lambda>p.
           set_wireguard (\<lambda>s. s\<lparr>ws_peers := append_peer p []\<rparr>)))))))"

definition if_settings :: "json \<Rightarrow> string \<Rightarrow> (json \<Rightarrow> (nm_connection, unit) prog) \<Rightarrow> (nm_connection, unit) prog" where
  "if_settings settings k f = if_key settings k (\<lambda>v. if truthy v then f v else p_ret ())"

definition update_settings ::
  "nm_lib \<Rightarrow> (json \<Rightarrow> int result) \<Rightarrow> string \<Rightarrow> json \<Rightarrow> (nm_connection, unit) prog"
where
  "update_settings lib to_int uuid settings =
     p_bind (p_lift (subscript settings ''common'')) (\<lambda>common.
     p_then (update_common_settings uuid common)
     (p_then (if_settings settings ''ipv4'' (update_ipv4_settings lib))
     (p_then (if_settings settings ''ipv6'' (update_ipv6_settings to_int))
     (p_then (if_settings settings ''pppoe'' update_pppoe_settings)
     (p_then (if_settings settings ''wireless'' update_wireless_settings)
       (if_settings settings ''wireguard'' (update_wireguard_settings lib)))))))"

section \<open>The client\<close>

definition get_nm_client :: "(network, unit) prog" where
  "get_nm_client = p_bind (p_get nw_ready) (\<lambda>b. if b then p_ret () else p_raise (OtherError ''Client not yet ready''))"

definition not_found :: "string \<Rightarrow> exn" where
  "not_found uuid = PlinthError ''ConnectionNotFound'' uuid"

fun is_not_found :: "exn \<Rightarrow> bool" where
  "is_not_found (PlinthError c m) = (c = ''ConnectionNotFound'')"
| "is_not_found e = False"

definition get_connection :: "string \<Rightarrow> (network, nm_connection) prog" where
  "get_connection uuid =
     p_then get_nm_client (p_bind (p_get nw_connections) (\<lambda>cs.
       case find (\<lambda>c. cn_uuid c = uuid) cs of None \<Rightarrow> p_raise (not_found uuid) | Some c \<Rightarrow> p_ret c))"

definition get_active_connection :: "string \<Rightarrow> (network, string) prog" where
  "get_active_connection uuid =
     p_then get_nm_client (p_bind (p_get nw_active) (\<lambda>us.
       if uuid \<in> set us then p_ret uuid else p_raise (not_found uuid)))"

definition get_connection_by_interface_name :: "string \<Rightarrow> (network, nm_connection option) prog" where
  "get_connection_by_interface_name name =
     p_then get_nm_client (p_get (\<lambda>w. find (\<lambda>c. cn_interface c = JStr name) (nw_connections w)))"

text \<open>A change of the connection with an UUID, kept even when it raises half way; and its commit.\<close>

definition on_connection :: "string \<Rightarrow> (nm_connection, unit) prog \<Rightarrow> (network, unit) prog" where
  "on_connection uuid m w =
     (case find (\<lambda>c. cn_uuid c = uuid) (nw_connections w) of
        None \<Rightarrow> (Inl (not_found uuid), w)
      | Some c \<Rightarrow> (case m c of (r, c') \<Rightarrow>
          (r, w\<lparr>nw_connections := map (\<lambda>d. if cn_uuid d = uuid then c' else d) (nw_connections w)\<rparr>)))"

definition commit_changes :: "string \<Rightarrow> (network, unit) prog" where
  "commit_changes uuid =
     p_mod (\<lambda>w. case find (\<lambda>c. cn_uuid c = uuid) (nw_connections w) of
        None \<Rightarrow> w | Some c \<Rightarrow> w\<lparr>nw_stored := od_set (nw_stored w) uuid c\<rparr>)"

definition add_connection :: "nm_lib \<Rightarrow> (json \<Rightarrow> int result) \<Rightarrow> (network, string) prog \<Rightarrow> json \<Rightarrow> (network, string) prog" where
  "add_connection lib to_int new_uuid settings =
     p_bind new_uuid (\<lambda>uuid. \<lambda>w.
       case update_settings lib to_int uuid settings new_connection of
         (Inl e, c) \<Rightarrow> (Inl e, w)
       | (Inr _, c) \<Rightarrow> p_then get_nm_client (p_then (p_mod (\<lambda>w. w\<lparr>nw_pending := nw_pending w @ [c]\<rparr>)) (p_ret uuid)) w)"

definition edit_connection :: "nm_lib \<Rightarrow> (json \<Rightarrow> int result) \<Rightarrow> string \<Rightarrow> json \<Rightarrow> (network, unit) prog" where
  "edit_connection lib to_int uuid settings =
     p_then (on_connection uuid (update_settings lib to_int uuid settings)) (commit_changes uuid)"

text \<open>The device of the interface is activated in the background; \<open>nw_activated\<close> is what was asked for.\<close>

definition activate_connection :: "string \<Rightarrow> (network, unit) prog" where
  "activate_connection uuid =
     p_bind (get_connection uuid) (\<lambda>c. p_bind (p_get nw_devices) (\<lambda>ds.
       case find (\<lambda>d. JStr d = cn_interface c) ds of
         None \<Rightarrow> p_raise (PlinthError ''DeviceNotFound'' uuid)
       | Some d \<Rightarrow> p_mod (\<lambda>w. w\<lparr>nw_activated := nw_activated w @ [(uuid, d)]\<rparr>)))"

definition deactivate_connection :: "string \<Rightarrow> (network, unit) prog" where
  "deactivate_connection uuid =
     p_bind (get_active_connection uuid) (\<lambda>u. p_mod (\<lambda>w. w\<lparr>nw_active := filter (\<lambda>v. v \<noteq> u) (nw_active w)\<rparr>))"

text \<open>The wait for the deactivation, at most ten times; the time that passes is \<open>nap\<close>.\<close>

primrec wait_inactive :: "nat \<Rightarrow> (network, unit) prog \<Rightarrow> string \<Rightarrow> (network, unit) prog" where
  "wait_inactive 0 nap uuid = p_ret ()"
| "wait_inactive (Suc n) nap uuid =
     p_bind (p_catch (p_then (get_active_connection uuid) (p_then nap (p_ret True)))
               (\<lambda>e. if is_not_found e then p_ret False else p_raise e))
       (\<lambda>again. if again then wait_inactive n nap uuid else p_ret ())"

definition reactivate_connection :: "(network, unit) prog \<Rightarrow> string \<Rightarrow> (network, unit) prog" where
  "reactivate_connection nap uuid =
     p_bind (p_catch (p_then (deactivate_connection uuid) (p_ret True))
               (\<lambda>e. if is_not_found e then p_ret False else p_raise e))
       (\<lambda>was_active. if \<not> was_active then p_ret ()
                     else p_then (wait_inactive 10 nap uuid) (activate_connection uuid))"

definition delete_connection :: "string \<Rightarrow> (network, json) prog" where
  "delete_connection uuid =
     p_bind (get_connection uuid) (\<lambda>c.
       p_then (p_mod (\<lambda>w. w\<lparr>nw_connections := filter (\<lambda>d. cn_uuid d \<noteq> uuid) (nw_connections w),
                           nw_stored := od_del (nw_stored w) uuid\<rparr>))
         (p_ret (cn_id c)))"

section \<open>Lists\<close>

record connection_row =
  cr_name :: json
  cr_uuid :: string
  cr_interface :: json
  cr_type :: json
  cr_type_name :: json
  cr_is_active :: bool
  cr_primary :: bool
  cr_zone :: json

definition connection_type_names :: "(string \<times> string) list" where
  "connection_type_names =
     [(''802-3-ethernet'', ''Ethernet''), (''802-11-wireless'', ''Wi-Fi''), (''pppoe'', ''PPPoE''), (''generic'', ''Generic'')]"

definition type_name :: "json \<Rightarrow> json" where
  "type_name t = (case t of JStr s \<Rightarrow> (case map_of connection_type_names s of None \<Rightarrow> t | Some n \<Rightarrow> JStr n) | _ \<Rightarrow> t)"

definition connection_row_of :: "network \<Rightarrow> nm_connection \<Rightarrow> connection_row" where
  "connection_row_of w c =
     \<lparr>cr_name = cn_id c, cr_uuid = cn_uuid c, cr_interface = cn_interface c, cr_type = cn_type c,
      cr_type_name = type_name (cn_type c), cr_is_active = (cn_uuid c \<in> set (nw_active w)),
      cr_primary = (nw_primary w = Some (cn_uuid c)), cr_zone = cn_zone c\<rparr>"

text \<open>The sort is stable: active connections first.\<close>

definition get_connection_list :: "(network, connection_row list) prog" where
  "get_connection_list =
     p_then get_nm_client (p_get (\<lambda>w.
       let rows = map (connection_row_of w) (filter (\<lambda>c. cn_type c \<noteq> JStr ''bridge'') (nw_connections w))
       in filter cr_is_active rows @ filter (\<lambda>r. \<not> cr_is_active r) rows))"

record access_point =
  pt_ssid :: "string option"
  pt_strength :: int
  pt_frequency :: int
  pt_path :: string

definition wifi_channels :: "(int \<times> int) list" where
  "wifi_channels =
     [(2412, 1), (2417, 2), (2422, 3), (2427, 4), (2432, 5), (2437, 6), (2442, 7), (2447, 8), (2452, 9), (2457, 10), (2462, 11)]"

text \<open>The text of a frequency in GHz is a parameter.\<close>

definition wifi_channel :: "(int \<Rightarrow> string) \<Rightarrow> int \<Rightarrow> json" where
  "wifi_channel ghz f = (case map_of wifi_channels f of Some c \<Rightarrow> JInt c | None \<Rightarrow> JStr (ghz f @ ''GHz''))"

definition wifi_access_point_status :: "(int \<Rightarrow> string) \<Rightarrow> access_point list option \<Rightarrow> string \<Rightarrow> (int \<times> json) option" where
  "wifi_access_point_status ghz points ssid =
     (if ssid = [] then None
      else case points of None \<Rightarrow> None
        | Some ps \<Rightarrow> map_option (\<lambda>p. (pt_strength p, wifi_channel ghz (pt_frequency p)))
                      (find (\<lambda>p. pt_ssid p = Some ssid) ps))"

end
