(* ===== verification/Wireguard.thy ===== *)
theory Wireguard
  imports Network Store Paths Names
begin

text \<open>
  WireGuard (plinth/modules/wireguard): the server connection wg0 with its clients, the connections
  to other servers, the information shown about them, and the forms. NetworkManager is the state of
  \<open>Network\<close>; the wg command, the clock and the parsing of addresses and keys are parameters.
\<close>

record wg_env =
  we_lib :: nm_lib
  we_to_int :: "json \<Rightarrow> int result"
  we_new_uuid :: "(network, string) prog"
  we_genkey :: "(network, string) prog"
  we_pubkey :: "string \<Rightarrow> (network, string) prog"
  we_interfaces :: "(network, string) prog"
  we_dump :: "(network, string) prog"
  we_sleep :: "(network, unit) prog"
  we_nap :: "(network, unit) prog"
  we_app_enabled :: "(network, bool) prog"

definition ip_template :: "nat \<Rightarrow> string" where
  "ip_template n = ''10.84.0.'' @ nat_str n"

section \<open>Status of the interfaces\<close>

text \<open>\<open>wg show all dump\<close>: the first line of an interface describes it, the others its peers.\<close>

record status_peer =
  sp_public_key :: "string option"
  sp_preshared_key :: "string option"
  sp_endpoint :: "string option"
  sp_allowed_ips :: "string option"
  sp_latest_handshake :: "int option"
  sp_transfer_rx :: "string option"
  sp_transfer_tx :: "string option"
  sp_persistent_keepalive :: "string option"

record interface_status =
  is_private_key :: "string option"
  is_public_key :: "string option"
  is_listen_port :: "string option"
  is_fwmark :: "string option"
  is_peers :: "status_peer list"

definition dump_fields :: "string \<Rightarrow> string option list" where
  "dump_fields line = map (\<lambda>f. if f = ''(none)'' then None else Some f) (split_words line)"

definition field_at :: "string option list \<Rightarrow> nat \<Rightarrow> string option result" where
  "field_at fs i = (if i < length fs then Inr (fs ! i) else Inl (IndexError ''list index out of range''))"

definition handshake_of :: "string option \<Rightarrow> int option result" where
  "handshake_of f =
     (case f of None \<Rightarrow> Inl (TypeError ''int() argument must be a string'')
      | Some s \<Rightarrow> r_bind (python_int s) (\<lambda>n. Inr (if n \<noteq> 0 then Some n else None)))"

definition peer_line :: "string option list \<Rightarrow> status_peer result" where
  "peer_line fs =
     r_bind (r_bind (field_at fs 5) handshake_of) (\<lambda>h.
     r_bind (r_map (field_at fs) [1, 2, 3, 4, 6, 7, 8]) (\<lambda>v.
       Inr \<lparr>sp_public_key = v ! 0, sp_preshared_key = v ! 1, sp_endpoint = v ! 2, sp_allowed_ips = v ! 3,
            sp_latest_handshake = h, sp_transfer_rx = v ! 4, sp_transfer_tx = v ! 5, sp_persistent_keepalive = v ! 6\<rparr>))"

definition interface_line :: "string option list \<Rightarrow> interface_status result" where
  "interface_line fs =
     r_bind (r_map (field_at fs) [1, 2, 3, 4]) (\<lambda>v.
       Inr \<lparr>is_private_key = v ! 0, is_public_key = v ! 1, is_listen_port = v ! 2, is_fwmark = v ! 3, is_peers = []\<rparr>)"

primrec read_dump ::
  "string list \<Rightarrow> (string option, interface_status) odict \<Rightarrow> (string option, interface_status) odict result"
where
  "read_dump [] ifs = Inr ifs"
| "read_dump (l # ls) ifs =
     (if l = [] then read_dump ls ifs
      else let fs = dump_fields l
           in r_bind (field_at fs 0) (\<lambda>name.
              case map_of ifs name of
                Some st \<Rightarrow> r_bind (peer_line fs) (\<lambda>p. read_dump ls (od_set ifs name (st\<lparr>is_peers := is_peers st @ [p]\<rparr>)))
              | None \<Rightarrow> r_bind (interface_line fs) (\<lambda>st. read_dump ls (od_set ifs name st))))"

definition wireguard_status :: "wg_env \<Rightarrow> (network, (string option, interface_status) odict) prog" where
  "wireguard_status env =
     p_bind (we_dump env) (\<lambda>out. p_lift (read_dump (split_on (CHR 0x0A) (strip_str out)) []))"

section \<open>Information\<close>

text \<open>A peer has what NetworkManager knows of it, the status of the interface, or both.\<close>

record peer_info =
  pe_config :: "wireguard_peer option"
  pe_status :: "status_peer option"

record wg_info =
  wi_interface :: json
  wi_private_key :: json
  wi_public_key :: "string option"
  wi_listen_port :: json
  wi_fwmark :: int
  wi_mtu :: int
  wi_peers :: "(string option, peer_info) odict"
  wi_default_route :: bool
  wi_ip_address :: string
  wi_ip_address_and_network :: string

definition nm_address_info :: "ip_config option \<Rightarrow> ip_config option \<Rightarrow> string \<times> string" where
  "nm_address_info ip4 ip6 =
     (case concat (map (\<lambda>s. case s of None \<Rightarrow> [] | Some c \<Rightarrow> take 1 (ic_addresses c)) [ip4, ip6]) of
        [] \<Rightarrow> ([], [])
      | (a, prefix) # _ \<Rightarrow> (a, a @ ''/'' @ int_str prefix))"

definition is_wireguard :: "nm_connection \<Rightarrow> bool" where
  "is_wireguard c \<longleftrightarrow> cn_type c = JStr ''wireguard''"

definition connection_info :: "nm_connection \<Rightarrow> wg_info result" where
  "connection_info c =
     (case cn_wireguard c of
        None \<Rightarrow> Inl (AttributeError ''get_private_key'')
      | Some s \<Rightarrow>
          let ps = fold (\<lambda>p d. od_set d (wp_public_key p) \<lparr>pe_config = Some p, pe_status = None\<rparr>) (ws_peers s) [];
              address = nm_address_info (cn_ip4 c) (cn_ip6 c)
          in Inr \<lparr>wi_interface = cn_interface c, wi_private_key = ws_private_key s, wi_public_key = None,
               wi_listen_port = ws_listen_port s, wi_fwmark = ws_fwmark s, wi_mtu = ws_mtu s, wi_peers = ps,
               wi_default_route = (\<exists>q \<in> set (od_values ps). case pe_config q of None \<Rightarrow> False
                 | Some p \<Rightarrow> ''0.0.0.0/0'' \<in> set (wp_allowed_ips p) \<and> ''::/0'' \<in> set (wp_allowed_ips p)),
               wi_ip_address = fst address, wi_ip_address_and_network = snd address\<rparr>)"

definition get_nm_info :: "(network, (json, wg_info) odict) prog" where
  "get_nm_info =
     p_then get_nm_client (p_bind (p_get nw_connections) (\<lambda>cs.
     p_bind (p_lift (r_map connection_info (filter is_wireguard cs))) (\<lambda>infos.
       p_ret (fold (\<lambda>i d. od_set d (wi_interface i) i) infos []))))"

definition add_status :: "interface_status \<Rightarrow> wg_info \<Rightarrow> wg_info" where
  "add_status st i =
     i\<lparr>wi_public_key := is_public_key st,
       wi_peers := fold (\<lambda>p d. od_set d (sp_public_key p)
         (case map_of d (sp_public_key p) of None \<Rightarrow> \<lparr>pe_config = None, pe_status = Some p\<rparr>
          | Some q \<Rightarrow> q\<lparr>pe_status := Some p\<rparr>)) (is_peers st) (wi_peers i)\<rparr>"

definition complete_info ::
  "wg_env \<Rightarrow> (string option, interface_status) odict \<Rightarrow> wg_info \<Rightarrow> (network, wg_info) prog"
where
  "complete_info env status i =
     (case (case wi_interface i of JStr n \<Rightarrow> map_of status (Some n) | JNull \<Rightarrow> map_of status None | _ \<Rightarrow> None) of
        Some st \<Rightarrow>
          if is_public_key st \<notin> {None, Some []} then p_ret (add_status st i)
          else p_bind (p_bind (p_lift (text_of (wi_private_key i))) (we_pubkey env)) (\<lambda>k. p_ret (i\<lparr>wi_public_key := Some k\<rparr>))
      | None \<Rightarrow> p_bind (p_bind (p_lift (text_of (wi_private_key i))) (we_pubkey env)) (\<lambda>k. p_ret (i\<lparr>wi_public_key := Some k\<rparr>)))"

text \<open>\<open>get_info\<close>: our server, and the connections to other servers.\<close>

definition get_wireguard_info :: "wg_env \<Rightarrow> (network, wg_info option \<times> (json, wg_info) odict) prog" where
  "get_wireguard_info env =
     p_bind (wireguard_status env) (\<lambda>status.
     p_bind get_nm_info (\<lambda>infos.
     p_bind (p_map (\<lambda>p. p_bind (complete_info env status (snd p)) (\<lambda>i. p_ret (fst p, i))) infos) (\<lambda>done_infos.
       p_ret (map_of done_infos (JStr ''wg0''), filter (\<lambda>p. fst p \<noteq> JStr ''wg0'') done_infos))))"

section \<open>Keys and interfaces\<close>

definition generate_private_key :: "wg_env \<Rightarrow> (network, string) prog" where
  "generate_private_key env = p_bind (we_genkey env) (\<lambda>out. p_ret (strip_str out))"

definition generate_client_keypair :: "wg_env \<Rightarrow> (network, string \<times> string) prog" where
  "generate_client_keypair env =
     p_bind (generate_private_key env) (\<lambda>k. p_bind (we_pubkey env k) (\<lambda>p. p_ret (k, p)))"

text \<open>The first of wg1, wg2, ... that is not in use; one of the first \<open>length used + 1\<close> is free.\<close>

definition interface_name :: "nat \<Rightarrow> string" where
  "interface_name n = ''wg'' @ nat_str n"

definition next_interface :: "string list \<Rightarrow> string option" where
  "next_interface used = find (\<lambda>i. i \<notin> set used) (map interface_name [1..<length used + 2])"

definition find_next_interface :: "wg_env \<Rightarrow> (network, string) prog" where
  "find_next_interface env =
     p_bind (we_interfaces env) (\<lambda>out.
       case next_interface (split_words (strip_str out)) of None \<Rightarrow> p_raise (RuntimeError ''unreachable'') | Some i \<Rightarrow> p_ret i)"

section \<open>Connections to servers\<close>

definition put_common :: "json \<Rightarrow> string \<Rightarrow> json \<Rightarrow> json result" where
  "put_common settings k v =
     r_bind (subscript settings ''common'') (\<lambda>c. r_bind (json_put c k v) (json_put settings ''common''))"

definition with_private_key :: "wg_env \<Rightarrow> json \<Rightarrow> (network, json) prog" where
  "with_private_key env settings =
     p_bind (p_lift (subscript settings ''wireguard'')) (\<lambda>wg.
     p_bind (p_lift (subscript wg ''private_key'')) (\<lambda>k.
       if truthy k then p_ret settings
       else p_bind (generate_private_key env) (\<lambda>key.
            p_lift (r_bind (json_put wg ''private_key'' (JStr key)) (json_put settings ''wireguard'')))))"

definition add_server :: "wg_env \<Rightarrow> json \<Rightarrow> (network, unit) prog" where
  "add_server env settings =
     p_bind (find_next_interface env) (\<lambda>name.
     p_bind (p_lift (r_bind (put_common settings ''name'' (JStr (''WireGuard-Client-'' @ name)))
                      (\<lambda>s. put_common s ''interface'' (JStr name)))) (\<lambda>s1.
     p_bind (we_app_enabled env) (\<lambda>enabled.
     p_bind (p_lift (put_common s1 ''autoconnect'' (JBool enabled))) (\<lambda>s2.
     p_bind (with_private_key env s2) (\<lambda>s3.
       p_then (add_connection (we_lib env) (we_to_int env) (we_new_uuid env) s3) (p_ret ()))))))"

definition edit_server :: "wg_env \<Rightarrow> string \<Rightarrow> json \<Rightarrow> (network, unit) prog" where
  "edit_server env name settings =
     p_bind (p_lift (r_bind (put_common settings ''interface'' (JStr name))
                      (\<lambda>s. put_common s ''name'' (JStr (''WireGuard-Client-'' @ name))))) (\<lambda>s1.
     p_bind (with_private_key env s1) (\<lambda>s2.
     p_bind (get_connection_by_interface_name name) (\<lambda>c.
       case c of
         None \<Rightarrow> p_raise (AttributeError ''get_uuid'')
       | Some c \<Rightarrow> p_then (edit_connection (we_lib env) (we_to_int env) (cn_uuid c) s2)
                     (reactivate_connection (we_nap env) (cn_uuid c)))))"

section \<open>The server and its clients\<close>

definition server_settings :: "bool \<Rightarrow> string \<Rightarrow> json" where
  "server_settings enabled private_key =
     JDict
       [(''common'', JDict [(''name'', JStr ''WireGuard-Server-wg0''), (''type'', JStr ''wireguard''),
           (''zone'', JStr ''internal''), (''interface'', JStr ''wg0''), (''autoconnect'', JBool enabled)]),
        (''ipv4'', JDict [(''method'', JStr ''manual''), (''address'', JStr (ip_template 1)),
           (''netmask'', JStr ''255.255.255.0''), (''gateway'', JStr []), (''dns'', JStr []), (''second_dns'', JStr [])]),
        (''wireguard'', JDict [(''private_key'', JStr private_key), (''listen_port'', JInt 51820)])]"

definition setup_server :: "wg_env \<Rightarrow> (network, unit) prog" where
  "setup_server env =
     p_bind (generate_private_key env) (\<lambda>k.
     p_bind (we_app_enabled env) (\<lambda>enabled.
       p_then (add_connection (we_lib env) (we_to_int env) (we_new_uuid env) (server_settings enabled k)) (p_ret ())))"

definition allocated_ips :: "wireguard_peer list \<Rightarrow> string set" where
  "allocated_ips ps = set (concat (map wp_allowed_ips ps))"

definition next_available_ip_address :: "wireguard_peer list \<Rightarrow> string result" where
  "next_available_ip_address ps =
     (case find (\<lambda>ip. ip \<notin> allocated_ips ps) (map ip_template [2..<254]) of
        None \<Rightarrow> Inl (IndexError ''Reached client limit'') | Some ip \<Rightarrow> Inr ip)"

text \<open>\<open>_server_connection\<close>: up to ten seconds are given to a new connection to appear.\<close>

primrec wait_for_server :: "nat \<Rightarrow> wg_env \<Rightarrow> nm_connection option \<Rightarrow> (network, nm_connection option) prog" where
  "wait_for_server 0 env c = p_ret c"
| "wait_for_server (Suc n) env c =
     p_then (we_sleep env) (p_bind (get_connection_by_interface_name ''wg0'') (\<lambda>c'.
       if c' \<noteq> None then p_ret c' else wait_for_server n env c'))"

definition server_connection :: "wg_env \<Rightarrow> (network, nm_connection) prog" where
  "server_connection env =
     p_bind (get_connection_by_interface_name ''wg0'') (\<lambda>c0.
     p_then (if c0 = None then setup_server env else p_ret ())
     (p_bind (wait_for_server 10 env c0) (\<lambda>c.
        case c of None \<Rightarrow> p_raise (RuntimeError ''Unable to create a server connection.'') | Some c \<Rightarrow> p_ret c)))"

definition peers_of :: "nm_connection \<Rightarrow> wireguard_peer list result" where
  "peers_of c = (case cn_wireguard c of None \<Rightarrow> Inl (AttributeError ''get_peer'') | Some s \<Rightarrow> Inr (ws_peers s))"

definition client_peer :: "wg_env \<Rightarrow> string \<Rightarrow> string \<Rightarrow> wireguard_peer" where
  "client_peer env key ip =
     append_allowed_ip (we_lib env) ip ((set_public_key (we_lib env) key new_peer)\<lparr>wp_keepalive := 25\<rparr>)"

text \<open>What the changes of clients share: edit the peers, commit, reactivate.\<close>

definition change_peers :: "wg_env \<Rightarrow> string \<Rightarrow> (wireguard_peer list \<Rightarrow> wireguard_peer list) \<Rightarrow> (network, unit) prog" where
  "change_peers env uuid f =
     p_then (on_connection uuid (set_wireguard (\<lambda>s. s\<lparr>ws_peers := f (ws_peers s)\<rparr>)))
     (p_then (commit_changes uuid) (reactivate_connection (we_nap env) uuid))"

definition add_client :: "wg_env \<Rightarrow> string \<Rightarrow> (network, unit) prog" where
  "add_client env key =
     p_bind (server_connection env) (\<lambda>c.
     p_bind (p_lift (peers_of c)) (\<lambda>ps.
       if Some key \<in> set (map wp_public_key ps) then p_raise (ValueError ''Peer with public key already exists'')
       else p_bind (p_lift (next_available_ip_address ps)) (\<lambda>ip.
            change_peers env (cn_uuid c) (append_peer (client_peer env key ip)))))"

definition drop_first_key :: "string \<Rightarrow> wireguard_peer list \<Rightarrow> wireguard_peer list" where
  "drop_first_key key ps =
     takeWhile (\<lambda>p. wp_public_key p \<noteq> Some key) ps @ tl (dropWhile (\<lambda>p. wp_public_key p \<noteq> Some key) ps)"

definition remove_client :: "wg_env \<Rightarrow> string \<Rightarrow> (network, unit) prog" where
  "remove_client env key =
     p_bind (server_connection env) (\<lambda>c.
     p_bind (p_lift (peers_of c)) (\<lambda>ps.
       if Some key \<notin> set (map wp_public_key ps) then p_raise (KeyError ''Client not found'')
       else change_peers env (cn_uuid c) (drop_first_key key)))"

definition build_client_config :: "wg_env \<Rightarrow> string \<Rightarrow> string \<Rightarrow> string \<Rightarrow> string \<Rightarrow> (network, string) prog" where
  "build_client_config env ip private_key public_key endpoint =
     p_bind (get_wireguard_info env) (\<lambda>(server, others).
       case server of
         None \<Rightarrow> p_raise (RuntimeError ''WireGuard server not configured'')
       | Some s \<Rightarrow>
           p_ret (join_str [CHR 0x0A]
             [''[Interface]'', ''PrivateKey = '' @ private_key, ''Address = '' @ ip @ ''/32'', ''DNS = 10.84.0.1'', [],
              ''[Peer]'', ''PublicKey = '' @ (case wi_public_key s of None \<Rightarrow> ''None'' | Some k \<Rightarrow> k),
              ''AllowedIPs = 0.0.0.0/0'', ''Endpoint = '' @ endpoint, ''PersistentKeepalive = 25'']))"

section \<open>Enabling\<close>

definition enable_connection :: "wg_env \<Rightarrow> bool \<Rightarrow> nm_connection \<Rightarrow> (network, unit) prog" where
  "enable_connection env enable c =
     p_then (edit_connection (we_lib env) (we_to_int env) (cn_uuid c)
               (JDict [(''common'', JDict [(''autoconnect'', JBool enable)])]))
       (if enable then activate_connection (cn_uuid c)
        else p_catch (deactivate_connection (cn_uuid c)) (\<lambda>e. if is_not_found e then p_ret () else p_raise e))"

definition enable_connections :: "wg_env \<Rightarrow> bool \<Rightarrow> (network, unit) prog" where
  "enable_connections env enable =
     p_then get_nm_client (p_bind (p_get nw_connections) (\<lambda>cs.
       p_for (enable_connection env enable) (filter is_wireguard cs)))"

definition delete_connections :: "(network, unit) prog" where
  "delete_connections =
     p_then get_nm_client (p_bind (p_get nw_connections) (\<lambda>cs.
       p_for (\<lambda>c. p_then (delete_connection (cn_uuid c)) (p_ret ())) (filter is_wireguard cs)))"

section \<open>Forms and views\<close>

text \<open>\<open>validate_key\<close> with base64 as a parameter; \<open>validate_endpoint\<close> reads the port after the last colon.\<close>

definition validate_wireguard_key :: "(string \<Rightarrow> string option) \<Rightarrow> (string \<Rightarrow> string) \<Rightarrow> string \<Rightarrow> unit result" where
  "validate_wireguard_key b64decode b64encode key =
     (case b64decode key of
        Some k \<Rightarrow> if length k = 32 \<and> b64encode k = key then Inr () else Inl (ValidationError ''Invalid key.'')
      | None \<Rightarrow> Inl (ValidationError ''Invalid key.''))"

definition split_port :: "string \<Rightarrow> (string \<times> string) option" where
  "split_port s =
     (if CHR '':'' \<in> set s
      then Some (rev (tl (dropWhile (\<lambda>c. c \<noteq> CHR '':'') (rev s))), rev (takeWhile (\<lambda>c. c \<noteq> CHR '':'') (rev s)))
      else None)"

definition validate_endpoint :: "string \<Rightarrow> unit result" where
  "validate_endpoint endpoint =
     (let invalid = Inl (ValidationError ''Invalid endpoint.'')
      in case split_port endpoint of
           None \<Rightarrow> invalid
         | Some (destination, port) \<Rightarrow>
             (case python_int port of
                Inl e \<Rightarrow> invalid
              | Inr n \<Rightarrow>
                  if destination = [] then Inl (IndexError ''string index out of range'')
                  else if hd destination = CHR ''['' \<and> (last destination \<noteq> CHR '']'' \<or> length destination < 3) then invalid
                  else if 1 \<le> n \<and> n < 65535 then Inr () else invalid))"

record ip_interface =
  ii_version :: int
  ii_ip :: string
  ii_netmask :: string
  ii_prefixlen :: int
  ii_text :: string

definition ip_settings :: "ip_interface \<Rightarrow> json" where
  "ip_settings i =
     JDict ([(''method'', JStr ''manual''), (''address'', JStr (ii_ip i))] @
       (if ii_version i = 4 then [(''netmask'', JStr (ii_netmask i))] else [(''prefix'', JInt (ii_prefixlen i))]) @
       [(''gateway'', JStr []), (''dns'', JStr []), (''second_dns'', JStr [])])"

definition get_server_settings :: "(string \<Rightarrow> ip_interface result) \<Rightarrow> json \<Rightarrow> json result" where
  "get_server_settings parse data =
     r_bind (text_field data ''ip_address_and_network'') (\<lambda>t.
     r_bind (parse t) (\<lambda>i.
     r_bind (subscript data ''default_route'') (\<lambda>route.
     r_bind (r_map (\<lambda>k. r_bind (subscript data k) (\<lambda>v. Inr (k, v)))
              [''peer_endpoint'', ''peer_public_key'', ''private_key'', ''preshared_key'']) (\<lambda>fs.
       Inr (JDict
         [(''common'', JDict [(''type'', JStr ''wireguard''), (''zone'', JStr ''external'')]),
          (''wireguard'', JDict (fs @ [(''allowed_ips'',
             JList (map JStr (if truthy route then [''0.0.0.0/0'', ''::/0''] else [ii_text i])))])),
          (if ii_version i = 4 then ''ipv4'' else ''ipv6'', ip_settings i)])))))"

fun is_value_error :: "exn \<Rightarrow> bool" where
  "is_value_error (ValueError m) = True"
| "is_value_error e = False"

text \<open>What a submission answers: its message, after which the browser is redirected.\<close>

datatype client_answer = Client_added | Client_exists | Client_updated | Client_deleted | Client_missing | Session_expired

definition add_client_form_valid :: "wg_env \<Rightarrow> string \<Rightarrow> (network, client_answer) prog" where
  "add_client_form_valid env key =
     p_catch (p_then (add_client env key) (p_ret Client_added))
       (\<lambda>e. if is_value_error e then p_ret Client_exists else p_raise e)"

text \<open>The page that makes a key pair keeps it in the session; the key is taken out of it when it is added.\<close>

definition auto_add_client_form_valid :: "wg_env \<Rightarrow> string option \<Rightarrow> (network, client_answer) prog" where
  "auto_add_client_form_valid env session_key =
     p_catch (case session_key of
                None \<Rightarrow> p_raise (KeyError ''client_pubkey'')
              | Some k \<Rightarrow> p_then (add_client env k) (p_ret Client_added))
       (\<lambda>e. if is_key_error e then p_ret Session_expired
            else if is_value_error e then p_ret Client_exists else p_raise e)"

definition edit_client_form_valid :: "wg_env \<Rightarrow> string \<Rightarrow> string \<Rightarrow> (network, client_answer) prog" where
  "edit_client_form_valid env old_key key =
     (if old_key = key then p_ret Client_updated
      else p_then (p_catch (add_client env key) (\<lambda>e. if is_value_error e then p_ret () else p_raise e))
             (p_then (remove_client env old_key) (p_ret Client_updated)))"

definition delete_client_post :: "wg_env \<Rightarrow> string \<Rightarrow> (network, client_answer) prog" where
  "delete_client_post env key =
     p_catch (p_then (remove_client env key) (p_ret Client_deleted))
       (\<lambda>e. if is_key_error e then p_ret Client_missing else p_raise e)"

text \<open>
  The context of the page that makes a key pair: the endpoint is only bound when there is a server,
  and the handler of its try block calls \<open>messages.warning\<close> without the request.
\<close>

definition local_domain :: "string \<Rightarrow> bool" where
  "local_domain d \<longleftrightarrow> ends_with d ''.local''"

definition json_text :: "json \<Rightarrow> string" where
  "json_text v = (case v of JStr s \<Rightarrow> s | JInt n \<Rightarrow> int_str n | JNull \<Rightarrow> ''None'' | _ \<Rightarrow> [])"

definition auto_endpoint :: "string list \<Rightarrow> wg_info option \<Rightarrow> string option result" where
  "auto_endpoint domains server =
     (case server of
        None \<Rightarrow> Inr None
      | Some s \<Rightarrow> (case filter (\<lambda>d. \<not> local_domain d) domains of
                    [] \<Rightarrow> Inl (IndexError ''list index out of range'')
                  | d # _ \<Rightarrow> Inr (Some (d @ '':'' @ json_text (wi_listen_port s)))))"

definition auto_add_context :: "wg_env \<Rightarrow> string list \<Rightarrow> (network, string \<times> string \<times> string \<times> string) prog" where
  "auto_add_context env domains =
     p_bind (get_wireguard_info env) (\<lambda>(server, others).
     p_bind (p_lift (auto_endpoint domains server)) (\<lambda>endpoint.
       p_catch
         (p_bind (generate_client_keypair env) (\<lambda>(private_key, public_key).
          p_bind (server_connection env) (\<lambda>c.
          p_bind (p_lift (r_bind (peers_of c) next_available_ip_address)) (\<lambda>ip.
            case endpoint of
              None \<Rightarrow> p_raise (PlinthError ''UnboundLocalError'' ''endpoint'')
            | Some e \<Rightarrow> p_ret (ip, private_key, public_key, e)))))
         (\<lambda>e. p_raise (TypeError ''warning() missing 1 required positional argument''))))"

text \<open>The domains under which the server can be reached.\<close>

definition server_endpoints :: "string list \<Rightarrow> wg_info \<Rightarrow> string list" where
  "server_endpoints domains s =
     map (\<lambda>d. d @ '':'' @ json_text (wi_listen_port s)) (filter (\<lambda>d. \<not> local_domain d) domains)"

end
