(* ===== verification/WireguardLaws.thy ===== *)
theory WireguardLaws
  imports Wireguard
begin

text \<open>
  The clients of the WireGuard server: whatever requests are made, in whatever order and however they
  end, every client has a key and an address of its own.
\<close>

section \<open>Addresses\<close>

definition digits_nat :: "string \<Rightarrow> nat" where
  "digits_nat s = foldl (\<lambda>n c. 10 * n + (of_char c - 48)) 0 s"

lemma digits_nat_str: "digits_nat (nat_str n) = n"
proof (induction n rule: nat_str.induct)
  case (1 n)
  show ?case
  proof (cases "n < 10")
    case True
    then show ?thesis by (simp add: nat_str.simps[of n] digits_nat_def)
  next
    case False
    have "(of_char (char_of (48 + n mod 10)) :: nat) - 48 = n mod 10" by simp
    then show ?thesis using 1[OF False] False by (simp add: nat_str.simps[of n] digits_nat_def)
  qed
qed

lemma nat_str_inject: "nat_str m = nat_str n \<longleftrightarrow> m = n"
  by (metis digits_nat_str)

lemma ip_template_inject: "ip_template m = ip_template n \<longleftrightarrow> m = n"
  by (simp add: ip_template_def nat_str_inject)

lemma interface_name_inject: "interface_name m = interface_name n \<longleftrightarrow> m = n"
  by (simp add: interface_name_def nat_str_inject)

lemma find_in: "find P xs = Some x \<Longrightarrow> P x \<and> x \<in> set xs"
  by (auto simp: find_Some_iff)

lemma find_none: "find P xs = None \<longleftrightarrow> (\<forall>x \<in> set xs. \<not> P x)"
  by (auto simp: find_None_iff)

lemma set_map_upt: "set (map f [m..<n]) = f ` {m..<n}"
  by simp

lemma interface_name_0: "interface_name 0 = ''wg0''"
  by code_simp

text \<open>The search for an interface always finds one.\<close>

lemma next_interface_found: "\<exists>i. next_interface used = Some i \<and> i \<notin> set used \<and> i \<noteq> ''wg0''"
proof -
  let ?names = "map interface_name [1..<length used + 2]"
  have "distinct ?names" by (auto simp: distinct_map inj_on_def interface_name_inject)
  then have "card (set ?names) = length ?names" by (rule distinct_card)
  then have "card (set ?names) = length used + 1" by (simp del: upt_Suc set_map)
  moreover have "card (set used) \<le> length used" by (rule card_length)
  ultimately have "\<not> set ?names \<subseteq> set used" using card_mono[of "set used" "set ?names"] by auto
  then obtain n where n: "interface_name n \<notin> set used" "n \<in> {1..<length used + 2}"
    unfolding set_map_upt by blast
  obtain i where i: "next_interface used = Some i"
    using n unfolding next_interface_def
    by (cases "find (\<lambda>i. i \<notin> set used) ?names") (simp_all only: find_none set_map_upt, blast+)
  have "i \<notin> set used \<and> i \<in> interface_name ` {1..<length used + 2}"
    using find_in[OF i[unfolded next_interface_def]] unfolding set_map_upt .
  moreover have "interface_name m \<noteq> ''wg0''" if "1 \<le> m" for m
    using that interface_name_inject[of m 0] interface_name_0 by auto
  ultimately show ?thesis using i by auto
qed

section \<open>Clients\<close>

definition peers_ok :: "wireguard_peer list \<Rightarrow> bool" where
  "peers_ok ps \<longleftrightarrow>
     distinct (map wp_public_key ps) \<and> distinct (map wp_allowed_ips ps) \<and>
     (\<forall>p \<in> set ps. wp_public_key p \<noteq> None \<and> (\<exists>n \<in> {2..<254}. wp_allowed_ips p = [ip_template n]))"

definition server_ok :: "nm_connection \<Rightarrow> bool" where
  "server_ok c \<longleftrightarrow>
     cn_interface c = JStr ''wg0'' \<longrightarrow> (case cn_wireguard c of None \<Rightarrow> True | Some s \<Rightarrow> peers_ok (ws_peers s))"

definition network_ok :: "network \<Rightarrow> bool" where
  "network_ok w \<longleftrightarrow>
     distinct (map cn_uuid (nw_connections w @ nw_pending w)) \<and>
     (\<forall>c \<in> set (nw_connections w) \<union> set (nw_pending w) \<union> snd ` set (nw_stored w). server_ok c)"

text \<open>
  The surroundings keep this: time that passes turns pending connections into connections; a new
  UUID is not in use; libnm takes the addresses of the template and the keys \<open>K\<close> as they are.
\<close>

definition wg_env_ok :: "wg_env \<Rightarrow> string set \<Rightarrow> bool" where
  "wg_env_ok env K \<longleftrightarrow>
     p_keeps network_ok (we_genkey env) \<and> (\<forall>k. p_keeps network_ok (we_pubkey env k)) \<and>
     p_keeps network_ok (we_sleep env) \<and> p_keeps network_ok (we_nap env) \<and> p_keeps network_ok (we_app_enabled env) \<and>
     (\<forall>w. snd (we_new_uuid env w) = w \<and>
          (\<forall>u. fst (we_new_uuid env w) = Inr u \<longrightarrow> u \<notin> cn_uuid ` set (nw_connections w @ nw_pending w))) \<and>
     (\<forall>n \<in> {2..<254}. nl_allowed_ip (we_lib env) (ip_template n) = Some (ip_template n)) \<and>
     (\<forall>k \<in> K. nl_valid_key (we_lib env) k)"

lemma wg_env_keeps [keeps_intros]:
  assumes "wg_env_ok env K"
  shows "p_keeps network_ok (we_genkey env)" "p_keeps network_ok (we_pubkey env k)" "p_keeps network_ok (we_sleep env)"
    "p_keeps network_ok (we_nap env)" "p_keeps network_ok (we_app_enabled env)"
  using assms unfolding wg_env_ok_def by blast+

lemma next_available_free:
  assumes "next_available_ip_address ps = Inr ip"
  shows "ip \<notin> allocated_ips ps \<and> (\<exists>n \<in> {2..<254}. ip = ip_template n)"
proof -
  have "find (\<lambda>ip. ip \<notin> allocated_ips ps) (map ip_template [2..<254]) = Some ip"
    using assms unfolding next_available_ip_address_def by (simp del: upt_rec_numeral split: option.splits)
  from find_in[OF this, unfolded set_map_upt] show ?thesis by blast
qed

lemma peer_address:
  assumes "peers_ok ps" and "p \<in> set ps"
  shows "wp_allowed_ips p = [hd (wp_allowed_ips p)] \<and> hd (wp_allowed_ips p) \<in> ip_template ` {2..<254}"
proof -
  obtain n where "n \<in> {2..<254}" "wp_allowed_ips p = [ip_template n]"
    using assms by (auto simp: peers_ok_def)
  then show ?thesis by simp
qed

lemma allocated_of_ok:
  assumes "peers_ok ps"
  shows "allocated_ips ps = set (map (\<lambda>p. hd (wp_allowed_ips p)) ps)"
proof -
  have "set (wp_allowed_ips p) = {hd (wp_allowed_ips p)}" if "p \<in> set ps" for p
    using peer_address[OF assms that] by (metis list.set(1,2))
  then have "(\<Union>p \<in> set ps. set (wp_allowed_ips p)) = (\<Union>p \<in> set ps. {hd (wp_allowed_ips p)})" by simp
  then show ?thesis by (auto simp: allocated_ips_def)
qed

lemma addresses_distinct:
  assumes "peers_ok ps"
  shows "distinct (map (\<lambda>p. hd (wp_allowed_ips p)) ps)"
proof -
  have "map (\<lambda>p. hd (wp_allowed_ips p)) ps = map hd (map wp_allowed_ips ps)" by simp
  moreover have "inj_on hd (set (map wp_allowed_ips ps))"
  proof (rule inj_onI)
    fix x y assume "x \<in> set (map wp_allowed_ips ps)" "y \<in> set (map wp_allowed_ips ps)" "hd x = hd y"
    then obtain p q where "p \<in> set ps" "x = wp_allowed_ips p" "q \<in> set ps" "y = wp_allowed_ips q" by auto
    then show "x = y" using peer_address[OF assms, of p] peer_address[OF assms, of q] \<open>hd x = hd y\<close> by simp
  qed
  moreover have "distinct (map wp_allowed_ips ps)" using assms by (simp add: peers_ok_def)
  ultimately show ?thesis by (simp only: distinct_map)
qed

text \<open>There is an address for a new client exactly when there are fewer than 252 clients.\<close>

lemma address_available_iff:
  assumes "peers_ok ps"
  shows "length ps \<le> 252 \<and> ((\<exists>ip. next_available_ip_address ps = Inr ip) \<longleftrightarrow> length ps < 252)"
proof -
  let ?all = "ip_template ` {2..<254}" and ?used = "allocated_ips ps"
  have sub: "?used \<subseteq> ?all"
    using peer_address[OF assms] by (auto simp: allocated_of_ok[OF assms])
  have used: "card ?used = length ps"
    using distinct_card[OF addresses_distinct[OF assms]] by (simp add: allocated_of_ok[OF assms])
  have "inj_on ip_template {2..<254}" by (simp add: inj_on_def ip_template_inject)
  then have all: "card ?all = 252" "finite ?all" by (simp_all add: card_image)
  have le: "length ps \<le> 252" using card_mono[OF all(2) sub] used all(1) by simp
  have "(\<exists>ip. next_available_ip_address ps = Inr ip) \<longleftrightarrow> \<not> ?all \<subseteq> ?used"
    unfolding next_available_ip_address_def using find_none[of "\<lambda>ip. ip \<notin> ?used" "map ip_template [2..<254]", unfolded set_map_upt]
    by (cases "find (\<lambda>ip. ip \<notin> ?used) (map ip_template [2..<254])") (auto simp del: upt_rec_numeral)
  also have "\<dots> \<longleftrightarrow> ?used \<noteq> ?all" using sub by blast
  also have "\<dots> \<longleftrightarrow> length ps < 252"
    using card_subset_eq[OF all(2) sub] used all(1) le by (metis le_neq_implies_less less_irrefl)
  finally show ?thesis using le by blast
qed

lemma add_peer_ok:
  assumes "wg_env_ok env K" "key \<in> K" "peers_ok ps" "Some key \<notin> set (map wp_public_key ps)"
    and "next_available_ip_address ps = Inr ip"
  shows "peers_ok (append_peer (client_peer env key ip) ps)"
proof -
  obtain n where n: "n \<in> {2..<254}" "ip = ip_template n" "ip \<notin> allocated_ips ps"
    using next_available_free[OF assms(5)] by blast
  define r where "r = client_peer env key ip"
  have "nl_valid_key (we_lib env) key" "nl_allowed_ip (we_lib env) ip = Some ip"
    using assms(1,2) n(1,2) unfolding wg_env_ok_def by blast+
  then have r: "wp_public_key r = Some key" "wp_allowed_ips r = [ip]"
    by (simp_all add: r_def client_peer_def append_allowed_ip_def set_public_key_def new_peer_def)
  have "[ip] \<notin> set (map wp_allowed_ips ps)"
  proof
    assume "[ip] \<in> set (map wp_allowed_ips ps)"
    then obtain q where "q \<in> set ps" "wp_allowed_ips q = [ip]" by auto
    then have "ip \<in> allocated_ips ps" by (auto simp: allocated_ips_def intro!: bexI[of _ q])
    with n(3) show False by simp
  qed
  moreover have "filter (\<lambda>q. wp_public_key q \<noteq> Some key) ps = ps"
    using assms(4) by (intro filter_True) (force)
  ultimately show ?thesis
    using assms(3,4) n(1,2) r unfolding append_peer_def r_def[symmetric] by (auto simp: peers_ok_def)
qed

lemma drop_peer_ok: "peers_ok ps \<Longrightarrow> peers_ok (drop_first_key k ps)"
proof -
  assume ok: "peers_ok ps"
  let ?P = "\<lambda>p. wp_public_key p \<noteq> Some k"
  have ps: "ps = takeWhile ?P ps @ dropWhile ?P ps" by simp
  then show ?thesis
  proof (cases "dropWhile ?P ps")
    case Nil
    then have "drop_first_key k ps = ps" using ps unfolding drop_first_key_def by (metis append_Nil2 list.sel(2))
    then show ?thesis using ok by simp
  next
    case (Cons q qs)
    have "peers_ok (takeWhile ?P ps @ q # qs)" using ok ps Cons by simp
    then have "peers_ok (takeWhile ?P ps @ qs)" by (auto simp: peers_ok_def)
    then show ?thesis using Cons by (simp add: drop_first_key_def)
  qed
qed

section \<open>Steps that keep the network\<close>

lemma network_same:
  "nw_connections w' = nw_connections w \<Longrightarrow> nw_pending w' = nw_pending w \<Longrightarrow> nw_stored w' = nw_stored w \<Longrightarrow>
     network_ok w' = network_ok w"
  by (simp add: network_ok_def)

lemma nm_keeps_get_client [keeps_intros]: "p_keeps network_ok get_nm_client"
  unfolding get_nm_client_def by (intro keeps_intros)

lemma nm_keeps_get_connection [keeps_intros]: "p_keeps network_ok (get_connection u)"
  unfolding get_connection_def by (intro keeps_intros)

lemma nm_keeps_get_active [keeps_intros]: "p_keeps network_ok (get_active_connection u)"
  unfolding get_active_connection_def by (intro keeps_intros)

lemma nm_keeps_by_name [keeps_intros]: "p_keeps network_ok (get_connection_by_interface_name n)"
  unfolding get_connection_by_interface_name_def by (intro keeps_intros)

lemma nm_keeps_activate [keeps_intros]: "p_keeps network_ok (activate_connection u)"
proof -
  have "p_keeps network_ok (p_mod (\<lambda>w. w\<lparr>nw_activated := nw_activated w @ [x]\<rparr>))" for x
    by (simp add: p_keeps_def p_mod_def network_ok_def)
  then show ?thesis unfolding activate_connection_def by (intro keeps_intros)
qed

lemma nm_keeps_deactivate [keeps_intros]: "p_keeps network_ok (deactivate_connection u)"
proof -
  have "p_keeps network_ok (p_mod (\<lambda>w. w\<lparr>nw_active := filter (\<lambda>v. v \<noteq> x) (nw_active w)\<rparr>))" for x
    by (simp add: p_keeps_def p_mod_def network_ok_def)
  then show ?thesis unfolding deactivate_connection_def by (intro keeps_intros)
qed

lemma nm_keeps_wait [keeps_intros]: "p_keeps network_ok nap \<Longrightarrow> p_keeps network_ok (wait_inactive n nap u)"
  by (induction n) (auto intro!: keeps_intros)

lemma nm_keeps_reactivate [keeps_intros]: "p_keeps network_ok nap \<Longrightarrow> p_keeps network_ok (reactivate_connection nap u)"
  unfolding reactivate_connection_def by (intro keeps_intros)

lemma od_values_set_subset: "snd ` set (od_set d k v) \<subseteq> insert v (snd ` set d)"
  unfolding od_set_def by (induction d) auto

lemma nm_keeps_commit [keeps_intros]: "p_keeps network_ok (commit_changes u)"
proof -
  have "network_ok (w\<lparr>nw_stored := od_set (nw_stored w) u c\<rparr>)" if "network_ok w" "c \<in> set (nw_connections w)" for w c
  proof -
    have "server_ok c" using that by (auto simp: network_ok_def)
    moreover have "snd ` set (od_set (nw_stored w) u c) \<subseteq> insert c (snd ` set (nw_stored w))"
      by (rule od_values_set_subset)
    ultimately have "\<forall>d \<in> snd ` set (od_set (nw_stored w) u c). server_ok d"
      using that(1) unfolding network_ok_def by blast
    then show ?thesis using that(1) unfolding network_ok_def ball_Un by simp
  qed
  then show ?thesis
    unfolding commit_changes_def p_keeps_def p_mod_def by (auto dest: find_in split: option.splits)
qed

text \<open>A change of one connection that leaves its UUID and keeps it in order.\<close>

lemma on_connection_ok:
  assumes "network_ok w"
    and "\<And>c. c \<in> set (nw_connections w) \<Longrightarrow> cn_uuid c = u \<Longrightarrow> cn_uuid (snd (m c)) = u \<and> server_ok (snd (m c))"
  shows "network_ok (snd (on_connection u m w))"
proof (cases "find (\<lambda>c. cn_uuid c = u) (nw_connections w)")
  case None
  then show ?thesis using assms(1) by (simp add: on_connection_def)
next
  case (Some c)
  have c: "cn_uuid c = u" "c \<in> set (nw_connections w)" using find_in[OF Some] by auto
  obtain r c' where m: "m c = (r, c')" by (cases "m c")
  have c': "cn_uuid c' = u" "server_ok c'" using assms(2)[OF c(2,1)] m by auto
  have "map cn_uuid (map (\<lambda>d. if cn_uuid d = u then c' else d) (nw_connections w)) = map cn_uuid (nw_connections w)"
    using c'(1) by simp
  then show ?thesis
    using assms(1) c'(2) m Some unfolding network_ok_def by (auto simp: on_connection_def simp del: map_map)
qed

lemma if_key_absent: "contains_key d k = Inr False \<Longrightarrow> if_key d k f = p_ret ()"
  by (rule ext) (simp add: if_key_def p_bind_def p_lift_def)

lemma autoconnect_update:
  "update_settings lib to_int u (JDict [(''common'', JDict [(''autoconnect'', JBool b)])]) c =
     (Inr (), c\<lparr>cn_uuid := u, cn_autoconnect := JBool b\<rparr>)"
  by (simp add: update_settings_def update_common_settings_def if_settings_def if_key_def p_defs prog_simps)

lemma server_ok_update: "server_ok (c\<lparr>cn_uuid := u, cn_autoconnect := v\<rparr>) = server_ok c"
  by (simp add: server_ok_def)

lemma nm_keeps_enable_connection:
  "p_keeps network_ok (edit_connection lib to_int u (JDict [(''common'', JDict [(''autoconnect'', JBool b)])]))"
proof -
  have "p_keeps network_ok (on_connection u (update_settings lib to_int u (JDict [(''common'', JDict [(''autoconnect'', JBool b)])])))"
    unfolding p_keeps_def
  proof (intro allI impI)
    fix w assume w: "network_ok w"
    show "network_ok (snd (on_connection u (update_settings lib to_int u (JDict [(''common'', JDict [(''autoconnect'', JBool b)])])) w))"
      by (rule on_connection_ok[OF w])
         (use w in \<open>auto simp: autoconnect_update server_ok_update network_ok_def\<close>)
  qed
  then show ?thesis unfolding edit_connection_def by (intro keeps_intros)
qed

lemma nm_keeps_enable: "p_keeps network_ok (enable_connections env b)"
  unfolding enable_connections_def enable_connection_def
  by (intro keeps_intros nm_keeps_enable_connection)

lemma nm_keeps_delete [keeps_intros]: "p_keeps network_ok (delete_connection u)"
proof -
  have "network_ok (w\<lparr>nw_connections := filter (\<lambda>d. cn_uuid d \<noteq> u) (nw_connections w), nw_stored := od_del (nw_stored w) u\<rparr>)"
    if "network_ok w" for w
  proof -
    have "\<forall>c \<in> snd ` set (od_del (nw_stored w) u). server_ok c"
      using that od_values_del_subset[of "nw_stored w" u, unfolded set_map] unfolding network_ok_def by blast
    then show ?thesis using that by (auto simp: network_ok_def distinct_map_filter ball_Un simp del: image_iff)
  qed
  then have "p_keeps network_ok (p_mod (\<lambda>w. w\<lparr>nw_connections := filter (\<lambda>d. cn_uuid d \<noteq> u) (nw_connections w),
      nw_stored := od_del (nw_stored w) u\<rparr>))"
    by (simp add: p_keeps_def p_mod_def)
  then show ?thesis unfolding delete_connection_def by (intro keeps_intros)
qed

lemma nm_keeps_delete_all: "p_keeps network_ok delete_connections"
  unfolding delete_connections_def by (intro keeps_intros)

section \<open>The server\<close>

lemma ip_template_ne: "ip_template n \<noteq> []"
  by (simp add: ip_template_def)

lemma server_update:
  assumes "update_settings lib to_int u (server_settings b k) new_connection = (Inr (), c)"
  shows "cn_uuid c = u \<and> server_ok c"
  using assms
  by (auto simp: server_settings_def update_settings_def update_common_settings_def if_settings_def if_key_def
      update_ipv4_settings_def set_ip4_def ignore_auto_dns_def add_dns_def when_truthy_def ip4_prefix_def ip_template_ne
      update_wireguard_settings_def set_wireguard_def new_connection_def new_wireguard_def server_ok_def peers_ok_def
      p_defs prog_simps split: sum.splits)

lemma nm_keeps_setup_server:
  assumes "wg_env_ok env K"
  shows "p_keeps network_ok (setup_server env)"
proof -
  have "p_keeps network_ok (add_connection (we_lib env) (we_to_int env) (we_new_uuid env) (server_settings b k))" for b k
    unfolding p_keeps_def
  proof (intro allI impI)
    fix w assume w: "network_ok w"
    have same: "snd (we_new_uuid env w) = w" using assms unfolding wg_env_ok_def by blast
    show "network_ok (snd (add_connection (we_lib env) (we_to_int env) (we_new_uuid env) (server_settings b k) w))"
    proof (cases "we_new_uuid env w")
      case (Pair r w1)
      then have w1: "w1 = w" using same by simp
      show ?thesis
      proof (cases r)
        case (Inl e)
        then show ?thesis using Pair w w1 by (simp add: add_connection_def prog_simps)
      next
        case (Inr u)
        have fresh: "u \<notin> cn_uuid ` set (nw_connections w @ nw_pending w)"
          using assms Pair Inr unfolding wg_env_ok_def by (metis fst_conv)
        obtain rc c where uc: "update_settings (we_lib env) (we_to_int env) u (server_settings b k) new_connection = (rc, c)"
          by (cases "update_settings (we_lib env) (we_to_int env) u (server_settings b k) new_connection")
        have "network_ok (w\<lparr>nw_pending := nw_pending w @ [c]\<rparr>)" if "rc = Inr ()"
          using server_update[OF uc[unfolded that]] fresh w by (auto simp: network_ok_def)
        then show ?thesis
          using Pair Inr w w1 uc
          by (auto simp: add_connection_def p_defs prog_simps get_nm_client_def split: sum.splits)
      qed
    qed
  qed
  then show ?thesis unfolding setup_server_def generate_private_key_def
    by (intro keeps_intros wg_env_keeps(1)[OF assms] wg_env_keeps(5)[OF assms])
qed

lemma nm_keeps_wait_for_server: "wg_env_ok env K \<Longrightarrow> p_keeps network_ok (wait_for_server n env c)"
  by (induction n arbitrary: c) (auto intro!: keeps_intros wg_env_keeps)

lemma nm_keeps_server_connection: "wg_env_ok env K \<Longrightarrow> p_keeps network_ok (server_connection env)"
  unfolding server_connection_def by (intro keeps_intros nm_keeps_setup_server nm_keeps_wait_for_server) assumption+

lemma by_name_found:
  "get_connection_by_interface_name n w = (Inr (Some c), w') \<Longrightarrow> c \<in> set (nw_connections w') \<and> cn_interface c = JStr n"
  by (auto simp: get_connection_by_interface_name_def get_nm_client_def p_defs prog_simps dest: find_in split: if_splits)

lemma wait_for_server_found:
  "wait_for_server n env c w = (Inr (Some d), w') \<Longrightarrow>
     n = 0 \<and> c = Some d \<or> d \<in> set (nw_connections w') \<and> cn_interface d = JStr ''wg0''"
proof (induction n arbitrary: c w)
  case 0
  then show ?case by (simp add: p_ret_def)
next
  case (Suc n)
  obtain w1 c' w2 where 1: "get_connection_by_interface_name ''wg0'' w1 = (Inr c', w2)"
    "(if c' \<noteq> None then p_ret c' else wait_for_server n env c') w2 = (Inr (Some d), w')"
    using Suc.prems by (auto simp: p_then_Inr_iff p_bind_Inr_iff)
  show ?case
  proof (cases c')
    case None
    then show ?thesis using 1(2) Suc.IH[of c' w2] by auto
  next
    case (Some d')
    then show ?thesis using 1 by_name_found by (auto simp: p_ret_def)
  qed
qed

lemma server_connection_found:
  assumes "server_connection env w = (Inr c, w')"
  shows "c \<in> set (nw_connections w') \<and> cn_interface c = JStr ''wg0''"
proof -
  obtain c0 w1 where "wait_for_server 10 env c0 w1 = (Inr (Some c), w')"
    using assms
    by (auto simp: server_connection_def p_then_Inr_iff p_bind_Inr_iff p_ret_def p_raise_def split: option.splits)
  from wait_for_server_found[OF this] show ?thesis by simp
qed

lemma change_peers_ok:
  assumes "wg_env_ok env K" and w: "network_ok w" and c: "c \<in> set (nw_connections w)" "cn_wireguard c = Some s"
    and f: "peers_ok (f (ws_peers s))"
  shows "network_ok (snd (change_peers env (cn_uuid c) f w))"
proof -
  let ?m = "set_wireguard (\<lambda>s. s\<lparr>ws_peers := f (ws_peers s)\<rparr>)"
  have m: "snd (?m d) = d\<lparr>cn_wireguard := map_option (\<lambda>s. s\<lparr>ws_peers := f (ws_peers s)\<rparr>) (cn_wireguard d)\<rparr>" for d
    by (simp add: set_wireguard_def p_mod_def)
  have only: "d = c" if "d \<in> set (nw_connections w)" "cn_uuid d = cn_uuid c" for d
    using w c(1) that unfolding network_ok_def by (auto simp: distinct_map inj_on_def)
  have mc: "cn_uuid (snd (?m c)) = cn_uuid c \<and> server_ok (snd (?m c))"
    using c(2) f by (simp add: m server_ok_def)
  have "network_ok (snd (on_connection (cn_uuid c) ?m w))"
  proof (rule on_connection_ok[OF w])
    fix d assume "d \<in> set (nw_connections w)" "cn_uuid d = cn_uuid c"
    then have "d = c" by (rule only)
    then show "cn_uuid (snd (?m d)) = cn_uuid c \<and> server_ok (snd (?m d))" using mc by (simp only:)
  qed
  moreover have "p_keeps network_ok (p_then (commit_changes (cn_uuid c)) (reactivate_connection (we_nap env) (cn_uuid c)))"
    by (intro keeps_intros wg_env_keeps(4)[OF assms(1)])
  ultimately show ?thesis
    unfolding change_peers_def p_then_def[of "on_connection (cn_uuid c) ?m"] p_bind_def p_keeps_def
    by (auto split: prod.split sum.split)
qed

lemma client_step_ok:
  assumes "wg_env_ok env K"
    and "\<And>c ps. peers_of c = Inr ps \<Longrightarrow> cn_interface c = JStr ''wg0'' \<Longrightarrow>
      (\<exists>e. m c ps = p_raise e) \<or> (\<exists>f. m c ps = change_peers env (cn_uuid c) f \<and> (peers_ok ps \<longrightarrow> peers_ok (f ps)))"
  shows "p_keeps network_ok (p_bind (server_connection env) (\<lambda>c. p_bind (p_lift (peers_of c)) (m c)))"
  unfolding p_keeps_def
proof (intro allI impI)
  fix w assume w: "network_ok w"
  obtain r w1 where sc: "server_connection env w = (r, w1)" by (cases "server_connection env w")
  have w1: "network_ok w1" using p_keepsD[OF nm_keeps_server_connection[OF assms(1)] w] sc by simp
  show "network_ok (snd (p_bind (server_connection env) (\<lambda>c. p_bind (p_lift (peers_of c)) (m c)) w))"
  proof (cases r)
    case (Inl e)
    then show ?thesis using sc w1 by (simp add: prog_simps)
  next
    case (Inr c)
    have c: "c \<in> set (nw_connections w1)" "cn_interface c = JStr ''wg0''"
      using server_connection_found sc Inr by auto
    show ?thesis
    proof (cases "cn_wireguard c")
      case None
      then show ?thesis using sc Inr w1 by (simp add: prog_simps peers_of_def)
    next
      case (Some s)
      have ok: "peers_ok (ws_peers s)"
        using w1 c Some unfolding network_ok_def by (auto simp: server_ok_def)
      have "peers_of c = Inr (ws_peers s)" by (simp add: peers_of_def Some)
      from assms(2)[OF this c(2)] show ?thesis
        using sc Inr Some w1 ok change_peers_ok[OF assms(1) w1 c(1) Some]
        by (auto simp: prog_simps p_bind_def peers_of_def)
    qed
  qed
qed

lemma nm_keeps_add_client:
  assumes "wg_env_ok env K" "key \<in> K"
  shows "p_keeps network_ok (add_client env key)"
proof -
  have "(\<exists>e. m = p_raise e) \<or> (\<exists>f. m = change_peers env (cn_uuid c) f \<and> (peers_ok ps \<longrightarrow> peers_ok (f ps)))"
    if "m = (if Some key \<in> set (map wp_public_key ps) then p_raise (ValueError ''Peer with public key already exists'')
       else p_bind (p_lift (next_available_ip_address ps)) (\<lambda>ip.
            change_peers env (cn_uuid c) (append_peer (client_peer env key ip))))" for m c ps
  proof (cases "Some key \<in> set (map wp_public_key ps)")
    case True
    then show ?thesis using that by auto
  next
    case False
    show ?thesis
    proof (cases "next_available_ip_address ps")
      case (Inl e)
      then have "m = p_raise e" unfolding that using False by (intro ext) (simp add: prog_simps p_bind_def)
      then show ?thesis by blast
    next
      case (Inr ip)
      then have "m = change_peers env (cn_uuid c) (append_peer (client_peer env key ip))"
        unfolding that using False by (intro ext) (simp add: prog_simps p_bind_def)
      then show ?thesis using add_peer_ok[OF assms _ False Inr] by blast
    qed
  qed
  then show ?thesis unfolding add_client_def by (intro client_step_ok[OF assms(1)]) blast
qed

lemma nm_keeps_remove_client:
  assumes "wg_env_ok env K"
  shows "p_keeps network_ok (remove_client env key)"
  unfolding remove_client_def
  by (intro client_step_ok[OF assms]) (auto intro: drop_peer_ok)

section \<open>Requests\<close>

datatype wg_request =
    Add_client string
  | Auto_add_client "string option"
  | Edit_client string string
  | Delete_client string
  | Enable_server
  | Set_enabled bool
  | Uninstall

primrec wg_exec :: "wg_env \<Rightarrow> wg_request \<Rightarrow> (network, unit) prog" where
  "wg_exec env (Add_client k) = p_then (add_client_form_valid env k) (p_ret ())"
| "wg_exec env (Auto_add_client k) = p_then (auto_add_client_form_valid env k) (p_ret ())"
| "wg_exec env (Edit_client old k) = p_then (edit_client_form_valid env old k) (p_ret ())"
| "wg_exec env (Delete_client k) = p_then (delete_client_post env k) (p_ret ())"
| "wg_exec env Enable_server = setup_server env"
| "wg_exec env (Set_enabled b) = enable_connections env b"
| "wg_exec env Uninstall = delete_connections"

primrec request_keys :: "wg_request \<Rightarrow> string set" where
  "request_keys (Add_client k) = {k}"
| "request_keys (Auto_add_client k) = set_option k"
| "request_keys (Edit_client old k) = {k}"
| "request_keys (Delete_client k) = {}"
| "request_keys Enable_server = {}"
| "request_keys (Set_enabled b) = {}"
| "request_keys Uninstall = {}"

lemma nm_keeps_request:
  assumes "wg_env_ok env K" and "request_keys r \<subseteq> K"
  shows "p_keeps network_ok (wg_exec env r)"
proof (cases r)
  case (Add_client k)
  then show ?thesis using assms
    by (auto simp: add_client_form_valid_def intro!: keeps_intros nm_keeps_add_client)
next
  case (Auto_add_client k)
  then show ?thesis using assms
    by (cases k) (auto simp: auto_add_client_form_valid_def intro!: keeps_intros nm_keeps_add_client)
next
  case (Edit_client old k)
  then show ?thesis using assms
    by (auto simp: edit_client_form_valid_def intro!: keeps_intros nm_keeps_add_client nm_keeps_remove_client)
next
  case (Delete_client k)
  then show ?thesis using assms
    by (auto simp: delete_client_post_def intro!: keeps_intros nm_keeps_remove_client)
next
  case Enable_server
  then show ?thesis using nm_keeps_setup_server[OF assms(1)] by simp
next
  case (Set_enabled b)
  then show ?thesis using nm_keeps_enable by simp
next
  case Uninstall
  then show ?thesis using nm_keeps_delete_all by simp
qed

lemma nm_keeps_requests:
  assumes "wg_env_ok env K" and "\<forall>r \<in> set rs. request_keys r \<subseteq> K" and "network_ok w"
  shows "network_ok (fold (\<lambda>r w. snd (wg_exec env r w)) rs w)"
  using assms(2,3)
  by (induction rs arbitrary: w) (auto dest: p_keepsD[OF nm_keeps_request[OF assms(1)]])

text \<open>C37: whatever requests administrators make about the clients of the WireGuard server (adding,
  adding with a generated key, changing, deleting, creating the server, enabling, uninstalling), in
  whatever order and however each ends, every client of wg0 has a key of its own and exactly one
  address, between 10.84.0.2 and 10.84.0.253, that no other client has; so there are at most 252
  clients, and there is an address for one more exactly when there are fewer.\<close>

theorem clients_keep_own_addresses:
  assumes "wg_env_ok env K" and "\<forall>r \<in> set rs. request_keys r \<subseteq> K" and "network_ok w"
    and "c \<in> set (nw_connections (fold (\<lambda>r w. snd (wg_exec env r w)) rs w))"
    and "cn_interface c = JStr ''wg0''" and "peers_of c = Inr ps"
  shows "distinct (map wp_public_key ps) \<and> distinct (map wp_allowed_ips ps) \<and>
    (\<forall>p \<in> set ps. \<exists>n \<in> {2..<254}. wp_allowed_ips p = [ip_template n]) \<and>
    length ps \<le> 252 \<and> ((\<exists>ip. next_available_ip_address ps = Inr ip) \<longleftrightarrow> length ps < 252)"
proof -
  have "server_ok c" using nm_keeps_requests[OF assms(1-3)] assms(4) unfolding network_ok_def by blast
  then have "peers_ok ps"
    using assms(5,6) by (auto simp: server_ok_def peers_of_def split: option.splits)
  then show ?thesis using address_available_iff[of ps] unfolding peers_ok_def by blast
qed

text \<open>A machine on which a connection that was asked for appears after a second.\<close>

definition demo_wg :: wg_env where
  "demo_wg =
     \<lparr>we_lib = \<lparr>nl_inet_aton = (\<lambda>v. Inr 0), nl_default_prefix = (\<lambda>a. 24), nl_netmask_prefix = (\<lambda>m. 24),
                nl_valid_key = (\<lambda>k. True), nl_valid_endpoint = (\<lambda>e. True), nl_allowed_ip = Some\<rparr>,
      we_to_int = (\<lambda>v. Inr 64),
      we_new_uuid = (\<lambda>w. (Inr (concat (map cn_uuid (nw_connections w @ nw_pending w)) @ ''u''), w)),
      we_genkey = p_ret ''private'', we_pubkey = (\<lambda>k. p_ret ''public''), we_interfaces = p_ret [], we_dump = p_ret [],
      we_sleep = p_mod (\<lambda>w. w\<lparr>nw_connections := nw_connections w @ nw_pending w, nw_pending := []\<rparr>),
      we_nap = p_ret (), we_app_enabled = p_ret True\<rparr>"

text \<open>A server with two clients.\<close>

definition demo_client :: "string \<Rightarrow> nat \<Rightarrow> wireguard_peer" where
  "demo_client k n = new_peer\<lparr>wp_public_key := Some k, wp_keepalive := 25, wp_allowed_ips := [ip_template n]\<rparr>"

definition demo_network :: network where
  "demo_network = \<lparr>nw_ready = True,
     nw_connections = [new_connection\<lparr>cn_uuid := ''server'', cn_interface := JStr ''wg0'', cn_type := JStr ''wireguard'',
       cn_wireguard := Some (new_wireguard\<lparr>ws_peers := [demo_client ''a'' 2, demo_client ''b'' 3]\<rparr>)\<rparr>],
     nw_stored = [], nw_pending = [], nw_active = [], nw_primary = None, nw_devices = [], nw_activated = []\<rparr>"

definition demo_requests :: "wg_request list" where
  "demo_requests = [Delete_client ''x'', Edit_client ''a'' ''b'', Set_enabled False]"

definition demo_server :: nm_connection where
  "demo_server = hd (nw_connections (fold (\<lambda>r w. snd (wg_exec demo_wg r w)) demo_requests demo_network))"

lemma longer_than_all: "u \<in> f ` set xs \<Longrightarrow> length u < length (concat (map f xs) @ [c])"
  by (induction xs) auto

lemma demo_wg_ok: "wg_env_ok demo_wg UNIV"
proof -
  have fresh: "fst (we_new_uuid demo_wg w) = Inr u \<Longrightarrow> u \<notin> cn_uuid ` set (nw_connections w @ nw_pending w)" for w u
    using longer_than_all[of u cn_uuid "nw_connections w @ nw_pending w" "CHR ''u''"] by (auto simp: demo_wg_def)
  have "p_keeps network_ok (we_sleep demo_wg)"
    by (auto simp: demo_wg_def p_keeps_def prog_simps network_ok_def)
  then show ?thesis
    using fresh unfolding wg_env_ok_def by (simp add: demo_wg_def keeps_intros)
qed

lemma demo_network_ok: "network_ok demo_network"
proof -
  have "peers_ok [demo_client ''a'' 2, demo_client ''b'' 3]"
    by (auto simp: peers_ok_def demo_client_def new_peer_def ip_template_inject)
  then show ?thesis
    by (simp add: network_ok_def demo_network_def server_ok_def new_wireguard_def)
qed

lemma demo_peers:
  "cn_interface demo_server = JStr ''wg0'' \<and>
   map wp_public_key (ws_peers (the (cn_wireguard demo_server))) = [Some ''b''] \<and>
   cn_wireguard demo_server \<noteq> None \<and>
   nw_connections (fold (\<lambda>r w. snd (wg_exec demo_wg r w)) demo_requests demo_network) \<noteq> []"
  by code_simp

theorem clients_keep_own_addresses_witness:
  "distinct (map wp_allowed_ips (ws_peers (the (cn_wireguard demo_server)))) \<and>
   (\<exists>ip. next_available_ip_address (ws_peers (the (cn_wireguard demo_server))) = Inr ip)"
proof -
  let ?ps = "ws_peers (the (cn_wireguard demo_server))"
  have "length (map wp_public_key ?ps) = 1" using demo_peers by simp
  then have "length ?ps = 1" by (simp only: length_map)
  moreover have "peers_of demo_server = Inr ?ps"
    using demo_peers by (auto simp: peers_of_def)
  moreover have "demo_server \<in> set (nw_connections (fold (\<lambda>r w. snd (wg_exec demo_wg r w)) demo_requests demo_network))"
    unfolding demo_server_def using demo_peers by (intro hd_in_set) blast
  ultimately show ?thesis
    using clients_keep_own_addresses[OF demo_wg_ok, of demo_requests demo_network demo_server ?ps] demo_peers demo_network_ok
    by auto
qed

section \<open>Where requests go wrong\<close>

text \<open>Changing the key of a client to the key of another client deletes the first client.\<close>

lemma edit_to_existing_key_deletes:
  assumes "server_connection env w = (Inr c, w)" and "peers_of c = Inr ps"
    and "Some old \<in> set (map wp_public_key ps)" "Some k \<in> set (map wp_public_key ps)" "old \<noteq> k"
  shows "edit_client_form_valid env old k w = p_then (change_peers env (cn_uuid c) (drop_first_key old)) (p_ret Client_updated) w"
proof -
  have "add_client env k w = (Inl (ValueError ''Peer with public key already exists''), w)"
    using assms by (simp add: add_client_def p_bind_def prog_simps)
  moreover have "remove_client env old w = change_peers env (cn_uuid c) (drop_first_key old) w"
    using assms by (simp add: remove_client_def p_bind_def prog_simps)
  ultimately show ?thesis
    using assms(5) by (simp add: edit_client_form_valid_def p_then_def p_bind_def p_catch_def prog_simps)
qed

text \<open>The last port is refused, and an endpoint without a host raises an exception that is not a refusal.\<close>

lemma endpoint_corners:
  "validate_endpoint ''vpn.example:65535'' = Inl (ValidationError ''Invalid endpoint.'') \<and>
   validate_endpoint '':51820'' = Inl (IndexError ''string index out of range'')"
  by code_simp

text \<open>Without a server, or when the server has no name outside the local network, the page that makes keys fails.\<close>

lemma auto_add_needs_server:
  assumes "get_wireguard_info env w = (Inr (None, others), w')"
  shows "\<exists>e w''. auto_add_context env domains w = (Inl (TypeError e), w'')"
proof -
  let ?m = "p_bind (generate_client_keypair env) (\<lambda>(private_key, public_key).
          p_bind (server_connection env) (\<lambda>c.
          p_bind (p_lift (r_bind (peers_of c) next_available_ip_address)) (\<lambda>ip.
            p_raise (PlinthError ''UnboundLocalError'' ''endpoint''))))"
  have "\<exists>e w''. ?m w' = (Inl e, w'')"
    by (auto simp: p_bind_def prog_simps split: prod.splits sum.splits)
  then show ?thesis
    using assms by (auto simp: auto_add_context_def auto_endpoint_def p_bind_def p_catch_def prog_simps
        split: prod.splits sum.splits)
qed

end
