(* ===== verification/Sharing.thy ===== *)
theory Sharing
  imports Dynamicdns "HOL-Library.Char_ord"
begin

text \<open>
  The shares of the sharing app (plinth/modules/sharing): an Apache configuration file edited through
  augeas, in which a share is an Alias directive and a Location section. The tree that augeas
  makes of the file is the state: its top directives and its sections, each in order.
\<close>

section \<open>The configuration\<close>

record directive =
  di_name :: string
  di_args :: "string list"

record location =
  lo_arg :: string
  lo_directives :: "directive list"

record sharing_conf =
  sc_directives :: "directive list"
  sc_locations :: "location list"

text \<open>The file does not exist at first; loading a file that is missing gives an empty tree.\<close>

record sharing_world =
  sw_file :: "sharing_conf option"

definition empty_conf :: sharing_conf where
  "empty_conf = \<lparr>sc_directives = [], sc_locations = []\<rparr>"

definition touch_conf :: "(sharing_world, unit) prog" where
  "touch_conf = p_mod (\<lambda>w. w\<lparr>sw_file := Some (case sw_file w of None \<Rightarrow> empty_conf | Some c \<Rightarrow> c)\<rparr>)"

definition load_conf :: "(sharing_world, sharing_conf) prog" where
  "load_conf = p_get (\<lambda>w. case sw_file w of None \<Rightarrow> empty_conf | Some c \<Rightarrow> c)"

definition save_conf :: "sharing_conf \<Rightarrow> (sharing_world, unit) prog" where
  "save_conf c = p_mod (\<lambda>w. if sw_file w = None \<and> c = empty_conf then w else w\<lparr>sw_file := Some c\<rparr>)"

text \<open>\<open>aug.get(path + '/arg[n]')\<close>: None when there is no such argument.\<close>

definition arg_at :: "directive \<Rightarrow> nat \<Rightarrow> string option" where
  "arg_at d n = (if n < length (di_args d) then Some (di_args d ! n) else None)"

section \<open>Adding and removing\<close>

definition quote_path :: "string \<Rightarrow> string" where
  "quote_path p = ''\"'' @ replace_all ''\"'' [CHR 0x5C, CHR 0x22] p @ ''\"''"

definition share_url :: "string \<Rightarrow> string" where
  "share_url name = ''/share/'' @ name"

definition group_directive :: "string \<Rightarrow> directive" where
  "group_directive g = \<lparr>di_name = ''Use'', di_args = [''RequireGroup'', g]\<rparr>"

definition share_location :: "string \<Rightarrow> string list \<Rightarrow> bool \<Rightarrow> location" where
  "share_location name gs is_public =
     \<lparr>lo_arg = share_url name,
      lo_directives = \<lparr>di_name = ''Include'', di_args = [''includes/freedombox-sharing.conf'']\<rparr> #
        (if \<not> is_public then \<lparr>di_name = ''Use'', di_args = [''AuthOpenIDConnect'']\<rparr> # map group_directive gs
         else [\<lparr>di_name = ''Require'', di_args = [''all'', ''granted'']\<rparr>])\<rparr>"

definition add_to_conf :: "string \<Rightarrow> string \<Rightarrow> string list \<Rightarrow> bool \<Rightarrow> sharing_conf \<Rightarrow> sharing_conf" where
  "add_to_conf name path gs is_public c =
     c\<lparr>sc_directives := sc_directives c @ [\<lparr>di_name = ''Alias'', di_args = [share_url name, quote_path path]\<rparr>],
       sc_locations := sc_locations c @ [share_location name gs is_public]\<rparr>"

text \<open>
  The loops over \<open>aug.match\<close>: the paths are numbered before the loop, so that after a removal the
  next path names the node after the next one, and the last path names nothing.
\<close>

fun remove_by_path :: "('a \<Rightarrow> bool) \<Rightarrow> 'a list \<Rightarrow> 'a list" where
  "remove_by_path P [] = []"
| "remove_by_path P (x # xs) =
     (if \<not> P x then x # remove_by_path P xs
      else case xs of [] \<Rightarrow> [] | y # ys \<Rightarrow> y # remove_by_path P ys)"

definition is_alias_of :: "string \<Rightarrow> directive \<Rightarrow> bool" where
  "is_alias_of url d \<longleftrightarrow> di_name d = ''Alias'' \<and> arg_at d 0 = Some url"

definition remove_from_conf :: "string \<Rightarrow> sharing_conf \<Rightarrow> sharing_conf" where
  "remove_from_conf name c =
     c\<lparr>sc_directives := remove_by_path (is_alias_of (share_url name)) (sc_directives c),
       sc_locations := remove_by_path (\<lambda>l. lo_arg l = share_url name) (sc_locations c)\<rparr>"

section \<open>Listing\<close>

record share =
  sh_name :: string
  sh_path :: string
  sh_access :: "(string list \<times> bool) option"

definition name_char :: "char \<Rightarrow> bool" where
  "name_char c \<longleftrightarrow> (c \<ge> CHR ''a'' \<and> c \<le> CHR ''z'') \<or> dec_digit c \<or> c = CHR ''-''"

text \<open>\<open>re.match(r'/share/([a-z0-9\-]*)', url)\<close> looks at the start of the text only.\<close>

definition get_name_from_url :: "string \<Rightarrow> string option" where
  "get_name_from_url url =
     (if starts_with url ''/share/'' then Some (takeWhile name_char (drop 7 url)) else None)"

definition without_suffix :: "string \<Rightarrow> string \<Rightarrow> string" where
  "without_suffix p s = (if ends_with s p then take (length s - length p) s else s)"

definition unquote_path :: "string \<Rightarrow> string" where
  "unquote_path p = replace_all [CHR 0x5C, CHR 0x22] ''\"'' (remove_prefix ''\"'' (without_suffix ''\"'' p))"

text \<open>An Alias without its arguments raises: \<open>None\<close> is neither a path nor a text for the pattern.\<close>

definition alias_share :: "directive \<Rightarrow> share option result" where
  "alias_share d =
     (case arg_at d 1 of
        None \<Rightarrow> Inl (AttributeError ''removesuffix'')
      | Some path \<Rightarrow>
          (case arg_at d 0 of
             None \<Rightarrow> Inl (TypeError ''expected string'')
           | Some url \<Rightarrow>
               Inr (map_option (\<lambda>n. \<lparr>sh_name = n, sh_path = unquote_path path, sh_access = None\<rparr>) (get_name_from_url url))))"

definition location_groups :: "location \<Rightarrow> string list result" where
  "location_groups l =
     r_bind (r_map (\<lambda>d. case arg_at d 1 of None \<Rightarrow> Inl (TypeError ''None'') | Some g \<Rightarrow> Inr g)
        (filter (\<lambda>d. di_name d = ''Use'' \<and> arg_at d 0 = Some ''RequireGroup'') (lo_directives l)))
       (\<lambda>gs. Inr (concat (map di_args (filter (\<lambda>d. di_name d = ''TKTAuthToken'') (lo_directives l))) @ gs))"

text \<open>\<open>aug.get\<close> of a path that matches several nodes raises ValueError.\<close>

definition location_is_public :: "location \<Rightarrow> bool result" where
  "location_is_public l =
     (case filter (\<lambda>d. di_name d = ''Require'') (lo_directives l) of
        [] \<Rightarrow> Inr False
      | [d] \<Rightarrow> Inr (arg_at d 0 = Some ''all'' \<and> arg_at d 1 = Some ''granted'')
      | _ \<Rightarrow> Inl (ValueError ''multiple matches''))"

definition note_location :: "location \<Rightarrow> share list \<Rightarrow> share list result" where
  "note_location l shares =
     (case get_name_from_url (lo_arg l) of
        None \<Rightarrow> Inr shares
      | Some n \<Rightarrow>
          r_bind (location_groups l) (\<lambda>gs.
            if n \<notin> set (map sh_name shares) then Inr shares
            else r_bind (location_is_public l) (\<lambda>b.
                 Inr (map (\<lambda>s. if sh_name s = n then s\<lparr>sh_access := Some (gs, b)\<rparr> else s) shares))))"

primrec note_locations :: "location list \<Rightarrow> share list \<Rightarrow> share list result" where
  "note_locations [] shares = Inr shares"
| "note_locations (l # ls) shares = r_bind (note_location l shares) (note_locations ls)"

definition list_conf :: "sharing_conf \<Rightarrow> share list result" where
  "list_conf c =
     r_bind (r_map alias_share (filter (\<lambda>d. di_name d = ''Alias'') (sc_directives c))) (\<lambda>os.
       note_locations (sc_locations c) (concat (map (\<lambda>x. case x of None \<Rightarrow> [] | Some s \<Rightarrow> [s]) os)))"

section \<open>Privileged calls\<close>

text \<open>\<open>enable\<close> is \<open>webserver_change.enable('sharing-freedombox')\<close> with the reload that it causes.\<close>

definition sharing_add ::
  "(sharing_world, unit) prog \<Rightarrow> string \<Rightarrow> string \<Rightarrow> string list \<Rightarrow> bool \<Rightarrow> (sharing_world, unit) prog"
where
  "sharing_add enable name path gs is_public =
     p_then touch_conf
     (p_bind load_conf (\<lambda>c.
      p_bind (p_lift (list_conf c)) (\<lambda>shares.
        if name \<in> set (map sh_name shares) then p_raise (OtherError ''Share already present'')
        else p_then (save_conf (add_to_conf name path gs is_public c)) enable)))"

definition sharing_remove :: "(sharing_world, unit) prog \<Rightarrow> string \<Rightarrow> (sharing_world, unit) prog" where
  "sharing_remove enable name =
     p_bind load_conf (\<lambda>c. p_then (save_conf (remove_from_conf name c)) enable)"

definition list_shares :: "(sharing_world, share list) prog" where
  "list_shares = p_bind load_conf (\<lambda>c. p_lift (list_conf c))"

definition readd_share :: "share \<Rightarrow> sharing_conf \<Rightarrow> sharing_conf result" where
  "readd_share s c =
     (case sh_access s of
        None \<Rightarrow> Inl (KeyError ''groups'')
      | Some (gs, b) \<Rightarrow> Inr (add_to_conf (sh_name s) (sh_path s) gs b c))"

primrec readd_shares :: "share list \<Rightarrow> sharing_conf \<Rightarrow> sharing_conf result" where
  "readd_shares [] c = Inr c"
| "readd_shares (s # ss) c = r_bind (readd_share s c) (readd_shares ss)"

text \<open>\<open>TKTAuthToken\<close> is only looked for among the directives at the top and in the sections.\<close>

definition old_style :: "sharing_conf \<Rightarrow> bool" where
  "old_style c \<longleftrightarrow>
     (\<exists>d \<in> set (sc_directives c @ concat (map lo_directives (sc_locations c))). di_name d = ''TKTAuthToken'')"

definition migrate_old_style_auth :: "(sharing_world, unit) prog \<Rightarrow> (sharing_world, unit) prog" where
  "migrate_old_style_auth reload =
     p_bind load_conf (\<lambda>c.
       if \<not> old_style c then p_ret ()
       else p_bind (p_lift (list_conf c)) (\<lambda>shares.
            p_bind (p_lift (readd_shares shares (fold (\<lambda>s. remove_from_conf (sh_name s)) shares c))) (\<lambda>c'.
              p_then (save_conf c') reload)))"

definition sharing_setup :: "(sharing_world, unit) prog \<Rightarrow> (sharing_world, unit) prog" where
  "sharing_setup reload = p_then touch_conf (migrate_old_style_auth reload)"

definition sharing_uninstall :: "(sharing_world, unit) prog" where
  "sharing_uninstall = p_mod (\<lambda>w. w\<lparr>sw_file := None\<rparr>)"

section \<open>The form\<close>

definition clean_share_name :: "string option \<Rightarrow> string \<Rightarrow> (sharing_world, string) prog" where
  "clean_share_name initial name =
     (if initial = Some name then p_ret name
      else p_bind list_shares (\<lambda>shares.
           if name \<in> set (map sh_name shares) then p_raise (ValidationError ''A share with this name already exists.'')
           else p_ret name))"

definition clean_share_form :: "bool \<Rightarrow> string list \<Rightarrow> unit result" where
  "clean_share_form is_public gs =
     (if \<not> is_public \<and> gs = [] then Inl (ValidationError ''Shares should be either public or shared with at least one group'')
      else Inr ())"

text \<open>
  The initial values have the key \<open>url\<close>, which the submitted values do not have: they always
  differ, so an edit always removes the share and adds it again.
\<close>

definition edit_share :: "(sharing_world, unit) prog \<Rightarrow> string \<Rightarrow> string \<Rightarrow> string \<Rightarrow> string list \<Rightarrow> bool \<Rightarrow> (sharing_world, unit) prog" where
  "edit_share enable initial_name name path gs is_public =
     p_then (sharing_remove enable initial_name) (sharing_add enable name path gs is_public)"

text \<open>
  The configuration file of the sharing app implements an ordered list of shares: whatever is added,
  edited and removed, listing the file gives that list, paths with quotes and backslashes included.
\<close>

section \<open>Quoting\<close>

definition escape :: "string \<Rightarrow> string" where
  "escape p = concat (map (\<lambda>c. if c = CHR 0x22 then [CHR 0x5C, CHR 0x22] else [c]) p)"

lemma replace_escape: "replace_all ''\"'' [CHR 0x5C, CHR 0x22] p = escape p"
  by (induction p) (simp_all add: escape_def)

lemma escape_head: "escape p = c # cs \<Longrightarrow> c \<noteq> CHR 0x22"
  by (cases p) (auto simp: escape_def split: if_splits)

lemma unescape: "replace_all [CHR 0x5C, CHR 0x22] ''\"'' (escape p) = p"
proof (induction p)
  case (Cons c p)
  show ?case
  proof (cases "c = CHR 0x22")
    case True
    then show ?thesis using Cons by (simp add: escape_def)
  next
    case False
    have "\<not> starts_with (c # escape p) [CHR 0x5C, CHR 0x22]"
      using escape_head[of p] by (cases "escape p") auto
    then show ?thesis using Cons False by (simp add: escape_def)
  qed
qed (simp add: escape_def)

lemma unquote_quote: "unquote_path (quote_path p) = p"
proof -
  have "without_suffix ''\"'' (''\"'' @ q @ ''\"'') = ''\"'' @ q" for q
    by (simp add: without_suffix_def ends_with_def)
  then show ?thesis
    by (simp add: unquote_path_def quote_path_def replace_escape remove_prefix_def unescape)
qed

section \<open>Names and removal\<close>

lemma name_of_share_url: "\<forall>c \<in> set n. name_char c \<Longrightarrow> get_name_from_url (share_url n) = Some n"
  by (simp add: get_name_from_url_def share_url_def takeWhile_eq_all_conv)

lemma share_url_inject: "share_url m = share_url n \<longleftrightarrow> m = n"
  by (simp add: share_url_def)

lemma remove_single: "length (filter P xs) \<le> 1 \<Longrightarrow> remove_by_path P xs = filter (\<lambda>x. \<not> P x) xs"
proof (induction P xs rule: remove_by_path.induct)
  case (2 P x xs)
  show ?case
  proof (cases "P x")
    case True
    then have none: "filter P xs = []" using 2(3) by simp
    then have all: "filter (\<lambda>x. \<not> P x) xs = xs" by (auto simp: filter_empty_conv filter_id_conv)
    show ?thesis
    proof (cases xs)
      case Nil
      then show ?thesis using True by simp
    next
      case (Cons y ys)
      then have py: "\<not> P y" "filter P ys = []" using none by (auto split: if_splits)
      then have "remove_by_path P ys = filter (\<lambda>x. \<not> P x) ys" using 2(2)[OF _ Cons] True by simp
      then show ?thesis using True Cons py by simp
    qed
  next
    case False
    then show ?thesis using 2 by simp
  qed
qed simp

section \<open>The file of a list of shares\<close>

definition shared_with :: "share \<Rightarrow> string list \<times> bool" where
  "shared_with s = (case sh_access s of None \<Rightarrow> ([], False) | Some a \<Rightarrow> a)"

definition share_ok :: "share \<Rightarrow> bool" where
  "share_ok s \<longleftrightarrow> (\<forall>c \<in> set (sh_name s). name_char c) \<and> sh_access s \<noteq> None \<and>
     (snd (shared_with s) \<longrightarrow> fst (shared_with s) = [])"

definition conf_of :: "share list \<Rightarrow> sharing_conf" where
  "conf_of ss =
     \<lparr>sc_directives = map (\<lambda>s. \<lparr>di_name = ''Alias'', di_args = [share_url (sh_name s), quote_path (sh_path s)]\<rparr>) ss,
      sc_locations = map (\<lambda>s. share_location (sh_name s) (fst (shared_with s)) (snd (shared_with s))) ss\<rparr>"

definition shares_ok :: "share list \<Rightarrow> bool" where
  "shares_ok ss \<longleftrightarrow> distinct (map sh_name ss) \<and> (\<forall>s \<in> set ss. share_ok s)"

definition bare :: "share \<Rightarrow> share" where
  "bare s = s\<lparr>sh_access := None\<rparr>"

lemma arg_at_simps:
  "arg_at \<lparr>di_name = n, di_args = a # as\<rparr> 0 = Some a"
  "arg_at \<lparr>di_name = n, di_args = [a]\<rparr> 1 = None"
  "arg_at \<lparr>di_name = n, di_args = a # b # as\<rparr> 1 = Some b"
  by (simp_all add: arg_at_def)

lemma group_directives:
  "r_map (\<lambda>d. case arg_at d 1 of None \<Rightarrow> Inl (TypeError ''None'') | Some g \<Rightarrow> Inr g) (map group_directive gs) = Inr gs"
  by (induction gs) (simp_all add: arg_at_def group_directive_def)

lemma groups_of_location:
  "location_groups (share_location n gs b) = Inr (if b then [] else gs)"
proof -
  have f: "filter (\<lambda>d. di_name d = ''Use'' \<and> arg_at d 0 = Some ''RequireGroup'') (map group_directive gs) = map group_directive gs"
    "filter (\<lambda>d. di_name d = ''TKTAuthToken'') (map group_directive gs) = []"
    by (auto simp: filter_id_conv filter_empty_conv group_directive_def arg_at_def)
  show ?thesis
    by (simp add: location_groups_def share_location_def f[unfolded One_nat_def] group_directives[unfolded One_nat_def] arg_at_simps[unfolded One_nat_def] del: filter_map)
qed

lemma public_of_location: "location_is_public (share_location n gs b) = Inr b"
proof -
  have "filter (\<lambda>d. di_name d = ''Require'') (map group_directive gs) = []"
    by (auto simp: filter_empty_conv group_directive_def)
  then show ?thesis by (simp add: location_is_public_def share_location_def arg_at_def)
qed

lemma note_share_location:
  assumes "share_ok s" and "sh_name s \<notin> set (map sh_name as)" and "sh_name s \<notin> set (map sh_name bs)"
  shows "note_location (share_location (sh_name s) (fst (shared_with s)) (snd (shared_with s))) (as @ bare s # map bare bs) =
    Inr (as @ s # map bare bs)"
proof -
  have n: "get_name_from_url (lo_arg (share_location (sh_name s) gs b)) = Some (sh_name s)" for gs b
    using assms(1) by (simp add: share_location_def share_ok_def name_of_share_url)
  have acc: "sh_access s = Some (if snd (shared_with s) then [] else fst (shared_with s), snd (shared_with s))"
    using assms(1) by (auto simp: share_ok_def shared_with_def)
  then have s: "(bare s)\<lparr>sh_access := Some (if snd (shared_with s) then [] else fst (shared_with s), snd (shared_with s))\<rparr> = s"
    by (cases s) (simp add: bare_def)
  have "map (\<lambda>t. if sh_name t = sh_name s then t\<lparr>sh_access := a\<rparr> else t) as = as" for a
    using assms(2) by (intro map_idI) (metis imageI set_map)
  moreover have "map (\<lambda>t. if sh_name t = sh_name s then t\<lparr>sh_access := a\<rparr> else t) (map bare bs) = map bare bs" for a
    using assms(3) by simp (metis (mono_tags, lifting) bare_def imageI share.surjective share.update_convs(3) share.select_convs(1))
  moreover have "sh_name (bare s) = sh_name s" by (simp add: bare_def)
  ultimately show ?thesis
    using s by (simp add: note_location_def n groups_of_location public_of_location del: map_map)
qed

lemma note_share_locations:
  "distinct (map sh_name (as @ bs)) \<Longrightarrow> \<forall>s \<in> set bs. share_ok s \<Longrightarrow>
     note_locations (map (\<lambda>s. share_location (sh_name s) (fst (shared_with s)) (snd (shared_with s))) bs) (as @ map bare bs) =
     Inr (as @ bs)"
proof (induction bs arbitrary: as)
  case (Cons s bs)
  have "note_location (share_location (sh_name s) (fst (shared_with s)) (snd (shared_with s))) (as @ bare s # map bare bs) =
    Inr ((as @ [s]) @ map bare bs)"
    using note_share_location[of s as bs] Cons.prems by auto
  then show ?case using Cons.IH[of "as @ [s]"] Cons.prems by simp
qed simp

lemma list_conf_of:
  assumes "shares_ok ss"
  shows "list_conf (conf_of ss) = Inr ss"
proof -
  let ?al = "\<lambda>s. \<lparr>di_name = ''Alias'', di_args = [share_url (sh_name s), quote_path (sh_path s)]\<rparr>"
  have "alias_share (?al s) = Inr (Some (bare s))" if "s \<in> set ss" for s
    using assms that by (cases s) (auto simp: alias_share_def arg_at_def shares_ok_def share_ok_def name_of_share_url
        unquote_quote bare_def)
  then have "r_map alias_share (map ?al ss) = Inr (map (\<lambda>s. Some (bare s)) ss)"
    by (simp add: r_map_Inr_iff list_all2_conv_all_nth)
  moreover have "concat (map (\<lambda>x. case x of None \<Rightarrow> [] | Some s \<Rightarrow> [s]) (map (\<lambda>s. Some (bare s)) ss)) = map bare ss"
    by (induction ss) auto
  moreover have "filter (\<lambda>d. di_name d = ''Alias'') (map ?al ss) = map ?al ss" by (auto simp: filter_id_conv)
  ultimately show ?thesis
    using note_share_locations[of "[]" ss] assms
    by (simp add: list_conf_def conf_of_def shares_ok_def del: map_map)
qed

lemma one_name: "distinct (map sh_name ss) \<Longrightarrow> length (filter (\<lambda>s. sh_name s = n) ss) \<le> 1"
proof (induction ss)
  case (Cons s ss)
  show ?case
  proof (cases "sh_name s = n")
    case True
    then have "filter (\<lambda>s. sh_name s = n) ss = []"
      using Cons.prems by (simp add: filter_empty_conv) (metis imageI)
    then show ?thesis using True by simp
  next
    case False
    then show ?thesis using Cons by simp
  qed
qed simp

lemma remove_conf_of:
  assumes "shares_ok ss"
  shows "remove_from_conf n (conf_of ss) = conf_of (filter (\<lambda>s. sh_name s \<noteq> n) ss)"
proof -
  let ?al = "\<lambda>s. \<lparr>di_name = ''Alias'', di_args = [share_url (sh_name s), quote_path (sh_path s)]\<rparr>"
  let ?loc = "\<lambda>s. share_location (sh_name s) (fst (shared_with s)) (snd (shared_with s))"
  have a: "is_alias_of (share_url n) (?al s) \<longleftrightarrow> sh_name s = n" for s
    by (simp add: is_alias_of_def arg_at_def share_url_inject)
  have l: "lo_arg (?loc s) = share_url n \<longleftrightarrow> sh_name s = n" for s
    by (simp add: share_location_def share_url_inject)
  have one: "length (filter (\<lambda>s. sh_name s = n) ss) \<le> 1" using assms one_name[of ss n] by (simp add: shares_ok_def)
  have "remove_by_path (is_alias_of (share_url n)) (map ?al ss) = map ?al (filter (\<lambda>s. sh_name s \<noteq> n) ss)"
    using one by (subst remove_single) (simp_all add: filter_map o_def a)
  moreover have "remove_by_path (\<lambda>x. lo_arg x = share_url n) (map ?loc ss) = map ?loc (filter (\<lambda>s. sh_name s \<noteq> n) ss)"
    using one by (subst remove_single) (simp_all add: filter_map o_def l)
  ultimately show ?thesis by (simp add: remove_from_conf_def conf_of_def)
qed

definition new_share :: "string \<Rightarrow> string \<Rightarrow> string list \<Rightarrow> bool \<Rightarrow> share" where
  "new_share name path gs is_public = \<lparr>sh_name = name, sh_path = path, sh_access = Some (if is_public then [] else gs, is_public)\<rparr>"

lemma add_conf_of: "add_to_conf n p gs b (conf_of ss) = conf_of (ss @ [new_share n p gs b])"
  by (simp add: add_to_conf_def conf_of_def new_share_def shared_with_def share_location_def)

section \<open>Requests\<close>

datatype share_request =
    Add_share string string "string list" bool
  | Remove_share string
  | Edit_share string string string "string list" bool

primrec share_exec :: "(sharing_world, unit) prog \<Rightarrow> share_request \<Rightarrow> (sharing_world, unit) prog" where
  "share_exec enable (Add_share n p gs b) = sharing_add enable n p gs b"
| "share_exec enable (Remove_share n) = sharing_remove enable n"
| "share_exec enable (Edit_share old n p gs b) = edit_share enable old n p gs b"

definition abs_add :: "string \<Rightarrow> string \<Rightarrow> string list \<Rightarrow> bool \<Rightarrow> share list \<Rightarrow> share list" where
  "abs_add n p gs b ss = (if n \<in> set (map sh_name ss) then ss else ss @ [new_share n p gs b])"

primrec abs_exec :: "share_request \<Rightarrow> share list \<Rightarrow> share list" where
  "abs_exec (Add_share n p gs b) ss = abs_add n p gs b ss"
| "abs_exec (Remove_share n) ss = filter (\<lambda>s. sh_name s \<noteq> n) ss"
| "abs_exec (Edit_share old n p gs b) ss = abs_add n p gs b (filter (\<lambda>s. sh_name s \<noteq> old) ss)"

primrec request_name_ok :: "share_request \<Rightarrow> bool" where
  "request_name_ok (Add_share n p gs b) = (\<forall>c \<in> set n. name_char c)"
| "request_name_ok (Remove_share n) = True"
| "request_name_ok (Edit_share old n p gs b) = (\<forall>c \<in> set n. name_char c)"

definition holds :: "sharing_world \<Rightarrow> share list \<Rightarrow> bool" where
  "holds w ss \<longleftrightarrow> shares_ok ss \<and> (case sw_file w of None \<Rightarrow> ss = [] | Some c \<Rightarrow> c = conf_of ss)"

lemma holds_load: "holds w ss \<Longrightarrow> load_conf w = (Inr (conf_of ss), w)"
  by (auto simp: holds_def load_conf_def p_get_def conf_of_def empty_conf_def split: option.splits)

lemma holds_touch: "holds w ss \<Longrightarrow> \<exists>w'. touch_conf w = (Inr (), w') \<and> holds w' ss"
  by (auto simp: holds_def touch_conf_def p_mod_def conf_of_def empty_conf_def split: option.splits)

lemma holds_save: "shares_ok ss \<Longrightarrow> \<exists>w'. save_conf (conf_of ss) w = (Inr (), w') \<and> holds w' ss"
  by (auto simp: holds_def save_conf_def p_mod_def conf_of_def empty_conf_def split: option.splits)

lemma list_shares_holds: "holds w ss \<Longrightarrow> list_shares w = (Inr ss, w)"
  using holds_load[of w ss] list_conf_of[of ss]
  by (simp add: list_shares_def p_bind_def p_lift_def holds_def)

lemma new_share_ok: "\<forall>c \<in> set n. name_char c \<Longrightarrow> share_ok (new_share n p gs b)"
  by (simp add: share_ok_def new_share_def shared_with_def)

lemma shares_ok_filter: "shares_ok ss \<Longrightarrow> shares_ok (filter P ss)"
  by (auto simp: shares_ok_def distinct_map_filter)

lemma add_refines:
  assumes "\<And>w. enable w = (Inr (), w)" and "\<forall>c \<in> set n. name_char c" and "holds w ss"
  shows "\<exists>r w'. sharing_add enable n p gs b w = (r, w') \<and> holds w' (abs_add n p gs b ss)"
proof -
  obtain w1 where t: "touch_conf w = (Inr (), w1)" "holds w1 ss" using holds_touch[OF assms(3)] by blast
  note l = holds_load[OF t(2)]
  have ok: "shares_ok ss" using assms(3) by (simp add: holds_def)
  show ?thesis
  proof (cases "n \<in> set (map sh_name ss)")
    case True
    then show ?thesis
      using t l by (simp add: sharing_add_def abs_add_def p_then_def p_bind_def p_lift_def p_raise_def list_conf_of[OF ok])
  next
    case False
    have ok': "shares_ok (ss @ [new_share n p gs b])"
      using ok False new_share_ok[OF assms(2)] by (auto simp: shares_ok_def new_share_def)
    obtain w2 where "save_conf (conf_of (ss @ [new_share n p gs b])) w1 = (Inr (), w2)" "holds w2 (ss @ [new_share n p gs b])"
      using holds_save[OF ok'] by blast
    then show ?thesis
      using False t l assms(1)
      by (simp add: sharing_add_def abs_add_def p_then_def p_bind_def p_lift_def list_conf_of[OF ok] add_conf_of)
  qed
qed

lemma remove_refines:
  assumes "\<And>w. enable w = (Inr (), w)" and "holds w ss"
  shows "\<exists>w'. sharing_remove enable n w = (Inr (), w') \<and> holds w' (filter (\<lambda>s. sh_name s \<noteq> n) ss)"
proof -
  have ok: "shares_ok ss" using assms(2) by (simp add: holds_def)
  obtain w' where "save_conf (conf_of (filter (\<lambda>s. sh_name s \<noteq> n) ss)) w = (Inr (), w')"
    "holds w' (filter (\<lambda>s. sh_name s \<noteq> n) ss)"
    using holds_save[OF shares_ok_filter[OF ok]] by blast
  then show ?thesis
    using assms(1) holds_load[OF assms(2)] by (simp add: sharing_remove_def p_then_def p_bind_def remove_conf_of[OF ok])
qed

lemma request_refines:
  assumes "\<And>w. enable w = (Inr (), w)" and "request_name_ok r" and "holds w ss"
  shows "holds (snd (share_exec enable r w)) (abs_exec r ss)"
proof (cases r)
  case (Add_share n p gs b)
  then show ?thesis using add_refines[OF assms(1) _ assms(3), of n p gs b] assms(2) by auto
next
  case (Remove_share n)
  then show ?thesis using remove_refines[OF assms(1,3), of n] by auto
next
  case (Edit_share old n p gs b)
  obtain w1 where 1: "sharing_remove enable old w = (Inr (), w1)" "holds w1 (filter (\<lambda>s. sh_name s \<noteq> old) ss)"
    using remove_refines[OF assms(1,3)] by blast
  have "share_exec enable r w = sharing_add enable n p gs b w1"
    by (simp add: Edit_share edit_share_def p_then_def p_bind_def 1(1))
  then show ?thesis using add_refines[OF assms(1) _ 1(2), of n p gs b] assms(2) Edit_share by auto
qed

lemma requests_refine:
  assumes "\<And>w. enable w = (Inr (), w)"
  shows "\<forall>r \<in> set rs. request_name_ok r \<Longrightarrow> holds w ss \<Longrightarrow>
    holds (fold (\<lambda>r w. snd (share_exec enable r w)) rs w) (fold abs_exec rs ss)"
  by (induction rs arbitrary: w ss) (auto intro: request_refines[OF assms])


definition demo_share_requests :: "share_request list" where
  "demo_share_requests =
     [Add_share ''media'' ''/srv/my \"media\"'' [''admin'', ''media''] False, Add_share ''pub'' ''/srv/pub'' [''admin''] True,
      Add_share ''media'' ''/elsewhere'' [] True, Edit_share ''pub'' ''public'' [CHR ''/'', CHR 0x5C, CHR 0x22] [] True]"


end
