(* ===== verification/Snapshot.thy ===== *)
theory Snapshot
  imports Upgrades
begin

text \<open>
  Snapshots of the file system (plinth/modules/snapshot): the privileged calls around snapper and
  btrfs, the settings, and the pages that create and delete snapshots. Whether snapshots are
  supported and the flag for snapshots by apt are those that distribution upgrades
  ask for (\<open>Upgrades\<close>).
\<close>

section \<open>The machine\<close>

text \<open>
  The entries of fstab as augeas reads them; a comment has no fields. \<open>sn_message\<close> shows a message with a level,
  \<open>sn_message_error\<close> one with an exception, \<open>sn_stderr\<close> is what a failed command wrote.
\<close>

record fstab_entry =
  fe_spec :: "string option"
  fe_file :: "string option"
  fe_vfstype :: "string list"
  fe_opts :: "(string \<times> string option) list"

record 'w snapshot_env =
  sn_machine :: "'w upgrades_env"
  sn_fstab :: "'w \<Rightarrow> fstab_entry list"
  sn_save_fstab :: "fstab_entry list \<Rightarrow> ('w, unit) prog"
  sn_set_apt_flag :: "string \<Rightarrow> ('w, unit) prog"
  sn_daemon_pid :: "('w, nat) prog"
  sn_kill :: "nat \<Rightarrow> ('w, unit) prog"
  sn_message :: "string \<Rightarrow> string \<Rightarrow> ('w, unit) prog"
  sn_message_error :: "string \<Rightarrow> exn \<Rightarrow> ('w, unit) prog"
  sn_stderr :: "exn \<Rightarrow> string"

abbreviation sn_sys :: "'w snapshot_env \<Rightarrow> 'w system" where
  "sn_sys s \<equiv> uv_sys (sn_machine s)"

text \<open>\<open>aug.get(path)\<close> of a path that matches the given nodes.\<close>

definition aug_get :: "'a list \<Rightarrow> 'a option result" where
  "aug_get nodes = (case nodes of [] \<Rightarrow> Inr None | [x] \<Rightarrow> Inr (Some x) | _ \<Rightarrow> Inl (ValueError ''multiple matches''))"

definition os_path_join :: "string \<Rightarrow> string \<Rightarrow> string" where
  "os_path_join a b =
     (if starts_with b ''/'' then b else if a = [] \<or> ends_with a ''/'' then a @ b else a @ ''/'' @ b)"

section \<open>Mounting the snapshots\<close>

text \<open>The loop over the entries keeps the last device that is mounted there with btrfs.\<close>

primrec btrfs_spec :: "string \<Rightarrow> fstab_entry list \<Rightarrow> string option \<Rightarrow> string option result" where
  "btrfs_spec mount_point [] spec = Inr spec"
| "btrfs_spec mount_point (e # es) spec =
     (if fe_file e = Some mount_point
      then r_bind (aug_get (fe_vfstype e)) (\<lambda>t.
           btrfs_spec mount_point es (if t = Some ''btrfs'' then fe_spec e else spec))
      else btrfs_spec mount_point es spec)"

definition is_snapshots_entry :: "string \<Rightarrow> string \<Rightarrow> fstab_entry \<Rightarrow> bool result" where
  "is_snapshots_entry spec snapshots_mount_point e =
     (if fe_spec e \<noteq> Some spec \<or> fe_file e \<noteq> Some snapshots_mount_point then Inr False
      else r_bind (aug_get (fe_vfstype e)) (\<lambda>t.
           if t \<noteq> Some ''btrfs'' then Inr False
           else r_bind (aug_get (map fst (fe_opts e))) (\<lambda>opt.
                if opt \<noteq> Some ''subvol'' then Inr False
                else r_bind (aug_get (concat (map (case_option [] (\<lambda>v. [v]) \<circ> snd) (fe_opts e)))) (\<lambda>v.
                     Inr (v = Some ''.snapshots'')))))"

primrec drop_entries :: "(fstab_entry \<Rightarrow> bool result) \<Rightarrow> fstab_entry list \<Rightarrow> fstab_entry list result" where
  "drop_entries p [] = Inr []"
| "drop_entries p (e # es) =
     r_bind (p e) (\<lambda>b. r_bind (drop_entries p es) (\<lambda>rest. Inr (if b then rest else e # rest)))"

definition remove_fstab_entry :: "'w snapshot_env \<Rightarrow> string \<Rightarrow> ('w, unit) prog" where
  "remove_fstab_entry s mount_point =
     p_bind (p_get (sn_fstab s)) (\<lambda>entries.
     p_bind (p_lift (btrfs_spec mount_point entries None)) (\<lambda>spec.
       case spec of
         None \<Rightarrow> p_ret ()
       | Some d \<Rightarrow>
           if d = [] then p_ret ()
           else p_bind (p_lift (drop_entries (is_snapshots_entry d (os_path_join mount_point ''.snapshots'')) entries)) (sn_save_fstab s)))"

definition systemd_path_escape :: "'w snapshot_env \<Rightarrow> string \<Rightarrow> ('w, string) prog" where
  "systemd_path_escape s path =
     p_bind (run_command (sn_sys s) [''systemd-escape'', ''--path'', path] True) (\<lambda>out. p_ret (strip_str out))"

text \<open>The last word of a line is the path; \<open>entry[-1]\<close> of an empty line raises IndexError.\<close>

definition is_snapshots_subvolume :: "string \<Rightarrow> bool" where
  "is_snapshots_subvolume path \<longleftrightarrow>
     (if CHR ''/'' \<in> set path
      then length (split_on (CHR ''/'') path) = 2 \<and> split_on (CHR ''/'') path ! 1 = ''.snapshots''
      else path = ''.snapshots'')"

primrec find_subvolume :: "string list \<Rightarrow> string option result" where
  "find_subvolume [] = Inr None"
| "find_subvolume (l # ls) =
     (if split_words l = [] then Inl (IndexError ''list index out of range'')
      else if is_snapshots_subvolume (last (split_words l)) then Inr (Some (last (split_words l)))
      else find_subvolume ls)"

definition get_subvolume_path :: "'w snapshot_env \<Rightarrow> string \<Rightarrow> ('w, string) prog" where
  "get_subvolume_path s mount_point =
     p_bind (run_command (sn_sys s) [''btrfs'', ''subvolume'', ''list'', ''-o'', mount_point] True) (\<lambda>out.
     p_bind (p_lift (find_subvolume (split_lines out))) (\<lambda>found.
       case found of None \<Rightarrow> p_raise (KeyError ''.snapshots subvolume not found'') | Some p \<Rightarrow> p_ret p))"

text \<open>An f-string writes None as the text None.\<close>

definition mount_unit :: "string option \<Rightarrow> string \<Rightarrow> string \<Rightarrow> string" where
  "mount_unit what mnt subvolume =
     unlines [''# SPDX-License-Identifier: AGPL-3.0-or-later'', '''', ''[Unit]'',
       ''Description=Mount for Snapshots Subvolume (FreedomBox)'', ''Documentation=man:snapper(8)'', '''', ''[Mount]'',
       ''What='' @ (case what of None \<Rightarrow> ''None'' | Some d \<Rightarrow> d), ''Where='' @ mnt, ''Type=btrfs'', ''Options=subvol='' @ subvolume]"

definition automount_unit :: "string \<Rightarrow> string" where
  "automount_unit mnt =
     unlines [''# SPDX-License-Identifier: AGPL-3.0-or-later'', '''', ''[Unit]'',
       ''Description=Automount for Snapshots Subvolume (FreedomBox)'', ''Documentation=man:snapper(8)'', '''', ''[Automount]'',
       ''Where='' @ mnt, '''', ''[Install]'', ''WantedBy=local-fs.target'']"

definition add_automount_unit :: "'w snapshot_env \<Rightarrow> string \<Rightarrow> ('w, unit) prog" where
  "add_automount_unit s mount_point =
     p_bind (p_get (sn_fstab s)) (\<lambda>entries.
     p_bind (p_lift (btrfs_spec mount_point entries None)) (\<lambda>what.
     (let snapshots_mount_point = os_path_join mount_point ''.snapshots''
      in p_bind (systemd_path_escape s snapshots_mount_point) (\<lambda>unit_name.
         p_bind (get_subvolume_path s mount_point) (\<lambda>subvolume.
         p_then (fl_write (uv_files (sn_machine s)) (''/etc/systemd/system/'' @ unit_name @ ''.mount'')
                  (mount_unit what snapshots_mount_point subvolume))
         (p_then (fl_write (uv_files (sn_machine s)) (''/etc/systemd/system/'' @ unit_name @ ''.automount'')
                  (automount_unit snapshots_mount_point))
         (p_then (service_daemon_reload (sn_sys s))
                 (service_enable (sn_sys s) (unit_name @ ''.automount'') False))))))))"

section \<open>Configuration\<close>

definition config_line :: "string \<Rightarrow> (string \<times> string) result" where
  "config_line line =
     (case map strip_str (split_on (CHR ''|'') line) of
        k # v # _ \<Rightarrow> Inr (k, v)
      | _ \<Rightarrow> Inl (IndexError ''list index out of range''))"

definition parse_config :: "string \<Rightarrow> (string, string) odict result" where
  "parse_config out =
     r_bind (r_map config_line (drop 2 (split_lines out))) (\<lambda>kvs. Inr (fold (\<lambda>(k, v) d. od_set d k v) kvs []))"

definition get_snapper_config :: "'w snapshot_env \<Rightarrow> ('w, (string, string) odict) prog" where
  "get_snapper_config s =
     p_bind (run_command (sn_sys s) [''snapper'', ''get-config''] True) (\<lambda>out. p_lift (parse_config out))"

definition snapper_set_config :: "'w snapshot_env \<Rightarrow> string list \<Rightarrow> ('w, unit) prog" where
  "snapper_set_config s config = run_ok (sn_sys s) ([''snapper'', ''set-config''] @ config) True"

definition convert_to_range :: "(string, string) odict \<Rightarrow> string \<Rightarrow> string result" where
  "convert_to_range config key =
     r_bind (od_get config key) (\<lambda>value.
       Inr (key @ ''='' @ (if CHR ''-'' \<in> set value then value else ''0-'' @ value)))"

definition migrate_config_from_version_3 :: "'w snapshot_env \<Rightarrow> ('w, unit) prog" where
  "migrate_config_from_version_3 s =
     p_bind (get_snapper_config s) (\<lambda>config.
     p_bind (p_lift (r_map (convert_to_range config)
        [''TIMELINE_LIMIT_HOURLY'', ''TIMELINE_LIMIT_DAILY'', ''TIMELINE_LIMIT_WEEKLY'', ''TIMELINE_LIMIT_MONTHLY'', ''TIMELINE_LIMIT_YEARLY'']))
       (\<lambda>ranges. run_ok (sn_sys s)
          ([''snapper'', ''set-config'', ''TIMELINE_CLEANUP=yes'', ''TIMELINE_MIN_AGE=0''] @ ranges @
           [''NUMBER_CLEANUP=yes'', ''NUMBER_MIN_AGE=0'', ''NUMBER_LIMIT=0-100'', ''NUMBER_LIMIT_IMPORTANT=0-20'',
            ''EMPTY_PRE_POST_MIN_AGE=0'', ''FREE_LIMIT=0.3'']) True))"

definition set_default_config :: "'w snapshot_env \<Rightarrow> ('w, unit) prog" where
  "set_default_config s =
     run_ok (sn_sys s)
       [''snapper'', ''set-config'', ''TIMELINE_CLEANUP=yes'', ''TIMELINE_CREATE=yes'', ''TIMELINE_MIN_AGE=0'',
        ''TIMELINE_LIMIT_HOURLY=0-10'', ''TIMELINE_LIMIT_DAILY=0-3'', ''TIMELINE_LIMIT_WEEKLY=0-2'',
        ''TIMELINE_LIMIT_MONTHLY=0-2'', ''TIMELINE_LIMIT_YEARLY=0-0'', ''NUMBER_CLEANUP=yes'', ''NUMBER_MIN_AGE=0'',
        ''NUMBER_LIMIT=0-100'', ''NUMBER_LIMIT_IMPORTANT=0-20'', ''EMPTY_PRE_POST_MIN_AGE=0'', ''FREE_LIMIT=0.3''] True"

definition snapshot_setup :: "'w snapshot_env \<Rightarrow> nat \<Rightarrow> ('w, unit) prog" where
  "snapshot_setup s old_version =
     p_bind (run_command (sn_sys s) [''snapper'', ''list-configs''] True) (\<lambda>out.
     p_then (if contains_str ''root'' out then p_ret () else run_ok (sn_sys s) [''snapper'', ''create-config'', ''/''] True)
     (p_then (if old_version \<noteq> 0 \<and> old_version \<le> 4 then remove_fstab_entry s ''/'' else p_ret ())
     (p_then (add_automount_unit s ''/'')
       (if old_version = 0 then set_default_config s
        else if old_version \<le> 3 then migrate_config_from_version_3 s
        else p_ret ()))))"

text \<open>The app: \<open>super\<close> is the setup of its components.\<close>

definition snapshot_app_setup :: "'w snapshot_env \<Rightarrow> (nat \<Rightarrow> ('w, unit) prog) \<Rightarrow> ('w, unit) prog \<Rightarrow> nat \<Rightarrow> ('w, unit) prog" where
  "snapshot_app_setup s super enable old_version =
     p_then (super old_version)
       (p_bind (is_supported (sn_machine s)) (\<lambda>b.
          if b then p_then (snapshot_setup s old_version) enable else p_ret ()))"

section \<open>The list of snapshots\<close>

record snapshot =
  st_number :: string
  st_is_default :: bool
  st_is_active :: bool
  st_rest :: "(string, string) odict"

definition strip_chars :: "char set \<Rightarrow> string \<Rightarrow> string" where
  "strip_chars cs s = rev (dropWhile (\<lambda>c. c \<in> cs) (rev (dropWhile (\<lambda>c. c \<in> cs) s)))"

definition parse_number :: "string \<Rightarrow> (string \<times> bool \<times> bool) result" where
  "parse_number number =
     (if number = [] then Inl (IndexError ''string index out of range'')
      else Inr (strip_chars {CHR ''-'', CHR ''+'', CHR ''*''} number,
                last number \<in> {CHR ''+'', CHR ''*''}, last number \<in> {CHR ''-'', CHR ''*''}))"

definition rest_keys :: "string list" where
  "rest_keys = [''type'', ''pre_number'', ''date'', ''user'', ''cleanup'', ''description'']"

definition snapshot_line :: "string \<Rightarrow> snapshot result" where
  "snapshot_line line =
     (let parts = map strip_str (split_on (CHR ''|'') line)
      in r_bind (parse_number (hd parts)) (\<lambda>(number, is_default, is_active).
           Inr \<lparr>st_number = number, st_is_default = is_default, st_is_active = is_active, st_rest = zip rest_keys (tl parts)\<rparr>))"

definition parse_snapshots :: "string \<Rightarrow> snapshot list result" where
  "parse_snapshots out =
     r_bind (r_map snapshot_line (drop 2 (split_lines out))) (\<lambda>ss. Inr (rev (filter (\<lambda>st. st_number st \<noteq> ''0'') ss)))"

definition list_snapshots :: "'w snapshot_env \<Rightarrow> ('w, snapshot list) prog" where
  "list_snapshots s =
     p_bind (run_command (sn_sys s) [''snapper'', ''list''] True) (\<lambda>out. p_lift (parse_snapshots out))"

definition default_snapshot_of :: "string \<Rightarrow> string option" where
  "default_snapshot_of out =
     (let parts = split_words out; path_parts = split_on (CHR ''/'') (parts ! 8)
      in if length parts \<ge> 9 \<and> length path_parts = 3 \<and> path_parts ! 0 = ''.snapshots'' then Some (path_parts ! 1) else None)"

definition get_default_snapshot :: "'w snapshot_env \<Rightarrow> ('w, string option) prog" where
  "get_default_snapshot s =
     p_bind (run_command (sn_sys s) [''btrfs'', ''subvolume'', ''get-default'', ''/''] True) (\<lambda>out. p_ret (default_snapshot_of out))"

definition create_snapshot :: "'w snapshot_env \<Rightarrow> ('w, unit) prog" where
  "create_snapshot s = run_ok (sn_sys s) [''snapper'', ''create'', ''--description'', ''manually created''] True"

definition remove_snapshot :: "'w snapshot_env \<Rightarrow> string \<Rightarrow> ('w, unit) prog" where
  "remove_snapshot s number = run_ok (sn_sys s) [''snapper'', ''delete'', number] True"

definition rollback_snapshot :: "'w snapshot_env \<Rightarrow> string \<Rightarrow> ('w, unit) prog" where
  "rollback_snapshot s number = run_ok (sn_sys s) [''snapper'', ''--ambit'', ''classic'', ''rollback'', number] True"

text \<open>A failing call of the bus means that the daemon does not run; the other errors are raised.\<close>

definition kill_daemon :: "'w snapshot_env \<Rightarrow> ('w, unit) prog" where
  "kill_daemon s =
     p_bind (p_catch (p_bind (sn_daemon_pid s) (\<lambda>pid. p_ret (Some pid))) (\<lambda>e. case e of GlibError _ \<Rightarrow> p_ret None | _ \<Rightarrow> p_raise e))
       (\<lambda>r. case r of None \<Rightarrow> p_ret () | Some pid \<Rightarrow> sn_kill s pid)"

section \<open>Settings\<close>

text \<open>The initial values of the form are pairs for the choices and texts; the form gives texts and numbers.\<close>

datatype initial = Choice string string | Plain string

datatype cleaned = Text string | Number int

fun same_value :: "initial \<Rightarrow> cleaned \<Rightarrow> bool" where
  "same_value (Plain t) (Text u) \<longleftrightarrow> t = u"
| "same_value _ _ \<longleftrightarrow> False"

primrec value_text :: "cleaned \<Rightarrow> string" where
  "value_text (Text t) = t"
| "value_text (Number n) = int_text n"

definition boolean_choice :: "bool \<Rightarrow> initial" where
  "boolean_choice b = (if b then Choice ''yes'' ''Enabled'' else Choice ''no'' ''Disabled'')"

definition max_from_range :: "(string, string) odict \<Rightarrow> string \<Rightarrow> initial result" where
  "max_from_range output key = r_bind (od_get output key) (\<lambda>v. Inr (Plain (last (split_on (CHR ''-'') v))))"

definition configuration_of :: "string option \<Rightarrow> (string, string) odict \<Rightarrow> (string, initial) odict result" where
  "configuration_of flag output =
     r_bind (od_get output ''TIMELINE_CREATE'') (\<lambda>create.
     r_bind (max_from_range output ''TIMELINE_LIMIT_HOURLY'') (\<lambda>hourly.
     r_bind (max_from_range output ''TIMELINE_LIMIT_DAILY'') (\<lambda>daily.
     r_bind (max_from_range output ''TIMELINE_LIMIT_WEEKLY'') (\<lambda>weekly.
     r_bind (max_from_range output ''TIMELINE_LIMIT_MONTHLY'') (\<lambda>monthly.
     r_bind (max_from_range output ''TIMELINE_LIMIT_YEARLY'') (\<lambda>yearly.
     r_bind (od_get output ''FREE_LIMIT'') (\<lambda>free.
       Inr [(''enable_timeline_snapshots'', boolean_choice (create = ''yes'')),
            (''enable_software_snapshots'', boolean_choice (is_apt_snapshots_enabled flag)),
            (''hourly_limit'', hourly), (''daily_limit'', daily), (''weekly_limit'', weekly),
            (''monthly_limit'', monthly), (''yearly_limit'', yearly), (''free_space'', Plain free)])))))))"

definition get_configuration :: "'w snapshot_env \<Rightarrow> ('w, (string, initial) odict) prog" where
  "get_configuration s =
     p_bind (p_get (uv_apt_flag (sn_machine s))) (\<lambda>flag.
     p_bind (get_snapper_config s) (\<lambda>output. p_lift (configuration_of flag output)))"

definition setting_stamps :: "(string \<times> string) list" where
  "setting_stamps =
     [(''enable_timeline_snapshots'', ''TIMELINE_CREATE=''), (''hourly_limit'', ''TIMELINE_LIMIT_HOURLY=''),
      (''daily_limit'', ''TIMELINE_LIMIT_DAILY=''), (''weekly_limit'', ''TIMELINE_LIMIT_WEEKLY=''),
      (''monthly_limit'', ''TIMELINE_LIMIT_MONTHLY=''), (''yearly_limit'', ''TIMELINE_LIMIT_YEARLY=''),
      (''free_space'', ''FREE_LIMIT='')]"

definition make_config :: "(string, initial) odict \<Rightarrow> (string, cleaned) odict \<Rightarrow> string \<times> string \<Rightarrow> string option result" where
  "make_config old_status new_status = (\<lambda>(key, stamp).
     r_bind (od_get old_status key) (\<lambda>old_value.
     r_bind (od_get new_status key) (\<lambda>new_value.
       Inr (if same_value old_value new_value then None
            else Some (stamp @ (if contains_str ''limit'' key then ''0-'' else []) @ value_text new_value)))))"

text \<open>The filter is only evaluated inside the try block, so a missing setting is reported as a message.\<close>

definition update_configuration :: "'w snapshot_env \<Rightarrow> (string, initial) odict \<Rightarrow> (string, cleaned) odict \<Rightarrow> ('w, unit) prog" where
  "update_configuration s old_status new_status =
     p_bind (p_lift (od_get old_status ''enable_software_snapshots'')) (\<lambda>old_value.
     p_bind (p_lift (od_get new_status ''enable_software_snapshots'')) (\<lambda>new_value.
     p_then (if same_value old_value new_value then p_ret ()
             else sn_set_apt_flag s (if new_value = Text ''yes'' then ''no'' else ''yes''))
     (p_catch
        (p_bind (p_lift (r_map (make_config old_status new_status) setting_stamps)) (\<lambda>config.
         p_then (snapper_set_config s (concat (map (case_option [] (\<lambda>c. [c])) config)))
                (sn_message s ''success'' ''Configuration updated.'')))
        (sn_message_error s ''Configuration update failed.''))))"

section \<open>The pages\<close>

datatype manage_page =
    Not_supported
  | Delete_selected "string list"
  | Manage_page "snapshot list" bool

text \<open>The names in the submitted form, and the values of \<open>snapshot_list\<close>; None when the page is only shown.\<close>

definition manage_snapshots :: "'w snapshot_env \<Rightarrow> (string list \<times> string list) option \<Rightarrow> ('w, manage_page) prog" where
  "manage_snapshots s post =
     p_bind (is_supported (sn_machine s)) (\<lambda>b.
       if \<not> b then p_ret Not_supported
       else
         (let names = (case post of None \<Rightarrow> [] | Some p \<Rightarrow> fst p); to_delete = (case post of None \<Rightarrow> [] | Some p \<Rightarrow> snd p)
          in p_then (if ''create'' \<in> set names
                     then p_then (create_snapshot s) (sn_message s ''success'' ''Created snapshot.'') else p_ret ())
               (if ''delete_selected'' \<in> set names \<and> to_delete \<noteq> [] then p_ret (Delete_selected to_delete)
                else p_bind (list_snapshots s) (\<lambda>ss.
                       p_ret (Manage_page ss (list_ex (\<lambda>st. \<not> st_is_default st \<and> \<not> st_is_active st) ss))))))"

definition snapshots_to_delete :: "string list \<Rightarrow> snapshot list \<Rightarrow> snapshot list" where
  "snapshots_to_delete to_delete ss =
     filter (\<lambda>st. st_number st \<in> set to_delete \<and> \<not> st_is_active st \<and> \<not> st_is_default st) ss"

definition delete_failure :: "'w snapshot_env \<Rightarrow> exn \<Rightarrow> string" where
  "delete_failure s e =
     (if contains_str ''Config is in use.'' (sn_stderr s e) then ''Snapshot is currently in use. Please try again later.''
      else ''Deleting snapshot failed.'')"

text \<open>None is the redirection to the list; a list asks for confirmation.\<close>

definition delete_selected :: "'w snapshot_env \<Rightarrow> bool \<Rightarrow> string list \<Rightarrow> ('w, snapshot list option) prog" where
  "delete_selected s is_post to_delete =
     (if to_delete = [] then p_ret None
      else p_bind (list_snapshots s) (\<lambda>ss.
           if is_post
           then p_then
                  (p_catch
                     (p_then (p_for (remove_snapshot s \<circ> st_number) (snapshots_to_delete to_delete ss))
                             (sn_message s ''success'' ''Deleted selected snapshots''))
                     (\<lambda>e. sn_message_error s (delete_failure s e) e))
                  (p_ret None)
           else p_ret (Some (snapshots_to_delete to_delete ss))))"

text \<open>None is the redirection to the restart; else the last snapshot with the number is shown.\<close>

definition rollback_page :: "'w snapshot_env \<Rightarrow> bool \<Rightarrow> string \<Rightarrow> ('w, snapshot option option) prog" where
  "rollback_page s is_post number =
     (if is_post
      then p_then (rollback_snapshot s number)
           (p_then (sn_message s ''success'' (''Rolled back to snapshot #'' @ number @ ''.''))
           (p_then (sn_message s ''warning'' ''The system must be restarted to complete the rollback.'') (p_ret None)))
      else p_bind (list_snapshots s) (\<lambda>ss. p_ret (Some (find (\<lambda>st. st_number st = number) (rev ss)))))"

end
