(* ===== verification/SnapshotLaws.thy ===== *)
theory SnapshotLaws
  imports Snapshot AppOrder
begin

text \<open>
  What the snapshots app promises over snapper: the tables that snapper prints are read back, deleting
  selected snapshots takes exactly the removable ones that were selected, and the settings that
  are submitted are the settings that are shown.
\<close>

section \<open>Tables\<close>

text \<open>Cells are padded with spaces on both sides, and two lines stand above the rows.\<close>

definition padded :: "string \<Rightarrow> string \<Rightarrow> bool" where
  "padded f c \<longleftrightarrow> (\<exists>l r. c = replicate l (CHR '' '') @ f @ replicate r (CHR '' ''))"

definition prints_row :: "string list \<Rightarrow> string \<Rightarrow> bool" where
  "prints_row fs line \<longleftrightarrow> (\<exists>cells. line = join_str ''|'' cells \<and> list_all2 padded fs cells)"

definition prints_table :: "string list list \<Rightarrow> string \<Rightarrow> bool" where
  "prints_table rows out \<longleftrightarrow>
     (\<exists>h ruler lines. out = unlines (h # ruler # lines) \<and> CHR 0x0A \<notin> set h \<and> CHR 0x0A \<notin> set ruler \<and>
        list_all2 prints_row rows lines)"

definition clean_field :: "string \<Rightarrow> bool" where
  "clean_field f \<longleftrightarrow> strip_str f = f \<and> CHR ''|'' \<notin> set f \<and> CHR 0x0A \<notin> set f"

definition clean_row :: "string list \<Rightarrow> bool" where
  "clean_row fs \<longleftrightarrow> fs \<noteq> [] \<and> (\<forall>f \<in> set fs. clean_field f)"

lemma split_line: "c \<notin> set l \<Longrightarrow> split_on c (l @ c # s) = l # split_on c s"
  by (induction l) auto

lemma split_lines_table: "\<forall>l \<in> set ls. CHR 0x0A \<notin> set l \<Longrightarrow> split_lines (unlines ls) = ls"
proof -
  assume "\<forall>l \<in> set ls. CHR 0x0A \<notin> set l"
  then have "split_on (CHR 0x0A) (unlines ls) = ls @ [[]]"
    by (induction ls) (simp_all add: unlines_def split_line)
  then show ?thesis by (simp add: split_lines_def)
qed

lemma split_join: "cells \<noteq> [] \<Longrightarrow> \<forall>x \<in> set cells. c \<notin> set x \<Longrightarrow> split_on c (join_str [c] cells) = cells"
proof (induction cells)
  case (Cons x xs)
  have one: "c \<notin> set x \<Longrightarrow> split_on c x = [x]" for x by (induction x) auto
  show ?case
  proof (cases xs)
    case Nil
    then show ?thesis using Cons.prems one by simp
  next
    case (Cons y ys)
    then show ?thesis using Cons.IH Cons.prems split_line[of c x] by simp
  qed
qed simp

lemma strip_padded:
  assumes "strip_str f = f"
  shows "strip_str (replicate l (CHR '' '') @ f @ replicate r (CHR '' '')) = f"
proof -
  define ws where "ws = (\<lambda>c::char. c \<in> {CHR '' '', CHR 0x09, CHR 0x0A, CHR 0x0B, CHR 0x0C, CHR 0x0D})"
  have strip: "strip_str s = rev (dropWhile ws (rev (dropWhile ws s)))" for s
    by (simp add: strip_str_def ws_def Let_def)
  have sp: "ws (CHR '' '')" by (simp add: ws_def)
  have lead: "dropWhile ws (replicate n (CHR '' '') @ s) = dropWhile ws s" for n s
    using sp by (induction n) auto
  show ?thesis
  proof (cases "\<exists>x \<in> set f. \<not> ws x")
    case True
    then have "dropWhile ws (f @ replicate r (CHR '' '')) = dropWhile ws f @ replicate r (CHR '' '')"
      by (auto simp: dropWhile_append1)
    then have "strip_str (replicate l (CHR '' '') @ f @ replicate r (CHR '' '')) = strip_str f"
      by (simp add: strip lead)
    then show ?thesis using assms by simp
  next
    case False
    then have all: "dropWhile ws f = []" by (simp add: dropWhile_eq_Nil_conv)
    have "strip_str f = rev (dropWhile ws (rev []))" by (simp only: strip all)
    then have "f = []" using assms by simp
    moreover have "dropWhile ws (replicate r (CHR '' '')) = []" using sp by (induction r) auto
    ultimately show ?thesis by (simp only: strip append_Nil lead) simp
  qed
qed

lemma cells_of_row:
  assumes "clean_row fs" and "prints_row fs line"
  shows "map strip_str (split_on (CHR ''|'') line) = fs" and "CHR 0x0A \<notin> set line"
proof -
  obtain cells where c: "line = join_str ''|'' cells" "list_all2 padded fs cells"
    using assms(2) by (auto simp: prints_row_def)
  have each: "strip_str (cells ! i) = fs ! i \<and> CHR ''|'' \<notin> set (cells ! i) \<and> CHR 0x0A \<notin> set (cells ! i)" if "i < length fs" for i
  proof -
    have "padded (fs ! i) (cells ! i)" "clean_field (fs ! i)"
      using c(2) that assms(1) by (auto simp: list_all2_conv_all_nth clean_row_def)
    then show ?thesis by (auto simp: padded_def clean_field_def strip_padded)
  qed
  have len: "length cells = length fs" "cells \<noteq> []" using c(2) assms(1) by (auto simp: clean_row_def dest: list_all2_lengthD)
  have free: "\<forall>x \<in> set cells. CHR ''|'' \<notin> set x \<and> CHR 0x0A \<notin> set x" using each len by (metis in_set_conv_nth)
  have "split_on (CHR ''|'') line = cells" using split_join[OF len(2)] free c(1) by simp
  then show "map strip_str (split_on (CHR ''|'') line) = fs" using each len by (intro nth_equalityI) simp_all
  have "CHR 0x0A \<notin> set (join_str ''|'' xs)" if "\<forall>x \<in> set xs. CHR 0x0A \<notin> set x" for xs :: "string list"
    using that by (induction "''|''" xs rule: join_str.induct) auto
  then show "CHR 0x0A \<notin> set line" using free c(1) by blast
qed

lemma lines_of_table:
  assumes "\<forall>fs \<in> set rows. clean_row fs" and "prints_table rows out"
  obtains lines where "drop 2 (split_lines out) = lines" "map (\<lambda>l. map strip_str (split_on (CHR ''|'') l)) lines = rows"
proof -
  obtain h ruler lines where t: "out = unlines (h # ruler # lines)" "CHR 0x0A \<notin> set h" "CHR 0x0A \<notin> set ruler"
    "list_all2 prints_row rows lines" using assms(2) by (auto simp: prints_table_def)
  have each: "map strip_str (split_on (CHR ''|'') (lines ! i)) = rows ! i \<and> CHR 0x0A \<notin> set (lines ! i)" if "i < length rows" for i
    using cells_of_row[of "rows ! i" "lines ! i"] t(4) that assms(1) by (simp add: list_all2_conv_all_nth)
  have len: "length lines = length rows" using t(4) by (auto dest: list_all2_lengthD)
  have "\<forall>l \<in> set lines. CHR 0x0A \<notin> set l" using each len by (metis in_set_conv_nth)
  then have "split_lines out = h # ruler # lines" using t(1-3) split_lines_table[of "h # ruler # lines"] by simp
  moreover have "map (\<lambda>l. map strip_str (split_on (CHR ''|'') l)) lines = rows"
    using each len by (intro nth_equalityI) simp_all
  ultimately show ?thesis using that[of lines] by simp
qed


section \<open>The list of snapshots\<close>

definition snapshot_clean :: "snapshot \<Rightarrow> bool" where
  "snapshot_clean st \<longleftrightarrow>
     st_number st \<noteq> [] \<and> (\<forall>c \<in> set (st_number st). digit_value c \<noteq> None) \<and> map fst (st_rest st) = rest_keys \<and>
     (\<forall>f \<in> set (map snd (st_rest st)). clean_field f)"

definition number_mark :: "snapshot \<Rightarrow> string" where
  "number_mark st =
     (if st_is_default st then if st_is_active st then ''*'' else ''+'' else if st_is_active st then ''-'' else [])"

definition snapshot_row :: "snapshot \<Rightarrow> string list" where
  "snapshot_row st = (st_number st @ number_mark st) # map snd (st_rest st)"

lemma digit_plain:
  "digit_value c \<noteq> None \<Longrightarrow>
     c \<notin> {CHR '' '', CHR 0x09, CHR 0x0A, CHR 0x0B, CHR 0x0C, CHR 0x0D, CHR ''|'', CHR ''+'', CHR ''-'', CHR ''*''}"
  by (auto simp: digit_value_def Let_def)

lemma dropWhile_none: "\<forall>c \<in> set s. \<not> P c \<Longrightarrow> dropWhile P s = s"
  by (cases s) auto

lemma strip_chars_none: "\<forall>c \<in> set s. c \<notin> cs \<Longrightarrow> strip_chars cs s = s"
  by (simp add: strip_chars_def dropWhile_none)

lemma strip_chars_end: "s \<noteq> [] \<Longrightarrow> \<forall>c \<in> set s. c \<notin> cs \<Longrightarrow> m \<in> cs \<Longrightarrow> strip_chars cs (s @ [m]) = s"
  using strip_chars_none[of s cs] by (cases s) (simp_all add: strip_chars_def)

lemma number_of_row:
  assumes "snapshot_clean st"
  shows "clean_field (st_number st @ number_mark st)"
    and "parse_number (st_number st @ number_mark st) = Inr (st_number st, st_is_default st, st_is_active st)"
proof -
  have d: "c \<notin> {CHR '' '', CHR 0x09, CHR 0x0A, CHR 0x0B, CHR 0x0C, CHR 0x0D, CHR ''|'', CHR ''+'', CHR ''-'', CHR ''*''}"
    if "c \<in> set (st_number st)" for c
    using that assms by (intro digit_plain) (simp add: snapshot_clean_def)
  have m: "set (number_mark st) \<subseteq> {CHR ''+'', CHR ''-'', CHR ''*''}" by (simp add: number_mark_def)
  have "strip_str s = strip_chars {CHR '' '', CHR 0x09, CHR 0x0A, CHR 0x0B, CHR 0x0C, CHR 0x0D} s" for s
    by (simp add: strip_str_def strip_chars_def Let_def)
  moreover have "\<forall>c \<in> set (st_number st @ number_mark st). c \<notin> {CHR '' '', CHR 0x09, CHR 0x0A, CHR 0x0B, CHR 0x0C, CHR 0x0D}"
    using d m by auto
  ultimately have "strip_str (st_number st @ number_mark st) = st_number st @ number_mark st"
    by (simp only: strip_chars_none)
  then show "clean_field (st_number st @ number_mark st)"
    using d m by (auto simp: clean_field_def)
  have ne: "st_number st \<noteq> []" using assms by (simp add: snapshot_clean_def)
  have last: "last (st_number st) \<in> set (st_number st)" using ne by simp
  have "\<forall>c \<in> set (st_number st). c \<notin> {CHR ''-'', CHR ''+'', CHR ''*''}" using d by auto
  note none = strip_chars_none[OF this] and one = strip_chars_end[OF ne this]
  show "parse_number (st_number st @ number_mark st) = Inr (st_number st, st_is_default st, st_is_active st)"
    using ne d[OF last] by (simp add: parse_number_def number_mark_def none one)
qed

lemma row_of_snapshot:
  assumes "snapshot_clean st"
  shows "clean_row (snapshot_row st)"
    and "map strip_str (split_on (CHR ''|'') line) = snapshot_row st \<Longrightarrow> snapshot_line line = Inr st"
proof -
  show "clean_row (snapshot_row st)"
    using number_of_row(1)[OF assms] assms by (auto simp: clean_row_def snapshot_row_def snapshot_clean_def)
  have "zip rest_keys (map snd (st_rest st)) = st_rest st"
    using assms zip_map_fst_snd[of "st_rest st"] by (simp add: snapshot_clean_def)
  then show "map strip_str (split_on (CHR ''|'') line) = snapshot_row st \<Longrightarrow> snapshot_line line = Inr st"
    by (simp add: snapshot_line_def snapshot_row_def number_of_row(2)[OF assms])
qed

lemma parse_printed_snapshots:
  assumes "\<forall>st \<in> set ss. snapshot_clean st" and "prints_table (map snapshot_row ss) out"
  shows "parse_snapshots out = Inr (rev (filter (\<lambda>st. st_number st \<noteq> ''0'') ss))"
proof -
  have "\<forall>fs \<in> set (map snapshot_row ss). clean_row fs" using assms(1) row_of_snapshot(1) by auto
  then obtain lines where l: "drop 2 (split_lines out) = lines"
    "map (\<lambda>l. map strip_str (split_on (CHR ''|'') l)) lines = map snapshot_row ss"
    using lines_of_table[OF _ assms(2)] by blast
  have len: "length lines = length ss" using arg_cong[OF l(2), of length] by simp
  have "snapshot_line (lines ! i) = Inr (ss ! i)" if "i < length ss" for i
    using row_of_snapshot(2)[of "ss ! i" "lines ! i"] arg_cong[OF l(2), of "\<lambda>xs. xs ! i"] that len assms(1) by simp
  then have "r_map snapshot_line lines = Inr ss" using len by (simp add: r_map_Inr_iff list_all2_conv_all_nth)
  then show ?thesis by (simp add: parse_snapshots_def l(1))
qed


section \<open>Deleting\<close>

text \<open>
  What \<open>snapper list\<close> and \<open>snapper delete\<close> do: the first prints the snapshots; the second removes the
  one with the number, or fails and removes none. Messages leave the snapshots alone.
\<close>

definition snapper_laws :: "'w snapshot_env \<Rightarrow> ('w \<Rightarrow> snapshot list) \<Rightarrow> (string \<Rightarrow> bool) \<Rightarrow> bool" where
  "snapper_laws s snaps works \<longleftrightarrow>
     (\<forall>w. \<exists>out. sh (sn_sys s) [''snapper'', ''list''] w = (Inr (0, out), w) \<and> prints_table (map snapshot_row (snaps w)) out) \<and>
     (\<forall>n w. \<exists>out w'. sh (sn_sys s) [''snapper'', ''delete'', n] w = (Inr (if works n then 0 else 1, out), w') \<and>
        snaps w' = (if works n then filter (\<lambda>st. st_number st \<noteq> n) (snaps w) else snaps w)) \<and>
     (\<forall>l t w. snaps (snd (sn_message s l t w)) = snaps w) \<and>
     (\<forall>t e w. snaps (snd (sn_message_error s t e w)) = snaps w)"

definition removable :: "string list \<Rightarrow> snapshot list \<Rightarrow> string list" where
  "removable selected ss =
     map st_number (filter (\<lambda>st. st_number st \<in> set selected \<and> \<not> st_is_active st \<and> \<not> st_is_default st)
       (rev (filter (\<lambda>st. st_number st \<noteq> ''0'') ss)))"

lemma list_snapshots_reads:
  assumes "snapper_laws s snaps works" and "\<forall>st \<in> set (snaps w). snapshot_clean st"
  shows "list_snapshots s w = (Inr (rev (filter (\<lambda>st. st_number st \<noteq> ''0'') (snaps w))), w)"
proof -
  obtain out where "sh (sn_sys s) [''snapper'', ''list''] w = (Inr (0, out), w)" "prints_table (map snapshot_row (snaps w)) out"
    using assms(1) unfolding snapper_laws_def by blast
  then show ?thesis
    using parse_printed_snapshots[OF assms(2)]
    by (simp add: list_snapshots_def run_command_def p_bind_def p_ret_def p_lift_def)
qed

lemma delete_each:
  assumes "snapper_laws s snaps works"
  shows "\<exists>r w'. p_for (remove_snapshot s) ns w = (r, w') \<and> (r = Inr () \<longleftrightarrow> list_all works ns) \<and>
    snaps w' = filter (\<lambda>st. st_number st \<notin> set (takeWhile works ns)) (snaps w)"
proof (induction ns arbitrary: w)
  case Nil
  then show ?case by (simp add: p_ret_def)
next
  case (Cons n ns)
  obtain out w1 where d: "sh (sn_sys s) [''snapper'', ''delete'', n] w = (Inr (if works n then 0 else 1, out), w1)"
    "snaps w1 = (if works n then filter (\<lambda>st. st_number st \<noteq> n) (snaps w) else snaps w)"
    using assms unfolding snapper_laws_def by meson
  show ?case
  proof (cases "works n")
    case True
    then have "p_for (remove_snapshot s) (n # ns) w = p_for (remove_snapshot s) ns w1"
      using d(1) by (simp add: remove_snapshot_def run_ok_def run_command_def p_then_def p_bind_def p_ret_def)
    moreover obtain r w' where "p_for (remove_snapshot s) ns w1 = (r, w')" "r = Inr () \<longleftrightarrow> list_all works ns"
      "snaps w' = filter (\<lambda>st. st_number st \<notin> set (takeWhile works ns)) (snaps w1)" using Cons.IH by blast
    ultimately show ?thesis using True d(2) by (auto intro: filter_cong)
  next
    case False
    then show ?thesis
      using d by (simp add: remove_snapshot_def run_ok_def run_command_def p_then_def p_bind_def p_ret_def p_raise_def)
  qed
qed

text \<open>C39: deleting selected snapshots removes, of the snapshots that were selected, those that are neither
  the running nor the default one nor number 0, from the newest to the oldest until snapper refuses one, and
  nothing else: whatever numbers the request names, the snapshot that runs, the one that is
  started next and every snapshot that was not selected are still there.\<close>

theorem deletion_spares_running:
  assumes laws: "snapper_laws s snaps works" and clean: "\<forall>st \<in> set (snaps w). snapshot_clean st"
    and one: "distinct (map st_number (snaps w))"
  shows "snaps (snd (delete_selected s True selected w)) =
      filter (\<lambda>st. st_number st \<notin> set (takeWhile works (removable selected (snaps w)))) (snaps w) \<and>
    (\<forall>st \<in> set (snaps w). st_is_active st \<or> st_is_default st \<or> st_number st = ''0'' \<or> st_number st \<notin> set selected \<longrightarrow>
       st \<in> set (snaps (snd (delete_selected s True selected w))))"
proof -
  let ?ns = "removable selected (snaps w)"
  have gone: "snaps (snd (delete_selected s True selected w)) = filter (\<lambda>st. st_number st \<notin> set (takeWhile works ?ns)) (snaps w)"
  proof (cases "selected = []")
    case True
    then show ?thesis by (simp add: delete_selected_def removable_def p_ret_def)
  next
    case False
    note listed = list_snapshots_reads[OF laws clean]
    let ?del = "p_for (remove_snapshot s \<circ> st_number) (snapshots_to_delete selected (rev (filter (\<lambda>st. st_number st \<noteq> ''0'') (snaps w))))"
    have "p_for (f \<circ> g) xs = p_for f (map g xs)" for f :: "string \<Rightarrow> ('a, unit) prog" and g :: "snapshot \<Rightarrow> string" and xs
      by (induction xs) simp_all
    then have "?del = p_for (remove_snapshot s) ?ns" by (simp add: snapshots_to_delete_def removable_def conj_assoc)
    then obtain r w' where d: "?del w = (r, w')" "snaps w' = filter (\<lambda>st. st_number st \<notin> set (takeWhile works ?ns)) (snaps w)"
      using delete_each[OF laws, of ?ns w] by auto
    have m: "snaps (snd (sn_message s l t w)) = snaps w" "snaps (snd (sn_message_error s t e w)) = snaps w" for l t e w
      using laws by (simp_all add: snapper_laws_def)
    show ?thesis
      using False d m[where w = w'] m
      by (cases r) (auto simp: delete_selected_def p_bind_def p_then_def p_catch_def p_ret_def listed split: prod.splits sum.splits,
          (metis snd_conv)+)
  qed
  have "st_number st \<notin> set ?ns"
    if "st \<in> set (snaps w)" "st_is_active st \<or> st_is_default st \<or> st_number st = ''0'' \<or> st_number st \<notin> set selected" for st
    using that one by (auto simp: removable_def distinct_map inj_on_def)
  moreover have "set (takeWhile works ?ns) \<subseteq> set ?ns" by (auto dest: set_takeWhileD)
  ultimately have "\<forall>st \<in> set (snaps w). st_is_active st \<or> st_is_default st \<or> st_number st = ''0'' \<or> st_number st \<notin> set selected \<longrightarrow>
      st_number st \<notin> set (takeWhile works ?ns)" by blast
  then show ?thesis using gone by simp
qed


section \<open>Settings\<close>

text \<open>
  What \<open>snapper get-config\<close> and \<open>snapper set-config\<close> do: the first prints the keys with their values,
  the second takes settings \<open>key=value\<close>. Augeas writes the flag of apt. None of them changes what
  another one reads, and messages change neither.
\<close>

definition clean_config :: "(string, string) odict \<Rightarrow> bool" where
  "clean_config conf \<longleftrightarrow> distinct (map fst conf) \<and> (\<forall>(k, v) \<in> set conf. clean_field k \<and> clean_field v)"

definition config_laws :: "'w snapshot_env \<Rightarrow> ('w \<Rightarrow> (string, string) odict) \<Rightarrow> bool" where
  "config_laws s conf \<longleftrightarrow>
     (let flag = uv_apt_flag (sn_machine s) in
     (\<forall>w. \<exists>out. sh (sn_sys s) [''snapper'', ''get-config''] w = (Inr (0, out), w) \<and>
        prints_table (map (\<lambda>(k, v). [k, v]) (conf w)) out) \<and>
     (\<forall>kvs w. (\<forall>(k, v) \<in> set kvs. CHR ''='' \<notin> set k) \<longrightarrow>
        (\<exists>out w'. sh (sn_sys s) ([''snapper'', ''set-config''] @ map (\<lambda>(k, v). k @ ''='' @ v) kvs) w = (Inr (0, out), w') \<and>
           conf w' = fold (\<lambda>(k, v) d. od_set d k v) kvs (conf w) \<and> flag w' = flag w)) \<and>
     (\<forall>v w. \<exists>w'. sn_set_apt_flag s v w = (Inr (), w') \<and> flag w' = Some v \<and> conf w' = conf w) \<and>
     (\<forall>l t w. \<exists>w'. sn_message s l t w = (Inr (), w') \<and> flag w' = flag w \<and> conf w' = conf w))"

lemma od_set_all_new: "distinct (map fst (d @ kvs)) \<Longrightarrow> fold (\<lambda>(k, v) d. od_set d k v) kvs d = d @ kvs"
proof (induction kvs arbitrary: d)
  case (Cons kv kvs)
  obtain k v where kv: "kv = (k, v)" by (cases kv)
  have "od_set d k v = d @ [kv]" using Cons.prems kv by (auto simp: od_set_new)
  then show ?case using Cons.IH[of "d @ [kv]"] Cons.prems kv by simp
qed simp

lemma parse_printed_config:
  assumes "clean_config conf" and "prints_table (map (\<lambda>(k, v). [k, v]) conf) out"
  shows "parse_config out = Inr conf"
proof -
  have "\<forall>fs \<in> set (map (\<lambda>(k, v). [k, v]) conf). clean_row fs" using assms(1) by (auto simp: clean_config_def clean_row_def)
  then obtain lines where l: "drop 2 (split_lines out) = lines"
    "map (\<lambda>l. map strip_str (split_on (CHR ''|'') l)) lines = map (\<lambda>(k, v). [k, v]) conf"
    using lines_of_table[OF _ assms(2)] by blast
  have len: "length lines = length conf" using arg_cong[OF l(2), of length] by simp
  have "config_line (lines ! i) = Inr (conf ! i)" if "i < length conf" for i
    using arg_cong[OF l(2), of "\<lambda>xs. xs ! i"] that len by (simp add: config_line_def split: prod.splits)
  then have "r_map config_line lines = Inr conf" using len by (simp add: r_map_Inr_iff list_all2_conv_all_nth)
  then show ?thesis using od_set_all_new[of "[]" conf] assms(1) by (simp add: parse_config_def l(1) clean_config_def)
qed

lemma get_configuration_reads:
  assumes "config_laws s conf" and "clean_config (conf w)"
  shows "get_configuration s w = (configuration_of (uv_apt_flag (sn_machine s) w) (conf w), w)"
proof -
  obtain out where "sh (sn_sys s) [''snapper'', ''get-config''] w = (Inr (0, out), w)"
    "prints_table (map (\<lambda>(k, v). [k, v]) (conf w)) out"
    using assms(1) unfolding config_laws_def Let_def by blast
  then show ?thesis using parse_printed_config[OF assms(2)]
    by (simp add: get_configuration_def get_snapper_config_def run_command_def p_bind_def p_ret_def p_lift_def p_get_def)
qed

text \<open>The values that the form gives, and what the page shows of them afterwards.\<close>

record snapshot_settings =
  ss_timeline :: bool
  ss_apt :: bool
  ss_hourly :: nat
  ss_daily :: nat
  ss_weekly :: nat
  ss_monthly :: nat
  ss_yearly :: nat
  ss_free :: string

definition yes_no :: "bool \<Rightarrow> string" where
  "yes_no b = (if b then ''yes'' else ''no'')"

definition form_values :: "snapshot_settings \<Rightarrow> (string, cleaned) odict" where
  "form_values n =
     [(''free_space'', Text (ss_free n)), (''enable_timeline_snapshots'', Text (yes_no (ss_timeline n))),
      (''enable_software_snapshots'', Text (yes_no (ss_apt n))), (''hourly_limit'', Number (int (ss_hourly n))),
      (''daily_limit'', Number (int (ss_daily n))), (''weekly_limit'', Number (int (ss_weekly n))),
      (''monthly_limit'', Number (int (ss_monthly n))), (''yearly_limit'', Number (int (ss_yearly n)))]"

definition shown_values :: "snapshot_settings \<Rightarrow> (string, initial) odict" where
  "shown_values n =
     [(''enable_timeline_snapshots'', boolean_choice (ss_timeline n)), (''enable_software_snapshots'', boolean_choice (ss_apt n)),
      (''hourly_limit'', Plain (decimal (ss_hourly n))), (''daily_limit'', Plain (decimal (ss_daily n))),
      (''weekly_limit'', Plain (decimal (ss_weekly n))), (''monthly_limit'', Plain (decimal (ss_monthly n))),
      (''yearly_limit'', Plain (decimal (ss_yearly n))), (''free_space'', Plain (ss_free n))]"

lemma decimal_digits: "c \<in> set (decimal n) \<Longrightarrow> c \<in> set ''0123456789''"
proof (induction n rule: decimal.induct)
  case (1 n)
  have digit: "digit m \<in> set ''0123456789''" if "m < 10" for m
    unfolding digit_def using that by (intro nth_mem) simp
  show ?case
    using 1 digit[of n] digit[of "n mod 10"] by (subst (asm) (2) decimal.simps) (auto split: if_splits)
qed

lemma decimal_clean: "clean_field (''0-'' @ decimal n)"
proof -
  have "c \<in> set ''-0123456789''" if "c \<in> set (''0-'' @ decimal n)" for c
    using that decimal_digits[of c n] by auto
  then have all: "set (''0-'' @ decimal n) \<subseteq> set ''-0123456789''" by blast
  have "set ''-0123456789'' \<inter> {CHR '' '', CHR 0x09, CHR 0x0A, CHR 0x0B, CHR 0x0C, CHR 0x0D, CHR ''|''} = {}" by simp
  then have none: "\<forall>c \<in> set (''0-'' @ decimal n). c \<notin> {CHR '' '', CHR 0x09, CHR 0x0A, CHR 0x0B, CHR 0x0C, CHR 0x0D, CHR ''|''}"
    using all by blast
  have strip: "strip_str s = strip_chars {CHR '' '', CHR 0x09, CHR 0x0A, CHR 0x0B, CHR 0x0C, CHR 0x0D} s" for s
    by (simp add: strip_str_def strip_chars_def Let_def)
  have "strip_str (''0-'' @ decimal n) = ''0-'' @ decimal n"
    unfolding strip using none by (intro strip_chars_none) blast
  then show ?thesis using none unfolding clean_field_def by blast
qed

text \<open>The settings that are sent to snapper; an initial value that is a pair or a text never equals a number.\<close>

definition sent_settings :: "bool \<Rightarrow> snapshot_settings \<Rightarrow> (string \<times> string) list" where
  "sent_settings free_changed n =
     [(''TIMELINE_CREATE'', yes_no (ss_timeline n)), (''TIMELINE_LIMIT_HOURLY'', ''0-'' @ decimal (ss_hourly n)),
      (''TIMELINE_LIMIT_DAILY'', ''0-'' @ decimal (ss_daily n)), (''TIMELINE_LIMIT_WEEKLY'', ''0-'' @ decimal (ss_weekly n)),
      (''TIMELINE_LIMIT_MONTHLY'', ''0-'' @ decimal (ss_monthly n)), (''TIMELINE_LIMIT_YEARLY'', ''0-'' @ decimal (ss_yearly n))] @
     (if free_changed then [(''FREE_LIMIT'', ss_free n)] else [])"

lemma max_from_range_shape: "max_from_range output key = Inr x \<Longrightarrow> \<exists>t. x = Plain t"
  by (auto simp: max_from_range_def r_bind_Inr_iff)

lemma configuration_shape:
  assumes "configuration_of flag conf = Inr old"
  obtains c a h d k m y f where "map_of conf ''FREE_LIMIT'' = Some f"
    "old = [(''enable_timeline_snapshots'', boolean_choice c), (''enable_software_snapshots'', boolean_choice a),
      (''hourly_limit'', Plain h), (''daily_limit'', Plain d), (''weekly_limit'', Plain k), (''monthly_limit'', Plain m),
      (''yearly_limit'', Plain y), (''free_space'', Plain f)]"
proof -
  obtain create hourly daily weekly monthly yearly f where
    r: "max_from_range conf ''TIMELINE_LIMIT_HOURLY'' = Inr hourly" "max_from_range conf ''TIMELINE_LIMIT_DAILY'' = Inr daily"
      "max_from_range conf ''TIMELINE_LIMIT_WEEKLY'' = Inr weekly" "max_from_range conf ''TIMELINE_LIMIT_MONTHLY'' = Inr monthly"
      "max_from_range conf ''TIMELINE_LIMIT_YEARLY'' = Inr yearly"
    and f: "od_get conf ''FREE_LIMIT'' = Inr f"
    and old: "[(''enable_timeline_snapshots'', boolean_choice (create = ''yes'')),
            (''enable_software_snapshots'', boolean_choice (is_apt_snapshots_enabled flag)),
            (''hourly_limit'', hourly), (''daily_limit'', daily), (''weekly_limit'', weekly),
            (''monthly_limit'', monthly), (''yearly_limit'', yearly), (''free_space'', Plain f)] = old"
    using assms unfolding configuration_of_def r_bind_Inr_iff sum.inject by blast
  have "map_of conf ''FREE_LIMIT'' = Some f" using f by (simp add: od_get_def split: option.splits)
  then show ?thesis using that old[symmetric] r[THEN max_from_range_shape] by blast
qed

lemma same_choice: "same_value (boolean_choice b) v = False" "same_value (Plain t) (Number n) = False"
  by (simp_all add: boolean_choice_def)

lemma made_settings:
  assumes "configuration_of flag conf = Inr old"
  shows "\<exists>config. r_map (make_config old (form_values n)) setting_stamps = Inr config \<and>
    concat (map (case_option [] (\<lambda>c. [c])) config) =
    map (\<lambda>(k, v). k @ ''='' @ v) (sent_settings (map_of conf ''FREE_LIMIT'' \<noteq> Some (ss_free n)) n)"
proof -
  have limit: "contains_str ''limit'' ''hourly_limit''" "contains_str ''limit'' ''daily_limit''" "contains_str ''limit'' ''weekly_limit''"
    "contains_str ''limit'' ''monthly_limit''" "contains_str ''limit'' ''yearly_limit''"
    "\<not> contains_str ''limit'' ''free_space''" "\<not> contains_str ''limit'' ''enable_timeline_snapshots''"
    by simp_all
  show ?thesis
    by (rule configuration_shape[OF assms])
      (simp add: setting_stamps_def make_config_def form_values_def od_get_def sent_settings_def int_text_def same_choice limit
        del: contains_str.simps)
qed


lemma split_decimal: "split_on (CHR ''-'') (decimal n) = [decimal n]"
  using decimal_digits[of "CHR ''-''" n] by (intro split_on_none) auto

lemma od_set_entries: "set (od_set d k v) \<subseteq> insert (k, v) (set d)"
  unfolding od_set_def by (induction d) auto

lemma clean_config_set: "clean_config d \<Longrightarrow> clean_field k \<Longrightarrow> clean_field v \<Longrightarrow> clean_config (od_set d k v)"
  using od_wf_set[of d k v] od_set_entries[of d k v] by (auto simp: clean_config_def)

lemma clean_config_fold:
  "clean_config d \<Longrightarrow> \<forall>(k, v) \<in> set kvs. clean_field k \<and> clean_field v \<Longrightarrow> clean_config (fold (\<lambda>(k, v) d. od_set d k v) kvs d)"
  by (induction kvs arbitrary: d) (auto simp: clean_config_set)

lemma sent_clean:
  assumes "clean_field (ss_free n)"
  shows "\<forall>(k, v) \<in> set (sent_settings b n). clean_field k \<and> clean_field v \<and> CHR ''='' \<notin> set k"
proof -
  have keys: "clean_field ''TIMELINE_CREATE''" "clean_field ''TIMELINE_LIMIT_HOURLY''" "clean_field ''TIMELINE_LIMIT_DAILY''"
    "clean_field ''TIMELINE_LIMIT_WEEKLY''" "clean_field ''TIMELINE_LIMIT_MONTHLY''" "clean_field ''TIMELINE_LIMIT_YEARLY''"
    "clean_field ''FREE_LIMIT''" "clean_field ''yes''" "clean_field ''no''" by code_simp+
  show ?thesis using keys decimal_clean assms by (simp add: sent_settings_def yes_no_def)
qed

lemma stored_settings:
  assumes "map_of conf ''FREE_LIMIT'' = Some f"
  shows "configuration_of (Some (if ss_apt n then ''no'' else ''yes''))
      (fold (\<lambda>(k, v) d. od_set d k v) (sent_settings (f \<noteq> ss_free n) n) conf) = Inr (shown_values n)"
  using assms
  by (simp add: configuration_of_def max_from_range_def od_get_def odict_simps sent_settings_def shown_values_def yes_no_def
      is_apt_snapshots_enabled_def split_decimal)

text \<open>C40: the settings of snapshots come back as they were submitted: for whatever configuration snapper has that
  the page can show, submitting settings stores them in snapper's configuration and in the flag of
  apt, and the page then shows exactly the submitted choices, limits and free space; limits
  survive their way through ranges.\<close>

theorem snapshot_settings_come_back:
  assumes laws: "config_laws s conf" and clean: "clean_config (conf w)" and free: "clean_field (ss_free n)"
    and shown: "fst (get_configuration s w) = Inr old"
  shows "fst (get_configuration s (snd (update_configuration s old (form_values n) w))) = Inr (shown_values n)"
proof -
  let ?flag = "uv_apt_flag (sn_machine s)"
  have old: "configuration_of (?flag w) (conf w) = Inr old"
    using shown get_configuration_reads[of s conf, OF laws clean] by simp
  obtain f c where f: "map_of (conf w) ''FREE_LIMIT'' = Some f" and o: "map_of old ''enable_software_snapshots'' = Some (boolean_choice c)"
    by (rule configuration_shape[OF old]) simp
  let ?kvs = "sent_settings (f \<noteq> ss_free n) n"
  obtain config where config: "r_map (make_config old (form_values n)) setting_stamps = Inr config"
    "concat (map (case_option [] (\<lambda>c. [c])) config) = map (\<lambda>(k, v). k @ ''='' @ v) ?kvs"
    using made_settings[OF old, of n] f by auto
  obtain w1 where 1: "sn_set_apt_flag s (if ss_apt n then ''no'' else ''yes'') w = (Inr (), w1)"
    "?flag w1 = Some (if ss_apt n then ''no'' else ''yes'')" "conf w1 = conf w"
    using laws unfolding config_laws_def Let_def by meson
  have ok: "\<forall>(k, v) \<in> set ?kvs. clean_field k \<and> clean_field v \<and> CHR ''='' \<notin> set k" by (rule sent_clean[OF free])
  then have "\<forall>(k, v) \<in> set ?kvs. CHR ''='' \<notin> set k" by auto
  then obtain out w2 where 2: "sh (sn_sys s) ([''snapper'', ''set-config''] @ map (\<lambda>(k, v). k @ ''='' @ v) ?kvs) w1 = (Inr (0, out), w2)"
    "conf w2 = fold (\<lambda>(k, v) d. od_set d k v) ?kvs (conf w1)" "?flag w2 = ?flag w1"
    using laws unfolding config_laws_def Let_def by meson
  obtain w3 where 3: "sn_message s ''success'' ''Configuration updated.'' w2 = (Inr (), w3)" "?flag w3 = ?flag w2" "conf w3 = conf w2"
    using laws unfolding config_laws_def Let_def by meson
  have new: "map_of (form_values n) ''enable_software_snapshots'' = Some (Text (yes_no (ss_apt n)))" by (simp add: form_values_def)
  have arg: "(if Text (yes_no (ss_apt n)) = Text ''yes'' then ''no'' else ''yes'') = (if ss_apt n then ''no'' else ''yes'')"
    by (simp add: yes_no_def)
  have send: "snapper_set_config s (concat (map (case_option [] (\<lambda>c. [c])) config)) w1 = (Inr (), w2)"
    unfolding config(2) by (simp add: snapper_set_config_def run_ok_def run_command_def p_bind_def p_ret_def 2(1)[simplified])
  have "update_configuration s old (form_values n) w = (Inr (), w3)"
    unfolding update_configuration_def od_get_def o new option.case p_bind_def p_lift_def sum.case prod.case p_then_def
      same_choice if_False arg 1(1) p_catch_def config(1) send 3(1) by simp
  moreover have "clean_config (conf w3)"
    using clean_config_fold[OF clean] ok 1(3) 2(2) 3(3) by (simp add: case_prod_beta')
  ultimately show ?thesis
    using get_configuration_reads[of s conf, OF laws, of w3] stored_settings[OF f, of n] 1 2 3 by simp
qed


section \<open>A machine with both laws\<close>

record snapshot_box =
  bx_snaps :: "snapshot list"
  bx_conf :: "(string, string) odict"
  bx_flag :: "string option"

definition bx_row :: "string list \<Rightarrow> string" where
  "bx_row fs = join_str ''|'' (map (\<lambda>f. '' '' @ f @ '' '') fs)"

definition bx_table :: "string list list \<Rightarrow> string" where
  "bx_table rows = unlines (''Columns'' # ''-------'' # map bx_row rows)"

definition bx_works :: "string \<Rightarrow> bool" where
  "bx_works n \<longleftrightarrow> n \<noteq> ''5''"

definition bx_sh :: "string list \<Rightarrow> (snapshot_box, nat \<times> string) prog" where
  "bx_sh c w =
     (if c = [''snapper'', ''list''] then (Inr (0, bx_table (map snapshot_row (bx_snaps w))), w)
      else if c = [''snapper'', ''get-config''] then (Inr (0, bx_table (map (\<lambda>(k, v). [k, v]) (bx_conf w))), w)
      else if take 2 c = [''snapper'', ''delete'']
      then if bx_works (c ! 2) then (Inr (0, []), w\<lparr>bx_snaps := filter (\<lambda>st. st_number st \<noteq> c ! 2) (bx_snaps w)\<rparr>)
           else (Inr (1, []), w)
      else (Inr (0, []), w\<lparr>bx_conf := fold (\<lambda>(k, v) d. od_set d k v) (map partition_eq (drop 2 c)) (bx_conf w)\<rparr>))"

definition bx_machine :: "snapshot_box upgrades_env" where
  "bx_machine =
     (let system = \<lparr>sh = bx_sh, path_exists = \<lambda>_ _. False, touch_file = \<lambda>_ w. w, unlink_file = \<lambda>_ w. w, which = \<lambda>_ _. True\<rparr>;
          files = \<lparr>fl_exists = \<lambda>_ _. False, fl_is_file = \<lambda>_ _. False, fl_is_dir = \<lambda>_ _. False, fl_resolve = \<lambda>p _. p,
            fl_list = \<lambda>_. p_ret [], fl_read = \<lambda>_. p_ret [], fl_write = \<lambda>_ _. p_ret (), fl_unlink = \<lambda>_. p_ret (),
            fl_make_dirs = \<lambda>_. p_ret (), fl_make_dir = \<lambda>_. p_ret (), fl_remove_tree = \<lambda>_. p_ret (),
            fl_chmod = \<lambda>_ _. p_ret (), fl_chown = \<lambda>_ _ _. p_ret (), fl_move = \<lambda>_ _. p_ret (), fl_umask = \<lambda>n. p_ret n,
            lk_is_link = \<lambda>_ _. False, lk_readlink = \<lambda>_. p_ret [], lk_symlink = \<lambda>_ _. p_ret (), lk_copyfile = \<lambda>_ _. p_ret ()\<rparr>
      in \<lparr>uv_web = \<lparr>we_daemon = \<lparr>de_sys = system, de_apps = [], de_daemons = [], de_related = [], de_containers = [],
                     de_connections = \<lambda>_. p_ret [], de_netcat = \<lambda>_ _ _. p_ret 0\<rparr>,
                   we_curl = \<lambda>_ _. p_ret (0, []), we_files = files, we_webservers = [], we_roots = [], we_str = \<lambda>_. []\<rparr>,
          uv_files = files.truncate files, uv_notify = \<lparr>ne_get = \<lambda>_. [], ne_put = \<lambda>_ w. w, ne_now = \<lambda>_. 0, ne_str = \<lambda>_. []\<rparr>,
          uv_distributions = \<lambda>_. [], uv_save_new = \<lambda>_. p_ret (), uv_source_dists = \<lambda>_. [], uv_input = \<lambda>_ _. p_ret (0, []),
          uv_spawn = \<lambda>_. p_ret (), uv_filesystem = p_ret ''btrfs'', uv_root_inode = \<lambda>_. 256, uv_apt_flag = bx_flag,
          uv_tor_transport = p_ret False, uv_now = \<lambda>_. midnight 2025 8 1, uv_local_hour = \<lambda>_. 6, uv_version = ''25.9'', uv_develop = False\<rparr>)"

definition bx_env :: "snapshot_box snapshot_env" where
  "bx_env =
     \<lparr>sn_machine = bx_machine, sn_fstab = \<lambda>_. [], sn_save_fstab = \<lambda>_. p_ret (),
      sn_set_apt_flag = \<lambda>v. p_mod (\<lambda>w. w\<lparr>bx_flag := Some v\<rparr>), sn_daemon_pid = p_ret 1, sn_kill = \<lambda>_. p_ret (),
      sn_message = \<lambda>_ _. p_ret (), sn_message_error = \<lambda>_ _. p_ret (), sn_stderr = \<lambda>_. []\<rparr>"

lemma bx_prints: "\<forall>fs \<in> set rows. fs \<noteq> [] \<Longrightarrow> prints_table rows (bx_table rows)"
proof -
  have "padded f ('' '' @ f @ '' '')" for f
    unfolding padded_def by (intro exI[of _ 1]) simp
  then have "prints_row fs (bx_row fs)" for fs
    unfolding prints_row_def bx_row_def by (intro exI[of _ "map (\<lambda>f. '' '' @ f @ '' '') fs"]) (simp add: list_all2_conv_all_nth)
  then show ?thesis
    unfolding prints_table_def bx_table_def
    by (intro exI[of _ "''Columns''"] exI[of _ "''-------''"] exI[of _ "map bx_row rows"]) (simp add: list_all2_conv_all_nth)
qed

lemma bx_snapper_laws: "snapper_laws bx_env bx_snaps bx_works"
proof -
  have "sn_sys bx_env = \<lparr>sh = bx_sh, path_exists = \<lambda>_ _. False, touch_file = \<lambda>_ w. w, unlink_file = \<lambda>_ w. w, which = \<lambda>_ _. True\<rparr>"
    by (simp add: bx_env_def bx_machine_def Let_def)
  then show ?thesis
    using bx_prints[of "map snapshot_row _"]
    by (simp add: snapper_laws_def bx_sh_def bx_env_def p_ret_def snapshot_row_def)
qed

lemma partition_joined: "CHR ''='' \<notin> set k \<Longrightarrow> partition_eq (k @ ''='' @ v) = (k, v)"
proof -
  assume "CHR ''='' \<notin> set k"
  then have "takeWhile (\<lambda>c. c \<noteq> CHR ''='') (k @ ''='' @ v) = k" "dropWhile (\<lambda>c. c \<noteq> CHR ''='') (k @ ''='' @ v) = ''='' @ v"
    by (induction k) auto
  then show ?thesis by (simp only: partition_eq_def) simp
qed

lemma bx_config_laws: "config_laws bx_env bx_conf"
proof -
  have sys: "sn_sys bx_env = \<lparr>sh = bx_sh, path_exists = \<lambda>_ _. False, touch_file = \<lambda>_ w. w, unlink_file = \<lambda>_ w. w, which = \<lambda>_ _. True\<rparr>"
    and flag: "uv_apt_flag (sn_machine bx_env) = bx_flag"
    by (simp_all add: bx_env_def bx_machine_def Let_def)
  have "map partition_eq (map (\<lambda>(k, v). k @ ''='' @ v) kvs) = kvs" if "\<forall>(k, v) \<in> set kvs. CHR ''='' \<notin> set k" for kvs
    using that by (intro map_idI[THEN trans[OF map_map]]) (auto simp: partition_joined simp del: append.simps)
  moreover have "prints_table (map (\<lambda>(k, v). [k, v]) c) (bx_table (map (\<lambda>(k, v). [k, v]) c))" for c
    by (rule bx_prints) auto
  ultimately show ?thesis
    by (simp add: config_laws_def Let_def sys flag bx_sh_def) (simp add: bx_env_def p_mod_def p_ret_def)
qed

definition bx_start :: snapshot_box where
  "bx_start =
     \<lparr>bx_snaps = map (\<lambda>(n, d, a). \<lparr>st_number = n, st_is_default = d, st_is_active = a,
          st_rest = zip rest_keys [''single'', [], ''Mon'', ''root'', ''timeline'', ''timeline'']\<rparr>)
        [(''0'', False, False), (''3'', False, False), (''4'', True, False), (''5'', False, False), (''6'', False, True), (''7'', False, False)],
      bx_conf = [(''FREE_LIMIT'', ''0.2''), (''TIMELINE_CREATE'', ''no''), (''TIMELINE_LIMIT_HOURLY'', ''10''),
        (''TIMELINE_LIMIT_DAILY'', ''0-3''), (''TIMELINE_LIMIT_WEEKLY'', ''2-2''), (''TIMELINE_LIMIT_MONTHLY'', ''0-2''),
        (''TIMELINE_LIMIT_YEARLY'', ''0-0'')],
      bx_flag = None\<rparr>"

theorem deletion_spares_running_witness:
  "map st_number (bx_snaps (snd (delete_selected bx_env True [''0'', ''3'', ''4'', ''5'', ''6'', ''7''] bx_start))) =
     [''0'', ''3'', ''4'', ''5'', ''6'']"
proof -
  have clean: "\<forall>st \<in> set (bx_snaps bx_start). snapshot_clean st" and one: "distinct (map st_number (bx_snaps bx_start))"
    by code_simp+
  have "map st_number (filter (\<lambda>st. st_number st \<notin> set (takeWhile bx_works (removable [''0'', ''3'', ''4'', ''5'', ''6'', ''7''] (bx_snaps bx_start))))
      (bx_snaps bx_start)) = [''0'', ''3'', ''4'', ''5'', ''6'']" by code_simp
  then show ?thesis
    using deletion_spares_running[OF bx_snapper_laws clean one, of "[''0'', ''3'', ''4'', ''5'', ''6'', ''7'']"] by simp
qed

theorem snapshot_settings_come_back_witness:
  "\<exists>old. fst (get_configuration bx_env bx_start) = Inr old \<and>
     fst (get_configuration bx_env (snd (update_configuration bx_env old (form_values
       \<lparr>ss_timeline = True, ss_apt = False, ss_hourly = 12, ss_daily = 0, ss_weekly = 2, ss_monthly = 1, ss_yearly = 0, ss_free = ''0.5''\<rparr>)
       bx_start))) =
     Inr [(''enable_timeline_snapshots'', Choice ''yes'' ''Enabled''), (''enable_software_snapshots'', Choice ''no'' ''Disabled''),
          (''hourly_limit'', Plain ''12''), (''daily_limit'', Plain ''0''), (''weekly_limit'', Plain ''2''),
          (''monthly_limit'', Plain ''1''), (''yearly_limit'', Plain ''0''), (''free_space'', Plain ''0.5'')]"
proof -
  let ?n = "\<lparr>ss_timeline = True, ss_apt = False, ss_hourly = 12, ss_daily = 0, ss_weekly = 2, ss_monthly = 1, ss_yearly = 0, ss_free = ''0.5''\<rparr>"
  have clean: "clean_config (bx_conf bx_start)" and free: "clean_field (ss_free ?n)" by code_simp+
  have "\<exists>old. configuration_of None (bx_conf bx_start) = Inr old" by (simp add: configuration_of_def bx_start_def od_get_def max_from_range_def)
  then obtain old where "configuration_of None (bx_conf bx_start) = Inr old" ..
  moreover have "uv_apt_flag (sn_machine bx_env) bx_start = None" by (simp add: bx_env_def bx_machine_def Let_def bx_start_def)
  ultimately have shown: "fst (get_configuration bx_env bx_start) = Inr old"
    using get_configuration_reads[of bx_env bx_conf, OF bx_config_laws clean] by simp
  have "shown_values ?n = [(''enable_timeline_snapshots'', Choice ''yes'' ''Enabled''), (''enable_software_snapshots'', Choice ''no'' ''Disabled''),
          (''hourly_limit'', Plain ''12''), (''daily_limit'', Plain ''0''), (''weekly_limit'', Plain ''2''),
          (''monthly_limit'', Plain ''1''), (''yearly_limit'', Plain ''0''), (''free_space'', Plain ''0.5'')]" by code_simp
  then show ?thesis
    using snapshot_settings_come_back[OF bx_config_laws clean free shown] shown by auto
qed

section \<open>Corners\<close>

text \<open>The choices are pairs in the initial values, so an unchanged form still sets them.\<close>

lemma choices_always_differ: "same_value (boolean_choice b) (Text (yes_no b)) = False"
  by (rule same_choice)

text \<open>Without an entry of fstab for the root the unit mounts the device None.\<close>

lemma mount_without_entry: "contains_str ''What=None'' (mount_unit None ''/.snapshots'' ''.snapshots'')"
  by code_simp

end
