(* ===== verification/Spec2Isabelle.thy ===== *)
theory Spec2Isabelle
  imports AppOrder AppLaws Operations System Packages Setup Privileged Notifications Names FirewallChecks LetsEncryptLaws BackupScheduleLaws BackupApiLaws BackupSettings BackupStoreLaws BackupRepositoryLaws BackupHandlers DaemonLaws WebserverLaws UsersLaws UpgradesLaws Dropin Container FirstBootLaws Frontpage Menu AccessLaws ErrorRedirects AppPages ShippedAppsStart ShippedDaemons Loader OidcLaws DynamicdnsLaws DiagnosticsLaws WireguardLaws Sharing SnapshotLaws
begin

text \<open>
  A verification library for FreedomBox (the \<open>plinth\<close> Python package under src/plinth).

  FreedomBox is a web service that installs and configures server apps on Debian. An app is
  a Python object made of components; the framework sets apps up, enables, disables, diagnoses,
  repairs and removes them by calling the same method on every component. Long-running work
  happens in operations, one thread at a time. Whatever needs root runs in a second process
  that accepts requests over a socket. State is kept in a small database: a key/value store,
  the setup version of every app, and the notifications shown to users.

  The parts and where they are:
  \<^item> \<open>Prelude\<close>: exceptions as values (one constructor per class the code raises), results
    \<open>exn + 'a\<close>, programs \<open>'w \<Rightarrow> (exn + 'a) \<times> 'w\<close> that read and change a world and may raise,
    loops over them, Python's ordered dicts as association lists, and string functions.
  \<^item> \<open>Json\<close>: the values that cross JSON, with Python's subscript, \<open>in\<close> and \<open>isinstance\<close>, and the
    access to them by the names of their fields.
  \<^item> \<open>Store\<close> (kvstore.py, models.py): the database. The locale \<open>kv_store\<close> is its contract.
  \<^item> \<open>Clients\<close> (clients.py): validation of client manifests.
  \<^item> \<open>AppModel\<close> and \<open>AppLaws\<close> (app.py): components as data with a method table, apps, setup
    versions and post-initialisation. The locales \<open>component_switch\<close> and \<open>app_contract\<close> say
    what apps need of components; they are interpreted on the followers and the EnableState
    of the code.
  \<^item> \<open>AppOrder\<close> (\<open>_sort_apps\<close>, \<open>_insert_apps\<close>): the dependency order.
  \<^item> \<open>Operations\<close> (operation.py): operation objects in a heap, the manager's dict, and the
    steps of the threads; a thread has a program counter because it changes its state
    outside the manager's lock.
  \<^item> \<open>System\<close> (action_utils.py): which commands run, in which order, and what a failure does.
  \<^item> \<open>Packages\<close> (package.py, privileged/packages.py): package expressions, installing, removing,
    the packages kept at removal and the table of known versions.
  \<^item> \<open>Setup\<close> (setup.py): setup, repair, removal, startup, forced upgrades, rerun after dpkg.
  \<^item> \<open>Privileged\<close> (actions.py, privileged_daemon.py): what may run as superuser.
  \<^item> \<open>Notifications\<close> (notification.py) and \<open>Names\<close> (modules/names/components.py).
  \<^item> \<open>Daemon\<close> and \<open>DaemonLaws\<close> (daemon.py, privileged/service.py): daemons of apps, daemons that
    apps share, and the service calls that root accepts.
  \<^item> \<open>Paths\<close>: pure paths, the text functions of Python that the code uses, Python's naive date-times,
    and the file system with the move of uploaded files (\<open>move_uploaded_file\<close>).
  \<^item> \<open>Firewall\<close>, \<open>FirewallLaws\<close> and \<open>FirewallChecks\<close> (modules/firewall): ports in the zones of
    firewalld, diagnostics, and the rules that protect local services. The locale
    \<open>zone_table\<close> is what the components need of the zones; \<open>running_firewalld\<close> gives it for the D-Bus
    calls, and is interpreted on a table of ports.
  \<^item> \<open>LetsEncrypt\<close> and \<open>LetsEncryptLaws\<close> (modules/letsencrypt): the events of certificates, the
    components that hear of them, and the privileged calls.
  \<^item> Backups (modules/backups): \<open>BackupComponents\<close> (components.py), \<open>BackupApi\<close> with
    \<open>BackupApiLaws\<close> (api.py, the operations around a backup; locale \<open>service_manager\<close>),
    \<open>BackupPrivileged\<close> (privileged.py), \<open>BackupSettings\<close> (the settings in an archive),
    \<open>BackupStore\<close> with \<open>BackupStoreLaws\<close> (store.py, repositories as they are saved),
    \<open>BackupRepository\<close> with \<open>BackupRepositoryLaws\<close> (repository.py and the scheduled run),
    \<open>BackupSchedule\<close> with \<open>BackupScheduleLaws\<close> (schedule.py), and \<open>BackupHandlers\<close>, the handlers
    by which the app connects them (\<open>__init__.py\<close>).
  \<^item> \<open>Webserver\<close> and \<open>WebserverLaws\<close> (modules/apache): the components for configuration files,
    modules, user directories and the root of the web sites, and the privileged calls on them.
  \<^item> \<open>Users\<close> and \<open>UsersLaws\<close> (modules/users): the privileged calls on users and groups, with
    the rule that the last word belongs to an administrator; the locale \<open>user_directory\<close> is
    what they need of the LDAP directory.
  \<^item> \<open>Upgrades\<close> and \<open>UpgradesLaws\<close> (modules/upgrades): when a distribution upgrade is due, and
    the steps of the upgrade itself; the locale \<open>upgrade_machine\<close> is what they need of the
    commands they run.
  \<^item> \<open>Dropin\<close> (config.py, privileged/config.py): the drop-in configuration
    files of an app; the locale \<open>file_tree\<close> is the directory tree under them.
  \<^item> \<open>Container\<close> (container.py, privileged/container.py and the podman
    functions of action_utils.py): apps that run in a container; the locale \<open>unit_file\<close> is the
    description of the container that systemd reads.
  \<^item> \<open>Web\<close>: requests, responses and the state of the web process. \<open>FirstBoot\<close> and \<open>FirstBootLaws\<close>
    (modules/first_boot): the wizard, its secret and its middleware. \<open>Menu\<close> (menu.py and the functions
    on menus in views.py) and \<open>Frontpage\<close> (frontpage.py, modules/api/views.py): the shortcuts and who
    sees them, with the lemmas on both. \<open>Access\<close> and \<open>AccessLaws\<close> (middleware.py): what stands between a
    request and its view. \<open>ErrorRedirects\<close>: where a page that fails sends the browser. \<open>AppPages\<close>
    (views.py): the pages that show, set up and remove an app.
  \<^item> The apps of the repository: \<open>AppDecls\<close> is what an app class declares and \<open>apps_init\<close>,
    \<open>Manifests\<close> the manifests, \<open>ShippedAppsAK\<close> and \<open>ShippedAppsLZ\<close> the components of every app class in
    the order of their modules. \<open>ShippedAppsLaws\<close>, \<open>ShippedAppsChecks\<close> and \<open>ShippedAppsStart\<close> start them
    up; \<open>ShippedDaemons\<close> compares the units that they control.
  \<^item> \<open>Loader\<close> (module_loader.py, cfg.py): the modules that are loaded and the settings.
  \<^item> \<open>Urls\<close>, \<open>Oidc\<close> and \<open>OidcLaws\<close> (modules/oidc): the redirects of a login and the registered clients.
  \<^item> \<open>Dynamicdns\<close> and \<open>DynamicdnsLaws\<close> (modules/dynamicdns): the periodic update of domains.
  \<^item> \<open>Diagnostics\<close> and \<open>DiagnosticsLaws\<close> (modules/diagnostics, diagnostic_check.py): the routine run
    over all apps, its stored results, the notification and the repair.
  \<^item> \<open>Network\<close> (network.py), \<open>Wireguard\<close> and \<open>WireguardLaws\<close> (modules/wireguard): connections of
    NetworkManager, and the server and clients of the VPN over them.
  \<^item> \<open>Sharing\<close> (modules/sharing): the shares in the tree of an Apache configuration file.
  \<^item> \<open>Snapshot\<close> and \<open>SnapshotLaws\<close> (modules/snapshot): snapshots of the file system over snapper, on
    the machine of \<open>Upgrades\<close>, which takes a snapshot before an upgrade.

  What the groups of lemmas show. Of the apps: the order is complete for the apps whose
  dependencies can be met and respects dependencies and essential apps; enabling and disabling
  switch what the app reports. Of operations: mutual exclusion in every reachable state, and
  progress when no call falls between the end of an operation and its callback; such a call
  can lose operations. Of packages: exactly the packages nobody needs are purged, the
  privileged calls refuse packages of other apps, and the wait for the package manager ends.
  Of setup: a version is recorded exactly when the setup succeeded, a regular setup that ends
  has updated every installed app, and the dpkg handler does not trigger itself. Of privileged
  calls: the type and argument checks are equivalent to typing rules and to Python's binding
  of arguments, secrets stay out of the log, and nothing unchecked runs as superuser. Of
  daemons: in every order of enabling and disabling apps, a shared daemon is enabled while an
  enabled app uses it. Of the firewall: the zones refine the abstract view "a port is open when
  an enabled component asks for it", and the diagnosis is exact. Of certificates: every
  component hears of an event whatever the others raise, a renewal is announced once, and the
  privileged copy stays inside its directories. Of backups: services and locks are as before
  after a backup that fails or succeeds, settings and repositories come back as they were saved,
  the clean-up deletes exactly the surplus archives, the failures of each repository are counted
  on their own, and a password is forgotten once a key replaces it. Of the web server: the root
  link follows the domain that is set last. Of users: the members of the admin group change only
  when an administrator proves who he is, or when there is none. Of upgrades: the sources move to
  the next release, everything that was changed for the upgrade is given back however it ends,
  and the notification of a new release is shown once. Of drop-in files: they are present while
  the app is enabled and absent while it is not. Of containers: an update leaves a container
  running, enabled and stopped as it was. Of the web: no page behind the welcome page of the wizard is
  reached without its secret, the wizard completes when its steps are marked in any order, the view of a
  request is called exactly under the listed conditions, the redirections of failing pages end
  at the home page after at most twelve, and what visitors can read of hidden shortcuts. Of the shipped
  apps: whichever of them are enabled, start-up succeeds and keeps exactly those whose
  dependencies are there, one refused manifest stops it, and which units two apps share. Of modules:
  the service and the privileged process import the same files. Of logins: redirects
  stay on registered paths of this machine and follow its domains. Of dynamic DNS: every domain gets a
  status whatever is raised. Of diagnostics: the verdict, the notification and the page after a
  restart. Of WireGuard: clients have their own keys and addresses. Of shares: the file
  refines a list. Of snapshots: deleting takes exactly the removable ones that were selected, and
  settings are shown as they were submitted.

  Bounds. No function needs fuel except the startup loop, which the code runs for ever and
  which here takes a number of rounds and is \<open>None\<close> when they do not suffice. The wait for
  the package manager is a total function because its clock never goes back; the dependency
  order ends because every nested call loses a dict entry; the retried jobs have the code's
  bound of twelve attempts; the redirections of failing pages end because each goes to a page
  that is nearer to the top of the menu.

  Outside the model are programs that are not in the repository: apt, dpkg, systemd, Apache and
  their commands (the parameter \<open>sh\<close> of \<open>System\<close>), firewalld, certbot, borg, sshfs, JSON text,
  gettext and importing modules. Properties that depend on them state their documented behaviour
  as a named hypothesis: \<open>apt_mark_laws\<close>, \<open>service_laws\<close>, \<open>unit_laws\<close>, \<open>service_status_laws\<close> and
  \<open>switch_laws\<close> (commands), \<open>logs_commands\<close> and \<open>env_keeps\<close>, \<open>firewalld_laws\<close>, \<open>details_laws\<close> and
  \<open>direct_laws\<close> (firewalld), \<open>setup_known\<close>, \<open>calls_keep_info\<close> and \<open>status_laws\<close> (certificates and
  the components that hear of them), \<open>json_text\<close>, \<open>store_text\<close> and \<open>settings_host\<close> (text that is
  written and read back), \<open>quiet_calls\<close>, \<open>run_laws\<close> and \<open>notify_laws\<close> (the calls a backup makes),
  \<open>link_laws\<close> (Apache's links), \<open>directory_laws\<close>, \<open>membership_laws\<close> and \<open>name_taken\<close> (the LDAP
  directory), \<open>upgrade_laws\<close> (the commands of an upgrade), \<open>tree_laws\<close> and \<open>places_ok\<close> (the files
  under the drop-in directories), \<open>container_laws\<close> (podman), \<open>menu_ok\<close> and \<open>site_ok\<close> (the menu is a tree
  and its addresses resolve), \<open>listed_as_found\<close> (directory listings), \<open>clients_ok\<close> (the registered
  clients), \<open>dns_calls_ok\<close> (exceptions of the calls of dynamic DNS carry an argument) \<open>wg_env_ok\<close>
  (keys and addresses that libraries make), and \<open>snapper_laws\<close> and \<open>config_laws\<close> (snapper's tables and
  what its commands change). The parameters without a law are Django's \<open>reverse\<close> and
  resolver, the login check of stronghold, \<open>eval\<close> for arguments of components that are computed at start-up,
  the order in which Python gives a set, division and format of floats, and the checks of libnm. Augeas, ldapscripts, Samba, PAM,
  podman and curl are such programs too.

  Not modelled: the rendering of pages and forms, the glue to Django, CherryPy, GLib and D-Bus, the
  vendored converter of wiki pages under doc, and of the apps other than those above what goes beyond
  their declarations and manifests: their privileged calls mostly write the configuration of one
  third-party daemon through its own commands (Tor, Nextcloud, ejabberd, Samba, storage
  and others), whose behaviour is not in the repository. Concurrency is modelled for operations;
  elsewhere the handlers run one after the other. Text is ASCII, and lines end at line feeds.
\<close>

end
